(* ===== verification/Prelude.thy ===== *)
theory Prelude
  imports Main "HOL-Library.Char_ord"
begin

text \<open>
  Shared vocabulary of the development: the error values, the JSON values the
  code stores, decimal rendering, durations in microseconds, and the generic
  facts on tables (lists of rows with an integer key) that every component
  uses.  A table is the list of its rows in insertion order; reading by primary
  key is \<open>row_find\<close>, an UPDATE by primary key is \<open>row_upd\<close>, and the next
  primary key of an autoincrement column is \<open>fresh_id\<close>.
\<close>

named_theorems frame \<open>which tables an operation leaves alone\<close>
named_theorems effect \<open>what an operation does to the table it is about\<close>
named_theorems keeps \<open>preservation of the invariants by the operations\<close>

section \<open>Values\<close>

text \<open>
  JSON values (payloads, log contexts, payment metadata as sent by a provider).
  A text literal of the source that is not ASCII is written \<open>JText name args\<close>:
  its name in this development and the values interpolated into it.
\<close>

datatype json =
    JNull
  | JBool bool
  | JInt int
  | JStr string
  | JText string "json list"
  | JArr "json list"
  | JObj "(string \<times> json) list"

definition json_opt_int :: "int option \<Rightarrow> json" where
  "json_opt_int x = (case x of None \<Rightarrow> JNull | Some i \<Rightarrow> JInt i)"

definition json_opt_str :: "string option \<Rightarrow> json" where
  "json_opt_str x = (case x of None \<Rightarrow> JNull | Some s \<Rightarrow> JStr s)"

definition jfield :: "json \<Rightarrow> string \<Rightarrow> json option" where
  "jfield j k = (case j of JObj kvs \<Rightarrow> map_of kvs k | _ \<Rightarrow> None)"

text \<open>\<open>dict(d, k=v)\<close>: replace in place when the key is there, append otherwise.\<close>

fun jset :: "string \<Rightarrow> json \<Rightarrow> (string \<times> json) list \<Rightarrow> (string \<times> json) list" where
  "jset k v [] = [(k, v)]"
| "jset k v (p # ps) = (if fst p = k then (k, v) # ps else p # jset k v ps)"

lemma map_of_jset: "map_of (jset k v ps) = (map_of ps)(k \<mapsto> v)"
  by (induction ps) auto

section \<open>Text helpers\<close>

definition digit_char :: "nat \<Rightarrow> char" where
  "digit_char n = ''0123456789'' ! n"

fun nat_str :: "nat \<Rightarrow> string" where
  "nat_str n = (if n < 10 then [digit_char n]
                else nat_str (n div 10) @ [digit_char (n mod 10)])"

declare nat_str.simps [simp del]

definition py_str :: "int \<Rightarrow> string" where
  "py_str i = (if i < 0 then ''-'' @ nat_str (nat (- i)) else nat_str (nat i))"

definition opt_str :: "string option \<Rightarrow> string" where
  "opt_str x = (case x of None \<Rightarrow> ''None'' | Some s \<Rightarrow> s)"

definition digit_val :: "char \<Rightarrow> nat option" where
  "digit_val c = (let n = of_char c :: nat in
     if 48 \<le> n \<and> n \<le> 57 then Some (n - 48) else None)"

definition is_digit :: "char \<Rightarrow> bool" where
  "is_digit c = (digit_val c \<noteq> None)"

definition nat_of_str :: "string \<Rightarrow> nat" where
  "nat_of_str s = foldl (\<lambda>n c. n * 10 + the (digit_val c)) 0 s"

lemma digit_val_digit_char: "n < 10 \<Longrightarrow> digit_val (digit_char n) = Some n"
proof -
  assume "n < 10"
  then have "n \<in> {0,1,2,3,4,5,6,7,8,9}" by auto
  then show ?thesis by (auto simp: digit_val_def digit_char_def)
qed

lemma nat_of_str_snoc:
  "nat_of_str (s @ [c]) = nat_of_str s * 10 + the (digit_val c)"
  by (simp add: nat_of_str_def)

lemma nat_of_nat_str: "nat_of_str (nat_str n) = n"
proof (induction n rule: nat_str.induct)
  case (1 n)
  show ?case
  proof (cases "n < 10")
    case True
    then show ?thesis
      by (simp add: nat_str.simps[of n] nat_of_str_def digit_val_digit_char)
  next
    case False
    then show ?thesis
      using 1 by (simp add: nat_str.simps[of n] nat_of_str_snoc digit_val_digit_char)
  qed
qed

lemma nat_str_ne: "nat_str n \<noteq> []"
  by (subst nat_str.simps) simp

lemma nat_str_digits: "list_all is_digit (nat_str n)"
proof (induction n rule: nat_str.induct)
  case (1 n)
  show ?case
    using 1 nat_str.simps[of n] by (cases "n < 10") (simp_all add: is_digit_def digit_val_digit_char)
qed

lemma nat_str_inj: "nat_str m = nat_str n \<Longrightarrow> m = n"
  using nat_of_nat_str by metis

lemma not_digit_minus: "\<not> is_digit (CHR ''-'')"
  by (simp add: is_digit_def digit_val_def)

lemma py_str_inj: "py_str i = py_str j \<Longrightarrow> i = j"
proof -
  have hd_ne: "hd (nat_str n) \<noteq> CHR ''-''" for n
    using nat_str_digits[of n] nat_str_ne[of n] not_digit_minus
    by (cases "nat_str n") auto
  assume eq: "py_str i = py_str j"
  show ?thesis
  proof (cases "i < 0 \<longleftrightarrow> j < 0")
    case True
    then show ?thesis
      using eq by (auto simp: py_str_def dest!: nat_str_inj split: if_splits)
  next
    case False
    then show ?thesis
      using eq hd_ne[of "nat i"] hd_ne[of "nat j"]
      by (auto simp: py_str_def split: if_splits)
         (metis list.sel(1))+
  qed
qed

text \<open>\<open>str.lower\<close> and \<open>str.strip\<close> on ASCII text.\<close>

definition lower_char :: "char \<Rightarrow> char" where
  "lower_char c = (case map_of (zip ''ABCDEFGHIJKLMNOPQRSTUVWXYZ'' ''abcdefghijklmnopqrstuvwxyz'') c
                   of None \<Rightarrow> c | Some c' \<Rightarrow> c')"

definition str_lower :: "string \<Rightarrow> string" where
  "str_lower s = List.map lower_char s"

definition upper_char :: "char \<Rightarrow> char" where
  "upper_char c = (case map_of (zip ''abcdefghijklmnopqrstuvwxyz'' ''ABCDEFGHIJKLMNOPQRSTUVWXYZ'') c
                   of None \<Rightarrow> c | Some c' \<Rightarrow> c')"

definition str_upper :: "string \<Rightarrow> string" where
  "str_upper s = List.map upper_char s"

text \<open>\<open>s.rsplit(c, 1)[-1]\<close> and \<open>needle in s\<close>.\<close>

fun rsplit_last :: "char \<Rightarrow> string \<Rightarrow> string" where
  "rsplit_last c s = rev (takeWhile (\<lambda>x. x \<noteq> c) (rev s))"

definition mentions :: "string \<Rightarrow> string \<Rightarrow> bool" where
  "mentions needle s = list_ex (\<lambda>k. take (length needle) (drop k s) = needle) [0..<Suc (length s)]"

definition is_space :: "char \<Rightarrow> bool" where
  "is_space c = (let n = of_char c :: nat in n = 32 \<or> (9 \<le> n \<and> n \<le> 13) \<or> (28 \<le> n \<and> n \<le> 31))"

definition str_strip :: "string \<Rightarrow> string" where
  "str_strip s = rev (dropWhile is_space (rev (dropWhile is_space s)))"

definition starts_with :: "string \<Rightarrow> string \<Rightarrow> bool" where
  "starts_with p s = (take (length p) s = p)"

text \<open>\<open>int(s)\<close> on ASCII text: blanks around, one sign, digits with single underscores between.\<close>

fun digits_us :: "string \<Rightarrow> bool" where
  "digits_us [] = False"
| "digits_us [c] = is_digit c"
| "digits_us (c # c' # cs) =
     (is_digit c \<and> (if c' = CHR ''_'' then digits_us cs else digits_us (c' # cs)))"

definition py_nat :: "string \<Rightarrow> int option" where
  "py_nat s = (if digits_us s then Some (int (nat_of_str (filter (\<lambda>c. c \<noteq> CHR ''_'') s))) else None)"

definition py_int :: "string \<Rightarrow> int option" where
  "py_int s =
     (case str_strip s of
        [] \<Rightarrow> None
      | c # cs \<Rightarrow> if c = CHR ''-'' then map_option uminus (py_nat cs)
                  else if c = CHR ''+'' then py_nat cs else py_nat (c # cs))"

lemma digits_us_all: "s \<noteq> [] \<Longrightarrow> list_all is_digit s \<Longrightarrow> digits_us s"
  by (induction s rule: digits_us.induct) (auto simp: is_digit_def digit_val_def)

lemma digit_not_special:
  assumes "is_digit c"
  shows "c \<noteq> CHR ''_''" "c \<noteq> CHR ''-''" "c \<noteq> CHR ''+''" "\<not> is_space c"
proof -
  have n: "48 \<le> (of_char c :: nat)" "(of_char c :: nat) \<le> 57"
    using assms by (auto simp: is_digit_def digit_val_def Let_def split: if_splits)
  show "\<not> is_space c" using n by (auto simp: is_space_def Let_def)
  show "c \<noteq> CHR ''_''" "c \<noteq> CHR ''-''" "c \<noteq> CHR ''+''" using n by auto
qed

lemma strip_digits:
  assumes "list_all is_digit s"
  shows "str_strip s = s"
proof -
  have drop: "dropWhile is_space xs = xs" if "list_all is_digit xs" for xs
    using that digit_not_special(4) by (cases xs) auto
  show ?thesis using assms by (simp add: str_strip_def drop list_all_rev)
qed

lemma py_int_nat_str: "py_int (nat_str n) = Some (int n)"
proof -
  have dig: "list_all is_digit (nat_str n)" by (rule nat_str_digits)
  have "filter (\<lambda>c. c \<noteq> CHR ''_'') (nat_str n) = nat_str n"
    using dig digit_not_special(1) by (auto simp: list_all_iff intro: filter_True)
  then have nat: "py_nat (nat_str n) = Some (int n)"
    by (simp add: py_nat_def digits_us_all dig nat_str_ne nat_of_nat_str)
  show ?thesis
    using nat dig digit_not_special(2,3)
    by (cases "nat_str n") (auto simp: py_int_def strip_digits nat_str_ne)
qed

section \<open>Durations (microseconds)\<close>

definition seconds :: "int \<Rightarrow> int" where "seconds n = n * 1000000"
definition minutes :: "int \<Rightarrow> int" where "minutes n = n * 60000000"
definition hours :: "int \<Rightarrow> int" where "hours n = n * 3600000000"
definition days_of :: "int \<Rightarrow> int" where "days_of n = n * 86400000000"

lemma durations_mono [simp]:
  "minutes a \<le> minutes b \<longleftrightarrow> a \<le> b" "hours a \<le> hours b \<longleftrightarrow> a \<le> b"
  "days_of a \<le> days_of b \<longleftrightarrow> a \<le> b" "seconds a \<le> seconds b \<longleftrightarrow> a \<le> b"
  by (simp_all add: minutes_def hours_def days_of_def seconds_def)

lemma days_of_pos [simp]: "0 < days_of n \<longleftrightarrow> 0 < n" "0 \<le> days_of n \<longleftrightarrow> 0 \<le> n"
  by (simp_all add: days_of_def)

section \<open>Tables\<close>

definition row_find :: "('r \<Rightarrow> 'k) \<Rightarrow> 'k \<Rightarrow> 'r list \<Rightarrow> 'r option" where
  "row_find key k rows = List.find (\<lambda>r. key r = k) rows"

definition row_upd :: "('r \<Rightarrow> 'k) \<Rightarrow> 'k \<Rightarrow> ('r \<Rightarrow> 'r) \<Rightarrow> 'r list \<Rightarrow> 'r list" where
  "row_upd key k f rows = List.map (\<lambda>r. if key r = k then f r else r) rows"

definition fresh_id :: "('r \<Rightarrow> int) \<Rightarrow> 'r list \<Rightarrow> int" where
  "fresh_id key rows = 1 + fold max (List.map key rows) 0"

lemma fold_max_ge: "(a::int) \<le> fold max xs a"
proof (induction xs arbitrary: a)
  case (Cons x xs)
  have "max x a \<le> fold max xs (max x a)" by (rule Cons.IH)
  then show ?case by simp
qed simp

lemma fold_max_mem: "(x::int) \<in> set xs \<Longrightarrow> x \<le> fold max xs a"
proof (induction xs arbitrary: a)
  case (Cons y xs)
  then show ?case using fold_max_ge[of "max y a" xs] by auto
qed simp

lemma fresh_id_gt: "r \<in> set rows \<Longrightarrow> key r < fresh_id key rows"
  using fold_max_mem[of "key r" "List.map key rows" 0] by (simp add: fresh_id_def)

lemma fresh_id_pos: "0 < fresh_id key rows"
  using fold_max_ge[of 0 "List.map key rows"] by (simp add: fresh_id_def)

lemma fresh_id_notin: "fresh_id key rows \<notin> key ` set rows"
proof
  assume "fresh_id key rows \<in> key ` set rows"
  then obtain r where "r \<in> set rows" "fresh_id key rows = key r" by auto
  then show False using fresh_id_gt[of r rows key] by simp
qed

lemma row_find_SomeD: "row_find key k rows = Some r \<Longrightarrow> r \<in> set rows \<and> key r = k"
  by (auto simp: row_find_def find_Some_iff)

lemma row_find_None: "row_find key k rows = None \<longleftrightarrow> k \<notin> key ` set rows"
  by (auto simp: row_find_def find_None_iff)

lemma row_find_Cons:
  "row_find key k (r # rows) = (if key r = k then Some r else row_find key k rows)"
  by (simp add: row_find_def)

lemma row_find_Nil [simp]: "row_find key k [] = None"
  by (simp add: row_find_def)

lemma row_find_append:
  "row_find key k (rs @ rs') =
     (case row_find key k rs of Some r \<Rightarrow> Some r | None \<Rightarrow> row_find key k rs')"
  by (induction rs) (auto simp: row_find_Cons)

lemma row_find_fresh:
  "key r = fresh_id key rows \<Longrightarrow>
     row_find key k (rows @ [r]) = (if k = key r then Some r else row_find key k rows)"
proof -
  assume k: "key r = fresh_id key rows"
  have none: "row_find key (fresh_id key rows) rows = None"
    by (simp add: row_find_None fresh_id_notin)
  show ?thesis
    using k none by (auto simp: row_find_append row_find_Cons split: option.splits)
qed

lemma row_find_upd_same:
  assumes "\<And>r. key r = k \<Longrightarrow> key (f r) = k"
  shows "row_find key k (row_upd key k f rows) = map_option f (row_find key k rows)"
  using assms by (induction rows) (auto simp: row_find_Cons row_upd_def)

lemma row_find_upd_other:
  assumes "k' \<noteq> k" "\<And>r. key r = k \<Longrightarrow> key (f r) = k"
  shows "row_find key k' (row_upd key k f rows) = row_find key k' rows"
  using assms by (induction rows) (auto simp: row_find_Cons row_upd_def)

lemma row_upd_keys:
  assumes "\<And>r. key r = k \<Longrightarrow> key (f r) = k"
  shows "List.map key (row_upd key k f rows) = List.map key rows"
  using assms by (auto simp: row_upd_def)

lemma row_upd_absent: "k \<notin> key ` set rows \<Longrightarrow> row_upd key k f rows = rows"
  by (auto simp: row_upd_def intro!: map_idI)

lemma row_upd_id: "(\<And>r. key r = k \<Longrightarrow> f r = r) \<Longrightarrow> row_upd key k f rows = rows"
  by (auto simp: row_upd_def intro!: map_idI)

lemma row_find_distinct:
  assumes "distinct (List.map key rows)" "r \<in> set rows"
  shows "row_find key (key r) rows = Some r"
  using assms
proof (induction rows)
  case (Cons x xs)
  then show ?case by (cases "x = r") (auto simp: row_find_Cons rev_image_eqI)
qed simp

lemma in_row_upd:
  "r \<in> set (row_upd key k f rows) \<longleftrightarrow>
     (\<exists>r0\<in>set rows. r = (if key r0 = k then f r0 else r0))"
  by (simp only: row_upd_def set_map image_iff)

lemma map_row_upd:
  assumes "\<And>r. key r = k \<Longrightarrow> g (f r) = g r"
  shows "List.map g (row_upd key k f rows) = List.map g rows"
  using assms by (auto simp: row_upd_def)

lemma row_upd_twice:
  assumes "\<And>r. key r = k \<Longrightarrow> key (g r) = k"
  shows "row_upd key k f (row_upd key k g rows) = row_upd key k (f \<circ> g) rows"
  using assms by (auto simp: row_upd_def)

text \<open>The sum of an amount over the rows that satisfy a condition.\<close>

definition sum_where :: "('r \<Rightarrow> bool) \<Rightarrow> ('r \<Rightarrow> int) \<Rightarrow> 'r list \<Rightarrow> int" where
  "sum_where P amt rows = sum_list (List.map amt (filter P rows))"

lemma sum_where_Nil [simp]: "sum_where P amt [] = 0"
  by (simp add: sum_where_def)

lemma sum_where_append [simp]:
  "sum_where P amt (rs @ [r]) = sum_where P amt rs + (if P r then amt r else 0)"
  by (simp add: sum_where_def)

lemma sum_where_none: "(\<And>r. r \<in> set rows \<Longrightarrow> \<not> P r) \<Longrightarrow> sum_where P amt rows = 0"
proof -
  assume "\<And>r. r \<in> set rows \<Longrightarrow> \<not> P r"
  then have "filter P rows = []" by (simp add: filter_empty_conv)
  then show ?thesis by (simp add: sum_where_def)
qed

definition count_where :: "('r \<Rightarrow> bool) \<Rightarrow> 'r list \<Rightarrow> int" where
  "count_where P rows = int (length (filter P rows))"

lemma count_where_Nil [simp]: "count_where P [] = 0"
  by (simp add: count_where_def)

lemma count_where_append [simp]:
  "count_where P (rs @ [r]) = count_where P rs + (if P r then 1 else 0)"
  by (simp add: count_where_def)

lemma count_where_nonneg [simp]: "0 \<le> count_where P rows"
  by (simp add: count_where_def)

lemma count_where_Cons:
  "count_where P (x # xs) = (if P x then 1 else 0) + count_where P xs"
  by (simp add: count_where_def)

lemma row_upd_Cons:
  "row_upd key k f (x # xs) = (if key x = k then f x else x) # row_upd key k f xs"
  by (simp add: row_upd_def)

lemma count_where_upd:
  assumes "distinct (List.map key rows)" "row_find key k rows = Some r"
  shows "count_where P (row_upd key k f rows)
         = count_where P rows - (if P r then 1 else 0) + (if P (f r) then 1 else 0)"
  using assms
proof (induction rows)
  case (Cons x xs)
  show ?case
  proof (cases "key x = k")
    case True
    then have "k \<notin> key ` set xs" using Cons.prems(1) by auto
    from row_upd_absent[OF this, of f] show ?thesis
      using Cons.prems(2) True by (simp add: row_find_Cons row_upd_Cons count_where_Cons)
  next
    case False
    then have "count_where P (row_upd key k f xs)
         = count_where P xs - (if P r then 1 else 0) + (if P (f r) then 1 else 0)"
      using Cons by (simp add: row_find_Cons)
    then show ?thesis using False by (simp add: row_upd_Cons count_where_Cons)
  qed
qed simp

lemma count_where_cong:
  "(\<And>r. r \<in> set rows \<Longrightarrow> P r = Q r) \<Longrightarrow> count_where P rows = count_where Q rows"
  by (simp add: count_where_def cong: filter_cong)

lemma sum_where_const:
  "(\<And>r. r \<in> set rows \<Longrightarrow> P r \<Longrightarrow> amt r = c) \<Longrightarrow> sum_where P amt rows = c * count_where P rows"
  by (induction rows) (auto simp: sum_where_def count_where_def algebra_simps)

text \<open>
  The interface of a table, as the components use it: reading by key after an
  UPDATE of one row and after an INSERT.
\<close>

locale row_table =
  fixes get :: "'d \<Rightarrow> int \<Rightarrow> 'r option"
    and upd :: "int \<Rightarrow> ('r \<Rightarrow> 'r) \<Rightarrow> 'd \<Rightarrow> 'd"
    and ins :: "'r \<Rightarrow> 'd \<Rightarrow> 'd"
    and key :: "'r \<Rightarrow> int"
    and nxt :: "'d \<Rightarrow> int"
  assumes get_key: "get d k = Some r \<Longrightarrow> key r = k"
    and get_upd_same: "(\<And>r. key (f r) = key r) \<Longrightarrow> get (upd k f d) k = map_option f (get d k)"
    and get_upd_other: "(\<And>r. key (f r) = key r) \<Longrightarrow> k' \<noteq> k \<Longrightarrow> get (upd k f d) k' = get d k'"
    and get_nxt: "get d (nxt d) = None"
    and get_ins: "key r = nxt d \<Longrightarrow> get (ins r d) k = (if k = nxt d then Some r else get d k)"
begin

lemma get_upd:
  assumes "\<And>r. key (f r) = key r"
  shows "get (upd k f d) k' = (if k' = k then map_option f (get d k) else get d k')"
  using assms get_upd_same get_upd_other by auto

lemma get_upd_twice:
  assumes "\<And>r. key (f r) = key r" "\<And>r. key (g r) = key r"
  shows "get (upd k g (upd k f d)) k' = get (upd k (g \<circ> f) d) k'"
  using assms by (simp add: get_upd option.map_comp)

lemma get_ins_old:
  assumes "key r = nxt d" "get d k = Some x"
  shows "get (ins r d) k = Some x"
  using assms get_nxt[of d] by (auto simp: get_ins)

end

end
