(* ===== verification/Schema.thy ===== *)
theory Schema
  imports Prelude
begin

text \<open>
  The database of the service: one record per ORM model of
  \<open>src/backend/app/db/models\<close> (a field per column, nullable columns as options,
  timestamps as integers counting microseconds), the closed sets of string
  constants as datatypes, and the whole database as the record \<open>db\<close> with one list of rows
  per table.  The operations are the reads and writes the repositories and the
  services issue: SELECT by key, INSERT, and UPDATE of one row.  An UPDATE on a
  table with \<open>TimestampMixin\<close> moves \<open>updated_at\<close> exactly when a column changes
  (\<open>onupdate=func.now()\<close>).
\<close>

section \<open>Column values\<close>

datatype payment_status = PayPending | PayPaid | PayFailed | PayExpired | PayRefunded

datatype payment_purpose = PurSubscription | PurTopup | PurExtend | PurOther string

datatype sub_status = SubPending | SubActive | SubExpired | SubDeactivated | SubSuspended
  | SubFailed | SubFailedProvider

datatype promo_type = PromoBalance | PromoDiscount | PromoOther string

datatype bt_reason = BtTopup | BtPurchase | BtReferralBonus | BtPromoBonus | BtRefund
  | BtAdminAdjust | BtOther string

datatype outbox_status = ObPending | ObDispatching | ObSent | ObFailed

datatype ticket_kind = TkSupport | TkIdea

datatype ticket_status = TkOpen | TkClosed

datatype closed_by = ByUser | ByAdmin

datatype notif_kind = NkExpiry3d | NkExpiry1d | NkExpired | NkTrialExpiring24h

datatype bc_status = BcDraft | BcScheduled | BcSending | BcDone | BcCancelled

datatype bc_target = BcAll | BcSubscribers

datatype rcpt_status = RcPending | RcSent | RcFailed

fun payment_status_str :: "payment_status \<Rightarrow> string" where
  "payment_status_str PayPending = ''pending''"
| "payment_status_str PayPaid = ''paid''"
| "payment_status_str PayFailed = ''failed''"
| "payment_status_str PayExpired = ''expired''"
| "payment_status_str PayRefunded = ''refunded''"

fun sub_status_str :: "sub_status \<Rightarrow> string" where
  "sub_status_str SubPending = ''pending''"
| "sub_status_str SubActive = ''active''"
| "sub_status_str SubExpired = ''expired''"
| "sub_status_str SubDeactivated = ''deactivated''"
| "sub_status_str SubSuspended = ''suspended''"
| "sub_status_str SubFailed = ''failed''"
| "sub_status_str SubFailedProvider = ''failed_provider''"

fun purpose_str :: "payment_purpose \<Rightarrow> string" where
  "purpose_str PurSubscription = ''subscription''"
| "purpose_str PurTopup = ''topup''"
| "purpose_str PurExtend = ''extend_subscription''"
| "purpose_str (PurOther s) = s"

text \<open>The documented constants \<open>SUB_STATUSES\<close> of \<open>subscription.py\<close>.\<close>

definition sub_statuses :: "string list" where
  "sub_statuses = [''pending'', ''active'', ''expired'', ''deactivated'', ''suspended'', ''failed'']"

section \<open>Rows\<close>

record user_row =
  u_id :: int
  u_tg_id :: int
  u_username :: "string option"
  u_first_name :: "string option"
  u_last_name :: "string option"
  u_language_code :: "string option"
  u_balance :: int
  u_is_banned :: bool
  u_banned_reason :: "string option"
  u_ref_id :: "int option"
  u_created_at :: int
  u_updated_at :: int

record tariff_row =
  t_id :: int
  t_code :: string
  t_name :: string
  t_description_html :: "string option"
  t_devices :: int
  t_sort_order :: int
  t_is_active :: bool
  t_is_free_trial :: bool
  t_free_trial_days :: "int option"
  t_lte_gb :: int
  t_traffic_gb :: "int option"
  t_unlimited :: bool

record duration_row =
  td_id :: int
  td_tariff_id :: int
  td_days :: int
  td_price :: int
  td_is_hot :: bool
  td_is_active :: bool

record sub_row =
  s_id :: int
  s_user_id :: int
  s_tariff_id :: int
  s_duration_id :: "int option"
  s_provider_id :: "string option"
  s_key_url :: "string option"
  s_devices :: int
  s_days :: int
  s_status :: sub_status
  s_started_at :: "int option"
  s_expires_at :: "int option"
  s_deactivated_at :: "int option"
  s_deactivation_reason :: "string option"
  s_is_free_trial :: bool
  s_created_at :: int
  s_updated_at :: int

record payment_row =
  p_id :: int
  p_user_id :: int
  p_sub_id :: "int option"
  p_purpose :: payment_purpose
  p_provider :: string
  p_external_id :: "string option"
  p_amount :: int
  p_currency :: string
  p_status :: payment_status
  p_meta :: "(string \<times> json) list option"
  p_paid_at :: "int option"
  p_created_at :: int
  p_updated_at :: int

record bt_row =
  bt_id :: int
  bt_user_id :: int
  bt_amount :: int
  bt_reason :: bt_reason
  bt_ref_payment_id :: "int option"
  bt_ref_sub_id :: "int option"
  bt_description :: "string option"
  bt_balance_after :: int
  bt_created_at :: int

record promo_row =
  pc_id :: int
  pc_code :: string
  pc_type :: promo_type
  pc_value :: int
  pc_max_total :: "int option"
  pc_max_per_user :: int
  pc_current :: int
  pc_valid_from :: "int option"
  pc_valid_until :: "int option"
  pc_is_active :: bool
  pc_created_at :: int
  pc_created_by :: "string option"
  pc_description :: "string option"
  pc_user_id :: "int option"

record promo_act_row =
  pa_id :: int
  pa_promo_id :: int
  pa_user_id :: int
  pa_payment_id :: "int option"
  pa_amount :: int
  pa_created_at :: int

record ref_row =
  rf_id :: int
  rf_referrer_id :: int
  rf_referee_id :: int
  rf_bonus_paid :: bool
  rf_bonus_paid_at :: "int option"
  rf_first_purchase_id :: "int option"
  rf_trial_bonus_issued_at :: "int option"
  rf_created_at :: int

record outbox_row =
  ob_id :: int
  ob_user_id :: int
  ob_chat_id :: int
  ob_message_type :: string
  ob_payload :: "(string \<times> json) list"
  ob_status :: outbox_status
  ob_attempts :: int
  ob_last_error :: "string option"
  ob_send_after :: int
  ob_sent_at :: "int option"
  ob_created_at :: int

record notif_row =
  ns_id :: int
  ns_user_id :: int
  ns_sub_id :: int
  ns_kind :: notif_kind
  ns_sent_at :: int

record ticket_row =
  tk_id :: int
  tk_code :: string
  tk_user_id :: int
  tk_kind :: ticket_kind
  tk_status :: ticket_status
  tk_closed_by :: "closed_by option"
  tk_closed_at :: "int option"
  tk_thread_id :: "int option"
  tk_created_at :: int
  tk_updated_at :: int

record ticket_msg_row =
  tm_id :: int
  tm_ticket_id :: int
  tm_direction :: string
  tm_message_type :: string
  tm_text :: "string option"
  tm_photo_file_id :: "string option"
  tm_sticker_file_id :: "string option"
  tm_tg_message_id :: "int option"
  tm_created_at :: int

record topic_row =
  st_user_id :: int
  st_thread_id :: int
  st_name :: "string option"
  st_created_at :: int
  st_updated_at :: int

record idem_row =
  ik_key :: string
  ik_operation :: string
  ik_response :: "json option"
  ik_created_at :: int

record admin_key_row =
  ak_id :: int
  ak_key_hash :: string
  ak_label :: string
  ak_created_at :: int
  ak_revoked_at :: "int option"
  ak_valid_until :: "int option"

record log_row =
  lg_id :: int
  lg_level :: int
  lg_event :: string
  lg_module :: string
  lg_user_id :: "int option"
  lg_message :: string
  lg_context :: "(string \<times> json) list option"
  lg_created_at :: int

record tech_log_row =
  tl_id :: int
  tl_trace_id :: string
  tl_service :: string
  tl_action :: string
  tl_user_id :: "int option"
  tl_payload :: "(string \<times> json) list option"
  tl_duration_ms :: "int option"
  tl_created_at :: int

record broadcast_row =
  bc_id :: int
  bc_html_text :: string
  bc_photo_file_id :: "string option"
  bc_photo_path :: "string option"
  bc_buttons :: "json option"
  bc_buttons_per_row :: int
  bc_target :: bc_target
  bc_scheduled_at :: "int option"
  bc_status :: bc_status
  bc_recipients_total :: int
  bc_sent :: int
  bc_failed :: int
  bc_created_at :: int
  bc_created_by_id :: "int option"
  bc_created_by_label :: "string option"
  bc_started_at :: "int option"
  bc_finished_at :: "int option"

record text_row =
  tx_id :: int
  tx_key :: string
  tx_value_html :: string
  tx_description :: "string option"
  tx_media_file_id :: "string option"
  tx_media_kind :: "string option"
  tx_kind :: string
  tx_icon_custom_emoji_id :: "string option"
  tx_url :: "string option"
  tx_updated_at :: int
  tx_updated_by :: "string option"

record rcpt_row =
  rc_id :: int
  rc_broadcast_id :: int
  rc_user_id :: int
  rc_status :: rcpt_status
  rc_error :: "string option"
  rc_sent_at :: "int option"
  rc_created_at :: int

section \<open>The database\<close>

record db =
  db_users :: "user_row list"
  db_tariffs :: "tariff_row list"
  db_durations :: "duration_row list"
  db_subs :: "sub_row list"
  db_payments :: "payment_row list"
  db_bts :: "bt_row list"
  db_promos :: "promo_row list"
  db_promo_acts :: "promo_act_row list"
  db_refs :: "ref_row list"
  db_outbox :: "outbox_row list"
  db_notifs :: "notif_row list"
  db_tickets :: "ticket_row list"
  db_ticket_msgs :: "ticket_msg_row list"
  db_topics :: "topic_row list"
  db_idem_keys :: "idem_row list"
  db_admin_keys :: "admin_key_row list"
  db_logs :: "log_row list"
  db_tech_logs :: "tech_log_row list"
  db_broadcasts :: "broadcast_row list"
  db_texts :: "text_row list"
  db_rcpts :: "rcpt_row list"

definition empty_db :: db where
  "empty_db = \<lparr>db_users = [], db_tariffs = [], db_durations = [], db_subs = [], db_payments = [], db_bts = [], db_promos = [], db_promo_acts = [], db_refs = [], db_outbox = [], db_notifs = [], db_tickets = [], db_ticket_msgs = [], db_topics = [], db_idem_keys = [], db_admin_keys = [], db_logs = [], db_tech_logs = [], db_broadcasts = [], db_texts = [], db_rcpts = []\<rparr>"

section \<open>Reading, inserting and updating\<close>

text \<open>Mutating a row with \<open>TimestampMixin\<close>: \<open>updated_at\<close> moves when a column changed.\<close>

definition get_user :: "db \<Rightarrow> int \<Rightarrow> user_row option" where
  "get_user d k = row_find u_id k (db_users d)"

definition touch_user :: "int \<Rightarrow> (user_row \<Rightarrow> user_row) \<Rightarrow> user_row \<Rightarrow> user_row" where
  "touch_user now f r = (if f r = r then r else (f r)\<lparr>u_updated_at := now\<rparr>)"

definition mod_user :: "int \<Rightarrow> int \<Rightarrow> (user_row \<Rightarrow> user_row) \<Rightarrow> db \<Rightarrow> db" where
  "mod_user now k f d = d\<lparr>db_users := row_upd u_id k (touch_user now f) (db_users d)\<rparr>"

definition get_tariff :: "db \<Rightarrow> int \<Rightarrow> tariff_row option" where
  "get_tariff d k = row_find t_id k (db_tariffs d)"

definition mod_tariff :: "int \<Rightarrow> (tariff_row \<Rightarrow> tariff_row) \<Rightarrow> db \<Rightarrow> db" where
  "mod_tariff k f d = d\<lparr>db_tariffs := row_upd t_id k f (db_tariffs d)\<rparr>"

definition get_duration :: "db \<Rightarrow> int \<Rightarrow> duration_row option" where
  "get_duration d k = row_find td_id k (db_durations d)"

definition mod_duration :: "int \<Rightarrow> (duration_row \<Rightarrow> duration_row) \<Rightarrow> db \<Rightarrow> db" where
  "mod_duration k f d = d\<lparr>db_durations := row_upd td_id k f (db_durations d)\<rparr>"

definition get_sub :: "db \<Rightarrow> int \<Rightarrow> sub_row option" where
  "get_sub d k = row_find s_id k (db_subs d)"

definition touch_sub :: "int \<Rightarrow> (sub_row \<Rightarrow> sub_row) \<Rightarrow> sub_row \<Rightarrow> sub_row" where
  "touch_sub now f r = (if f r = r then r else (f r)\<lparr>s_updated_at := now\<rparr>)"

definition mod_sub :: "int \<Rightarrow> int \<Rightarrow> (sub_row \<Rightarrow> sub_row) \<Rightarrow> db \<Rightarrow> db" where
  "mod_sub now k f d = d\<lparr>db_subs := row_upd s_id k (touch_sub now f) (db_subs d)\<rparr>"

definition get_payment :: "db \<Rightarrow> int \<Rightarrow> payment_row option" where
  "get_payment d k = row_find p_id k (db_payments d)"

definition touch_payment :: "int \<Rightarrow> (payment_row \<Rightarrow> payment_row) \<Rightarrow> payment_row \<Rightarrow> payment_row" where
  "touch_payment now f r = (if f r = r then r else (f r)\<lparr>p_updated_at := now\<rparr>)"

definition mod_payment :: "int \<Rightarrow> int \<Rightarrow> (payment_row \<Rightarrow> payment_row) \<Rightarrow> db \<Rightarrow> db" where
  "mod_payment now k f d = d\<lparr>db_payments := row_upd p_id k (touch_payment now f) (db_payments d)\<rparr>"

definition get_promo :: "db \<Rightarrow> int \<Rightarrow> promo_row option" where
  "get_promo d k = row_find pc_id k (db_promos d)"

definition mod_promo :: "int \<Rightarrow> (promo_row \<Rightarrow> promo_row) \<Rightarrow> db \<Rightarrow> db" where
  "mod_promo k f d = d\<lparr>db_promos := row_upd pc_id k f (db_promos d)\<rparr>"

definition get_ref :: "db \<Rightarrow> int \<Rightarrow> ref_row option" where
  "get_ref d k = row_find rf_id k (db_refs d)"

definition mod_ref :: "int \<Rightarrow> (ref_row \<Rightarrow> ref_row) \<Rightarrow> db \<Rightarrow> db" where
  "mod_ref k f d = d\<lparr>db_refs := row_upd rf_id k f (db_refs d)\<rparr>"

definition get_outbox :: "db \<Rightarrow> int \<Rightarrow> outbox_row option" where
  "get_outbox d k = row_find ob_id k (db_outbox d)"

definition mod_outbox :: "int \<Rightarrow> (outbox_row \<Rightarrow> outbox_row) \<Rightarrow> db \<Rightarrow> db" where
  "mod_outbox k f d = d\<lparr>db_outbox := row_upd ob_id k f (db_outbox d)\<rparr>"

definition get_ticket :: "db \<Rightarrow> int \<Rightarrow> ticket_row option" where
  "get_ticket d k = row_find tk_id k (db_tickets d)"

definition touch_ticket :: "int \<Rightarrow> (ticket_row \<Rightarrow> ticket_row) \<Rightarrow> ticket_row \<Rightarrow> ticket_row" where
  "touch_ticket now f r = (if f r = r then r else (f r)\<lparr>tk_updated_at := now\<rparr>)"

definition mod_ticket :: "int \<Rightarrow> int \<Rightarrow> (ticket_row \<Rightarrow> ticket_row) \<Rightarrow> db \<Rightarrow> db" where
  "mod_ticket now k f d = d\<lparr>db_tickets := row_upd tk_id k (touch_ticket now f) (db_tickets d)\<rparr>"

definition get_admin_key :: "db \<Rightarrow> int \<Rightarrow> admin_key_row option" where
  "get_admin_key d k = row_find ak_id k (db_admin_keys d)"

definition mod_admin_key :: "int \<Rightarrow> (admin_key_row \<Rightarrow> admin_key_row) \<Rightarrow> db \<Rightarrow> db" where
  "mod_admin_key k f d = d\<lparr>db_admin_keys := row_upd ak_id k f (db_admin_keys d)\<rparr>"

definition get_broadcast :: "db \<Rightarrow> int \<Rightarrow> broadcast_row option" where
  "get_broadcast d k = row_find bc_id k (db_broadcasts d)"

definition mod_broadcast :: "int \<Rightarrow> (broadcast_row \<Rightarrow> broadcast_row) \<Rightarrow> db \<Rightarrow> db" where
  "mod_broadcast k f d = d\<lparr>db_broadcasts := row_upd bc_id k f (db_broadcasts d)\<rparr>"

definition get_rcpt :: "db \<Rightarrow> int \<Rightarrow> rcpt_row option" where
  "get_rcpt d k = row_find rc_id k (db_rcpts d)"

definition mod_rcpt :: "int \<Rightarrow> (rcpt_row \<Rightarrow> rcpt_row) \<Rightarrow> db \<Rightarrow> db" where
  "mod_rcpt k f d = d\<lparr>db_rcpts := row_upd rc_id k f (db_rcpts d)\<rparr>"

definition get_text :: "db \<Rightarrow> int \<Rightarrow> text_row option" where
  "get_text d k = row_find tx_id k (db_texts d)"

definition touch_text :: "int \<Rightarrow> (text_row \<Rightarrow> text_row) \<Rightarrow> text_row \<Rightarrow> text_row" where
  "touch_text now f r = (if f r = r then r else (f r)\<lparr>tx_updated_at := now\<rparr>)"

definition mod_text :: "int \<Rightarrow> int \<Rightarrow> (text_row \<Rightarrow> text_row) \<Rightarrow> db \<Rightarrow> db" where
  "mod_text now k f d = d\<lparr>db_texts := row_upd tx_id k (touch_text now f) (db_texts d)\<rparr>"

definition get_topic :: "db \<Rightarrow> int \<Rightarrow> topic_row option" where
  "get_topic d k = row_find st_user_id k (db_topics d)"

definition touch_topic :: "int \<Rightarrow> (topic_row \<Rightarrow> topic_row) \<Rightarrow> topic_row \<Rightarrow> topic_row" where
  "touch_topic now f r = (if f r = r then r else (f r)\<lparr>st_updated_at := now\<rparr>)"

definition mod_topic :: "int \<Rightarrow> int \<Rightarrow> (topic_row \<Rightarrow> topic_row) \<Rightarrow> db \<Rightarrow> db" where
  "mod_topic now k f d = d\<lparr>db_topics := row_upd st_user_id k (touch_topic now f) (db_topics d)\<rparr>"

definition ins_user :: "user_row \<Rightarrow> db \<Rightarrow> db" where
  "ins_user r d = d\<lparr>db_users := db_users d @ [r]\<rparr>"

definition next_user :: "db \<Rightarrow> int" where
  "next_user d = fresh_id u_id (db_users d)"

definition ins_tariff :: "tariff_row \<Rightarrow> db \<Rightarrow> db" where
  "ins_tariff r d = d\<lparr>db_tariffs := db_tariffs d @ [r]\<rparr>"

definition next_tariff :: "db \<Rightarrow> int" where
  "next_tariff d = fresh_id t_id (db_tariffs d)"

definition ins_duration :: "duration_row \<Rightarrow> db \<Rightarrow> db" where
  "ins_duration r d = d\<lparr>db_durations := db_durations d @ [r]\<rparr>"

definition next_duration :: "db \<Rightarrow> int" where
  "next_duration d = fresh_id td_id (db_durations d)"

definition ins_sub :: "sub_row \<Rightarrow> db \<Rightarrow> db" where
  "ins_sub r d = d\<lparr>db_subs := db_subs d @ [r]\<rparr>"

definition next_sub :: "db \<Rightarrow> int" where
  "next_sub d = fresh_id s_id (db_subs d)"

definition ins_payment :: "payment_row \<Rightarrow> db \<Rightarrow> db" where
  "ins_payment r d = d\<lparr>db_payments := db_payments d @ [r]\<rparr>"

definition next_payment :: "db \<Rightarrow> int" where
  "next_payment d = fresh_id p_id (db_payments d)"

definition ins_promo :: "promo_row \<Rightarrow> db \<Rightarrow> db" where
  "ins_promo r d = d\<lparr>db_promos := db_promos d @ [r]\<rparr>"

definition next_promo :: "db \<Rightarrow> int" where
  "next_promo d = fresh_id pc_id (db_promos d)"

definition ins_ref :: "ref_row \<Rightarrow> db \<Rightarrow> db" where
  "ins_ref r d = d\<lparr>db_refs := db_refs d @ [r]\<rparr>"

definition next_ref :: "db \<Rightarrow> int" where
  "next_ref d = fresh_id rf_id (db_refs d)"

definition ins_outbox :: "outbox_row \<Rightarrow> db \<Rightarrow> db" where
  "ins_outbox r d = d\<lparr>db_outbox := db_outbox d @ [r]\<rparr>"

definition next_outbox :: "db \<Rightarrow> int" where
  "next_outbox d = fresh_id ob_id (db_outbox d)"

definition ins_ticket :: "ticket_row \<Rightarrow> db \<Rightarrow> db" where
  "ins_ticket r d = d\<lparr>db_tickets := db_tickets d @ [r]\<rparr>"

definition next_ticket :: "db \<Rightarrow> int" where
  "next_ticket d = fresh_id tk_id (db_tickets d)"

definition ins_admin_key :: "admin_key_row \<Rightarrow> db \<Rightarrow> db" where
  "ins_admin_key r d = d\<lparr>db_admin_keys := db_admin_keys d @ [r]\<rparr>"

definition next_admin_key :: "db \<Rightarrow> int" where
  "next_admin_key d = fresh_id ak_id (db_admin_keys d)"

definition ins_broadcast :: "broadcast_row \<Rightarrow> db \<Rightarrow> db" where
  "ins_broadcast r d = d\<lparr>db_broadcasts := db_broadcasts d @ [r]\<rparr>"

definition next_broadcast :: "db \<Rightarrow> int" where
  "next_broadcast d = fresh_id bc_id (db_broadcasts d)"

definition ins_rcpt :: "rcpt_row \<Rightarrow> db \<Rightarrow> db" where
  "ins_rcpt r d = d\<lparr>db_rcpts := db_rcpts d @ [r]\<rparr>"

definition next_rcpt :: "db \<Rightarrow> int" where
  "next_rcpt d = fresh_id rc_id (db_rcpts d)"

definition ins_text :: "text_row \<Rightarrow> db \<Rightarrow> db" where
  "ins_text r d = d\<lparr>db_texts := db_texts d @ [r]\<rparr>"

definition next_text :: "db \<Rightarrow> int" where
  "next_text d = fresh_id tx_id (db_texts d)"

definition ins_topic :: "topic_row \<Rightarrow> db \<Rightarrow> db" where
  "ins_topic r d = d\<lparr>db_topics := db_topics d @ [r]\<rparr>"

definition ins_bt :: "bt_row \<Rightarrow> db \<Rightarrow> db" where
  "ins_bt r d = d\<lparr>db_bts := db_bts d @ [r]\<rparr>"

definition next_bt :: "db \<Rightarrow> int" where
  "next_bt d = fresh_id bt_id (db_bts d)"

definition ins_promo_act :: "promo_act_row \<Rightarrow> db \<Rightarrow> db" where
  "ins_promo_act r d = d\<lparr>db_promo_acts := db_promo_acts d @ [r]\<rparr>"

definition next_promo_act :: "db \<Rightarrow> int" where
  "next_promo_act d = fresh_id pa_id (db_promo_acts d)"

definition ins_notif :: "notif_row \<Rightarrow> db \<Rightarrow> db" where
  "ins_notif r d = d\<lparr>db_notifs := db_notifs d @ [r]\<rparr>"

definition next_notif :: "db \<Rightarrow> int" where
  "next_notif d = fresh_id ns_id (db_notifs d)"

definition ins_ticket_msg :: "ticket_msg_row \<Rightarrow> db \<Rightarrow> db" where
  "ins_ticket_msg r d = d\<lparr>db_ticket_msgs := db_ticket_msgs d @ [r]\<rparr>"

definition next_ticket_msg :: "db \<Rightarrow> int" where
  "next_ticket_msg d = fresh_id tm_id (db_ticket_msgs d)"

definition ins_log :: "log_row \<Rightarrow> db \<Rightarrow> db" where
  "ins_log r d = d\<lparr>db_logs := db_logs d @ [r]\<rparr>"

definition next_log :: "db \<Rightarrow> int" where
  "next_log d = fresh_id lg_id (db_logs d)"

definition ins_tech_log :: "tech_log_row \<Rightarrow> db \<Rightarrow> db" where
  "ins_tech_log r d = d\<lparr>db_tech_logs := db_tech_logs d @ [r]\<rparr>"

definition next_tech_log :: "db \<Rightarrow> int" where
  "next_tech_log d = fresh_id tl_id (db_tech_logs d)"

section \<open>Frame and effect of the table operations\<close>

lemma mod_user_frame [simp, frame]:
  "db_tariffs (mod_user now k f d) = db_tariffs d"
  "db_durations (mod_user now k f d) = db_durations d"
  "db_subs (mod_user now k f d) = db_subs d"
  "db_payments (mod_user now k f d) = db_payments d"
  "db_bts (mod_user now k f d) = db_bts d"
  "db_promos (mod_user now k f d) = db_promos d"
  "db_promo_acts (mod_user now k f d) = db_promo_acts d"
  "db_refs (mod_user now k f d) = db_refs d"
  "db_outbox (mod_user now k f d) = db_outbox d"
  "db_notifs (mod_user now k f d) = db_notifs d"
  "db_tickets (mod_user now k f d) = db_tickets d"
  "db_ticket_msgs (mod_user now k f d) = db_ticket_msgs d"
  "db_topics (mod_user now k f d) = db_topics d"
  "db_idem_keys (mod_user now k f d) = db_idem_keys d"
  "db_admin_keys (mod_user now k f d) = db_admin_keys d"
  "db_logs (mod_user now k f d) = db_logs d"
  "db_tech_logs (mod_user now k f d) = db_tech_logs d"
  "db_broadcasts (mod_user now k f d) = db_broadcasts d"
  "db_texts (mod_user now k f d) = db_texts d"
  "db_rcpts (mod_user now k f d) = db_rcpts d"
  by (simp_all add: mod_user_def)

lemma mod_tariff_frame [simp, frame]:
  "db_users (mod_tariff k f d) = db_users d"
  "db_durations (mod_tariff k f d) = db_durations d"
  "db_subs (mod_tariff k f d) = db_subs d"
  "db_payments (mod_tariff k f d) = db_payments d"
  "db_bts (mod_tariff k f d) = db_bts d"
  "db_promos (mod_tariff k f d) = db_promos d"
  "db_promo_acts (mod_tariff k f d) = db_promo_acts d"
  "db_refs (mod_tariff k f d) = db_refs d"
  "db_outbox (mod_tariff k f d) = db_outbox d"
  "db_notifs (mod_tariff k f d) = db_notifs d"
  "db_tickets (mod_tariff k f d) = db_tickets d"
  "db_ticket_msgs (mod_tariff k f d) = db_ticket_msgs d"
  "db_topics (mod_tariff k f d) = db_topics d"
  "db_idem_keys (mod_tariff k f d) = db_idem_keys d"
  "db_admin_keys (mod_tariff k f d) = db_admin_keys d"
  "db_logs (mod_tariff k f d) = db_logs d"
  "db_tech_logs (mod_tariff k f d) = db_tech_logs d"
  "db_broadcasts (mod_tariff k f d) = db_broadcasts d"
  "db_texts (mod_tariff k f d) = db_texts d"
  "db_rcpts (mod_tariff k f d) = db_rcpts d"
  by (simp_all add: mod_tariff_def)

lemma mod_duration_frame [simp, frame]:
  "db_users (mod_duration k f d) = db_users d"
  "db_tariffs (mod_duration k f d) = db_tariffs d"
  "db_subs (mod_duration k f d) = db_subs d"
  "db_payments (mod_duration k f d) = db_payments d"
  "db_bts (mod_duration k f d) = db_bts d"
  "db_promos (mod_duration k f d) = db_promos d"
  "db_promo_acts (mod_duration k f d) = db_promo_acts d"
  "db_refs (mod_duration k f d) = db_refs d"
  "db_outbox (mod_duration k f d) = db_outbox d"
  "db_notifs (mod_duration k f d) = db_notifs d"
  "db_tickets (mod_duration k f d) = db_tickets d"
  "db_ticket_msgs (mod_duration k f d) = db_ticket_msgs d"
  "db_topics (mod_duration k f d) = db_topics d"
  "db_idem_keys (mod_duration k f d) = db_idem_keys d"
  "db_admin_keys (mod_duration k f d) = db_admin_keys d"
  "db_logs (mod_duration k f d) = db_logs d"
  "db_tech_logs (mod_duration k f d) = db_tech_logs d"
  "db_broadcasts (mod_duration k f d) = db_broadcasts d"
  "db_texts (mod_duration k f d) = db_texts d"
  "db_rcpts (mod_duration k f d) = db_rcpts d"
  by (simp_all add: mod_duration_def)

lemma mod_sub_frame [simp, frame]:
  "db_users (mod_sub now k f d) = db_users d"
  "db_tariffs (mod_sub now k f d) = db_tariffs d"
  "db_durations (mod_sub now k f d) = db_durations d"
  "db_payments (mod_sub now k f d) = db_payments d"
  "db_bts (mod_sub now k f d) = db_bts d"
  "db_promos (mod_sub now k f d) = db_promos d"
  "db_promo_acts (mod_sub now k f d) = db_promo_acts d"
  "db_refs (mod_sub now k f d) = db_refs d"
  "db_outbox (mod_sub now k f d) = db_outbox d"
  "db_notifs (mod_sub now k f d) = db_notifs d"
  "db_tickets (mod_sub now k f d) = db_tickets d"
  "db_ticket_msgs (mod_sub now k f d) = db_ticket_msgs d"
  "db_topics (mod_sub now k f d) = db_topics d"
  "db_idem_keys (mod_sub now k f d) = db_idem_keys d"
  "db_admin_keys (mod_sub now k f d) = db_admin_keys d"
  "db_logs (mod_sub now k f d) = db_logs d"
  "db_tech_logs (mod_sub now k f d) = db_tech_logs d"
  "db_broadcasts (mod_sub now k f d) = db_broadcasts d"
  "db_texts (mod_sub now k f d) = db_texts d"
  "db_rcpts (mod_sub now k f d) = db_rcpts d"
  by (simp_all add: mod_sub_def)

lemma mod_payment_frame [simp, frame]:
  "db_users (mod_payment now k f d) = db_users d"
  "db_tariffs (mod_payment now k f d) = db_tariffs d"
  "db_durations (mod_payment now k f d) = db_durations d"
  "db_subs (mod_payment now k f d) = db_subs d"
  "db_bts (mod_payment now k f d) = db_bts d"
  "db_promos (mod_payment now k f d) = db_promos d"
  "db_promo_acts (mod_payment now k f d) = db_promo_acts d"
  "db_refs (mod_payment now k f d) = db_refs d"
  "db_outbox (mod_payment now k f d) = db_outbox d"
  "db_notifs (mod_payment now k f d) = db_notifs d"
  "db_tickets (mod_payment now k f d) = db_tickets d"
  "db_ticket_msgs (mod_payment now k f d) = db_ticket_msgs d"
  "db_topics (mod_payment now k f d) = db_topics d"
  "db_idem_keys (mod_payment now k f d) = db_idem_keys d"
  "db_admin_keys (mod_payment now k f d) = db_admin_keys d"
  "db_logs (mod_payment now k f d) = db_logs d"
  "db_tech_logs (mod_payment now k f d) = db_tech_logs d"
  "db_broadcasts (mod_payment now k f d) = db_broadcasts d"
  "db_texts (mod_payment now k f d) = db_texts d"
  "db_rcpts (mod_payment now k f d) = db_rcpts d"
  by (simp_all add: mod_payment_def)

lemma mod_promo_frame [simp, frame]:
  "db_users (mod_promo k f d) = db_users d"
  "db_tariffs (mod_promo k f d) = db_tariffs d"
  "db_durations (mod_promo k f d) = db_durations d"
  "db_subs (mod_promo k f d) = db_subs d"
  "db_payments (mod_promo k f d) = db_payments d"
  "db_bts (mod_promo k f d) = db_bts d"
  "db_promo_acts (mod_promo k f d) = db_promo_acts d"
  "db_refs (mod_promo k f d) = db_refs d"
  "db_outbox (mod_promo k f d) = db_outbox d"
  "db_notifs (mod_promo k f d) = db_notifs d"
  "db_tickets (mod_promo k f d) = db_tickets d"
  "db_ticket_msgs (mod_promo k f d) = db_ticket_msgs d"
  "db_topics (mod_promo k f d) = db_topics d"
  "db_idem_keys (mod_promo k f d) = db_idem_keys d"
  "db_admin_keys (mod_promo k f d) = db_admin_keys d"
  "db_logs (mod_promo k f d) = db_logs d"
  "db_tech_logs (mod_promo k f d) = db_tech_logs d"
  "db_broadcasts (mod_promo k f d) = db_broadcasts d"
  "db_texts (mod_promo k f d) = db_texts d"
  "db_rcpts (mod_promo k f d) = db_rcpts d"
  by (simp_all add: mod_promo_def)

lemma mod_ref_frame [simp, frame]:
  "db_users (mod_ref k f d) = db_users d"
  "db_tariffs (mod_ref k f d) = db_tariffs d"
  "db_durations (mod_ref k f d) = db_durations d"
  "db_subs (mod_ref k f d) = db_subs d"
  "db_payments (mod_ref k f d) = db_payments d"
  "db_bts (mod_ref k f d) = db_bts d"
  "db_promos (mod_ref k f d) = db_promos d"
  "db_promo_acts (mod_ref k f d) = db_promo_acts d"
  "db_outbox (mod_ref k f d) = db_outbox d"
  "db_notifs (mod_ref k f d) = db_notifs d"
  "db_tickets (mod_ref k f d) = db_tickets d"
  "db_ticket_msgs (mod_ref k f d) = db_ticket_msgs d"
  "db_topics (mod_ref k f d) = db_topics d"
  "db_idem_keys (mod_ref k f d) = db_idem_keys d"
  "db_admin_keys (mod_ref k f d) = db_admin_keys d"
  "db_logs (mod_ref k f d) = db_logs d"
  "db_tech_logs (mod_ref k f d) = db_tech_logs d"
  "db_broadcasts (mod_ref k f d) = db_broadcasts d"
  "db_texts (mod_ref k f d) = db_texts d"
  "db_rcpts (mod_ref k f d) = db_rcpts d"
  by (simp_all add: mod_ref_def)

lemma mod_outbox_frame [simp, frame]:
  "db_users (mod_outbox k f d) = db_users d"
  "db_tariffs (mod_outbox k f d) = db_tariffs d"
  "db_durations (mod_outbox k f d) = db_durations d"
  "db_subs (mod_outbox k f d) = db_subs d"
  "db_payments (mod_outbox k f d) = db_payments d"
  "db_bts (mod_outbox k f d) = db_bts d"
  "db_promos (mod_outbox k f d) = db_promos d"
  "db_promo_acts (mod_outbox k f d) = db_promo_acts d"
  "db_refs (mod_outbox k f d) = db_refs d"
  "db_notifs (mod_outbox k f d) = db_notifs d"
  "db_tickets (mod_outbox k f d) = db_tickets d"
  "db_ticket_msgs (mod_outbox k f d) = db_ticket_msgs d"
  "db_topics (mod_outbox k f d) = db_topics d"
  "db_idem_keys (mod_outbox k f d) = db_idem_keys d"
  "db_admin_keys (mod_outbox k f d) = db_admin_keys d"
  "db_logs (mod_outbox k f d) = db_logs d"
  "db_tech_logs (mod_outbox k f d) = db_tech_logs d"
  "db_broadcasts (mod_outbox k f d) = db_broadcasts d"
  "db_texts (mod_outbox k f d) = db_texts d"
  "db_rcpts (mod_outbox k f d) = db_rcpts d"
  by (simp_all add: mod_outbox_def)

lemma mod_ticket_frame [simp, frame]:
  "db_users (mod_ticket now k f d) = db_users d"
  "db_tariffs (mod_ticket now k f d) = db_tariffs d"
  "db_durations (mod_ticket now k f d) = db_durations d"
  "db_subs (mod_ticket now k f d) = db_subs d"
  "db_payments (mod_ticket now k f d) = db_payments d"
  "db_bts (mod_ticket now k f d) = db_bts d"
  "db_promos (mod_ticket now k f d) = db_promos d"
  "db_promo_acts (mod_ticket now k f d) = db_promo_acts d"
  "db_refs (mod_ticket now k f d) = db_refs d"
  "db_outbox (mod_ticket now k f d) = db_outbox d"
  "db_notifs (mod_ticket now k f d) = db_notifs d"
  "db_ticket_msgs (mod_ticket now k f d) = db_ticket_msgs d"
  "db_topics (mod_ticket now k f d) = db_topics d"
  "db_idem_keys (mod_ticket now k f d) = db_idem_keys d"
  "db_admin_keys (mod_ticket now k f d) = db_admin_keys d"
  "db_logs (mod_ticket now k f d) = db_logs d"
  "db_tech_logs (mod_ticket now k f d) = db_tech_logs d"
  "db_broadcasts (mod_ticket now k f d) = db_broadcasts d"
  "db_texts (mod_ticket now k f d) = db_texts d"
  "db_rcpts (mod_ticket now k f d) = db_rcpts d"
  by (simp_all add: mod_ticket_def)

lemma mod_admin_key_frame [simp, frame]:
  "db_users (mod_admin_key k f d) = db_users d"
  "db_tariffs (mod_admin_key k f d) = db_tariffs d"
  "db_durations (mod_admin_key k f d) = db_durations d"
  "db_subs (mod_admin_key k f d) = db_subs d"
  "db_payments (mod_admin_key k f d) = db_payments d"
  "db_bts (mod_admin_key k f d) = db_bts d"
  "db_promos (mod_admin_key k f d) = db_promos d"
  "db_promo_acts (mod_admin_key k f d) = db_promo_acts d"
  "db_refs (mod_admin_key k f d) = db_refs d"
  "db_outbox (mod_admin_key k f d) = db_outbox d"
  "db_notifs (mod_admin_key k f d) = db_notifs d"
  "db_tickets (mod_admin_key k f d) = db_tickets d"
  "db_ticket_msgs (mod_admin_key k f d) = db_ticket_msgs d"
  "db_topics (mod_admin_key k f d) = db_topics d"
  "db_idem_keys (mod_admin_key k f d) = db_idem_keys d"
  "db_logs (mod_admin_key k f d) = db_logs d"
  "db_tech_logs (mod_admin_key k f d) = db_tech_logs d"
  "db_broadcasts (mod_admin_key k f d) = db_broadcasts d"
  "db_texts (mod_admin_key k f d) = db_texts d"
  "db_rcpts (mod_admin_key k f d) = db_rcpts d"
  by (simp_all add: mod_admin_key_def)

lemma mod_broadcast_frame [simp, frame]:
  "db_users (mod_broadcast k f d) = db_users d"
  "db_tariffs (mod_broadcast k f d) = db_tariffs d"
  "db_durations (mod_broadcast k f d) = db_durations d"
  "db_subs (mod_broadcast k f d) = db_subs d"
  "db_payments (mod_broadcast k f d) = db_payments d"
  "db_bts (mod_broadcast k f d) = db_bts d"
  "db_promos (mod_broadcast k f d) = db_promos d"
  "db_promo_acts (mod_broadcast k f d) = db_promo_acts d"
  "db_refs (mod_broadcast k f d) = db_refs d"
  "db_outbox (mod_broadcast k f d) = db_outbox d"
  "db_notifs (mod_broadcast k f d) = db_notifs d"
  "db_tickets (mod_broadcast k f d) = db_tickets d"
  "db_ticket_msgs (mod_broadcast k f d) = db_ticket_msgs d"
  "db_topics (mod_broadcast k f d) = db_topics d"
  "db_idem_keys (mod_broadcast k f d) = db_idem_keys d"
  "db_admin_keys (mod_broadcast k f d) = db_admin_keys d"
  "db_logs (mod_broadcast k f d) = db_logs d"
  "db_tech_logs (mod_broadcast k f d) = db_tech_logs d"
  "db_texts (mod_broadcast k f d) = db_texts d"
  "db_rcpts (mod_broadcast k f d) = db_rcpts d"
  by (simp_all add: mod_broadcast_def)

lemma mod_rcpt_frame [simp, frame]:
  "db_users (mod_rcpt k f d) = db_users d"
  "db_tariffs (mod_rcpt k f d) = db_tariffs d"
  "db_durations (mod_rcpt k f d) = db_durations d"
  "db_subs (mod_rcpt k f d) = db_subs d"
  "db_payments (mod_rcpt k f d) = db_payments d"
  "db_bts (mod_rcpt k f d) = db_bts d"
  "db_promos (mod_rcpt k f d) = db_promos d"
  "db_promo_acts (mod_rcpt k f d) = db_promo_acts d"
  "db_refs (mod_rcpt k f d) = db_refs d"
  "db_outbox (mod_rcpt k f d) = db_outbox d"
  "db_notifs (mod_rcpt k f d) = db_notifs d"
  "db_tickets (mod_rcpt k f d) = db_tickets d"
  "db_ticket_msgs (mod_rcpt k f d) = db_ticket_msgs d"
  "db_topics (mod_rcpt k f d) = db_topics d"
  "db_idem_keys (mod_rcpt k f d) = db_idem_keys d"
  "db_admin_keys (mod_rcpt k f d) = db_admin_keys d"
  "db_logs (mod_rcpt k f d) = db_logs d"
  "db_tech_logs (mod_rcpt k f d) = db_tech_logs d"
  "db_broadcasts (mod_rcpt k f d) = db_broadcasts d"
  "db_texts (mod_rcpt k f d) = db_texts d"
  by (simp_all add: mod_rcpt_def)

lemma mod_text_frame [simp, frame]:
  "db_users (mod_text now k f d) = db_users d"
  "db_tariffs (mod_text now k f d) = db_tariffs d"
  "db_durations (mod_text now k f d) = db_durations d"
  "db_subs (mod_text now k f d) = db_subs d"
  "db_payments (mod_text now k f d) = db_payments d"
  "db_bts (mod_text now k f d) = db_bts d"
  "db_promos (mod_text now k f d) = db_promos d"
  "db_promo_acts (mod_text now k f d) = db_promo_acts d"
  "db_refs (mod_text now k f d) = db_refs d"
  "db_outbox (mod_text now k f d) = db_outbox d"
  "db_notifs (mod_text now k f d) = db_notifs d"
  "db_tickets (mod_text now k f d) = db_tickets d"
  "db_ticket_msgs (mod_text now k f d) = db_ticket_msgs d"
  "db_topics (mod_text now k f d) = db_topics d"
  "db_idem_keys (mod_text now k f d) = db_idem_keys d"
  "db_admin_keys (mod_text now k f d) = db_admin_keys d"
  "db_logs (mod_text now k f d) = db_logs d"
  "db_tech_logs (mod_text now k f d) = db_tech_logs d"
  "db_broadcasts (mod_text now k f d) = db_broadcasts d"
  "db_rcpts (mod_text now k f d) = db_rcpts d"
  by (simp_all add: mod_text_def)

lemma mod_topic_frame [simp, frame]:
  "db_users (mod_topic now k f d) = db_users d"
  "db_tariffs (mod_topic now k f d) = db_tariffs d"
  "db_durations (mod_topic now k f d) = db_durations d"
  "db_subs (mod_topic now k f d) = db_subs d"
  "db_payments (mod_topic now k f d) = db_payments d"
  "db_bts (mod_topic now k f d) = db_bts d"
  "db_promos (mod_topic now k f d) = db_promos d"
  "db_promo_acts (mod_topic now k f d) = db_promo_acts d"
  "db_refs (mod_topic now k f d) = db_refs d"
  "db_outbox (mod_topic now k f d) = db_outbox d"
  "db_notifs (mod_topic now k f d) = db_notifs d"
  "db_tickets (mod_topic now k f d) = db_tickets d"
  "db_ticket_msgs (mod_topic now k f d) = db_ticket_msgs d"
  "db_idem_keys (mod_topic now k f d) = db_idem_keys d"
  "db_admin_keys (mod_topic now k f d) = db_admin_keys d"
  "db_logs (mod_topic now k f d) = db_logs d"
  "db_tech_logs (mod_topic now k f d) = db_tech_logs d"
  "db_broadcasts (mod_topic now k f d) = db_broadcasts d"
  "db_texts (mod_topic now k f d) = db_texts d"
  "db_rcpts (mod_topic now k f d) = db_rcpts d"
  by (simp_all add: mod_topic_def)

lemma ins_user_frame [simp, frame]:
  "db_tariffs (ins_user r d) = db_tariffs d"
  "db_durations (ins_user r d) = db_durations d"
  "db_subs (ins_user r d) = db_subs d"
  "db_payments (ins_user r d) = db_payments d"
  "db_bts (ins_user r d) = db_bts d"
  "db_promos (ins_user r d) = db_promos d"
  "db_promo_acts (ins_user r d) = db_promo_acts d"
  "db_refs (ins_user r d) = db_refs d"
  "db_outbox (ins_user r d) = db_outbox d"
  "db_notifs (ins_user r d) = db_notifs d"
  "db_tickets (ins_user r d) = db_tickets d"
  "db_ticket_msgs (ins_user r d) = db_ticket_msgs d"
  "db_topics (ins_user r d) = db_topics d"
  "db_idem_keys (ins_user r d) = db_idem_keys d"
  "db_admin_keys (ins_user r d) = db_admin_keys d"
  "db_logs (ins_user r d) = db_logs d"
  "db_tech_logs (ins_user r d) = db_tech_logs d"
  "db_broadcasts (ins_user r d) = db_broadcasts d"
  "db_texts (ins_user r d) = db_texts d"
  "db_rcpts (ins_user r d) = db_rcpts d"
  "db_users (ins_user r d) = db_users d @ [r]"
  by (simp_all add: ins_user_def)

lemma ins_tariff_frame [simp, frame]:
  "db_users (ins_tariff r d) = db_users d"
  "db_durations (ins_tariff r d) = db_durations d"
  "db_subs (ins_tariff r d) = db_subs d"
  "db_payments (ins_tariff r d) = db_payments d"
  "db_bts (ins_tariff r d) = db_bts d"
  "db_promos (ins_tariff r d) = db_promos d"
  "db_promo_acts (ins_tariff r d) = db_promo_acts d"
  "db_refs (ins_tariff r d) = db_refs d"
  "db_outbox (ins_tariff r d) = db_outbox d"
  "db_notifs (ins_tariff r d) = db_notifs d"
  "db_tickets (ins_tariff r d) = db_tickets d"
  "db_ticket_msgs (ins_tariff r d) = db_ticket_msgs d"
  "db_topics (ins_tariff r d) = db_topics d"
  "db_idem_keys (ins_tariff r d) = db_idem_keys d"
  "db_admin_keys (ins_tariff r d) = db_admin_keys d"
  "db_logs (ins_tariff r d) = db_logs d"
  "db_tech_logs (ins_tariff r d) = db_tech_logs d"
  "db_broadcasts (ins_tariff r d) = db_broadcasts d"
  "db_texts (ins_tariff r d) = db_texts d"
  "db_rcpts (ins_tariff r d) = db_rcpts d"
  "db_tariffs (ins_tariff r d) = db_tariffs d @ [r]"
  by (simp_all add: ins_tariff_def)

lemma ins_duration_frame [simp, frame]:
  "db_users (ins_duration r d) = db_users d"
  "db_tariffs (ins_duration r d) = db_tariffs d"
  "db_subs (ins_duration r d) = db_subs d"
  "db_payments (ins_duration r d) = db_payments d"
  "db_bts (ins_duration r d) = db_bts d"
  "db_promos (ins_duration r d) = db_promos d"
  "db_promo_acts (ins_duration r d) = db_promo_acts d"
  "db_refs (ins_duration r d) = db_refs d"
  "db_outbox (ins_duration r d) = db_outbox d"
  "db_notifs (ins_duration r d) = db_notifs d"
  "db_tickets (ins_duration r d) = db_tickets d"
  "db_ticket_msgs (ins_duration r d) = db_ticket_msgs d"
  "db_topics (ins_duration r d) = db_topics d"
  "db_idem_keys (ins_duration r d) = db_idem_keys d"
  "db_admin_keys (ins_duration r d) = db_admin_keys d"
  "db_logs (ins_duration r d) = db_logs d"
  "db_tech_logs (ins_duration r d) = db_tech_logs d"
  "db_broadcasts (ins_duration r d) = db_broadcasts d"
  "db_texts (ins_duration r d) = db_texts d"
  "db_rcpts (ins_duration r d) = db_rcpts d"
  "db_durations (ins_duration r d) = db_durations d @ [r]"
  by (simp_all add: ins_duration_def)

lemma ins_sub_frame [simp, frame]:
  "db_users (ins_sub r d) = db_users d"
  "db_tariffs (ins_sub r d) = db_tariffs d"
  "db_durations (ins_sub r d) = db_durations d"
  "db_payments (ins_sub r d) = db_payments d"
  "db_bts (ins_sub r d) = db_bts d"
  "db_promos (ins_sub r d) = db_promos d"
  "db_promo_acts (ins_sub r d) = db_promo_acts d"
  "db_refs (ins_sub r d) = db_refs d"
  "db_outbox (ins_sub r d) = db_outbox d"
  "db_notifs (ins_sub r d) = db_notifs d"
  "db_tickets (ins_sub r d) = db_tickets d"
  "db_ticket_msgs (ins_sub r d) = db_ticket_msgs d"
  "db_topics (ins_sub r d) = db_topics d"
  "db_idem_keys (ins_sub r d) = db_idem_keys d"
  "db_admin_keys (ins_sub r d) = db_admin_keys d"
  "db_logs (ins_sub r d) = db_logs d"
  "db_tech_logs (ins_sub r d) = db_tech_logs d"
  "db_broadcasts (ins_sub r d) = db_broadcasts d"
  "db_texts (ins_sub r d) = db_texts d"
  "db_rcpts (ins_sub r d) = db_rcpts d"
  "db_subs (ins_sub r d) = db_subs d @ [r]"
  by (simp_all add: ins_sub_def)

lemma ins_payment_frame [simp, frame]:
  "db_users (ins_payment r d) = db_users d"
  "db_tariffs (ins_payment r d) = db_tariffs d"
  "db_durations (ins_payment r d) = db_durations d"
  "db_subs (ins_payment r d) = db_subs d"
  "db_bts (ins_payment r d) = db_bts d"
  "db_promos (ins_payment r d) = db_promos d"
  "db_promo_acts (ins_payment r d) = db_promo_acts d"
  "db_refs (ins_payment r d) = db_refs d"
  "db_outbox (ins_payment r d) = db_outbox d"
  "db_notifs (ins_payment r d) = db_notifs d"
  "db_tickets (ins_payment r d) = db_tickets d"
  "db_ticket_msgs (ins_payment r d) = db_ticket_msgs d"
  "db_topics (ins_payment r d) = db_topics d"
  "db_idem_keys (ins_payment r d) = db_idem_keys d"
  "db_admin_keys (ins_payment r d) = db_admin_keys d"
  "db_logs (ins_payment r d) = db_logs d"
  "db_tech_logs (ins_payment r d) = db_tech_logs d"
  "db_broadcasts (ins_payment r d) = db_broadcasts d"
  "db_texts (ins_payment r d) = db_texts d"
  "db_rcpts (ins_payment r d) = db_rcpts d"
  "db_payments (ins_payment r d) = db_payments d @ [r]"
  by (simp_all add: ins_payment_def)

lemma ins_promo_frame [simp, frame]:
  "db_users (ins_promo r d) = db_users d"
  "db_tariffs (ins_promo r d) = db_tariffs d"
  "db_durations (ins_promo r d) = db_durations d"
  "db_subs (ins_promo r d) = db_subs d"
  "db_payments (ins_promo r d) = db_payments d"
  "db_bts (ins_promo r d) = db_bts d"
  "db_promo_acts (ins_promo r d) = db_promo_acts d"
  "db_refs (ins_promo r d) = db_refs d"
  "db_outbox (ins_promo r d) = db_outbox d"
  "db_notifs (ins_promo r d) = db_notifs d"
  "db_tickets (ins_promo r d) = db_tickets d"
  "db_ticket_msgs (ins_promo r d) = db_ticket_msgs d"
  "db_topics (ins_promo r d) = db_topics d"
  "db_idem_keys (ins_promo r d) = db_idem_keys d"
  "db_admin_keys (ins_promo r d) = db_admin_keys d"
  "db_logs (ins_promo r d) = db_logs d"
  "db_tech_logs (ins_promo r d) = db_tech_logs d"
  "db_broadcasts (ins_promo r d) = db_broadcasts d"
  "db_texts (ins_promo r d) = db_texts d"
  "db_rcpts (ins_promo r d) = db_rcpts d"
  "db_promos (ins_promo r d) = db_promos d @ [r]"
  by (simp_all add: ins_promo_def)

lemma ins_ref_frame [simp, frame]:
  "db_users (ins_ref r d) = db_users d"
  "db_tariffs (ins_ref r d) = db_tariffs d"
  "db_durations (ins_ref r d) = db_durations d"
  "db_subs (ins_ref r d) = db_subs d"
  "db_payments (ins_ref r d) = db_payments d"
  "db_bts (ins_ref r d) = db_bts d"
  "db_promos (ins_ref r d) = db_promos d"
  "db_promo_acts (ins_ref r d) = db_promo_acts d"
  "db_outbox (ins_ref r d) = db_outbox d"
  "db_notifs (ins_ref r d) = db_notifs d"
  "db_tickets (ins_ref r d) = db_tickets d"
  "db_ticket_msgs (ins_ref r d) = db_ticket_msgs d"
  "db_topics (ins_ref r d) = db_topics d"
  "db_idem_keys (ins_ref r d) = db_idem_keys d"
  "db_admin_keys (ins_ref r d) = db_admin_keys d"
  "db_logs (ins_ref r d) = db_logs d"
  "db_tech_logs (ins_ref r d) = db_tech_logs d"
  "db_broadcasts (ins_ref r d) = db_broadcasts d"
  "db_texts (ins_ref r d) = db_texts d"
  "db_rcpts (ins_ref r d) = db_rcpts d"
  "db_refs (ins_ref r d) = db_refs d @ [r]"
  by (simp_all add: ins_ref_def)

lemma ins_outbox_frame [simp, frame]:
  "db_users (ins_outbox r d) = db_users d"
  "db_tariffs (ins_outbox r d) = db_tariffs d"
  "db_durations (ins_outbox r d) = db_durations d"
  "db_subs (ins_outbox r d) = db_subs d"
  "db_payments (ins_outbox r d) = db_payments d"
  "db_bts (ins_outbox r d) = db_bts d"
  "db_promos (ins_outbox r d) = db_promos d"
  "db_promo_acts (ins_outbox r d) = db_promo_acts d"
  "db_refs (ins_outbox r d) = db_refs d"
  "db_notifs (ins_outbox r d) = db_notifs d"
  "db_tickets (ins_outbox r d) = db_tickets d"
  "db_ticket_msgs (ins_outbox r d) = db_ticket_msgs d"
  "db_topics (ins_outbox r d) = db_topics d"
  "db_idem_keys (ins_outbox r d) = db_idem_keys d"
  "db_admin_keys (ins_outbox r d) = db_admin_keys d"
  "db_logs (ins_outbox r d) = db_logs d"
  "db_tech_logs (ins_outbox r d) = db_tech_logs d"
  "db_broadcasts (ins_outbox r d) = db_broadcasts d"
  "db_texts (ins_outbox r d) = db_texts d"
  "db_rcpts (ins_outbox r d) = db_rcpts d"
  "db_outbox (ins_outbox r d) = db_outbox d @ [r]"
  by (simp_all add: ins_outbox_def)

lemma ins_ticket_frame [simp, frame]:
  "db_users (ins_ticket r d) = db_users d"
  "db_tariffs (ins_ticket r d) = db_tariffs d"
  "db_durations (ins_ticket r d) = db_durations d"
  "db_subs (ins_ticket r d) = db_subs d"
  "db_payments (ins_ticket r d) = db_payments d"
  "db_bts (ins_ticket r d) = db_bts d"
  "db_promos (ins_ticket r d) = db_promos d"
  "db_promo_acts (ins_ticket r d) = db_promo_acts d"
  "db_refs (ins_ticket r d) = db_refs d"
  "db_outbox (ins_ticket r d) = db_outbox d"
  "db_notifs (ins_ticket r d) = db_notifs d"
  "db_ticket_msgs (ins_ticket r d) = db_ticket_msgs d"
  "db_topics (ins_ticket r d) = db_topics d"
  "db_idem_keys (ins_ticket r d) = db_idem_keys d"
  "db_admin_keys (ins_ticket r d) = db_admin_keys d"
  "db_logs (ins_ticket r d) = db_logs d"
  "db_tech_logs (ins_ticket r d) = db_tech_logs d"
  "db_broadcasts (ins_ticket r d) = db_broadcasts d"
  "db_texts (ins_ticket r d) = db_texts d"
  "db_rcpts (ins_ticket r d) = db_rcpts d"
  "db_tickets (ins_ticket r d) = db_tickets d @ [r]"
  by (simp_all add: ins_ticket_def)

lemma ins_admin_key_frame [simp, frame]:
  "db_users (ins_admin_key r d) = db_users d"
  "db_tariffs (ins_admin_key r d) = db_tariffs d"
  "db_durations (ins_admin_key r d) = db_durations d"
  "db_subs (ins_admin_key r d) = db_subs d"
  "db_payments (ins_admin_key r d) = db_payments d"
  "db_bts (ins_admin_key r d) = db_bts d"
  "db_promos (ins_admin_key r d) = db_promos d"
  "db_promo_acts (ins_admin_key r d) = db_promo_acts d"
  "db_refs (ins_admin_key r d) = db_refs d"
  "db_outbox (ins_admin_key r d) = db_outbox d"
  "db_notifs (ins_admin_key r d) = db_notifs d"
  "db_tickets (ins_admin_key r d) = db_tickets d"
  "db_ticket_msgs (ins_admin_key r d) = db_ticket_msgs d"
  "db_topics (ins_admin_key r d) = db_topics d"
  "db_idem_keys (ins_admin_key r d) = db_idem_keys d"
  "db_logs (ins_admin_key r d) = db_logs d"
  "db_tech_logs (ins_admin_key r d) = db_tech_logs d"
  "db_broadcasts (ins_admin_key r d) = db_broadcasts d"
  "db_texts (ins_admin_key r d) = db_texts d"
  "db_rcpts (ins_admin_key r d) = db_rcpts d"
  "db_admin_keys (ins_admin_key r d) = db_admin_keys d @ [r]"
  by (simp_all add: ins_admin_key_def)

lemma ins_broadcast_frame [simp, frame]:
  "db_users (ins_broadcast r d) = db_users d"
  "db_tariffs (ins_broadcast r d) = db_tariffs d"
  "db_durations (ins_broadcast r d) = db_durations d"
  "db_subs (ins_broadcast r d) = db_subs d"
  "db_payments (ins_broadcast r d) = db_payments d"
  "db_bts (ins_broadcast r d) = db_bts d"
  "db_promos (ins_broadcast r d) = db_promos d"
  "db_promo_acts (ins_broadcast r d) = db_promo_acts d"
  "db_refs (ins_broadcast r d) = db_refs d"
  "db_outbox (ins_broadcast r d) = db_outbox d"
  "db_notifs (ins_broadcast r d) = db_notifs d"
  "db_tickets (ins_broadcast r d) = db_tickets d"
  "db_ticket_msgs (ins_broadcast r d) = db_ticket_msgs d"
  "db_topics (ins_broadcast r d) = db_topics d"
  "db_idem_keys (ins_broadcast r d) = db_idem_keys d"
  "db_admin_keys (ins_broadcast r d) = db_admin_keys d"
  "db_logs (ins_broadcast r d) = db_logs d"
  "db_tech_logs (ins_broadcast r d) = db_tech_logs d"
  "db_texts (ins_broadcast r d) = db_texts d"
  "db_rcpts (ins_broadcast r d) = db_rcpts d"
  "db_broadcasts (ins_broadcast r d) = db_broadcasts d @ [r]"
  by (simp_all add: ins_broadcast_def)

lemma ins_rcpt_frame [simp, frame]:
  "db_users (ins_rcpt r d) = db_users d"
  "db_tariffs (ins_rcpt r d) = db_tariffs d"
  "db_durations (ins_rcpt r d) = db_durations d"
  "db_subs (ins_rcpt r d) = db_subs d"
  "db_payments (ins_rcpt r d) = db_payments d"
  "db_bts (ins_rcpt r d) = db_bts d"
  "db_promos (ins_rcpt r d) = db_promos d"
  "db_promo_acts (ins_rcpt r d) = db_promo_acts d"
  "db_refs (ins_rcpt r d) = db_refs d"
  "db_outbox (ins_rcpt r d) = db_outbox d"
  "db_notifs (ins_rcpt r d) = db_notifs d"
  "db_tickets (ins_rcpt r d) = db_tickets d"
  "db_ticket_msgs (ins_rcpt r d) = db_ticket_msgs d"
  "db_topics (ins_rcpt r d) = db_topics d"
  "db_idem_keys (ins_rcpt r d) = db_idem_keys d"
  "db_admin_keys (ins_rcpt r d) = db_admin_keys d"
  "db_logs (ins_rcpt r d) = db_logs d"
  "db_tech_logs (ins_rcpt r d) = db_tech_logs d"
  "db_broadcasts (ins_rcpt r d) = db_broadcasts d"
  "db_texts (ins_rcpt r d) = db_texts d"
  "db_rcpts (ins_rcpt r d) = db_rcpts d @ [r]"
  by (simp_all add: ins_rcpt_def)

lemma ins_text_frame [simp, frame]:
  "db_users (ins_text r d) = db_users d"
  "db_tariffs (ins_text r d) = db_tariffs d"
  "db_durations (ins_text r d) = db_durations d"
  "db_subs (ins_text r d) = db_subs d"
  "db_payments (ins_text r d) = db_payments d"
  "db_bts (ins_text r d) = db_bts d"
  "db_promos (ins_text r d) = db_promos d"
  "db_promo_acts (ins_text r d) = db_promo_acts d"
  "db_refs (ins_text r d) = db_refs d"
  "db_outbox (ins_text r d) = db_outbox d"
  "db_notifs (ins_text r d) = db_notifs d"
  "db_tickets (ins_text r d) = db_tickets d"
  "db_ticket_msgs (ins_text r d) = db_ticket_msgs d"
  "db_topics (ins_text r d) = db_topics d"
  "db_idem_keys (ins_text r d) = db_idem_keys d"
  "db_admin_keys (ins_text r d) = db_admin_keys d"
  "db_logs (ins_text r d) = db_logs d"
  "db_tech_logs (ins_text r d) = db_tech_logs d"
  "db_broadcasts (ins_text r d) = db_broadcasts d"
  "db_rcpts (ins_text r d) = db_rcpts d"
  "db_texts (ins_text r d) = db_texts d @ [r]"
  by (simp_all add: ins_text_def)

lemma ins_topic_frame [simp, frame]:
  "db_users (ins_topic r d) = db_users d"
  "db_tariffs (ins_topic r d) = db_tariffs d"
  "db_durations (ins_topic r d) = db_durations d"
  "db_subs (ins_topic r d) = db_subs d"
  "db_payments (ins_topic r d) = db_payments d"
  "db_bts (ins_topic r d) = db_bts d"
  "db_promos (ins_topic r d) = db_promos d"
  "db_promo_acts (ins_topic r d) = db_promo_acts d"
  "db_refs (ins_topic r d) = db_refs d"
  "db_outbox (ins_topic r d) = db_outbox d"
  "db_notifs (ins_topic r d) = db_notifs d"
  "db_tickets (ins_topic r d) = db_tickets d"
  "db_ticket_msgs (ins_topic r d) = db_ticket_msgs d"
  "db_idem_keys (ins_topic r d) = db_idem_keys d"
  "db_admin_keys (ins_topic r d) = db_admin_keys d"
  "db_logs (ins_topic r d) = db_logs d"
  "db_tech_logs (ins_topic r d) = db_tech_logs d"
  "db_broadcasts (ins_topic r d) = db_broadcasts d"
  "db_texts (ins_topic r d) = db_texts d"
  "db_rcpts (ins_topic r d) = db_rcpts d"
  "db_topics (ins_topic r d) = db_topics d @ [r]"
  by (simp_all add: ins_topic_def)

lemma ins_bt_frame [simp, frame]:
  "db_users (ins_bt r d) = db_users d"
  "db_tariffs (ins_bt r d) = db_tariffs d"
  "db_durations (ins_bt r d) = db_durations d"
  "db_subs (ins_bt r d) = db_subs d"
  "db_payments (ins_bt r d) = db_payments d"
  "db_promos (ins_bt r d) = db_promos d"
  "db_promo_acts (ins_bt r d) = db_promo_acts d"
  "db_refs (ins_bt r d) = db_refs d"
  "db_outbox (ins_bt r d) = db_outbox d"
  "db_notifs (ins_bt r d) = db_notifs d"
  "db_tickets (ins_bt r d) = db_tickets d"
  "db_ticket_msgs (ins_bt r d) = db_ticket_msgs d"
  "db_topics (ins_bt r d) = db_topics d"
  "db_idem_keys (ins_bt r d) = db_idem_keys d"
  "db_admin_keys (ins_bt r d) = db_admin_keys d"
  "db_logs (ins_bt r d) = db_logs d"
  "db_tech_logs (ins_bt r d) = db_tech_logs d"
  "db_broadcasts (ins_bt r d) = db_broadcasts d"
  "db_texts (ins_bt r d) = db_texts d"
  "db_rcpts (ins_bt r d) = db_rcpts d"
  "db_bts (ins_bt r d) = db_bts d @ [r]"
  by (simp_all add: ins_bt_def)

lemma ins_promo_act_frame [simp, frame]:
  "db_users (ins_promo_act r d) = db_users d"
  "db_tariffs (ins_promo_act r d) = db_tariffs d"
  "db_durations (ins_promo_act r d) = db_durations d"
  "db_subs (ins_promo_act r d) = db_subs d"
  "db_payments (ins_promo_act r d) = db_payments d"
  "db_bts (ins_promo_act r d) = db_bts d"
  "db_promos (ins_promo_act r d) = db_promos d"
  "db_refs (ins_promo_act r d) = db_refs d"
  "db_outbox (ins_promo_act r d) = db_outbox d"
  "db_notifs (ins_promo_act r d) = db_notifs d"
  "db_tickets (ins_promo_act r d) = db_tickets d"
  "db_ticket_msgs (ins_promo_act r d) = db_ticket_msgs d"
  "db_topics (ins_promo_act r d) = db_topics d"
  "db_idem_keys (ins_promo_act r d) = db_idem_keys d"
  "db_admin_keys (ins_promo_act r d) = db_admin_keys d"
  "db_logs (ins_promo_act r d) = db_logs d"
  "db_tech_logs (ins_promo_act r d) = db_tech_logs d"
  "db_broadcasts (ins_promo_act r d) = db_broadcasts d"
  "db_texts (ins_promo_act r d) = db_texts d"
  "db_rcpts (ins_promo_act r d) = db_rcpts d"
  "db_promo_acts (ins_promo_act r d) = db_promo_acts d @ [r]"
  by (simp_all add: ins_promo_act_def)

lemma ins_notif_frame [simp, frame]:
  "db_users (ins_notif r d) = db_users d"
  "db_tariffs (ins_notif r d) = db_tariffs d"
  "db_durations (ins_notif r d) = db_durations d"
  "db_subs (ins_notif r d) = db_subs d"
  "db_payments (ins_notif r d) = db_payments d"
  "db_bts (ins_notif r d) = db_bts d"
  "db_promos (ins_notif r d) = db_promos d"
  "db_promo_acts (ins_notif r d) = db_promo_acts d"
  "db_refs (ins_notif r d) = db_refs d"
  "db_outbox (ins_notif r d) = db_outbox d"
  "db_tickets (ins_notif r d) = db_tickets d"
  "db_ticket_msgs (ins_notif r d) = db_ticket_msgs d"
  "db_topics (ins_notif r d) = db_topics d"
  "db_idem_keys (ins_notif r d) = db_idem_keys d"
  "db_admin_keys (ins_notif r d) = db_admin_keys d"
  "db_logs (ins_notif r d) = db_logs d"
  "db_tech_logs (ins_notif r d) = db_tech_logs d"
  "db_broadcasts (ins_notif r d) = db_broadcasts d"
  "db_texts (ins_notif r d) = db_texts d"
  "db_rcpts (ins_notif r d) = db_rcpts d"
  "db_notifs (ins_notif r d) = db_notifs d @ [r]"
  by (simp_all add: ins_notif_def)

lemma ins_ticket_msg_frame [simp, frame]:
  "db_users (ins_ticket_msg r d) = db_users d"
  "db_tariffs (ins_ticket_msg r d) = db_tariffs d"
  "db_durations (ins_ticket_msg r d) = db_durations d"
  "db_subs (ins_ticket_msg r d) = db_subs d"
  "db_payments (ins_ticket_msg r d) = db_payments d"
  "db_bts (ins_ticket_msg r d) = db_bts d"
  "db_promos (ins_ticket_msg r d) = db_promos d"
  "db_promo_acts (ins_ticket_msg r d) = db_promo_acts d"
  "db_refs (ins_ticket_msg r d) = db_refs d"
  "db_outbox (ins_ticket_msg r d) = db_outbox d"
  "db_notifs (ins_ticket_msg r d) = db_notifs d"
  "db_tickets (ins_ticket_msg r d) = db_tickets d"
  "db_topics (ins_ticket_msg r d) = db_topics d"
  "db_idem_keys (ins_ticket_msg r d) = db_idem_keys d"
  "db_admin_keys (ins_ticket_msg r d) = db_admin_keys d"
  "db_logs (ins_ticket_msg r d) = db_logs d"
  "db_tech_logs (ins_ticket_msg r d) = db_tech_logs d"
  "db_broadcasts (ins_ticket_msg r d) = db_broadcasts d"
  "db_texts (ins_ticket_msg r d) = db_texts d"
  "db_rcpts (ins_ticket_msg r d) = db_rcpts d"
  "db_ticket_msgs (ins_ticket_msg r d) = db_ticket_msgs d @ [r]"
  by (simp_all add: ins_ticket_msg_def)

lemma ins_log_frame [simp, frame]:
  "db_users (ins_log r d) = db_users d"
  "db_tariffs (ins_log r d) = db_tariffs d"
  "db_durations (ins_log r d) = db_durations d"
  "db_subs (ins_log r d) = db_subs d"
  "db_payments (ins_log r d) = db_payments d"
  "db_bts (ins_log r d) = db_bts d"
  "db_promos (ins_log r d) = db_promos d"
  "db_promo_acts (ins_log r d) = db_promo_acts d"
  "db_refs (ins_log r d) = db_refs d"
  "db_outbox (ins_log r d) = db_outbox d"
  "db_notifs (ins_log r d) = db_notifs d"
  "db_tickets (ins_log r d) = db_tickets d"
  "db_ticket_msgs (ins_log r d) = db_ticket_msgs d"
  "db_topics (ins_log r d) = db_topics d"
  "db_idem_keys (ins_log r d) = db_idem_keys d"
  "db_admin_keys (ins_log r d) = db_admin_keys d"
  "db_tech_logs (ins_log r d) = db_tech_logs d"
  "db_broadcasts (ins_log r d) = db_broadcasts d"
  "db_texts (ins_log r d) = db_texts d"
  "db_rcpts (ins_log r d) = db_rcpts d"
  "db_logs (ins_log r d) = db_logs d @ [r]"
  by (simp_all add: ins_log_def)

lemma ins_tech_log_frame [simp, frame]:
  "db_users (ins_tech_log r d) = db_users d"
  "db_tariffs (ins_tech_log r d) = db_tariffs d"
  "db_durations (ins_tech_log r d) = db_durations d"
  "db_subs (ins_tech_log r d) = db_subs d"
  "db_payments (ins_tech_log r d) = db_payments d"
  "db_bts (ins_tech_log r d) = db_bts d"
  "db_promos (ins_tech_log r d) = db_promos d"
  "db_promo_acts (ins_tech_log r d) = db_promo_acts d"
  "db_refs (ins_tech_log r d) = db_refs d"
  "db_outbox (ins_tech_log r d) = db_outbox d"
  "db_notifs (ins_tech_log r d) = db_notifs d"
  "db_tickets (ins_tech_log r d) = db_tickets d"
  "db_ticket_msgs (ins_tech_log r d) = db_ticket_msgs d"
  "db_topics (ins_tech_log r d) = db_topics d"
  "db_idem_keys (ins_tech_log r d) = db_idem_keys d"
  "db_admin_keys (ins_tech_log r d) = db_admin_keys d"
  "db_logs (ins_tech_log r d) = db_logs d"
  "db_broadcasts (ins_tech_log r d) = db_broadcasts d"
  "db_texts (ins_tech_log r d) = db_texts d"
  "db_rcpts (ins_tech_log r d) = db_rcpts d"
  "db_tech_logs (ins_tech_log r d) = db_tech_logs d @ [r]"
  by (simp_all add: ins_tech_log_def)

lemma touch_user_sel [simp]:
  "u_id (touch_user now f r) = u_id (f r)"
  "u_tg_id (touch_user now f r) = u_tg_id (f r)"
  "u_username (touch_user now f r) = u_username (f r)"
  "u_first_name (touch_user now f r) = u_first_name (f r)"
  "u_last_name (touch_user now f r) = u_last_name (f r)"
  "u_language_code (touch_user now f r) = u_language_code (f r)"
  "u_balance (touch_user now f r) = u_balance (f r)"
  "u_is_banned (touch_user now f r) = u_is_banned (f r)"
  "u_banned_reason (touch_user now f r) = u_banned_reason (f r)"
  "u_ref_id (touch_user now f r) = u_ref_id (f r)"
  "u_created_at (touch_user now f r) = u_created_at (f r)"
  by (simp_all add: touch_user_def)

lemma db_users_mod_user:
  "db_users (mod_user now k f d) = row_upd u_id k (touch_user now f) (db_users d)"
  by (simp add: mod_user_def)

lemma db_tariffs_mod_tariff:
  "db_tariffs (mod_tariff k f d) = row_upd t_id k f (db_tariffs d)"
  by (simp add: mod_tariff_def)

lemma db_durations_mod_duration:
  "db_durations (mod_duration k f d) = row_upd td_id k f (db_durations d)"
  by (simp add: mod_duration_def)

lemma touch_sub_sel [simp]:
  "s_id (touch_sub now f r) = s_id (f r)"
  "s_user_id (touch_sub now f r) = s_user_id (f r)"
  "s_tariff_id (touch_sub now f r) = s_tariff_id (f r)"
  "s_duration_id (touch_sub now f r) = s_duration_id (f r)"
  "s_provider_id (touch_sub now f r) = s_provider_id (f r)"
  "s_key_url (touch_sub now f r) = s_key_url (f r)"
  "s_devices (touch_sub now f r) = s_devices (f r)"
  "s_days (touch_sub now f r) = s_days (f r)"
  "s_status (touch_sub now f r) = s_status (f r)"
  "s_started_at (touch_sub now f r) = s_started_at (f r)"
  "s_expires_at (touch_sub now f r) = s_expires_at (f r)"
  "s_deactivated_at (touch_sub now f r) = s_deactivated_at (f r)"
  "s_deactivation_reason (touch_sub now f r) = s_deactivation_reason (f r)"
  "s_is_free_trial (touch_sub now f r) = s_is_free_trial (f r)"
  "s_created_at (touch_sub now f r) = s_created_at (f r)"
  by (simp_all add: touch_sub_def)

lemma db_subs_mod_sub:
  "db_subs (mod_sub now k f d) = row_upd s_id k (touch_sub now f) (db_subs d)"
  by (simp add: mod_sub_def)

lemma touch_payment_sel [simp]:
  "p_id (touch_payment now f r) = p_id (f r)"
  "p_user_id (touch_payment now f r) = p_user_id (f r)"
  "p_sub_id (touch_payment now f r) = p_sub_id (f r)"
  "p_purpose (touch_payment now f r) = p_purpose (f r)"
  "p_provider (touch_payment now f r) = p_provider (f r)"
  "p_external_id (touch_payment now f r) = p_external_id (f r)"
  "p_amount (touch_payment now f r) = p_amount (f r)"
  "p_currency (touch_payment now f r) = p_currency (f r)"
  "p_status (touch_payment now f r) = p_status (f r)"
  "p_meta (touch_payment now f r) = p_meta (f r)"
  "p_paid_at (touch_payment now f r) = p_paid_at (f r)"
  "p_created_at (touch_payment now f r) = p_created_at (f r)"
  by (simp_all add: touch_payment_def)

lemma db_payments_mod_payment:
  "db_payments (mod_payment now k f d) = row_upd p_id k (touch_payment now f) (db_payments d)"
  by (simp add: mod_payment_def)

lemma db_promos_mod_promo:
  "db_promos (mod_promo k f d) = row_upd pc_id k f (db_promos d)"
  by (simp add: mod_promo_def)

lemma db_refs_mod_ref:
  "db_refs (mod_ref k f d) = row_upd rf_id k f (db_refs d)"
  by (simp add: mod_ref_def)

lemma db_outbox_mod_outbox:
  "db_outbox (mod_outbox k f d) = row_upd ob_id k f (db_outbox d)"
  by (simp add: mod_outbox_def)

lemma touch_ticket_sel [simp]:
  "tk_id (touch_ticket now f r) = tk_id (f r)"
  "tk_code (touch_ticket now f r) = tk_code (f r)"
  "tk_user_id (touch_ticket now f r) = tk_user_id (f r)"
  "tk_kind (touch_ticket now f r) = tk_kind (f r)"
  "tk_status (touch_ticket now f r) = tk_status (f r)"
  "tk_closed_by (touch_ticket now f r) = tk_closed_by (f r)"
  "tk_closed_at (touch_ticket now f r) = tk_closed_at (f r)"
  "tk_thread_id (touch_ticket now f r) = tk_thread_id (f r)"
  "tk_created_at (touch_ticket now f r) = tk_created_at (f r)"
  by (simp_all add: touch_ticket_def)

lemma db_tickets_mod_ticket:
  "db_tickets (mod_ticket now k f d) = row_upd tk_id k (touch_ticket now f) (db_tickets d)"
  by (simp add: mod_ticket_def)

lemma db_admin_keys_mod_admin_key:
  "db_admin_keys (mod_admin_key k f d) = row_upd ak_id k f (db_admin_keys d)"
  by (simp add: mod_admin_key_def)

lemma db_broadcasts_mod_broadcast:
  "db_broadcasts (mod_broadcast k f d) = row_upd bc_id k f (db_broadcasts d)"
  by (simp add: mod_broadcast_def)

lemma db_rcpts_mod_rcpt:
  "db_rcpts (mod_rcpt k f d) = row_upd rc_id k f (db_rcpts d)"
  by (simp add: mod_rcpt_def)

lemma touch_text_sel [simp]:
  "tx_id (touch_text now f r) = tx_id (f r)"
  "tx_key (touch_text now f r) = tx_key (f r)"
  "tx_value_html (touch_text now f r) = tx_value_html (f r)"
  "tx_description (touch_text now f r) = tx_description (f r)"
  "tx_media_file_id (touch_text now f r) = tx_media_file_id (f r)"
  "tx_media_kind (touch_text now f r) = tx_media_kind (f r)"
  "tx_kind (touch_text now f r) = tx_kind (f r)"
  "tx_icon_custom_emoji_id (touch_text now f r) = tx_icon_custom_emoji_id (f r)"
  "tx_url (touch_text now f r) = tx_url (f r)"
  "tx_updated_by (touch_text now f r) = tx_updated_by (f r)"
  by (simp_all add: touch_text_def)

lemma db_texts_mod_text:
  "db_texts (mod_text now k f d) = row_upd tx_id k (touch_text now f) (db_texts d)"
  by (simp add: mod_text_def)

lemma touch_topic_sel [simp]:
  "st_user_id (touch_topic now f r) = st_user_id (f r)"
  "st_thread_id (touch_topic now f r) = st_thread_id (f r)"
  "st_name (touch_topic now f r) = st_name (f r)"
  "st_created_at (touch_topic now f r) = st_created_at (f r)"
  by (simp_all add: touch_topic_def)

lemma db_topics_mod_topic:
  "db_topics (mod_topic now k f d) = row_upd st_user_id k (touch_topic now f) (db_topics d)"
  by (simp add: mod_topic_def)

lemmas get_defs = get_user_def get_tariff_def get_duration_def get_sub_def get_payment_def get_promo_def get_ref_def get_outbox_def get_ticket_def get_admin_key_def get_broadcast_def get_rcpt_def get_text_def get_topic_def

section \<open>The tables satisfy the table interface\<close>

lemma row_table_list:
  assumes get: "\<And>d k. get d k = row_find key k (rows d)"
    and upd: "\<And>k f d. rows (upd k f d) = row_upd key k f (rows d)"
    and ins: "\<And>r d. rows (ins r d) = rows d @ [r]"
    and nxt: "\<And>d. nxt d = fresh_id key (rows d)"
  shows "row_table get upd ins key nxt"
  by unfold_locales
     (auto simp: get upd ins nxt row_find_fresh row_find_None fresh_id_notin
        row_find_upd_same row_find_upd_other dest!: row_find_SomeD)

interpretation tariff_tab: row_table get_tariff mod_tariff ins_tariff t_id next_tariff
  by (rule row_table_list[where rows = db_tariffs])
     (simp_all add: get_tariff_def mod_tariff_def next_tariff_def)

interpretation duration_tab: row_table get_duration mod_duration ins_duration td_id next_duration
  by (rule row_table_list[where rows = db_durations])
     (simp_all add: get_duration_def mod_duration_def next_duration_def)

interpretation promo_tab: row_table get_promo mod_promo ins_promo pc_id next_promo
  by (rule row_table_list[where rows = db_promos])
     (simp_all add: get_promo_def mod_promo_def next_promo_def)

interpretation ref_tab: row_table get_ref mod_ref ins_ref rf_id next_ref
  by (rule row_table_list[where rows = db_refs])
     (simp_all add: get_ref_def mod_ref_def next_ref_def)

interpretation outbox_tab: row_table get_outbox mod_outbox ins_outbox ob_id next_outbox
  by (rule row_table_list[where rows = db_outbox])
     (simp_all add: get_outbox_def mod_outbox_def next_outbox_def)

interpretation admin_key_tab: row_table get_admin_key mod_admin_key ins_admin_key ak_id next_admin_key
  by (rule row_table_list[where rows = db_admin_keys])
     (simp_all add: get_admin_key_def mod_admin_key_def next_admin_key_def)

interpretation broadcast_tab: row_table get_broadcast mod_broadcast ins_broadcast bc_id next_broadcast
  by (rule row_table_list[where rows = db_broadcasts])
     (simp_all add: get_broadcast_def mod_broadcast_def next_broadcast_def)

interpretation rcpt_tab: row_table get_rcpt mod_rcpt ins_rcpt rc_id next_rcpt
  by (rule row_table_list[where rows = db_rcpts])
     (simp_all add: get_rcpt_def mod_rcpt_def next_rcpt_def)

text \<open>Tables with timestamps: the interface holds of the update whose effect carries the touch.\<close>

definition put_user :: "int \<Rightarrow> (user_row \<Rightarrow> user_row) \<Rightarrow> db \<Rightarrow> db" where
  "put_user k f d = d\<lparr>db_users := row_upd u_id k f (db_users d)\<rparr>"

interpretation user_tab: row_table get_user put_user ins_user u_id next_user
  by (rule row_table_list[where rows = db_users])
     (simp_all add: get_user_def put_user_def next_user_def)

lemma mod_user_put: "mod_user now k f d = put_user k (touch_user now f) d"
  by (simp add: mod_user_def put_user_def)

definition put_sub :: "int \<Rightarrow> (sub_row \<Rightarrow> sub_row) \<Rightarrow> db \<Rightarrow> db" where
  "put_sub k f d = d\<lparr>db_subs := row_upd s_id k f (db_subs d)\<rparr>"

interpretation sub_tab: row_table get_sub put_sub ins_sub s_id next_sub
  by (rule row_table_list[where rows = db_subs])
     (simp_all add: get_sub_def put_sub_def next_sub_def)

lemma mod_sub_put: "mod_sub now k f d = put_sub k (touch_sub now f) d"
  by (simp add: mod_sub_def put_sub_def)

definition put_payment :: "int \<Rightarrow> (payment_row \<Rightarrow> payment_row) \<Rightarrow> db \<Rightarrow> db" where
  "put_payment k f d = d\<lparr>db_payments := row_upd p_id k f (db_payments d)\<rparr>"

interpretation payment_tab: row_table get_payment put_payment ins_payment p_id next_payment
  by (rule row_table_list[where rows = db_payments])
     (simp_all add: get_payment_def put_payment_def next_payment_def)

lemma mod_payment_put: "mod_payment now k f d = put_payment k (touch_payment now f) d"
  by (simp add: mod_payment_def put_payment_def)

definition put_ticket :: "int \<Rightarrow> (ticket_row \<Rightarrow> ticket_row) \<Rightarrow> db \<Rightarrow> db" where
  "put_ticket k f d = d\<lparr>db_tickets := row_upd tk_id k f (db_tickets d)\<rparr>"

interpretation ticket_tab: row_table get_ticket put_ticket ins_ticket tk_id next_ticket
  by (rule row_table_list[where rows = db_tickets])
     (simp_all add: get_ticket_def put_ticket_def next_ticket_def)

lemma mod_ticket_put: "mod_ticket now k f d = put_ticket k (touch_ticket now f) d"
  by (simp add: mod_ticket_def put_ticket_def)

definition put_text :: "int \<Rightarrow> (text_row \<Rightarrow> text_row) \<Rightarrow> db \<Rightarrow> db" where
  "put_text k f d = d\<lparr>db_texts := row_upd tx_id k f (db_texts d)\<rparr>"

interpretation text_tab: row_table get_text put_text ins_text tx_id next_text
  by (rule row_table_list[where rows = db_texts])
     (simp_all add: get_text_def put_text_def next_text_def)

lemma mod_text_put: "mod_text now k f d = put_text k (touch_text now f) d"
  by (simp add: mod_text_def put_text_def)

text \<open>What the components use: reading back an updated or inserted row, reading across tables.\<close>

lemma get_mod_user [simp]:
  assumes "\<And>r. u_id (f r) = u_id r"
  shows "get_user (mod_user now k f d) k' = (if k' = k then map_option (touch_user now f) (get_user d k) else get_user d k')"
  unfolding mod_user_put by (rule user_tab.get_upd) (simp add: assms)

lemma get_ins_user [simp]:
  "u_id r = next_user d \<Longrightarrow> get_user (ins_user r d) k = (if k = next_user d then Some r else get_user d k)"
  by (rule user_tab.get_ins)

lemma get_user_cong: "db_users d = db_users d' \<Longrightarrow> get_user d k = get_user d' k"
  by (simp add: get_user_def)

lemma get_user_SomeD: "get_user d k = Some r \<Longrightarrow> r \<in> set (db_users d) \<and> u_id r = k"
  by (auto simp: get_user_def dest: row_find_SomeD)

lemma get_mod_tariff [simp]:
  assumes "\<And>r. t_id (f r) = t_id r"
  shows "get_tariff (mod_tariff k f d) k' = (if k' = k then map_option f (get_tariff d k) else get_tariff d k')"
  by (rule tariff_tab.get_upd) (simp add: assms)

lemma get_ins_tariff [simp]:
  "t_id r = next_tariff d \<Longrightarrow> get_tariff (ins_tariff r d) k = (if k = next_tariff d then Some r else get_tariff d k)"
  by (rule tariff_tab.get_ins)

lemma get_tariff_cong: "db_tariffs d = db_tariffs d' \<Longrightarrow> get_tariff d k = get_tariff d' k"
  by (simp add: get_tariff_def)

lemma get_tariff_SomeD: "get_tariff d k = Some r \<Longrightarrow> r \<in> set (db_tariffs d) \<and> t_id r = k"
  by (auto simp: get_tariff_def dest: row_find_SomeD)

lemma get_mod_duration [simp]:
  assumes "\<And>r. td_id (f r) = td_id r"
  shows "get_duration (mod_duration k f d) k' = (if k' = k then map_option f (get_duration d k) else get_duration d k')"
  by (rule duration_tab.get_upd) (simp add: assms)

lemma get_ins_duration [simp]:
  "td_id r = next_duration d \<Longrightarrow> get_duration (ins_duration r d) k = (if k = next_duration d then Some r else get_duration d k)"
  by (rule duration_tab.get_ins)

lemma get_duration_cong: "db_durations d = db_durations d' \<Longrightarrow> get_duration d k = get_duration d' k"
  by (simp add: get_duration_def)

lemma get_duration_SomeD: "get_duration d k = Some r \<Longrightarrow> r \<in> set (db_durations d) \<and> td_id r = k"
  by (auto simp: get_duration_def dest: row_find_SomeD)

lemma get_mod_sub [simp]:
  assumes "\<And>r. s_id (f r) = s_id r"
  shows "get_sub (mod_sub now k f d) k' = (if k' = k then map_option (touch_sub now f) (get_sub d k) else get_sub d k')"
  unfolding mod_sub_put by (rule sub_tab.get_upd) (simp add: assms)

lemma get_ins_sub [simp]:
  "s_id r = next_sub d \<Longrightarrow> get_sub (ins_sub r d) k = (if k = next_sub d then Some r else get_sub d k)"
  by (rule sub_tab.get_ins)

lemma get_sub_cong: "db_subs d = db_subs d' \<Longrightarrow> get_sub d k = get_sub d' k"
  by (simp add: get_sub_def)

lemma get_sub_SomeD: "get_sub d k = Some r \<Longrightarrow> r \<in> set (db_subs d) \<and> s_id r = k"
  by (auto simp: get_sub_def dest: row_find_SomeD)

lemma get_mod_payment [simp]:
  assumes "\<And>r. p_id (f r) = p_id r"
  shows "get_payment (mod_payment now k f d) k' = (if k' = k then map_option (touch_payment now f) (get_payment d k) else get_payment d k')"
  unfolding mod_payment_put by (rule payment_tab.get_upd) (simp add: assms)

lemma get_ins_payment [simp]:
  "p_id r = next_payment d \<Longrightarrow> get_payment (ins_payment r d) k = (if k = next_payment d then Some r else get_payment d k)"
  by (rule payment_tab.get_ins)

lemma get_payment_cong: "db_payments d = db_payments d' \<Longrightarrow> get_payment d k = get_payment d' k"
  by (simp add: get_payment_def)

lemma get_payment_SomeD: "get_payment d k = Some r \<Longrightarrow> r \<in> set (db_payments d) \<and> p_id r = k"
  by (auto simp: get_payment_def dest: row_find_SomeD)

lemma get_mod_promo [simp]:
  assumes "\<And>r. pc_id (f r) = pc_id r"
  shows "get_promo (mod_promo k f d) k' = (if k' = k then map_option f (get_promo d k) else get_promo d k')"
  by (rule promo_tab.get_upd) (simp add: assms)

lemma get_ins_promo [simp]:
  "pc_id r = next_promo d \<Longrightarrow> get_promo (ins_promo r d) k = (if k = next_promo d then Some r else get_promo d k)"
  by (rule promo_tab.get_ins)

lemma get_promo_cong: "db_promos d = db_promos d' \<Longrightarrow> get_promo d k = get_promo d' k"
  by (simp add: get_promo_def)

lemma get_promo_SomeD: "get_promo d k = Some r \<Longrightarrow> r \<in> set (db_promos d) \<and> pc_id r = k"
  by (auto simp: get_promo_def dest: row_find_SomeD)

lemma get_mod_ref [simp]:
  assumes "\<And>r. rf_id (f r) = rf_id r"
  shows "get_ref (mod_ref k f d) k' = (if k' = k then map_option f (get_ref d k) else get_ref d k')"
  by (rule ref_tab.get_upd) (simp add: assms)

lemma get_ins_ref [simp]:
  "rf_id r = next_ref d \<Longrightarrow> get_ref (ins_ref r d) k = (if k = next_ref d then Some r else get_ref d k)"
  by (rule ref_tab.get_ins)

lemma get_ref_cong: "db_refs d = db_refs d' \<Longrightarrow> get_ref d k = get_ref d' k"
  by (simp add: get_ref_def)

lemma get_ref_SomeD: "get_ref d k = Some r \<Longrightarrow> r \<in> set (db_refs d) \<and> rf_id r = k"
  by (auto simp: get_ref_def dest: row_find_SomeD)

lemma get_mod_outbox [simp]:
  assumes "\<And>r. ob_id (f r) = ob_id r"
  shows "get_outbox (mod_outbox k f d) k' = (if k' = k then map_option f (get_outbox d k) else get_outbox d k')"
  by (rule outbox_tab.get_upd) (simp add: assms)

lemma get_ins_outbox [simp]:
  "ob_id r = next_outbox d \<Longrightarrow> get_outbox (ins_outbox r d) k = (if k = next_outbox d then Some r else get_outbox d k)"
  by (rule outbox_tab.get_ins)

lemma get_outbox_cong: "db_outbox d = db_outbox d' \<Longrightarrow> get_outbox d k = get_outbox d' k"
  by (simp add: get_outbox_def)

lemma get_outbox_SomeD: "get_outbox d k = Some r \<Longrightarrow> r \<in> set (db_outbox d) \<and> ob_id r = k"
  by (auto simp: get_outbox_def dest: row_find_SomeD)

lemma get_mod_ticket [simp]:
  assumes "\<And>r. tk_id (f r) = tk_id r"
  shows "get_ticket (mod_ticket now k f d) k' = (if k' = k then map_option (touch_ticket now f) (get_ticket d k) else get_ticket d k')"
  unfolding mod_ticket_put by (rule ticket_tab.get_upd) (simp add: assms)

lemma get_ins_ticket [simp]:
  "tk_id r = next_ticket d \<Longrightarrow> get_ticket (ins_ticket r d) k = (if k = next_ticket d then Some r else get_ticket d k)"
  by (rule ticket_tab.get_ins)

lemma get_ticket_cong: "db_tickets d = db_tickets d' \<Longrightarrow> get_ticket d k = get_ticket d' k"
  by (simp add: get_ticket_def)

lemma get_ticket_SomeD: "get_ticket d k = Some r \<Longrightarrow> r \<in> set (db_tickets d) \<and> tk_id r = k"
  by (auto simp: get_ticket_def dest: row_find_SomeD)

lemma get_mod_admin_key [simp]:
  assumes "\<And>r. ak_id (f r) = ak_id r"
  shows "get_admin_key (mod_admin_key k f d) k' = (if k' = k then map_option f (get_admin_key d k) else get_admin_key d k')"
  by (rule admin_key_tab.get_upd) (simp add: assms)

lemma get_ins_admin_key [simp]:
  "ak_id r = next_admin_key d \<Longrightarrow> get_admin_key (ins_admin_key r d) k = (if k = next_admin_key d then Some r else get_admin_key d k)"
  by (rule admin_key_tab.get_ins)

lemma get_admin_key_cong: "db_admin_keys d = db_admin_keys d' \<Longrightarrow> get_admin_key d k = get_admin_key d' k"
  by (simp add: get_admin_key_def)

lemma get_admin_key_SomeD: "get_admin_key d k = Some r \<Longrightarrow> r \<in> set (db_admin_keys d) \<and> ak_id r = k"
  by (auto simp: get_admin_key_def dest: row_find_SomeD)

lemma get_mod_broadcast [simp]:
  assumes "\<And>r. bc_id (f r) = bc_id r"
  shows "get_broadcast (mod_broadcast k f d) k' = (if k' = k then map_option f (get_broadcast d k) else get_broadcast d k')"
  by (rule broadcast_tab.get_upd) (simp add: assms)

lemma get_ins_broadcast [simp]:
  "bc_id r = next_broadcast d \<Longrightarrow> get_broadcast (ins_broadcast r d) k = (if k = next_broadcast d then Some r else get_broadcast d k)"
  by (rule broadcast_tab.get_ins)

lemma get_broadcast_cong: "db_broadcasts d = db_broadcasts d' \<Longrightarrow> get_broadcast d k = get_broadcast d' k"
  by (simp add: get_broadcast_def)

lemma get_broadcast_SomeD: "get_broadcast d k = Some r \<Longrightarrow> r \<in> set (db_broadcasts d) \<and> bc_id r = k"
  by (auto simp: get_broadcast_def dest: row_find_SomeD)

lemma get_mod_rcpt [simp]:
  assumes "\<And>r. rc_id (f r) = rc_id r"
  shows "get_rcpt (mod_rcpt k f d) k' = (if k' = k then map_option f (get_rcpt d k) else get_rcpt d k')"
  by (rule rcpt_tab.get_upd) (simp add: assms)

lemma get_ins_rcpt [simp]:
  "rc_id r = next_rcpt d \<Longrightarrow> get_rcpt (ins_rcpt r d) k = (if k = next_rcpt d then Some r else get_rcpt d k)"
  by (rule rcpt_tab.get_ins)

lemma get_rcpt_cong: "db_rcpts d = db_rcpts d' \<Longrightarrow> get_rcpt d k = get_rcpt d' k"
  by (simp add: get_rcpt_def)

lemma get_rcpt_SomeD: "get_rcpt d k = Some r \<Longrightarrow> r \<in> set (db_rcpts d) \<and> rc_id r = k"
  by (auto simp: get_rcpt_def dest: row_find_SomeD)

lemma get_mod_text [simp]:
  assumes "\<And>r. tx_id (f r) = tx_id r"
  shows "get_text (mod_text now k f d) k' = (if k' = k then map_option (touch_text now f) (get_text d k) else get_text d k')"
  unfolding mod_text_put by (rule text_tab.get_upd) (simp add: assms)

lemma get_ins_text [simp]:
  "tx_id r = next_text d \<Longrightarrow> get_text (ins_text r d) k = (if k = next_text d then Some r else get_text d k)"
  by (rule text_tab.get_ins)

lemma get_text_cong: "db_texts d = db_texts d' \<Longrightarrow> get_text d k = get_text d' k"
  by (simp add: get_text_def)

lemma get_text_SomeD: "get_text d k = Some r \<Longrightarrow> r \<in> set (db_texts d) \<and> tx_id r = k"
  by (auto simp: get_text_def dest: row_find_SomeD)

lemma get_frame_mod_user [simp]:
  "get_tariff (mod_user now k f d) i = get_tariff d i"
  "get_duration (mod_user now k f d) i = get_duration d i"
  "get_sub (mod_user now k f d) i = get_sub d i"
  "get_payment (mod_user now k f d) i = get_payment d i"
  "get_promo (mod_user now k f d) i = get_promo d i"
  "get_ref (mod_user now k f d) i = get_ref d i"
  "get_outbox (mod_user now k f d) i = get_outbox d i"
  "get_ticket (mod_user now k f d) i = get_ticket d i"
  "get_admin_key (mod_user now k f d) i = get_admin_key d i"
  "get_broadcast (mod_user now k f d) i = get_broadcast d i"
  "get_rcpt (mod_user now k f d) i = get_rcpt d i"
  "get_text (mod_user now k f d) i = get_text d i"
  by (simp_all add: get_defs)

lemma get_frame_mod_tariff [simp]:
  "get_user (mod_tariff k f d) i = get_user d i"
  "get_duration (mod_tariff k f d) i = get_duration d i"
  "get_sub (mod_tariff k f d) i = get_sub d i"
  "get_payment (mod_tariff k f d) i = get_payment d i"
  "get_promo (mod_tariff k f d) i = get_promo d i"
  "get_ref (mod_tariff k f d) i = get_ref d i"
  "get_outbox (mod_tariff k f d) i = get_outbox d i"
  "get_ticket (mod_tariff k f d) i = get_ticket d i"
  "get_admin_key (mod_tariff k f d) i = get_admin_key d i"
  "get_broadcast (mod_tariff k f d) i = get_broadcast d i"
  "get_rcpt (mod_tariff k f d) i = get_rcpt d i"
  "get_text (mod_tariff k f d) i = get_text d i"
  by (simp_all add: get_defs)

lemma get_frame_mod_duration [simp]:
  "get_user (mod_duration k f d) i = get_user d i"
  "get_tariff (mod_duration k f d) i = get_tariff d i"
  "get_sub (mod_duration k f d) i = get_sub d i"
  "get_payment (mod_duration k f d) i = get_payment d i"
  "get_promo (mod_duration k f d) i = get_promo d i"
  "get_ref (mod_duration k f d) i = get_ref d i"
  "get_outbox (mod_duration k f d) i = get_outbox d i"
  "get_ticket (mod_duration k f d) i = get_ticket d i"
  "get_admin_key (mod_duration k f d) i = get_admin_key d i"
  "get_broadcast (mod_duration k f d) i = get_broadcast d i"
  "get_rcpt (mod_duration k f d) i = get_rcpt d i"
  "get_text (mod_duration k f d) i = get_text d i"
  by (simp_all add: get_defs)

lemma get_frame_mod_sub [simp]:
  "get_user (mod_sub now k f d) i = get_user d i"
  "get_tariff (mod_sub now k f d) i = get_tariff d i"
  "get_duration (mod_sub now k f d) i = get_duration d i"
  "get_payment (mod_sub now k f d) i = get_payment d i"
  "get_promo (mod_sub now k f d) i = get_promo d i"
  "get_ref (mod_sub now k f d) i = get_ref d i"
  "get_outbox (mod_sub now k f d) i = get_outbox d i"
  "get_ticket (mod_sub now k f d) i = get_ticket d i"
  "get_admin_key (mod_sub now k f d) i = get_admin_key d i"
  "get_broadcast (mod_sub now k f d) i = get_broadcast d i"
  "get_rcpt (mod_sub now k f d) i = get_rcpt d i"
  "get_text (mod_sub now k f d) i = get_text d i"
  by (simp_all add: get_defs)

lemma get_frame_mod_payment [simp]:
  "get_user (mod_payment now k f d) i = get_user d i"
  "get_tariff (mod_payment now k f d) i = get_tariff d i"
  "get_duration (mod_payment now k f d) i = get_duration d i"
  "get_sub (mod_payment now k f d) i = get_sub d i"
  "get_promo (mod_payment now k f d) i = get_promo d i"
  "get_ref (mod_payment now k f d) i = get_ref d i"
  "get_outbox (mod_payment now k f d) i = get_outbox d i"
  "get_ticket (mod_payment now k f d) i = get_ticket d i"
  "get_admin_key (mod_payment now k f d) i = get_admin_key d i"
  "get_broadcast (mod_payment now k f d) i = get_broadcast d i"
  "get_rcpt (mod_payment now k f d) i = get_rcpt d i"
  "get_text (mod_payment now k f d) i = get_text d i"
  by (simp_all add: get_defs)

lemma get_frame_mod_promo [simp]:
  "get_user (mod_promo k f d) i = get_user d i"
  "get_tariff (mod_promo k f d) i = get_tariff d i"
  "get_duration (mod_promo k f d) i = get_duration d i"
  "get_sub (mod_promo k f d) i = get_sub d i"
  "get_payment (mod_promo k f d) i = get_payment d i"
  "get_ref (mod_promo k f d) i = get_ref d i"
  "get_outbox (mod_promo k f d) i = get_outbox d i"
  "get_ticket (mod_promo k f d) i = get_ticket d i"
  "get_admin_key (mod_promo k f d) i = get_admin_key d i"
  "get_broadcast (mod_promo k f d) i = get_broadcast d i"
  "get_rcpt (mod_promo k f d) i = get_rcpt d i"
  "get_text (mod_promo k f d) i = get_text d i"
  by (simp_all add: get_defs)

lemma get_frame_mod_ref [simp]:
  "get_user (mod_ref k f d) i = get_user d i"
  "get_tariff (mod_ref k f d) i = get_tariff d i"
  "get_duration (mod_ref k f d) i = get_duration d i"
  "get_sub (mod_ref k f d) i = get_sub d i"
  "get_payment (mod_ref k f d) i = get_payment d i"
  "get_promo (mod_ref k f d) i = get_promo d i"
  "get_outbox (mod_ref k f d) i = get_outbox d i"
  "get_ticket (mod_ref k f d) i = get_ticket d i"
  "get_admin_key (mod_ref k f d) i = get_admin_key d i"
  "get_broadcast (mod_ref k f d) i = get_broadcast d i"
  "get_rcpt (mod_ref k f d) i = get_rcpt d i"
  "get_text (mod_ref k f d) i = get_text d i"
  by (simp_all add: get_defs)

lemma get_frame_mod_outbox [simp]:
  "get_user (mod_outbox k f d) i = get_user d i"
  "get_tariff (mod_outbox k f d) i = get_tariff d i"
  "get_duration (mod_outbox k f d) i = get_duration d i"
  "get_sub (mod_outbox k f d) i = get_sub d i"
  "get_payment (mod_outbox k f d) i = get_payment d i"
  "get_promo (mod_outbox k f d) i = get_promo d i"
  "get_ref (mod_outbox k f d) i = get_ref d i"
  "get_ticket (mod_outbox k f d) i = get_ticket d i"
  "get_admin_key (mod_outbox k f d) i = get_admin_key d i"
  "get_broadcast (mod_outbox k f d) i = get_broadcast d i"
  "get_rcpt (mod_outbox k f d) i = get_rcpt d i"
  "get_text (mod_outbox k f d) i = get_text d i"
  by (simp_all add: get_defs)

lemma get_frame_mod_ticket [simp]:
  "get_user (mod_ticket now k f d) i = get_user d i"
  "get_tariff (mod_ticket now k f d) i = get_tariff d i"
  "get_duration (mod_ticket now k f d) i = get_duration d i"
  "get_sub (mod_ticket now k f d) i = get_sub d i"
  "get_payment (mod_ticket now k f d) i = get_payment d i"
  "get_promo (mod_ticket now k f d) i = get_promo d i"
  "get_ref (mod_ticket now k f d) i = get_ref d i"
  "get_outbox (mod_ticket now k f d) i = get_outbox d i"
  "get_admin_key (mod_ticket now k f d) i = get_admin_key d i"
  "get_broadcast (mod_ticket now k f d) i = get_broadcast d i"
  "get_rcpt (mod_ticket now k f d) i = get_rcpt d i"
  "get_text (mod_ticket now k f d) i = get_text d i"
  by (simp_all add: get_defs)

lemma get_frame_mod_admin_key [simp]:
  "get_user (mod_admin_key k f d) i = get_user d i"
  "get_tariff (mod_admin_key k f d) i = get_tariff d i"
  "get_duration (mod_admin_key k f d) i = get_duration d i"
  "get_sub (mod_admin_key k f d) i = get_sub d i"
  "get_payment (mod_admin_key k f d) i = get_payment d i"
  "get_promo (mod_admin_key k f d) i = get_promo d i"
  "get_ref (mod_admin_key k f d) i = get_ref d i"
  "get_outbox (mod_admin_key k f d) i = get_outbox d i"
  "get_ticket (mod_admin_key k f d) i = get_ticket d i"
  "get_broadcast (mod_admin_key k f d) i = get_broadcast d i"
  "get_rcpt (mod_admin_key k f d) i = get_rcpt d i"
  "get_text (mod_admin_key k f d) i = get_text d i"
  by (simp_all add: get_defs)

lemma get_frame_mod_broadcast [simp]:
  "get_user (mod_broadcast k f d) i = get_user d i"
  "get_tariff (mod_broadcast k f d) i = get_tariff d i"
  "get_duration (mod_broadcast k f d) i = get_duration d i"
  "get_sub (mod_broadcast k f d) i = get_sub d i"
  "get_payment (mod_broadcast k f d) i = get_payment d i"
  "get_promo (mod_broadcast k f d) i = get_promo d i"
  "get_ref (mod_broadcast k f d) i = get_ref d i"
  "get_outbox (mod_broadcast k f d) i = get_outbox d i"
  "get_ticket (mod_broadcast k f d) i = get_ticket d i"
  "get_admin_key (mod_broadcast k f d) i = get_admin_key d i"
  "get_rcpt (mod_broadcast k f d) i = get_rcpt d i"
  "get_text (mod_broadcast k f d) i = get_text d i"
  by (simp_all add: get_defs)

lemma get_frame_mod_rcpt [simp]:
  "get_user (mod_rcpt k f d) i = get_user d i"
  "get_tariff (mod_rcpt k f d) i = get_tariff d i"
  "get_duration (mod_rcpt k f d) i = get_duration d i"
  "get_sub (mod_rcpt k f d) i = get_sub d i"
  "get_payment (mod_rcpt k f d) i = get_payment d i"
  "get_promo (mod_rcpt k f d) i = get_promo d i"
  "get_ref (mod_rcpt k f d) i = get_ref d i"
  "get_outbox (mod_rcpt k f d) i = get_outbox d i"
  "get_ticket (mod_rcpt k f d) i = get_ticket d i"
  "get_admin_key (mod_rcpt k f d) i = get_admin_key d i"
  "get_broadcast (mod_rcpt k f d) i = get_broadcast d i"
  "get_text (mod_rcpt k f d) i = get_text d i"
  by (simp_all add: get_defs)

lemma get_frame_mod_text [simp]:
  "get_user (mod_text now k f d) i = get_user d i"
  "get_tariff (mod_text now k f d) i = get_tariff d i"
  "get_duration (mod_text now k f d) i = get_duration d i"
  "get_sub (mod_text now k f d) i = get_sub d i"
  "get_payment (mod_text now k f d) i = get_payment d i"
  "get_promo (mod_text now k f d) i = get_promo d i"
  "get_ref (mod_text now k f d) i = get_ref d i"
  "get_outbox (mod_text now k f d) i = get_outbox d i"
  "get_ticket (mod_text now k f d) i = get_ticket d i"
  "get_admin_key (mod_text now k f d) i = get_admin_key d i"
  "get_broadcast (mod_text now k f d) i = get_broadcast d i"
  "get_rcpt (mod_text now k f d) i = get_rcpt d i"
  by (simp_all add: get_defs)

lemma get_frame_mod_topic [simp]:
  "get_user (mod_topic now k f d) i = get_user d i"
  "get_tariff (mod_topic now k f d) i = get_tariff d i"
  "get_duration (mod_topic now k f d) i = get_duration d i"
  "get_sub (mod_topic now k f d) i = get_sub d i"
  "get_payment (mod_topic now k f d) i = get_payment d i"
  "get_promo (mod_topic now k f d) i = get_promo d i"
  "get_ref (mod_topic now k f d) i = get_ref d i"
  "get_outbox (mod_topic now k f d) i = get_outbox d i"
  "get_ticket (mod_topic now k f d) i = get_ticket d i"
  "get_admin_key (mod_topic now k f d) i = get_admin_key d i"
  "get_broadcast (mod_topic now k f d) i = get_broadcast d i"
  "get_rcpt (mod_topic now k f d) i = get_rcpt d i"
  "get_text (mod_topic now k f d) i = get_text d i"
  by (simp_all add: get_defs)

lemma get_frame_ins_user [simp]:
  "get_tariff (ins_user r d) i = get_tariff d i"
  "get_duration (ins_user r d) i = get_duration d i"
  "get_sub (ins_user r d) i = get_sub d i"
  "get_payment (ins_user r d) i = get_payment d i"
  "get_promo (ins_user r d) i = get_promo d i"
  "get_ref (ins_user r d) i = get_ref d i"
  "get_outbox (ins_user r d) i = get_outbox d i"
  "get_ticket (ins_user r d) i = get_ticket d i"
  "get_admin_key (ins_user r d) i = get_admin_key d i"
  "get_broadcast (ins_user r d) i = get_broadcast d i"
  "get_rcpt (ins_user r d) i = get_rcpt d i"
  "get_text (ins_user r d) i = get_text d i"
  by (simp_all add: get_defs)

lemma get_frame_ins_tariff [simp]:
  "get_user (ins_tariff r d) i = get_user d i"
  "get_duration (ins_tariff r d) i = get_duration d i"
  "get_sub (ins_tariff r d) i = get_sub d i"
  "get_payment (ins_tariff r d) i = get_payment d i"
  "get_promo (ins_tariff r d) i = get_promo d i"
  "get_ref (ins_tariff r d) i = get_ref d i"
  "get_outbox (ins_tariff r d) i = get_outbox d i"
  "get_ticket (ins_tariff r d) i = get_ticket d i"
  "get_admin_key (ins_tariff r d) i = get_admin_key d i"
  "get_broadcast (ins_tariff r d) i = get_broadcast d i"
  "get_rcpt (ins_tariff r d) i = get_rcpt d i"
  "get_text (ins_tariff r d) i = get_text d i"
  by (simp_all add: get_defs)

lemma get_frame_ins_duration [simp]:
  "get_user (ins_duration r d) i = get_user d i"
  "get_tariff (ins_duration r d) i = get_tariff d i"
  "get_sub (ins_duration r d) i = get_sub d i"
  "get_payment (ins_duration r d) i = get_payment d i"
  "get_promo (ins_duration r d) i = get_promo d i"
  "get_ref (ins_duration r d) i = get_ref d i"
  "get_outbox (ins_duration r d) i = get_outbox d i"
  "get_ticket (ins_duration r d) i = get_ticket d i"
  "get_admin_key (ins_duration r d) i = get_admin_key d i"
  "get_broadcast (ins_duration r d) i = get_broadcast d i"
  "get_rcpt (ins_duration r d) i = get_rcpt d i"
  "get_text (ins_duration r d) i = get_text d i"
  by (simp_all add: get_defs)

lemma get_frame_ins_sub [simp]:
  "get_user (ins_sub r d) i = get_user d i"
  "get_tariff (ins_sub r d) i = get_tariff d i"
  "get_duration (ins_sub r d) i = get_duration d i"
  "get_payment (ins_sub r d) i = get_payment d i"
  "get_promo (ins_sub r d) i = get_promo d i"
  "get_ref (ins_sub r d) i = get_ref d i"
  "get_outbox (ins_sub r d) i = get_outbox d i"
  "get_ticket (ins_sub r d) i = get_ticket d i"
  "get_admin_key (ins_sub r d) i = get_admin_key d i"
  "get_broadcast (ins_sub r d) i = get_broadcast d i"
  "get_rcpt (ins_sub r d) i = get_rcpt d i"
  "get_text (ins_sub r d) i = get_text d i"
  by (simp_all add: get_defs)

lemma get_frame_ins_payment [simp]:
  "get_user (ins_payment r d) i = get_user d i"
  "get_tariff (ins_payment r d) i = get_tariff d i"
  "get_duration (ins_payment r d) i = get_duration d i"
  "get_sub (ins_payment r d) i = get_sub d i"
  "get_promo (ins_payment r d) i = get_promo d i"
  "get_ref (ins_payment r d) i = get_ref d i"
  "get_outbox (ins_payment r d) i = get_outbox d i"
  "get_ticket (ins_payment r d) i = get_ticket d i"
  "get_admin_key (ins_payment r d) i = get_admin_key d i"
  "get_broadcast (ins_payment r d) i = get_broadcast d i"
  "get_rcpt (ins_payment r d) i = get_rcpt d i"
  "get_text (ins_payment r d) i = get_text d i"
  by (simp_all add: get_defs)

lemma get_frame_ins_promo [simp]:
  "get_user (ins_promo r d) i = get_user d i"
  "get_tariff (ins_promo r d) i = get_tariff d i"
  "get_duration (ins_promo r d) i = get_duration d i"
  "get_sub (ins_promo r d) i = get_sub d i"
  "get_payment (ins_promo r d) i = get_payment d i"
  "get_ref (ins_promo r d) i = get_ref d i"
  "get_outbox (ins_promo r d) i = get_outbox d i"
  "get_ticket (ins_promo r d) i = get_ticket d i"
  "get_admin_key (ins_promo r d) i = get_admin_key d i"
  "get_broadcast (ins_promo r d) i = get_broadcast d i"
  "get_rcpt (ins_promo r d) i = get_rcpt d i"
  "get_text (ins_promo r d) i = get_text d i"
  by (simp_all add: get_defs)

lemma get_frame_ins_ref [simp]:
  "get_user (ins_ref r d) i = get_user d i"
  "get_tariff (ins_ref r d) i = get_tariff d i"
  "get_duration (ins_ref r d) i = get_duration d i"
  "get_sub (ins_ref r d) i = get_sub d i"
  "get_payment (ins_ref r d) i = get_payment d i"
  "get_promo (ins_ref r d) i = get_promo d i"
  "get_outbox (ins_ref r d) i = get_outbox d i"
  "get_ticket (ins_ref r d) i = get_ticket d i"
  "get_admin_key (ins_ref r d) i = get_admin_key d i"
  "get_broadcast (ins_ref r d) i = get_broadcast d i"
  "get_rcpt (ins_ref r d) i = get_rcpt d i"
  "get_text (ins_ref r d) i = get_text d i"
  by (simp_all add: get_defs)

lemma get_frame_ins_outbox [simp]:
  "get_user (ins_outbox r d) i = get_user d i"
  "get_tariff (ins_outbox r d) i = get_tariff d i"
  "get_duration (ins_outbox r d) i = get_duration d i"
  "get_sub (ins_outbox r d) i = get_sub d i"
  "get_payment (ins_outbox r d) i = get_payment d i"
  "get_promo (ins_outbox r d) i = get_promo d i"
  "get_ref (ins_outbox r d) i = get_ref d i"
  "get_ticket (ins_outbox r d) i = get_ticket d i"
  "get_admin_key (ins_outbox r d) i = get_admin_key d i"
  "get_broadcast (ins_outbox r d) i = get_broadcast d i"
  "get_rcpt (ins_outbox r d) i = get_rcpt d i"
  "get_text (ins_outbox r d) i = get_text d i"
  by (simp_all add: get_defs)

lemma get_frame_ins_ticket [simp]:
  "get_user (ins_ticket r d) i = get_user d i"
  "get_tariff (ins_ticket r d) i = get_tariff d i"
  "get_duration (ins_ticket r d) i = get_duration d i"
  "get_sub (ins_ticket r d) i = get_sub d i"
  "get_payment (ins_ticket r d) i = get_payment d i"
  "get_promo (ins_ticket r d) i = get_promo d i"
  "get_ref (ins_ticket r d) i = get_ref d i"
  "get_outbox (ins_ticket r d) i = get_outbox d i"
  "get_admin_key (ins_ticket r d) i = get_admin_key d i"
  "get_broadcast (ins_ticket r d) i = get_broadcast d i"
  "get_rcpt (ins_ticket r d) i = get_rcpt d i"
  "get_text (ins_ticket r d) i = get_text d i"
  by (simp_all add: get_defs)

lemma get_frame_ins_admin_key [simp]:
  "get_user (ins_admin_key r d) i = get_user d i"
  "get_tariff (ins_admin_key r d) i = get_tariff d i"
  "get_duration (ins_admin_key r d) i = get_duration d i"
  "get_sub (ins_admin_key r d) i = get_sub d i"
  "get_payment (ins_admin_key r d) i = get_payment d i"
  "get_promo (ins_admin_key r d) i = get_promo d i"
  "get_ref (ins_admin_key r d) i = get_ref d i"
  "get_outbox (ins_admin_key r d) i = get_outbox d i"
  "get_ticket (ins_admin_key r d) i = get_ticket d i"
  "get_broadcast (ins_admin_key r d) i = get_broadcast d i"
  "get_rcpt (ins_admin_key r d) i = get_rcpt d i"
  "get_text (ins_admin_key r d) i = get_text d i"
  by (simp_all add: get_defs)

lemma get_frame_ins_broadcast [simp]:
  "get_user (ins_broadcast r d) i = get_user d i"
  "get_tariff (ins_broadcast r d) i = get_tariff d i"
  "get_duration (ins_broadcast r d) i = get_duration d i"
  "get_sub (ins_broadcast r d) i = get_sub d i"
  "get_payment (ins_broadcast r d) i = get_payment d i"
  "get_promo (ins_broadcast r d) i = get_promo d i"
  "get_ref (ins_broadcast r d) i = get_ref d i"
  "get_outbox (ins_broadcast r d) i = get_outbox d i"
  "get_ticket (ins_broadcast r d) i = get_ticket d i"
  "get_admin_key (ins_broadcast r d) i = get_admin_key d i"
  "get_rcpt (ins_broadcast r d) i = get_rcpt d i"
  "get_text (ins_broadcast r d) i = get_text d i"
  by (simp_all add: get_defs)

lemma get_frame_ins_rcpt [simp]:
  "get_user (ins_rcpt r d) i = get_user d i"
  "get_tariff (ins_rcpt r d) i = get_tariff d i"
  "get_duration (ins_rcpt r d) i = get_duration d i"
  "get_sub (ins_rcpt r d) i = get_sub d i"
  "get_payment (ins_rcpt r d) i = get_payment d i"
  "get_promo (ins_rcpt r d) i = get_promo d i"
  "get_ref (ins_rcpt r d) i = get_ref d i"
  "get_outbox (ins_rcpt r d) i = get_outbox d i"
  "get_ticket (ins_rcpt r d) i = get_ticket d i"
  "get_admin_key (ins_rcpt r d) i = get_admin_key d i"
  "get_broadcast (ins_rcpt r d) i = get_broadcast d i"
  "get_text (ins_rcpt r d) i = get_text d i"
  by (simp_all add: get_defs)

lemma get_frame_ins_text [simp]:
  "get_user (ins_text r d) i = get_user d i"
  "get_tariff (ins_text r d) i = get_tariff d i"
  "get_duration (ins_text r d) i = get_duration d i"
  "get_sub (ins_text r d) i = get_sub d i"
  "get_payment (ins_text r d) i = get_payment d i"
  "get_promo (ins_text r d) i = get_promo d i"
  "get_ref (ins_text r d) i = get_ref d i"
  "get_outbox (ins_text r d) i = get_outbox d i"
  "get_ticket (ins_text r d) i = get_ticket d i"
  "get_admin_key (ins_text r d) i = get_admin_key d i"
  "get_broadcast (ins_text r d) i = get_broadcast d i"
  "get_rcpt (ins_text r d) i = get_rcpt d i"
  by (simp_all add: get_defs)

lemma get_frame_ins_topic [simp]:
  "get_user (ins_topic r d) i = get_user d i"
  "get_tariff (ins_topic r d) i = get_tariff d i"
  "get_duration (ins_topic r d) i = get_duration d i"
  "get_sub (ins_topic r d) i = get_sub d i"
  "get_payment (ins_topic r d) i = get_payment d i"
  "get_promo (ins_topic r d) i = get_promo d i"
  "get_ref (ins_topic r d) i = get_ref d i"
  "get_outbox (ins_topic r d) i = get_outbox d i"
  "get_ticket (ins_topic r d) i = get_ticket d i"
  "get_admin_key (ins_topic r d) i = get_admin_key d i"
  "get_broadcast (ins_topic r d) i = get_broadcast d i"
  "get_rcpt (ins_topic r d) i = get_rcpt d i"
  "get_text (ins_topic r d) i = get_text d i"
  by (simp_all add: get_defs)

lemma get_frame_ins_bt [simp]:
  "get_user (ins_bt r d) i = get_user d i"
  "get_tariff (ins_bt r d) i = get_tariff d i"
  "get_duration (ins_bt r d) i = get_duration d i"
  "get_sub (ins_bt r d) i = get_sub d i"
  "get_payment (ins_bt r d) i = get_payment d i"
  "get_promo (ins_bt r d) i = get_promo d i"
  "get_ref (ins_bt r d) i = get_ref d i"
  "get_outbox (ins_bt r d) i = get_outbox d i"
  "get_ticket (ins_bt r d) i = get_ticket d i"
  "get_admin_key (ins_bt r d) i = get_admin_key d i"
  "get_broadcast (ins_bt r d) i = get_broadcast d i"
  "get_rcpt (ins_bt r d) i = get_rcpt d i"
  "get_text (ins_bt r d) i = get_text d i"
  by (simp_all add: get_defs)

lemma get_frame_ins_promo_act [simp]:
  "get_user (ins_promo_act r d) i = get_user d i"
  "get_tariff (ins_promo_act r d) i = get_tariff d i"
  "get_duration (ins_promo_act r d) i = get_duration d i"
  "get_sub (ins_promo_act r d) i = get_sub d i"
  "get_payment (ins_promo_act r d) i = get_payment d i"
  "get_promo (ins_promo_act r d) i = get_promo d i"
  "get_ref (ins_promo_act r d) i = get_ref d i"
  "get_outbox (ins_promo_act r d) i = get_outbox d i"
  "get_ticket (ins_promo_act r d) i = get_ticket d i"
  "get_admin_key (ins_promo_act r d) i = get_admin_key d i"
  "get_broadcast (ins_promo_act r d) i = get_broadcast d i"
  "get_rcpt (ins_promo_act r d) i = get_rcpt d i"
  "get_text (ins_promo_act r d) i = get_text d i"
  by (simp_all add: get_defs)

lemma get_frame_ins_notif [simp]:
  "get_user (ins_notif r d) i = get_user d i"
  "get_tariff (ins_notif r d) i = get_tariff d i"
  "get_duration (ins_notif r d) i = get_duration d i"
  "get_sub (ins_notif r d) i = get_sub d i"
  "get_payment (ins_notif r d) i = get_payment d i"
  "get_promo (ins_notif r d) i = get_promo d i"
  "get_ref (ins_notif r d) i = get_ref d i"
  "get_outbox (ins_notif r d) i = get_outbox d i"
  "get_ticket (ins_notif r d) i = get_ticket d i"
  "get_admin_key (ins_notif r d) i = get_admin_key d i"
  "get_broadcast (ins_notif r d) i = get_broadcast d i"
  "get_rcpt (ins_notif r d) i = get_rcpt d i"
  "get_text (ins_notif r d) i = get_text d i"
  by (simp_all add: get_defs)

lemma get_frame_ins_ticket_msg [simp]:
  "get_user (ins_ticket_msg r d) i = get_user d i"
  "get_tariff (ins_ticket_msg r d) i = get_tariff d i"
  "get_duration (ins_ticket_msg r d) i = get_duration d i"
  "get_sub (ins_ticket_msg r d) i = get_sub d i"
  "get_payment (ins_ticket_msg r d) i = get_payment d i"
  "get_promo (ins_ticket_msg r d) i = get_promo d i"
  "get_ref (ins_ticket_msg r d) i = get_ref d i"
  "get_outbox (ins_ticket_msg r d) i = get_outbox d i"
  "get_ticket (ins_ticket_msg r d) i = get_ticket d i"
  "get_admin_key (ins_ticket_msg r d) i = get_admin_key d i"
  "get_broadcast (ins_ticket_msg r d) i = get_broadcast d i"
  "get_rcpt (ins_ticket_msg r d) i = get_rcpt d i"
  "get_text (ins_ticket_msg r d) i = get_text d i"
  by (simp_all add: get_defs)

lemma get_frame_ins_log [simp]:
  "get_user (ins_log r d) i = get_user d i"
  "get_tariff (ins_log r d) i = get_tariff d i"
  "get_duration (ins_log r d) i = get_duration d i"
  "get_sub (ins_log r d) i = get_sub d i"
  "get_payment (ins_log r d) i = get_payment d i"
  "get_promo (ins_log r d) i = get_promo d i"
  "get_ref (ins_log r d) i = get_ref d i"
  "get_outbox (ins_log r d) i = get_outbox d i"
  "get_ticket (ins_log r d) i = get_ticket d i"
  "get_admin_key (ins_log r d) i = get_admin_key d i"
  "get_broadcast (ins_log r d) i = get_broadcast d i"
  "get_rcpt (ins_log r d) i = get_rcpt d i"
  "get_text (ins_log r d) i = get_text d i"
  by (simp_all add: get_defs)

lemma get_frame_ins_tech_log [simp]:
  "get_user (ins_tech_log r d) i = get_user d i"
  "get_tariff (ins_tech_log r d) i = get_tariff d i"
  "get_duration (ins_tech_log r d) i = get_duration d i"
  "get_sub (ins_tech_log r d) i = get_sub d i"
  "get_payment (ins_tech_log r d) i = get_payment d i"
  "get_promo (ins_tech_log r d) i = get_promo d i"
  "get_ref (ins_tech_log r d) i = get_ref d i"
  "get_outbox (ins_tech_log r d) i = get_outbox d i"
  "get_ticket (ins_tech_log r d) i = get_ticket d i"
  "get_admin_key (ins_tech_log r d) i = get_admin_key d i"
  "get_broadcast (ins_tech_log r d) i = get_broadcast d i"
  "get_rcpt (ins_tech_log r d) i = get_rcpt d i"
  "get_text (ins_tech_log r d) i = get_text d i"
  by (simp_all add: get_defs)

lemmas get_SomeD = get_user_SomeD get_tariff_SomeD get_duration_SomeD get_sub_SomeD get_payment_SomeD get_promo_SomeD get_ref_SomeD get_outbox_SomeD get_ticket_SomeD get_admin_key_SomeD get_broadcast_SomeD get_rcpt_SomeD get_text_SomeD

lemmas next_defs = next_user_def next_tariff_def next_duration_def next_sub_def next_payment_def next_promo_def next_ref_def next_outbox_def next_ticket_def next_admin_key_def next_broadcast_def next_rcpt_def next_text_def next_bt_def next_promo_act_def next_notif_def next_ticket_msg_def next_log_def next_tech_log_def

lemmas mod_defs = mod_user_def mod_tariff_def mod_duration_def mod_sub_def mod_payment_def mod_promo_def mod_ref_def mod_outbox_def mod_ticket_def mod_admin_key_def mod_broadcast_def mod_rcpt_def mod_text_def mod_topic_def

lemmas ins_defs = ins_user_def ins_tariff_def ins_duration_def ins_sub_def ins_payment_def ins_promo_def ins_ref_def ins_outbox_def ins_ticket_def ins_admin_key_def ins_broadcast_def ins_rcpt_def ins_text_def ins_topic_def ins_bt_def ins_promo_act_def ins_notif_def ins_ticket_msg_def ins_log_def ins_tech_log_def

lemmas touch_defs = touch_user_def touch_sub_def touch_payment_def touch_ticket_def touch_text_def touch_topic_def

lemmas read_defs = get_defs row_find_def

end
