(* ===== verification/Errors.thy ===== *)
theory Errors
  imports Schema
begin

text \<open>
  The error classes of \<open>core/exceptions.py\<close> with their class attributes and
  constructors, the HTTP answer each one gives, and the environment a request
  runs in: the clock, the settings, the SQL dialect and the outside services.
  The result of an operation is \<open>exn + 'a\<close>, \<open>Inl\<close> for a raised exception.
\<close>

section \<open>Exceptions\<close>

datatype err_class =
    AppError | NotFoundError | UnauthorizedError | ForbiddenError | ValidationError
  | ConflictError | FreeTrialAlreadyUsedError | InsufficientBalanceError
  | TariffNotFoundError | TariffDurationNotFoundError | SubscriptionNotFoundError
  | SubscriptionNotExtendableError | ReferralSelfReferralError
  | ReferralAlreadyExistsError | RefereeAlreadyHasPurchaseError
  | NorthLineClientError | NorthLineUnavailableError | PromoCodeNotFoundError
  | PromoCodeUnavailableError | TicketAlreadyOpenError | TicketNotFoundError
  | TicketAlreadyClosedError | PaymentProviderUnavailableError | MinimumTopupError

fun class_code :: "err_class \<Rightarrow> string" where
  "class_code AppError = ''internal_error''"
| "class_code NotFoundError = ''not_found''"
| "class_code UnauthorizedError = ''unauthorized''"
| "class_code ForbiddenError = ''forbidden''"
| "class_code ValidationError = ''validation_error''"
| "class_code ConflictError = ''conflict''"
| "class_code FreeTrialAlreadyUsedError = ''free_trial_already_used''"
| "class_code InsufficientBalanceError = ''insufficient_balance''"
| "class_code TariffNotFoundError = ''tariff_not_found''"
| "class_code TariffDurationNotFoundError = ''tariff_duration_not_found''"
| "class_code SubscriptionNotFoundError = ''subscription_not_found''"
| "class_code SubscriptionNotExtendableError = ''subscription_not_extendable''"
| "class_code ReferralSelfReferralError = ''referral_self''"
| "class_code ReferralAlreadyExistsError = ''referral_already_exists''"
| "class_code RefereeAlreadyHasPurchaseError = ''referee_already_has_purchase''"
| "class_code NorthLineClientError = ''northline_client_error''"
| "class_code NorthLineUnavailableError = ''vpn_provider_unavailable''"
| "class_code PromoCodeNotFoundError = ''promo_not_found''"
| "class_code PromoCodeUnavailableError = ''promo_unavailable''"
| "class_code TicketAlreadyOpenError = ''ticket_already_open''"
| "class_code TicketNotFoundError = ''ticket_not_found''"
| "class_code TicketAlreadyClosedError = ''ticket_already_closed''"
| "class_code PaymentProviderUnavailableError = ''payment_provider_unavailable''"
| "class_code MinimumTopupError = ''topup_amount_too_small''"

fun class_status :: "err_class \<Rightarrow> int" where
  "class_status AppError = 500"
| "class_status NotFoundError = 404"
| "class_status UnauthorizedError = 401"
| "class_status ForbiddenError = 403"
| "class_status ValidationError = 422"
| "class_status ConflictError = 409"
| "class_status FreeTrialAlreadyUsedError = 409"
| "class_status InsufficientBalanceError = 402"
| "class_status TariffNotFoundError = 404"
| "class_status TariffDurationNotFoundError = 404"
| "class_status SubscriptionNotFoundError = 404"
| "class_status SubscriptionNotExtendableError = 400"
| "class_status ReferralSelfReferralError = 400"
| "class_status ReferralAlreadyExistsError = 400"
| "class_status RefereeAlreadyHasPurchaseError = 400"
| "class_status NorthLineClientError = 502"
| "class_status NorthLineUnavailableError = 502"
| "class_status PromoCodeNotFoundError = 404"
| "class_status PromoCodeUnavailableError = 400"
| "class_status TicketAlreadyOpenError = 409"
| "class_status TicketNotFoundError = 404"
| "class_status TicketAlreadyClosedError = 409"
| "class_status PaymentProviderUnavailableError = 503"
| "class_status MinimumTopupError = 422"

fun class_message :: "err_class \<Rightarrow> string" where
  "class_message AppError = ''Internal server error''"
| "class_message NotFoundError = ''Resource not found''"
| "class_message UnauthorizedError = ''Unauthorized''"
| "class_message ForbiddenError = ''Forbidden''"
| "class_message ValidationError = ''Validation error''"
| "class_message ConflictError = ''Conflict''"
| "class_message FreeTrialAlreadyUsedError = ''Free trial has already been used for this account''"
| "class_message InsufficientBalanceError = ''Insufficient balance''"
| "class_message TariffNotFoundError = ''Tariff not found''"
| "class_message TariffDurationNotFoundError = ''Tariff duration not found''"
| "class_message SubscriptionNotFoundError = ''Subscription not found''"
| "class_message SubscriptionNotExtendableError = ''Subscription cannot be extended''"
| "class_message ReferralSelfReferralError = ''Cannot refer yourself''"
| "class_message ReferralAlreadyExistsError = ''Referral already registered''"
| "class_message RefereeAlreadyHasPurchaseError = ''Referee already has paid history''"
| "class_message NorthLineClientError = ''NorthLine client error''"
| "class_message NorthLineUnavailableError = ''VPN provider is temporarily unavailable''"
| "class_message PromoCodeNotFoundError = ''Promo code not found''"
| "class_message PromoCodeUnavailableError = ''Promo code is not available''"
| "class_message TicketAlreadyOpenError = ''User already has an open ticket''"
| "class_message TicketNotFoundError = ''Ticket not found''"
| "class_message TicketAlreadyClosedError = ''Ticket is already closed''"
| "class_message PaymentProviderUnavailableError = ''Payment provider is temporarily unavailable''"
| "class_message MinimumTopupError = ''Top-up amount is below the minimum''"

record app_error =
  ae_class :: err_class
  ae_code :: string
  ae_status :: int
  ae_message :: string
  ae_details :: "(string \<times> json) list"

text \<open>\<open>AppExn\<close> is an \<open>AppError\<close>; \<open>PyExn name msg\<close> any other Python exception.\<close>

datatype exn = AppExn app_error | PyExn string string

text \<open>\<open>AppError.__init__(message, status_code=, error_code=, details=)\<close>.\<close>

definition mk_error ::
  "err_class \<Rightarrow> string option \<Rightarrow> string option \<Rightarrow> (string \<times> json) list \<Rightarrow> exn" where
  "mk_error c msg code details =
     AppExn \<lparr>ae_class = c,
             ae_code = (case code of Some x \<Rightarrow> x | None \<Rightarrow> class_code c),
             ae_status = class_status c,
             ae_message = (case msg of Some m \<Rightarrow> m | None \<Rightarrow> class_message c),
             ae_details = details\<rparr>"

definition err :: "err_class \<Rightarrow> exn" where
  "err c = mk_error c None None []"

text \<open>\<open>PromoCodeUnavailableError(message, reason=)\<close>.\<close>

definition promo_unavailable :: "string \<Rightarrow> string \<Rightarrow> exn" where
  "promo_unavailable msg reason =
     mk_error PromoCodeUnavailableError (Some msg) None [(''reason'', JStr reason)]"

text \<open>\<open>NorthLineClientError(error_code, error_message, http_status, details)\<close>.\<close>

definition northline_client_error ::
  "string \<Rightarrow> string \<Rightarrow> (string \<times> json) list \<Rightarrow> exn" where
  "northline_client_error code msg details =
     mk_error NorthLineClientError (Some msg)
       (Some (if code = [] then ''northline_client_error'' else code)) details"

fun exn_str :: "exn \<Rightarrow> string" where
  "exn_str (AppExn a) = ae_message a"
| "exn_str (PyExn n m) = m"

fun exn_class :: "exn \<Rightarrow> err_class option" where
  "exn_class (AppExn a) = Some (ae_class a)"
| "exn_class (PyExn n m) = None"

fun exn_code :: "exn \<Rightarrow> string" where
  "exn_code (AppExn a) = ae_code a"
| "exn_code (PyExn n m) = ''''"

text \<open>\<open>except (NorthLineUnavailableError, NorthLineClientError)\<close>.\<close>

definition is_northline_exn :: "exn \<Rightarrow> bool" where
  "is_northline_exn x =
     (exn_class x = Some NorthLineClientError \<or> exn_class x = Some NorthLineUnavailableError)"

text \<open>The HTTP status and error code a raised exception is answered with.\<close>

fun exn_response :: "exn \<Rightarrow> int \<times> string" where
  "exn_response (AppExn a) = (ae_status a, ae_code a)"
| "exn_response (PyExn n m) = (500, ''internal_error'')"

lemma err_simps [simp]:
  "exn_class (mk_error c m k ds) = Some c"
  "exn_class (err c) = Some c"
  "exn_response (err c) = (class_status c, class_code c)"
  by (simp_all add: mk_error_def err_def)

section \<open>The environment of a request\<close>

datatype dialect = Postgresql | Sqlite

text \<open>What one HTTP exchange with an outside service gives.\<close>

datatype http_outcome =
    TransportError string
  | HttpResponse int "json option" string

record env =
  e_now :: int
  e_trace :: string
  e_dialect :: dialect
  e_admin_tg_id :: "int option"
  e_howto_url :: string
  e_payment_ttl :: int
  e_uuid :: string
  e_test_mode :: bool
  e_bot_username :: string
  e_http :: "string \<Rightarrow> string \<Rightarrow> string \<Rightarrow> json \<Rightarrow> nat \<Rightarrow> http_outcome"
  e_provider_key :: string
  e_datetime :: "json \<Rightarrow> int option"

text \<open>
  \<open>e_http service method path body n\<close> is the outcome of the n-th attempt at a
  request; \<open>e_datetime\<close> is pydantic's validation of a datetime value, \<open>None\<close> when it refuses.
  \<open>truthy\<close> is Python's truth value of an optional string or number.
\<close>

definition str_truthy :: "string option \<Rightarrow> bool" where
  "str_truthy x = (case x of None \<Rightarrow> False | Some s \<Rightarrow> s \<noteq> [])"

definition int_truthy :: "int option \<Rightarrow> bool" where
  "int_truthy x = (case x of None \<Rightarrow> False | Some i \<Rightarrow> i \<noteq> 0)"

fun json_truthy :: "json \<Rightarrow> bool" where
  "json_truthy JNull = False"
| "json_truthy (JBool b) = b"
| "json_truthy (JInt i) = (i \<noteq> 0)"
| "json_truthy (JStr s) = (s \<noteq> [])"
| "json_truthy (JText n as) = True"
| "json_truthy (JArr xs) = (xs \<noteq> [])"
| "json_truthy (JObj kvs) = (kvs \<noteq> [])"

text \<open>\<open>(meta or {}).get(k)\<close> and its truth value.\<close>

definition meta_get :: "(string \<times> json) list option \<Rightarrow> string \<Rightarrow> json option" where
  "meta_get m k = map_of (case m of None \<Rightarrow> [] | Some kvs \<Rightarrow> kvs) k"

definition opt_json_truthy :: "json option \<Rightarrow> bool" where
  "opt_json_truthy j = (case j of None \<Rightarrow> False | Some v \<Rightarrow> json_truthy v)"

text \<open>\<open>str(v)\<close> of the JSON scalars a provider sends.\<close>

fun json_str :: "json \<Rightarrow> string" where
  "json_str (JInt i) = py_str i"
| "json_str (JStr s) = s"
| "json_str (JBool b) = (if b then ''True'' else ''False'')"
| "json_str _ = ''None''"

text \<open>
  A request commits when its handler returns and is rolled back when it raises
  (\<open>db/session.py:get_session\<close>): an operation that raises gives back the state
  as of the last commit.
\<close>

definition rollback :: "exn \<Rightarrow> db \<Rightarrow> (exn + 'a) \<times> db" where
  "rollback x d = (Inl x, d)"

lemma meta_get_jset:
  "meta_get (Some (jset k v ps)) k' = (if k' = k then Some v else meta_get (Some ps) k')"
  by (simp add: meta_get_def map_of_jset)

lemma meta_get_simps [simp]:
  "meta_get None k = None"
  "meta_get (Some []) k = None"
  "meta_get (Some ((k1, v) # ps)) k = (if k1 = k then Some v else meta_get (Some ps) k)"
  by (simp_all add: meta_get_def)

lemma opt_json_truthy_simps [simp]:
  "\<not> opt_json_truthy None"
  "opt_json_truthy (Some v) = json_truthy v"
  by (simp_all add: opt_json_truthy_def)

text \<open>PostgreSQL refuses a value longer than its VARCHAR column; SQLite does not.\<close>

definition varchar_ok :: "env \<Rightarrow> nat \<Rightarrow> string \<Rightarrow> bool" where
  "varchar_ok e n s \<longleftrightarrow> e_dialect e = Sqlite \<or> length s \<le> n"

definition opt_varchar_ok :: "env \<Rightarrow> nat \<Rightarrow> string option \<Rightarrow> bool" where
  "opt_varchar_ok e n s = (case s of None \<Rightarrow> True | Some x \<Rightarrow> varchar_ok e n x)"

end
