(* ===== verification/Logging.thy ===== *)
theory Logging
  imports Errors
begin

text \<open>
  \<open>core/logging.py\<close> (business and technical log rows) and
  \<open>services/admin_alert_service.py\<close> (a critical business event also queues one
  Telegram alert for the administrator, at most one per event and 10 minutes).
  The structlog lines written to stdout are not state and are left out.
\<close>

section \<open>Admin alerts\<close>

definition html_escape :: "string \<Rightarrow> string" where
  "html_escape s = List.concat (List.map (\<lambda>c.
     if c = CHR ''&'' then ''&amp;'' else if c = CHR ''<'' then ''&lt;''
     else if c = CHR ''>'' then ''&gt;'' else if c = CHR 0x22 then ''&quot;''
     else if c = CHR 0x27 then ''&#x27;'' else [c]) s)"

definition alert_pair :: "string \<times> json \<Rightarrow> string" where
  "alert_pair kv = (let v = json_str (snd kv);
                        v' = (if length v > 80 then take 77 v @ ''...'' else v)
                    in html_escape (fst kv) @ ''='' @ html_escape v')"

text \<open>
  \<open>_format_text\<close>: the emoji and the tag in the headline are not ASCII, so the
  body is the named text with its interpolated parts: level, escaped summary,
  the \<open>k=v\<close> pairs and the trace id.
\<close>

definition alert_text :: "env \<Rightarrow> string \<Rightarrow> string \<Rightarrow> (string \<times> json) list \<Rightarrow> json" where
  "alert_text e level summary details =
     JText ''admin_alert''
       [JStr level, JStr (html_escape summary),
        JArr (List.map (\<lambda>kv. JStr (alert_pair kv)) details),
        JStr (html_escape (e_trace e))]"

definition dedup_window :: int where
  "dedup_window = minutes 10"

definition recent_dedup_hit :: "env \<Rightarrow> string \<Rightarrow> db \<Rightarrow> bool" where
  "recent_dedup_hit e key d =
     list_ex (\<lambda>ob. ob_send_after ob \<ge> e_now e - dedup_window
                 \<and> map_of (ob_payload ob) ''dedup_key'' = Some (JStr key)
                 \<and> map_of (ob_payload ob) ''kind'' = Some (JStr ''admin_alert'')) (db_outbox d)"

definition user_by_tg :: "db \<Rightarrow> int \<Rightarrow> user_row option" where
  "user_by_tg d tg = row_find u_tg_id tg (db_users d)"

definition new_outbox :: "env \<Rightarrow> int \<Rightarrow> int \<Rightarrow> string \<Rightarrow> (string \<times> json) list \<Rightarrow> int \<Rightarrow> db \<Rightarrow> outbox_row" where
  "new_outbox e uid chat mtype payload after d =
     \<lparr>ob_id = next_outbox d, ob_user_id = uid, ob_chat_id = chat, ob_message_type = mtype,
      ob_payload = payload, ob_status = ObPending, ob_attempts = 0, ob_last_error = None,
      ob_send_after = after, ob_sent_at = None, ob_created_at = e_now e\<rparr>"

definition send_admin_alert ::
  "env \<Rightarrow> string \<Rightarrow> string \<Rightarrow> (string \<times> json) list \<Rightarrow> string option \<Rightarrow> db \<Rightarrow> db" where
  "send_admin_alert e level summary details dedup_key d =
     (case e_admin_tg_id e of
        None \<Rightarrow> d
      | Some admin \<Rightarrow>
          if admin = 0 then d
          else if str_truthy dedup_key \<and> recent_dedup_hit e (the dedup_key) d then d
          else (case user_by_tg d admin of
                  None \<Rightarrow> d
                | Some u \<Rightarrow>
                    ins_outbox
                      (new_outbox e (u_id u) admin ''text''
                        ([(''text'', alert_text e level summary details),
                          (''parse_mode'', JStr ''HTML''),
                          (''kind'', JStr ''admin_alert''),
                          (''level'', JStr level)]
                         @ (if str_truthy dedup_key
                            then [(''dedup_key'', JStr (the dedup_key))] else []))
                        (e_now e) d) d))"

section \<open>Log rows\<close>

definition level_info :: int where "level_info = 0"
definition level_warning :: int where "level_warning = 1"
definition level_critical :: int where "level_critical = 2"

lemmas level_defs = level_info_def level_warning_def level_critical_def

definition promoted_keys :: "string list" where
  "promoted_keys = [''subscription_id'', ''payment_id'', ''provider_subscription_id'',
                    ''error_code'', ''amount_kopecks'']"

definition alert_details ::
  "string \<Rightarrow> int option \<Rightarrow> (string \<times> json) list \<Rightarrow> (string \<times> json) list" where
  "alert_details event uid ctx =
     [(''event'', JStr event)]
     @ (case uid of None \<Rightarrow> [] | Some u \<Rightarrow> [(''user_id'', JInt u)])
     @ List.concat (List.map (\<lambda>k. case map_of ctx k of
                                     None \<Rightarrow> [] | Some JNull \<Rightarrow> [] | Some v \<Rightarrow> [(k, v)])
                    promoted_keys)"

definition business_log ::
  "env \<Rightarrow> int \<Rightarrow> string \<Rightarrow> int option \<Rightarrow> string \<Rightarrow> (string \<times> json) list \<Rightarrow> db \<Rightarrow> db" where
  "business_log e level event uid msg ctx d =
     (let d1 = ins_log \<lparr>lg_id = next_log d, lg_level = level, lg_event = event,
                        lg_module = ''backend'', lg_user_id = uid, lg_message = msg,
                        lg_context = Some ctx, lg_created_at = e_now e\<rparr> d
      in if level \<ge> level_critical
         then send_admin_alert e ''CRIT'' (if msg \<noteq> [] then msg else event)
                (alert_details event uid ctx) (Some (''business:'' @ event)) d1
         else d1)"

definition tech_log ::
  "env \<Rightarrow> string \<Rightarrow> int option \<Rightarrow> (string \<times> json) list \<Rightarrow> string option \<Rightarrow> db \<Rightarrow> db" where
  "tech_log e action uid payload trace d =
     ins_tech_log \<lparr>tl_id = next_tech_log d,
                   tl_trace_id = (if str_truthy trace then the trace else e_trace e),
                   tl_service = ''backend'', tl_action = action, tl_user_id = uid,
                   tl_payload = Some payload, tl_duration_ms = None,
                   tl_created_at = e_now e\<rparr> d"

section \<open>What logging touches\<close>

lemma send_admin_alert_frame [simp, frame]:
  "db_users (send_admin_alert e l s ds k d) = db_users d"
  "db_tariffs (send_admin_alert e l s ds k d) = db_tariffs d"
  "db_durations (send_admin_alert e l s ds k d) = db_durations d"
  "db_subs (send_admin_alert e l s ds k d) = db_subs d"
  "db_payments (send_admin_alert e l s ds k d) = db_payments d"
  "db_bts (send_admin_alert e l s ds k d) = db_bts d"
  "db_promos (send_admin_alert e l s ds k d) = db_promos d"
  "db_promo_acts (send_admin_alert e l s ds k d) = db_promo_acts d"
  "db_refs (send_admin_alert e l s ds k d) = db_refs d"
  "db_notifs (send_admin_alert e l s ds k d) = db_notifs d"
  "db_tickets (send_admin_alert e l s ds k d) = db_tickets d"
  "db_ticket_msgs (send_admin_alert e l s ds k d) = db_ticket_msgs d"
  "db_topics (send_admin_alert e l s ds k d) = db_topics d"
  "db_idem_keys (send_admin_alert e l s ds k d) = db_idem_keys d"
  "db_admin_keys (send_admin_alert e l s ds k d) = db_admin_keys d"
  "db_logs (send_admin_alert e l s ds k d) = db_logs d"
  "db_tech_logs (send_admin_alert e l s ds k d) = db_tech_logs d"
  "db_broadcasts (send_admin_alert e l s ds k d) = db_broadcasts d"
  "db_rcpts (send_admin_alert e l s ds k d) = db_rcpts d"
  "db_texts (send_admin_alert e l s ds k d) = db_texts d"
  by (simp_all add: send_admin_alert_def split: option.split)

lemma business_log_frame [simp, frame]:
  "db_users (business_log e l ev u m c d) = db_users d"
  "db_tariffs (business_log e l ev u m c d) = db_tariffs d"
  "db_durations (business_log e l ev u m c d) = db_durations d"
  "db_subs (business_log e l ev u m c d) = db_subs d"
  "db_payments (business_log e l ev u m c d) = db_payments d"
  "db_bts (business_log e l ev u m c d) = db_bts d"
  "db_promos (business_log e l ev u m c d) = db_promos d"
  "db_promo_acts (business_log e l ev u m c d) = db_promo_acts d"
  "db_refs (business_log e l ev u m c d) = db_refs d"
  "db_notifs (business_log e l ev u m c d) = db_notifs d"
  "db_tickets (business_log e l ev u m c d) = db_tickets d"
  "db_ticket_msgs (business_log e l ev u m c d) = db_ticket_msgs d"
  "db_topics (business_log e l ev u m c d) = db_topics d"
  "db_idem_keys (business_log e l ev u m c d) = db_idem_keys d"
  "db_admin_keys (business_log e l ev u m c d) = db_admin_keys d"
  "db_tech_logs (business_log e l ev u m c d) = db_tech_logs d"
  "db_broadcasts (business_log e l ev u m c d) = db_broadcasts d"
  "db_rcpts (business_log e l ev u m c d) = db_rcpts d"
  "db_texts (business_log e l ev u m c d) = db_texts d"
  by (simp_all add: business_log_def Let_def)

lemma get_frame_business_log [simp]:
  "get_user (business_log e l ev u m c d) i = get_user d i"
  "get_tariff (business_log e l ev u m c d) i = get_tariff d i"
  "get_duration (business_log e l ev u m c d) i = get_duration d i"
  "get_sub (business_log e l ev u m c d) i = get_sub d i"
  "get_payment (business_log e l ev u m c d) i = get_payment d i"
  "get_promo (business_log e l ev u m c d) i = get_promo d i"
  "get_ref (business_log e l ev u m c d) i = get_ref d i"
  "get_ticket (business_log e l ev u m c d) i = get_ticket d i"
  "get_admin_key (business_log e l ev u m c d) i = get_admin_key d i"
  by (simp_all add: get_defs)

lemma tech_log_frame [simp, frame]:
  "db_users (tech_log e a u p t d) = db_users d"
  "db_tariffs (tech_log e a u p t d) = db_tariffs d"
  "db_durations (tech_log e a u p t d) = db_durations d"
  "db_subs (tech_log e a u p t d) = db_subs d"
  "db_payments (tech_log e a u p t d) = db_payments d"
  "db_bts (tech_log e a u p t d) = db_bts d"
  "db_promos (tech_log e a u p t d) = db_promos d"
  "db_promo_acts (tech_log e a u p t d) = db_promo_acts d"
  "db_refs (tech_log e a u p t d) = db_refs d"
  "db_outbox (tech_log e a u p t d) = db_outbox d"
  "db_notifs (tech_log e a u p t d) = db_notifs d"
  "db_tickets (tech_log e a u p t d) = db_tickets d"
  "db_ticket_msgs (tech_log e a u p t d) = db_ticket_msgs d"
  "db_topics (tech_log e a u p t d) = db_topics d"
  "db_idem_keys (tech_log e a u p t d) = db_idem_keys d"
  "db_admin_keys (tech_log e a u p t d) = db_admin_keys d"
  "db_logs (tech_log e a u p t d) = db_logs d"
  "db_broadcasts (tech_log e a u p t d) = db_broadcasts d"
  "db_rcpts (tech_log e a u p t d) = db_rcpts d"
  "db_texts (tech_log e a u p t d) = db_texts d"
  by (simp_all add: tech_log_def)

lemma get_frame_tech_log [simp]:
  "get_user (tech_log e a u p t d) i = get_user d i"
  "get_tariff (tech_log e a u p t d) i = get_tariff d i"
  "get_duration (tech_log e a u p t d) i = get_duration d i"
  "get_sub (tech_log e a u p t d) i = get_sub d i"
  "get_payment (tech_log e a u p t d) i = get_payment d i"
  "get_promo (tech_log e a u p t d) i = get_promo d i"
  "get_ref (tech_log e a u p t d) i = get_ref d i"
  "get_ticket (tech_log e a u p t d) i = get_ticket d i"
  "get_admin_key (tech_log e a u p t d) i = get_admin_key d i"
  by (simp_all add: get_defs)

lemma business_log_quiet [simp]:
  "l < 2 \<Longrightarrow> db_outbox (business_log e l ev u m c d) = db_outbox d"
  by (simp add: business_log_def level_critical_def)

section \<open>At most one alert per event and window\<close>

definition is_alert :: "string \<Rightarrow> outbox_row \<Rightarrow> bool" where
  "is_alert key ob \<longleftrightarrow> map_of (ob_payload ob) ''dedup_key'' = Some (JStr key)
                  \<and> map_of (ob_payload ob) ''kind'' = Some (JStr ''admin_alert'')"

lemma recent_dedup_hit_iff:
  "recent_dedup_hit e key d \<longleftrightarrow>
     (\<exists>ob\<in>set (db_outbox d). is_alert key ob \<and> e_now e - dedup_window \<le> ob_send_after ob)"
  by (auto simp: recent_dedup_hit_def is_alert_def list_ex_iff)

lemma send_admin_alert_outbox:
  "db_outbox (send_admin_alert e l s ds k d) = db_outbox d \<or>
   (\<exists>ob. db_outbox (send_admin_alert e l s ds k d) = db_outbox d @ [ob] \<and>
        ob_id ob = next_outbox d \<and> ob_status ob = ObPending \<and> ob_attempts ob = 0 \<and>
        map_of (ob_payload ob) ''kind'' = Some (JStr ''admin_alert''))"
  by (auto simp: send_admin_alert_def new_outbox_def split: option.split)

lemma send_admin_alert_hit:
  assumes "e_admin_tg_id e = Some a" "a \<noteq> 0" "user_by_tg d a = Some u" "key \<noteq> []"
  shows "recent_dedup_hit e key (send_admin_alert e l s ds (Some key) d)"
  using assms
  by (auto simp: send_admin_alert_def recent_dedup_hit_iff is_alert_def new_outbox_def
      str_truthy_def dedup_window_def minutes_def)

lemma send_admin_alert_dedup:
  assumes "recent_dedup_hit e key d" "key \<noteq> []"
  shows "send_admin_alert e l s ds (Some key) d = d"
  using assms by (simp add: send_admin_alert_def str_truthy_def split: option.split)

text \<open>Two identical critical events in one window queue one alert, whatever is in between.\<close>

lemma send_admin_alert_once:
  assumes "key \<noteq> []"
    and "e_now e' \<le> e_now e + dedup_window"
    and "e_admin_tg_id e = Some a" "a \<noteq> 0" "user_by_tg d a = Some u"
    and "db_outbox d' = db_outbox (send_admin_alert e l s ds (Some key) d) @ rest"
    and "\<not> recent_dedup_hit e key d"
  shows "send_admin_alert e' l' s' ds' (Some key) d' = d'"
proof (rule send_admin_alert_dedup)
  show "recent_dedup_hit e' key d'"
    using assms
    by (auto simp: send_admin_alert_def recent_dedup_hit_iff is_alert_def new_outbox_def
        str_truthy_def)
qed fact

end
