(* ===== verification/Wallet.thy ===== *)
theory Wallet
  imports Logging
begin

text \<open>
  The wallet: the two writes every balance movement of the services consists of
  (\<open>user.balance_kopecks = new\<close> and a \<open>BalanceTransaction\<close> row), and the contract
  between them.  A database is \<open>ledger_ok\<close> when every balance is the sum of the
  user's ledger rows, every row carries the running balance, and every row
  belongs to a user.
\<close>

definition set_balance :: "env \<Rightarrow> int \<Rightarrow> int \<Rightarrow> db \<Rightarrow> db" where
  "set_balance e uid new d = mod_user (e_now e) uid (\<lambda>u. u\<lparr>u_balance := new\<rparr>) d"

definition add_bt ::
  "env \<Rightarrow> int \<Rightarrow> int \<Rightarrow> bt_reason \<Rightarrow> int option \<Rightarrow> int option \<Rightarrow> string option \<Rightarrow> int \<Rightarrow> db \<Rightarrow> db" where
  "add_bt e uid amount reason pay sub descr after d =
     ins_bt \<lparr>bt_id = next_bt d, bt_user_id = uid, bt_amount = amount, bt_reason = reason,
             bt_ref_payment_id = pay, bt_ref_sub_id = sub, bt_description = descr,
             bt_balance_after = after, bt_created_at = e_now e\<rparr> d"

section \<open>Frames\<close>

lemma set_balance_frame [simp, frame]:
  "db_tariffs (set_balance e u n d) = db_tariffs d"
  "db_durations (set_balance e u n d) = db_durations d"
  "db_subs (set_balance e u n d) = db_subs d"
  "db_payments (set_balance e u n d) = db_payments d"
  "db_bts (set_balance e u n d) = db_bts d"
  "db_promos (set_balance e u n d) = db_promos d"
  "db_promo_acts (set_balance e u n d) = db_promo_acts d"
  "db_refs (set_balance e u n d) = db_refs d"
  "db_outbox (set_balance e u n d) = db_outbox d"
  "db_notifs (set_balance e u n d) = db_notifs d"
  "db_tickets (set_balance e u n d) = db_tickets d"
  "db_ticket_msgs (set_balance e u n d) = db_ticket_msgs d"
  "db_topics (set_balance e u n d) = db_topics d"
  "db_idem_keys (set_balance e u n d) = db_idem_keys d"
  "db_admin_keys (set_balance e u n d) = db_admin_keys d"
  "db_logs (set_balance e u n d) = db_logs d"
  "db_tech_logs (set_balance e u n d) = db_tech_logs d"
  "db_broadcasts (set_balance e u n d) = db_broadcasts d"
  "db_rcpts (set_balance e u n d) = db_rcpts d"
  "db_texts (set_balance e u n d) = db_texts d"
  by (simp_all add: set_balance_def)

lemma add_bt_frame [simp, frame]:
  "db_users (add_bt e u a r p s ds n d) = db_users d"
  "db_tariffs (add_bt e u a r p s ds n d) = db_tariffs d"
  "db_durations (add_bt e u a r p s ds n d) = db_durations d"
  "db_subs (add_bt e u a r p s ds n d) = db_subs d"
  "db_payments (add_bt e u a r p s ds n d) = db_payments d"
  "db_promos (add_bt e u a r p s ds n d) = db_promos d"
  "db_promo_acts (add_bt e u a r p s ds n d) = db_promo_acts d"
  "db_refs (add_bt e u a r p s ds n d) = db_refs d"
  "db_outbox (add_bt e u a r p s ds n d) = db_outbox d"
  "db_notifs (add_bt e u a r p s ds n d) = db_notifs d"
  "db_tickets (add_bt e u a r p s ds n d) = db_tickets d"
  "db_ticket_msgs (add_bt e u a r p s ds n d) = db_ticket_msgs d"
  "db_topics (add_bt e u a r p s ds n d) = db_topics d"
  "db_idem_keys (add_bt e u a r p s ds n d) = db_idem_keys d"
  "db_admin_keys (add_bt e u a r p s ds n d) = db_admin_keys d"
  "db_logs (add_bt e u a r p s ds n d) = db_logs d"
  "db_tech_logs (add_bt e u a r p s ds n d) = db_tech_logs d"
  "db_broadcasts (add_bt e u a r p s ds n d) = db_broadcasts d"
  "db_rcpts (add_bt e u a r p s ds n d) = db_rcpts d"
  "db_texts (add_bt e u a r p s ds n d) = db_texts d"
  by (simp_all add: add_bt_def)

lemma get_frame_set_balance [simp]:
  "get_tariff (set_balance e u n d) i = get_tariff d i"
  "get_duration (set_balance e u n d) i = get_duration d i"
  "get_sub (set_balance e u n d) i = get_sub d i"
  "get_payment (set_balance e u n d) i = get_payment d i"
  "get_promo (set_balance e u n d) i = get_promo d i"
  "get_ref (set_balance e u n d) i = get_ref d i"
  "get_outbox (set_balance e u n d) i = get_outbox d i"
  by (simp_all add: get_defs)

lemma get_frame_add_bt [simp]:
  "get_user (add_bt e u a r p s ds n d) i = get_user d i"
  "get_tariff (add_bt e u a r p s ds n d) i = get_tariff d i"
  "get_duration (add_bt e u a r p s ds n d) i = get_duration d i"
  "get_sub (add_bt e u a r p s ds n d) i = get_sub d i"
  "get_payment (add_bt e u a r p s ds n d) i = get_payment d i"
  "get_promo (add_bt e u a r p s ds n d) i = get_promo d i"
  "get_ref (add_bt e u a r p s ds n d) i = get_ref d i"
  "get_outbox (add_bt e u a r p s ds n d) i = get_outbox d i"
  by (simp_all add: get_defs)

lemma get_user_set_balance [simp]:
  "get_user (set_balance e u n d) k =
     (if k = u then map_option (touch_user (e_now e) (\<lambda>r. r\<lparr>u_balance := n\<rparr>)) (get_user d u)
      else get_user d k)"
  by (simp add: set_balance_def)

section \<open>Reading balances\<close>

definition balance_of :: "db \<Rightarrow> int \<Rightarrow> int option" where
  "balance_of d uid = map_option u_balance (get_user d uid)"

definition ledger_sum :: "db \<Rightarrow> int \<Rightarrow> int" where
  "ledger_sum d uid = sum_where (\<lambda>b. bt_user_id b = uid) bt_amount (db_bts d)"

lemma balance_of_set [simp]:
  "balance_of (set_balance e u n d) k =
     (if k = u \<and> get_user d u \<noteq> None then Some n else balance_of d k)"
  by (auto simp: balance_of_def option.map_comp comp_def map_option_case split: option.split)

lemma balance_of_add_bt [simp]: "balance_of (add_bt e u a r p s ds n d) k = balance_of d k"
  by (simp add: balance_of_def)

lemma ledger_sum_add_bt [simp]:
  "ledger_sum (add_bt e u a r p s ds n d) k = ledger_sum d k + (if k = u then a else 0)"
  by (simp add: ledger_sum_def add_bt_def)

lemma ledger_sum_set_balance [simp]: "ledger_sum (set_balance e u n d) k = ledger_sum d k"
  by (simp add: ledger_sum_def)

section \<open>The wallet contract\<close>

locale wallet =
  fixes bal :: "'d \<Rightarrow> int \<Rightarrow> int option"
    and hist :: "'d \<Rightarrow> int \<Rightarrow> int"
    and post :: "int \<Rightarrow> int \<Rightarrow> 'd \<Rightarrow> 'd"
  assumes bal_post: "bal d u = Some b \<Longrightarrow> bal (post u a d) k = (if k = u then Some (b + a) else bal d k)"
    and hist_post: "bal d u \<noteq> None \<Longrightarrow> hist (post u a d) k = hist d k + (if k = u then a else 0)"
begin

definition balanced :: "'d \<Rightarrow> bool" where
  "balanced d \<longleftrightarrow> (\<forall>k b. bal d k = Some b \<longrightarrow> b = hist d k)"

lemma post_balanced:
  assumes "balanced d" "bal d u = Some b"
  shows "balanced (post u a d)"
  using assms bal_post[OF assms(2)] hist_post[of d u a]
  by (auto simp: balanced_def)

lemma refund_restores:
  assumes "bal d u = Some b"
  shows "bal (post u a (post u (- a) d)) k = bal d k"
    and "hist (post u a (post u (- a) d)) k = hist d k"
proof -
  have 1: "bal (post u (- a) d) u = Some (b - a)" using bal_post[OF assms, of "- a" u] by simp
  show "bal (post u a (post u (- a) d)) k = bal d k"
    using bal_post[OF assms, of "- a" k] bal_post[OF 1, of a k] assms by auto
  show "hist (post u a (post u (- a) d)) k = hist d k"
    using hist_post[of d u "- a" k] hist_post[of "post u (- a) d" u a k] assms 1 by simp
qed

fun posts :: "int \<Rightarrow> int list \<Rightarrow> 'd \<Rightarrow> 'd" where
  "posts u [] d = d"
| "posts u (a # as) d = posts u as (post u a d)"

lemma bal_posts:
  "bal d u = Some b \<Longrightarrow> bal (posts u as d) u = Some (b + sum_list as)"
proof (induction as arbitrary: d b)
  case (Cons a as)
  have "bal (post u a d) u = Some (b + a)" using bal_post[OF Cons.prems, of a u] by simp
  from Cons.IH[OF this] show ?case by (simp add: add.assoc)
qed simp

end

definition post_entry :: "env \<Rightarrow> bt_reason \<Rightarrow> int \<Rightarrow> int \<Rightarrow> db \<Rightarrow> db" where
  "post_entry e reason uid a d =
     (case balance_of d uid of
        None \<Rightarrow> d
      | Some b \<Rightarrow> add_bt e uid a reason None None None (b + a) (set_balance e uid (b + a) d))"

interpretation wal: wallet balance_of ledger_sum "post_entry e r" for e r
proof (unfold_locales, goal_cases)
  case (1 d u b a k)
  then show ?case by (auto simp: post_entry_def balance_of_def)
next
  case (2 d u a k)
  then show ?case by (auto simp: post_entry_def)
qed

section \<open>The ledger invariant\<close>

definition bt_chain :: "bt_row list \<Rightarrow> bool" where
  "bt_chain bts \<longleftrightarrow> (\<forall>pre b post. bts = pre @ b # post \<longrightarrow>
     bt_balance_after b = sum_where (\<lambda>x. bt_user_id x = bt_user_id b) bt_amount (pre @ [b]))"

definition ledger_ok :: "db \<Rightarrow> bool" where
  "ledger_ok d \<longleftrightarrow>
     distinct (List.map u_id (db_users d))
   \<and> (\<forall>u\<in>set (db_users d). u_balance u = ledger_sum d (u_id u))
   \<and> (\<forall>b\<in>set (db_bts d). bt_user_id b \<in> u_id ` set (db_users d))
   \<and> bt_chain (db_bts d)"

lemma bt_chain_snoc:
  assumes "bt_chain bts"
    "bt_balance_after b = sum_where (\<lambda>x. bt_user_id x = bt_user_id b) bt_amount bts + bt_amount b"
  shows "bt_chain (bts @ [b])"
  unfolding bt_chain_def
proof (intro allI impI)
  fix pre c post assume eq: "bts @ [b] = pre @ c # post"
  show "bt_balance_after c = sum_where (\<lambda>x. bt_user_id x = bt_user_id c) bt_amount (pre @ [c])"
  proof (cases post rule: rev_cases)
    case Nil
    then show ?thesis using eq assms(2) by simp
  next
    case (snoc ps q)
    then have "bts = pre @ c # ps" using eq by simp
    then show ?thesis using assms(1) unfolding bt_chain_def by blast
  qed
qed

lemma ledger_balance:
  assumes "ledger_ok d" "get_user d uid = Some u"
  shows "u_balance u = ledger_sum d uid"
  using assms get_user_SomeD[OF assms(2)] by (auto simp: ledger_ok_def)

text \<open>A movement of \<open>a\<close> on one user, with the row that records it, keeps the ledger.\<close>

lemma ledger_post:
  assumes ok: "ledger_ok d" and u: "get_user d uid = Some u"
    and users: "db_users d' = db_users (set_balance e uid (u_balance u + a) d)"
    and bts: "db_bts d' = db_bts d @ [b]"
    and b: "bt_user_id b = uid" "bt_amount b = a" "bt_balance_after b = u_balance u + a"
  shows "ledger_ok d'"
proof -
  have bal: "u_balance u = ledger_sum d uid" by (rule ledger_balance[OF ok u])
  have uid: "uid \<in> u_id ` set (db_users d)" using get_user_SomeD[OF u] by auto
  have ids: "List.map u_id (db_users d') = List.map u_id (db_users d)"
    by (simp add: users set_balance_def db_users_mod_user row_upd_keys)
  have sum: "ledger_sum d' k = ledger_sum d k + (if k = uid then a else 0)" for k
    using b by (simp add: ledger_sum_def bts)
  have "u_balance r = ledger_sum d' (u_id r)" if mem: "r \<in> set (db_users d')" for r
  proof -
    obtain r0 where r0: "r0 \<in> set (db_users d)"
      "r = (if u_id r0 = uid then touch_user (e_now e) (\<lambda>x. x\<lparr>u_balance := u_balance u + a\<rparr>) r0 else r0)"
      using mem unfolding users set_balance_def db_users_mod_user in_row_upd by blast
    have "u_balance r0 = ledger_sum d (u_id r0)" using ok r0(1) by (simp add: ledger_ok_def)
    then show ?thesis using r0(2) bal by (simp add: sum)
  qed
  moreover have "bt_chain (db_bts d')"
    using ok bal b by (simp add: bts bt_chain_snoc ledger_ok_def ledger_sum_def)
  moreover have "u_id ` set (db_users d') = u_id ` set (db_users d)"
    using arg_cong[OF ids, of set] by simp
  ultimately show ?thesis
    using ok uid b(1) by (simp add: ledger_ok_def ids bts)
qed

text \<open>Anything that changes neither ids and balances nor ledger rows keeps it.\<close>

lemma ledger_frame:
  assumes "ledger_ok d" "db_bts d' = db_bts d"
    and "List.map (\<lambda>u. (u_id u, u_balance u)) (db_users d')
         = List.map (\<lambda>u. (u_id u, u_balance u)) (db_users d)"
  shows "ledger_ok d'"
proof -
  have ids: "List.map u_id (db_users d') = List.map u_id (db_users d)"
    using arg_cong[OF assms(3), of "List.map fst"] by (simp add: comp_def)
  have st: "(\<lambda>u. (u_id u, u_balance u)) ` set (db_users d')
            = (\<lambda>u. (u_id u, u_balance u)) ` set (db_users d)"
    using arg_cong[OF assms(3), of set] by simp
  have "u_balance u = ledger_sum d' (u_id u)" if "u \<in> set (db_users d')" for u
  proof -
    have "(u_id u, u_balance u) \<in> (\<lambda>u. (u_id u, u_balance u)) ` set (db_users d)"
      using that st by blast
    then show ?thesis using assms(1,2) by (auto simp: ledger_ok_def ledger_sum_def)
  qed
  moreover have "u_id ` set (db_users d') = u_id ` set (db_users d)"
    using arg_cong[OF ids, of set] by simp
  ultimately show ?thesis using assms(1,2) ids by (simp add: ledger_ok_def)
qed

lemma ledger_frame_eq:
  "ledger_ok d \<Longrightarrow> db_bts d' = db_bts d \<Longrightarrow> db_users d' = db_users d \<Longrightarrow> ledger_ok d'"
  by (rule ledger_frame) simp_all

text \<open>A new user without money keeps it.\<close>

lemma ledger_new_user:
  assumes "ledger_ok d" "db_users d' = db_users d @ [u]" "db_bts d' = db_bts d"
    and "u_id u = next_user d" "u_balance u = 0"
  shows "ledger_ok d'"
proof -
  have new: "u_id u \<notin> u_id ` set (db_users d)"
    using assms(4) by (simp add: next_user_def fresh_id_notin)
  have "bt_user_id r \<noteq> u_id u" if "r \<in> set (db_bts d)" for r
    using assms(1) new that unfolding ledger_ok_def by metis
  then have "ledger_sum d (u_id u) = 0"
    unfolding ledger_sum_def by (intro sum_where_none) blast
  then show ?thesis
    using assms new by (auto simp: ledger_ok_def ledger_sum_def)
qed

lemma ledger_empty: "ledger_ok empty_db"
  by (simp add: ledger_ok_def empty_db_def bt_chain_def)

end
