(* ===== verification/NorthLine.thy ===== *)
theory NorthLine
  imports Errors
begin

text \<open>
  \<open>services/northline_client.py\<close> and \<open>northline_branding.py\<close>: the client of
  the VPN provider.  The provider itself is \<open>e_http\<close>: the outcome of every
  attempt is a parameter.  The client retries transport errors and 5xx answers
  (three attempts), turns a 4xx answer into \<open>NorthLineClientError\<close> at once and
  validates a 2xx body against the response schema.  The best-effort tech log
  the client writes in a session of its own is left out.
\<close>

section \<open>Schema validation of answers\<close>

definition pydantic_error :: exn where
  "pydantic_error = PyExn ''ValidationError'' ''validation error''"

definition as_str :: "json \<Rightarrow> string option" where
  "as_str j = (case j of JStr s \<Rightarrow> Some s | _ \<Rightarrow> None)"

definition all_digits :: "string \<Rightarrow> bool" where
  "all_digits s \<longleftrightarrow> s \<noteq> [] \<and> list_all is_digit s"

definition as_int :: "json \<Rightarrow> int option" where
  "as_int j = (case j of
       JInt i \<Rightarrow> Some i
     | JBool b \<Rightarrow> Some (if b then 1 else 0)
     | JStr s \<Rightarrow> if all_digits s then Some (int (nat_of_str s))
                 else (case s of c # ds \<Rightarrow> if c = CHR ''-'' \<and> all_digits ds
                                            then Some (- int (nat_of_str ds)) else None
                       | [] \<Rightarrow> None)
     | _ \<Rightarrow> None)"

definition req :: "(json \<Rightarrow> 'a option) \<Rightarrow> string \<Rightarrow> json \<Rightarrow> 'a option" where
  "req f k j = (case jfield j k of None \<Rightarrow> None | Some v \<Rightarrow> f v)"

text \<open>An optional field: absent or null is \<open>None\<close>, anything else must validate.\<close>

definition opt :: "(json \<Rightarrow> 'a option) \<Rightarrow> string \<Rightarrow> json \<Rightarrow> 'a option option" where
  "opt f k j = (case jfield j k of None \<Rightarrow> Some None | Some JNull \<Rightarrow> Some None
                | Some v \<Rightarrow> map_option Some (f v))"

record key_response =
  kr_subscription_id :: string
  kr_key :: string
  kr_expires_at :: int
  kr_devices :: int
  kr_days :: int

definition parse_key_response :: "env \<Rightarrow> json \<Rightarrow> exn + key_response" where
  "parse_key_response e j =
     (case (req as_str ''subscription_id'' j, req as_str ''key'' j,
            req (e_datetime e) ''expires_at'' j, req as_int ''devices'' j, req as_int ''days'' j) of
        (Some s, Some k, Some x, Some dv, Some n) \<Rightarrow>
          Inr \<lparr>kr_subscription_id = s, kr_key = k, kr_expires_at = x,
               kr_devices = dv, kr_days = n\<rparr>
      | _ \<Rightarrow> Inl pydantic_error)"

text \<open>\<open>ExtendResponse\<close>: each renamed field is read under its alias first.\<close>

definition alias_req :: "(json \<Rightarrow> 'a option) \<Rightarrow> string \<Rightarrow> string \<Rightarrow> json \<Rightarrow> 'a option" where
  "alias_req f a k j = (case jfield j a of Some v \<Rightarrow> f v | None \<Rightarrow> req f k j)"

definition parse_extend_response :: "env \<Rightarrow> json \<Rightarrow> exn + (string \<times> int \<times> int)" where
  "parse_extend_response e j =
     (case (req as_str ''subscription_id'' j,
            alias_req (e_datetime e) ''new_expires_at'' ''expires_at'' j,
            alias_req as_int ''days_added'' ''added_days'' j) of
        (Some s, Some x, Some n) \<Rightarrow> Inr (s, x, n)
      | _ \<Rightarrow> Inl pydantic_error)"

record key_info =
  ki_subscription_id :: string
  ki_key :: string
  ki_status :: string
  ki_expires_at :: "int option"

definition northline_statuses :: "string list" where
  "northline_statuses = [''active'', ''suspended'', ''expired'', ''deleted'']"

definition parse_key_info :: "env \<Rightarrow> json \<Rightarrow> exn + key_info" where
  "parse_key_info e j =
     (case (req as_str ''subscription_id'' j, req as_str ''key'' j, req as_str ''status'' j,
            opt (e_datetime e) ''expires_at'' j) of
        (Some s, Some k, Some st, Some x) \<Rightarrow>
          if st \<in> set northline_statuses
          then Inr \<lparr>ki_subscription_id = s, ki_key = k, ki_status = st, ki_expires_at = x\<rparr>
          else Inl pydantic_error
      | _ \<Rightarrow> Inl pydantic_error)"

text \<open>The status answers of \<open>/delete\<close>, \<open>/stop\<close> and \<open>/resume\<close> carry one fixed status.\<close>

definition parse_status_response :: "env \<Rightarrow> string \<Rightarrow> json \<Rightarrow> exn + (string \<times> int option)" where
  "parse_status_response e st j =
     (case (req as_str ''subscription_id'' j, req as_str ''status'' j,
            opt (e_datetime e) ''expires_at'' j) of
        (Some s, Some st', Some x) \<Rightarrow> if st' = st then Inr (s, x) else Inl pydantic_error
      | _ \<Rightarrow> Inl pydantic_error)"

section \<open>The request engine\<close>

datatype call_result = CallOk json | CallServerError int | CallNetError string | CallRaise exn

definition nl_client_error :: "int \<Rightarrow> json option \<Rightarrow> exn" where
  "nl_client_error status body =
     (let b = (case body of None \<Rightarrow> JObj [] | Some j \<Rightarrow> j) in
      case b of
        JObj kvs \<Rightarrow>
          (let code = (if opt_json_truthy (map_of kvs ''error_code'')
                       then the (map_of kvs ''error_code'') else JStr ''client_error'');
               msg = (if opt_json_truthy (map_of kvs ''error_message'')
                      then json_str (the (map_of kvs ''error_message''))
                      else ''NorthLine 4xx ('' @ py_str status @ '')'')
           in case code of
                JStr c \<Rightarrow> northline_client_error (str_lower c) msg
                           [(''status_code'', JInt status), (''raw'', b)]
              | _ \<Rightarrow> PyExn ''AttributeError'' ''lower'')
      | _ \<Rightarrow> PyExn ''AttributeError'' ''get'')"

definition nl_unavailable :: "string \<Rightarrow> (string \<times> json) list \<Rightarrow> exn" where
  "nl_unavailable msg ds = mk_error NorthLineUnavailableError (Some msg) None ds"

definition nl_do_call :: "http_outcome \<Rightarrow> call_result" where
  "nl_do_call out = (case out of
       TransportError m \<Rightarrow> CallNetError m
     | HttpResponse status body txt \<Rightarrow>
         if 500 \<le> status \<and> status < 600 then CallServerError status
         else if 400 \<le> status \<and> status < 500 then CallRaise (nl_client_error status body)
         else (case body of
                 Some j \<Rightarrow> CallOk j
               | None \<Rightarrow> CallRaise (nl_unavailable ''Invalid JSON in NorthLine response''
                                     [(''status_code'', JInt status)])))"

text \<open>
  \<open>AsyncRetrying(stop_after_attempt(3), reraise=True)\<close>: \<open>n\<close> counts the attempts
  made, \<open>left\<close> those still allowed after this one.  The waits between attempts
  are not observable here.
\<close>

fun nl_attempts :: "(nat \<Rightarrow> http_outcome) \<Rightarrow> nat \<Rightarrow> nat \<Rightarrow> (exn + json) \<times> nat" where
  "nl_attempts out n left =
     (case nl_do_call (out n) of
        CallOk j \<Rightarrow> (Inr j, Suc n)
      | CallRaise x \<Rightarrow> (Inl x, Suc n)
      | CallServerError st \<Rightarrow>
          (case left of
             0 \<Rightarrow> (Inl (nl_unavailable ''NorthLine server error'' [(''status_code'', JInt st)]), Suc n)
           | Suc left' \<Rightarrow> nl_attempts out (Suc n) left')
      | CallNetError m \<Rightarrow>
          (case left of
             0 \<Rightarrow> (Inl (nl_unavailable ''NorthLine network error'' [(''error'', JStr m)]), Suc n)
           | Suc left' \<Rightarrow> nl_attempts out (Suc n) left'))"

declare nl_attempts.simps [simp del]

definition nl_max_attempts :: nat where "nl_max_attempts = 3"

definition nl_request_n :: "env \<Rightarrow> string \<Rightarrow> string \<Rightarrow> json \<Rightarrow> (exn + json) \<times> nat" where
  "nl_request_n e meth path body =
     nl_attempts (e_http e ''northline'' (meth @ '' '' @ path) path body) 0 (nl_max_attempts - 1)"

definition nl_request :: "env \<Rightarrow> string \<Rightarrow> string \<Rightarrow> json \<Rightarrow> exn + json" where
  "nl_request e meth path body = fst (nl_request_n e meth path body)"

section \<open>Branding\<close>

definition tariff_label :: "string option \<Rightarrow> bool \<Rightarrow> string" where
  "tariff_label code trial =
     (if trial then ''TRIAL''
      else if \<not> str_truthy code then ''''
      else List.map upper_char (str_strip (the code)))"

definition build_branding :: "string option \<Rightarrow> bool \<Rightarrow> json option" where
  "build_branding code trial =
     (let label = tariff_label code trial in
      if label = [] then None
      else Some (JObj [(''service_name'', JText ''service_name'' [JStr ''PIX VPN'', JStr label])]))"

section \<open>The calls\<close>

definition create_key_body ::
  "env \<Rightarrow> int \<Rightarrow> int \<Rightarrow> string \<Rightarrow> (string \<times> json) list \<Rightarrow> bool option \<Rightarrow> int option
    \<Rightarrow> json option \<Rightarrow> json" where
  "create_key_body e days devices idem metadata unlimited lte branding =
     JObj ([(''provider_key'', JStr (e_provider_key e)), (''days'', JInt days),
            (''devices'', JInt devices), (''idempotency_key'', JStr idem),
            (''metadata'', JObj metadata)]
           @ (if e_test_mode e then [(''test'', JBool True)] else [])
           @ (case unlimited of None \<Rightarrow> [] | Some u \<Rightarrow> [(''unlimited_traffic'', JBool u)])
           @ (case lte of None \<Rightarrow> [] | Some g \<Rightarrow> [(''lte_gb'', JInt g)])
           @ (case branding of None \<Rightarrow> [] | Some b \<Rightarrow> [(''branding'', b)]))"

definition create_key ::
  "env \<Rightarrow> int \<Rightarrow> int \<Rightarrow> string \<Rightarrow> (string \<times> json) list \<Rightarrow> bool option \<Rightarrow> int option
    \<Rightarrow> json option \<Rightarrow> exn + key_response" where
  "create_key e days devices idem metadata unlimited lte branding =
     (case nl_request e ''POST'' ''/keys''
             (create_key_body e days devices idem metadata unlimited lte branding) of
        Inl x \<Rightarrow> Inl x
      | Inr data \<Rightarrow> parse_key_response e data)"

definition extend_key :: "env \<Rightarrow> string \<Rightarrow> int \<Rightarrow> string \<Rightarrow> exn + (string \<times> int \<times> int)" where
  "extend_key e sid days idem =
     (case nl_request e ''POST'' (''/keys/'' @ sid @ ''/extend'')
             (JObj [(''provider_key'', JStr (e_provider_key e)), (''days'', JInt days),
                    (''idempotency_key'', JStr idem)]) of
        Inl x \<Rightarrow> Inl x
      | Inr data \<Rightarrow> parse_extend_response e data)"

definition delete_key :: "env \<Rightarrow> string \<Rightarrow> string option \<Rightarrow> exn + (string \<times> int option)" where
  "delete_key e sid idem =
     (case nl_request e ''POST'' (''/keys/'' @ sid @ ''/delete'')
             (JObj ([(''provider_key'', JStr (e_provider_key e))]
                    @ (if str_truthy idem then [(''idempotency_key'', JStr (the idem))] else []))) of
        Inl x \<Rightarrow> Inl x
      | Inr data \<Rightarrow> parse_status_response e ''deleted'' data)"

definition stop_key :: "env \<Rightarrow> string \<Rightarrow> exn + (string \<times> int option)" where
  "stop_key e sid =
     (case nl_request e ''POST'' (''/keys/'' @ sid @ ''/stop'')
             (JObj [(''provider_key'', JStr (e_provider_key e))]) of
        Inl x \<Rightarrow> Inl x
      | Inr data \<Rightarrow> parse_status_response e ''suspended'' data)"

definition resume_key :: "env \<Rightarrow> string \<Rightarrow> exn + (string \<times> int option)" where
  "resume_key e sid =
     (case nl_request e ''POST'' (''/keys/'' @ sid @ ''/resume'')
             (JObj [(''provider_key'', JStr (e_provider_key e))]) of
        Inl x \<Rightarrow> Inl x
      | Inr data \<Rightarrow> parse_status_response e ''active'' data)"

definition get_key :: "env \<Rightarrow> string \<Rightarrow> exn + key_info" where
  "get_key e sid =
     (case nl_request e ''GET'' (''/keys/'' @ sid) JNull of
        Inl x \<Rightarrow> Inl x
      | Inr data \<Rightarrow> parse_key_info e data)"

section \<open>What the engine does\<close>

lemma nl_attempts_count:
  "n < snd (nl_attempts out n left) \<and> snd (nl_attempts out n left) \<le> n + left + 1"
proof (induction left arbitrary: n)
  case 0
  show ?case by (subst (1 2) nl_attempts.simps) (simp split: call_result.split)
next
  case (Suc left)
  show ?case
    using Suc[of "Suc n"] by (subst (1 2) nl_attempts.simps) (auto split: call_result.split)
qed

text \<open>The retryable outcomes: transport errors and 5xx.\<close>

definition retryable :: "http_outcome \<Rightarrow> bool" where
  "retryable out \<longleftrightarrow> (case out of TransportError m \<Rightarrow> True
                        | HttpResponse st b t \<Rightarrow> 500 \<le> st \<and> st < 600)"

lemma nl_do_call_retry:
  "retryable out \<longleftrightarrow> (\<exists>st. nl_do_call out = CallServerError st) \<or> (\<exists>m. nl_do_call out = CallNetError m)"
  by (auto simp: retryable_def nl_do_call_def split: http_outcome.split option.split)

lemma nl_attempts_stops:
  assumes "\<not> retryable (out n)"
  shows "snd (nl_attempts out n left) = Suc n"
  using assms by (subst nl_attempts.simps) (auto simp: nl_do_call_retry split: call_result.split)

lemma nl_attempts_retry:
  assumes "retryable (out n)"
  shows "nl_attempts out n (Suc left) = nl_attempts out (Suc n) left"
  using assms by (subst nl_attempts.simps) (auto simp: nl_do_call_retry split: call_result.split)

lemma nl_attempts_exhausted:
  assumes "\<forall>k. n \<le> k \<and> k \<le> n + left \<longrightarrow> retryable (out k)"
  shows "\<exists>x. nl_attempts out n left = (Inl x, n + left + 1)
             \<and> exn_class x = Some NorthLineUnavailableError"
  using assms
proof (induction left arbitrary: n)
  case 0
  then have "retryable (out n)" by simp
  then show ?case
    by (subst nl_attempts.simps) (auto simp: nl_do_call_retry nl_unavailable_def)
next
  case (Suc left)
  then show ?case using Suc.IH[of "Suc n"] nl_attempts_retry[of out n left] by auto
qed

text \<open>
  A 4xx answer is reported at the first attempt, with the provider's error code
  in lower case.
\<close>

lemma nl_request_client_error:
  assumes "e_http e ''northline'' (meth @ '' '' @ path) path body 0 = HttpResponse st b t"
    and "400 \<le> st" "st < 500"
  shows "nl_request_n e meth path body = (Inl (nl_client_error st b), 1)"
  using assms
  by (simp add: nl_request_n_def nl_max_attempts_def nl_attempts.simps nl_do_call_def)

end
