(* ===== verification/Fixtures.thy ===== *)
theory Fixtures
  imports Errors
begin

text \<open>
  A small concrete database and environment.  They are the inputs at which the
  witnesses instantiate the properties: two users (the second invited by the
  first), one tariff with one duration, a discount promo, a balance promo, an
  active subscription and a pending top-up.
\<close>

definition fx_answer :: json where
  "fx_answer = JObj [(''subscription_id'', JStr ''nl-7''), (''key'', JStr ''https://k/7''),
                     (''expires_at'', JInt 0), (''devices'', JInt 2), (''days'', JInt 30)]"

definition fx_extended :: json where
  "fx_extended = JObj [(''subscription_id'', JStr ''nl-1''), (''new_expires_at'', JInt 0),
                       (''days_added'', JInt 30)]"

text \<open>An outside world in which every provider answers \<open>j\<close> with status \<open>st\<close>.\<close>

definition fx_env :: "int \<Rightarrow> int \<Rightarrow> json \<Rightarrow> env" where
  "fx_env now st j =
     \<lparr>e_now = now, e_trace = ''trace-1'', e_dialect = Postgresql, e_admin_tg_id = None,
      e_howto_url = ''https://howto'', e_payment_ttl = 30, e_uuid = ''uuid-1'',
      e_test_mode = False, e_bot_username = ''@pix_bot'',
      e_http = (\<lambda>svc call path body n. HttpResponse st (Some j) ''''),
      e_provider_key = ''pk'', e_datetime = (\<lambda>j. case j of JInt i \<Rightarrow> Some i | _ \<Rightarrow> None)\<rparr>"

definition fx_user :: "int \<Rightarrow> int \<Rightarrow> int \<Rightarrow> user_row" where
  "fx_user i tg bal =
     \<lparr>u_id = i, u_tg_id = tg, u_username = None, u_first_name = None, u_last_name = None,
      u_language_code = None, u_balance = bal, u_is_banned = False, u_banned_reason = None,
      u_ref_id = None, u_created_at = 0, u_updated_at = 0\<rparr>"

definition fx_tariff :: tariff_row where
  "fx_tariff = \<lparr>t_id = 1, t_code = ''basic'', t_name = ''Basic'', t_description_html = None,
     t_devices = 2, t_sort_order = 1, t_is_active = True, t_is_free_trial = False,
     t_free_trial_days = None, t_lte_gb = 35, t_traffic_gb = None, t_unlimited = True\<rparr>"

definition fx_trial_tariff :: tariff_row where
  "fx_trial_tariff = \<lparr>t_id = 2, t_code = ''free'', t_name = ''Free'', t_description_html = None,
     t_devices = 1, t_sort_order = 0, t_is_active = True, t_is_free_trial = True,
     t_free_trial_days = Some 5, t_lte_gb = 0, t_traffic_gb = Some 50, t_unlimited = True\<rparr>"

definition fx_duration :: duration_row where
  "fx_duration = \<lparr>td_id = 1, td_tariff_id = 1, td_days = 30, td_price = 19900,
     td_is_hot = False, td_is_active = True\<rparr>"

definition fx_promo :: "int \<Rightarrow> string \<Rightarrow> promo_type \<Rightarrow> int \<Rightarrow> promo_row" where
  "fx_promo i code ty v =
     \<lparr>pc_id = i, pc_code = code, pc_type = ty, pc_value = v, pc_max_total = Some 1,
      pc_max_per_user = 1, pc_current = 0, pc_valid_from = None, pc_valid_until = None,
      pc_is_active = True, pc_created_at = 0, pc_created_by = None, pc_description = None,
      pc_user_id = None\<rparr>"

definition fx_sub :: "int \<Rightarrow> int \<Rightarrow> int \<Rightarrow> sub_row" where
  "fx_sub i uid expires =
     \<lparr>s_id = i, s_user_id = uid, s_tariff_id = 1, s_duration_id = Some 1,
      s_provider_id = Some ''nl-1'', s_key_url = Some ''https://k/1'', s_devices = 2, s_days = 30,
      s_status = SubActive, s_started_at = Some 0, s_expires_at = Some expires,
      s_deactivated_at = None, s_deactivation_reason = None, s_is_free_trial = False,
      s_created_at = 0, s_updated_at = 0\<rparr>"

definition fx_payment ::
  "int \<Rightarrow> int \<Rightarrow> int option \<Rightarrow> payment_purpose \<Rightarrow> int \<Rightarrow> (string \<times> json) list \<Rightarrow> payment_row" where
  "fx_payment i uid sid pur amount meta =
     \<lparr>p_id = i, p_user_id = uid, p_sub_id = sid, p_purpose = pur, p_provider = ''platega_sbp'',
      p_external_id = Some (''ext-'' @ py_str i), p_amount = amount, p_currency = ''RUB'',
      p_status = PayPending, p_meta = Some meta, p_paid_at = None, p_created_at = 0,
      p_updated_at = 0\<rparr>"

definition fx_ref :: "int \<Rightarrow> int \<Rightarrow> int \<Rightarrow> ref_row" where
  "fx_ref i referrer referee =
     \<lparr>rf_id = i, rf_referrer_id = referrer, rf_referee_id = referee, rf_bonus_paid = False,
      rf_bonus_paid_at = None, rf_first_purchase_id = None, rf_trial_bonus_issued_at = None,
      rf_created_at = 0\<rparr>"

definition fx_bt :: "int \<Rightarrow> int \<Rightarrow> int \<Rightarrow> bt_row" where
  "fx_bt i uid amount =
     \<lparr>bt_id = i, bt_user_id = uid, bt_amount = amount, bt_reason = BtTopup,
      bt_ref_payment_id = None, bt_ref_sub_id = None, bt_description = None,
      bt_balance_after = amount, bt_created_at = 0\<rparr>"

definition fx_db :: db where
  "fx_db = empty_db
     \<lparr>db_users := [fx_user 1 101 0, fx_user 2 102 50000],
      db_tariffs := [fx_tariff, fx_trial_tariff],
      db_durations := [fx_duration],
      db_subs := [fx_sub 1 2 1000000],
      db_payments := [fx_payment 1 2 None PurTopup 1500 [],
                      fx_payment 2 2 (Some 1) PurExtend 19900
                        [(''subscription_id'', JInt 1), (''days'', JInt 30),
                         (''is_extension'', JBool True)]],
      db_bts := [fx_bt 1 2 50000],
      db_promos := [fx_promo 1 ''SALE'' PromoDiscount 15, fx_promo 2 ''GIFT'' PromoBalance 500],
      db_refs := [fx_ref 1 1 2]\<rparr>"

lemma fx_get [simp]:
  "get_user fx_db 1 = Some (fx_user 1 101 0)"
  "get_user fx_db 2 = Some (fx_user 2 102 50000)"
  "get_tariff fx_db 1 = Some fx_tariff"
  "get_tariff fx_db 2 = Some fx_trial_tariff"
  "get_duration fx_db 1 = Some fx_duration"
  "get_promo fx_db 1 = Some (fx_promo 1 ''SALE'' PromoDiscount 15)"
  "get_promo fx_db 2 = Some (fx_promo 2 ''GIFT'' PromoBalance 500)"
  "get_sub fx_db 1 = Some (fx_sub 1 2 1000000)"
  "get_payment fx_db 1 = Some (fx_payment 1 2 None PurTopup 1500 [])"
  by (simp_all add: get_defs row_find_def fx_db_def fx_user_def fx_tariff_def fx_trial_tariff_def
      fx_duration_def fx_promo_def fx_sub_def fx_payment_def)

lemma fx_env_sel [simp]:
  "e_now (fx_env n st j) = n" "e_http (fx_env n st j) a b c k i = HttpResponse st (Some j) ''''"
  "e_dialect (fx_env n st j) = Postgresql" "e_admin_tg_id (fx_env n st j) = None"
  "e_test_mode (fx_env n st j) = False"
  by (simp_all add: fx_env_def)

lemmas fx_defs = fx_env_def fx_db_def fx_user_def fx_tariff_def fx_trial_tariff_def
  fx_duration_def fx_promo_def fx_sub_def fx_payment_def fx_ref_def fx_bt_def empty_db_def
  fx_answer_def fx_extended_def

end
