(* ===== verification/Promo.thy ===== *)
theory Promo
  imports Wallet NorthLine Fixtures
begin

text \<open>
  \<open>services/tariff_service.py\<close> (the reads the purchase flows use),
  \<open>services/promo_service.py\<close> with its repositories, and
  \<open>services/personal_promo_service.py\<close>.  A balance promo credits the wallet at
  once; a discount promo is only looked at, its activation is recorded when the
  payment is paid.
\<close>

section \<open>Tariffs\<close>

definition get_tariff_or_raise :: "db \<Rightarrow> int \<Rightarrow> exn + tariff_row" where
  "get_tariff_or_raise d tid =
     (case get_tariff d tid of
        None \<Rightarrow> Inl (mk_error TariffNotFoundError
                  (Some (''Tariff id='' @ py_str tid @ '' not found'')) None [])
      | Some t \<Rightarrow> if t_is_active t then Inr t
                 else Inl (mk_error TariffNotFoundError
                  (Some (''Tariff id='' @ py_str tid @ '' not found'')) None []))"

definition get_duration_or_raise :: "db \<Rightarrow> int \<Rightarrow> int \<Rightarrow> exn + duration_row" where
  "get_duration_or_raise d tid did =
     (let x = mk_error TariffDurationNotFoundError
                (Some (''Duration id='' @ py_str did @ '' not found for tariff_id='' @ py_str tid))
                None []
      in case get_duration d did of
           None \<Rightarrow> Inl x
         | Some td \<Rightarrow> if \<not> td_is_active td \<or> td_tariff_id td \<noteq> tid then Inl x else Inr td)"

section \<open>Prices\<close>

definition compute_discounted_price :: "int \<Rightarrow> int \<Rightarrow> int" where
  "compute_discounted_price price percent =
     (if percent \<le> 0 then price
      else if percent \<ge> 100 then 0
      else price * (100 - percent) div 100)"

lemma discounted_le: "0 \<le> price \<Longrightarrow> compute_discounted_price price p \<le> price"
proof -
  assume "0 \<le> price"
  then have "price * (100 - p) \<le> price * 100" if "0 < p"
    using that by (intro mult_left_mono) auto
  then have "price * (100 - p) div 100 \<le> price" if "0 < p"
    using that zdiv_mono1[of "price * (100 - p)" "price * 100" 100] by simp
  then show ?thesis using \<open>0 \<le> price\<close> by (auto simp: compute_discounted_price_def)
qed

lemma discounted_nonneg: "0 \<le> price \<Longrightarrow> 0 \<le> compute_discounted_price price p"
  by (auto simp: compute_discounted_price_def pos_imp_zdiv_nonneg_iff)

lemma discounted_antimono:
  assumes "0 \<le> price" "p \<le> q"
  shows "compute_discounted_price price q \<le> compute_discounted_price price p"
proof -
  consider "p \<le> 0" | "q \<ge> 100" | "0 < p" "q < 100" by linarith
  then show ?thesis
  proof cases
    case 1
    then show ?thesis using discounted_le[OF assms(1)] by (simp add: compute_discounted_price_def)
  next
    case 2
    then show ?thesis using discounted_nonneg[OF assms(1), of p] assms(2)
      by (auto simp: compute_discounted_price_def)
  next
    case 3
    have "price * (100 - q) \<le> price * (100 - p)" using assms by (intro mult_left_mono) auto
    then show ?thesis using 3 assms by (simp add: compute_discounted_price_def zdiv_mono1)
  qed
qed

text \<open>The customer never pays more than the exact percentage, and less by under one kopeck.\<close>

lemma discounted_exact:
  assumes "0 \<le> percent" "percent \<le> 100"
  shows "100 * compute_discounted_price price percent \<le> price * (100 - percent)
       \<and> price * (100 - percent) < 100 * compute_discounted_price price percent + 100"
proof -
  have "price * (100 - percent) = 100 * (price * (100 - percent) div 100)
          + price * (100 - percent) mod 100"
    by simp
  moreover have "0 \<le> price * (100 - percent) mod 100" "price * (100 - percent) mod 100 < 100"
    by simp_all
  ultimately have "100 * (price * (100 - percent) div 100) \<le> price * (100 - percent)
       \<and> price * (100 - percent) < 100 * (price * (100 - percent) div 100) + 100"
    by linarith
  then show ?thesis using assms by (auto simp: compute_discounted_price_def)
qed

section \<open>Promo codes\<close>

record promo_result =
  pr_type :: promo_type
  pr_amount :: "int option"
  pr_percent :: "int option"
  pr_promo_id :: int
  pr_message :: json
  pr_balance :: "int option"

text \<open>
  \<open>PromoCodeRepository.get_by_code\<close>: the comparison ignores case (CITEXT on
  PostgreSQL, \<open>lower\<close> on both sides on SQLite); more than one match raises.
\<close>

definition promo_matches :: "db \<Rightarrow> string \<Rightarrow> promo_row list" where
  "promo_matches d code = filter (\<lambda>p. str_lower (pc_code p) = str_lower code) (db_promos d)"

definition promo_not_found :: "string \<Rightarrow> exn" where
  "promo_not_found code = mk_error PromoCodeNotFoundError (Some ''Promo code not found'') None
                            [(''code'', JStr code)]"

definition user_activations :: "db \<Rightarrow> int \<Rightarrow> int \<Rightarrow> int" where
  "user_activations d pid uid =
     count_where (\<lambda>a. pa_promo_id a = pid \<and> pa_user_id a = uid) (db_promo_acts d)"

definition total_activations :: "db \<Rightarrow> int \<Rightarrow> int" where
  "total_activations d pid = count_where (\<lambda>a. pa_promo_id a = pid) (db_promo_acts d)"

definition add_promo_act :: "env \<Rightarrow> int \<Rightarrow> int \<Rightarrow> int option \<Rightarrow> int \<Rightarrow> db \<Rightarrow> db" where
  "add_promo_act e pid uid pay amount d =
     ins_promo_act \<lparr>pa_id = next_promo_act d, pa_promo_id = pid, pa_user_id = uid,
                    pa_payment_id = pay, pa_amount = amount, pa_created_at = e_now e\<rparr> d"

definition increment_activations :: "int \<Rightarrow> db \<Rightarrow> db" where
  "increment_activations pid d = mod_promo pid (\<lambda>p. p\<lparr>pc_current := pc_current p + 1\<rparr>) d"

definition ensure_window :: "env \<Rightarrow> promo_row \<Rightarrow> exn option" where
  "ensure_window e p =
     (if \<not> pc_is_active p then Some (promo_unavailable ''Promo code is not available'' ''inactive'')
      else if (case pc_valid_from p of None \<Rightarrow> False | Some t \<Rightarrow> e_now e < t)
      then Some (promo_unavailable ''Promo code is not available'' ''not_started'')
      else if (case pc_valid_until p of None \<Rightarrow> False | Some t \<Rightarrow> e_now e > t)
      then Some (promo_unavailable ''Promo code is not available'' ''expired'')
      else None)"

definition total_exhausted :: "promo_row \<Rightarrow> bool" where
  "total_exhausted p \<longleftrightarrow> (case pc_max_total p of None \<Rightarrow> False | Some m \<Rightarrow> pc_current p \<ge> m)"

definition apply_balance :: "env \<Rightarrow> promo_row \<Rightarrow> int \<Rightarrow> db \<Rightarrow> (exn + promo_result) \<times> db" where
  "apply_balance e p uid d =
     (case get_user d uid of
        None \<Rightarrow> (Inl (PyExn ''NoResultFound'' ''No row was found when one was required''), d)
      | Some u \<Rightarrow>
          (let amount = pc_value p;
               new = u_balance u + amount;
               d1 = set_balance e uid new d;
               d2 = add_bt e uid amount BtPromoBonus None None
                      (Some (''Promo code '' @ [CHR 0x27] @ pc_code p @ [CHR 0x27] @ '' applied''))
                      new d1;
               d3 = add_promo_act e (pc_id p) uid None amount d2;
               d4 = increment_activations (pc_id p) d3;
               d5 = business_log e level_info ''promo_balance_applied'' (Some uid)
                      (''Balance promo '' @ [CHR 0x27] @ pc_code p @ [CHR 0x27]
                       @ '' applied (+'' @ py_str amount @ '' kopecks)'')
                      [(''code'', JStr (pc_code p)), (''promo_id'', JInt (pc_id p)),
                       (''value_kopecks'', JInt amount), (''balance_after_kopecks'', JInt new)] d4
           in (Inr \<lparr>pr_type = PromoBalance, pr_amount = Some amount, pr_percent = None,
                    pr_promo_id = pc_id p,
                    pr_message = JText ''promo_balance_message'' [JInt (amount div 100)],
                    pr_balance = Some new\<rparr>, d5)))"

definition apply_discount :: "env \<Rightarrow> promo_row \<Rightarrow> int \<Rightarrow> db \<Rightarrow> (exn + promo_result) \<times> db" where
  "apply_discount e p uid d =
     (Inr \<lparr>pr_type = PromoDiscount, pr_amount = None, pr_percent = Some (pc_value p),
           pr_promo_id = pc_id p,
           pr_message = JText ''promo_discount_message'' [JInt (pc_value p)], pr_balance = None\<rparr>,
      business_log e level_info ''promo_discount_validated'' (Some uid)
        (''Discount promo '' @ [CHR 0x27] @ pc_code p @ [CHR 0x27] @ '' validated ('' @ py_str (pc_value p) @ ''%)'')
        [(''code'', JStr (pc_code p)), (''promo_id'', JInt (pc_id p)),
         (''percent'', JInt (pc_value p))] d)"

definition promo_checks :: "env \<Rightarrow> promo_row \<Rightarrow> int \<Rightarrow> db \<Rightarrow> exn option" where
  "promo_checks e p uid d =
     (case ensure_window e p of
        Some x \<Rightarrow> Some x
      | None \<Rightarrow>
          if total_exhausted p
          then Some (promo_unavailable ''Promo code is not available'' ''max_total_activations_exceeded'')
          else if user_activations d (pc_id p) uid \<ge> pc_max_per_user p
          then Some (promo_unavailable ''Promo code is not available'' ''max_per_user_exceeded'')
          else if pc_user_id p \<noteq> None \<and> pc_user_id p \<noteq> Some uid
          then Some (promo_unavailable ''Promo code is bound to another user'' ''not_for_this_user'')
          else None)"

definition validate_and_apply :: "env \<Rightarrow> string \<Rightarrow> int \<Rightarrow> db \<Rightarrow> (exn + promo_result) \<times> db" where
  "validate_and_apply e code uid d =
     (let c = str_strip code in
      if c = [] then (Inl (promo_not_found code), d)
      else case promo_matches d c of
             [] \<Rightarrow> (Inl (promo_not_found c), d)
           | [existing] \<Rightarrow>
               (case get_promo d (pc_id existing) of
                  None \<Rightarrow> (Inl (promo_not_found c), d)
                | Some p \<Rightarrow>
                    (case promo_checks e p uid d of
                       Some x \<Rightarrow> (Inl x, d)
                     | None \<Rightarrow>
                         (case pc_type p of
                            PromoBalance \<Rightarrow> apply_balance e p uid d
                          | PromoDiscount \<Rightarrow> apply_discount e p uid d
                          | PromoOther t \<Rightarrow>
                              (Inl (promo_unavailable ''Promo code is not available'' ''invalid_type''), d))))
           | _ \<Rightarrow> (Inl (PyExn ''MultipleResultsFound'' ''Multiple rows were found''), d))"

definition record_discount_activation ::
  "env \<Rightarrow> int \<Rightarrow> int \<Rightarrow> int \<Rightarrow> int \<Rightarrow> db \<Rightarrow> int option \<times> db" where
  "record_discount_activation e pid uid pay discount d =
     (case get_promo d pid of
        None \<Rightarrow> (None, d)
      | Some p \<Rightarrow>
          if total_exhausted p then (None, d)
          else if user_activations d pid uid \<ge> pc_max_per_user p then (None, d)
          else (let d1 = add_promo_act e (pc_id p) uid (Some pay) discount d;
                    d2 = increment_activations (pc_id p) d1;
                    d3 = business_log e level_info ''promo_discount_recorded'' (Some uid)
                           (''Discount promo '' @ [CHR 0x27] @ pc_code p @ [CHR 0x27] @ '' applied to payment'')
                           [(''code'', JStr (pc_code p)), (''promo_id'', JInt (pc_id p)),
                            (''payment_id'', JInt pay), (''discount_kopecks'', JInt discount)] d2
                in (Some (next_promo_act d), d3)))"

text \<open>
  \<open>issue_personal_discount\<close>: here the lookup is by the exact code
  (\<open>PromoCode.code == code\<close>, which CITEXT compares ignoring case on PostgreSQL).
  The IntegrityError branch is the race with another transaction between the
  SELECT and the INSERT and re-reads the row that transaction inserted.
\<close>

definition code_eq :: "env \<Rightarrow> string \<Rightarrow> string \<Rightarrow> bool" where
  "code_eq e a b = (if e_dialect e = Postgresql then str_lower a = str_lower b else a = b)"

definition issue_personal_discount ::
  "env \<Rightarrow> int \<Rightarrow> string \<Rightarrow> int \<Rightarrow> int \<Rightarrow> string \<Rightarrow> db \<Rightarrow> promo_row \<times> db" where
  "issue_personal_discount e uid code percent valid_for descr d =
     (case List.find (\<lambda>p. code_eq e (pc_code p) code) (db_promos d) of
        Some p \<Rightarrow> (p, d)
      | None \<Rightarrow>
          (let p = \<lparr>pc_id = next_promo d, pc_code = code, pc_type = PromoDiscount,
                    pc_value = percent, pc_max_total = Some 1, pc_max_per_user = 1,
                    pc_current = 0, pc_valid_from = Some (e_now e),
                    pc_valid_until = Some (e_now e + valid_for), pc_is_active = True,
                    pc_created_at = e_now e, pc_created_by = None, pc_description = Some descr,
                    pc_user_id = Some uid\<rparr>
           in (p, ins_promo p d)))"

section \<open>What the promo operations touch\<close>

lemma add_promo_act_frame [simp, frame]:
  "db_users (add_promo_act e p u y a d) = db_users d"
  "db_tariffs (add_promo_act e p u y a d) = db_tariffs d"
  "db_durations (add_promo_act e p u y a d) = db_durations d"
  "db_subs (add_promo_act e p u y a d) = db_subs d"
  "db_payments (add_promo_act e p u y a d) = db_payments d"
  "db_bts (add_promo_act e p u y a d) = db_bts d"
  "db_promos (add_promo_act e p u y a d) = db_promos d"
  "db_refs (add_promo_act e p u y a d) = db_refs d"
  "db_outbox (add_promo_act e p u y a d) = db_outbox d"
  "db_notifs (add_promo_act e p u y a d) = db_notifs d"
  "db_tickets (add_promo_act e p u y a d) = db_tickets d"
  "db_ticket_msgs (add_promo_act e p u y a d) = db_ticket_msgs d"
  "db_topics (add_promo_act e p u y a d) = db_topics d"
  "db_idem_keys (add_promo_act e p u y a d) = db_idem_keys d"
  "db_admin_keys (add_promo_act e p u y a d) = db_admin_keys d"
  "db_logs (add_promo_act e p u y a d) = db_logs d"
  "db_tech_logs (add_promo_act e p u y a d) = db_tech_logs d"
  "db_broadcasts (add_promo_act e p u y a d) = db_broadcasts d"
  "db_rcpts (add_promo_act e p u y a d) = db_rcpts d"
  "db_texts (add_promo_act e p u y a d) = db_texts d"
  by (simp_all add: add_promo_act_def)

lemma get_frame_add_promo_act [simp]:
  "get_user (add_promo_act e p u y a d) i = get_user d i"
  "get_tariff (add_promo_act e p u y a d) i = get_tariff d i"
  "get_duration (add_promo_act e p u y a d) i = get_duration d i"
  "get_sub (add_promo_act e p u y a d) i = get_sub d i"
  "get_payment (add_promo_act e p u y a d) i = get_payment d i"
  "get_promo (add_promo_act e p u y a d) i = get_promo d i"
  "get_ref (add_promo_act e p u y a d) i = get_ref d i"
  "get_outbox (add_promo_act e p u y a d) i = get_outbox d i"
  "get_ticket (add_promo_act e p u y a d) i = get_ticket d i"
  "get_admin_key (add_promo_act e p u y a d) i = get_admin_key d i"
  by (simp_all add: get_defs)
lemma increment_activations_frame [simp, frame]:
  "db_users (increment_activations p d) = db_users d"
  "db_tariffs (increment_activations p d) = db_tariffs d"
  "db_durations (increment_activations p d) = db_durations d"
  "db_subs (increment_activations p d) = db_subs d"
  "db_payments (increment_activations p d) = db_payments d"
  "db_bts (increment_activations p d) = db_bts d"
  "db_promo_acts (increment_activations p d) = db_promo_acts d"
  "db_refs (increment_activations p d) = db_refs d"
  "db_outbox (increment_activations p d) = db_outbox d"
  "db_notifs (increment_activations p d) = db_notifs d"
  "db_tickets (increment_activations p d) = db_tickets d"
  "db_ticket_msgs (increment_activations p d) = db_ticket_msgs d"
  "db_topics (increment_activations p d) = db_topics d"
  "db_idem_keys (increment_activations p d) = db_idem_keys d"
  "db_admin_keys (increment_activations p d) = db_admin_keys d"
  "db_logs (increment_activations p d) = db_logs d"
  "db_tech_logs (increment_activations p d) = db_tech_logs d"
  "db_broadcasts (increment_activations p d) = db_broadcasts d"
  "db_rcpts (increment_activations p d) = db_rcpts d"
  "db_texts (increment_activations p d) = db_texts d"
  by (simp_all add: increment_activations_def)

lemma get_frame_increment_activations [simp]:
  "get_user (increment_activations p d) i = get_user d i"
  "get_tariff (increment_activations p d) i = get_tariff d i"
  "get_duration (increment_activations p d) i = get_duration d i"
  "get_sub (increment_activations p d) i = get_sub d i"
  "get_payment (increment_activations p d) i = get_payment d i"
  "get_ref (increment_activations p d) i = get_ref d i"
  "get_outbox (increment_activations p d) i = get_outbox d i"
  "get_ticket (increment_activations p d) i = get_ticket d i"
  "get_admin_key (increment_activations p d) i = get_admin_key d i"
  by (simp_all add: get_defs)
lemma apply_balance_frame [simp, frame]:
  "db_tariffs (snd (apply_balance e p u d)) = db_tariffs d"
  "db_durations (snd (apply_balance e p u d)) = db_durations d"
  "db_subs (snd (apply_balance e p u d)) = db_subs d"
  "db_payments (snd (apply_balance e p u d)) = db_payments d"
  "db_refs (snd (apply_balance e p u d)) = db_refs d"
  "db_outbox (snd (apply_balance e p u d)) = db_outbox d"
  "db_notifs (snd (apply_balance e p u d)) = db_notifs d"
  "db_tickets (snd (apply_balance e p u d)) = db_tickets d"
  "db_ticket_msgs (snd (apply_balance e p u d)) = db_ticket_msgs d"
  "db_topics (snd (apply_balance e p u d)) = db_topics d"
  "db_idem_keys (snd (apply_balance e p u d)) = db_idem_keys d"
  "db_admin_keys (snd (apply_balance e p u d)) = db_admin_keys d"
  "db_tech_logs (snd (apply_balance e p u d)) = db_tech_logs d"
  "db_broadcasts (snd (apply_balance e p u d)) = db_broadcasts d"
  "db_rcpts (snd (apply_balance e p u d)) = db_rcpts d"
  "db_texts (snd (apply_balance e p u d)) = db_texts d"
  by (simp_all add: apply_balance_def Let_def level_info_def split: option.split)

lemma get_frame_apply_balance [simp]:
  "get_tariff (snd (apply_balance e p u d)) i = get_tariff d i"
  "get_duration (snd (apply_balance e p u d)) i = get_duration d i"
  "get_sub (snd (apply_balance e p u d)) i = get_sub d i"
  "get_payment (snd (apply_balance e p u d)) i = get_payment d i"
  "get_ref (snd (apply_balance e p u d)) i = get_ref d i"
  "get_outbox (snd (apply_balance e p u d)) i = get_outbox d i"
  "get_ticket (snd (apply_balance e p u d)) i = get_ticket d i"
  "get_admin_key (snd (apply_balance e p u d)) i = get_admin_key d i"
  by (simp_all add: get_defs)
lemma apply_discount_frame [simp, frame]:
  "db_users (snd (apply_discount e p u d)) = db_users d"
  "db_tariffs (snd (apply_discount e p u d)) = db_tariffs d"
  "db_durations (snd (apply_discount e p u d)) = db_durations d"
  "db_subs (snd (apply_discount e p u d)) = db_subs d"
  "db_payments (snd (apply_discount e p u d)) = db_payments d"
  "db_bts (snd (apply_discount e p u d)) = db_bts d"
  "db_promos (snd (apply_discount e p u d)) = db_promos d"
  "db_promo_acts (snd (apply_discount e p u d)) = db_promo_acts d"
  "db_refs (snd (apply_discount e p u d)) = db_refs d"
  "db_outbox (snd (apply_discount e p u d)) = db_outbox d"
  "db_notifs (snd (apply_discount e p u d)) = db_notifs d"
  "db_tickets (snd (apply_discount e p u d)) = db_tickets d"
  "db_ticket_msgs (snd (apply_discount e p u d)) = db_ticket_msgs d"
  "db_topics (snd (apply_discount e p u d)) = db_topics d"
  "db_idem_keys (snd (apply_discount e p u d)) = db_idem_keys d"
  "db_admin_keys (snd (apply_discount e p u d)) = db_admin_keys d"
  "db_tech_logs (snd (apply_discount e p u d)) = db_tech_logs d"
  "db_broadcasts (snd (apply_discount e p u d)) = db_broadcasts d"
  "db_rcpts (snd (apply_discount e p u d)) = db_rcpts d"
  "db_texts (snd (apply_discount e p u d)) = db_texts d"
  by (simp_all add: apply_discount_def level_info_def)

lemma get_frame_apply_discount [simp]:
  "get_user (snd (apply_discount e p u d)) i = get_user d i"
  "get_tariff (snd (apply_discount e p u d)) i = get_tariff d i"
  "get_duration (snd (apply_discount e p u d)) i = get_duration d i"
  "get_sub (snd (apply_discount e p u d)) i = get_sub d i"
  "get_payment (snd (apply_discount e p u d)) i = get_payment d i"
  "get_promo (snd (apply_discount e p u d)) i = get_promo d i"
  "get_ref (snd (apply_discount e p u d)) i = get_ref d i"
  "get_outbox (snd (apply_discount e p u d)) i = get_outbox d i"
  "get_ticket (snd (apply_discount e p u d)) i = get_ticket d i"
  "get_admin_key (snd (apply_discount e p u d)) i = get_admin_key d i"
  by (simp_all add: get_defs)
lemma validate_and_apply_frame [simp, frame]:
  "db_tariffs (snd (validate_and_apply e c u d)) = db_tariffs d"
  "db_durations (snd (validate_and_apply e c u d)) = db_durations d"
  "db_subs (snd (validate_and_apply e c u d)) = db_subs d"
  "db_payments (snd (validate_and_apply e c u d)) = db_payments d"
  "db_refs (snd (validate_and_apply e c u d)) = db_refs d"
  "db_outbox (snd (validate_and_apply e c u d)) = db_outbox d"
  "db_notifs (snd (validate_and_apply e c u d)) = db_notifs d"
  "db_tickets (snd (validate_and_apply e c u d)) = db_tickets d"
  "db_ticket_msgs (snd (validate_and_apply e c u d)) = db_ticket_msgs d"
  "db_topics (snd (validate_and_apply e c u d)) = db_topics d"
  "db_idem_keys (snd (validate_and_apply e c u d)) = db_idem_keys d"
  "db_admin_keys (snd (validate_and_apply e c u d)) = db_admin_keys d"
  "db_tech_logs (snd (validate_and_apply e c u d)) = db_tech_logs d"
  "db_broadcasts (snd (validate_and_apply e c u d)) = db_broadcasts d"
  "db_rcpts (snd (validate_and_apply e c u d)) = db_rcpts d"
  "db_texts (snd (validate_and_apply e c u d)) = db_texts d"
  by (simp_all add: validate_and_apply_def Let_def
        split: list.split option.split promo_type.split)

lemma get_frame_validate_and_apply [simp]:
  "get_tariff (snd (validate_and_apply e c u d)) i = get_tariff d i"
  "get_duration (snd (validate_and_apply e c u d)) i = get_duration d i"
  "get_sub (snd (validate_and_apply e c u d)) i = get_sub d i"
  "get_payment (snd (validate_and_apply e c u d)) i = get_payment d i"
  "get_ref (snd (validate_and_apply e c u d)) i = get_ref d i"
  "get_outbox (snd (validate_and_apply e c u d)) i = get_outbox d i"
  "get_ticket (snd (validate_and_apply e c u d)) i = get_ticket d i"
  "get_admin_key (snd (validate_and_apply e c u d)) i = get_admin_key d i"
  by (simp_all add: get_defs)
lemma record_discount_activation_frame [simp, frame]:
  "db_users (snd (record_discount_activation e p u y a d)) = db_users d"
  "db_tariffs (snd (record_discount_activation e p u y a d)) = db_tariffs d"
  "db_durations (snd (record_discount_activation e p u y a d)) = db_durations d"
  "db_subs (snd (record_discount_activation e p u y a d)) = db_subs d"
  "db_payments (snd (record_discount_activation e p u y a d)) = db_payments d"
  "db_bts (snd (record_discount_activation e p u y a d)) = db_bts d"
  "db_refs (snd (record_discount_activation e p u y a d)) = db_refs d"
  "db_outbox (snd (record_discount_activation e p u y a d)) = db_outbox d"
  "db_notifs (snd (record_discount_activation e p u y a d)) = db_notifs d"
  "db_tickets (snd (record_discount_activation e p u y a d)) = db_tickets d"
  "db_ticket_msgs (snd (record_discount_activation e p u y a d)) = db_ticket_msgs d"
  "db_topics (snd (record_discount_activation e p u y a d)) = db_topics d"
  "db_idem_keys (snd (record_discount_activation e p u y a d)) = db_idem_keys d"
  "db_admin_keys (snd (record_discount_activation e p u y a d)) = db_admin_keys d"
  "db_tech_logs (snd (record_discount_activation e p u y a d)) = db_tech_logs d"
  "db_broadcasts (snd (record_discount_activation e p u y a d)) = db_broadcasts d"
  "db_rcpts (snd (record_discount_activation e p u y a d)) = db_rcpts d"
  "db_texts (snd (record_discount_activation e p u y a d)) = db_texts d"
  by (simp_all add: record_discount_activation_def Let_def level_info_def split: option.split)

lemma get_frame_record_discount_activation [simp]:
  "get_user (snd (record_discount_activation e p u y a d)) i = get_user d i"
  "get_tariff (snd (record_discount_activation e p u y a d)) i = get_tariff d i"
  "get_duration (snd (record_discount_activation e p u y a d)) i = get_duration d i"
  "get_sub (snd (record_discount_activation e p u y a d)) i = get_sub d i"
  "get_payment (snd (record_discount_activation e p u y a d)) i = get_payment d i"
  "get_ref (snd (record_discount_activation e p u y a d)) i = get_ref d i"
  "get_outbox (snd (record_discount_activation e p u y a d)) i = get_outbox d i"
  "get_ticket (snd (record_discount_activation e p u y a d)) i = get_ticket d i"
  "get_admin_key (snd (record_discount_activation e p u y a d)) i = get_admin_key d i"
  by (simp_all add: get_defs)
lemma issue_personal_discount_frame [simp, frame]:
  "db_users (snd (issue_personal_discount e u c p v ds d)) = db_users d"
  "db_tariffs (snd (issue_personal_discount e u c p v ds d)) = db_tariffs d"
  "db_durations (snd (issue_personal_discount e u c p v ds d)) = db_durations d"
  "db_subs (snd (issue_personal_discount e u c p v ds d)) = db_subs d"
  "db_payments (snd (issue_personal_discount e u c p v ds d)) = db_payments d"
  "db_bts (snd (issue_personal_discount e u c p v ds d)) = db_bts d"
  "db_promo_acts (snd (issue_personal_discount e u c p v ds d)) = db_promo_acts d"
  "db_refs (snd (issue_personal_discount e u c p v ds d)) = db_refs d"
  "db_outbox (snd (issue_personal_discount e u c p v ds d)) = db_outbox d"
  "db_notifs (snd (issue_personal_discount e u c p v ds d)) = db_notifs d"
  "db_tickets (snd (issue_personal_discount e u c p v ds d)) = db_tickets d"
  "db_ticket_msgs (snd (issue_personal_discount e u c p v ds d)) = db_ticket_msgs d"
  "db_topics (snd (issue_personal_discount e u c p v ds d)) = db_topics d"
  "db_idem_keys (snd (issue_personal_discount e u c p v ds d)) = db_idem_keys d"
  "db_admin_keys (snd (issue_personal_discount e u c p v ds d)) = db_admin_keys d"
  "db_logs (snd (issue_personal_discount e u c p v ds d)) = db_logs d"
  "db_tech_logs (snd (issue_personal_discount e u c p v ds d)) = db_tech_logs d"
  "db_broadcasts (snd (issue_personal_discount e u c p v ds d)) = db_broadcasts d"
  "db_rcpts (snd (issue_personal_discount e u c p v ds d)) = db_rcpts d"
  "db_texts (snd (issue_personal_discount e u c p v ds d)) = db_texts d"
  by (simp_all add: issue_personal_discount_def Let_def split: option.split)

lemma get_frame_issue_personal_discount [simp]:
  "get_user (snd (issue_personal_discount e u c p v ds d)) i = get_user d i"
  "get_tariff (snd (issue_personal_discount e u c p v ds d)) i = get_tariff d i"
  "get_duration (snd (issue_personal_discount e u c p v ds d)) i = get_duration d i"
  "get_sub (snd (issue_personal_discount e u c p v ds d)) i = get_sub d i"
  "get_payment (snd (issue_personal_discount e u c p v ds d)) i = get_payment d i"
  "get_ref (snd (issue_personal_discount e u c p v ds d)) i = get_ref d i"
  "get_outbox (snd (issue_personal_discount e u c p v ds d)) i = get_outbox d i"
  "get_ticket (snd (issue_personal_discount e u c p v ds d)) i = get_ticket d i"
  "get_admin_key (snd (issue_personal_discount e u c p v ds d)) i = get_admin_key d i"
  by (simp_all add: get_defs)

section \<open>Activations are counted, and within the limits\<close>

text \<open>
  Every promo row counts its activations, and every activation belongs to a
  promo.
\<close>

definition promo_counts_ok :: "db \<Rightarrow> bool" where
  "promo_counts_ok d \<longleftrightarrow>
     distinct (List.map pc_id (db_promos d))
   \<and> (\<forall>p\<in>set (db_promos d). pc_current p = total_activations d (pc_id p))
   \<and> (\<forall>a\<in>set (db_promo_acts d). pa_promo_id a \<in> pc_id ` set (db_promos d))"

lemma total_activations_add [simp]:
  "total_activations (add_promo_act e p u y a d) k
     = total_activations d k + (if k = p then 1 else 0)"
  by (simp add: total_activations_def add_promo_act_def)

lemma user_activations_add [simp]:
  "user_activations (add_promo_act e p u y a d) k v
     = user_activations d k v + (if k = p \<and> v = u then 1 else 0)"
  by (auto simp: user_activations_def add_promo_act_def)

lemma total_activations_cong:
  "db_promo_acts d' = db_promo_acts d \<Longrightarrow> total_activations d' k = total_activations d k"
  by (simp add: total_activations_def)

lemma promo_counts_activation:
  assumes ok: "promo_counts_ok d" and p: "get_promo d pid = Some p"
    and promos: "db_promos d' = db_promos (increment_activations pid d)"
    and acts: "db_promo_acts d' = db_promo_acts (add_promo_act e pid u y a d)"
  shows "promo_counts_ok d'"
proof -
  have total: "total_activations d' k = total_activations d k + (if k = pid then 1 else 0)" for k
    using total_activations_add[of e pid u y a d k] by (simp add: total_activations_def acts)
  have ids: "List.map pc_id (db_promos d') = List.map pc_id (db_promos d)"
    by (simp add: promos increment_activations_def db_promos_mod_promo row_upd_keys)
  have "pc_current q = total_activations d' (pc_id q)" if mem: "q \<in> set (db_promos d')" for q
  proof -
    obtain q0 where "q0 \<in> set (db_promos d)"
      "q = (if pc_id q0 = pid then q0\<lparr>pc_current := pc_current q0 + 1\<rparr> else q0)"
      using mem unfolding promos increment_activations_def db_promos_mod_promo in_row_upd by blast
    then show ?thesis using ok by (auto simp: promo_counts_ok_def total)
  qed
  moreover have "pc_id ` set (db_promos d') = pc_id ` set (db_promos d)"
    using arg_cong[OF ids, of set] by simp
  moreover have "pid \<in> pc_id ` set (db_promos d)" using get_promo_SomeD[OF p] by auto
  ultimately show ?thesis
    using ok by (auto simp: promo_counts_ok_def ids acts add_promo_act_def)
qed

lemma promo_counts_frame:
  "promo_counts_ok d \<Longrightarrow> db_promos d' = db_promos d \<Longrightarrow> db_promo_acts d' = db_promo_acts d
     \<Longrightarrow> promo_counts_ok d'"
  by (simp add: promo_counts_ok_def total_activations_def)

lemma promo_counts_new:
  assumes "promo_counts_ok d" "db_promos d' = db_promos d @ [p]"
    and "db_promo_acts d' = db_promo_acts d" "pc_id p = next_promo d" "pc_current p = 0"
  shows "promo_counts_ok d'"
proof -
  have new: "pc_id p \<notin> pc_id ` set (db_promos d)"
    using assms(4) by (simp add: next_promo_def fresh_id_notin)
  have "pa_promo_id a \<noteq> pc_id p" if "a \<in> set (db_promo_acts d)" for a
    using assms(1) new that unfolding promo_counts_ok_def by metis
  then have "filter (\<lambda>a. pa_promo_id a = pc_id p) (db_promo_acts d) = []"
    by (simp add: filter_empty_conv)
  then have "total_activations d (pc_id p) = 0" by (simp add: total_activations_def count_where_def)
  then show ?thesis
    using assms new by (auto simp: promo_counts_ok_def total_activations_def)
qed

lemma promo_counts_empty: "promo_counts_ok empty_db"
  by (simp add: promo_counts_ok_def empty_db_def)

text \<open>The two ways a promo is used, seen from the outside.\<close>

lemma validate_and_apply_raise:
  "fst (validate_and_apply e code uid d) = Inl x \<Longrightarrow> snd (validate_and_apply e code uid d) = d"
  by (auto simp: validate_and_apply_def apply_balance_def apply_discount_def Let_def
      split: if_splits list.splits option.splits promo_type.splits)

lemma validate_and_apply_ok:
  assumes "fst (validate_and_apply e code uid d) = Inr r"
  obtains p where "get_promo d (pr_promo_id r) = Some p" "promo_checks e p uid d = None"
    "str_lower (pc_code p) = str_lower (str_strip code) \<or> (\<exists>q. q \<in> set (db_promos d) \<and> pc_id q = pc_id p)"
    "(pc_type p = PromoBalance \<and> fst (apply_balance e p uid d) = Inr r
       \<and> snd (validate_and_apply e code uid d) = snd (apply_balance e p uid d))
     \<or> (pc_type p = PromoDiscount \<and> fst (apply_discount e p uid d) = Inr r
       \<and> snd (validate_and_apply e code uid d) = snd (apply_discount e p uid d))"
proof -
  obtain q where q: "promo_matches d (str_strip code) = [q]" "str_strip code \<noteq> []"
    using assms by (auto simp: validate_and_apply_def Let_def split: if_splits list.splits)
  obtain p where p: "get_promo d (pc_id q) = Some p" "promo_checks e p uid d = None"
    using assms q by (auto simp: validate_and_apply_def Let_def split: option.splits)
  have v: "validate_and_apply e code uid d =
      (case pc_type p of PromoBalance \<Rightarrow> apply_balance e p uid d
       | PromoDiscount \<Rightarrow> apply_discount e p uid d
       | PromoOther t \<Rightarrow> (Inl (promo_unavailable ''Promo code is not available'' ''invalid_type''), d))"
    using q p by (simp add: validate_and_apply_def Let_def)
  have id: "pc_id p = pc_id q" "p \<in> set (db_promos d)" using get_promo_SomeD[OF p(1)] by auto
  have "pr_promo_id r = pc_id p" using assms v
    by (auto simp: apply_balance_def apply_discount_def Let_def split: promo_type.splits option.splits)
  then show ?thesis using that[of p] p id v assms by (auto split: promo_type.splits)
qed

lemma apply_balance_effect:
  assumes "fst (apply_balance e p uid d) = Inr r"
  obtains u b where "get_user d uid = Some u"
    "db_users (snd (apply_balance e p uid d)) = db_users (set_balance e uid (u_balance u + pc_value p) d)"
    "db_bts (snd (apply_balance e p uid d)) = db_bts d @ [b]"
    "bt_user_id b = uid" "bt_amount b = pc_value p" "bt_balance_after b = u_balance u + pc_value p"
    "bt_reason b = BtPromoBonus"
    "db_promos (snd (apply_balance e p uid d)) = db_promos (increment_activations (pc_id p) d)"
    "db_promo_acts (snd (apply_balance e p uid d)) = db_promo_acts (add_promo_act e (pc_id p) uid None (pc_value p) d)"
  using assms
  by (auto simp: apply_balance_def Let_def level_info_def add_bt_def add_promo_act_def
      increment_activations_def mod_promo_def next_promo_act_def split: option.splits)

lemma apply_balance_raise:
  "fst (apply_balance e p uid d) = Inl x \<Longrightarrow> snd (apply_balance e p uid d) = d"
  by (auto simp: apply_balance_def Let_def split: option.splits)

lemma validate_and_apply_ledger [keeps]:
  assumes "ledger_ok d"
  shows "ledger_ok (snd (validate_and_apply e code uid d))"
proof (cases "fst (validate_and_apply e code uid d)")
  case (Inl x)
  then show ?thesis using validate_and_apply_raise assms by metis
next
  case (Inr r)
  then show ?thesis
  proof (rule validate_and_apply_ok)
    fix p
    assume "(pc_type p = PromoBalance \<and> fst (apply_balance e p uid d) = Inr r
       \<and> snd (validate_and_apply e code uid d) = snd (apply_balance e p uid d))
     \<or> (pc_type p = PromoDiscount \<and> fst (apply_discount e p uid d) = Inr r
       \<and> snd (validate_and_apply e code uid d) = snd (apply_discount e p uid d))"
    then consider (bal) "fst (apply_balance e p uid d) = Inr r"
        "snd (validate_and_apply e code uid d) = snd (apply_balance e p uid d)"
      | (disc) "snd (validate_and_apply e code uid d) = snd (apply_discount e p uid d)" by blast
    then show ?thesis
    proof cases
      case bal
      then show ?thesis by (metis apply_balance_effect ledger_post assms)
    next
      case disc
      then show ?thesis by (simp add: ledger_frame_eq[OF assms])
    qed
  qed
qed

lemma validate_and_apply_counts [keeps]:
  assumes "promo_counts_ok d"
  shows "promo_counts_ok (snd (validate_and_apply e code uid d))"
proof (cases "fst (validate_and_apply e code uid d)")
  case (Inl x)
  then show ?thesis using validate_and_apply_raise assms by metis
next
  case (Inr r)
  then show ?thesis
  proof (rule validate_and_apply_ok)
    fix p
    assume p: "get_promo d (pr_promo_id r) = Some p"
    then have id: "get_promo d (pc_id p) = Some p" using get_promo_SomeD by metis
    assume "(pc_type p = PromoBalance \<and> fst (apply_balance e p uid d) = Inr r
       \<and> snd (validate_and_apply e code uid d) = snd (apply_balance e p uid d))
     \<or> (pc_type p = PromoDiscount \<and> fst (apply_discount e p uid d) = Inr r
       \<and> snd (validate_and_apply e code uid d) = snd (apply_discount e p uid d))"
    then consider (bal) "fst (apply_balance e p uid d) = Inr r"
        "snd (validate_and_apply e code uid d) = snd (apply_balance e p uid d)"
      | (disc) "snd (validate_and_apply e code uid d) = snd (apply_discount e p uid d)" by blast
    then show ?thesis
    proof cases
      case bal
      then show ?thesis by (metis apply_balance_effect promo_counts_activation assms id)
    next
      case disc
      then show ?thesis by (simp add: promo_counts_frame[OF assms])
    qed
  qed
qed

text \<open>\<open>record_discount_activation\<close>: nothing, or one more activation within the limits.\<close>

lemma record_discount_cases:
  obtains (skipped) "record_discount_activation e pid uid pay a d = (None, d)"
  | (recorded) p where "get_promo d pid = Some p" "\<not> total_exhausted p"
      "user_activations d pid uid < pc_max_per_user p"
      "fst (record_discount_activation e pid uid pay a d) = Some (next_promo_act d)"
      "db_promos (snd (record_discount_activation e pid uid pay a d))
         = db_promos (increment_activations pid d)"
      "db_promo_acts (snd (record_discount_activation e pid uid pay a d))
         = db_promo_acts (add_promo_act e pid uid (Some pay) a d)"
proof (cases "record_discount_activation e pid uid pay a d = (None, d)")
  case False
  then obtain p where p: "get_promo d pid = Some p" "\<not> total_exhausted p"
      "user_activations d pid uid < pc_max_per_user p"
    by (auto simp: record_discount_activation_def split: option.splits if_splits)
  moreover have "pc_id p = pid" using get_promo_SomeD[OF p(1)] by simp
  ultimately show ?thesis
    by (intro recorded) (auto simp: record_discount_activation_def Let_def level_info_def
        increment_activations_def mod_promo_def)
qed (rule skipped)

lemma record_discount_counts [keeps]:
  "promo_counts_ok d \<Longrightarrow> promo_counts_ok (snd (record_discount_activation e pid uid pay a d))"
  by (rule record_discount_cases[of e pid uid pay a d])
     (auto intro: promo_counts_activation)

lemma issue_personal_discount_counts [keeps]:
  "promo_counts_ok d \<Longrightarrow> promo_counts_ok (snd (issue_personal_discount e u c p v ds d))"
  by (auto simp: issue_personal_discount_def Let_def split: option.split
      intro: promo_counts_new)

end
