(* ===== verification/Outbox.thy ===== *)
theory Outbox
  imports Logging Fixtures "HOL-Library.Product_Lexorder"
begin

text \<open>
  \<open>services/outbox_service.py\<close> and the acknowledgement endpoints of
  \<open>api/bot/outbox.py\<close>: queueing a message, claiming a batch of due messages,
  and recording the outcome of a delivery with exponential backoff.  A batch is
  claimed with FOR UPDATE SKIP LOCKED: the ids other transactions hold are the
  argument \<open>locked\<close> (empty on SQLite, which has no row locks).
\<close>

section \<open>Operations\<close>

definition backoff_minutes :: "int \<Rightarrow> int" where
  "backoff_minutes attempts = (if attempts \<le> 0 then 1 else min (2 ^ nat attempts) 60)"

definition enqueue_message ::
  "env \<Rightarrow> int \<Rightarrow> int \<Rightarrow> string \<Rightarrow> (string \<times> json) list \<Rightarrow> int option \<Rightarrow> db \<Rightarrow> db" where
  "enqueue_message e uid chat mtype payload after d =
     ins_outbox (new_outbox e uid chat mtype payload
                  (case after of Some t \<Rightarrow> t | None \<Rightarrow> e_now e) d) d"

definition is_due :: "env \<Rightarrow> outbox_row \<Rightarrow> bool" where
  "is_due e ob \<longleftrightarrow> ob_status ob = ObPending \<and> ob_send_after ob \<le> e_now e"

definition claim_row :: "outbox_row \<Rightarrow> outbox_row" where
  "claim_row ob = ob\<lparr>ob_status := ObDispatching, ob_attempts := ob_attempts ob + 1\<rparr>"

definition due_batch :: "env \<Rightarrow> nat \<Rightarrow> int list \<Rightarrow> db \<Rightarrow> outbox_row list" where
  "due_batch e limit locked d =
     take limit (sort_key (\<lambda>ob. (ob_send_after ob, ob_id ob))
       (filter (\<lambda>ob. is_due e ob \<and> ob_id ob \<notin> set locked) (db_outbox d)))"

definition fetch_pending ::
  "env \<Rightarrow> nat \<Rightarrow> int list \<Rightarrow> db \<Rightarrow> outbox_row list \<times> db" where
  "fetch_pending e limit locked d =
     (let rows = due_batch e limit locked d in
      if rows = [] then ([], d)
      else let ids = List.map ob_id rows;
               d' = d\<lparr>db_outbox := List.map (\<lambda>ob. if ob_id ob \<in> set ids then claim_row ob else ob)
                                      (db_outbox d)\<rparr>
           in (List.map_filter (\<lambda>r. get_outbox d' (ob_id r)) rows, d'))"

definition sent_row :: "env \<Rightarrow> int option \<Rightarrow> outbox_row \<Rightarrow> outbox_row" where
  "sent_row e tg ob =
     ob\<lparr>ob_status := ObSent, ob_sent_at := Some (e_now e),
        ob_payload := (case tg of None \<Rightarrow> ob_payload ob
                       | Some m \<Rightarrow> jset ''tg_message_id'' (JInt m) (ob_payload ob))\<rparr>"

definition max_attempts :: int where "max_attempts = 5"

definition failed_row :: "env \<Rightarrow> string \<Rightarrow> outbox_row \<Rightarrow> outbox_row" where
  "failed_row e error ob =
     (if ob_attempts ob \<ge> max_attempts
      then ob\<lparr>ob_last_error := Some error, ob_status := ObFailed\<rparr>
      else ob\<lparr>ob_last_error := Some error, ob_status := ObPending,
              ob_send_after := e_now e + minutes (backoff_minutes (ob_attempts ob))\<rparr>)"

definition outbox_not_found :: "int \<Rightarrow> exn" where
  "outbox_not_found i = mk_error NotFoundError
     (Some (''Outbox message id='' @ py_str i @ '' not found'')) (Some ''outbox_not_found'') []"

definition mark_sent :: "env \<Rightarrow> int \<Rightarrow> int option \<Rightarrow> db \<Rightarrow> (exn + outbox_status) \<times> db" where
  "mark_sent e i tg d =
     (case get_outbox d i of
        None \<Rightarrow> (Inl (outbox_not_found i), d)
      | Some ob \<Rightarrow> (Inr ObSent, mod_outbox i (sent_row e tg) d))"

definition mark_failed :: "env \<Rightarrow> int \<Rightarrow> string \<Rightarrow> db \<Rightarrow> (exn + outbox_status) \<times> db" where
  "mark_failed e i error d =
     (case get_outbox d i of
        None \<Rightarrow> (Inl (outbox_not_found i), d)
      | Some ob \<Rightarrow> (Inr (ob_status (failed_row e error ob)), mod_outbox i (failed_row e error) d))"

section \<open>What queueing touches\<close>

lemma enqueue_message_frame [simp, frame]:
  "db_users (enqueue_message e u c t p a d) = db_users d"
  "db_tariffs (enqueue_message e u c t p a d) = db_tariffs d"
  "db_durations (enqueue_message e u c t p a d) = db_durations d"
  "db_subs (enqueue_message e u c t p a d) = db_subs d"
  "db_payments (enqueue_message e u c t p a d) = db_payments d"
  "db_bts (enqueue_message e u c t p a d) = db_bts d"
  "db_promos (enqueue_message e u c t p a d) = db_promos d"
  "db_promo_acts (enqueue_message e u c t p a d) = db_promo_acts d"
  "db_refs (enqueue_message e u c t p a d) = db_refs d"
  "db_notifs (enqueue_message e u c t p a d) = db_notifs d"
  "db_tickets (enqueue_message e u c t p a d) = db_tickets d"
  "db_ticket_msgs (enqueue_message e u c t p a d) = db_ticket_msgs d"
  "db_topics (enqueue_message e u c t p a d) = db_topics d"
  "db_idem_keys (enqueue_message e u c t p a d) = db_idem_keys d"
  "db_admin_keys (enqueue_message e u c t p a d) = db_admin_keys d"
  "db_logs (enqueue_message e u c t p a d) = db_logs d"
  "db_tech_logs (enqueue_message e u c t p a d) = db_tech_logs d"
  "db_broadcasts (enqueue_message e u c t p a d) = db_broadcasts d"
  "db_rcpts (enqueue_message e u c t p a d) = db_rcpts d"
  "db_texts (enqueue_message e u c t p a d) = db_texts d"
  by (simp_all add: enqueue_message_def)

lemma get_frame_enqueue_message [simp]:
  "get_user (enqueue_message e u c t p a d) i = get_user d i"
  "get_tariff (enqueue_message e u c t p a d) i = get_tariff d i"
  "get_duration (enqueue_message e u c t p a d) i = get_duration d i"
  "get_sub (enqueue_message e u c t p a d) i = get_sub d i"
  "get_payment (enqueue_message e u c t p a d) i = get_payment d i"
  "get_promo (enqueue_message e u c t p a d) i = get_promo d i"
  "get_ref (enqueue_message e u c t p a d) i = get_ref d i"
  "get_ticket (enqueue_message e u c t p a d) i = get_ticket d i"
  "get_admin_key (enqueue_message e u c t p a d) i = get_admin_key d i"
  by (simp_all add: get_defs)

lemma db_outbox_enqueue [effect]:
  "db_outbox (enqueue_message e u c t p a d) =
     db_outbox d @ [new_outbox e u c t p (case a of Some x \<Rightarrow> x | None \<Rightarrow> e_now e) d]"
  by (simp add: enqueue_message_def)

section \<open>Claiming a batch\<close>

definition outbox_keys_ok :: "db \<Rightarrow> bool" where
  "outbox_keys_ok d \<longleftrightarrow> distinct (List.map ob_id (db_outbox d))"

lemma due_batch_mem:
  "ob \<in> set (due_batch e n locked d) \<Longrightarrow>
     ob \<in> set (db_outbox d) \<and> is_due e ob \<and> ob_id ob \<notin> set locked"
  by (auto simp: due_batch_def dest!: in_set_takeD)

lemma due_batch_sorted:
  "sorted (List.map (\<lambda>ob. (ob_send_after ob, ob_id ob)) (due_batch e n locked d))"
  by (simp add: due_batch_def take_map[symmetric] sorted_wrt_take)

lemma due_batch_length: "length (due_batch e n locked d) \<le> n"
  by (simp add: due_batch_def)

lemma due_batch_distinct:
  assumes "outbox_keys_ok d"
  shows "distinct (List.map ob_id (due_batch e n locked d))"
proof -
  let ?P = "\<lambda>ob. is_due e ob \<and> ob_id ob \<notin> set locked"
  let ?s = "sort_key (\<lambda>ob. (ob_send_after ob, ob_id ob)) (filter ?P (db_outbox d))"
  have "distinct (List.map ob_id (filter ?P (db_outbox d)))"
    using assms by (simp add: outbox_keys_ok_def distinct_map_filter)
  then have "distinct (List.map ob_id ?s)"
    by (simp add: distinct_map)
  then show ?thesis by (simp add: due_batch_def take_map[symmetric] distinct_take)
qed

lemma get_outbox_claimed:
  assumes "get_outbox d i = Some ob"
  shows "get_outbox (d\<lparr>db_outbox := List.map (\<lambda>ob. if ob_id ob \<in> S then claim_row ob else ob)
                                    (db_outbox d)\<rparr>) i
         = Some (if i \<in> S then claim_row ob else ob)"
proof -
  have "row_find ob_id i (List.map (\<lambda>ob. if ob_id ob \<in> S then claim_row ob else ob) xs)
        = map_option (\<lambda>ob. if i \<in> S then claim_row ob else ob) (row_find ob_id i xs)" for xs
    by (induction xs) (auto simp: row_find_Cons claim_row_def)
  then show ?thesis using assms by (simp add: get_outbox_def)
qed

lemma fetch_pending_rows:
  assumes "outbox_keys_ok d"
  shows "fst (fetch_pending e n locked d) = List.map claim_row (due_batch e n locked d)"
proof (cases "due_batch e n locked d = []")
  case False
  let ?rows = "due_batch e n locked d"
  let ?d' = "d\<lparr>db_outbox := List.map (\<lambda>ob. if ob_id ob \<in> set (List.map ob_id ?rows)
                then claim_row ob else ob) (db_outbox d)\<rparr>"
  have "get_outbox ?d' (ob_id r) = Some (claim_row r)" if "r \<in> set ?rows" for r
  proof -
    have "get_outbox d (ob_id r) = Some r"
      using that assms due_batch_mem[of r e n locked d]
      by (simp add: get_outbox_def outbox_keys_ok_def row_find_distinct)
    from get_outbox_claimed[OF this] show ?thesis using that by simp
  qed
  then have "List.map_filter (\<lambda>r. get_outbox ?d' (ob_id r)) ?rows = List.map claim_row ?rows"
    by (simp add: List.map_filter_def filter_id_conv cong: map_cong)
  then show ?thesis using False by (simp add: fetch_pending_def Let_def)
qed (simp add: fetch_pending_def)

lemma fetch_pending_state:
  "db_outbox (snd (fetch_pending e n locked d)) =
     List.map (\<lambda>ob. if ob_id ob \<in> ob_id ` set (due_batch e n locked d) then claim_row ob else ob)
       (db_outbox d)"
  by (auto simp: fetch_pending_def Let_def)

lemma claim_row_sel [simp]:
  "ob_id (claim_row ob) = ob_id ob" "ob_status (claim_row ob) = ObDispatching"
  "ob_attempts (claim_row ob) = ob_attempts ob + 1" "ob_send_after (claim_row ob) = ob_send_after ob"
  "ob_payload (claim_row ob) = ob_payload ob" "ob_chat_id (claim_row ob) = ob_chat_id ob"
  by (simp_all add: claim_row_def)

lemma fetch_pending_keys_ok:
  "outbox_keys_ok d \<Longrightarrow> outbox_keys_ok (snd (fetch_pending e n locked d))"
  by (simp add: outbox_keys_ok_def fetch_pending_state comp_def if_distrib[of ob_id] cong: if_cong)

section \<open>The queue contract\<close>

text \<open>
  What the worker relies on: a claim hands out open items only, and an item that
  was handed out is no longer open.  Consecutive claims are then disjoint.
\<close>

locale claim_queue =
  fixes open_items :: "'d \<Rightarrow> int set"
    and good :: "'d \<Rightarrow> bool"
    and claim :: "'e \<Rightarrow> 'd \<Rightarrow> int list \<times> 'd"
  assumes claim_open: "good d \<Longrightarrow> set (fst (claim e d)) \<subseteq> open_items d"
    and claim_takes: "good d \<Longrightarrow> open_items (snd (claim e d)) = open_items d - set (fst (claim e d))"
    and claim_good: "good d \<Longrightarrow> good (snd (claim e d))"
    and claim_distinct: "good d \<Longrightarrow> distinct (fst (claim e d))"
begin

fun claims :: "'e list \<Rightarrow> 'd \<Rightarrow> int list" where
  "claims [] d = []"
| "claims (e # es) d = fst (claim e d) @ claims es (snd (claim e d))"

lemma claims_open: "good d \<Longrightarrow> set (claims es d) \<subseteq> open_items d"
proof (induction es arbitrary: d)
  case (Cons e es)
  then have "set (claims es (snd (claim e d))) \<subseteq> open_items (snd (claim e d))"
    by (simp add: claim_good)
  then show ?case using Cons.prems claim_open claim_takes by auto
qed simp

lemma claims_distinct: "good d \<Longrightarrow> distinct (claims es d)"
proof (induction es arbitrary: d)
  case (Cons e es)
  have "set (claims es (snd (claim e d))) \<subseteq> open_items d - set (fst (claim e d))"
    using claims_open[OF claim_good[OF Cons.prems]] claim_takes[OF Cons.prems] by blast
  then show ?case using Cons by (auto simp: claim_good claim_distinct)
qed simp

end

definition pending_ids :: "db \<Rightarrow> int set" where
  "pending_ids d = ob_id ` {ob \<in> set (db_outbox d). ob_status ob = ObPending}"

definition claim_ids :: "env \<times> nat \<times> int list \<Rightarrow> db \<Rightarrow> int list \<times> db" where
  "claim_ids x d = (case x of (e, n, locked) \<Rightarrow>
     (List.map ob_id (fst (fetch_pending e n locked d)), snd (fetch_pending e n locked d)))"

lemma claim_ids_sel:
  assumes "outbox_keys_ok d"
  shows "fst (claim_ids (e, n, locked) d) = List.map ob_id (due_batch e n locked d)"
  using assms by (simp add: claim_ids_def fetch_pending_rows comp_def)

lemma pending_ids_claimed:
  assumes "outbox_keys_ok d"
  shows "pending_ids (snd (fetch_pending e n locked d))
         = pending_ids d - ob_id ` set (due_batch e n locked d)"
  by (auto simp: pending_ids_def fetch_pending_state split: if_splits)

interpretation outbox_queue: claim_queue pending_ids outbox_keys_ok claim_ids
proof (standard, goal_cases)
  case (1 d x)
  then show ?case
    by (cases x) (auto simp: claim_ids_sel pending_ids_def is_due_def dest!: due_batch_mem)
next
  case (2 d x)
  then show ?case
    by (cases x) (simp add: claim_ids_sel, simp add: claim_ids_def pending_ids_claimed)
next
  case (3 d x)
  then show ?case by (cases x) (simp add: claim_ids_def fetch_pending_keys_ok)
next
  case (4 d x)
  then show ?case by (cases x) (simp add: claim_ids_sel due_batch_distinct)
qed

section \<open>Delivery outcomes\<close>

lemma backoff_bounds: "1 \<le> backoff_minutes a \<and> backoff_minutes a \<le> 60"
proof (cases "a \<le> 0")
  case False
  then have "(1::int) \<le> 2 ^ nat a" by simp
  then show ?thesis using False by (simp add: backoff_minutes_def)
qed (simp add: backoff_minutes_def)

lemma backoff_mono: "a \<le> b \<Longrightarrow> backoff_minutes a \<le> backoff_minutes b"
proof -
  assume ab: "a \<le> b"
  show ?thesis
  proof (cases "a \<le> 0")
    case True
    then show ?thesis using backoff_bounds[of b] by (simp add: backoff_minutes_def)
  next
    case False
    then have "(2::int) ^ nat a \<le> 2 ^ nat b"
      using ab by (simp add: power_increasing nat_mono)
    then show ?thesis using False ab by (simp add: backoff_minutes_def min.coboundedI1 min_le_iff_disj)
  qed
qed

lemma failed_row_id [simp]: "ob_id (failed_row e m ob) = ob_id ob"
  and failed_row_attempts [simp]: "ob_attempts (failed_row e m ob) = ob_attempts ob"
  and sent_row_id [simp]: "ob_id (sent_row e tg ob) = ob_id ob"
  by (simp_all add: failed_row_def sent_row_def)

text \<open>A message that the worker claims and fails to deliver, again and again.\<close>

fun fail_cycles :: "(env \<times> string) list \<Rightarrow> outbox_row \<Rightarrow> outbox_row" where
  "fail_cycles [] ob = ob"
| "fail_cycles ((e, m) # es) ob =
     (if ob_status ob = ObPending then fail_cycles es (failed_row e m (claim_row ob)) else ob)"

lemma fail_cycles_status:
  assumes "ob_status ob = ObPending" "0 \<le> ob_attempts ob" "ob_attempts ob < max_attempts"
  shows "ob_status (fail_cycles es ob) = (if int (length es) < max_attempts - ob_attempts ob
                                          then ObPending else ObFailed)
       \<and> ob_attempts (fail_cycles es ob) = min max_attempts (ob_attempts ob + int (length es))"
  using assms
proof (induction es arbitrary: ob)
  case (Cons x es)
  obtain e m where x: "x = (e, m)" by (cases x)
  let ?ob = "failed_row e m (claim_row ob)"
  show ?case
  proof (cases "ob_attempts ob + 1 < max_attempts")
    case True
    then have "ob_status ?ob = ObPending" "ob_attempts ?ob = ob_attempts ob + 1"
      by (simp_all add: failed_row_def)
    then show ?thesis using Cons.IH[of ?ob] Cons.prems True x by auto
  next
    case False
    then have "ob_status ?ob = ObFailed" "ob_attempts ?ob = ob_attempts ob + 1"
      by (simp_all add: failed_row_def)
    moreover then have "fail_cycles es ?ob = ?ob" by (cases es) auto
    ultimately show ?thesis using Cons.prems False x by auto
  qed
qed (simp add: max_attempts_def)

end
