(* ===== verification/Referral.thy ===== *)
theory Referral
  imports Promo Outbox
begin

text \<open>
  \<open>services/referral_service.py\<close> and its repository: binding a new user to the
  one who invited them, the one-off bonus of the referrer, and the statistics of
  the profile screen.
\<close>

definition referral_bonus :: int where "referral_bonus = 7000"

definition referral_discount_percent :: int where "referral_discount_percent = 15"

definition ref_by_referee :: "db \<Rightarrow> int \<Rightarrow> ref_row option" where
  "ref_by_referee d uid = row_find rf_referee_id uid (db_refs d)"

definition has_paid_history :: "db \<Rightarrow> int \<Rightarrow> bool" where
  "has_paid_history d uid =
     list_ex (\<lambda>p. p_user_id p = uid \<and> p_status p = PayPaid \<and> p_amount p > 0) (db_payments d)"

definition register_referral ::
  "env \<Rightarrow> int \<Rightarrow> int \<Rightarrow> bool \<Rightarrow> db \<Rightarrow> (exn + int option) \<times> db" where
  "register_referral e referrer referee is_new d =
     (if \<not> is_new then (Inr None, d)
      else if referrer = referee then (Inl (err ReferralSelfReferralError), d)
      else if ref_by_referee d referee \<noteq> None then (Inl (err ReferralAlreadyExistsError), d)
      else if has_paid_history d referee then (Inl (err RefereeAlreadyHasPurchaseError), d)
      else (let i = next_ref d;
                d1 = ins_ref \<lparr>rf_id = i, rf_referrer_id = referrer, rf_referee_id = referee,
                              rf_bonus_paid = False, rf_bonus_paid_at = None,
                              rf_first_purchase_id = None, rf_trial_bonus_issued_at = None,
                              rf_created_at = e_now e\<rparr> d;
                d2 = business_log e level_info ''referral_registered'' (Some referee)
                       (''Referee user_id='' @ py_str referee @ '' registered for referrer user_id=''
                        @ py_str referrer)
                       [(''referrer_id'', JInt referrer), (''referee_id'', JInt referee)] d1
            in (Inr (Some i), d2)))"

definition auto_discount_for_referee :: "db \<Rightarrow> int \<Rightarrow> int option" where
  "auto_discount_for_referee d uid =
     (if ref_by_referee d uid = None then None
      else if has_paid_history d uid then None else Some referral_discount_percent)"

definition pay_bonus :: "env \<Rightarrow> int \<Rightarrow> ref_row \<Rightarrow> ref_row" where
  "pay_bonus e pid r = r\<lparr>rf_bonus_paid := True, rf_bonus_paid_at := Some (e_now e),
                         rf_first_purchase_id := Some pid\<rparr>"

definition apply_referrer_bonus :: "env \<Rightarrow> user_row \<Rightarrow> payment_row \<Rightarrow> db \<Rightarrow> db" where
  "apply_referrer_bonus e referee pay d =
     (if p_purpose pay = PurTopup then d
      else if p_amount pay \<le> 0 then d
      else case ref_by_referee d (u_id referee) of
             None \<Rightarrow> d
           | Some r \<Rightarrow>
               if rf_bonus_paid r then d
               else case get_user d (rf_referrer_id r) of
                      None \<Rightarrow> d
                    | Some referrer \<Rightarrow>
                        (let new = u_balance referrer + referral_bonus;
                             d1 = set_balance e (u_id referrer) new d;
                             d2 = add_bt e (u_id referrer) referral_bonus BtReferralBonus
                                    (Some (p_id pay)) None
                                    (Some (''Referral bonus for referee user_id='' @ py_str (u_id referee)
                                           @ '' payment_id='' @ py_str (p_id pay))) new d1;
                             d3 = mod_ref (rf_id r) (pay_bonus e (p_id pay)) d2;
                             d4 = enqueue_message e (u_id referrer) (u_tg_id referrer) ''text''
                                    [(''text_key'', JStr ''referral_bonus_credited''),
                                     (''format_kwargs'', JObj [(''username'',
                                        if str_truthy (u_username referee)
                                        then JStr (the (u_username referee)) else JText ''friend'' [])]),
                                     (''parse_mode'', JStr ''HTML''),
                                     (''kind'', JStr ''referral_bonus_credited'')] None d3
                         in business_log e level_info ''referral_bonus_credited'' (Some (u_id referrer))
                              (''Referral bonus +'' @ py_str referral_bonus
                               @ '' kopecks credited to referrer user_id='' @ py_str (u_id referrer)
                               @ '' for referee user_id='' @ py_str (u_id referee))
                              [(''referee_id'', JInt (u_id referee)), (''payment_id'', JInt (p_id pay)),
                               (''amount_kopecks'', JInt referral_bonus), (''balance_after'', JInt new),
                               (''referral_id'', JInt (rf_id r))] d4))"

definition count_referrals :: "db \<Rightarrow> int \<Rightarrow> int" where
  "count_referrals d uid = count_where (\<lambda>r. rf_referrer_id r = uid) (db_refs d)"

definition sum_earned :: "db \<Rightarrow> int \<Rightarrow> int" where
  "sum_earned d uid = sum_where (\<lambda>b. bt_user_id b = uid \<and> bt_reason b = BtReferralBonus)
                        bt_amount (db_bts d)"

definition get_stats :: "db \<Rightarrow> int \<Rightarrow> int \<times> int" where
  "get_stats d uid = (count_referrals d uid, sum_earned d uid)"

section \<open>What the operations touch\<close>

lemma register_referral_frame [simp, frame]:
  "db_users (snd (register_referral e r u n d)) = db_users d"
  "db_tariffs (snd (register_referral e r u n d)) = db_tariffs d"
  "db_durations (snd (register_referral e r u n d)) = db_durations d"
  "db_subs (snd (register_referral e r u n d)) = db_subs d"
  "db_payments (snd (register_referral e r u n d)) = db_payments d"
  "db_bts (snd (register_referral e r u n d)) = db_bts d"
  "db_promos (snd (register_referral e r u n d)) = db_promos d"
  "db_promo_acts (snd (register_referral e r u n d)) = db_promo_acts d"
  "db_outbox (snd (register_referral e r u n d)) = db_outbox d"
  "db_notifs (snd (register_referral e r u n d)) = db_notifs d"
  "db_tickets (snd (register_referral e r u n d)) = db_tickets d"
  "db_ticket_msgs (snd (register_referral e r u n d)) = db_ticket_msgs d"
  "db_topics (snd (register_referral e r u n d)) = db_topics d"
  "db_idem_keys (snd (register_referral e r u n d)) = db_idem_keys d"
  "db_admin_keys (snd (register_referral e r u n d)) = db_admin_keys d"
  "db_tech_logs (snd (register_referral e r u n d)) = db_tech_logs d"
  "db_broadcasts (snd (register_referral e r u n d)) = db_broadcasts d"
  "db_rcpts (snd (register_referral e r u n d)) = db_rcpts d"
  "db_texts (snd (register_referral e r u n d)) = db_texts d"
  by (simp_all add: register_referral_def Let_def level_info_def)

lemma get_frame_register_referral [simp]:
  "get_user (snd (register_referral e r u n d)) i = get_user d i"
  "get_tariff (snd (register_referral e r u n d)) i = get_tariff d i"
  "get_duration (snd (register_referral e r u n d)) i = get_duration d i"
  "get_sub (snd (register_referral e r u n d)) i = get_sub d i"
  "get_payment (snd (register_referral e r u n d)) i = get_payment d i"
  "get_promo (snd (register_referral e r u n d)) i = get_promo d i"
  "get_outbox (snd (register_referral e r u n d)) i = get_outbox d i"
  "get_ticket (snd (register_referral e r u n d)) i = get_ticket d i"
  "get_admin_key (snd (register_referral e r u n d)) i = get_admin_key d i"
  by (simp_all add: get_defs)
lemma apply_referrer_bonus_frame [simp, frame]:
  "db_tariffs (apply_referrer_bonus e r p d) = db_tariffs d"
  "db_durations (apply_referrer_bonus e r p d) = db_durations d"
  "db_subs (apply_referrer_bonus e r p d) = db_subs d"
  "db_payments (apply_referrer_bonus e r p d) = db_payments d"
  "db_promos (apply_referrer_bonus e r p d) = db_promos d"
  "db_promo_acts (apply_referrer_bonus e r p d) = db_promo_acts d"
  "db_notifs (apply_referrer_bonus e r p d) = db_notifs d"
  "db_tickets (apply_referrer_bonus e r p d) = db_tickets d"
  "db_ticket_msgs (apply_referrer_bonus e r p d) = db_ticket_msgs d"
  "db_topics (apply_referrer_bonus e r p d) = db_topics d"
  "db_idem_keys (apply_referrer_bonus e r p d) = db_idem_keys d"
  "db_admin_keys (apply_referrer_bonus e r p d) = db_admin_keys d"
  "db_tech_logs (apply_referrer_bonus e r p d) = db_tech_logs d"
  "db_broadcasts (apply_referrer_bonus e r p d) = db_broadcasts d"
  "db_rcpts (apply_referrer_bonus e r p d) = db_rcpts d"
  "db_texts (apply_referrer_bonus e r p d) = db_texts d"
  by (simp_all add: apply_referrer_bonus_def Let_def split: option.split)

lemma get_frame_apply_referrer_bonus [simp]:
  "get_tariff (apply_referrer_bonus e r p d) i = get_tariff d i"
  "get_duration (apply_referrer_bonus e r p d) i = get_duration d i"
  "get_sub (apply_referrer_bonus e r p d) i = get_sub d i"
  "get_payment (apply_referrer_bonus e r p d) i = get_payment d i"
  "get_promo (apply_referrer_bonus e r p d) i = get_promo d i"
  "get_ticket (apply_referrer_bonus e r p d) i = get_ticket d i"
  "get_admin_key (apply_referrer_bonus e r p d) i = get_admin_key d i"
  by (simp_all add: get_defs)

section \<open>One bonus per invited user\<close>

text \<open>
  The ledger shows as many bonus rows for a user as there are paid referrals of
  theirs, each of the fixed amount, and no user is invited twice.
\<close>

definition is_bonus_of :: "int \<Rightarrow> bt_row \<Rightarrow> bool" where
  "is_bonus_of uid b \<longleftrightarrow> bt_user_id b = uid \<and> bt_reason b = BtReferralBonus"

definition is_paid_ref_of :: "int \<Rightarrow> ref_row \<Rightarrow> bool" where
  "is_paid_ref_of uid r \<longleftrightarrow> rf_referrer_id r = uid \<and> rf_bonus_paid r"

definition bonus_ok :: "db \<Rightarrow> bool" where
  "bonus_ok d \<longleftrightarrow>
     distinct (List.map rf_id (db_refs d))
   \<and> distinct (List.map rf_referee_id (db_refs d))
   \<and> (\<forall>uid. count_where (is_bonus_of uid) (db_bts d) = count_where (is_paid_ref_of uid) (db_refs d))
   \<and> (\<forall>b\<in>set (db_bts d). bt_reason b = BtReferralBonus \<longrightarrow> bt_amount b = referral_bonus)"

lemma bonus_frame:
  "bonus_ok d \<Longrightarrow> db_refs d' = db_refs d \<Longrightarrow> db_bts d' = db_bts d \<Longrightarrow> bonus_ok d'"
  by (simp add: bonus_ok_def)

text \<open>Ledger rows with another reason do not matter.\<close>

lemma bonus_other_row:
  assumes "bonus_ok d" "db_refs d' = db_refs d" "db_bts d' = db_bts d @ [b]"
    and "bt_reason b \<noteq> BtReferralBonus"
  shows "bonus_ok d'"
  using assms by (auto simp: bonus_ok_def is_bonus_of_def)

lemma bonus_empty: "bonus_ok empty_db"
  by (simp add: bonus_ok_def empty_db_def)

lemma apply_referrer_bonus_cases:
  obtains (nothing) "apply_referrer_bonus e referee pay d = d"
  | (paid) r u b where
      "ref_by_referee d (u_id referee) = Some r" "\<not> rf_bonus_paid r"
      "get_user d (rf_referrer_id r) = Some u" "0 < p_amount pay" "p_purpose pay \<noteq> PurTopup"
      "db_users (apply_referrer_bonus e referee pay d)
         = db_users (set_balance e (rf_referrer_id r) (u_balance u + referral_bonus) d)"
      "db_bts (apply_referrer_bonus e referee pay d) = db_bts d @ [b]"
      "bt_user_id b = rf_referrer_id r" "bt_amount b = referral_bonus"
      "bt_balance_after b = u_balance u + referral_bonus" "bt_reason b = BtReferralBonus"
      "db_refs (apply_referrer_bonus e referee pay d)
         = row_upd rf_id (rf_id r) (pay_bonus e (p_id pay)) (db_refs d)"
proof (cases "apply_referrer_bonus e referee pay d = d")
  case False
  then obtain r u where r: "ref_by_referee d (u_id referee) = Some r" "\<not> rf_bonus_paid r"
      "get_user d (rf_referrer_id r) = Some u" "0 < p_amount pay" "p_purpose pay \<noteq> PurTopup"
    by (auto simp: apply_referrer_bonus_def split: if_splits option.splits)
  moreover have "u_id u = rf_referrer_id r" using get_user_SomeD[OF r(3)] by simp
  ultimately show ?thesis
    by (intro paid)
       (auto simp: apply_referrer_bonus_def Let_def add_bt_def next_bt_def mod_ref_def)
qed (rule nothing)

lemma pay_bonus_sel [simp]:
  "rf_id (pay_bonus e p r) = rf_id r" "rf_referrer_id (pay_bonus e p r) = rf_referrer_id r"
  "rf_referee_id (pay_bonus e p r) = rf_referee_id r" "rf_bonus_paid (pay_bonus e p r)"
  "rf_trial_bonus_issued_at (pay_bonus e p r) = rf_trial_bonus_issued_at r"
  by (simp_all add: pay_bonus_def)

lemma apply_referrer_bonus_ledger [keeps]:
  assumes "ledger_ok d"
  shows "ledger_ok (apply_referrer_bonus e referee pay d)"
proof (rule apply_referrer_bonus_cases[of e referee pay d])
  fix r u b
  assume "get_user d (rf_referrer_id r) = Some u"
      "db_users (apply_referrer_bonus e referee pay d)
         = db_users (set_balance e (rf_referrer_id r) (u_balance u + referral_bonus) d)"
      "db_bts (apply_referrer_bonus e referee pay d) = db_bts d @ [b]"
      "bt_user_id b = rf_referrer_id r" "bt_amount b = referral_bonus"
      "bt_balance_after b = u_balance u + referral_bonus"
  then show ?thesis by (rule ledger_post[OF assms])
qed (simp add: assms)

lemma apply_referrer_bonus_bonus_ok [keeps]:
  assumes "bonus_ok d"
  shows "bonus_ok (apply_referrer_bonus e referee pay d)"
proof (rule apply_referrer_bonus_cases[of e referee pay d])
  fix r u b
  let ?d = "apply_referrer_bonus e referee pay d"
  assume r: "ref_by_referee d (u_id referee) = Some r" "\<not> rf_bonus_paid r"
    and b: "db_bts ?d = db_bts d @ [b]" "bt_user_id b = rf_referrer_id r"
      "bt_amount b = referral_bonus" "bt_reason b = BtReferralBonus"
    and refs: "db_refs ?d = row_upd rf_id (rf_id r) (pay_bonus e (p_id pay)) (db_refs d)"
  have rin: "r \<in> set (db_refs d)"
    using r(1) by (auto simp: ref_by_referee_def dest: row_find_SomeD)
  have dist: "distinct (List.map rf_id (db_refs d))" using assms by (simp add: bonus_ok_def)
  have find: "row_find rf_id (rf_id r) (db_refs d) = Some r"
    by (rule row_find_distinct[OF dist rin])
  have "count_where (is_paid_ref_of k) (db_refs ?d)
        = count_where (is_paid_ref_of k) (db_refs d) + (if rf_referrer_id r = k then 1 else 0)" for k
    using r(2) by (simp add: refs count_where_upd[OF dist find] is_paid_ref_of_def)
  moreover have "count_where (is_bonus_of k) (db_bts ?d)
        = count_where (is_bonus_of k) (db_bts d) + (if rf_referrer_id r = k then 1 else 0)" for k
    using b by (simp add: is_bonus_of_def)
  moreover have "List.map rf_id (db_refs ?d) = List.map rf_id (db_refs d)"
    by (simp add: refs row_upd_keys)
  moreover have "List.map rf_referee_id (db_refs ?d) = List.map rf_referee_id (db_refs d)"
    by (simp add: refs map_row_upd)
  ultimately show ?thesis using assms b by (auto simp: bonus_ok_def)
qed (simp add: assms)

lemma apply_referrer_bonus_idem:
  assumes "bonus_ok d"
  shows "apply_referrer_bonus e' referee pay' (apply_referrer_bonus e referee pay d)
           = apply_referrer_bonus e referee pay d
       \<or> apply_referrer_bonus e referee pay d = d"
proof (rule apply_referrer_bonus_cases[of e referee pay d])
  fix r
  let ?d = "apply_referrer_bonus e referee pay d"
  assume r: "ref_by_referee d (u_id referee) = Some r"
    and refs: "db_refs ?d = row_upd rf_id (rf_id r) (pay_bonus e (p_id pay)) (db_refs d)"
  have "row_find rf_referee_id (u_id referee) (row_upd rf_id (rf_id r) f xs)
          = Some (f r)"
    if "row_find rf_referee_id (u_id referee) xs = Some r" "distinct (List.map rf_id xs)"
       "rf_referee_id (f r) = rf_referee_id r" for f xs
    using that by (induction xs) (auto simp: row_find_Cons row_upd_def split: if_splits
        dest!: row_find_SomeD)
  then have "ref_by_referee ?d (u_id referee) = Some (pay_bonus e (p_id pay) r)"
    using r assms by (simp add: ref_by_referee_def refs bonus_ok_def)
  then show ?thesis
    by (subst (1) apply_referrer_bonus_def) simp
qed simp

lemma sum_earned_count:
  assumes "bonus_ok d"
  shows "sum_earned d uid = referral_bonus * count_where (is_paid_ref_of uid) (db_refs d)"
proof -
  have "sum_earned d uid = referral_bonus * count_where (is_bonus_of uid) (db_bts d)"
    using assms unfolding sum_earned_def is_bonus_of_def[abs_def]
    by (intro sum_where_const) (auto simp: bonus_ok_def)
  then show ?thesis using assms by (simp add: bonus_ok_def)
qed

lemma register_referral_bonus_ok [keeps]:
  assumes "bonus_ok d"
  shows "bonus_ok (snd (register_referral e r u n d))"
proof (cases "ref_by_referee d u = None")
  case True
  then have new: "u \<notin> rf_referee_id ` set (db_refs d)"
    by (simp add: ref_by_referee_def row_find_None)
  have "next_ref d \<notin> rf_id ` set (db_refs d)" by (simp add: next_ref_def fresh_id_notin)
  then show ?thesis
    using assms new
    by (simp add: register_referral_def Let_def bonus_ok_def is_paid_ref_of_def)
next
  case False
  then show ?thesis using assms by (simp add: register_referral_def)
qed

lemma register_referral_raise:
  "fst (register_referral e r u n d) = Inl x \<Longrightarrow> snd (register_referral e r u n d) = d"
  by (auto simp: register_referral_def Let_def split: if_splits)

end
