(* ===== verification/Repos.thy ===== *)
theory Repos
  imports Promo
begin

text \<open>
  \<open>repositories/subscription_repo.py\<close>, \<open>payment_repo.py\<close> and
  \<open>services/subscription_service.py\<close>: creating and finding subscriptions and
  payments, and the promo discount both purchase flows look up.
\<close>

definition create_sub ::
  "env \<Rightarrow> int \<Rightarrow> int \<Rightarrow> int option \<Rightarrow> int \<Rightarrow> int \<Rightarrow> bool \<Rightarrow> db \<Rightarrow> db" where
  "create_sub e uid tid did devices days trial d =
     ins_sub \<lparr>s_id = next_sub d, s_user_id = uid, s_tariff_id = tid, s_duration_id = did,
              s_provider_id = None, s_key_url = None, s_devices = devices, s_days = days,
              s_status = SubPending, s_started_at = None, s_expires_at = None,
              s_deactivated_at = None, s_deactivation_reason = None, s_is_free_trial = trial,
              s_created_at = e_now e, s_updated_at = e_now e\<rparr> d"

definition create_payment ::
  "env \<Rightarrow> int \<Rightarrow> int option \<Rightarrow> payment_purpose \<Rightarrow> string \<Rightarrow> int \<Rightarrow> payment_status \<Rightarrow> int option
    \<Rightarrow> (string \<times> json) list \<Rightarrow> db \<Rightarrow> db" where
  "create_payment e uid sid purpose provider amount status paid_at meta d =
     ins_payment \<lparr>p_id = next_payment d, p_user_id = uid, p_sub_id = sid, p_purpose = purpose,
                  p_provider = provider, p_external_id = None, p_amount = amount,
                  p_currency = ''RUB'', p_status = status, p_meta = Some meta,
                  p_paid_at = paid_at, p_created_at = e_now e, p_updated_at = e_now e\<rparr> d"

text \<open>
  Storing the invoice on the payment: \<open>external_id\<close> is UNIQUE and VARCHAR(128), so the
  flush fails when another payment has it or it is too long.
\<close>

definition attach_invoice ::
  "env \<Rightarrow> int \<Rightarrow> string \<Rightarrow> (string \<times> json) list \<Rightarrow> db \<Rightarrow> exn + db" where
  "attach_invoice e pid ext meta d =
     (if list_ex (\<lambda>p. p_id p \<noteq> pid \<and> p_external_id p = Some ext) (db_payments d)
      then Inl (PyExn ''IntegrityError'' ''duplicate key value violates unique constraint'')
      else if \<not> varchar_ok e 128 ext
      then Inl (PyExn ''DBAPIError'' ''value too long for type character varying'')
      else Inr (mod_payment (e_now e) pid
                  (\<lambda>p. p\<lparr>p_external_id := Some ext, p_meta := Some meta\<rparr>) d))"

lemma attach_invoice_Inr:
  "attach_invoice e pid ext meta d = Inr d' \<longleftrightarrow>
     \<not> list_ex (\<lambda>p. p_id p \<noteq> pid \<and> p_external_id p = Some ext) (db_payments d)
   \<and> varchar_ok e 128 ext
   \<and> d' = mod_payment (e_now e) pid (\<lambda>p. p\<lparr>p_external_id := Some ext, p_meta := Some meta\<rparr>) d"
  by (auto simp: attach_invoice_def)

definition sub_get_owned :: "db \<Rightarrow> int \<Rightarrow> int \<Rightarrow> sub_row option" where
  "sub_get_owned d sid uid = List.find (\<lambda>s. s_id s = sid \<and> s_user_id s = uid) (db_subs d)"

definition list_for_user :: "env \<Rightarrow> int \<Rightarrow> int \<Rightarrow> db \<Rightarrow> sub_row list" where
  "list_for_user e uid recent d =
     sort_key (\<lambda>s. - s_created_at s)
       (filter (\<lambda>s. s_user_id s = uid \<and>
           (s_status s = SubActive
            \<or> (s_status s = SubExpired \<and> s_updated_at s \<ge> e_now e - days_of recent))) (db_subs d))"

definition has_free_trial :: "db \<Rightarrow> int \<Rightarrow> bool" where
  "has_free_trial d uid = list_ex (\<lambda>s. s_user_id s = uid \<and> s_is_free_trial s) (db_subs d)"

definition payment_by_external :: "db \<Rightarrow> string \<Rightarrow> payment_row option" where
  "payment_by_external d x = List.find (\<lambda>p. p_external_id p = Some x) (db_payments d)"

text \<open>
  The discount of a purchase (\<open>payment_service.create_subscription_payment\<close> and
  \<open>balance_service.purchase_with_balance\<close>): the promo is looked up again by id,
  and counts when it is a percentage promo.  The result is the price, the
  metadata of the payment and the promo that was applied.
\<close>

definition discount_lookup ::
  "db \<Rightarrow> int option \<Rightarrow> int \<Rightarrow> int \<times> (string \<times> json) list \<times> int option" where
  "discount_lookup d promo_id original =
     (case promo_id of
        None \<Rightarrow> (original, [], None)
      | Some i \<Rightarrow>
          (case get_promo d i of
             None \<Rightarrow> (original, [], None)
           | Some p \<Rightarrow>
               if pc_type p = PromoDiscount
               then (compute_discounted_price original (pc_value p),
                     [(''promo_id'', JInt (pc_id p)), (''promo_type'', JStr ''discount_percent''),
                      (''discount_percent'', JInt (pc_value p)),
                      (''original_amount_kopecks'', JInt original)],
                     Some (pc_id p))
               else (original, [], None)))"

lemma create_sub_frame [simp, frame]:
  "db_users (create_sub e u t n dv dy f d) = db_users d"
  "db_tariffs (create_sub e u t n dv dy f d) = db_tariffs d"
  "db_durations (create_sub e u t n dv dy f d) = db_durations d"
  "db_payments (create_sub e u t n dv dy f d) = db_payments d"
  "db_bts (create_sub e u t n dv dy f d) = db_bts d"
  "db_promos (create_sub e u t n dv dy f d) = db_promos d"
  "db_promo_acts (create_sub e u t n dv dy f d) = db_promo_acts d"
  "db_refs (create_sub e u t n dv dy f d) = db_refs d"
  "db_outbox (create_sub e u t n dv dy f d) = db_outbox d"
  "db_notifs (create_sub e u t n dv dy f d) = db_notifs d"
  "db_tickets (create_sub e u t n dv dy f d) = db_tickets d"
  "db_ticket_msgs (create_sub e u t n dv dy f d) = db_ticket_msgs d"
  "db_topics (create_sub e u t n dv dy f d) = db_topics d"
  "db_idem_keys (create_sub e u t n dv dy f d) = db_idem_keys d"
  "db_admin_keys (create_sub e u t n dv dy f d) = db_admin_keys d"
  "db_logs (create_sub e u t n dv dy f d) = db_logs d"
  "db_tech_logs (create_sub e u t n dv dy f d) = db_tech_logs d"
  "db_broadcasts (create_sub e u t n dv dy f d) = db_broadcasts d"
  "db_rcpts (create_sub e u t n dv dy f d) = db_rcpts d"
  "db_texts (create_sub e u t n dv dy f d) = db_texts d"
  by (simp_all add: create_sub_def)

lemma get_frame_create_sub [simp]:
  "get_user (create_sub e u t n dv dy f d) i = get_user d i"
  "get_tariff (create_sub e u t n dv dy f d) i = get_tariff d i"
  "get_duration (create_sub e u t n dv dy f d) i = get_duration d i"
  "get_payment (create_sub e u t n dv dy f d) i = get_payment d i"
  "get_promo (create_sub e u t n dv dy f d) i = get_promo d i"
  "get_ref (create_sub e u t n dv dy f d) i = get_ref d i"
  "get_outbox (create_sub e u t n dv dy f d) i = get_outbox d i"
  "get_ticket (create_sub e u t n dv dy f d) i = get_ticket d i"
  "get_admin_key (create_sub e u t n dv dy f d) i = get_admin_key d i"
  by (simp_all add: get_defs)
lemma create_payment_frame [simp, frame]:
  "db_users (create_payment e u s pu pr a st pa m d) = db_users d"
  "db_tariffs (create_payment e u s pu pr a st pa m d) = db_tariffs d"
  "db_durations (create_payment e u s pu pr a st pa m d) = db_durations d"
  "db_subs (create_payment e u s pu pr a st pa m d) = db_subs d"
  "db_bts (create_payment e u s pu pr a st pa m d) = db_bts d"
  "db_promos (create_payment e u s pu pr a st pa m d) = db_promos d"
  "db_promo_acts (create_payment e u s pu pr a st pa m d) = db_promo_acts d"
  "db_refs (create_payment e u s pu pr a st pa m d) = db_refs d"
  "db_outbox (create_payment e u s pu pr a st pa m d) = db_outbox d"
  "db_notifs (create_payment e u s pu pr a st pa m d) = db_notifs d"
  "db_tickets (create_payment e u s pu pr a st pa m d) = db_tickets d"
  "db_ticket_msgs (create_payment e u s pu pr a st pa m d) = db_ticket_msgs d"
  "db_topics (create_payment e u s pu pr a st pa m d) = db_topics d"
  "db_idem_keys (create_payment e u s pu pr a st pa m d) = db_idem_keys d"
  "db_admin_keys (create_payment e u s pu pr a st pa m d) = db_admin_keys d"
  "db_logs (create_payment e u s pu pr a st pa m d) = db_logs d"
  "db_tech_logs (create_payment e u s pu pr a st pa m d) = db_tech_logs d"
  "db_broadcasts (create_payment e u s pu pr a st pa m d) = db_broadcasts d"
  "db_rcpts (create_payment e u s pu pr a st pa m d) = db_rcpts d"
  "db_texts (create_payment e u s pu pr a st pa m d) = db_texts d"
  by (simp_all add: create_payment_def)

lemma get_frame_create_payment [simp]:
  "get_user (create_payment e u s pu pr a st pa m d) i = get_user d i"
  "get_tariff (create_payment e u s pu pr a st pa m d) i = get_tariff d i"
  "get_duration (create_payment e u s pu pr a st pa m d) i = get_duration d i"
  "get_sub (create_payment e u s pu pr a st pa m d) i = get_sub d i"
  "get_promo (create_payment e u s pu pr a st pa m d) i = get_promo d i"
  "get_ref (create_payment e u s pu pr a st pa m d) i = get_ref d i"
  "get_outbox (create_payment e u s pu pr a st pa m d) i = get_outbox d i"
  "get_ticket (create_payment e u s pu pr a st pa m d) i = get_ticket d i"
  "get_admin_key (create_payment e u s pu pr a st pa m d) i = get_admin_key d i"
  by (simp_all add: get_defs)

lemma get_create_sub [simp]:
  "get_sub (create_sub e u t n dv dy f d) k =
     (if k = next_sub d
      then Some \<lparr>s_id = next_sub d, s_user_id = u, s_tariff_id = t, s_duration_id = n,
              s_provider_id = None, s_key_url = None, s_devices = dv, s_days = dy,
              s_status = SubPending, s_started_at = None, s_expires_at = None,
              s_deactivated_at = None, s_deactivation_reason = None, s_is_free_trial = f,
              s_created_at = e_now e, s_updated_at = e_now e\<rparr>
      else get_sub d k)"
  by (simp add: create_sub_def)

lemma get_create_payment [simp]:
  "get_payment (create_payment e u s pu pr a st pa m d) k =
     (if k = next_payment d
      then Some \<lparr>p_id = next_payment d, p_user_id = u, p_sub_id = s, p_purpose = pu,
                  p_provider = pr, p_external_id = None, p_amount = a,
                  p_currency = ''RUB'', p_status = st, p_meta = Some m,
                  p_paid_at = pa, p_created_at = e_now e, p_updated_at = e_now e\<rparr>
      else get_payment d k)"
  by (simp add: create_payment_def)

lemma discount_lookup_price:
  assumes "0 \<le> original"
  shows "0 \<le> fst (discount_lookup d i original) \<and> fst (discount_lookup d i original) \<le> original"
  using assms discounted_le discounted_nonneg
  by (auto simp: discount_lookup_def split: option.split)

lemma list_for_user_status:
  "s \<in> set (list_for_user e uid r d) \<Longrightarrow> s_status s \<in> {SubActive, SubExpired} \<and> s_user_id s = uid"
  by (auto simp: list_for_user_def)

end
