(* ===== verification/Balance.thy ===== *)
theory Balance
  imports Referral Repos
begin

text \<open>
  \<open>services/balance_service.py\<close>: the administrator's adjustment and the purchase
  paid from the balance.  The purchase debits and commits first, then calls the
  VPN provider outside the transaction, and compensates with a refund when the
  provider's client reports a failure.
\<close>

section \<open>The invariants under the elementary writes\<close>

lemma bonus_ok_cong:
  "db_refs d' = db_refs d \<Longrightarrow> db_bts d' = db_bts d \<Longrightarrow> bonus_ok d' = bonus_ok d"
  by (simp add: bonus_ok_def)

lemma promo_counts_cong:
  "db_promos d' = db_promos d \<Longrightarrow> db_promo_acts d' = db_promo_acts d
     \<Longrightarrow> promo_counts_ok d' = promo_counts_ok d"
  by (simp add: promo_counts_ok_def total_activations_def)

lemma ledger_cong:
  "db_users d' = db_users d \<Longrightarrow> db_bts d' = db_bts d \<Longrightarrow> ledger_ok d' = ledger_ok d"
  by (simp add: ledger_ok_def ledger_sum_def)

lemma bonus_ok_writes [simp]:
  "bonus_ok (business_log e b1 b2 b3 b4 b5 d) = bonus_ok d"
  "bonus_ok (tech_log e t1 t2 t3 t4 d) = bonus_ok d"
  "bonus_ok (enqueue_message e o1 o2 o3 o4 o5 d) = bonus_ok d"
  "bonus_ok (create_sub e s1 s2 s3 s4 s5 s6 d) = bonus_ok d"
  "bonus_ok (create_payment e p1 p2 p3 p4 p5 p6 p7 p8 d) = bonus_ok d"
  "bonus_ok (mod_sub m1 m2 m3 d) = bonus_ok d"
  "bonus_ok (mod_payment n1 n2 n3 d) = bonus_ok d"
  "bonus_ok (set_balance e w1 w2 d) = bonus_ok d"
  by (rule bonus_ok_cong; simp)+

lemma promo_counts_ok_writes [simp]:
  "promo_counts_ok (business_log e b1 b2 b3 b4 b5 d) = promo_counts_ok d"
  "promo_counts_ok (tech_log e t1 t2 t3 t4 d) = promo_counts_ok d"
  "promo_counts_ok (enqueue_message e o1 o2 o3 o4 o5 d) = promo_counts_ok d"
  "promo_counts_ok (create_sub e s1 s2 s3 s4 s5 s6 d) = promo_counts_ok d"
  "promo_counts_ok (create_payment e p1 p2 p3 p4 p5 p6 p7 p8 d) = promo_counts_ok d"
  "promo_counts_ok (mod_sub m1 m2 m3 d) = promo_counts_ok d"
  "promo_counts_ok (mod_payment n1 n2 n3 d) = promo_counts_ok d"
  "promo_counts_ok (set_balance e w1 w2 d) = promo_counts_ok d"
  "promo_counts_ok (add_bt e x1 x2 x3 x4 x5 x6 x7 d) = promo_counts_ok d"
  by (rule promo_counts_cong; simp)+

lemma ledger_ok_writes [simp]:
  "ledger_ok (business_log e b1 b2 b3 b4 b5 d) = ledger_ok d"
  "ledger_ok (tech_log e t1 t2 t3 t4 d) = ledger_ok d"
  "ledger_ok (enqueue_message e o1 o2 o3 o4 o5 d) = ledger_ok d"
  "ledger_ok (create_sub e s1 s2 s3 s4 s5 s6 d) = ledger_ok d"
  "ledger_ok (create_payment e p1 p2 p3 p4 p5 p6 p7 p8 d) = ledger_ok d"
  "ledger_ok (mod_sub m1 m2 m3 d) = ledger_ok d"
  "ledger_ok (mod_payment n1 n2 n3 d) = ledger_ok d"
  by (rule ledger_cong; simp)+

section \<open>Admin adjustment\<close>

definition lock_user :: "db \<Rightarrow> int \<Rightarrow> exn + user_row" where
  "lock_user d uid = (case get_user d uid of
       None \<Rightarrow> Inl (PyExn ''NoResultFound'' ''No row was found when one was required'')
     | Some u \<Rightarrow> Inr u)"

definition insufficient :: "string \<Rightarrow> string \<Rightarrow> int \<Rightarrow> int \<Rightarrow> exn" where
  "insufficient msg key balance amount =
     mk_error InsufficientBalanceError (Some msg) None
       [(''current_balance_kopecks'', JInt balance), (key, JInt amount)]"

definition add_admin_adjust ::
  "env \<Rightarrow> int \<Rightarrow> int \<Rightarrow> string \<Rightarrow> int \<Rightarrow> string option \<Rightarrow> db \<Rightarrow> (exn + int) \<times> db" where
  "add_admin_adjust e uid amount reason key_id key_label d =
     (case lock_user d uid of
        Inl x \<Rightarrow> (Inl x, d)
      | Inr u \<Rightarrow>
          if amount = 0 then (Inr (u_balance u), d)
          else let new = u_balance u + amount in
            if new < 0
            then (Inl (insufficient ''Adjustment would result in negative balance'' ''delta_kopecks''
                        (u_balance u) amount), d)
            else (let d1 = set_balance e uid new d;
                      d2 = add_bt e uid amount BtAdminAdjust None None (Some reason) new d1;
                      d3 = business_log e level_info ''balance_admin_adjusted'' (Some uid)
                             (''Admin '' @ [CHR 0x27]
                              @ (if str_truthy key_label then the key_label else py_str key_id)
                              @ [CHR 0x27] @ '' adjusted balance by '' @ py_str amount @ '' kopecks'')
                             [(''admin_key_id'', JInt key_id),
                              (''admin_key_label'', json_opt_str key_label),
                              (''amount_kopecks'', JInt amount),
                              (''balance_after_kopecks'', JInt new), (''reason'', JStr reason)] d2
                  in (Inr new, d3)))"

section \<open>Purchase from the balance\<close>

record purchase =
  pu_sub_id :: int
  pu_payment_id :: int
  pu_price :: int
  pu_balance_after :: int
  pu_tariff :: tariff_row
  pu_duration :: duration_row
  pu_user :: user_row

text \<open>A purchase settled at once records the activation of the promo it used.\<close>

definition settle_promo :: "env \<Rightarrow> int option \<Rightarrow> int \<Rightarrow> int \<Rightarrow> int \<Rightarrow> db \<Rightarrow> db" where
  "settle_promo e applied uid pid discount d =
     (case applied of
        None \<Rightarrow> d
      | Some i \<Rightarrow> snd (record_discount_activation e i uid pid discount d))"

lemma settle_promo_frame [simp, frame]:
  "db_users (settle_promo e ap u y a d) = db_users d"
  "db_tariffs (settle_promo e ap u y a d) = db_tariffs d"
  "db_durations (settle_promo e ap u y a d) = db_durations d"
  "db_subs (settle_promo e ap u y a d) = db_subs d"
  "db_payments (settle_promo e ap u y a d) = db_payments d"
  "db_bts (settle_promo e ap u y a d) = db_bts d"
  "db_refs (settle_promo e ap u y a d) = db_refs d"
  "db_outbox (settle_promo e ap u y a d) = db_outbox d"
  "db_notifs (settle_promo e ap u y a d) = db_notifs d"
  "db_tickets (settle_promo e ap u y a d) = db_tickets d"
  "db_ticket_msgs (settle_promo e ap u y a d) = db_ticket_msgs d"
  "db_topics (settle_promo e ap u y a d) = db_topics d"
  "db_idem_keys (settle_promo e ap u y a d) = db_idem_keys d"
  "db_admin_keys (settle_promo e ap u y a d) = db_admin_keys d"
  "db_tech_logs (settle_promo e ap u y a d) = db_tech_logs d"
  "db_broadcasts (settle_promo e ap u y a d) = db_broadcasts d"
  "db_rcpts (settle_promo e ap u y a d) = db_rcpts d"
  "db_texts (settle_promo e ap u y a d) = db_texts d"
  by (simp_all add: settle_promo_def split: option.split)

lemma get_frame_settle_promo [simp]:
  "get_user (settle_promo e ap u y a d) i = get_user d i"
  "get_tariff (settle_promo e ap u y a d) i = get_tariff d i"
  "get_duration (settle_promo e ap u y a d) i = get_duration d i"
  "get_sub (settle_promo e ap u y a d) i = get_sub d i"
  "get_payment (settle_promo e ap u y a d) i = get_payment d i"
  "get_ref (settle_promo e ap u y a d) i = get_ref d i"
  "get_outbox (settle_promo e ap u y a d) i = get_outbox d i"
  "get_ticket (settle_promo e ap u y a d) i = get_ticket d i"
  "get_admin_key (settle_promo e ap u y a d) i = get_admin_key d i"
  by (simp_all add: get_defs)

lemma settle_promo_keeps [keeps, simp]:
  "promo_counts_ok d \<Longrightarrow> promo_counts_ok (settle_promo e ap u y a d)"
  "bonus_ok (settle_promo e ap u y a d) = bonus_ok d"
  "ledger_ok (settle_promo e ap u y a d) = ledger_ok d"
    apply (simp add: settle_promo_def record_discount_counts split: option.split)
   apply (rule bonus_ok_cong; simp)
  apply (rule ledger_cong; simp)
  done

text \<open>The atomic block, up to and including the first commit.\<close>

definition purchase_debit ::
  "env \<Rightarrow> int \<Rightarrow> int \<Rightarrow> int \<Rightarrow> int option \<Rightarrow> db \<Rightarrow> (exn + purchase) \<times> db" where
  "purchase_debit e uid tid did promo_id d =
     (case get_tariff_or_raise d tid of
        Inl x \<Rightarrow> (Inl x, d)
      | Inr t \<Rightarrow>
     (case get_duration_or_raise d tid did of
        Inl x \<Rightarrow> (Inl x, d)
      | Inr td \<Rightarrow>
     (case discount_lookup d promo_id (td_price td) of (price, meta, applied) \<Rightarrow>
     (case lock_user d uid of
        Inl x \<Rightarrow> (Inl x, d)
      | Inr u \<Rightarrow>
          if u_balance u < price
          then (Inl (insufficient ''Insufficient balance'' ''required_kopecks'' (u_balance u) price), d)
          else
            (let after = u_balance u - price;
                 sid = next_sub d;
                 pid = next_payment d;
                 d1 = set_balance e uid after d;
                 d2 = create_sub e uid (t_id t) (Some (td_id td)) (t_devices t) (td_days td) False d1;
                 d3 = create_payment e uid (Some sid) PurSubscription ''balance'' price PayPaid
                        (Some (e_now e)) meta d2;
                 d4 = settle_promo e applied uid pid (max 0 (td_price td - price)) d3;
                 d5 = add_bt e uid (- price) BtPurchase (Some pid) (Some sid)
                        (Some (''Purchase tariff '' @ [CHR 0x27] @ t_code t @ [CHR 0x27] @ '' for ''
                               @ py_str (td_days td) @ '' days'')) after d4;
                 d6 = business_log e level_info ''balance_purchase_pending'' (Some uid)
                        (''Balance debited '' @ py_str price @ '' kopecks for tariff '' @ t_code t)
                        [(''subscription_id'', JInt sid), (''payment_id'', JInt pid),
                         (''tariff_id'', JInt (t_id t)), (''duration_id'', JInt (td_id td)),
                         (''price_kopecks'', JInt price),
                         (''balance_after_kopecks'', JInt after)] d5
             in (Inr \<lparr>pu_sub_id = sid, pu_payment_id = pid, pu_price = price,
                      pu_balance_after = after, pu_tariff = t, pu_duration = td,
                      pu_user = u\<rparr>, d6))))))"

text \<open>The compensating transaction \<open>_refund_after_failure\<close>, committed.\<close>

definition refund_after_failure :: "env \<Rightarrow> purchase \<Rightarrow> exn \<Rightarrow> db \<Rightarrow> db" where
  "refund_after_failure e pu x d =
     (let uid = u_id (pu_user pu); sid = pu_sub_id pu; pid = pu_payment_id pu;
          price = pu_price pu in
      case get_user d uid of
        None \<Rightarrow> d
      | Some u \<Rightarrow>
          (let new = u_balance u + price;
               d1 = set_balance e uid new d;
               d2 = mod_sub (e_now e) sid
                      (\<lambda>s. s\<lparr>s_status := SubFailed,
                             s_deactivation_reason :=
                               Some (str_strip (''NorthLine failure: '' @ exn_code x @ '' '' @ exn_str x))\<rparr>) d1;
               d3 = mod_payment (e_now e) pid (\<lambda>p. p\<lparr>p_status := PayRefunded\<rparr>) d2;
               d4 = add_bt e uid price BtRefund (Some pid) (Some sid)
                      (Some ''Refund after VPN provider failure'') new d3
           in business_log e level_critical ''balance_purchase_refunded'' (Some uid)
                ''VPN provider failed; balance refunded''
                [(''subscription_id'', JInt sid), (''payment_id'', JInt pid),
                 (''refund_kopecks'', JInt price), (''balance_after_kopecks'', JInt new),
                 (''error_code'', JStr (exn_code x))] d4))"

definition purchase_activate :: "env \<Rightarrow> purchase \<Rightarrow> key_response \<Rightarrow> db \<Rightarrow> db" where
  "purchase_activate e pu kr d =
     (let sid = pu_sub_id pu;
          d1 = mod_sub (e_now e) sid
                 (\<lambda>s. s\<lparr>s_status := SubActive, s_provider_id := Some (kr_subscription_id kr),
                        s_key_url := Some (kr_key kr), s_started_at := Some (e_now e),
                        s_expires_at := Some (e_now e + days_of (td_days (pu_duration pu)))\<rparr>) d
      in business_log e level_info ''balance_purchase_completed'' (Some (u_id (pu_user pu)))
           (''Subscription '' @ py_str sid @ '' activated via balance'')
           [(''subscription_id'', JInt sid), (''payment_id'', JInt (pu_payment_id pu)),
            (''provider_subscription_id'', JStr (kr_subscription_id kr))] d1)"

definition purchase_key :: "env \<Rightarrow> purchase \<Rightarrow> exn + key_response" where
  "purchase_key e pu =
     create_key e (td_days (pu_duration pu)) (t_devices (pu_tariff pu)) (e_uuid e)
       [(''user_tg_id'', JInt (u_tg_id (pu_user pu))),
        (''internal_subscription_id'', JStr (py_str (pu_sub_id pu))),
        (''payment_id'', JInt (pu_payment_id pu))]
       (if t_unlimited (pu_tariff pu) then Some True else None)
       (Some (t_lte_gb (pu_tariff pu)))
       (build_branding (Some (t_code (pu_tariff pu))) False)"

text \<open>
  Any exception that is not one of the client's two classes (a malformed 2xx body
  raises pydantic's ValidationError) leaves after the first commit.
\<close>

definition purchase_with_balance ::
  "env \<Rightarrow> int \<Rightarrow> int \<Rightarrow> int \<Rightarrow> int option \<Rightarrow> db \<Rightarrow> (exn + int \<times> int \<times> int) \<times> db" where
  "purchase_with_balance e uid tid did promo_id d =
     (case purchase_debit e uid tid did promo_id d of
        (Inl x, d1) \<Rightarrow> (Inl x, d1)
      | (Inr pu, d1) \<Rightarrow>
          (case purchase_key e pu of
             Inr kr \<Rightarrow> (Inr (pu_sub_id pu, pu_balance_after pu, pu_payment_id pu),
                        purchase_activate e pu kr d1)
           | Inl x \<Rightarrow>
               if is_northline_exn x
               then (Inl (mk_error NorthLineUnavailableError
                           (Some ''Could not issue key after balance debit; refunded'') None
                           [(''subscription_id'', JInt (pu_sub_id pu)),
                            (''refund_kopecks'', JInt (pu_price pu))]),
                     refund_after_failure e pu x d1)
               else (Inl x, d1)))"

section \<open>The debit\<close>

lemma purchase_debit_raise:
  "fst (purchase_debit e uid tid did i d) = Inl x \<Longrightarrow> purchase_debit e uid tid did i d = (Inl x, d)"
  by (auto simp: purchase_debit_def Let_def split: sum.splits prod.splits if_splits)

lemma lock_user_Inr [simp]: "lock_user d uid = Inr u \<longleftrightarrow> get_user d uid = Some u"
  by (auto simp: lock_user_def split: option.split)

lemma purchase_debit_inv:
  assumes "fst (purchase_debit e uid tid did i d) = Inr pu"
  shows "get_tariff_or_raise d tid = Inr (pu_tariff pu)"
    "get_duration_or_raise d tid did = Inr (pu_duration pu)"
    "get_user d uid = Some (pu_user pu)"
    "pu_price pu = fst (discount_lookup d i (td_price (pu_duration pu)))"
    "pu_price pu \<le> u_balance (pu_user pu)"
    "pu_balance_after pu = u_balance (pu_user pu) - pu_price pu"
    "pu_sub_id pu = next_sub d" "pu_payment_id pu = next_payment d"
  using assms
  by (auto simp: purchase_debit_def Let_def split: sum.splits prod.splits if_splits)

lemma purchase_debit_state:
  assumes "fst (purchase_debit e uid tid did i d) = Inr pu"
  shows "\<exists>descr ev msg ctx.
    snd (purchase_debit e uid tid did i d) =
      business_log e level_info ev (Some uid) msg ctx
        (add_bt e uid (- pu_price pu) BtPurchase (Some (pu_payment_id pu)) (Some (pu_sub_id pu))
           descr (pu_balance_after pu)
           (settle_promo e (snd (snd (discount_lookup d i (td_price (pu_duration pu))))) uid
              (pu_payment_id pu) (max 0 (td_price (pu_duration pu) - pu_price pu))
              (create_payment e uid (Some (pu_sub_id pu)) PurSubscription ''balance'' (pu_price pu)
                 PayPaid (Some (e_now e)) (fst (snd (discount_lookup d i (td_price (pu_duration pu)))))
                 (create_sub e uid (t_id (pu_tariff pu)) (Some (td_id (pu_duration pu)))
                    (t_devices (pu_tariff pu)) (td_days (pu_duration pu)) False
                    (set_balance e uid (pu_balance_after pu) d)))))"
proof -
  obtain t where t: "get_tariff_or_raise d tid = Inr t"
    using assms by (cases "get_tariff_or_raise d tid") (auto simp: purchase_debit_def)
  obtain td where td: "get_duration_or_raise d tid did = Inr td"
    using assms t by (cases "get_duration_or_raise d tid did") (auto simp: purchase_debit_def)
  obtain price meta applied where dl: "discount_lookup d i (td_price td) = (price, meta, applied)"
    by (cases "discount_lookup d i (td_price td)") auto
  obtain u where u: "lock_user d uid = Inr u"
    using assms t td dl by (cases "lock_user d uid") (auto simp: purchase_debit_def)
  have le: "\<not> u_balance u < price"
    using assms t td dl u by (auto simp: purchase_debit_def)
  show ?thesis
    using assms unfolding purchase_debit_def t td dl u sum.case prod.case Let_def
    using le dl by (auto intro!: exI)
qed

lemma next_sub_set_balance [simp]: "next_sub (set_balance e u b d) = next_sub d"
  and next_payment_writes [simp]: "next_payment (set_balance e u b d) = next_payment d"
    "next_payment (create_sub e s1 s2 s3 s4 s5 s6 d) = next_payment d"
  by (simp_all add: next_sub_def next_payment_def)

lemma purchase_debit_effect:
  assumes pu: "fst (purchase_debit e uid tid did i d) = Inr pu"
    and d1: "d1 = snd (purchase_debit e uid tid did i d)"
  shows "db_users d1 = db_users (set_balance e uid (pu_balance_after pu) d)"
    "db_refs d1 = db_refs d" "db_outbox d1 = db_outbox d"
    "get_sub d1 k = get_sub (create_sub e uid (t_id (pu_tariff pu)) (Some (td_id (pu_duration pu)))
        (t_devices (pu_tariff pu)) (td_days (pu_duration pu)) False d) k"
    "get_payment d1 k = get_payment (create_payment e uid (Some (pu_sub_id pu)) PurSubscription
        ''balance'' (pu_price pu) PayPaid (Some (e_now e))
        (fst (snd (discount_lookup d i (td_price (pu_duration pu))))) d) k"
    "\<exists>b. db_bts d1 = db_bts d @ [b] \<and> bt_user_id b = uid \<and> bt_amount b = - pu_price pu
        \<and> bt_balance_after b = pu_balance_after pu \<and> bt_reason b = BtPurchase
        \<and> bt_ref_payment_id b = Some (pu_payment_id pu)"
  using purchase_debit_state[OF pu] unfolding d1
  by (auto simp: add_bt_def level_info_def)

lemma purchase_debit_ledger [keeps]:
  assumes "ledger_ok d"
  shows "ledger_ok (snd (purchase_debit e uid tid did i d))"
proof (cases "fst (purchase_debit e uid tid did i d)")
  case (Inl x)
  then show ?thesis using purchase_debit_raise assms by (metis snd_conv)
next
  case (Inr pu)
  note inv = purchase_debit_inv[OF Inr] and eff = purchase_debit_effect[OF Inr refl]
  obtain b where b: "db_bts (snd (purchase_debit e uid tid did i d)) = db_bts d @ [b]"
      "bt_user_id b = uid" "bt_amount b = - pu_price pu" "bt_balance_after b = pu_balance_after pu"
    using eff(6) by blast
  show ?thesis
    by (rule ledger_post[OF assms inv(3) _ b(1,2,3)]) (use inv eff b in auto)
qed

lemma purchase_debit_counts [keeps]:
  assumes "promo_counts_ok d"
  shows "promo_counts_ok (snd (purchase_debit e uid tid did i d))"
proof (cases "fst (purchase_debit e uid tid did i d)")
  case (Inl x)
  then show ?thesis using purchase_debit_raise assms by (metis snd_conv)
next
  case (Inr pu)
  then show ?thesis using purchase_debit_state[OF Inr] assms by auto
qed

lemma purchase_debit_bonus [keeps]:
  assumes "bonus_ok d"
  shows "bonus_ok (snd (purchase_debit e uid tid did i d))"
proof (cases "fst (purchase_debit e uid tid did i d)")
  case (Inl x)
  then show ?thesis using purchase_debit_raise assms by (metis snd_conv)
next
  case (Inr pu)
  note eff = purchase_debit_effect[OF Inr refl]
  obtain b where b: "db_bts (snd (purchase_debit e uid tid did i d)) = db_bts d @ [b]"
      "bt_reason b = BtPurchase"
    using eff(6) by blast
  show ?thesis by (rule bonus_other_row[OF assms eff(2) b(1)]) (simp add: b(2))
qed

section \<open>The refund\<close>

lemma refund_frame [simp, frame]:
  "db_promos (refund_after_failure e pu x d) = db_promos d"
  "db_promo_acts (refund_after_failure e pu x d) = db_promo_acts d"
  "db_refs (refund_after_failure e pu x d) = db_refs d"
  "db_tickets (refund_after_failure e pu x d) = db_tickets d"
  "db_topics (refund_after_failure e pu x d) = db_topics d"
  "db_idem_keys (refund_after_failure e pu x d) = db_idem_keys d"
  "db_admin_keys (refund_after_failure e pu x d) = db_admin_keys d"
  "db_notifs (refund_after_failure e pu x d) = db_notifs d"
  by (simp_all add: refund_after_failure_def Let_def split: option.split)

lemma refund_effect:
  assumes "get_user d (u_id (pu_user pu)) = Some u"
  shows "db_users (refund_after_failure e pu x d)
           = db_users (set_balance e (u_id (pu_user pu)) (u_balance u + pu_price pu) d)"
    "\<exists>b. db_bts (refund_after_failure e pu x d) = db_bts d @ [b]
        \<and> bt_user_id b = u_id (pu_user pu) \<and> bt_amount b = pu_price pu
        \<and> bt_balance_after b = u_balance u + pu_price pu \<and> bt_reason b = BtRefund"
    "map_option s_status (get_sub (refund_after_failure e pu x d) k) =
       (if k = pu_sub_id pu then map_option (\<lambda>_. SubFailed) (get_sub d k)
        else map_option s_status (get_sub d k))"
    "map_option p_status (get_payment (refund_after_failure e pu x d) k) =
       (if k = pu_payment_id pu then map_option (\<lambda>_. PayRefunded) (get_payment d k)
        else map_option p_status (get_payment d k))"
  using assms
  by (auto simp: refund_after_failure_def Let_def add_bt_def option.map_comp comp_def
      next_bt_def)

lemma refund_ledger [keeps]:
  assumes "ledger_ok d"
  shows "ledger_ok (refund_after_failure e pu x d)"
proof (cases "get_user d (u_id (pu_user pu))")
  case None
  then show ?thesis using assms by (simp add: refund_after_failure_def)
next
  case (Some u)
  note eff = refund_effect[OF Some, of e x]
  obtain b where b: "db_bts (refund_after_failure e pu x d) = db_bts d @ [b]"
      "bt_user_id b = u_id (pu_user pu)" "bt_amount b = pu_price pu"
      "bt_balance_after b = u_balance u + pu_price pu"
    using eff(2) by blast
  show ?thesis by (rule ledger_post[OF assms Some eff(1) b])
qed

lemma refund_bonus [keeps]:
  assumes "bonus_ok d"
  shows "bonus_ok (refund_after_failure e pu x d)"
proof (cases "get_user d (u_id (pu_user pu))")
  case None
  then show ?thesis using assms by (simp add: refund_after_failure_def)
next
  case (Some u)
  have refs: "db_refs (refund_after_failure e pu x d) = db_refs d" by simp
  obtain b where b: "db_bts (refund_after_failure e pu x d) = db_bts d @ [b]" "bt_reason b = BtRefund"
    using refund_effect(2)[OF Some] by blast
  show ?thesis by (rule bonus_other_row[OF assms refs b(1)]) (simp add: b(2))
qed

lemma purchase_activate_frame [simp, frame]:
  "db_users (purchase_activate e pu kr d) = db_users d"
  "db_bts (purchase_activate e pu kr d) = db_bts d"
  "db_payments (purchase_activate e pu kr d) = db_payments d"
  "db_promos (purchase_activate e pu kr d) = db_promos d"
  "db_promo_acts (purchase_activate e pu kr d) = db_promo_acts d"
  "db_refs (purchase_activate e pu kr d) = db_refs d"
  "db_outbox (purchase_activate e pu kr d) = db_outbox d"
  "db_tickets (purchase_activate e pu kr d) = db_tickets d"
  "db_topics (purchase_activate e pu kr d) = db_topics d"
  by (simp_all add: purchase_activate_def Let_def level_info_def)

section \<open>The purchase as a whole\<close>

text \<open>The final state is one of four.\<close>

lemma purchase_cases:
  obtains (refused) x where "purchase_with_balance e uid tid did i d = (Inl x, d)"
      "fst (purchase_debit e uid tid did i d) = Inl x"
  | (activated) pu kr where "fst (purchase_debit e uid tid did i d) = Inr pu"
      "purchase_key e pu = Inr kr"
      "purchase_with_balance e uid tid did i d =
         (Inr (pu_sub_id pu, pu_balance_after pu, pu_payment_id pu),
          purchase_activate e pu kr (snd (purchase_debit e uid tid did i d)))"
  | (refunded) pu x where "fst (purchase_debit e uid tid did i d) = Inr pu"
      "purchase_key e pu = Inl x" "is_northline_exn x"
      "snd (purchase_with_balance e uid tid did i d) =
         refund_after_failure e pu x (snd (purchase_debit e uid tid did i d))"
      "exn_class (projl (fst (purchase_with_balance e uid tid did i d))) = Some NorthLineUnavailableError"
      "\<not> isl (fst (purchase_with_balance e uid tid did i d)) \<longrightarrow> False"
  | (stuck) pu x where "fst (purchase_debit e uid tid did i d) = Inr pu"
      "purchase_key e pu = Inl x" "\<not> is_northline_exn x"
      "purchase_with_balance e uid tid did i d = (Inl x, snd (purchase_debit e uid tid did i d))"
proof (cases "purchase_debit e uid tid did i d")
  case (Pair r d1)
  show ?thesis
  proof (cases r)
    case (Inl x)
    then show ?thesis
      using Pair purchase_debit_raise[of e uid tid did i d x]
      by (intro refused[of x]) (auto simp: purchase_with_balance_def)
  next
    case (Inr pu)
    show ?thesis
    proof (cases "purchase_key e pu")
      case (Inl x)
      then show ?thesis
        using Pair Inr refunded[of pu x] stuck[of pu x]
        by (cases "is_northline_exn x") (auto simp: purchase_with_balance_def)
    next
      case (Inr kr)
      then show ?thesis
        using Pair \<open>r = Inr pu\<close> activated[of pu kr] by (auto simp: purchase_with_balance_def)
    qed
  qed
qed

lemma purchase_ledger [keeps]:
  assumes "ledger_ok d"
  shows "ledger_ok (snd (purchase_with_balance e uid tid did i d))"
  using purchase_debit_ledger[OF assms, of e uid tid did i]
  by (rule_tac purchase_cases[of e uid tid did i d])
     (auto simp: assms intro: refund_ledger ledger_frame_eq)

lemma purchase_bonus [keeps]:
  assumes "bonus_ok d"
  shows "bonus_ok (snd (purchase_with_balance e uid tid did i d))"
  using purchase_debit_bonus[OF assms, of e uid tid did i]
  by (rule_tac purchase_cases[of e uid tid did i d])
     (auto simp: assms intro: refund_bonus bonus_frame)

lemma purchase_counts [keeps]:
  assumes "promo_counts_ok d"
  shows "promo_counts_ok (snd (purchase_with_balance e uid tid did i d))"
  using purchase_debit_counts[OF assms, of e uid tid did i]
  by (rule_tac purchase_cases[of e uid tid did i d])
     (auto simp: assms intro: promo_counts_frame)

section \<open>The adjustment\<close>

lemma admin_adjust_cases:
  obtains (same) r where "add_admin_adjust e uid a rs k l d = (r, d)"
  | (adjusted) u b where "get_user d uid = Some u" "0 \<le> u_balance u + a"
      "fst (add_admin_adjust e uid a rs k l d) = Inr (u_balance u + a)"
      "db_users (snd (add_admin_adjust e uid a rs k l d))
         = db_users (set_balance e uid (u_balance u + a) d)"
      "db_bts (snd (add_admin_adjust e uid a rs k l d)) = db_bts d @ [b]"
      "bt_user_id b = uid" "bt_amount b = a" "bt_balance_after b = u_balance u + a"
      "bt_reason b = BtAdminAdjust"
proof (cases "get_user d uid")
  case None
  then show ?thesis using same by (simp add: add_admin_adjust_def lock_user_def)
next
  case (Some u)
  show ?thesis
  proof (cases "a = 0 \<or> u_balance u + a < 0")
    case True
    then show ?thesis using Some
      by (intro same[of "fst (add_admin_adjust e uid a rs k l d)"])
         (auto simp: add_admin_adjust_def lock_user_def Let_def)
  next
    case False
    then show ?thesis using Some
      by (intro adjusted)
         (auto simp: add_admin_adjust_def lock_user_def Let_def add_bt_def next_bt_def)
  qed
qed

lemma admin_adjust_frame [simp, frame]:
  "db_promos (snd (add_admin_adjust e uid a rs k l d)) = db_promos d"
  "db_promo_acts (snd (add_admin_adjust e uid a rs k l d)) = db_promo_acts d"
  "db_refs (snd (add_admin_adjust e uid a rs k l d)) = db_refs d"
  "db_subs (snd (add_admin_adjust e uid a rs k l d)) = db_subs d"
  "db_payments (snd (add_admin_adjust e uid a rs k l d)) = db_payments d"
  "db_outbox (snd (add_admin_adjust e uid a rs k l d)) = db_outbox d"
  "db_tickets (snd (add_admin_adjust e uid a rs k l d)) = db_tickets d"
  "db_topics (snd (add_admin_adjust e uid a rs k l d)) = db_topics d"
  by (simp_all add: add_admin_adjust_def Let_def level_info_def split: sum.split)

lemma admin_adjust_ledger [keeps]:
  assumes "ledger_ok d"
  shows "ledger_ok (snd (add_admin_adjust e uid a rs k l d))"
  by (rule admin_adjust_cases[of e uid a rs k l d])
     (auto simp: assms intro: ledger_post[OF assms])

lemma admin_adjust_bonus [keeps]:
  assumes "bonus_ok d"
  shows "bonus_ok (snd (add_admin_adjust e uid a rs k l d))"
  by (rule admin_adjust_cases[of e uid a rs k l d])
     (auto simp: assms intro: bonus_other_row[OF assms])

end
