(* ===== verification/Invoices.thy ===== *)
theory Invoices
  imports NorthLine
begin

text \<open>
  The payment gateways: \<open>services/platega_client.py\<close> and
  \<open>services/cryptobot_client.py\<close> (\<open>create_invoice\<close>, the credentials check of
  a callback and the query of a transaction, which nothing calls), and the routing of a provider name to a gateway in
  \<open>payment_service.py\<close>.  A gateway failure is a \<open>PyExn\<close> of class
  \<open>PlategaError\<close> or \<open>CryptoBotError\<close> (their subclasses are told apart by the
  message only).
\<close>

record invoice =
  inv_external_id :: string
  inv_payment_url :: string
  inv_raw :: json

section \<open>Retries\<close>

text \<open>Three attempts; a transport error or a status of 500 and above is retried.\<close>

fun gw_attempts :: "string \<Rightarrow> (nat \<Rightarrow> http_outcome) \<Rightarrow> nat \<Rightarrow> nat
                    \<Rightarrow> exn + (int \<times> json option \<times> string)" where
  "gw_attempts cls out n left =
     (case out n of
        TransportError m \<Rightarrow>
          (case left of 0 \<Rightarrow> Inl (PyExn cls m) | Suc l \<Rightarrow> gw_attempts cls out (Suc n) l)
      | HttpResponse st body txt \<Rightarrow>
          if st \<ge> 500
          then (case left of 0 \<Rightarrow> Inl (PyExn cls (''5xx: '' @ py_str st))
                | Suc l \<Rightarrow> gw_attempts cls out (Suc n) l)
          else Inr (st, body, txt))"

declare gw_attempts.simps [simp del]

definition json_or :: "json option \<Rightarrow> json option \<Rightarrow> json option" where
  "json_or a b = (if opt_json_truthy a then a else b)"

section \<open>Platega\<close>

definition platega_method_code :: "string \<Rightarrow> int option" where
  "platega_method_code m =
     map_of [(''sbp'', 2), (''erip'', 3), (''card'', 11), (''international'', 12), (''crypto'', 13)] m"

definition platega_body :: "string \<Rightarrow> int \<Rightarrow> int \<Rightarrow> string \<Rightarrow> string option \<Rightarrow> json" where
  "platega_body order amount code description success =
     JObj ([(''paymentMethod'', JInt code),
            (''paymentDetails'', JObj [(''amount'', JText ''rubles'' [JInt amount]),
                                       (''currency'', JStr ''RUB'')]),
            (''description'', JStr (if description \<noteq> [] then description
                                     else ''Order '' @ order)),
            (''payload'', JStr order)]
           @ (if str_truthy success
              then [(''return'', JStr (the success)), (''failedUrl'', JStr (the success))]
              else []))"

definition platega_create_invoice ::
  "env \<Rightarrow> string \<Rightarrow> int \<Rightarrow> string \<Rightarrow> string \<Rightarrow> string option \<Rightarrow> exn + invoice" where
  "platega_create_invoice e order amount meth description success =
     (if amount \<le> 0 then Inl (PyExn ''PlategaError'' ''amount_kopecks must be positive'')
      else case platega_method_code meth of
        None \<Rightarrow> Inl (PyExn ''PlategaError'' (''Unsupported Platega payment method: '' @ meth))
      | Some code \<Rightarrow>
          (case gw_attempts ''PlategaError''
                  (e_http e ''platega'' ''POST'' ''/transaction/process''
                     (platega_body order amount code description success)) 0 2 of
             Inl x \<Rightarrow> Inl x
           | Inr (st, body, txt) \<Rightarrow>
               if st \<ge> 400
               then Inl (PyExn ''PlategaError'' (''Platega '' @ py_str st @ '': '' @ take 256 txt))
               else (case body of
                       None \<Rightarrow> Inl (PyExn ''PlategaError'' ''Invalid JSON response'')
                     | Some (JObj kvs) \<Rightarrow>
                         (let ext = json_or (map_of kvs ''transactionId'') (map_of kvs ''id'');
                              url = json_or (map_of kvs ''redirect'') (map_of kvs ''url'')
                          in if \<not> opt_json_truthy ext
                             then Inl (PyExn ''PlategaError''
                                    ''Platega response did not contain transactionId'')
                             else if \<not> opt_json_truthy url
                             then Inl (PyExn ''PlategaError''
                                    ''Platega response did not contain a payment URL'')
                             else Inr \<lparr>inv_external_id = json_str (the ext),
                                       inv_payment_url = json_str (the url),
                                       inv_raw = JObj kvs\<rparr>)
                     | Some j \<Rightarrow> Inl (PyExn ''AttributeError'' ''get''))))"

text \<open>\<open>verify_webhook_credentials\<close>: both headers must equal ours, blanks stripped.\<close>

definition platega_verify :: "string \<Rightarrow> string \<Rightarrow> string option \<Rightarrow> string option \<Rightarrow> bool" where
  "platega_verify shop_id api_key merchant secret =
     (str_truthy merchant \<and> str_truthy secret
      \<and> str_strip (the merchant) = str_strip shop_id \<and> str_strip (the secret) = str_strip api_key)"

text \<open>\<open>get_transaction_status\<close>: one attempt; a transport error is not translated.\<close>

definition get_transaction_status :: "env \<Rightarrow> string \<Rightarrow> exn + json" where
  "get_transaction_status e tid =
     (case e_http e ''platega'' ''GET'' (''/transaction/'' @ tid) JNull 0 of
        TransportError m \<Rightarrow> Inl (PyExn ''TransportError'' m)
      | HttpResponse st body txt \<Rightarrow>
          if st = 404 then Inl (PyExn ''PlategaError'' (''transaction '' @ tid @ '' not found''))
          else if st \<ge> 400
          then Inl (PyExn ''PlategaError'' (''Platega '' @ py_str st @ '': '' @ take 256 txt))
          else (case body of
                  None \<Rightarrow> Inl (PyExn ''PlategaError'' ''Invalid JSON response'')
                | Some j \<Rightarrow> Inr j))"

section \<open>CryptoBot\<close>

text \<open>\<open>_kopecks_to_decimal_str\<close>: two decimals, exact.\<close>

definition decimal_rub :: "int \<Rightarrow> string" where
  "decimal_rub amount =
     (let a = \<bar>amount\<bar> in
      (if amount < 0 then ''-'' else '''') @ nat_str (nat (a div 100)) @ ''.''
      @ (if a mod 100 < 10 then ''0'' else '''') @ nat_str (nat (a mod 100)))"

definition cryptobot_body ::
  "string \<Rightarrow> int \<Rightarrow> string \<Rightarrow> string option \<Rightarrow> string option \<Rightarrow> json" where
  "cryptobot_body order amount description btn_url btn_name =
     JObj ([(''currency_type'', JStr ''fiat''), (''fiat'', JStr ''RUB''),
            (''amount'', JStr (decimal_rub amount)), (''payload'', JStr order)]
           @ (if description \<noteq> [] then [(''description'', JStr description)] else [])
           @ (if str_truthy btn_url then [(''paid_btn_url'', JStr (the btn_url))] else [])
           @ (if str_truthy btn_name then [(''paid_btn_name'', JStr (the btn_name))] else []))"

definition opt_str_fields_ok :: "string list \<Rightarrow> json \<Rightarrow> bool" where
  "opt_str_fields_ok ks j = list_all (\<lambda>k. opt as_str k j \<noteq> None) ks"

definition cryptobot_result :: "(string \<times> json) list \<Rightarrow> exn + invoice" where
  "cryptobot_result kvs =
     (let j = JObj kvs; bot = map_of kvs ''bot_invoice_url'';
          pay = json_or (map_of kvs ''pay_url'') bot;
          url = json_or bot (json_or pay (json_or (map_of kvs ''mini_app_invoice_url'')
                                                  (map_of kvs ''web_app_invoice_url'')))
      in case map_of kvs ''invoice_id'' of
           None \<Rightarrow> Inl (PyExn ''KeyError'' ''invoice_id'')
         | Some v \<Rightarrow>
             (case as_int v of
                None \<Rightarrow> Inl (PyExn ''ValueError'' ''invalid literal for int()'')
              | Some i \<Rightarrow>
                  if \<not> opt_str_fields_ok [''hash'', ''currency_type'', ''fiat'', ''amount'', ''pay_url'',
                        ''bot_invoice_url'', ''mini_app_invoice_url'', ''web_app_invoice_url'',
                        ''description'', ''payload''] j
                  then Inl pydantic_error
                  else if \<not> opt_json_truthy url
                  then Inl (PyExn ''CryptoBotError'' ''CryptoBot response did not contain a pay URL'')
                  else Inr \<lparr>inv_external_id = py_str i, inv_payment_url = json_str (the url),
                            inv_raw = j\<rparr>))"

definition cryptobot_create_invoice ::
  "env \<Rightarrow> string \<Rightarrow> int \<Rightarrow> string \<Rightarrow> string option \<Rightarrow> string option \<Rightarrow> exn + invoice" where
  "cryptobot_create_invoice e order amount description btn_url btn_name =
     (if amount \<le> 0 then Inl (PyExn ''CryptoBotError'' ''amount_kopecks must be positive'')
      else case gw_attempts ''CryptoBotError''
                  (e_http e ''cryptobot'' ''POST'' ''/createInvoice''
                     (cryptobot_body order amount description btn_url btn_name)) 0 2 of
             Inl x \<Rightarrow> Inl x
           | Inr (st, body, txt) \<Rightarrow>
               if st \<ge> 400
               then Inl (PyExn ''CryptoBotError'' (''CryptoBot '' @ py_str st @ '': '' @ take 256 txt))
               else (case body of
                       None \<Rightarrow> Inl (PyExn ''CryptoBotError'' ''Invalid JSON response'')
                     | Some j \<Rightarrow>
                         (case (jfield j ''ok'', jfield j ''result'') of
                            (Some (JBool True), Some (JObj kvs)) \<Rightarrow> cryptobot_result kvs
                          | (Some (JBool b), None) \<Rightarrow>
                              Inl (PyExn ''CryptoBotError'' ''CryptoBot API error'')
                          | (Some (JBool b), Some JNull) \<Rightarrow>
                              Inl (PyExn ''CryptoBotError'' ''CryptoBot API error'')
                          | (Some (JBool False), Some (JObj kvs)) \<Rightarrow>
                              Inl (PyExn ''CryptoBotError'' ''CryptoBot API error'')
                          | _ \<Rightarrow> Inl pydantic_error)))"

section \<open>Routing\<close>

definition success_url :: "env \<Rightarrow> string option" where
  "success_url e = (if e_bot_username e = [] then None
     else Some (''https://t.me/'' @ dropWhile (\<lambda>c. c = CHR ''@'') (e_bot_username e)))"

definition create_invoice_for_provider ::
  "env \<Rightarrow> string \<Rightarrow> string \<Rightarrow> int \<Rightarrow> string \<Rightarrow> exn + invoice" where
  "create_invoice_for_provider e provider order amount description =
     (if provider = ''platega_sbp''
      then platega_create_invoice e order amount ''sbp'' description (success_url e)
      else if provider = ''platega_crypto''
      then platega_create_invoice e order amount ''crypto'' description (success_url e)
      else if provider = ''cryptobot''
      then cryptobot_create_invoice e order amount description (success_url e)
             (if success_url e \<noteq> None then Some ''openBot'' else None)
      else Inl (mk_error ValidationError (Some (''Unknown payment provider: '' @ provider))
                 (Some ''unknown_provider'') []))"

text \<open>\<open>except (PlategaError, CryptoBotError)\<close>.\<close>

definition is_gateway_exn :: "exn \<Rightarrow> bool" where
  "is_gateway_exn x = (case x of
       PyExn n m \<Rightarrow> n = ''PlategaError'' \<or> n = ''CryptoBotError'' | AppExn a \<Rightarrow> False)"

lemma invoice_amount_pos:
  "create_invoice_for_provider e pr ord amount desc = Inr i \<Longrightarrow> 0 < amount"
  by (auto simp: create_invoice_for_provider_def platega_create_invoice_def
        cryptobot_create_invoice_def split: if_splits)

lemma invoice_provider:
  "create_invoice_for_provider e pr ord amount desc = Inr i \<Longrightarrow>
     pr \<in> {''platega_sbp'', ''platega_crypto'', ''cryptobot''}"
  by (auto simp: create_invoice_for_provider_def split: if_splits)

lemma zero_amount_refused:
  assumes "pr \<in> {''platega_sbp'', ''platega_crypto'', ''cryptobot''}" "amount \<le> 0"
  shows "\<exists>x. create_invoice_for_provider e pr ord amount desc = Inl x \<and> is_gateway_exn x"
  using assms
  by (auto simp: create_invoice_for_provider_def platega_create_invoice_def
      cryptobot_create_invoice_def is_gateway_exn_def)

end
