(* ===== verification/Calendar.thy ===== *)
theory Calendar
  imports Prelude
begin

text \<open>
  The renderings of UTC timestamps the code stores in texts and log contexts:
  \<open>datetime.isoformat()\<close> and \<open>strftime("%d.%m.%Y %H:%M UTC")\<close>.  A timestamp
  counts microseconds since 1970-01-01; dates are proleptic Gregorian.
\<close>

definition civil_of_days :: "int \<Rightarrow> int \<times> int \<times> int" where
  "civil_of_days z0 =
     (let z = z0 + 719468; era = z div 146097; doe = z mod 146097;
          yoe = (doe - doe div 1460 + doe div 36524 - doe div 146096) div 365;
          doy = doe - (365 * yoe + yoe div 4 - yoe div 100);
          mp = (5 * doy + 2) div 153;
          d = doy - (153 * mp + 2) div 5 + 1;
          m = (if mp < 10 then mp + 3 else mp - 9);
          y = yoe + era * 400 + (if m \<le> 2 then 1 else 0)
      in (y, m, d))"

definition pad :: "nat \<Rightarrow> int \<Rightarrow> string" where
  "pad w n = (let s = nat_str (nat n) in replicate (w - length s) (CHR ''0'') @ s)"

definition iso_format :: "int \<Rightarrow> string" where
  "iso_format t =
     (let day = t div 86400000000; r = t mod 86400000000; us = r mod 1000000;
          s = r div 1000000
      in case civil_of_days day of (y, m, d) \<Rightarrow>
           pad 4 y @ ''-'' @ pad 2 m @ ''-'' @ pad 2 d @ ''T''
           @ pad 2 (s div 3600) @ '':'' @ pad 2 (s div 60 mod 60) @ '':'' @ pad 2 (s mod 60)
           @ (if us = 0 then '''' else ''.'' @ pad 6 us) @ ''+00:00'')"

definition strftime_dmy :: "int \<Rightarrow> string" where
  "strftime_dmy t =
     (let day = t div 86400000000; s = t mod 86400000000 div 1000000
      in case civil_of_days day of (y, m, d) \<Rightarrow>
           pad 2 d @ ''.'' @ pad 2 m @ ''.'' @ pad 4 y @ '' ''
           @ pad 2 (s div 3600) @ '':'' @ pad 2 (s div 60 mod 60) @ '' UTC'')"

lemma iso_format_example:
  "iso_format 1778630400000000 = ''2026-05-13T00:00:00+00:00''"
  by code_simp

lemma strftime_example:
  "strftime_dmy 951827696000000 = ''29.02.2000 12:34 UTC''"
  by code_simp

end
