(* ===== verification/Extension.thy ===== *)
theory Extension
  imports Balance Invoices Calendar
begin

text \<open>
  \<open>services/extension_service.py\<close>: paying for more days on an active
  subscription, from the balance at once or through a gateway and its webhook.
  Operations that run after the provider was paid give \<open>exn + db\<close>: the raised
  exception or the new state of the session.
\<close>

definition extension_price :: "int \<Rightarrow> int option \<Rightarrow> int" where
  "extension_price base percent =
     (if \<not> int_truthy percent then base
      else let pct = max 0 (min 100 (the percent))
           in max 0 (base * (100 - pct) div 100))"

definition extension_base :: "env \<Rightarrow> int option \<Rightarrow> int" where
  "extension_base e expires =
     (case expires of None \<Rightarrow> e_now e | Some x \<Rightarrow> if x > e_now e then x else e_now e)"

text \<open>\<open>int((payment.meta or {}).get("days") or sub.days)\<close>.\<close>

definition extension_days :: "payment_row \<Rightarrow> sub_row \<Rightarrow> int option" where
  "extension_days pay s =
     (if opt_json_truthy (meta_get (p_meta pay) ''days'')
      then as_int (the (meta_get (p_meta pay) ''days'')) else Some (s_days s))"

definition call_northline_extend :: "env \<Rightarrow> payment_row \<Rightarrow> sub_row \<Rightarrow> db \<Rightarrow> exn + db" where
  "call_northline_extend e pay s d =
     (case extension_days pay s of
        None \<Rightarrow> Inl (PyExn ''ValueError'' ''invalid literal for int()'')
      | Some days \<Rightarrow>
     (case extend_key e (opt_str (s_provider_id s)) days
             (''payment-'' @ py_str (p_id pay) @ ''-extend'') of
        Inl x \<Rightarrow> Inl x
      | Inr resp \<Rightarrow>
          (let new = extension_base e (s_expires_at s) + days_of days;
               d1 = mod_sub (e_now e) (s_id s)
                      (\<lambda>r. r\<lparr>s_expires_at := Some new, s_status := SubActive\<rparr>) d;
               d2 = business_log e level_info ''subscription_extended'' (Some (p_user_id pay))
                      (''Subscription id='' @ py_str (s_id s) @ '' extended by '' @ py_str days
                       @ '' days; new expires_at='' @ iso_format new)
                      [(''subscription_id'', JInt (s_id s)), (''payment_id'', JInt (p_id pay)),
                       (''days_added'', JInt days), (''new_expires_at'', JStr (iso_format new))] d1
           in case get_user d2 (p_user_id pay) of
                None \<Rightarrow> Inr d2
              | Some u \<Rightarrow> Inr
                  (enqueue_message e (u_id u) (u_tg_id u) ''text''
                     [(''text_key'', JStr ''subscription_extended''),
                      (''format_kwargs'', JObj [(''new_expires_at'', JStr (strftime_dmy new))]),
                      (''parse_mode'', JStr ''HTML''), (''kind'', JStr ''subscription_extended''),
                      (''subscription_id'', JInt (s_id s))] None d2))))"

definition refund_extension :: "env \<Rightarrow> int \<Rightarrow> payment_row \<Rightarrow> int \<Rightarrow> int \<Rightarrow> exn \<Rightarrow> db \<Rightarrow> db" where
  "refund_extension e uid pay sid amount x d =
     (case get_user d uid of
        None \<Rightarrow> business_log e level_critical ''vpn_provider_failed_after_payment_extend'' (Some uid)
                  ''User missing during extension refund'' [(''payment_id'', JInt (p_id pay))] d
      | Some u \<Rightarrow>
          (let new = u_balance u + amount;
               d1 = set_balance e uid new d;
               d2 = mod_payment (e_now e) (p_id pay) (\<lambda>p. p\<lparr>p_status := PayRefunded\<rparr>) d1;
               d3 = add_bt e uid amount BtRefund (Some (p_id pay)) (Some sid)
                      (Some ''Refund after VPN provider failure on extension'') new d2;
               d4 = business_log e level_critical ''vpn_provider_failed_after_payment_extend'' (Some uid)
                      ''NorthLine failed to extend key after payment; refunded''
                      [(''payment_id'', JInt (p_id pay)), (''subscription_id'', JInt sid),
                       (''refund_kopecks'', JInt amount), (''balance_after_kopecks'', JInt new),
                       (''error'', JStr (exn_str x)), (''error_code'', JStr (exn_code x))] d3
           in enqueue_message e uid (u_tg_id u) ''text''
                [(''text_key'', JStr ''extension_failed_refund''), (''format_kwargs'', JObj []),
                 (''parse_mode'', JStr ''HTML''), (''kind'', JStr ''extension_failed_refund''),
                 (''payment_id'', JInt (p_id pay))] None d4))"

text \<open>Called by the webhook for a paid extension.\<close>

definition apply_extension_after_payment :: "env \<Rightarrow> payment_row \<Rightarrow> db \<Rightarrow> exn + db" where
  "apply_extension_after_payment e pay d =
     (case meta_get (p_meta pay) ''subscription_id'' of
        None \<Rightarrow> Inr d
      | Some JNull \<Rightarrow> Inr d
      | Some j \<Rightarrow>
     (case as_int j of
        None \<Rightarrow> Inl (PyExn ''ValueError'' ''invalid literal for int()'')
      | Some sid \<Rightarrow>
     (case get_sub d sid of
        None \<Rightarrow> Inr (business_log e level_critical ''vpn_provider_failed_after_payment_extend''
                  (Some (p_user_id pay)) ''Subscription record missing for paid extension payment''
                  [(''payment_id'', JInt (p_id pay))] d)
      | Some s \<Rightarrow>
          (case call_northline_extend e pay s d of
             Inr d1 \<Rightarrow> Inr d1
           | Inl x \<Rightarrow>
               if is_northline_exn x
               then Inr (refund_extension e (p_user_id pay) pay (s_id s) (p_amount pay) x d)
               else Inl x))))"

section \<open>Creating the payment\<close>

record ext_result =
  xr_payment_id :: int
  xr_amount :: int
  xr_payment_url :: "string option"
  xr_key_url :: "string option"

text \<open>
  The extension paid from the balance.  \<open>d0\<close> is the state as of the last commit:
  an exception outside the provider client's classes rolls the debit back.
\<close>

definition extend_via_balance ::
  "env \<Rightarrow> int \<Rightarrow> sub_row \<Rightarrow> duration_row \<Rightarrow> string \<Rightarrow> int \<Rightarrow> (string \<times> json) list \<Rightarrow> db \<Rightarrow> db
    \<Rightarrow> (exn + ext_result) \<times> db" where
  "extend_via_balance e uid s td tcode amount meta d0 d =
     (case get_user d uid of
        None \<Rightarrow> (Inl (mk_error NotFoundError (Some (''User id='' @ py_str uid @ '' not found''))
                   (Some ''user_not_found'') []), d0)
      | Some u \<Rightarrow>
          if u_balance u < amount
          then (Inl (insufficient ''Insufficient balance'' ''required_kopecks'' (u_balance u) amount), d0)
          else
            (let new = u_balance u - amount;
                 pid = next_payment d;
                 d1 = set_balance e uid new d;
                 d2 = create_payment e uid (Some (s_id s)) PurExtend ''balance'' amount PayPaid
                        (Some (e_now e)) meta d1;
                 d3 = add_bt e uid (- amount) BtPurchase (Some pid) (Some (s_id s))
                        (Some (''Extend subscription #'' @ py_str (s_id s) @ '' ('' @ tcode @ '', +''
                               @ py_str (td_days td) @ ''d)'')) new d2
             in case get_payment d3 pid of
                  None \<Rightarrow> (Inl (PyExn ''InvalidRequestError'' ''''), d0)
                | Some pay \<Rightarrow>
                    (case call_northline_extend e pay s d3 of
                       Inr d4 \<Rightarrow> (Inr \<lparr>xr_payment_id = pid, xr_amount = amount,
                                       xr_payment_url = None, xr_key_url = s_key_url s\<rparr>, d4)
                     | Inl x \<Rightarrow>
                         if is_northline_exn x
                         then (Inl (mk_error NorthLineUnavailableError
                                     (Some ''Could not extend key after balance debit; refunded'') None
                                     [(''subscription_id'', JInt (s_id s)),
                                      (''refund_kopecks'', JInt amount)]),
                               refund_extension e uid pay (s_id s) amount x d3)
                         else (Inl x, d0))))"

text \<open>
  The attributes \<open>discount_percent\<close> and \<open>value\<close> the function asks the promo result
  for do not exist on \<open>PromoApplyResult\<close> (\<open>schemas/promo.py\<close>: \<open>type\<close>,
  \<open>amount_kopecks\<close>, \<open>percent\<close>, \<open>promo_id\<close>, \<open>message_text\<close>, \<open>balance_kopecks\<close>), so
  \<open>getattr\<close> gives its default 0.
\<close>

definition result_attr :: "promo_result \<Rightarrow> string \<Rightarrow> int option" where
  "result_attr r name =
     (if name = ''amount_kopecks'' then pr_amount r
      else if name = ''percent'' then pr_percent r
      else if name = ''promo_id'' then Some (pr_promo_id r)
      else if name = ''balance_kopecks'' then pr_balance r
      else Some 0)"

definition int_or :: "int option \<Rightarrow> int option \<Rightarrow> int option" where
  "int_or a b = (if int_truthy a then a else b)"

definition or_none :: "int option \<Rightarrow> int option" where
  "or_none a = (if int_truthy a then a else None)"

definition extension_discount :: "promo_result option \<Rightarrow> int option" where
  "extension_discount pr =
     (case pr of
        Some r \<Rightarrow> if pr_type r = PromoDiscount
                  then or_none (int_or (result_attr r ''discount_percent'') (result_attr r ''value''))
                  else None
      | None \<Rightarrow> None)"

definition promo_type_str :: "promo_type \<Rightarrow> string" where
  "promo_type_str t = (case t of PromoBalance \<Rightarrow> ''balance'' | PromoDiscount \<Rightarrow> ''discount_percent''
                       | PromoOther s \<Rightarrow> s)"

definition extension_meta ::
  "sub_row \<Rightarrow> duration_row \<Rightarrow> promo_result option \<Rightarrow> int \<Rightarrow> (string \<times> json) list" where
  "extension_meta s td pr base =
     [(''subscription_id'', JInt (s_id s)), (''duration_id'', JInt (td_id td)),
      (''days'', JInt (td_days td)), (''is_extension'', JBool True)]
     @ (case pr of
          None \<Rightarrow> []
        | Some r \<Rightarrow>
            [(''promo_id'', JInt (pr_promo_id r)), (''promo_type'', JStr (promo_type_str (pr_type r)))]
            @ (case extension_discount pr of None \<Rightarrow> []
               | Some p \<Rightarrow> [(''discount_percent'', JInt p), (''original_amount_kopecks'', JInt base)])
            @ (case (if pr_type r = PromoBalance
                     then or_none (int_or (result_attr r ''balance_kopecks'') (result_attr r ''value''))
                     else None) of
                 None \<Rightarrow> [] | Some b \<Rightarrow> [(''promo_balance_kopecks'', JInt b)]))"

text \<open>The promo code is validated (and a balance promo credited) before anything else.\<close>

definition extension_promo :: "env \<Rightarrow> string option \<Rightarrow> int \<Rightarrow> db \<Rightarrow> exn + promo_result option \<times> db" where
  "extension_promo e code uid d =
     (if \<not> str_truthy code then Inr (None, d)
      else case validate_and_apply e (the code) uid d of
             (Inl x, d1) \<Rightarrow> Inl (mk_error ValidationError (Some ''Promo code invalid'')
                              (Some ''promo_invalid'') [(''error'', JStr (exn_str x))])
           | (Inr r, d1) \<Rightarrow> Inr (Some r, d1))"

definition extension_external ::
  "env \<Rightarrow> int \<Rightarrow> sub_row \<Rightarrow> duration_row \<Rightarrow> string \<Rightarrow> string \<Rightarrow> int \<Rightarrow> (string \<times> json) list \<Rightarrow> db \<Rightarrow> db
    \<Rightarrow> (exn + ext_result) \<times> db" where
  "extension_external e uid s td tcode provider amount meta d0 d =
     (let pid = next_payment d;
          d1 = create_payment e uid (Some (s_id s)) PurExtend provider amount PayPending None meta d;
          order = ''payment-'' @ py_str pid
      in case create_invoice_for_provider e provider order amount
                (''VPN_PIX extend #'' @ py_str pid @ '' ('' @ tcode @ '', +'' @ py_str (td_days td) @ ''d)'') of
           Inl x \<Rightarrow> (Inl (if is_gateway_exn x then err PaymentProviderUnavailableError else x), d0)
         | Inr i \<Rightarrow>
             (case attach_invoice e pid (inv_external_id i)
                     (jset ''provider_response'' (inv_raw i)
                        (jset ''payment_url'' (JStr (inv_payment_url i)) meta)) d1 of
                Inl x \<Rightarrow> (Inl x, d0)
              | Inr d2 \<Rightarrow>
             (let d3 = business_log e level_info ''extension_payment_created'' (Some uid)
                         (''Created extension payment id='' @ py_str pid @ '' via '' @ provider)
                         [(''payment_id'', JInt pid), (''subscription_id'', JInt (s_id s)),
                          (''duration_id'', JInt (td_id td)), (''amount_kopecks'', JInt amount),
                          (''provider'', JStr provider)] d2
              in (Inr \<lparr>xr_payment_id = pid, xr_amount = amount,
                       xr_payment_url = Some (inv_payment_url i), xr_key_url = None\<rparr>, d3))))"

definition create_extension_payment ::
  "env \<Rightarrow> int \<Rightarrow> int \<Rightarrow> int \<Rightarrow> string \<Rightarrow> string option \<Rightarrow> db \<Rightarrow> (exn + ext_result) \<times> db" where
  "create_extension_payment e sid did uid provider code d =
     (case get_sub d sid of
        None \<Rightarrow> (Inl (mk_error SubscriptionNotFoundError
                   (Some (''Subscription id='' @ py_str sid @ '' not found'')) None []), d)
      | Some s \<Rightarrow>
          if s_user_id s \<noteq> uid
          then (Inl (mk_error SubscriptionNotFoundError
                   (Some (''Subscription id='' @ py_str sid @ '' not found'')) None []), d)
          else if s_status s \<noteq> SubActive
          then (Inl (mk_error SubscriptionNotExtendableError
                  (Some ''Subscription is not in active state'') None
                  [(''subscription_id'', JInt (s_id s)),
                   (''current_status'', JStr (sub_status_str (s_status s)))]), d)
          else if \<not> str_truthy (s_provider_id s)
          then (Inl (mk_error SubscriptionNotExtendableError
                  (Some ''Subscription has no provider id'') None
                  [(''subscription_id'', JInt (s_id s))]), d)
          else
     (case get_duration d did of
        None \<Rightarrow> (Inl (mk_error NotFoundError
                   (Some (''TariffDuration id='' @ py_str did @ '' not found for tariff_id=''
                          @ py_str (s_tariff_id s))) (Some ''duration_not_found'') []), d)
      | Some td \<Rightarrow>
          if td_tariff_id td \<noteq> s_tariff_id s
          then (Inl (mk_error NotFoundError
                   (Some (''TariffDuration id='' @ py_str did @ '' not found for tariff_id=''
                          @ py_str (s_tariff_id s))) (Some ''duration_not_found'') []), d)
          else
            (let tcode = (case get_tariff d (s_tariff_id s) of
                            Some t \<Rightarrow> t_code t | None \<Rightarrow> ''tariff_'' @ py_str (s_tariff_id s))
             in case extension_promo e code uid d of
                  Inl x \<Rightarrow> (Inl x, d)
                | Inr (pr, d1) \<Rightarrow>
                    (let amount = extension_price (td_price td) (extension_discount pr);
                         meta = extension_meta s td pr (td_price td)
                     in if provider = ''balance''
                        then extend_via_balance e uid s td tcode amount meta d d1
                        else extension_external e uid s td tcode provider amount meta d d1))))"

section \<open>Extending the key\<close>

lemma call_extend_frame:
  assumes "call_northline_extend e pay s d = Inr d'"
  shows "db_users d' = db_users d" "db_bts d' = db_bts d" "db_payments d' = db_payments d"
    "db_promos d' = db_promos d" "db_promo_acts d' = db_promo_acts d" "db_refs d' = db_refs d"
    "db_tickets d' = db_tickets d" "db_topics d' = db_topics d" "db_notifs d' = db_notifs d"
    "db_tariffs d' = db_tariffs d" "db_durations d' = db_durations d"
  using assms
  by (auto simp: call_northline_extend_def Let_def split: option.splits sum.splits)

lemma call_extend_sub:
  assumes "call_northline_extend e pay s d = Inr d'" "extension_days pay s = Some n"
  shows "map_option s_expires_at (get_sub d' k) =
           (if k = s_id s then map_option (\<lambda>_. Some (extension_base e (s_expires_at s) + days_of n)) (get_sub d k)
            else map_option s_expires_at (get_sub d k))"
    "map_option s_status (get_sub d' k) =
           (if k = s_id s then map_option (\<lambda>_. SubActive) (get_sub d k)
            else map_option s_status (get_sub d k))"
  using assms
  by (auto simp: call_northline_extend_def Let_def option.map_comp comp_def
      split: option.splits sum.splits)

lemma call_extend_fails:
  "call_northline_extend e pay s d = Inl x \<Longrightarrow> call_northline_extend e pay s d' = Inl x"
  by (auto simp: call_northline_extend_def Let_def split: option.splits sum.splits)

lemma extension_base_ge:
  "e_now e \<le> extension_base e x" "x = Some t \<Longrightarrow> t \<le> extension_base e x"
  by (auto simp: extension_base_def split: option.split)

text \<open>
  The two discount computations of the code agree wherever the percentage is one
  the admin panel lets in.
\<close>

lemma extension_price_eq:
  assumes "0 \<le> base"
  shows "extension_price base (Some p) = compute_discounted_price base p"
proof -
  consider "p \<le> 0" | "p \<ge> 100" | "0 < p" "p < 100" by linarith
  then show ?thesis
  proof cases
    case 3
    then have "0 \<le> base * (100 - p) div 100" using assms by (simp add: pos_imp_zdiv_nonneg_iff)
    then show ?thesis using 3
      by (simp add: extension_price_def compute_discounted_price_def int_truthy_def)
  qed (auto simp: extension_price_def compute_discounted_price_def int_truthy_def assms)
qed

section \<open>The refund of an extension\<close>

lemma refund_extension_frame [simp, frame]:
  "db_subs (refund_extension e u pay sid a x d) = db_subs d"
  "db_promos (refund_extension e u pay sid a x d) = db_promos d"
  "db_promo_acts (refund_extension e u pay sid a x d) = db_promo_acts d"
  "db_refs (refund_extension e u pay sid a x d) = db_refs d"
  "db_tickets (refund_extension e u pay sid a x d) = db_tickets d"
  "db_topics (refund_extension e u pay sid a x d) = db_topics d"
  "db_notifs (refund_extension e u pay sid a x d) = db_notifs d"
  by (simp_all add: refund_extension_def Let_def split: option.split)

lemma refund_extension_missing:
  assumes "get_user d u = None"
  shows "db_users (refund_extension e u pay sid a x d) = db_users d"
    "db_bts (refund_extension e u pay sid a x d) = db_bts d"
    "db_payments (refund_extension e u pay sid a x d) = db_payments d"
  using assms by (simp_all add: refund_extension_def)

lemma refund_extension_effect:
  assumes "get_user d u = Some usr"
  shows "db_users (refund_extension e u pay sid a x d)
           = db_users (set_balance e u (u_balance usr + a) d)"
    "\<exists>b. db_bts (refund_extension e u pay sid a x d) = db_bts d @ [b]
        \<and> bt_user_id b = u \<and> bt_amount b = a \<and> bt_balance_after b = u_balance usr + a
        \<and> bt_reason b = BtRefund"
    "map_option p_status (get_payment (refund_extension e u pay sid a x d) k) =
       (if k = p_id pay then map_option (\<lambda>_. PayRefunded) (get_payment d k)
        else map_option p_status (get_payment d k))"
  using assms
  by (auto simp: refund_extension_def Let_def add_bt_def option.map_comp comp_def)

lemma refund_extension_ledger [keeps]:
  assumes "ledger_ok d"
  shows "ledger_ok (refund_extension e u pay sid a x d)"
proof (cases "get_user d u")
  case None
  then show ?thesis using assms by (simp add: refund_extension_def)
next
  case (Some usr)
  note eff = refund_extension_effect[OF Some, of e pay sid a x]
  obtain b where b: "db_bts (refund_extension e u pay sid a x d) = db_bts d @ [b]"
      "bt_user_id b = u" "bt_amount b = a" "bt_balance_after b = u_balance usr + a"
    using eff(2) by blast
  show ?thesis by (rule ledger_post[OF assms Some eff(1) b])
qed

lemma refund_extension_bonus [keeps]:
  assumes "bonus_ok d"
  shows "bonus_ok (refund_extension e u pay sid a x d)"
proof (cases "get_user d u")
  case None
  then show ?thesis using assms by (simp add: refund_extension_def)
next
  case (Some usr)
  have refs: "db_refs (refund_extension e u pay sid a x d) = db_refs d" by simp
  obtain b where b: "db_bts (refund_extension e u pay sid a x d) = db_bts d @ [b]"
      "bt_reason b = BtRefund"
    using refund_extension_effect(2)[OF Some] by blast
  show ?thesis by (rule bonus_other_row[OF assms refs b(1)]) (simp add: b(2))
qed

lemma refund_extension_counts [keeps, simp]:
  "promo_counts_ok (refund_extension e u pay sid a x d) = promo_counts_ok d"
  by (rule promo_counts_cong; simp)

section \<open>The invariants under extensions\<close>

text \<open>The three invariants the money operations share.\<close>

definition money_ok :: "db \<Rightarrow> bool" where
  "money_ok d \<longleftrightarrow> ledger_ok d \<and> bonus_ok d \<and> promo_counts_ok d"

lemma money_okI: "ledger_ok d \<Longrightarrow> bonus_ok d \<Longrightarrow> promo_counts_ok d \<Longrightarrow> money_ok d"
  and money_okD: "money_ok d \<Longrightarrow> ledger_ok d" "money_ok d \<Longrightarrow> bonus_ok d"
    "money_ok d \<Longrightarrow> promo_counts_ok d"
  by (simp_all add: money_ok_def)

lemma money_ok_cong:
  assumes "db_users d' = db_users d" "db_bts d' = db_bts d" "db_refs d' = db_refs d"
    "db_promos d' = db_promos d" "db_promo_acts d' = db_promo_acts d"
  shows "money_ok d' = money_ok d"
  using ledger_cong[OF assms(1,2)] bonus_ok_cong[OF assms(3,2)] promo_counts_cong[OF assms(4,5)]
  by (simp add: money_ok_def)

lemma money_ok_writes [simp]:
  "money_ok (business_log e b1 b2 b3 b4 b5 d) = money_ok d"
  "money_ok (tech_log e t1 t2 t3 t4 d) = money_ok d"
  "money_ok (enqueue_message e o1 o2 o3 o4 o5 d) = money_ok d"
  "money_ok (create_sub e s1 s2 s3 s4 s5 s6 d) = money_ok d"
  "money_ok (create_payment e p1 p2 p3 p4 p5 p6 p7 p8 d) = money_ok d"
  "money_ok (mod_sub m1 m2 m3 d) = money_ok d"
  "money_ok (mod_payment n1 n2 n3 d) = money_ok d"
  by (rule money_ok_cong; simp)+

lemma money_empty: "money_ok empty_db"
  by (simp add: money_ok_def ledger_empty bonus_empty promo_counts_empty)

text \<open>A movement on one wallet with its ledger row, other than a referral bonus.\<close>

lemma money_post:
  assumes ok: "money_ok d" and u: "get_user d uid = Some u" and r: "r \<noteq> BtReferralBonus"
  shows "money_ok (add_bt e uid a r p s ds (u_balance u + a) (set_balance e' uid (u_balance u + a) d))"
proof (rule money_okI)
  let ?d = "add_bt e uid a r p s ds (u_balance u + a) (set_balance e' uid (u_balance u + a) d)"
  obtain b where b: "db_bts ?d = db_bts d @ [b]" "bt_user_id b = uid" "bt_amount b = a"
      "bt_balance_after b = u_balance u + a" "bt_reason b = r"
    by (simp add: add_bt_def)
  show "ledger_ok ?d"
    by (rule ledger_post[OF money_okD(1)[OF ok] u _ b(1-4)]) simp
  show "bonus_ok ?d"
    by (rule bonus_other_row[OF money_okD(2)[OF ok] _ b(1)]) (simp_all add: b(5) r)
  show "promo_counts_ok ?d" using money_okD(3)[OF ok] by simp
qed

lemma call_extend_money:
  "call_northline_extend e pay s d = Inr d' \<Longrightarrow> money_ok d' = money_ok d"
  by (rule money_ok_cong) (auto dest: call_extend_frame)

lemma refund_extension_money [keeps]:
  "money_ok d \<Longrightarrow> money_ok (refund_extension e u pay sid a x d)"
  by (simp add: money_ok_def refund_extension_ledger refund_extension_bonus)

lemma apply_extension_money [keeps]:
  "money_ok d \<Longrightarrow> apply_extension_after_payment e pay d = Inr d' \<Longrightarrow> money_ok d'"
  by (auto simp: apply_extension_after_payment_def refund_extension_money
      dest!: call_extend_money split: option.splits json.splits sum.splits if_splits)

lemma validate_and_apply_bonus [keeps]:
  assumes "bonus_ok d"
  shows "bonus_ok (snd (validate_and_apply e code uid d))"
proof (cases "fst (validate_and_apply e code uid d)")
  case (Inl x)
  then show ?thesis using validate_and_apply_raise assms by metis
next
  case (Inr r)
  have refs: "db_refs (snd (validate_and_apply e code uid d)) = db_refs d" by simp
  from Inr show ?thesis
  proof (rule validate_and_apply_ok)
    fix p
    assume "(pc_type p = PromoBalance \<and> fst (apply_balance e p uid d) = Inr r
       \<and> snd (validate_and_apply e code uid d) = snd (apply_balance e p uid d))
     \<or> (pc_type p = PromoDiscount \<and> fst (apply_discount e p uid d) = Inr r
       \<and> snd (validate_and_apply e code uid d) = snd (apply_discount e p uid d))"
    then consider (bal) "fst (apply_balance e p uid d) = Inr r"
        "snd (validate_and_apply e code uid d) = snd (apply_balance e p uid d)"
      | (disc) "snd (validate_and_apply e code uid d) = snd (apply_discount e p uid d)" by blast
    then show ?thesis
    proof cases
      case bal
      from bal(1) show ?thesis
        by (rule apply_balance_effect)
           (rule bonus_other_row[OF assms refs], auto simp: bal(2))
    next
      case disc
      then show ?thesis using bonus_frame[OF assms refs] by simp
    qed
  qed
qed

lemma validate_and_apply_money [keeps]:
  "money_ok d \<Longrightarrow> money_ok (snd (validate_and_apply e code uid d))"
  by (simp add: money_ok_def validate_and_apply_ledger validate_and_apply_bonus
      validate_and_apply_counts)

lemma extension_promo_money [keeps]:
  "money_ok d \<Longrightarrow> extension_promo e code uid d = Inr (pr, d') \<Longrightarrow> money_ok d'"
  using validate_and_apply_money[of d e "the code" uid]
  by (auto simp: extension_promo_def split: if_splits prod.splits sum.splits)

lemma extend_via_balance_money [keeps]:
  assumes "money_ok d0" "money_ok d"
  shows "money_ok (snd (extend_via_balance e uid s td tcode amount meta d0 d))"
proof (cases "get_user d uid")
  case None
  then show ?thesis using assms by (simp add: extend_via_balance_def)
next
  case (Some u)
  let ?pay = "create_payment e uid (Some (s_id s)) PurExtend ''balance'' amount PayPaid
                (Some (e_now e)) meta"
  have post: "money_ok (add_bt e uid (- amount) BtPurchase p q ds (u_balance u - amount)
                 (?pay (set_balance e uid (u_balance u - amount) d)))" for p q ds
  proof -
    have "money_ok (add_bt e uid (- amount) BtPurchase p q ds (u_balance u - amount)
                 (set_balance e uid (u_balance u - amount) d))"
      using money_post[OF assms(2) Some, of BtPurchase e "- amount"] by simp
    then show ?thesis by (subst money_ok_cong[rotated -1]) (simp_all add: add_bt_def next_bt_def)
  qed
  show ?thesis
    using assms(1) post
    by (auto simp: extend_via_balance_def Some Let_def refund_extension_money
        dest!: call_extend_money split: option.split sum.split)
qed

lemma extension_external_money [keeps]:
  "money_ok d0 \<Longrightarrow> money_ok d \<Longrightarrow>
     money_ok (snd (extension_external e uid s td tcode pr amount meta d0 d))"
  by (auto simp: extension_external_def attach_invoice_Inr Let_def split: sum.split)

lemma create_extension_money [keeps]:
  assumes "money_ok d"
  shows "money_ok (snd (create_extension_payment e sid did uid pr code d))"
  using assms extension_promo_money[OF assms, of e code uid]
  by (auto simp: create_extension_payment_def Let_def extend_via_balance_money
      extension_external_money split: option.split sum.split prod.split)

end
