(* ===== verification/Payments.thy ===== *)
theory Payments
  imports Extension
begin

text \<open>
  \<open>services/payment_service.py\<close>: invoices for a subscription or a top-up, and the
  webhook that settles a payment: key issuing, wallet credit or extension, then
  the referral bonus and the promo activation.
\<close>

definition min_topup :: int where "min_topup = 1000"

text \<open>\<open>_format_rub\<close>.\<close>

definition format_rub :: "int \<Rightarrow> string" where
  "format_rub amount =
     (let a = \<bar>amount\<bar>; rubles = a div 100; kop = a mod 100 in
      (if amount < 0 then ''-'' else '''') @ py_str rubles @ ''.''
      @ (if kop < 10 then ''0'' @ py_str kop else py_str kop))"

definition payment_expires_at :: "env \<Rightarrow> int" where
  "payment_expires_at e = e_now e + minutes (e_payment_ttl e)"

record pay_result =
  py_payment_id :: int
  py_sub_id :: "int option"
  py_payment_url :: string
  py_expires_at :: int
  py_amount :: int

section \<open>Creating a payment\<close>

text \<open>
  A gateway failure raises after writing log rows; the exception rolls the
  session back, so neither the pending rows nor the log rows survive.
\<close>

definition create_subscription_payment ::
  "env \<Rightarrow> int \<Rightarrow> int \<Rightarrow> int \<Rightarrow> string \<Rightarrow> int option \<Rightarrow> db \<Rightarrow> (exn + pay_result) \<times> db" where
  "create_subscription_payment e uid tid did provider promo_id d =
     (case get_tariff d tid of
        None \<Rightarrow> (Inl (mk_error NotFoundError (Some (''Tariff id='' @ py_str tid @ '' not found''))
                   (Some ''tariff_not_found'') []), d)
      | Some t \<Rightarrow>
     (case get_duration d did of
        None \<Rightarrow> (Inl (mk_error NotFoundError
                   (Some (''TariffDuration id='' @ py_str did @ '' not found''))
                   (Some ''duration_not_found'') []), d)
      | Some td \<Rightarrow>
          if td_tariff_id td \<noteq> tid
          then (Inl (mk_error NotFoundError
                   (Some (''TariffDuration id='' @ py_str did @ '' not found''))
                   (Some ''duration_not_found'') []), d)
          else
     (case discount_lookup d promo_id (td_price td) of (amount, promo_meta, applied) \<Rightarrow>
        (let sid = next_sub d;
             pid = next_payment d;
             d1 = create_sub e uid tid (Some did) (t_devices t) (td_days td) False d;
             d2 = create_payment e uid (Some sid) PurSubscription provider amount PayPending None
                    promo_meta d1
         in case create_invoice_for_provider e provider (''payment-'' @ py_str pid) amount
                   (''VPN_PIX subscription #'' @ py_str pid @ '' ('' @ t_code t @ '', ''
                    @ py_str (td_days td) @ ''d)'') of
              Inl x \<Rightarrow> (Inl (if is_gateway_exn x then err PaymentProviderUnavailableError else x), d)
            | Inr i \<Rightarrow>
                (case attach_invoice e pid (inv_external_id i)
                        (jset ''provider_response'' (inv_raw i)
                          (jset ''payment_url'' (JStr (inv_payment_url i)) promo_meta)) d2 of
                   Inl x \<Rightarrow> (Inl x, d)
                 | Inr d3 \<Rightarrow>
                (let d4 = business_log e level_info ''subscription_payment_created'' (Some uid)
                            (''Created subscription payment id='' @ py_str pid @ '' via '' @ provider)
                            [(''payment_id'', JInt pid), (''subscription_id'', JInt sid),
                             (''provider'', JStr provider), (''amount_kopecks'', JInt amount)] d3
                 in (Inr \<lparr>py_payment_id = pid, py_sub_id = Some sid,
                          py_payment_url = inv_payment_url i, py_expires_at = payment_expires_at e,
                          py_amount = amount\<rparr>, d4)))))))"

definition create_topup_payment ::
  "env \<Rightarrow> int \<Rightarrow> int \<Rightarrow> string \<Rightarrow> db \<Rightarrow> (exn + pay_result) \<times> db" where
  "create_topup_payment e uid amount provider d =
     (if amount < min_topup
      then (Inl (mk_error MinimumTopupError
              (Some (''Top-up amount must be at least '' @ py_str (min_topup div 100) @ '' RUB'')) None
              [(''min_kopecks'', JInt min_topup)]), d)
      else
        (let pid = next_payment d;
             d1 = create_payment e uid None PurTopup provider amount PayPending None [] d
         in case create_invoice_for_provider e provider (''payment-'' @ py_str pid) amount
                   (''VPN_PIX top-up #'' @ py_str pid) of
              Inl x \<Rightarrow> (Inl (if is_gateway_exn x then err PaymentProviderUnavailableError else x), d)
            | Inr i \<Rightarrow>
                (case attach_invoice e pid (inv_external_id i)
                        [(''payment_url'', JStr (inv_payment_url i)),
                         (''provider_response'', inv_raw i)] d1 of
                   Inl x \<Rightarrow> (Inl x, d)
                 | Inr d2 \<Rightarrow>
                (let d3 = business_log e level_info ''topup_payment_created'' (Some uid)
                            (''Created top-up payment id='' @ py_str pid @ '' via '' @ provider)
                            [(''payment_id'', JInt pid), (''provider'', JStr provider),
                             (''amount_kopecks'', JInt amount)] d2
                 in (Inr \<lparr>py_payment_id = pid, py_sub_id = None,
                          py_payment_url = inv_payment_url i, py_expires_at = payment_expires_at e,
                          py_amount = amount\<rparr>, d3)))))"

section \<open>Messages to the user\<close>

definition key_message :: "env \<Rightarrow> int \<Rightarrow> string \<Rightarrow> (string \<times> json) list" where
  "key_message e pid key_url =
     [(''text'', JText ''subscription_key_issued'' [JInt pid, JStr key_url]),
      (''parse_mode'', JStr ''HTML''), (''kind'', JStr ''subscription_key''),
      (''payment_id'', JInt pid), (''key_url'', JStr key_url)]
     @ (if e_howto_url e \<noteq> []
        then [(''inline_keyboard'',
               JArr [JArr [JObj [(''text'', JText ''how_to_connect'' []),
                                 (''url'', JStr (e_howto_url e))]]])]
        else [])"

definition enqueue_subscription_key :: "env \<Rightarrow> int \<Rightarrow> int \<Rightarrow> string \<Rightarrow> db \<Rightarrow> exn + db" where
  "enqueue_subscription_key e uid pid key_url d =
     (case get_user d uid of
        None \<Rightarrow> Inl (mk_error NotFoundError (Some (''User id='' @ py_str uid @ '' not found'')) None [])
      | Some u \<Rightarrow> Inr (enqueue_message e uid (u_tg_id u) ''text'' (key_message e pid key_url) None d))"

definition enqueue_provider_failed :: "env \<Rightarrow> int \<Rightarrow> db \<Rightarrow> db" where
  "enqueue_provider_failed e uid d =
     (case get_user d uid of
        None \<Rightarrow> d
      | Some u \<Rightarrow> enqueue_message e uid (u_tg_id u) ''text''
          [(''text'', JText ''vpn_provider_failed_after_payment'' []), (''parse_mode'', JStr ''HTML''),
           (''kind'', JStr ''vpn_provider_failed_after_payment'')] None d)"

section \<open>Settling a paid payment\<close>

definition provision_key :: "env \<Rightarrow> payment_row \<Rightarrow> sub_row \<Rightarrow> db \<Rightarrow> exn + key_response" where
  "provision_key e pay s d =
     (let t = (if s_tariff_id s \<noteq> 0 then get_tariff d (s_tariff_id s) else None)
      in create_key e (s_days s) (s_devices s) (''payment-'' @ py_str (p_id pay))
           [(''user_id'', JInt (p_user_id pay)), (''subscription_id'', JInt (s_id s)),
            (''payment_id'', JInt (p_id pay))]
           (case t of None \<Rightarrow> None | Some r \<Rightarrow> if t_unlimited r then Some True else None)
           (map_option t_lte_gb t)
           (build_branding (map_option t_code t) False))"

definition provision_subscription_key ::
  "env \<Rightarrow> payment_row \<Rightarrow> string option \<Rightarrow> db \<Rightarrow> exn + db" where
  "provision_subscription_key e pay trace d =
     (case (case p_sub_id pay of None \<Rightarrow> None | Some i \<Rightarrow> get_sub d i) of
        None \<Rightarrow> Inr (business_log e level_critical ''vpn_provider_failed_after_payment''
                  (Some (p_user_id pay))
                  ''Subscription record missing for paid payment - manual intervention''
                  [(''payment_id'', JInt (p_id pay))] d)
      | Some s \<Rightarrow>
          (case provision_key e pay s d of
             Inl x \<Rightarrow>
               (let d1 = mod_sub (e_now e) (s_id s) (\<lambda>r. r\<lparr>s_status := SubFailedProvider\<rparr>) d;
                    d2 = business_log e level_critical ''vpn_provider_failed_after_payment''
                           (Some (p_user_id pay))
                           ''NorthLine failed to issue key after successful payment''
                           [(''payment_id'', JInt (p_id pay)), (''subscription_id'', JInt (s_id s)),
                            (''error'', JStr (exn_str x))] d1;
                    d3 = tech_log e ''northline_create_key_failed'' (Some (p_user_id pay))
                           [(''payment_id'', JInt (p_id pay)), (''subscription_id'', JInt (s_id s)),
                            (''error'', JStr (exn_str x))] trace d2
                in Inr (enqueue_provider_failed e (p_user_id pay) d3))
           | Inr kr \<Rightarrow>
               (let key_url = (if kr_key kr \<noteq> [] then Some (kr_key kr) else None);
                    d1 = mod_sub (e_now e) (s_id s)
                           (\<lambda>r. r\<lparr>s_provider_id := (if kr_subscription_id kr \<noteq> []
                                                    then Some (kr_subscription_id kr) else None),
                                  s_key_url := key_url, s_status := SubActive,
                                  s_started_at := Some (e_now e),
                                  s_expires_at := Some (e_now e + days_of (s_days s))\<rparr>) d;
                    d2 = business_log e level_info ''subscription_activated'' (Some (p_user_id pay))
                           (''Subscription id='' @ py_str (s_id s) @ '' activated after payment id=''
                            @ py_str (p_id pay))
                           [(''subscription_id'', JInt (s_id s)), (''payment_id'', JInt (p_id pay)),
                            (''key_url'', json_opt_str key_url)] d1
                in enqueue_subscription_key e (p_user_id pay) (p_id pay) (kr_key kr) d2)))"

definition credit_topup :: "env \<Rightarrow> payment_row \<Rightarrow> string option \<Rightarrow> db \<Rightarrow> db" where
  "credit_topup e pay trace d =
     (case get_user d (p_user_id pay) of
        None \<Rightarrow> tech_log e ''topup_user_not_found'' None
                  [(''payment_id'', JInt (p_id pay)), (''user_id'', JInt (p_user_id pay))] trace d
      | Some u \<Rightarrow>
          (let amount = p_amount pay; new = u_balance u + amount;
               d1 = set_balance e (p_user_id pay) new d;
               d2 = add_bt e (p_user_id pay) amount BtTopup (Some (p_id pay)) None
                      (Some (''Top-up via '' @ p_provider pay)) new d1;
               d3 = business_log e level_info ''balance_topped_up'' (Some (p_user_id pay))
                      (''Top-up payment id='' @ py_str (p_id pay) @ '' credited '' @ py_str amount
                       @ '' kopecks'')
                      [(''payment_id'', JInt (p_id pay)), (''amount_kopecks'', JInt amount),
                       (''balance_after'', JInt new)] d2
           in enqueue_message e (p_user_id pay) (u_tg_id u) ''text''
                [(''text'', JText ''topup_succeeded'' [JStr (format_rub amount), JStr (format_rub new)]),
                 (''parse_mode'', JStr ''HTML''), (''kind'', JStr ''topup_succeeded''),
                 (''payment_id'', JInt (p_id pay))] None d3))"

definition is_extension_payment :: "payment_row \<Rightarrow> bool" where
  "is_extension_payment pay \<longleftrightarrow>
     p_purpose pay \<noteq> PurTopup
   \<and> opt_json_truthy (meta_get (p_meta pay) ''subscription_id'')
   \<and> (p_purpose pay = PurExtend \<or> opt_json_truthy (meta_get (p_meta pay) ''is_extension''))"

definition apply_referral_bonus_safe :: "env \<Rightarrow> payment_row \<Rightarrow> db \<Rightarrow> db" where
  "apply_referral_bonus_safe e pay d =
     (case get_user d (p_user_id pay) of
        None \<Rightarrow> d | Some u \<Rightarrow> apply_referrer_bonus e u pay d)"

definition meta_promo_type :: "payment_row \<Rightarrow> json option" where
  "meta_promo_type pay =
     (if opt_json_truthy (meta_get (p_meta pay) ''promo_type'')
      then meta_get (p_meta pay) ''promo_type''
      else case meta_get (p_meta pay) ''discount_percent'' of
             None \<Rightarrow> None | Some JNull \<Rightarrow> None | Some v \<Rightarrow> Some (JStr ''discount_percent''))"

definition record_promo_activation_safe :: "env \<Rightarrow> payment_row \<Rightarrow> db \<Rightarrow> db" where
  "record_promo_activation_safe e pay d =
     (if \<not> opt_json_truthy (meta_get (p_meta pay) ''promo_id'')
         \<or> meta_promo_type pay \<noteq> Some (JStr ''discount_percent'')
      then d
      else
        (let original = (if opt_json_truthy (meta_get (p_meta pay) ''original_amount_kopecks'')
                         then as_int (the (meta_get (p_meta pay) ''original_amount_kopecks''))
                         else Some 0)
         in case (original, as_int (the (meta_get (p_meta pay) ''promo_id''))) of
              (Some orig, Some i) \<Rightarrow>
                snd (record_discount_activation e i (p_user_id pay) (p_id pay)
                       (max 0 (orig - p_amount pay)) d)
            | _ \<Rightarrow> d))"

datatype webhook_result = Ignored string | Processed int string

definition mark_payment :: "env \<Rightarrow> payment_row \<Rightarrow> payment_status \<Rightarrow> int option
                           \<Rightarrow> (string \<times> json) list \<Rightarrow> db \<Rightarrow> db" where
  "mark_payment e pay st paid_at raw d =
     mod_payment (e_now e) (p_id pay)
       (\<lambda>p. p\<lparr>p_status := st, p_paid_at := (case paid_at of None \<Rightarrow> p_paid_at p | Some t \<Rightarrow> Some t),
              p_meta := Some (jset ''webhook_raw'' (JObj raw)
                          (case p_meta pay of None \<Rightarrow> [] | Some m \<Rightarrow> m))\<rparr>) d"

definition settle_by_purpose :: "env \<Rightarrow> payment_row \<Rightarrow> string option \<Rightarrow> db \<Rightarrow> exn + db" where
  "settle_by_purpose e pay trace d =
     (if is_extension_payment pay then apply_extension_after_payment e pay d
      else case p_purpose pay of
             PurSubscription \<Rightarrow> provision_subscription_key e pay trace d
           | PurTopup \<Rightarrow> Inr (credit_topup e pay trace d)
           | _ \<Rightarrow> Inr (tech_log e (''webhook_payment_unknown_purpose:'' @ purpose_str (p_purpose pay))
                        None [(''payment_id'', JInt (p_id pay))] trace d))"

definition post_paid_hooks :: "env \<Rightarrow> payment_row \<Rightarrow> db \<Rightarrow> db" where
  "post_paid_hooks e pay d =
     (if p_purpose pay \<noteq> PurTopup \<and> p_amount pay > 0
      then record_promo_activation_safe e pay (apply_referral_bonus_safe e pay d)
      else d)"

definition handle_paid ::
  "env \<Rightarrow> payment_row \<Rightarrow> (string \<times> json) list \<Rightarrow> string option \<Rightarrow> db \<Rightarrow> (exn + webhook_result) \<times> db" where
  "handle_paid e pay0 raw trace d =
     (let d1 = mark_payment e pay0 PayPaid (Some (e_now e)) raw d in
      case get_payment d1 (p_id pay0) of
        None \<Rightarrow> (Inl (PyExn ''StaleDataError'' ''''), d)
      | Some pay \<Rightarrow>
          (case settle_by_purpose e pay trace d1 of
             Inl x \<Rightarrow> (Inl x, d)
           | Inr d2 \<Rightarrow> (Inr (Processed (p_id pay) ''paid''), post_paid_hooks e pay d2)))"

definition handle_failed ::
  "env \<Rightarrow> payment_row \<Rightarrow> (string \<times> json) list \<Rightarrow> string option \<Rightarrow> db \<Rightarrow> (exn + webhook_result) \<times> db" where
  "handle_failed e pay raw trace d =
     (let d1 = mark_payment e pay PayFailed None raw d;
          d2 = (case (case p_sub_id pay of None \<Rightarrow> None | Some i \<Rightarrow> get_sub d1 i) of
                  None \<Rightarrow> d1
                | Some s \<Rightarrow> if s_status s = SubPending
                            then mod_sub (e_now e) (s_id s) (\<lambda>r. r\<lparr>s_status := SubFailed\<rparr>) d1 else d1);
          d3 = business_log e level_warning ''payment_failed'' (Some (p_user_id pay))
                 (''Payment id='' @ py_str (p_id pay) @ '' marked as failed'')
                 [(''payment_id'', JInt (p_id pay)), (''raw'', JObj raw)] d2;
          d4 = (case get_user d3 (p_user_id pay) of
                  None \<Rightarrow> d3
                | Some u \<Rightarrow> enqueue_message e (p_user_id pay) (u_tg_id u) ''text''
                    [(''text'', JText ''payment_failed'' []), (''parse_mode'', JStr ''HTML''),
                     (''kind'', JStr ''payment_failed''), (''payment_id'', JInt (p_id pay))] None d3);
          d5 = tech_log e ''payment_failed'' None
                 [(''payment_id'', JInt (p_id pay)), (''raw'', JObj raw)] trace d4
      in (Inr (Processed (p_id pay) ''failed''), d5))"

definition handle_expired ::
  "env \<Rightarrow> payment_row \<Rightarrow> (string \<times> json) list \<Rightarrow> string option \<Rightarrow> db \<Rightarrow> (exn + webhook_result) \<times> db" where
  "handle_expired e pay raw trace d =
     (let d1 = mark_payment e pay PayExpired None raw d;
          d2 = tech_log e ''payment_expired'' None
                 [(''payment_id'', JInt (p_id pay)), (''raw'', JObj raw)] trace d1
      in (Inr (Processed (p_id pay) ''expired''), d2))"

definition process_webhook_payment ::
  "env \<Rightarrow> string \<Rightarrow> string \<Rightarrow> string \<Rightarrow> (string \<times> json) list \<Rightarrow> string option \<Rightarrow> db
    \<Rightarrow> (exn + webhook_result) \<times> db" where
  "process_webhook_payment e provider external_id status raw trace d =
     (case payment_by_external d external_id of
        None \<Rightarrow> (Inr (Ignored ''unknown_payment''),
                 tech_log e (''webhook_payment_unknown:'' @ provider) None
                   [(''external_id'', JStr external_id), (''status'', JStr status)] trace d)
      | Some pay \<Rightarrow>
          if p_status pay = PayPaid \<or> p_status pay = PayRefunded
          then (Inr (Ignored ''already_terminal''),
                tech_log e (''webhook_payment_duplicate:'' @ provider) None
                  [(''external_id'', JStr external_id), (''payment_id'', JInt (p_id pay)),
                   (''current_status'', JStr (payment_status_str (p_status pay)))] trace d)
          else
            (let st = str_lower status in
             if st \<in> set [''paid'', ''success'', ''succeeded'', ''completed'']
             then handle_paid e pay raw trace d
             else if st \<in> set [''failed'', ''fail'', ''error'']
             then handle_failed e pay raw trace d
             else if st \<in> set [''expired'', ''cancelled'', ''canceled'']
             then handle_expired e pay raw trace d
             else (Inr (Ignored ''unknown_status''),
                   tech_log e (''webhook_payment_unknown_status:'' @ provider) None
                     [(''external_id'', JStr external_id), (''payment_id'', JInt (p_id pay)),
                      (''status'', JStr status)] trace d)))"

section \<open>What settling touches\<close>

lemma enqueue_key_frame:
  assumes "enqueue_subscription_key e uid pid k d = Inr d'"
  shows "db_users d' = db_users d" "db_bts d' = db_bts d" "db_payments d' = db_payments d"
    "db_promos d' = db_promos d" "db_promo_acts d' = db_promo_acts d" "db_refs d' = db_refs d"
    "db_subs d' = db_subs d" "db_tickets d' = db_tickets d" "db_topics d' = db_topics d"
  using assms by (auto simp: enqueue_subscription_key_def split: option.splits)

lemma enqueue_provider_failed_frame [simp, frame]:
  "db_users (enqueue_provider_failed e u d) = db_users d"
  "db_bts (enqueue_provider_failed e u d) = db_bts d"
  "db_payments (enqueue_provider_failed e u d) = db_payments d"
  "db_promos (enqueue_provider_failed e u d) = db_promos d"
  "db_promo_acts (enqueue_provider_failed e u d) = db_promo_acts d"
  "db_refs (enqueue_provider_failed e u d) = db_refs d"
  "db_subs (enqueue_provider_failed e u d) = db_subs d"
  "db_tickets (enqueue_provider_failed e u d) = db_tickets d"
  "db_topics (enqueue_provider_failed e u d) = db_topics d"
  by (simp_all add: enqueue_provider_failed_def split: option.split)

lemma provision_frame:
  assumes "provision_subscription_key e pay trace d = Inr d'"
  shows "db_users d' = db_users d" "db_bts d' = db_bts d" "db_payments d' = db_payments d"
    "db_promos d' = db_promos d" "db_promo_acts d' = db_promo_acts d" "db_refs d' = db_refs d"
    "db_tickets d' = db_tickets d" "db_topics d' = db_topics d"
  using assms
  by (auto simp: provision_subscription_key_def Let_def dest: enqueue_key_frame
      split: option.splits sum.splits)

lemma credit_topup_frame [simp, frame]:
  "db_payments (credit_topup e pay t d) = db_payments d"
  "db_subs (credit_topup e pay t d) = db_subs d"
  "db_promos (credit_topup e pay t d) = db_promos d"
  "db_promo_acts (credit_topup e pay t d) = db_promo_acts d"
  "db_refs (credit_topup e pay t d) = db_refs d"
  "db_tickets (credit_topup e pay t d) = db_tickets d"
  "db_topics (credit_topup e pay t d) = db_topics d"
  by (simp_all add: credit_topup_def Let_def split: option.split)

lemma referral_safe_frame [simp, frame]:
  "db_payments (apply_referral_bonus_safe e pay d) = db_payments d"
  "db_subs (apply_referral_bonus_safe e pay d) = db_subs d"
  "db_promos (apply_referral_bonus_safe e pay d) = db_promos d"
  "db_promo_acts (apply_referral_bonus_safe e pay d) = db_promo_acts d"
  "db_tickets (apply_referral_bonus_safe e pay d) = db_tickets d"
  "db_topics (apply_referral_bonus_safe e pay d) = db_topics d"
  by (simp_all add: apply_referral_bonus_safe_def split: option.split)

lemma promo_safe_frame [simp, frame]:
  "db_payments (record_promo_activation_safe e pay d) = db_payments d"
  "db_users (record_promo_activation_safe e pay d) = db_users d"
  "db_bts (record_promo_activation_safe e pay d) = db_bts d"
  "db_subs (record_promo_activation_safe e pay d) = db_subs d"
  "db_refs (record_promo_activation_safe e pay d) = db_refs d"
  "db_outbox (record_promo_activation_safe e pay d) = db_outbox d"
  "db_tickets (record_promo_activation_safe e pay d) = db_tickets d"
  "db_topics (record_promo_activation_safe e pay d) = db_topics d"
  by (simp_all add: record_promo_activation_safe_def Let_def split: option.split)

lemma hooks_payments [simp]: "db_payments (post_paid_hooks e pay d) = db_payments d"
  and hooks_subs [simp]: "db_subs (post_paid_hooks e pay d) = db_subs d"
  by (simp_all add: post_paid_hooks_def)

lemma refund_extension_payments:
  "db_payments (refund_extension e u pay sid a x d) = db_payments d
   \<or> db_payments (refund_extension e u pay sid a x d)
      = db_payments (mod_payment (e_now e) (p_id pay) (\<lambda>p. p\<lparr>p_status := PayRefunded\<rparr>) d)"
  by (simp add: refund_extension_def Let_def db_payments_mod_payment split: option.split)

lemma settle_payments:
  assumes "settle_by_purpose e pay trace d = Inr d'"
  shows "db_payments d' = db_payments d
   \<or> db_payments d' = db_payments (mod_payment (e_now e) (p_id pay) (\<lambda>p. p\<lparr>p_status := PayRefunded\<rparr>) d)"
proof (cases "is_extension_payment pay")
  case True
  then have "apply_extension_after_payment e pay d = Inr d'"
    using assms by (simp add: settle_by_purpose_def)
  then show ?thesis
    using refund_extension_payments[of e "p_user_id pay" pay]
    by (auto simp: apply_extension_after_payment_def dest: call_extend_frame
        split: option.splits json.splits sum.splits if_splits)
next
  case False
  then show ?thesis
    using assms by (auto simp: settle_by_purpose_def dest: provision_frame
        split: payment_purpose.splits)
qed

section \<open>The money invariants\<close>

lemma credit_topup_money [keeps]:
  assumes "money_ok d"
  shows "money_ok (credit_topup e pay t d)"
proof (cases "get_user d (p_user_id pay)")
  case None
  then show ?thesis using assms by (simp add: credit_topup_def)
next
  case (Some u)
  show ?thesis
    using money_post[OF assms Some, of BtTopup e "p_amount pay"] Some
    by (simp add: credit_topup_def Let_def)
qed

lemma referral_safe_money [keeps]:
  "money_ok d \<Longrightarrow> money_ok (apply_referral_bonus_safe e pay d)"
  by (auto simp: apply_referral_bonus_safe_def money_ok_def apply_referrer_bonus_ledger
      apply_referrer_bonus_bonus_ok intro: promo_counts_frame split: option.split)

lemma promo_safe_money [keeps]:
  assumes "money_ok d"
  shows "money_ok (record_promo_activation_safe e pay d)"
proof (rule money_okI)
  show "ledger_ok (record_promo_activation_safe e pay d)"
    using ledger_cong[of "record_promo_activation_safe e pay d" d] assms by (simp add: money_okD)
  show "bonus_ok (record_promo_activation_safe e pay d)"
    using bonus_ok_cong[of "record_promo_activation_safe e pay d" d] assms by (simp add: money_okD)
  show "promo_counts_ok (record_promo_activation_safe e pay d)"
    using assms by (auto simp: record_promo_activation_safe_def Let_def money_okD
        record_discount_counts split: option.split)
qed

lemma hooks_money [keeps]: "money_ok d \<Longrightarrow> money_ok (post_paid_hooks e pay d)"
  by (simp add: post_paid_hooks_def referral_safe_money promo_safe_money)

lemma mark_payment_money [simp]: "money_ok (mark_payment e pay st t raw d) = money_ok d"
  by (simp add: mark_payment_def)

lemma provision_money:
  "provision_subscription_key e pay trace d = Inr d' \<Longrightarrow> money_ok d' = money_ok d"
  by (rule money_ok_cong) (auto dest: provision_frame)

lemma settle_money:
  "money_ok d \<Longrightarrow> settle_by_purpose e pay trace d = Inr d' \<Longrightarrow> money_ok d'"
  by (auto simp: settle_by_purpose_def credit_topup_money apply_extension_money
      dest: provision_money split: if_splits payment_purpose.splits)

lemma handle_paid_money [keeps]:
  "money_ok d \<Longrightarrow> money_ok (snd (handle_paid e pay raw trace d))"
  using settle_money[of "mark_payment e pay PayPaid (Some (e_now e)) raw d"]
  by (auto simp: handle_paid_def Let_def hooks_money split: option.split sum.split)

lemma handle_failed_money [keeps]:
  "money_ok d \<Longrightarrow> money_ok (snd (handle_failed e pay raw trace d))"
  by (simp add: handle_failed_def Let_def split: option.split)

lemma handle_expired_money [keeps]:
  "money_ok d \<Longrightarrow> money_ok (snd (handle_expired e pay raw trace d))"
  by (simp add: handle_expired_def Let_def)

lemma webhook_money [keeps]:
  "money_ok d \<Longrightarrow> money_ok (snd (process_webhook_payment e pr x st raw trace d))"
  by (auto simp: process_webhook_payment_def Let_def handle_paid_money handle_failed_money
      handle_expired_money split: option.split)

lemma create_subscription_payment_money [keeps]:
  "money_ok d \<Longrightarrow> money_ok (snd (create_subscription_payment e uid tid did pr i d))"
  by (auto simp: create_subscription_payment_def attach_invoice_Inr Let_def split: option.split sum.split prod.split)

lemma create_topup_payment_money [keeps]:
  "money_ok d \<Longrightarrow> money_ok (snd (create_topup_payment e uid a pr d))"
  by (auto simp: create_topup_payment_def attach_invoice_Inr Let_def split: sum.split)

section \<open>Finding the payment again\<close>

lemma find_external_upd:
  assumes "\<And>p. p_external_id (f p) = p_external_id p"
  shows "List.find (\<lambda>p. p_external_id p = x) (row_upd p_id k f ps)
         = map_option (\<lambda>p. if p_id p = k then f p else p) (List.find (\<lambda>p. p_external_id p = x) ps)"
  using assms by (induction ps) (auto simp: row_upd_Cons row_upd_def)

lemma payment_by_external_mod:
  assumes "\<And>p. p_external_id (f p) = p_external_id p"
  shows "payment_by_external (mod_payment n k f d) x
         = map_option (\<lambda>p. if p_id p = k then touch_payment n f p else p) (payment_by_external d x)"
  unfolding payment_by_external_def db_payments_mod_payment
  by (rule find_external_upd) (simp add: assms)

lemma payment_by_external_cong:
  "db_payments d' = db_payments d \<Longrightarrow> payment_by_external d' x = payment_by_external d x"
  by (simp add: payment_by_external_def)

lemma payment_by_external_mark:
  assumes "payment_by_external d x = Some pay"
  shows "\<exists>p. payment_by_external (mark_payment e pay st t raw d) x = Some p
             \<and> p_status p = st \<and> p_id p = p_id pay"
  using assms by (simp add: mark_payment_def payment_by_external_mod)

lemma handle_paid_terminal:
  assumes x: "payment_by_external d x = Some pay"
    and r: "fst (handle_paid e pay raw trace d) = Inr r"
  shows "\<exists>p. payment_by_external (snd (handle_paid e pay raw trace d)) x = Some p
             \<and> p_id p = p_id pay \<and> p_status p \<in> {PayPaid, PayRefunded}"
proof -
  let ?d1 = "mark_payment e pay PayPaid (Some (e_now e)) raw d"
  obtain q where q: "get_payment ?d1 (p_id pay) = Some q"
    using r by (auto simp: handle_paid_def Let_def split: option.splits)
  obtain d2 where d2: "settle_by_purpose e q trace ?d1 = Inr d2"
    using r q by (auto simp: handle_paid_def Let_def split: sum.splits)
  have fin: "snd (handle_paid e pay raw trace d) = post_paid_hooks e q d2"
    using q d2 by (simp add: handle_paid_def Let_def)
  have qid: "p_id q = p_id pay" using get_payment_SomeD[OF q] by simp
  obtain p where p: "payment_by_external ?d1 x = Some p" "p_status p = PayPaid" "p_id p = p_id pay"
    using payment_by_external_mark[OF x] by blast
  from settle_payments[OF d2] show ?thesis
  proof
    assume "db_payments d2 = db_payments ?d1"
    then show ?thesis
      using p payment_by_external_cong[of "post_paid_hooks e q d2" ?d1 x] by (simp add: fin)
  next
    let ?m = "mod_payment (e_now e) (p_id q) (\<lambda>p. p\<lparr>p_status := PayRefunded\<rparr>) ?d1"
    assume "db_payments d2 = db_payments ?m"
    then have "payment_by_external (post_paid_hooks e q d2) x = payment_by_external ?m x"
      by (intro payment_by_external_cong) simp
    then show ?thesis using p by (simp add: fin payment_by_external_mod qid)
  qed
qed

text \<open>\<open>format_rub\<close> is what \<open>_kopecks_to_decimal_str\<close> sends to the gateway.\<close>

lemma format_rub_decimal: "format_rub amount = decimal_rub amount"
proof -
  have nn: "0 \<le> \<bar>amount\<bar> div 100" by (simp add: pos_imp_zdiv_nonneg_iff)
  have "0 \<le> \<bar>amount\<bar> mod 100" by simp
  then show ?thesis
    using nn by (simp add: format_rub_def decimal_rub_def Let_def py_str_def not_less)
qed

end
