(* ===== verification/Webhooks.thy ===== *)
theory Webhooks
  imports Payments
begin

text \<open>
  The endpoints the payment providers call: \<open>api/webhook/platega.py\<close> and
  \<open>api/webhook/cryptobot.py\<close>, on top of \<open>process_webhook_payment\<close>.  What
  \<open>json.loads\<close> makes of the body is the argument \<open>parsed\<close> (\<open>Inl\<close> the error text),
  and the HMAC of the raw body with the api token is the argument \<open>hmac\<close>.
\<close>

datatype webhook_reply =
    WhResult webhook_result
  | WhNonPaid
  | WhBadRequest string

definition forbidden :: "string \<Rightarrow> exn" where
  "forbidden msg = mk_error ForbiddenError (Some msg) (Some ''invalid_signature'') []"

definition str_or_empty :: "json option \<Rightarrow> string" where
  "str_or_empty j = (case j of None \<Rightarrow> '''' | Some v \<Rightarrow> if json_truthy v then json_str v else '''')"

definition reply_of :: "(exn + webhook_result) \<times> db \<Rightarrow> db \<Rightarrow> (exn + webhook_reply) \<times> db" where
  "reply_of r d = (case r of (Inl x, _) \<Rightarrow> (Inl x, d) | (Inr w, d') \<Rightarrow> (Inr (WhResult w), d'))"

section \<open>Platega\<close>

definition platega_status_map :: "string \<Rightarrow> string option" where
  "platega_status_map = map_of
     [(''confirmed'', ''paid''), (''canceled'', ''failed''), (''cancelled'', ''failed''),
      (''chargebacked'', ''refunded''), (''pending'', ''pending'')]"

definition platega_status :: "string \<Rightarrow> string" where
  "platega_status raw = (case platega_status_map (str_lower raw) of
     Some s \<Rightarrow> s | None \<Rightarrow> str_lower raw)"

text \<open>
  A rejected call commits its technical log row before it raises; a settled call
  commits the log row and the settlement together, so a raise loses both.
\<close>

definition platega_webhook ::
  "env \<Rightarrow> string \<Rightarrow> string \<Rightarrow> string option \<Rightarrow> string option \<Rightarrow> string \<Rightarrow> string + json \<Rightarrow> db
    \<Rightarrow> (exn + webhook_reply) \<times> db" where
  "platega_webhook e shop api_key mid sec preview parsed d =
     (if \<not> platega_verify shop api_key mid sec
      then (Inl (forbidden ''Invalid webhook credentials''),
            tech_log e ''webhook_platega_invalid_credentials'' None
              [(''body_preview'', JStr (take 512 preview)),
               (''merchant_id_present'', JBool (str_truthy mid)),
               (''secret_present'', JBool (str_truthy sec))] (Some (e_trace e)) d)
      else case parsed of
        Inl m \<Rightarrow> (Inr (WhBadRequest ''invalid_json''),
                  tech_log e ''webhook_platega_bad_json'' None [(''error'', JStr m)]
                    (Some (e_trace e)) d)
      | Inr (JObj kvs) \<Rightarrow>
          (let ext = str_or_empty (map_of kvs ''id''); raw = str_or_empty (map_of kvs ''status'') in
           if ext = [] \<or> raw = []
           then (Inr (WhBadRequest ''missing_fields''),
                 tech_log e ''webhook_platega_missing_fields'' None [(''received'', JObj kvs)]
                   (Some (e_trace e)) d)
           else
             reply_of
               (process_webhook_payment e ''platega'' ext (platega_status raw) kvs (Some (e_trace e))
                  (tech_log e ''webhook_platega_received'' None
                     [(''external_id'', JStr ext), (''status_raw'', JStr raw),
                      (''status'', JStr (platega_status raw)),
                      (''amount'', case map_of kvs ''amount'' of None \<Rightarrow> JNull | Some v \<Rightarrow> v)]
                     (Some (e_trace e)) d)) d)
      | Inr _ \<Rightarrow> (Inl (PyExn ''AttributeError'' ''get''), d))"

section \<open>CryptoBot\<close>

definition cryptobot_verify :: "string \<Rightarrow> string \<Rightarrow> string option \<Rightarrow> bool" where
  "cryptobot_verify hmac token sig \<longleftrightarrow>
     str_truthy sig \<and> token \<noteq> [] \<and> hmac = str_lower (str_strip (the sig))"

definition cryptobot_webhook ::
  "env \<Rightarrow> string \<Rightarrow> string \<Rightarrow> string option \<Rightarrow> string \<Rightarrow> string + json \<Rightarrow> db
    \<Rightarrow> (exn + webhook_reply) \<times> db" where
  "cryptobot_webhook e hmac token sig preview parsed d =
     (if \<not> cryptobot_verify hmac token sig
      then (Inl (forbidden ''Invalid webhook signature''),
            tech_log e ''webhook_cryptobot_invalid_signature'' None
              [(''body_preview'', JStr (take 512 preview)),
               (''signature_present'', JBool (str_truthy sig))] (Some (e_trace e)) d)
      else case parsed of
        Inl m \<Rightarrow> (Inr (WhBadRequest ''invalid_json''),
                  tech_log e ''webhook_cryptobot_bad_json'' None [(''error'', JStr m)]
                    (Some (e_trace e)) d)
      | Inr (JObj kvs) \<Rightarrow>
          (case (if opt_json_truthy (map_of kvs ''payload'') then the (map_of kvs ''payload'') else JObj []) of
             JObj pl \<Rightarrow>
               (let ty = str_or_empty (map_of kvs ''update_type'');
                    ext = map_of pl ''invoice_id'';
                    d1 = tech_log e ''webhook_cryptobot_received'' None
                           [(''update_type'', JStr ty),
                            (''external_id'', case ext of None \<Rightarrow> JNull | Some v \<Rightarrow> v),
                            (''status'', JStr (str_or_empty (map_of pl ''status'')))]
                           (Some (e_trace e)) d
                in if ty \<noteq> ''invoice_paid'' \<or> \<not> opt_json_truthy ext
                   then (Inr WhNonPaid, d1)
                   else reply_of
                          (process_webhook_payment e ''cryptobot'' (json_str (the ext)) ''paid'' kvs
                             (Some (e_trace e)) d1) d)
           | _ \<Rightarrow> (Inl (PyExn ''AttributeError'' ''get''), d))
      | Inr _ \<Rightarrow> (Inl (PyExn ''AttributeError'' ''get''), d))"

section \<open>What the endpoints keep\<close>

lemma reply_of_money:
  "money_ok d \<Longrightarrow> money_ok (snd r) \<Longrightarrow> money_ok (snd (reply_of r d))"
  by (auto simp: reply_of_def split: prod.split sum.split)

lemma platega_webhook_money [keeps]:
  "money_ok d \<Longrightarrow> money_ok (snd (platega_webhook e shop key mid sec pv parsed d))"
  by (auto simp: platega_webhook_def Let_def intro!: reply_of_money webhook_money
      split: sum.split json.split)

lemma cryptobot_webhook_money [keeps]:
  "money_ok d \<Longrightarrow> money_ok (snd (cryptobot_webhook e hmac token sig pv parsed d))"
  by (auto simp: cryptobot_webhook_def Let_def intro!: reply_of_money webhook_money
      split: sum.split json.split)

text \<open>A call without the right credentials changes nothing but the technical log.\<close>

definition only_tech_log :: "db \<Rightarrow> db \<Rightarrow> bool" where
  "only_tech_log d d' \<longleftrightarrow> (\<exists>rows. d' = d\<lparr>db_tech_logs := db_tech_logs d @ rows\<rparr>)"

lemma only_tech_log_refl [simp]: "only_tech_log d d"
  unfolding only_tech_log_def by (rule exI[of _ "[]"]) simp

lemma only_tech_log_tech_log [simp]: "only_tech_log d (tech_log e a u p t d)"
  unfolding only_tech_log_def tech_log_def ins_tech_log_def by (rule exI) (rule refl)

lemma only_tech_log_trans: "only_tech_log a b \<Longrightarrow> only_tech_log b c \<Longrightarrow> only_tech_log a c"
  by (auto simp: only_tech_log_def)

lemma only_tech_log_tables:
  assumes "only_tech_log d d'"
  shows "db_users d' = db_users d" "db_payments d' = db_payments d" "db_subs d' = db_subs d"
    "db_bts d' = db_bts d" "db_outbox d' = db_outbox d" "db_refs d' = db_refs d"
  using assms by (auto simp: only_tech_log_def)

lemma platega_rejects:
  assumes "\<not> platega_verify shop key mid sec"
  shows "only_tech_log d (snd (platega_webhook e shop key mid sec pv parsed d))
       \<and> fst (platega_webhook e shop key mid sec pv parsed d) = Inl (forbidden ''Invalid webhook credentials'')"
  using assms by (simp add: platega_webhook_def)

lemma cryptobot_rejects:
  assumes "\<not> cryptobot_verify hmac token sig"
  shows "only_tech_log d (snd (cryptobot_webhook e hmac token sig pv parsed d))
       \<and> fst (cryptobot_webhook e hmac token sig pv parsed d) = Inl (forbidden ''Invalid webhook signature'')"
  using assms by (simp add: cryptobot_webhook_def)

text \<open>A settled payment: every later webhook is answered as a duplicate.\<close>

definition settled :: "db \<Rightarrow> string \<Rightarrow> bool" where
  "settled d x \<longleftrightarrow> (case payment_by_external d x of None \<Rightarrow> False
                   | Some p \<Rightarrow> p_status p = PayPaid \<or> p_status p = PayRefunded)"

lemma settled_cong: "db_payments d' = db_payments d \<Longrightarrow> settled d' x = settled d x"
  by (simp add: settled_def payment_by_external_def)

lemma webhook_settled:
  assumes "settled d x"
  shows "fst (process_webhook_payment e pr x st raw trace d) = Inr (Ignored ''already_terminal'')
       \<and> only_tech_log d (snd (process_webhook_payment e pr x st raw trace d))"
  using assms by (auto simp: settled_def process_webhook_payment_def split: option.splits)

lemma webhook_paid_settles:
  assumes "fst (process_webhook_payment e pr x st raw trace d) = Inr (Processed i ''paid'')"
  shows "settled (snd (process_webhook_payment e pr x st raw trace d)) x"
proof -
  obtain pay where pay: "payment_by_external d x = Some pay"
    using assms by (cases "payment_by_external d x") (auto simp: process_webhook_payment_def)
  have eq: "process_webhook_payment e pr x st raw trace d = handle_paid e pay raw trace d"
    using assms pay
    by (auto simp: process_webhook_payment_def handle_failed_def handle_expired_def Let_def
        split: if_splits)
  then obtain r where r: "fst (handle_paid e pay raw trace d) = Inr r" using assms by auto
  from handle_paid_terminal[OF pay r] eq show ?thesis by (auto simp: settled_def)
qed

end
