(* ===== verification/Cron.thy ===== *)
theory Cron
  imports Extension
begin

text \<open>
  The maintenance jobs of the worker (\<open>worker/app/tasks\<close>): expiring subscriptions
  and stale payments, dropping old idempotency keys and old logs, and the three
  expiry reminders.  Each job is one transaction; \<open>now()\<close> is the transaction's
  time \<open>e_now\<close>.  The jobs end by posting a log entry to the backend and ignore
  whether that worked: it is not part of their result here.
\<close>

section \<open>Expiry\<close>

definition sub_overdue :: "env \<Rightarrow> sub_row \<Rightarrow> bool" where
  "sub_overdue e s \<longleftrightarrow> s_status s = SubActive
     \<and> (case s_expires_at s of None \<Rightarrow> False | Some x \<Rightarrow> x < e_now e)"

text \<open>\<open>mark_expired.py\<close>: the ids and users of the rows it flipped.\<close>

definition mark_expired_subscriptions :: "env \<Rightarrow> db \<Rightarrow> (int \<times> int) list \<times> db" where
  "mark_expired_subscriptions e d =
     (List.map (\<lambda>s. (s_id s, s_user_id s)) (filter (sub_overdue e) (db_subs d)),
      d\<lparr>db_subs := List.map (\<lambda>s. if sub_overdue e s
                     then s\<lparr>s_status := SubExpired, s_updated_at := e_now e\<rparr> else s) (db_subs d)\<rparr>)"

text \<open>\<open>expire_payments.py\<close>.\<close>

definition payment_stale :: "env \<Rightarrow> int \<Rightarrow> payment_row \<Rightarrow> bool" where
  "payment_stale e ttl p \<longleftrightarrow> p_status p = PayPending \<and> p_created_at p < e_now e - minutes ttl"

definition expire_payments :: "env \<Rightarrow> int \<Rightarrow> db \<Rightarrow> (int list \<times> int list) \<times> db" where
  "expire_payments e ttl d =
     (let stale = filter (payment_stale e ttl) (db_payments d) in
      ((List.map p_id stale, List.map_filter p_sub_id stale),
       d\<lparr>db_payments := List.map (\<lambda>p. if payment_stale e ttl p
                          then p\<lparr>p_status := PayExpired, p_updated_at := e_now e\<rparr> else p)
                        (db_payments d)\<rparr>))"

definition fail_subscriptions :: "env \<Rightarrow> int list \<Rightarrow> db \<Rightarrow> int list \<times> db" where
  "fail_subscriptions e ids d =
     (List.map s_id (filter (\<lambda>s. s_status s = SubPending \<and> s_id s \<in> set ids) (db_subs d)),
      d\<lparr>db_subs := List.map (\<lambda>s. if s_status s = SubPending \<and> s_id s \<in> set ids
                     then s\<lparr>s_status := SubFailed, s_updated_at := e_now e\<rparr> else s) (db_subs d)\<rparr>)"

definition expire_pending_payments :: "env \<Rightarrow> int \<Rightarrow> db \<Rightarrow> (int list \<times> int list) \<times> db" where
  "expire_pending_payments e ttl d =
     (case expire_payments e ttl d of
        ((pids, sids), d1) \<Rightarrow>
          if sids = [] then ((pids, []), d1)
          else (case fail_subscriptions e sids d1 of (failed, d2) \<Rightarrow> ((pids, failed), d2)))"

section \<open>Retention\<close>

definition cleanup_idempotency_keys :: "env \<Rightarrow> int \<Rightarrow> db \<Rightarrow> nat \<times> db" where
  "cleanup_idempotency_keys e ttl d =
     (let old = (\<lambda>k. ik_created_at k < e_now e - hours ttl) in
      (length (filter old (db_idem_keys d)),
       d\<lparr>db_idem_keys := filter (\<lambda>k. \<not> old k) (db_idem_keys d)\<rparr>))"

definition old_recipient :: "env \<Rightarrow> db \<Rightarrow> rcpt_row \<Rightarrow> bool" where
  "old_recipient e d r \<longleftrightarrow>
     (case get_broadcast d (rc_broadcast_id r) of None \<Rightarrow> False | Some b \<Rightarrow> bc_status b = BcDone)
   \<and> rc_created_at r < e_now e - days_of 90"

definition cleanup_logs :: "env \<Rightarrow> db \<Rightarrow> (nat \<times> nat \<times> nat) \<times> db" where
  "cleanup_logs e d =
     (let l = (\<lambda>r. lg_created_at r < e_now e - days_of 365);
          t = (\<lambda>r. tl_created_at r < e_now e - days_of 30);
          rc = old_recipient e d
      in ((length (filter l (db_logs d)), length (filter t (db_tech_logs d)),
           length (filter rc (db_rcpts d))),
          d\<lparr>db_logs := filter (\<lambda>r. \<not> l r) (db_logs d),
            db_tech_logs := filter (\<lambda>r. \<not> t r) (db_tech_logs d),
            db_rcpts := filter (\<lambda>r. \<not> rc r) (db_rcpts d)\<rparr>))"

section \<open>Reminders\<close>

definition notified :: "db \<Rightarrow> int \<Rightarrow> notif_kind \<Rightarrow> bool" where
  "notified d sid k \<longleftrightarrow> list_ex (\<lambda>n. ns_sub_id n = sid \<and> ns_kind n = k) (db_notifs d)"

text \<open>The SELECT of a reminder job: subscription, user and Telegram id, oldest expiry first.\<close>

definition reminder_candidates ::
  "(sub_row \<Rightarrow> bool) \<Rightarrow> notif_kind \<Rightarrow> db \<Rightarrow> (int \<times> int \<times> int) list" where
  "reminder_candidates due k d =
     take 500 (List.map_filter
       (\<lambda>s. map_option (\<lambda>u. (s_id s, s_user_id s, u_tg_id u)) (get_user d (s_user_id s)))
       (sort_key (\<lambda>s. the (s_expires_at s))
          (filter (\<lambda>s. due s \<and> \<not> notified d (s_id s) k \<and> get_user d (s_user_id s) \<noteq> None)
             (db_subs d))))"

definition expires_between :: "int \<Rightarrow> int \<Rightarrow> sub_row \<Rightarrow> bool" where
  "expires_between a b s \<longleftrightarrow> (case s_expires_at s of None \<Rightarrow> False | Some x \<Rightarrow> a \<le> x \<and> x \<le> b)"

definition due_3d :: "env \<Rightarrow> sub_row \<Rightarrow> bool" where
  "due_3d e s \<longleftrightarrow> s_status s = SubActive
     \<and> expires_between (e_now e + days_of 2 + hours 23) (e_now e + days_of 3 + hours 1) s"

definition due_expired :: "env \<Rightarrow> sub_row \<Rightarrow> bool" where
  "due_expired e s \<longleftrightarrow> s_status s = SubExpired
     \<and> (case s_expires_at s of None \<Rightarrow> False | Some x \<Rightarrow> x \<ge> e_now e - hours 2)"

definition due_trial :: "env \<Rightarrow> sub_row \<Rightarrow> bool" where
  "due_trial e s \<longleftrightarrow> s_is_free_trial s \<and> s_status s = SubActive
     \<and> expires_between (e_now e + hours 23) (e_now e + hours 25) s"

text \<open>INSERT INTO notifications_sent ... ON CONFLICT DO NOTHING.\<close>

definition claim_notification :: "env \<Rightarrow> notif_kind \<Rightarrow> int \<Rightarrow> int \<Rightarrow> db \<Rightarrow> db option" where
  "claim_notification e k sid uid d =
     (if notified d sid k then None
      else Some (ins_notif \<lparr>ns_id = next_notif d, ns_user_id = uid, ns_sub_id = sid, ns_kind = k,
                            ns_sent_at = e_now e\<rparr> d))"

definition queue_reminder :: "env \<Rightarrow> int \<Rightarrow> int \<Rightarrow> (string \<times> json) list \<Rightarrow> db \<Rightarrow> db" where
  "queue_reminder e uid tg payload d = ins_outbox (new_outbox e uid tg ''text'' payload (e_now e) d) d"

text \<open>
  The loop: \<open>prep\<close> may write more and builds the payload.  The counters are the
  messages queued and the candidates another worker had claimed.
\<close>

definition remind_one ::
  "env \<Rightarrow> notif_kind \<Rightarrow> (int \<Rightarrow> int \<Rightarrow> db \<Rightarrow> (string \<times> json) list \<times> db) \<Rightarrow> int \<times> int \<times> int
    \<Rightarrow> nat \<times> nat \<times> db \<Rightarrow> nat \<times> nat \<times> db" where
  "remind_one e k prep row st =
     (case row of (sid, uid, tg) \<Rightarrow> case st of (sent, skipped, d) \<Rightarrow>
        (case claim_notification e k sid uid d of
           None \<Rightarrow> (sent, Suc skipped, d)
         | Some d1 \<Rightarrow> (case prep sid uid d1 of
             (payload, d2) \<Rightarrow> (Suc sent, skipped, queue_reminder e uid tg payload d2))))"

definition remind_all ::
  "env \<Rightarrow> notif_kind \<Rightarrow> (int \<Rightarrow> int \<Rightarrow> db \<Rightarrow> (string \<times> json) list \<times> db) \<Rightarrow> (int \<times> int \<times> int) list
    \<Rightarrow> db \<Rightarrow> nat \<times> nat \<times> db" where
  "remind_all e k prep rows d = fold (remind_one e k prep) rows (0, 0, d)"

text \<open>\<open>texts\<close> gives the admin-edited templates; a blank one falls back to the built-in text.\<close>

definition reminder_text :: "(string \<Rightarrow> string option) \<Rightarrow> string \<Rightarrow> int \<Rightarrow> json" where
  "reminder_text texts key sid =
     (case texts key of
        Some v \<Rightarrow> if str_strip v \<noteq> [] then JStr v else JText key [JInt sid]
      | None \<Rightarrow> JText key [JInt sid])"

definition button :: "json \<Rightarrow> string \<Rightarrow> json" where
  "button label data = JObj [(''text'', label), (''callback_data'', JStr data)]"

definition reminder_payload :: "json \<Rightarrow> json list \<Rightarrow> int \<Rightarrow> (string \<times> json) list" where
  "reminder_payload txt rows sid =
     [(''text'', txt), (''parse_mode'', JStr ''HTML''),
      (''reply_markup'', JObj [(''inline_keyboard'', JArr (List.map (\<lambda>b. JArr [b]) rows))]),
      (''context'', JObj [(''subscription_id'', JInt sid)])]"

definition extend_button :: "int \<Rightarrow> json" where
  "extend_button sid = button (JText ''extend'' []) (''extend:'' @ py_str sid)"

definition notify_expiring :: "env \<Rightarrow> (string \<Rightarrow> string option) \<Rightarrow> db \<Rightarrow> nat \<times> nat \<times> db" where
  "notify_expiring e texts d =
     remind_all e NkExpiry3d
       (\<lambda>sid uid d. (reminder_payload (reminder_text texts ''subscription_expiring_3d'' sid)
                       [extend_button sid] sid, d))
       (reminder_candidates (due_3d e) NkExpiry3d d) d"

definition notify_expired :: "env \<Rightarrow> (string \<Rightarrow> string option) \<Rightarrow> db \<Rightarrow> nat \<times> nat \<times> db" where
  "notify_expired e texts d =
     remind_all e NkExpired
       (\<lambda>sid uid d. (reminder_payload (reminder_text texts ''subscription_expired'' sid)
                       [extend_button sid, button (JText ''buy_new'' []) ''catalog''] sid, d))
       (reminder_candidates (due_expired e) NkExpired d) d"

definition has_auto_discount :: "db \<Rightarrow> int \<Rightarrow> bool" where
  "has_auto_discount d uid \<longleftrightarrow> ref_by_referee d uid \<noteq> None \<and> \<not> has_paid_history d uid"

definition trial_promo_code :: "int \<Rightarrow> string" where
  "trial_promo_code sid = ''TRIAL15_'' @ py_str sid"

definition trial_reminder :: "env \<Rightarrow> int \<Rightarrow> int \<Rightarrow> db \<Rightarrow> (string \<times> json) list \<times> db" where
  "trial_reminder e sid uid d =
     (if has_auto_discount d uid
      then ([(''text_key'', JStr ''trial_expiring_no_promo''), (''format_kwargs'', JObj []),
             (''parse_mode'', JStr ''HTML''), (''kind'', JStr ''trial_expiring_24h''),
             (''context'', JObj [(''subscription_id'', JInt sid)])], d)
      else
        (let code = trial_promo_code sid in
         ([(''text_key'', JStr ''trial_expiring_with_promo''),
           (''format_kwargs'', JObj [(''promo_code'', JStr code)]),
           (''parse_mode'', JStr ''HTML''), (''kind'', JStr ''trial_expiring_24h''),
           (''context'', JObj [(''subscription_id'', JInt sid), (''promo_code'', JStr code)])],
          snd (issue_personal_discount e uid code 15 (hours 72)
                 (''Auto trial-expiring promo for user_id='' @ py_str uid @ '' sub_id='' @ py_str sid) d))))"

definition notify_trial_expiring :: "env \<Rightarrow> db \<Rightarrow> nat \<times> nat \<times> db" where
  "notify_trial_expiring e d =
     remind_all e NkTrialExpiring24h (trial_reminder e)
       (reminder_candidates (due_trial e) NkTrialExpiring24h d) d"

section \<open>Expiry: what changes and what does not\<close>

lemma mark_expired_frame [simp, frame]:
  "db_users (snd (mark_expired_subscriptions e d)) = db_users d"
  "db_bts (snd (mark_expired_subscriptions e d)) = db_bts d"
  "db_refs (snd (mark_expired_subscriptions e d)) = db_refs d"
  "db_promos (snd (mark_expired_subscriptions e d)) = db_promos d"
  "db_promo_acts (snd (mark_expired_subscriptions e d)) = db_promo_acts d"
  "db_payments (snd (mark_expired_subscriptions e d)) = db_payments d"
  "db_outbox (snd (mark_expired_subscriptions e d)) = db_outbox d"
  "db_tickets (snd (mark_expired_subscriptions e d)) = db_tickets d"
  "db_notifs (snd (mark_expired_subscriptions e d)) = db_notifs d"
  by (simp_all add: mark_expired_subscriptions_def)

lemma expire_pending_frame [simp, frame]:
  "db_users (snd (expire_pending_payments e ttl d)) = db_users d"
  "db_bts (snd (expire_pending_payments e ttl d)) = db_bts d"
  "db_refs (snd (expire_pending_payments e ttl d)) = db_refs d"
  "db_promos (snd (expire_pending_payments e ttl d)) = db_promos d"
  "db_promo_acts (snd (expire_pending_payments e ttl d)) = db_promo_acts d"
  "db_outbox (snd (expire_pending_payments e ttl d)) = db_outbox d"
  "db_tickets (snd (expire_pending_payments e ttl d)) = db_tickets d"
  "db_notifs (snd (expire_pending_payments e ttl d)) = db_notifs d"
  by (auto simp: expire_pending_payments_def expire_payments_def fail_subscriptions_def Let_def)

lemma mark_expired_complete:
  "list_all (\<lambda>s. \<not> sub_overdue e s) (db_subs (snd (mark_expired_subscriptions e d)))"
  by (auto simp: mark_expired_subscriptions_def list_all_iff sub_overdue_def split: option.splits)

lemma expire_pending_payments_rows:
  "db_payments (snd (expire_pending_payments e ttl d))
   = List.map (\<lambda>p. if payment_stale e ttl p then p\<lparr>p_status := PayExpired, p_updated_at := e_now e\<rparr> else p)
       (db_payments d)"
  by (auto simp: expire_pending_payments_def expire_payments_def fail_subscriptions_def Let_def)

lemma expire_pending_subs_rows:
  "db_subs (snd (expire_pending_payments e ttl d))
   = List.map (\<lambda>s. if s_status s = SubPending
         \<and> (\<exists>p\<in>set (db_payments d). payment_stale e ttl p \<and> p_sub_id p = Some (s_id s))
       then s\<lparr>s_status := SubFailed, s_updated_at := e_now e\<rparr> else s) (db_subs d)"
proof -
  let ?stale = "filter (payment_stale e ttl) (db_payments d)"
  have ids: "i \<in> set (List.map_filter p_sub_id ?stale)
             \<longleftrightarrow> (\<exists>p\<in>set (db_payments d). payment_stale e ttl p \<and> p_sub_id p = Some i)" for i
    by (force simp: List.map_filter_def)
  show ?thesis
    using ids by (auto simp: expire_pending_payments_def expire_payments_def fail_subscriptions_def Let_def
        intro!: map_cong map_idI[symmetric])
qed

section \<open>Reminders are one-shot\<close>

definition notifs_ok :: "db \<Rightarrow> bool" where
  "notifs_ok d \<longleftrightarrow> distinct (List.map (\<lambda>n. (ns_sub_id n, ns_kind n)) (db_notifs d))"

lemma claim_notification_Some:
  "claim_notification e k sid uid d = Some d1 \<longleftrightarrow>
     \<not> notified d sid k \<and>
     d1 = ins_notif \<lparr>ns_id = next_notif d, ns_user_id = uid, ns_sub_id = sid, ns_kind = k,
                     ns_sent_at = e_now e\<rparr> d"
  by (auto simp: claim_notification_def)

lemma notified_iff: "notified d sid k \<longleftrightarrow> (sid, k) \<in> (\<lambda>n. (ns_sub_id n, ns_kind n)) ` set (db_notifs d)"
  by (auto simp: notified_def list_ex_iff)

lemma notified_cong: "db_notifs d' = db_notifs d \<Longrightarrow> notified d' = notified d"
  by (intro ext) (simp add: notified_def)

definition untouched :: "db \<Rightarrow> db \<Rightarrow> bool" where
  "untouched d d' \<longleftrightarrow> db_subs d' = db_subs d \<and> db_users d' = db_users d \<and> db_bts d' = db_bts d
     \<and> db_payments d' = db_payments d \<and> db_tickets d' = db_tickets d \<and> db_refs d' = db_refs d"

lemma untouched_refl [simp]: "untouched d d"
  and untouched_trans: "untouched a b \<Longrightarrow> untouched b c \<Longrightarrow> untouched a c"
  by (auto simp: untouched_def)

locale reminder =
  fixes e :: env and k :: notif_kind
    and prep :: "int \<Rightarrow> int \<Rightarrow> db \<Rightarrow> (string \<times> json) list \<times> db"
  assumes prep_notifs: "db_notifs (snd (prep s u d)) = db_notifs d"
    and prep_outbox: "db_outbox (snd (prep s u d)) = db_outbox d"
    and prep_untouched: "untouched d (snd (prep s u d))"
begin

lemma remind_one_cases:
  obtains (skip) "notified d sid k" "remind_one e k prep (sid, uid, tg) (a, b, d) = (a, Suc b, d)"
  | (sent) d2 n ob where "\<not> notified d sid k"
      "remind_one e k prep (sid, uid, tg) (a, b, d) = (Suc a, b, d2)"
      "db_notifs d2 = db_notifs d @ [n]" "ns_sub_id n = sid" "ns_kind n = k"
      "db_outbox d2 = db_outbox d @ [ob]" "ob_chat_id ob = tg" "ob_status ob = ObPending"
      "untouched d d2"
proof (cases "notified d sid k")
  case True
  then show ?thesis
    by (intro skip) (simp_all add: remind_one_def claim_notification_def)
next
  case False
  let ?n = "\<lparr>ns_id = next_notif d, ns_user_id = uid, ns_sub_id = sid, ns_kind = k, ns_sent_at = e_now e\<rparr>"
  obtain payload d2 where p: "prep sid uid (ins_notif ?n d) = (payload, d2)"
    by (cases "prep sid uid (ins_notif ?n d)")
  let ?ob = "new_outbox e uid tg ''text'' payload (e_now e) d2"
  show ?thesis
    by (rule sent[of "queue_reminder e uid tg payload d2" ?n ?ob])
      (use False p prep_notifs[of sid uid "ins_notif ?n d"] prep_outbox[of sid uid "ins_notif ?n d"]
        prep_untouched[of "ins_notif ?n d" sid uid]
       in \<open>simp_all add: remind_one_def claim_notification_def queue_reminder_def new_outbox_def untouched_def\<close>)
qed

lemma remind_one_notified:
  assumes "remind_one e k prep row (a, b, d) = (a', b', d')"
  shows "notified d' (fst row) k" and "notified d i k' \<Longrightarrow> notified d' i k'"
proof -
  obtain sid uid tg where row: "row = (sid, uid, tg)" by (cases row)
  show "notified d' (fst row) k"
    by (rule remind_one_cases[where d = d and sid = sid and uid = uid and tg = tg and a = a and b = b])
      (use assms row in \<open>auto simp: notified_iff\<close>)
  show "notified d i k' \<Longrightarrow> notified d' i k'"
    by (rule remind_one_cases[where d = d and sid = sid and uid = uid and tg = tg and a = a and b = b])
      (use assms row in \<open>auto simp: notified_iff\<close>)
qed

lemma remind_one_effect:
  assumes "remind_one e k prep row (a, b, d) = (a', b', d')"
  shows "a' + b' = Suc (a + b)"
    "length (db_notifs d') + a = length (db_notifs d) + a'"
    "length (db_outbox d') + a = length (db_outbox d) + a'"
    "untouched d d'"
    "notifs_ok d \<Longrightarrow> notifs_ok d'"
proof -
  obtain sid uid tg where row: "row = (sid, uid, tg)" by (cases row)
  note c = remind_one_cases[where d = d and sid = sid and uid = uid and tg = tg and a = a and b = b]
  show "a' + b' = Suc (a + b)" by (rule c) (use assms row in auto)
  show "length (db_notifs d') + a = length (db_notifs d) + a'" by (rule c) (use assms row in auto)
  show "length (db_outbox d') + a = length (db_outbox d) + a'" by (rule c) (use assms row in auto)
  show "untouched d d'" by (rule c) (use assms row in auto)
  show "notifs_ok d \<Longrightarrow> notifs_ok d'"
    by (rule c) (use assms row in \<open>auto simp: notifs_ok_def notified_iff\<close>)
qed

lemma fold_remind:
  assumes "fold (remind_one e k prep) rows (a, b, d) = (a', b', d')"
  shows "a' + b' = a + b + length rows
     \<and> length (db_notifs d') + a = length (db_notifs d) + a'
     \<and> length (db_outbox d') + a = length (db_outbox d) + a'
     \<and> untouched d d'
     \<and> (notifs_ok d \<longrightarrow> notifs_ok d')
     \<and> (\<forall>row\<in>set rows. notified d' (fst row) k) \<and> (\<forall>i k'. notified d i k' \<longrightarrow> notified d' i k')"
  using assms
proof (induction rows arbitrary: a b d)
  case (Cons row rows)
  obtain a1 b1 d1 where one: "remind_one e k prep row (a, b, d) = (a1, b1, d1)"
    by (cases "remind_one e k prep row (a, b, d)") auto
  have rest: "fold (remind_one e k prep) rows (a1, b1, d1) = (a', b', d')"
    using Cons.prems one by simp
  show ?case
    using Cons.IH[OF rest] remind_one_effect[OF one] remind_one_notified[OF one]
    by (auto intro: untouched_trans)
qed simp

lemma remind_all_once:
  assumes "remind_all e k prep rows d = (sent, skipped, d')"
  shows "sent + skipped = length rows"
    and "length (db_notifs d') = length (db_notifs d) + sent"
    and "length (db_outbox d') = length (db_outbox d) + sent"
    and "notifs_ok d \<Longrightarrow> notifs_ok d'"
    and "\<forall>row\<in>set rows. notified d' (fst row) k"
    and "notified d i k' \<Longrightarrow> notified d' i k'"
  using fold_remind[of rows 0 0 d sent skipped d'] assms by (auto simp: remind_all_def)

lemma remind_all_untouched: "untouched d (snd (snd (remind_all e k prep rows d)))"
proof -
  obtain a b d' where r: "fold (remind_one e k prep) rows (0, 0, d) = (a, b, d')"
    by (cases "fold (remind_one e k prep) rows (0, 0, d)") simp
  from fold_remind[OF r] r show ?thesis by (simp add: remind_all_def)
qed

text \<open>What the two inserts and \<open>prep\<close> keep, a reminder run keeps.\<close>

lemma remind_preserves:
  assumes "\<And>n d. P d \<Longrightarrow> P (ins_notif n d)" "\<And>ob d. P d \<Longrightarrow> P (ins_outbox ob d)"
    "\<And>s u d. P d \<Longrightarrow> P (snd (prep s u d))" "P d"
  shows "P (snd (snd (remind_all e k prep rows d)))"
proof -
  have one: "P (snd (snd (remind_one e k prep row st)))" if "P (snd (snd st))" for row st
  proof -
    obtain sid uid tg a b d where eq: "row = (sid, uid, tg)" "st = (a, b, d)"
      by (cases row; cases st) auto
    show ?thesis
      using that assms(1,2) assms(3)[of _ sid uid]
      by (auto simp: eq remind_one_def claim_notification_def queue_reminder_def
          split: option.split prod.split) (metis snd_conv)
  qed
  have "P (snd (snd (fold (remind_one e k prep) rows st)))" if "P (snd (snd st))" for st
    using that by (induction rows arbitrary: st) (simp_all add: one)
  then show ?thesis using assms(4) by (simp add: remind_all_def)
qed

end

interpretation expiring: reminder e NkExpiry3d
  "\<lambda>sid uid d. (reminder_payload (reminder_text texts ''subscription_expiring_3d'' sid)
                  [extend_button sid] sid, d)" for e texts
  by unfold_locales simp_all

interpretation expired: reminder e NkExpired
  "\<lambda>sid uid d. (reminder_payload (reminder_text texts ''subscription_expired'' sid)
                  [extend_button sid, button (JText ''buy_new'' []) ''catalog''] sid, d)" for e texts
  by unfold_locales simp_all

interpretation trial: reminder e NkTrialExpiring24h "trial_reminder e" for e
  by unfold_locales (simp_all add: trial_reminder_def Let_def untouched_def)

lemma candidates_unnotified:
  "(sid, uid, tg) \<in> set (reminder_candidates due k d) \<Longrightarrow> \<not> notified d sid k"
  by (auto simp: reminder_candidates_def List.map_filter_def dest!: in_set_takeD)

end
