(* ===== verification/FreeTrial.thy ===== *)
theory FreeTrial
  imports Balance
begin

text \<open>
  \<open>services/free_trial_service.py\<close>: the free trial of a user and the personal
  promo code the inviter gets for it.  The pending row is committed before the
  provider is called.
\<close>

definition trial_default_days :: int where "trial_default_days = 5"
definition trial_default_devices :: int where "trial_default_devices = 1"

definition free_tariffs :: "db \<Rightarrow> tariff_row list" where
  "free_tariffs d = filter (\<lambda>t. t_is_free_trial t \<and> t_is_active t) (db_tariffs d)"

definition trial_days :: "tariff_row \<Rightarrow> int" where
  "trial_days t = (if int_truthy (t_free_trial_days t) then the (t_free_trial_days t)
                   else trial_default_days)"

definition trial_devices :: "tariff_row \<Rightarrow> int" where
  "trial_devices t = (if t_devices t \<noteq> 0 then t_devices t else trial_default_devices)"

definition trial_code :: "int \<Rightarrow> string" where
  "trial_code sid = ''REFTRIAL15_'' @ py_str sid"

definition trial_bonus_mark :: "env \<Rightarrow> ref_row \<Rightarrow> ref_row" where
  "trial_bonus_mark e r = r\<lparr>rf_trial_bonus_issued_at := Some (e_now e)\<rparr>"

definition issue_referrer_trial_bonus :: "env \<Rightarrow> int \<Rightarrow> int \<Rightarrow> db \<Rightarrow> db" where
  "issue_referrer_trial_bonus e uid sid d =
     (case ref_by_referee d uid of
        None \<Rightarrow> d
      | Some r \<Rightarrow>
          if rf_trial_bonus_issued_at r \<noteq> None then d
          else
            (let code = trial_code sid;
                 d1 = snd (issue_personal_discount e (rf_referrer_id r) code 15 (days_of 30)
                        (''Referrer trial bonus: referee_user_id='' @ py_str uid
                         @ '' trial_subscription_id='' @ py_str sid) d);
                 d2 = mod_ref (rf_id r) (trial_bonus_mark e) d1;
                 d3 = (case get_user d2 (rf_referrer_id r) of
                         None \<Rightarrow> d2
                       | Some u \<Rightarrow>
                           if u_tg_id u = 0 then d2
                           else enqueue_message e (u_id u) (u_tg_id u) ''text''
                                  [(''text_key'', JStr ''referrer_trial_bonus_promo''),
                                   (''format_kwargs'', JObj [(''promo_code'', JStr code)]),
                                   (''parse_mode'', JStr ''HTML''),
                                   (''kind'', JStr ''referrer_trial_bonus_promo'')] None d2)
             in business_log e level_info ''referrer_trial_bonus_issued'' (Some (rf_referrer_id r))
                  (''Referrer received 15% personal promo for referee user_id='' @ py_str uid
                   @ '' trial sub_id='' @ py_str sid)
                  [(''referee_id'', JInt uid), (''referrer_id'', JInt (rf_referrer_id r)),
                   (''promo_code'', JStr code), (''trial_subscription_id'', JInt sid),
                   (''valid_for_days'', JInt 30)] d3))"

definition trial_key :: "env \<Rightarrow> user_row \<Rightarrow> tariff_row \<Rightarrow> int \<Rightarrow> exn + key_response" where
  "trial_key e u t sid =
     create_key e (trial_days t) (trial_devices t) (e_uuid e)
       [(''user_tg_id'', JInt (u_tg_id u)), (''internal_subscription_id'', JStr (py_str sid)),
        (''free_trial'', JBool True)]
       (if t_unlimited t then Some True else None) (Some (t_lte_gb t))
       (build_branding (Some (t_code t)) True)"

text \<open>The part up to the first commit: the pending subscription and its tech log.\<close>

definition trial_pending :: "env \<Rightarrow> user_row \<Rightarrow> tariff_row \<Rightarrow> db \<Rightarrow> db" where
  "trial_pending e u t d =
     tech_log e ''free_trial:create_pending'' (Some (u_id u))
       [(''subscription_id'', JInt (next_sub d)), (''days'', JInt (trial_days t)),
        (''devices'', JInt (trial_devices t)), (''idempotency_key'', JStr (e_uuid e))] None
       (create_sub e (u_id u) (t_id t) None (trial_devices t) (trial_days t) True d)"

definition trial_activate :: "env \<Rightarrow> user_row \<Rightarrow> tariff_row \<Rightarrow> int \<Rightarrow> key_response \<Rightarrow> db \<Rightarrow> db" where
  "trial_activate e u t sid kr d =
     business_log e level_info ''free_trial_activated'' (Some (u_id u))
       (''Free trial activated for tg_id='' @ py_str (u_tg_id u))
       [(''subscription_id'', JInt sid),
        (''provider_subscription_id'', JStr (kr_subscription_id kr)),
        (''days'', JInt (trial_days t)), (''devices'', JInt (trial_devices t))]
       (mod_sub (e_now e) sid
          (\<lambda>s. s\<lparr>s_status := SubActive, s_provider_id := Some (kr_subscription_id kr),
                 s_key_url := Some (kr_key kr), s_started_at := Some (e_now e),
                 s_expires_at := Some (e_now e + days_of (trial_days t))\<rparr>) d)"

definition trial_failed :: "env \<Rightarrow> user_row \<Rightarrow> int \<Rightarrow> exn \<Rightarrow> db \<Rightarrow> db" where
  "trial_failed e u sid x d =
     business_log e level_critical ''free_trial_failed_provider_error'' (Some (u_id u))
       (''NorthLine failed for free trial: '' @ exn_str x)
       [(''subscription_id'', JInt sid), (''error_code'', JStr (exn_code x))]
       (mod_sub (e_now e) sid (\<lambda>s. s\<lparr>s_status := SubFailed\<rparr>) d)"

definition activate_free_trial :: "env \<Rightarrow> user_row \<Rightarrow> db \<Rightarrow> (exn + int) \<times> db" where
  "activate_free_trial e u d =
     (if has_free_trial d (u_id u)
      then (Inl (mk_error FreeTrialAlreadyUsedError (Some ''Free trial already used'') None
                  [(''user_id'', JInt (u_id u))]), d)
      else case free_tariffs d of
        [] \<Rightarrow> (Inl (mk_error TariffNotFoundError (Some ''FREE tariff not configured'') None []), d)
      | [t] \<Rightarrow>
          (let sid = next_sub d; d1 = trial_pending e u t d in
           case trial_key e u t sid of
             Inr kr \<Rightarrow> (Inr sid, issue_referrer_trial_bonus e (u_id u) sid (trial_activate e u t sid kr d1))
           | Inl x \<Rightarrow>
               if is_northline_exn x
               then (Inl (mk_error NorthLineUnavailableError (Some ''Could not issue free-trial key'')
                           None [(''subscription_id'', JInt sid)]), trial_failed e u sid x d1)
               else (Inl x, d1))
      | _ \<Rightarrow> (Inl (PyExn ''MultipleResultsFound'' ''Multiple rows were found''), d))"

section \<open>What the trial touches\<close>

lemma trial_bonus_frame [simp, frame]:
  "db_users (issue_referrer_trial_bonus e u i d) = db_users d"
  "db_tariffs (issue_referrer_trial_bonus e u i d) = db_tariffs d"
  "db_durations (issue_referrer_trial_bonus e u i d) = db_durations d"
  "db_subs (issue_referrer_trial_bonus e u i d) = db_subs d"
  "db_payments (issue_referrer_trial_bonus e u i d) = db_payments d"
  "db_bts (issue_referrer_trial_bonus e u i d) = db_bts d"
  "db_promo_acts (issue_referrer_trial_bonus e u i d) = db_promo_acts d"
  "db_notifs (issue_referrer_trial_bonus e u i d) = db_notifs d"
  "db_tickets (issue_referrer_trial_bonus e u i d) = db_tickets d"
  "db_ticket_msgs (issue_referrer_trial_bonus e u i d) = db_ticket_msgs d"
  "db_topics (issue_referrer_trial_bonus e u i d) = db_topics d"
  "db_idem_keys (issue_referrer_trial_bonus e u i d) = db_idem_keys d"
  "db_admin_keys (issue_referrer_trial_bonus e u i d) = db_admin_keys d"
  "db_tech_logs (issue_referrer_trial_bonus e u i d) = db_tech_logs d"
  "db_broadcasts (issue_referrer_trial_bonus e u i d) = db_broadcasts d"
  "db_rcpts (issue_referrer_trial_bonus e u i d) = db_rcpts d"
  "db_texts (issue_referrer_trial_bonus e u i d) = db_texts d"
  by (simp_all add: issue_referrer_trial_bonus_def Let_def split: option.split)

lemma get_frame_trial_bonus [simp]:
  "get_user (issue_referrer_trial_bonus e u i d) i = get_user d i"
  "get_tariff (issue_referrer_trial_bonus e u i d) i = get_tariff d i"
  "get_duration (issue_referrer_trial_bonus e u i d) i = get_duration d i"
  "get_sub (issue_referrer_trial_bonus e u i d) i = get_sub d i"
  "get_payment (issue_referrer_trial_bonus e u i d) i = get_payment d i"
  "get_ticket (issue_referrer_trial_bonus e u i d) i = get_ticket d i"
  "get_admin_key (issue_referrer_trial_bonus e u i d) i = get_admin_key d i"
  by (simp_all add: get_defs)
lemma trial_pending_frame [simp, frame]:
  "db_users (trial_pending e u t d) = db_users d"
  "db_tariffs (trial_pending e u t d) = db_tariffs d"
  "db_durations (trial_pending e u t d) = db_durations d"
  "db_payments (trial_pending e u t d) = db_payments d"
  "db_bts (trial_pending e u t d) = db_bts d"
  "db_promos (trial_pending e u t d) = db_promos d"
  "db_promo_acts (trial_pending e u t d) = db_promo_acts d"
  "db_refs (trial_pending e u t d) = db_refs d"
  "db_outbox (trial_pending e u t d) = db_outbox d"
  "db_notifs (trial_pending e u t d) = db_notifs d"
  "db_tickets (trial_pending e u t d) = db_tickets d"
  "db_ticket_msgs (trial_pending e u t d) = db_ticket_msgs d"
  "db_topics (trial_pending e u t d) = db_topics d"
  "db_idem_keys (trial_pending e u t d) = db_idem_keys d"
  "db_admin_keys (trial_pending e u t d) = db_admin_keys d"
  "db_logs (trial_pending e u t d) = db_logs d"
  "db_broadcasts (trial_pending e u t d) = db_broadcasts d"
  "db_rcpts (trial_pending e u t d) = db_rcpts d"
  "db_texts (trial_pending e u t d) = db_texts d"
  by (simp_all add: trial_pending_def)

lemma get_frame_trial_pending [simp]:
  "get_user (trial_pending e u t d) i = get_user d i"
  "get_tariff (trial_pending e u t d) i = get_tariff d i"
  "get_duration (trial_pending e u t d) i = get_duration d i"
  "get_payment (trial_pending e u t d) i = get_payment d i"
  "get_promo (trial_pending e u t d) i = get_promo d i"
  "get_ref (trial_pending e u t d) i = get_ref d i"
  "get_outbox (trial_pending e u t d) i = get_outbox d i"
  "get_ticket (trial_pending e u t d) i = get_ticket d i"
  "get_admin_key (trial_pending e u t d) i = get_admin_key d i"
  by (simp_all add: get_defs)
lemma trial_activate_frame [simp, frame]:
  "db_users (trial_activate e u t i k d) = db_users d"
  "db_tariffs (trial_activate e u t i k d) = db_tariffs d"
  "db_durations (trial_activate e u t i k d) = db_durations d"
  "db_payments (trial_activate e u t i k d) = db_payments d"
  "db_bts (trial_activate e u t i k d) = db_bts d"
  "db_promos (trial_activate e u t i k d) = db_promos d"
  "db_promo_acts (trial_activate e u t i k d) = db_promo_acts d"
  "db_refs (trial_activate e u t i k d) = db_refs d"
  "db_outbox (trial_activate e u t i k d) = db_outbox d"
  "db_notifs (trial_activate e u t i k d) = db_notifs d"
  "db_tickets (trial_activate e u t i k d) = db_tickets d"
  "db_ticket_msgs (trial_activate e u t i k d) = db_ticket_msgs d"
  "db_topics (trial_activate e u t i k d) = db_topics d"
  "db_idem_keys (trial_activate e u t i k d) = db_idem_keys d"
  "db_admin_keys (trial_activate e u t i k d) = db_admin_keys d"
  "db_tech_logs (trial_activate e u t i k d) = db_tech_logs d"
  "db_broadcasts (trial_activate e u t i k d) = db_broadcasts d"
  "db_rcpts (trial_activate e u t i k d) = db_rcpts d"
  "db_texts (trial_activate e u t i k d) = db_texts d"
  by (simp_all add: trial_activate_def level_info_def)

lemma get_frame_trial_activate [simp]:
  "get_user (trial_activate e u t i k d) i = get_user d i"
  "get_tariff (trial_activate e u t i k d) i = get_tariff d i"
  "get_duration (trial_activate e u t i k d) i = get_duration d i"
  "get_payment (trial_activate e u t i k d) i = get_payment d i"
  "get_promo (trial_activate e u t i k d) i = get_promo d i"
  "get_ref (trial_activate e u t i k d) i = get_ref d i"
  "get_outbox (trial_activate e u t i k d) i = get_outbox d i"
  "get_ticket (trial_activate e u t i k d) i = get_ticket d i"
  "get_admin_key (trial_activate e u t i k d) i = get_admin_key d i"
  by (simp_all add: get_defs)
lemma trial_failed_frame [simp, frame]:
  "db_users (trial_failed e u i x d) = db_users d"
  "db_tariffs (trial_failed e u i x d) = db_tariffs d"
  "db_durations (trial_failed e u i x d) = db_durations d"
  "db_payments (trial_failed e u i x d) = db_payments d"
  "db_bts (trial_failed e u i x d) = db_bts d"
  "db_promos (trial_failed e u i x d) = db_promos d"
  "db_promo_acts (trial_failed e u i x d) = db_promo_acts d"
  "db_refs (trial_failed e u i x d) = db_refs d"
  "db_notifs (trial_failed e u i x d) = db_notifs d"
  "db_tickets (trial_failed e u i x d) = db_tickets d"
  "db_ticket_msgs (trial_failed e u i x d) = db_ticket_msgs d"
  "db_topics (trial_failed e u i x d) = db_topics d"
  "db_idem_keys (trial_failed e u i x d) = db_idem_keys d"
  "db_admin_keys (trial_failed e u i x d) = db_admin_keys d"
  "db_tech_logs (trial_failed e u i x d) = db_tech_logs d"
  "db_broadcasts (trial_failed e u i x d) = db_broadcasts d"
  "db_rcpts (trial_failed e u i x d) = db_rcpts d"
  "db_texts (trial_failed e u i x d) = db_texts d"
  by (simp_all add: trial_failed_def)

lemma get_frame_trial_failed [simp]:
  "get_user (trial_failed e u i x d) i = get_user d i"
  "get_tariff (trial_failed e u i x d) i = get_tariff d i"
  "get_duration (trial_failed e u i x d) i = get_duration d i"
  "get_payment (trial_failed e u i x d) i = get_payment d i"
  "get_promo (trial_failed e u i x d) i = get_promo d i"
  "get_ref (trial_failed e u i x d) i = get_ref d i"
  "get_ticket (trial_failed e u i x d) i = get_ticket d i"
  "get_admin_key (trial_failed e u i x d) i = get_admin_key d i"
  by (simp_all add: get_defs)

section \<open>Invariants\<close>

lemma trial_bonus_mark_sel [simp]:
  "rf_id (trial_bonus_mark e r) = rf_id r" "rf_referee_id (trial_bonus_mark e r) = rf_referee_id r"
  "rf_referrer_id (trial_bonus_mark e r) = rf_referrer_id r"
  "rf_bonus_paid (trial_bonus_mark e r) = rf_bonus_paid r"
  "rf_trial_bonus_issued_at (trial_bonus_mark e r) = Some (e_now e)"
  by (simp_all add: trial_bonus_mark_def)

lemma trial_bonus_ledger [simp]: "ledger_ok (issue_referrer_trial_bonus e u i d) = ledger_ok d"
  by (rule ledger_cong; simp)

lemma trial_bonus_refs:
  "db_refs (issue_referrer_trial_bonus e u i d) = db_refs d
   \<or> (\<exists>r. ref_by_referee d u = Some r \<and> rf_trial_bonus_issued_at r = None
        \<and> db_refs (issue_referrer_trial_bonus e u i d)
            = row_upd rf_id (rf_id r) (trial_bonus_mark e) (db_refs d))"
  by (auto simp: issue_referrer_trial_bonus_def Let_def mod_ref_def split: option.split)

lemma count_paid_mark:
  "count_where (is_paid_ref_of k) (row_upd rf_id i (trial_bonus_mark e) rs)
     = count_where (is_paid_ref_of k) rs"
  by (induction rs) (auto simp: row_upd_Cons count_where_Cons is_paid_ref_of_def row_upd_def)

lemma trial_bonus_bonus_ok [keeps]:
  assumes "bonus_ok d"
  shows "bonus_ok (issue_referrer_trial_bonus e u i d)"
  using trial_bonus_refs[of e u i d]
proof
  assume "db_refs (issue_referrer_trial_bonus e u i d) = db_refs d"
  then show ?thesis using bonus_ok_cong assms by (metis trial_bonus_frame(6))
next
  assume "\<exists>r. ref_by_referee d u = Some r \<and> rf_trial_bonus_issued_at r = None
        \<and> db_refs (issue_referrer_trial_bonus e u i d)
            = row_upd rf_id (rf_id r) (trial_bonus_mark e) (db_refs d)"
  then obtain r where "ref_by_referee d u = Some r"
      "db_refs (issue_referrer_trial_bonus e u i d)
            = row_upd rf_id (rf_id r) (trial_bonus_mark e) (db_refs d)" by blast
  then show ?thesis
    using assms by (simp add: bonus_ok_def count_paid_mark row_upd_keys map_row_upd)
qed

lemma trial_bonus_counts [keeps]:
  assumes "promo_counts_ok d"
  shows "promo_counts_ok (issue_referrer_trial_bonus e u i d)"
proof -
  have pc: "promo_counts_ok (mod_ref k f x) = promo_counts_ok x" for k f x
    by (rule promo_counts_cong; simp)
  show ?thesis
    using assms by (simp add: issue_referrer_trial_bonus_def Let_def pc
        issue_personal_discount_counts split: option.split)
qed

lemma activate_free_trial_keeps [keeps]:
  "ledger_ok d \<Longrightarrow> ledger_ok (snd (activate_free_trial e u d))"
  "bonus_ok d \<Longrightarrow> bonus_ok (snd (activate_free_trial e u d))"
  "promo_counts_ok d \<Longrightarrow> promo_counts_ok (snd (activate_free_trial e u d))"
proof -
  have cong: "ledger_ok (trial_activate e u t i kr (trial_pending e u t d)) = ledger_ok d"
    "bonus_ok (trial_activate e u t i kr (trial_pending e u t d)) = bonus_ok d"
    "promo_counts_ok (trial_activate e u t i kr (trial_pending e u t d)) = promo_counts_ok d"
    "ledger_ok (trial_failed e u i x (trial_pending e u t d)) = ledger_ok d"
    "bonus_ok (trial_failed e u i x (trial_pending e u t d)) = bonus_ok d"
    "promo_counts_ok (trial_failed e u i x (trial_pending e u t d)) = promo_counts_ok d"
    "ledger_ok (trial_pending e u t d) = ledger_ok d"
    "bonus_ok (trial_pending e u t d) = bonus_ok d"
    "promo_counts_ok (trial_pending e u t d) = promo_counts_ok d" for t i kr x
    by (simp_all add: trial_activate_def trial_failed_def trial_pending_def)
  show "ledger_ok d \<Longrightarrow> ledger_ok (snd (activate_free_trial e u d))"
    "bonus_ok d \<Longrightarrow> bonus_ok (snd (activate_free_trial e u d))"
    "promo_counts_ok d \<Longrightarrow> promo_counts_ok (snd (activate_free_trial e u d))"
    by (simp_all add: activate_free_trial_def Let_def cong trial_bonus_bonus_ok trial_bonus_counts
        split: list.split sum.split)
qed

section \<open>One trial per user\<close>

definition one_trial :: "db \<Rightarrow> bool" where
  "one_trial d \<longleftrightarrow> (\<forall>uid. count_where (\<lambda>s. s_user_id s = uid \<and> s_is_free_trial s) (db_subs d) \<le> 1)"

definition trial_count :: "db \<Rightarrow> int \<Rightarrow> int" where
  "trial_count d uid = count_where (\<lambda>s. s_user_id s = uid \<and> s_is_free_trial s) (db_subs d)"

lemma no_trial_count: "\<not> has_free_trial d uid \<Longrightarrow> trial_count d uid = 0"
  by (simp add: has_free_trial_def trial_count_def count_where_def list_ex_iff filter_empty_conv)

text \<open>Updating a subscription never changes whose it is or whether it is a trial.\<close>

lemma trial_count_mod_sub:
  assumes "\<And>s. s_user_id (f s) = s_user_id s" "\<And>s. s_is_free_trial (f s) = s_is_free_trial s"
  shows "trial_count (mod_sub n k f d) uid = trial_count d uid"
proof -
  have "count_where P (row_upd s_id k (touch_sub n f) xs) = count_where P xs"
    if "\<And>s. P (touch_sub n f s) = P s" for P :: "sub_row \<Rightarrow> bool" and xs
    using that by (induction xs) (auto simp: row_upd_Cons count_where_Cons row_upd_def)
  then show ?thesis by (simp add: trial_count_def db_subs_mod_sub assms)
qed

lemma trial_count_cong: "db_subs d' = db_subs d \<Longrightarrow> trial_count d' uid = trial_count d uid"
  by (simp add: trial_count_def)

lemma trial_count_create_sub [simp]:
  "trial_count (create_sub e u t n dv dy f d) uid = trial_count d uid + (if f \<and> u = uid then 1 else 0)"
  by (simp add: trial_count_def create_sub_def)

lemma trial_count_writes [simp]:
  "trial_count (business_log e b1 b2 b3 b4 b5 d) uid = trial_count d uid"
  "trial_count (tech_log e t1 t2 t3 t4 d) uid = trial_count d uid"
  "trial_count (issue_referrer_trial_bonus e t5 t6 d) uid = trial_count d uid"
  by (rule trial_count_cong; simp)+

lemma activate_trial_count:
  "trial_count (snd (activate_free_trial e u d)) uid =
     (if snd (activate_free_trial e u d) = d then trial_count d uid
      else trial_count d uid + (if uid = u_id u then 1 else 0))"
proof (cases "has_free_trial d (u_id u) \<or> (\<nexists>t. free_tariffs d = [t])")
  case True
  then show ?thesis
    by (cases "free_tariffs d" rule: list.exhaust; cases "tl (free_tariffs d)")
       (auto simp: activate_free_trial_def)
next
  case False
  then obtain t where t: "free_tariffs d = [t]" "\<not> has_free_trial d (u_id u)" by blast
  have act: "trial_count (trial_activate e u t i kr (trial_pending e u t d)) w
      = trial_count d w + (if w = u_id u then 1 else 0)"
    and fail: "trial_count (trial_failed e u i x (trial_pending e u t d)) w
      = trial_count d w + (if w = u_id u then 1 else 0)"
    and pend: "trial_count (trial_pending e u t d) w
      = trial_count d w + (if w = u_id u then 1 else 0)" for i kr x w
    by (simp_all add: trial_activate_def trial_failed_def trial_pending_def trial_count_mod_sub)
  have res: "trial_count (snd (activate_free_trial e u d)) uid
      = trial_count d uid + (if uid = u_id u then 1 else 0)"
    using t by (simp add: activate_free_trial_def Let_def act fail pend split: sum.split)
  have "snd (activate_free_trial e u d) \<noteq> d"
  proof
    assume "snd (activate_free_trial e u d) = d"
    moreover have "length (db_subs (snd (activate_free_trial e u d))) = Suc (length (db_subs d))"
      using t by (simp add: activate_free_trial_def Let_def trial_activate_def trial_failed_def
          trial_pending_def create_sub_def db_subs_mod_sub row_upd_def split: sum.split)
    ultimately show False by simp
  qed
  then show ?thesis using res by simp
qed

end
