(* ===== verification/Tickets.thy ===== *)
theory Tickets
  imports Logging Fixtures
begin

text \<open>
  \<open>services/ticket_service.py\<close> with the ticket, message and support-topic
  repositories.  The random bytes of the code generator are the argument \<open>rnd\<close>
  (\<open>rnd n\<close> for the n-th attempt).  The column constraints the operations meet are
  part of the model: the unique ticket code, the partial unique index on open
  tickets, the unique topic thread, and, on PostgreSQL, the VARCHAR lengths.
\<close>

section \<open>Codes\<close>

definition code_alphabet :: string where
  "code_alphabet = ''0123456789ABCDEFGHIJKLMNOPQRSTUVWXYZ''"

definition code_length :: nat where "code_length = 6"
definition code_retry_limit :: nat where "code_retry_limit = 5"

definition generate_code :: "nat list \<Rightarrow> string" where
  "generate_code bytes = ''TCK-'' @ List.map (\<lambda>b. code_alphabet ! (b mod 36)) (take code_length bytes)"

section \<open>Repository\<close>

definition active_ticket :: "db \<Rightarrow> int \<Rightarrow> ticket_row option" where
  "active_ticket d uid = List.find (\<lambda>t. tk_user_id t = uid \<and> tk_status t = TkOpen) (db_tickets d)"

definition ticket_by_thread :: "db \<Rightarrow> int \<Rightarrow> ticket_row option" where
  "ticket_by_thread d th =
     (let ts = sort_key (\<lambda>t. - tk_id t) (filter (\<lambda>t. tk_thread_id t = Some th) (db_tickets d))
      in case ts of [] \<Rightarrow> None | t # _ \<Rightarrow> Some t)"

definition ticket_kind_str :: "ticket_kind \<Rightarrow> string" where
  "ticket_kind_str k = (case k of TkSupport \<Rightarrow> ''support'' | TkIdea \<Rightarrow> ''idea'')"

definition closed_by_str :: "closed_by \<Rightarrow> string" where
  "closed_by_str b = (case b of ByUser \<Rightarrow> ''user'' | ByAdmin \<Rightarrow> ''admin'')"

definition new_ticket :: "env \<Rightarrow> string \<Rightarrow> int \<Rightarrow> ticket_kind \<Rightarrow> db \<Rightarrow> ticket_row" where
  "new_ticket e code uid kind d =
     \<lparr>tk_id = next_ticket d, tk_code = code, tk_user_id = uid, tk_kind = kind,
      tk_status = TkOpen, tk_closed_by = None, tk_closed_at = None, tk_thread_id = None,
      tk_created_at = e_now e, tk_updated_at = e_now e\<rparr>"

text \<open>The INSERT violates a constraint: code taken, user has an open ticket, or no such user.\<close>

definition ticket_conflict :: "env \<Rightarrow> string \<Rightarrow> int \<Rightarrow> db \<Rightarrow> bool" where
  "ticket_conflict e code uid d \<longleftrightarrow>
     list_ex (\<lambda>t. tk_code t = code) (db_tickets d)
   \<or> active_ticket d uid \<noteq> None
   \<or> (e_dialect e = Postgresql \<and> get_user d uid = None)"

definition already_open :: "ticket_row \<Rightarrow> exn" where
  "already_open t = mk_error TicketAlreadyOpenError (Some ''User already has an open ticket'') None
     [(''ticket_id'', JInt (tk_id t)), (''code'', JStr (tk_code t))]"

section \<open>Lifecycle\<close>

text \<open>One iteration of the retry loop per remaining attempt.\<close>

fun open_attempts ::
  "env \<Rightarrow> (nat \<Rightarrow> nat list) \<Rightarrow> int \<Rightarrow> ticket_kind \<Rightarrow> nat \<Rightarrow> nat \<Rightarrow> db \<Rightarrow> exn + ticket_row" where
  "open_attempts e rnd uid kind n 0 d =
     Inl (PyExn ''RuntimeError'' ''Failed to generate a unique ticket code after retries'')"
| "open_attempts e rnd uid kind n (Suc left) d =
     (let code = generate_code (rnd n) in
      if ticket_conflict e code uid d
      then (case active_ticket d uid of
              Some t \<Rightarrow> Inl (already_open t)
            | None \<Rightarrow> open_attempts e rnd uid kind (Suc n) left d)
      else Inr (new_ticket e code uid kind d))"

definition open_ticket ::
  "env \<Rightarrow> (nat \<Rightarrow> nat list) \<Rightarrow> int \<Rightarrow> ticket_kind \<Rightarrow> db \<Rightarrow> (exn + ticket_row) \<times> db" where
  "open_ticket e rnd uid kind d =
     (case active_ticket d uid of
        Some t \<Rightarrow> (Inl (already_open t), d)
      | None \<Rightarrow>
          (case open_attempts e rnd uid kind 0 code_retry_limit d of
             Inl x \<Rightarrow> (Inl x, d)
           | Inr t \<Rightarrow>
               (Inr t,
                business_log e level_info ''ticket_opened'' (Some uid)
                  (''Opened ticket '' @ tk_code t @ '' (kind='' @ ticket_kind_str kind @ '')'')
                  [(''ticket_id'', JInt (tk_id t)), (''code'', JStr (tk_code t)),
                   (''kind'', JStr (ticket_kind_str kind))]
                  (ins_ticket t d))))"

definition ticket_not_found :: "int \<Rightarrow> (string \<times> json) list \<Rightarrow> exn" where
  "ticket_not_found i extra =
     mk_error TicketNotFoundError (Some ''Ticket not found'') None ((''ticket_id'', JInt i) # extra)"

definition mark_closed :: "int \<Rightarrow> closed_by \<Rightarrow> ticket_row \<Rightarrow> ticket_row" where
  "mark_closed at who t =
     t\<lparr>tk_status := TkClosed, tk_closed_by := Some who, tk_closed_at := Some at, tk_updated_at := at\<rparr>"

definition close_ticket ::
  "env \<Rightarrow> int \<Rightarrow> closed_by \<Rightarrow> int option \<Rightarrow> db \<Rightarrow> (exn + int) \<times> db" where
  "close_ticket e i who tg d =
     (case get_ticket d i of
        None \<Rightarrow> (Inl (ticket_not_found i []), d)
      | Some t \<Rightarrow>
          if (case tg of None \<Rightarrow> False
              | Some x \<Rightarrow> (case user_by_tg d x of None \<Rightarrow> True | Some u \<Rightarrow> tk_user_id t \<noteq> u_id u))
          then (Inl (ticket_not_found i [(''tg_user_id'', json_opt_int tg)]), d)
          else if tk_status t = TkClosed
          then (Inl (mk_error TicketAlreadyClosedError (Some ''Ticket is already closed'') None
                  [(''ticket_id'', JInt i), (''code'', JStr (tk_code t))]), d)
          else (Inr i,
                business_log e level_info ''ticket_closed'' (Some (tk_user_id t))
                  (''Closed ticket '' @ tk_code t @ '' (by='' @ closed_by_str who @ '')'')
                  [(''ticket_id'', JInt (tk_id t)), (''code'', JStr (tk_code t)),
                   (''closed_by'', JStr (closed_by_str who))]
                  (mod_ticket (e_now e) i (mark_closed (e_now e) who) d)))"

text \<open>The columns of \<open>ticket_messages\<close>: direction 8, message_type 16, file ids 255 characters.\<close>

definition ticket_message_fits :: "env \<Rightarrow> ticket_msg_row \<Rightarrow> bool" where
  "ticket_message_fits e m \<longleftrightarrow>
     varchar_ok e 8 (tm_direction m) \<and> varchar_ok e 16 (tm_message_type m)
   \<and> opt_varchar_ok e 255 (tm_photo_file_id m) \<and> opt_varchar_ok e 255 (tm_sticker_file_id m)"

definition from_user :: string where "from_user = ''from_user''"
definition from_admin :: string where "from_admin = ''from_admin''"

definition record_message ::
  "env \<Rightarrow> int \<Rightarrow> string \<Rightarrow> string \<Rightarrow> string option \<Rightarrow> string option \<Rightarrow> string option \<Rightarrow> int option
    \<Rightarrow> db \<Rightarrow> (exn + int) \<times> db" where
  "record_message e i direction mtype txt photo sticker tg d =
     (case get_ticket d i of
        None \<Rightarrow> (Inl (ticket_not_found i []), d)
      | Some t \<Rightarrow>
          (let m = \<lparr>tm_id = next_ticket_msg d, tm_ticket_id = i, tm_direction = direction,
                    tm_message_type = mtype, tm_text = txt, tm_photo_file_id = photo,
                    tm_sticker_file_id = sticker, tm_tg_message_id = tg, tm_created_at = e_now e\<rparr>
           in if \<not> ticket_message_fits e m
              then (Inl (PyExn ''DBAPIError'' ''value too long for type character varying''), d)
              else (Inr (tm_id m),
                    tech_log e ''ticket_message_recorded'' (Some (tk_user_id t))
                      [(''ticket_id'', JInt i), (''ticket_code'', JStr (tk_code t)),
                       (''direction'', JStr direction), (''message_type'', JStr mtype),
                       (''tg_message_id'', json_opt_int tg)] None
                      (mod_ticket (e_now e) i (\<lambda>r. r\<lparr>tk_updated_at := e_now e\<rparr>)
                         (ins_ticket_msg m d)))))"

definition active_ticket_for_tg :: "db \<Rightarrow> int \<Rightarrow> ticket_row option" where
  "active_ticket_for_tg d tg =
     (case user_by_tg d tg of None \<Rightarrow> None | Some u \<Rightarrow> active_ticket d (u_id u))"

definition set_ticket_thread :: "env \<Rightarrow> int \<Rightarrow> int \<Rightarrow> db \<Rightarrow> (exn + int) \<times> db" where
  "set_ticket_thread e i th d =
     (case get_ticket d i of
        None \<Rightarrow> (Inl (ticket_not_found i []), d)
      | Some t \<Rightarrow> (Inr i, mod_ticket (e_now e) i (\<lambda>r. r\<lparr>tk_thread_id := Some th\<rparr>) d))"

definition save_support_topic ::
  "env \<Rightarrow> int \<Rightarrow> int \<Rightarrow> string option \<Rightarrow> db \<Rightarrow> (exn + int) \<times> db" where
  "save_support_topic e uid th name d =
     (if list_ex (\<lambda>r. st_user_id r \<noteq> uid \<and> st_thread_id r = th) (db_topics d)
      then (Inl (PyExn ''IntegrityError'' ''duplicate key value violates unique constraint''), d)
      else case get_topic d uid of
             None \<Rightarrow> (Inr uid, ins_topic \<lparr>st_user_id = uid, st_thread_id = th, st_name = name,
                         st_created_at = e_now e, st_updated_at = e_now e\<rparr> d)
           | Some r \<Rightarrow> (Inr uid, mod_topic (e_now e) uid
                         (\<lambda>x. x\<lparr>st_thread_id := th, st_name := name\<rparr>) d))"

section \<open>Codes are well formed\<close>

lemma code_alphabet_length: "length code_alphabet = 36"
  by (simp add: code_alphabet_def)

lemma generate_code_shape:
  "take 4 (generate_code bs) = ''TCK-''
   \<and> length (generate_code bs) = 4 + min (length bs) code_length
   \<and> set (drop 4 (generate_code bs)) \<subseteq> set code_alphabet"
  by (auto simp: generate_code_def code_alphabet_length)

section \<open>One open ticket per user, one ticket per code\<close>

definition open_count :: "db \<Rightarrow> int \<Rightarrow> int" where
  "open_count d uid = count_where (\<lambda>t. tk_user_id t = uid \<and> tk_status t = TkOpen) (db_tickets d)"

definition tickets_ok :: "db \<Rightarrow> bool" where
  "tickets_ok d \<longleftrightarrow> (\<forall>uid. open_count d uid \<le> 1)
                 \<and> distinct (List.map tk_code (db_tickets d))
                 \<and> distinct (List.map tk_id (db_tickets d))"

lemma tickets_ok_cong: "db_tickets d' = db_tickets d \<Longrightarrow> tickets_ok d' = tickets_ok d"
  by (simp add: tickets_ok_def open_count_def)

lemma tickets_empty: "tickets_ok empty_db"
  by (simp add: tickets_ok_def empty_db_def open_count_def)

lemma active_ticket_count: "active_ticket d uid = None \<longleftrightarrow> open_count d uid = 0"
  by (auto simp: active_ticket_def open_count_def count_where_def find_None_iff filter_empty_conv)

lemma open_attempts_ok:
  assumes "open_attempts e rnd uid kind n left d = Inr t"
  shows "\<exists>m<n + left. t = new_ticket e (generate_code (rnd m)) uid kind d
             \<and> \<not> ticket_conflict e (generate_code (rnd m)) uid d"
  using assms
proof (induction left arbitrary: n)
  case (Suc left)
  show ?case
  proof (cases "ticket_conflict e (generate_code (rnd n)) uid d")
    case True
    then have "open_attempts e rnd uid kind (Suc n) left d = Inr t"
      using Suc.prems by (auto simp: Let_def split: option.splits)
    from Suc.IH[OF this] show ?thesis by (auto intro: exI)
  next
    case False
    then show ?thesis using Suc.prems by (auto simp: Let_def intro!: exI[of _ n])
  qed
qed simp

lemma open_ticket_cases:
  obtains (refused) x where "open_ticket e rnd uid kind d = (Inl x, d)"
  | (opened) m t where "m < code_retry_limit" "t = new_ticket e (generate_code (rnd m)) uid kind d"
      "\<not> ticket_conflict e (generate_code (rnd m)) uid d"
      "fst (open_ticket e rnd uid kind d) = Inr t"
      "db_tickets (snd (open_ticket e rnd uid kind d)) = db_tickets d @ [t]"
proof (cases "fst (open_ticket e rnd uid kind d)")
  case (Inl x)
  then have "open_ticket e rnd uid kind d = (Inl x, d)"
    by (auto simp: open_ticket_def split: option.splits sum.splits)
  then show ?thesis by (rule refused)
next
  case (Inr t)
  then have att: "active_ticket d uid = None" "open_attempts e rnd uid kind 0 code_retry_limit d = Inr t"
    by (auto simp: open_ticket_def split: option.splits sum.splits)
  from open_attempts_ok[OF att(2)] show ?thesis
    using opened Inr att by (auto simp: open_ticket_def)
qed

lemma open_ticket_ok [keeps]:
  assumes "tickets_ok d"
  shows "tickets_ok (snd (open_ticket e rnd uid kind d))"
proof (rule open_ticket_cases[of e rnd uid kind d])
  fix x assume "open_ticket e rnd uid kind d = (Inl x, d)"
  then show ?thesis using assms by simp
next
  fix m t
  assume t: "t = new_ticket e (generate_code (rnd m)) uid kind d"
    and nc: "\<not> ticket_conflict e (generate_code (rnd m)) uid d"
    and tab: "db_tickets (snd (open_ticket e rnd uid kind d)) = db_tickets d @ [t]"
  have "active_ticket d uid = None" using nc by (simp add: ticket_conflict_def)
  then have zero: "open_count d uid = 0" by (simp add: active_ticket_count)
  have "open_count (snd (open_ticket e rnd uid kind d)) k
          = open_count d k + (if k = uid then 1 else 0)" for k
    by (auto simp: open_count_def tab t new_ticket_def)
  then have "\<forall>k. open_count (snd (open_ticket e rnd uid kind d)) k \<le> 1"
    using assms zero by (auto simp: tickets_ok_def)
  moreover have "tk_code t \<notin> tk_code ` set (db_tickets d)"
    using nc by (auto simp: ticket_conflict_def t new_ticket_def list_ex_iff)
  moreover have "tk_id t \<notin> tk_id ` set (db_tickets d)"
    by (simp add: t new_ticket_def next_ticket_def fresh_id_notin)
  ultimately show ?thesis using assms by (simp add: tickets_ok_def tab)
qed

lemma count_open_le:
  assumes "\<And>t. tk_user_id (f t) = tk_user_id t" "\<And>t. tk_status (f t) = TkOpen \<Longrightarrow> tk_status t = TkOpen"
  shows "count_where (\<lambda>t. tk_user_id t = uid \<and> tk_status t = TkOpen) (row_upd tk_id k f ts)
         \<le> count_where (\<lambda>t. tk_user_id t = uid \<and> tk_status t = TkOpen) ts"
proof (induction ts)
  case (Cons t ts)
  then show ?case using assms[of t] by (auto simp: row_upd_Cons count_where_Cons)
qed (simp add: row_upd_def)

lemma mod_ticket_ok:
  assumes "tickets_ok d" "\<And>t. tk_user_id (f t) = tk_user_id t" "\<And>t. tk_code (f t) = tk_code t"
    "\<And>t. tk_id (f t) = tk_id t" "\<And>t. tk_status (f t) = TkOpen \<Longrightarrow> tk_status t = TkOpen"
  shows "tickets_ok (mod_ticket n k f d)"
proof -
  have "open_count (mod_ticket n k f d) uid \<le> open_count d uid" for uid
    using count_open_le[of "touch_ticket n f" uid k "db_tickets d"] assms(2,5)
    by (simp add: open_count_def db_tickets_mod_ticket)
  then have "\<forall>uid. open_count (mod_ticket n k f d) uid \<le> 1"
    using assms(1) order_trans unfolding tickets_ok_def by blast
  moreover have "List.map tk_code (db_tickets (mod_ticket n k f d)) = List.map tk_code (db_tickets d)"
    by (simp add: db_tickets_mod_ticket map_row_upd assms)
  moreover have "List.map tk_id (db_tickets (mod_ticket n k f d)) = List.map tk_id (db_tickets d)"
    by (simp add: db_tickets_mod_ticket map_row_upd assms)
  ultimately show ?thesis using assms(1) by (simp add: tickets_ok_def)
qed

lemma tickets_ok_writes [simp]:
  "tickets_ok (business_log e b1 b2 b3 b4 b5 d) = tickets_ok d"
  "tickets_ok (tech_log e t1 t2 t3 t4 d) = tickets_ok d"
  "tickets_ok (ins_ticket_msg m d) = tickets_ok d"
  by (rule tickets_ok_cong; simp)+

lemma close_ticket_ok [keeps]:
  "tickets_ok d \<Longrightarrow> tickets_ok (snd (close_ticket e i who tg d))"
  by (auto simp: close_ticket_def mark_closed_def intro!: mod_ticket_ok split: option.split)

lemma record_message_ok [keeps]:
  "tickets_ok d \<Longrightarrow> tickets_ok (snd (record_message e i dir ty tx ph st tg d))"
  by (auto simp: record_message_def Let_def intro!: mod_ticket_ok split: option.split)

lemma set_ticket_thread_ok [keeps]:
  "tickets_ok d \<Longrightarrow> tickets_ok (snd (set_ticket_thread e i th d))"
  by (auto simp: set_ticket_thread_def intro!: mod_ticket_ok split: option.split)

lemma open_then_refused:
  assumes "fst (open_ticket e rnd uid kind d) = Inr t" "db_tickets d' = db_tickets (snd (open_ticket e rnd uid kind d))"
  shows "\<exists>x. open_ticket e' rnd' uid kind' d' = (Inl x, d') \<and> exn_class x = Some TicketAlreadyOpenError"
proof (rule open_ticket_cases[of e rnd uid kind d])
  fix x assume "open_ticket e rnd uid kind d = (Inl x, d)"
  then show ?thesis using assms by simp
next
  fix m t'
  assume t: "t' = new_ticket e (generate_code (rnd m)) uid kind d"
    and tab: "db_tickets (snd (open_ticket e rnd uid kind d)) = db_tickets d @ [t']"
  have new: "t' \<in> set (db_tickets d')" "tk_user_id t' = uid" "tk_status t' = TkOpen"
    by (simp_all add: assms(2) tab) (simp_all add: t new_ticket_def)
  then have "active_ticket d' uid \<noteq> None"
    unfolding active_ticket_def find_None_iff by blast
  then show ?thesis by (auto simp: open_ticket_def already_open_def)
qed

end
