(* ===== verification/Users.thy ===== *)
theory Users
  imports Extension
begin

text \<open>
  \<open>services/user_service.py\<close> and the user endpoints of the bot API
  (\<open>api/bot/users.py\<close>): registration by Telegram id with the referral payload of
  the start link, and the ban flag.
\<close>

section \<open>Parsing the start payload\<close>

definition parse_ref_payload :: "string option \<Rightarrow> int option" where
  "parse_ref_payload p =
     (if \<not> str_truthy p then None
      else if \<not> starts_with ''ref_'' (the p) then None
      else py_int (drop 4 (the p)))"

section \<open>Registration\<close>

record profile =
  pf_username :: "string option"
  pf_first_name :: "string option"
  pf_last_name :: "string option"
  pf_language_code :: "string option"

definition new_user :: "env \<Rightarrow> int \<Rightarrow> profile \<Rightarrow> int option \<Rightarrow> db \<Rightarrow> user_row" where
  "new_user e tg pf ref d =
     \<lparr>u_id = next_user d, u_tg_id = tg, u_username = pf_username pf,
      u_first_name = pf_first_name pf, u_last_name = pf_last_name pf,
      u_language_code = pf_language_code pf, u_balance = 0, u_is_banned = False,
      u_banned_reason = None, u_ref_id = ref, u_created_at = e_now e, u_updated_at = e_now e\<rparr>"

definition keep_or :: "'a option \<Rightarrow> 'a option \<Rightarrow> 'a option" where
  "keep_or new old = (case new of None \<Rightarrow> old | Some v \<Rightarrow> Some v)"

definition update_profile :: "profile \<Rightarrow> user_row \<Rightarrow> user_row" where
  "update_profile pf u =
     u\<lparr>u_username := keep_or (pf_username pf) (u_username u),
       u_first_name := keep_or (pf_first_name pf) (u_first_name u),
       u_last_name := keep_or (pf_last_name pf) (u_last_name u),
       u_language_code := keep_or (pf_language_code pf) (u_language_code u)\<rparr>"

text \<open>\<open>UserService.upsert_user\<close>; the foreign key of \<open>ref_id\<close> is enforced on PostgreSQL.\<close>

definition upsert_user ::
  "env \<Rightarrow> int \<Rightarrow> profile \<Rightarrow> int option \<Rightarrow> db \<Rightarrow> (exn + int \<times> bool) \<times> db" where
  "upsert_user e tg pf ref d =
     (case user_by_tg d tg of
        None \<Rightarrow>
          if e_dialect e = Postgresql \<and> ref \<noteq> None \<and> get_user d (the ref) = None
          then rollback (PyExn ''IntegrityError'' ''foreign key constraint'') d
          else (Inr (next_user d, True),
                business_log e level_info ''user_registered'' (Some (next_user d))
                  (''User registered tg_id='' @ py_str tg)
                  [(''tg_id'', JInt tg), (''username'', json_opt_str (pf_username pf)),
                   (''ref_id'', json_opt_int ref)]
                  (ins_user (new_user e tg pf ref d) d))
      | Some u \<Rightarrow> (Inr (u_id u, False), mod_user (e_now e) (u_id u) (update_profile pf) d))"

text \<open>\<open>POST /users\<close>: a failing referral registration never fails the request.\<close>

definition register_start ::
  "env \<Rightarrow> int \<Rightarrow> profile \<Rightarrow> int option \<Rightarrow> string option \<Rightarrow> db \<Rightarrow> (exn + int \<times> bool) \<times> db" where
  "register_start e tg pf ref payload d =
     (case upsert_user e tg pf ref d of
        (Inl x, d') \<Rightarrow> (Inl x, d')
      | (Inr (uid, created), d') \<Rightarrow>
          (Inr (uid, created),
           (case parse_ref_payload payload of
              None \<Rightarrow> d'
            | Some referrer \<Rightarrow>
                if created \<and> referrer \<noteq> uid \<and> get_user d' referrer \<noteq> None
                then snd (register_referral e referrer uid True d') else d')))"

section \<open>Lookup and the ban flag\<close>

definition user_not_found :: "int \<Rightarrow> exn" where
  "user_not_found tg = mk_error NotFoundError
     (Some (''User tg_id='' @ py_str tg @ '' not found'')) (Some ''user_not_found'') []"

definition get_user_endpoint :: "int \<Rightarrow> db \<Rightarrow> exn + user_row" where
  "get_user_endpoint tg d =
     (case user_by_tg d tg of None \<Rightarrow> Inl (user_not_found tg) | Some u \<Rightarrow> Inr u)"

definition ban_user :: "env \<Rightarrow> int \<Rightarrow> string option \<Rightarrow> db \<Rightarrow> (exn + unit) \<times> db" where
  "ban_user e tg reason d =
     (case user_by_tg d tg of
        None \<Rightarrow> rollback (user_not_found tg) d
      | Some u \<Rightarrow> (Inr (),
          business_log e level_info ''user_banned'' (Some (u_id u))
            (''User tg_id='' @ py_str tg @ '' banned'')
            [(''tg_id'', JInt tg), (''reason'', json_opt_str reason)]
            (mod_user (e_now e) (u_id u)
               (\<lambda>r. r\<lparr>u_is_banned := True, u_banned_reason := reason\<rparr>) d)))"

definition unban_user :: "env \<Rightarrow> int \<Rightarrow> db \<Rightarrow> (exn + unit) \<times> db" where
  "unban_user e tg d =
     (case user_by_tg d tg of
        None \<Rightarrow> rollback (user_not_found tg) d
      | Some u \<Rightarrow> (Inr (),
          business_log e level_info ''user_unbanned'' (Some (u_id u))
            (''User tg_id='' @ py_str tg @ '' unbanned'') [(''tg_id'', JInt tg)]
            (mod_user (e_now e) (u_id u)
               (\<lambda>r. r\<lparr>u_is_banned := False, u_banned_reason := None\<rparr>) d)))"

section \<open>Round trip of the referral link\<close>

text \<open>The link \<open>ref_<id>\<close> the profile screen shows (\<open>api/bot/referral.py\<close>) parses back.\<close>

definition ref_payload :: "int \<Rightarrow> string" where
  "ref_payload uid = ''ref_'' @ py_str uid"

definition build_ref_link :: "env \<Rightarrow> int \<Rightarrow> string" where
  "build_ref_link e uid =
     ''https://t.me/'' @ dropWhile (\<lambda>c. c = CHR ''@'')
        (if e_bot_username e = [] then ''your_bot'' else e_bot_username e)
     @ ''?start='' @ ref_payload uid"

lemma parse_own_payload: "0 \<le> uid \<Longrightarrow> parse_ref_payload (Some (ref_payload uid)) = Some uid"
  by (simp add: parse_ref_payload_def ref_payload_def str_truthy_def starts_with_def py_str_def
      py_int_nat_str)

section \<open>Telegram ids stay unique and the money invariants hold\<close>

definition users_ok :: "db \<Rightarrow> bool" where
  "users_ok d \<longleftrightarrow> distinct (List.map u_tg_id (db_users d))"

lemma users_ok_cong: "db_users d' = db_users d \<Longrightarrow> users_ok d' = users_ok d"
  by (simp add: users_ok_def)

lemma users_ok_mod:
  "(\<And>u. u_tg_id (f u) = u_tg_id u) \<Longrightarrow> users_ok (mod_user n k f d) = users_ok d"
  by (simp add: users_ok_def db_users_mod_user map_row_upd)

lemma update_profile_sel [simp]:
  "u_id (update_profile pf u) = u_id u" "u_tg_id (update_profile pf u) = u_tg_id u"
  "u_balance (update_profile pf u) = u_balance u"
  by (simp_all add: update_profile_def)

lemma upsert_users_ok [keeps]:
  assumes "users_ok d"
  shows "users_ok (snd (upsert_user e tg pf ref d))"
proof (cases "user_by_tg d tg")
  case None
  then have "tg \<notin> u_tg_id ` set (db_users d)" by (simp add: user_by_tg_def row_find_None)
  then show ?thesis
    using assms None by (simp add: upsert_user_def rollback_def users_ok_def new_user_def)
next
  case (Some u)
  then show ?thesis using assms by (simp add: upsert_user_def users_ok_mod)
qed

lemma money_mod_user:
  assumes "\<And>u. u_id (f u) = u_id u" "\<And>u. u_balance (f u) = u_balance u" "money_ok d"
  shows "money_ok (mod_user n k f d)"
proof (rule money_okI)
  have "List.map (\<lambda>u. (u_id u, u_balance u)) (db_users (mod_user n k f d))
        = List.map (\<lambda>u. (u_id u, u_balance u)) (db_users d)"
    by (simp add: db_users_mod_user map_row_upd assms(1,2))
  then show "ledger_ok (mod_user n k f d)"
    using assms(3) ledger_frame[of d "mod_user n k f d"] by (simp add: money_okD)
  show "bonus_ok (mod_user n k f d)" "promo_counts_ok (mod_user n k f d)"
    using money_okD(2,3)[OF assms(3)]
      bonus_ok_cong[of "mod_user n k f d" d] promo_counts_cong[of "mod_user n k f d" d] by simp_all
qed

lemma money_new_user:
  assumes "money_ok d"
  shows "money_ok (ins_user (new_user e tg pf ref d) d)"
proof (rule money_okI)
  show "ledger_ok (ins_user (new_user e tg pf ref d) d)"
    by (rule ledger_new_user[OF money_okD(1)[OF assms], where u = "new_user e tg pf ref d"])
      (simp_all add: new_user_def)
  let ?d = "ins_user (new_user e tg pf ref d) d"
  show "bonus_ok ?d" "promo_counts_ok ?d"
    using money_okD(2,3)[OF assms] bonus_ok_cong[of ?d d] promo_counts_cong[of ?d d] by simp_all
qed

lemma upsert_money [keeps]:
  "money_ok d \<Longrightarrow> money_ok (snd (upsert_user e tg pf ref d))"
  by (auto simp: upsert_user_def rollback_def money_new_user intro!: money_mod_user split: option.split)

lemma register_start_money [keeps]:
  assumes "money_ok d"
  shows "money_ok (snd (register_start e tg pf ref payload d))"
proof -
  have reg: "money_ok (snd (register_referral e r u n d'))" if "money_ok d'" for r u n d'
    using that by (auto simp: money_ok_def register_referral_bonus_ok intro: ledger_frame_eq promo_counts_frame)
  show ?thesis
    using upsert_money[OF assms, of e tg pf ref] reg
    by (auto simp: register_start_def split: prod.split sum.split option.split)
qed

lemma register_start_users_ok [keeps]:
  "users_ok d \<Longrightarrow> users_ok (snd (register_start e tg pf ref payload d))"
  using upsert_users_ok[of d e tg pf ref]
  by (auto simp: register_start_def users_ok_def split: prod.split sum.split option.split)

lemma ban_money [keeps]: "money_ok d \<Longrightarrow> money_ok (snd (ban_user e tg reason d))"
  and unban_money [keeps]: "money_ok d \<Longrightarrow> money_ok (snd (unban_user e tg d))"
  by (auto simp: ban_user_def unban_user_def rollback_def intro!: money_mod_user split: option.split)

end
