(* ===== verification/AdminAuth.thy ===== *)
theory AdminAuth
  imports Logging Calendar Fixtures
begin

text \<open>
  \<open>services/admin_auth_service.py\<close>, its repository, \<open>api/admin/auth.py\<close> and the
  bearer guards of \<open>deps.py\<close>.  Argon2 (\<open>hash\<close>, \<open>verify\<close>), the token
  generator and PyJWT are third-party: they are arguments of the operations.
\<close>

section \<open>Usable keys\<close>

definition usable :: "int \<Rightarrow> admin_key_row \<Rightarrow> bool" where
  "usable now k \<longleftrightarrow> ak_revoked_at k = None
                 \<or> (case ak_valid_until k of None \<Rightarrow> False | Some t \<Rightarrow> t > now)"

definition list_usable :: "int \<Rightarrow> db \<Rightarrow> admin_key_row list" where
  "list_usable now d = filter (usable now) (db_admin_keys d)"

definition revoke_row :: "int \<Rightarrow> int \<Rightarrow> admin_key_row \<Rightarrow> admin_key_row" where
  "revoke_row now until k = k\<lparr>ak_revoked_at := Some now, ak_valid_until := Some until\<rparr>"

definition new_key_row :: "env \<Rightarrow> string \<Rightarrow> string \<Rightarrow> db \<Rightarrow> admin_key_row" where
  "new_key_row e h label d =
     \<lparr>ak_id = next_admin_key d, ak_key_hash = h, ak_label = label, ak_created_at = e_now e,
      ak_revoked_at = None, ak_valid_until = None\<rparr>"

text \<open>\<open>AdminKeyRepository.add\<close> under the columns' constraints.\<close>

definition add_key :: "env \<Rightarrow> string \<Rightarrow> string \<Rightarrow> db \<Rightarrow> exn + db" where
  "add_key e h label d =
     (if \<not> varchar_ok e 64 label \<or> \<not> varchar_ok e 255 h
      then Inl (PyExn ''DBAPIError'' ''value too long for type character varying'')
      else if list_ex (\<lambda>k. ak_key_hash k = h) (db_admin_keys d)
      then Inl (PyExn ''IntegrityError'' ''duplicate key value violates unique constraint'')
      else Inr (ins_admin_key (new_key_row e h label d) d))"

section \<open>Login\<close>

text \<open>The warning row of a failed login is committed before the error is raised.\<close>

definition login ::
  "env \<Rightarrow> (string \<Rightarrow> string \<Rightarrow> bool) \<Rightarrow> string \<Rightarrow> db \<Rightarrow> (exn + int \<times> string) \<times> db" where
  "login e verify key d =
     (if key = []
      then (Inl (mk_error UnauthorizedError (Some ''Missing key'') (Some ''missing_key'') []), d)
      else case List.find (\<lambda>k. verify key (ak_key_hash k)) (list_usable (e_now e) d) of
             Some k \<Rightarrow>
               (Inr (ak_id k, ak_label k),
                business_log e level_info ''admin_login'' None
                  (''Admin '' @ [CHR 0x27] @ ak_label k @ [CHR 0x27] @ '' logged in'')
                  [(''kid'', JInt (ak_id k)), (''label'', JStr (ak_label k))] d)
           | None \<Rightarrow>
               (Inl (mk_error UnauthorizedError (Some ''Invalid admin key'')
                      (Some ''invalid_admin_key'') []),
                business_log e level_warning ''admin_login_failed'' None
                  ''Failed admin login attempt'' [] d))"

section \<open>Rotation and revocation\<close>

definition key_not_found :: exn where
  "key_not_found = mk_error NotFoundError (Some ''Admin key not found'') (Some ''admin_key_not_found'') []"

definition rotated_label :: "env \<Rightarrow> string \<Rightarrow> string option \<Rightarrow> string" where
  "rotated_label e old new =
     (if str_truthy new then the new else old @ ''-rot-'' @ py_str (e_now e div 1000000))"

definition rotate_key ::
  "env \<Rightarrow> (string \<Rightarrow> string) \<Rightarrow> string \<Rightarrow> int \<Rightarrow> int \<Rightarrow> string option \<Rightarrow> db \<Rightarrow> (exn + int \<times> int) \<times> db" where
  "rotate_key e hash plain grace kid label d =
     (case get_admin_key d kid of
        None \<Rightarrow> rollback key_not_found d
      | Some prev \<Rightarrow>
          (let until = e_now e + hours grace in
           case add_key e (hash plain) (rotated_label e (ak_label prev) label) d of
             Inl x \<Rightarrow> rollback x d
           | Inr d1 \<Rightarrow>
               (Inr (next_admin_key d, until),
                business_log e level_info ''admin_key_rotated'' None
                  (''Admin key rotated: previous kid='' @ py_str (ak_id prev) @ '' grace_until=''
                   @ iso_format until)
                  [(''previous_kid'', JInt (ak_id prev)), (''new_kid'', JInt (next_admin_key d)),
                   (''valid_until'', JStr (iso_format until))]
                  (mod_admin_key kid (revoke_row (e_now e) until) d1))))"

definition revoke_all :: "int \<Rightarrow> int \<Rightarrow> admin_key_row list \<Rightarrow> db \<Rightarrow> db" where
  "revoke_all now until ks d = fold (\<lambda>k. mod_admin_key (ak_id k) (revoke_row now until)) ks d"

definition rotate_with_grace ::
  "env \<Rightarrow> (string \<Rightarrow> string) \<Rightarrow> string \<Rightarrow> string \<Rightarrow> int \<Rightarrow> int \<Rightarrow> db \<Rightarrow> (exn + int) \<times> db" where
  "rotate_with_grace e hash plain label grace kid d =
     (let until = (if grace > 0 then e_now e + hours grace else e_now e);
          new = next_admin_key d in
      case add_key e (hash plain) label d of
        Inl x \<Rightarrow> rollback x d
      | Inr d1 \<Rightarrow>
          (Inr new,
           business_log e level_info ''admin_key_rotated'' None
             (''Admin keys rotated by kid='' @ py_str kid @ '' (grace_hours='' @ py_str grace @ '')'')
             [(''new_kid'', JInt new), (''actor_kid'', JInt kid), (''grace_hours'', JInt grace),
              (''valid_until'', JStr (iso_format until))]
             (revoke_all (e_now e) until
                (filter (\<lambda>k. ak_id k \<noteq> new) (list_usable (e_now e) d1)) d1)))"

definition revoke_key :: "env \<Rightarrow> int \<Rightarrow> int \<Rightarrow> db \<Rightarrow> (exn + unit) \<times> db" where
  "revoke_key e me kid d =
     (if kid = me
      then rollback (mk_error ForbiddenError
             (Some ''Cannot revoke the key currently in use; rotate first.'')
             (Some ''cannot_revoke_current_key'') []) d
      else case get_admin_key d kid of
             None \<Rightarrow> rollback key_not_found d
           | Some k \<Rightarrow>
               (Inr (), business_log e level_warning ''admin_key_revoked'' None
                  (''Admin key revoked: kid='' @ py_str (ak_id k) @ '' label='' @ ak_label k)
                  [(''kid'', JInt (ak_id k)), (''label'', JStr (ak_label k))]
                  (mod_admin_key kid (revoke_row (e_now e) (e_now e)) d)))"

section \<open>The bearer guards\<close>

definition extract_bearer :: "string option \<Rightarrow> string option" where
  "extract_bearer h =
     (if \<not> str_truthy h then None
      else let scheme = takeWhile (\<lambda>c. c \<noteq> CHR '' '') (the h);
               rest = dropWhile (\<lambda>c. c \<noteq> CHR '' '') (the h)
           in if rest = [] \<or> str_lower scheme \<noteq> ''bearer'' then None
              else Some (str_strip (tl rest)))"

definition require_service_token :: "string \<Rightarrow> string option \<Rightarrow> exn + unit" where
  "require_service_token secret h =
     (case extract_bearer h of
        Some t \<Rightarrow> if t \<noteq> [] \<and> t = secret then Inr ()
                  else Inl (mk_error UnauthorizedError (Some ''Invalid service token'')
                              (Some ''invalid_service_token'') [])
      | None \<Rightarrow> Inl (mk_error UnauthorizedError (Some ''Invalid service token'')
                       (Some ''invalid_service_token'') []))"

text \<open>What PyJWT's \<open>decode\<close> gives: expired, invalid, or the claims.\<close>

datatype jwt_outcome = JwtExpired | JwtInvalid | JwtClaims "(string \<times> json) list"

record admin_principal =
  pr_kid :: int
  pr_label :: string
  pr_iat :: int
  pr_exp :: int

definition as_py_int :: "json option \<Rightarrow> int option" where
  "as_py_int j = (case j of
       Some (JInt i) \<Rightarrow> Some i
     | Some (JBool b) \<Rightarrow> Some (if b then 1 else 0)
     | Some (JStr s) \<Rightarrow> py_int s
     | _ \<Rightarrow> None)"

definition require_admin_jwt :: "(string \<Rightarrow> jwt_outcome) \<Rightarrow> string option \<Rightarrow> exn + admin_principal" where
  "require_admin_jwt decode h =
     (case extract_bearer h of
        None \<Rightarrow> Inl (mk_error UnauthorizedError (Some ''Missing admin token'')
                       (Some ''missing_admin_token'') [])
      | Some [] \<Rightarrow> Inl (mk_error UnauthorizedError (Some ''Missing admin token'')
                       (Some ''missing_admin_token'') [])
      | Some t \<Rightarrow>
          (case decode t of
             JwtExpired \<Rightarrow> Inl (mk_error UnauthorizedError (Some ''Token expired'')
                                  (Some ''token_expired'') [])
           | JwtInvalid \<Rightarrow> Inl (mk_error UnauthorizedError (Some ''Invalid admin token'')
                                  (Some ''invalid_admin_token'') [])
           | JwtClaims cs \<Rightarrow>
               (case (as_py_int (map_of cs ''kid''), map_of cs ''sub'',
                      as_py_int (map_of cs ''iat''), as_py_int (map_of cs ''exp'')) of
                  (Some k, Some s, Some i, Some x) \<Rightarrow>
                    Inr \<lparr>pr_kid = k, pr_label = json_str s, pr_iat = i, pr_exp = x\<rparr>
                | _ \<Rightarrow> Inl (mk_error UnauthorizedError (Some ''Malformed token'')
                              (Some ''malformed_token'') []))))"

section \<open>What a rotation leaves usable\<close>

lemma revoke_row_sel [simp]:
  "ak_id (revoke_row n u k) = ak_id k" "ak_key_hash (revoke_row n u k) = ak_key_hash k"
  "revoke_row n u (revoke_row n u k) = revoke_row n u k"
  by (simp_all add: revoke_row_def)

lemma usable_revoked [simp]: "usable t (revoke_row n u k) \<longleftrightarrow> u > t"
  by (simp add: usable_def revoke_row_def)

lemma usable_later: "usable t k \<Longrightarrow> now \<le> t \<Longrightarrow> usable now k"
  by (auto simp: usable_def split: option.splits)

lemma revoke_all_keys:
  "db_admin_keys (revoke_all now until ks d)
   = List.map (\<lambda>k. if ak_id k \<in> ak_id ` set ks then revoke_row now until k else k) (db_admin_keys d)"
proof (induction ks arbitrary: d)
  case (Cons x ks)
  show ?case
    using Cons[of "mod_admin_key (ak_id x) (revoke_row now until) d"]
    by (auto simp: revoke_all_def db_admin_keys_mod_admin_key row_upd_def)
qed (simp add: revoke_all_def)

lemma revoke_all_frame [simp, frame]:
  "db_users (revoke_all now until ks d) = db_users d"
  "db_bts (revoke_all now until ks d) = db_bts d"
  "db_logs (revoke_all now until ks d) = db_logs d"
  "db_subs (revoke_all now until ks d) = db_subs d"
  "db_payments (revoke_all now until ks d) = db_payments d"
  "db_tickets (revoke_all now until ks d) = db_tickets d"
  "db_refs (revoke_all now until ks d) = db_refs d"
  "db_promos (revoke_all now until ks d) = db_promos d"
  "db_promo_acts (revoke_all now until ks d) = db_promo_acts d"
  by (induction ks arbitrary: d) (simp_all add: revoke_all_def)

lemma add_key_ok:
  "add_key e h label d = Inr d1 \<Longrightarrow> d1 = ins_admin_key (new_key_row e h label d) d"
  by (simp add: add_key_def split: if_splits)

lemma rotate_keys:
  assumes "fst (rotate_with_grace e hash plain label grace kid d) = Inr i"
  defines "until \<equiv> (if grace > 0 then e_now e + hours grace else e_now e)"
  shows "i = next_admin_key d"
    and "db_admin_keys (snd (rotate_with_grace e hash plain label grace kid d))
         = List.map (\<lambda>k. if ak_id k \<in> ak_id ` set (list_usable (e_now e) d)
                         then revoke_row (e_now e) until k else k) (db_admin_keys d)
           @ [new_key_row e (hash plain) label d]"
proof -
  obtain d1 where d1: "add_key e (hash plain) label d = Inr d1"
    using assms(1) by (auto simp: rotate_with_grace_def rollback_def Let_def split: sum.splits)
  let ?n = "new_key_row e (hash plain) label d"
  have new: "ak_id ?n = next_admin_key d" "usable (e_now e) ?n"
    by (simp_all add: new_key_row_def usable_def)
  have keys: "db_admin_keys d1 = db_admin_keys d @ [?n]"
    using add_key_ok[OF d1] by simp
  have fresh: "\<forall>k\<in>set (db_admin_keys d). ak_id k \<noteq> next_admin_key d"
    using fresh_id_notin[of ak_id "db_admin_keys d"] by (metis imageI next_admin_key_def)
  have others: "filter (\<lambda>k. ak_id k \<noteq> next_admin_key d) (list_usable (e_now e) d1)
                = list_usable (e_now e) d"
    using fresh new by (auto simp: list_usable_def keys intro: filter_cong)
  show "i = next_admin_key d"
    using assms(1) d1 by (simp add: rotate_with_grace_def Let_def)
  have "next_admin_key d \<notin> ak_id ` set (list_usable (e_now e) d)"
    using fresh by (auto simp: list_usable_def)
  then show "db_admin_keys (snd (rotate_with_grace e hash plain label grace kid d))
         = List.map (\<lambda>k. if ak_id k \<in> ak_id ` set (list_usable (e_now e) d)
                         then revoke_row (e_now e) until k else k) (db_admin_keys d) @ [?n]"
    using d1 by (simp add: rotate_with_grace_def Let_def others revoke_all_keys keys new(1) until_def)
qed

lemma rotate_cutover_aux:
  assumes ok: "fst (rotate_with_grace e hash plain label grace kid d) = Inr i"
    and t: "(if grace > 0 then e_now e + hours grace else e_now e) \<le> t"
  shows "filter (usable t) (db_admin_keys (snd (rotate_with_grace e hash plain label grace kid d)))
         = [new_key_row e (hash plain) label d]"
proof -
  let ?until = "if grace > 0 then e_now e + hours grace else e_now e"
  have now: "e_now e \<le> t" using t by (auto simp: hours_def split: if_splits)
  have "\<not> usable t (if ak_id k \<in> ak_id ` set (list_usable (e_now e) d)
                    then revoke_row (e_now e) ?until k else k)" if "k \<in> set (db_admin_keys d)" for k
    using that t now usable_later[of t k "e_now e"] by (auto simp: list_usable_def split: if_splits)
  then have "filter (usable t) (List.map (\<lambda>k. if ak_id k \<in> ak_id ` set (list_usable (e_now e) d)
      then revoke_row (e_now e) ?until k else k) (db_admin_keys d)) = []"
    unfolding filter_empty_conv set_map by blast
  moreover have "usable t (new_key_row e (hash plain) label d)"
    by (simp add: usable_def new_key_row_def)
  ultimately show ?thesis by (simp add: rotate_keys(2)[OF ok])
qed

section \<open>Login\<close>

lemma login_ok_iff:
  "(\<exists>r. fst (login e verify key d) = Inr r)
   \<longleftrightarrow> key \<noteq> [] \<and> (\<exists>k\<in>set (db_admin_keys d). usable (e_now e) k \<and> verify key (ak_key_hash k))"
  by (auto simp: login_def list_usable_def find_None_iff split: option.split)
    (auto simp: find_Some_iff dest!: nth_mem)

end
