(* ===== verification/Reconcile.thy ===== *)
theory Reconcile
  imports NorthLine Calendar Logging Fixtures
begin

text \<open>
  \<open>services/subscription_reconcile_service.py\<close> and the endpoint that calls it
  (\<open>api/bot/subscriptions.py\<close>): the periodic comparison of the active subscriptions
  with the provider.  Timestamps are UTC instants, so \<open>_ensure_utc\<close> is the identity;
  the arrows and dashes of the log messages are written in ASCII.
\<close>

section \<open>Operations\<close>

definition breaker_threshold :: nat where "breaker_threshold = 3"
definition drift_threshold :: int where "drift_threshold = hours 1"

definition is_test_subscription_id :: "string option \<Rightarrow> bool" where
  "is_test_subscription_id s =
     (\<not> str_truthy s \<or> starts_with ''nlsub_test_'' (the s) \<or> starts_with ''test_'' (the s))"

record reconcile_result =
  rn_checked :: int
  rn_skipped_test :: int
  rn_flipped :: int
  rn_extended :: int
  rn_shrink_warned :: int
  rn_api_errors :: int

definition reconcile_zero :: reconcile_result where
  "reconcile_zero = \<lparr>rn_checked = 0, rn_skipped_test = 0, rn_flipped = 0, rn_extended = 0,
                     rn_shrink_warned = 0, rn_api_errors = 0\<rparr>"

text \<open>\<open>int(delta.total_seconds())\<close> truncates towards zero.\<close>

definition total_seconds :: "int \<Rightarrow> int" where
  "total_seconds us = (if us \<ge> 0 then us div 1000000 else - ((- us) div 1000000))"

definition unknown_key :: "exn \<Rightarrow> bool" where
  "unknown_key x = (str_lower (exn_code x) \<in> {''invalid_provider_key'', ''not_found''})"

text \<open>One iteration of the loop: go on, trip the breaker, or leave with an exception.\<close>

datatype reconcile_step =
    RnNext reconcile_result nat db
  | RnTrip reconcile_result int string
  | RnRaise exn

definition deactivate_unknown :: "env \<Rightarrow> sub_row \<Rightarrow> exn \<Rightarrow> db \<Rightarrow> db" where
  "deactivate_unknown e s x d =
     business_log e level_warning ''reconcile_provider_unknown_key'' (Some (s_user_id s))
       (''Subscription '' @ py_str (s_id s) @ '' unknown to NorthLine ('' @ exn_code x
        @ ''); marked deactivated.'')
       [(''subscription_id'', JInt (s_id s)),
        (''provider_subscription_id'', json_opt_str (s_provider_id s)),
        (''provider_error_code'', JStr (exn_code x))]
       (mod_sub (e_now e) (s_id s)
          (\<lambda>r. r\<lparr>s_status := SubDeactivated, s_deactivated_at := Some (e_now e),
                 s_deactivation_reason := Some (''Reconcile: provider returned '' @ exn_code x)\<rparr>) d)"

definition status_drift :: "env \<Rightarrow> sub_row \<Rightarrow> string \<Rightarrow> db \<Rightarrow> db" where
  "status_drift e s pst d =
     (let st = (if pst = ''suspended'' then SubDeactivated else SubExpired) in
      business_log e level_info ''reconcile_status_drift'' (Some (s_user_id s))
        (''Subscription '' @ py_str (s_id s) @ '' status drift: local=active provider='' @ pst
         @ '' -> '' @ sub_status_str st)
        [(''subscription_id'', JInt (s_id s)),
         (''provider_subscription_id'', json_opt_str (s_provider_id s)),
         (''provider_status'', JStr pst), (''new_local_status'', JStr (sub_status_str st))]
        (mod_sub (e_now e) (s_id s)
           (\<lambda>r. if st = SubDeactivated
                then r\<lparr>s_status := st, s_deactivated_at := Some (e_now e),
                       s_deactivation_reason := Some (''Reconcile: provider status='' @ pst)\<rparr>
                else r\<lparr>s_status := st\<rparr>) d))"

definition expires_drift ::
  "env \<Rightarrow> sub_row \<Rightarrow> int \<Rightarrow> int \<Rightarrow> reconcile_result \<Rightarrow> db \<Rightarrow> reconcile_result \<times> db" where
  "expires_drift e s pexp lexp r d =
     (let delta = pexp - lexp in
      if delta > drift_threshold
      then (r\<lparr>rn_extended := rn_extended r + 1\<rparr>,
            business_log e level_info ''reconcile_expires_extended'' (Some (s_user_id s))
              (''Subscription '' @ py_str (s_id s) @ '' expires_at pulled forward: ''
               @ iso_format lexp @ '' -> '' @ iso_format pexp)
              [(''subscription_id'', JInt (s_id s)),
               (''provider_subscription_id'', json_opt_str (s_provider_id s)),
               (''old_expires_at'', JStr (iso_format lexp)),
               (''new_expires_at'', JStr (iso_format pexp)),
               (''delta_seconds'', JInt (total_seconds delta))]
              (mod_sub (e_now e) (s_id s) (\<lambda>x. x\<lparr>s_expires_at := Some pexp\<rparr>) d))
      else if - delta > drift_threshold
      then (r\<lparr>rn_shrink_warned := rn_shrink_warned r + 1\<rparr>,
            business_log e level_warning ''reconcile_expires_shrink_warning'' (Some (s_user_id s))
              (''Subscription '' @ py_str (s_id s)
               @ '' provider expires_at is earlier than local; not shortened automatically.'')
              [(''subscription_id'', JInt (s_id s)),
               (''provider_subscription_id'', json_opt_str (s_provider_id s)),
               (''local_expires_at'', JStr (iso_format lexp)),
               (''provider_expires_at'', JStr (iso_format pexp)),
               (''delta_seconds'', JInt (total_seconds delta))] d)
      else (r, d))"

definition reconcile_one :: "env \<Rightarrow> sub_row \<Rightarrow> reconcile_result \<Rightarrow> nat \<Rightarrow> db \<Rightarrow> reconcile_step" where
  "reconcile_one e s r c d =
     (if is_test_subscription_id (s_provider_id s)
      then RnNext (r\<lparr>rn_skipped_test := rn_skipped_test r + 1\<rparr>) c d
      else
        let r = r\<lparr>rn_checked := rn_checked r + 1\<rparr> in
        case get_key e (the (s_provider_id s)) of
          Inl x \<Rightarrow>
            if exn_class x = Some NorthLineClientError then
              (if unknown_key x then
                 (if Suc c \<ge> breaker_threshold then
                    RnTrip (r\<lparr>rn_api_errors := rn_api_errors r + int (Suc c), rn_flipped := 0\<rparr>)
                      (s_id s) (exn_code x)
                  else RnNext (r\<lparr>rn_flipped := rn_flipped r + 1\<rparr>) (Suc c) (deactivate_unknown e s x d))
               else RnNext (r\<lparr>rn_api_errors := rn_api_errors r + 1\<rparr>) 0 d)
            else if exn_class x = Some NorthLineUnavailableError then
              RnNext (r\<lparr>rn_api_errors := rn_api_errors r + 1\<rparr>) 0 d
            else RnRaise x
        | Inr info \<Rightarrow>
            (let pst = str_lower (ki_status info) in
             if pst \<noteq> [] \<and> pst \<noteq> ''active''
             then RnNext (r\<lparr>rn_flipped := rn_flipped r + 1\<rparr>) 0 (status_drift e s pst d)
             else (case (ki_expires_at info, s_expires_at s) of
                     (Some pexp, Some lexp) \<Rightarrow>
                       (case expires_drift e s pexp lexp r d of (r', d') \<Rightarrow> RnNext r' 0 d')
                   | _ \<Rightarrow> RnNext r 0 d)))"

fun reconcile_loop :: "env \<Rightarrow> sub_row list \<Rightarrow> reconcile_result \<Rightarrow> nat \<Rightarrow> db \<Rightarrow> reconcile_step" where
  "reconcile_loop e [] r c d = RnNext r c d"
| "reconcile_loop e (s # ss) r c d =
     (case reconcile_one e s r c d of
        RnNext r' c' d' \<Rightarrow> reconcile_loop e ss r' c' d'
      | stop \<Rightarrow> stop)"

definition reconcile_batch :: "nat \<Rightarrow> db \<Rightarrow> sub_row list" where
  "reconcile_batch n d =
     take n (sort_key s_updated_at
       (filter (\<lambda>s. s_status s = SubActive \<and> s_provider_id s \<noteq> None) (db_subs d)))"

definition breaker_alert :: "env \<Rightarrow> int \<Rightarrow> string \<Rightarrow> db \<Rightarrow> db" where
  "breaker_alert e sid code d =
     send_admin_alert e ''CRIT''
       (''Reconcile aborted: '' @ nat_str breaker_threshold
        @ '' consecutive invalid_provider_key -- provider bearer likely rotated/expired. ''
        @ ''NO subscriptions were modified in this batch.'')
       [(''consecutive'', JInt (int breaker_threshold)), (''threshold'', JInt (int breaker_threshold)),
        (''last_subscription_id'', JInt sid), (''error_code'', JStr code),
        (''hint'', JStr ''Check NORTHLINE_BEARER_TOKEN; rotate via provider dashboard if needed.'')]
       (Some ''reconcile:circuit_breaker'') d"

definition reconcile_subscriptions :: "env \<Rightarrow> nat \<Rightarrow> db \<Rightarrow> (exn + reconcile_result) \<times> db" where
  "reconcile_subscriptions e n d =
     (case reconcile_loop e (reconcile_batch n d) reconcile_zero 0 d of
        RnNext r c d' \<Rightarrow> (Inr r, d')
      | RnTrip r sid code \<Rightarrow> (Inr r, breaker_alert e sid code d)
      | RnRaise x \<Rightarrow> rollback x d)"

section \<open>What a reconciliation may do to a subscription\<close>

definition keeps_paid_time :: "sub_row \<Rightarrow> sub_row \<Rightarrow> bool" where
  "keeps_paid_time s s' \<longleftrightarrow>
     s_id s' = s_id s \<and> s_user_id s' = s_user_id s \<and> s_devices s' = s_devices s
   \<and> s_days s' = s_days s \<and> s_key_url s' = s_key_url s \<and> s_provider_id s' = s_provider_id s
   \<and> (s_status s' = s_status s \<or> s_status s' \<in> {SubDeactivated, SubExpired})
   \<and> (case s_expires_at s of None \<Rightarrow> s_expires_at s' = None
      | Some x \<Rightarrow> (\<exists>y\<ge>x. s_expires_at s' = Some y))"

definition subs_keep :: "db \<Rightarrow> db \<Rightarrow> bool" where
  "subs_keep d d' \<longleftrightarrow> list_all2 keeps_paid_time (db_subs d) (db_subs d')"

lemma keeps_paid_time_refl: "keeps_paid_time s s"
  by (auto simp: keeps_paid_time_def split: option.split)

lemma keeps_paid_time_trans:
  "keeps_paid_time a b \<Longrightarrow> keeps_paid_time b c \<Longrightarrow> keeps_paid_time a c"
  by (cases "s_expires_at a"; cases "s_expires_at b") (auto simp: keeps_paid_time_def)

lemma subs_keep_refl [simp]: "subs_keep d d"
  by (simp add: subs_keep_def list_all2_refl keeps_paid_time_refl)

lemma subs_keep_trans: "subs_keep a b \<Longrightarrow> subs_keep b c \<Longrightarrow> subs_keep a c"
  unfolding subs_keep_def by (rule list_all2_trans[of keeps_paid_time keeps_paid_time])
    (auto intro: keeps_paid_time_trans)

lemma subs_keep_writes [simp]:
  "subs_keep d (business_log e l ev u m c d') = subs_keep d d'"
  "subs_keep d (send_admin_alert e lv ev ds k d') = subs_keep d d'"
  by (simp_all add: subs_keep_def)

lemma subs_keep_mod:
  assumes "\<And>s. s \<in> set (db_subs d) \<Longrightarrow> s_id s = k \<Longrightarrow> keeps_paid_time s (f s)"
  shows "subs_keep d (mod_sub n k f d)"
proof -
  have "keeps_paid_time s (touch_sub n f s)" if "s \<in> set (db_subs d)" "s_id s = k" for s
    using assms[OF that]
    by (cases "s_expires_at s") (auto simp: touch_sub_def keeps_paid_time_def)
  then show ?thesis
    by (auto simp: subs_keep_def db_subs_mod_sub row_upd_def list_all2_map2
        intro!: list.rel_refl_strong keeps_paid_time_refl)
qed


lemma subs_keep_distinct:
  "subs_keep d d' \<Longrightarrow> List.map s_id (db_subs d') = List.map s_id (db_subs d)"
  unfolding subs_keep_def by (induction rule: list_all2_induct) (auto simp: keeps_paid_time_def)

lemma reconcile_one_keeps:
  assumes "reconcile_one e s r c d = RnNext r' c' d'"
    and row: "get_sub d (s_id s) = Some s" and dist: "distinct (List.map s_id (db_subs d))"
  shows "subs_keep d d'" and "i \<noteq> s_id s \<Longrightarrow> get_sub d' i = get_sub d i"
proof -
  have only: "x = s" if "x \<in> set (db_subs d)" "s_id x = s_id s" for x
    using row_find_distinct[OF dist that(1)] row that(2) by (simp add: get_sub_def)
  show "subs_keep d d'"
    using assms(1)
    by (auto simp: reconcile_one_def Let_def deactivate_unknown_def status_drift_def expires_drift_def
        drift_threshold_def hours_def keeps_paid_time_def
        split: if_splits sum.splits option.splits prod.splits
        intro!: subs_keep_mod dest!: only)
  show "i \<noteq> s_id s \<Longrightarrow> get_sub d' i = get_sub d i"
    using assms(1)
    by (auto simp: reconcile_one_def Let_def deactivate_unknown_def status_drift_def expires_drift_def
        split: if_splits sum.splits option.splits prod.splits)
qed

lemma reconcile_loop_keeps:
  assumes "reconcile_loop e ss r c d = RnNext r' c' d'"
    "\<forall>s\<in>set ss. get_sub d (s_id s) = Some s" "distinct (List.map s_id ss)"
    "distinct (List.map s_id (db_subs d))"
  shows "subs_keep d d'"
  using assms
proof (induction ss arbitrary: r c d)
  case (Cons s ss)
  obtain r1 c1 d1 where one: "reconcile_one e s r c d = RnNext r1 c1 d1"
      and rest: "reconcile_loop e ss r1 c1 d1 = RnNext r' c' d'"
    using Cons.prems(1) by (auto split: reconcile_step.splits)
  note k = reconcile_one_keeps[OF one]
  have keep: "subs_keep d d1" using k(1) Cons.prems by simp
  have "\<forall>x\<in>set ss. get_sub d1 (s_id x) = Some x"
    using k(2) Cons.prems by (auto simp: image_iff)
  then have "subs_keep d1 d'"
    using Cons.IH[OF rest] Cons.prems subs_keep_distinct[OF keep] by simp
  then show ?case by (rule subs_keep_trans[OF keep])
qed simp

lemma reconcile_batch_rows:
  assumes "distinct (List.map s_id (db_subs d))"
  shows "\<forall>s\<in>set (reconcile_batch n d). get_sub d (s_id s) = Some s"
    and "distinct (List.map s_id (reconcile_batch n d))"
proof -
  let ?P = "\<lambda>s. s_status s = SubActive \<and> s_provider_id s \<noteq> None"
  let ?s = "sort_key s_updated_at (filter ?P (db_subs d))"
  show "\<forall>s\<in>set (reconcile_batch n d). get_sub d (s_id s) = Some s"
    using assms by (auto simp: reconcile_batch_def get_sub_def row_find_distinct dest!: in_set_takeD)
  have "distinct (List.map s_id ?s)"
    using assms by (simp add: distinct_map distinct_map_filter inj_on_def)
  then show "distinct (List.map s_id (reconcile_batch n d))"
    by (simp add: reconcile_batch_def take_map[symmetric] distinct_take)
qed

lemma reconcile_subs_keep:
  assumes "distinct (List.map s_id (db_subs d))"
  shows "subs_keep d (snd (reconcile_subscriptions e n d))"
proof (cases "reconcile_loop e (reconcile_batch n d) reconcile_zero 0 d")
  case (RnNext r c d')
  from reconcile_loop_keeps[OF this reconcile_batch_rows[OF assms] assms] RnNext
  show ?thesis by (simp add: reconcile_subscriptions_def)
next
  case (RnTrip r sid code)
  then show ?thesis by (simp add: reconcile_subscriptions_def breaker_alert_def)
next
  case (RnRaise x)
  then show ?thesis by (simp add: reconcile_subscriptions_def rollback_def)
qed

section \<open>The circuit breaker\<close>

definition unknown_at_provider :: "env \<Rightarrow> sub_row \<Rightarrow> bool" where
  "unknown_at_provider e s \<longleftrightarrow>
     \<not> is_test_subscription_id (s_provider_id s) \<and>
     (case get_key e (the (s_provider_id s)) of
        Inl x \<Rightarrow> exn_class x = Some NorthLineClientError \<and> unknown_key x
      | Inr _ \<Rightarrow> False)"

lemma reconcile_loop_append:
  "reconcile_loop e (xs @ ys) r c d =
     (case reconcile_loop e xs r c d of
        RnNext r' c' d' \<Rightarrow> reconcile_loop e ys r' c' d' | stop \<Rightarrow> stop)"
  by (induction xs arbitrary: r c d) (auto split: reconcile_step.split)

lemma reconcile_one_unknown:
  assumes "unknown_at_provider e s"
  shows "(\<exists>r' d'. reconcile_one e s r c d = RnNext r' (Suc c) d' \<and> Suc c < breaker_threshold)
       \<or> (\<exists>r' i x. reconcile_one e s r c d = RnTrip r' i x \<and> Suc c \<ge> breaker_threshold)"
  using assms by (auto simp: unknown_at_provider_def reconcile_one_def Let_def split: sum.splits)

lemma reconcile_loop_unknown:
  assumes "unknown_at_provider e s" "reconcile_loop e (s # ss) r c d = RnNext r2 c2 d2"
  shows "\<exists>r' d'. reconcile_loop e ss r' (Suc c) d' = RnNext r2 c2 d2 \<and> Suc c < breaker_threshold"
  using reconcile_one_unknown[OF assms(1), of r c d] assms(2)
  by (metis reconcile_loop.simps(2) reconcile_step.simps(10,11) reconcile_step.distinct(1))

lemma reconcile_three_unknown:
  assumes "unknown_at_provider e s1" "unknown_at_provider e s2" "unknown_at_provider e s3"
  shows "reconcile_loop e (s1 # s2 # s3 # post) r c d \<noteq> RnNext r2 c2 d2"
proof
  assume "reconcile_loop e (s1 # s2 # s3 # post) r c d = RnNext r2 c2 d2"
  from reconcile_loop_unknown[OF assms(1) this] obtain r' d'
    where "reconcile_loop e (s2 # s3 # post) r' (Suc c) d' = RnNext r2 c2 d2" by blast
  from reconcile_loop_unknown[OF assms(2) this] obtain r' d'
    where "reconcile_loop e (s3 # post) r' (Suc (Suc c)) d' = RnNext r2 c2 d2" by blast
  from reconcile_loop_unknown[OF assms(3) this] show False by (auto simp: breaker_threshold_def)
qed

lemma reconcile_breaker_subs:
  assumes "reconcile_batch n d = pre @ s1 # s2 # s3 # post"
    "unknown_at_provider e s1" "unknown_at_provider e s2" "unknown_at_provider e s3"
  shows "db_subs (snd (reconcile_subscriptions e n d)) = db_subs d
         \<and> db_logs (snd (reconcile_subscriptions e n d)) = db_logs d"
proof -
  have "reconcile_loop e (reconcile_batch n d) reconcile_zero 0 d \<noteq> RnNext r' c' d'" for r' c' d'
    unfolding assms(1) reconcile_loop_append
    using reconcile_three_unknown[OF assms(2-4)]
    by (simp split: reconcile_step.split del: reconcile_loop.simps)
  then show ?thesis
    by (auto simp: reconcile_subscriptions_def breaker_alert_def rollback_def split: reconcile_step.split)
qed

section \<open>Rows that agree with the provider\<close>

definition agrees_with_provider :: "env \<Rightarrow> sub_row \<Rightarrow> bool" where
  "agrees_with_provider e s \<longleftrightarrow>
     is_test_subscription_id (s_provider_id s) \<or>
     (case get_key e (the (s_provider_id s)) of
        Inl x \<Rightarrow> is_northline_exn x \<and> \<not> (exn_class x = Some NorthLineClientError \<and> unknown_key x)
      | Inr info \<Rightarrow>
          (ki_status info = [] \<or> str_lower (ki_status info) = ''active'') \<and>
          (case (ki_expires_at info, s_expires_at s) of
             (Some p, Some l) \<Rightarrow> \<bar>p - l\<bar> \<le> drift_threshold | _ \<Rightarrow> True))"

lemma expires_drift_quiet: "\<bar>p - l\<bar> \<le> drift_threshold \<Longrightarrow> expires_drift e s p l r d = (r, d)"
  by (simp add: expires_drift_def Let_def abs_le_iff not_less)

lemma reconcile_one_quiet:
  assumes "agrees_with_provider e s"
  shows "\<exists>r' c'. reconcile_one e s r c d = RnNext r' c' d"
proof (cases "is_test_subscription_id (s_provider_id s)")
  case True
  then show ?thesis by (simp add: reconcile_one_def)
next
  case False
  show ?thesis
  proof (cases "get_key e (the (s_provider_id s))")
    case (Inl x)
    then show ?thesis using assms False
      by (auto simp: agrees_with_provider_def reconcile_one_def is_northline_exn_def)
  next
    case (Inr info)
    then show ?thesis using assms False
      by (cases "ki_expires_at info"; cases "s_expires_at s")
        (auto simp: agrees_with_provider_def reconcile_one_def expires_drift_quiet str_lower_def)
  qed
qed

lemma reconcile_loop_quiet:
  assumes "list_all (agrees_with_provider e) ss"
  shows "\<exists>r' c'. reconcile_loop e ss r c d = RnNext r' c' d"
  using assms
proof (induction ss arbitrary: r c)
  case (Cons s ss)
  obtain r1 c1 where "reconcile_one e s r c d = RnNext r1 c1 d"
    using reconcile_one_quiet Cons.prems by fastforce
  then show ?case using Cons.IH[of r1 c1] Cons.prems by simp
qed simp

lemma reconcile_quiet:
  assumes "list_all (agrees_with_provider e) (reconcile_batch n d)"
  shows "snd (reconcile_subscriptions e n d) = d"
  using reconcile_loop_quiet[OF assms, of reconcile_zero 0 d]
  by (auto simp: reconcile_subscriptions_def)

end
