(* ===== verification/System.thy ===== *)
theory System
  imports Webhooks Cron FreeTrial Tickets Users AdminAuth Reconcile Outbox
begin

text \<open>
  The service as a whole: one step of the system is one committed request, webhook
  or job, in an environment of its own.  The invariants of the components hold in
  every reachable database.
\<close>

section \<open>What every billing operation guarantees\<close>

definition paid :: "payment_row \<Rightarrow> bool" where
  "paid p \<longleftrightarrow> p_status p = PayPaid \<or> p_status p = PayRefunded"

definition paid_ext :: "db \<Rightarrow> string \<Rightarrow> bool" where
  "paid_ext d x \<longleftrightarrow> (\<exists>p\<in>set (db_payments d). p_external_id p = Some x \<and> paid p)"

definition pays_ok :: "db \<Rightarrow> bool" where
  "pays_ok d \<longleftrightarrow> distinct (List.map p_id (db_payments d))
             \<and> (\<forall>p\<in>set (db_payments d). \<forall>q\<in>set (db_payments d).
                  p_external_id p \<noteq> None \<and> p_external_id p = p_external_id q \<longrightarrow> p = q)"

text \<open>
  A routine operation leaves the tickets alone, neither adds users nor changes
  their ids, grants no trial, keeps the payment keys unique and never takes a
  paid payment back.
\<close>

definition routine :: "db \<Rightarrow> db \<Rightarrow> bool" where
  "routine d d' \<longleftrightarrow>
     db_tickets d' = db_tickets d
   \<and> List.map (\<lambda>u. (u_id u, u_tg_id u)) (db_users d') = List.map (\<lambda>u. (u_id u, u_tg_id u)) (db_users d)
   \<and> (\<forall>uid. trial_count d' uid = trial_count d uid)
   \<and> (pays_ok d \<longrightarrow> pays_ok d' \<and> (\<forall>x. paid_ext d x \<longrightarrow> paid_ext d' x))"

lemma routine_refl [simp]: "routine d d"
  by (simp add: routine_def)

lemma routine_trans: "routine a b \<Longrightarrow> routine b c \<Longrightarrow> routine a c"
  by (auto simp: routine_def)

lemma pays_cong: "db_payments d' = db_payments d \<Longrightarrow> pays_ok d' = pays_ok d \<and> paid_ext d' = paid_ext d"
  by (auto simp: pays_ok_def paid_ext_def fun_eq_iff)

lemma routine_cong:
  assumes "db_tickets d' = db_tickets d" "db_users d' = db_users d" "db_subs d' = db_subs d"
    "db_payments d' = db_payments d"
  shows "routine a d' = routine a d"
  using assms pays_cong[OF assms(4)] trial_count_cong[OF assms(3)] by (simp add: routine_def)

lemma routine_writes [simp]:
  "routine a (business_log e b1 b2 b3 b4 b5 d) = routine a d"
  "routine a (tech_log e t1 t2 t3 t4 d) = routine a d"
  "routine a (enqueue_message e o1 o2 o3 o4 o5 d) = routine a d"
  "routine a (send_admin_alert e a1 a2 a3 a4 d) = routine a d"
  "routine a (add_bt e x1 x2 x3 x4 x5 x6 x7 d) = routine a d"
  "routine a (settle_promo e s1 s2 s3 s4 d) = routine a d"
  "routine a (record_promo_activation_safe e pay d) = routine a d"
  "routine a (mod_ref k f d) = routine a d"
  by (rule routine_cong; simp)+

lemma routine_users:
  assumes "routine a d" "db_tickets d' = db_tickets d" "db_subs d' = db_subs d"
    "db_payments d' = db_payments d"
    "List.map (\<lambda>u. (u_id u, u_tg_id u)) (db_users d') = List.map (\<lambda>u. (u_id u, u_tg_id u)) (db_users d)"
  shows "routine a d'"
  using assms pays_cong[OF assms(4)] trial_count_cong[OF assms(3)] by (simp add: routine_def)

lemma routine_mod_user:
  assumes "routine a d" "\<And>u. u_id (f u) = u_id u" "\<And>u. u_tg_id (f u) = u_tg_id u"
  shows "routine a (mod_user n k f d)"
  by (rule routine_users[OF assms(1)]) (simp_all add: db_users_mod_user map_row_upd assms(2,3))

lemma routine_set_balance [intro]: "routine a d \<Longrightarrow> routine a (set_balance e u b d)"
  unfolding set_balance_def by (rule routine_mod_user) simp_all

lemma routine_subs:
  assumes "routine a d" "db_tickets d' = db_tickets d" "db_users d' = db_users d"
    "db_payments d' = db_payments d" "\<And>uid. trial_count d' uid = trial_count d uid"
  shows "routine a d'"
  using assms pays_cong[OF assms(4)] by (simp add: routine_def)

lemma routine_mod_sub:
  assumes "routine a d" "\<And>s. s_user_id (f s) = s_user_id s" "\<And>s. s_is_free_trial (f s) = s_is_free_trial s"
  shows "routine a (mod_sub n k f d)"
  by (rule routine_subs[OF assms(1)]) (simp_all add: trial_count_mod_sub assms(2,3))

lemma routine_create_sub [intro]: "routine a d \<Longrightarrow> routine a (create_sub e u t n dv dy False d)"
  by (erule routine_subs) simp_all

lemma routine_payments:
  assumes "routine a d" "db_tickets d' = db_tickets d" "db_users d' = db_users d"
    "db_subs d' = db_subs d"
    "pays_ok d \<Longrightarrow> pays_ok d' \<and> (\<forall>x. paid_ext d x \<longrightarrow> paid_ext d' x)"
  shows "routine a d'"
  using assms trial_count_cong[OF assms(4)] by (auto simp: routine_def)

lemma pays_ok_snoc:
  assumes "pays_ok d" "db_payments d' = db_payments d @ [p]" "p_id p = next_payment d"
    "p_external_id p = None"
  shows "pays_ok d' \<and> (\<forall>x. paid_ext d x \<longrightarrow> paid_ext d' x)"
proof -
  have "p_id p \<notin> p_id ` set (db_payments d)"
    by (simp add: assms(3) next_payment_def fresh_id_notin)
  then have "distinct (List.map p_id (db_payments d'))"
    using assms(1,2) by (simp add: pays_ok_def)
  moreover have "q = r" if "q \<in> set (db_payments d')" "r \<in> set (db_payments d')"
    "p_external_id q \<noteq> None" "p_external_id q = p_external_id r" for q r
  proof -
    have "q \<in> set (db_payments d)" "r \<in> set (db_payments d)"
      using that assms(2,4) by auto
    then show ?thesis using assms(1) that(3,4) unfolding pays_ok_def by blast
  qed
  ultimately have "pays_ok d'" unfolding pays_ok_def by blast
  then show ?thesis using assms(2) by (auto simp: paid_ext_def)
qed

lemma routine_create_payment [intro]:
  assumes "routine a d"
  shows "routine a (create_payment e u s pu pr am st t m d)"
proof (rule routine_payments[OF assms])
  assume "pays_ok d"
  from pays_ok_snoc[OF this, of "create_payment e u s pu pr am st t m d"]
  show "pays_ok (create_payment e u s pu pr am st t m d) \<and>
      (\<forall>x. paid_ext d x \<longrightarrow> paid_ext (create_payment e u s pu pr am st t m d) x)"
    by (simp add: create_payment_def)
qed simp_all

lemma pays_ok_row:
  "pays_ok d \<Longrightarrow> p \<in> set (db_payments d) \<Longrightarrow> q \<in> set (db_payments d) \<Longrightarrow> p_id p = p_id q \<Longrightarrow> p = q"
  by (auto simp: pays_ok_def distinct_map dest: inj_onD)

lemma routine_mod_payment:
  assumes "routine a d"
    and id: "\<And>p. p_id (f p) = p_id p" and ext: "\<And>p. p_external_id (f p) = p_external_id p"
    and st: "\<And>p. pays_ok d \<Longrightarrow> p \<in> set (db_payments d) \<Longrightarrow> p_id p = k \<Longrightarrow> paid p \<Longrightarrow> paid (f p)"
  shows "routine a (mod_payment n k f d)"
proof (rule routine_payments[OF assms(1)])
  assume ok: "pays_ok d"
  define g where "g = (\<lambda>p. if p_id p = k then touch_payment n f p else p)"
  have rows: "db_payments (mod_payment n k f d) = List.map g (db_payments d)"
    by (simp add: db_payments_mod_payment row_upd_def g_def)
  have keep: "p_id (g p) = p_id p" "p_external_id (g p) = p_external_id p" for p
    by (auto simp: g_def touch_payment_def id ext)
  have gpaid: "paid (g p)" if "p \<in> set (db_payments d)" "paid p" for p
    using st[OF ok that(1) _ that(2)] that(2) by (auto simp: g_def touch_payment_def paid_def)
  have "paid_ext (mod_payment n k f d) x" if px: "paid_ext d x" for x
  proof -
    obtain p where p: "p \<in> set (db_payments d)" "p_external_id p = Some x" "paid p"
      using px unfolding paid_ext_def by blast
    have "g p \<in> set (db_payments (mod_payment n k f d))" using p(1) by (simp add: rows)
    moreover have "p_external_id (g p) = Some x" using p(2) by (simp add: keep)
    ultimately show ?thesis using gpaid[OF p(1,3)] unfolding paid_ext_def by blast
  qed
  moreover have "pays_ok (mod_payment n k f d)"
  proof -
    have "List.map p_id (db_payments (mod_payment n k f d)) = List.map p_id (db_payments d)"
      by (simp add: rows keep)
    moreover have "p = q" if pq: "p \<in> set (db_payments (mod_payment n k f d))"
      "q \<in> set (db_payments (mod_payment n k f d))"
      "p_external_id p \<noteq> None" "p_external_id p = p_external_id q" for p q
    proof -
      obtain p0 q0 where "p = g p0" "q = g q0" "p0 \<in> set (db_payments d)" "q0 \<in> set (db_payments d)"
        using pq(1,2) by (auto simp: rows)
      moreover from this have "p0 = q0" using pq(3,4) ok unfolding pays_ok_def keep by (metis keep(2))
      ultimately show ?thesis by simp
    qed
    ultimately show ?thesis using ok unfolding pays_ok_def by metis
  qed
  ultimately show "pays_ok (mod_payment n k f d) \<and>
      (\<forall>x. paid_ext d x \<longrightarrow> paid_ext (mod_payment n k f d) x)" by blast
qed simp_all

lemma touch_keys:
  "p_external_id (touch_payment n f r) = p_external_id (f r)" "p_id (touch_payment n f r) = p_id (f r)"
  by (simp_all add: touch_payment_def)

text \<open>A fresh payment gets the identifier of its invoice, which no other payment has.\<close>

lemma routine_attach:
  assumes "routine a d" "next_payment d = pid"
    "attach_invoice e pid ext meta (create_payment e u s pu pr am PayPending t m d) = Inr d'"
  shows "routine a d'"
proof -
  let ?c = "create_payment e u s pu pr am PayPending t m d"
  obtain row where row: "db_payments ?c = db_payments d @ [row]" "p_id row = pid"
      "p_external_id row = None" "p_status row = PayPending"
    by (simp add: create_payment_def assms(2))
  let ?f = "\<lambda>p. p\<lparr>p_external_id := Some ext, p_meta := Some meta\<rparr>"
  have new: "\<forall>p\<in>set (db_payments d). p_id p \<noteq> pid"
    using fresh_id_notin[of p_id "db_payments d"] assms(2) by (metis imageI next_payment_def)
  have d': "d' = mod_payment (e_now e) pid ?f ?c"
    and free: "\<forall>p\<in>set (db_payments d). p_external_id p \<noteq> Some ext"
    using assms(3) new row by (auto simp: attach_invoice_Inr list_ex_iff)
  define r where "r = touch_payment (e_now e) ?f row"
  have r: "p_id r = pid" "p_external_id r = Some ext"
    using row by (simp_all add: r_def touch_keys)
  have rows: "db_payments d' = db_payments d @ [r]"
    using new row by (simp add: d' db_payments_mod_payment row_upd_def r_def map_idI)
  show ?thesis
  proof (rule routine_payments[OF assms(1)])
    assume ok: "pays_ok d"
    have "distinct (List.map p_id (db_payments d'))"
      using ok new r by (auto simp: rows pays_ok_def)
    moreover have "p = q" if "p \<in> set (db_payments d')" "q \<in> set (db_payments d')"
      "p_external_id p \<noteq> None" "p_external_id p = p_external_id q" for p q
      using that ok free r(2) unfolding rows pays_ok_def by auto
    ultimately have "pays_ok d'" unfolding pays_ok_def by blast
    then show "pays_ok d' \<and> (\<forall>x. paid_ext d x \<longrightarrow> paid_ext d' x)"
      by (auto simp: paid_ext_def rows)
  qed (simp_all add: d')
qed

section \<open>The operations are routine\<close>

lemma routine_purchase_debit: "routine d (snd (purchase_debit e uid tid did i d))"
  by (auto simp: purchase_debit_def Let_def split: sum.split prod.split
      intro!: routine_create_payment routine_create_sub routine_set_balance)

lemma routine_refund: "routine a d \<Longrightarrow> routine a (refund_after_failure e pu x d)"
  by (auto simp: refund_after_failure_def Let_def paid_def
      intro!: routine_mod_payment routine_mod_sub split: option.split)

lemma routine_activate: "routine a d \<Longrightarrow> routine a (purchase_activate e pu kr d)"
  by (auto simp: purchase_activate_def Let_def intro!: routine_mod_sub)

lemma routine_purchase: "routine d (snd (purchase_with_balance e uid tid did i d))"
  using routine_purchase_debit[of d e uid tid did i]
  by (auto simp: purchase_with_balance_def intro: routine_refund routine_activate
      split: prod.split sum.split)

lemma routine_adjust: "routine d (snd (add_admin_adjust e uid a rs k l d))"
  by (auto simp: add_admin_adjust_def Let_def split: sum.split)

lemma next_payment_create_sub [simp]: "next_payment (create_sub e u t n dv dy f d) = next_payment d"
  by (simp add: next_payment_def)

lemmas routine_attached = routine_attach[OF routine_refl refl]

lemma routine_attached_sub:
  assumes "attach_invoice e (next_payment d) ext meta
             (create_payment e u s pu pr am PayPending t m (create_sub e u' ti n dv dy False d)) = Inr d'"
  shows "routine d d'"
  by (rule routine_attach[OF _ _ assms]) (simp_all add: routine_create_sub)

lemma routine_subscription: "routine d (snd (create_subscription_payment e uid tid did pr i d))"
  by (simp add: create_subscription_payment_def Let_def split: option.split sum.split prod.split)
    (blast dest: routine_attached_sub)

lemma routine_topup: "routine d (snd (create_topup_payment e uid a pr d))"
  by (simp add: create_topup_payment_def Let_def split: sum.split)
    (blast dest: routine_attached)

lemma routine_same:
  assumes "db_tickets d' = db_tickets d" "db_users d' = db_users d" "db_subs d' = db_subs d"
    "db_payments d' = db_payments d"
  shows "routine d d'"
  using routine_cong[OF assms, of d] by simp

lemma routine_extend_key:
  "call_northline_extend e pay s d = Inr d' \<Longrightarrow> routine a d \<Longrightarrow> routine a d'"
  by (auto simp: call_northline_extend_def Let_def intro!: routine_mod_sub
      split: option.splits sum.splits)

lemma routine_refund_extension: "routine a d \<Longrightarrow> routine a (refund_extension e uid pay sid am x d)"
  by (auto simp: refund_extension_def Let_def paid_def intro!: routine_mod_payment split: option.split)

lemma routine_apply_extension:
  "apply_extension_after_payment e pay d = Inr d' \<Longrightarrow> routine a d \<Longrightarrow> routine a d'"
  by (auto simp: apply_extension_after_payment_def
      intro: routine_extend_key routine_refund_extension
      split: option.splits json.splits sum.splits if_splits)

lemma routine_promo: "routine d (snd (validate_and_apply e code uid d))"
proof (rule routine_users[OF routine_refl])
  show "List.map (\<lambda>u. (u_id u, u_tg_id u)) (db_users (snd (validate_and_apply e code uid d)))
        = List.map (\<lambda>u. (u_id u, u_tg_id u)) (db_users d)"
    by (simp add: validate_and_apply_def apply_balance_def apply_discount_def Let_def
        set_balance_def db_users_mod_user map_row_upd
        split: list.split option.split sum.split promo_type.split)
qed simp_all

lemma routine_extension_promo:
  "extension_promo e code uid d = Inr (pr, d1) \<Longrightarrow> routine d d1"
  using routine_promo[of d e "the code" uid]
  by (auto simp: extension_promo_def split: if_splits prod.splits sum.splits)

lemma routine_extend_via_balance:
  assumes "routine a d0" "routine a d"
  shows "routine a (snd (extend_via_balance e uid s td tc am m d0 d))"
proof -
  have mid: "routine a (add_bt e uid x1 x2 x3 x4 x5 x6
      (create_payment e uid q1 q2 q3 q4 q5 q6 q7 (set_balance e uid b d)))" for x1 x2 x3 x4 x5 x6 q1 q2 q3 q4 q5 q6 q7 b
    using assms(2) by (simp add: routine_create_payment routine_set_balance)
  show ?thesis
    using assms mid
    by (auto simp: extend_via_balance_def Let_def split: option.split sum.split
        intro!: routine_refund_extension intro: routine_extend_key)
qed

lemma routine_extension_external:
  assumes "routine a d0" "routine a d"
  shows "routine a (snd (extension_external e uid s td tc pr am m d0 d))"
  using assms(1) routine_attach[OF assms(2) refl]
  by (simp add: extension_external_def Let_def split: sum.split)

lemma routine_create_extension: "routine d (snd (create_extension_payment e sid did uid pr code d))"
proof -
  have "routine d d1" if "extension_promo e code uid d = Inr (p, d1)" for p d1
    using that by (rule routine_extension_promo)
  then show ?thesis
    by (simp add: create_extension_payment_def Let_def routine_extend_via_balance
        routine_extension_external split: option.split sum.split prod.split)
qed

lemma routine_referral:
  "routine a d \<Longrightarrow> routine a (apply_referral_bonus_safe e pay d)"
  by (auto simp: apply_referral_bonus_safe_def apply_referrer_bonus_def Let_def
      split: option.split intro!: routine_set_balance)

lemma routine_mark:
  assumes "pay \<in> set (db_payments d)" "\<not> paid pay"
  shows "routine d (mark_payment e pay st t raw d)"
  unfolding mark_payment_def
proof (rule routine_mod_payment[OF routine_refl])
  fix p assume "pays_ok d" "p \<in> set (db_payments d)" "p_id p = p_id pay" "paid p"
  then have "p = pay" using assms(1) by (blast intro: pays_ok_row)
  then show "paid (p\<lparr>p_status := st, p_paid_at := (case t of None \<Rightarrow> p_paid_at p | Some t \<Rightarrow> Some t),
      p_meta := Some (jset ''webhook_raw'' (JObj raw) (case p_meta pay of None \<Rightarrow> [] | Some m \<Rightarrow> m))\<rparr>)"
    using assms(2) \<open>paid p\<close> by simp
qed simp_all

lemma routine_credit: "routine a d \<Longrightarrow> routine a (credit_topup e pay t d)"
  by (auto simp: credit_topup_def Let_def split: option.split)

lemma routine_provision:
  assumes "provision_subscription_key e pay t d = Inr d'" "routine a d"
  shows "routine a d'"
proof -
  have msg: "routine a d2 \<Longrightarrow> enqueue_subscription_key e u i k d2 = Inr d3 \<Longrightarrow> routine a d3" for u i k d2 d3
    by (auto simp: enqueue_subscription_key_def split: option.splits)
  show ?thesis
    using assms
    by (auto simp: provision_subscription_key_def enqueue_provider_failed_def Let_def
        split: option.splits sum.splits intro!: routine_mod_sub elim!: msg[rotated])
qed

lemma routine_settle: "settle_by_purpose e pay t d = Inr d' \<Longrightarrow> routine a d \<Longrightarrow> routine a d'"
  by (auto simp: settle_by_purpose_def routine_credit intro: routine_apply_extension routine_provision
      split: if_splits payment_purpose.splits)

lemma routine_hooks: "routine a d \<Longrightarrow> routine a (post_paid_hooks e pay d)"
  by (simp add: post_paid_hooks_def routine_referral)

lemma routine_handle_paid:
  assumes "pay \<in> set (db_payments d)" "\<not> paid pay"
  shows "routine d (snd (handle_paid e pay raw t d))"
  using routine_mark[OF assms, of e PayPaid "Some (e_now e)" raw]
  by (auto simp: handle_paid_def Let_def intro: routine_hooks routine_settle
      split: option.split sum.split)

lemma routine_handle_failed:
  assumes "pay \<in> set (db_payments d)" "\<not> paid pay"
  shows "routine d (snd (handle_failed e pay raw t d))"
  using routine_mark[OF assms, of e PayFailed None raw]
  by (auto simp: handle_failed_def Let_def intro!: routine_mod_sub split: option.split)

lemma routine_handle_expired:
  assumes "pay \<in> set (db_payments d)" "\<not> paid pay"
  shows "routine d (snd (handle_expired e pay raw t d))"
  using routine_mark[OF assms, of e PayExpired None raw] by (simp add: handle_expired_def Let_def)

lemma payment_by_external_mem:
  "payment_by_external d x = Some pay \<Longrightarrow> pay \<in> set (db_payments d) \<and> p_external_id pay = Some x"
  unfolding payment_by_external_def by (auto simp: find_Some_iff)

lemma routine_process_webhook: "routine d (snd (process_webhook_payment e pr x st raw t d))"
proof (cases "payment_by_external d x")
  case None
  then show ?thesis by (simp add: process_webhook_payment_def)
next
  case (Some pay)
  then have mem: "pay \<in> set (db_payments d)" by (simp add: payment_by_external_mem)
  show ?thesis
  proof (cases "paid pay")
    case True
    then show ?thesis using Some by (simp add: process_webhook_payment_def paid_def)
  next
    case False
    then show ?thesis
      using Some routine_handle_paid[OF mem False] routine_handle_failed[OF mem False]
        routine_handle_expired[OF mem False]
      by (simp add: process_webhook_payment_def Let_def)
  qed
qed

lemma routine_reply_of: "routine d (snd r) \<Longrightarrow> routine d (snd (reply_of r d))"
  by (auto simp: reply_of_def split: prod.split sum.split)

lemma routine_process_logged:
  "routine d (snd (process_webhook_payment e pr x st raw t (tech_log e2 t1 t2 t3 t4 d)))"
  by (rule routine_trans[OF _ routine_process_webhook]) simp

lemma routine_platega: "routine d (snd (platega_webhook e shop key mid sec pv parsed d))"
  by (simp add: platega_webhook_def Let_def routine_reply_of routine_process_logged
      split: sum.split json.split)

lemma routine_cryptobot: "routine d (snd (cryptobot_webhook e hmac token sig pv parsed d))"
  by (simp add: cryptobot_webhook_def Let_def routine_reply_of routine_process_logged
      split: sum.split json.split)

lemma routine_outbox:
  "routine d (snd (fetch_pending e n locked d))"
  "routine d (snd (mark_sent e i tg d))"
  "routine d (snd (mark_failed e i m d))"
  by (rule routine_same;
      simp add: fetch_pending_def mark_sent_def mark_failed_def Let_def split: option.split)+

lemma routine_reconcile_one:
  "reconcile_one e s r c d = RnNext r' c' d' \<Longrightarrow> routine d d'"
  by (auto simp: reconcile_one_def Let_def deactivate_unknown_def status_drift_def expires_drift_def
      split: if_splits sum.splits option.splits prod.splits intro!: routine_mod_sub)

lemma routine_reconcile_loop:
  "reconcile_loop e ss r c d = RnNext r' c' d' \<Longrightarrow> routine d d'"
proof (induction ss arbitrary: r c d)
  case (Cons s ss)
  then obtain r1 c1 d1 where "reconcile_one e s r c d = RnNext r1 c1 d1"
      "reconcile_loop e ss r1 c1 d1 = RnNext r' c' d'"
    by (auto split: reconcile_step.splits)
  then show ?case using routine_reconcile_one routine_trans Cons.IH by metis
qed simp

lemma routine_reconcile: "routine d (snd (reconcile_subscriptions e n d))"
  using routine_reconcile_loop[of e "reconcile_batch n d" reconcile_zero 0 d]
  by (auto simp: reconcile_subscriptions_def breaker_alert_def rollback_def split: reconcile_step.split)

lemma trial_count_map:
  assumes "db_subs d' = List.map g (db_subs d)"
    "\<And>s. s_user_id (g s) = s_user_id s" "\<And>s. s_is_free_trial (g s) = s_is_free_trial s"
  shows "trial_count d' uid = trial_count d uid"
  unfolding trial_count_def count_where_def assms(1)
  by (simp add: filter_map comp_def assms(2,3))

lemma routine_mark_expired: "routine d (snd (mark_expired_subscriptions e d))"
proof (rule routine_subs[OF routine_refl])
  show "trial_count (snd (mark_expired_subscriptions e d)) uid = trial_count d uid" for uid
    by (rule trial_count_map[where g = "\<lambda>s. if sub_overdue e s
          then s\<lparr>s_status := SubExpired, s_updated_at := e_now e\<rparr> else s"])
      (simp_all add: mark_expired_subscriptions_def)
qed simp_all

lemma routine_expire_pending: "routine d (snd (expire_pending_payments e ttl d))"
proof -
  define g where "g = (\<lambda>p. if payment_stale e ttl p then p\<lparr>p_status := PayExpired, p_updated_at := e_now e\<rparr> else p)"
  define d1 where "d1 = d\<lparr>db_payments := List.map g (db_payments d)\<rparr>"
  have keep: "p_id (g p) = p_id p" "p_external_id (g p) = p_external_id p" "paid p \<Longrightarrow> paid (g p)" for p
    by (auto simp: g_def payment_stale_def paid_def)
  have "routine d d1"
  proof (rule routine_payments[OF routine_refl])
    assume ok: "pays_ok d"
    have "pays_ok d1"
      unfolding pays_ok_def
    proof (intro conjI ballI impI)
      show "distinct (List.map p_id (db_payments d1))"
        using ok by (simp add: d1_def comp_def keep pays_ok_def)
      fix p q assume "p \<in> set (db_payments d1)" "q \<in> set (db_payments d1)"
        and e: "p_external_id p \<noteq> None \<and> p_external_id p = p_external_id q"
      then obtain p0 q0 where "p = g p0" "q = g q0" "p0 \<in> set (db_payments d)" "q0 \<in> set (db_payments d)"
        by (auto simp: d1_def)
      moreover from this have "p0 = q0" using e ok unfolding pays_ok_def by (metis keep(2))
      ultimately show "p = q" by simp
    qed
    moreover have "paid_ext d1 x" if px: "paid_ext d x" for x
      using px keep(2,3) unfolding paid_ext_def d1_def by fastforce
    ultimately show "pays_ok d1 \<and> (\<forall>x. paid_ext d x \<longrightarrow> paid_ext d1 x)" by blast
  qed (simp_all add: d1_def)
  moreover have "routine d1 (snd (fail_subscriptions e ids d1))" for ids
  proof (rule routine_subs[OF routine_refl])
    show "trial_count (snd (fail_subscriptions e ids d1)) uid = trial_count d1 uid" for uid
      by (rule trial_count_map[where g = "\<lambda>s. if s_status s = SubPending \<and> s_id s \<in> set ids
            then s\<lparr>s_status := SubFailed, s_updated_at := e_now e\<rparr> else s"])
        (simp_all add: fail_subscriptions_def)
  qed (simp_all add: fail_subscriptions_def)
  moreover have "\<exists>ids. snd (expire_pending_payments e ttl d) = d1
                   \<or> snd (expire_pending_payments e ttl d) = snd (fail_subscriptions e ids d1)"
    by (rule exI[of _ "List.map_filter p_sub_id (filter (payment_stale e ttl) (db_payments d))"])
      (auto simp: expire_pending_payments_def expire_payments_def Let_def d1_def g_def split: prod.split)
  ultimately show ?thesis by (metis routine_trans)
qed

lemma routine_untouched: "untouched d d' \<Longrightarrow> routine d d'"
  by (rule routine_same) (auto simp: untouched_def)

lemma routine_reminders:
  "routine d (snd (snd (notify_expiring e texts d)))"
  "routine d (snd (snd (notify_expired e texts d)))"
  "routine d (snd (snd (notify_trial_expiring e d)))"
  unfolding notify_expiring_def notify_expired_def notify_trial_expiring_def
  by (rule routine_untouched expiring.remind_all_untouched expired.remind_all_untouched
      trial.remind_all_untouched)+

lemma routine_cleanup:
  "routine d (snd (cleanup_idempotency_keys e ttl d))"
  "routine d (snd (cleanup_logs e d))"
  by (rule routine_same; simp add: cleanup_idempotency_keys_def cleanup_logs_def Let_def)+

lemma routine_keys:
  "routine d (snd (login e verify key d))"
  "routine d (snd (rotate_key e hash plain grace kid label d))"
  "routine d (snd (revoke_key e me kid d))"
  "routine d (snd (rotate_with_grace e hash plain label2 grace kid d))"
  by (rule routine_same; simp add: login_def rotate_key_def revoke_key_def rotate_with_grace_def
      rollback_def Let_def add_key_def split: option.split sum.split)+

lemma routine_ban:
  "routine d (snd (ban_user e tg reason d))"
  "routine d (snd (unban_user e tg d))"
  by (auto simp: ban_user_def unban_user_def rollback_def split: option.split intro!: routine_mod_user)

section \<open>The invariants beside the routine ones\<close>

text \<open>Logging in, key rotation, the outbox and the cron jobs do not touch the money.\<close>

lemma reconcile_one_tables:
  assumes "reconcile_one e s r c d = RnNext r' c' d'"
  shows "db_users d' = db_users d \<and> db_bts d' = db_bts d \<and> db_refs d' = db_refs d
       \<and> db_promos d' = db_promos d \<and> db_promo_acts d' = db_promo_acts d"
  using assms
  by (auto simp: reconcile_one_def Let_def deactivate_unknown_def status_drift_def expires_drift_def
      split: if_splits sum.splits option.splits prod.splits)

lemma money_reconcile_loop:
  "reconcile_loop e ss r c d = RnNext r' c' d' \<Longrightarrow> money_ok d' = money_ok d"
proof (induction ss arbitrary: r c d)
  case (Cons s ss)
  then obtain r1 c1 d1 where one: "reconcile_one e s r c d = RnNext r1 c1 d1"
      and rest: "reconcile_loop e ss r1 c1 d1 = RnNext r' c' d'"
    by (auto split: reconcile_step.splits)
  have "money_ok d1 = money_ok d"
    using reconcile_one_tables[OF one] by (intro money_ok_cong) simp_all
  then show ?case using Cons.IH[OF rest] by simp
qed simp

lemma money_alert [simp]: "money_ok (send_admin_alert e a1 a2 a3 a4 d) = money_ok d"
  and money_notif [simp]: "money_ok (ins_notif n d) = money_ok d"
  and money_outbox [simp]: "money_ok (ins_outbox ob d) = money_ok d"
  by (rule money_ok_cong; simp)+

lemma money_reconcile: "money_ok (snd (reconcile_subscriptions e n d)) = money_ok d"
  using money_reconcile_loop[of e "reconcile_batch n d" reconcile_zero 0 d]
  by (auto simp: reconcile_subscriptions_def breaker_alert_def rollback_def split: reconcile_step.split)

lemma money_personal_discount:
  assumes "money_ok d"
  shows "money_ok (snd (issue_personal_discount e uid c pc v ds d))"
proof (rule money_okI)
  let ?d = "snd (issue_personal_discount e uid c pc v ds d)"
  show "ledger_ok ?d" using ledger_cong[of ?d d] money_okD(1)[OF assms] by simp
  show "bonus_ok ?d" using bonus_ok_cong[of ?d d] money_okD(2)[OF assms] by simp
  show "promo_counts_ok ?d" by (rule issue_personal_discount_counts[OF money_okD(3)[OF assms]])
qed

lemma money_trial_reminder: "money_ok d \<Longrightarrow> money_ok (snd (trial_reminder e sid uid d))"
  by (simp add: trial_reminder_def Let_def money_personal_discount)

lemma money_jobs:
  "money_ok (snd (mark_expired_subscriptions e d)) = money_ok d"
  "money_ok (snd (expire_pending_payments e ttl d)) = money_ok d"
  "money_ok (snd (cleanup_idempotency_keys e ttl d)) = money_ok d"
  "money_ok (snd (cleanup_logs e d)) = money_ok d"
  "money_ok (snd (fetch_pending e n locked d)) = money_ok d"
  "money_ok (snd (mark_sent e i tg d)) = money_ok d"
  "money_ok (snd (mark_failed e i m d)) = money_ok d"
  "money_ok (snd (login e verify key d)) = money_ok d"
  "money_ok (snd (rotate_key e hash plain grace kid label d)) = money_ok d"
  "money_ok (snd (revoke_key e me kid d)) = money_ok d"
  "money_ok (snd (rotate_with_grace e hash plain label2 grace kid d)) = money_ok d"
  by (rule money_ok_cong; simp add: cleanup_idempotency_keys_def cleanup_logs_def fetch_pending_def
      mark_sent_def mark_failed_def login_def rotate_key_def revoke_key_def rotate_with_grace_def
      rollback_def add_key_def Let_def split: option.split sum.split)+

lemma money_reminders:
  "money_ok d \<Longrightarrow> money_ok (snd (snd (notify_expiring e texts d)))"
  "money_ok d \<Longrightarrow> money_ok (snd (snd (notify_expired e texts d)))"
  "money_ok d \<Longrightarrow> money_ok (snd (snd (notify_trial_expiring e d)))"
  unfolding notify_expiring_def notify_expired_def notify_trial_expiring_def
  by (rule expiring.remind_preserves expired.remind_preserves trial.remind_preserves;
      simp add: money_trial_reminder)+

lemma money_tickets:
  "money_ok (snd (open_ticket e rnd uid kind d)) = money_ok d"
  "money_ok (snd (close_ticket e i who tg d)) = money_ok d"
  "money_ok (snd (record_message e i dir ty tx ph st tg d)) = money_ok d"
  "money_ok (snd (set_ticket_thread e i th d)) = money_ok d"
  "money_ok (snd (save_support_topic e uid th name d)) = money_ok d"
  by (rule money_ok_cong; simp add: open_ticket_def close_ticket_def record_message_def
      set_ticket_thread_def save_support_topic_def Let_def split: option.split sum.split)+

section \<open>Operations that are not routine\<close>

lemma register_frame:
  "db_tickets (snd (register_start e tg pf ref payload d)) = db_tickets d"
  "db_subs (snd (register_start e tg pf ref payload d)) = db_subs d"
  "db_payments (snd (register_start e tg pf ref payload d)) = db_payments d"
  by (auto simp: register_start_def upsert_user_def rollback_def
      split: option.split prod.split sum.split)

lemma trial_frame:
  "db_tickets (snd (activate_free_trial e u d)) = db_tickets d"
  "db_users (snd (activate_free_trial e u d)) = db_users d"
  "db_payments (snd (activate_free_trial e u d)) = db_payments d"
  by (auto simp: activate_free_trial_def Let_def split: list.split sum.split)

lemma one_trial_count: "one_trial d \<longleftrightarrow> (\<forall>uid. trial_count d uid \<le> 1)"
  by (simp add: one_trial_def trial_count_def)

lemma trial_one_trial:
  assumes "one_trial d"
  shows "one_trial (snd (activate_free_trial e u d))"
proof (cases "has_free_trial d (u_id u)")
  case True
  then show ?thesis using assms by (simp add: activate_free_trial_def)
next
  case False
  then show ?thesis
    using assms no_trial_count[OF False] by (simp add: one_trial_count activate_trial_count)
qed

lemma ticket_ops_frame:
  "db_users (snd (open_ticket e rnd uid kind d)) = db_users d"
  "db_subs (snd (open_ticket e rnd uid kind d)) = db_subs d"
  "db_payments (snd (open_ticket e rnd uid kind d)) = db_payments d"
  "db_users (snd (close_ticket e i who tg d)) = db_users d"
  "db_subs (snd (close_ticket e i who tg d)) = db_subs d"
  "db_payments (snd (close_ticket e i who tg d)) = db_payments d"
  "db_users (snd (record_message e i dir ty tx ph st tg d)) = db_users d"
  "db_subs (snd (record_message e i dir ty tx ph st tg d)) = db_subs d"
  "db_payments (snd (record_message e i dir ty tx ph st tg d)) = db_payments d"
  "db_users (snd (set_ticket_thread e i th d)) = db_users d"
  "db_subs (snd (set_ticket_thread e i th d)) = db_subs d"
  "db_payments (snd (set_ticket_thread e i th d)) = db_payments d"
  by (auto simp: open_ticket_def close_ticket_def record_message_def set_ticket_thread_def Let_def
      split: option.split sum.split)

lemma routine_topic: "routine d (snd (save_support_topic e uid th name d))"
  by (rule routine_same; simp add: save_support_topic_def split: option.split)

section \<open>The steps of the system\<close>

inductive step :: "db \<Rightarrow> db \<Rightarrow> bool" where
  s_register: "step d (snd (register_start e tg pf ref payload d))"
| s_ban: "step d (snd (ban_user e tg reason d))"
| s_unban: "step d (snd (unban_user e tg d))"
| s_promo: "step d (snd (validate_and_apply e code uid d))"
| s_purchase: "step d (snd (purchase_with_balance e uid tid did pid d))"
| s_subscription: "step d (snd (create_subscription_payment e uid tid did provider pid d))"
| s_topup: "step d (snd (create_topup_payment e uid amount provider d))"
| s_extension: "step d (snd (create_extension_payment e sid did uid provider code d))"
| s_platega: "step d (snd (platega_webhook e shop key mid sec preview parsed d))"
| s_cryptobot: "step d (snd (cryptobot_webhook e hmac token sig preview parsed d))"
| s_trial: "step d (snd (activate_free_trial e u d))"
| s_adjust: "step d (snd (add_admin_adjust e uid amount rs kid label d))"
| s_open: "step d (snd (open_ticket e rnd uid kind d))"
| s_close: "step d (snd (close_ticket e i who otg d))"
| s_message: "step d (snd (record_message e i dir ty tx ph stk otg d))"
| s_thread: "step d (snd (set_ticket_thread e i th d))"
| s_topic: "step d (snd (save_support_topic e uid th name d))"
| s_claim: "step d (snd (fetch_pending e n locked d))"
| s_sent: "step d (snd (mark_sent e i otg d))"
| s_failed: "step d (snd (mark_failed e i m d))"
| s_reconcile: "step d (snd (reconcile_subscriptions e n d))"
| s_expire_subs: "step d (snd (mark_expired_subscriptions e d))"
| s_expire_pays: "step d (snd (expire_pending_payments e ttl d))"
| s_expiring: "step d (snd (snd (notify_expiring e texts d)))"
| s_expired: "step d (snd (snd (notify_expired e texts d)))"
| s_trial_expiring: "step d (snd (snd (notify_trial_expiring e d)))"
| s_clean_keys: "step d (snd (cleanup_idempotency_keys e ttl d))"
| s_clean_logs: "step d (snd (cleanup_logs e d))"
| s_login: "step d (snd (login e verify key d))"
| s_rotate: "step d (snd (rotate_key e hash plain grace kid olabel d))"
| s_grace: "step d (snd (rotate_with_grace e hash plain label grace kid d))"
| s_revoke: "step d (snd (revoke_key e me kid d))"

text \<open>The start: a catalogue and promo codes nobody has used, and nothing else.\<close>

definition initial :: "db \<Rightarrow> bool" where
  "initial d \<longleftrightarrow>
     db_users d = [] \<and> db_subs d = [] \<and> db_payments d = [] \<and> db_bts d = [] \<and> db_refs d = []
   \<and> db_tickets d = [] \<and> db_promo_acts d = []
   \<and> distinct (List.map pc_id (db_promos d)) \<and> list_all (\<lambda>p. pc_current p = 0) (db_promos d)"

definition service_ok :: "db \<Rightarrow> bool" where
  "service_ok d \<longleftrightarrow> money_ok d \<and> tickets_ok d \<and> users_ok d \<and> one_trial d \<and> pays_ok d"

lemma routine_service:
  assumes "routine d d'" "money_ok d \<Longrightarrow> money_ok d'" "service_ok d"
  shows "service_ok d'"
proof -
  have ids: "List.map (\<lambda>u. (u_id u, u_tg_id u)) (db_users d') = List.map (\<lambda>u. (u_id u, u_tg_id u)) (db_users d)"
    using assms(1) by (simp add: routine_def)
  have "List.map u_tg_id (db_users d') = List.map u_tg_id (db_users d)"
    using arg_cong[OF ids, of "List.map snd"] by (simp add: comp_def)
  then have "users_ok d'" using assms(3) by (simp add: service_ok_def users_ok_def)
  moreover have "tickets_ok d'" "one_trial d'" "pays_ok d'"
    using assms(1,3) tickets_ok_cong[of d' d] by (simp_all add: service_ok_def routine_def one_trial_count)
  ultimately show ?thesis using assms(2,3) by (simp add: service_ok_def)
qed

lemma service_register:
  assumes "service_ok d"
  shows "service_ok (snd (register_start e tg pf ref payload d))"
  using assms register_start_money register_start_users_ok pays_cong[OF register_frame(3)]
    tickets_ok_cong[OF register_frame(1)] trial_count_cong[OF register_frame(2)]
  by (simp add: service_ok_def one_trial_count)

lemma service_trial:
  assumes "service_ok d"
  shows "service_ok (snd (activate_free_trial e u d))"
  using assms activate_free_trial_keeps trial_one_trial pays_cong[OF trial_frame(3)]
    tickets_ok_cong[OF trial_frame(1)] users_ok_cong[OF trial_frame(2)]
  by (simp add: service_ok_def money_ok_def)

lemma service_tickets:
  assumes "service_ok d"
  shows "service_ok (snd (open_ticket e rnd uid kind d))"
    "service_ok (snd (close_ticket e i who tg d))"
    "service_ok (snd (record_message e i dir ty tx ph st tg d))"
    "service_ok (snd (set_ticket_thread e i th d))"
  using assms
  by (simp_all add: service_ok_def money_tickets open_ticket_ok close_ticket_ok record_message_ok
      set_ticket_thread_ok users_ok_cong[OF ticket_ops_frame(1)] users_ok_cong[OF ticket_ops_frame(4)]
      users_ok_cong[OF ticket_ops_frame(7)] users_ok_cong[OF ticket_ops_frame(10)]
      one_trial_count trial_count_cong[OF ticket_ops_frame(2)] trial_count_cong[OF ticket_ops_frame(5)]
      trial_count_cong[OF ticket_ops_frame(8)] trial_count_cong[OF ticket_ops_frame(11)]
      pays_cong[OF ticket_ops_frame(3)] pays_cong[OF ticket_ops_frame(6)]
      pays_cong[OF ticket_ops_frame(9)] pays_cong[OF ticket_ops_frame(12)])

lemma purchase_money: "money_ok d \<Longrightarrow> money_ok (snd (purchase_with_balance e uid tid did pid d))"
  by (simp add: money_ok_def purchase_ledger purchase_bonus purchase_counts)

lemma adjust_money: "money_ok d \<Longrightarrow> money_ok (snd (add_admin_adjust e uid a rs k l d))"
  using promo_counts_frame[of d "snd (add_admin_adjust e uid a rs k l d)"]
  by (simp add: money_ok_def admin_adjust_ledger admin_adjust_bonus)

lemma step_service: "step d d' \<Longrightarrow> service_ok d \<Longrightarrow> service_ok d'"
proof (induction rule: step.induct)
  case (s_purchase d e uid tid did pid)
  then show ?case
    by (intro routine_service[OF routine_purchase])
      (simp_all add: purchase_money)
next
  case (s_adjust d e uid amount rs kid label)
  then show ?case
    by (intro routine_service[OF routine_adjust])
      (simp_all add: adjust_money)
qed (rule service_register service_trial service_tickets
      routine_service[OF routine_ban(1)] routine_service[OF routine_ban(2)]
      routine_service[OF routine_promo] routine_service[OF routine_subscription]
      routine_service[OF routine_topup] routine_service[OF routine_create_extension]
      routine_service[OF routine_platega] routine_service[OF routine_cryptobot]
      routine_service[OF routine_topic] routine_service[OF routine_outbox(1)]
      routine_service[OF routine_outbox(2)] routine_service[OF routine_outbox(3)]
      routine_service[OF routine_reconcile] routine_service[OF routine_mark_expired]
      routine_service[OF routine_expire_pending] routine_service[OF routine_reminders(1)]
      routine_service[OF routine_reminders(2)] routine_service[OF routine_reminders(3)]
      routine_service[OF routine_cleanup(1)] routine_service[OF routine_cleanup(2)]
      routine_service[OF routine_keys(1)] routine_service[OF routine_keys(2)]
      routine_service[OF routine_keys(3)] routine_service[OF routine_keys(4)];
     simp add: ban_money unban_money validate_and_apply_money create_subscription_payment_money
      create_topup_payment_money create_extension_money platega_webhook_money cryptobot_webhook_money
      money_tickets money_jobs money_reconcile money_reminders)+

section \<open>Reachable databases\<close>

locale transition_system =
  fixes start :: "'s \<Rightarrow> bool" and move :: "'s \<Rightarrow> 's \<Rightarrow> bool" and I :: "'s \<Rightarrow> bool"
  assumes base: "start s \<Longrightarrow> I s"
    and keep: "move s s' \<Longrightarrow> I s \<Longrightarrow> I s'"
begin

lemma run_keeps: "move\<^sup>*\<^sup>* s s' \<Longrightarrow> I s \<Longrightarrow> I s'"
  by (induction rule: rtranclp_induct) (auto intro: keep)

lemma reachable: "start s \<Longrightarrow> move\<^sup>*\<^sup>* s s' \<Longrightarrow> I s'"
  by (rule run_keeps[OF _ base])

text \<open>A property single moves never lose under the invariant is never lost.\<close>

lemma run_stable:
  assumes "\<And>s s'. move s s' \<Longrightarrow> I s \<Longrightarrow> Q s \<Longrightarrow> Q s'"
  shows "move\<^sup>*\<^sup>* s s' \<Longrightarrow> I s \<Longrightarrow> Q s \<Longrightarrow> I s' \<and> Q s'"
  by (induction rule: rtranclp_induct) (auto intro: keep assms)

end

lemma initial_service: "initial d \<Longrightarrow> service_ok d"
  by (auto simp: initial_def service_ok_def money_ok_def ledger_ok_def bt_chain_def bonus_ok_def
      promo_counts_ok_def total_activations_def tickets_ok_def open_count_def users_ok_def
      one_trial_def pays_ok_def list_all_iff)

interpretation service: transition_system initial step service_ok
  by unfold_locales (blast intro: initial_service step_service)+

lemma step_routine: "step d d' \<Longrightarrow> routine d d' \<or> db_payments d' = db_payments d"
proof (induction rule: step.induct)
qed ((rule disjI1, rule routine_ban routine_promo routine_subscription routine_topup
      routine_create_extension routine_platega routine_cryptobot routine_topic routine_outbox
      routine_reconcile routine_mark_expired routine_expire_pending routine_reminders
      routine_cleanup routine_keys routine_purchase routine_adjust)
    | (rule disjI2, rule register_frame trial_frame ticket_ops_frame))+

lemma step_paid_ext: "step d d' \<Longrightarrow> service_ok d \<Longrightarrow> paid_ext d x \<Longrightarrow> paid_ext d' x"
  using step_routine[of d d'] pays_cong[of d' d] by (auto simp: routine_def service_ok_def)

lemma settled_paid_ext:
  assumes "pays_ok d"
  shows "settled d x \<longleftrightarrow> paid_ext d x"
proof
  assume "settled d x"
  then show "paid_ext d x"
    using payment_by_external_mem by (fastforce simp: settled_def paid_ext_def paid_def split: option.splits)
next
  assume "paid_ext d x"
  then obtain p where p: "p \<in> set (db_payments d)" "p_external_id p = Some x" "paid p"
    by (auto simp: paid_ext_def)
  then obtain q where q: "payment_by_external d x = Some q"
    by (cases "payment_by_external d x") (auto simp: payment_by_external_def find_None_iff)
  have "q = p"
    using payment_by_external_mem[OF q] p assms unfolding pays_ok_def by (metis option.distinct(1))
  then show "settled d x" using q p(3) by (simp add: settled_def paid_def)
qed

lemma run_settled:
  assumes "step\<^sup>*\<^sup>* d d'" "service_ok d" "settled d x"
  shows "settled d' x"
proof -
  have "paid_ext d x" using assms(2,3) settled_paid_ext by (simp add: service_ok_def)
  then have "service_ok d' \<and> paid_ext d' x"
    using service.run_stable[where Q = "\<lambda>d. paid_ext d x", OF step_paid_ext assms(1,2)] by simp
  then show ?thesis
    using settled_paid_ext by (simp add: service_ok_def)
qed

end
