(* ===== verification/Scenarios.thy ===== *)
theory Scenarios
  imports System
begin

text \<open>
  The operations at the concrete database of \<open>Fixtures\<close>: which branch they take
  when the providers answer, refuse or send rubbish.  The witnesses of the
  properties discharge their hypotheses with these facts.
\<close>

lemma fx_user_sel [simp]:
  "u_id (fx_user i tg b) = i" "u_tg_id (fx_user i tg b) = tg" "u_balance (fx_user i tg b) = b"
  "u_is_banned (fx_user i tg b) = False"
  by (simp_all add: fx_user_def)

lemma fx_catalogue_sel [simp]:
  "t_id fx_tariff = 1" "t_code fx_tariff = ''basic''" "t_devices fx_tariff = 2"
  "t_is_active fx_tariff" "\<not> t_is_free_trial fx_tariff" "t_unlimited fx_tariff" "t_lte_gb fx_tariff = 35"
  "td_id fx_duration = 1" "td_tariff_id fx_duration = 1" "td_days fx_duration = 30"
  "td_price fx_duration = 19900" "td_is_active fx_duration"
  by (simp_all add: fx_tariff_def fx_duration_def)

lemma fx_sub_sel [simp]:
  "s_id (fx_sub i u x) = i" "s_user_id (fx_sub i u x) = u" "s_tariff_id (fx_sub i u x) = 1"
  "s_status (fx_sub i u x) = SubActive" "s_expires_at (fx_sub i u x) = Some x"
  "s_provider_id (fx_sub i u x) = Some ''nl-1''" "s_days (fx_sub i u x) = 30"
  "s_key_url (fx_sub i u x) = Some ''https://k/1''" "\<not> s_is_free_trial (fx_sub i u x)"
  "s_devices (fx_sub i u x) = 2"
  by (simp_all add: fx_sub_def)

lemma fx_payment_sel [simp]:
  "p_id (fx_payment i u s pu a m) = i" "p_user_id (fx_payment i u s pu a m) = u"
  "p_sub_id (fx_payment i u s pu a m) = s" "p_purpose (fx_payment i u s pu a m) = pu"
  "p_amount (fx_payment i u s pu a m) = a" "p_meta (fx_payment i u s pu a m) = Some m"
  "p_status (fx_payment i u s pu a m) = PayPending"
  "p_external_id (fx_payment i u s pu a m) = Some (''ext-'' @ py_str i)"
  by (simp_all add: fx_payment_def)

lemma fx_promo_sel [simp]:
  "pc_id (fx_promo i c ty v) = i" "pc_code (fx_promo i c ty v) = c" "pc_type (fx_promo i c ty v) = ty"
  "pc_value (fx_promo i c ty v) = v" "pc_max_total (fx_promo i c ty v) = Some 1"
  "pc_max_per_user (fx_promo i c ty v) = 1" "pc_current (fx_promo i c ty v) = 0"
  "pc_user_id (fx_promo i c ty v) = None" "pc_is_active (fx_promo i c ty v)"
  "pc_valid_from (fx_promo i c ty v) = None" "pc_valid_until (fx_promo i c ty v) = None"
  by (simp_all add: fx_promo_def)

lemma fx_next [simp]:
  "next_sub fx_db = 2" "next_payment fx_db = 3"
  by (simp_all add: next_sub_def next_payment_def fresh_id_def fx_defs)

section \<open>A purchase\<close>

definition fx_purchase :: purchase where
  "fx_purchase = \<lparr>pu_sub_id = 2, pu_payment_id = 3, pu_price = 19900, pu_balance_after = 30100,
                  pu_tariff = fx_tariff, pu_duration = fx_duration, pu_user = fx_user 2 102 50000\<rparr>"

lemma fx_purchase_sel [simp]:
  "pu_sub_id fx_purchase = 2" "pu_payment_id fx_purchase = 3" "pu_price fx_purchase = 19900"
  "pu_balance_after fx_purchase = 30100" "pu_tariff fx_purchase = fx_tariff"
  "pu_duration fx_purchase = fx_duration" "pu_user fx_purchase = fx_user 2 102 50000"
  by (simp_all add: fx_purchase_def)

lemma fx_debit [simp]:
  "fst (purchase_debit (fx_env n st j) 2 1 1 None fx_db) = Inr fx_purchase"
  by (simp add: purchase_debit_def get_tariff_or_raise_def get_duration_or_raise_def
      fx_get lock_user_def fx_purchase_def discount_lookup_def Let_def)

text \<open>What the provider's client makes of a constant answer.\<close>

lemma fx_request:
  "nl_request (fx_env n 200 j) m p b = Inr j"
  "nl_request (fx_env n 409 (JObj [])) m p b = Inl (nl_client_error 409 (Some (JObj [])))"
  "nl_request (fx_env n 503 j) m p b =
     Inl (nl_unavailable ''NorthLine server error'' [(''status_code'', JInt 503)])"
  by (simp_all add: nl_request_def nl_request_n_def nl_max_attempts_def nl_attempts.simps
      nl_do_call_def numeral_2_eq_2)

lemma fx_datetime [simp]: "e_datetime (fx_env n st j) (JInt i) = Some i"
  by (simp add: fx_env_def)

definition fx_key :: key_response where
  "fx_key = \<lparr>kr_subscription_id = ''nl-7'', kr_key = ''https://k/7'', kr_expires_at = 0,
             kr_devices = 2, kr_days = 30\<rparr>"

lemma fx_parse [simp]:
  "parse_key_response (fx_env n st j) fx_answer = Inr fx_key"
  "parse_key_response (fx_env n st j) (JObj []) = Inl pydantic_error"
  by (simp_all add: parse_key_response_def req_def jfield_def fx_answer_def as_str_def as_int_def
      fx_key_def)

lemma fx_purchase_key [simp]:
  "purchase_key (fx_env n 200 fx_answer) pu = Inr fx_key"
  "purchase_key (fx_env n 200 (JObj [])) pu = Inl pydantic_error"
  "purchase_key (fx_env n 503 j) pu =
     Inl (nl_unavailable ''NorthLine server error'' [(''status_code'', JInt 503)])"
  by (simp_all add: purchase_key_def create_key_def fx_request)

lemma fx_exns [simp]:
  "is_northline_exn (nl_unavailable m ds)" "\<not> is_northline_exn pydantic_error"
  by (simp_all add: nl_unavailable_def pydantic_error_def is_northline_exn_def mk_error_def)

end
