(* ===== verification/BillingTheorems.thy ===== *)
theory BillingTheorems
  imports Scenarios
begin

text \<open>
  The properties of the money paths: purchases from the balance, gateway payments
  and their webhooks, extensions, promo codes and the referral bonus.
\<close>

section \<open>Purchases\<close>

lemma purchase_debit_no_provider:
  "fst (purchase_debit e uid tid did i d) = Inl x \<Longrightarrow> \<not> is_northline_exn x"
  by (auto simp: purchase_debit_def Let_def get_tariff_or_raise_def get_duration_or_raise_def
      lock_user_def insufficient_def mk_error_def is_northline_exn_def
      split: sum.splits prod.splits if_splits option.splits)

lemma purchase_provider_failed:
  assumes "fst (purchase_debit e uid tid did i d) = Inr pu" "purchase_key e pu = Inl x"
    "is_northline_exn x"
  shows "purchase_with_balance e uid tid did i d =
    (Inl (mk_error NorthLineUnavailableError
            (Some ''Could not issue key after balance debit; refunded'') None
            [(''subscription_id'', JInt (pu_sub_id pu)), (''refund_kopecks'', JInt (pu_price pu))]),
     refund_after_failure e pu x (snd (purchase_debit e uid tid did i d)))"
  using assms
  by (cases "purchase_debit e uid tid did i d") (simp add: purchase_with_balance_def)

lemma purchase_other_failure:
  assumes "fst (purchase_debit e uid tid did i d) = Inr pu" "purchase_key e pu = Inl x"
    "\<not> is_northline_exn x"
  shows "purchase_with_balance e uid tid did i d = (Inl x, snd (purchase_debit e uid tid did i d))"
  using assms
  by (cases "purchase_debit e uid tid did i d") (simp add: purchase_with_balance_def)

lemma purchase_key_issued:
  assumes "fst (purchase_debit e uid tid did i d) = Inr pu" "purchase_key e pu = Inr kr"
  shows "purchase_with_balance e uid tid did i d =
    (Inr (pu_sub_id pu, pu_balance_after pu, pu_payment_id pu),
     purchase_activate e pu kr (snd (purchase_debit e uid tid did i d)))"
  using assms
  by (cases "purchase_debit e uid tid did i d") (simp add: purchase_with_balance_def)

text \<open>The state a refunded purchase leaves behind, read through the accessors.\<close>

lemma refunded_state:
  assumes pu: "fst (purchase_debit e uid tid did i d) = Inr pu"
    and d': "d' = refund_after_failure e pu x (snd (purchase_debit e uid tid did i d))"
  shows "balance_of d' k = balance_of d k" "ledger_sum d' k = ledger_sum d k"
    "map_option s_status (get_sub d' (next_sub d)) = Some SubFailed"
    "map_option p_status (get_payment d' (next_payment d)) = Some PayRefunded"
    "count_where (\<lambda>b. bt_user_id b = uid) (db_bts d') = count_where (\<lambda>b. bt_user_id b = uid) (db_bts d) + 2"
proof -
  let ?d1 = "snd (purchase_debit e uid tid did i d)"
  note inv = purchase_debit_inv[OF pu] and eff = purchase_debit_effect[OF pu refl]
  have uid: "u_id (pu_user pu) = uid" using get_user_SomeD[OF inv(3)] by simp
  define u1 where "u1 = touch_user (e_now e) (\<lambda>r. r\<lparr>u_balance := pu_balance_after pu\<rparr>) (pu_user pu)"
  have g1: "get_user ?d1 k = get_user (set_balance e uid (pu_balance_after pu) d) k" for k
    by (simp add: get_user_def eff(1))
  have u1: "get_user ?d1 (u_id (pu_user pu)) = Some u1"
    by (simp add: g1 uid inv(3) u1_def)
  have bal1: "u_balance u1 = u_balance (pu_user pu) - pu_price pu"
    by (simp add: u1_def inv(6))
  note ref = refund_effect[OF u1, of e x]
  have g2: "balance_of d' k = balance_of (set_balance e uid (u_balance u1 + pu_price pu) ?d1) k"
    by (simp add: balance_of_def get_user_def d' ref(1) uid)
  have b1: "balance_of ?d1 k = (if k = uid then Some (pu_balance_after pu) else balance_of d k)" for k
    by (simp add: balance_of_def g1 inv(3))
  show "balance_of d' k = balance_of d k"
    using u1 by (simp add: g2 b1 bal1 uid) (simp add: balance_of_def inv(3))
  obtain b where b: "db_bts ?d1 = db_bts d @ [b]" "bt_user_id b = uid" "bt_amount b = - pu_price pu"
    using eff(6) by blast
  obtain c where c: "db_bts d' = db_bts ?d1 @ [c]" "bt_user_id c = uid" "bt_amount c = pu_price pu"
    using ref(2) uid unfolding d' by metis
  have "ledger_sum d' k = ledger_sum ?d1 k + (if k = uid then pu_price pu else 0)"
    by (simp add: ledger_sum_def c)
  moreover have "ledger_sum ?d1 k = ledger_sum d k - (if k = uid then pu_price pu else 0)"
    by (simp add: ledger_sum_def b)
  ultimately show "ledger_sum d' k = ledger_sum d k" by simp
  show "count_where (\<lambda>b. bt_user_id b = uid) (db_bts d') = count_where (\<lambda>b. bt_user_id b = uid) (db_bts d) + 2"
    by (simp add: c(1,2)) (simp add: b)
  show "map_option s_status (get_sub d' (next_sub d)) = Some SubFailed"
    unfolding d' ref(3) using inv(7) eff(4)[of "next_sub d"] by simp
  show "map_option p_status (get_payment d' (next_payment d)) = Some PayRefunded"
    unfolding d' ref(4) using inv(8) eff(5)[of "next_payment d"] by simp
qed

text \<open>C9: A purchase from the balance whose key the provider refuses or fails to issue is
  compensated completely: every balance and every ledger total is what it was, the two
  movements are on record, the subscription is failed and the payment refunded.\<close>

theorem purchase_refund_restores:
  assumes "fst (purchase_with_balance e uid tid did i d) = Inl x"
    and "exn_class x = Some NorthLineUnavailableError"
    and "d' = snd (purchase_with_balance e uid tid did i d)"
  shows "balance_of d' k = balance_of d k \<and> ledger_sum d' k = ledger_sum d k
    \<and> map_option s_status (get_sub d' (next_sub d)) = Some SubFailed
    \<and> map_option p_status (get_payment d' (next_payment d)) = Some PayRefunded
    \<and> count_where (\<lambda>b. bt_user_id b = uid) (db_bts d')
        = count_where (\<lambda>b. bt_user_id b = uid) (db_bts d) + 2"
proof (rule purchase_cases[of e uid tid did i d])
  fix y assume "purchase_with_balance e uid tid did i d = (Inl y, d)"
    "fst (purchase_debit e uid tid did i d) = Inl y"
  then show ?thesis
    using assms(1,2) purchase_debit_no_provider by (fastforce simp: is_northline_exn_def)
next
  fix pu y
  assume "fst (purchase_debit e uid tid did i d) = Inr pu"
    and "snd (purchase_with_balance e uid tid did i d)
         = refund_after_failure e pu y (snd (purchase_debit e uid tid did i d))"
  with refunded_state[OF this(1)] show ?thesis using assms(3) by simp
qed (use assms in \<open>auto simp: is_northline_exn_def\<close>)

lemma fx_purchase_refunded:
  "purchase_with_balance (fx_env 0 503 JNull) 2 1 1 None fx_db =
     (Inl (mk_error NorthLineUnavailableError (Some ''Could not issue key after balance debit; refunded'')
            None [(''subscription_id'', JInt 2), (''refund_kopecks'', JInt 19900)]),
      snd (purchase_with_balance (fx_env 0 503 JNull) 2 1 1 None fx_db))"
  using purchase_provider_failed[OF fx_debit fx_purchase_key(3) fx_exns(1)] by simp

theorem purchase_refund_restores_witness:
  "balance_of (snd (purchase_with_balance (fx_env 0 503 JNull) 2 1 1 None fx_db)) 2 = Some 50000"
  using purchase_refund_restores[OF arg_cong[OF fx_purchase_refunded, of fst, unfolded fst_conv] _ refl, of 2]
  by (simp add: mk_error_def balance_of_def)

lemma activated_sub:
  assumes "get_sub d (pu_sub_id pu) = Some s"
  shows "get_sub (purchase_activate e pu kr d) (pu_sub_id pu) =
    Some (touch_sub (e_now e)
      (\<lambda>s. s\<lparr>s_status := SubActive, s_provider_id := Some (kr_subscription_id kr),
             s_key_url := Some (kr_key kr), s_started_at := Some (e_now e),
             s_expires_at := Some (e_now e + days_of (td_days (pu_duration pu)))\<rparr>) s)"
  using assms by (simp add: purchase_activate_def Let_def)

text \<open>C10: A purchase that returns has taken exactly the (discounted) price of the duration off
  the buyer's balance, which covered it, and left an active subscription that runs for the
  bought days from now with the provider's key, and a paid payment over that price.\<close>

theorem purchase_activates:
  assumes "fst (purchase_with_balance e uid tid did i d) = Inr (sid, after, pid)"
    and "d' = snd (purchase_with_balance e uid tid did i d)"
  shows "\<exists>u td price s p.
      get_user d uid = Some u \<and> get_duration_or_raise d tid did = Inr td
    \<and> price = fst (discount_lookup d i (td_price td))
    \<and> price \<le> u_balance u \<and> after = u_balance u - price
    \<and> balance_of d' uid = Some after \<and> ledger_sum d' uid = ledger_sum d uid - price
    \<and> get_sub d' sid = Some s \<and> s_user_id s = uid \<and> s_status s = SubActive
    \<and> s_expires_at s = Some (e_now e + days_of (td_days td)) \<and> s_key_url s \<noteq> None
    \<and> get_payment d' pid = Some p \<and> p_status p = PayPaid \<and> p_amount p = price
    \<and> p_sub_id p = Some sid"
proof (rule purchase_cases[of e uid tid did i d])
  fix pu kr
  assume pu: "fst (purchase_debit e uid tid did i d) = Inr pu"
    and w: "purchase_with_balance e uid tid did i d =
         (Inr (pu_sub_id pu, pu_balance_after pu, pu_payment_id pu),
          purchase_activate e pu kr (snd (purchase_debit e uid tid did i d)))"
  let ?d1 = "snd (purchase_debit e uid tid did i d)"
  note inv = purchase_debit_inv[OF pu] and eff = purchase_debit_effect[OF pu refl]
  have r: "sid = pu_sub_id pu" "after = pu_balance_after pu" "pid = pu_payment_id pu"
    and d': "d' = purchase_activate e pu kr ?d1"
    using assms w by simp_all
  have s0: "get_sub ?d1 sid = Some \<lparr>s_id = sid, s_user_id = uid, s_tariff_id = t_id (pu_tariff pu),
      s_duration_id = Some (td_id (pu_duration pu)), s_provider_id = None, s_key_url = None,
      s_devices = t_devices (pu_tariff pu), s_days = td_days (pu_duration pu),
      s_status = SubPending, s_started_at = None, s_expires_at = None, s_deactivated_at = None,
      s_deactivation_reason = None, s_is_free_trial = False, s_created_at = e_now e,
      s_updated_at = e_now e\<rparr>"
    using eff(4)[of sid] by (simp add: r inv(7) create_sub_def)
  obtain s where s: "get_sub d' sid = Some s" "s_user_id s = uid" "s_status s = SubActive"
      "s_expires_at s = Some (e_now e + days_of (td_days (pu_duration pu)))" "s_key_url s \<noteq> None"
    using activated_sub[OF s0[unfolded r(1)], of e kr] by (simp add: d' r(1) touch_sub_def)
  have p0: "map_option (\<lambda>p. (p_status p, p_amount p, p_sub_id p)) (get_payment ?d1 pid)
      = Some (PayPaid, pu_price pu, Some sid)"
    using eff(5)[of pid] by (simp add: r inv(8) create_payment_def)
  have "get_payment d' pid = get_payment ?d1 pid"
    by (simp add: d' get_payment_def)
  then obtain p where p: "get_payment d' pid = Some p" "p_status p = PayPaid" "p_amount p = pu_price pu"
      "p_sub_id p = Some sid"
    using p0 by auto
  obtain b where b: "db_bts ?d1 = db_bts d @ [b]" "bt_user_id b = uid" "bt_amount b = - pu_price pu"
    using eff(6) by blast
  have "balance_of d' uid = Some after"
    using inv(3) balance_of_set[of e uid "pu_balance_after pu" d uid]
    by (simp add: d' r(2) balance_of_def get_user_def eff(1))
  moreover have "ledger_sum d' uid = ledger_sum d uid - pu_price pu"
    by (simp add: d' ledger_sum_def b)
  ultimately show ?thesis
    using inv s p r(2) by (intro exI[of _ "pu_user pu"] exI[of _ "pu_duration pu"]) auto
qed (use assms in auto)

lemma fx_purchase_ok:
  "fst (purchase_with_balance (fx_env 0 200 fx_answer) 2 1 1 None fx_db) = Inr (2, 30100, 3)"
  using purchase_key_issued[OF fx_debit fx_purchase_key(1)] by simp

theorem purchase_activates_witness:
  "balance_of (snd (purchase_with_balance (fx_env 0 200 fx_answer) 2 1 1 None fx_db)) 2 = Some 30100"
  using purchase_activates[OF fx_purchase_ok refl] by auto

text \<open>A key answer with a success status that does not have the announced shape raises
  after the debit was committed and nothing compensates it: the price is gone, the
  subscription stays pending, the payment counts as paid and no refund is recorded.\<close>

theorem purchase_malformed_answer_keeps_debit:
  assumes "fst (purchase_debit e uid tid did i d) = Inr pu"
    and "purchase_key e pu = Inl x" and "\<not> is_northline_exn x"
    and "d' = snd (purchase_with_balance e uid tid did i d)"
  shows "fst (purchase_with_balance e uid tid did i d) = Inl x
    \<and> balance_of d' uid = Some (u_balance (pu_user pu) - pu_price pu)
    \<and> map_option s_status (get_sub d' (pu_sub_id pu)) = Some SubPending
    \<and> map_option p_status (get_payment d' (pu_payment_id pu)) = Some PayPaid
    \<and> count_where (\<lambda>b. bt_reason b = BtRefund) (db_bts d')
        = count_where (\<lambda>b. bt_reason b = BtRefund) (db_bts d)"
proof -
  let ?d1 = "snd (purchase_debit e uid tid did i d)"
  note inv = purchase_debit_inv[OF assms(1)] and eff = purchase_debit_effect[OF assms(1) refl]
  have w: "purchase_with_balance e uid tid did i d = (Inl x, ?d1)"
    by (rule purchase_other_failure[OF assms(1-3)])
  have bal: "balance_of ?d1 uid = Some (pu_balance_after pu)"
    using inv(3) balance_of_set[of e uid "pu_balance_after pu" d uid]
    by (simp add: balance_of_def get_user_def eff(1))
  obtain b where b: "db_bts ?d1 = db_bts d @ [b]" "bt_reason b = BtPurchase" using eff(6) by blast
  show ?thesis
    using bal inv eff(4)[of "next_sub d"] eff(5)[of "next_payment d"]
    by (simp add: w assms(4) b create_sub_def create_payment_def)
qed

theorem purchase_malformed_answer_keeps_debit_witness:
  "balance_of (snd (purchase_with_balance (fx_env 0 200 (JObj [])) 2 1 1 None fx_db)) 2 = Some 30100"
  using purchase_malformed_answer_keeps_debit[OF fx_debit fx_purchase_key(2) fx_exns(2) refl] by simp

section \<open>Webhooks\<close>

lemma get_payment_mem:
  assumes "pays_ok d" "p \<in> set (db_payments d)"
  shows "get_payment d (p_id p) = Some p"
proof (cases "get_payment d (p_id p)")
  case None
  then show ?thesis using assms(2) by (auto simp: get_payment_def row_find_None)
next
  case (Some q)
  then show ?thesis using get_payment_SomeD[OF Some] pays_ok_row[OF assms(1)] assms(2) by auto
qed

definition marked_paid :: "env \<Rightarrow> payment_row \<Rightarrow> (string \<times> json) list \<Rightarrow> payment_row \<Rightarrow> payment_row" where
  "marked_paid e pay raw p = touch_payment (e_now e)
     (\<lambda>p. p\<lparr>p_status := PayPaid, p_paid_at := Some (e_now e),
            p_meta := Some (jset ''webhook_raw'' (JObj raw) (case p_meta pay of None \<Rightarrow> [] | Some m \<Rightarrow> m))\<rparr>) p"

lemma marked_paid_sel [simp]:
  "p_id (marked_paid e pay raw p) = p_id p" "p_user_id (marked_paid e pay raw p) = p_user_id p"
  "p_purpose (marked_paid e pay raw p) = p_purpose p" "p_amount (marked_paid e pay raw p) = p_amount p"
  "p_status (marked_paid e pay raw p) = PayPaid" "p_provider (marked_paid e pay raw p) = p_provider p"
  "p_sub_id (marked_paid e pay raw p) = p_sub_id p" "p_external_id (marked_paid e pay raw p) = p_external_id p"
  "p_meta (marked_paid e pay raw p)
     = Some (jset ''webhook_raw'' (JObj raw) (case p_meta pay of None \<Rightarrow> [] | Some m \<Rightarrow> m))"
  by (simp_all add: marked_paid_def)

lemma mark_payment_get:
  "get_payment (mark_payment e pay PayPaid (Some (e_now e)) raw d) k =
     (if k = p_id pay then map_option (marked_paid e pay raw) (get_payment d k) else get_payment d k)"
  by (simp add: mark_payment_def marked_paid_def[abs_def])

text \<open>How a paid top-up is handled, from the payment row the handler has read.\<close>

lemma handle_paid_topup:
  assumes "get_payment d (p_id pay) = Some p" "p_purpose p = PurTopup"
  shows "handle_paid e pay raw trace d =
    (Inr (Processed (p_id pay) ''paid''),
     credit_topup e (marked_paid e pay raw p) trace
       (mark_payment e pay PayPaid (Some (e_now e)) raw d))"
  using assms get_payment_SomeD[OF assms(1)]
  by (simp add: handle_paid_def Let_def mark_payment_get settle_by_purpose_def
      is_extension_payment_def post_paid_hooks_def)

lemma get_user_mark [simp]: "get_user (mark_payment e pay st t raw d) k = get_user d k"
  and mark_payment_frame [simp]: "db_bts (mark_payment e pay st t raw d) = db_bts d"
    "db_outbox (mark_payment e pay st t raw d) = db_outbox d"
  by (simp_all add: mark_payment_def)

lemma credit_topup_effect:
  assumes "get_user d (p_user_id pay) = Some u"
  shows "balance_of (credit_topup e pay t d) k =
      (if k = p_user_id pay then Some (u_balance u + p_amount pay) else balance_of d k)"
    "ledger_sum (credit_topup e pay t d) k =
      ledger_sum d k + (if k = p_user_id pay then p_amount pay else 0)"
    "length (db_outbox (credit_topup e pay t d)) = length (db_outbox d) + 1"
proof -
  let ?w = "add_bt e (p_user_id pay) (p_amount pay) BtTopup (Some (p_id pay)) None
              (Some (''Top-up via '' @ p_provider pay)) (u_balance u + p_amount pay)
              (set_balance e (p_user_id pay) (u_balance u + p_amount pay) d)"
  have "db_users (credit_topup e pay t d) = db_users ?w" "db_bts (credit_topup e pay t d) = db_bts ?w"
    using assms by (simp_all add: credit_topup_def Let_def)
  then have "balance_of (credit_topup e pay t d) k = balance_of ?w k"
    "ledger_sum (credit_topup e pay t d) k = ledger_sum ?w k"
    by (simp_all add: balance_of_def get_user_def ledger_sum_def)
  then show "balance_of (credit_topup e pay t d) k =
      (if k = p_user_id pay then Some (u_balance u + p_amount pay) else balance_of d k)"
    "ledger_sum (credit_topup e pay t d) k =
      ledger_sum d k + (if k = p_user_id pay then p_amount pay else 0)"
    using assms by simp_all
  show "length (db_outbox (credit_topup e pay t d)) = length (db_outbox d) + 1"
    using assms by (simp add: credit_topup_def Let_def db_outbox_enqueue level_info_def)
qed

definition paid_words :: "string list" where
  "paid_words = [''paid'', ''success'', ''succeeded'', ''completed'']"

lemma process_paid:
  assumes "payment_by_external d x = Some pay" "p_status pay \<noteq> PayPaid" "p_status pay \<noteq> PayRefunded"
    and "str_lower st \<in> set paid_words"
  shows "process_webhook_payment e pr x st raw trace d = handle_paid e pay raw trace d"
  using assms by (simp add: process_webhook_payment_def paid_words_def)

lemma external_row:
  assumes "pays_ok d" "payment_by_external d x = Some pay"
  shows "get_payment d (p_id pay) = Some pay" "p_external_id pay = Some x"
  using get_payment_mem[OF assms(1)] payment_by_external_mem[OF assms(2)] by simp_all

text \<open>C11: A webhook that reports a pending top-up as paid credits the payer with exactly the
  amount of the payment, once in the balance and once in the ledger, leaves every other
  balance alone, marks the payment paid and queues one message.\<close>

theorem topup_webhook_credits:
  assumes "pays_ok d" and "payment_by_external d x = Some pay"
    and "p_status pay \<noteq> PayPaid" and "p_status pay \<noteq> PayRefunded" and "p_purpose pay = PurTopup"
    and "str_lower st \<in> set paid_words" and "get_user d (p_user_id pay) = Some u"
    and "d' = snd (process_webhook_payment e pr x st raw trace d)"
  shows "fst (process_webhook_payment e pr x st raw trace d) = Inr (Processed (p_id pay) ''paid'')
    \<and> balance_of d' k = (if k = p_user_id pay then Some (u_balance u + p_amount pay) else balance_of d k)
    \<and> ledger_sum d' k = ledger_sum d k + (if k = p_user_id pay then p_amount pay else 0)
    \<and> map_option p_status (get_payment d' (p_id pay)) = Some PayPaid
    \<and> length (db_outbox d') = length (db_outbox d) + 1"
proof -
  let ?d1 = "mark_payment e pay PayPaid (Some (e_now e)) raw d"
  let ?q = "marked_paid e pay raw pay"
  note row = external_row[OF assms(1,2)]
  have w: "process_webhook_payment e pr x st raw trace d
      = (Inr (Processed (p_id pay) ''paid''), credit_topup e ?q trace ?d1)"
    using process_paid[OF assms(2-4,6)] handle_paid_topup[OF row(1) assms(5)] by simp
  have u: "get_user ?d1 (p_user_id ?q) = Some u" using assms(7) by simp
  note eff = credit_topup_effect[OF u, of e trace]
  have "balance_of ?d1 k = balance_of d k" "ledger_sum ?d1 k = ledger_sum d k"
    by (simp_all add: balance_of_def ledger_sum_def)
  moreover have "map_option p_status (get_payment d' (p_id pay)) = Some PayPaid"
    by (simp add: assms(8) w get_payment_def)
      (simp add: get_payment_def[symmetric] mark_payment_get row(1))
  ultimately show ?thesis using eff by (simp add: w assms(8))
qed

lemma fx_digits [simp]: "py_str 1 = ''1''" "py_str 2 = ''2''"
  by code_simp+

lemma fx_external [simp]:
  "payment_by_external fx_db ''ext-1'' = Some (fx_payment 1 2 None PurTopup 1500 [])"
  "payment_by_external fx_db ''ext-2'' = Some (fx_payment 2 2 (Some 1) PurExtend 19900
       [(''subscription_id'', JInt 1), (''days'', JInt 30), (''is_extension'', JBool True)])"
  by (simp_all add: payment_by_external_def fx_db_def empty_db_def)

lemma fx_pays [simp]: "pays_ok fx_db"
  by (simp add: pays_ok_def fx_db_def empty_db_def)

lemma paid_lower [simp]: "str_lower ''paid'' \<in> set paid_words" "str_lower ''success'' \<in> set paid_words"
  by (code_simp)+

theorem topup_webhook_credits_witness:
  "balance_of (snd (process_webhook_payment (fx_env 0 200 JNull) ''platega'' ''ext-1'' ''paid'' [] None fx_db)) 2
     = Some 51500"
  using topup_webhook_credits[OF fx_pays fx_external(1) _ _ _ paid_lower(1) _ refl, of "fx_user 2 102 50000" "fx_env 0 200 JNull" "''platega''" "[]" None 2]
  by simp

text \<open>C28: Two deliveries of the same paid top-up that both read the payment row before either
  commits credit the amount twice: the handler neither locks the row nor re-reads its
  status, so the second delivery works on its stale copy.\<close>

theorem concurrent_topup_webhooks_credit_twice:
  assumes "pays_ok d" and "payment_by_external d x = Some pay" and "p_purpose pay = PurTopup"
    and "get_user d (p_user_id pay) = Some u"
    and "d1 = snd (handle_paid e pay raw trace d)"
    and "d2 = snd (handle_paid e' pay raw' trace' d1)"
  shows "balance_of d2 (p_user_id pay) = Some (u_balance u + 2 * p_amount pay)
    \<and> ledger_sum d2 (p_user_id pay) = ledger_sum d (p_user_id pay) + 2 * p_amount pay"
proof -
  note row = external_row(1)[OF assms(1,2)]
  let ?q = "marked_paid e pay raw pay" and ?m = "mark_payment e pay PayPaid (Some (e_now e)) raw d"
  have d1: "d1 = credit_topup e ?q trace ?m"
    using handle_paid_topup[OF row assms(3)] assms(5) by simp
  have "get_user ?m (p_user_id ?q) = Some u" using assms(4) by simp
  note eff1 = credit_topup_effect[OF this, of e trace, folded d1]
  have b1: "balance_of d1 (p_user_id pay) = Some (u_balance u + p_amount pay)"
    by (simp add: eff1(1))
  then obtain u1 where u1: "get_user d1 (p_user_id pay) = Some u1" "u_balance u1 = u_balance u + p_amount pay"
    by (auto simp: balance_of_def)
  have row1: "get_payment d1 (p_id pay) = Some ?q"
    using row by (simp add: d1 get_payment_def) (simp add: get_payment_def[symmetric] mark_payment_get)
  let ?q2 = "marked_paid e' pay raw' ?q" and ?m2 = "mark_payment e' pay PayPaid (Some (e_now e')) raw' d1"
  have d2: "d2 = credit_topup e' ?q2 trace' ?m2"
    using handle_paid_topup[OF row1, of e' raw' trace'] assms(3,6) by simp
  have "get_user ?m2 (p_user_id ?q2) = Some u1" using u1 by simp
  note eff2 = credit_topup_effect[OF this, of e' trace', folded d2]
  have "ledger_sum ?m (p_user_id pay) = ledger_sum d (p_user_id pay)"
    "ledger_sum ?m2 (p_user_id pay) = ledger_sum d1 (p_user_id pay)"
    by (simp_all add: ledger_sum_def)
  then show ?thesis using eff1(2)[of "p_user_id pay"] eff2(1,2)[of "p_user_id pay"] u1(2) by simp
qed

theorem concurrent_topup_webhooks_credit_twice_witness:
  "balance_of (snd (handle_paid (fx_env 1 200 JNull) (fx_payment 1 2 None PurTopup 1500 []) [] None
     (snd (handle_paid (fx_env 0 200 JNull) (fx_payment 1 2 None PurTopup 1500 []) [] None fx_db)))) 2
   = Some 53000"
  using concurrent_topup_webhooks_credit_twice[OF fx_pays fx_external(1) _ _ refl refl, of "fx_user 2 102 50000"]
  by simp

end
