(* ===== verification/ExtensionTheorems.thy ===== *)
theory ExtensionTheorems
  imports BillingTheorems
begin

text \<open>
  The properties of paying for more days: what a paid extension does to the
  subscription, what it costs, and what happens when the provider refuses.
\<close>

section \<open>A paid extension\<close>

text \<open>The row of a payment for an extension of subscription \<open>sid\<close> by \<open>n\<close> days.\<close>

definition extends :: "payment_row \<Rightarrow> int \<Rightarrow> int \<Rightarrow> bool" where
  "extends p sid n \<longleftrightarrow> p_purpose p = PurExtend
     \<and> meta_get (p_meta p) ''subscription_id'' = Some (JInt sid)
     \<and> meta_get (p_meta p) ''days'' = Some (JInt n) \<and> sid \<noteq> 0 \<and> n \<noteq> 0"

lemma meta_marked:
  "k \<noteq> ''webhook_raw'' \<Longrightarrow> meta_get (p_meta (marked_paid e pay raw p)) k = meta_get (p_meta pay) k"
  by (simp add: meta_get_jset) (simp add: meta_get_def split: option.split)

lemma extends_marked: "extends p sid n \<Longrightarrow> extends (marked_paid e p raw p) sid n"
  unfolding extends_def using meta_marked[of "''subscription_id''" e p raw p] meta_marked[of "''days''" e p raw p]
  by simp

lemma extends_extension: "extends p sid n \<Longrightarrow> is_extension_payment p"
  by (simp add: extends_def is_extension_payment_def)

lemma extends_days: "extends p sid n \<Longrightarrow> extension_days p s = Some n"
  by (simp add: extends_def extension_days_def as_int_def)

lemma handle_paid_extension:
  assumes "get_payment d (p_id pay) = Some pay" "extends pay sid n" "get_sub d sid = Some s"
  shows "handle_paid e pay raw trace d =
    (let q = marked_paid e pay raw pay; d1 = mark_payment e pay PayPaid (Some (e_now e)) raw d in
     case call_northline_extend e q s d1 of
       Inr d2 \<Rightarrow> (Inr (Processed (p_id pay) ''paid''), post_paid_hooks e q d2)
     | Inl x \<Rightarrow> if is_northline_exn x
         then (Inr (Processed (p_id pay) ''paid''),
               post_paid_hooks e q (refund_extension e (p_user_id pay) q sid (p_amount pay) x d1))
         else (Inl x, d))"
proof -
  let ?q = "marked_paid e pay raw pay" and ?d1 = "mark_payment e pay PayPaid (Some (e_now e)) raw d"
  have q: "extends ?q sid n" by (rule extends_marked[OF assms(2)])
  have sub: "get_sub ?d1 sid = Some s" using assms(3) by (simp add: mark_payment_def)
  have sid: "s_id s = sid" using get_sub_SomeD[OF assms(3)] by simp
  have "apply_extension_after_payment e ?q ?d1 =
      (case call_northline_extend e ?q s ?d1 of
         Inr d2 \<Rightarrow> Inr d2
       | Inl x \<Rightarrow> if is_northline_exn x
                 then Inr (refund_extension e (p_user_id pay) ?q sid (p_amount pay) x ?d1) else Inl x)"
    using q sub sid by (simp add: apply_extension_after_payment_def extends_def as_int_def split: sum.split)
  then show ?thesis
    using assms(1) extends_extension[OF q]
    by (auto simp: handle_paid_def Let_def mark_payment_get settle_by_purpose_def split: sum.split)
qed

lemma extend_call_ok:
  assumes "extends q sid n" "get_sub d sid = Some s"
    and "extend_key e (opt_str (s_provider_id s)) n (''payment-'' @ py_str (p_id q) @ ''-extend'') = Inr resp"
  obtains d2 where "call_northline_extend e q s d = Inr d2"
proof -
  have "\<exists>d2. call_northline_extend e q s d = Inr d2"
    using assms(3) extends_days[OF assms(1)]
    by (auto simp: call_northline_extend_def Let_def split: option.split)
  then show ?thesis using that by blast
qed

text \<open>C16: A paid extension the provider accepts moves the expiry of the subscription to the
  bought number of days after the later of now and the old expiry and makes it active; the
  webhook reports the payment as paid.\<close>

theorem extension_webhook_extends:
  assumes "pays_ok d" and "payment_by_external d x = Some pay"
    and "p_status pay \<noteq> PayPaid" and "p_status pay \<noteq> PayRefunded" and "extends pay sid n"
    and "str_lower st \<in> set paid_words" and "get_sub d sid = Some s" and "s_expires_at s = Some old"
    and "extend_key e (opt_str (s_provider_id s)) n (''payment-'' @ py_str (p_id pay) @ ''-extend'')
           = Inr resp"
    and "d' = snd (process_webhook_payment e pr x st raw trace d)"
  shows "fst (process_webhook_payment e pr x st raw trace d) = Inr (Processed (p_id pay) ''paid'')
    \<and> map_option s_expires_at (get_sub d' sid) = Some (Some (max (e_now e) old + days_of n))
    \<and> map_option s_status (get_sub d' sid) = Some SubActive
    \<and> (k \<noteq> sid \<longrightarrow> map_option s_expires_at (get_sub d' k) = map_option s_expires_at (get_sub d k))"
proof -
  let ?q = "marked_paid e pay raw pay" and ?d1 = "mark_payment e pay PayPaid (Some (e_now e)) raw d"
  note row = external_row(1)[OF assms(1,2)]
  have q: "extends ?q sid n" by (rule extends_marked[OF assms(5)])
  have sub: "get_sub ?d1 j = get_sub d j" for j by (simp add: mark_payment_def)
  obtain d2 where d2: "call_northline_extend e ?q s ?d1 = Inr d2"
    using extend_call_ok[OF q, of ?d1 s e resp] assms(7,9) sub by auto
  have w: "process_webhook_payment e pr x st raw trace d
      = (Inr (Processed (p_id pay) ''paid''), post_paid_hooks e ?q d2)"
    using process_paid[OF assms(2-4,6)] handle_paid_extension[OF row assms(5,7)] d2
    by (simp add: Let_def)
  have sid: "s_id s = sid" using get_sub_SomeD[OF assms(7)] by simp
  have "extension_base e (s_expires_at s) = max (e_now e) old"
    by (simp add: extension_base_def assms(8) max_def)
  moreover have "get_sub d' j = get_sub d2 j" for j
    by (simp add: assms(10) w get_sub_def)
  ultimately show ?thesis
    using call_extend_sub[OF d2 extends_days[OF q]] assms(7) sid by (simp add: w sub)
qed

definition fx_ext_payment :: payment_row where
  "fx_ext_payment = fx_payment 2 2 (Some 1) PurExtend 19900
     [(''subscription_id'', JInt 1), (''days'', JInt 30), (''is_extension'', JBool True)]"

lemma fx_ext [simp]:
  "payment_by_external fx_db ''ext-2'' = Some fx_ext_payment" "extends fx_ext_payment 1 30"
  "p_status fx_ext_payment = PayPending" "p_id fx_ext_payment = 2" "p_user_id fx_ext_payment = 2"
  "p_amount fx_ext_payment = 19900"
  by (simp_all add: fx_ext_payment_def extends_def)

lemma fx_extend_key:
  "extend_key (fx_env n 200 fx_extended) s k i = Inr (''nl-1'', 0, 30)"
  "extend_key (fx_env n 503 j) s k i =
     Inl (nl_unavailable ''NorthLine server error'' [(''status_code'', JInt 503)])"
  by (simp_all add: extend_key_def fx_request parse_extend_response_def req_def alias_req_def
      jfield_def fx_extended_def as_str_def as_int_def)

theorem extension_webhook_extends_witness:
  "map_option s_expires_at (get_sub (snd (process_webhook_payment (fx_env 5 200 fx_extended) ''platega'' ''ext-2''
     ''paid'' [] None fx_db)) 1) = Some (Some (1000000 + days_of 30))"
  using extension_webhook_extends[OF fx_pays fx_ext(1) _ _ fx_ext(2) paid_lower(1) fx_get(8) _ _ refl,
      of 1000000 "fx_env 5 200 fx_extended" "(''nl-1'', 0, 30)" "''platega''" "[]" None]
  by (simp add: fx_extend_key)

section \<open>A paid extension the provider refuses\<close>

lemma bonus_balance:
  assumes "p_purpose pay \<noteq> PurTopup" "0 < p_amount pay" "ref_by_referee d (u_id referee) = Some r"
    "\<not> rf_bonus_paid r" "get_user d (rf_referrer_id r) = Some v"
  shows "balance_of (apply_referrer_bonus e referee pay d) k =
    (if k = rf_referrer_id r then Some (u_balance v + referral_bonus) else balance_of d k)"
proof -
  have "u_id v = rf_referrer_id r" using get_user_SomeD[OF assms(5)] by simp
  then have "db_users (apply_referrer_bonus e referee pay d)
      = db_users (set_balance e (rf_referrer_id r) (u_balance v + referral_bonus) d)"
    using assms by (simp add: apply_referrer_bonus_def Let_def)
  then have "balance_of (apply_referrer_bonus e referee pay d) k
      = balance_of (set_balance e (rf_referrer_id r) (u_balance v + referral_bonus) d) k"
    by (simp add: balance_of_def get_user_def)
  then show ?thesis using assms(5) by simp
qed

lemma hooks_balance:
  assumes "p_purpose pay \<noteq> PurTopup" "0 < p_amount pay" "get_user d (p_user_id pay) = Some u"
    "ref_by_referee d (p_user_id pay) = Some r" "\<not> rf_bonus_paid r"
    "get_user d (rf_referrer_id r) = Some v"
  shows "balance_of (post_paid_hooks e pay d) k =
    (if k = rf_referrer_id r then Some (u_balance v + referral_bonus) else balance_of d k)"
proof -
  have "u_id u = p_user_id pay" using get_user_SomeD[OF assms(3)] by simp
  then have "balance_of (apply_referral_bonus_safe e pay d) k =
    (if k = rf_referrer_id r then Some (u_balance v + referral_bonus) else balance_of d k)"
    using bonus_balance[OF assms(1,2) _ assms(5,6), of u] assms(3,4)
    by (simp add: apply_referral_bonus_safe_def)
  then show ?thesis
    using assms(1,2) by (simp add: post_paid_hooks_def balance_of_def get_user_def)
qed

lemma mark_refs: "db_refs (mark_payment e pay st t raw d) = db_refs d"
  by (simp add: mark_payment_def)

text \<open>When the provider refuses a paid extension the payer gets the price back on the
  balance and the payment is marked refunded, but the webhook still answers that it was
  paid and the referrer of the payer receives the referral bonus for it.\<close>

theorem refunded_extension_pays_bonus:
  assumes "pays_ok d" and "payment_by_external d x = Some pay"
    and "p_status pay \<noteq> PayPaid" and "p_status pay \<noteq> PayRefunded" and "extends pay sid n"
    and "str_lower st \<in> set paid_words" and "get_sub d sid = Some s"
    and "extend_key e (opt_str (s_provider_id s)) n (''payment-'' @ py_str (p_id pay) @ ''-extend'')
           = Inl exn" and "is_northline_exn exn" and "0 < p_amount pay"
    and "get_user d (p_user_id pay) = Some u" and "ref_by_referee d (p_user_id pay) = Some r"
    and "\<not> rf_bonus_paid r" and "get_user d (rf_referrer_id r) = Some v"
    and "rf_referrer_id r \<noteq> p_user_id pay"
    and "d' = snd (process_webhook_payment e pr x st raw trace d)"
  shows "fst (process_webhook_payment e pr x st raw trace d) = Inr (Processed (p_id pay) ''paid'')
    \<and> map_option p_status (get_payment d' (p_id pay)) = Some PayRefunded
    \<and> balance_of d' (p_user_id pay) = Some (u_balance u + p_amount pay)
    \<and> balance_of d' (rf_referrer_id r) = Some (u_balance v + referral_bonus)
    \<and> get_sub d' sid = get_sub d sid"
proof -
  let ?q = "marked_paid e pay raw pay" and ?d1 = "mark_payment e pay PayPaid (Some (e_now e)) raw d"
  let ?d2 = "refund_extension e (p_user_id pay) ?q sid (p_amount pay) exn ?d1"
  note row = external_row(1)[OF assms(1,2)]
  have q: "extends ?q sid n" by (rule extends_marked[OF assms(5)])
  have "call_northline_extend e ?q s ?d1 = Inl exn"
    using assms(8) extends_days[OF q] by (simp add: call_northline_extend_def)
  then have w: "process_webhook_payment e pr x st raw trace d
      = (Inr (Processed (p_id pay) ''paid''), post_paid_hooks e ?q ?d2)"
    using process_paid[OF assms(2-4,6)] handle_paid_extension[OF row assms(5,7)] assms(9)
    by (simp add: Let_def)
  have u1: "get_user ?d1 (p_user_id pay) = Some u" using assms(11) by simp
  note eff = refund_extension_effect[OF u1, of e ?q sid "p_amount pay" exn]
  have g2: "get_user ?d2 j = get_user (set_balance e (p_user_id pay) (u_balance u + p_amount pay) ?d1) j" for j
    by (simp add: get_user_def eff(1))
  obtain u' where u2: "get_user ?d2 (p_user_id ?q) = Some u'" using g2 u1 by simp
  have v2: "get_user ?d2 (rf_referrer_id r) = Some v" using assms(14,15) by (simp add: g2)
  have refs: "ref_by_referee ?d2 j = ref_by_referee d j" for j
    by (simp add: ref_by_referee_def mark_refs)
  have "balance_of (post_paid_hooks e ?q ?d2) j =
      (if j = rf_referrer_id r then Some (u_balance v + referral_bonus) else balance_of ?d2 j)" for j
    by (rule hooks_balance[OF _ _ u2]) (use assms(5,10,12,13) refs v2 in \<open>simp_all add: extends_def\<close>)
  moreover have "balance_of ?d2 (p_user_id pay) = Some (u_balance u + p_amount pay)"
    by (simp add: balance_of_def g2 assms(11))
  moreover have "map_option p_status (get_payment (post_paid_hooks e ?q ?d2) (p_id pay)) = Some PayRefunded"
    using eff(3)[of "p_id pay"] row by (simp add: get_payment_def)
      (simp add: get_payment_def[symmetric] mark_payment_get)
  moreover have "get_sub (post_paid_hooks e ?q ?d2) sid = get_sub d sid"
    by (simp add: get_sub_def mark_payment_def)
  ultimately show ?thesis using assms(15) by (simp add: w assms(16))
qed

lemma fx_referral [simp]: "ref_by_referee fx_db 2 = Some (fx_ref 1 1 2)"
  "\<not> rf_bonus_paid (fx_ref i a b)" "rf_referrer_id (fx_ref i a b) = a"
  by (simp_all add: ref_by_referee_def fx_db_def empty_db_def fx_ref_def row_find_def)

theorem refunded_extension_pays_bonus_witness:
  "balance_of (snd (process_webhook_payment (fx_env 5 503 JNull) ''platega'' ''ext-2'' ''paid'' [] None fx_db)) 1
     = Some 7000
   \<and> balance_of (snd (process_webhook_payment (fx_env 5 503 JNull) ''platega'' ''ext-2'' ''paid'' [] None fx_db)) 2
     = Some 69900"
  using refunded_extension_pays_bonus[OF fx_pays fx_ext(1) _ _ fx_ext(2) paid_lower(1) fx_get(8)
      _ fx_exns(1) _ _ _ _ _ _ refl, of "fx_env 5 503 JNull" _ _ "fx_user 2 102 50000" "fx_ref 1 1 2"
      "fx_user 1 101 0" "''platega''" "[]" None]
  by (simp add: fx_extend_key referral_bonus_def)

section \<open>The price of an extension\<close>

lemma extension_discount_never: "extension_discount pr = None"
  by (simp add: extension_discount_def result_attr_def int_or_def or_none_def int_truthy_def
      split: option.split)

lemma extension_amounts:
  "fst (extend_via_balance e uid s td tc amount meta d0 d) = Inr r \<Longrightarrow> xr_amount r = amount"
  "fst (extension_external e uid s td tc pr amount meta d0 d) = Inr r \<Longrightarrow> xr_amount r = amount"
  by (auto simp: extend_via_balance_def extension_external_def Let_def
      split: option.splits sum.splits if_splits)

text \<open>Whatever promo code comes with it, an extension costs the full price of the chosen
  duration: the percentage of a discount code is looked up under a name the promo result
  does not have.\<close>

theorem extension_ignores_discount:
  assumes "fst (create_extension_payment e sid did uid provider code d) = Inr r"
  shows "\<exists>s td. get_sub d sid = Some s \<and> s_user_id s = uid \<and> s_status s = SubActive
    \<and> get_duration d did = Some td \<and> td_tariff_id td = s_tariff_id s \<and> xr_amount r = td_price td"
proof -
  obtain s where s: "get_sub d sid = Some s" "s_user_id s = uid" "s_status s = SubActive"
      "str_truthy (s_provider_id s)"
    using assms by (auto simp: create_extension_payment_def split: option.splits if_splits)
  obtain td where td: "get_duration d did = Some td" "td_tariff_id td = s_tariff_id s"
    using assms s by (auto simp: create_extension_payment_def split: option.splits if_splits)
  have "xr_amount r = td_price td"
    using assms s td
    by (auto simp: create_extension_payment_def Let_def extension_discount_never extension_price_def
        int_truthy_def dest: extension_amounts split: sum.splits if_splits)
  then show ?thesis using s td by blast
qed

text \<open>The code \<open>SALE\<close> takes 15 per cent off a purchase, and nothing off an extension.\<close>

lemma fx_sale_eq: "validate_and_apply (fx_env n st j) ''SALE'' 2 fx_db =
  apply_discount (fx_env n st j) (fx_promo 1 ''SALE'' PromoDiscount 15) 2 fx_db"
proof -
  have "promo_matches fx_db (str_strip ''SALE'') = [fx_promo 1 ''SALE'' PromoDiscount 15]"
    unfolding promo_matches_def fx_db_def empty_db_def by simp (code_simp)
  moreover have "str_strip ''SALE'' \<noteq> []" by code_simp
  moreover have "db_promo_acts fx_db = []" by (simp add: fx_db_def empty_db_def)
  ultimately show ?thesis
    by (simp add: validate_and_apply_def Let_def promo_checks_def ensure_window_def total_exhausted_def
        user_activations_def)
qed

lemma fx_sale: "fst (validate_and_apply (fx_env n st j) ''SALE'' 2 fx_db) =
  Inr \<lparr>pr_type = PromoDiscount, pr_amount = None, pr_percent = Some 15, pr_promo_id = 1,
       pr_message = JText ''promo_discount_message'' [JInt 15], pr_balance = None\<rparr>"
  by (simp add: fx_sale_eq apply_discount_def)

section \<open>Extending from the balance\<close>

lemma create_extension_code_eq:
  assumes "get_sub d sid = Some s" "s_user_id s = uid" "s_status s = SubActive"
    "str_truthy (s_provider_id s)" "get_duration d did = Some td" "td_tariff_id td = s_tariff_id s"
    and "extension_promo e code uid d = Inr (pr, d1)"
  shows "\<exists>tc. create_extension_payment e sid did uid ''balance'' code d
       = extend_via_balance e uid s td tc (td_price td) (extension_meta s td pr (td_price td)) d d1"
proof -
  have "extension_price (td_price td) (extension_discount pr) = td_price td"
    by (simp add: extension_discount_never extension_price_def int_truthy_def)
  then show ?thesis
    using assms by (simp add: create_extension_payment_def Let_def) blast
qed

lemma extension_promo_none: "extension_promo e None uid d = Inr (None, d)"
  by (simp add: extension_promo_def str_truthy_def)

lemmas create_extension_balance_eq = create_extension_code_eq[OF _ _ _ _ _ _ extension_promo_none]

lemma create_extension_balance:
  assumes "fst (create_extension_payment e sid did uid ''balance'' None d) = r"
    and "\<forall>x. r = Inl x \<longrightarrow> exn_class x = Some NorthLineUnavailableError"
  obtains s td tc where "get_sub d sid = Some s" "s_user_id s = uid" "s_status s = SubActive"
    "get_duration d did = Some td" "td_tariff_id td = s_tariff_id s"
    "create_extension_payment e sid did uid ''balance'' None d
       = extend_via_balance e uid s td tc (td_price td) (extension_meta s td None (td_price td)) d d"
proof -
  have nl: "r \<noteq> Inl (mk_error c m k ds)" if "c \<noteq> NorthLineUnavailableError" for c m k ds
    using assms(2) that by (auto simp: mk_error_def)
  obtain s where s: "get_sub d sid = Some s" "s_user_id s = uid" "s_status s = SubActive"
      "str_truthy (s_provider_id s)"
    using assms(1) nl by (auto simp: create_extension_payment_def split: option.splits if_splits)
  obtain td where td: "get_duration d did = Some td" "td_tariff_id td = s_tariff_id s"
    using assms(1) s nl by (auto simp: create_extension_payment_def split: option.splits if_splits)
  show ?thesis using that s(1-3) td create_extension_balance_eq[OF s td, of e] by blast
qed

lemma balance_extension_days:
  assumes "p_meta pay = Some (extension_meta s td pr a)"
  shows "extension_days pay s = Some (if td_days td = 0 then s_days s else td_days td)"
  by (simp add: extension_days_def assms extension_meta_def as_int_def)

text \<open>The state between the debit and the provider call.\<close>

lemma extend_via_balance_debited:
  assumes "get_user d uid = Some u" "amount \<le> u_balance u"
  obtains pay d3 where "p_id pay = next_payment d" "p_user_id pay = uid" "p_meta pay = Some meta"
    "get_payment d3 (next_payment d) = Some pay" "db_subs d3 = db_subs d"
    "get_user d3 = get_user (set_balance e uid (u_balance u - amount) d)"
    "\<And>k. ledger_sum d3 k = ledger_sum d k - (if k = uid then amount else 0)"
    "extend_via_balance e uid s td tc amount meta d0 d =
       (case call_northline_extend e pay s d3 of
          Inr d4 \<Rightarrow> (Inr \<lparr>xr_payment_id = next_payment d, xr_amount = amount,
                          xr_payment_url = None, xr_key_url = s_key_url s\<rparr>, d4)
        | Inl x \<Rightarrow> if is_northline_exn x
            then (Inl (mk_error NorthLineUnavailableError
                        (Some ''Could not extend key after balance debit; refunded'') None
                        [(''subscription_id'', JInt (s_id s)), (''refund_kopecks'', JInt amount)]),
                  refund_extension e uid pay (s_id s) amount x d3)
            else (Inl x, d0))"
proof -
  define d1 where "d1 = set_balance e uid (u_balance u - amount) d"
  define d3 where "d3 = add_bt e uid (- amount) BtPurchase (Some (next_payment d)) (Some (s_id s))
      (Some (''Extend subscription #'' @ py_str (s_id s) @ '' ('' @ tc @ '', +'' @ py_str (td_days td) @ ''d)''))
      (u_balance u - amount)
      (create_payment e uid (Some (s_id s)) PurExtend ''balance'' amount PayPaid (Some (e_now e)) meta d1)"
  have nxt: "next_payment d1 = next_payment d" by (simp add: d1_def)
  obtain pay where pay: "get_payment d3 (next_payment d) = Some pay" "p_id pay = next_payment d"
      "p_user_id pay = uid" "p_meta pay = Some meta"
    by (simp add: d3_def nxt)
  have "ledger_sum d3 k = ledger_sum d k - (if k = uid then amount else 0)" for k
    by (simp add: d3_def) (simp add: d1_def ledger_sum_def)
  moreover have "get_user d3 = get_user d1" by (rule ext) (simp add: d3_def)
  moreover have "db_subs d3 = db_subs d" by (simp add: d3_def d1_def)
  moreover have "extend_via_balance e uid s td tc amount meta d0 d =
       (case call_northline_extend e pay s d3 of
          Inr d4 \<Rightarrow> (Inr \<lparr>xr_payment_id = next_payment d, xr_amount = amount,
                          xr_payment_url = None, xr_key_url = s_key_url s\<rparr>, d4)
        | Inl x \<Rightarrow> if is_northline_exn x
            then (Inl (mk_error NorthLineUnavailableError
                        (Some ''Could not extend key after balance debit; refunded'') None
                        [(''subscription_id'', JInt (s_id s)), (''refund_kopecks'', JInt amount)]),
                  refund_extension e uid pay (s_id s) amount x d3)
            else (Inl x, d0))"
    unfolding extend_via_balance_def assms(1) option.case Let_def if_not_P[OF leD[OF assms(2)]]
    unfolding d1_def[symmetric] d3_def[symmetric] pay(1) option.case
    by (simp split: sum.split)
  ultimately show ?thesis using that[OF pay(2-4,1)] unfolding d1_def by blast
qed

lemma extend_via_balance_funds:
  assumes "\<forall>x. fst (extend_via_balance e uid s td tc a m d0 d) = Inl x
      \<longrightarrow> exn_class x = Some NorthLineUnavailableError"
  shows "\<exists>u. get_user d uid = Some u \<and> a \<le> u_balance u"
proof (cases "get_user d uid")
  case None
  then show ?thesis using assms by (simp add: extend_via_balance_def mk_error_def)
next
  case (Some u)
  show ?thesis
  proof (cases "u_balance u < a")
    case True
    then show ?thesis
      using assms Some by (simp add: extend_via_balance_def insufficient_def mk_error_def)
  qed (simp add: Some)
qed

text \<open>An extension paid from the balance that the provider refuses gives the price back: every
  balance and ledger total is what it was, the subscription row is untouched and the
  payment is marked refunded.\<close>

theorem balance_extension_refund:
  assumes "fst (create_extension_payment e sid did uid ''balance'' None d) = Inl x"
    and "exn_class x = Some NorthLineUnavailableError"
    and "d' = snd (create_extension_payment e sid did uid ''balance'' None d)"
  shows "balance_of d' k = balance_of d k \<and> ledger_sum d' k = ledger_sum d k
    \<and> db_subs d' = db_subs d
    \<and> map_option p_status (get_payment d' (next_payment d)) = Some PayRefunded"
proof -
  obtain s td tc where
      eq: "create_extension_payment e sid did uid ''balance'' None d
       = extend_via_balance e uid s td tc (td_price td) (extension_meta s td None (td_price td)) d d"
    using create_extension_balance[OF assms(1)] assms(2) by blast
  let ?a = "td_price td"
  obtain u where u: "get_user d uid = Some u" and le: "?a \<le> u_balance u"
    using extend_via_balance_funds[of e uid s td tc ?a "extension_meta s td None ?a" d d] assms(1,2)
    unfolding eq by fastforce
  obtain pay d3 where pay: "p_id pay = next_payment d" "p_user_id pay = uid"
      "p_meta pay = Some (extension_meta s td None ?a)"
      and d3: "get_payment d3 (next_payment d) = Some pay" "db_subs d3 = db_subs d"
      "get_user d3 = get_user (set_balance e uid (u_balance u - ?a) d)"
      "\<And>k. ledger_sum d3 k = ledger_sum d k - (if k = uid then ?a else 0)"
      and ev: "extend_via_balance e uid s td tc ?a (extension_meta s td None ?a) d d =
       (case call_northline_extend e pay s d3 of
          Inr d4 \<Rightarrow> (Inr \<lparr>xr_payment_id = next_payment d, xr_amount = ?a,
                          xr_payment_url = None, xr_key_url = s_key_url s\<rparr>, d4)
        | Inl x \<Rightarrow> if is_northline_exn x
            then (Inl (mk_error NorthLineUnavailableError
                        (Some ''Could not extend key after balance debit; refunded'') None
                        [(''subscription_id'', JInt (s_id s)), (''refund_kopecks'', JInt ?a)]),
                  refund_extension e uid pay (s_id s) ?a x d3)
            else (Inl x, d))"
    by (rule extend_via_balance_debited[OF u le]) (rule that; assumption)
  obtain y where y: "call_northline_extend e pay s d3 = Inl y" "is_northline_exn y"
    using assms(1,2) eq ev
    by (cases "call_northline_extend e pay s d3") (auto simp: is_northline_exn_def split: if_splits)
  have d': "d' = refund_extension e uid pay (s_id s) ?a y d3" using y eq ev assms(3) by simp
  obtain u3 where u3: "get_user d3 uid = Some u3" "u_balance u3 = u_balance u - ?a"
    using d3(3) u by simp
  note eff = refund_extension_effect[OF u3(1), of e pay "s_id s" ?a y, folded d']
  obtain b where b: "db_bts d' = db_bts d3 @ [b]" "bt_user_id b = uid" "bt_amount b = ?a"
    using eff(2) by blast
  have "balance_of d' k = balance_of (set_balance e uid (u_balance u3 + ?a) d3) k"
    by (simp add: balance_of_def get_user_def eff(1))
  then have "balance_of d' k = balance_of d k"
    using u3 u by (simp add: balance_of_def d3(3))
  moreover have "ledger_sum d' k = ledger_sum d k"
    using d3(4)[of k] b by (simp add: ledger_sum_def)
  moreover have "map_option p_status (get_payment d' (next_payment d)) = Some PayRefunded"
    using eff(3)[of "next_payment d"] d3(1) pay(1) by simp
  ultimately show ?thesis using d3(2) by (simp add: d')
qed

lemma fx_extend_refused:
  "fst (create_extension_payment (fx_env n 503 j) 1 1 2 ''balance'' None fx_db) =
     Inl (mk_error NorthLineUnavailableError (Some ''Could not extend key after balance debit; refunded'')
       None [(''subscription_id'', JInt 1), (''refund_kopecks'', JInt 19900)])"
proof -
  obtain tc where eq: "create_extension_payment (fx_env n 503 j) 1 1 2 ''balance'' None fx_db
      = extend_via_balance (fx_env n 503 j) 2 (fx_sub 1 2 1000000) fx_duration tc 19900
          (extension_meta (fx_sub 1 2 1000000) fx_duration None 19900) fx_db fx_db"
    using create_extension_balance_eq[OF fx_get(8), of 2 1 fx_duration "fx_env n 503 j"]
    by (auto simp: str_truthy_def)
  show ?thesis unfolding eq
    by (rule extend_via_balance_debited[of fx_db 2 "fx_user 2 102 50000" 19900, where
        e = "fx_env n 503 j" and s = "fx_sub 1 2 1000000" and td = fx_duration and tc = tc and ?d0.0 = fx_db
        and meta = "extension_meta (fx_sub 1 2 1000000) fx_duration None 19900"])
      (simp_all add: call_northline_extend_def balance_extension_days fx_extend_key)
qed

theorem balance_extension_refund_witness:
  "balance_of (snd (create_extension_payment (fx_env 5 503 JNull) 1 1 2 ''balance'' None fx_db)) 2
     = Some 50000"
  using balance_extension_refund[OF fx_extend_refused[of 5 JNull] _ refl, of 2]
  by (simp add: mk_error_def balance_of_def)

text \<open>An extension paid from the balance that returns took exactly the price of the duration,
  which the balance covered, and moved the expiry of the active subscription to the bought
  days after the later of now and the old expiry.\<close>

theorem balance_extension_extends:
  assumes "fst (create_extension_payment e sid did uid ''balance'' None d) = Inr r"
    and "d' = snd (create_extension_payment e sid did uid ''balance'' None d)"
  shows "\<exists>u s td. get_user d uid = Some u \<and> get_sub d sid = Some s \<and> get_duration d did = Some td
    \<and> td_price td \<le> u_balance u \<and> xr_amount r = td_price td
    \<and> balance_of d' uid = Some (u_balance u - td_price td)
    \<and> ledger_sum d' uid = ledger_sum d uid - td_price td
    \<and> map_option s_expires_at (get_sub d' sid) =
        Some (Some (extension_base e (s_expires_at s)
                    + days_of (if td_days td = 0 then s_days s else td_days td)))
    \<and> map_option s_status (get_sub d' sid) = Some SubActive"
proof -
  obtain s td tc where s: "get_sub d sid = Some s" and td: "get_duration d did = Some td"
      and eq: "create_extension_payment e sid did uid ''balance'' None d
       = extend_via_balance e uid s td tc (td_price td) (extension_meta s td None (td_price td)) d d"
    using create_extension_balance[OF assms(1)] by blast
  let ?a = "td_price td"
  obtain u where u: "get_user d uid = Some u" and le: "?a \<le> u_balance u"
    using extend_via_balance_funds[of e uid s td tc ?a "extension_meta s td None ?a" d d] assms(1)
    unfolding eq by fastforce
  obtain pay d3 where pay: "p_id pay = next_payment d" "p_user_id pay = uid"
      "p_meta pay = Some (extension_meta s td None ?a)"
      and d3: "get_payment d3 (next_payment d) = Some pay" "db_subs d3 = db_subs d"
      "get_user d3 = get_user (set_balance e uid (u_balance u - ?a) d)"
      "\<And>k. ledger_sum d3 k = ledger_sum d k - (if k = uid then ?a else 0)"
      and ev: "extend_via_balance e uid s td tc ?a (extension_meta s td None ?a) d d =
       (case call_northline_extend e pay s d3 of
          Inr d4 \<Rightarrow> (Inr \<lparr>xr_payment_id = next_payment d, xr_amount = ?a,
                          xr_payment_url = None, xr_key_url = s_key_url s\<rparr>, d4)
        | Inl x \<Rightarrow> if is_northline_exn x
            then (Inl (mk_error NorthLineUnavailableError
                        (Some ''Could not extend key after balance debit; refunded'') None
                        [(''subscription_id'', JInt (s_id s)), (''refund_kopecks'', JInt ?a)]),
                  refund_extension e uid pay (s_id s) ?a x d3)
            else (Inl x, d))"
    by (rule extend_via_balance_debited[OF u le]) (rule that; assumption)
  obtain d4 where d4: "call_northline_extend e pay s d3 = Inr d4"
    using assms(1) eq ev by (cases "call_northline_extend e pay s d3") (auto split: if_splits)
  have r: "d' = d4" "xr_amount r = ?a" using d4 eq ev assms by auto
  note sub = call_extend_sub[OF d4 balance_extension_days[OF pay(3)], of sid]
  have "s_id s = sid" using get_sub_SomeD[OF s] by simp
  moreover have "get_sub d3 sid = Some s" using s d3(2) by (simp add: get_sub_def)
  moreover have "balance_of d' uid = balance_of d3 uid" "ledger_sum d' uid = ledger_sum d3 uid"
    using call_extend_frame(1,2)[OF d4] by (simp_all add: r balance_of_def get_user_def ledger_sum_def)
  ultimately show ?thesis
    using s td u le r sub d3(3) d3(4)[of uid] by (simp add: balance_of_def)
qed

lemma fx_extend_via_balance:
  assumes "get_user d1 2 = Some u" "19900 \<le> u_balance u"
  shows "fst (extend_via_balance (fx_env n 200 fx_extended) 2 (fx_sub 1 2 1000000) fx_duration tc 19900
      (extension_meta (fx_sub 1 2 1000000) fx_duration pr 19900) d0 d1) =
    Inr \<lparr>xr_payment_id = next_payment d1, xr_amount = 19900, xr_payment_url = None,
         xr_key_url = Some ''https://k/1''\<rparr>"
  using assms
proof (rule extend_via_balance_debited[where e = "fx_env n 200 fx_extended" and s = "fx_sub 1 2 1000000"
      and td = fx_duration and tc = tc and ?d0.0 = d0
      and meta = "extension_meta (fx_sub 1 2 1000000) fx_duration pr 19900"], goal_cases)
  case (1 pay d3)
  have "\<exists>d4. call_northline_extend (fx_env n 200 fx_extended) pay (fx_sub 1 2 1000000) d3 = Inr d4"
    using balance_extension_days[OF 1(3)]
    by (simp add: call_northline_extend_def fx_extend_key Let_def split: option.split)
  then show ?case using 1(8) by auto
qed

lemma fx_extend_accepted:
  "fst (create_extension_payment (fx_env n 200 fx_extended) 1 1 2 ''balance'' None fx_db) =
     Inr \<lparr>xr_payment_id = 3, xr_amount = 19900, xr_payment_url = None, xr_key_url = Some ''https://k/1''\<rparr>"
  using create_extension_balance_eq[OF fx_get(8), of 2 1 fx_duration "fx_env n 200 fx_extended"]
  by (auto simp: str_truthy_def fx_extend_via_balance)

lemma fx_extend_with_code:
  "\<exists>i. fst (create_extension_payment (fx_env n 200 fx_extended) 1 1 2 ''balance'' (Some ''SALE'') fx_db) =
     Inr \<lparr>xr_payment_id = i, xr_amount = 19900, xr_payment_url = None, xr_key_url = Some ''https://k/1''\<rparr>"
proof -
  let ?e = "fx_env n 200 fx_extended"
  have u: "get_user (snd (validate_and_apply ?e ''SALE'' 2 fx_db)) 2 = Some (fx_user 2 102 50000)"
    by (simp add: fx_sale_eq)
  have "extension_promo ?e (Some ''SALE'') 2 fx_db = Inr (Some (projr (fst (validate_and_apply ?e ''SALE'' 2 fx_db))),
      snd (validate_and_apply ?e ''SALE'' 2 fx_db))"
    by (cases "validate_and_apply ?e ''SALE'' 2 fx_db")
      (use fx_sale[of n 200 fx_extended] in \<open>simp add: extension_promo_def str_truthy_def\<close>)
  from create_extension_code_eq[OF fx_get(8) _ _ _ fx_get(5) _ this] u
  show ?thesis by (auto simp: str_truthy_def fx_extend_via_balance)
qed

theorem balance_extension_extends_witness:
  "balance_of (snd (create_extension_payment (fx_env 5 200 fx_extended) 1 1 2 ''balance'' None fx_db)) 2
     = Some 30100"
  using balance_extension_extends[OF fx_extend_accepted refl, of 5] by simp

theorem extension_ignores_discount_witness:
  "\<exists>r. fst (create_extension_payment (fx_env 5 200 fx_extended) 1 1 2 ''balance'' (Some ''SALE'') fx_db) = Inr r
     \<and> xr_amount r = 19900"
  using extension_ignores_discount fx_extend_with_code[of 5] by fastforce

end
