(* ===== verification/AccountTheorems.thy ===== *)
theory AccountTheorems
  imports ExtensionTheorems
begin

text \<open>
  The properties of the parts around the money: promo codes and discounts, the free
  trial, registration with its referral, and the administrator's keys.
\<close>

section \<open>Promo codes\<close>

text \<open>A discounted price is never negative and never above the price; for a percentage the
  admin panel admits it is the exact price rounded down to a kopeck, and the extension
  service computes the same figure in its own way.\<close>

theorem discounted_price_exact:
  assumes "0 \<le> price" and "0 \<le> percent" and "percent \<le> 100"
  shows "0 \<le> compute_discounted_price price percent
    \<and> compute_discounted_price price percent \<le> price
    \<and> 100 * compute_discounted_price price percent \<le> price * (100 - percent)
    \<and> price * (100 - percent) < 100 * compute_discounted_price price percent + 100
    \<and> extension_price price (Some percent) = compute_discounted_price price percent"
  using discounted_nonneg[OF assms(1)] discounted_le[OF assms(1)] discounted_exact[OF assms(2,3)]
    extension_price_eq[OF assms(1)] by blast

theorem discounted_price_exact_witness:
  "compute_discounted_price 19900 15 = 16915 \<and> extension_price 19900 (Some 15) = 16915"
  using discounted_price_exact[of 19900 15] by (simp add: compute_discounted_price_def)

lemma user_activations_apply:
  "user_activations (snd (apply_balance e p uid d)) i v =
     user_activations d i v + (if get_user d uid \<noteq> None \<and> i = pc_id p \<and> v = uid then 1 else 0)"
  "total_activations (snd (apply_balance e p uid d)) i =
     total_activations d i + (if get_user d uid \<noteq> None \<and> i = pc_id p then 1 else 0)"
  by (auto simp: apply_balance_def Let_def user_activations_def total_activations_def add_promo_act_def
      increment_activations_def mod_promo_def next_promo_act_def split: option.split)

lemma promo_checks_None:
  "promo_checks e p uid d = None \<longleftrightarrow> ensure_window e p = None \<and> \<not> total_exhausted p
     \<and> user_activations d (pc_id p) uid < pc_max_per_user p
     \<and> (pc_user_id p = None \<or> pc_user_id p = Some uid)"
  by (auto simp: promo_checks_def split: option.split)


lemma fx_counts [simp]: "promo_counts_ok fx_db"
  by (simp add: promo_counts_ok_def fx_db_def empty_db_def total_activations_def)

lemma fx_gift: "validate_and_apply (fx_env n st j) ''GIFT'' 2 fx_db =
  apply_balance (fx_env n st j) (fx_promo 2 ''GIFT'' PromoBalance 500) 2 fx_db"
proof -
  have "promo_matches fx_db (str_strip ''GIFT'') = [fx_promo 2 ''GIFT'' PromoBalance 500]"
    unfolding promo_matches_def fx_db_def empty_db_def by simp (code_simp)
  moreover have "str_strip ''GIFT'' \<noteq> []" by code_simp
  moreover have "db_promo_acts fx_db = []" by (simp add: fx_db_def empty_db_def)
  ultimately show ?thesis
    by (simp add: validate_and_apply_def Let_def promo_checks_def ensure_window_def total_exhausted_def
        user_activations_def)
qed


section \<open>The free trial\<close>

lemma trial_steps:
  assumes "\<not> has_free_trial d (u_id u)" "free_tariffs d = [t]"
  shows "trial_key e u t (next_sub d) = Inr kr \<Longrightarrow> activate_free_trial e u d =
      (Inr (next_sub d), issue_referrer_trial_bonus e (u_id u) (next_sub d)
         (trial_activate e u t (next_sub d) kr (trial_pending e u t d)))"
    "trial_key e u t (next_sub d) = Inl x \<Longrightarrow> is_northline_exn x \<Longrightarrow> activate_free_trial e u d =
      (Inl (mk_error NorthLineUnavailableError (Some ''Could not issue free-trial key'') None
              [(''subscription_id'', JInt (next_sub d))]),
       trial_failed e u (next_sub d) x (trial_pending e u t d))"
  using assms by (simp_all add: activate_free_trial_def Let_def)

lemma trial_pending_sub:
  "map_option (\<lambda>s. (s_user_id s, s_is_free_trial s)) (get_sub (trial_pending e u t d) (next_sub d))
     = Some (u_id u, True)"
  by (simp add: trial_pending_def create_sub_def)

lemma trial_count_used: "0 < trial_count d uid \<Longrightarrow> has_free_trial d uid"
  using no_trial_count by fastforce

text \<open>A first free trial whose key is issued gives the user one active trial subscription for
  the days of the free tariff with the provider's key, moves no money, and a second attempt
  is refused.\<close>

theorem free_trial_granted_once:
  assumes "\<not> has_free_trial d (u_id u)" and "free_tariffs d = [t]"
    and "trial_key e u t (next_sub d) = Inr kr" and "d' = snd (activate_free_trial e u d)"
  shows "fst (activate_free_trial e u d) = Inr (next_sub d)
    \<and> (\<exists>s. get_sub d' (next_sub d) = Some s \<and> s_user_id s = u_id u \<and> s_is_free_trial s
         \<and> s_status s = SubActive \<and> s_key_url s = Some (kr_key kr)
         \<and> s_expires_at s = Some (e_now e + days_of (trial_days t)))
    \<and> trial_count d' (u_id u) = 1 \<and> db_users d' = db_users d \<and> db_bts d' = db_bts d
    \<and> activate_free_trial e2 u d' =
        (Inl (mk_error FreeTrialAlreadyUsedError (Some ''Free trial already used'') None
               [(''user_id'', JInt (u_id u))]), d')"
proof -
  note w = trial_steps(1)[OF assms(1-3)]
  have "get_sub d' (next_sub d) = get_sub (trial_activate e u t (next_sub d) kr (trial_pending e u t d)) (next_sub d)"
    by (simp add: assms(4) w)
  then obtain s where s: "get_sub d' (next_sub d) = Some s" "s_user_id s = u_id u" "s_is_free_trial s"
      "s_status s = SubActive" "s_key_url s = Some (kr_key kr)"
      "s_expires_at s = Some (e_now e + days_of (trial_days t))"
    using trial_pending_sub[of e u t d] by (auto simp: trial_activate_def)
  have "snd (activate_free_trial e u d) \<noteq> d"
  proof
    assume same: "snd (activate_free_trial e u d) = d"
    have "s \<in> set (db_subs d)" using get_sub_SomeD[OF s(1)] by (simp add: assms(4) same)
    then show False using s(2,3) assms(1) by (auto simp: has_free_trial_def list_ex_iff)
  qed
  then have cnt: "trial_count d' (u_id u) = 1"
    using no_trial_count[OF assms(1)] by (simp add: assms(4) activate_trial_count)
  then have "has_free_trial d' (u_id u)" by (simp add: trial_count_used)
  then have "activate_free_trial e2 u d' =
        (Inl (mk_error FreeTrialAlreadyUsedError (Some ''Free trial already used'') None
               [(''user_id'', JInt (u_id u))]), d')"
    by (simp add: activate_free_trial_def)
  moreover have "db_users d' = db_users d" "db_bts d' = db_bts d"
    by (simp_all add: assms(4) w)
  ultimately show ?thesis using s cnt w by auto
qed

lemma fx_trial [simp]:
  "\<not> has_free_trial fx_db i" "free_tariffs fx_db = [fx_trial_tariff]"
  "trial_days fx_trial_tariff = 5"
  by (simp_all add: has_free_trial_def free_tariffs_def fx_db_def empty_db_def fx_sub_def fx_tariff_def
      fx_trial_tariff_def trial_days_def int_truthy_def)

lemma fx_trial_key [simp]:
  "trial_key (fx_env n 200 fx_answer) u t i = Inr fx_key"
  "trial_key (fx_env n 503 j) u t i =
     Inl (nl_unavailable ''NorthLine server error'' [(''status_code'', JInt 503)])"
  by (simp_all add: trial_key_def create_key_def fx_request)

theorem free_trial_granted_once_witness:
  "trial_count (snd (activate_free_trial (fx_env 5 200 fx_answer) (fx_user 2 102 50000) fx_db)) 2 = 1"
  using free_trial_granted_once[OF fx_trial(1,2) fx_trial_key(1) refl, where u = "fx_user 2 102 50000"] by simp

text \<open>When the provider fails during a first free trial the user is told that the provider is
  unavailable and no key exists, yet the failed subscription row uses up the trial: every
  later attempt is refused as already used.\<close>

theorem failed_trial_is_used_up:
  assumes "\<not> has_free_trial d (u_id u)" and "free_tariffs d = [t]"
    and "trial_key e u t (next_sub d) = Inl x" and "is_northline_exn x"
    and "d' = snd (activate_free_trial e u d)"
  shows "fst (activate_free_trial e u d) =
      Inl (mk_error NorthLineUnavailableError (Some ''Could not issue free-trial key'') None
             [(''subscription_id'', JInt (next_sub d))])
    \<and> (\<exists>s. get_sub d' (next_sub d) = Some s \<and> s_status s = SubFailed \<and> s_key_url s = None)
    \<and> fst (activate_free_trial e2 u d') =
        Inl (mk_error FreeTrialAlreadyUsedError (Some ''Free trial already used'') None
               [(''user_id'', JInt (u_id u))])"
proof -
  note w = trial_steps(2)[OF assms(1-4)]
  have d': "d' = trial_failed e u (next_sub d) x (trial_pending e u t d)" by (simp add: assms(5) w)
  have s: "\<exists>s. get_sub d' (next_sub d) = Some s \<and> s_status s = SubFailed \<and> s_key_url s = None
      \<and> s_user_id s = u_id u \<and> s_is_free_trial s"
    unfolding d' trial_failed_def trial_pending_def by (simp add: create_sub_def)
  then have "has_free_trial d' (u_id u)"
    by (auto simp: has_free_trial_def list_ex_iff dest: get_sub_SomeD)
  then show ?thesis using s w by (auto simp: activate_free_trial_def)
qed

theorem failed_trial_is_used_up_witness:
  "fst (activate_free_trial (fx_env 9 200 fx_answer) (fx_user 2 102 50000)
      (snd (activate_free_trial (fx_env 5 503 JNull) (fx_user 2 102 50000) fx_db))) =
   Inl (mk_error FreeTrialAlreadyUsedError (Some ''Free trial already used'') None [(''user_id'', JInt 2)])"
  using failed_trial_is_used_up[OF fx_trial(1,2) fx_trial_key(2) fx_exns(1) refl, where u = "fx_user 2 102 50000"] by simp

section \<open>Registration\<close>

text \<open>The start link the profile screen shows for a user registers that user as the referrer
  of whoever opens it first: the payload parses back to the id, and a new Telegram user
  becomes a new row with no money, bound to the referrer who exists.\<close>

theorem ref_link_registers:
  assumes "user_by_tg d tg = None" and "0 \<le> i" and "get_user d i = Some r"
    and "ref_by_referee d (next_user d) = None" and "\<not> has_paid_history d (next_user d)"
    and "d' = snd (register_start e tg pf None (Some (ref_payload i)) d)"
  shows "fst (register_start e tg pf None (Some (ref_payload i)) d) = Inr (next_user d, True)
    \<and> balance_of d' (next_user d) = Some 0
    \<and> map_option rf_referrer_id (ref_by_referee d' (next_user d)) = Some i
    \<and> map_option rf_bonus_paid (ref_by_referee d' (next_user d)) = Some False
    \<and> count_referrals d' i = count_referrals d i + 1"
proof -
  let ?u = "next_user d"
  define d1 where "d1 = snd (upsert_user e tg pf None d)"
  have up: "upsert_user e tg pf None d = (Inr (?u, True), d1)"
    using assms(1) by (simp add: upsert_user_def d1_def)
  have i: "i \<noteq> ?u"
    using get_user_SomeD[OF assms(3)] fresh_id_notin[of u_id "db_users d"]
    by (metis image_eqI next_user_def)
  have users: "db_users d1 = db_users d @ [new_user e tg pf None d]" "db_refs d1 = db_refs d"
      "db_payments d1 = db_payments d"
    using assms(1) by (simp_all add: d1_def upsert_user_def)
  have g1: "get_user d1 i \<noteq> None" "get_user d1 ?u = Some (new_user e tg pf None d)"
    using assms(1,3) i by (simp_all add: d1_def upsert_user_def new_user_def)
  have bound: "ref_by_referee d1 ?u = None" "\<not> has_paid_history d1 ?u"
    using assms(4,5) by (simp_all add: ref_by_referee_def has_paid_history_def users)
  define row where "row = \<lparr>rf_id = next_ref d1, rf_referrer_id = i, rf_referee_id = ?u,
      rf_bonus_paid = False, rf_bonus_paid_at = None, rf_first_purchase_id = None,
      rf_trial_bonus_issued_at = None, rf_created_at = e_now e\<rparr>"
  have d': "d' = snd (register_referral e i ?u True d1)"
    using parse_own_payload[OF assms(2)] g1 i by (simp add: assms(6) register_start_def up)
  have refs: "db_refs d' = db_refs d @ [row]" "db_users d' = db_users d1"
    using bound i by (simp_all add: d' register_referral_def Let_def row_def users)
  have "ref_by_referee d' ?u = Some row"
    using assms(4) by (simp add: ref_by_referee_def refs row_find_append row_find_Cons row_def)
  moreover have "balance_of d' ?u = Some 0"
    using g1(2) by (simp add: balance_of_def get_user_def refs(2) new_user_def)
  moreover have "count_referrals d' i = count_referrals d i + 1"
    by (simp add: count_referrals_def refs row_def)
  ultimately show ?thesis by (simp add: register_start_def up row_def)
qed

lemma fx_registration [simp]:
  "user_by_tg fx_db 777 = None" "next_user fx_db = 3" "ref_by_referee fx_db 3 = None"
  "\<not> has_paid_history fx_db 3"
  by (simp_all add: user_by_tg_def next_user_def fresh_id_def fx_db_def empty_db_def fx_user_def
      ref_by_referee_def fx_ref_def has_paid_history_def row_find_def fx_payment_def)

theorem ref_link_registers_witness:
  "map_option rf_referrer_id (ref_by_referee (snd (register_start (fx_env 5 200 JNull) 777
      \<lparr>pf_username = None, pf_first_name = None, pf_last_name = None, pf_language_code = None\<rparr>
      None (Some (ref_payload 1)) fx_db)) 3) = Some 1"
  using ref_link_registers[OF fx_registration(1) _ fx_get(1) _ _ refl, of "fx_env 5 200 JNull"] by simp

section \<open>Administrator keys\<close>

lemma usable_until: "usable now k \<Longrightarrow> now \<le> t \<Longrightarrow> t < u \<Longrightarrow> usable t (revoke_row n u k)"
  by simp

lemma rotate_usable:
  assumes ok: "fst (rotate_with_grace e hash plain label grace kid d) = Inr i"
    and ids: "distinct (List.map ak_id (db_admin_keys d))" and t: "e_now e \<le> t"
  defines "until \<equiv> (if grace > 0 then e_now e + hours grace else e_now e)"
  shows "(\<exists>k\<in>set (db_admin_keys (snd (rotate_with_grace e hash plain label grace kid d))).
            usable t k \<and> P (ak_key_hash k))
    \<longleftrightarrow> P (hash plain) \<or> (t < until \<and> (\<exists>k\<in>set (list_usable (e_now e) d). P (ak_key_hash k)))"
proof -
  define f where "f = (\<lambda>k. if ak_id k \<in> ak_id ` set (list_usable (e_now e) d)
                then revoke_row (e_now e) until k else k)"
  have mem: "ak_id k \<in> ak_id ` set (list_usable (e_now e) d) \<longleftrightarrow> usable (e_now e) k"
    if "k \<in> set (db_admin_keys d)" for k
    using that ids by (auto simp: list_usable_def distinct_map inj_on_def)
  have f: "usable t (f k) \<longleftrightarrow> usable (e_now e) k \<and> t < until" if "k \<in> set (db_admin_keys d)" for k
    using mem[OF that] usable_later[of t k "e_now e"] t by (auto simp: f_def)
  have h: "ak_key_hash (f k) = ak_key_hash k" for k by (simp add: f_def)
  have new: "usable t (new_key_row e (hash plain) label d)"
      "ak_key_hash (new_key_row e (hash plain) label d) = hash plain"
    by (simp_all add: usable_def new_key_row_def)
  have "db_admin_keys (snd (rotate_with_grace e hash plain label grace kid d))
      = List.map f (db_admin_keys d) @ [new_key_row e (hash plain) label d]"
    unfolding until_def f_def by (rule rotate_keys(2)[OF ok])
  then show ?thesis using f new by (auto simp: list_usable_def h)
qed

text \<open>C24: After a rotation with a grace period a login succeeds exactly with the new key or, until
  the grace period ends, with a key that was usable when the rotation was made; from its end
  on only the new key works.\<close>

theorem rotation_cutover:
  assumes "fst (rotate_with_grace e hash plain label grace kid d) = Inr i"
    and "distinct (List.map ak_id (db_admin_keys d))" and "e_now e \<le> e_now e2"
    and "d' = snd (rotate_with_grace e hash plain label grace kid d)"
  shows "(\<exists>r. fst (login e2 verify key d') = Inr r) \<longleftrightarrow>
    key \<noteq> [] \<and> (verify key (hash plain)
      \<or> (e_now e2 < (if grace > 0 then e_now e + hours grace else e_now e)
         \<and> (\<exists>k\<in>set (list_usable (e_now e) d). verify key (ak_key_hash k))))"
  unfolding login_ok_iff assms(4) rotate_usable[OF assms(1-3), of "verify key"] by simp

theorem rotation_cutover_witness:
  "(\<exists>r. fst (login (fx_env 9 200 JNull) (\<lambda>k h. h = ''h'' @ k) ''new''
     (snd (rotate_with_grace (fx_env 5 200 JNull) (\<lambda>p. ''h'' @ p) ''new'' ''ops'' 0 1 fx_db))) = Inr r)"
proof -
  have keys: "db_admin_keys fx_db = []" by (simp add: fx_db_def empty_db_def)
  have "\<exists>i. fst (rotate_with_grace (fx_env 5 200 JNull) (\<lambda>p. ''h'' @ p) ''new'' ''ops'' 0 1 fx_db) = Inr i"
    by (simp add: rotate_with_grace_def add_key_def keys varchar_ok_def Let_def)
  then obtain i where i: "fst (rotate_with_grace (fx_env 5 200 JNull) (\<lambda>p. ''h'' @ p) ''new'' ''ops'' 0 1 fx_db) = Inr i" ..
  show ?thesis
    using rotation_cutover[OF i _ _ refl, of "fx_env 9 200 JNull" "\<lambda>k h. h = ''h'' @ k" "''new''"] by (simp add: keys)
qed

end
