(* ===== verification/TgHtml.thy ===== *)
theory TgHtml
  imports Logging
begin

text \<open>
  \<open>core/tg_html.py\<close> (the same file serves the worker): the admin editor's HTML is cut
  down to the tags Telegram knows.  The regular expressions are written out as scanners
  on ASCII text; each of them has one way to match, so no backtracking is left.  The
  pieces of \<open>out\<close> carry a label that says where they come from; \<open>"".join(out)\<close> forgets it.
\<close>

section \<open>Scanners\<close>

definition is_alpha :: "char \<Rightarrow> bool" where
  "is_alpha c = (let n = of_char c :: nat in (65 \<le> n \<and> n \<le> 90) \<or> (97 \<le> n \<and> n \<le> 122))"

definition name_char :: "char \<Rightarrow> bool" where
  "name_char c = (is_alpha c \<or> is_digit c \<or> c = CHR ''-'')"

text \<open>\<open>_TAG_RE\<close> right after its \<open><\<close>: closing mark, name, attributes, what follows.\<close>

definition tag_at :: "string \<Rightarrow> (bool \<times> string \<times> string \<times> string) option" where
  "tag_at s =
     (let closing = (s \<noteq> [] \<and> hd s = CHR ''/'');
          s1 = (if closing then tl s else s)
      in if s1 = [] \<or> \<not> is_alpha (hd s1) then None
         else let name = takeWhile name_char s1;
                  rest = dropWhile name_char s1
              in (case dropWhile (\<lambda>c. c \<noteq> CHR ''>'') rest of
                    [] \<Rightarrow> None
                  | _ # after \<Rightarrow> Some (closing, name, takeWhile (\<lambda>c. c \<noteq> CHR ''>'') rest, after)))"

lemma dropWhile_length: "length (dropWhile P xs) \<le> length xs"
  by (induction xs) auto

lemma tag_at_length:
  assumes "tag_at s = Some (cl, name, attrs, after)"
  shows "length after < length s"
proof -
  define s1 where "s1 = (if s \<noteq> [] \<and> hd s = CHR ''/'' then tl s else s)"
  have "length s1 \<le> length s" by (simp add: s1_def)
  moreover have "\<exists>c. dropWhile (\<lambda>c. c \<noteq> CHR ''>'') (dropWhile name_char s1) = c # after"
    using assms by (auto simp: tag_at_def Let_def s1_def[symmetric] split: if_splits list.splits)
  moreover have "length (dropWhile (\<lambda>c. c \<noteq> CHR ''>'') (dropWhile name_char s1)) \<le> length s1"
    using dropWhile_length order_trans by blast
  ultimately show ?thesis by auto
qed

datatype token = TokText string | TokTag bool string string

text \<open>\<open>_TAG_RE.finditer\<close> with the text between the matches; the first argument is the text so far.\<close>

function tokens :: "string \<Rightarrow> string \<Rightarrow> token list" where
  "tokens txt [] = (if txt = [] then [] else [TokText txt])"
| "tokens txt (c # s) =
     (if c = CHR ''<'' then
        (case tag_at s of
           None \<Rightarrow> tokens (txt @ [c]) s
         | Some (cl, name, attrs, after) \<Rightarrow>
             (if txt = [] then [] else [TokText txt])
             @ TokTag cl (str_lower name) attrs # tokens [] after)
      else tokens (txt @ [c]) s)"
  by pat_completeness auto
termination
  by (relation "measure (\<lambda>(txt, s). length s)") (auto dest: tag_at_length)

definition attr_key_char :: "char \<Rightarrow> bool" where
  "attr_key_char c = (is_alpha c \<or> is_digit c \<or> c \<in> {CHR ''_'', CHR '':'', CHR ''.'', CHR ''-''})"

definition quoted :: "char \<Rightarrow> string \<Rightarrow> (string \<times> string) option" where
  "quoted q s = (if s \<noteq> [] \<and> hd s = q \<and> q \<in> set (tl s)
                 then Some (takeWhile (\<lambda>c. c \<noteq> q) (tl s), tl (dropWhile (\<lambda>c. c \<noteq> q) (tl s)))
                 else None)"

definition bare_char :: "char \<Rightarrow> bool" where
  "bare_char c = (\<not> is_space c \<and> c \<noteq> CHR ''>'')"

text \<open>\<open>_ATTR_RE\<close> at a given place: key, value and the rest.\<close>

definition attr_at :: "string \<Rightarrow> (string \<times> string \<times> string) option" where
  "attr_at s =
     (if s = [] \<or> \<not> (is_alpha (hd s) \<or> hd s = CHR ''_'' \<or> hd s = CHR '':'') then None
      else let key = takeWhile attr_key_char s;
               r = dropWhile is_space (dropWhile attr_key_char s)
           in if r = [] \<or> hd r \<noteq> CHR ''='' then None
              else let v = dropWhile is_space (tl r) in
                (case quoted CHR 0x22 v of
                   Some (x, rest) \<Rightarrow> Some (key, x, rest)
                 | None \<Rightarrow> (case quoted CHR 0x27 v of
                     Some (x, rest) \<Rightarrow> Some (key, x, rest)
                   | None \<Rightarrow> if v = [] \<or> \<not> bare_char (hd v) then None
                             else Some (key, takeWhile bare_char v, dropWhile bare_char v))))"

lemma attr_at_length:
  assumes "attr_at s = Some (k, v, rest)"
  shows "length rest < length s"
proof -
  define r where "r = dropWhile is_space (dropWhile attr_key_char s)"
  define v where "v = dropWhile is_space (tl r)"
  have "r \<noteq> []" using assms by (auto simp: attr_at_def Let_def r_def[symmetric] split: if_splits)
  then have "length v < length r"
    using dropWhile_length[of is_space "tl r"] by (cases r) (auto simp: v_def)
  moreover have "length r \<le> length s"
    unfolding r_def using dropWhile_length order_trans by blast
  moreover have "length rest \<le> length v"
  proof -
    have "length x \<le> length v" if "quoted q v = Some (y, x)" for q y x
      using that dropWhile_length[of "\<lambda>c. c \<noteq> q" "tl v"]
      by (auto simp: quoted_def split: if_splits)
    then show ?thesis
      using assms dropWhile_length[of bare_char v]
      by (auto simp: attr_at_def Let_def r_def[symmetric] v_def[symmetric] split: if_splits option.splits)
  qed
  ultimately show ?thesis by simp
qed

function attrs_of :: "string \<Rightarrow> (string \<times> string) list" where
  "attrs_of [] = []"
| "attrs_of (c # s) =
     (case attr_at (c # s) of
        None \<Rightarrow> attrs_of s
      | Some (k, v, rest) \<Rightarrow> (str_lower k, v) # attrs_of rest)"
  by pat_completeness auto
termination
  by (relation "measure length") (auto dest: attr_at_length)

text \<open>\<open>attrs.get(key, "")\<close>: the last occurrence of a key wins.\<close>

definition attr_get :: "string \<Rightarrow> (string \<times> string) list \<Rightarrow> string" where
  "attr_get k kvs = (case map_of (rev kvs) k of None \<Rightarrow> [] | Some v \<Rightarrow> v)"

section \<open>Rendering\<close>

definition allowed_bare :: "string list" where
  "allowed_bare = [''b'', ''strong'', ''i'', ''em'', ''u'', ''ins'', ''s'', ''strike'', ''del'',
                   ''code'', ''pre'', ''blockquote'', ''tg-spoiler'']"

definition unwrap_tags :: "string list" where
  "unwrap_tags = [''p'', ''div'', ''section'', ''article'', ''header'', ''footer'']"

definition break_tags :: "string list" where
  "break_tags = [''br'', ''hr'']"

text \<open>\<open>str.split()\<close>: the words between blanks; the first argument is the word so far.\<close>

fun py_words :: "string \<Rightarrow> string \<Rightarrow> string list" where
  "py_words w [] = (if w = [] then [] else [w])"
| "py_words w (c # s) =
     (if is_space c then (if w = [] then py_words [] s else w # py_words [] s) else py_words (w @ [c]) s)"

definition quote :: string where "quote = [CHR 0x22]"

definition render_open_tag :: "string \<Rightarrow> (string \<times> string) list \<Rightarrow> string" where
  "render_open_tag name attrs =
     (if name = ''a'' then
        (let href = str_strip (attr_get ''href'' attrs)
         in if href = [] then [] else ''<a href='' @ quote @ html_escape href @ quote @ ''>'')
      else if name = ''tg-emoji'' then
        (let i = str_strip (attr_get ''emoji-id'' attrs)
         in if i = [] then [] else ''<tg-emoji emoji-id='' @ quote @ html_escape i @ quote @ ''>'')
      else if name = ''span'' then
        (if ''tg-spoiler'' \<in> set (py_words [] (attr_get ''class'' attrs))
         then ''<span class='' @ quote @ ''tg-spoiler'' @ quote @ ''>'' else [])
      else if name = ''code'' then
        (let lang = attr_get ''class'' attrs
         in if starts_with ''language-'' lang
            then ''<code class='' @ quote @ html_escape lang @ quote @ ''>'' else ''<code>'')
      else if name \<in> set allowed_bare then ''<'' @ name @ ''>''
      else [])"

definition render_close_tag :: "string \<Rightarrow> bool \<Rightarrow> string" where
  "render_close_tag name had_open =
     (if \<not> had_open then []
      else if name \<in> set allowed_bare \<or> name \<in> set [''a'', ''tg-emoji'', ''span'', ''code'']
      then ''</'' @ name @ ''>'' else [])"

section \<open>The converter\<close>

definition prefix_ci :: "string \<Rightarrow> string \<Rightarrow> bool" where
  "prefix_ci p s = (str_lower (take (length p) s) = p)"

definition escaped_names :: "string list" where
  "escaped_names = [''tg-emoji'', ''tg-spoiler'', ''span'', ''b'', ''strong'', ''i'', ''em'', ''u'',
                    ''s'', ''code'', ''pre'', ''blockquote'', ''a'']"

text \<open>The lazy body: everything up to the first escaped bracket, which must be a closing one.\<close>

fun until_gt :: "string \<Rightarrow> (string \<times> string) option" where
  "until_gt [] = None"
| "until_gt (c # s) =
     (if prefix_ci ''&gt;'' (c # s) then Some ([], drop 4 (c # s))
      else if prefix_ci ''&lt;'' (c # s) then None
      else map_option (\<lambda>(b, r). (c # b, r)) (until_gt s))"

lemma until_gt_length: "until_gt s = Some (b, r) \<Longrightarrow> length r \<le> length s"
  by (induction s arbitrary: b) (auto split: if_splits)

definition escaped_tag :: "string \<Rightarrow> (string \<times> string) option" where
  "escaped_tag s =
     (if prefix_ci ''&lt;'' s \<and>
         (let b = drop 4 s; n = (if b \<noteq> [] \<and> hd b = CHR ''/'' then tl b else b)
          in list_ex (\<lambda>name. prefix_ci name n) escaped_names)
      then until_gt (drop 4 s) else None)"

function py_replace :: "string \<Rightarrow> string \<Rightarrow> string \<Rightarrow> string" where
  "py_replace old new [] = []"
| "py_replace old new (c # s) =
     (if old \<noteq> [] \<and> starts_with old (c # s)
      then new @ py_replace old new (drop (length old) (c # s)) else c # py_replace old new s)"
  by pat_completeness auto
termination
  by (relation "measure (\<lambda>(old, new, s). length s)") auto

function unescape_tags :: "string \<Rightarrow> string" where
  "unescape_tags [] = []"
| "unescape_tags (c # s) =
     (case escaped_tag (c # s) of
        Some (inner, rest) \<Rightarrow>
          ''<'' @ py_replace ''&amp;'' ''&'' (py_replace ''&quot;'' quote inner) @ ''>'' @ unescape_tags rest
      | None \<Rightarrow> c # unescape_tags s)"
  by pat_completeness auto
termination
proof (relation "measure length")
  fix c s x inner rest assume "escaped_tag (c # s) = Some x" "(inner, rest) = x"
  then have e: "until_gt (drop 4 (c # s)) = Some (inner, rest)"
    by (auto simp: escaped_tag_def split: if_splits)
  from until_gt_length[OF e] have "length rest \<le> length s - 3" by simp
  moreover have "length rest < Suc (length s)" using calculation by simp
  ultimately show "(rest, c # s) \<in> measure length" by simp
qed simp_all

datatype piece = PText string | POpen string string | PClose string string

fun piece_str :: "piece \<Rightarrow> string" where
  "piece_str (PText t) = t"
| "piece_str (POpen n t) = t"
| "piece_str (PClose n t) = t"

text \<open>\<open>open_stack\<close> with its end first.\<close>

type_synonym tag_stack = "(string \<times> bool) list"

fun pop_open :: "string \<Rightarrow> tag_stack \<Rightarrow> bool \<times> tag_stack" where
  "pop_open n [] = (False, [])"
| "pop_open n ((m, b) # st) =
     (if m = n then (b, st) else (case pop_open n st of (h, st') \<Rightarrow> (h, (m, b) # st')))"

fun tg_step :: "token \<Rightarrow> piece list \<times> tag_stack \<Rightarrow> piece list \<times> tag_stack" where
  "tg_step (TokText t) (out, st) = (out @ [PText t], st)"
| "tg_step (TokTag True name attrs) (out, st) =
     (case pop_open name st of (had, st') \<Rightarrow>
        if name = ''p'' then (out @ [PText [CHR 0x0A, CHR 0x0A]], st')
        else if name \<in> set unwrap_tags then (out, st')
        else (out @ [PClose name (render_close_tag name had)], st'))"
| "tg_step (TokTag False name attrs) (out, st) =
     (if name \<in> set break_tags then (out @ [PText [CHR 0x0A]], st)
      else if name = ''p'' \<or> name \<in> set unwrap_tags then (out, (name, False) # st)
      else let r = render_open_tag name (attrs_of attrs) in (out @ [POpen name r], (name, r \<noteq> []) # st))"

definition tg_pieces :: "string \<Rightarrow> piece list" where
  "tg_pieces src =
     (case fold tg_step (tokens [] (unescape_tags src)) ([], []) of
        (out, st) \<Rightarrow> out @ List.map (\<lambda>(n, h). PClose n (render_close_tag n True)) (filter snd st))"

text \<open>\<open>re.sub(r"\n{3,}", "\n\n", s)\<close>; the first argument counts the newlines just before.\<close>

fun squeeze :: "nat \<Rightarrow> string \<Rightarrow> string" where
  "squeeze n [] = []"
| "squeeze n (c # s) =
     (if c = CHR 0x0A then (if n \<ge> 2 then squeeze n s else c # squeeze (Suc n) s)
      else c # squeeze 0 s)"

definition to_telegram_html :: "string \<Rightarrow> string" where
  "to_telegram_html src = str_strip (squeeze 0 (List.concat (List.map piece_str (tg_pieces src))))"

section \<open>Every tag that is opened is closed\<close>

definition telegram_tags :: "string list" where
  "telegram_tags = allowed_bare @ [''a'', ''tg-emoji'', ''span'']"

fun opens :: "string \<Rightarrow> piece \<Rightarrow> bool" where
  "opens n (POpen m t) = (m = n \<and> t \<noteq> [])"
| "opens n p = False"

fun closes :: "string \<Rightarrow> piece \<Rightarrow> bool" where
  "closes n (PClose m t) = (m = n \<and> t \<noteq> [])"
| "closes n p = False"

definition live :: "string \<Rightarrow> tag_stack \<Rightarrow> int" where
  "live n st = count_where (\<lambda>(m, h). m = n \<and> h) st"

lemma render_open_known: "render_open_tag n a \<noteq> [] \<Longrightarrow> n \<in> set telegram_tags"
  by (auto simp: render_open_tag_def telegram_tags_def Let_def allowed_bare_def split: if_splits)

lemma render_close_known: "n \<in> set telegram_tags \<Longrightarrow> render_close_tag n True \<noteq> []"
  by (auto simp: render_close_tag_def telegram_tags_def)

lemma unwrap_unknown: "n \<in> set unwrap_tags \<Longrightarrow> n \<notin> set telegram_tags"
  by (auto simp: unwrap_tags_def telegram_tags_def allowed_bare_def)

lemma render_close_False [simp]: "render_close_tag n False = []"
  by (simp add: render_close_tag_def)

lemma live_Nil [simp]: "live n [] = 0"
  and live_Cons: "live n ((m, h) # st) = live n st + (if m = n \<and> h then 1 else 0)"
  by (simp_all add: live_def count_where_Cons)

lemma pop_open_live:
  "pop_open m st = (had, st') \<Longrightarrow> live n st = live n st' + (if m = n \<and> had then 1 else 0)"
  by (induction m st arbitrary: had st' rule: pop_open.induct)
    (auto simp: live_Cons split: if_splits prod.splits)

lemma pop_open_subset: "pop_open m st = (had, st') \<Longrightarrow> set st' \<subseteq> set st \<and> (had \<longrightarrow> (m, True) \<in> set st)"
  by (induction m st arbitrary: had st' rule: pop_open.induct)
    (auto split: if_splits prod.splits)

definition stack_known :: "tag_stack \<Rightarrow> bool" where
  "stack_known st \<longleftrightarrow> (\<forall>(m, h)\<in>set st. h \<longrightarrow> m \<in> set telegram_tags)"

definition tags_balanced :: "piece list \<times> tag_stack \<Rightarrow> bool" where
  "tags_balanced s \<longleftrightarrow> stack_known (snd s)
     \<and> (\<forall>n. count_where (opens n) (fst s) = count_where (closes n) (fst s) + live n (snd s))"

lemma tg_step_balanced:
  assumes "tags_balanced s"
  shows "tags_balanced (tg_step t s)"
proof -
  obtain out st where s: "s = (out, st)" by (cases s)
  show ?thesis
  proof (cases t)
    case (TokText x)
    then show ?thesis using assms by (simp add: s tags_balanced_def)
  next
    case (TokTag cl name attrs)
    show ?thesis
    proof (cases cl)
      case True
      obtain had st' where p: "pop_open name st = (had, st')" by (cases "pop_open name st")
      have known: "had \<Longrightarrow> name \<in> set telegram_tags" "stack_known st'"
        using assms pop_open_subset[OF p] by (auto simp: s tags_balanced_def stack_known_def)
      then have "had \<Longrightarrow> name \<noteq> ''p'' \<and> name \<notin> set unwrap_tags"
        using unwrap_unknown by (auto simp: unwrap_tags_def)
      then show ?thesis
        using assms p known pop_open_live[OF p] render_close_known[of name]
        by (cases had) (auto simp: s TokTag True tags_balanced_def)
    next
      case False
      then show ?thesis
        using assms render_open_known[of name "attrs_of attrs"]
        by (auto simp: s TokTag tags_balanced_def stack_known_def live_Cons Let_def)
    qed
  qed
qed

lemma fold_balanced: "tags_balanced s \<Longrightarrow> tags_balanced (fold tg_step ts s)"
  by (induction ts arbitrary: s) (simp_all add: tg_step_balanced)

lemma closers_count:
  assumes "stack_known st"
  shows "count_where (closes n) (List.map (\<lambda>(n, h). PClose n (render_close_tag n True)) (filter snd st)) = live n st"
    and "count_where (opens n) (List.map (\<lambda>(n, h). PClose n (render_close_tag n True)) (filter snd st)) = 0"
  using assms
  by (induction st) (auto simp: stack_known_def count_where_Cons live_Cons render_close_known)

lemma count_where_append2: "count_where P (xs @ ys) = count_where P xs + count_where P ys"
  by (simp add: count_where_def)

lemma pieces_balanced: "count_where (opens n) (tg_pieces src) = count_where (closes n) (tg_pieces src)"
proof -
  let ?s = "fold tg_step (tokens [] (unescape_tags src)) ([], [])"
  obtain out st where s: "?s = (out, st)" by (cases ?s)
  have "tags_balanced ?s" by (rule fold_balanced) (simp add: tags_balanced_def stack_known_def)
  then show ?thesis
    by (simp add: tg_pieces_def s count_where_append2 tags_balanced_def closers_count)
qed

section \<open>The shape of the tags\<close>

definition no_angle :: "string \<Rightarrow> bool" where
  "no_angle s \<longleftrightarrow> CHR ''<'' \<notin> set s \<and> CHR ''>'' \<notin> set s"

lemma html_escape_no_angle: "no_angle (html_escape s)"
  by (auto simp: no_angle_def html_escape_def split: if_splits)

lemma no_angle_append [simp]: "no_angle (a @ b) \<longleftrightarrow> no_angle a \<and> no_angle b"
  by (auto simp: no_angle_def)

definition tag_ok :: "piece \<Rightarrow> bool" where
  "tag_ok p = (case p of
     PText t \<Rightarrow> True
   | POpen n t \<Rightarrow> t \<noteq> [] \<longrightarrow> n \<in> set telegram_tags \<and>
       (\<exists>body. t = ''<'' @ n @ body @ ''>'' \<and> no_angle body)
   | PClose n t \<Rightarrow> t \<noteq> [] \<longrightarrow> n \<in> set telegram_tags \<and> t = ''</'' @ n @ ''>'')"

lemma render_open_shape:
  assumes "render_open_tag n a \<noteq> []"
  shows "\<exists>body. render_open_tag n a = ''<'' @ n @ body @ ''>'' \<and> no_angle body"
proof -
  have q: "no_angle quote" "no_angle []" by (simp_all add: quote_def no_angle_def)
  have attr: "\<exists>body. ''<'' @ n @ mid @ quote @ v @ quote @ ''>'' = ''<'' @ n @ body @ ''>'' \<and> no_angle body"
    if "no_angle mid" "no_angle v" for mid v
    by (rule exI[of _ "mid @ quote @ v @ quote"]) (simp add: that q)
  have mids: "no_angle '' href=''" "no_angle '' emoji-id=''" "no_angle '' class=''" "no_angle ''tg-spoiler''"
    by (simp_all add: no_angle_def)
  consider "n = ''a''" | "n = ''tg-emoji''" | "n = ''span''"
    | "n = ''code''" | "render_open_tag n a = ''<'' @ n @ ''>''"
    using assms by (auto simp: render_open_tag_def split: if_splits)
  then show ?thesis
  proof cases
    case 1
    then show ?thesis
      using attr[OF mids(1) html_escape_no_angle, of "str_strip (attr_get ''href'' a)"] assms
      by (simp add: render_open_tag_def Let_def split: if_splits)
  next
    case 2
    then show ?thesis
      using attr[OF mids(2) html_escape_no_angle, of "str_strip (attr_get ''emoji-id'' a)"] assms
      by (simp add: render_open_tag_def Let_def split: if_splits)
  next
    case 3
    then show ?thesis
      using attr[OF mids(3,4)] assms by (simp add: render_open_tag_def split: if_splits)
  next
    case 4
    then show ?thesis
      using attr[OF mids(3) html_escape_no_angle, of "attr_get ''class'' a"] q
      by (auto simp: render_open_tag_def Let_def intro: exI[of _ "[]"])
  next
    case 5
    then show ?thesis using q by (intro exI[of _ "[]"]) simp
  qed
qed

lemma tg_step_ok:
  assumes "tags_balanced s" "\<forall>p\<in>set (fst s). tag_ok p"
  shows "\<forall>p\<in>set (fst (tg_step t s)). tag_ok p"
proof -
  obtain out st where s: "s = (out, st)" by (cases s)
  show ?thesis
  proof (cases t)
    case (TokText x)
    then show ?thesis using assms by (simp add: s tag_ok_def)
  next
    case (TokTag cl name attrs)
    obtain had st' where p: "pop_open name st = (had, st')" by (cases "pop_open name st")
    have "had \<Longrightarrow> name \<in> set telegram_tags"
      using assms(1) pop_open_subset[OF p] by (auto simp: s tags_balanced_def stack_known_def)
    then have "tag_ok (PClose name (render_close_tag name had))"
      by (auto simp: tag_ok_def render_close_tag_def)
    moreover have "tag_ok (POpen name (render_open_tag name (attrs_of attrs)))"
      using render_open_shape render_open_known by (auto simp: tag_ok_def)
    ultimately show ?thesis
      using assms(2) p by (cases cl) (auto simp: s TokTag Let_def tag_ok_def[of "PText x" for x])
  qed
qed

definition pieces_fine :: "piece list \<times> tag_stack \<Rightarrow> bool" where
  "pieces_fine s \<longleftrightarrow> tags_balanced s \<and> list_all tag_ok (fst s)"

lemma fold_fine: "pieces_fine s \<Longrightarrow> pieces_fine (fold tg_step ts s)"
proof (induction ts arbitrary: s)
  case (Cons t ts)
  have "pieces_fine (tg_step t s)"
    using tg_step_balanced[of s t] tg_step_ok[of s t] Cons.prems
    unfolding pieces_fine_def list_all_iff by blast
  then show ?case using Cons.IH by simp
qed simp

lemma pieces_ok: "p \<in> set (tg_pieces src) \<Longrightarrow> tag_ok p"
proof -
  obtain out st where s: "fold tg_step (tokens [] (unescape_tags src)) ([], []) = (out, st)"
    by (cases "fold tg_step (tokens [] (unescape_tags src)) ([], [])")
  have "pieces_fine ([], [])" by (simp add: pieces_fine_def tags_balanced_def stack_known_def)
  from fold_fine[OF this, of "tokens [] (unescape_tags src)"]
  have fine: "list_all tag_ok out" "stack_known st" by (simp_all add: s pieces_fine_def tags_balanced_def)
  have "tag_ok (PClose n (render_close_tag n True))" if "(n, True) \<in> set st" for n
    using that fine(2) by (auto simp: tag_ok_def stack_known_def render_close_tag_def)
  then show "p \<in> set (tg_pieces src) \<Longrightarrow> tag_ok p"
    using fine(1) by (auto simp: tg_pieces_def s list_all_iff)
qed

section \<open>Text without markup\<close>

lemma tokens_plain: "CHR ''<'' \<notin> set s \<Longrightarrow> tokens w s = (if w @ s = [] then [] else [TokText (w @ s)])"
  by (induction s arbitrary: w) auto

lemma unescape_plain: "CHR ''&'' \<notin> set s \<Longrightarrow> unescape_tags s = s"
proof (induction s)
  case (Cons c s)
  have "\<not> prefix_ci ''&lt;'' (c # s)"
  proof
    assume "prefix_ci ''&lt;'' (c # s)"
    then have "lower_char c = CHR ''&''" by (simp add: prefix_ci_def str_lower_def)
    then have "c = CHR ''&''" by (auto simp: lower_char_def split: option.splits if_splits dest!: map_of_SomeD)
    then show False using Cons.prems by simp
  qed
  then show ?case using Cons by (simp add: escaped_tag_def)
qed simp

lemma plain_text:
  assumes "CHR ''<'' \<notin> set s" "CHR ''&'' \<notin> set s"
  shows "to_telegram_html s = str_strip (squeeze 0 s)"
  using assms
  by (simp add: to_telegram_html_def tg_pieces_def unescape_plain tokens_plain)

section \<open>Properties\<close>



text \<open>The result is not always markup Telegram accepts: a bracket that starts no tag is passed
  on unescaped, tags closed in the wrong order stay crossed, and escaped text whose first
  letters happen to be a Telegram tag, such as a quoted script tag, is turned into a real
  tag and dropped.\<close>

theorem telegram_html_gaps:
  "to_telegram_html ''1 < 2'' = ''1 < 2''
   \<and> to_telegram_html ''<b><i>x</b></i>'' = ''<b><i>x</b></i>''
   \<and> to_telegram_html ''use &lt;script&gt; here'' = ''use  here''
   \<and> to_telegram_html ''<p>a</p><p>b</p>'' = ''a'' @ [CHR 0x0A, CHR 0x0A] @ ''b''
   \<and> to_telegram_html ''<h2>T</h2><a href=x target=y>l</a>'' = ''T<a href='' @ quote @ ''x'' @ quote @ ''>l</a>''"
  by code_simp

end
