(* ===== verification/Dispatcher.thy ===== *)
theory Dispatcher
  imports TgHtml Outbox Invoices
begin

text \<open>
  The way of a queued message to Telegram: the outbox endpoints of the backend
  (\<open>api/bot/outbox.py\<close>), the worker's dispatcher (\<open>outbox_dispatcher.py\<close>) and its
  Telegram client (\<open>telegram_client.py\<close>).  The table \<open>texts\<close> is the function
  \<open>templates\<close>.  The waits between two attempts are not observable.
\<close>

section \<open>The Telegram client\<close>

record tg_envelope =
  tg_ok :: bool
  tg_result :: json
  tg_error_code :: json
  tg_description :: json
  tg_parameters :: json

definition get_or :: "json \<Rightarrow> string \<Rightarrow> (string \<times> json) list \<Rightarrow> json" where
  "get_or dflt k kvs = (case map_of kvs k of None \<Rightarrow> dflt | Some v \<Rightarrow> v)"

definition tg_failure :: "json \<Rightarrow> string \<Rightarrow> tg_envelope" where
  "tg_failure code descr = \<lparr>tg_ok = False, tg_result = JNull, tg_error_code = code,
     tg_description = JStr descr, tg_parameters = JNull\<rparr>"

definition parse_envelope :: "int \<Rightarrow> json option \<Rightarrow> tg_envelope" where
  "parse_envelope status body =
     (case body of
        None \<Rightarrow> tg_failure (JInt status) (''non-json response (status='' @ py_str status @ '')'')
      | Some (JObj kvs) \<Rightarrow>
          (let ok = json_truthy (get_or (JBool False) ''ok'' kvs) in
           \<lparr>tg_ok = ok, tg_result = get_or JNull ''result'' kvs,
            tg_error_code = (if ok then JNull else get_or (JInt status) ''error_code'' kvs),
            tg_description = get_or JNull ''description'' kvs,
            tg_parameters = get_or JNull ''parameters'' kvs\<rparr>)
      | Some _ \<Rightarrow> tg_failure (JInt status) ''unexpected response shape'')"

text \<open>Seconds; a fraction in Telegram's answer is not modelled.\<close>

definition extract_retry_after :: "tg_envelope \<Rightarrow> int" where
  "extract_retry_after env =
     (case tg_parameters env of
        JObj kvs \<Rightarrow> (case map_of kvs ''retry_after'' of
                       Some (JInt v) \<Rightarrow> if v > 0 then min v 30 else 1
                     | Some (JBool b) \<Rightarrow> 1
                     | _ \<Rightarrow> 1)
      | _ \<Rightarrow> 1)"

text \<open>\<open>for attempt in (1, 2)\<close>: \<open>n\<close> is the attempt, counted from 0; the second result counts the calls.\<close>

fun tg_attempts :: "(nat \<Rightarrow> http_outcome) \<Rightarrow> nat \<Rightarrow> nat \<Rightarrow> tg_envelope \<times> nat" where
  "tg_attempts out n left =
     (case out n of
        TransportError m \<Rightarrow> (tg_failure (JInt (-1)) (''network error: '' @ m), Suc n)
      | HttpResponse status body t \<Rightarrow>
          if status = 429
          then (case left of 0 \<Rightarrow> (parse_envelope status body, Suc n)
                | Suc left' \<Rightarrow> tg_attempts out (Suc n) left')
          else (parse_envelope status body, Suc n))"

declare tg_attempts.simps [simp del]

definition tg_call :: "env \<Rightarrow> string \<Rightarrow> json \<Rightarrow> tg_envelope" where
  "tg_call e meth body = fst (tg_attempts (e_http e ''telegram'' (''POST /'' @ meth) meth body) 0 1)"

definition opt_field :: "string \<Rightarrow> json option \<Rightarrow> (string \<times> json) list" where
  "opt_field k v = (case v of None \<Rightarrow> [] | Some JNull \<Rightarrow> [] | Some j \<Rightarrow> [(k, j)])"

definition truthy_field :: "string \<Rightarrow> json \<Rightarrow> (string \<times> json) list" where
  "truthy_field k v = (if json_truthy v then [(k, v)] else [])"

definition send_message_body :: "int \<Rightarrow> json \<Rightarrow> json \<Rightarrow> json option \<Rightarrow> json option \<Rightarrow> json" where
  "send_message_body chat msg parse_mode markup no_preview =
     JObj ([(''chat_id'', JInt chat), (''text'', msg)] @ truthy_field ''parse_mode'' parse_mode
           @ opt_field ''reply_markup'' markup @ opt_field ''disable_web_page_preview'' no_preview)"

definition send_photo_body :: "int \<Rightarrow> json \<Rightarrow> json option \<Rightarrow> json \<Rightarrow> json option \<Rightarrow> json" where
  "send_photo_body chat photo caption parse_mode markup =
     JObj ([(''chat_id'', JInt chat), (''photo'', photo)] @ opt_field ''caption'' caption
           @ truthy_field ''parse_mode'' parse_mode @ opt_field ''reply_markup'' markup)"

section \<open>Templates\<close>

text \<open>
  \<open>str.format_map(_SafeDict(kwargs))\<close>.  A field with an attribute, an index, a
  conversion or a format specification is left to \<open>special\<close>; \<open>Inl\<close> is the
  exception it raises.
\<close>

definition fmt_value_error :: exn where "fmt_value_error = PyExn ''ValueError'' ''bad format string''"

definition fmt_field :: "(string \<Rightarrow> exn + string) \<Rightarrow> (string \<times> json) list \<Rightarrow> string \<Rightarrow> exn + string" where
  "fmt_field special kwargs f =
     (if list_ex (\<lambda>c. c \<in> {CHR ''.'', CHR ''['', CHR ''!'', CHR '':'', CHR ''{''}) f then special f
      else if f = [] \<or> list_all is_digit f then Inl fmt_value_error
      else (case map_of kwargs f of None \<Rightarrow> Inr (''{'' @ f @ ''}'') | Some v \<Rightarrow> Inr (json_str v)))"

function format_map :: "(string \<Rightarrow> exn + string) \<Rightarrow> (string \<times> json) list \<Rightarrow> string \<Rightarrow> exn + string" where
  "format_map sp kw [] = Inr []"
| "format_map sp kw (c # s) =
     (if c = CHR ''{'' then
        (if s \<noteq> [] \<and> hd s = CHR ''{''
         then (case format_map sp kw (tl s) of Inl x \<Rightarrow> Inl x | Inr r \<Rightarrow> Inr (c # r))
         else (case dropWhile (\<lambda>c. c \<noteq> CHR ''}'') s of
                 [] \<Rightarrow> Inl fmt_value_error
               | _ # rest \<Rightarrow>
                   (case fmt_field sp kw (takeWhile (\<lambda>c. c \<noteq> CHR ''}'') s) of
                      Inl x \<Rightarrow> Inl x
                    | Inr v \<Rightarrow> (case format_map sp kw rest of Inl x \<Rightarrow> Inl x | Inr r \<Rightarrow> Inr (v @ r)))))
      else if c = CHR ''}'' then
        (if s \<noteq> [] \<and> hd s = CHR ''}''
         then (case format_map sp kw (tl s) of Inl x \<Rightarrow> Inl x | Inr r \<Rightarrow> Inr (c # r))
         else Inl fmt_value_error)
      else (case format_map sp kw s of Inl x \<Rightarrow> Inl x | Inr r \<Rightarrow> Inr (c # r)))"
  by pat_completeness auto
termination
proof (relation "measure (\<lambda>(sp, kw, s). length s)")
  fix sp :: "string \<Rightarrow> exn + string" and kw :: "(string \<times> json) list" and c s x rest y
  assume "dropWhile (\<lambda>c. c \<noteq> CHR ''}'') s = x # rest"
  then have "length (x # rest) \<le> length s" using dropWhile_length by metis
  then show "((sp, kw, rest), sp, kw, c # s) \<in> measure (\<lambda>(sp, kw, s). length s)" by simp
qed auto

definition is_format_error :: "exn \<Rightarrow> bool" where
  "is_format_error x = (case x of
     PyExn n m \<Rightarrow> n \<in> set [''IndexError'', ''KeyError'', ''ValueError''] | AppExn a \<Rightarrow> False)"

definition render_template ::
  "(string \<Rightarrow> exn + string) \<Rightarrow> string \<Rightarrow> (string \<times> json) list \<Rightarrow> exn + string" where
  "render_template sp html kwargs =
     (case format_map sp kwargs html of
        Inr r \<Rightarrow> Inr r
      | Inl x \<Rightarrow> if is_format_error x then Inr html else Inl x)"

section \<open>The outbox endpoints\<close>

text \<open>\<open>isinstance(x, str) and x\<close>.\<close>

definition is_nonempty_str :: "json option \<Rightarrow> bool" where
  "is_nonempty_str j = (case j of Some (JStr s) \<Rightarrow> s \<noteq> [] | Some (JText n as) \<Rightarrow> True | _ \<Rightarrow> False)"

definition is_arr :: "json \<Rightarrow> bool" where
  "is_arr j = (case j of JArr xs \<Rightarrow> True | _ \<Rightarrow> False)"

definition reply_button :: "json \<Rightarrow> json option" where
  "reply_button btn =
     (case btn of
        JObj kvs \<Rightarrow>
          if \<not> is_nonempty_str (map_of kvs ''text'') then None
          else (let t = (''text'', the (map_of kvs ''text'')) in
                if is_nonempty_str (map_of kvs ''url'')
                then Some (JObj [t, (''url'', the (map_of kvs ''url''))])
                else if is_nonempty_str (map_of kvs ''callback_data'')
                then Some (JObj [t, (''callback_data'', the (map_of kvs ''callback_data''))])
                else None)
      | _ \<Rightarrow> None)"

definition reply_row :: "json \<Rightarrow> json option" where
  "reply_row row =
     (case row of
        JArr btns \<Rightarrow> (case List.map_filter reply_button btns of [] \<Rightarrow> None | bs \<Rightarrow> Some (JArr bs))
      | _ \<Rightarrow> None)"

definition buttons_to_reply_markup :: "json \<Rightarrow> json option" where
  "buttons_to_reply_markup buttons =
     (case buttons of
        JArr bs \<Rightarrow>
          if bs = [] then None
          else (case List.map_filter reply_row (if list_all is_arr bs then bs else [JArr bs]) of
                  [] \<Rightarrow> None | rows \<Rightarrow> Some (JObj [(''inline_keyboard'', JArr rows)]))
      | _ \<Rightarrow> None)"

definition resolve_payload ::
  "(string \<Rightarrow> exn + string) \<Rightarrow> (string \<Rightarrow> string option) \<Rightarrow> (string \<times> json) list
    \<Rightarrow> exn + (string \<times> json) list" where
  "resolve_payload sp templates payload =
     (let with_text =
        (case map_of payload ''text_key'' of
           Some (JStr key) \<Rightarrow>
             if key \<noteq> [] \<and> \<not> opt_json_truthy (map_of payload ''text'')
             then (case templates key of
                     None \<Rightarrow> Inr (jset ''text'' (JStr (''[text:'' @ key @ '' not found]'')) payload)
                   | Some html \<Rightarrow>
                       (case render_template sp (to_telegram_html html)
                               (case map_of payload ''format_kwargs'' of Some (JObj kw) \<Rightarrow> kw | _ \<Rightarrow> []) of
                          Inl x \<Rightarrow> Inl x
                        | Inr t \<Rightarrow> Inr (jset ''text'' (JStr t) payload)))
             else Inr payload
         | _ \<Rightarrow> Inr payload)
      in case with_text of
           Inl x \<Rightarrow> Inl x
         | Inr out \<Rightarrow>
             Inr (if map_of out ''reply_markup'' = None \<and> opt_json_truthy (map_of out ''buttons'')
                  then (case buttons_to_reply_markup (the (map_of out ''buttons'')) of
                          None \<Rightarrow> out | Some m \<Rightarrow> jset ''reply_markup'' m out)
                  else out))"

definition outbox_status_str :: "outbox_status \<Rightarrow> string" where
  "outbox_status_str s = (case s of ObPending \<Rightarrow> ''pending'' | ObDispatching \<Rightarrow> ''dispatching''
     | ObSent \<Rightarrow> ''sent'' | ObFailed \<Rightarrow> ''failed'')"

text \<open>\<open>OutboxMessageResponse\<close>; the three timestamps are left out.\<close>

definition message_json :: "outbox_row \<Rightarrow> (string \<times> json) list \<Rightarrow> (string \<times> json) list" where
  "message_json ob payload =
     [(''id'', JInt (ob_id ob)), (''user_id'', JInt (ob_user_id ob)), (''chat_id'', JInt (ob_chat_id ob)),
      (''message_type'', JStr (ob_message_type ob)), (''payload'', JObj payload),
      (''status'', JStr (outbox_status_str (ob_status ob))), (''attempts'', JInt (ob_attempts ob)),
      (''last_error'', json_opt_str (ob_last_error ob))]"

fun resolve_all ::
  "(string \<Rightarrow> exn + string) \<Rightarrow> (string \<Rightarrow> string option) \<Rightarrow> outbox_row list \<Rightarrow> exn + json list" where
  "resolve_all sp templates [] = Inr []"
| "resolve_all sp templates (ob # obs) =
     (case resolve_payload sp templates (ob_payload ob) of
        Inl x \<Rightarrow> Inl x
      | Inr p \<Rightarrow> (case resolve_all sp templates obs of
                    Inl x \<Rightarrow> Inl x | Inr items \<Rightarrow> Inr (JObj (message_json ob p) # items)))"

definition query_error :: exn where "query_error = PyExn ''RequestValidationError'' ''''"

text \<open>The claim is committed before the payloads are resolved: a raise in between keeps it.\<close>

definition list_pending ::
  "env \<Rightarrow> (string \<Rightarrow> exn + string) \<Rightarrow> (string \<Rightarrow> string option) \<Rightarrow> nat \<Rightarrow> int list \<Rightarrow> db
    \<Rightarrow> (exn + json) \<times> db" where
  "list_pending e sp templates limit locked d =
     (if limit < 1 \<or> limit > 200 then (Inl query_error, d)
      else (case fetch_pending e limit locked d of
              (rows, d') \<Rightarrow>
                ((case resolve_all sp templates rows of
                    Inl x \<Rightarrow> Inl x | Inr items \<Rightarrow> Inr (JObj [(''items'', JArr items)])), d')))"

definition failed_endpoint :: "env \<Rightarrow> int \<Rightarrow> string \<Rightarrow> db \<Rightarrow> (exn + outbox_status) \<times> db" where
  "failed_endpoint e i error d =
     (if length error > 2048 then (Inl query_error, d) else mark_failed e i error d)"

section \<open>The dispatcher\<close>

text \<open>\<open>_fetch_pending\<close>: what the worker makes of the backend's answer.\<close>

definition is_obj :: "json \<Rightarrow> bool" where
  "is_obj j = (case j of JObj kvs \<Rightarrow> True | _ \<Rightarrow> False)"

definition fetch_items :: "http_outcome \<Rightarrow> json list option" where
  "fetch_items out =
     (case out of
        TransportError m \<Rightarrow> None
      | HttpResponse status body t \<Rightarrow>
          if status \<ge> 400 then None
          else (case body of
                  Some (JObj kvs) \<Rightarrow>
                    (case get_or (JArr []) ''items'' kvs of JArr xs \<Rightarrow> Some (filter is_obj xs) | _ \<Rightarrow> None)
                | Some (JArr xs) \<Rightarrow> Some (filter is_obj xs)
                | _ \<Rightarrow> None))"

definition type_error :: exn where "type_error = PyExn ''TypeError'' ''''"

definition value_error :: "string \<Rightarrow> exn" where "value_error m = PyExn ''ValueError'' m"

text \<open>\<open>int(chat_id)\<close>.\<close>

definition chat_int :: "json \<Rightarrow> exn + int" where
  "chat_int j =
     (case j of
        JInt i \<Rightarrow> Inr i
      | JBool b \<Rightarrow> Inr (if b then 1 else 0)
      | JStr s \<Rightarrow> (case py_int s of Some i \<Rightarrow> Inr i
                   | None \<Rightarrow> Inl (value_error ''invalid literal for int()''))
      | JText n as \<Rightarrow> Inl (value_error ''invalid literal for int()'')
      | _ \<Rightarrow> Inl type_error)"

definition dispatch_to_telegram ::
  "env \<Rightarrow> int \<Rightarrow> string \<Rightarrow> (string \<times> json) list \<Rightarrow> exn + tg_envelope" where
  "dispatch_to_telegram e chat mtype payload =
     (let parse_mode = get_or (JStr ''HTML'') ''parse_mode'' payload;
          markup = map_of payload ''reply_markup''
      in if mtype = ''text'' then
           (if \<not> is_nonempty_str (map_of payload ''text'')
            then Inl (value_error ''text payload requires non-empty text'')
            else Inr (tg_call e ''sendMessage''
                   (send_message_body chat (the (map_of payload ''text'')) parse_mode markup
                      (map_of payload ''disable_web_page_preview''))))
         else if mtype = ''photo'' then
           (let photo = json_or (map_of payload ''photo'') (map_of payload ''file_id'')
            in if \<not> is_nonempty_str photo
               then Inl (value_error ''photo payload requires photo or file_id'')
               else Inr (tg_call e ''sendPhoto''
                      (send_photo_body chat (the photo) (map_of payload ''caption'') parse_mode markup)))
         else Inl (value_error (''unsupported message_type: '' @ mtype)))"

text \<open>What the worker tells the backend about a message.\<close>

datatype report = RSent json json | RFailed json string

definition process_one :: "env \<Rightarrow> (string \<times> json) list \<Rightarrow> exn + (string \<times> report option)" where
  "process_one e msg =
     (let mtype = (if opt_json_truthy (map_of msg ''message_type'')
                   then the (map_of msg ''message_type'') else JStr ''text'');
          payload = (if opt_json_truthy (map_of msg ''payload'')
                     then the (map_of msg ''payload'') else JObj []);
          i = get_or JNull ''id'' msg; chat = get_or JNull ''chat_id'' msg
      in case mtype of
           JStr ty \<Rightarrow>
             if i = JNull \<or> chat = JNull then Inr (''skipped'', None)
             else (case (case chat_int chat of
                           Inl x \<Rightarrow> Inl x
                         | Inr c \<Rightarrow> (case payload of
                                       JObj p \<Rightarrow> dispatch_to_telegram e c (str_lower ty) p
                                     | _ \<Rightarrow> Inl (PyExn ''AttributeError'' ''get''))) of
                     Inl x \<Rightarrow>
                       (case x of
                          PyExn n m \<Rightarrow> if n = ''ValueError''
                                       then Inr (''failed'', Some (RFailed i (''invalid payload: '' @ m)))
                                       else Inl x
                        | AppExn a \<Rightarrow> Inl x)
                   | Inr env \<Rightarrow>
                       if tg_ok env
                       then Inr (''sent'', Some (RSent i (case tg_result env of
                                   JObj kvs \<Rightarrow> get_or JNull ''message_id'' kvs | _ \<Rightarrow> JNull)))
                       else Inr (''failed'', Some (RFailed i
                              (json_str (tg_error_code env) @ '': ''
                               @ (if json_truthy (tg_description env) then json_str (tg_description env)
                                  else ''unknown error'')))))
         | _ \<Rightarrow> Inl (PyExn ''AttributeError'' ''lower''))"

text \<open>The report as the backend's endpoints take it; a body they reject changes nothing.\<close>

definition apply_report :: "env \<Rightarrow> report \<Rightarrow> db \<Rightarrow> db" where
  "apply_report e r d =
     (case r of
        RSent (JInt i) (JInt t) \<Rightarrow> snd (mark_sent e i (Some t) d)
      | RSent (JInt i) JNull \<Rightarrow> snd (mark_sent e i None d)
      | RFailed (JInt i) m \<Rightarrow> snd (failed_endpoint e i m d)
      | _ \<Rightarrow> d)"

record tick_counters =
  tc_fetched :: nat
  tc_sent :: nat
  tc_failed :: nat
  tc_skipped :: nat

fun count_outcome :: "exn + (string \<times> report option) \<Rightarrow> tick_counters \<Rightarrow> tick_counters" where
  "count_outcome (Inl x) c = c\<lparr>tc_skipped := Suc (tc_skipped c)\<rparr>"
| "count_outcome (Inr (o', r)) c =
     (if o' = ''sent'' then c\<lparr>tc_sent := Suc (tc_sent c)\<rparr>
      else if o' = ''failed'' then c\<lparr>tc_failed := Suc (tc_failed c)\<rparr>
      else c\<lparr>tc_skipped := Suc (tc_skipped c)\<rparr>)"

fun report_of :: "exn + (string \<times> report option) \<Rightarrow> report option" where
  "report_of (Inl x) = None"
| "report_of (Inr (o', r)) = r"

fun obj_fields :: "json \<Rightarrow> (string \<times> json) list" where
  "obj_fields (JObj kvs) = kvs"
| "obj_fields _ = []"

text \<open>
  One run of the cron job against this backend: \<open>lost\<close> are the reports whose POST
  fails.  The reports concern different rows, so their order does not matter.
\<close>

definition dispatcher_tick ::
  "env \<Rightarrow> (string \<Rightarrow> exn + string) \<Rightarrow> (string \<Rightarrow> string option) \<Rightarrow> nat \<Rightarrow> int list
    \<Rightarrow> (report \<Rightarrow> bool) \<Rightarrow> db \<Rightarrow> tick_counters \<times> db" where
  "dispatcher_tick e sp templates limit locked lost d =
     (let zero = \<lparr>tc_fetched = 0, tc_sent = 0, tc_failed = 0, tc_skipped = 0\<rparr> in
      case list_pending e sp templates limit locked d of
        (Inl x, d1) \<Rightarrow> (zero, d1)
      | (Inr j, d1) \<Rightarrow>
          (case fetch_items (HttpResponse 200 (Some j) '''') of
             None \<Rightarrow> (zero, d1)
           | Some items \<Rightarrow>
               (let outcomes = List.map (\<lambda>m. process_one e (obj_fields m)) items;
                    reports = filter (\<lambda>r. \<not> lost r) (List.map_filter report_of outcomes)
                in (fold count_outcome outcomes (zero\<lparr>tc_fetched := length items\<rparr>),
                    fold (apply_report e) reports d1))))"

section \<open>What happens to a claimed message\<close>

lemma message_fields [simp]:
  "map_of (message_json ob p) ''id'' = Some (JInt (ob_id ob))"
  "map_of (message_json ob p) ''chat_id'' = Some (JInt (ob_chat_id ob))"
  "map_of (message_json ob p) ''message_type'' = Some (JStr (ob_message_type ob))"
  "map_of (message_json ob p) ''payload'' = Some (JObj p)"
  by (simp_all add: message_json_def)

definition report_about :: "int \<Rightarrow> report \<Rightarrow> bool" where
  "report_about i r = (case r of RSent j t \<Rightarrow> j = JInt i | RFailed j m \<Rightarrow> j = JInt i)"

lemma dispatch_value_error:
  "dispatch_to_telegram e c ty p = Inl x \<Longrightarrow> \<exists>m. x = PyExn ''ValueError'' m"
  by (auto simp: dispatch_to_telegram_def value_error_def Let_def split: if_splits)

lemma process_one_message:
  "\<exists>res r. process_one e (message_json ob p) = Inr (res, Some r) \<and> report_about (ob_id ob) r
     \<and> (res = ''sent'' \<and> (\<exists>j t. r = RSent j t) \<or> res = ''failed'' \<and> (\<exists>j m. r = RFailed j m))"
proof -
  let ?ty = "if ob_message_type ob = [] then ''text'' else ob_message_type ob"
  let ?d = "dispatch_to_telegram e (ob_chat_id ob) (str_lower ?ty) p"
  show ?thesis
  proof (cases ?d)
    case (Inl x)
    then obtain m where "x = PyExn ''ValueError'' m" using dispatch_value_error by blast
    then show ?thesis using Inl
      by (auto simp: process_one_def get_or_def chat_int_def report_about_def Let_def)
  next
    case (Inr env)
    then show ?thesis
      by (auto simp: process_one_def get_or_def chat_int_def report_about_def Let_def)
  qed
qed

lemma resolve_all_items:
  "resolve_all sp templates obs = Inr items \<Longrightarrow>
     list_all2 (\<lambda>ob j. \<exists>p. j = JObj (message_json ob p)) obs items"
  by (induction obs arbitrary: items) (auto split: sum.splits)

lemma list_pending_Inr:
  assumes "fst (list_pending e sp templates n locked d) = Inr j" "outbox_keys_ok d"
  obtains items where "j = JObj [(''items'', JArr items)]"
    "fetch_items (HttpResponse 200 (Some j) '''') = Some items"
    "list_all2 (\<lambda>ob j. \<exists>p. j = JObj (message_json ob p)) (List.map claim_row (due_batch e n locked d)) items"
proof -
  obtain rows d' where f: "fetch_pending e n locked d = (rows, d')" by (cases "fetch_pending e n locked d")
  have rows: "rows = List.map claim_row (due_batch e n locked d)"
    using fetch_pending_rows[OF assms(2), of e n locked] f by simp
  obtain items where items: "resolve_all sp templates rows = Inr items" "j = JObj [(''items'', JArr items)]"
    using assms(1) f by (auto simp: list_pending_def split: if_splits sum.splits)
  have l: "list_all2 (\<lambda>ob j. \<exists>p. j = JObj (message_json ob p)) rows items"
    by (rule resolve_all_items[OF items(1)])
  have "filter is_obj items = items"
    using l by (induction rule: list_all2_induct) (auto simp: is_obj_def)
  then have "fetch_items (HttpResponse 200 (Some j) '''') = Some items"
    by (simp add: fetch_items_def items(2) get_or_def)
  then show ?thesis using that items(2) l rows by blast
qed

lemma list_pending_state:
  "snd (list_pending e sp templates n locked d) = d
   \<or> snd (list_pending e sp templates n locked d) = snd (fetch_pending e n locked d)"
  by (auto simp: list_pending_def split: prod.split)

text \<open>The reports of a tick are about the claimed messages, one each.\<close>

lemma outcomes_reports:
  assumes "list_all2 (\<lambda>ob j. \<exists>p. j = JObj (message_json ob p)) obs items"
  shows "list_all2 (\<lambda>ob r. report_about (ob_id ob) r) obs
           (List.map_filter report_of (List.map (\<lambda>m. process_one e (obj_fields m)) items))"
  using assms
proof (induction rule: list_all2_induct)
  case (Cons ob obs j items)
  then obtain p where p: "j = JObj (message_json ob p)" by blast
  obtain res r where "process_one e (message_json ob p) = Inr (res, Some r)" "report_about (ob_id ob) r"
    using process_one_message by blast
  then show ?case using Cons p by (simp add: List.map_filter_simps)
qed (simp add: List.map_filter_simps)

lemma count_outcomes:
  assumes "list_all2 (\<lambda>ob j. \<exists>p. j = JObj (message_json ob p)) obs items"
  shows "let c' = fold count_outcome (List.map (\<lambda>m. process_one e (obj_fields m)) items) c in
    tc_sent c' + tc_failed c' = tc_sent c + tc_failed c + length items \<and> tc_skipped c' = tc_skipped c
    \<and> tc_fetched c' = tc_fetched c"
  using assms
proof (induction arbitrary: c rule: list_all2_induct)
  case (Cons ob obs j items)
  then obtain p where p: "j = JObj (message_json ob p)" by blast
  obtain res r where one: "process_one e (message_json ob p) = Inr (res, Some r)"
      "res = ''sent'' \<or> res = ''failed''"
    using process_one_message by blast
  let ?c = "count_outcome (Inr (res, Some r)) c"
  have "tc_sent ?c + tc_failed ?c = Suc (tc_sent c + tc_failed c) \<and> tc_skipped ?c = tc_skipped c
      \<and> tc_fetched ?c = tc_fetched c"
    using one(2) by auto
  then show ?case using Cons.IH[of ?c] one(1) by (simp add: p Let_def)
qed simp

lemma apply_report_other:
  "report_about k r \<Longrightarrow> i \<noteq> k \<Longrightarrow> get_outbox (apply_report e r d) i = get_outbox d i"
  by (auto simp: apply_report_def report_about_def mark_sent_def mark_failed_def failed_endpoint_def
      split: report.splits json.split option.split)

lemma apply_reports_other:
  assumes "\<forall>r\<in>set rs. \<exists>k. report_about k r \<and> k \<noteq> i"
  shows "get_outbox (fold (apply_report e) rs d) i = get_outbox d i"
  using assms by (induction rs arbitrary: d) (auto simp: apply_report_other)

lemma fetch_pending_get:
  assumes "outbox_keys_ok d" "get_outbox d i = Some ob"
  shows "get_outbox (snd (fetch_pending e n locked d)) i =
    Some (if i \<in> ob_id ` set (due_batch e n locked d) then claim_row ob else ob)"
proof -
  have "row_find ob_id i (List.map (\<lambda>ob. if ob_id ob \<in> S then claim_row ob else ob) xs)
        = map_option (\<lambda>ob. if i \<in> S then claim_row ob else ob) (row_find ob_id i xs)" for S xs
    by (induction xs) (auto simp: row_find_Cons claim_row_def)
  then show ?thesis using assms(2) by (simp add: get_outbox_def fetch_pending_state)
qed

lemma apply_report_keys: "outbox_keys_ok (apply_report e r d) = outbox_keys_ok d"
proof -
  have keys: "outbox_keys_ok (mod_outbox i f x) = outbox_keys_ok x" if "\<And>ob. ob_id (f ob) = ob_id ob" for i f x
    by (simp add: outbox_keys_ok_def mod_outbox_def map_row_upd that)
  show ?thesis
    by (auto simp: apply_report_def mark_sent_def mark_failed_def failed_endpoint_def keys
        split: report.splits json.split option.split)
qed

text \<open>The batch a tick claims, and where its reports can reach.\<close>

lemma tick_cases:
  assumes "outbox_keys_ok d"
  obtains (idle) x where "fst (list_pending e sp templates n locked d) = Inl x"
      "dispatcher_tick e sp templates n locked lost d =
        (\<lparr>tc_fetched = 0, tc_sent = 0, tc_failed = 0, tc_skipped = 0\<rparr>,
         snd (list_pending e sp templates n locked d))"
  | (run) items rs where
      "list_all2 (\<lambda>ob j. \<exists>p. j = JObj (message_json ob p)) (List.map claim_row (due_batch e n locked d)) items"
      "list_all2 (\<lambda>ob r. report_about (ob_id ob) r) (List.map claim_row (due_batch e n locked d)) rs"
      "dispatcher_tick e sp templates n locked lost d =
        (fold count_outcome (List.map (\<lambda>m. process_one e (obj_fields m)) items)
           \<lparr>tc_fetched = length items, tc_sent = 0, tc_failed = 0, tc_skipped = 0\<rparr>,
         fold (apply_report e) (filter (\<lambda>r. \<not> lost r) rs) (snd (fetch_pending e n locked d)))"
proof (cases "fst (list_pending e sp templates n locked d)")
  case (Inl x)
  then show ?thesis
    by (intro idle[of x]) (auto simp: dispatcher_tick_def Let_def split: prod.split sum.split)
next
  case (Inr j)
  obtain items where i: "fetch_items (HttpResponse 200 (Some j) '''') = Some items"
      "list_all2 (\<lambda>ob j. \<exists>p. j = JObj (message_json ob p)) (List.map claim_row (due_batch e n locked d)) items"
    by (rule list_pending_Inr[OF Inr assms]) (rule that; assumption)
  let ?rs = "List.map_filter report_of (List.map (\<lambda>m. process_one e (obj_fields m)) items)"
  have lp: "list_pending e sp templates n locked d = (Inr j, snd (fetch_pending e n locked d))"
    using Inr by (auto simp: list_pending_def split: if_splits prod.splits sum.splits)
  show ?thesis
    by (rule run[OF i(2) outcomes_reports[OF i(2)]])
      (simp add: dispatcher_tick_def lp i(1) Let_def)
qed

lemma batch_reports_other:
  assumes "list_all2 (\<lambda>ob r. report_about (ob_id ob) r) (List.map claim_row obs) rs" "i \<notin> ob_id ` set obs"
  shows "\<forall>r\<in>set (filter P rs). \<exists>k. report_about k r \<and> k \<noteq> i"
  using assms by (induction obs arbitrary: rs) (auto simp: list_all2_Cons1)

section \<open>Properties\<close>


definition fx_message :: "int \<Rightarrow> int \<Rightarrow> outbox_row" where
  "fx_message i t = \<lparr>ob_id = i, ob_user_id = 2, ob_chat_id = 102, ob_message_type = ''text'',
     ob_payload = [(''text'', JStr ''hi'')], ob_status = ObPending, ob_attempts = 0,
     ob_last_error = None, ob_send_after = t, ob_sent_at = None, ob_created_at = t\<rparr>"

definition fx_queue :: db where
  "fx_queue = fx_db\<lparr>db_outbox := [fx_message 1 10, fx_message 2 5, fx_message 3 7]\<rparr>"

lemma fx_message_sel [simp]:
  "ob_id (fx_message i t) = i" "ob_status (fx_message i t) = ObPending" "ob_attempts (fx_message i t) = 0"
  "ob_send_after (fx_message i t) = t" "ob_payload (fx_message i t) = [(''text'', JStr ''hi'')]"
  by (simp_all add: fx_message_def)

lemma fx_queue_keys [simp]: "outbox_keys_ok fx_queue"
  by (simp add: fx_queue_def outbox_keys_ok_def)

lemma fx_due: "due_batch (fx_env 20 200 j) 2 [] fx_queue = [fx_message 2 5, fx_message 3 7]"
  by (simp add: due_batch_def is_due_def fx_queue_def less_eq_prod_simp numeral_2_eq_2)

lemma fx_pending: "\<exists>j'. fst (list_pending (fx_env 20 200 j) sp templates 2 [] fx_queue) = Inr j'"
proof -
  have rows: "fst (fetch_pending (fx_env 20 200 j) 2 [] fx_queue) = [claim_row (fx_message 2 5), claim_row (fx_message 3 7)]"
    by (simp add: fetch_pending_rows fx_due)
  then show ?thesis
    by (auto simp: list_pending_def resolve_payload_def split: prod.split)
qed


text \<open>A row that is being dispatched is out of every run's reach.\<close>

lemma dispatching_not_due:
  assumes "outbox_keys_ok d" "get_outbox d i = Some ob" "ob_status ob = ObDispatching"
  shows "i \<notin> ob_id ` set (due_batch e n locked d)"
proof
  assume "i \<in> ob_id ` set (due_batch e n locked d)"
  then obtain r where mem: "r \<in> set (due_batch e n locked d)" and id: "ob_id r = i" by blast
  have r: "r \<in> set (db_outbox d)" "ob_id r = i" "ob_status r = ObPending"
    using due_batch_mem[OF mem] id by (simp_all add: is_due_def)
  then have "get_outbox d i = Some r"
    using assms(1) by (auto simp: get_outbox_def outbox_keys_ok_def row_find_distinct)
  then show False using assms(2,3) r(3) by simp
qed

lemma tick_dispatching:
  assumes "outbox_keys_ok d" "get_outbox d i = Some ob" "ob_status ob = ObDispatching"
  shows "get_outbox (snd (dispatcher_tick e sp templates n locked lost d)) i = Some ob
    \<and> outbox_keys_ok (snd (dispatcher_tick e sp templates n locked lost d))"
proof (rule tick_cases[OF assms(1), of e sp templates n locked lost])
  fix x assume tick: "dispatcher_tick e sp templates n locked lost d =
      (\<lparr>tc_fetched = 0, tc_sent = 0, tc_failed = 0, tc_skipped = 0\<rparr>, snd (list_pending e sp templates n locked d))"
  show ?thesis
    using list_pending_state[of e sp templates n locked d] fetch_pending_get[OF assms(1,2)]
      dispatching_not_due[OF assms] fetch_pending_keys_ok[OF assms(1)] assms
    by (auto simp: tick)
next
  fix items rs
  assume rs: "list_all2 (\<lambda>ob r. report_about (ob_id ob) r) (List.map claim_row (due_batch e n locked d)) rs"
    and tick: "dispatcher_tick e sp templates n locked lost d =
        (fold count_outcome (List.map (\<lambda>m. process_one e (obj_fields m)) items)
           \<lparr>tc_fetched = length items, tc_sent = 0, tc_failed = 0, tc_skipped = 0\<rparr>,
         fold (apply_report e) (filter (\<lambda>r. \<not> lost r) rs) (snd (fetch_pending e n locked d)))"
  have keys: "outbox_keys_ok (fold (apply_report e) rr x) = outbox_keys_ok x" for rr x
    by (induction rr arbitrary: x) (simp_all add: apply_report_keys)
  show ?thesis
    using apply_reports_other[OF batch_reports_other[OF rs dispatching_not_due[OF assms]]]
      fetch_pending_get[OF assms(1,2)] dispatching_not_due[OF assms] fetch_pending_keys_ok[OF assms(1)]
    by (simp add: tick keys)
qed

definition tick_run ::
  "(env \<times> (string \<Rightarrow> string option) \<times> nat \<times> int list \<times> (report \<Rightarrow> bool)) list \<Rightarrow> db \<Rightarrow> db" where
  "tick_run ts d = fold (\<lambda>(e, templates, n, locked, lost) d.
     snd (dispatcher_tick e Inr templates n locked lost d)) ts d"

lemma tick_run_dispatching:
  assumes "outbox_keys_ok d" "get_outbox d i = Some ob" "ob_status ob = ObDispatching"
  shows "get_outbox (tick_run ts d) i = Some ob"
  using assms
proof (induction ts arbitrary: d)
  case (Cons t ts)
  obtain e tm n l lo where t: "t = (e, tm, n, l, lo)" by (cases t)
  show ?case using Cons.IH[of "snd (dispatcher_tick e Inr tm n l lo d)"] tick_dispatching[OF Cons.prems]
      Cons.prems(3) by (simp add: t tick_run_def)
qed (simp add: tick_run_def)

text \<open>A message whose report does not reach the backend is stranded: it keeps the status
  dispatching, and since only pending messages are claimed and nothing resets it, no number
  of later runs delivers it, retries it or marks it failed.\<close>

theorem lost_report_strands:
  assumes "outbox_keys_ok d" and "get_outbox d i = Some ob"
    and "i \<in> ob_id ` set (due_batch e n locked d)"
    and "fst (list_pending e sp templates n locked d) = Inr j"
    and "d1 = snd (dispatcher_tick e sp templates n locked (\<lambda>_. True) d)"
  shows "get_outbox (tick_run ts d1) i = Some (claim_row ob)
    \<and> ob_status (claim_row ob) = ObDispatching"
proof -
  have d1: "d1 = snd (fetch_pending e n locked d)"
  proof (rule tick_cases[OF assms(1), of e sp templates n locked "\<lambda>_. True"])
    fix x assume "fst (list_pending e sp templates n locked d) = Inl x"
    then show ?thesis using assms(4) by simp
  next
    fix items rs
    assume "dispatcher_tick e sp templates n locked (\<lambda>_. True) d =
        (fold count_outcome (List.map (\<lambda>m. process_one e (obj_fields m)) items)
           \<lparr>tc_fetched = length items, tc_sent = 0, tc_failed = 0, tc_skipped = 0\<rparr>,
         fold (apply_report e) (filter (\<lambda>r. \<not> True) rs) (snd (fetch_pending e n locked d)))"
    then show ?thesis by (simp add: assms(5))
  qed
  have "get_outbox d1 i = Some (claim_row ob)"
    using fetch_pending_get[OF assms(1,2)] assms(3) by (simp add: d1)
  then show ?thesis
    using tick_run_dispatching[of d1 i "claim_row ob" ts] fetch_pending_keys_ok[OF assms(1)]
    by (simp add: d1)
qed

theorem lost_report_strands_witness:
  "\<exists>ob. get_outbox (tick_run (replicate 9 (fx_env 99 200 JNull, (\<lambda>_. None), 2, [], (\<lambda>_. False)))
     (snd (dispatcher_tick (fx_env 20 200 JNull) Inr (\<lambda>_. None) 2 [] (\<lambda>_. True) fx_queue))) 2 = Some ob
   \<and> ob_status ob = ObDispatching"
proof -
  obtain j where j: "fst (list_pending (fx_env 20 200 JNull) Inr (\<lambda>_. None) 2 [] fx_queue) = Inr j"
    using fx_pending by blast
  have "get_outbox fx_queue 2 = Some (fx_message 2 5)"
    by (simp add: get_outbox_def fx_queue_def row_find_Cons)
  from lost_report_strands[OF fx_queue_keys this _ j refl] show ?thesis by (auto simp: fx_due)
qed

end
