(* ===== verification/DeliveryTheorems.thy ===== *)
theory DeliveryTheorems
  imports AccountTheorems Dispatcher
begin

text \<open>
  The properties of the parts that work behind the requests: the outbox queue, the calls
  to the VPN provider, the alerts, the reconciliation, the support tickets and the
  scheduled jobs.
\<close>

section \<open>The outbox\<close>

text \<open>C18: Workers that claim batches one after another never receive the same message twice,
  whatever rows other transactions hold locked, and every message they receive was pending
  when the first of them started.\<close>

theorem outbox_claims_disjoint:
  assumes "outbox_keys_ok d"
  shows "distinct (outbox_queue.claims es d)
    \<and> set (outbox_queue.claims es d) \<subseteq> ob_id ` {ob \<in> set (db_outbox d). ob_status ob = ObPending}"
  using outbox_queue.claims_distinct[OF assms] outbox_queue.claims_open[OF assms]
  by (simp add: pending_ids_def)

theorem outbox_claims_disjoint_witness:
  "distinct (outbox_queue.claims [(fx_env 1 200 JNull, 2, []), (fx_env 1 200 JNull, 2, [3])] fx_queue)"
  using outbox_claims_disjoint[OF fx_queue_keys] by blast



section \<open>Calls to the provider\<close>

text \<open>The reading of a conclusive answer.\<close>

definition verdict :: "http_outcome \<Rightarrow> exn + json" where
  "verdict out = (case nl_do_call out of CallOk j \<Rightarrow> Inr j | CallRaise x \<Rightarrow> Inl x
     | CallServerError st \<Rightarrow> Inl (nl_unavailable ''NorthLine server error'' [])
     | CallNetError m \<Rightarrow> Inl (nl_unavailable ''NorthLine network error'' []))"

lemma nl_attempts_conclusive:
  "\<not> retryable (out n) \<Longrightarrow> nl_attempts out n left = (verdict (out n), Suc n)"
  by (subst nl_attempts.simps) (auto simp: nl_do_call_retry verdict_def split: call_result.split)

text \<open>A call to the provider is made at most three times and again only after a transport
  error or a 5xx answer: its result is what the first conclusive answer says, and if none
  of the three is conclusive the provider is reported as unavailable.\<close>

theorem provider_call_retries:
  "let out = e_http e ''northline'' (meth @ '' '' @ path) path body in
   case List.find (\<lambda>n. \<not> retryable (out n)) [0, 1, 2] of
     Some n \<Rightarrow> nl_request_n e meth path body = (verdict (out n), Suc n)
   | None \<Rightarrow> (case nl_request_n e meth path body of (r, n) \<Rightarrow>
        n = 3 \<and> (case r of Inl x \<Rightarrow> exn_class x = Some NorthLineUnavailableError | Inr j \<Rightarrow> False))"
proof -
  define out where "out = e_http e ''northline'' (meth @ '' '' @ path) path body"
  have unfold3: "nl_request_n e meth path body = nl_attempts out 0 (Suc (Suc 0))"
    by (simp add: nl_request_n_def nl_max_attempts_def out_def numeral_2_eq_2)
  note retry = nl_attempts_retry[of out] and stop = nl_attempts_conclusive[of out]
  show ?thesis
  proof (cases "retryable (out 0) \<and> retryable (out 1) \<and> retryable (out 2)")
    case True
    then have "\<forall>k. 0 \<le> k \<and> k \<le> 0 + Suc (Suc 0) \<longrightarrow> retryable (out k)"
      by (auto simp: numeral_2_eq_2 le_Suc_eq)
    from nl_attempts_exhausted[OF this] True show ?thesis
      unfolding Let_def out_def[symmetric] unfold3 by auto
  next
    case False
    then show ?thesis
      using retry[of 0 "Suc 0"] retry[of 1 0] stop[of 0 "Suc (Suc 0)"] stop[of 1 "Suc 0"] stop[of 2 0]
      unfolding Let_def out_def[symmetric] unfold3 by (auto simp: numeral_2_eq_2)
  qed
qed

section \<open>Alerts\<close>

text \<open>Critical events with the same key within one window put a single alert into the
  outbox: once the first is queued, every further one changes nothing, whatever else
  was queued in between.\<close>

theorem alert_once_per_window:
  assumes "key \<noteq> []" and "e_now e \<le> e_now e'" and "e_now e' \<le> e_now e + dedup_window"
    and "e_admin_tg_id e = Some a" and "a \<noteq> 0" and "user_by_tg d a = Some u"
    and "\<not> recent_dedup_hit e key d" and "d1 = send_admin_alert e l s ds (Some key) d"
  shows "length (db_outbox d1) = Suc (length (db_outbox d))
    \<and> recent_dedup_hit e' key d1
    \<and> (\<forall>d2 rest. db_outbox d2 = db_outbox d1 @ rest \<longrightarrow>
         send_admin_alert e' l' s' ds' (Some key) d2 = d2)"
proof -
  have hit: "recent_dedup_hit e' key d2" if "db_outbox d2 = db_outbox d1 @ rest" for d2 rest
    using assms that
    by (auto simp: send_admin_alert_def recent_dedup_hit_iff is_alert_def new_outbox_def str_truthy_def)
  have "length (db_outbox d1) = Suc (length (db_outbox d))"
    using assms(1,4-8) by (simp add: send_admin_alert_def str_truthy_def)
  moreover have "recent_dedup_hit e' key d1" using hit[of d1 "[]"] by simp
  ultimately show ?thesis
    using hit send_admin_alert_dedup[OF _ assms(1)] by blast
qed

definition fx_admin_env :: "int \<Rightarrow> env" where
  "fx_admin_env now = (fx_env now 200 JNull)\<lparr>e_admin_tg_id := Some 101\<rparr>"

lemma fx_admin_sel [simp]:
  "e_now (fx_admin_env n) = n" "e_admin_tg_id (fx_admin_env n) = Some 101"
  by (simp_all add: fx_admin_env_def fx_env_def)

lemma fx_outbox [simp]: "db_outbox fx_db = []" "user_by_tg fx_db 101 = Some (fx_user 1 101 0)"
  by (simp_all add: fx_db_def empty_db_def user_by_tg_def row_find_Cons)

theorem alert_once_per_window_witness:
  "length (db_outbox (send_admin_alert (fx_admin_env 1) ''CRITICAL'' ''down'' [] (Some ''k'') fx_db)) = 1"
proof -
  have "\<not> recent_dedup_hit (fx_admin_env 1) ''k'' fx_db" by (simp add: recent_dedup_hit_def)
  from conjunct1[OF alert_once_per_window[OF _ _ _ fx_admin_sel(2) _ fx_outbox(2) this refl,
        where e' = "fx_admin_env 2"]]
  show ?thesis by (simp add: dedup_window_def minutes_def)
qed

section \<open>Reconciliation with the provider\<close>

lemma reconcile_loop_tables:
  "reconcile_loop e ss r c d = RnNext r' c' d' \<Longrightarrow> db_users d' = db_users d \<and> db_bts d' = db_bts d"
proof (induction ss arbitrary: r c d)
  case (Cons s ss)
  then obtain r1 c1 d1 where one: "reconcile_one e s r c d = RnNext r1 c1 d1"
      and rest: "reconcile_loop e ss r1 c1 d1 = RnNext r' c' d'"
    by (auto split: reconcile_step.splits)
  show ?case using reconcile_one_tables[OF one] Cons.IH[OF rest] by simp
qed simp

lemma reconcile_money_tables:
  "db_users (snd (reconcile_subscriptions e n d)) = db_users d
   \<and> db_bts (snd (reconcile_subscriptions e n d)) = db_bts d"
proof (cases "reconcile_loop e (reconcile_batch n d) reconcile_zero 0 d")
  case (RnNext r c d')
  then show ?thesis using reconcile_loop_tables[OF RnNext] by (simp add: reconcile_subscriptions_def)
qed (simp_all add: reconcile_subscriptions_def breaker_alert_def rollback_def)

text \<open>C23: A reconciliation run never takes paid time away: whatever the provider reports, every
  subscription keeps its key, its user and its days, its expiry only moves forward, its
  status only changes to deactivated or expired, and no money moves.\<close>

theorem reconcile_keeps_paid_time:
  assumes "distinct (List.map s_id (db_subs d))" and "d' = snd (reconcile_subscriptions e n d)"
  shows "list_all2 keeps_paid_time (db_subs d) (db_subs d')
    \<and> db_users d' = db_users d \<and> db_bts d' = db_bts d"
  using reconcile_subs_keep[OF assms(1), of e n] reconcile_money_tables[of e n d]
  by (simp add: assms(2) subs_keep_def)

theorem reconcile_keeps_paid_time_witness:
  "list_all2 keeps_paid_time (db_subs fx_db)
     (db_subs (snd (reconcile_subscriptions (fx_env 5 200 JNull) 10 fx_db)))"
  using reconcile_keeps_paid_time[OF _ refl, of fx_db "fx_env 5 200 JNull" 10] by (simp add: fx_defs)

text \<open>When the provider no longer knows three subscriptions of the batch in a row, the breaker
  trips and the run leaves every subscription as it was.\<close>

theorem breaker_protects_subscriptions:
  assumes "reconcile_batch n d = pre @ s1 # s2 # s3 # post"
    and "unknown_at_provider e s1" and "unknown_at_provider e s2" and "unknown_at_provider e s3"
  shows "db_subs (snd (reconcile_subscriptions e n d)) = db_subs d"
  using reconcile_breaker_subs[OF assms] by simp

definition fx_gone :: json where
  "fx_gone = JObj [(''error_code'', JStr ''not_found'')]"

definition fx_three :: db where
  "fx_three = fx_db\<lparr>db_subs := [fx_sub 1 2 50, fx_sub 2 2 60, fx_sub 3 2 70]\<rparr>"

lemma fx_sub_updated: "s_updated_at (fx_sub i u x) = 0"
  by (simp add: fx_sub_def)

lemma fx_words [simp]:
  "str_lower ''not_found'' = ''not_found''" "str_lower ''active'' = ''active''"
  "\<not> is_test_subscription_id (Some ''nl-1'')" "''active'' \<in> set northline_statuses"
  by code_simp+

lemma fx_get_key:
  "get_key (fx_env 5 404 fx_gone) sid = Inl (nl_client_error 404 (Some fx_gone))"
  "get_key (fx_env 5 200 j) sid = parse_key_info (fx_env 5 200 j) j"
  by (simp_all add: get_key_def fx_request) (simp add: nl_request_def nl_request_n_def
      nl_max_attempts_def nl_attempts.simps nl_do_call_def fx_env_def)

lemma fx_gone_unknown: "unknown_at_provider (fx_env 5 404 fx_gone) (fx_sub i u x)"
  unfolding unknown_at_provider_def fx_sub_sel option.sel fx_get_key
  by (simp add: nl_client_error_def fx_gone_def unknown_key_def
      northline_client_error_def mk_error_def)

theorem breaker_protects_subscriptions_witness:
  "db_subs (snd (reconcile_subscriptions (fx_env 5 404 fx_gone) 10 fx_three)) = db_subs fx_three"
proof -
  have "reconcile_batch 10 fx_three = [] @ fx_sub 1 2 50 # fx_sub 2 2 60 # fx_sub 3 2 70 # []"
    by (simp add: reconcile_batch_def fx_three_def fx_sub_def sort_key_def)
  from breaker_protects_subscriptions[OF this fx_gone_unknown fx_gone_unknown fx_gone_unknown]
  show ?thesis .
qed

text \<open>The batch is ordered by the time of the last change, and a subscription that agrees
  with the provider is not changed.  So once the rows of the batch agree, no number of
  runs looks at any other subscription, and drift there is never found.\<close>

theorem reconcile_starves:
  assumes "list_all (\<lambda>e. list_all (agrees_with_provider e) (reconcile_batch n d)) es"
  shows "fold (\<lambda>e d. snd (reconcile_subscriptions e n d)) es d = d"
  using assms by (induction es) (simp_all add: reconcile_quiet)

definition fx_same :: json where
  "fx_same = JObj [(''subscription_id'', JStr ''nl-1''), (''key'', JStr ''k''),
                   (''status'', JStr ''active''), (''expires_at'', JInt 50)]"

theorem reconcile_starves_witness:
  "fold (\<lambda>e d. snd (reconcile_subscriptions e 1 d)) (replicate 9 (fx_env 5 200 fx_same)) fx_three
     = fx_three"
proof (rule reconcile_starves)
  have "agrees_with_provider (fx_env 5 200 fx_same) (fx_sub 1 2 50)"
    by (simp add: agrees_with_provider_def fx_get_key parse_key_info_def fx_same_def req_def opt_def
        jfield_def as_str_def drift_threshold_def hours_def)
  then show "list_all (\<lambda>e. list_all (agrees_with_provider e) (reconcile_batch 1 fx_three))
      (replicate 9 (fx_env 5 200 fx_same))"
    by (simp add: reconcile_batch_def fx_three_def fx_sub_updated list_all_iff)
qed

section \<open>Support tickets\<close>

text \<open>Opening a ticket gives the user a ticket with a code of the announced shape that no
  other ticket has, keeps the one-open-ticket rule, and until it is closed every further
  attempt of this user is refused.\<close>

theorem one_open_ticket:
  assumes "tickets_ok d" and "fst (open_ticket e rnd uid kind d) = Inr t"
    and "\<And>i. length (rnd i) = code_length" and "d' = snd (open_ticket e rnd uid kind d)"
  shows "tickets_ok d' \<and> open_count d uid = 0 \<and> open_count d' uid = 1
    \<and> tk_code t \<notin> tk_code ` set (db_tickets d)
    \<and> take 4 (tk_code t) = ''TCK-'' \<and> length (tk_code t) = 10
    \<and> set (drop 4 (tk_code t)) \<subseteq> set code_alphabet
    \<and> (\<exists>x. open_ticket e2 rnd2 uid kind2 d' = (Inl x, d') \<and> exn_class x = Some TicketAlreadyOpenError)"
proof (rule open_ticket_cases[of e rnd uid kind d])
  fix x assume "open_ticket e rnd uid kind d = (Inl x, d)"
  then show ?thesis using assms(2) by simp
next
  fix m t'
  assume t: "t' = new_ticket e (generate_code (rnd m)) uid kind d"
    and nc: "\<not> ticket_conflict e (generate_code (rnd m)) uid d"
    and res: "fst (open_ticket e rnd uid kind d) = Inr t'"
    and tab: "db_tickets (snd (open_ticket e rnd uid kind d)) = db_tickets d @ [t']"
  have eq: "t = t'" using res assms(2) by simp
  have zero: "open_count d uid = 0" using nc by (simp add: ticket_conflict_def active_ticket_count)
  then have one: "open_count d' uid = 1"
    by (simp add: open_count_def assms(4) tab t new_ticket_def)
  have "tk_code t \<notin> tk_code ` set (db_tickets d)"
    using nc by (auto simp: ticket_conflict_def eq t new_ticket_def list_ex_iff)
  moreover have "tk_code t = generate_code (rnd m)" by (simp add: eq t new_ticket_def)
  ultimately show ?thesis
    using generate_code_shape[of "rnd m"] assms(3)[of m] zero one open_ticket_ok[OF assms(1)]
      open_then_refused[OF assms(2), of d' e2 rnd2 kind2]
    by (simp add: assms(4) code_length_def)
qed

theorem one_open_ticket_witness:
  "\<exists>t. fst (open_ticket (fx_env 5 200 JNull) (\<lambda>_. replicate 6 1) 2 TkSupport fx_db) = Inr t
     \<and> length (tk_code t) = 10"
proof -
  have none: "active_ticket fx_db 2 = None" "db_tickets fx_db = []" "tickets_ok fx_db"
    by (simp_all add: active_ticket_def tickets_ok_def open_count_def fx_db_def empty_db_def)
  then have "\<exists>t. fst (open_ticket (fx_env 5 200 JNull) (\<lambda>_. replicate 6 1) 2 TkSupport fx_db) = Inr t"
    by (simp add: open_ticket_def code_retry_limit_def Let_def ticket_conflict_def fx_get numeral_eq_Suc)
  then obtain t where t: "fst (open_ticket (fx_env 5 200 JNull) (\<lambda>_. replicate 6 1) 2 TkSupport fx_db) = Inr t" ..
  from one_open_ticket[OF none(3) t _ refl] t show ?thesis by (auto simp: code_length_def)
qed

text \<open>On PostgreSQL no ticket message is ever stored: both directions the code writes are
  longer than the eight characters of the column, so recording one always fails and the
  transaction leaves nothing behind.\<close>

theorem ticket_messages_never_stored:
  assumes "e_dialect e = Postgresql" and "dir = from_user \<or> dir = from_admin"
  shows "snd (record_message e i dir ty tx ph stk tg d) = d
    \<and> (\<exists>x. fst (record_message e i dir ty tx ph stk tg d) = Inl x)"
proof -
  have "\<not> varchar_ok e 8 dir"
    using assms by (auto simp: varchar_ok_def from_user_def from_admin_def)
  then show ?thesis
    by (auto simp: record_message_def ticket_message_fits_def Let_def split: option.split)
qed

theorem ticket_messages_never_stored_witness:
  "snd (record_message (fx_env 5 200 JNull) 1 from_admin ''text'' (Some ''hi'') None None None fx_db) = fx_db"
  using ticket_messages_never_stored[of "fx_env 5 200 JNull" from_admin]
  by (simp add: fx_env_def)

section \<open>Scheduled jobs\<close>

text \<open>The expiry job turns exactly the active subscriptions that ran out into expired ones
  and reports them: afterwards none is overdue, all other rows are as they were, and a
  second run at the same time finds nothing.\<close>

theorem expiry_job_complete:
  "let r = mark_expired_subscriptions e d; d' = snd r in
     fst r = List.map (\<lambda>s. (s_id s, s_user_id s)) (filter (sub_overdue e) (db_subs d))
   \<and> list_all (\<lambda>s. \<not> sub_overdue e s) (db_subs d')
   \<and> list_all2 (\<lambda>s s'. if sub_overdue e s then s_status s' = SubExpired \<and> s_id s' = s_id s
                          \<and> s_expires_at s' = s_expires_at s else s' = s) (db_subs d) (db_subs d')
   \<and> mark_expired_subscriptions e d' = ([], d')"
proof -
  let ?d' = "snd (mark_expired_subscriptions e d)"
  have none: "list_all (\<lambda>s. \<not> sub_overdue e s) (db_subs ?d')" by (rule mark_expired_complete)
  then have "filter (sub_overdue e) (db_subs ?d') = []"
    and "List.map (\<lambda>s. if sub_overdue e s then s\<lparr>s_status := SubExpired, s_updated_at := e_now e\<rparr> else s)
           (db_subs ?d') = db_subs ?d'"
    by (auto simp: list_all_iff filter_empty_conv intro!: map_idI)
  then have "mark_expired_subscriptions e ?d' = ([], ?d')"
    unfolding mark_expired_subscriptions_def[of e ?d'] by simp
  moreover have "list_all2 (\<lambda>s s'. if sub_overdue e s then s_status s' = SubExpired \<and> s_id s' = s_id s
      \<and> s_expires_at s' = s_expires_at s else s' = s) (db_subs d) (db_subs ?d')"
    by (auto simp: mark_expired_subscriptions_def list_all2_map2 intro: list.rel_refl_strong)
  ultimately show ?thesis
    using none by (simp add: Let_def mark_expired_subscriptions_def)
qed

text \<open>The payment job expires exactly the pending payments older than the limit and fails
  exactly the pending subscriptions such a payment was for; paid, failed and refunded
  payments, running subscriptions and all balances are as they were.\<close>

theorem stale_payments_expire:
  assumes "d' = snd (expire_pending_payments e ttl d)"
  shows "(\<forall>p\<in>set (db_payments d'). \<not> payment_stale e ttl p)
    \<and> list_all2 (\<lambda>p p'. p_status p' = (if payment_stale e ttl p then PayExpired else p_status p)
         \<and> p_id p' = p_id p \<and> p_amount p' = p_amount p) (db_payments d) (db_payments d')
    \<and> list_all2 (\<lambda>s s'. s_id s' = s_id s \<and> s_expires_at s' = s_expires_at s \<and> s_status s' =
         (if s_status s = SubPending \<and> (\<exists>p\<in>set (db_payments d). payment_stale e ttl p \<and> p_sub_id p = Some (s_id s))
          then SubFailed else s_status s)) (db_subs d) (db_subs d')
    \<and> db_users d' = db_users d \<and> db_bts d' = db_bts d"
  unfolding assms expire_pending_payments_rows expire_pending_subs_rows expire_pending_frame
  by (auto simp: payment_stale_def list_all2_map2 intro!: list.rel_refl_strong)

theorem stale_payments_expire_witness:
  "filter (payment_stale (fx_env 9999999 200 JNull) 30)
     (db_payments (snd (expire_pending_payments (fx_env 9999999 200 JNull) 30 fx_db))) = []"
  using stale_payments_expire[OF refl, of "fx_env 9999999 200 JNull" 30 fx_db]
  by (simp add: filter_empty_conv)

text \<open>An expiry reminder is sent once per subscription for good: a run queues one message per
  candidate it can claim and touches no table the services own, and no later run of the
  job, whenever it comes and however the subscription was renewed meanwhile, has any of
  these subscriptions among its candidates again.\<close>

theorem reminded_once:
  assumes "notify_expiring e texts d = (sent, skipped, d')" and "notifs_ok d"
    and "\<And>n. n \<in> set (db_notifs d') \<Longrightarrow> n \<in> set (db_notifs d2)"
  shows "sent + skipped = length (reminder_candidates (due_3d e) NkExpiry3d d)
    \<and> length (db_outbox d') = length (db_outbox d) + sent \<and> notifs_ok d' \<and> untouched d d'
    \<and> fst ` set (reminder_candidates (due_3d e) NkExpiry3d d)
        \<inter> fst ` set (reminder_candidates (due_3d e2) NkExpiry3d d2) = {}"
proof -
  let ?rows = "reminder_candidates (due_3d e) NkExpiry3d d"
  note run = assms(1)[unfolded notify_expiring_def]
  have claimed: "notified d2 i NkExpiry3d" if "i \<in> fst ` set ?rows" for i
    using expiring.remind_all_once(5)[OF run] that assms(3) unfolding notified_iff by blast
  have "\<not> notified d2 i NkExpiry3d"
    if "i \<in> fst ` set (reminder_candidates (due_3d e2) NkExpiry3d d2)" for i
    using that candidates_unnotified by fastforce
  then have "fst ` set ?rows \<inter> fst ` set (reminder_candidates (due_3d e2) NkExpiry3d d2) = {}"
    using claimed by blast
  moreover have "untouched d d'"
    using expiring.remind_all_untouched[of d e texts ?rows] by (simp add: run)
  ultimately show ?thesis
    using expiring.remind_all_once(1,3,4)[OF run] assms(2) by simp
qed

theorem reminded_once_witness:
  "notifs_ok (snd (snd (notify_expiring (fx_env 5 200 JNull) (\<lambda>_. None) fx_db)))"
proof -
  obtain a b d' where r: "notify_expiring (fx_env 5 200 JNull) (\<lambda>_. None) fx_db = (a, b, d')"
    by (cases "notify_expiring (fx_env 5 200 JNull) (\<lambda>_. None) fx_db")
  have "notifs_ok fx_db" by (simp add: notifs_ok_def fx_db_def empty_db_def)
  from reminded_once[OF r this, of d'] r show ?thesis by simp
qed

section \<open>Orders the gateway refuses\<close>

text \<open>An order or a top-up that ends in an error leaves no trace: no subscription, no
  payment, and not even the log rows written about the failure.\<close>

theorem failed_orders_leave_nothing:
  assumes "fst (create_subscription_payment e uid tid did provider promo d) = Inl x"
  shows "snd (create_subscription_payment e uid tid did provider promo d) = d
    \<and> (fst (create_topup_payment e uid amount provider d) = Inl y
         \<longrightarrow> snd (create_topup_payment e uid amount provider d) = d)"
  using assms
  by (auto simp: create_subscription_payment_def create_topup_payment_def Let_def
      split: option.splits sum.splits prod.splits if_splits)

theorem failed_orders_leave_nothing_witness:
  "snd (create_subscription_payment (fx_env 5 503 JNull) 2 7 1 ''platega_sbp'' None fx_db) = fx_db"
proof -
  have "get_tariff fx_db 7 = None"
    by (simp add: get_tariff_def fx_db_def empty_db_def row_find_Cons fx_trial_tariff_def)
  then obtain x where x: "fst (create_subscription_payment (fx_env 5 503 JNull) 2 7 1 ''platega_sbp'' None fx_db) = Inl x"
    by (simp add: create_subscription_payment_def)
  show ?thesis using failed_orders_leave_nothing[OF x] by blast
qed

text \<open>A subscription whose price a discount code has brought to zero cannot be ordered: every
  gateway refuses an invoice over nothing.\<close>

theorem free_order_refused:
  assumes "get_tariff d tid = Some t" and "get_duration d did = Some td" and "td_tariff_id td = tid"
    and "fst (discount_lookup d promo (td_price td)) \<le> 0"
    and "provider \<in> {''platega_sbp'', ''platega_crypto'', ''cryptobot''}"
  shows "create_subscription_payment e uid tid did provider promo d
    = (Inl (err PaymentProviderUnavailableError), d)"
proof -
  obtain amount meta applied where l: "discount_lookup d promo (td_price td) = (amount, meta, applied)"
    by (cases "discount_lookup d promo (td_price td)")
  then have "amount \<le> 0" using assms(4) by simp
  note refused = zero_amount_refused[OF assms(5) this]
  show ?thesis
    using refused[of e "''payment-'' @ py_str (next_payment d)" "''VPN_PIX subscription #''
        @ py_str (next_payment d) @ '' ('' @ t_code t @ '', '' @ py_str (td_days td) @ ''d)''"]
    by (auto simp: create_subscription_payment_def assms(1-3) l Let_def)
qed

definition fx_free :: db where
  "fx_free = fx_db\<lparr>db_promos := [fx_promo 9 ''FREE'' PromoDiscount 100]\<rparr>"

theorem free_order_refused_witness:
  "create_subscription_payment (fx_env 5 200 JNull) 2 1 1 ''cryptobot'' (Some 9) fx_free
     = (Inl (err PaymentProviderUnavailableError), fx_free)"
proof (rule free_order_refused)
  show "get_tariff fx_free 1 = Some fx_tariff" "get_duration fx_free 1 = Some fx_duration"
    by (simp_all add: fx_free_def get_tariff_def get_duration_def fx_db_def empty_db_def row_find_Cons)
  show "fst (discount_lookup fx_free (Some 9) (td_price fx_duration)) \<le> 0"
    by (simp add: discount_lookup_def fx_free_def get_promo_def row_find_Cons compute_discounted_price_def)
qed simp_all

end
