(* ===== verification/Ledger.thy ===== *)
theory Ledger
  imports System
begin

text \<open>
  The ledger \<open>balance_transactions\<close> as an audit trail: no operation rewrites or
  removes a movement, and the balances are what replaying the movements gives.  The
  abstract specification is a bank that knows accounts and transfers only; every
  run of the service is a run of the bank.
\<close>

section \<open>The ledger only grows\<close>

definition grows :: "db \<Rightarrow> db \<Rightarrow> bool" where
  "grows a d \<longleftrightarrow> (\<exists>ms. db_bts d = db_bts a @ ms)"

lemma grows_refl [simp]: "grows d d"
  by (simp add: grows_def)

lemma grows_trans: "grows a b \<Longrightarrow> grows b c \<Longrightarrow> grows a c"
  by (auto simp: grows_def)

lemma grows_same: "db_bts d' = db_bts d \<Longrightarrow> grows d d'"
  by (simp add: grows_def)

lemma grows_cong: "db_bts d' = db_bts d \<Longrightarrow> grows a d' = grows a d"
  by (simp add: grows_def)

lemma grows_writes [simp]:
  "grows a (business_log e b1 b2 b3 b4 b5 d) = grows a d"
  "grows a (tech_log e t1 t2 t3 t4 d) = grows a d"
  "grows a (enqueue_message e o1 o2 o3 o4 o5 d) = grows a d"
  "grows a (send_admin_alert e a1 a2 a3 a4 d) = grows a d"
  "grows a (set_balance e u b d) = grows a d"
  "grows a (settle_promo e s1 s2 s3 s4 d) = grows a d"
  "grows a (record_promo_activation_safe e pay d) = grows a d"
  "grows a (mod_ref k f d) = grows a d"
  "grows a (mod_sub n k g d) = grows a d"
  "grows a (mod_payment n k h d) = grows a d"
  "grows a (create_sub e u2 t n2 dv dy ft d) = grows a d"
  "grows a (create_payment e u3 s pu pr am st tt m d) = grows a d"
  "grows a (mark_payment e pay2 st2 ts raw d) = grows a d"
  by (rule grows_cong; simp add: mark_payment_def)+

lemma grows_add_bt [intro]: "grows a d \<Longrightarrow> grows a (add_bt e x1 x2 x3 x4 x5 x6 x7 d)"
  by (auto simp: grows_def add_bt_def)

section \<open>The operations\<close>

lemma grows_purchase_debit: "grows d (snd (purchase_debit e uid tid did i d))"
  by (auto simp: purchase_debit_def Let_def split: sum.split prod.split)

lemma grows_refund: "grows a d \<Longrightarrow> grows a (refund_after_failure e pu x d)"
  by (auto simp: refund_after_failure_def Let_def split: option.split)

lemma grows_activate: "grows a d \<Longrightarrow> grows a (purchase_activate e pu kr d)"
  by (auto simp: purchase_activate_def Let_def)

lemma grows_purchase: "grows d (snd (purchase_with_balance e uid tid did i d))"
  using grows_purchase_debit[of d e uid tid did i]
  by (auto simp: purchase_with_balance_def intro: grows_refund grows_activate
      split: prod.split sum.split)

lemma grows_adjust: "grows d (snd (add_admin_adjust e uid a rs k l d))"
  by (auto simp: add_admin_adjust_def Let_def split: sum.split)

lemma grows_attach:
  "attach_invoice e pid ext meta d = Inr d' \<Longrightarrow> grows a d' = grows a d"
  by (auto simp: attach_invoice_Inr)

lemma grows_subscription: "grows d (snd (create_subscription_payment e uid tid did pr i d))"
  by (simp add: create_subscription_payment_def Let_def grows_attach split: option.split sum.split prod.split)

lemma grows_topup: "grows d (snd (create_topup_payment e uid a pr d))"
  by (simp add: create_topup_payment_def Let_def grows_attach split: sum.split)

lemma grows_extend_key:
  "call_northline_extend e pay s d = Inr d' \<Longrightarrow> grows a d \<Longrightarrow> grows a d'"
  by (auto simp: call_northline_extend_def Let_def split: option.splits sum.splits)

lemma grows_refund_extension: "grows a d \<Longrightarrow> grows a (refund_extension e uid pay sid am x d)"
  by (auto simp: refund_extension_def Let_def split: option.split)

lemma grows_apply_extension:
  "apply_extension_after_payment e pay d = Inr d' \<Longrightarrow> grows a d \<Longrightarrow> grows a d'"
  by (auto simp: apply_extension_after_payment_def
      intro: grows_extend_key grows_refund_extension
      split: option.splits json.splits sum.splits if_splits)

lemma grows_promo: "grows d (snd (validate_and_apply e code uid d))"
  by (auto simp: validate_and_apply_def apply_balance_def apply_discount_def Let_def grows_def add_bt_def
      split: list.split option.split sum.split promo_type.split)

lemma grows_extension_promo: "extension_promo e code uid d = Inr (pr, d1) \<Longrightarrow> grows d d1"
  using grows_promo[of d e "the code" uid]
  by (auto simp: extension_promo_def split: if_splits prod.splits sum.splits)

lemma grows_extend_via_balance:
  "grows a d0 \<Longrightarrow> grows a d \<Longrightarrow> grows a (snd (extend_via_balance e uid s td tc am m d0 d))"
  by (auto simp: extend_via_balance_def Let_def split: option.split sum.split
      intro!: grows_refund_extension grows_add_bt elim!: grows_extend_key)

lemma grows_extension_external:
  "grows a d0 \<Longrightarrow> grows a d \<Longrightarrow> grows a (snd (extension_external e uid s td tc pr am m d0 d))"
  by (simp add: extension_external_def Let_def grows_attach split: sum.split)

lemma grows_create_extension: "grows d (snd (create_extension_payment e sid did uid pr code d))"
proof -
  have "grows d d1" if "extension_promo e code uid d = Inr (p, d1)" for p d1
    using that by (rule grows_extension_promo)
  then show ?thesis
    by (simp add: create_extension_payment_def Let_def grows_extend_via_balance
        grows_extension_external split: option.split sum.split prod.split)
qed

lemma grows_referral: "grows a d \<Longrightarrow> grows a (apply_referral_bonus_safe e pay d)"
  by (auto simp: apply_referral_bonus_safe_def apply_referrer_bonus_def Let_def split: option.split)

lemma grows_credit: "grows a d \<Longrightarrow> grows a (credit_topup e pay t d)"
  by (auto simp: credit_topup_def Let_def split: option.split)

lemma grows_provision:
  assumes "provision_subscription_key e pay t d = Inr d'" "grows a d"
  shows "grows a d'"
proof -
  have msg: "grows a d2 \<Longrightarrow> enqueue_subscription_key e u i k d2 = Inr d3 \<Longrightarrow> grows a d3" for u i k d2 d3
    by (auto simp: enqueue_subscription_key_def split: option.splits)
  show ?thesis
    using assms
    by (auto simp: provision_subscription_key_def enqueue_provider_failed_def Let_def
        split: option.splits sum.splits elim!: msg[rotated])
qed

lemma grows_settle: "settle_by_purpose e pay t d = Inr d' \<Longrightarrow> grows a d \<Longrightarrow> grows a d'"
  by (auto simp: settle_by_purpose_def grows_credit intro: grows_apply_extension grows_provision
      split: if_splits payment_purpose.splits)

lemma grows_hooks: "grows a d \<Longrightarrow> grows a (post_paid_hooks e pay d)"
  by (simp add: post_paid_hooks_def grows_referral)

lemma grows_process_webhook: "grows d (snd (process_webhook_payment e pr x st raw t d))"
proof -
  have "grows d (snd (handle_paid e pay raw t d))" for pay
    by (auto simp: handle_paid_def Let_def intro!: grows_hooks elim!: grows_settle split: option.split sum.split)
  moreover have "grows d (snd (handle_failed e pay raw t d))" for pay
    by (auto simp: handle_failed_def Let_def split: option.split)
  moreover have "grows d (snd (handle_expired e pay raw t d))" for pay
    by (simp add: handle_expired_def Let_def)
  ultimately show ?thesis
    by (simp add: process_webhook_payment_def Let_def split: option.split)
qed

lemma grows_reply_of: "grows d (snd r) \<Longrightarrow> grows d (snd (reply_of r d))"
  by (auto simp: reply_of_def split: prod.split sum.split)

lemma grows_process_logged:
  "grows d (snd (process_webhook_payment e pr x st raw t (tech_log e2 t1 t2 t3 t4 d)))"
  by (rule grows_trans[OF _ grows_process_webhook]) simp

lemma grows_platega: "grows d (snd (platega_webhook e shop key mid sec pv parsed d))"
  by (simp add: platega_webhook_def Let_def grows_reply_of grows_process_logged
      split: sum.split json.split)

lemma grows_cryptobot: "grows d (snd (cryptobot_webhook e hmac token sig pv parsed d))"
  by (simp add: cryptobot_webhook_def Let_def grows_reply_of grows_process_logged
      split: sum.split json.split)

lemma grows_reconcile: "grows d (snd (reconcile_subscriptions e n d))"
proof (cases "reconcile_loop e (reconcile_batch n d) reconcile_zero 0 d")
  case (RnNext r c d')
  have "reconcile_loop e ss r0 c0 d0 = RnNext r c d' \<Longrightarrow> db_bts d' = db_bts d0" for ss r0 c0 d0
  proof (induction ss arbitrary: r0 c0 d0)
    case (Cons s ss)
    then obtain r1 c1 d1 where one: "reconcile_one e s r0 c0 d0 = RnNext r1 c1 d1"
        and rest: "reconcile_loop e ss r1 c1 d1 = RnNext r c d'"
      by (auto split: reconcile_step.splits)
    show ?case using reconcile_one_tables[OF one] Cons.IH[OF rest] by simp
  qed simp
  from this[OF RnNext] RnNext show ?thesis by (simp add: reconcile_subscriptions_def grows_same)
qed (simp_all add: reconcile_subscriptions_def breaker_alert_def rollback_def)

lemma grows_users:
  "grows d (snd (register_start e tg pf ref payload d))"
  "grows d (snd (ban_user e tg reason d))" "grows d (snd (unban_user e tg d))"
  "grows d (snd (activate_free_trial e u d))"
  by (rule grows_same;
      auto simp: register_start_def upsert_user_def ban_user_def unban_user_def rollback_def
        activate_free_trial_def Let_def split: option.split prod.split sum.split list.split)+

lemma grows_tickets:
  "grows d (snd (open_ticket e rnd uid kind d))"
  "grows d (snd (close_ticket e i who otg d))"
  "grows d (snd (record_message e i dir ty tx ph stk otg d))"
  "grows d (snd (set_ticket_thread e i th d))"
  "grows d (snd (save_support_topic e uid th name d))"
  by (rule grows_same;
      simp add: open_ticket_def close_ticket_def record_message_def set_ticket_thread_def
        save_support_topic_def Let_def split: option.split sum.split)+

lemma grows_outbox:
  "grows d (snd (fetch_pending e n locked d))"
  "grows d (snd (mark_sent e i otg d))" "grows d (snd (mark_failed e i m d))"
  by (rule grows_same;
      simp add: fetch_pending_def mark_sent_def mark_failed_def Let_def split: option.split)+

lemma grows_jobs:
  "grows d (snd (mark_expired_subscriptions e d))"
  "grows d (snd (expire_pending_payments e ttl d))"
  "grows d (snd (cleanup_idempotency_keys e ttl2 d))"
  "grows d (snd (cleanup_logs e d))"
  by (rule grows_same; simp add: cleanup_idempotency_keys_def cleanup_logs_def Let_def)+

lemma grows_reminders:
  "grows d (snd (snd (notify_expiring e texts d)))"
  "grows d (snd (snd (notify_expired e texts d)))"
  "grows d (snd (snd (notify_trial_expiring e d)))"
  using expiring.remind_all_untouched expired.remind_all_untouched trial.remind_all_untouched
  by (simp_all add: notify_expiring_def notify_expired_def notify_trial_expiring_def untouched_def grows_same)

lemma grows_keys:
  "grows d (snd (login e verify key d))"
  "grows d (snd (rotate_key e hash plain grace kid olabel d))"
  "grows d (snd (rotate_with_grace e hash plain label grace kid d))"
  "grows d (snd (revoke_key e me kid d))"
  by (rule grows_same;
      simp add: login_def rotate_key_def rotate_with_grace_def revoke_key_def add_key_def
        rollback_def Let_def split: option.split sum.split)+

lemma step_grows: "step d d' \<Longrightarrow> grows d d'"
  by (induction rule: step.induct)
    (rule grows_users grows_promo grows_purchase grows_subscription grows_topup
      grows_create_extension grows_platega grows_cryptobot grows_adjust grows_tickets
      grows_outbox grows_reconcile grows_jobs grows_reminders grows_keys)+

section \<open>Accounts never go away\<close>

definition user_ids :: "db \<Rightarrow> int set" where
  "user_ids d = u_id ` set (db_users d)"

lemma routine_user_ids:
  assumes "routine d d'"
  shows "user_ids d' = user_ids d"
proof -
  have "List.map fst (List.map (\<lambda>u. (u_id u, u_tg_id u)) (db_users d'))
      = List.map fst (List.map (\<lambda>u. (u_id u, u_tg_id u)) (db_users d))"
    using assms unfolding routine_def by metis
  then have "List.map u_id (db_users d') = List.map u_id (db_users d)" by (simp add: comp_def)
  then show ?thesis unfolding user_ids_def by (metis set_map)
qed

lemma user_ids_mod:
  assumes "\<And>u. u_id (f u) = u_id u"
  shows "user_ids (mod_user n k f d) = user_ids d"
proof -
  have "List.map u_id (db_users (mod_user n k f d)) = List.map u_id (db_users d)"
    by (simp add: db_users_mod_user map_row_upd assms)
  then show ?thesis unfolding user_ids_def by (metis set_map)
qed

lemma user_ids_upsert: "user_ids d \<subseteq> user_ids (snd (upsert_user e tg pf ref d))"
proof (cases "user_by_tg d tg")
  case None
  then show ?thesis by (auto simp: upsert_user_def rollback_def user_ids_def)
next
  case (Some u)
  then show ?thesis by (simp add: upsert_user_def user_ids_mod)
qed

lemma register_user_ids: "user_ids d \<subseteq> user_ids (snd (register_start e tg pf ref payload d))"
proof -
  have "user_ids (snd (register_referral e r u n d')) = user_ids d'" for r u n d'
    by (simp add: user_ids_def)
  then show ?thesis
    using user_ids_upsert[of d e tg pf ref]
    by (auto simp: register_start_def split: option.split prod.split sum.split)
qed

lemma user_ids_same: "db_users d' = db_users d \<Longrightarrow> user_ids d \<subseteq> user_ids d'"
  by (simp add: user_ids_def)

lemmas routine_keeps_ids = equalityD2[OF routine_user_ids]

lemma step_user_ids: "step d d' \<Longrightarrow> user_ids d \<subseteq> user_ids d'"
  by (induction rule: step.induct)
    (rule register_user_ids routine_keeps_ids[OF routine_ban(1)] routine_keeps_ids[OF routine_ban(2)]
      routine_keeps_ids[OF routine_promo] routine_keeps_ids[OF routine_purchase]
      routine_keeps_ids[OF routine_subscription] routine_keeps_ids[OF routine_topup]
      routine_keeps_ids[OF routine_create_extension] routine_keeps_ids[OF routine_platega]
      routine_keeps_ids[OF routine_cryptobot] user_ids_same[OF trial_frame(2)]
      routine_keeps_ids[OF routine_adjust] user_ids_same[OF ticket_ops_frame(1)]
      user_ids_same[OF ticket_ops_frame(4)] user_ids_same[OF ticket_ops_frame(7)]
      user_ids_same[OF ticket_ops_frame(10)] routine_keeps_ids[OF routine_topic]
      routine_keeps_ids[OF routine_outbox(1)] routine_keeps_ids[OF routine_outbox(2)]
      routine_keeps_ids[OF routine_outbox(3)] routine_keeps_ids[OF routine_reconcile]
      routine_keeps_ids[OF routine_mark_expired] routine_keeps_ids[OF routine_expire_pending]
      routine_keeps_ids[OF routine_reminders(1)] routine_keeps_ids[OF routine_reminders(2)]
      routine_keeps_ids[OF routine_reminders(3)] routine_keeps_ids[OF routine_cleanup(1)]
      routine_keeps_ids[OF routine_cleanup(2)] routine_keeps_ids[OF routine_keys(1)]
      routine_keeps_ids[OF routine_keys(2)] routine_keeps_ids[OF routine_keys(3)]
      routine_keeps_ids[OF routine_keys(4)])+

section \<open>The bank\<close>

type_synonym bank_state = "(int \<Rightarrow> int option) \<times> (int \<times> int) list"

inductive bank :: "bank_state \<Rightarrow> bank_state \<Rightarrow> bool" where
  bank_open: "a k = None \<Longrightarrow> bank (a, tr) (a(k \<mapsto> 0), tr)"
| bank_move: "a k = Some b \<Longrightarrow> bank (a, tr) (a(k \<mapsto> b + x), tr @ [(k, x)])"

inductive_cases bankE: "bank (a, tr) (b, ts)"

text \<open>The bank never drops a movement and never closes an account.\<close>

lemma bank_grows:
  "bank (a, tr) (b, ts) \<Longrightarrow> (\<exists>ms. ts = tr @ ms) \<and> dom a \<subseteq> dom b"
  by (erule bankE) auto

lemma bank_run_grows:
  "bank\<^sup>*\<^sup>* (a, tr) (b, ts) \<Longrightarrow> (\<exists>ms. ts = tr @ ms) \<and> dom a \<subseteq> dom b"
proof (induction "(b, ts)" arbitrary: b ts rule: rtranclp_induct)
  case (step y)
  obtain c us where y: "y = (c, us)" by (cases y)
  then obtain ms where "us = tr @ ms" "dom a \<subseteq> dom c" using step.hyps(3) by blast
  then show ?case using bank_grows[of c us b ts] step.hyps(2) y by auto
qed simp

definition bank_of :: "db \<Rightarrow> bank_state" where
  "bank_of d = (balance_of d, List.map (\<lambda>b. (bt_user_id b, bt_amount b)) (db_bts d))"

lemma bank_opens:
  assumes "finite K" "\<forall>k\<in>K. a k = None"
  shows "bank\<^sup>*\<^sup>* (a, tr) (\<lambda>k. if k \<in> K then Some 0 else a k, tr)"
  using assms
proof (induction K rule: finite_induct)
  case (insert k K)
  let ?f = "\<lambda>i. if i \<in> K then Some 0 else a i"
  have "bank (?f, tr) (?f(k \<mapsto> 0), tr)" using insert by (intro bank_open) simp
  moreover have "?f(k \<mapsto> 0) = (\<lambda>i. if i \<in> insert k K then Some 0 else a i)" by auto
  ultimately show ?case using insert by (simp add: rtranclp.rtrancl_into_rtrancl)
qed simp

lemma bank_moves:
  assumes "\<forall>m\<in>set ms. a (fst m) \<noteq> None"
  shows "bank\<^sup>*\<^sup>* (a, tr)
    (\<lambda>k. map_option (\<lambda>b. b + sum_where (\<lambda>m. fst m = k) snd ms) (a k), tr @ ms)"
  using assms
proof (induction ms rule: rev_induct)
  case Nil
  have "(\<lambda>k. map_option (\<lambda>b. b + sum_where (\<lambda>m. fst m = k) snd []) (a k)) = a"
    by (simp add: fun_eq_iff map_option.id[unfolded id_def])
  then show ?case by simp
next
  case (snoc m ms)
  let ?f = "\<lambda>k. map_option (\<lambda>b. b + sum_where (\<lambda>m. fst m = k) snd ms) (a k)"
  obtain k x where m: "m = (k, x)" by (cases m)
  then obtain b where b: "?f k = Some b" using snoc.prems by auto
  have "bank (?f, tr @ ms) (?f(k \<mapsto> b + x), (tr @ ms) @ [(k, x)])" by (rule bank_move[of ?f, OF b])
  moreover have "?f(k \<mapsto> b + x) = (\<lambda>i. map_option (\<lambda>b. b + sum_where (\<lambda>m. fst m = i) snd (ms @ [m])) (a i))"
    using b by (auto simp: fun_eq_iff m sum_where_def)
  ultimately show ?case
    using snoc m by (simp add: rtranclp.rtrancl_into_rtrancl)
qed

lemma balance_of_ledger:
  assumes "ledger_ok d"
  shows "balance_of d k = (if k \<in> user_ids d then Some (ledger_sum d k) else None)"
proof (cases "get_user d k")
  case None
  then show ?thesis by (simp add: balance_of_def get_user_def row_find_None user_ids_def)
next
  case (Some u)
  then have "u \<in> set (db_users d)" "u_id u = k"
    using row_find_SomeD[of u_id k "db_users d" u] by (simp_all add: get_user_def)
  then show ?thesis using assms Some by (auto simp: balance_of_def ledger_ok_def user_ids_def)
qed

lemma ledger_sum_bank:
  "ledger_sum d k = sum_where (\<lambda>m. fst m = k) snd (snd (bank_of d))"
  by (simp add: ledger_sum_def bank_of_def sum_where_def filter_map comp_def)

text \<open>Any growth of the ledger between two consistent states is a run of the bank.\<close>

lemma ledger_growth_is_bank_run:
  assumes "ledger_ok d" "ledger_ok d'" "grows d d'" "user_ids d \<subseteq> user_ids d'"
  shows "bank\<^sup>*\<^sup>* (bank_of d) (bank_of d')"
proof -
  obtain bs where bs: "db_bts d' = db_bts d @ bs" using assms(3) by (auto simp: grows_def)
  define ms where "ms = List.map (\<lambda>b. (bt_user_id b, bt_amount b)) bs"
  define new where "new = user_ids d' - user_ids d"
  let ?open = "\<lambda>k. if k \<in> new then Some 0 else balance_of d k"
  have dom: "?open k \<noteq> None \<longleftrightarrow> k \<in> user_ids d'" for k
    using assms(4) by (auto simp: new_def balance_of_ledger[OF assms(1)])
  have "finite new" by (simp add: new_def user_ids_def)
  then have "bank\<^sup>*\<^sup>* (bank_of d) (?open, snd (bank_of d))"
    unfolding bank_of_def snd_conv
    by (rule bank_opens) (simp add: new_def balance_of_ledger[OF assms(1)])
  moreover have "bank\<^sup>*\<^sup>* (?open, snd (bank_of d))
      (\<lambda>k. map_option (\<lambda>b. b + sum_where (\<lambda>m. fst m = k) snd ms) (?open k), snd (bank_of d) @ ms)"
  proof (rule bank_moves)
    show "\<forall>m\<in>set ms. ?open (fst m) \<noteq> None"
      unfolding dom using assms(2) by (auto simp: ms_def ledger_ok_def bs user_ids_def)
  qed
  moreover have "(\<lambda>k. map_option (\<lambda>b. b + sum_where (\<lambda>m. fst m = k) snd ms) (?open k)) = balance_of d'"
  proof
    fix k
    have split: "ledger_sum d' k = ledger_sum d k + sum_where (\<lambda>m. fst m = k) snd ms"
      unfolding ledger_sum_bank by (simp add: bank_of_def bs ms_def sum_where_def)
    have "ledger_sum d k = 0" if "k \<notin> user_ids d"
      unfolding ledger_sum_def using that assms(1)
      by (intro sum_where_none) (auto simp: ledger_ok_def user_ids_def)
    then show "map_option (\<lambda>b. b + sum_where (\<lambda>m. fst m = k) snd ms) (?open k) = balance_of d' k"
      using assms(4) split
      by (auto simp: new_def balance_of_ledger[OF assms(1)] balance_of_ledger[OF assms(2)])
  qed
  moreover have "snd (bank_of d) @ ms = snd (bank_of d')" by (simp add: bank_of_def bs ms_def)
  moreover have "bank_of d' = (balance_of d', snd (bank_of d'))" by (simp add: bank_of_def)
  ultimately show ?thesis by (metis rtranclp_trans)
qed

lemma step_is_bank_run:
  assumes "step d d'" "service_ok d"
  shows "bank\<^sup>*\<^sup>* (bank_of d) (bank_of d')"
  using assms step_service[OF assms] step_grows step_user_ids
  by (intro ledger_growth_is_bank_run) (simp_all add: service_ok_def money_ok_def)

text \<open>The simulation: a concrete system whose steps are runs of an abstract one.\<close>

locale simulation = transition_system start move I
  for start :: "'s \<Rightarrow> bool" and move :: "'s \<Rightarrow> 's \<Rightarrow> bool" and I :: "'s \<Rightarrow> bool" +
  fixes amove :: "'a \<Rightarrow> 'a \<Rightarrow> bool" and abs :: "'s \<Rightarrow> 'a"
  assumes sim: "move s s' \<Longrightarrow> I s \<Longrightarrow> amove\<^sup>*\<^sup>* (abs s) (abs s')"
begin

lemma run_simulates:
  assumes "move\<^sup>*\<^sup>* s s'" "I s"
  shows "amove\<^sup>*\<^sup>* (abs s) (abs s')"
  using assms(1)
proof (induction rule: rtranclp_induct)
  case (step y z)
  then show ?case using sim run_keeps[OF step(1) assms(2)] by (meson rtranclp_trans)
qed simp

end

interpretation service_bank: simulation initial step service_ok bank bank_of
  by unfold_locales (rule step_is_bank_run)

end
