(* ===== verification/Solvency.thy ===== *)
theory Solvency
  imports Ledger
begin

text \<open>
  No operation overdraws an account: as long as the catalogue has no negative prices
  and no balance code a negative value, every balance and every payment amount stays
  non-negative.
\<close>

definition solvent :: "db \<Rightarrow> bool" where
  "solvent d \<longleftrightarrow> (\<forall>u\<in>set (db_users d). 0 \<le> u_balance u)
             \<and> (\<forall>p\<in>set (db_payments d). 0 \<le> p_amount p)
             \<and> (\<forall>td\<in>set (db_durations d). 0 \<le> td_price td)
             \<and> (\<forall>p\<in>set (db_promos d). pc_type p = PromoBalance \<longrightarrow> 0 \<le> pc_value p)"

lemma solvent_cong:
  assumes "db_users d' = db_users d" "db_payments d' = db_payments d"
    "db_durations d' = db_durations d" "db_promos d' = db_promos d"
  shows "solvent d' = solvent d"
  by (simp add: solvent_def assms)

lemma solvent_writes [simp]:
  "solvent (business_log e b1 b2 b3 b4 b5 d) = solvent d"
  "solvent (tech_log e t1 t2 t3 t4 d) = solvent d"
  "solvent (enqueue_message e o1 o2 o3 o4 o5 d) = solvent d"
  "solvent (send_admin_alert e a1 a2 a3 a4 d) = solvent d"
  "solvent (add_bt e x1 x2 x3 x4 x5 x6 x7 d) = solvent d"
  "solvent (mod_ref k f d) = solvent d"
  "solvent (mod_sub n k g d) = solvent d"
  "solvent (create_sub e u2 t n2 dv dy ft d) = solvent d"
  "solvent (add_promo_act e y1 y2 y3 y4 d) = solvent d"
  by (rule solvent_cong; simp)+

lemma solvent_user: "solvent d \<Longrightarrow> get_user d k = Some u \<Longrightarrow> 0 \<le> u_balance u"
  using row_find_SomeD[of u_id k "db_users d" u] by (simp add: solvent_def get_user_def)

lemma solvent_duration: "solvent d \<Longrightarrow> get_duration d k = Some td \<Longrightarrow> 0 \<le> td_price td"
  using row_find_SomeD[of td_id k "db_durations d" td] by (simp add: solvent_def get_duration_def)

lemma solvent_payment: "solvent d \<Longrightarrow> get_payment d k = Some p \<Longrightarrow> 0 \<le> p_amount p"
  using row_find_SomeD[of p_id k "db_payments d" p] by (simp add: solvent_def get_payment_def)

lemma solvent_set_balance [intro]:
  assumes "solvent d" "0 \<le> b"
  shows "solvent (set_balance e uid b d)"
proof -
  have "0 \<le> u_balance (touch_user n (\<lambda>u. u\<lparr>u_balance := b\<rparr>) u)" for n u
    using assms(2) by simp
  then show ?thesis using assms
    by (auto simp: solvent_def set_balance_def db_users_mod_user row_upd_def)
qed

lemma solvent_mod_payment [intro]:
  assumes "solvent d" "\<And>p. p_amount (f p) = p_amount p"
  shows "solvent (mod_payment n k f d)"
proof -
  have "p_amount (touch_payment n f p) = p_amount p" for p
    using assms(2) by simp
  then show ?thesis using assms(1)
    by (auto simp: solvent_def db_payments_mod_payment row_upd_def)
qed

lemma solvent_create_payment [intro]:
  "solvent d \<Longrightarrow> 0 \<le> am \<Longrightarrow> solvent (create_payment e u s pu pr am st t m d)"
  by (auto simp: solvent_def create_payment_def)

lemma solvent_increment [simp]: "solvent (increment_activations k d) = solvent d"
  by (simp add: solvent_def increment_activations_def mod_promo_def row_upd_def if_distrib
      del: if_image_distrib cong: if_cong)

lemma solvent_record [simp]: "solvent (snd (record_discount_activation e p u pay am d)) = solvent d"
  by (simp add: record_discount_activation_def Let_def split: option.split)

lemma solvent_settle_promo [simp]: "solvent (settle_promo e s1 s2 s3 s4 d) = solvent d"
  by (simp add: settle_promo_def split: option.split)

lemma solvent_lookup:
  assumes "solvent d" "0 \<le> price" "discount_lookup d i price = (amount, meta, applied)"
  shows "0 \<le> amount"
proof -
  have "0 \<le> compute_discounted_price price v" for v
    using assms(2) by (auto simp: compute_discounted_price_def intro!: div_int_pos_iff[THEN iffD2])
  then show ?thesis using assms(2,3)
    by (auto simp: discount_lookup_def split: option.splits if_splits)
qed

lemma solvent_attach:
  "attach_invoice e pid ext meta d = Inr d' \<Longrightarrow> solvent d \<Longrightarrow> solvent d'"
  by (auto simp: attach_invoice_Inr)

lemma solvent_price:
  assumes "solvent d" "get_duration_or_raise d tid did = Inr td"
    "discount_lookup d i (td_price td) = (amount, meta, applied)"
  shows "0 \<le> amount"
proof -
  have "get_duration d did = Some td"
    using assms(2) by (auto simp: get_duration_or_raise_def Let_def split: option.splits if_splits)
  then show ?thesis using solvent_lookup[OF assms(1) _ assms(3)] solvent_duration[OF assms(1)] by blast
qed

lemma solvent_credit:
  "solvent d \<Longrightarrow> get_user d k = Some u \<Longrightarrow> 0 \<le> a \<Longrightarrow> solvent (set_balance e i (u_balance u + a) d)"
  using solvent_user[of d k u] by (intro solvent_set_balance) simp_all

section \<open>The operations\<close>

lemma solvent_purchase_debit:
  "solvent d \<Longrightarrow> solvent (snd (purchase_debit e uid tid did i d))"
  by (auto simp: purchase_debit_def Let_def not_less intro!: solvent_create_payment solvent_set_balance
      intro: solvent_price split: sum.split prod.split)

lemma purchase_debit_price:
  "solvent d \<Longrightarrow> fst (purchase_debit e uid tid did i d) = Inr pu \<Longrightarrow> 0 \<le> pu_price pu"
  by (auto simp: purchase_debit_def Let_def intro: solvent_price
      split: sum.splits prod.splits option.splits if_splits)

lemma solvent_refund: "solvent d \<Longrightarrow> 0 \<le> pu_price pu \<Longrightarrow> solvent (refund_after_failure e pu x d)"
  by (auto simp: refund_after_failure_def Let_def
      intro!: solvent_mod_payment intro: solvent_credit split: option.split)

lemma solvent_purchase: "solvent d \<Longrightarrow> solvent (snd (purchase_with_balance e uid tid did i d))"
  using solvent_purchase_debit[of d e uid tid did i] purchase_debit_price[of d e uid tid did i]
  by (auto simp: purchase_with_balance_def purchase_activate_def Let_def intro: solvent_refund
      split: prod.split sum.split)

lemma solvent_adjust: "solvent d \<Longrightarrow> solvent (snd (add_admin_adjust e uid a rs k l d))"
  by (auto simp: add_admin_adjust_def Let_def split: sum.split)

lemma solvent_subscription: "solvent d \<Longrightarrow> solvent (snd (create_subscription_payment e uid tid did pr i d))"
  by (auto simp: create_subscription_payment_def Let_def intro: solvent_lookup solvent_duration
      intro!: solvent_create_payment elim!: solvent_attach split: option.split sum.split prod.split)

lemma solvent_topup: "solvent d \<Longrightarrow> solvent (snd (create_topup_payment e uid a pr d))"
  by (auto simp: create_topup_payment_def Let_def min_topup_def
      intro!: solvent_create_payment elim!: solvent_attach split: sum.split)

lemma solvent_extend_key:
  "call_northline_extend e pay s d = Inr d' \<Longrightarrow> solvent d \<Longrightarrow> solvent d'"
  by (auto simp: call_northline_extend_def Let_def split: option.splits sum.splits)

lemma solvent_refund_extension:
  "solvent d \<Longrightarrow> 0 \<le> am \<Longrightarrow> solvent (refund_extension e uid pay sid am x d)"
  by (auto simp: refund_extension_def Let_def intro!: solvent_mod_payment intro: solvent_credit
      split: option.split)

lemma solvent_apply_extension:
  "apply_extension_after_payment e pay d = Inr d' \<Longrightarrow> solvent d \<Longrightarrow> 0 \<le> p_amount pay \<Longrightarrow> solvent d'"
  by (auto simp: apply_extension_after_payment_def
      intro: solvent_extend_key solvent_refund_extension
      split: option.splits json.splits sum.splits if_splits)

lemma solvent_promo_value:
  "solvent d \<Longrightarrow> get_promo d k = Some p \<Longrightarrow> pc_type p = PromoBalance \<Longrightarrow> 0 \<le> pc_value p"
  using row_find_SomeD[of pc_id k "db_promos d" p] by (simp add: solvent_def get_promo_def)

lemma solvent_promo: "solvent d \<Longrightarrow> solvent (snd (validate_and_apply e code uid d))"
  by (auto simp: validate_and_apply_def apply_balance_def apply_discount_def Let_def
      intro!: solvent_credit intro: solvent_promo_value
      split: list.split option.split sum.split promo_type.split)

lemma solvent_extension_promo: "extension_promo e code uid d = Inr (pr, d1) \<Longrightarrow> solvent d \<Longrightarrow> solvent d1"
  using solvent_promo[of d e "the code" uid]
  by (auto simp: extension_promo_def split: if_splits prod.splits sum.splits)

lemma solvent_extend_via_balance:
  "solvent d0 \<Longrightarrow> solvent d \<Longrightarrow> 0 \<le> am \<Longrightarrow> solvent (snd (extend_via_balance e uid s td tc am m d0 d))"
  by (auto simp: extend_via_balance_def Let_def not_less split: option.split sum.split
      intro!: solvent_refund_extension solvent_create_payment solvent_set_balance
      elim!: solvent_extend_key)

lemma solvent_extension_external:
  "solvent d0 \<Longrightarrow> solvent d \<Longrightarrow> 0 \<le> am \<Longrightarrow> solvent (snd (extension_external e uid s td tc pr am m d0 d))"
  by (auto simp: extension_external_def Let_def intro!: solvent_create_payment elim!: solvent_attach
      split: sum.split)

lemma solvent_referral: "solvent d \<Longrightarrow> solvent (apply_referral_bonus_safe e pay d)"
  by (auto simp: apply_referral_bonus_safe_def apply_referrer_bonus_def Let_def referral_bonus_def
      intro!: solvent_credit split: option.split)

lemma solvent_topup_credit: "solvent d \<Longrightarrow> 0 \<le> p_amount pay \<Longrightarrow> solvent (credit_topup e pay t d)"
  by (auto simp: credit_topup_def Let_def intro!: solvent_credit split: option.split)

lemma solvent_provision:
  assumes "provision_subscription_key e pay t d = Inr d'" "solvent d"
  shows "solvent d'"
proof -
  have msg: "solvent d2 \<Longrightarrow> enqueue_subscription_key e u i k d2 = Inr d3 \<Longrightarrow> solvent d3" for u i k d2 d3
    by (auto simp: enqueue_subscription_key_def split: option.splits)
  show ?thesis
    using assms
    by (auto simp: provision_subscription_key_def enqueue_provider_failed_def Let_def
        split: option.splits sum.splits elim!: msg[rotated])
qed

lemma solvent_settle:
  "settle_by_purpose e pay t d = Inr d' \<Longrightarrow> solvent d \<Longrightarrow> 0 \<le> p_amount pay \<Longrightarrow> solvent d'"
  by (auto simp: settle_by_purpose_def solvent_topup_credit
      intro: solvent_apply_extension solvent_provision
      split: if_splits payment_purpose.splits)

lemma solvent_hooks: "solvent d \<Longrightarrow> solvent (post_paid_hooks e pay d)"
  by (simp add: post_paid_hooks_def record_promo_activation_safe_def solvent_referral Let_def
      split: option.split)

lemma solvent_mark: "solvent d \<Longrightarrow> solvent (mark_payment e pay st ts raw d)"
  by (auto simp: mark_payment_def)

lemma solvent_process_webhook:
  assumes "solvent d"
  shows "solvent (snd (process_webhook_payment e pr x st raw t d))"
proof -
  have "solvent (snd (handle_paid e pay raw t d))" for pay
    using assms
    by (auto simp: handle_paid_def Let_def split: option.split sum.split
        intro!: solvent_hooks elim!: solvent_settle solvent_payment[rotated] intro: solvent_mark)
  moreover have "solvent (snd (handle_failed e pay raw t d))" for pay
    using assms by (auto simp: handle_failed_def Let_def solvent_mark split: option.split)
  moreover have "solvent (snd (handle_expired e pay raw t d))" for pay
    using assms by (simp add: handle_expired_def Let_def solvent_mark)
  ultimately show ?thesis using assms
    by (simp add: process_webhook_payment_def Let_def split: option.split)
qed

lemma solvent_reply_of: "solvent d \<Longrightarrow> solvent (snd r) \<Longrightarrow> solvent (snd (reply_of r d))"
  by (auto simp: reply_of_def split: prod.split sum.split)

lemma solvent_endpoints:
  assumes "solvent d"
  shows "solvent (snd (platega_webhook e shop key mid sec pv parsed d))"
    "solvent (snd (cryptobot_webhook e hmac token sig pv parsed d))"
  using assms
  by (simp_all add: platega_webhook_def cryptobot_webhook_def Let_def solvent_reply_of
      solvent_process_webhook split: sum.split json.split)

lemma solvent_create_extension:
  assumes "solvent d"
  shows "solvent (snd (create_extension_payment e sid did uid pr code d))"
proof -
  have price: "0 \<le> extension_price b pc" if "0 \<le> b" for b pc
    using that by (simp add: extension_price_def Let_def)
  have promo: "solvent d1" if "extension_promo e code uid d = Inr (p, d1)" for p d1
    using that assms by (rule solvent_extension_promo)
  have durations: "0 \<le> td_price td" if "get_duration d did = Some td" for td
    using assms that by (rule solvent_duration)
  show ?thesis
    using assms promo durations price
    by (simp add: create_extension_payment_def Let_def solvent_extend_via_balance
        solvent_extension_external split: option.split sum.split prod.split)
qed

lemma solvent_users:
  assumes "solvent d"
  shows "solvent (snd (ban_user e tg reason d))" "solvent (snd (unban_user e tg d))"
    "solvent (snd (register_start e tg pf ref payload d))"
proof -
  have mod: "solvent (mod_user n k f d)" if "\<And>u. u_balance (f u) = u_balance u" for n k f
    using assms that
    by (simp add: solvent_def db_users_mod_user row_upd_def if_distrib del: if_image_distrib cong: if_cong)
  show "solvent (snd (ban_user e tg reason d))" "solvent (snd (unban_user e tg d))"
    using assms mod by (simp_all add: ban_user_def unban_user_def rollback_def split: option.split)
  have "solvent (ins_user (new_user e tg pf ref d) d)"
    using assms by (simp add: solvent_def new_user_def)
  then have up: "solvent (snd (upsert_user e tg pf ref d))"
    using assms by (simp add: upsert_user_def rollback_def mod split: option.split)
  have ref: "solvent (snd (register_referral e r u n d')) = solvent d'" for r u n d'
    by (rule solvent_cong) simp_all
  show "solvent (snd (register_start e tg pf ref payload d))"
    using up by (auto simp: register_start_def ref split: option.split prod.split sum.split)
qed

lemma solvent_personal [simp]:
  "solvent d \<Longrightarrow> solvent (snd (issue_personal_discount e uid c pc v ds d))"
  by (auto simp: issue_personal_discount_def Let_def solvent_def split: option.split)

lemma solvent_trial: "solvent d \<Longrightarrow> solvent (snd (activate_free_trial e u d))"
  by (auto simp: activate_free_trial_def trial_activate_def trial_failed_def trial_pending_def
      issue_referrer_trial_bonus_def Let_def split: list.split sum.split option.split)

lemma solvent_reconcile: "solvent (snd (reconcile_subscriptions e n d)) = solvent d"
proof (cases "reconcile_loop e (reconcile_batch n d) reconcile_zero 0 d")
  case (RnNext r c d')
  have one: "solvent d2 = solvent d1" if "reconcile_one e s r1 c1 d1 = RnNext r2 c2 d2" for s r1 c1 d1 r2 c2 d2
    using that
    by (auto simp: reconcile_one_def Let_def deactivate_unknown_def status_drift_def expires_drift_def
        split: if_splits sum.splits option.splits prod.splits)
  have "reconcile_loop e ss r0 c0 d0 = RnNext r c d' \<Longrightarrow> solvent d' = solvent d0" for ss r0 c0 d0
  proof (induction ss arbitrary: r0 c0 d0)
    case (Cons s ss)
    then obtain r1 c1 d1 where st: "reconcile_one e s r0 c0 d0 = RnNext r1 c1 d1"
        and rest: "reconcile_loop e ss r1 c1 d1 = RnNext r c d'"
      by (auto split: reconcile_step.splits)
    show ?case using one[OF st] Cons.IH[OF rest] by simp
  qed simp
  from this[OF RnNext] RnNext show ?thesis by (simp add: reconcile_subscriptions_def)
qed (simp_all add: reconcile_subscriptions_def breaker_alert_def rollback_def)

lemma solvent_tickets:
  "solvent (snd (open_ticket e rnd uid kind d)) = solvent d"
  "solvent (snd (close_ticket e i who otg d)) = solvent d"
  "solvent (snd (record_message e i dir ty tx ph stk otg d)) = solvent d"
  "solvent (snd (set_ticket_thread e i th d)) = solvent d"
  "solvent (snd (save_support_topic e uid th name d)) = solvent d"
  by (rule solvent_cong;
      simp add: open_ticket_def close_ticket_def record_message_def set_ticket_thread_def
        save_support_topic_def Let_def split: option.split sum.split)+

lemma solvent_outbox:
  "solvent (snd (fetch_pending e n locked d)) = solvent d"
  "solvent (snd (mark_sent e i otg d)) = solvent d" "solvent (snd (mark_failed e i m d)) = solvent d"
  by (rule solvent_cong;
      simp add: fetch_pending_def mark_sent_def mark_failed_def Let_def split: option.split)+

lemma solvent_jobs:
  "solvent (snd (mark_expired_subscriptions e d)) = solvent d"
  "solvent (snd (cleanup_idempotency_keys e ttl2 d)) = solvent d"
  "solvent (snd (cleanup_logs e d)) = solvent d"
  by (rule solvent_cong;
      simp add: mark_expired_subscriptions_def cleanup_idempotency_keys_def cleanup_logs_def Let_def)+

lemma solvent_expire_pending: "solvent d \<Longrightarrow> solvent (snd (expire_pending_payments e ttl d))"
  by (auto simp: solvent_def expire_pending_payments_rows expire_payments_def expire_pending_payments_def
      fail_subscriptions_def Let_def)

lemma solvent_reminders:
  assumes "solvent d"
  shows "solvent (snd (snd (notify_expiring e texts d)))"
    "solvent (snd (snd (notify_expired e texts d)))"
    "solvent (snd (snd (notify_trial_expiring e d)))"
proof -
  have ins: "solvent (ins_notif n d) = solvent d" "solvent (ins_outbox ob d) = solvent d" for n ob d
    by (rule solvent_cong; simp)+
  have prep: "solvent d \<Longrightarrow> solvent (snd (trial_reminder e sid uid d))" for sid uid d
    by (simp add: trial_reminder_def Let_def)
  show "solvent (snd (snd (notify_expiring e texts d)))" "solvent (snd (snd (notify_expired e texts d)))"
    "solvent (snd (snd (notify_trial_expiring e d)))"
    unfolding notify_expiring_def notify_expired_def notify_trial_expiring_def
    by (rule expiring.remind_preserves expired.remind_preserves trial.remind_preserves;
        simp add: ins prep assms)+
qed

lemma revoke_all_prices [simp]: "db_durations (revoke_all now until ks d) = db_durations d"
  by (induction ks arbitrary: d) (simp_all add: revoke_all_def)

lemma solvent_keys:
  "solvent (snd (login e verify key d)) = solvent d"
  "solvent (snd (rotate_key e hash plain grace kid olabel d)) = solvent d"
  "solvent (snd (rotate_with_grace e hash plain label grace kid d)) = solvent d"
  "solvent (snd (revoke_key e me kid d)) = solvent d"
  by (rule solvent_cong;
      simp add: login_def rotate_key_def rotate_with_grace_def revoke_key_def add_key_def
        rollback_def Let_def split: option.split sum.split)+

lemma step_solvent: "step d d' \<Longrightarrow> solvent d \<Longrightarrow> solvent d'"
  by (induction rule: step.induct)
    (simp_all add: solvent_users solvent_promo solvent_purchase solvent_subscription solvent_topup
      solvent_create_extension solvent_endpoints solvent_trial solvent_adjust solvent_tickets
      solvent_outbox solvent_reconcile solvent_jobs solvent_expire_pending solvent_reminders solvent_keys)

text \<open>A shop that opens with sane prices.\<close>

definition priced :: "db \<Rightarrow> bool" where
  "priced d \<longleftrightarrow> initial d \<and> (\<forall>td\<in>set (db_durations d). 0 \<le> td_price td)
     \<and> (\<forall>p\<in>set (db_promos d). pc_type p = PromoBalance \<longrightarrow> 0 \<le> pc_value p)"

interpretation shop: transition_system priced step solvent
  by unfold_locales (auto simp: priced_def initial_def solvent_def[of "s::db" for s] dest: step_solvent)

end
