(* ===== verification/AdminCommon.thy ===== *)
theory AdminCommon
  imports AdminAuth Dispatcher
begin

text \<open>
  What the endpoints of the administrators' panel share: the audit row
  (\<open>services/audit_service.py\<close>) and the pages of a listing
  (\<open>.offset((page - 1) * page_size).limit(page_size)\<close>).
\<close>

section \<open>Audit\<close>

text \<open>
  \<open>record_admin_action\<close>: a \<open>business_log\<close> row with module \<open>admin\<close>.  Its level is INFO, which
  queues no alert, so one row in \<open>logs\<close> is all it writes.
\<close>

definition audit_context ::
  "admin_principal \<Rightarrow> string \<Rightarrow> int option \<Rightarrow> int option \<Rightarrow> (string \<times> json) list \<Rightarrow> (string \<times> json) list" where
  "audit_context admin action uid sid extra =
     fold (\<lambda>kv. jset (fst kv) (snd kv)) extra
       ([(''admin_key_id'', JInt (pr_kid admin)), (''admin_key_label'', JStr (pr_label admin)),
         (''action'', JStr action)]
        @ (case sid of None \<Rightarrow> [] | Some s \<Rightarrow> [(''target_subscription_id'', JInt s)])
        @ (case uid of None \<Rightarrow> [] | Some u \<Rightarrow> [(''target_user_id'', JInt u)]))"

definition record_admin_action ::
  "env \<Rightarrow> admin_principal \<Rightarrow> string \<Rightarrow> int option \<Rightarrow> int option \<Rightarrow> (string \<times> json) list \<Rightarrow> db \<Rightarrow> db" where
  "record_admin_action e admin action uid sid extra d =
     ins_log \<lparr>lg_id = next_log d, lg_level = level_info, lg_event = ''admin_action'',
              lg_module = ''admin'', lg_user_id = uid, lg_message = action,
              lg_context = Some (audit_context admin action uid sid extra),
              lg_created_at = e_now e\<rparr> d"

text \<open>An audit row names the administrator and the action, whatever the extra fields are.\<close>

lemma audit_context_admin:
  assumes "''admin_key_id'' \<notin> fst ` set extra" "''action'' \<notin> fst ` set extra"
  shows "map_of (audit_context admin action uid sid extra) ''admin_key_id'' = Some (JInt (pr_kid admin))
       \<and> map_of (audit_context admin action uid sid extra) ''action'' = Some (JStr action)"
proof -
  have "map_of (fold (\<lambda>kv. jset (fst kv) (snd kv)) xs base) k = map_of base k"
    if "k \<notin> fst ` set xs" for xs base k
    using that by (induction xs arbitrary: base) (auto simp: map_of_jset)
  then show ?thesis using assms by (simp add: audit_context_def)
qed

lemma record_admin_action_logs [effect]:
  "db_logs (record_admin_action e a act u s x d) =
     db_logs d @ [\<lparr>lg_id = next_log d, lg_level = level_info, lg_event = ''admin_action'',
        lg_module = ''admin'', lg_user_id = u, lg_message = act,
        lg_context = Some (audit_context a act u s x), lg_created_at = e_now e\<rparr>]"
  by (simp add: record_admin_action_def ins_log_def)

lemma record_admin_action_frame [simp, frame]:
  "db_users (record_admin_action e a act u s x d) = db_users d"
  "db_tariffs (record_admin_action e a act u s x d) = db_tariffs d"
  "db_durations (record_admin_action e a act u s x d) = db_durations d"
  "db_subs (record_admin_action e a act u s x d) = db_subs d"
  "db_payments (record_admin_action e a act u s x d) = db_payments d"
  "db_bts (record_admin_action e a act u s x d) = db_bts d"
  "db_promos (record_admin_action e a act u s x d) = db_promos d"
  "db_promo_acts (record_admin_action e a act u s x d) = db_promo_acts d"
  "db_refs (record_admin_action e a act u s x d) = db_refs d"
  "db_outbox (record_admin_action e a act u s x d) = db_outbox d"
  "db_notifs (record_admin_action e a act u s x d) = db_notifs d"
  "db_tickets (record_admin_action e a act u s x d) = db_tickets d"
  "db_ticket_msgs (record_admin_action e a act u s x d) = db_ticket_msgs d"
  "db_topics (record_admin_action e a act u s x d) = db_topics d"
  "db_idem_keys (record_admin_action e a act u s x d) = db_idem_keys d"
  "db_admin_keys (record_admin_action e a act u s x d) = db_admin_keys d"
  "db_tech_logs (record_admin_action e a act u s x d) = db_tech_logs d"
  "db_broadcasts (record_admin_action e a act u s x d) = db_broadcasts d"
  "db_rcpts (record_admin_action e a act u s x d) = db_rcpts d"
  "db_texts (record_admin_action e a act u s x d) = db_texts d"
  by (simp_all add: record_admin_action_def)

section \<open>Pages\<close>

record 'r page =
  pg_items :: "'r list"
  pg_total :: nat
  pg_page :: nat
  pg_size :: nat

definition page_rows :: "nat \<Rightarrow> nat \<Rightarrow> 'r list \<Rightarrow> 'r list" where
  "page_rows page sz rows = take sz (drop ((page - 1) * sz) rows)"

definition mk_page :: "nat \<Rightarrow> nat \<Rightarrow> 'r list \<Rightarrow> 'r page" where
  "mk_page page sz rows =
     \<lparr>pg_items = page_rows page sz rows, pg_total = length rows, pg_page = page, pg_size = sz\<rparr>"

text \<open>Reading the pages one after another gives the whole listing, each row once.\<close>

lemma pages_concat:
  assumes "0 < sz"
  shows "List.concat (List.map (\<lambda>p. page_rows p sz rows) [1..<Suc n]) = take (n * sz) rows"
proof (induction n)
  case (Suc n)
  have "List.concat (List.map (\<lambda>p. page_rows p sz rows) [1..<Suc (Suc n)])
        = take (n * sz) rows @ page_rows (Suc n) sz rows"
    using Suc.IH by simp
  also have "\<dots> = take (Suc n * sz) rows"
    by (simp add: page_rows_def take_add[symmetric] add.commute)
  finally show ?case .
qed simp

lemma pages_complete:
  assumes "0 < sz" "length rows \<le> n * sz"
  shows "List.concat (List.map (\<lambda>p. page_rows p sz rows) [1..<Suc n]) = rows"
  using assms(2) by (simp only: pages_concat[OF assms(1)] take_all_iff)

text \<open>\<open>ORDER BY k DESC\<close> over a stable scan.\<close>

definition desc_by :: "('r \<Rightarrow> int) \<Rightarrow> 'r list \<Rightarrow> 'r list" where
  "desc_by key rows = sort_key (\<lambda>r. - key r) rows"

lemma desc_by_set [simp]: "set (desc_by key rows) = set rows"
  "length (desc_by key rows) = length rows"
  by (simp_all add: desc_by_def)

lemma desc_by_sorted: "sorted_wrt (\<lambda>a b. key b \<le> key a) (desc_by key rows)"
proof -
  have "sorted (List.map (\<lambda>r. - key r) (desc_by key rows))" by (simp add: desc_by_def)
  then show ?thesis by (simp add: sorted_wrt_map)
qed

text \<open>\<open>session.get(Model, id)\<close> followed by the endpoint's 404.\<close>

definition or_404 :: "string \<Rightarrow> string \<Rightarrow> 'r option \<Rightarrow> exn + 'r" where
  "or_404 msg code r = (case r of None \<Rightarrow> Inl (mk_error NotFoundError (Some msg) (Some code) [])
                        | Some x \<Rightarrow> Inr x)"

text \<open>FastAPI's check of \<open>page\<close> and \<open>page_size\<close>.\<close>

definition page_query_ok :: "nat \<Rightarrow> int \<Rightarrow> int \<Rightarrow> bool" where
  "page_query_ok hi page sz \<longleftrightarrow> 1 \<le> page \<and> 1 \<le> sz \<and> sz \<le> int hi"

text \<open>The administrator of the witnesses.\<close>

definition fx_admin :: admin_principal where
  "fx_admin = \<lparr>pr_kid = 1, pr_label = ''root'', pr_iat = 0, pr_exp = 1\<rparr>"

end
