(* ===== verification/Broadcasts.thy ===== *)
theory Broadcasts
  imports AdminCommon Cron
begin

text \<open>
  Mass messages: the administrators' endpoints (\<open>api/admin/broadcasts.py\<close> with
  \<open>telegram_admin_client.py\<close>) and the worker's tasks (\<open>worker/app/tasks/broadcasts.py\<close>).
  Files are outside: \<open>disk\<close> says which paths exist, and reading one succeeds.  The
  driver hands the JSONB column over as text, which \<open>json.loads\<close> reads back, so
  \<open>bc_buttons\<close> is the value itself.
\<close>

section \<open>Status\<close>

text \<open>The life of a broadcast: a cancelled one can still be overwritten by done, see below.\<close>

fun bc_rank :: "bc_status \<Rightarrow> nat" where
  "bc_rank BcDraft = 0"
| "bc_rank BcScheduled = 1"
| "bc_rank BcSending = 2"
| "bc_rank BcCancelled = 3"
| "bc_rank BcDone = 4"

instantiation bc_status :: linorder
begin

definition less_eq_bc_status :: "bc_status \<Rightarrow> bc_status \<Rightarrow> bool" where
  "less_eq_bc_status s t \<longleftrightarrow> bc_rank s \<le> bc_rank t"

definition less_bc_status :: "bc_status \<Rightarrow> bc_status \<Rightarrow> bool" where
  "less_bc_status s t \<longleftrightarrow> bc_rank s < bc_rank t"

instance
proof
  fix s t :: bc_status
  show "s \<le> t \<Longrightarrow> t \<le> s \<Longrightarrow> s = t"
    by (cases s; cases t) (simp_all add: less_eq_bc_status_def)
qed (auto simp: less_eq_bc_status_def less_bc_status_def)

end

fun bc_status_str :: "bc_status \<Rightarrow> string" where
  "bc_status_str BcDraft = ''draft''"
| "bc_status_str BcScheduled = ''scheduled''"
| "bc_status_str BcSending = ''sending''"
| "bc_status_str BcDone = ''done''"
| "bc_status_str BcCancelled = ''cancelled''"

fun bc_target_str :: "bc_target \<Rightarrow> string" where
  "bc_target_str BcAll = ''all''"
| "bc_target_str BcSubscribers = ''subscribers''"

definition editable :: "bc_status \<Rightarrow> bool" where
  "editable s \<longleftrightarrow> s = BcDraft \<or> s = BcScheduled"

section \<open>The administrators' endpoints\<close>

definition photo_url :: "broadcast_row \<Rightarrow> string option" where
  "photo_url b = (if str_truthy (bc_photo_path b)
                  then Some (''/admin/broadcasts/'' @ py_str (bc_id b) @ ''/photo'') else None)"

definition serialize :: "broadcast_row \<Rightarrow> broadcast_row \<times> string option" where
  "serialize b = (b, photo_url b)"

definition broadcast_or_404 :: "db \<Rightarrow> int \<Rightarrow> exn + broadcast_row" where
  "broadcast_or_404 d i = or_404 ''Broadcast not found'' ''broadcast_not_found'' (get_broadcast d i)"

definition status_conflict :: "string \<Rightarrow> bc_status \<Rightarrow> string \<Rightarrow> exn" where
  "status_conflict verb s code =
     mk_error ConflictError
       (Some (''Cannot '' @ verb @ '' broadcast in status '' @ [CHR 0x27] @ bc_status_str s @ [CHR 0x27]))
       (Some code) []"

definition list_broadcasts ::
  "string option \<Rightarrow> int \<Rightarrow> int \<Rightarrow> db \<Rightarrow> exn + (broadcast_row \<times> string option) page" where
  "list_broadcasts status page sz d =
     (if \<not> page_query_ok 200 page sz \<or> length (opt_str status) > 16 \<and> status \<noteq> None then Inl query_error
      else Inr (mk_page (nat page) (nat sz) (List.map serialize (desc_by bc_id
        (filter (\<lambda>b. \<not> str_truthy status \<or> bc_status_str (bc_status b) = the status)
           (db_broadcasts d))))))"

definition get_broadcast_endpoint :: "int \<Rightarrow> db \<Rightarrow> exn + (broadcast_row \<times> string option)" where
  "get_broadcast_endpoint i d = map_sum id serialize (broadcast_or_404 d i)"

text \<open>A button is a text and a link; the bounds of the schema.\<close>

type_synonym bc_button = "string \<times> string"

definition buttons_ok :: "bc_button list option \<Rightarrow> bool" where
  "buttons_ok bs = (case bs of None \<Rightarrow> True | Some xs \<Rightarrow> length xs \<le> 8
     \<and> list_all (\<lambda>(t, u). 1 \<le> length t \<and> length t \<le> 64 \<and> 1 \<le> length u \<and> length u \<le> 2048) xs)"

definition button_json :: "bc_button \<Rightarrow> json" where
  "button_json b = JObj [(''text'', JStr (fst b)), (''url'', JStr (snd b))]"

record bc_create =
  cr_html_text :: string
  cr_target :: bc_target
  cr_buttons :: "bc_button list option"
  cr_buttons_per_row :: int
  cr_scheduled_at :: "int option"

definition create_ok :: "bc_create \<Rightarrow> bool" where
  "create_ok p \<longleftrightarrow> 1 \<le> length (cr_html_text p) \<and> length (cr_html_text p) \<le> 4096
     \<and> buttons_ok (cr_buttons p) \<and> 1 \<le> cr_buttons_per_row p \<and> cr_buttons_per_row p \<le> 4"

definition create_broadcast ::
  "env \<Rightarrow> admin_principal \<Rightarrow> bc_create \<Rightarrow> db \<Rightarrow> (exn + (broadcast_row \<times> string option)) \<times> db" where
  "create_broadcast e admin p d =
     (if \<not> create_ok p then (Inl query_error, d)
      else let st = (if cr_scheduled_at p \<noteq> None then BcScheduled else BcDraft);
               b = \<lparr>bc_id = next_broadcast d, bc_html_text = cr_html_text p, bc_photo_file_id = None,
                    bc_photo_path = None,
                    bc_buttons = (case cr_buttons p of None \<Rightarrow> None | Some [] \<Rightarrow> None
                                  | Some bs \<Rightarrow> Some (JArr (List.map button_json bs))),
                    bc_buttons_per_row = cr_buttons_per_row p, bc_target = cr_target p,
                    bc_scheduled_at = cr_scheduled_at p, bc_status = st, bc_recipients_total = 0,
                    bc_sent = 0, bc_failed = 0, bc_created_at = e_now e,
                    bc_created_by_id = Some (pr_kid admin), bc_created_by_label = Some (pr_label admin),
                    bc_started_at = None, bc_finished_at = None\<rparr>
           in (Inr (serialize b),
               record_admin_action e admin ''broadcast.create'' None None
                 [(''broadcast_id'', JInt (bc_id b)), (''status'', JStr (bc_status_str st))]
                 (ins_broadcast b d)))"

record bc_patch =
  pt_html_text :: "string option"
  pt_target :: "bc_target option"
  pt_buttons :: "bc_button list option"
  pt_buttons_per_row :: "int option"
  pt_scheduled_at :: "int option"

definition patch_ok :: "bc_patch \<Rightarrow> bool" where
  "patch_ok p \<longleftrightarrow> (case pt_html_text p of None \<Rightarrow> True | Some t \<Rightarrow> 1 \<le> length t \<and> length t \<le> 4096)
     \<and> buttons_ok (pt_buttons p)
     \<and> (case pt_buttons_per_row p of None \<Rightarrow> True | Some n \<Rightarrow> 1 \<le> n \<and> n \<le> 4)"

definition opt_set :: "'a option \<Rightarrow> ('a \<Rightarrow> 'r \<Rightarrow> 'r) \<Rightarrow> 'r \<Rightarrow> 'r" where
  "opt_set x f r = (case x of None \<Rightarrow> r | Some v \<Rightarrow> f v r)"

definition patch_row :: "bc_patch \<Rightarrow> broadcast_row \<Rightarrow> broadcast_row" where
  "patch_row p =
     opt_set (pt_scheduled_at p) (\<lambda>v b. b\<lparr>bc_scheduled_at := Some v, bc_status := BcScheduled\<rparr>)
     \<circ> opt_set (pt_buttons_per_row p) (\<lambda>v b. b\<lparr>bc_buttons_per_row := v\<rparr>)
     \<circ> opt_set (pt_buttons p) (\<lambda>v b. b\<lparr>bc_buttons := Some (JArr (List.map button_json v))\<rparr>)
     \<circ> opt_set (pt_target p) (\<lambda>v b. b\<lparr>bc_target := v\<rparr>)
     \<circ> opt_set (pt_html_text p) (\<lambda>v b. b\<lparr>bc_html_text := v\<rparr>)"

definition patch_changes :: "bc_patch \<Rightarrow> (string \<times> json) list" where
  "patch_changes p =
     (case pt_html_text p of None \<Rightarrow> [] | Some v \<Rightarrow> [(''html_text'', JBool True)])
     @ (case pt_target p of None \<Rightarrow> [] | Some v \<Rightarrow> [(''target'', JStr (bc_target_str v))])
     @ (case pt_buttons p of None \<Rightarrow> [] | Some v \<Rightarrow> [(''buttons'', JInt (int (length v)))])
     @ (case pt_buttons_per_row p of None \<Rightarrow> [] | Some v \<Rightarrow> [(''buttons_per_row'', JInt v)])
     @ (case pt_scheduled_at p of None \<Rightarrow> [] | Some v \<Rightarrow> [(''scheduled_at'', JStr (iso_format v))])"

definition reread :: "int \<Rightarrow> db \<Rightarrow> (exn + (broadcast_row \<times> string option)) \<times> db" where
  "reread i d = (map_sum id serialize (broadcast_or_404 d i), d)"

definition patch_broadcast ::
  "env \<Rightarrow> admin_principal \<Rightarrow> int \<Rightarrow> bc_patch \<Rightarrow> db \<Rightarrow> (exn + (broadcast_row \<times> string option)) \<times> db" where
  "patch_broadcast e admin i p d =
     (if \<not> patch_ok p then (Inl query_error, d)
      else case broadcast_or_404 d i of
        Inl x \<Rightarrow> (Inl x, d)
      | Inr b \<Rightarrow>
          if \<not> editable (bc_status b)
          then (Inl (status_conflict ''edit'' (bc_status b) ''broadcast_not_editable''), d)
          else if patch_changes p = [] then reread i d
          else reread i (record_admin_action e admin ''broadcast.update'' None None
                 [(''broadcast_id'', JInt i), (''changes'', JObj (patch_changes p))]
                 (mod_broadcast i (patch_row p) d)))"

text \<open>\<open>send\<close>: the job is put on the queue after the commit; whether that worked is not looked at.\<close>

definition send_broadcast ::
  "env \<Rightarrow> admin_principal \<Rightarrow> int \<Rightarrow> db \<Rightarrow> (exn + (broadcast_row \<times> string option)) \<times> db" where
  "send_broadcast e admin i d =
     (case broadcast_or_404 d i of
        Inl x \<Rightarrow> (Inl x, d)
      | Inr b \<Rightarrow>
          if \<not> editable (bc_status b)
          then (Inl (status_conflict ''send'' (bc_status b) ''broadcast_not_sendable''), d)
          else reread i (record_admin_action e admin ''broadcast.send'' None None
                 [(''broadcast_id'', JInt i)]
                 (mod_broadcast i (\<lambda>b. b\<lparr>bc_status := BcSending, bc_scheduled_at := None\<rparr>) d)))"

definition schedule_broadcast ::
  "env \<Rightarrow> admin_principal \<Rightarrow> int \<Rightarrow> int \<Rightarrow> db \<Rightarrow> (exn + (broadcast_row \<times> string option)) \<times> db" where
  "schedule_broadcast e admin i at d =
     (case broadcast_or_404 d i of
        Inl x \<Rightarrow> (Inl x, d)
      | Inr b \<Rightarrow>
          if \<not> editable (bc_status b)
          then (Inl (status_conflict ''schedule'' (bc_status b) ''broadcast_not_schedulable''), d)
          else reread i (record_admin_action e admin ''broadcast.schedule'' None None
                 [(''broadcast_id'', JInt i), (''scheduled_at'', JStr (iso_format at))]
                 (mod_broadcast i (\<lambda>b. b\<lparr>bc_status := BcScheduled, bc_scheduled_at := Some at\<rparr>) d)))"

text \<open>\<open>cancel\<close>: the second result says whether the stop flag is to be set in Redis.\<close>

definition cancel_broadcast ::
  "env \<Rightarrow> admin_principal \<Rightarrow> int \<Rightarrow> db \<Rightarrow> ((exn + (broadcast_row \<times> string option)) \<times> bool) \<times> db" where
  "cancel_broadcast e admin i d =
     (case broadcast_or_404 d i of
        Inl x \<Rightarrow> ((Inl x, False), d)
      | Inr b \<Rightarrow>
          if \<not> (editable (bc_status b) \<or> bc_status b = BcSending)
          then ((Inl (status_conflict ''cancel'' (bc_status b) ''broadcast_not_cancellable''), False), d)
          else (case reread i (record_admin_action e admin ''broadcast.cancel'' None None
                      [(''broadcast_id'', JInt i)]
                      (mod_broadcast i (\<lambda>b. b\<lparr>bc_status := BcCancelled, bc_finished_at := Some (e_now e)\<rparr>) d))
                of (r, d') \<Rightarrow> ((r, bc_status b = BcSending), d')))"
section \<open>Photos\<close>

definition photo_ext :: "string option \<Rightarrow> string" where
  "photo_ext filename = (if str_truthy filename then str_lower (rsplit_last (CHR ''.'') (the filename)) else [])"

definition photo_allowed_ext :: "string list" where
  "photo_allowed_ext = [''jpg'', ''jpeg'', ''png'']"

definition photo_allowed_ct :: "string list" where
  "photo_allowed_ct = [''image/jpeg'', ''image/png'', ''image/jpg'']"

definition photo_max_bytes :: nat where "photo_max_bytes = 10 * 1024 * 1024"

definition photo_root :: string where "photo_root = ''/app/var/broadcasts''"

definition photo_refused :: "string \<Rightarrow> string \<Rightarrow> exn" where
  "photo_refused msg code = mk_error ValidationError (Some msg) (Some code) []"

definition photo_problem :: "string option \<Rightarrow> string option \<Rightarrow> nat \<Rightarrow> exn option" where
  "photo_problem filename ctype bytes =
     (if photo_ext filename \<notin> set photo_allowed_ext
      then Some (photo_refused ''Only jpg/png are allowed'' ''photo_invalid_ext'')
      else if str_truthy ctype \<and> str_lower (the ctype) \<notin> set photo_allowed_ct
      then Some (photo_refused ''Only image/jpeg or image/png are allowed'' ''photo_invalid_content_type'')
      else if bytes > photo_max_bytes
      then Some (photo_refused ''Photo exceeds 10 MB limit'' ''photo_too_large'')
      else if bytes = 0 then Some (photo_refused ''Empty photo'' ''photo_empty'')
      else None)"

definition photo_target :: "env \<Rightarrow> int \<Rightarrow> string \<Rightarrow> string" where
  "photo_target e i ext = photo_root @ ''/'' @ py_str i @ ''/'' @ e_uuid e @ ''.''
     @ (if ext = ''jpeg'' then ''jpg'' else ext)"

definition upload_photo ::
  "env \<Rightarrow> admin_principal \<Rightarrow> int \<Rightarrow> string option \<Rightarrow> string option \<Rightarrow> nat \<Rightarrow> db
    \<Rightarrow> (exn + (broadcast_row \<times> string option)) \<times> db" where
  "upload_photo e admin i filename ctype bytes d =
     (case broadcast_or_404 d i of
        Inl x \<Rightarrow> (Inl x, d)
      | Inr b \<Rightarrow>
          (case photo_problem filename ctype bytes of
             Some x \<Rightarrow> (Inl x, d)
           | None \<Rightarrow> reread i (record_admin_action e admin ''broadcast.photo_upload'' None None
                 [(''broadcast_id'', JInt i), (''size'', JInt (int bytes))]
                 (mod_broadcast i (\<lambda>b. b\<lparr>bc_photo_path := Some (photo_target e i (photo_ext filename)),
                                        bc_photo_file_id := None\<rparr>) d))))"

text \<open>\<open>resolve\<close> is \<open>Path.resolve(strict=True)\<close>, \<open>None\<close> for a missing file.\<close>

definition path_suffix :: "string \<Rightarrow> string" where
  "path_suffix p = (let nm = rsplit_last (CHR ''/'') p in
     if CHR ''.'' \<in> set (tl nm) \<and> last nm \<noteq> CHR ''.'' then rsplit_last (CHR ''.'') nm else [])"

definition serve_photo ::
  "(string \<Rightarrow> string option) \<Rightarrow> int \<Rightarrow> db \<Rightarrow> exn + (string \<times> string)" where
  "serve_photo resolve i d =
     (case broadcast_or_404 d i of
        Inl x \<Rightarrow> Inl x
      | Inr b \<Rightarrow>
          if \<not> str_truthy (bc_photo_path b)
          then Inl (mk_error NotFoundError (Some ''Broadcast has no photo'') (Some ''broadcast_no_photo'') [])
          else case resolve (the (bc_photo_path b)) of
            None \<Rightarrow> Inl (mk_error NotFoundError (Some ''Photo file missing on disk'')
                        (Some ''broadcast_photo_missing'') [])
          | Some p \<Rightarrow>
              if \<not> starts_with photo_root p
              then Inl (mk_error NotFoundError (Some ''Photo path escapes broadcasts root'')
                     (Some ''broadcast_photo_invalid'') [])
              else (let ext = str_lower (path_suffix p) in
                    Inr (p, if ext = ''jpg'' \<or> ext = ''jpeg'' then ''image/jpeg''
                            else if ext = ''png'' then ''image/png'' else ''application/octet-stream'')))"

section \<open>Keyboards\<close>

fun chunks :: "nat \<Rightarrow> 'a list \<Rightarrow> 'a list list" where
  "chunks n [] = []"
| "chunks n (x # xs) = (x # take (n - 1) xs) # chunks n (drop (n - 1) xs)"

lemma chunks_concat [simp]: "List.concat (chunks n xs) = xs"
  by (induction n xs rule: chunks.induct) simp_all

lemma chunks_bound: "0 < n \<Longrightarrow> row \<in> set (chunks n xs) \<Longrightarrow> 0 < length row \<and> length row \<le> n"
  by (induction n xs rule: chunks.induct) auto

definition per_row :: "int \<Rightarrow> nat" where
  "per_row n = nat (max 1 (min (if n = 0 then 1 else n) 4))"

lemma per_row_bounds: "1 \<le> per_row n" "per_row n \<le> 4"
  by (auto simp: per_row_def)

definition keyboard :: "nat \<Rightarrow> json list \<Rightarrow> json" where
  "keyboard n flat = JObj [(''inline_keyboard'', JArr (List.map JArr (chunks n flat)))]"

definition url_button :: "json \<Rightarrow> json option" where
  "url_button btn = (case btn of
     JObj kvs \<Rightarrow> (case (map_of kvs ''text'', map_of kvs ''url'') of
                   (Some (JStr t), Some (JStr u)) \<Rightarrow> Some (button_json (t, u)) | _ \<Rightarrow> None)
   | _ \<Rightarrow> None)"

definition build_reply_markup :: "json option \<Rightarrow> int \<Rightarrow> json option" where
  "build_reply_markup buttons n =
     (case buttons of
        Some (JArr bs) \<Rightarrow> (case List.map_filter url_button bs of
                             [] \<Rightarrow> None | flat \<Rightarrow> Some (keyboard (per_row n) flat))
      | _ \<Rightarrow> None)"

text \<open>The buttons an administrator stores all appear, in order, at most four to a row.\<close>

lemma build_reply_markup_stored:
  assumes "bs \<noteq> []"
  shows "build_reply_markup (Some (JArr (List.map button_json bs))) n
    = Some (keyboard (per_row n) (List.map button_json bs))"
proof -
  have "List.map_filter url_button (List.map button_json bs) = List.map button_json bs"
    by (induction bs) (auto simp: List.map_filter_simps url_button_def button_json_def)
  then show ?thesis using assms by (auto simp: build_reply_markup_def split: list.split)
qed

section \<open>The test message\<close>

text \<open>\<open>telegram_admin_client._post\<close>: the JSON Telegram answers, or a failure made up here.\<close>

definition failure_json :: "json \<Rightarrow> string \<Rightarrow> json" where
  "failure_json code descr = JObj [(''ok'', JBool False), (''error_code'', code), (''description'', JStr descr)]"

definition telegram_post :: "env \<Rightarrow> string \<Rightarrow> string \<Rightarrow> json \<Rightarrow> json" where
  "telegram_post e token meth body =
     (if token = [] then failure_json (JInt (-1)) ''BOT_TOKEN not configured''
      else case e_http e ''telegram'' (''POST /'' @ meth) meth body 0 of
        TransportError m \<Rightarrow> failure_json (JInt (-1)) (''network error: '' @ m)
      | HttpResponse status (Some j) t \<Rightarrow> j
      | HttpResponse status None t \<Rightarrow>
          failure_json (JInt status) (''non-json (status='' @ py_str status @ '')''))"

definition admin_message_body :: "int \<Rightarrow> string \<Rightarrow> json option \<Rightarrow> json" where
  "admin_message_body chat msg markup =
     JObj ([(''chat_id'', JInt chat), (''text'', JStr msg), (''parse_mode'', JStr ''HTML'')]
           @ opt_field ''reply_markup'' markup)"

text \<open>The multipart form: the file's name stands for its bytes, the keyboard is sent as text.\<close>

definition admin_photo_body :: "int \<Rightarrow> string \<Rightarrow> string \<Rightarrow> json option \<Rightarrow> json" where
  "admin_photo_body chat path caption markup =
     JObj ([(''chat_id'', JInt chat), (''caption'', JStr caption), (''parse_mode'', JStr ''HTML'')]
           @ opt_field ''reply_markup'' (map_option (\<lambda>m. JText ''json'' [m]) markup)
           @ [(''photo'', JStr (rsplit_last (CHR ''/'') path))])"

definition strict_button :: "json \<Rightarrow> exn + json" where
  "strict_button btn = (case btn of
     JObj kvs \<Rightarrow> (case (map_of kvs ''text'', map_of kvs ''url'') of
                   (Some t, Some u) \<Rightarrow> Inr (JObj [(''text'', t), (''url'', u)])
                 | _ \<Rightarrow> Inl (PyExn ''KeyError'' ''''))
   | _ \<Rightarrow> Inl type_error)"

fun strict_buttons :: "json list \<Rightarrow> exn + json list" where
  "strict_buttons [] = Inr []"
| "strict_buttons (b # bs) =
     (case strict_button b of Inl x \<Rightarrow> Inl x
      | Inr j \<Rightarrow> (case strict_buttons bs of Inl x \<Rightarrow> Inl x | Inr js \<Rightarrow> Inr (j # js)))"

definition test_markup :: "broadcast_row \<Rightarrow> exn + json option" where
  "test_markup b = (case bc_buttons b of
     Some (JArr (x # xs)) \<Rightarrow> map_sum id (\<lambda>js. Some (keyboard (per_row (bc_buttons_per_row b)) js))
                              (strict_buttons (x # xs))
   | _ \<Rightarrow> Inr None)"

record test_result =
  ts_ok :: bool
  ts_message_id :: "int option"
  ts_error :: "json option"

definition test_outcome :: "(string \<times> json) list \<Rightarrow> test_result" where
  "test_outcome kvs =
     (let ok = opt_json_truthy (map_of kvs ''ok'') in
      \<lparr>ts_ok = ok,
       ts_message_id = (if ok then (case map_of kvs ''result'' of
            Some (JObj r) \<Rightarrow> (case map_of r ''message_id'' of
              Some (JInt n) \<Rightarrow> Some n | Some (JBool b) \<Rightarrow> Some (if b then 1 else 0) | _ \<Rightarrow> None)
          | _ \<Rightarrow> None) else None),
       ts_error = (if ok then None
                   else Some (if opt_json_truthy (map_of kvs ''description'')
                              then the (map_of kvs ''description'') else JStr ''send failed''))\<rparr>)"

definition test_broadcast ::
  "env \<Rightarrow> string \<Rightarrow> (string \<Rightarrow> bool) \<Rightarrow> admin_principal \<Rightarrow> int \<Rightarrow> int \<Rightarrow> db \<Rightarrow> (exn + test_result) \<times> db" where
  "test_broadcast e token disk admin i chat d =
     (case broadcast_or_404 d i of
        Inl x \<Rightarrow> (Inl x, d)
      | Inr b \<Rightarrow>
          (case test_markup b of
             Inl x \<Rightarrow> (Inl x, d)
           | Inr markup \<Rightarrow>
               (let msg = to_telegram_html (bc_html_text b);
                    envelope = (if str_truthy (bc_photo_path b) \<and> disk (the (bc_photo_path b))
                      then telegram_post e token ''sendPhoto''
                             (admin_photo_body chat (the (bc_photo_path b)) msg markup)
                      else telegram_post e token ''sendMessage'' (admin_message_body chat msg markup))
                in case envelope of
                     JObj kvs \<Rightarrow>
                       (Inr (test_outcome kvs),
                        record_admin_action e admin ''broadcast.test'' None None
                          [(''broadcast_id'', JInt i), (''tg_id'', JInt chat),
                           (''ok'', JBool (ts_ok (test_outcome kvs)))] d)
                   | _ \<Rightarrow> (Inl (PyExn ''AttributeError'' ''get''), d))))"

section \<open>Recipients\<close>

fun rcpt_status_str :: "rcpt_status \<Rightarrow> string" where
  "rcpt_status_str RcPending = ''pending''"
| "rcpt_status_str RcSent = ''sent''"
| "rcpt_status_str RcFailed = ''failed''"

definition rcpts_of :: "db \<Rightarrow> int \<Rightarrow> rcpt_row list" where
  "rcpts_of d i = filter (\<lambda>r. rc_broadcast_id r = i) (db_rcpts d)"

definition list_recipients :: "int \<Rightarrow> string option \<Rightarrow> int \<Rightarrow> int \<Rightarrow> db \<Rightarrow> exn + rcpt_row page" where
  "list_recipients i status page sz d =
     (if \<not> page_query_ok 500 page sz \<or> length (opt_str status) > 16 \<and> status \<noteq> None then Inl query_error
      else case broadcast_or_404 d i of
        Inl x \<Rightarrow> Inl x
      | Inr b \<Rightarrow> Inr (mk_page (nat page) (nat sz) (sort_key rc_id
          (filter (\<lambda>r. \<not> str_truthy status \<or> rcpt_status_str (rc_status r) = the status) (rcpts_of d i)))))"
section \<open>The worker: loading a broadcast\<close>

definition bc_batch :: nat where "bc_batch = 25"

definition live_sub :: "env \<Rightarrow> int \<Rightarrow> sub_row \<Rightarrow> bool" where
  "live_sub e uid s \<longleftrightarrow> s_user_id s = uid \<and> s_status s = SubActive
     \<and> (case s_expires_at s of None \<Rightarrow> True | Some x \<Rightarrow> x > e_now e)"

definition in_target :: "env \<Rightarrow> bc_target \<Rightarrow> db \<Rightarrow> user_row \<Rightarrow> bool" where
  "in_target e t d u \<longleftrightarrow> \<not> u_is_banned u
     \<and> (t = BcSubscribers \<longrightarrow> list_ex (live_sub e (u_id u)) (db_subs d))"

definition new_rcpt :: "env \<Rightarrow> int \<Rightarrow> int \<Rightarrow> db \<Rightarrow> rcpt_row" where
  "new_rcpt e i uid d = \<lparr>rc_id = next_rcpt d, rc_broadcast_id = i, rc_user_id = uid,
     rc_status = RcPending, rc_error = None, rc_sent_at = None, rc_created_at = e_now e\<rparr>"

definition snapshot :: "env \<Rightarrow> int \<Rightarrow> bc_target \<Rightarrow> db \<Rightarrow> db" where
  "snapshot e i t d =
     fold (\<lambda>uid d'. ins_rcpt (new_rcpt e i uid d') d')
       (List.map u_id (filter (in_target e t d) (db_users d))) d"

text \<open>The first transaction of \<open>run_broadcast\<close>: \<open>None\<close> when there is nothing to do.\<close>

definition load_broadcast :: "env \<Rightarrow> int \<Rightarrow> db \<Rightarrow> nat option \<times> db" where
  "load_broadcast e i d =
     (case get_broadcast d i of
        None \<Rightarrow> (None, d)
      | Some b \<Rightarrow>
          if bc_status b \<noteq> BcSending then (None, d)
          else if rcpts_of d i = [] then
            (let d1 = snapshot e i (bc_target b) d; total = length (rcpts_of d1 i) in
             (Some total, mod_broadcast i (\<lambda>b. b\<lparr>bc_recipients_total := int total,
                bc_started_at := (case bc_started_at b of None \<Rightarrow> Some (e_now e) | Some t \<Rightarrow> Some t)\<rparr>) d1))
          else (Some (length (rcpts_of d i)), d))"

text \<open>The next recipients in the order of their ids, each with the Telegram id of the user.\<close>

definition pending_rcpts :: "db \<Rightarrow> int \<Rightarrow> rcpt_row list" where
  "pending_rcpts d i = filter (\<lambda>r. rc_status r = RcPending) (rcpts_of d i)"

definition next_batch :: "db \<Rightarrow> int \<Rightarrow> (int \<times> int) list" where
  "next_batch d i =
     List.map (\<lambda>r. (rc_id r, u_tg_id (the (get_user d (rc_user_id r)))))
       (take bc_batch (sort_key rc_id
          (filter (\<lambda>r. get_user d (rc_user_id r) \<noteq> None) (pending_rcpts d i))))"

definition finalize :: "env \<Rightarrow> int \<Rightarrow> bc_status \<Rightarrow> db \<Rightarrow> db" where
  "finalize e i st d = mod_broadcast i (\<lambda>b. b\<lparr>bc_status := st, bc_finished_at := Some (e_now e)\<rparr>) d"

section \<open>The worker: one message\<close>

definition envelope_json :: "tg_envelope \<Rightarrow> json" where
  "envelope_json t = JObj [(''ok'', JBool (tg_ok t)), (''result'', tg_result t),
     (''error_code'', tg_error_code t), (''description'', tg_description t),
     (''parameters'', tg_parameters t)]"

definition send_photo_multipart :: "env \<Rightarrow> string \<Rightarrow> int \<Rightarrow> string \<Rightarrow> string \<Rightarrow> json option \<Rightarrow> json" where
  "send_photo_multipart e token chat path caption markup =
     (if token = [] then failure_json (JInt (-1)) ''BOT_TOKEN not configured''
      else case e_http e ''telegram'' ''POST /sendPhoto'' ''upload''
             (JObj ([(''chat_id'', JStr (py_str chat)), (''caption'', JStr caption),
                     (''parse_mode'', JStr ''HTML'')]
                    @ opt_field ''reply_markup'' (map_option (\<lambda>m. JText ''json'' [m]) markup)
                    @ [(''photo'', JStr (rsplit_last (CHR ''/'') path))])) 0 of
        TransportError m \<Rightarrow> failure_json (JInt (-1)) (''network: '' @ m)
      | HttpResponse status (Some j) t \<Rightarrow> j
      | HttpResponse status None t \<Rightarrow> failure_json (JInt status) ''non-json'')"

definition send_one ::
  "env \<Rightarrow> string \<Rightarrow> (string \<Rightarrow> bool) \<Rightarrow> int \<Rightarrow> string \<Rightarrow> string option \<Rightarrow> string option \<Rightarrow> json option \<Rightarrow> json" where
  "send_one e token disk chat msg fid path markup =
     (if str_truthy fid
      then envelope_json (tg_call e ''sendPhoto''
             (send_photo_body chat (JStr (the fid)) (Some (JStr msg)) (JStr ''HTML'') markup))
      else if str_truthy path \<and> disk (the path)
      then send_photo_multipart e token chat (the path) msg markup
      else envelope_json (tg_call e ''sendMessage''
             (send_message_body chat (JStr msg) (JStr ''HTML'') markup None)))"

text \<open>
  \<open>_maybe_extract_photo_file_id\<close>: the largest photo, the first of equals.  Sizes that
  are neither absent nor numbers do not compare; two text sizes, which would, are not
  modelled.
\<close>

definition photo_size :: "(string \<times> json) list \<Rightarrow> int option" where
  "photo_size p = (case map_of p ''file_size'' of
     None \<Rightarrow> Some 0 | Some (JInt n) \<Rightarrow> Some n | Some (JBool b) \<Rightarrow> Some (if b then 1 else 0)
   | Some j \<Rightarrow> if json_truthy j then None else Some 0)"

definition photo_dicts :: "json list \<Rightarrow> (string \<times> json) list list" where
  "photo_dicts = List.map_filter (\<lambda>j. case j of JObj p \<Rightarrow> Some p | _ \<Rightarrow> None)"

definition extract_photo_file_id :: "(string \<times> json) list \<Rightarrow> exn + string option" where
  "extract_photo_file_id envelope =
     (case map_of envelope ''result'' of
        Some (JObj r) \<Rightarrow>
          (case map_of r ''photo'' of
             Some (JArr ps) \<Rightarrow>
               (let ds = photo_dicts ps in
                if length ds > 1 \<and> list_ex (\<lambda>p. photo_size p = None) ds then Inl type_error
                else (case sort_key (\<lambda>p. - the (photo_size p)) ds of
                        [] \<Rightarrow> Inr None
                      | p # rest \<Rightarrow> Inr (case map_of p ''file_id'' of Some (JStr f) \<Rightarrow> Some f | _ \<Rightarrow> None)))
           | _ \<Rightarrow> Inr None)
      | _ \<Rightarrow> Inr None)"

definition mark_rcpt_sent :: "env \<Rightarrow> int \<Rightarrow> int \<Rightarrow> db \<Rightarrow> db" where
  "mark_rcpt_sent e i rid d =
     mod_broadcast i (\<lambda>b. b\<lparr>bc_sent := bc_sent b + 1\<rparr>)
       (mod_rcpt rid (\<lambda>r. r\<lparr>rc_status := RcSent, rc_sent_at := Some (e_now e)\<rparr>) d)"

definition mark_rcpt_failed :: "int \<Rightarrow> int \<Rightarrow> string \<Rightarrow> db \<Rightarrow> db" where
  "mark_rcpt_failed i rid msg d =
     mod_broadcast i (\<lambda>b. b\<lparr>bc_failed := bc_failed b + 1\<rparr>)
       (mod_rcpt rid (\<lambda>r. r\<lparr>rc_status := RcFailed, rc_error := Some (take 1000 msg)\<rparr>) d)"

definition keep_file_id :: "int \<Rightarrow> string \<Rightarrow> db \<Rightarrow> db" where
  "keep_file_id i f d = mod_broadcast i (\<lambda>b. if bc_photo_file_id b = None
     then b\<lparr>bc_photo_file_id := Some f\<rparr> else b) d"

definition envelope_error :: "(string \<times> json) list \<Rightarrow> string" where
  "envelope_error kvs = json_str (get_or JNull ''error_code'' kvs) @ '': ''
     @ (if opt_json_truthy (map_of kvs ''description'')
        then json_str (the (map_of kvs ''description'')) else ''unknown'')"

text \<open>
  What is committed after Telegram's answer: \<open>Inl\<close> leaves the job; the result says
  whether the message was sent, and the file id to go on with.
\<close>

definition record_answer ::
  "env \<Rightarrow> int \<Rightarrow> int \<Rightarrow> json \<Rightarrow> string option \<Rightarrow> db \<Rightarrow> (exn + (bool \<times> string option)) \<times> db" where
  "record_answer e i rid envelope fid d =
     (case envelope of
        JObj kvs \<Rightarrow>
          if opt_json_truthy (map_of kvs ''ok'') then
            (case extract_photo_file_id kvs of
               Inl x \<Rightarrow> (Inl x, d)
             | Inr new \<Rightarrow>
                 if str_truthy new \<and> \<not> str_truthy fid
                 then (Inr (True, new), keep_file_id i (the new) (mark_rcpt_sent e i rid d))
                 else (Inr (True, fid), mark_rcpt_sent e i rid d))
          else (Inr (False, fid), mark_rcpt_failed i rid (envelope_error kvs) d)
      | _ \<Rightarrow> (Inl (PyExn ''AttributeError'' ''get''), d))"

section \<open>The worker: the whole run\<close>

record run_counters =
  rk_total :: nat
  rk_sent :: nat
  rk_failed :: nat

text \<open>The sends of one batch; \<open>b\<close> is the broadcast as read with the batch.\<close>

fun send_batch ::
  "env \<Rightarrow> string \<Rightarrow> (string \<Rightarrow> bool) \<Rightarrow> broadcast_row \<Rightarrow> string option \<Rightarrow> (int \<times> int) list
    \<Rightarrow> run_counters \<Rightarrow> db \<Rightarrow> (exn + run_counters) \<times> db" where
  "send_batch e token disk b fid [] c d = (Inr c, d)"
| "send_batch e token disk b fid ((rid, tg) # rest) c d =
     (let envelope = send_one e token disk tg (to_telegram_html (bc_html_text b)) fid (bc_photo_path b)
                       (build_reply_markup (bc_buttons b) (bc_buttons_per_row b))
      in case record_answer e (bc_id b) rid envelope fid d of
           (Inl x, d') \<Rightarrow> (Inl x, d')
         | (Inr (sent, fid'), d') \<Rightarrow>
             send_batch e token disk b fid' rest
               (if sent then c\<lparr>rk_sent := Suc (rk_sent c)\<rparr> else c\<lparr>rk_failed := Suc (rk_failed c)\<rparr>) d')"

definition pending_count :: "db \<Rightarrow> nat" where
  "pending_count d = length (filter (\<lambda>r. rc_status r = RcPending) (db_rcpts d))"

lemma record_answer_rcpts:
  assumes "record_answer e i rid envelope fid d = (Inr (s, f), d')"
  shows "\<exists>g. db_rcpts d' = row_upd rc_id rid g (db_rcpts d) \<and> (\<forall>r. rc_status (g r) \<noteq> RcPending)
    \<and> (\<forall>r. rc_id (g r) = rc_id r \<and> rc_broadcast_id (g r) = rc_broadcast_id r \<and> rc_user_id (g r) = rc_user_id r)"
proof -
  have "db_rcpts d' = row_upd rc_id rid (\<lambda>r. r\<lparr>rc_status := RcSent, rc_sent_at := Some (e_now e)\<rparr>) (db_rcpts d)
    \<or> (\<exists>m. db_rcpts d' = row_upd rc_id rid (\<lambda>r. r\<lparr>rc_status := RcFailed, rc_error := Some m\<rparr>) (db_rcpts d))"
    using assms
    by (auto simp: record_answer_def mark_rcpt_sent_def mark_rcpt_failed_def keep_file_id_def mod_rcpt_def
        split: json.splits sum.splits if_splits)
  then show ?thesis by auto
qed

lemma pending_row_upd:
  assumes "\<And>r. rc_status (g r) \<noteq> RcPending"
  shows "length (filter (\<lambda>r. rc_status r = RcPending) (row_upd rc_id rid g rows))
      \<le> length (filter (\<lambda>r. rc_status r = RcPending) rows)"
    "r \<in> set rows \<Longrightarrow> rc_id r = rid \<Longrightarrow> rc_status r = RcPending \<Longrightarrow>
      length (filter (\<lambda>r. rc_status r = RcPending) (row_upd rc_id rid g rows))
      < length (filter (\<lambda>r. rc_status r = RcPending) rows)"
proof -
  show le: "length (filter (\<lambda>r. rc_status r = RcPending) (row_upd rc_id rid g rows))
      \<le> length (filter (\<lambda>r. rc_status r = RcPending) rows)" for rows
    using assms by (induction rows) (auto simp: row_upd_def)
  show "r \<in> set rows \<Longrightarrow> rc_id r = rid \<Longrightarrow> rc_status r = RcPending \<Longrightarrow>
      length (filter (\<lambda>r. rc_status r = RcPending) (row_upd rc_id rid g rows))
      < length (filter (\<lambda>r. rc_status r = RcPending) rows)"
  proof (induction rows)
    case (Cons x xs)
    show ?case
    proof (cases "r = x")
      case True
      then show ?thesis using assms le[of xs] Cons.prems(2,3) by (simp add: row_upd_Cons less_Suc_eq_le)
    next
      case False
      then show ?thesis using assms Cons by (auto simp: row_upd_Cons)
    qed
  qed simp
qed

lemma send_batch_pending_le:
  "send_batch e token disk b fid batch c d = (Inr c', d') \<Longrightarrow> pending_count d' \<le> pending_count d"
proof (induction batch arbitrary: fid c d)
  case (Cons p rest)
  obtain rid tg where p: "p = (rid, tg)" by (cases p)
  let ?env = "send_one e token disk tg (to_telegram_html (bc_html_text b)) fid (bc_photo_path b)
                (build_reply_markup (bc_buttons b) (bc_buttons_per_row b))"
  obtain s f d1 where r: "record_answer e (bc_id b) rid ?env fid d = (Inr (s, f), d1)"
    using Cons.prems by (auto simp: p split: prod.splits sum.splits)
  then obtain g where "db_rcpts d1 = row_upd rc_id rid g (db_rcpts d)" "\<forall>r. rc_status (g r) \<noteq> RcPending"
    using record_answer_rcpts[OF r] by blast
  then have "pending_count d1 \<le> pending_count d"
    using pending_row_upd(1)[of g rid "db_rcpts d"] by (simp add: pending_count_def)
  moreover have "pending_count d' \<le> pending_count d1"
    using Cons.prems Cons.IH r by (simp add: p)
  ultimately show ?case by simp
qed simp

lemma next_batch_mem:
  "(rid, tg) \<in> set (next_batch d i) \<Longrightarrow> \<exists>r\<in>set (db_rcpts d). rc_id r = rid \<and> rc_status r = RcPending
     \<and> rc_broadcast_id r = i \<and> get_user d (rc_user_id r) \<noteq> None"
  by (auto simp: next_batch_def pending_rcpts_def rcpts_of_def dest!: in_set_takeD)

lemma send_batch_progress:
  assumes "next_batch d i = p # rest" "send_batch e token disk b fid (p # rest) c d = (Inr c', d')"
  shows "pending_count d' < pending_count d"
proof -
  obtain rid tg where p: "p = (rid, tg)" by (cases p)
  obtain r0 where r0: "r0 \<in> set (db_rcpts d)" "rc_id r0 = rid" "rc_status r0 = RcPending"
    using next_batch_mem[of rid tg d i] assms(1) by (auto simp: p)
  let ?env = "send_one e token disk tg (to_telegram_html (bc_html_text b)) fid (bc_photo_path b)
                (build_reply_markup (bc_buttons b) (bc_buttons_per_row b))"
  obtain s f d1 where r: "record_answer e (bc_id b) rid ?env fid d = (Inr (s, f), d1)"
    using assms(2) by (auto simp: p split: prod.splits sum.splits)
  then obtain g where "db_rcpts d1 = row_upd rc_id rid g (db_rcpts d)" "\<forall>r. rc_status (g r) \<noteq> RcPending"
    using record_answer_rcpts[OF r] by blast
  then have "pending_count d1 < pending_count d"
    using pending_row_upd(2)[of g r0 "db_rcpts d" rid] r0 by (simp add: pending_count_def)
  moreover have "pending_count d' \<le> pending_count d1"
    using assms(2) r by (auto simp: p intro: send_batch_pending_le)
  ultimately show ?thesis by simp
qed

text \<open>What a look at the stop flag gives, one look per batch.\<close>

datatype flag_look = FlagSet | FlagClear | RedisDown

function run_loop ::
  "env \<Rightarrow> string \<Rightarrow> (string \<Rightarrow> bool) \<Rightarrow> (nat \<Rightarrow> flag_look) \<Rightarrow> int \<Rightarrow> nat \<Rightarrow> run_counters \<Rightarrow> db
    \<Rightarrow> (exn + run_counters) \<times> db" where
  "run_loop e token disk look i n c d =
     (if look n = FlagSet then (Inr c, finalize e i BcCancelled d)
      else case get_broadcast d i of
        None \<Rightarrow> (Inr c, d)
      | Some b \<Rightarrow>
          if bc_status b \<noteq> BcSending then (Inr c, d)
          else (case next_batch d i of
                  [] \<Rightarrow> (Inr c, finalize e i BcDone d)
                | p # rest \<Rightarrow>
                    (case send_batch e token disk b (bc_photo_file_id b) (p # rest) c d of
                       (Inl x, d') \<Rightarrow> (Inl x, d')
                     | (Inr c', d') \<Rightarrow> run_loop e token disk look i (Suc n) c' d')))"
  by pat_completeness auto
termination
  by (relation "measure (\<lambda>(e, token, disk, look, i, n, c, d). pending_count d)")
     (auto simp del: send_batch.simps dest: sym intro: send_batch_progress)

declare run_loop.simps [simp del]

definition run_broadcast ::
  "env \<Rightarrow> string \<Rightarrow> (string \<Rightarrow> bool) \<Rightarrow> (nat \<Rightarrow> flag_look) \<Rightarrow> int \<Rightarrow> db \<Rightarrow> (exn + run_counters) \<times> db" where
  "run_broadcast e token disk look i d =
     (case load_broadcast e i d of
        (None, d') \<Rightarrow> (Inr \<lparr>rk_total = 0, rk_sent = 0, rk_failed = 0\<rparr>, d')
      | (Some n, d') \<Rightarrow> run_loop e token disk look i 0 \<lparr>rk_total = n, rk_sent = 0, rk_failed = 0\<rparr> d')"

section \<open>The scheduler\<close>

definition due_broadcasts :: "env \<Rightarrow> int list \<Rightarrow> db \<Rightarrow> int list" where
  "due_broadcasts e locked d =
     List.map bc_id (take 100 (sort_key (\<lambda>b. the (bc_scheduled_at b))
       (filter (\<lambda>b. bc_status b = BcScheduled
                  \<and> (case bc_scheduled_at b of None \<Rightarrow> False | Some t \<Rightarrow> t \<le> e_now e)
                  \<and> bc_id b \<notin> set locked) (db_broadcasts d))))"

definition promoted :: "env \<Rightarrow> broadcast_row \<Rightarrow> broadcast_row" where
  "promoted e b = b\<lparr>bc_status := BcSending,
     bc_started_at := (case bc_started_at b of None \<Rightarrow> Some (e_now e) | Some t \<Rightarrow> Some t)\<rparr>"

definition promote :: "env \<Rightarrow> int \<Rightarrow> db \<Rightarrow> db" where
  "promote e i d = mod_broadcast i (promoted e) d"

definition pick_scheduled_broadcasts :: "env \<Rightarrow> int list \<Rightarrow> db \<Rightarrow> int list \<times> db" where
  "pick_scheduled_broadcasts e locked d =
     (let ids = due_broadcasts e locked d in (ids, fold (promote e) ids d))"

end
