(* ===== verification/BroadcastRuns.thy ===== *)
theory BroadcastRuns
  imports Broadcasts
begin

text \<open>
  Broadcasts while they run.  The world is the database, the stop flags in Redis, the
  jobs the worker has and the messages it has handed to Telegram; a step is one commit
  or one message, so requests of administrators, the scheduler, the clean-up and several
  jobs interleave in every order.  The invariant \<open>world_ok\<close> relates, for each broadcast,
  its row, its recipients, its jobs and its messages.  ARQ's rerun of a job after a
  shutdown of the worker is not a step.
\<close>

section \<open>The world\<close>

text \<open>A job waits, reads its next batch, has messages to send, waits for the answer about one,
  or has decided on the final status.\<close>

datatype bjob =
    JQueued int
  | JLoop int
  | JSend int broadcast_row "string option" "(int \<times> int) list"
  | JAwait int broadcast_row "string option" int "(int \<times> int) list"
  | JFinish int bc_status

fun job_bc :: "bjob \<Rightarrow> int" where
  "job_bc (JQueued i) = i"
| "job_bc (JLoop i) = i"
| "job_bc (JSend i b fid batch) = i"
| "job_bc (JAwait i b fid rid batch) = i"
| "job_bc (JFinish i st) = i"

record bc_world =
  bw_db :: db
  bw_flags :: "int list"
  bw_jobs :: "bjob list"
  bw_sent :: "(int \<times> int) list"

definition read_batch :: "db \<Rightarrow> int \<Rightarrow> bjob list" where
  "read_batch d i =
     (case get_broadcast d i of
        None \<Rightarrow> []
      | Some b \<Rightarrow>
          if bc_status b \<noteq> BcSending then []
          else (case next_batch d i of
                  [] \<Rightarrow> [JFinish i BcDone]
                | p # rest \<Rightarrow> [JSend i b (bc_photo_file_id b) (p # rest)]))"

definition after_answer :: "int \<Rightarrow> broadcast_row \<Rightarrow> string option \<Rightarrow> (int \<times> int) list \<Rightarrow> bjob" where
  "after_answer i b fid rest = (if rest = [] then JLoop i else JSend i b fid rest)"

inductive bc_step :: "bc_world \<Rightarrow> bc_world \<Rightarrow> bool" where
  create: "bc_step w (w\<lparr>bw_db := snd (create_broadcast e a p (bw_db w))\<rparr>)"
| patch: "bc_step w (w\<lparr>bw_db := snd (patch_broadcast e a i q (bw_db w))\<rparr>)"
| schedule: "bc_step w (w\<lparr>bw_db := snd (schedule_broadcast e a i t (bw_db w))\<rparr>)"
| photo: "bc_step w (w\<lparr>bw_db := snd (upload_photo e a i nm ct n (bw_db w))\<rparr>)"
| send: "send_broadcast e a i (bw_db w) = (Inr r, d') \<Longrightarrow>
    bc_step w (w\<lparr>bw_db := d', bw_jobs := bw_jobs w @ (if enqueued then [JQueued i] else [])\<rparr>)"
| cancel: "cancel_broadcast e a i (bw_db w) = ((r, f), d') \<Longrightarrow>
    bc_step w (w\<lparr>bw_db := d', bw_flags := (if f \<and> redis_up then i # bw_flags w else bw_flags w)\<rparr>)"
| pick: "pick_scheduled_broadcasts e locked (bw_db w) = (ids, d') \<Longrightarrow>
    bc_step w (w\<lparr>bw_db := d', bw_jobs := bw_jobs w @ List.map JQueued (filter enq ids)\<rparr>)"
| cleanup: "bc_step w (w\<lparr>bw_db := snd (cleanup_logs e (bw_db w))\<rparr>)"
| expire_flag: "bc_step w (w\<lparr>bw_flags := removeAll i (bw_flags w)\<rparr>)"
| start: "bw_jobs w = xs @ JQueued i # ys \<Longrightarrow> load_broadcast e i (bw_db w) = (n, d') \<Longrightarrow>
    bc_step w (w\<lparr>bw_db := d', bw_jobs := xs @ (if n = None then [] else [JLoop i]) @ ys\<rparr>)"
| see_flag: "bw_jobs w = xs @ JLoop i # ys \<Longrightarrow> i \<in> set (bw_flags w) \<Longrightarrow>
    bc_step w (w\<lparr>bw_jobs := xs @ JFinish i BcCancelled # ys\<rparr>)"
| read: "bw_jobs w = xs @ JLoop i # ys \<Longrightarrow>
    bc_step w (w\<lparr>bw_jobs := xs @ read_batch (bw_db w) i @ ys\<rparr>)"
| message: "bw_jobs w = xs @ JSend i b fid ((rid, tg) # rest) # ys \<Longrightarrow>
    bc_step w (w\<lparr>bw_jobs := xs @ JAwait i b fid rid rest # ys, bw_sent := bw_sent w @ [(i, rid)]\<rparr>)"
| answer: "bw_jobs w = xs @ JAwait i b fid rid rest # ys \<Longrightarrow>
    record_answer e i rid envelope fid (bw_db w) = (r, d') \<Longrightarrow>
    bc_step w (w\<lparr>bw_db := d', bw_jobs := xs @ (case r of Inl x \<Rightarrow> [] | Inr (s, f) \<Rightarrow> [after_answer i b f rest]) @ ys\<rparr>)"
| finish: "bw_jobs w = xs @ JFinish i st # ys \<Longrightarrow>
    bc_step w (w\<lparr>bw_db := finalize e i st (bw_db w), bw_jobs := xs @ ys\<rparr>)"
| die: "bw_jobs w = xs @ j # ys \<Longrightarrow> bc_step w (w\<lparr>bw_jobs := xs @ ys\<rparr>)"
| elsewhere: "db_broadcasts d' = db_broadcasts (bw_db w) \<Longrightarrow> db_rcpts d' = db_rcpts (bw_db w) \<Longrightarrow>
    distinct (List.map u_id (db_users d')) \<Longrightarrow> u_id ` set (db_users (bw_db w)) \<subseteq> u_id ` set (db_users d') \<Longrightarrow>
    bc_step w (w\<lparr>bw_db := d'\<rparr>)"

definition bc_initial :: "bc_world \<Rightarrow> bool" where
  "bc_initial w \<longleftrightarrow> db_broadcasts (bw_db w) = [] \<and> db_rcpts (bw_db w) = [] \<and> bw_flags w = []
     \<and> bw_jobs w = [] \<and> bw_sent w = [] \<and> distinct (List.map u_id (db_users (bw_db w)))"

section \<open>The invariant of one broadcast\<close>

definition pend :: "rcpt_row list \<Rightarrow> int set" where
  "pend rs = rc_id ` {r \<in> set rs. rc_status r = RcPending}"

fun job_ok :: "rcpt_row list \<Rightarrow> int list \<Rightarrow> bc_status \<Rightarrow> bjob \<Rightarrow> bool" where
  "job_ok rs ss st (JQueued i) = (rs = [] \<and> ss = [])"
| "job_ok rs ss st (JLoop i) = (pend rs \<inter> set ss = {})"
| "job_ok rs ss st (JSend i b fid batch) =
     (pend rs \<inter> set ss = {} \<and> distinct (List.map fst batch) \<and> fst ` set batch \<subseteq> pend rs)"
| "job_ok rs ss st (JAwait i b fid rid rest) =
     (pend rs \<inter> set ss = {rid} \<and> distinct (rid # List.map fst rest) \<and> fst ` set rest \<subseteq> pend rs)"
| "job_ok rs ss st (JFinish i t) = (t = BcDone \<and> pend rs = {} \<or> t = BcCancelled \<and> st = BcCancelled)"

definition tally :: "rcpt_status \<Rightarrow> rcpt_row list \<Rightarrow> int" where
  "tally st rs = count_where (\<lambda>r. rc_status r = st) rs"

definition bc_ok ::
  "broadcast_row option \<Rightarrow> rcpt_row list \<Rightarrow> bjob list \<Rightarrow> int list \<Rightarrow> bool \<Rightarrow> bool" where
  "bc_ok bo rs js ss fl =
     (case bo of
        None \<Rightarrow> rs = [] \<and> js = [] \<and> ss = [] \<and> \<not> fl
      | Some b \<Rightarrow>
          length js \<le> 1 \<and> distinct ss \<and> distinct (List.map rc_user_id rs)
          \<and> (editable (bc_status b) \<longrightarrow> rs = [] \<and> js = [] \<and> ss = [] \<and> \<not> fl)
          \<and> (fl \<longrightarrow> BcCancelled \<le> bc_status b)
          \<and> (bc_status b = BcDone \<longrightarrow> js = [])
          \<and> (bc_status b \<noteq> BcDone \<longrightarrow> bc_recipients_total b = int (length rs)
                \<and> bc_sent b = tally RcSent rs \<and> bc_failed b = tally RcFailed rs)
          \<and> (bc_status b = BcDone \<longrightarrow> bc_sent b + bc_failed b = bc_recipients_total b)
          \<and> list_all (job_ok rs ss (bc_status b)) js)"

lemma tally_split: "int (length rs) = tally RcPending rs + tally RcSent rs + tally RcFailed rs"
proof (induction rs)
  case (Cons r rs)
  then show ?case by (cases "rc_status r") (simp_all add: tally_def count_where_Cons)
qed (simp add: tally_def)

lemma pend_empty_tally: "pend rs = {} \<Longrightarrow> tally RcPending rs = 0"
proof -
  assume "pend rs = {}"
  then have "filter (\<lambda>r. rc_status r = RcPending) rs = []" by (auto simp: pend_def filter_empty_conv)
  then show ?thesis by (simp add: tally_def count_where_def)
qed

lemma editable_simps [simp]:
  "editable BcDraft" "editable BcScheduled" "\<not> editable BcSending" "\<not> editable BcCancelled" "\<not> editable BcDone"
  by (simp_all add: editable_def)

lemma status_le_simps [simp]:
  "(BcCancelled \<le> s) = (s = BcCancelled \<or> s = BcDone)"
  "(BcSending \<le> s) = (\<not> editable s)"
  "(s \<le> BcDone) = True"
  by (cases s; simp add: less_eq_bc_status_def)+

text \<open>How the steps move one broadcast.\<close>

lemma bc_ok_edit:
  assumes "bc_ok (Some b) rs js ss fl" "editable (bc_status b)" "editable (bc_status b')"
    and "bc_recipients_total b' = bc_recipients_total b" "bc_sent b' = bc_sent b" "bc_failed b' = bc_failed b"
  shows "bc_ok (Some b') rs js ss fl"
  using assms by (auto simp: bc_ok_def)

lemma bc_ok_same_status:
  assumes "bc_ok (Some b) rs js ss fl" "bc_status b' = bc_status b"
    and "bc_recipients_total b' = bc_recipients_total b" "bc_sent b' = bc_sent b" "bc_failed b' = bc_failed b"
  shows "bc_ok (Some b') rs js ss fl"
  using assms by (auto simp: bc_ok_def)

lemma bc_ok_promote:
  assumes "bc_ok (Some b) rs js ss fl" "editable (bc_status b)" "bc_status b' = BcSending"
    and "bc_recipients_total b' = bc_recipients_total b" "bc_sent b' = bc_sent b" "bc_failed b' = bc_failed b"
    and "js' = [] \<or> js' = [JQueued i]"
  shows "bc_ok (Some b') rs js' ss fl"
  using assms by (auto simp: bc_ok_def)

lemma bc_ok_cancel:
  assumes "bc_ok (Some b) rs js ss fl" "bc_status b \<noteq> BcDone" "bc_status b' = BcCancelled"
    and "bc_recipients_total b' = bc_recipients_total b" "bc_sent b' = bc_sent b" "bc_failed b' = bc_failed b"
  shows "bc_ok (Some b') rs js ss fl'"
proof -
  have "job_ok rs ss (bc_status b) j \<Longrightarrow> job_ok rs ss BcCancelled j" for j by (cases j) auto
  then show ?thesis using assms by (auto simp: bc_ok_def list_all_iff)
qed

lemma bc_ok_no_job: "bc_ok (Some b) rs js ss fl \<Longrightarrow> bc_ok (Some b) rs [] ss fl"
  by (auto simp: bc_ok_def)

lemma bc_ok_unflag: "bc_ok bo rs js ss fl \<Longrightarrow> bc_ok bo rs js ss False"
  by (auto simp: bc_ok_def split: option.splits)

lemma bc_ok_job:
  assumes "bc_ok (Some b) rs [j] ss fl" "job_ok rs ss (bc_status b) j'"
  shows "bc_ok (Some b) rs [j'] ss fl"
  using assms by (auto simp: bc_ok_def)

lemma bc_ok_finish:
  assumes "bc_ok (Some b) rs [JFinish i st] ss fl" "bc_status b' = st"
    and "bc_recipients_total b' = bc_recipients_total b" "bc_sent b' = bc_sent b" "bc_failed b' = bc_failed b"
  shows "bc_ok (Some b') rs [] ss fl"
proof (cases "st = BcDone")
  case True
  then have "pend rs = {}" "bc_status b \<noteq> BcDone" using assms(1) by (auto simp: bc_ok_def)
  then show ?thesis
    using assms True tally_split[of rs] pend_empty_tally[of rs] by (auto simp: bc_ok_def)
next
  case False
  then show ?thesis using assms by (auto simp: bc_ok_def)
qed
lemma bc_ok_message:
  assumes "bc_ok (Some b) rs [JSend i c fid ((rid, tg) # rest)] ss fl"
  shows "bc_ok (Some b) rs [JAwait i c fid rid rest] (ss @ [rid]) fl"
  using assms by (auto simp: bc_ok_def)

lemma pend_row_upd:
  assumes "distinct (List.map rc_id rs)" "\<And>r. rc_status (g r) \<noteq> RcPending" "\<And>r. rc_id (g r) = rc_id r"
  shows "pend (row_upd rc_id rid g rs) = pend rs - {rid}"
proof -
  have "r \<in> set (row_upd rc_id rid g rs) \<and> rc_status r = RcPending
      \<longleftrightarrow> r \<in> set rs \<and> rc_status r = RcPending \<and> rc_id r \<noteq> rid" for r
    using assms(2) by (auto simp: in_row_upd)
  then show ?thesis by (auto simp: pend_def)
qed

lemma tally_row_upd:
  assumes "distinct (List.map rc_id rs)" "rid \<in> pend rs" "\<And>r. rc_status (g r) = st" "st \<noteq> RcPending"
  shows "tally t (row_upd rc_id rid g rs)
    = tally t rs + (if t = st then 1 else 0) - (if t = RcPending then 1 else 0)"
proof -
  obtain r where r: "r \<in> set rs" "rc_id r = rid" "rc_status r = RcPending"
    using assms(2) by (auto simp: pend_def)
  have f: "row_find rc_id rid rs = Some r" using row_find_distinct[OF assms(1) r(1)] r(2) by simp
  show ?thesis
    using count_where_upd[OF assms(1) f, of "\<lambda>r. rc_status r = t" g] r(3) assms(3,4)
    by (auto simp: tally_def)
qed

lemma row_upd_length: "length (row_upd key k f rows) = length rows"
  by (simp add: row_upd_def)

lemma row_upd_users:
  "(\<And>r. rc_user_id (g r) = rc_user_id r) \<Longrightarrow> List.map rc_user_id (row_upd rc_id rid g rs) = List.map rc_user_id rs"
  by (rule map_row_upd) simp

lemma bc_ok_answer:
  assumes "bc_ok (Some b) rs [JAwait i c fid rid rest] ss fl" "distinct (List.map rc_id rs)"
    and "bc_status b' = bc_status b" "bc_recipients_total b' = bc_recipients_total b"
    and "\<And>r. rc_status (g r) = st" "\<And>r. rc_id (g r) = rc_id r" "\<And>r. rc_user_id (g r) = rc_user_id r"
    and "st = RcSent \<and> bc_sent b' = bc_sent b + 1 \<and> bc_failed b' = bc_failed b
       \<or> st = RcFailed \<and> bc_sent b' = bc_sent b \<and> bc_failed b' = bc_failed b + 1"
  shows "bc_ok (Some b') (row_upd rc_id rid g rs) [after_answer i c f rest] ss fl"
proof -
  have st: "st \<noteq> RcPending" using assms(8) by auto
  have job: "pend rs \<inter> set ss = {rid}" "distinct (rid # List.map fst rest)" "fst ` set rest \<subseteq> pend rs"
    using assms(1) by (auto simp: bc_ok_def)
  then have rid: "rid \<in> pend rs" by auto
  have p: "pend (row_upd rc_id rid g rs) = pend rs - {rid}"
    using pend_row_upd[OF assms(2), of g rid] assms(5,6) st by simp
  have "job_ok (row_upd rc_id rid g rs) ss (bc_status b) (after_answer i c f rest)"
    using job by (auto simp: after_answer_def p)
  then show ?thesis
    using assms(1,3,4,8) tally_row_upd[OF assms(2) rid, of g st, OF assms(5) st]
    by (auto simp: bc_ok_def row_upd_users assms(7) row_upd_length)
qed

lemma bc_ok_load:
  assumes "bc_ok (Some b) [] [JQueued i] [] fl" "bc_status b' = bc_status b" "bc_status b = BcSending"
    and "bc_sent b' = bc_sent b" "bc_failed b' = bc_failed b" "bc_recipients_total b' = int (length rs)"
    and "list_all (\<lambda>r. rc_status r = RcPending) rs" "distinct (List.map rc_user_id rs)"
  shows "bc_ok (Some b') rs [JLoop i] [] fl"
proof -
  have "tally RcSent rs = 0" "tally RcFailed rs = 0"
    using assms(7) by (induction rs) (auto simp: tally_def count_where_Cons)
  then show ?thesis using assms(1-6,8) by (auto simp: bc_ok_def tally_def)
qed

lemma bc_ok_cleanup:
  assumes "bc_ok (Some b) rs js ss fl" "bc_status b = BcDone"
  shows "bc_ok (Some b) (filter P rs) js ss fl"
  using assms by (auto simp: bc_ok_def distinct_map_filter)

section \<open>The invariant of the world\<close>

definition jobs_of :: "int \<Rightarrow> bjob list \<Rightarrow> bjob list" where
  "jobs_of i js = filter (\<lambda>j. job_bc j = i) js"

definition sent_of :: "int \<Rightarrow> (int \<times> int) list \<Rightarrow> int list" where
  "sent_of i ss = List.map snd (filter (\<lambda>s. fst s = i) ss)"

lemma jobs_of_simps [simp]:
  "jobs_of i [] = []" "jobs_of i (xs @ ys) = jobs_of i xs @ jobs_of i ys"
  "jobs_of i (j # js) = (if job_bc j = i then j # jobs_of i js else jobs_of i js)"
  by (simp_all add: jobs_of_def)

lemma sent_of_simps [simp]:
  "sent_of i [] = []" "sent_of i (xs @ ys) = sent_of i xs @ sent_of i ys"
  "sent_of i (p # ss) = (if fst p = i then snd p # sent_of i ss else sent_of i ss)"
  by (simp_all add: sent_of_def)

definition view_ok :: "bc_world \<Rightarrow> int \<Rightarrow> bool" where
  "view_ok w i \<longleftrightarrow> bc_ok (get_broadcast (bw_db w) i) (rcpts_of (bw_db w) i)
     (jobs_of i (bw_jobs w)) (sent_of i (bw_sent w)) (i \<in> set (bw_flags w))"

definition tables_ok :: "db \<Rightarrow> bool" where
  "tables_ok d \<longleftrightarrow> distinct (List.map bc_id (db_broadcasts d))
     \<and> distinct (List.map rc_id (db_rcpts d)) \<and> distinct (List.map u_id (db_users d))
     \<and> rc_user_id ` set (db_rcpts d) \<subseteq> u_id ` set (db_users d)"

definition world_ok :: "bc_world \<Rightarrow> bool" where
  "world_ok w \<longleftrightarrow> tables_ok (bw_db w) \<and> (\<forall>i. view_ok w i)"

lemma world_okD: "world_ok w \<Longrightarrow> view_ok w i" "world_ok w \<Longrightarrow> tables_ok (bw_db w)"
  by (simp_all add: world_ok_def)

text \<open>Most steps touch one broadcast: the rest of the world is as it was.\<close>

lemma world_ok_one:
  assumes "world_ok w" "tables_ok (bw_db w')"
    and "\<And>j. j \<noteq> i \<Longrightarrow> get_broadcast (bw_db w') j = get_broadcast (bw_db w) j
        \<and> rcpts_of (bw_db w') j = rcpts_of (bw_db w) j
        \<and> jobs_of j (bw_jobs w') = jobs_of j (bw_jobs w) \<and> sent_of j (bw_sent w') = sent_of j (bw_sent w)
        \<and> (j \<in> set (bw_flags w')) = (j \<in> set (bw_flags w))"
    and "view_ok w' i"
  shows "world_ok w'"
proof -
  have "view_ok w' j" for j
    using assms by (cases "j = i") (auto simp: world_ok_def view_ok_def)
  then show ?thesis using assms(2) by (simp add: world_ok_def)
qed

lemma rcpts_of_frame [simp]:
  "rcpts_of (mod_broadcast i f d) j = rcpts_of d j"
  "rcpts_of (record_admin_action e a act u s x d) j = rcpts_of d j"
  "rcpts_of (ins_broadcast b d) j = rcpts_of d j"
  by (simp_all add: rcpts_of_def)

lemma tables_ok_frame [simp]:
  "tables_ok (record_admin_action e a act u s x d) = tables_ok d"
  by (simp_all add: tables_ok_def)

lemma tables_ok_mod [simp]:
  "(\<And>b. bc_id (f b) = bc_id b) \<Longrightarrow> tables_ok (mod_broadcast i f d) = tables_ok d"
  by (simp add: tables_ok_def) (simp add: mod_broadcast_def row_upd_keys)

lemma tables_ok_ins:
  "bc_id b = next_broadcast d \<Longrightarrow> tables_ok d \<Longrightarrow> tables_ok (ins_broadcast b d)"
  by (simp add: tables_ok_def) (auto simp: ins_broadcast_def next_broadcast_def fresh_id_notin)

lemma get_broadcast_audit [simp]:
  "get_broadcast (record_admin_action e a act u s x d) j = get_broadcast d j"
  "get_user (record_admin_action e a act u s x d) j = get_user d j"
  by (simp_all add: get_defs)

lemma get_broadcast_rcpt [simp]: "get_broadcast (mod_rcpt k f d) j = get_broadcast d j"
  by (simp add: get_defs)

text \<open>A job in the list is the only one of its broadcast.\<close>

lemma job_alone:
  assumes "world_ok w" "bw_jobs w = xs @ j # ys"
  obtains b where "get_broadcast (bw_db w) (job_bc j) = Some b"
    "jobs_of (job_bc j) xs = []" "jobs_of (job_bc j) ys = []"
    "bc_ok (Some b) (rcpts_of (bw_db w) (job_bc j)) [j] (sent_of (job_bc j) (bw_sent w))
       (job_bc j \<in> set (bw_flags w))"
proof -
  have v: "view_ok w (job_bc j)" using assms(1) by (rule world_okD)
  then obtain b where b: "get_broadcast (bw_db w) (job_bc j) = Some b"
    by (cases "get_broadcast (bw_db w) (job_bc j)") (auto simp: view_ok_def bc_ok_def assms(2))
  then have l: "length (jobs_of (job_bc j) xs @ j # jobs_of (job_bc j) ys) \<le> 1"
    using v by (auto simp: view_ok_def bc_ok_def assms(2))
  then have "jobs_of (job_bc j) xs = []" "jobs_of (job_bc j) ys = []" by auto
  then show ?thesis using that b v by (simp add: view_ok_def assms(2))
qed

text \<open>A step of a job: it is replaced by at most one job of the same broadcast.\<close>

lemma world_ok_job:
  assumes "world_ok w" "bw_jobs w = xs @ j # ys" "tables_ok d'"
    and "\<And>k. k \<noteq> job_bc j \<Longrightarrow> get_broadcast d' k = get_broadcast (bw_db w) k
        \<and> rcpts_of d' k = rcpts_of (bw_db w) k"
    and "list_all (\<lambda>j'. job_bc j' = job_bc j) js" "list_all (\<lambda>s. fst s = job_bc j) ss"
    and "\<And>b. get_broadcast (bw_db w) (job_bc j) = Some b \<Longrightarrow>
        bc_ok (Some b) (rcpts_of (bw_db w) (job_bc j)) [j] (sent_of (job_bc j) (bw_sent w))
          (job_bc j \<in> set (bw_flags w)) \<Longrightarrow>
        bc_ok (get_broadcast d' (job_bc j)) (rcpts_of d' (job_bc j)) js
          (sent_of (job_bc j) (bw_sent w) @ List.map snd ss) (job_bc j \<in> set (bw_flags w))"
  shows "world_ok (w\<lparr>bw_db := d', bw_jobs := xs @ js @ ys, bw_sent := bw_sent w @ ss\<rparr>)"
proof -
  obtain b where alone: "get_broadcast (bw_db w) (job_bc j) = Some b"
    "jobs_of (job_bc j) xs = []" "jobs_of (job_bc j) ys = []"
    "bc_ok (Some b) (rcpts_of (bw_db w) (job_bc j)) [j] (sent_of (job_bc j) (bw_sent w))
       (job_bc j \<in> set (bw_flags w))"
    using job_alone[OF assms(1,2)] by metis
  have js: "jobs_of (job_bc j) js = js" using assms(5) by (simp add: jobs_of_def list_all_iff)
  have ss: "sent_of (job_bc j) ss = List.map snd ss" using assms(6) by (simp add: sent_of_def list_all_iff)
  have other: "jobs_of k js = []" "sent_of k ss = []" if "k \<noteq> job_bc j" for k
    using assms(5,6) that by (auto simp: jobs_of_def sent_of_def list_all_iff filter_empty_conv)
  show ?thesis
    by (rule world_ok_one[OF assms(1), where i = "job_bc j"])
      (use assms(2-4) alone js ss other assms(7)[OF alone(1,4)] in \<open>auto simp: view_ok_def\<close>)
qed
section \<open>The administrators' steps keep it\<close>

lemma world_ok_edit:
  assumes "world_ok w" "get_broadcast (bw_db w) i = Some b" "\<And>b. bc_id (f b) = bc_id b"
    and "list_all (\<lambda>j. job_bc j = i) js"
    and "bc_ok (Some b) (rcpts_of (bw_db w) i) (jobs_of i (bw_jobs w)) (sent_of i (bw_sent w)) (i \<in> set (bw_flags w)) \<Longrightarrow>
      bc_ok (Some (f b)) (rcpts_of (bw_db w) i) (jobs_of i (bw_jobs w) @ js) (sent_of i (bw_sent w)) (i \<in> set fs \<or> i \<in> set (bw_flags w))"
    and "set fs \<subseteq> {i}"
  shows "world_ok (w\<lparr>bw_db := record_admin_action e a act u s x (mod_broadcast i f (bw_db w)),
     bw_jobs := bw_jobs w @ js, bw_flags := fs @ bw_flags w\<rparr>)"
proof (rule world_ok_one[OF assms(1), where i = i])
  have js: "jobs_of i js = js" using assms(4) by (simp add: jobs_of_def list_all_iff)
  have v: "view_ok w i" using assms(1) by (rule world_okD)
  show "view_ok (w\<lparr>bw_db := record_admin_action e a act u s x (mod_broadcast i f (bw_db w)),
     bw_jobs := bw_jobs w @ js, bw_flags := fs @ bw_flags w\<rparr>) i"
    using assms(5) v by (simp add: view_ok_def broadcast_tab.get_upd[OF assms(3)] assms(2) js)
  fix j assume "j \<noteq> i"
  moreover then have "jobs_of j js = []" using assms(4) by (auto simp: jobs_of_def list_all_iff filter_empty_conv)
  ultimately show "get_broadcast (bw_db (w\<lparr>bw_db := record_admin_action e a act u s x (mod_broadcast i f (bw_db w)),
       bw_jobs := bw_jobs w @ js, bw_flags := fs @ bw_flags w\<rparr>)) j = get_broadcast (bw_db w) j
     \<and> rcpts_of (bw_db (w\<lparr>bw_db := record_admin_action e a act u s x (mod_broadcast i f (bw_db w)),
       bw_jobs := bw_jobs w @ js, bw_flags := fs @ bw_flags w\<rparr>)) j = rcpts_of (bw_db w) j
     \<and> jobs_of j (bw_jobs (w\<lparr>bw_db := record_admin_action e a act u s x (mod_broadcast i f (bw_db w)),
       bw_jobs := bw_jobs w @ js, bw_flags := fs @ bw_flags w\<rparr>)) = jobs_of j (bw_jobs w)
     \<and> sent_of j (bw_sent (w\<lparr>bw_db := record_admin_action e a act u s x (mod_broadcast i f (bw_db w)),
       bw_jobs := bw_jobs w @ js, bw_flags := fs @ bw_flags w\<rparr>)) = sent_of j (bw_sent w)
     \<and> (j \<in> set (bw_flags (w\<lparr>bw_db := record_admin_action e a act u s x (mod_broadcast i f (bw_db w)),
       bw_jobs := bw_jobs w @ js, bw_flags := fs @ bw_flags w\<rparr>))) = (j \<in> set (bw_flags w))"
    using assms(6) by (auto simp: broadcast_tab.get_upd[OF assms(3)])
qed (use world_okD(2)[OF assms(1)] assms(3) in simp)

lemma broadcast_or_404_cases:
  obtains (missing) x where "broadcast_or_404 d i = Inl x" "get_broadcast d i = None"
  | (found) b where "broadcast_or_404 d i = Inr b" "get_broadcast d i = Some b"
  by (cases "get_broadcast d i") (auto simp: broadcast_or_404_def or_404_def)

lemma patch_row_sel [simp]:
  "bc_id (patch_row q b) = bc_id b" "bc_recipients_total (patch_row q b) = bc_recipients_total b"
  "bc_sent (patch_row q b) = bc_sent b" "bc_failed (patch_row q b) = bc_failed b"
  by (simp_all add: patch_row_def opt_set_def split: option.split)

lemma patch_row_status:
  "bc_status (patch_row q b) = (if pt_scheduled_at q = None then bc_status b else BcScheduled)"
  by (simp add: patch_row_def opt_set_def split: option.split)

lemma reread_snd [simp]: "snd (reread i d) = d"
  by (simp add: reread_def)

text \<open>What the endpoints that edit a row can do.\<close>

lemma patch_cases:
  obtains (same) "snd (patch_broadcast e a i q d) = d"
  | (edited) b x where "get_broadcast d i = Some b" "editable (bc_status b)"
      "snd (patch_broadcast e a i q d)
         = record_admin_action e a ''broadcast.update'' None None x (mod_broadcast i (patch_row q) d)"
proof (cases rule: broadcast_or_404_cases[of d i])
  case (missing x)
  then show ?thesis using same by (simp add: patch_broadcast_def)
next
  case (found b)
  then show ?thesis using same edited
    by (cases "patch_ok q \<and> editable (bc_status b) \<and> patch_changes q \<noteq> []") (auto simp: patch_broadcast_def)
qed

lemma schedule_cases:
  obtains (same) "snd (schedule_broadcast e a i t d) = d"
  | (edited) b x where "get_broadcast d i = Some b" "editable (bc_status b)"
      "snd (schedule_broadcast e a i t d)
         = record_admin_action e a ''broadcast.schedule'' None None x
             (mod_broadcast i (\<lambda>b. b\<lparr>bc_status := BcScheduled, bc_scheduled_at := Some t\<rparr>) d)"
proof (cases rule: broadcast_or_404_cases[of d i])
  case (missing x)
  then show ?thesis using same by (simp add: schedule_broadcast_def)
next
  case (found b)
  then show ?thesis using same edited
    by (cases "editable (bc_status b)") (auto simp: schedule_broadcast_def)
qed

lemma photo_cases:
  obtains (same) "snd (upload_photo e a i nm ct n d) = d"
  | (edited) b x p where "get_broadcast d i = Some b"
      "snd (upload_photo e a i nm ct n d)
         = record_admin_action e a ''broadcast.photo_upload'' None None x
             (mod_broadcast i (\<lambda>b. b\<lparr>bc_photo_path := p, bc_photo_file_id := None\<rparr>) d)"
proof (cases rule: broadcast_or_404_cases[of d i])
  case (missing x)
  then show ?thesis using same by (simp add: upload_photo_def)
next
  case (found b)
  show ?thesis
  proof (cases "photo_problem nm ct n")
    case None
    then show ?thesis using found by (intro edited) (simp_all add: upload_photo_def)
  next
    case (Some x)
    then show ?thesis using found same by (simp add: upload_photo_def)
  qed
qed

lemma send_effect:
  assumes "send_broadcast e a i d = (Inr r, d')"
  obtains b x where "get_broadcast d i = Some b" "editable (bc_status b)"
    "d' = record_admin_action e a ''broadcast.send'' None None x
       (mod_broadcast i (\<lambda>b. b\<lparr>bc_status := BcSending, bc_scheduled_at := None\<rparr>) d)"
  using assms by (cases rule: broadcast_or_404_cases[of d i])
    (auto simp: send_broadcast_def reread_def split: if_splits)

lemma cancel_cases:
  assumes "cancel_broadcast e a i d = ((r, f), d')"
  obtains (same) "d' = d" "\<not> f"
  | (cancelled) b x where "get_broadcast d i = Some b" "bc_status b \<noteq> BcDone"
      "d' = record_admin_action e a ''broadcast.cancel'' None None x
         (mod_broadcast i (\<lambda>b. b\<lparr>bc_status := BcCancelled, bc_finished_at := Some (e_now e)\<rparr>) d)"
proof (cases rule: broadcast_or_404_cases[of d i])
  case (missing x)
  then show ?thesis using assms same by (simp add: cancel_broadcast_def)
next
  case (found b)
  show ?thesis
  proof (cases "editable (bc_status b) \<or> bc_status b = BcSending")
    case True
    then have "bc_status b \<noteq> BcDone" by auto
    then show ?thesis using found True assms
      by (intro cancelled) (auto simp: cancel_broadcast_def reread_def)
  next
    case False
    then show ?thesis using found assms same by (simp add: cancel_broadcast_def)
  qed
qed
lemma world_ok_edit_db:
  assumes "world_ok w" "get_broadcast (bw_db w) i = Some b" "\<And>b. bc_id (f b) = bc_id b"
    and "\<And>rs js ss fl. bc_ok (Some b) rs js ss fl \<Longrightarrow> bc_ok (Some (f b)) rs js ss fl"
  shows "world_ok (w\<lparr>bw_db := record_admin_action e a act u s x (mod_broadcast i f (bw_db w))\<rparr>)"
  using world_ok_edit[OF assms(1-3), of "[]" "[]" e a act u s x] assms(4) by simp

lemma create_ok_step:
  assumes "world_ok w"
  shows "world_ok (w\<lparr>bw_db := snd (create_broadcast e a p (bw_db w))\<rparr>)"
proof (cases "create_ok p")
  case True
  let ?d = "bw_db w" and ?i = "next_broadcast (bw_db w)"
  obtain b x where b: "snd (create_broadcast e a p ?d)
      = record_admin_action e a ''broadcast.create'' None None x (ins_broadcast b ?d)"
    "bc_id b = ?i" "bc_recipients_total b = 0" "bc_sent b = 0" "bc_failed b = 0" "editable (bc_status b)"
    using True by (auto simp: create_broadcast_def Let_def editable_def)
  have none: "get_broadcast ?d ?i = None" by (rule broadcast_tab.get_nxt)
  have "view_ok w ?i" using assms by (rule world_okD)
  then have "view_ok (w\<lparr>bw_db := snd (create_broadcast e a p ?d)\<rparr>) ?i"
    using b by (auto simp: view_ok_def none broadcast_tab.get_ins bc_ok_def tally_def)
  then show ?thesis
    by (intro world_ok_one[OF assms, where i = ?i])
       (use b world_okD(2)[OF assms] in \<open>auto simp: broadcast_tab.get_ins tables_ok_ins\<close>)
qed (use assms in \<open>simp add: create_broadcast_def\<close>)

lemma send_ok_step:
  assumes "world_ok w" "send_broadcast e a i (bw_db w) = (Inr r, d')"
  shows "world_ok (w\<lparr>bw_db := d', bw_jobs := bw_jobs w @ (if q then [JQueued i] else [])\<rparr>)"
proof -
  obtain b x where b: "get_broadcast (bw_db w) i = Some b" "editable (bc_status b)"
    "d' = record_admin_action e a ''broadcast.send'' None None x
       (mod_broadcast i (\<lambda>b. b\<lparr>bc_status := BcSending, bc_scheduled_at := None\<rparr>) (bw_db w))"
    using send_effect[OF assms(2)] by metis
  have "world_ok (w\<lparr>bw_db := d', bw_jobs := bw_jobs w @ (if q then [JQueued i] else []), bw_flags := [] @ bw_flags w\<rparr>)"
    unfolding b(3) using b(1,2)
    by (intro world_ok_edit[OF assms(1) b(1)]) (auto simp: bc_ok_def)
  then show ?thesis by simp
qed

lemma cancel_ok_step:
  assumes "world_ok w" "cancel_broadcast e a i (bw_db w) = ((r, f), d')"
  shows "world_ok (w\<lparr>bw_db := d', bw_flags := (if f \<and> q then i # bw_flags w else bw_flags w)\<rparr>)"
  using assms(2)
proof (cases rule: cancel_cases)
  case same
  then show ?thesis using assms(1) by simp
next
  case (cancelled b x)
  have "world_ok (w\<lparr>bw_db := d', bw_jobs := bw_jobs w @ [],
      bw_flags := (if f \<and> q then [i] else []) @ bw_flags w\<rparr>)" for q
    unfolding cancelled(3)
    by (intro world_ok_edit[OF assms(1) cancelled(1)])
       (auto intro: bc_ok_cancel[OF _ cancelled(2)])
  from this[of True] this[of False] show ?thesis by (cases "f \<and> q") auto
qed

section \<open>The worker's steps keep it\<close>

lemma promoted_sel [simp]:
  "bc_id (promoted e b) = bc_id b" "bc_status (promoted e b) = BcSending"
  "bc_recipients_total (promoted e b) = bc_recipients_total b" "bc_sent (promoted e b) = bc_sent b"
  "bc_failed (promoted e b) = bc_failed b" "promoted e (promoted e b) = promoted e b"
  by (simp_all add: promoted_def split: option.split)

lemma get_broadcast_promote:
  "get_broadcast (fold (promote e) ids d) j =
     (if j \<in> set ids then map_option (promoted e) (get_broadcast d j) else get_broadcast d j)"
proof (induction ids arbitrary: d)
  case (Cons i ids)
  have "get_broadcast (promote e i d) j
      = (if j = i then map_option (promoted e) (get_broadcast d j) else get_broadcast d j)"
    by (simp add: promote_def broadcast_tab.get_upd)
  then show ?case by (cases "get_broadcast d j") (auto simp: Cons.IH)
qed simp

lemma promote_frame [simp]:
  "rcpts_of (fold (promote e) ids d) j = rcpts_of d j"
  "tables_ok (fold (promote e) ids d) = tables_ok d"
  by (induction ids arbitrary: d) (simp_all add: promote_def)

lemma due_broadcasts_mem:
  assumes "tables_ok d" "i \<in> set (due_broadcasts e locked d)"
  shows "\<exists>b. get_broadcast d i = Some b \<and> bc_status b = BcScheduled"
proof -
  obtain b where b: "b \<in> set (db_broadcasts d)" "bc_id b = i" "bc_status b = BcScheduled"
    using assms(2) by (auto simp: due_broadcasts_def dest!: in_set_takeD)
  then show ?thesis
    using row_find_distinct[of bc_id "db_broadcasts d" b] assms(1)
    by (auto simp: get_broadcast_def tables_ok_def)
qed

lemma due_broadcasts_distinct:
  assumes "tables_ok d"
  shows "distinct (due_broadcasts e locked d)"
proof -
  have "distinct (List.map bc_id (filter P (db_broadcasts d)))" for P
    using assms by (simp add: tables_ok_def distinct_map_filter)
  then have "distinct (List.map bc_id (sort_key k (filter P (db_broadcasts d))))" for P and k :: "broadcast_row \<Rightarrow> int"
    by (simp add: distinct_map)
  then show ?thesis by (simp add: due_broadcasts_def take_map[symmetric])
qed

lemma pick_ok_step:
  assumes "world_ok w" "pick_scheduled_broadcasts e locked (bw_db w) = (ids, d')"
  shows "world_ok (w\<lparr>bw_db := d', bw_jobs := bw_jobs w @ List.map JQueued (filter enq ids)\<rparr>)"
proof -
  let ?d = "bw_db w"
  have ids: "ids = due_broadcasts e locked ?d" "d' = fold (promote e) ids ?d"
    using assms(2) by (auto simp: pick_scheduled_broadcasts_def Let_def)
  have jobs: "jobs_of j (List.map JQueued (filter enq ids))
      = (if j \<in> set ids \<and> enq j then [JQueued j] else [])" for j
  proof -
    have "distinct xs \<Longrightarrow> jobs_of j (List.map JQueued xs) = (if j \<in> set xs then [JQueued j] else [])" for xs
      by (induction xs) auto
    then show ?thesis using due_broadcasts_distinct[OF world_okD(2)[OF assms(1)]] by (simp add: ids(1))
  qed
  have "view_ok (w\<lparr>bw_db := d', bw_jobs := bw_jobs w @ List.map JQueued (filter enq ids)\<rparr>) j" for j
  proof -
    have v: "view_ok w j" using assms(1) by (rule world_okD)
    show ?thesis
    proof (cases "j \<in> set ids")
      case True
      then obtain b where b: "get_broadcast ?d j = Some b" "bc_status b = BcScheduled"
        using due_broadcasts_mem[OF world_okD(2)[OF assms(1)]] ids(1) by metis
      then have js: "jobs_of j (bw_jobs w) = []" using v by (auto simp: view_ok_def bc_ok_def)
      show ?thesis
        using v b True js
        by (auto simp: view_ok_def ids(2) get_broadcast_promote jobs elim!: bc_ok_promote)
    next
      case False
      then show ?thesis using v by (simp add: view_ok_def ids(2) get_broadcast_promote jobs)
    qed
  qed
  moreover have "tables_ok d'" using world_okD(2)[OF assms(1)] by (simp add: ids(2))
  ultimately show ?thesis by (simp add: world_ok_def)
qed

lemma cleanup_ok_step:
  assumes "world_ok w"
  shows "world_ok (w\<lparr>bw_db := snd (cleanup_logs e (bw_db w))\<rparr>)"
proof -
  let ?d = "bw_db w" and ?d' = "snd (cleanup_logs e (bw_db w))"
  have get: "get_broadcast ?d' j = get_broadcast ?d j" for j
    by (simp add: cleanup_logs_def get_broadcast_def Let_def)
  have rs: "rcpts_of ?d' j = filter (\<lambda>r. \<not> old_recipient e ?d r) (rcpts_of ?d j)" for j
    by (simp add: cleanup_logs_def rcpts_of_def Let_def conj_commute)
  have "view_ok (w\<lparr>bw_db := ?d'\<rparr>) j" for j
  proof -
    have v: "view_ok w j" using assms by (rule world_okD)
    show ?thesis
    proof (cases "get_broadcast ?d j")
      case None
      then show ?thesis using v by (simp add: view_ok_def get rs bc_ok_def)
    next
      case (Some b)
      show ?thesis
      proof (cases "bc_status b = BcDone")
        case True
        then show ?thesis using v Some by (simp add: view_ok_def get rs bc_ok_cleanup)
      next
        case False
        then have "filter (\<lambda>r. \<not> old_recipient e ?d r) (rcpts_of ?d j) = rcpts_of ?d j"
          using Some by (intro filter_True) (auto simp: rcpts_of_def old_recipient_def)
        then show ?thesis using v by (simp add: view_ok_def get rs)
      qed
    qed
  qed
  moreover have "tables_ok ?d'"
    using world_okD(2)[OF assms] by (auto simp: tables_ok_def cleanup_logs_def Let_def distinct_map_filter)
  ultimately show ?thesis by (simp add: world_ok_def)
qed

lemma snapshot_effect:
  assumes "tables_ok d" "u_id ` set us \<subseteq> u_id ` set (db_users d)" "distinct (List.map u_id us)"
    and "d' = fold (\<lambda>uid d'. ins_rcpt (new_rcpt e i uid d') d') (List.map u_id us) d"
  shows "db_broadcasts d' = db_broadcasts d \<and> db_users d' = db_users d \<and> tables_ok d'
    \<and> (\<forall>k. k \<noteq> i \<longrightarrow> rcpts_of d' k = rcpts_of d k)
    \<and> (\<exists>new. rcpts_of d' i = rcpts_of d i @ new \<and> List.map rc_user_id new = List.map u_id us
         \<and> list_all (\<lambda>r. rc_status r = RcPending) new)"
  using assms
proof (induction us arbitrary: d)
  case (Cons u us)
  let ?d = "ins_rcpt (new_rcpt e i (u_id u) d) d"
  have t: "tables_ok ?d" using Cons.prems(1,2)
    by (auto simp: tables_ok_def ins_rcpt_def new_rcpt_def next_rcpt_def fresh_id_notin)
  have r: "rcpts_of ?d k = rcpts_of d k @ (if k = i then [new_rcpt e i (u_id u) d] else [])" for k
    by (simp add: rcpts_of_def ins_rcpt_def new_rcpt_def)
  have ih: "db_broadcasts d' = db_broadcasts ?d \<and> db_users d' = db_users ?d \<and> tables_ok d'
    \<and> (\<forall>k. k \<noteq> i \<longrightarrow> rcpts_of d' k = rcpts_of ?d k)
    \<and> (\<exists>new. rcpts_of d' i = rcpts_of ?d i @ new \<and> List.map rc_user_id new = List.map u_id us
         \<and> list_all (\<lambda>r. rc_status r = RcPending) new)"
    by (rule Cons.IH[OF t]) (use Cons.prems(2-4) in auto)
  then obtain new where "rcpts_of d' i = rcpts_of ?d i @ new" "List.map rc_user_id new = List.map u_id us"
    "list_all (\<lambda>r. rc_status r = RcPending) new" by auto
  then have "rcpts_of d' i = rcpts_of d i @ (new_rcpt e i (u_id u) d # new)
     \<and> List.map rc_user_id (new_rcpt e i (u_id u) d # new) = List.map u_id (u # us)
     \<and> list_all (\<lambda>r. rc_status r = RcPending) (new_rcpt e i (u_id u) d # new)"
    by (simp add: r) (simp add: new_rcpt_def)
  then have "\<exists>new. rcpts_of d' i = rcpts_of d i @ new \<and> List.map rc_user_id new = List.map u_id (u # us)
     \<and> list_all (\<lambda>r. rc_status r = RcPending) new" by blast
  moreover have "db_broadcasts d' = db_broadcasts d \<and> db_users d' = db_users d \<and> tables_ok d'
     \<and> (\<forall>k. k \<noteq> i \<longrightarrow> rcpts_of d' k = rcpts_of d k)"
    using ih r by simp
  ultimately show ?case by blast
qed simp

lemma load_ok_step:
  assumes "world_ok w" "bw_jobs w = xs @ JQueued i # ys" "load_broadcast e i (bw_db w) = (n, d')"
  shows "world_ok (w\<lparr>bw_db := d', bw_jobs := xs @ (if n = None then [] else [JLoop i]) @ ys\<rparr>)"
proof -
  let ?d = "bw_db w"
  obtain b where b: "get_broadcast ?d i = Some b"
      "bc_ok (Some b) (rcpts_of ?d i) [JQueued i] (sent_of i (bw_sent w)) (i \<in> set (bw_flags w))"
    using job_alone[OF assms(1,2)] by (metis job_bc.simps(1))
  then have nil: "rcpts_of ?d i = []" "sent_of i (bw_sent w) = []" by (auto simp: bc_ok_def)
  have t: "tables_ok ?d" using assms(1) by (rule world_okD)
  have "world_ok (w\<lparr>bw_db := d', bw_jobs := xs @ (if n = None then [] else [JLoop i]) @ ys,
      bw_sent := bw_sent w @ []\<rparr>)"
  proof (cases "bc_status b = BcSending")
    case False
    then have "n = None" "d' = ?d" using assms(3) b(1) by (auto simp: load_broadcast_def)
    then show ?thesis
      by (intro world_ok_job[OF assms(1,2)]) (auto simp: t b intro: bc_ok_no_job)
  next
    case True
    let ?us = "filter (in_target e (bc_target b) ?d) (db_users ?d)"
    let ?d1 = "snapshot e i (bc_target b) ?d"
    let ?f = "\<lambda>b. b\<lparr>bc_recipients_total := int (length (rcpts_of ?d1 i)),
       bc_started_at := (case bc_started_at b of None \<Rightarrow> Some (e_now e) | Some t \<Rightarrow> Some t)\<rparr>"
    have n: "n \<noteq> None" "d' = mod_broadcast i ?f ?d1"
      using assms(3) b(1) True nil by (auto simp: load_broadcast_def Let_def)
    have snap: "db_broadcasts ?d1 = db_broadcasts ?d \<and> db_users ?d1 = db_users ?d \<and> tables_ok ?d1
      \<and> (\<forall>k. k \<noteq> i \<longrightarrow> rcpts_of ?d1 k = rcpts_of ?d k)
      \<and> (\<exists>new. rcpts_of ?d1 i = rcpts_of ?d i @ new \<and> List.map rc_user_id new = List.map u_id ?us
           \<and> list_all (\<lambda>r. rc_status r = RcPending) new)"
      by (rule snapshot_effect[OF t]) (use t in \<open>auto simp: tables_ok_def snapshot_def distinct_map_filter\<close>)
    then obtain new where new: "rcpts_of ?d1 i = new" "List.map rc_user_id new = List.map u_id ?us"
        "list_all (\<lambda>r. rc_status r = RcPending) new"
      using nil by auto
    have get: "get_broadcast ?d1 k = get_broadcast ?d k" for k
      using snap by (simp add: get_broadcast_def)
    have get': "get_broadcast d' k = (if k = i then Some (?f b) else get_broadcast ?d k)" for k
      by (simp add: n(2) broadcast_tab.get_upd get b(1))
    have users: "distinct (List.map rc_user_id new)"
      using t by (simp add: new(2) tables_ok_def distinct_map_filter)
    have "bc_ok (Some (?f b)) new [JLoop i] [] (i \<in> set (bw_flags w))"
      by (rule bc_ok_load[where b = b]) (use b nil True new users in auto)
    moreover have "get_broadcast d' i = Some (?f b)" using get' by simp
    moreover have "rcpts_of d' i = new" using new(1) by (simp add: n(2))
    ultimately have at_i: "bc_ok (get_broadcast d' i) (rcpts_of d' i) [JLoop i] [] (i \<in> set (bw_flags w))"
      by simp
    have other: "get_broadcast d' k = get_broadcast ?d k \<and> rcpts_of d' k = rcpts_of ?d k" if "k \<noteq> i" for k
    proof
      show "get_broadcast d' k = get_broadcast ?d k" using get'[of k] that by simp
      show "rcpts_of d' k = rcpts_of ?d k" using that snap by (simp add: n(2))
    qed
    have "tables_ok d'" using snap by (simp add: n(2))
    from world_ok_job[OF assms(1,2) this, of "[JLoop i]" "[]"] other at_i nil(2) n(1)
    show ?thesis by auto
  qed
  then show ?thesis by simp
qed

lemma next_batch_ids:
  assumes "tables_ok d"
  shows "distinct (List.map fst (next_batch d i)) \<and> fst ` set (next_batch d i) \<subseteq> pend (rcpts_of d i)"
proof -
  let ?rs = "filter (\<lambda>r. get_user d (rc_user_id r) \<noteq> None) (pending_rcpts d i)"
  have map: "List.map fst (next_batch d i) = take bc_batch (List.map rc_id (sort_key rc_id ?rs))"
    by (simp add: next_batch_def take_map comp_def)
  have "distinct (List.map rc_id ?rs)"
    using assms by (simp add: tables_ok_def pending_rcpts_def rcpts_of_def distinct_map_filter)
  then have "distinct (List.map rc_id (sort_key rc_id ?rs))" by (simp add: distinct_map)
  moreover have "fst ` set (next_batch d i) \<subseteq> pend (rcpts_of d i)"
    by (auto simp: next_batch_def pending_rcpts_def pend_def dest!: in_set_takeD)
  ultimately show ?thesis by (simp add: map)
qed

lemma next_batch_empty:
  assumes "tables_ok d" "next_batch d i = []"
  shows "pend (rcpts_of d i) = {}"
proof -
  have users: "get_user d (rc_user_id r) \<noteq> None" if "r \<in> set (db_rcpts d)" for r
    using that assms(1) by (auto simp: tables_ok_def get_user_def row_find_None)
  have "sort_key rc_id (filter (\<lambda>r. get_user d (rc_user_id r) \<noteq> None) (pending_rcpts d i)) = []"
    using assms(2) by (simp add: next_batch_def bc_batch_def)
  then have "filter (\<lambda>r. get_user d (rc_user_id r) \<noteq> None) (pending_rcpts d i) = []"
    by (metis length_0_conv length_sort)
  then show ?thesis using users
    by (auto simp: pend_def pending_rcpts_def rcpts_of_def filter_empty_conv)
qed

lemma read_ok_step:
  assumes "world_ok w" "bw_jobs w = xs @ JLoop i # ys"
  shows "world_ok (w\<lparr>bw_jobs := xs @ read_batch (bw_db w) i @ ys\<rparr>)"
proof -
  let ?d = "bw_db w"
  obtain b where b: "get_broadcast ?d i = Some b"
      "bc_ok (Some b) (rcpts_of ?d i) [JLoop i] (sent_of i (bw_sent w)) (i \<in> set (bw_flags w))"
    using job_alone[OF assms] by (metis job_bc.simps(2))
  have t: "tables_ok ?d" using assms(1) by (rule world_okD)
  have clean: "pend (rcpts_of ?d i) \<inter> set (sent_of i (bw_sent w)) = {}" using b(2) by (auto simp: bc_ok_def)
  have j: "list_all (\<lambda>j'. job_bc j' = i) (read_batch ?d i)"
    by (auto simp: read_batch_def b(1) split: list.split)
  have "bc_ok (Some b) (rcpts_of ?d i) (read_batch ?d i) (sent_of i (bw_sent w)) (i \<in> set (bw_flags w))"
  proof (cases "bc_status b = BcSending")
    case False
    then show ?thesis using bc_ok_no_job[OF b(2)] by (simp add: read_batch_def b(1))
  next
    case True
    show ?thesis
    proof (cases "next_batch ?d i")
      case Nil
      then show ?thesis using True next_batch_empty[OF t Nil] bc_ok_job[OF b(2)]
        by (simp add: read_batch_def b(1))
    next
      case (Cons p rest)
      then show ?thesis using True next_batch_ids[OF t, of i] clean bc_ok_job[OF b(2)]
        by (simp add: read_batch_def b(1))
    qed
  qed
  with world_ok_job[OF assms(1,2), of ?d "read_batch ?d i" "[]"] show ?thesis
    using j t b(1) by simp
qed

lemma record_answer_effect:
  assumes "record_answer e i rid envelope fid d = (Inr (s, f), d')"
  obtains g st h where "db_users d' = db_users d" "db_rcpts d' = row_upd rc_id rid g (db_rcpts d)"
    "\<And>k. get_broadcast d' k = (if k = i then map_option h (get_broadcast d i) else get_broadcast d k)"
    "\<And>r. rc_status (g r) = st" "\<And>r. rc_id (g r) = rc_id r"
    "\<And>r. rc_broadcast_id (g r) = rc_broadcast_id r" "\<And>r. rc_user_id (g r) = rc_user_id r"
    "\<And>b. bc_id (h b) = bc_id b" "\<And>b. bc_status (h b) = bc_status b"
    "\<And>b. bc_recipients_total (h b) = bc_recipients_total b"
    "\<And>b. st = RcSent \<and> bc_sent (h b) = bc_sent b + 1 \<and> bc_failed (h b) = bc_failed b
        \<or> st = RcFailed \<and> bc_sent (h b) = bc_sent b \<and> bc_failed (h b) = bc_failed b + 1"
    "tables_ok d \<Longrightarrow> tables_ok d'"
proof -
  let ?sent = "\<lambda>r. r\<lparr>rc_status := RcSent, rc_sent_at := Some (e_now e)\<rparr>"
  have keys: "tables_ok d \<Longrightarrow> tables_ok (mod_rcpt rid u d)"
    if "\<And>r. rc_id (u r) = rc_id r" "\<And>r. rc_user_id (u r) = rc_user_id r" for u
  proof -
    assume t: "tables_ok d"
    have "rc_user_id ` set (row_upd rc_id rid u (db_rcpts d)) = rc_user_id ` set (db_rcpts d)"
      using arg_cong[OF row_upd_users[of u rid "db_rcpts d"], of set] that(2) by simp
    then show ?thesis using t that
      by (simp add: tables_ok_def mod_rcpt_def row_upd_keys)
  qed
  obtain kvs where kvs: "envelope = JObj kvs"
    using assms by (cases envelope) (auto simp: record_answer_def)
  show ?thesis
  proof (cases "opt_json_truthy (map_of kvs ''ok'')")
    case False
    then have d': "d' = mark_rcpt_failed i rid (envelope_error kvs) d"
      using assms kvs by (simp add: record_answer_def)
    show ?thesis
      by (rule that[where st = RcFailed and h = "\<lambda>b. b\<lparr>bc_failed := bc_failed b + 1\<rparr>"
            and g = "\<lambda>r. r\<lparr>rc_status := RcFailed, rc_error := Some (take 1000 (envelope_error kvs))\<rparr>"])
        (auto simp: d' mark_rcpt_failed_def broadcast_tab.get_upd keys, simp add: mod_rcpt_def)
  next
    case True
    then obtain new where new: "extract_photo_file_id kvs = Inr new"
      using assms kvs by (auto simp: record_answer_def split: sum.splits)
    show ?thesis
    proof (cases "str_truthy new \<and> \<not> str_truthy fid")
      case True
      then have d': "d' = keep_file_id i (the new) (mark_rcpt_sent e i rid d)"
        using assms kvs new \<open>opt_json_truthy _\<close> by (auto simp: record_answer_def)
      show ?thesis
        by (rule that[where st = RcSent and g = ?sent and h = "\<lambda>b. (\<lambda>b. if bc_photo_file_id b = None
             then b\<lparr>bc_photo_file_id := Some (the new)\<rparr> else b) (b\<lparr>bc_sent := bc_sent b + 1\<rparr>)"])
          (auto simp: d' mark_rcpt_sent_def keep_file_id_def broadcast_tab.get_upd keys option.map_comp comp_def,
            simp add: mod_rcpt_def)
    next
      case False
      then have d': "d' = mark_rcpt_sent e i rid d"
        using assms kvs new \<open>opt_json_truthy _\<close> by (simp add: record_answer_def split: if_splits)
      show ?thesis
        by (rule that[where st = RcSent and g = ?sent and h = "\<lambda>b. b\<lparr>bc_sent := bc_sent b + 1\<rparr>"])
          (auto simp: d' mark_rcpt_sent_def broadcast_tab.get_upd keys, simp add: mod_rcpt_def)
    qed
  qed
qed

lemma message_ok_step:
  assumes "world_ok w" "bw_jobs w = xs @ JSend i b fid ((rid, tg) # rest) # ys"
  shows "world_ok (w\<lparr>bw_jobs := xs @ JAwait i b fid rid rest # ys, bw_sent := bw_sent w @ [(i, rid)]\<rparr>)"
proof -
  have "world_ok (w\<lparr>bw_db := bw_db w, bw_jobs := xs @ [JAwait i b fid rid rest] @ ys,
      bw_sent := bw_sent w @ [(i, rid)]\<rparr>)"
    by (rule world_ok_job[OF assms])
       (use world_okD(2)[OF assms(1)] in \<open>auto intro: bc_ok_message\<close>)
  then show ?thesis by simp
qed

text \<open>An answer about one recipient leaves the recipients of other broadcasts alone.\<close>

lemma answer_rcpts:
  assumes "db_rcpts d' = row_upd rc_id rid g (db_rcpts d)" "\<And>r. rc_broadcast_id (g r) = rc_broadcast_id r"
  shows "rcpts_of d' k = row_upd rc_id rid g (rcpts_of d k)"
proof -
  have "filter (\<lambda>r. rc_broadcast_id r = k) (row_upd rc_id rid g rows)
      = row_upd rc_id rid g (filter (\<lambda>r. rc_broadcast_id r = k) rows)" for rows
    by (induction rows) (auto simp: row_upd_Cons assms(2) row_upd_def[of _ _ _ "[]"])
  then show ?thesis by (simp add: rcpts_of_def assms(1))
qed

lemma answer_rcpts_other:
  assumes "tables_ok d" "rid \<in> pend (rcpts_of d i)" "k \<noteq> i"
    and "\<And>r. rc_broadcast_id (g r) = rc_broadcast_id r" "db_rcpts d' = row_upd rc_id rid g (db_rcpts d)"
  shows "rcpts_of d' k = rcpts_of d k"
proof -
  obtain r0 where r0: "r0 \<in> set (db_rcpts d)" "rc_id r0 = rid" "rc_broadcast_id r0 = i"
    using assms(2) by (auto simp: pend_def rcpts_of_def)
  have "rid \<notin> rc_id ` set (rcpts_of d k)"
  proof
    assume "rid \<in> rc_id ` set (rcpts_of d k)"
    then obtain r1 where r1: "r1 \<in> set (db_rcpts d)" "rc_id r1 = rid" "rc_broadcast_id r1 = k"
      by (auto simp: rcpts_of_def)
    then have "r1 = r0" using r0 assms(1) by (auto simp: tables_ok_def distinct_map inj_on_def)
    then show False using r0(3) r1(3) assms(3) by simp
  qed
  then show ?thesis by (simp add: answer_rcpts[OF assms(5,4)] row_upd_absent)
qed

lemma answer_ok_step:
  assumes "world_ok w" "bw_jobs w = xs @ JAwait i c fid rid rest # ys"
    and "record_answer e i rid envelope fid (bw_db w) = (r, d')"
  shows "world_ok (w\<lparr>bw_db := d',
    bw_jobs := xs @ (case r of Inl x \<Rightarrow> [] | Inr (s, f) \<Rightarrow> [after_answer i c f rest]) @ ys\<rparr>)"
proof -
  let ?d = "bw_db w"
  have t: "tables_ok ?d" using assms(1) by (rule world_okD)
  show ?thesis
  proof (cases r)
    case (Inl x)
    then have "d' = ?d" using assms(3)
      by (auto simp: record_answer_def split: json.splits if_splits sum.splits)
    then have "world_ok (w\<lparr>bw_db := d', bw_jobs := xs @ [] @ ys, bw_sent := bw_sent w @ []\<rparr>)"
      by (intro world_ok_job[OF assms(1,2)]) (auto simp: t intro: bc_ok_no_job)
    then show ?thesis by (simp add: Inl)
  next
    case (Inr sf)
    obtain s f where r: "r = Inr (s, f)" using Inr by (cases sf) auto
    from assms(3)[unfolded r] show ?thesis
    proof (cases rule: record_answer_effect)
      case eff: (1 g st h)
      obtain b where b: "get_broadcast ?d i = Some b"
          "bc_ok (Some b) (rcpts_of ?d i) [JAwait i c fid rid rest] (sent_of i (bw_sent w)) (i \<in> set (bw_flags w))"
        using job_alone[OF assms(1,2)] by (metis job_bc.simps(4))
      have rs: "rcpts_of d' k = row_upd rc_id rid g (rcpts_of ?d k)" for k
        by (rule answer_rcpts[OF eff(2,6)])
      have pend: "rid \<in> pend (rcpts_of ?d i)" using b(2) by (auto simp: bc_ok_def)
      have other: "rcpts_of d' k = rcpts_of ?d k" if "k \<noteq> i" for k
        by (rule answer_rcpts_other[OF t pend that eff(6,2)])
      have keys: "distinct (List.map rc_id (rcpts_of ?d i))"
        using t by (simp add: tables_ok_def rcpts_of_def distinct_map_filter)
      have "bc_ok (Some (h b)) (row_upd rc_id rid g (rcpts_of ?d i)) [after_answer i c f rest]
          (sent_of i (bw_sent w)) (i \<in> set (bw_flags w))"
        by (rule bc_ok_answer[OF b(2) keys eff(9) eff(10) eff(4) eff(5) eff(7) eff(11)])
      moreover have "job_bc (after_answer i c f rest) = i" by (simp add: after_answer_def)
      ultimately have "world_ok (w\<lparr>bw_db := d', bw_jobs := xs @ [after_answer i c f rest] @ ys,
          bw_sent := bw_sent w @ []\<rparr>)"
        by (intro world_ok_job[OF assms(1,2) eff(12)[OF t]]) (auto simp: eff(3) other rs[of i] b(1))
      then show ?thesis by (simp add: r)
    qed
  qed
qed

lemma finish_ok_step:
  assumes "world_ok w" "bw_jobs w = xs @ JFinish i st # ys"
  shows "world_ok (w\<lparr>bw_db := finalize e i st (bw_db w), bw_jobs := xs @ ys\<rparr>)"
proof -
  have t: "tables_ok (finalize e i st (bw_db w))" using world_okD(2)[OF assms(1)] by (simp add: finalize_def)
  have "world_ok (w\<lparr>bw_db := finalize e i st (bw_db w), bw_jobs := xs @ [] @ ys, bw_sent := bw_sent w @ []\<rparr>)"
    by (rule world_ok_job[OF assms t])
       (auto simp: finalize_def broadcast_tab.get_upd intro: bc_ok_finish)
  then show ?thesis by simp
qed

lemma die_ok_step:
  assumes "world_ok w" "bw_jobs w = xs @ j # ys"
  shows "world_ok (w\<lparr>bw_jobs := xs @ ys\<rparr>)"
proof -
  have "world_ok (w\<lparr>bw_db := bw_db w, bw_jobs := xs @ [] @ ys, bw_sent := bw_sent w @ []\<rparr>)"
    by (rule world_ok_job[OF assms]) (use world_okD(2)[OF assms(1)] in \<open>auto intro: bc_ok_no_job\<close>)
  then show ?thesis by simp
qed

lemma flag_ok_step:
  assumes "world_ok w" "bw_jobs w = xs @ JLoop i # ys" "i \<in> set (bw_flags w)"
  shows "world_ok (w\<lparr>bw_jobs := xs @ JFinish i BcCancelled # ys\<rparr>)"
proof -
  have "bc_ok (Some b) rs [JFinish i BcCancelled] ss True" if "bc_ok (Some b) rs [JLoop i] ss True" for b rs ss
    using that by (auto simp: bc_ok_def)
  then have "world_ok (w\<lparr>bw_db := bw_db w, bw_jobs := xs @ [JFinish i BcCancelled] @ ys, bw_sent := bw_sent w @ []\<rparr>)"
    by (intro world_ok_job[OF assms(1,2)]) (use world_okD(2)[OF assms(1)] assms(3) in auto)
  then show ?thesis by simp
qed

lemma bc_step_world_ok: "bc_step w w' \<Longrightarrow> world_ok w \<Longrightarrow> world_ok w'"
proof (induction rule: bc_step.induct)
  case (patch w e a i q)
  then show ?case
    by (cases rule: patch_cases[of e a i q "bw_db w"])
       (auto intro!: world_ok_edit_db elim!: bc_ok_edit simp: patch_row_status)
next
  case (schedule w e a i t)
  then show ?case
    by (cases rule: schedule_cases[of e a i t "bw_db w"]) (auto intro!: world_ok_edit_db elim!: bc_ok_edit)
next
  case (photo w e a i nm ct n)
  then show ?case
    by (cases rule: photo_cases[of e a i nm ct n "bw_db w"])
       (auto intro!: world_ok_edit_db elim!: bc_ok_same_status)
next
  case (expire_flag w i)
  have "view_ok (w\<lparr>bw_flags := removeAll i (bw_flags w)\<rparr>) j" for j
    using expire_flag by (cases "j = i") (auto simp: world_ok_def view_ok_def dest: bc_ok_unflag)
  then show ?case using expire_flag by (auto simp: world_ok_def)
next
  case (elsewhere d' w)
  have "get_broadcast d' j = get_broadcast (bw_db w) j" "rcpts_of d' j = rcpts_of (bw_db w) j" for j
    using elsewhere(1,2) by (simp_all add: get_broadcast_def rcpts_of_def)
  then have "view_ok (w\<lparr>bw_db := d'\<rparr>) j" for j
    using elsewhere.prems by (simp add: world_ok_def view_ok_def)
  moreover have "tables_ok d'"
    using elsewhere(1-4) world_okD(2)[OF elsewhere.prems] by (simp add: tables_ok_def) (blast dest: subset_trans)
  ultimately show ?case by (simp add: world_ok_def)
qed (fact create_ok_step send_ok_step cancel_ok_step pick_ok_step cleanup_ok_step load_ok_step
  flag_ok_step read_ok_step message_ok_step answer_ok_step finish_ok_step die_ok_step
  | simp add: create_ok_step send_ok_step cancel_ok_step pick_ok_step cleanup_ok_step load_ok_step
      flag_ok_step read_ok_step message_ok_step answer_ok_step finish_ok_step die_ok_step)+

end
