(* ===== verification/BroadcastTheorems.thy ===== *)
theory BroadcastTheorems
  imports BroadcastRuns System
begin

text \<open>
  The properties of broadcasts: under every interleaving of requests, scheduler and
  workers, and for a run that nothing disturbs.
\<close>

interpretation broadcasts: transition_system bc_initial bc_step world_ok
proof
  fix w assume "bc_initial w"
  then show "world_ok w"
    by (auto simp: bc_initial_def world_ok_def view_ok_def tables_ok_def bc_ok_def get_broadcast_def rcpts_of_def)
qed (rule bc_step_world_ok)

section \<open>What a step does to one broadcast\<close>

text \<open>Nothing works on it any more, and it is not done.\<close>

definition orphaned :: "bc_world \<Rightarrow> int \<Rightarrow> bool" where
  "orphaned w i \<longleftrightarrow> jobs_of i (bw_jobs w) = []
     \<and> (\<exists>b. get_broadcast (bw_db w) i = Some b \<and> (bc_status b = BcSending \<or> bc_status b = BcCancelled))"

definition moves_forward :: "int \<Rightarrow> bc_world \<Rightarrow> bc_world \<Rightarrow> bool" where
  "moves_forward i w w' \<longleftrightarrow>
     (\<forall>b. get_broadcast (bw_db w) i = Some b \<longrightarrow>
        (\<exists>b'. get_broadcast (bw_db w') i = Some b' \<and> bc_status b \<le> bc_status b'))
   \<and> (orphaned w i \<longrightarrow> orphaned w' i \<and> rcpts_of (bw_db w') i = rcpts_of (bw_db w) i
        \<and> sent_of i (bw_sent w') = sent_of i (bw_sent w))"

lemma moves_forward_refl: "moves_forward i w w"
  by (auto simp: moves_forward_def)

lemma moves_forward_edit:
  assumes "get_broadcast (bw_db w) k = Some b" "\<And>b. bc_id (f b) = bc_id b"
    and "bc_status b \<le> bc_status (f b)" "editable (bc_status b) \<or> bc_status (f b) = bc_status b \<or> bc_status (f b) = BcCancelled"
    and "list_all (\<lambda>j. job_bc j = k \<and> editable (bc_status b)) js"
  shows "moves_forward i w (w\<lparr>bw_db := record_admin_action e a act u s x (mod_broadcast k f (bw_db w)),
     bw_jobs := bw_jobs w @ js, bw_flags := fs\<rparr>)"
proof -
  have js: "jobs_of i js = []" if "i \<noteq> k \<or> \<not> editable (bc_status b)"
    using assms(5) that by (auto simp: jobs_of_def list_all_iff filter_empty_conv)
  show ?thesis
  proof (cases "i = k")
    case True
    then show ?thesis using assms js
      by (auto simp: moves_forward_def orphaned_def broadcast_tab.get_upd)
  next
    case False
    then show ?thesis using assms(2) js
      by (auto simp: moves_forward_def orphaned_def broadcast_tab.get_upd)
  qed
qed

lemma moves_forward_edit_db:
  assumes "get_broadcast (bw_db w) k = Some b" "\<And>b. bc_id (f b) = bc_id b"
    and "bc_status b \<le> bc_status (f b)" "editable (bc_status b) \<or> bc_status (f b) = bc_status b \<or> bc_status (f b) = BcCancelled"
  shows "moves_forward i w (w\<lparr>bw_db := record_admin_action e a act u s x (mod_broadcast k f (bw_db w))\<rparr>)"
  using moves_forward_edit[OF assms, where js = "[]" and fs = "bw_flags w"] by simp

text \<open>A step of a job leaves the orphans alone.\<close>

lemma moves_forward_job:
  assumes "bw_jobs w = xs @ j # ys"
    and "\<And>k. k \<noteq> job_bc j \<Longrightarrow> get_broadcast d' k = get_broadcast (bw_db w) k \<and> rcpts_of d' k = rcpts_of (bw_db w) k"
    and "list_all (\<lambda>j'. job_bc j' = job_bc j) js" "list_all (\<lambda>s. fst s = job_bc j) ss"
    and "\<And>b. get_broadcast (bw_db w) (job_bc j) = Some b \<Longrightarrow>
        \<exists>b'. get_broadcast d' (job_bc j) = Some b' \<and> bc_status b \<le> bc_status b'"
  shows "moves_forward i w (w\<lparr>bw_db := d', bw_jobs := xs @ js @ ys, bw_sent := bw_sent w @ ss\<rparr>)"
proof (cases "i = job_bc j")
  case True
  then show ?thesis using assms(1,5) by (auto simp: moves_forward_def orphaned_def)
next
  case False
  then have "jobs_of i js = []" "sent_of i ss = []"
    using assms(3,4) by (auto simp: jobs_of_def sent_of_def list_all_iff filter_empty_conv)
  then show ?thesis using assms(1,2) False by (auto simp: moves_forward_def orphaned_def)
qed

lemma editable_status_le: "editable s \<Longrightarrow> s \<le> BcScheduled \<and> s \<le> BcSending"
  by (cases s) (simp_all add: less_eq_bc_status_def)

lemma not_done_le: "s \<noteq> BcDone \<Longrightarrow> s \<le> BcCancelled"
  by (cases s) (simp_all add: less_eq_bc_status_def)

lemma moves_forward_create:
  "moves_forward i w (w\<lparr>bw_db := snd (create_broadcast e a p (bw_db w))\<rparr>)"
proof (cases "create_ok p")
  case True
  obtain b x where b: "snd (create_broadcast e a p (bw_db w))
      = record_admin_action e a ''broadcast.create'' None None x (ins_broadcast b (bw_db w))"
    "bc_id b = next_broadcast (bw_db w)"
    using True by (auto simp: create_broadcast_def Let_def)
  have "get_broadcast (ins_broadcast b (bw_db w)) i = Some c" if "get_broadcast (bw_db w) i = Some c" for c
    by (rule broadcast_tab.get_ins_old[OF b(2) that])
  then show ?thesis by (auto simp: moves_forward_def orphaned_def b(1))
qed (simp add: create_broadcast_def moves_forward_refl)

lemma moves_forward_send:
  assumes "send_broadcast e a k (bw_db w) = (Inr r, d')"
  shows "moves_forward i w (w\<lparr>bw_db := d', bw_jobs := bw_jobs w @ (if q then [JQueued k] else [])\<rparr>)"
proof -
  obtain b x where b: "get_broadcast (bw_db w) k = Some b" "editable (bc_status b)"
    "d' = record_admin_action e a ''broadcast.send'' None None x
       (mod_broadcast k (\<lambda>b. b\<lparr>bc_status := BcSending, bc_scheduled_at := None\<rparr>) (bw_db w))"
    using send_effect[OF assms] by metis
  have "moves_forward i w (w\<lparr>bw_db := d', bw_jobs := bw_jobs w @ (if q then [JQueued k] else []), bw_flags := bw_flags w\<rparr>)"
    unfolding b(3) using b(2) editable_status_le
    by (intro moves_forward_edit[OF b(1)]) auto
  then show ?thesis by simp
qed

lemma moves_forward_cancel:
  assumes "cancel_broadcast e a k (bw_db w) = ((r, f), d')"
  shows "moves_forward i w (w\<lparr>bw_db := d', bw_flags := fs\<rparr>)"
  using assms
proof (cases rule: cancel_cases)
  case same
  then show ?thesis by (auto simp: moves_forward_def orphaned_def)
next
  case (cancelled b x)
  have "moves_forward i w (w\<lparr>bw_db := d', bw_jobs := bw_jobs w @ [], bw_flags := fs\<rparr>)"
    unfolding cancelled(3) using not_done_le[OF cancelled(2)]
    by (intro moves_forward_edit[OF cancelled(1)]) auto
  then show ?thesis by simp
qed

lemma moves_forward_pick:
  assumes "world_ok w" "pick_scheduled_broadcasts e locked (bw_db w) = (ids, d')"
  shows "moves_forward i w (w\<lparr>bw_db := d', bw_jobs := bw_jobs w @ List.map JQueued (filter enq ids)\<rparr>)"
proof -
  have ids: "ids = due_broadcasts e locked (bw_db w)" "d' = fold (promote e) ids (bw_db w)"
    using assms(2) by (auto simp: pick_scheduled_broadcasts_def Let_def)
  have sched: "i \<in> set ids \<Longrightarrow> \<exists>b. get_broadcast (bw_db w) i = Some b \<and> bc_status b = BcScheduled"
    using due_broadcasts_mem[OF world_okD(2)[OF assms(1)]] ids(1) by metis
  have "jobs_of i (List.map JQueued (filter enq ids)) = []" if "i \<notin> set ids"
    using that by (auto simp: jobs_of_def filter_empty_conv)
  moreover have "BcScheduled \<le> BcSending" by (simp add: less_eq_bc_status_def)
  ultimately show ?thesis using sched
    by (cases "i \<in> set ids") (auto simp: moves_forward_def orphaned_def ids(2) get_broadcast_promote)
qed

lemma moves_forward_cleanup:
  "moves_forward i w (w\<lparr>bw_db := snd (cleanup_logs e (bw_db w))\<rparr>)"
proof -
  let ?d = "bw_db w" and ?d' = "snd (cleanup_logs e (bw_db w))"
  have get: "get_broadcast ?d' i = get_broadcast ?d i"
    by (simp add: cleanup_logs_def get_broadcast_def Let_def)
  have "rcpts_of ?d' i = rcpts_of ?d i" if "orphaned w i"
  proof -
    obtain b where "get_broadcast ?d i = Some b" "bc_status b \<noteq> BcDone"
      using \<open>orphaned w i\<close> by (auto simp: orphaned_def)
    then show ?thesis
      by (auto simp: cleanup_logs_def rcpts_of_def old_recipient_def Let_def intro!: filter_cong)
  qed
  then show ?thesis by (auto simp: moves_forward_def orphaned_def get)
qed

lemma load_broadcast_frame:
  assumes "load_broadcast e k d = (n, d')" "tables_ok d"
  shows "(i \<noteq> k \<longrightarrow> get_broadcast d' i = get_broadcast d i \<and> rcpts_of d' i = rcpts_of d i)
    \<and> (\<forall>b. get_broadcast d i = Some b \<longrightarrow> (\<exists>b'. get_broadcast d' i = Some b' \<and> bc_status b' = bc_status b))"
proof -
  have snap: "db_broadcasts (snapshot e k t d) = db_broadcasts d" "i \<noteq> k \<Longrightarrow> rcpts_of (snapshot e k t d) i = rcpts_of d i" for t
    using snapshot_effect[OF assms(2) _ _ snapshot_def, of e t k] assms(2)
    by (auto simp: tables_ok_def distinct_map_filter)
  have get: "get_broadcast (snapshot e k t d) i = get_broadcast d i" for i t
    by (simp add: get_broadcast_def snap(1))
  show ?thesis using assms(1)
    by (auto simp: load_broadcast_def Let_def broadcast_tab.get_upd get snap split: option.splits if_splits)
qed

lemma step_moves_forward: "bc_step w w' \<Longrightarrow> world_ok w \<Longrightarrow> moves_forward i w w'"
proof (induction rule: bc_step.induct)
  case (patch w e a k q)
  show ?case
    by (cases rule: patch_cases[of e a k q "bw_db w"])
       (auto intro!: moves_forward_edit_db simp: moves_forward_refl patch_row_status editable_status_le)
next
  case (schedule w e a k t)
  show ?case
    by (cases rule: schedule_cases[of e a k t "bw_db w"])
       (auto intro!: moves_forward_edit_db simp: moves_forward_refl editable_status_le)
next
  case (photo w e a k nm ct n)
  show ?case
    by (cases rule: photo_cases[of e a k nm ct n "bw_db w"])
       (auto intro!: moves_forward_edit_db simp: moves_forward_refl)
next
  case (start w xs k ys e n d')
  have "moves_forward i w (w\<lparr>bw_db := d', bw_jobs := xs @ (if n = None then [] else [JLoop k]) @ ys, bw_sent := bw_sent w @ []\<rparr>)"
    using load_broadcast_frame[OF start(2) world_okD(2)[OF start.prems]]
    by (intro moves_forward_job[OF start(1)]) fastforce+
  then show ?case by simp
next
  case (see_flag w xs k ys)
  have "moves_forward i w (w\<lparr>bw_db := bw_db w, bw_jobs := xs @ [JFinish k BcCancelled] @ ys, bw_sent := bw_sent w @ []\<rparr>)"
    by (intro moves_forward_job[OF see_flag(1)]) auto
  then show ?case by simp
next
  case (read w xs k ys)
  have "list_all (\<lambda>j. job_bc j = k) (read_batch (bw_db w) k)"
    by (auto simp: read_batch_def split: option.split list.split)
  then have "moves_forward i w (w\<lparr>bw_db := bw_db w, bw_jobs := xs @ read_batch (bw_db w) k @ ys, bw_sent := bw_sent w @ []\<rparr>)"
    by (intro moves_forward_job[OF read(1)]) auto
  then show ?case by simp
next
  case (message w xs k b fid rid tg rest ys)
  have "moves_forward i w (w\<lparr>bw_db := bw_db w, bw_jobs := xs @ [JAwait k b fid rid rest] @ ys, bw_sent := bw_sent w @ [(k, rid)]\<rparr>)"
    by (intro moves_forward_job[OF message(1)]) auto
  then show ?case by simp
next
  case (finish w xs k st ys e)
  obtain b where b: "get_broadcast (bw_db w) k = Some b" "bc_ok (Some b) (rcpts_of (bw_db w) k) [JFinish k st]
      (sent_of k (bw_sent w)) (k \<in> set (bw_flags w))"
    using job_alone[OF finish.prems finish(1)] by (metis job_bc.simps(5))
  then have "bc_status b \<le> st" by (auto simp: bc_ok_def)
  then have "moves_forward i w (w\<lparr>bw_db := finalize e k st (bw_db w), bw_jobs := xs @ [] @ ys, bw_sent := bw_sent w @ []\<rparr>)"
    by (intro moves_forward_job[OF finish(1)]) (auto simp: finalize_def broadcast_tab.get_upd b(1))
  then show ?case by simp
next
  case (die w xs j ys)
  have "moves_forward i w (w\<lparr>bw_db := bw_db w, bw_jobs := xs @ [] @ ys, bw_sent := bw_sent w @ []\<rparr>)"
    by (intro moves_forward_job[OF die(1)]) auto
  then show ?case by simp
next
  case (elsewhere d' w)
  then show ?case by (auto simp: moves_forward_def orphaned_def get_broadcast_def rcpts_of_def)
next
  case (expire_flag w k)
  then show ?case by (auto simp: moves_forward_def orphaned_def)
next
  case (answer w xs k b fid rid rest ys e envelope r d')
  let ?d = "bw_db w"
  have t: "tables_ok ?d" using answer.prems by (rule world_okD)
  obtain c where c: "bc_ok (Some c) (rcpts_of ?d k) [JAwait k b fid rid rest]
      (sent_of k (bw_sent w)) (k \<in> set (bw_flags w))"
    using job_alone[OF answer.prems answer(1)] by (metis job_bc.simps(4))
  then have pend: "rid \<in> pend (rcpts_of ?d k)" by (auto simp: bc_ok_def)
  have "moves_forward i w (w\<lparr>bw_db := d', bw_jobs := xs @ (case r of Inl x \<Rightarrow> []
      | Inr (s, f) \<Rightarrow> [after_answer k b f rest]) @ ys, bw_sent := bw_sent w @ []\<rparr>)"
  proof (cases r)
    case (Inl x)
    then have "d' = ?d" using answer(2)
      by (auto simp: record_answer_def split: json.splits if_splits sum.splits)
    then show ?thesis by (intro moves_forward_job[OF answer(1)]) (auto simp: Inl)
  next
    case (Inr sf)
    then obtain s f where r: "r = Inr (s, f)" by (cases sf) auto
    from answer(2)[unfolded r] show ?thesis
    proof (cases rule: record_answer_effect)
      case eff: (1 g st h)
      show ?thesis
        by (intro moves_forward_job[OF answer(1)])
           (auto simp: r after_answer_def eff(3,9) answer_rcpts_other[OF t pend _ eff(6,2)])
    qed
  qed
  then show ?case by simp
qed (simp_all add: moves_forward_create moves_forward_send moves_forward_cancel moves_forward_pick
      moves_forward_cleanup)
section \<open>A run of the worker as a sequence of steps\<close>

lemmas one_bc_step = r_into_rtranclp[of bc_step]

lemma steps_trans: "bc_step\<^sup>*\<^sup>* w w' \<Longrightarrow> bc_step w' w'' \<Longrightarrow> bc_step\<^sup>*\<^sup>* w w''"
  by (rule rtranclp.rtrancl_into_rtrancl)

text \<open>The sends of one batch, from the job with the whole batch to the job that reads the next.\<close>

lemma send_batch_steps:
  assumes "send_batch e token disk b fid batch c (bw_db w) = (r, d')" "batch \<noteq> []"
    and "bw_jobs w = [JSend i b fid batch]" "bc_id b = i"
  shows "\<exists>w'. bc_step\<^sup>*\<^sup>* w w' \<and> bw_db w' = d' \<and> bw_flags w' = bw_flags w
    \<and> bw_jobs w' = (case r of Inl x \<Rightarrow> [] | Inr c' \<Rightarrow> [JLoop i])"
  using assms
proof (induction batch arbitrary: fid c w)
  case (Cons p rest)
  obtain rid tg where p: "p = (rid, tg)" by (cases p)
  let ?env = "send_one e token disk tg (to_telegram_html (bc_html_text b)) fid (bc_photo_path b)
                (build_reply_markup (bc_buttons b) (bc_buttons_per_row b))"
  let ?w1 = "w\<lparr>bw_jobs := [JAwait i b fid rid rest], bw_sent := bw_sent w @ [(i, rid)]\<rparr>"
  obtain a d1 where ans: "record_answer e i rid ?env fid (bw_db w) = (a, d1)" by (meson surj_pair)
  let ?w2 = "?w1\<lparr>bw_db := d1, bw_jobs := (case a of Inl x \<Rightarrow> [] | Inr (s, f) \<Rightarrow> [after_answer i b f rest])\<rparr>"
  have "bc_step w (w\<lparr>bw_jobs := [] @ JAwait i b fid rid rest # [], bw_sent := bw_sent w @ [(i, rid)]\<rparr>)"
    by (rule bc_step.message) (use Cons.prems(3) p in simp)
  then have s1: "bc_step w ?w1" by simp
  have "bc_step ?w1 (?w1\<lparr>bw_db := d1, bw_jobs := [] @ (case a of Inl x \<Rightarrow> [] | Inr (s, f) \<Rightarrow> [after_answer i b f rest]) @ []\<rparr>)"
    by (rule bc_step.answer[where e = e and envelope = "?env"]) (use ans in simp_all)
  then have s2: "bc_step ?w1 ?w2" by simp
  have s: "bc_step\<^sup>*\<^sup>* w ?w2" by (rule steps_trans[OF one_bc_step[OF s1] s2])
  show ?case
  proof (cases a)
    case (Inl x)
    then have "r = Inl x" "d' = d1" using Cons.prems(1,4) ans by (auto simp: p)
    then show ?thesis using s Inl by (intro exI[of _ ?w2]) simp
  next
    case (Inr sf)
    obtain sn f where a: "a = Inr (sn, f)" using Inr by (cases sf) auto
    show ?thesis
    proof (cases "rest = []")
      case True
      then have "\<exists>c'. r = Inr c'" "d' = d1" using Cons.prems(1,4) ans a by (auto simp: p)
      then show ?thesis using s True a by (intro exI[of _ ?w2]) (auto simp: after_answer_def)
    next
      case False
      let ?c = "if sn then c\<lparr>rk_sent := Suc (rk_sent c)\<rparr> else c\<lparr>rk_failed := Suc (rk_failed c)\<rparr>"
      have "send_batch e token disk b f rest ?c (bw_db ?w2) = (r, d')"
        using Cons.prems(1,4) ans a by (simp add: p)
      moreover have "bw_jobs ?w2 = [JSend i b f rest]" using False a by (simp add: after_answer_def)
      ultimately obtain w' where "bc_step\<^sup>*\<^sup>* ?w2 w'" "bw_db w' = d'" "bw_flags w' = bw_flags ?w2"
          "bw_jobs w' = (case r of Inl x \<Rightarrow> [] | Inr c' \<Rightarrow> [JLoop i])"
        using Cons.IH[of f ?c ?w2] False Cons.prems(4) by blast
      then show ?thesis using s by (intro exI[of _ w']) auto
    qed
  qed
qed simp

lemma get_broadcast_id: "get_broadcast d i = Some b \<Longrightarrow> bc_id b = i"
  by (simp add: get_broadcast_SomeD)

lemma run_loop_steps:
  assumes "run_loop e token disk look i n c (bw_db w) = (r, d')" "bw_jobs w = [JLoop i]"
    and "\<And>n. look n = FlagSet \<Longrightarrow> i \<in> set (bw_flags w)"
  shows "\<exists>w'. bc_step\<^sup>*\<^sup>* w w' \<and> bw_db w' = d' \<and> bw_jobs w' = []"
  using assms
proof (induction e token disk look i n c "bw_db w" arbitrary: w rule: run_loop.induct)
  case (1 e token disk look i n c w)
  let ?d = "bw_db w"
  have read: "bc_step w (w\<lparr>bw_jobs := read_batch ?d i\<rparr>)"
    using bc_step.read[of w "[]" i "[]"] 1(3) by simp
  have finish: "bc_step\<^sup>*\<^sup>* w w1 \<Longrightarrow> bw_jobs w1 = [JFinish i st] \<Longrightarrow> bw_db w1 = ?d \<Longrightarrow>
      \<exists>w'. bc_step\<^sup>*\<^sup>* w w' \<and> bw_db w' = finalize e i st ?d \<and> bw_jobs w' = []" for w1 st
    using bc_step.finish[of w1 "[]" i st "[]" e]
    by (intro exI[of _ "w1\<lparr>bw_db := finalize e i st ?d, bw_jobs := []\<rparr>"]) (auto intro: steps_trans)
  show ?case
  proof (cases "look n = FlagSet")
    case True
    then have see: "bc_step w (w\<lparr>bw_jobs := [JFinish i BcCancelled]\<rparr>)"
      using bc_step.see_flag[of w "[]" i "[]"] 1(3,4) by simp
    show ?thesis using finish[OF one_bc_step[OF see]] True 1(2)
      by (auto simp: run_loop.simps[of e token disk look i n])
  next
    case flag: False
    show ?thesis
    proof (cases "\<exists>b. get_broadcast ?d i = Some b \<and> bc_status b = BcSending")
      case False
      then have "d' = ?d" "read_batch ?d i = []"
        using 1(2) flag by (auto simp: run_loop.simps[of e token disk look i n] read_batch_def split: option.splits)
      then show ?thesis using read
        by (intro exI[of _ "w\<lparr>bw_jobs := read_batch ?d i\<rparr>"]) auto
    next
      case True
      then obtain b where b: "get_broadcast ?d i = Some b" "bc_status b = BcSending" by blast
      show ?thesis
      proof (cases "next_batch ?d i")
        case Nil
        then have "read_batch ?d i = [JFinish i BcDone]" "d' = finalize e i BcDone ?d"
          using 1(2) flag b by (auto simp: run_loop.simps[of e token disk look i n] read_batch_def)
        then show ?thesis using finish[OF one_bc_step[OF read]] by simp
      next
        case (Cons p rest)
        let ?w1 = "w\<lparr>bw_jobs := read_batch ?d i\<rparr>"
        have job: "bw_jobs ?w1 = [JSend i b (bc_photo_file_id b) (p # rest)]"
          using b Cons by (simp add: read_batch_def)
        obtain r1 d1 where send: "send_batch e token disk b (bc_photo_file_id b) (p # rest) c ?d = (r1, d1)"
          by (meson surj_pair)
        obtain w2 where w2: "bc_step\<^sup>*\<^sup>* ?w1 w2" "bw_db w2 = d1" "bw_flags w2 = bw_flags w"
            "bw_jobs w2 = (case r1 of Inl x \<Rightarrow> [] | Inr c' \<Rightarrow> [JLoop i])"
          using send_batch_steps[of e token disk b _ "p # rest" c ?w1 r1 d1 i] send job get_broadcast_id[OF b(1)]
          by auto
        have to2: "bc_step\<^sup>*\<^sup>* w w2" by (rule converse_rtranclp_into_rtranclp[OF read w2(1)])
        have unroll: "run_loop e token disk look i n c ?d = (case r1 of Inl x \<Rightarrow> (Inl x, d1)
            | Inr c' \<Rightarrow> run_loop e token disk look i (Suc n) c' d1)"
          using flag b Cons send by (simp add: run_loop.simps[of e token disk look i n] split: sum.split)
        show ?thesis
        proof (cases r1)
          case (Inl x)
          then show ?thesis using to2 w2 1(2) unroll by (intro exI[of _ w2]) auto
        next
          case (Inr c')
          have "\<exists>w'. bc_step\<^sup>*\<^sup>* w2 w' \<and> bw_db w' = d' \<and> bw_jobs w' = []"
            by (rule 1(1)[OF flag b(1) _ Cons send[folded w2(2), symmetric] Inr])
               (use w2 Inr unroll 1(2,4) b(2) in auto)
          then show ?thesis using to2 by (blast intro: rtranclp_trans)
        qed
      qed
    qed
  qed
qed

lemma run_broadcast_steps:
  assumes "run_broadcast e token disk look i (bw_db w) = (r, d')" "bw_jobs w = [JQueued i]"
    and "\<And>n. look n = FlagSet \<Longrightarrow> i \<in> set (bw_flags w)"
  shows "\<exists>w'. bc_step\<^sup>*\<^sup>* w w' \<and> bw_db w' = d' \<and> bw_jobs w' = []"
proof -
  obtain n d1 where load: "load_broadcast e i (bw_db w) = (n, d1)" by (meson surj_pair)
  let ?w1 = "w\<lparr>bw_db := d1, bw_jobs := (if n = None then [] else [JLoop i])\<rparr>"
  have s1: "bc_step w ?w1" using bc_step.start[of w "[]" i "[]" e n d1] assms(2) load by simp
  show ?thesis
  proof (cases n)
    case None
    then show ?thesis using assms(1) load s1 by (intro exI[of _ ?w1]) (auto simp: run_broadcast_def)
  next
    case (Some t)
    have "\<exists>w'. bc_step\<^sup>*\<^sup>* ?w1 w' \<and> bw_db w' = d' \<and> bw_jobs w' = []"
      by (rule run_loop_steps[where e = e and token = token and disk = disk and look = look and i = i and n = 0
            and c = "\<lparr>rk_total = t, rk_sent = 0, rk_failed = 0\<rparr>" and r = r])
         (use assms load Some in \<open>auto simp: run_broadcast_def\<close>)
    then show ?thesis using s1 by (blast intro: converse_rtranclp_into_rtranclp)
  qed
qed

section \<open>Well-formed answers\<close>

text \<open>What Telegram documents: every answer is an object, and photo sizes are numbers.\<close>

definition answer_shaped :: "json \<Rightarrow> bool" where
  "answer_shaped j = (case j of JObj kvs \<Rightarrow> \<not> isl (extract_photo_file_id kvs) | _ \<Rightarrow> False)"

definition outcome_shaped :: "http_outcome \<Rightarrow> bool" where
  "outcome_shaped out = (case out of HttpResponse st (Some j) t \<Rightarrow> answer_shaped j | _ \<Rightarrow> True)"

definition telegram_shaped :: "env \<Rightarrow> bool" where
  "telegram_shaped e \<longleftrightarrow> (\<forall>call path body n. outcome_shaped (e_http e ''telegram'' call path body n))"

lemma failure_shaped: "answer_shaped (failure_json j m)"
  by (simp add: answer_shaped_def failure_json_def extract_photo_file_id_def)

lemma parse_envelope_shaped:
  assumes "outcome_shaped (HttpResponse st body t)"
  shows "answer_shaped (envelope_json (parse_envelope st body))"
proof (cases body)
  case None
  then show ?thesis
    by (simp add: answer_shaped_def envelope_json_def parse_envelope_def tg_failure_def extract_photo_file_id_def)
next
  case (Some j)
  then obtain kvs where j: "j = JObj kvs" "\<not> isl (extract_photo_file_id kvs)"
    using assms by (cases j) (auto simp: outcome_shaped_def answer_shaped_def)
  have "extract_photo_file_id [(''ok'', a), (''result'', get_or JNull ''result'' kvs), (''error_code'', b),
      (''description'', c), (''parameters'', d)] = extract_photo_file_id kvs" for a b c d
    by (auto simp: extract_photo_file_id_def get_or_def split: option.splits json.splits)
  then show ?thesis using j Some
    by (simp add: answer_shaped_def envelope_json_def parse_envelope_def Let_def)
qed

lemma tg_attempts_shaped:
  assumes "\<And>n. outcome_shaped (out n)"
  shows "answer_shaped (envelope_json (fst (tg_attempts out n left)))"
proof (induction left arbitrary: n)
  case 0
  show ?case using assms[of n] parse_envelope_shaped
    by (subst tg_attempts.simps) (auto split: http_outcome.split
        simp: answer_shaped_def envelope_json_def tg_failure_def extract_photo_file_id_def)
next
  case (Suc left)
  show ?case using assms[of n] parse_envelope_shaped Suc
    by (subst tg_attempts.simps) (auto split: http_outcome.split
        simp: answer_shaped_def envelope_json_def tg_failure_def extract_photo_file_id_def)
qed

lemma send_one_shaped:
  assumes "telegram_shaped e"
  shows "answer_shaped (send_one e token disk chat msg fid path markup)"
proof -
  have multi: "answer_shaped (send_photo_multipart e token chat p msg markup)" for p
  proof -
    have "answer_shaped (case out of TransportError m \<Rightarrow> failure_json (JInt (-1)) (''network: '' @ m)
        | HttpResponse st (Some j) t \<Rightarrow> j | HttpResponse st None t \<Rightarrow> failure_json (JInt st) ''non-json'')"
      if "outcome_shaped out" for out
      using that by (auto simp: outcome_shaped_def failure_shaped split: http_outcome.split option.split)
    then show ?thesis using assms
      by (simp add: send_photo_multipart_def failure_shaped telegram_shaped_def)
  qed
  show ?thesis using assms multi
    by (simp add: send_one_def tg_call_def tg_attempts_shaped telegram_shaped_def)
qed
section \<open>The undisturbed run\<close>

text \<open>The counters of the run and those of the row agree.\<close>

definition counts_agree :: "db \<Rightarrow> int \<Rightarrow> run_counters \<Rightarrow> bool" where
  "counts_agree d i c \<longleftrightarrow> (\<exists>b. get_broadcast d i = Some b \<and> bc_status b = BcSending
     \<and> bc_sent b = int (rk_sent c) \<and> bc_failed b = int (rk_failed c)
     \<and> bc_recipients_total b = int (rk_total c))"

lemma record_answer_counts:
  assumes "answer_shaped j" "counts_agree d i c"
  shows "\<exists>s f d'. record_answer e i rid j fid d = (Inr (s, f), d') \<and> counts_agree d' i
    (if s then c\<lparr>rk_sent := Suc (rk_sent c)\<rparr> else c\<lparr>rk_failed := Suc (rk_failed c)\<rparr>)"
proof -
  obtain kvs where kvs: "j = JObj kvs" "\<not> isl (extract_photo_file_id kvs)"
    using assms(1) by (cases j) (auto simp: answer_shaped_def)
  then obtain new where new: "extract_photo_file_id kvs = Inr new"
    by (cases "extract_photo_file_id kvs") auto
  have sent: "counts_agree (mark_rcpt_sent e i rid d) i (c\<lparr>rk_sent := Suc (rk_sent c)\<rparr>)"
    using assms(2) by (auto simp: counts_agree_def mark_rcpt_sent_def broadcast_tab.get_upd)
  have failed: "counts_agree (mark_rcpt_failed i rid m d) i (c\<lparr>rk_failed := Suc (rk_failed c)\<rparr>)" for m
    using assms(2) by (auto simp: counts_agree_def mark_rcpt_failed_def broadcast_tab.get_upd)
  have keep: "counts_agree (keep_file_id i x d1) i c1" if k: "counts_agree d1 i c1" for x d1 c1
  proof -
    obtain b where b: "get_broadcast d1 i = Some b" "bc_status b = BcSending" "bc_sent b = int (rk_sent c1)"
      "bc_failed b = int (rk_failed c1)" "bc_recipients_total b = int (rk_total c1)"
      using k by (auto simp: counts_agree_def)
    then show ?thesis
      by (cases "bc_photo_file_id b") (simp_all add: counts_agree_def keep_file_id_def broadcast_tab.get_upd)
  qed
  show ?thesis
  proof (cases "opt_json_truthy (map_of kvs ''ok'')")
    case True
    show ?thesis
      by (cases "str_truthy new \<and> \<not> str_truthy fid")
         (auto simp: record_answer_def kvs(1) new True keep sent intro: exI[of _ True])
  next
    case False
    then show ?thesis by (auto simp: record_answer_def kvs(1) failed intro: exI[of _ False])
  qed
qed

lemma send_batch_counts:
  assumes "telegram_shaped e" "counts_agree d (bc_id b) c"
  shows "\<exists>c' d'. send_batch e token disk b fid batch c d = (Inr c', d') \<and> counts_agree d' (bc_id b) c'"
  using assms(2)
proof (induction batch arbitrary: fid c d)
  case (Cons p rest)
  obtain rid tg where p: "p = (rid, tg)" by (cases p)
  let ?env = "send_one e token disk tg (to_telegram_html (bc_html_text b)) fid (bc_photo_path b)
                (build_reply_markup (bc_buttons b) (bc_buttons_per_row b))"
  obtain s f d1 where "record_answer e (bc_id b) rid ?env fid d = (Inr (s, f), d1)"
    "counts_agree d1 (bc_id b) (if s then c\<lparr>rk_sent := Suc (rk_sent c)\<rparr> else c\<lparr>rk_failed := Suc (rk_failed c)\<rparr>)"
    using record_answer_counts[OF send_one_shaped[OF assms(1)] Cons.prems] by blast
  then show ?case using Cons.IH by (simp add: p)
qed simp

lemma run_loop_completes:
  assumes "telegram_shaped e" "\<And>n. look n \<noteq> FlagSet" "counts_agree d i c"
  shows "\<exists>c' d'. run_loop e token disk look i n c d = (Inr c', d') \<and> next_batch d' i = []
    \<and> (\<exists>b. get_broadcast d' i = Some b \<and> bc_status b = BcDone
         \<and> bc_sent b = int (rk_sent c') \<and> bc_failed b = int (rk_failed c')
         \<and> bc_recipients_total b = int (rk_total c') \<and> rk_total c' = rk_total c)"
  using assms
proof (induction e token disk look i n c d rule: run_loop.induct)
  case (1 e token disk look i n c d)
  obtain b where b: "get_broadcast d i = Some b" "bc_status b = BcSending"
    using 1(4) by (auto simp: counts_agree_def)
  show ?case
  proof (cases "next_batch d i")
    case Nil
    have "next_batch (finalize e i BcDone d) i = next_batch d i"
      by (simp add: next_batch_def pending_rcpts_def finalize_def get_user_def)
    moreover have "run_loop e token disk look i n c d = (Inr c, finalize e i BcDone d)"
      using Nil b 1(3) by (simp add: run_loop.simps[of e token disk look i n])
    ultimately show ?thesis using Nil 1(4)
      by (auto simp: finalize_def broadcast_tab.get_upd counts_agree_def)
  next
    case (Cons p rest)
    obtain c1 d1 where send: "send_batch e token disk b (bc_photo_file_id b) (p # rest) c d = (Inr c1, d1)"
        "counts_agree d1 i c1"
      using send_batch_counts[OF 1(2), of d b c] 1(4) get_broadcast_id[OF b(1)] by metis
    have total: "rk_total c1 = rk_total c"
    proof -
      have "send_batch e token disk b fid xs k dd = (Inr k', dd') \<Longrightarrow> rk_total k' = rk_total k" for fid xs k dd k' dd'
      proof (induction xs arbitrary: fid k dd)
        case (Cons x xs)
        obtain rid tg where x: "x = (rid, tg)" by (cases x)
        from Cons.prems obtain s f d1 where
          "send_batch e token disk b f xs (if s then k\<lparr>rk_sent := Suc (rk_sent k)\<rparr>
             else k\<lparr>rk_failed := Suc (rk_failed k)\<rparr>) d1 = (Inr k', dd')"
          by (auto simp: x split: prod.splits sum.splits)
        from Cons.IH[OF this] show ?case by (simp split: if_splits)
      qed simp
      then show ?thesis using send(1) .
    qed
    have "run_loop e token disk look i n c d = run_loop e token disk look i (Suc n) c1 d1"
      using Cons b send(1) 1(3) by (simp add: run_loop.simps[of e token disk look i n])
    then show ?thesis
      using 1(1)[OF _ b(1) _ Cons send(1)[symmetric] refl] 1(2,3) b(2) send(2) total by auto
  qed
qed

section \<open>Properties\<close>

lemma distinct_sent: "(\<And>i. distinct (sent_of i ss)) \<Longrightarrow> distinct ss"
proof (induction ss)
  case (Cons p ss)
  have "distinct (sent_of i ss)" for i using Cons.prems[of i] by (auto split: if_splits)
  moreover have "p \<notin> set ss"
  proof
    assume "p \<in> set ss"
    then have "snd p \<in> set (sent_of (fst p) ss)" by (auto simp: sent_of_def)
    then show False using Cons.prems[of "fst p"] by simp
  qed
  ultimately show ?case using Cons.IH by simp
qed simp


text \<open>C21: The counters an administrator sees are exact in every reachable world: until a
  broadcast is done they are the numbers of its recipients, of those sent to and of those
  failed, and once it is done every recipient was either sent to or failed.\<close>

theorem broadcast_counters_exact:
  assumes "bc_initial w0" "bc_step\<^sup>*\<^sup>* w0 w" "get_broadcast (bw_db w) i = Some b"
  shows "if bc_status b = BcDone then bc_sent b + bc_failed b = bc_recipients_total b
    else bc_recipients_total b = int (length (rcpts_of (bw_db w) i))
       \<and> bc_sent b = tally RcSent (rcpts_of (bw_db w) i) \<and> bc_failed b = tally RcFailed (rcpts_of (bw_db w) i)"
  using world_okD(1)[OF broadcasts.reachable[OF assms(1,2)], of i] assms(3)
  by (auto simp: view_ok_def bc_ok_def)

text \<open>The status of a broadcast only moves forward, in the order draft, scheduled, sending,
  cancelled, done, and a broadcast never disappears.\<close>

theorem broadcast_status_forward:
  assumes "bc_initial w0" "bc_step\<^sup>*\<^sup>* w0 w" "bc_step\<^sup>*\<^sup>* w w'" "get_broadcast (bw_db w) i = Some b"
  shows "\<exists>b'. get_broadcast (bw_db w') i = Some b' \<and> bc_status b \<le> bc_status b'"
  using assms(3)
proof (induction rule: rtranclp_induct)
  case base
  then show ?case using assms(4) by auto
next
  case (step w1 w2)
  then have "world_ok w1" using broadcasts.reachable[OF assms(1)] assms(2) rtranclp_trans[of bc_step] by metis
  then show ?case using step_moves_forward[OF step(2), of i] step(3)
    by (auto simp: moves_forward_def intro: order_trans)
qed

text \<open>C27: A broadcast that is being sent but has no job left, because the job could not be
  queued, crashed or ran into the worker's time limit, is never delivered: nothing sends to
  another recipient or finishes it, and all an administrator can do is cancel it.\<close>

theorem lost_job_strands_broadcast:
  assumes "bc_initial w0" "bc_step\<^sup>*\<^sup>* w0 w" "bc_step\<^sup>*\<^sup>* w w'"
    and "get_broadcast (bw_db w) i = Some b" "bc_status b = BcSending" "jobs_of i (bw_jobs w) = []"
  shows "\<exists>b'. get_broadcast (bw_db w') i = Some b' \<and> bc_status b' \<in> {BcSending, BcCancelled}
    \<and> rcpts_of (bw_db w') i = rcpts_of (bw_db w) i \<and> sent_of i (bw_sent w') = sent_of i (bw_sent w)"
proof -
  have "world_ok w" by (rule broadcasts.reachable[OF assms(1,2)])
  moreover have "orphaned w i" using assms(4-6) by (auto simp: orphaned_def)
  ultimately have "world_ok w' \<and> (orphaned w' i \<and> rcpts_of (bw_db w') i = rcpts_of (bw_db w) i
      \<and> sent_of i (bw_sent w') = sent_of i (bw_sent w))"
    using broadcasts.run_stable[where Q = "\<lambda>v. orphaned v i \<and> rcpts_of (bw_db v) i = rcpts_of (bw_db w) i
        \<and> sent_of i (bw_sent v) = sent_of i (bw_sent w)", OF _ assms(3)] step_moves_forward[of _ _ i]
    by (simp add: moves_forward_def)
  then show ?thesis by (auto simp: orphaned_def)
qed

lemma completed_run:
  assumes "bc_initial w0" "bc_step\<^sup>*\<^sup>* w0 w" "bw_jobs w = [JQueued i]"
    and "get_broadcast (bw_db w) i = Some b" "bc_status b = BcSending"
    and "telegram_shaped e" "\<forall>n. look n \<noteq> FlagSet"
  shows "\<exists>c d' b'. run_broadcast e token disk look i (bw_db w) = (Inr c, d')
    \<and> rk_total c = length (filter (in_target e (bc_target b) (bw_db w)) (db_users (bw_db w)))
    \<and> rk_sent c + rk_failed c = rk_total c
    \<and> get_broadcast d' i = Some b' \<and> bc_status b' = BcDone
    \<and> bc_sent b' = int (rk_sent c) \<and> bc_failed b' = int (rk_failed c) \<and> pend (rcpts_of d' i) = {}"
proof -
  let ?d = "bw_db w"
  have ok: "world_ok w" by (rule broadcasts.reachable[OF assms(1,2)])
  then have t: "tables_ok ?d" and "view_ok w i" by (auto dest: world_okD)
  then have fresh: "rcpts_of ?d i = []" "bc_sent b = 0" "bc_failed b = 0"
    using assms(3-5) by (auto simp: view_ok_def bc_ok_def tally_def)
  let ?d1 = "snapshot e i (bc_target b) ?d"
  obtain n d2 where load: "load_broadcast e i ?d = (Some n, d2)" "n = length (rcpts_of ?d1 i)"
      "d2 = mod_broadcast i (\<lambda>b. b\<lparr>bc_recipients_total := int n,
        bc_started_at := (case bc_started_at b of None \<Rightarrow> Some (e_now e) | Some t \<Rightarrow> Some t)\<rparr>) ?d1"
    using assms(4,5) fresh(1) by (simp add: load_broadcast_def Let_def)
  have snap: "db_broadcasts ?d1 = db_broadcasts ?d"
      "n = length (filter (in_target e (bc_target b) ?d) (db_users ?d))"
  proof -
    let ?us = "filter (in_target e (bc_target b) ?d) (db_users ?d)"
    have "u_id ` set ?us \<subseteq> u_id ` set (db_users ?d)" "distinct (List.map u_id ?us)"
      using t by (auto simp: tables_ok_def distinct_map_filter)
    note eff = snapshot_effect[OF t this snapshot_def, of i]
    show "db_broadcasts ?d1 = db_broadcasts ?d" using eff by (rule conjunct1)
    obtain new where "rcpts_of ?d1 i = rcpts_of ?d i @ new" "List.map rc_user_id new = List.map u_id ?us"
      using eff by blast
    then show "n = length ?us" using fresh(1) load(2) by (metis append_Nil length_map)
  qed
  have "get_broadcast ?d1 i = Some b" using assms(4) snap(1) by (simp add: get_broadcast_def)
  then have "counts_agree d2 i \<lparr>rk_total = n, rk_sent = 0, rk_failed = 0\<rparr>"
    using assms(5) fresh by (simp add: counts_agree_def load(3) broadcast_tab.get_upd)
  moreover have "\<And>n. look n \<noteq> FlagSet" using assms(7) by blast
  ultimately have "\<exists>c' d'. run_loop e token disk look i 0 \<lparr>rk_total = n, rk_sent = 0, rk_failed = 0\<rparr> d2 = (Inr c', d')
    \<and> next_batch d' i = []
    \<and> (\<exists>b. get_broadcast d' i = Some b \<and> bc_status b = BcDone
         \<and> bc_sent b = int (rk_sent c') \<and> bc_failed b = int (rk_failed c')
         \<and> bc_recipients_total b = int (rk_total c') \<and> rk_total c' = n)"
    using run_loop_completes[OF assms(6), of look d2 i "\<lparr>rk_total = n, rk_sent = 0, rk_failed = 0\<rparr>" token disk 0]
    by simp
  then
  obtain c d' b' where run: "run_broadcast e token disk look i ?d = (Inr c, d')" "next_batch d' i = []"
    "get_broadcast d' i = Some b'" "bc_status b' = BcDone" "bc_sent b' = int (rk_sent c)"
    "bc_failed b' = int (rk_failed c)" "bc_recipients_total b' = int (rk_total c)" "rk_total c = n"
    by (auto simp: run_broadcast_def load(1))
  obtain w' where w': "bc_step\<^sup>*\<^sup>* w w'" "bw_db w' = d'"
    using run_broadcast_steps[OF run(1) assms(3)] assms(7) by metis
  have "world_ok w'" using broadcasts.run_keeps[OF w'(1) ok] .
  then have "tables_ok d'" "view_ok w' i" by (auto dest: world_okD simp: w'(2)[symmetric])
  then have "bc_sent b' + bc_failed b' = bc_recipients_total b'" "pend (rcpts_of d' i) = {}"
    using run(3,4) next_batch_empty[OF _ run(2)] by (auto simp: view_ok_def bc_ok_def w'(2))
  then show ?thesis using run snap(2)
    by (intro exI[of _ c] exI[of _ d'] exI[of _ b']) simp
qed

text \<open>C22: A run that nothing disturbs returns: it attempts every user of the target group
  exactly as counted at its start, leaves nobody pending and ends with the status done and
  counters that add up to the number of recipients.\<close>

theorem undisturbed_run_completes:
  assumes "bc_initial w0" "bc_step\<^sup>*\<^sup>* w0 w" "bw_jobs w = [JQueued i]"
    and "get_broadcast (bw_db w) i = Some b" "bc_status b = BcSending"
    and "telegram_shaped e" "\<forall>n. look n \<noteq> FlagSet"
  shows "\<exists>c d' b'. run_broadcast e token disk look i (bw_db w) = (Inr c, d')
    \<and> rk_total c = length (filter (in_target e (bc_target b) (bw_db w)) (db_users (bw_db w)))
    \<and> rk_sent c + rk_failed c = rk_total c
    \<and> get_broadcast d' i = Some b' \<and> bc_status b' = BcDone
    \<and> bc_sent b' = int (rk_sent c) \<and> bc_failed b' = int (rk_failed c) \<and> pend (rcpts_of d' i) = {}"
  by (rule completed_run[OF assms])

text \<open>After every message the job sleeps 0.04 seconds; ARQ ends a job after \<open>ARQ_JOB_TIMEOUT\<close>,
  two minutes unless set otherwise.\<close>

definition inter_msg_delay :: int where "inter_msg_delay = 40000"

definition slept :: "run_counters \<Rightarrow> int" where
  "slept c = inter_msg_delay * int (rk_sent c + rk_failed c)"

definition arq_job_timeout :: int where "arq_job_timeout = seconds 120"

text \<open>A broadcast to more than 3000 users cannot be completed: the pauses between the
  messages alone take longer than the time limit of the job, and a job that was ended is
  not resumed (C44).\<close>

theorem large_broadcast_outlives_job:
  assumes "bc_initial w0" "bc_step\<^sup>*\<^sup>* w0 w" "bw_jobs w = [JQueued i]"
    and "get_broadcast (bw_db w) i = Some b" "bc_status b = BcSending"
    and "telegram_shaped e" "\<forall>n. look n \<noteq> FlagSet"
    and "3000 < length (filter (in_target e (bc_target b) (bw_db w)) (db_users (bw_db w)))"
  shows "\<exists>c. fst (run_broadcast e token disk look i (bw_db w)) = Inr c \<and> arq_job_timeout < slept c"
proof -
  let ?us = "filter (in_target e (bc_target b) (bw_db w)) (db_users (bw_db w))"
  from completed_run[OF assms(1-7), of token disk]
  obtain c where c: "fst (run_broadcast e token disk look i (bw_db w)) = Inr c"
      "rk_sent c + rk_failed c = length ?us" by auto
  then have "arq_job_timeout < slept c" using assms(8)
    by (simp add: slept_def inter_msg_delay_def arq_job_timeout_def seconds_def)
  then show ?thesis using c(1) by blast
qed

text \<open>A cancellation that comes between the job's last look at the recipients and its final
  commit is answered with the status cancelled and then overwritten: the broadcast ends as
  done.\<close>

theorem cancellation_overwritten:
  assumes "bw_jobs w = xs @ JFinish i BcDone # ys"
    and "get_broadcast (bw_db w) i = Some b" "bc_status b = BcSending"
  shows "\<exists>w1 w2 b1 b2. bc_step w w1 \<and> bc_step w1 w2
    \<and> fst (fst (cancel_broadcast e a i (bw_db w))) = Inr (serialize b1)
    \<and> get_broadcast (bw_db w1) i = Some b1 \<and> bc_status b1 = BcCancelled
    \<and> get_broadcast (bw_db w2) i = Some b2 \<and> bc_status b2 = BcDone"
proof -
  let ?b1 = "b\<lparr>bc_status := BcCancelled, bc_finished_at := Some (e_now e)\<rparr>"
  obtain r f d1 where c: "cancel_broadcast e a i (bw_db w) = ((r, f), d1)" by (metis prod.exhaust)
  have d1: "get_broadcast d1 i = Some ?b1" "r = Inr (serialize ?b1)"
    using c assms(2,3) by (auto simp: cancel_broadcast_def broadcast_or_404_def or_404_def reread_def
        broadcast_tab.get_upd)
  let ?w1 = "w\<lparr>bw_db := d1, bw_flags := (if f \<and> True then i # bw_flags w else bw_flags w)\<rparr>"
  let ?w2 = "?w1\<lparr>bw_db := finalize e i BcDone (bw_db ?w1), bw_jobs := xs @ ys\<rparr>"
  have "bc_step w ?w1" by (rule bc_step.cancel[OF c])
  moreover have "bc_step ?w1 ?w2" by (rule bc_step.finish) (use assms(1) in simp)
  ultimately show ?thesis using d1 c
    by (intro exI[of _ ?w1] exI[of _ ?w2] exI[of _ ?b1]
        exI[of _ "?b1\<lparr>bc_status := BcDone, bc_finished_at := Some (e_now e)\<rparr>"])
       (simp add: finalize_def broadcast_tab.get_upd)
qed
section \<open>Witnesses\<close>

text \<open>A shop with the given users, and in it a broadcast to all that has just been sent off.\<close>

definition fx_reply :: env where
  "fx_reply = fx_env 20 200 (JObj [(''ok'', JBool True)])"

definition fx_letter :: bc_create where
  "fx_letter = \<lparr>cr_html_text = ''<b>hi</b>'', cr_target = BcAll, cr_buttons = None,
     cr_buttons_per_row = 1, cr_scheduled_at = None\<rparr>"

definition fx_shop :: "user_row list \<Rightarrow> bc_world" where
  "fx_shop us = \<lparr>bw_db = fx_db\<lparr>db_users := us\<rparr>, bw_flags = [], bw_jobs = [], bw_sent = []\<rparr>"

definition fx_created :: "user_row list \<Rightarrow> bc_world" where
  "fx_created us = (fx_shop us)\<lparr>bw_db := snd (create_broadcast fx_reply fx_admin fx_letter (bw_db (fx_shop us)))\<rparr>"

definition fx_sent_off :: "user_row list \<Rightarrow> bc_world" where
  "fx_sent_off us = (fx_created us)\<lparr>bw_db := snd (send_broadcast fx_reply fx_admin 1 (bw_db (fx_created us))),
     bw_jobs := [JQueued 1]\<rparr>"

lemma fx_shop_initial: "distinct (List.map u_id us) \<Longrightarrow> bc_initial (fx_shop us)"
  by (simp add: bc_initial_def fx_shop_def fx_db_def empty_db_def)

lemma fx_created_row:
  "\<exists>b. get_broadcast (bw_db (fx_created us)) 1 = Some b \<and> bc_status b = BcDraft \<and> bc_target b = BcAll"
  "db_users (bw_db (fx_created us)) = us"
  by (simp_all add: fx_created_def fx_shop_def create_broadcast_def create_ok_def fx_letter_def buttons_ok_def
      Let_def get_broadcast_def ins_broadcast_def next_broadcast_def fresh_id_def row_find_def fx_db_def empty_db_def
      record_admin_action_def ins_log_def)

lemma fx_sent_off_run:
  "bc_step\<^sup>*\<^sup>* (fx_shop us) (fx_sent_off us)"
  "\<exists>b. get_broadcast (bw_db (fx_sent_off us)) 1 = Some b \<and> bc_status b = BcSending \<and> bc_target b = BcAll"
  "bw_jobs (fx_sent_off us) = [JQueued 1]" "db_users (bw_db (fx_sent_off us)) = us"
proof -
  let ?d = "bw_db (fx_created us)"
  have s1: "bc_step (fx_shop us) (fx_created us)" unfolding fx_created_def by (rule bc_step.create)
  obtain b where b: "get_broadcast ?d 1 = Some b" "bc_status b = BcDraft" "bc_target b = BcAll"
    using fx_created_row(1) by blast
  have send: "send_broadcast fx_reply fx_admin 1 ?d = reread 1 (record_admin_action fx_reply fx_admin
      ''broadcast.send'' None None [(''broadcast_id'', JInt 1)]
      (mod_broadcast 1 (\<lambda>b. b\<lparr>bc_status := BcSending, bc_scheduled_at := None\<rparr>) ?d))"
    using b by (simp add: send_broadcast_def broadcast_or_404_def or_404_def)
  then obtain r where "send_broadcast fx_reply fx_admin 1 ?d = (Inr r, snd (send_broadcast fx_reply fx_admin 1 ?d))"
    using b(1) by (auto simp: reread_def broadcast_or_404_def or_404_def broadcast_tab.get_upd)
  from bc_step.send[OF this, of True]
  have "bc_step (fx_created us) (fx_sent_off us)"
    by (simp add: fx_sent_off_def) (simp add: fx_created_def fx_shop_def)
  then show "bc_step\<^sup>*\<^sup>* (fx_shop us) (fx_sent_off us)" by (rule steps_trans[OF one_bc_step[OF s1]])
  show "\<exists>b. get_broadcast (bw_db (fx_sent_off us)) 1 = Some b \<and> bc_status b = BcSending \<and> bc_target b = BcAll"
    using b by (simp add: fx_sent_off_def send broadcast_tab.get_upd)
  show "bw_jobs (fx_sent_off us) = [JQueued 1]" by (simp add: fx_sent_off_def)
  show "db_users (bw_db (fx_sent_off us)) = us" using fx_created_row(2) by (simp add: fx_sent_off_def send)
qed

lemma fx_reply_shaped: "telegram_shaped fx_reply"
  by (simp add: telegram_shaped_def fx_reply_def outcome_shaped_def answer_shaped_def extract_photo_file_id_def)

definition fx_two :: "user_row list" where
  "fx_two = [fx_user 1 101 0, fx_user 2 102 50000]"

lemma fx_two_distinct: "distinct (List.map u_id fx_two)"
  by (simp add: fx_two_def fx_user_def)

lemmas fx_two_run = fx_shop_initial[OF fx_two_distinct] fx_sent_off_run(1)[of fx_two]

text \<open>The world after the job has run.\<close>

lemma fx_two_delivered:
  "\<exists>w b. bc_step\<^sup>*\<^sup>* (fx_sent_off fx_two) w \<and> get_broadcast (bw_db w) 1 = Some b \<and> bc_status b = BcDone
     \<and> bc_sent b + bc_failed b = 2"
proof -
  obtain b where b: "get_broadcast (bw_db (fx_sent_off fx_two)) 1 = Some b" "bc_status b = BcSending" "bc_target b = BcAll"
    using fx_sent_off_run(2) by blast
  have look: "\<forall>n. (\<lambda>_. FlagClear) n \<noteq> FlagSet" by simp
  have two: "filter (in_target fx_reply BcAll d) fx_two = fx_two" for d
    by (simp add: fx_two_def in_target_def fx_user_def)
  from completed_run[OF fx_two_run fx_sent_off_run(3) b(1,2) fx_reply_shaped look, of "''t''" "\<lambda>_. False"]
  obtain c d' b' where run: "run_broadcast fx_reply ''t'' (\<lambda>_. False) (\<lambda>_. FlagClear) 1 (bw_db (fx_sent_off fx_two)) = (Inr c, d')"
    "rk_sent c + rk_failed c = 2" "get_broadcast d' 1 = Some b'" "bc_status b' = BcDone"
    "bc_sent b' = int (rk_sent c)" "bc_failed b' = int (rk_failed c)"
    by (auto simp: b(3) fx_sent_off_run(4) two) (auto simp: fx_two_def)
  obtain w where "bc_step\<^sup>*\<^sup>* (fx_sent_off fx_two) w" "bw_db w = d'"
    using run_broadcast_steps[OF run(1) fx_sent_off_run(3)] by auto
  then show ?thesis using run by (intro exI[of _ w] exI[of _ b']) simp
qed


theorem broadcast_counters_exact_witness:
  "\<exists>w b. bc_step\<^sup>*\<^sup>* (fx_shop fx_two) w \<and> get_broadcast (bw_db w) 1 = Some b
     \<and> bc_sent b + bc_failed b = bc_recipients_total b \<and> bc_status b = BcDone"
proof -
  obtain w b where w: "bc_step\<^sup>*\<^sup>* (fx_sent_off fx_two) w" "get_broadcast (bw_db w) 1 = Some b" "bc_status b = BcDone"
    using fx_two_delivered by blast
  then have run: "bc_step\<^sup>*\<^sup>* (fx_shop fx_two) w" using fx_two_run(2) by (meson rtranclp_trans)
  show ?thesis using broadcast_counters_exact[OF fx_two_run(1) run w(2)] run w by auto
qed

theorem broadcast_status_forward_witness:
  "\<exists>w b. bc_step\<^sup>*\<^sup>* (fx_sent_off fx_two) w \<and> get_broadcast (bw_db w) 1 = Some b \<and> BcSending \<le> bc_status b"
proof -
  obtain b where b: "get_broadcast (bw_db (fx_sent_off fx_two)) 1 = Some b" "bc_status b = BcSending"
    using fx_sent_off_run(2) by blast
  obtain w where w: "bc_step\<^sup>*\<^sup>* (fx_sent_off fx_two) w" using fx_two_delivered by blast
  show ?thesis using broadcast_status_forward[OF fx_two_run w b(1)] w b(2) by auto
qed

theorem lost_job_strands_broadcast_witness:
  "\<exists>b. get_broadcast (bw_db ((fx_sent_off fx_two)\<lparr>bw_jobs := []\<rparr>)) 1 = Some b \<and> bc_status b \<in> {BcSending, BcCancelled}"
proof -
  obtain b where b: "get_broadcast (bw_db (fx_sent_off fx_two)) 1 = Some b" "bc_status b = BcSending"
    using fx_sent_off_run(2) by blast
  have "bc_step (fx_sent_off fx_two) ((fx_sent_off fx_two)\<lparr>bw_jobs := [] @ []\<rparr>)"
    by (rule bc_step.die[where j = "JQueued 1"]) (simp add: fx_sent_off_run(3))
  then have "bc_step\<^sup>*\<^sup>* (fx_shop fx_two) ((fx_sent_off fx_two)\<lparr>bw_jobs := []\<rparr>)"
    by (intro steps_trans[OF fx_two_run(2)]) simp
  from lost_job_strands_broadcast[OF fx_two_run(1) this rtranclp.rtrancl_refl, of 1 b] b
  show ?thesis by auto
qed

theorem undisturbed_run_completes_witness:
  "\<exists>c d' b'. run_broadcast fx_reply ''t'' (\<lambda>_. False) (\<lambda>_. FlagClear) 1 (bw_db (fx_sent_off fx_two)) = (Inr c, d')
     \<and> get_broadcast d' 1 = Some b' \<and> bc_status b' = BcDone"
proof -
  obtain b where b: "get_broadcast (bw_db (fx_sent_off fx_two)) 1 = Some b" "bc_status b = BcSending"
    using fx_sent_off_run(2) by blast
  have look: "\<forall>n. (\<lambda>_. FlagClear) n \<noteq> FlagSet" by simp
  from undisturbed_run_completes[OF fx_two_run fx_sent_off_run(3) b fx_reply_shaped look, of "''t''" "\<lambda>_. False"]
  show ?thesis by blast
qed

definition fx_many :: "user_row list" where
  "fx_many = List.map (\<lambda>n. fx_user (int n) (int n) 0) [1..<3002]"

theorem large_broadcast_outlives_job_witness:
  "\<exists>c. fst (run_broadcast fx_reply ''t'' (\<lambda>_. False) (\<lambda>_. FlagClear) 1 (bw_db (fx_sent_off fx_many))) = Inr c
     \<and> arq_job_timeout < slept c"
proof -
  obtain b where b: "get_broadcast (bw_db (fx_sent_off fx_many)) 1 = Some b" "bc_status b = BcSending" "bc_target b = BcAll"
    using fx_sent_off_run(2) by blast
  have ids: "List.map u_id fx_many = List.map int [1..<3002]"
    by (simp add: fx_many_def fx_user_def comp_def)
  have "distinct (List.map u_id fx_many)" unfolding ids by (simp add: distinct_map)
  note ini = fx_shop_initial[OF this]
  have "filter (in_target fx_reply BcAll d) fx_many = fx_many" for d
    by (rule filter_True) (auto simp: fx_many_def in_target_def fx_user_def)
  moreover have "length fx_many = 3001" by (simp add: fx_many_def)
  ultimately have many: "3000 < length (filter (in_target fx_reply (bc_target b) (bw_db (fx_sent_off fx_many)))
      (db_users (bw_db (fx_sent_off fx_many))))"
    by (simp add: b(3) fx_sent_off_run(4))
  have look: "\<forall>n. (\<lambda>_. FlagClear) n \<noteq> FlagSet" by simp
  show ?thesis
    by (rule large_broadcast_outlives_job[OF ini fx_sent_off_run(1) fx_sent_off_run(3) b(1,2) fx_reply_shaped look many])
qed

theorem cancellation_overwritten_witness:
  "\<exists>w1 w2 b2. bc_step ((fx_sent_off fx_two)\<lparr>bw_jobs := [JFinish 1 BcDone]\<rparr>) w1 \<and> bc_step w1 w2
     \<and> get_broadcast (bw_db w2) 1 = Some b2 \<and> bc_status b2 = BcDone"
proof -
  let ?w = "(fx_sent_off fx_two)\<lparr>bw_jobs := [JFinish 1 BcDone]\<rparr>"
  obtain b where b: "get_broadcast (bw_db ?w) 1 = Some b" "bc_status b = BcSending"
    using fx_sent_off_run(2)[of fx_two] by auto
  have "bw_jobs ?w = [] @ JFinish 1 BcDone # []" by simp
  from cancellation_overwritten[OF this b, of fx_reply fx_admin] show ?thesis by blast
qed

end
