(* ===== verification/AdminSubscriptions.thy ===== *)
theory AdminSubscriptions
  imports AdminCommon Reconcile
begin

text \<open>
  Subscriptions in the administrators' panel (\<open>api/admin/subscriptions.py\<close>): search,
  the provider's view of a key, and the actions that call the provider first and change
  the row only when it agreed.  \<open>fromiso\<close> is \<open>datetime.fromisoformat\<close>.  The explanatory
  \<open>message\<close> of a reconciliation and the provider's refund are left out of the answers.
\<close>

section \<open>Search\<close>

text \<open>PostgreSQL's ILIKE on ASCII text: \<open>%\<close>, \<open>_\<close> and the escape \<open>\\<close>.\<close>

fun like :: "string \<Rightarrow> string \<Rightarrow> bool" where
  "like [] s = (s = [])"
| "like (p # ps) [] = (p = CHR ''%'' \<and> like ps [])"
| "like (p # ps) (c # s) =
     (if p = CHR ''%'' then like ps (c # s) \<or> like (p # ps) s
      else if p = CHR ''_'' then like ps s
      else if p = CHR 0x5C \<and> ps \<noteq> [] then hd ps = c \<and> like (tl ps) s
      else p = c \<and> like ps s)"

definition ilike :: "string option \<Rightarrow> string \<Rightarrow> bool" where
  "ilike s pat = (case s of None \<Rightarrow> False | Some x \<Rightarrow> like (str_lower pat) (str_lower x))"

definition contains_pattern :: "string \<Rightarrow> string" where
  "contains_pattern q = ''%'' @ q @ ''%''"

definition plain :: "string \<Rightarrow> bool" where
  "plain q \<longleftrightarrow> list_all (\<lambda>c. c \<noteq> CHR ''%'' \<and> c \<noteq> CHR ''_'' \<and> c \<noteq> CHR 0x5C) q"

lemma like_all: "like ''%'' s"
  by (induction s) auto

lemma like_prefix:
  assumes "plain q"
  shows "like (q @ ''%'') s \<longleftrightarrow> (\<exists>b. s = q @ b)"
  using assms
proof (induction q arbitrary: s)
  case Nil
  then show ?case by (simp add: like_all)
next
  case (Cons c q)
  then show ?case by (cases s) (auto simp: plain_def)
qed

text \<open>A search text without wildcards finds exactly the values that contain it.\<close>

lemma like_contains:
  assumes "plain q"
  shows "like (contains_pattern q) s \<longleftrightarrow> (\<exists>a b. s = a @ q @ b)"
proof (induction s)
  case Nil
  show ?case using like_prefix[OF assms, of "[]"] by (auto simp: contains_pattern_def)
next
  case (Cons c s)
  have "like (contains_pattern q) (c # s)
      \<longleftrightarrow> like (q @ ''%'') (c # s) \<or> like (contains_pattern q) s"
    by (simp add: contains_pattern_def)
  also have "\<dots> \<longleftrightarrow> (\<exists>b. c # s = q @ b) \<or> (\<exists>a b. s = a @ q @ b)"
    by (simp only: like_prefix[OF assms] Cons.IH)
  also have "\<dots> \<longleftrightarrow> (\<exists>a b. c # s = a @ q @ b)"
    by (metis append_Cons append_Nil list.exhaust list.inject)
  finally show ?case .
qed

definition parse_dt :: "(string \<Rightarrow> int option) \<Rightarrow> string option \<Rightarrow> int option" where
  "parse_dt fromiso v = (if str_truthy v
     then fromiso (List.concat (List.map (\<lambda>c. if c = CHR ''Z'' then ''+00:00'' else [c]) (the v))) else None)"

record sub_query =
  sq_status :: "string option"
  sq_tariff_id :: "int option"
  sq_is_free_trial :: "bool option"
  sq_expires_from :: "string option"
  sq_expires_to :: "string option"
  sq_text :: "string option"

definition sub_text_match :: "string \<Rightarrow> sub_row \<Rightarrow> user_row \<Rightarrow> bool" where
  "sub_text_match q s u \<longleftrightarrow> (let pat = contains_pattern q in
     ilike (s_key_url s) pat
     \<or> (case py_int q of None \<Rightarrow> False | Some n \<Rightarrow> s_id s = n \<or> u_tg_id u = n)
     \<or> ilike (u_username u) pat \<or> ilike (u_first_name u) pat)"

definition sub_matches :: "(string \<Rightarrow> int option) \<Rightarrow> sub_query \<Rightarrow> db \<Rightarrow> sub_row \<Rightarrow> bool" where
  "sub_matches fromiso q d s \<longleftrightarrow>
     (str_truthy (sq_status q) \<longrightarrow> sub_status_str (s_status s) = the (sq_status q))
   \<and> (case sq_tariff_id q of None \<Rightarrow> True | Some t \<Rightarrow> s_tariff_id s = t)
   \<and> (case sq_is_free_trial q of None \<Rightarrow> True | Some f \<Rightarrow> s_is_free_trial s = f)
   \<and> (case parse_dt fromiso (sq_expires_from q) of None \<Rightarrow> True
      | Some a \<Rightarrow> (case s_expires_at s of None \<Rightarrow> False | Some x \<Rightarrow> a \<le> x))
   \<and> (case parse_dt fromiso (sq_expires_to q) of None \<Rightarrow> True
      | Some b \<Rightarrow> (case s_expires_at s of None \<Rightarrow> False | Some x \<Rightarrow> x \<le> b))
   \<and> (str_truthy (sq_text q) \<longrightarrow> (case get_user d (s_user_id s) of None \<Rightarrow> False
      | Some u \<Rightarrow> sub_text_match (the (sq_text q)) s u))"

text \<open>A listed row: the subscription, its user and, when it still exists, its tariff.\<close>

definition sub_item :: "db \<Rightarrow> sub_row \<Rightarrow> sub_row \<times> user_row \<times> tariff_row option" where
  "sub_item d s = (s, the (get_user d (s_user_id s)), get_tariff d (s_tariff_id s))"

definition list_subscriptions ::
  "(string \<Rightarrow> int option) \<Rightarrow> sub_query \<Rightarrow> int \<Rightarrow> int \<Rightarrow> db
    \<Rightarrow> exn + (sub_row \<times> user_row \<times> tariff_row option) page" where
  "list_subscriptions fromiso q page sz d =
     (if \<not> page_query_ok 500 page sz \<or> (case sq_tariff_id q of None \<Rightarrow> False | Some t \<Rightarrow> t < 1)
      then Inl query_error
      else let hits = filter (sub_matches fromiso q d) (db_subs d);
               shown = desc_by s_created_at (filter (\<lambda>s. get_user d (s_user_id s) \<noteq> None) hits)
           in Inr \<lparr>pg_items = List.map (sub_item d) (page_rows (nat page) (nat sz) shown),
                   pg_total = length hits, pg_page = nat page, pg_size = nat sz\<rparr>)"

section \<open>One subscription\<close>

definition sub_or_404 :: "int \<Rightarrow> db \<Rightarrow> exn + sub_row" where
  "sub_or_404 i d = (case get_sub d i of
     None \<Rightarrow> Inl (mk_error SubscriptionNotFoundError
                 (Some (''Subscription id='' @ py_str i @ '' not found'')) (Some ''subscription_not_found'') [])
   | Some s \<Rightarrow> Inr s)"

definition get_subscription ::
  "int \<Rightarrow> db \<Rightarrow> exn + (sub_row \<times> user_row option \<times> tariff_row option)" where
  "get_subscription i d = (case sub_or_404 i d of
     Inl x \<Rightarrow> Inl x | Inr s \<Rightarrow> Inr (s, get_user d (s_user_id s), get_tariff d (s_tariff_id s)))"

definition key_id_missing :: exn where
  "key_id_missing = mk_error NotFoundError (Some ''Subscription has no NorthLine key id'')
     (Some ''provider_subscription_id_missing'') []"

text \<open>
  The statuses the panel's schema knows.  The provider also has \<open>deleted\<close>: an answer that
  carries it does not validate.
\<close>

definition panel_statuses :: "string list" where
  "panel_statuses = [''active'', ''suspended'', ''expired'']"

definition get_subscription_info :: "env \<Rightarrow> int \<Rightarrow> db \<Rightarrow> exn + key_info" where
  "get_subscription_info e i d =
     (case sub_or_404 i d of
        Inl x \<Rightarrow> Inl x
      | Inr s \<Rightarrow>
          if \<not> str_truthy (s_provider_id s) then Inl key_id_missing
          else (case get_key e (the (s_provider_id s)) of
                  Inl x \<Rightarrow>
                    if is_northline_exn x
                    then Inl (mk_error NorthLineUnavailableError
                           (Some ''Could not fetch key info from NorthLine'') None
                           [(''subscription_id'', JInt (s_id s)), (''error_code'', JStr (exn_code x)),
                            (''error_message'', JStr (exn_str x))])
                    else Inl x
                | Inr info \<Rightarrow>
                    if ki_status info \<in> set panel_statuses then Inr info else Inl pydantic_error))"

section \<open>Actions\<close>

definition notify_owner :: "env \<Rightarrow> sub_row \<Rightarrow> string \<Rightarrow> (string \<times> json) list \<Rightarrow> db \<Rightarrow> db" where
  "notify_owner e s key kwargs d =
     (case get_user d (s_user_id s) of
        None \<Rightarrow> d
      | Some u \<Rightarrow> enqueue_message e (u_id u) (u_tg_id u) ''text''
                    [(''text_key'', JStr key), (''format_kwargs'', JObj kwargs), (''parse_mode'', JStr ''HTML'')]
                    None d)"

definition reason_ok :: "string \<Rightarrow> bool" where
  "reason_ok r \<longleftrightarrow> 1 \<le> length r \<and> length r \<le> 2000"

definition wrong_status :: "sub_row \<Rightarrow> string \<Rightarrow> exn" where
  "wrong_status s tail = mk_error ConflictError
     (Some (''Subscription #'' @ py_str (s_id s) @ '' is in status '' @ [CHR 0x27]
        @ sub_status_str (s_status s) @ [CHR 0x27] @ '', '' @ tail))
     (Some ''invalid_subscription_status'') []"

text \<open>The provider's part of an action: nothing to ask when the subscription has no key there.\<close>

definition ask_provider ::
  "sub_row \<Rightarrow> (string \<Rightarrow> exn + (string \<times> int option)) \<Rightarrow> exn option" where
  "ask_provider s call = (if str_truthy (s_provider_id s)
     then (case call (the (s_provider_id s)) of Inl x \<Rightarrow> Some x | Inr r \<Rightarrow> None) else None)"

definition deactivate_subscription ::
  "env \<Rightarrow> admin_principal \<Rightarrow> int \<Rightarrow> string \<Rightarrow> db \<Rightarrow> (exn + sub_row) \<times> db" where
  "deactivate_subscription e admin i reason d =
     (if \<not> reason_ok reason then (Inl query_error, d)
      else case sub_or_404 i d of
        Inl x \<Rightarrow> (Inl x, d)
      | Inr s \<Rightarrow>
          (case ask_provider s (\<lambda>k. delete_key e k (Some (''admin-deactivate-'' @ py_str (s_id s)))) of
             Some x \<Rightarrow> (Inl x, d)
           | None \<Rightarrow>
               (let d1 = mod_sub (e_now e) i (\<lambda>r. r\<lparr>s_status := SubDeactivated,
                           s_deactivated_at := Some (e_now e), s_deactivation_reason := Some reason\<rparr>) d;
                    d2 = notify_owner e s ''subscription_deactivated_by_admin''
                           [(''key_id'', JInt (s_id s)), (''reason'', JStr reason)] d1;
                    d3 = record_admin_action e admin ''subscription.deactivate'' (Some (s_user_id s))
                           (Some (s_id s)) [(''reason'', JStr reason)] d2
                in (sub_or_404 i d3, d3))))"

definition stop_subscription ::
  "env \<Rightarrow> admin_principal \<Rightarrow> int \<Rightarrow> string \<Rightarrow> db \<Rightarrow> (exn + sub_row) \<times> db" where
  "stop_subscription e admin i reason d =
     (if \<not> reason_ok reason then (Inl query_error, d)
      else case sub_or_404 i d of
        Inl x \<Rightarrow> (Inl x, d)
      | Inr s \<Rightarrow>
          if s_status s \<noteq> SubActive
          then (Inl (wrong_status s ''only active subscriptions can be suspended''), d)
          else (case ask_provider s (stop_key e) of
             Some x \<Rightarrow> (Inl x, d)
           | None \<Rightarrow>
               (let d1 = mod_sub (e_now e) i (\<lambda>r. r\<lparr>s_status := SubSuspended,
                           s_deactivation_reason := Some reason, s_deactivated_at := Some (e_now e)\<rparr>) d;
                    d2 = notify_owner e s ''subscription_suspended_by_admin''
                           [(''key_id'', JInt (s_id s)), (''reason'', JStr reason)] d1;
                    d3 = record_admin_action e admin ''subscription.stop'' (Some (s_user_id s))
                           (Some (s_id s)) [(''reason'', JStr reason)] d2
                in (sub_or_404 i d3, d3))))"

definition resume_subscription ::
  "env \<Rightarrow> admin_principal \<Rightarrow> int \<Rightarrow> db \<Rightarrow> (exn + sub_row) \<times> db" where
  "resume_subscription e admin i d =
     (case sub_or_404 i d of
        Inl x \<Rightarrow> (Inl x, d)
      | Inr s \<Rightarrow>
          if s_status s \<noteq> SubSuspended
          then (Inl (wrong_status s ''only suspended subscriptions can be resumed''), d)
          else (case ask_provider s (resume_key e) of
             Some x \<Rightarrow> (Inl x, d)
           | None \<Rightarrow>
               (let d1 = mod_sub (e_now e) i (\<lambda>r. r\<lparr>s_status := SubActive,
                           s_deactivated_at := None, s_deactivation_reason := None\<rparr>) d;
                    d2 = notify_owner e s ''subscription_resumed_by_admin'' [(''key_id'', JInt (s_id s))] d1;
                    d3 = record_admin_action e admin ''subscription.resume'' (Some (s_user_id s))
                           (Some (s_id s)) [] d2
                in (sub_or_404 i d3, d3))))"

text \<open>\<open>remove_device\<close>: the provider has no such call, so only the audit row is written.\<close>

definition remove_subscription_device ::
  "env \<Rightarrow> admin_principal \<Rightarrow> int \<Rightarrow> string \<Rightarrow> db \<Rightarrow> (exn + unit) \<times> db" where
  "remove_subscription_device e admin i device d =
     (case sub_or_404 i d of
        Inl x \<Rightarrow> (Inl x, d)
      | Inr s \<Rightarrow>
          if \<not> str_truthy (s_provider_id s) then (Inl key_id_missing, d)
          else (Inr (), record_admin_action e admin ''subscription.device.remove'' (Some (s_user_id s))
                          (Some (s_id s)) [(''device_id'', JStr device)] d))"

text \<open>The fields of a branding override: absent (\<open>None\<close>), null or a text.\<close>

record branding =
  bg_custom_domain :: "string option option"
  bg_service_name :: "string option option"
  bg_service_description :: "string option option"
  bg_support_url :: "string option option"

definition branding_fields :: "branding \<Rightarrow> (string \<times> string option) list" where
  "branding_fields b = List.concat (List.map
     (\<lambda>(k, v). case v of None \<Rightarrow> [] | Some x \<Rightarrow> [(k, x)])
     [(''custom_domain'', bg_custom_domain b), (''service_name'', bg_service_name b),
      (''service_description'', bg_service_description b), (''support_url'', bg_support_url b)])"

text \<open>\<open>sorted(fields.keys())\<close>.\<close>

definition sorted_fields :: "(string \<times> string option) list \<Rightarrow> string list" where
  "sorted_fields fs = filter (\<lambda>k. k \<in> fst ` set fs)
     [''custom_domain'', ''service_description'', ''service_name'', ''support_url'']"

definition branding_body :: "(string \<times> string option) list \<Rightarrow> (string \<times> json) list" where
  "branding_body fs = List.map_filter (\<lambda>(k, v). map_option (\<lambda>x. (k, JStr x)) v) fs"

definition set_subscription_branding ::
  "env \<Rightarrow> admin_principal \<Rightarrow> int \<Rightarrow> branding \<Rightarrow> db \<Rightarrow> (exn + unit) \<times> db" where
  "set_subscription_branding e admin i b d =
     (case sub_or_404 i d of
        Inl x \<Rightarrow> (Inl x, d)
      | Inr s \<Rightarrow>
          if \<not> str_truthy (s_provider_id s) then (Inl key_id_missing, d)
          else if branding_fields b = []
          then (Inl (northline_client_error ''empty_payload''
                  ''Branding override requires at least one field'' []), d)
          else if branding_body (branding_fields b) = []
          then (Inl (PyExn ''ValueError'' ''set_subscription_branding requires at least one field''), d)
          else (case nl_request e ''PATCH'' (''/keys/'' @ the (s_provider_id s) @ ''/branding'')
                       (JObj (branding_body (branding_fields b))) of
                  Inl x \<Rightarrow> (Inl x, d)
                | Inr j \<Rightarrow> (Inr (), record_admin_action e admin ''subscription.branding.update''
                     (Some (s_user_id s)) (Some (s_id s))
                     [(''fields'', JArr (List.map JStr (sorted_fields (branding_fields b))))] d)))"
section \<open>Reconciling one subscription\<close>

datatype reconcile_action = NoChange | StatusFlipped | ExpiresExtended | ExpiresShrinkWarned
  | ProviderUnknownKey | SkippedTest

record reconcile_answer =
  ra_action :: reconcile_action
  ra_old_status :: sub_status
  ra_new_status :: sub_status
  ra_old_expires :: "int option"
  ra_new_expires :: "int option"
  ra_provider_status :: "string option"

definition answer_of ::
  "reconcile_action \<Rightarrow> sub_row \<Rightarrow> sub_status \<Rightarrow> int option \<Rightarrow> string option \<Rightarrow> exn + reconcile_answer" where
  "answer_of act s st exp pst =
     (case pst of
        None \<Rightarrow> Inr \<lparr>ra_action = act, ra_old_status = s_status s, ra_new_status = st,
                     ra_old_expires = s_expires_at s, ra_new_expires = exp, ra_provider_status = None\<rparr>
      | Some p \<Rightarrow>
          if p \<in> set panel_statuses
          then Inr \<lparr>ra_action = act, ra_old_status = s_status s, ra_new_status = st,
                    ra_old_expires = s_expires_at s, ra_new_expires = exp, ra_provider_status = Some p\<rparr>
          else Inl pydantic_error)"

definition flip_status :: "string \<Rightarrow> sub_status" where
  "flip_status pst = (if pst = ''suspended'' then SubDeactivated else SubExpired)"

definition flip_row :: "env \<Rightarrow> string \<Rightarrow> sub_row \<Rightarrow> sub_row" where
  "flip_row e pst r =
     (if flip_status pst = SubDeactivated
      then r\<lparr>s_status := SubDeactivated, s_deactivated_at := Some (e_now e),
             s_deactivation_reason := Some (''Reconcile (admin): provider status='' @ pst)\<rparr>
      else r\<lparr>s_status := flip_status pst\<rparr>)"

text \<open>The commit comes before the answer is built: an answer that does not validate keeps it.\<close>

definition reconcile_subscription ::
  "env \<Rightarrow> admin_principal \<Rightarrow> int \<Rightarrow> db \<Rightarrow> (exn + reconcile_answer) \<times> db" where
  "reconcile_subscription e admin i d =
     (case sub_or_404 i d of
        Inl x \<Rightarrow> (Inl x, d)
      | Inr s \<Rightarrow>
          if \<not> str_truthy (s_provider_id s) then (Inl key_id_missing, d)
          else if is_test_subscription_id (s_provider_id s)
          then (answer_of SkippedTest s (s_status s) (s_expires_at s) None, d)
          else (case get_key e (the (s_provider_id s)) of
             Inl x \<Rightarrow>
               if exn_class x = Some NorthLineClientError \<and> unknown_key x
               then (answer_of ProviderUnknownKey s SubDeactivated (s_expires_at s) None,
                     mod_sub (e_now e) i (\<lambda>r. r\<lparr>s_status := SubDeactivated,
                        s_deactivated_at := Some (e_now e),
                        s_deactivation_reason := Some (''Reconcile (admin): provider returned '' @ exn_code x)\<rparr>) d)
               else (Inl x, d)
           | Inr info \<Rightarrow>
               (let pst = str_lower (ki_status info) in
                if pst \<noteq> [] \<and> pst \<noteq> ''active''
                then (answer_of StatusFlipped s (flip_status pst) (s_expires_at s) (Some (ki_status info)),
                      record_admin_action e admin ''subscription.reconcile.flip'' (Some (s_user_id s))
                        (Some (s_id s))
                        [(''provider_status'', JStr pst),
                         (''new_local_status'', JStr (sub_status_str (flip_status pst)))]
                        (mod_sub (e_now e) i (flip_row e pst) d))
                else (case (ki_expires_at info, s_expires_at s) of
                   (Some pexp, Some lexp) \<Rightarrow>
                     if pexp - lexp > drift_threshold
                     then (answer_of ExpiresExtended s (s_status s) (Some pexp) (Some (ki_status info)),
                           record_admin_action e admin ''subscription.reconcile.extend'' (Some (s_user_id s))
                             (Some (s_id s))
                             [(''old_expires_at'', JStr (iso_format lexp)),
                              (''new_expires_at'', JStr (iso_format pexp))]
                             (mod_sub (e_now e) i (\<lambda>r. r\<lparr>s_expires_at := Some pexp\<rparr>) d))
                     else (answer_of (if lexp - pexp > drift_threshold then ExpiresShrinkWarned else NoChange)
                             s (s_status s) (s_expires_at s) (Some (ki_status info)), d)
                 | _ \<Rightarrow> (answer_of NoChange s (s_status s) (s_expires_at s) (Some (ki_status info)), d)))))"

section \<open>What the actions keep\<close>

lemma notify_owner_frame [simp]:
  "db_subs (notify_owner e s k kw d) = db_subs d" "db_users (notify_owner e s k kw d) = db_users d"
  "db_bts (notify_owner e s k kw d) = db_bts d" "db_payments (notify_owner e s k kw d) = db_payments d"
  "get_sub (notify_owner e s k kw d) i = get_sub d i"
  by (simp_all add: notify_owner_def enqueue_message_def get_sub_def split: option.split)

lemma get_sub_audit [simp]: "get_sub (record_admin_action e a act u s x d) i = get_sub d i"
  by (simp add: get_sub_def)

lemma sub_or_404_Inr: "sub_or_404 i d = Inr s \<longleftrightarrow> get_sub d i = Some s"
  by (simp add: sub_or_404_def split: option.split)

lemma subs_keep_more [simp]:
  "subs_keep d (notify_owner e s k kw d') = subs_keep d d'"
  "subs_keep d (record_admin_action e a act u sid x d') = subs_keep d d'"
  by (simp_all add: subs_keep_def)

text \<open>Reconciling a single subscription on demand keeps paid time as the batch does.\<close>

lemma reconcile_subscription_keeps:
  assumes "distinct (List.map s_id (db_subs d))"
  shows "subs_keep d (snd (reconcile_subscription e admin i d))"
proof (cases "get_sub d i")
  case None
  then show ?thesis by (simp add: reconcile_subscription_def sub_or_404_def)
next
  case (Some s)
  have mem: "r = s" if "r \<in> set (db_subs d)" "s_id r = i" for r
    using that Some assms row_find_distinct[of s_id "db_subs d" r] by (simp add: get_sub_def)
  have flip: "subs_keep d (mod_sub (e_now e) i (flip_row e p) d)" for p
    by (rule subs_keep_mod) (auto simp: flip_row_def flip_status_def keeps_paid_time_def split: option.split)
  have gone: "subs_keep d (mod_sub (e_now e) i (\<lambda>r. r\<lparr>s_status := SubDeactivated,
      s_deactivated_at := Some (e_now e), s_deactivation_reason := m\<rparr>) d)" for m
    by (rule subs_keep_mod) (auto simp: keeps_paid_time_def split: option.split)
  have extend: "subs_keep d (mod_sub (e_now e) i (\<lambda>r. r\<lparr>s_expires_at := Some x\<rparr>) d)"
    if "s_expires_at s = Some l" "drift_threshold < x - l" for x l
  proof (rule subs_keep_mod)
    fix r assume "r \<in> set (db_subs d)" "s_id r = i"
    then have "r = s" by (rule mem)
    then show "keeps_paid_time r (r\<lparr>s_expires_at := Some x\<rparr>)"
      using that by (simp add: keeps_paid_time_def drift_threshold_def hours_def)
  qed
  show ?thesis
    by (auto simp: reconcile_subscription_def sub_or_404_def Some Let_def flip gone extend
        split: sum.split option.split)
qed

text \<open>The expiry alone decides, unless the provider reports another status.\<close>

lemma parse_key_info_status:
  "parse_key_info e j = Inr info \<Longrightarrow> ki_status info \<in> set northline_statuses"
  by (auto simp: parse_key_info_def split: option.splits if_splits)

lemma get_key_status: "get_key e k = Inr info \<Longrightarrow> ki_status info \<in> set northline_statuses"
  by (auto simp: get_key_def dest: parse_key_info_status split: sum.splits)

section \<open>Properties\<close>

text \<open>Pausing a subscription and resuming it gives back the subscription as it was, with the
  same key and expiry; in between it is suspended, and nothing is recorded when the provider
  refuses.\<close>

theorem stop_resume_roundtrip:
  assumes "get_sub d i = Some s" "s_deactivated_at s = None" "s_deactivation_reason s = None"
    and "stop_subscription e admin i reason d = (Inr s1, d1)"
    and "resume_subscription e' admin' i d1 = (Inr s2, d2)"
  shows "s_status s1 = SubSuspended \<and> get_sub d2 i = Some s2 \<and> s2\<lparr>s_updated_at := s_updated_at s\<rparr> = s
    \<and> db_users d2 = db_users d \<and> db_bts d2 = db_bts d"
proof -
  let ?f = "\<lambda>r. r\<lparr>s_status := SubSuspended, s_deactivation_reason := Some reason, s_deactivated_at := Some (e_now e)\<rparr>"
  let ?g = "\<lambda>r. r\<lparr>s_status := SubActive, s_deactivated_at := None, s_deactivation_reason := None\<rparr>"
  have act: "s_status s = SubActive" and d1: "get_sub d1 i = Some (touch_sub (e_now e) ?f s)"
      "db_users d1 = db_users d" "db_bts d1 = db_bts d" and s1: "s1 = touch_sub (e_now e) ?f s"
    using assms(1,4) by (auto simp: stop_subscription_def sub_or_404_def Let_def split: if_splits option.splits)
  have d2: "get_sub d2 i = Some (touch_sub (e_now e') ?g s1)" "db_users d2 = db_users d1" "db_bts d2 = db_bts d1"
      "s2 = touch_sub (e_now e') ?g s1"
    using assms(5) d1(1) s1 by (auto simp: resume_subscription_def sub_or_404_def Let_def split: if_splits option.splits)
  have "s2\<lparr>s_updated_at := s_updated_at s\<rparr> = s"
    using act assms(2,3) by (cases s) (simp add: d2(4) s1 touch_sub_def)
  then show ?thesis using d1 d2 s1 by simp
qed

text \<open>Reconciling a paused subscription, whose key the provider rightly reports as
  suspended, turns it into a deactivated one: from then on it can no longer be resumed.\<close>

theorem reconcile_ends_pause:
  assumes "get_sub d i = Some s" "stop_subscription e admin i reason d = (Inr s1, d1)"
    and "str_truthy (s_provider_id s)" "\<not> is_test_subscription_id (s_provider_id s)"
    and "get_key e' (the (s_provider_id s)) = Inr info" "ki_status info = ''suspended''"
  shows "\<exists>s2. get_sub (snd (reconcile_subscription e' admin' i d1)) i = Some s2 \<and> s_status s2 = SubDeactivated
    \<and> resume_subscription e'' admin'' i (snd (reconcile_subscription e' admin' i d1))
        = (Inl (wrong_status s2 ''only suspended subscriptions can be resumed''),
           snd (reconcile_subscription e' admin' i d1))"
proof -
  let ?f = "\<lambda>r. r\<lparr>s_status := SubSuspended, s_deactivation_reason := Some reason, s_deactivated_at := Some (e_now e)\<rparr>"
  have d1: "get_sub d1 i = Some (touch_sub (e_now e) ?f s)"
    using assms(1,2) by (auto simp: stop_subscription_def sub_or_404_def Let_def split: if_splits option.splits)
  have low: "str_lower ''suspended'' = ''suspended''" by (simp add: str_lower_def lower_char_def)
  have id: "s_id (flip_row e' p r) = s_id r" for p r by (simp add: flip_row_def)
  have "get_sub (snd (reconcile_subscription e' admin' i d1)) i
      = Some (touch_sub (e_now e') (flip_row e' ''suspended'') (touch_sub (e_now e) ?f s))"
    using assms(3-6) d1
    by (simp add: reconcile_subscription_def sub_or_404_def low Let_def id)
  then show ?thesis
    by (simp add: resume_subscription_def sub_or_404_def flip_row_def flip_status_def)
qed

text \<open>For a key the provider has deleted, the reconciliation endpoint answers with an
  internal error although it has just committed the change: the subscription is expired and
  the action is on record.\<close>

theorem deleted_key_commits_and_fails:
  assumes "get_sub d i = Some s" "str_truthy (s_provider_id s)" "\<not> is_test_subscription_id (s_provider_id s)"
    and "get_key e (the (s_provider_id s)) = Inr info" "ki_status info = ''deleted''"
  shows "fst (reconcile_subscription e admin i d) = Inl pydantic_error
    \<and> (\<exists>s'. get_sub (snd (reconcile_subscription e admin i d)) i = Some s' \<and> s_status s' = SubExpired)
    \<and> length (db_logs (snd (reconcile_subscription e admin i d))) = Suc (length (db_logs d))"
proof -
  have low: "str_lower ''deleted'' = ''deleted''" by (simp add: str_lower_def lower_char_def)
  have id: "s_id (flip_row e p r) = s_id r" for p r by (simp add: flip_row_def)
  show ?thesis using assms
    by (simp add: reconcile_subscription_def sub_or_404_def low Let_def id answer_of_def panel_statuses_def
        record_admin_action_logs flip_row_def flip_status_def)
qed

section \<open>Witnesses\<close>

text \<open>A provider that agrees to every action on the key and reports status \<open>st\<close> for it.\<close>

definition fx_key_answer :: "string \<Rightarrow> json" where
  "fx_key_answer st = JObj [(''subscription_id'', JStr ''nl-1''), (''key'', JStr ''k''), (''status'', JStr st)]"

lemma fx_nl: "nl_request (fx_env 20 200 j) m p b = Inr j"
  by (simp add: nl_request_def nl_request_n_def nl_attempts.simps nl_do_call_def)

lemma fx_stop_key: "stop_key (fx_env 20 200 (fx_key_answer ''suspended'')) k = Inr (''nl-1'', None)"
  by (simp add: stop_key_def fx_nl parse_status_response_def fx_key_answer_def req_def opt_def jfield_def as_str_def)

lemma fx_resume_key: "resume_key (fx_env 20 200 (fx_key_answer ''active'')) k = Inr (''nl-1'', None)"
  by (simp add: resume_key_def fx_nl parse_status_response_def fx_key_answer_def req_def opt_def jfield_def as_str_def)

lemma fx_panel_key:
  "st \<in> set northline_statuses \<Longrightarrow> get_key (fx_env 20 200 (fx_key_answer st)) k
     = Inr \<lparr>ki_subscription_id = ''nl-1'', ki_key = ''k'', ki_status = st, ki_expires_at = None\<rparr>"
  by (simp add: get_key_def fx_nl parse_key_info_def fx_key_answer_def req_def opt_def jfield_def as_str_def)

lemma fx_sub_ids: "str_truthy (s_provider_id (fx_sub 1 2 t))" "\<not> is_test_subscription_id (s_provider_id (fx_sub 1 2 t))"
  by (simp_all add: fx_sub_def str_truthy_def is_test_subscription_id_def starts_with_def)

lemma fx_stopped:
  "\<exists>s1 d1. stop_subscription (fx_env 20 200 (fx_key_answer ''suspended'')) fx_admin 1 ''abuse'' fx_db = (Inr s1, d1)"
  by (simp add: stop_subscription_def sub_or_404_def reason_ok_def ask_provider_def fx_stop_key Let_def)
     (simp add: fx_sub_def)

theorem stop_resume_roundtrip_witness:
  "\<exists>s2 d2. get_sub d2 1 = Some s2 \<and> s2\<lparr>s_updated_at := 0\<rparr> = fx_sub 1 2 1000000"
proof -
  obtain s1 d1 where stop: "stop_subscription (fx_env 20 200 (fx_key_answer ''suspended'')) fx_admin 1 ''abuse'' fx_db
      = (Inr s1, d1)" using fx_stopped by blast
  have d1: "get_sub d1 1 = Some (touch_sub 20 (\<lambda>r. r\<lparr>s_status := SubSuspended, s_deactivation_reason := Some ''abuse'',
      s_deactivated_at := Some 20\<rparr>) (fx_sub 1 2 1000000))"
    using stop by (auto simp: stop_subscription_def sub_or_404_def Let_def split: if_splits option.splits)
  obtain s2 d2 where resume: "resume_subscription (fx_env 20 200 (fx_key_answer ''active'')) fx_admin 1 d1 = (Inr s2, d2)"
    by (simp add: resume_subscription_def sub_or_404_def d1 ask_provider_def fx_resume_key Let_def)
  have sel: "s_deactivated_at (fx_sub 1 2 1000000) = None" "s_deactivation_reason (fx_sub 1 2 1000000) = None"
    "s_updated_at (fx_sub 1 2 1000000) = 0" by (simp_all add: fx_sub_def)
  from stop_resume_roundtrip[OF fx_get(8) sel(1,2) stop resume] sel(3) show ?thesis by auto
qed

theorem reconcile_ends_pause_witness:
  "\<exists>d1 s2. get_sub (snd (reconcile_subscription (fx_env 20 200 (fx_key_answer ''suspended'')) fx_admin 1 d1)) 1 = Some s2
     \<and> s_status s2 = SubDeactivated"
proof -
  obtain s1 d1 where stop: "stop_subscription (fx_env 20 200 (fx_key_answer ''suspended'')) fx_admin 1 ''abuse'' fx_db
      = (Inr s1, d1)" using fx_stopped by blast
  have "''suspended'' \<in> set northline_statuses" by (simp add: northline_statuses_def)
  from reconcile_ends_pause[OF fx_get(8) stop fx_sub_ids fx_panel_key[OF this], simplified key_info.select_convs, OF refl, of fx_admin]
  show ?thesis by blast
qed

theorem deleted_key_commits_and_fails_witness:
  "fst (reconcile_subscription (fx_env 20 200 (fx_key_answer ''deleted'')) fx_admin 1 fx_db) = Inl pydantic_error"
proof -
  have "''deleted'' \<in> set northline_statuses" by (simp add: northline_statuses_def)
  from deleted_key_commits_and_fails[OF fx_get(8) fx_sub_ids fx_panel_key[OF this], of fx_admin] show ?thesis by simp
qed

end
