(* ===== verification/AdminUsers.thy ===== *)
theory AdminUsers
  imports AdminSubscriptions Balance "HOL-Library.Multiset"
begin

text \<open>
  Users in the administrators' panel (\<open>api/admin/users.py\<close>): search, a user's records,
  the ban, the balance and the bulk actions.  Every change queues a message for the user
  where the code does and writes one audit row.
\<close>

section \<open>Search\<close>

datatype user_column = UcId | UcTgId | UcUsername | UcBalance | UcCreatedAt

definition sort_column :: "string \<Rightarrow> user_column option" where
  "sort_column s = map_of
     [(''id'', UcId), (''tg_id'', UcTgId), (''username'', UcUsername), (''balance'', UcBalance),
      (''balance_kop'', UcBalance), (''balance_kopecks'', UcBalance), (''created_at'', UcCreatedAt)] s"

text \<open>The column and whether the order is descending.\<close>

definition parse_sort :: "string option \<Rightarrow> user_column \<times> bool" where
  "parse_sort s =
     (if \<not> str_truthy s then (UcCreatedAt, True)
      else let desc = starts_with ''-'' (the s);
               nm = (if desc then tl (the s) else the s)
           in case sort_column nm of None \<Rightarrow> (UcCreatedAt, True) | Some c \<Rightarrow> (c, desc))"

text \<open>
  PostgreSQL orders an absent user name after every other one.  \<open>collate\<close> is the database's
  collation of texts as a rank.
\<close>

definition column_key :: "(string \<Rightarrow> int) \<Rightarrow> user_column \<Rightarrow> user_row \<Rightarrow> bool \<times> int" where
  "column_key collate c u =
     (case c of UcId \<Rightarrow> (False, u_id u) | UcTgId \<Rightarrow> (False, u_tg_id u)
      | UcUsername \<Rightarrow> (case u_username u of None \<Rightarrow> (True, 0) | Some n \<Rightarrow> (False, collate n))
      | UcBalance \<Rightarrow> (False, u_balance u) | UcCreatedAt \<Rightarrow> (False, u_created_at u))"

definition key_less_eq :: "bool \<times> int \<Rightarrow> bool \<times> int \<Rightarrow> bool" where
  "key_less_eq a b \<longleftrightarrow> (\<not> fst a \<and> fst b) \<or> (fst a = fst b \<and> snd a \<le> snd b)"

fun insert_by :: "('r \<Rightarrow> 'r \<Rightarrow> bool) \<Rightarrow> 'r \<Rightarrow> 'r list \<Rightarrow> 'r list" where
  "insert_by le x [] = [x]"
| "insert_by le x (y # ys) = (if le x y then x # y # ys else y # insert_by le x ys)"

definition order_by :: "(string \<Rightarrow> int) \<Rightarrow> user_column \<times> bool \<Rightarrow> user_row list \<Rightarrow> user_row list" where
  "order_by collate cd us =
     (let k = column_key collate (fst cd);
          le = (\<lambda>u v. if snd cd then key_less_eq (k v) (k u) else key_less_eq (k u) (k v))
      in foldr (insert_by le) us [])"

lemma insert_by_mset [simp]: "mset (insert_by le x ys) = add_mset x (mset ys)"
  by (induction ys) auto

lemma insert_by_sorted:
  assumes "sorted_wrt le ys" "\<And>a b. le a b \<or> le b a" "\<And>a b c. le a b \<Longrightarrow> le b c \<Longrightarrow> le a c"
  shows "sorted_wrt le (insert_by le x ys)"
  using assms(1)
proof (induction ys)
  case (Cons y ys)
  have set: "set (insert_by le x ys) = insert x (set ys)"
    using insert_by_mset[of le x ys] by (metis set_mset_add_mset_insert set_mset_mset)
  show ?case
    using Cons assms(2)[of x y] by (auto simp: set dest: assms(3))
qed simp

text \<open>The listing is a permutation of the hits, sorted by the requested column.\<close>

lemma order_by_mset: "mset (order_by collate cd us) = mset us"
  unfolding order_by_def Let_def by (induction us) simp_all

lemma key_less_eq_order:
  "key_less_eq a b \<or> key_less_eq b a" "key_less_eq a b \<Longrightarrow> key_less_eq b c \<Longrightarrow> key_less_eq a c"
  by (auto simp: key_less_eq_def)

lemma order_by_sorted:
  "sorted_wrt (\<lambda>u v. if desc then key_less_eq (column_key collate c v) (column_key collate c u)
      else key_less_eq (column_key collate c u) (column_key collate c v)) (order_by collate (c, desc) us)"
proof -
  let ?le = "\<lambda>u v. if desc then key_less_eq (column_key collate c v) (column_key collate c u)
      else key_less_eq (column_key collate c u) (column_key collate c v)"
  have "sorted_wrt ?le (foldr (insert_by ?le) us [])"
  proof (induction us)
    case (Cons u us)
    show ?case unfolding foldr.simps comp_def
      by (rule insert_by_sorted[OF Cons.IH])
         (use key_less_eq_order in \<open>auto split: if_splits\<close>)
  qed simp
  then show ?thesis by (simp add: order_by_def Let_def)
qed

definition active_count :: "db \<Rightarrow> int \<Rightarrow> nat" where
  "active_count d uid = length (filter (\<lambda>s. s_user_id s = uid \<and> s_status s = SubActive) (db_subs d))"

record user_query =
  uq_text :: "string option"
  uq_banned :: "bool option"
  uq_with_subscription :: "bool option"
  uq_min_balance :: "int option"

definition user_text_match :: "string \<Rightarrow> user_row \<Rightarrow> bool" where
  "user_text_match q u \<longleftrightarrow> (let pat = contains_pattern q in
     ilike (u_username u) pat \<or> ilike (u_first_name u) pat \<or> ilike (u_last_name u) pat
     \<or> (case py_int q of None \<Rightarrow> False | Some n \<Rightarrow> u_tg_id u = n))"

definition user_matches :: "user_query \<Rightarrow> db \<Rightarrow> user_row \<Rightarrow> bool" where
  "user_matches q d u \<longleftrightarrow>
     (str_truthy (uq_text q) \<longrightarrow> user_text_match (the (uq_text q)) u)
   \<and> (case uq_banned q of None \<Rightarrow> True | Some b \<Rightarrow> u_is_banned u = b)
   \<and> (case uq_min_balance q of None \<Rightarrow> True | Some m \<Rightarrow> m \<le> u_balance u)
   \<and> (case uq_with_subscription q of None \<Rightarrow> True | Some b \<Rightarrow> (0 < active_count d (u_id u)) = b)"

definition list_users ::
  "(string \<Rightarrow> int) \<Rightarrow> user_query \<Rightarrow> string option \<Rightarrow> int \<Rightarrow> int \<Rightarrow> db \<Rightarrow> exn + (user_row \<times> nat) page" where
  "list_users collate q order page sz d =
     (if \<not> page_query_ok 500 page sz \<or> (case uq_min_balance q of None \<Rightarrow> False | Some m \<Rightarrow> m < 0)
      then Inl query_error
      else Inr (mk_page (nat page) (nat sz) (List.map (\<lambda>u. (u, active_count d (u_id u)))
             (order_by collate (parse_sort order) (filter (user_matches q d) (db_users d))))))"

section \<open>One user\<close>

definition user_or_404 :: "int \<Rightarrow> db \<Rightarrow> exn + user_row" where
  "user_or_404 i d = or_404 (''User id='' @ py_str i @ '' not found'') ''user_not_found'' (get_user d i)"

definition referrer_of :: "user_row \<Rightarrow> db \<Rightarrow> user_row option" where
  "referrer_of u d = (if int_truthy (u_ref_id u) then get_user d (the (u_ref_id u)) else None)"

definition get_user_detail :: "int \<Rightarrow> db \<Rightarrow> exn + (user_row \<times> user_row option)" where
  "get_user_detail i d = map_sum id (\<lambda>u. (u, referrer_of u d)) (user_or_404 i d)"

definition list_user_payments :: "int \<Rightarrow> db \<Rightarrow> exn + payment_row list" where
  "list_user_payments i d = map_sum id
     (\<lambda>u. desc_by p_created_at (filter (\<lambda>p. p_user_id p = i) (db_payments d))) (user_or_404 i d)"

definition list_user_subscriptions :: "int \<Rightarrow> db \<Rightarrow> exn + sub_row list" where
  "list_user_subscriptions i d = map_sum id
     (\<lambda>u. desc_by s_created_at (filter (\<lambda>s. s_user_id s = i) (db_subs d))) (user_or_404 i d)"

definition list_user_tickets :: "int \<Rightarrow> db \<Rightarrow> exn + ticket_row list" where
  "list_user_tickets i d = map_sum id
     (\<lambda>u. desc_by tk_created_at (filter (\<lambda>t. tk_user_id t = i) (db_tickets d))) (user_or_404 i d)"

definition invited_by :: "int \<Rightarrow> db \<Rightarrow> (user_row \<times> bool \<times> int option) list" where
  "invited_by i d = List.map_filter
     (\<lambda>r. map_option (\<lambda>u. (u, rf_bonus_paid r, rf_bonus_paid_at r)) (get_user d (rf_referee_id r)))
     (desc_by rf_created_at (filter (\<lambda>r. rf_referrer_id r = i) (db_refs d)))"

definition get_user_referrals ::
  "int \<Rightarrow> db \<Rightarrow> exn + (user_row option \<times> (user_row \<times> bool \<times> int option) list)" where
  "get_user_referrals i d = map_sum id (\<lambda>u. (referrer_of u d, invited_by i d)) (user_or_404 i d)"

definition get_user_balance_history :: "int \<Rightarrow> db \<Rightarrow> exn + bt_row list" where
  "get_user_balance_history i d = map_sum id
     (\<lambda>u. desc_by bt_created_at (filter (\<lambda>b. bt_user_id b = i) (db_bts d))) (user_or_404 i d)"

section \<open>Messages to a user\<close>

text \<open>\<open>f"{n / 100:.2f}"\<close> for amounts a float holds exactly enough of (below \<open>2^53\<close>).\<close>

definition rub_str :: "int \<Rightarrow> string" where
  "rub_str k = (let a = \<bar>k\<bar> in (if k < 0 then ''-'' else '''') @ py_str (a div 100) @ ''.''
     @ [digit_char (nat (a mod 100 div 10)), digit_char (nat (a mod 10))])"

definition kopecks_to_rub_str :: "int \<Rightarrow> string" where
  "kopecks_to_rub_str k = (if k < 0 then ''-'' else ''+'') @ rub_str \<bar>k\<bar>"

definition message_user :: "env \<Rightarrow> user_row \<Rightarrow> string \<Rightarrow> (string \<times> json) list \<Rightarrow> db \<Rightarrow> db" where
  "message_user e u key kwargs d = enqueue_message e (u_id u) (u_tg_id u) ''text''
     [(''text_key'', JStr key), (''format_kwargs'', JObj kwargs), (''parse_mode'', JStr ''HTML'')] None d"

section \<open>Ban\<close>

definition admin_ban_user :: "env \<Rightarrow> admin_principal \<Rightarrow> int \<Rightarrow> string \<Rightarrow> db \<Rightarrow> (exn + unit) \<times> db" where
  "admin_ban_user e admin i reason d =
     (if \<not> reason_ok reason then (Inl query_error, d)
      else case user_or_404 i d of
        Inl x \<Rightarrow> (Inl x, d)
      | Inr u \<Rightarrow> (Inr (), record_admin_action e admin ''user.ban'' (Some (u_id u)) None [(''reason'', JStr reason)]
          (message_user e u ''support_user_banned_notice'' [(''reason'', JStr reason)]
            (mod_user (e_now e) i (\<lambda>r. r\<lparr>u_is_banned := True, u_banned_reason := Some reason\<rparr>) d))))"

definition admin_unban_user :: "env \<Rightarrow> admin_principal \<Rightarrow> int \<Rightarrow> db \<Rightarrow> (exn + unit) \<times> db" where
  "admin_unban_user e admin i d =
     (case user_or_404 i d of
        Inl x \<Rightarrow> (Inl x, d)
      | Inr u \<Rightarrow> (Inr (), record_admin_action e admin ''user.unban'' (Some (u_id u)) None []
          (message_user e u ''support_user_unbanned_notice'' []
            (mod_user (e_now e) i (\<lambda>r. r\<lparr>u_is_banned := False, u_banned_reason := None\<rparr>) d))))"

section \<open>Balance\<close>

record adjust_answer =
  aj_user_id :: int
  aj_balance :: int
  aj_delta :: int

text \<open>The common part of both endpoints: the adjustment, the user's message, the audit row.\<close>

definition adjust_with ::
  "env \<Rightarrow> admin_principal \<Rightarrow> user_row \<Rightarrow> int \<Rightarrow> string \<Rightarrow> string \<Rightarrow> string \<Rightarrow> (int \<Rightarrow> (string \<times> json) list)
    \<Rightarrow> db \<Rightarrow> (exn + adjust_answer) \<times> db" where
  "adjust_with e admin u delta ledger_reason reason action extra d =
     (case add_admin_adjust e (u_id u) delta ledger_reason (pr_kid admin) (Some (pr_label admin)) d of
        (Inl x, d') \<Rightarrow> (Inl x, d)
      | (Inr new, d') \<Rightarrow>
          (Inr \<lparr>aj_user_id = u_id u, aj_balance = new, aj_delta = delta\<rparr>,
           record_admin_action e admin action (Some (u_id u)) None (extra new)
             (message_user e u ''balance_admin_adjusted''
               [(''delta'', JStr (kopecks_to_rub_str delta)), (''balance'', JStr (rub_str new)),
                (''reason'', JStr reason)] d')))"

definition adjust_balance ::
  "env \<Rightarrow> admin_principal \<Rightarrow> int \<Rightarrow> int \<Rightarrow> string \<Rightarrow> db \<Rightarrow> (exn + adjust_answer) \<times> db" where
  "adjust_balance e admin i amount reason d =
     (if \<not> reason_ok reason then (Inl query_error, d)
      else case user_or_404 i d of
        Inl x \<Rightarrow> (Inl x, d)
      | Inr u \<Rightarrow> adjust_with e admin u amount reason reason ''user.balance.adjust''
          (\<lambda>new. [(''amount_kopecks'', JInt amount), (''balance_after_kopecks'', JInt new),
                  (''reason'', JStr reason)]) d)"

text \<open>In the message the rouble sign is written RUB.\<close>

definition hard_cap_kop :: int where "hard_cap_kop = 100000000"

definition set_user_balance ::
  "env \<Rightarrow> admin_principal \<Rightarrow> int \<Rightarrow> int \<Rightarrow> string \<Rightarrow> db \<Rightarrow> (exn + adjust_answer) \<times> db" where
  "set_user_balance e admin i target reason d =
     (if \<not> reason_ok reason \<or> target < 0 then (Inl query_error, d)
      else if target > hard_cap_kop
      then (Inl (mk_error ValidationError (Some (''Target balance is too high (max ''
              @ py_str hard_cap_kop @ '' kop = '' @ py_str (hard_cap_kop div 100)
              @ '' RUB). Use /adjust for explicit large changes.'')) (Some ''balance_target_too_high'') []), d)
      else case user_or_404 i d of
        Inl x \<Rightarrow> (Inl x, d)
      | Inr u \<Rightarrow>
          (let delta = target - u_balance u in
           if delta = 0
           then (Inr \<lparr>aj_user_id = u_id u, aj_balance = u_balance u, aj_delta = 0\<rparr>, d)
           else adjust_with e admin u delta (''set: '' @ reason) reason ''user.balance.set''
                  (\<lambda>new. [(''previous_balance_kopecks'', JInt (u_balance u)),
                          (''target_balance_kopecks'', JInt target), (''delta_kopecks'', JInt delta),
                          (''reason'', JStr reason)]) d))"

section \<open>Bulk actions\<close>

definition user_ids_ok :: "int list \<Rightarrow> bool" where
  "user_ids_ok ids \<longleftrightarrow> 1 \<le> length ids \<and> length ids \<le> 200"

text \<open>\<open>list(dict.fromkeys(ids))\<close>: each id once, in the order of its first occurrence.\<close>

definition unique_ids :: "int list \<Rightarrow> int list" where
  "unique_ids ids = rev (remdups (rev ids))"

lemma unique_ids_set [simp]: "set (unique_ids ids) = set ids" "distinct (unique_ids ids)"
  by (simp_all add: unique_ids_def)

definition bulk_payload :: "string \<Rightarrow> string option \<Rightarrow> (string \<times> json) list" where
  "bulk_payload msg mode =
     [(''text_key'', JStr ''admin_direct_message''), (''format_kwargs'', JObj [(''text'', JStr msg)]),
      (''parse_mode'', json_opt_str mode), (''kind'', JStr ''admin_direct_message'')]"

definition bulk_recipients :: "int list \<Rightarrow> db \<Rightarrow> user_row list" where
  "bulk_recipients ids d = filter (\<lambda>u. \<not> u_is_banned u) (List.map_filter (get_user d) (unique_ids ids))"

record bulk_answer =
  bk_done :: nat
  bk_skipped :: nat
  bk_not_found :: "int list"

definition missing_ids :: "int list \<Rightarrow> db \<Rightarrow> int list" where
  "missing_ids ids d = filter (\<lambda>i. get_user d i = None) (unique_ids ids)"

definition bulk_message_users ::
  "env \<Rightarrow> admin_principal \<Rightarrow> int list \<Rightarrow> string \<Rightarrow> string option \<Rightarrow> db \<Rightarrow> (exn + bulk_answer) \<times> db" where
  "bulk_message_users e admin ids msg mode d =
     (if \<not> user_ids_ok ids \<or> length msg < 1 \<or> length msg > 4000 then (Inl query_error, d)
      else let us = bulk_recipients ids d; missing = missing_ids ids d;
               banned = length (filter u_is_banned (List.map_filter (get_user d) (unique_ids ids)))
           in (Inr \<lparr>bk_done = length us, bk_skipped = banned, bk_not_found = missing\<rparr>,
               record_admin_action e admin ''user.bulk_message'' None None
                 [(''requested'', JInt (int (length (unique_ids ids)))), (''enqueued'', JInt (int (length us))),
                  (''skipped_banned'', JInt (int banned)), (''not_found_count'', JInt (int (length missing))),
                  (''text_preview'', JStr (take 120 msg))]
                 (fold (\<lambda>u. enqueue_message e (u_id u) (u_tg_id u) ''text'' (bulk_payload msg mode) None) us d)))"

definition bulk_ban_users ::
  "env \<Rightarrow> admin_principal \<Rightarrow> int list \<Rightarrow> string \<Rightarrow> db \<Rightarrow> (exn + bulk_answer) \<times> db" where
  "bulk_ban_users e admin ids reason d =
     (if \<not> user_ids_ok ids \<or> \<not> reason_ok reason then (Inl query_error, d)
      else let us = bulk_recipients ids d; missing = missing_ids ids d;
               banned = length (filter u_is_banned (List.map_filter (get_user d) (unique_ids ids)))
           in (Inr \<lparr>bk_done = length us, bk_skipped = banned, bk_not_found = missing\<rparr>,
               record_admin_action e admin ''user.bulk_ban'' None None
                 [(''reason'', JStr reason), (''requested'', JInt (int (length (unique_ids ids)))),
                  (''banned'', JInt (int (length us))), (''already_banned'', JInt (int banned)),
                  (''not_found_count'', JInt (int (length missing)))]
                 (fold (\<lambda>u. mod_user (e_now e) (u_id u)
                    (\<lambda>r. r\<lparr>u_is_banned := True, u_banned_reason := Some reason\<rparr>)) us d)))"
section \<open>What the endpoints do\<close>

lemma message_user_frame [simp]:
  "db_users (message_user e u k kw d) = db_users d" "db_bts (message_user e u k kw d) = db_bts d"
  "db_subs (message_user e u k kw d) = db_subs d"
  by (simp_all add: message_user_def enqueue_message_def)

lemma balance_of_users: "db_users d' = db_users d \<Longrightarrow> balance_of d' i = balance_of d i"
  by (simp add: balance_of_def get_user_def)

lemma ledger_sum_bts: "db_bts d' = db_bts d \<Longrightarrow> ledger_sum d' i = ledger_sum d i"
  by (simp add: ledger_sum_def)

text \<open>An accepted adjustment posts exactly its amount to that user.\<close>

lemma adjust_with_effect:
  assumes "get_user d (u_id u) = Some u" "adjust_with e admin u delta lr r act ex d = (Inr a, d')"
  shows "aj_balance a = u_balance u + delta \<and> aj_delta a = delta
    \<and> balance_of d' k = (if k = u_id u then Some (u_balance u + delta) else balance_of d k)
    \<and> ledger_sum d' k = ledger_sum d k + (if k = u_id u then delta else 0)"
proof -
  let ?adj = "add_admin_adjust e (u_id u) delta lr (pr_kid admin) (Some (pr_label admin)) d"
  obtain new where new: "fst ?adj = Inr new" "aj_balance a = new" "aj_delta a = delta"
      "db_users d' = db_users (snd ?adj)" "db_bts d' = db_bts (snd ?adj)"
    using assms(2) by (auto simp: adjust_with_def split: prod.splits sum.splits)
  have val: "new = u_balance u + delta
      \<and> balance_of (snd ?adj) k = (if k = u_id u then Some (u_balance u + delta) else balance_of d k)
      \<and> ledger_sum (snd ?adj) k = ledger_sum d k + (if k = u_id u then delta else 0)"
  proof (cases "delta = 0 \<or> u_balance u + delta < 0")
    case True
    then show ?thesis using new(1) assms(1)
      by (auto simp: add_admin_adjust_def lock_user_def Let_def balance_of_def split: if_splits)
  next
    case False
    let ?d2 = "add_bt e (u_id u) delta BtAdminAdjust None None (Some lr) (u_balance u + delta)
                (set_balance e (u_id u) (u_balance u + delta) d)"
    have "db_users (snd ?adj) = db_users ?d2" "db_bts (snd ?adj) = db_bts ?d2" "new = u_balance u + delta"
      using False new(1) assms(1) by (auto simp: add_admin_adjust_def lock_user_def Let_def)
    then show ?thesis using assms(1) balance_of_users[of "snd ?adj" ?d2 k] ledger_sum_bts[of "snd ?adj" ?d2 k]
      by simp
  qed
  then show ?thesis using new balance_of_users[OF new(4), of k] ledger_sum_bts[OF new(5), of k] by simp
qed

lemma adjust_with_accepts:
  assumes "get_user d (u_id u) = Some u" "0 \<le> u_balance u + delta"
  shows "\<exists>a d'. adjust_with e admin u delta lr r act ex d = (Inr a, d')"
  using assms by (auto simp: adjust_with_def add_admin_adjust_def lock_user_def Let_def)

section \<open>Properties\<close>

text \<open>Setting a balance to a permitted value always succeeds for an existing user and leaves
  exactly that value; the ledger records the difference, so a balance that agreed with its
  ledger still does, and nobody else's money moves.\<close>

theorem set_balance_exact:
  assumes "get_user d i = Some u" "reason_ok reason" "0 \<le> target" "target \<le> 100000000"
  shows "\<exists>a d'. set_user_balance e admin i target reason d = (Inr a, d')
    \<and> aj_balance a = target \<and> balance_of d' i = Some target
    \<and> ledger_sum d' i = ledger_sum d i + (target - u_balance u)
    \<and> (k \<noteq> i \<longrightarrow> balance_of d' k = balance_of d k \<and> ledger_sum d' k = ledger_sum d k)"
proof -
  have id: "u_id u = i" using assms(1) by (simp add: get_user_SomeD)
  show ?thesis
  proof (cases "target = u_balance u")
    case True
    then show ?thesis using assms
      by (simp add: set_user_balance_def user_or_404_def or_404_def hard_cap_kop_def Let_def balance_of_def)
  next
    case False
    let ?adj = "adjust_with e admin u (target - u_balance u) (''set: '' @ reason) reason ''user.balance.set''
       (\<lambda>new. [(''previous_balance_kopecks'', JInt (u_balance u)), (''target_balance_kopecks'', JInt target),
               (''delta_kopecks'', JInt (target - u_balance u)), (''reason'', JStr reason)]) d"
    have u: "get_user d (u_id u) = Some u" using assms(1) id by simp
    have "0 \<le> u_balance u + (target - u_balance u)" using assms(3) by simp
    then obtain a d' where adj: "?adj = (Inr a, d')" using adjust_with_accepts[OF u] by metis
    have "set_user_balance e admin i target reason d = (Inr a, d')"
      using assms False adj
      by (simp add: set_user_balance_def user_or_404_def or_404_def hard_cap_kop_def Let_def)
    then show ?thesis using adjust_with_effect[OF u adj, of i] adjust_with_effect[OF u adj, of k] id by auto
  qed
qed

lemma unique_ids_split:
  "length (bulk_recipients ids d) + length (filter u_is_banned (List.map_filter (get_user d) (unique_ids ids)))
     + length (missing_ids ids d) = card (set ids)"
proof -
  have "length (filter (\<lambda>u. \<not> u_is_banned u) (List.map_filter (get_user d) xs))
      + length (filter u_is_banned (List.map_filter (get_user d) xs))
      + length (filter (\<lambda>i. get_user d i = None) xs) = length xs" for xs
    by (induction xs) (auto simp: List.map_filter_simps split: option.split)
  from this[of "unique_ids ids"] show ?thesis
    by (simp add: bulk_recipients_def missing_ids_def distinct_card[symmetric])
qed

lemma enqueue_all_outbox:
  "List.map ob_user_id (db_outbox (fold (\<lambda>u. enqueue_message e (u_id u) (u_tg_id u) ty p t) us d))
     = List.map ob_user_id (db_outbox d) @ List.map u_id us"
  by (induction us arbitrary: d) (simp_all add: enqueue_message_def new_outbox_def ins_outbox_def)

lemma bulk_recipients_distinct: "distinct (List.map u_id (bulk_recipients ids d))"
proof -
  have "distinct (List.map u_id (filter P (List.map_filter (get_user d) xs)))
      \<and> u_id ` set (List.map_filter (get_user d) xs) \<subseteq> set xs" if "distinct xs" for P xs
    using that
  proof (induction xs)
    case (Cons x xs)
    then show ?case
      by (cases "get_user d x") (auto simp: List.map_filter_simps get_user_SomeD)
  qed (simp add: List.map_filter_simps)
  then show ?thesis by (simp add: bulk_recipients_def)
qed

text \<open>A bulk message reaches every listed user once: the new outbox rows are exactly for the
  users that exist and are not banned, none of them twice, however often an id is repeated,
  and every distinct id is counted as enqueued, skipped or not found.\<close>

theorem bulk_message_accounts:
  assumes "bulk_message_users e admin ids msg mode d = (Inr a, d')"
  shows "\<exists>us. List.map ob_user_id (db_outbox d') = List.map ob_user_id (db_outbox d) @ us \<and> distinct us
    \<and> set us = {i \<in> set ids. \<exists>u. get_user d i = Some u \<and> \<not> u_is_banned u}
    \<and> bk_done a = length us \<and> bk_done a + bk_skipped a + length (bk_not_found a) = card (set ids)"
proof -
  let ?us = "bulk_recipients ids d"
  have res: "bk_done a = length ?us" "bk_not_found a = missing_ids ids d"
      "bk_skipped a = length (filter u_is_banned (List.map_filter (get_user d) (unique_ids ids)))"
      "db_outbox d' = db_outbox (fold (\<lambda>u. enqueue_message e (u_id u) (u_tg_id u) ''text''
         (bulk_payload msg mode) None) ?us d)"
    using assms by (auto simp: bulk_message_users_def Let_def split: if_splits)
  have set: "u_id ` set ?us = {i \<in> set ids. \<exists>u. get_user d i = Some u \<and> \<not> u_is_banned u}"
  proof -
    have "set (List.map_filter (get_user d) xs) = {u. \<exists>i\<in>set xs. get_user d i = Some u}" for xs
      by (induction xs) (auto simp: List.map_filter_simps split: option.split)
    then have "set ?us = {u. \<not> u_is_banned u \<and> (\<exists>i\<in>set ids. get_user d i = Some u)}"
      by (auto simp: bulk_recipients_def)
    then show ?thesis by (auto simp: image_iff dest: get_user_SomeD)
  qed
  show ?thesis
    using res unique_ids_split[of ids d] bulk_recipients_distinct[of ids d] set enqueue_all_outbox[of e "''text''" "bulk_payload msg mode" None ?us d]
    by (intro exI[of _ "List.map u_id ?us"]) simp
qed

text \<open>Reading the pages of a user search one after another shows every user that matches
  exactly once, in the requested order.\<close>

theorem user_search_complete:
  assumes "0 < sz" "sz \<le> 500" "length (filter (user_matches q d) (db_users d)) \<le> n * sz"
    and "uq_min_balance q = None"
  shows "\<exists>all. all = List.concat (List.map (\<lambda>p. case list_users collate q order (int p) (int sz) d of
            Inr pg \<Rightarrow> List.map fst (pg_items pg) | Inl x \<Rightarrow> []) [1..<Suc n])
    \<and> mset all = mset (filter (user_matches q d) (db_users d))
    \<and> sorted_wrt (\<lambda>u v. if snd (parse_sort order)
         then key_less_eq (column_key collate (fst (parse_sort order)) v) (column_key collate (fst (parse_sort order)) u)
         else key_less_eq (column_key collate (fst (parse_sort order)) u) (column_key collate (fst (parse_sort order)) v)) all"
proof -
  let ?hits = "order_by collate (parse_sort order) (filter (user_matches q d) (db_users d))"
  have len: "length ?hits \<le> n * sz"
    using assms(3) by (metis order_by_mset size_mset)
  have page: "(case list_users collate q order (int p) (int sz) d of
      Inr pg \<Rightarrow> List.map fst (pg_items pg) | Inl x \<Rightarrow> []) = page_rows p sz ?hits" if "p \<in> set [1..<Suc n]" for p
    using that assms(1,2,4)
    by (auto simp: list_users_def page_query_ok_def mk_page_def page_rows_def take_map drop_map comp_def)
  have "List.concat (List.map (\<lambda>p. case list_users collate q order (int p) (int sz) d of
      Inr pg \<Rightarrow> List.map fst (pg_items pg) | Inl x \<Rightarrow> []) [1..<Suc n])
    = List.concat (List.map (\<lambda>p. page_rows p sz ?hits) [1..<Suc n])"
    by (intro arg_cong[where f = List.concat] map_cong refl page)
  also have "\<dots> = ?hits" by (rule pages_complete[OF assms(1) len])
  finally show ?thesis
    using order_by_mset order_by_sorted[of "snd (parse_sort order)" collate "fst (parse_sort order)"] by simp
qed

section \<open>Witnesses\<close>

theorem set_balance_exact_witness:
  "\<exists>a d'. set_user_balance (fx_env 20 200 JNull) fx_admin 2 700 ''fix'' fx_db = (Inr a, d') \<and> balance_of d' 2 = Some 700"
proof -
  have "reason_ok ''fix''" by (simp add: reason_ok_def)
  moreover have "0 \<le> (700::int)" "(700::int) \<le> 100000000" by simp_all
  ultimately show ?thesis
    using set_balance_exact[OF fx_get(2), of "''fix''" 700 "fx_env 20 200 JNull" fx_admin 1] by blast
qed

theorem bulk_message_accounts_witness:
  "\<exists>a d'. bulk_message_users (fx_env 20 200 JNull) fx_admin [2, 1, 2, 9] ''hi'' None fx_db = (Inr a, d')
     \<and> bk_done a + bk_skipped a + length (bk_not_found a) = 3"
proof -
  obtain a d' where b: "bulk_message_users (fx_env 20 200 JNull) fx_admin [2, 1, 2, 9] ''hi'' None fx_db = (Inr a, d')"
    by (simp add: bulk_message_users_def user_ids_ok_def Let_def)
  have "card (set [2, 1, 2, 9::int]) = 3" by (simp add: card_insert_if)
  with bulk_message_accounts[OF b] b show ?thesis by auto
qed

theorem user_search_complete_witness:
  "\<exists>all. mset all = mset (filter (user_matches (user_query.make None None None None) fx_db) (db_users fx_db))"
proof -
  have two: "length (filter (user_matches (user_query.make None None None None) fx_db) (db_users fx_db)) \<le> 2 * 1"
    by (rule order_trans[OF length_filter_le]) (simp add: fx_db_def)
  show ?thesis
    using user_search_complete[of 1 "user_query.make None None None None" fx_db 2 "\<lambda>s. 0" None, OF _ _ two]
    by (auto simp: user_query.defs)
qed

end
