(* ===== verification/BotClient.thy ===== *)
theory BotClient
  imports System Dispatcher
begin

text \<open>
  How the bot talks to the backend: the endpoints of \<open>backend/app/api/bot\<close> as functions on
  the database, the error envelope they answer with (\<open>core/exceptions.py\<close>), and the bot's
  HTTP client with its retries (\<open>bot/app/api_client.py\<close>).  A call runs against the
  database once for every request that reaches the backend, also when its answer is lost.
\<close>

section \<open>Errors on the wire\<close>

definition error_payload :: "env \<Rightarrow> string \<Rightarrow> string \<Rightarrow> (string \<times> json) list \<Rightarrow> json" where
  "error_payload e code msg details =
     JObj [(''error'', JObj [(''code'', JStr code), (''message'', JStr msg),
                              (''details'', JObj details), (''trace_id'', JStr (e_trace e))])]"

text \<open>The exception handlers; FastAPI's own validation error is \<open>RequestValidationError\<close>.\<close>

definition http_answer :: "env \<Rightarrow> exn \<Rightarrow> int \<times> json" where
  "http_answer e x =
     (case x of
        AppExn a \<Rightarrow> (ae_status a, error_payload e (ae_code a) (ae_message a) (ae_details a))
      | PyExn n m \<Rightarrow>
          if n = ''RequestValidationError''
          then (422, error_payload e ''validation_error'' ''Request validation failed''
                       [(''errors'', JArr [])])
          else (500, error_payload e ''internal_error'' ''Internal server error'' []))"

text \<open>What reaches the bot's handlers: errors of the client, of Telegram and of Python.\<close>

datatype bot_exn =
    BackendUnavailable
  | BackendClient int "string option" "(string \<times> json) list"
  | TgBadRequest string
  | TgForbidden string
  | TgOther string
  | BotExn string string

fun is_conflict :: "bot_exn \<Rightarrow> bool" where
  "is_conflict (BackendClient st code payload) = (st = 409)"
| "is_conflict _ = False"

text \<open>
  The body of an error answer, as the client reads it: the code from the envelope or from
  the top level, and the details promoted to the top level unless the key is taken.
\<close>

definition set_default :: "string \<times> json \<Rightarrow> (string \<times> json) list \<Rightarrow> (string \<times> json) list" where
  "set_default kv m = (if map_of m (fst kv) = None then m @ [kv] else m)"

definition str_of :: "json option \<Rightarrow> string option" where
  "str_of j = (case j of Some (JStr s) \<Rightarrow> Some s | _ \<Rightarrow> None)"

definition promote_details :: "(string \<times> json) list \<Rightarrow> (string \<times> json) list" where
  "promote_details kvs =
     (case map_of kvs ''error'' of
        Some (JObj er) \<Rightarrow> (case map_of er ''details'' of
                             Some (JObj ds) \<Rightarrow> fold set_default ds kvs | _ \<Rightarrow> kvs)
      | _ \<Rightarrow> kvs)"

definition envelope_code :: "(string \<times> json) list \<Rightarrow> string option" where
  "envelope_code kvs = (case map_of kvs ''error'' of
     Some (JObj er) \<Rightarrow> str_of (map_of er ''code'') | _ \<Rightarrow> None)"

definition parse_error :: "json option \<Rightarrow> string option \<times> (string \<times> json) list" where
  "parse_error body =
     (case body of
        Some (JObj kvs) \<Rightarrow>
          (let payload = promote_details kvs in
           (case envelope_code kvs of
              Some c \<Rightarrow> Some c
            | None \<Rightarrow> if opt_json_truthy (map_of payload ''error_code'')
                      then str_of (map_of payload ''error_code'')
                      else str_of (map_of payload ''code''),
            payload))
      | _ \<Rightarrow> (None, []))"

definition client_error :: "int \<Rightarrow> json option \<Rightarrow> bot_exn" where
  "client_error st body = (case parse_error body of (code, payload) \<Rightarrow> BackendClient st code payload)"

lemma map_of_set_default:
  "map_of (set_default kv m) k =
     (case map_of m k of Some v \<Rightarrow> Some v | None \<Rightarrow> if k = fst kv then Some (snd kv) else None)"
  by (cases kv) (auto simp: set_default_def map_add_def split: option.split)

lemma map_of_promoted:
  "map_of (fold set_default ds m) k =
     (case map_of m k of Some v \<Rightarrow> Some v | None \<Rightarrow> map_of ds k)"
proof (induction ds arbitrary: m)
  case (Cons kv ds)
  then show ?case by (cases kv) (auto simp: map_of_set_default split: option.split)
qed (simp split: option.split)

text \<open>Code and details of every application error survive the wire.\<close>

lemma parse_error_envelope:
  "fst (parse_error (Some (error_payload e c m ds))) = Some c"
  "k \<noteq> ''error'' \<Longrightarrow> map_of (snd (parse_error (Some (error_payload e c m ds)))) k = map_of ds k"
  by (simp_all add: parse_error_def error_payload_def envelope_code_def str_of_def promote_details_def
      map_of_promoted Let_def)

section \<open>Requests\<close>

text \<open>
  One attempt: it may fail to connect (\<open>ConnectError\<close>, \<open>ConnectTimeout\<close>), run out of time
  waiting for the answer of a request the backend did run (\<open>ReadTimeout\<close>), break in another
  way, before or after the backend ran it, or be answered.
\<close>

datatype net = NoConnection | NoAnswer | BrokenOff bool | Answered

definition request_attempts :: nat where "request_attempts = 3"

text \<open>A request in flight: the database, the number of attempts made so far by the process.\<close>

fun attempts ::
  "env \<Rightarrow> (nat \<Rightarrow> net) \<Rightarrow> bool \<Rightarrow> (db \<Rightarrow> (exn + 'a) \<times> db) \<Rightarrow> nat \<Rightarrow> nat \<Rightarrow> db
    \<Rightarrow> (bot_exn + 'a) \<times> nat \<times> db" where
  "attempts e net idem call n 0 d = (Inl BackendUnavailable, n, d)"
| "attempts e net idem call n (Suc left) d =
     (case net n of
        NoConnection \<Rightarrow> attempts e net idem call (Suc n) left d
      | NoAnswer \<Rightarrow> attempts e net idem call (Suc n) left (snd (call d))
      | BrokenOff arrived \<Rightarrow> (Inl BackendUnavailable, Suc n, if arrived then snd (call d) else d)
      | Answered \<Rightarrow>
          (case call d of
             (Inr a, d') \<Rightarrow> (Inr a, Suc n, d')
           | (Inl x, d') \<Rightarrow>
               (case http_answer e x of
                  (st, body) \<Rightarrow>
                    if idem \<and> 500 \<le> st \<and> st < 600 \<and> 0 < left
                    then attempts e net idem call (Suc n) left d'
                    else (Inl (client_error st (Some body)), Suc n, d'))))"

definition request ::
  "env \<Rightarrow> (nat \<Rightarrow> net) \<Rightarrow> bool \<Rightarrow> (db \<Rightarrow> (exn + 'a) \<times> db) \<Rightarrow> nat \<Rightarrow> db
    \<Rightarrow> (bot_exn + 'a) \<times> nat \<times> db" where
  "request e net idem call n d = attempts e net idem call n request_attempts d"

text \<open>A call against the backend that answers at once.\<close>

lemma attempts_answered:
  assumes "net n = Answered" "call d = (Inr a, d')"
  shows "attempts e net idem call n (Suc left) d = (Inr a, Suc n, d')"
  using assms by simp

lemma request_answered [simp]:
  assumes "net n = Answered" "call d = (Inr a, d')"
  shows "request e net idem call n d = (Inr a, Suc n, d')"
  using assms by (simp add: request_def request_attempts_def numeral_3_eq_3)

lemma request_refused:
  assumes "net n = Answered" "call d = (Inl x, d')" "fst (http_answer e x) < 500"
  shows "request e net idem call n d =
    (Inl (client_error (fst (http_answer e x)) (Some (snd (http_answer e x)))), Suc n, d')"
  using assms by (cases "http_answer e x") (simp add: request_def request_attempts_def numeral_3_eq_3)

text \<open>However the attempts go, the database is the result of running the call a number of times.\<close>

definition runs :: "(db \<Rightarrow> 'r \<times> db) \<Rightarrow> nat \<Rightarrow> db \<Rightarrow> db" where
  "runs call k = (\<lambda>x. snd (call x)) ^^ k"

lemma runs_simps [simp]: "runs call 0 d = d" "runs call (Suc k) d = runs call k (snd (call d))"
  by (simp_all add: runs_def funpow_Suc_right del: funpow.simps)

lemma attempts_runs:
  "attempts e net idem call n left d = (r, n', d') \<Longrightarrow>
     \<exists>k \<le> left. d' = runs call k d \<and> (\<forall>a. r = Inr a \<longrightarrow> 0 < k)
       \<and> (\<not> idem \<longrightarrow> k \<le> Suc (length (filter (\<lambda>i. net (n + i) = NoAnswer) [0..<left])))"
proof (induction left arbitrary: n d)
  case 0
  then show ?case by (auto intro: exI[of _ 0])
next
  case (Suc left)
  let ?late = "\<lambda>n left. length (filter (\<lambda>i. net (n + i) = NoAnswer) [0..<left])"
  have late: "?late n (Suc left) = (if net n = NoAnswer then 1 else 0) + ?late (Suc n) left"
    by (simp add: upt_conv_Cons map_Suc_upt[symmetric] filter_map comp_def del: upt_Suc)
  show ?case
  proof (cases "net n")
    case NoConnection
    with Suc.prems have "attempts e net idem call (Suc n) left d = (r, n', d')" by simp
    from Suc.IH[OF this] show ?thesis unfolding late using NoConnection by (auto intro: le_SucI)
  next
    case NoAnswer
    with Suc.prems have "attempts e net idem call (Suc n) left (snd (call d)) = (r, n', d')" by simp
    from Suc.IH[OF this] obtain k where "k \<le> left" "d' = runs call k (snd (call d))"
      "\<not> idem \<longrightarrow> k \<le> Suc (?late (Suc n) left)" by blast
    then show ?thesis unfolding late using NoAnswer by (intro exI[of _ "Suc k"]) auto
  next
    case (BrokenOff arrived)
    then show ?thesis using Suc.prems
      by (intro exI[of _ "if arrived then 1 else 0"]) auto
  next
    case Answered
    obtain q d1 where q: "call d = (q, d1)" by (cases "call d")
    show ?thesis
    proof (cases q)
      case (Inr a)
      then show ?thesis using Suc.prems Answered q by (intro exI[of _ 1]) auto
    next
      case (Inl x)
      obtain st body where st: "http_answer e x = (st, body)" by (cases "http_answer e x")
      show ?thesis
      proof (cases "idem \<and> 500 \<le> st \<and> st < 600 \<and> 0 < left")
        case True
        with Suc.prems Answered q Inl st
        have "attempts e net idem call (Suc n) left d1 = (r, n', d')" by simp
        from Suc.IH[OF this] obtain k where "k \<le> left" "d' = runs call k d1" by blast
        then show ?thesis using q True by (intro exI[of _ "Suc k"]) auto
      next
        case False
        with Suc.prems Answered q Inl st show ?thesis by (intro exI[of _ 1]) auto
      qed
    qed
  qed
qed

end
