(* ===== verification/BotApi.thy ===== *)
theory BotApi
  imports BotClient
begin

text \<open>
  The endpoints the bot calls (\<open>backend/app/api/bot\<close>) with the request and response schemas,
  as functions on the database that answer a JSON value.  Each is one request: its effect is
  committed when it answers and undone when it raises.
\<close>

section \<open>Responses\<close>

definition json_time :: "int option \<Rightarrow> json" where
  "json_time t = (case t of None \<Rightarrow> JNull | Some x \<Rightarrow> JStr (iso_format x))"

definition user_json :: "user_row \<Rightarrow> (string \<times> json) list" where
  "user_json u =
     [(''id'', JInt (u_id u)), (''tg_id'', JInt (u_tg_id u)),
      (''username'', json_opt_str (u_username u)), (''first_name'', json_opt_str (u_first_name u)),
      (''last_name'', json_opt_str (u_last_name u)),
      (''language_code'', json_opt_str (u_language_code u)),
      (''balance_kopecks'', JInt (u_balance u)), (''is_banned'', JBool (u_is_banned u)),
      (''banned_reason'', json_opt_str (u_banned_reason u)),
      (''ref_id'', json_opt_int (u_ref_id u)),
      (''created_at'', JStr (iso_format (u_created_at u))),
      (''updated_at'', JStr (iso_format (u_updated_at u)))]"

definition ticket_status_str :: "ticket_status \<Rightarrow> string" where
  "ticket_status_str s = (case s of TkOpen \<Rightarrow> ''open'' | TkClosed \<Rightarrow> ''closed'')"

definition ticket_json :: "ticket_row \<Rightarrow> (string \<times> json) list" where
  "ticket_json t =
     [(''id'', JInt (tk_id t)), (''code'', JStr (tk_code t)), (''user_id'', JInt (tk_user_id t)),
      (''kind'', JStr (ticket_kind_str (tk_kind t))),
      (''status'', JStr (ticket_status_str (tk_status t))),
      (''topic_thread_id'', json_opt_int (tk_thread_id t)),
      (''created_at'', JStr (iso_format (tk_created_at t)))]"

definition sub_json :: "string option \<Rightarrow> sub_row \<Rightarrow> (string \<times> json) list" where
  "sub_json tariff_name s =
     [(''id'', JInt (s_id s)), (''user_id'', JInt (s_user_id s)),
      (''tariff_id'', JInt (s_tariff_id s)), (''tariff_name'', json_opt_str tariff_name),
      (''tariff_duration_id'', json_opt_int (s_duration_id s)),
      (''provider_subscription_id'', json_opt_str (s_provider_id s)),
      (''key_url'', json_opt_str (s_key_url s)), (''devices'', JInt (s_devices s)),
      (''days'', JInt (s_days s)), (''status'', JStr (sub_status_str (s_status s))),
      (''started_at'', json_time (s_started_at s)), (''expires_at'', json_time (s_expires_at s)),
      (''deactivated_at'', json_time (s_deactivated_at s)),
      (''deactivation_reason'', json_opt_str (s_deactivation_reason s)),
      (''is_free_trial'', JBool (s_is_free_trial s)),
      (''created_at'', JStr (iso_format (s_created_at s))),
      (''updated_at'', JStr (iso_format (s_updated_at s)))]"

definition ticket_answer :: "ticket_row option \<Rightarrow> json" where
  "ticket_answer t =
     JObj [(''ticket'', case t of None \<Rightarrow> JNull | Some r \<Rightarrow> JObj (ticket_json r))]"

section \<open>Requests\<close>

definition invalid_request :: exn where
  "invalid_request = PyExn ''RequestValidationError'' ''''"

text \<open>The endpoints that name a user by Telegram id answer 404 when there is none.\<close>

definition with_user :: "int \<Rightarrow> (user_row \<Rightarrow> (exn + 'a) \<times> db) \<Rightarrow> db \<Rightarrow> (exn + 'a) \<times> db" where
  "with_user tg k d =
     (case user_by_tg d tg of None \<Rightarrow> (Inl (user_not_found tg), d) | Some u \<Rightarrow> k u)"

definition answer :: "('a \<Rightarrow> db \<Rightarrow> json) \<Rightarrow> (exn + 'a) \<times> db \<Rightarrow> (exn + json) \<times> db" where
  "answer f r = (case r of (Inl x, d) \<Rightarrow> (Inl x, d) | (Inr a, d) \<Rightarrow> (Inr (f a d), d))"

lemma answer_simps [simp]:
  "answer f (Inl x, d) = (Inl x, d)"
  "answer f (Inr a, d) = (Inr (f a d), d)"
  by (simp_all add: answer_def)

definition no_content :: "'a \<Rightarrow> db \<Rightarrow> json" where "no_content a d = JNull"

subsection \<open>Users\<close>

definition profile_valid :: "profile \<Rightarrow> string option \<Rightarrow> bool" where
  "profile_valid pf payload \<longleftrightarrow>
     length (opt_str (pf_username pf)) \<le> 64 \<and> length (opt_str (pf_first_name pf)) \<le> 128
   \<and> length (opt_str (pf_last_name pf)) \<le> 128 \<and> length (opt_str (pf_language_code pf)) \<le> 8
   \<and> length (opt_str payload) \<le> 128"

definition upsert_user_endpoint ::
  "env \<Rightarrow> int \<Rightarrow> profile \<Rightarrow> string option \<Rightarrow> db \<Rightarrow> (exn + json) \<times> db" where
  "upsert_user_endpoint e tg pf payload d =
     (if \<not> profile_valid pf payload then (Inl invalid_request, d)
      else answer (\<lambda>(uid, created) d'. JObj
             [(''user'', case get_user d' uid of None \<Rightarrow> JNull | Some u \<Rightarrow> JObj (user_json u)),
              (''created'', JBool created)])
             (register_start e tg pf None payload d))"

definition user_by_id_endpoint :: "int \<Rightarrow> db \<Rightarrow> (exn + json) \<times> db" where
  "user_by_id_endpoint i d =
     (case get_user d i of
        None \<Rightarrow> (Inl (mk_error NotFoundError (Some (''User id='' @ py_str i @ '' not found''))
                  (Some ''user_not_found'') []), d)
      | Some u \<Rightarrow> (Inr (JObj (user_json u)), d))"

definition ban_endpoint :: "env \<Rightarrow> int \<Rightarrow> string \<Rightarrow> db \<Rightarrow> (exn + json) \<times> db" where
  "ban_endpoint e tg reason d =
     (if reason = [] \<or> 500 < length reason then (Inl invalid_request, d)
      else answer no_content (ban_user e tg (Some reason) d))"

definition unban_endpoint :: "env \<Rightarrow> int \<Rightarrow> db \<Rightarrow> (exn + json) \<times> db" where
  "unban_endpoint e tg d = answer no_content (unban_user e tg d)"

subsection \<open>Profile\<close>

definition tariff_name_of :: "db \<Rightarrow> int \<Rightarrow> string option" where
  "tariff_name_of d tid = map_option t_name (get_tariff d tid)"

definition recently_expired_days :: int where "recently_expired_days = 30"

definition user_subscriptions_endpoint :: "env \<Rightarrow> int \<Rightarrow> db \<Rightarrow> (exn + json) \<times> db" where
  "user_subscriptions_endpoint e tg d =
     with_user tg (\<lambda>u. (Inr (JArr (List.map (\<lambda>s. JObj (sub_json (tariff_name_of d (s_tariff_id s)) s))
                           (list_for_user e (u_id u) recently_expired_days d))), d)) d"

definition balance_endpoint :: "int \<Rightarrow> db \<Rightarrow> (exn + json) \<times> db" where
  "balance_endpoint tg d =
     with_user tg (\<lambda>u. (Inr (JObj [(''balance_kopecks'', JInt (u_balance u))]), d)) d"

definition subscription_detail_endpoint :: "int \<Rightarrow> int \<Rightarrow> db \<Rightarrow> (exn + json) \<times> db" where
  "subscription_detail_endpoint sid tg d =
     with_user tg (\<lambda>u.
       case sub_get_owned d sid (u_id u) of
         None \<Rightarrow> (Inl (mk_error SubscriptionNotFoundError
                   (Some (''Subscription id='' @ py_str sid @ '' not found'')) None []), d)
       | Some s \<Rightarrow> (Inr (JObj (sub_json (tariff_name_of d (s_tariff_id s)) s)), d)) d"

definition referral_endpoint :: "env \<Rightarrow> int \<Rightarrow> db \<Rightarrow> (exn + json) \<times> db" where
  "referral_endpoint e tg d =
     with_user tg (\<lambda>u. case get_stats d (u_id u) of (invited, earned) \<Rightarrow>
       (Inr (JObj [(''invited'', JInt invited), (''earned_kopecks'', JInt earned),
                   (''ref_link'', JStr (build_ref_link e (u_id u)))]), d)) d"

subsection \<open>Money\<close>

definition gateway_names :: "string list" where
  "gateway_names = [''platega_sbp'', ''platega_crypto'', ''cryptobot'']"

definition sub_row_json :: "int \<Rightarrow> db \<Rightarrow> json" where
  "sub_row_json sid d = (case get_sub d sid of None \<Rightarrow> JNull | Some s \<Rightarrow> JObj (sub_json None s))"

definition purchase_balance_endpoint ::
  "env \<Rightarrow> int \<Rightarrow> int \<Rightarrow> int \<Rightarrow> int option \<Rightarrow> db \<Rightarrow> (exn + json) \<times> db" where
  "purchase_balance_endpoint e tg tid did promo d =
     with_user tg (\<lambda>u. answer (\<lambda>(sid, after, pid) d'. JObj
         [(''subscription'', sub_row_json sid d'), (''balance_after_kopecks'', JInt after),
          (''payment_id'', JInt pid)])
       (purchase_with_balance e (u_id u) tid did promo d)) d"

definition purchase_start_endpoint ::
  "env \<Rightarrow> int \<Rightarrow> int \<Rightarrow> int \<Rightarrow> string \<Rightarrow> int option \<Rightarrow> db \<Rightarrow> (exn + json) \<times> db" where
  "purchase_start_endpoint e tg tid did provider promo d =
     (if provider \<notin> set gateway_names then (Inl invalid_request, d)
      else with_user tg (\<lambda>u. answer (\<lambda>r d'. JObj
         [(''payment_id'', JInt (py_payment_id r)), (''subscription_id'', json_opt_int (py_sub_id r)),
          (''payment_url'', JStr (py_payment_url r)),
          (''expires_at'', JStr (iso_format (py_expires_at r))),
          (''amount_kopecks'', JInt (py_amount r))])
       (create_subscription_payment e (u_id u) tid did provider promo d)) d)"

definition topup_endpoint :: "env \<Rightarrow> int \<Rightarrow> int \<Rightarrow> string \<Rightarrow> db \<Rightarrow> (exn + json) \<times> db" where
  "topup_endpoint e tg amount provider d =
     (if provider \<notin> set gateway_names \<or> amount < 1 then (Inl invalid_request, d)
      else with_user tg (\<lambda>u. answer (\<lambda>r d'. JObj
         [(''payment_id'', JInt (py_payment_id r)), (''payment_url'', JStr (py_payment_url r)),
          (''expires_at'', JStr (iso_format (py_expires_at r))),
          (''amount_kopecks'', JInt (py_amount r))])
       (create_topup_payment e (u_id u) amount provider d)) d)"

definition promo_endpoint :: "env \<Rightarrow> int \<Rightarrow> string \<Rightarrow> db \<Rightarrow> (exn + json) \<times> db" where
  "promo_endpoint e tg code d =
     (if code = [] \<or> 64 < length code then (Inl invalid_request, d)
      else with_user tg (\<lambda>u. answer (\<lambda>r d'. JObj
         [(''type'', JStr (promo_type_str (pr_type r))),
          (''amount_kopecks'', json_opt_int (pr_amount r)),
          (''percent'', json_opt_int (pr_percent r)), (''promo_id'', JInt (pr_promo_id r)),
          (''message'', pr_message r), (''balance_kopecks'', json_opt_int (pr_balance r))])
       (validate_and_apply e code (u_id u) d)) d)"

definition free_trial_endpoint :: "env \<Rightarrow> int \<Rightarrow> db \<Rightarrow> (exn + json) \<times> db" where
  "free_trial_endpoint e tg d =
     with_user tg (\<lambda>u. answer (\<lambda>sid d'. JObj [(''subscription'', sub_row_json sid d')])
       (activate_free_trial e u d)) d"

text \<open>The request model ignores unknown fields: a \<open>promo_id\<close> in the body is dropped.\<close>

definition extend_endpoint ::
  "env \<Rightarrow> int \<Rightarrow> int \<Rightarrow> int \<Rightarrow> string \<Rightarrow> string option \<Rightarrow> db \<Rightarrow> (exn + json) \<times> db" where
  "extend_endpoint e sid tg did provider promo_code d =
     (if provider \<notin> set (''balance'' # gateway_names) then (Inl invalid_request, d)
      else with_user tg (\<lambda>u. answer (\<lambda>r d'. JObj
         [(''payment_id'', JInt (xr_payment_id r)), (''payment_url'', json_opt_str (xr_payment_url r)),
          (''amount_kopecks'', JInt (xr_amount r)), (''key_url'', json_opt_str (xr_key_url r))])
       (create_extension_payment e sid did (u_id u) provider promo_code d)) d)"

subsection \<open>Tariffs\<close>

definition duration_json :: "duration_row \<Rightarrow> json" where
  "duration_json td = JObj [(''id'', JInt (td_id td)), (''days'', JInt (td_days td)),
     (''price_kopecks'', JInt (td_price td)), (''is_hot'', JBool (td_is_hot td)),
     (''is_active'', JBool (td_is_active td))]"

text \<open>
  \<open>_serialize_tariff\<close>: the active durations by days.  The marketing fields and
  \<open>is_unlimited_traffic\<close> keep the defaults of the schema.
\<close>

definition active_durations :: "db \<Rightarrow> int \<Rightarrow> duration_row list" where
  "active_durations d tid =
     sort_key td_days (filter (\<lambda>td. td_tariff_id td = tid \<and> td_is_active td) (db_durations d))"

definition tariff_json :: "db \<Rightarrow> tariff_row \<Rightarrow> json" where
  "tariff_json d t = JObj
     [(''id'', JInt (t_id t)), (''code'', JStr (t_code t)), (''name'', JStr (t_name t)),
      (''description_html'', json_opt_str (t_description_html t)), (''devices'', JInt (t_devices t)),
      (''sort_order'', JInt (t_sort_order t)), (''is_active'', JBool (t_is_active t)),
      (''is_free_trial'', JBool (t_is_free_trial t)),
      (''free_trial_days'', json_opt_int (t_free_trial_days t)),
      (''traffic_gb_per_month'', JNull), (''lte_gb_per_month'', JNull),
      (''is_unlimited_traffic'', JBool False),
      (''durations'', JArr (List.map duration_json (active_durations d (t_id t))))]"

definition list_active_tariffs :: "db \<Rightarrow> tariff_row list" where
  "list_active_tariffs d = sort_key t_sort_order (filter t_is_active (db_tariffs d))"

text \<open>\<open>cached\<close> is the list in the backend's cache, kept for a minute.\<close>

definition tariffs_endpoint :: "json option \<Rightarrow> db \<Rightarrow> (exn + json) \<times> db" where
  "tariffs_endpoint cached d =
     (Inr (case cached of Some j \<Rightarrow> j | None \<Rightarrow> JArr (List.map (tariff_json d) (list_active_tariffs d))), d)"

subsection \<open>Tickets\<close>

definition open_ticket_endpoint ::
  "env \<Rightarrow> (nat \<Rightarrow> nat list) \<Rightarrow> int \<Rightarrow> ticket_kind \<Rightarrow> db \<Rightarrow> (exn + json) \<times> db" where
  "open_ticket_endpoint e rnd tg kind d =
     with_user tg (\<lambda>u. answer (\<lambda>t d'. JObj (ticket_json t)) (open_ticket e rnd (u_id u) kind d)) d"

definition ticket_row_json :: "int \<Rightarrow> db \<Rightarrow> json" where
  "ticket_row_json i d = (case get_ticket d i of None \<Rightarrow> JNull | Some t \<Rightarrow> JObj (ticket_json t))"

definition close_ticket_endpoint ::
  "env \<Rightarrow> int \<Rightarrow> closed_by \<Rightarrow> int option \<Rightarrow> db \<Rightarrow> (exn + json) \<times> db" where
  "close_ticket_endpoint e i who tg d =
     (if who = ByUser \<and> tg = None then (Inl invalid_request, d)
      else answer ticket_row_json (close_ticket e i who tg d))"

definition ticket_message_endpoint ::
  "env \<Rightarrow> int \<Rightarrow> string \<Rightarrow> string \<Rightarrow> string option \<Rightarrow> string option \<Rightarrow> string option \<Rightarrow> int option
    \<Rightarrow> db \<Rightarrow> (exn + json) \<times> db" where
  "ticket_message_endpoint e i direction mtype txt photo sticker tg d =
     (if direction \<notin> {from_user, from_admin} \<or> mtype \<notin> {''text'', ''photo'', ''sticker''}
         \<or> 255 < length (opt_str photo) \<or> 255 < length (opt_str sticker)
      then (Inl invalid_request, d)
      else answer no_content (record_message e i direction mtype txt photo sticker tg d))"

definition active_ticket_endpoint :: "int \<Rightarrow> db \<Rightarrow> (exn + json) \<times> db" where
  "active_ticket_endpoint tg d = (Inr (ticket_answer (active_ticket_for_tg d tg)), d)"

definition by_thread_endpoint :: "int \<Rightarrow> db \<Rightarrow> (exn + json) \<times> db" where
  "by_thread_endpoint th d = (Inr (ticket_answer (ticket_by_thread d th)), d)"

definition attach_topic_endpoint :: "env \<Rightarrow> int \<Rightarrow> int \<Rightarrow> db \<Rightarrow> (exn + json) \<times> db" where
  "attach_topic_endpoint e i th d = answer no_content (set_ticket_thread e i th d)"

definition get_topic_endpoint :: "int \<Rightarrow> db \<Rightarrow> (exn + json) \<times> db" where
  "get_topic_endpoint uid d =
     (Inr (case get_topic d uid of
             None \<Rightarrow> JObj [(''topic_thread_id'', JNull), (''topic_name'', JNull)]
           | Some r \<Rightarrow> JObj [(''topic_thread_id'', JInt (st_thread_id r)),
                             (''topic_name'', json_opt_str (st_name r))]), d)"

definition save_topic_endpoint :: "env \<Rightarrow> int \<Rightarrow> int \<Rightarrow> string \<Rightarrow> db \<Rightarrow> (exn + json) \<times> db" where
  "save_topic_endpoint e uid th name d =
     (if 255 < length name then (Inl invalid_request, d)
      else answer no_content (save_support_topic e uid th (Some name) d))"

subsection \<open>Logs\<close>

text \<open>
  \<open>POST /logs\<close>: one row, and an alert to the administrator when the level is critical.  The
  column \<open>user_id\<close> references \<open>users.id\<close>, which PostgreSQL enforces.
\<close>

definition bot_log_row ::
  "env \<Rightarrow> int \<Rightarrow> string \<Rightarrow> int option \<Rightarrow> string \<Rightarrow> (string \<times> json) list \<Rightarrow> db \<Rightarrow> log_row" where
  "bot_log_row e level event uid msg ctx d =
     \<lparr>lg_id = next_log d, lg_level = level, lg_event = event, lg_module = ''bot'', lg_user_id = uid,
      lg_message = msg, lg_context = Some ctx, lg_created_at = e_now e\<rparr>"

definition bot_log_endpoint ::
  "env \<Rightarrow> int \<Rightarrow> string \<Rightarrow> int option \<Rightarrow> string \<Rightarrow> (string \<times> json) list \<Rightarrow> db \<Rightarrow> (exn + json) \<times> db" where
  "bot_log_endpoint e level event uid msg ctx d =
     (if level < 0 \<or> 2 < level \<or> event = [] \<or> 128 < length event \<or> 8000 < length msg
      then (Inl invalid_request, d)
      else if e_dialect e = Postgresql \<and> (case uid of None \<Rightarrow> False | Some u \<Rightarrow> get_user d u = None)
      then (Inl (PyExn ''IntegrityError'' ''foreign key constraint''), d)
      else (Inr (JObj [(''ok'', JBool True)]),
            let d1 = ins_log (bot_log_row e level event uid msg ctx d) d
            in if level \<ge> level_critical
               then send_admin_alert e ''CRIT'' (if msg \<noteq> [] then msg else event)
                      (alert_details event uid ctx) (Some (''business:'' @ event)) d1
               else d1))"

section \<open>What a request may touch\<close>

text \<open>An endpoint that raises has changed nothing but what it committed before.\<close>

lemma with_user_Inr:
  "with_user tg k d = (Inr a, d') \<Longrightarrow> \<exists>u. user_by_tg d tg = Some u \<and> k u = (Inr a, d')"
  by (auto simp: with_user_def split: option.splits)

lemma with_user_known: "user_by_tg d tg = Some u \<Longrightarrow> with_user tg k d = k u"
  by (simp add: with_user_def)

lemma answer_Inr: "answer f r = (Inr j, d') \<longleftrightarrow> (\<exists>a. r = (Inr a, d') \<and> j = f a d')"
  by (cases r; cases "fst r") (auto simp: answer_def)

lemma snd_answer [simp]: "snd (answer f r) = snd r"
  by (cases r; cases "fst r") (auto simp: answer_def)

lemma map_of_ticket_json [simp]:
  "map_of (ticket_json t) ''id'' = Some (JInt (tk_id t))"
  "map_of (ticket_json t) ''code'' = Some (JStr (tk_code t))"
  "map_of (ticket_json t) ''user_id'' = Some (JInt (tk_user_id t))"
  "map_of (ticket_json t) ''kind'' = Some (JStr (ticket_kind_str (tk_kind t)))"
  "map_of (ticket_json t) ''status'' = Some (JStr (ticket_status_str (tk_status t)))"
  "map_of (ticket_json t) ''topic_thread_id'' = Some (json_opt_int (tk_thread_id t))"
  "map_of (ticket_json t) ''user_tg_id'' = None"
  "map_of (ticket_json t) ''user_username'' = None"
  by (simp_all add: ticket_json_def)

lemma map_of_user_json [simp]:
  "map_of (user_json u) ''id'' = Some (JInt (u_id u))"
  "map_of (user_json u) ''tg_id'' = Some (JInt (u_tg_id u))"
  "map_of (user_json u) ''username'' = Some (json_opt_str (u_username u))"
  "map_of (user_json u) ''first_name'' = Some (json_opt_str (u_first_name u))"
  "map_of (user_json u) ''is_banned'' = Some (JBool (u_is_banned u))"
  by (simp_all add: user_json_def)

end
