(* ===== verification/BotCore.thy ===== *)
theory BotCore
  imports BotApi
begin

text \<open>
  The bot process (\<open>bot/app\<close>): its state and the actions handlers are made of.  A handler is a
  function from the state to a result or an exception and the new state; nothing is undone when
  it raises.  The backend is the database under \<open>BotApi\<close> reached through \<open>BotClient\<close>;
  Telegram and Redis are arguments.  The texts of \<open>utils/texts.py\<close> are written \<open>JText key args\<close>:
  what the text service renders for the key with these arguments.
\<close>

type_synonym dict = "(string \<times> json) list"

section \<open>Telegram\<close>

datatype bot_call =
    SendMessage int "int option" json json
  | SendFile string int "int option" string "json option" json
  | CreateForumTopic int json
  | AckCallback "json option" bool
  | EditText int json json
  | EditMarkup int
  | DeleteMessage int
  | GetChatMember int

text \<open>
  \<open>SendMessage chat thread text markup\<close>, \<open>SendFile kind chat thread file caption markup\<close>; the
  calls on a callback's message name its chat.  A call answers a message or thread id.
\<close>

record tg_user =
  tu_id :: int
  tu_is_bot :: bool
  tu_profile :: profile

record message =
  ms_chat :: int
  ms_chat_type :: string
  ms_thread :: "int option"
  ms_from :: "tg_user option"
  ms_id :: int
  ms_text :: "string option"
  ms_caption :: "string option"
  ms_photo :: "string list"
  ms_media :: "(string \<times> string) list"
  ms_reply_to :: "(string list \<times> (string \<times> string) list) option"

text \<open>
  The sizes of the photo, smallest first, and the other media by kind (\<open>sticker\<close>, \<open>document\<close>,
  \<open>video\<close>, \<open>audio\<close>, \<open>voice\<close>, \<open>animation\<close>, \<open>video_note\<close>) with its file; the photo and media of
  the message it replies to.
\<close>

definition has_media :: "message \<Rightarrow> string list \<Rightarrow> bool" where
  "has_media m kinds = list_ex (\<lambda>k. map_of (ms_media m) k \<noteq> None) kinds"

record callback =
  cq_from :: tg_user
  cq_message :: "(int \<times> int option) option"
  cq_data :: "string option"

section \<open>Conversation states\<close>

datatype fsm_state =
    InTicket | AwaitingCloseConfirm
  | AwaitingBanReason
  | PurchasePromoInput | PurchasePaymentMethod | PurchaseAwaitingPayment
  | TopupAmountInput | TopupPaymentMethod
  | PromoInput
  | ExtendPromoInput | ExtendPaymentMethod | ExtendAwaitingPayment

record fsm =
  fs_state :: "fsm_state option"
  fs_data :: dict

definition no_fsm :: fsm where "no_fsm = \<lparr>fs_state = None, fs_data = []\<rparr>"

section \<open>The process\<close>

text \<open>\<open>int(float(s))\<close>: a whole number, \<open>ValueError\<close> or, for an infinite float, \<open>OverflowError\<close>.\<close>

datatype whole = Whole int | NotANumber | TooLarge

record bot_env =
  be_env :: env
  be_net :: "nat \<Rightarrow> net"
  be_tg :: "nat \<Rightarrow> bot_call \<Rightarrow> bot_exn + int"
  be_redis :: "nat \<Rightarrow> bool"
  be_rnd :: "nat \<Rightarrow> nat list"
  be_group :: "int option"
  be_media :: "string \<Rightarrow> (string \<times> string) option"
  be_fits_caption :: "json \<Rightarrow> bool"
  be_exc :: "bot_exn \<Rightarrow> string"
  be_detail :: "bot_exn \<Rightarrow> string"
  be_word :: "string \<Rightarrow> string"
  be_channel :: int
  be_member :: "int \<Rightarrow> string"
  be_channel_url :: string
  be_update_id :: int
  be_howto :: "string option"
  be_text_url :: "string \<Rightarrow> string option"
  be_tariff_cache :: "json option"
  be_whole :: "string \<Rightarrow> whole"
  be_command :: "message \<Rightarrow> (string \<times> string) option"

text \<open>
  The answers of the network, of Telegram and of Redis (\<open>True\<close> when the operation succeeds) by
  the number of operations made before; \<open>SUPPORT_GROUP_ID\<close>; the file and kind attached to a
  text; whether a rendered text fits a caption; \<open>str(exc)\<close> and the body of a refused request;
  the literals of the source that are not Latin-1, by name; the required channel, the status of
  its members and its link; the id of the update; \<open>HOWTO_CONNECT_URL\<close> and the links stored with button texts; the
  tariff list the backend has cached; \<open>int(float(s))\<close>; and the command of a message with its
  arguments, as aiogram reads it.
\<close>

record bot =
  bt_db :: db
  bt_requests :: nat
  bt_calls :: "(bot_call \<times> bot_exn option) list"
  bt_redis_ops :: nat
  bt_fsm :: "int \<times> int \<Rightarrow> fsm"
  bt_flood :: "int \<Rightarrow> (int \<times> int option) option"
  bt_subscribed :: "int \<Rightarrow> int option"

text \<open>
  The calls made so far with their errors, the conversation of a user in a chat, the flood
  counters with their expiry, and the cached channel membership with its expiry.
\<close>

type_synonym 'a act = "bot \<Rightarrow> (bot_exn + 'a) \<times> bot"

subsection \<open>Sequencing and exceptions\<close>

definition give :: "'a \<Rightarrow> 'a act" where "give a s = (Inr a, s)"

definition throw :: "bot_exn \<Rightarrow> 'a act" where "throw x s = (Inl x, s)"

definition await :: "'a act \<Rightarrow> ('a \<Rightarrow> 'b act) \<Rightarrow> 'b act" where
  "await m f s = (case m s of (Inl x, s') \<Rightarrow> (Inl x, s') | (Inr a, s') \<Rightarrow> f a s')"

definition andthen :: "unit act \<Rightarrow> 'b act \<Rightarrow> 'b act" where
  "andthen m n = await m (\<lambda>u. n)"

definition attempt :: "'a act \<Rightarrow> (bot_exn + 'a) act" where
  "attempt m s = (case m s of (r, s') \<Rightarrow> (Inr r, s'))"

text \<open>\<open>try: m except pred: pass\<close>.\<close>

definition suppress :: "(bot_exn \<Rightarrow> bool) \<Rightarrow> 'a act \<Rightarrow> unit act" where
  "suppress pred m s = (case m s of (Inl x, s') \<Rightarrow> (if pred x then Inr () else Inl x, s')
                                  | (Inr a, s') \<Rightarrow> (Inr (), s'))"

definition only_if :: "bool \<Rightarrow> unit act \<Rightarrow> unit act" where
  "only_if b m = (if b then m else give ())"

fun is_bad_request :: "bot_exn \<Rightarrow> bool" where
  "is_bad_request (TgBadRequest m) = True" | "is_bad_request _ = False"

fun is_forbidden :: "bot_exn \<Rightarrow> bool" where
  "is_forbidden (TgForbidden m) = True" | "is_forbidden _ = False"

fun is_client_error :: "bot_exn \<Rightarrow> bool" where
  "is_client_error (BackendClient st c p) = True" | "is_client_error _ = False"

fun is_status :: "int set \<Rightarrow> bot_exn \<Rightarrow> bool" where
  "is_status sts (BackendClient st c p) = (st \<in> sts)" | "is_status sts _ = False"

definition undeliverable :: "bot_exn \<Rightarrow> bool" where
  "undeliverable x \<longleftrightarrow> is_bad_request x \<or> is_forbidden x"

definition backend_error :: "bot_exn \<Rightarrow> bool" where
  "backend_error x \<longleftrightarrow> is_client_error x \<or> x = BackendUnavailable"

definition any_exn :: "bot_exn \<Rightarrow> bool" where "any_exn x = True"

fun exn_type :: "bot_exn \<Rightarrow> string" where
  "exn_type BackendUnavailable = ''BackendUnavailableError''"
| "exn_type (BackendClient st c p) =
     (if st = 409 then ''BackendConflictError'' else ''BackendClientError'')"
| "exn_type (TgBadRequest m) = ''TelegramBadRequest''"
| "exn_type (TgForbidden m) = ''TelegramForbiddenError''"
| "exn_type (TgOther m) = ''TelegramAPIError''"
| "exn_type (BotExn n m) = n"

subsection \<open>Operations\<close>

definition tg_result :: "bot_env \<Rightarrow> bot_call \<Rightarrow> int act" where
  "tg_result be c s =
     (let r = be_tg be (length (bt_calls s)) c in
      (r, s\<lparr>bt_calls := bt_calls s @ [(c, case r of Inl x \<Rightarrow> Some x | Inr i \<Rightarrow> None)]\<rparr>))"

definition tg :: "bot_env \<Rightarrow> bot_call \<Rightarrow> unit act" where
  "tg be c = await (tg_result be c) (\<lambda>i. give ())"

definition call :: "bot_env \<Rightarrow> bool \<Rightarrow> (db \<Rightarrow> (exn + 'a) \<times> db) \<Rightarrow> 'a act" where
  "call be idem f s =
     (case request (be_env be) (be_net be) idem f (bt_requests s) (bt_db s) of
        (r, n, d) \<Rightarrow> (r, s\<lparr>bt_requests := n, bt_db := d\<rparr>))"

definition get_state :: "int \<times> int \<Rightarrow> fsm act" where
  "get_state k s = (Inr (bt_fsm s k), s)"

definition set_state :: "int \<times> int \<Rightarrow> fsm_state option \<Rightarrow> unit act" where
  "set_state k st s = (Inr (), s\<lparr>bt_fsm := (bt_fsm s)(k := (bt_fsm s k)\<lparr>fs_state := st\<rparr>)\<rparr>)"

definition update_data :: "int \<times> int \<Rightarrow> dict \<Rightarrow> unit act" where
  "update_data k kvs s =
     (Inr (), s\<lparr>bt_fsm := (bt_fsm s)(k := (bt_fsm s k)
        \<lparr>fs_data := fold (\<lambda>kv. jset (fst kv) (snd kv)) kvs (fs_data (bt_fsm s k))\<rparr>)\<rparr>)"

definition clear_state :: "int \<times> int \<Rightarrow> unit act" where
  "clear_state k s = (Inr (), s\<lparr>bt_fsm := (bt_fsm s)(k := no_fsm)\<rparr>)"

lemma run_simps [simp]:
  "give a s = (Inr a, s)"
  "throw x s = (Inl x, s)"
  "only_if True m = m"
  "only_if False m = give ()"
  by (simp_all add: give_def throw_def only_if_def)

lemma await_run:
  "m s = (Inr a, s') \<Longrightarrow> await m f s = f a s'"
  "m s = (Inl x, s') \<Longrightarrow> await m f s = (Inl x, s')"
  by (simp_all add: await_def)

section \<open>Telegram calls handlers share\<close>

definition tx :: "string \<Rightarrow> json list \<Rightarrow> json" where "tx key args = JText key args"

definition no_kb :: json where "no_kb = JNull"

definition kb_button :: "string \<Rightarrow> string \<Rightarrow> json" where
  "kb_button key data = JObj [(''text'', tx key []), (''callback_data'', JStr data)]"

definition kb_url :: "string \<Rightarrow> json \<Rightarrow> json" where
  "kb_url key url = JObj [(''text'', tx key []), (''url'', url)]"

definition kb_rows :: "json list list \<Rightarrow> json" where
  "kb_rows rows = JObj [(''inline_keyboard'', JArr (List.map JArr rows))]"

definition send :: "bot_env \<Rightarrow> int \<Rightarrow> json \<Rightarrow> unit act" where
  "send be chat body = tg be (SendMessage chat None body no_kb)"

text \<open>\<open>message.answer\<close> and \<open>callback.message.answer\<close>: a message to the same chat and topic.\<close>

definition reply :: "bot_env \<Rightarrow> message \<Rightarrow> json \<Rightarrow> json \<Rightarrow> unit act" where
  "reply be m body kb = tg be (SendMessage (ms_chat m) (ms_thread m) body kb)"

definition ack :: "bot_env \<Rightarrow> unit act" where "ack be = tg be (AckCallback None False)"

definition alert :: "bot_env \<Rightarrow> json \<Rightarrow> unit act" where
  "alert be body = tg be (AckCallback (Some body) True)"

text \<open>
  \<open>send_text_or_media\<close>: a caption when the text fits one, otherwise the file and the text after
  it; a kind Telegram has no call for degrades to the text.
\<close>

definition send_entry :: "bot_env \<Rightarrow> int \<Rightarrow> string \<Rightarrow> json list \<Rightarrow> json \<Rightarrow> unit act" where
  "send_entry be chat key args kb =
     (case be_media be key of
        None \<Rightarrow> tg be (SendMessage chat None (tx key args) kb)
      | Some (file, kind) \<Rightarrow>
          if file = [] \<or> kind \<notin> {''photo'', ''video'', ''animation''}
          then tg be (SendMessage chat None (tx key args) kb)
          else if be_fits_caption be (tx key args)
          then tg be (SendFile kind chat None file (Some (tx key args)) kb)
          else andthen (tg be (SendFile kind chat None file None no_kb))
                 (tg be (SendMessage chat None (tx key args) kb)))"

datatype target = ToMessage message | ToCallback callback

text \<open>\<open>edit_text\<close>, or a fresh message when Telegram refuses the edit.\<close>

definition edit_or_answer :: "bot_env \<Rightarrow> int \<times> int option \<Rightarrow> json \<Rightarrow> json \<Rightarrow> unit act" where
  "edit_or_answer be ct body kb =
     await (attempt (tg be (EditText (fst ct) body kb)))
       (\<lambda>r. case r of
             Inl x \<Rightarrow> if is_bad_request x then tg be (SendMessage (fst ct) (snd ct) body kb) else throw x
           | Inr u \<Rightarrow> give ())"

definition safe_edit_or_answer :: "bot_env \<Rightarrow> target \<Rightarrow> json \<Rightarrow> json \<Rightarrow> unit act" where
  "safe_edit_or_answer be t body kb =
     (case t of
        ToMessage m \<Rightarrow> reply be m body kb
      | ToCallback c \<Rightarrow>
          andthen (suppress is_bad_request (ack be))
            (case cq_message c of None \<Rightarrow> give () | Some ct \<Rightarrow> edit_or_answer be ct body kb))"

definition safe_edit_or_send_media :: "bot_env \<Rightarrow> target \<Rightarrow> string \<Rightarrow> json list \<Rightarrow> json \<Rightarrow> unit act" where
  "safe_edit_or_send_media be t key args kb =
     (case t of
        ToMessage m \<Rightarrow> send_entry be (ms_chat m) key args kb
      | ToCallback c \<Rightarrow>
          andthen (suppress is_bad_request (ack be))
            (case cq_message c of
               None \<Rightarrow> give ()
             | Some ct \<Rightarrow>
                 if (case be_media be key of None \<Rightarrow> False | Some (file, kind) \<Rightarrow> file \<noteq> [])
                 then andthen (suppress is_bad_request (tg be (DeleteMessage (fst ct))))
                        (send_entry be (fst ct) key args kb)
                 else edit_or_answer be ct (tx key args) kb))"

section \<open>Requests to the backend\<close>

definition obj_of :: "json \<Rightarrow> dict" where
  "obj_of j = (case j of JObj kvs \<Rightarrow> kvs | _ \<Rightarrow> [])"

definition as_obj_opt :: "json option \<Rightarrow> dict option" where
  "as_obj_opt j = (case j of Some (JObj kvs) \<Rightarrow> Some kvs | _ \<Rightarrow> None)"

definition as_int_opt :: "json option \<Rightarrow> int option" where
  "as_int_opt j = (case j of Some (JInt i) \<Rightarrow> Some i | _ \<Rightarrow> None)"

text \<open>\<open>int(d.get(k) or 0)\<close> and \<open>str(d.get(k) or default)\<close> for the fields the backend sends.\<close>

definition int_or_zero :: "dict \<Rightarrow> string \<Rightarrow> int" where
  "int_or_zero d k = (case as_int_opt (map_of d k) of Some i \<Rightarrow> i | None \<Rightarrow> 0)"

definition str_or :: "string \<Rightarrow> dict \<Rightarrow> string \<Rightarrow> string" where
  "str_or dflt d k = (case map_of d k of Some (JStr s) \<Rightarrow> if s = [] then dflt else s | _ \<Rightarrow> dflt)"

definition user_id_of :: "dict option \<Rightarrow> int option" where
  "user_id_of u = (case u of None \<Rightarrow> None | Some d \<Rightarrow> as_int_opt (map_of d ''id''))"

text \<open>A 404 (or one of the given statuses) is the value \<open>None\<close>.\<close>

definition absent_on :: "int set \<Rightarrow> 'a option act \<Rightarrow> 'a option act" where
  "absent_on sts m = await (attempt m)
     (\<lambda>r. case r of Inl x \<Rightarrow> if is_status sts x then give None else throw x | Inr a \<Rightarrow> give a)"

definition inner_ticket :: "json \<Rightarrow> dict option" where
  "inner_ticket j = as_obj_opt (jfield j ''ticket'')"

definition get_active_ticket :: "bot_env \<Rightarrow> int \<Rightarrow> dict option act" where
  "get_active_ticket be u =
     absent_on {404} (await (call be True (active_ticket_endpoint u)) (\<lambda>j. give (inner_ticket j)))"

definition get_ticket_by_thread :: "bot_env \<Rightarrow> int \<Rightarrow> dict option act" where
  "get_ticket_by_thread be th =
     absent_on {404} (await (call be True (by_thread_endpoint th)) (\<lambda>j. give (inner_ticket j)))"

definition get_user_by_id :: "bot_env \<Rightarrow> int \<Rightarrow> dict option act" where
  "get_user_by_id be uid =
     absent_on {404, 405} (await (call be True (user_by_id_endpoint uid))
       (\<lambda>j. give (if obj_of j = [] then None else Some (obj_of j))))"

definition upsert_user_call :: "bot_env \<Rightarrow> tg_user \<Rightarrow> string option \<Rightarrow> dict act" where
  "upsert_user_call be u payload =
     await (call be True (upsert_user_endpoint (be_env be) (tu_id u) (tu_profile u) payload))
       (\<lambda>j. give (obj_of j))"

definition open_ticket_call :: "bot_env \<Rightarrow> int \<Rightarrow> ticket_kind \<Rightarrow> dict act" where
  "open_ticket_call be u kind =
     await (call be True (open_ticket_endpoint (be_env be) (be_rnd be) u kind)) (\<lambda>j. give (obj_of j))"

definition close_ticket_call :: "bot_env \<Rightarrow> int \<Rightarrow> closed_by \<Rightarrow> int option \<Rightarrow> dict act" where
  "close_ticket_call be i who u =
     await (call be True (close_ticket_endpoint (be_env be) i who u)) (\<lambda>j. give (obj_of j))"

definition record_ticket_message ::
  "bot_env \<Rightarrow> int \<Rightarrow> string \<Rightarrow> string \<Rightarrow> string option \<Rightarrow> string option \<Rightarrow> string option \<Rightarrow> int option \<Rightarrow> unit act" where
  "record_ticket_message be i direction mtype txt photo sticker mid =
     await (call be True (ticket_message_endpoint (be_env be) i direction mtype txt photo sticker mid))
       (\<lambda>j. give ())"

definition get_support_topic :: "bot_env \<Rightarrow> int \<Rightarrow> int option act" where
  "get_support_topic be uid =
     absent_on {404} (await (call be True (get_topic_endpoint uid))
       (\<lambda>j. give (as_int_opt (jfield j ''topic_thread_id''))))"

definition save_support_topic_call :: "bot_env \<Rightarrow> int \<Rightarrow> int \<Rightarrow> string \<Rightarrow> unit act" where
  "save_support_topic_call be uid th name =
     await (call be True (save_topic_endpoint (be_env be) uid th name)) (\<lambda>j. give ())"

definition attach_topic_to_ticket :: "bot_env \<Rightarrow> int \<Rightarrow> int \<Rightarrow> unit act" where
  "attach_topic_to_ticket be i th =
     await (call be True (attach_topic_endpoint (be_env be) i th)) (\<lambda>j. give ())"

definition ban_user_by_tg :: "bot_env \<Rightarrow> int \<Rightarrow> string \<Rightarrow> unit act" where
  "ban_user_by_tg be u reason = await (call be True (ban_endpoint (be_env be) u reason)) (\<lambda>j. give ())"

definition unban_user_by_tg :: "bot_env \<Rightarrow> int \<Rightarrow> unit act" where
  "unban_user_by_tg be u = await (call be True (unban_endpoint (be_env be) u)) (\<lambda>j. give ())"

definition get_user_balance :: "bot_env \<Rightarrow> int \<Rightarrow> int act" where
  "get_user_balance be u =
     await (call be True (balance_endpoint u)) (\<lambda>j. give (int_or_zero (obj_of j) ''balance_kopecks''))"

definition objs_of :: "json \<Rightarrow> dict list" where
  "objs_of j = (case j of JArr js \<Rightarrow> List.map obj_of (filter (\<lambda>x. case x of JObj kvs \<Rightarrow> True | _ \<Rightarrow> False) js)
                | _ \<Rightarrow> [])"

definition get_user_subscriptions :: "bot_env \<Rightarrow> int \<Rightarrow> dict list act" where
  "get_user_subscriptions be u =
     await (absent_on {404} (await (call be True (user_subscriptions_endpoint (be_env be) u))
             (\<lambda>j. give (Some (objs_of j)))))
       (\<lambda>r. give (case r of None \<Rightarrow> [] | Some xs \<Rightarrow> xs))"

text \<open>\<open>bot_log\<close>: delivered to the backend when it answers, never raising.\<close>

definition bot_log :: "bot_env \<Rightarrow> int \<Rightarrow> string \<Rightarrow> int option \<Rightarrow> string \<Rightarrow> dict \<Rightarrow> unit act" where
  "bot_log be level event uid msg ctx =
     suppress any_exn (call be True (bot_log_endpoint (be_env be) level event uid msg ctx))"

definition report_backend_unavailable ::
  "bot_env \<Rightarrow> target \<Rightarrow> int option \<Rightarrow> bot_exn \<Rightarrow> string \<Rightarrow> unit act" where
  "report_backend_unavailable be t uid x event =
     andthen (safe_edit_or_answer be t (tx ''service_unavailable'' []) no_kb)
       (bot_log be level_warning event uid (be_exc be x)
          [(''error'', JStr (be_exc be x)), (''type'', JStr (exn_type x))])"

definition report_unexpected ::
  "bot_env \<Rightarrow> target \<Rightarrow> int option \<Rightarrow> bot_exn \<Rightarrow> string \<Rightarrow> dict \<Rightarrow> unit act" where
  "report_unexpected be t uid x event ctx =
     andthen (suppress any_exn (safe_edit_or_answer be t (tx ''unexpected_error'' []) no_kb))
       (bot_log be level_critical event uid (exn_type x @ '': '' @ be_exc be x)
          (jset ''type'' (JStr (exn_type x)) ctx))"

text \<open>The usual guard of a handler: unreachable backend, any other exception, result.\<close>

definition guarded ::
  "bot_env \<Rightarrow> target \<Rightarrow> int option \<Rightarrow> string \<Rightarrow> string \<Rightarrow> dict \<Rightarrow> 'a act \<Rightarrow> ('a \<Rightarrow> unit act) \<Rightarrow> unit act" where
  "guarded be t uid unavailable unexpected ctx m f =
     await (attempt m) (\<lambda>r. case r of
         Inl x \<Rightarrow> if x = BackendUnavailable then report_backend_unavailable be t uid x unavailable
                  else report_unexpected be t uid x unexpected ctx
       | Inr a \<Rightarrow> f a)"

end
