(* ===== verification/BotSupport.thy ===== *)
theory BotSupport
  imports BotCore
begin

text \<open>
  The user's side of support: the forum topics (\<open>services/support_topic_helper.py\<close>), the ticket
  keyboards (\<open>keyboards/ticket.py\<close>, \<open>keyboards/ticket_admin.py\<close>) and the handlers of
  \<open>handlers/support.py\<close>.
\<close>

section \<open>Keyboards\<close>

definition support_no_ticket_kb :: json where
  "support_no_ticket_kb = kb_rows [[kb_button ''btn.ticket.create_support'' ''ticket:create:support''],
                                   [kb_button ''btn.common.back'' ''main_menu'']]"

definition idea_no_ticket_kb :: json where
  "idea_no_ticket_kb = kb_rows [[kb_button ''btn.ticket.create_idea'' ''ticket:create:idea''],
                                [kb_button ''btn.common.back'' ''main_menu'']]"

definition ticket_active_reply_kb :: "bot_env \<Rightarrow> json" where
  "ticket_active_reply_kb be =
     JObj [(''keyboard'', JArr [JArr [JObj [(''text'', JStr (be_word be ''close_ticket''))]]]),
           (''resize_keyboard'', JBool True), (''one_time_keyboard'', JBool False)]"

definition remove_kb :: json where
  "remove_kb = JObj [(''remove_keyboard'', JBool True)]"

definition ticket_close_confirm_kb :: json where
  "ticket_close_confirm_kb = kb_rows [[kb_button ''btn.ticket.close_yes'' ''ticket:close:yes'',
                                       kb_button ''btn.ticket.close_no'' ''ticket:close:no'']]"

definition ticket_admin_actions_kb :: "int \<Rightarrow> json" where
  "ticket_admin_actions_kb i = kb_rows [[kb_button ''ban'' (''tadm:ban:'' @ py_str i),
                                         kb_button ''close_ticket'' (''tadm:close:'' @ py_str i)]]"

definition ban_reason_cancel_kb :: json where
  "ban_reason_cancel_kb = kb_rows [[kb_button ''cancel'' ''tadm:ban_cancel'']]"

section \<open>Topics\<close>

definition topic_gone_markers :: "string list" where
  "topic_gone_markers = [''TOPIC_CLOSED'', ''TOPIC_DELETED'', ''MESSAGE_THREAD_NOT_FOUND'']"

fun is_topic_gone :: "bot_exn \<Rightarrow> bool" where
  "is_topic_gone (TgBadRequest msg) = list_ex (\<lambda>k. mentions k (str_upper msg)) topic_gone_markers"
| "is_topic_gone _ = False"

text \<open>Handlers pass the backend's user when the middleware found one, else the Telegram user.\<close>

datatype user_src = DbUser dict | FromUser tg_user

fun resolve_user_fields :: "user_src \<Rightarrow> int \<times> string \<times> string option" where
  "resolve_user_fields (DbUser d) =
     (int_or_zero d ''id'', str_or ''user'' d ''first_name'', str_of (map_of d ''username''))"
| "resolve_user_fields (FromUser u) =
     (0, if str_truthy (pf_first_name (tu_profile u)) then the (pf_first_name (tu_profile u)) else ''user'',
      pf_username (tu_profile u))"

definition runtime_error :: "string \<Rightarrow> bot_exn" where
  "runtime_error msg = BotExn ''RuntimeError'' msg"

definition topic_name :: "string \<Rightarrow> string \<Rightarrow> string" where
  "topic_name code first = take 127 (code @ '' '' @ [CHR 0xB7] @ '' '' @ first)"

definition create_topic :: "bot_env \<Rightarrow> int \<Rightarrow> int \<Rightarrow> string \<Rightarrow> string \<Rightarrow> int act" where
  "create_topic be g uid code name =
     await (tg_result be (CreateForumTopic g (JStr name))) (\<lambda>th.
       andthen (save_support_topic_call be uid th name)
         (andthen (bot_log be level_info ''support_topic_created'' (Some uid)
                     (''Created support topic for '' @ code)
                     [(''thread_id'', JInt th), (''name'', JStr name)])
            (give th)))"

definition ensure_support_topic :: "bot_env \<Rightarrow> user_src \<Rightarrow> string \<Rightarrow> int act" where
  "ensure_support_topic be u code =
     (case be_group be of
        None \<Rightarrow> throw (runtime_error ''SUPPORT_GROUP_ID is not configured'')
      | Some g \<Rightarrow>
          (case resolve_user_fields u of (uid, first, username) \<Rightarrow>
             if uid \<le> 0 then throw (runtime_error ''ensure_support_topic: backend user id is missing'')
             else await (get_support_topic be uid) (\<lambda>cached.
               case cached of
                 Some th \<Rightarrow> if th \<noteq> 0 then give th else create_topic be g uid code (topic_name code first)
               | None \<Rightarrow> create_topic be g uid code (topic_name code first))))"

subsection \<open>The user's message in the topic\<close>

definition message_body :: "message \<Rightarrow> string" where
  "message_body m =
     (case ms_text m of Some t \<Rightarrow> t | None \<Rightarrow> (case ms_caption m of Some c \<Rightarrow> c | None \<Rightarrow> []))"

definition or_dash :: "bot_env \<Rightarrow> string \<Rightarrow> string" where
  "or_dash be s = (if s = [] then be_word be ''dash'' else s)"

definition user_header :: "bot_env \<Rightarrow> dict \<Rightarrow> user_src \<Rightarrow> message \<Rightarrow> json" where
  "user_header be ticket u m =
     (case resolve_user_fields u of (uid, first, username) \<Rightarrow>
        tx (if map_of ticket ''kind'' = Some (JStr ''idea'')
            then ''support_topic_user_idea'' else ''support_topic_user_message'')
          [JStr (or_dash be (str_or [] ticket ''code'')), JStr (or_dash be first),
           JStr (case username of Some n \<Rightarrow> if n = [] then be_word be ''dash'' else ''@'' @ n
                 | None \<Rightarrow> be_word be ''dash''),
           JStr (message_body m)])"

definition topic_envelope :: "bot_env \<Rightarrow> int \<Rightarrow> dict \<Rightarrow> user_src \<Rightarrow> message \<Rightarrow> bot_call" where
  "topic_envelope be g ticket u m =
     (let th = int_or_zero ticket ''topic_thread_id'';
          kb = ticket_admin_actions_kb (int_or_zero ticket ''id'')
      in if ms_photo m \<noteq> []
         then SendFile ''photo'' g (Some th) (last (ms_photo m)) (Some (user_header be ticket u m)) kb
         else SendMessage g (Some th) (user_header be ticket u m) kb)"

definition ticket_user :: "dict \<Rightarrow> int option" where
  "ticket_user ticket = as_int_opt (map_of ticket ''user_id'')"

definition forward_failed :: "bot_env \<Rightarrow> dict \<Rightarrow> int \<Rightarrow> bot_exn \<Rightarrow> unit act" where
  "forward_failed be ticket retry x =
     andthen (bot_log be level_critical ''support_topic_forward_failed'' (ticket_user ticket)
                (''Failed to deliver user message to topic: '' @ be_exc be x)
                [(''ticket_id'', JInt (int_or_zero ticket ''id'')),
                 (''thread_id'', JInt (int_or_zero ticket ''topic_thread_id'')),
                 (''retry'', JInt retry)])
       (throw x)"

definition forward_forbidden :: "bot_env \<Rightarrow> dict \<Rightarrow> bot_exn \<Rightarrow> unit act" where
  "forward_forbidden be ticket x =
     andthen (bot_log be level_critical ''support_topic_forbidden'' (ticket_user ticket)
                (''Bot forbidden in support group: '' @ be_exc be x)
                [(''ticket_id'', JInt (int_or_zero ticket ''id'')),
                 (''thread_id'', JInt (int_or_zero ticket ''topic_thread_id''))])
       (throw x)"

text \<open>One attempt; \<open>gone\<close> is what happens when the topic has vanished.\<close>

definition forward_once ::
  "bot_env \<Rightarrow> int \<Rightarrow> dict \<Rightarrow> user_src \<Rightarrow> message \<Rightarrow> int \<Rightarrow> (bot_exn \<Rightarrow> unit act) \<Rightarrow> unit act" where
  "forward_once be g ticket u m retry gone =
     await (attempt (tg be (topic_envelope be g ticket u m))) (\<lambda>r. case r of
         Inr ok \<Rightarrow> give ()
       | Inl x \<Rightarrow> if is_topic_gone x then gone x
                  else if is_bad_request x then forward_failed be ticket retry x
                  else if is_forbidden x then forward_forbidden be ticket x
                  else throw x)"

definition forward_user_message_to_topic ::
  "bot_env \<Rightarrow> dict \<Rightarrow> user_src \<Rightarrow> message \<Rightarrow> unit act" where
  "forward_user_message_to_topic be ticket u m =
     (case be_group be of
        None \<Rightarrow> throw (runtime_error ''SUPPORT_GROUP_ID is not configured'')
      | Some g \<Rightarrow>
          forward_once be g ticket u m 0 (\<lambda>x.
            await (ensure_support_topic be u (or_dash be (str_or [] ticket ''code''))) (\<lambda>th.
              andthen (suppress any_exn (attach_topic_to_ticket be (int_or_zero ticket ''id'') th))
                (let ticket' = jset ''topic_thread_id'' (JInt th) ticket
                 in forward_once be g ticket' u m 1 (forward_failed be ticket' 1)))))"

subsection \<open>Notices\<close>

definition send_to_topic :: "bot_env \<Rightarrow> int \<Rightarrow> json \<Rightarrow> unit act" where
  "send_to_topic be th body =
     (case be_group be of None \<Rightarrow> give ()
      | Some g \<Rightarrow> suppress undeliverable (tg be (SendMessage g (Some th) body no_kb)))"

definition notify_topic_separator :: "bot_env \<Rightarrow> int \<Rightarrow> string \<Rightarrow> unit act" where
  "notify_topic_separator be th code = send_to_topic be th (tx ''support_topic_separator'' [JStr code])"

definition notify_topic_user_closed :: "bot_env \<Rightarrow> int \<Rightarrow> string \<Rightarrow> unit act" where
  "notify_topic_user_closed be th code = send_to_topic be th (tx ''support_topic_user_closed'' [JStr code])"

definition notify_topic_admin_closed :: "bot_env \<Rightarrow> int \<Rightarrow> string \<Rightarrow> unit act" where
  "notify_topic_admin_closed be th code = send_to_topic be th (tx ''support_topic_admin_closed'' [JStr code])"

definition notify_topic_user_banned :: "bot_env \<Rightarrow> int \<Rightarrow> string \<Rightarrow> string \<Rightarrow> unit act" where
  "notify_topic_user_banned be th username reason =
     send_to_topic be th (tx ''support_topic_user_banned'' [JStr (or_dash be username), JStr (or_dash be reason)])"

definition notify_topic_user_unbanned :: "bot_env \<Rightarrow> int \<Rightarrow> string \<Rightarrow> unit act" where
  "notify_topic_user_unbanned be th username =
     send_to_topic be th (tx ''support_topic_user_unbanned'' [JStr (or_dash be username)])"

definition notify_topic_no_open_ticket :: "bot_env \<Rightarrow> int \<Rightarrow> unit act" where
  "notify_topic_no_open_ticket be th = send_to_topic be th (tx ''support_topic_no_open_ticket'' [])"

definition notify_user_banned :: "bot_env \<Rightarrow> int \<Rightarrow> string \<Rightarrow> unit act" where
  "notify_user_banned be u reason =
     suppress undeliverable (send be u (tx ''support_user_banned_notice'' [JStr (or_dash be reason)]))"

definition notify_user_unbanned :: "bot_env \<Rightarrow> int \<Rightarrow> unit act" where
  "notify_user_unbanned be u =
     suppress undeliverable (send be u (tx ''support_user_unbanned_notice'' []))"

section \<open>Flood control\<close>

definition flood_limit :: int where "flood_limit = 30"
definition flood_window :: int where "flood_window = 60"

definition live_count :: "env \<Rightarrow> (int \<times> int option) option \<Rightarrow> int \<times> int option" where
  "live_count e c =
     (case c of None \<Rightarrow> (0, None)
      | Some (n, exp) \<Rightarrow>
          (case exp of None \<Rightarrow> (n, None) | Some t \<Rightarrow> if t \<le> e_now e then (0, None) else (n, Some t)))"

text \<open>\<open>INCR\<close> keeps the expiry of the key; \<open>EXPIRE\<close> is sent for a count of one only.\<close>

definition is_flooded :: "bot_env \<Rightarrow> int \<Rightarrow> bool act" where
  "is_flooded be u s =
     (let k = bt_redis_ops s in
      if \<not> be_redis be k then (Inr False, s\<lparr>bt_redis_ops := Suc k\<rparr>)
      else case live_count (be_env be) (bt_flood s u) of (n, exp) \<Rightarrow>
        (let exp' = (if n = 0 then (if be_redis be (Suc k)
                                    then Some (e_now (be_env be) + seconds flood_window) else None)
                     else exp)
         in (Inr (n + 1 > flood_limit),
             s\<lparr>bt_redis_ops := (if n = 0 then k + 2 else k + 1),
               bt_flood := (bt_flood s)(u := Some (n + 1, exp'))\<rparr>)))"

section \<open>Handlers\<close>

definition cq_key :: "callback \<Rightarrow> int \<times> int" where
  "cq_key c = ((case cq_message c of None \<Rightarrow> tu_id (cq_from c) | Some ct \<Rightarrow> fst ct), tu_id (cq_from c))"

definition dget :: "dict \<Rightarrow> string \<Rightarrow> json" where
  "dget d k = (case map_of d k of None \<Rightarrow> JNull | Some j \<Rightarrow> j)"

definition mount_kb :: "bot_env \<Rightarrow> callback \<Rightarrow> json \<Rightarrow> unit act" where
  "mount_kb be c kb =
     (case cq_message c of None \<Rightarrow> give ()
      | Some ct \<Rightarrow> suppress is_bad_request (tg be (SendMessage (fst ct) (snd ct) (tx ''ellipsis'' []) kb)))"

definition enter_active_ticket :: "bot_env \<Rightarrow> callback \<Rightarrow> dict \<Rightarrow> string \<Rightarrow> unit act" where
  "enter_active_ticket be c ticket key =
     (let code = str_or [] ticket ''code'' in
      andthen (safe_edit_or_send_media be (ToCallback c) key [JStr code] no_kb)
     (andthen (set_state (cq_key c) (Some InTicket))
     (andthen (update_data (cq_key c)
                 [(''ticket_id'', dget ticket ''id''), (''ticket_code'', JStr code),
                  (''ticket_kind'', JStr (str_or ''support'' ticket ''kind''))])
              (mount_kb be c (ticket_active_reply_kb be)))))"

definition cb_support :: "bot_env \<Rightarrow> callback \<Rightarrow> dict option \<Rightarrow> unit act" where
  "cb_support be c db_user =
     guarded be (ToCallback c) (user_id_of db_user) ''support_active_ticket_backend_unavailable''
       ''support_active_ticket_unexpected'' [] (get_active_ticket be (tu_id (cq_from c)))
       (\<lambda>t. case t of
          None \<Rightarrow> safe_edit_or_send_media be (ToCallback c) ''support_no_active_ticket'' [] support_no_ticket_kb
        | Some ticket \<Rightarrow> enter_active_ticket be c ticket ''support_active_ticket'')"

definition cb_idea :: "bot_env \<Rightarrow> callback \<Rightarrow> dict option \<Rightarrow> unit act" where
  "cb_idea be c db_user =
     guarded be (ToCallback c) (user_id_of db_user) ''idea_active_ticket_backend_unavailable''
       ''idea_active_ticket_unexpected'' [] (get_active_ticket be (tu_id (cq_from c)))
       (\<lambda>t. case t of
          None \<Rightarrow> safe_edit_or_send_media be (ToCallback c) ''idea_no_active_ticket'' [] idea_no_ticket_kb
        | Some ticket \<Rightarrow> enter_active_ticket be c ticket
            (if map_of ticket ''kind'' = Some (JStr ''idea'') then ''idea_active_ticket''
             else ''support_active_ticket''))"

subsection \<open>Opening a ticket\<close>

fun payload_of :: "bot_exn \<Rightarrow> dict" where
  "payload_of (BackendClient st c p) = p" | "payload_of _ = []"

fun error_code_of :: "bot_exn \<Rightarrow> string option" where
  "error_code_of (BackendClient st c p) = c" | "error_code_of _ = None"

definition existing_code :: "bot_exn \<Rightarrow> string" where
  "existing_code x = (let c = str_or [] (payload_of x) ''code'' in
     if c = [] then str_or [] (payload_of x) ''ticket_code'' else c)"

definition open_refused :: "bot_env \<Rightarrow> callback \<Rightarrow> dict option \<Rightarrow> ticket_kind \<Rightarrow> bot_exn \<Rightarrow> unit act" where
  "open_refused be c db_user kind x =
     (if is_conflict x
      then andthen (safe_edit_or_answer be (ToCallback c)
                      (tx ''support_already_open'' [JStr (or_dash be (existing_code x))]) no_kb)
             (bot_log be level_info ''ticket_open_conflict'' (user_id_of db_user)
                ''User attempted to open a second ticket''
                [(''kind'', JStr (ticket_kind_str kind)), (''tg_id'', JInt (tu_id (cq_from c)))])
      else if is_client_error x
      then report_unexpected be (ToCallback c) (user_id_of db_user) x ''ticket_open_client_error''
             [(''kind'', JStr (ticket_kind_str kind)), (''error_code'', json_opt_str (error_code_of x))]
      else if x = BackendUnavailable
      then report_backend_unavailable be (ToCallback c) (user_id_of db_user) x ''ticket_open_backend_unavailable''
      else report_unexpected be (ToCallback c) (user_id_of db_user) x ''ticket_open_unexpected''
             [(''kind'', JStr (ticket_kind_str kind))])"

definition user_src_of :: "dict option \<Rightarrow> tg_user \<Rightarrow> user_src" where
  "user_src_of db_user u = (case db_user of Some d \<Rightarrow> DbUser d | None \<Rightarrow> FromUser u)"

definition provision_topic :: "bot_env \<Rightarrow> user_src \<Rightarrow> dict \<Rightarrow> string \<Rightarrow> unit act" where
  "provision_topic be u ticket code =
     suppress any_exn (await (ensure_support_topic be u code) (\<lambda>th.
       case as_int_opt (map_of ticket ''id'') of
         None \<Rightarrow> give ()
       | Some i \<Rightarrow> andthen (suppress any_exn (attach_topic_to_ticket be i th))
                     (suppress any_exn (notify_topic_separator be th code))))"

definition ticket_opened :: "bot_env \<Rightarrow> callback \<Rightarrow> dict option \<Rightarrow> ticket_kind \<Rightarrow> dict \<Rightarrow> unit act" where
  "ticket_opened be c db_user kind ticket =
     (let code = str_or [] ticket ''code'' in
      andthen (safe_edit_or_send_media be (ToCallback c)
                 (if kind = TkSupport then ''support_ticket_created'' else ''idea_ticket_created'')
                 [JStr code] no_kb)
     (andthen (set_state (cq_key c) (Some InTicket))
     (andthen (update_data (cq_key c)
                 [(''ticket_id'', dget ticket ''id''), (''ticket_code'', JStr code),
                  (''ticket_kind'', JStr (ticket_kind_str kind))])
     (andthen (mount_kb be c (ticket_active_reply_kb be))
     (andthen (provision_topic be (user_src_of db_user (cq_from c)) ticket code)
              (bot_log be level_info ''ticket_opened'' (user_id_of db_user) ''User opened a ticket''
                 [(''kind'', JStr (ticket_kind_str kind)), (''tg_id'', JInt (tu_id (cq_from c))),
                  (''code'', JStr code)]))))))"

definition cb_ticket_create :: "bot_env \<Rightarrow> callback \<Rightarrow> dict option \<Rightarrow> unit act" where
  "cb_ticket_create be c db_user =
     (case cq_data c of
        None \<Rightarrow> ack be
      | Some data \<Rightarrow>
          (let kind = (if data = ''ticket:create:support'' then TkSupport else TkIdea) in
           await (attempt (open_ticket_call be (tu_id (cq_from c)) kind)) (\<lambda>r. case r of
               Inl x \<Rightarrow> open_refused be c db_user kind x
             | Inr ticket \<Rightarrow> ticket_opened be c db_user kind ticket)))"

subsection \<open>Closing a ticket\<close>

definition ms_key :: "message \<Rightarrow> int \<times> int" where
  "ms_key m = (ms_chat m, case ms_from m of None \<Rightarrow> ms_chat m | Some u \<Rightarrow> tu_id u)"

definition msg_close_button :: "bot_env \<Rightarrow> message \<Rightarrow> unit act" where
  "msg_close_button be m =
     await (get_state (ms_key m)) (\<lambda>f.
       andthen (reply be m
                  (tx ''close_ticket_prompt''
                     [tx ''support_active_ticket'' [JStr (or_dash be (str_or [] (fs_data f) ''ticket_code''))]])
                  ticket_close_confirm_kb)
         (set_state (ms_key m) (Some AwaitingCloseConfirm)))"

definition cb_ticket_close_no :: "bot_env \<Rightarrow> callback \<Rightarrow> unit act" where
  "cb_ticket_close_no be c =
     andthen (safe_edit_or_answer be (ToCallback c) (tx ''support_close_cancelled'' []) no_kb)
       (set_state (cq_key c) (Some InTicket))"

definition topic_to_notify :: "bot_env \<Rightarrow> dict option \<Rightarrow> dict \<Rightarrow> int option act" where
  "topic_to_notify be db_user data =
     (case as_int_opt (map_of data ''topic_thread_id'') of
        Some th \<Rightarrow> give (Some th)
      | None \<Rightarrow> (case user_id_of db_user of
                   None \<Rightarrow> give None
                 | Some uid \<Rightarrow> await (attempt (get_support_topic be uid))
                     (\<lambda>r. case r of Inl x \<Rightarrow> give None | Inr t \<Rightarrow> give t)))"

definition user_closed :: "bot_env \<Rightarrow> callback \<Rightarrow> dict option \<Rightarrow> dict \<Rightarrow> int \<Rightarrow> string \<Rightarrow> unit act" where
  "user_closed be c db_user data i code =
     andthen (safe_edit_or_answer be (ToCallback c) (tx ''support_ticket_closed_by_user'' [JStr code]) no_kb)
    (andthen (mount_kb be c remove_kb)
    (andthen (await (topic_to_notify be db_user data) (\<lambda>t. case t of
                None \<Rightarrow> give ()
              | Some th \<Rightarrow> suppress any_exn (notify_topic_user_closed be th code)))
    (andthen (clear_state (cq_key c))
             (bot_log be level_info ''ticket_closed_by_user'' (user_id_of db_user)
                ''User closed their ticket'' [(''ticket_id'', JInt i), (''code'', JStr code)]))))"

definition cb_ticket_close_yes :: "bot_env \<Rightarrow> callback \<Rightarrow> dict option \<Rightarrow> unit act" where
  "cb_ticket_close_yes be c db_user =
     await (get_state (cq_key c)) (\<lambda>f.
       let data = fs_data f; code = or_dash be (str_or [] data ''ticket_code'') in
       case as_int_opt (map_of data ''ticket_id'') of
         None \<Rightarrow> andthen (clear_state (cq_key c))
                   (safe_edit_or_answer be (ToCallback c) (tx ''support_close_cancelled'' []) no_kb)
       | Some i \<Rightarrow>
           guarded be (ToCallback c) (user_id_of db_user) ''ticket_close_backend_unavailable''
             ''ticket_close_unexpected'' [(''ticket_id'', JInt i)]
             (close_ticket_call be i ByUser (Some (tu_id (cq_from c))))
             (\<lambda>closed. user_closed be c db_user data i code))"

subsection \<open>Messages in a ticket\<close>

definition rejected_kinds :: "string list" where
  "rejected_kinds = [''document'', ''video'', ''audio'', ''voice'', ''animation'', ''video_note'']"

definition forward_photo :: "bot_env \<Rightarrow> message \<Rightarrow> user_src \<Rightarrow> dict \<Rightarrow> int \<Rightarrow> unit act" where
  "forward_photo be m u ticket i =
     andthen (suppress backend_error
                (record_ticket_message be i from_user ''photo''
                   (if str_truthy (ms_caption m) then ms_caption m else None)
                   (Some (last (ms_photo m))) None (Some (ms_id m))))
       (suppress any_exn (forward_user_message_to_topic be ticket u m))"

definition forward_text :: "bot_env \<Rightarrow> message \<Rightarrow> int option \<Rightarrow> user_src \<Rightarrow> dict \<Rightarrow> int \<Rightarrow> string \<Rightarrow> unit act" where
  "forward_text be m uid u ticket i txt_value =
     andthen (await (attempt (record_ticket_message be i from_user ''text'' (Some txt_value) None None
                       (Some (ms_id m))))
                (\<lambda>r. case r of
                   Inr ok \<Rightarrow> give ()
                 | Inl x \<Rightarrow> if backend_error x
                            then bot_log be level_warning ''support_record_text_failed'' uid (be_exc be x)
                                   [(''ticket_id'', JInt i)]
                            else throw x))
       (suppress any_exn (forward_user_message_to_topic be ticket u m))"

definition in_open_ticket :: "bot_env \<Rightarrow> message \<Rightarrow> tg_user \<Rightarrow> dict option \<Rightarrow> dict \<Rightarrow> unit act" where
  "in_open_ticket be m from db_user ticket =
     (case as_int_opt (map_of ticket ''id'') of
        None \<Rightarrow> andthen (clear_state (ms_key m)) (reply be m (tx ''support_outside_ticket_nudge'' []) no_kb)
      | Some i \<Rightarrow>
          if has_media m [''sticker''] then reply be m (tx ''support_sticker_rejected'' []) no_kb
          else if has_media m rejected_kinds then reply be m (tx ''support_unsupported_media'' []) no_kb
          else if ms_photo m \<noteq> [] then forward_photo be m (user_src_of db_user from) ticket i
          else if opt_str (ms_text m) = [] then reply be m (tx ''support_unsupported_media'' []) no_kb
          else forward_text be m (user_id_of db_user) (user_src_of db_user from) ticket i (opt_str (ms_text m)))"

definition msg_in_ticket :: "bot_env \<Rightarrow> message \<Rightarrow> dict option \<Rightarrow> unit act" where
  "msg_in_ticket be m db_user =
     (case ms_from m of
        None \<Rightarrow> give ()
      | Some from \<Rightarrow>
          if starts_with ''/'' (opt_str (ms_text m)) then give ()
          else await (is_flooded be (tu_id from)) (\<lambda>flooded.
            if flooded then reply be m (tx ''support_flood_limit'' []) no_kb
            else guarded be (ToMessage m) (user_id_of db_user)
                   ''support_msg_active_ticket_backend_unavailable''
                   ''support_msg_active_ticket_unexpected'' [] (get_active_ticket be (tu_id from))
                   (\<lambda>t. case t of
                      None \<Rightarrow> andthen (clear_state (ms_key m))
                                (reply be m (tx ''support_outside_ticket_nudge'' []) no_kb)
                    | Some ticket \<Rightarrow> in_open_ticket be m from db_user ticket)))"

definition msg_unsolicited_text :: "bot_env \<Rightarrow> message \<Rightarrow> unit act" where
  "msg_unsolicited_text be m = reply be m (tx ''support_outside_ticket_nudge'' []) no_kb"

end
