(* ===== verification/BotCatalog.thy ===== *)
theory BotCatalog
  imports BotSupport
begin

text \<open>
  Buying in the bot: the catalog and its promo prompt (\<open>handlers/catalog.py\<close>), the payment
  (\<open>handlers/purchase.py\<close>), the free trial (\<open>handlers/free_trial.py\<close>) and their keyboards
  (\<open>keyboards/catalog.py\<close>, \<open>keyboards/common.py\<close>).
\<close>

section \<open>Reading callbacks and payloads\<close>

fun split_on :: "char \<Rightarrow> string \<Rightarrow> string list" where
  "split_on c [] = [[]]"
| "split_on c (x # xs) =
     (if x = c then [] # split_on c xs
      else case split_on c xs of [] \<Rightarrow> [[x]] | p # ps \<Rightarrow> (x # p) # ps)"

lemma split_on_join:
  "concat (List.map (\<lambda>p. c # p) (split_on c s)) = c # s \<and> split_on c s \<noteq> []"
  by (induction s) (auto split: list.splits)

text \<open>\<open>data.split(":", 1)[1]\<close>.\<close>

definition after_colon :: "string \<Rightarrow> string option" where
  "after_colon s = (case dropWhile (\<lambda>x. x \<noteq> CHR '':'') s of [] \<Rightarrow> None | x # rest \<Rightarrow> Some rest)"

definition callback_int :: "callback \<Rightarrow> int option" where
  "callback_int c = Option.bind (cq_data c) (\<lambda>s. Option.bind (after_colon s) py_int)"

text \<open>\<open>prefix:a:b\<close> with two numbers.\<close>

definition callback_pair :: "callback \<Rightarrow> (int \<times> int) option" where
  "callback_pair c = (case map_option (split_on (CHR '':'')) (cq_data c) of
     Some [p, a, b] \<Rightarrow> (case (py_int a, py_int b) of (Some x, Some y) \<Rightarrow> Some (x, y) | _ \<Rightarrow> None)
   | _ \<Rightarrow> None)"

definition int_default :: "int \<Rightarrow> dict \<Rightarrow> string \<Rightarrow> int" where
  "int_default dflt d k = (case as_int_opt (map_of d k) of Some i \<Rightarrow> i | None \<Rightarrow> dflt)"

definition truthy_or :: "bool \<Rightarrow> dict \<Rightarrow> string \<Rightarrow> bool" where
  "truthy_or dflt d k = (case map_of d k of None \<Rightarrow> dflt | Some j \<Rightarrow> json_truthy j)"

definition find_by_id :: "dict list \<Rightarrow> int \<Rightarrow> dict option" where
  "find_by_id xs i = List.find (\<lambda>t. int_default (-1) t ''id'' = i) xs"

definition durations_of :: "dict \<Rightarrow> dict list" where
  "durations_of t = objs_of (dget t ''durations'')"

definition get_tariffs :: "bot_env \<Rightarrow> dict list act" where
  "get_tariffs be = await (call be True (tariffs_endpoint (be_tariff_cache be))) (\<lambda>j. give (objs_of j))"

section \<open>Keyboards\<close>

definition plain_button :: "json \<Rightarrow> string \<Rightarrow> json" where
  "plain_button label data = JObj [(''text'', label), (''callback_data'', JStr data)]"

definition back_kb :: "string \<Rightarrow> json" where
  "back_kb target = kb_rows [[kb_button ''btn.common.back'' target]]"

definition tariff_button_label :: "dict \<Rightarrow> json" where
  "tariff_button_label t =
     (if truthy_or False t ''devices'' then tx ''name_devices'' [dget t ''name'', dget t ''devices'']
      else dget t ''name'')"

definition visible_tariffs :: "dict list \<Rightarrow> dict list" where
  "visible_tariffs ts = sort_key (\<lambda>t. int_default 0 t ''sort_order'')
     (filter (\<lambda>t. truthy_or True t ''is_active'' \<and> \<not> truthy_or False t ''is_free_trial'') ts)"

definition catalog_kb :: "dict list \<Rightarrow> json" where
  "catalog_kb ts = kb_rows
     (List.map (\<lambda>t. [plain_button (tariff_button_label t) (''tariff:'' @ py_str (int_default 0 t ''id''))])
        (visible_tariffs ts)
      @ [[plain_button (tx ''back'' []) ''main_menu'']])"

text \<open>\<open>round(days / 30)\<close>: halves go to the even month.\<close>

definition round_months :: "int \<Rightarrow> int" where
  "round_months days =
     (let q = days div 30; r = days mod 30 in
      if r < 15 then q else if r > 15 then q + 1 else if even q then q else q + 1)"

definition plural_form :: "int \<Rightarrow> string" where
  "plural_form n =
     (if n mod 10 = 1 \<and> n mod 100 \<noteq> 11 then ''one''
      else if 2 \<le> n mod 10 \<and> n mod 10 \<le> 4 \<and> \<not> (12 \<le> n mod 100 \<and> n mod 100 \<le> 14) then ''few''
      else ''many'')"

definition months_label :: "int \<Rightarrow> json" where
  "months_label n = tx ''months'' [JInt n, JStr (plural_form n)]"

definition days_label :: "int \<Rightarrow> json" where
  "days_label n = tx ''days'' [JInt n, JStr (plural_form n)]"

definition duration_label :: "int \<Rightarrow> json" where
  "duration_label days =
     (if days \<le> 0 then days_label 0
      else if days < 30 then days_label days
      else months_label (max 1 (round_months days)))"

definition duration_button :: "dict \<Rightarrow> string \<Rightarrow> json" where
  "duration_button d data =
     plain_button (tx (if truthy_or False d ''is_hot'' then ''duration_hot'' else ''duration'')
                     [duration_label (int_default 0 d ''days''), JInt (int_default 0 d ''price_kopecks'' div 100)])
       data"

definition tariff_durations_kb :: "int \<Rightarrow> dict list \<Rightarrow> json" where
  "tariff_durations_kb tid ds = kb_rows
     (List.map (\<lambda>d. [duration_button d (''duration:'' @ py_str tid @ '':'' @ py_str (int_default 0 d ''id''))])
        (sort_key (\<lambda>d. int_default 0 d ''days'') ds)
      @ [[plain_button (tx ''back'' []) ''catalog'']])"

definition promo_skip_kb :: json where
  "promo_skip_kb = kb_rows [[plain_button (tx ''no_promo'' []) ''promo_skip''],
                            [plain_button (tx ''back'' []) ''duration_back'']]"

definition promo_retry_kb :: json where
  "promo_retry_kb = kb_rows [[plain_button (tx ''another_promo'' []) ''promo_retry''],
                             [plain_button (tx ''without_promo'' []) ''promo_skip''],
                             [plain_button (tx ''back'' []) ''duration_back'']]"

definition bot_apply_discount :: "int \<Rightarrow> int option \<Rightarrow> int" where
  "bot_apply_discount amount percent =
     (if \<not> int_truthy percent then amount
      else amount * (100 - max 0 (min 100 (the percent))) div 100)"

definition payment_methods_kb :: "int \<Rightarrow> int \<Rightarrow> int option \<Rightarrow> json" where
  "payment_methods_kb amount balance percent = kb_rows
     [[kb_button ''btn.payment.sbp'' ''pay:platega_sbp'',
       kb_button ''btn.payment.cryptobot'' ''pay:cryptobot''],
      [kb_button ''btn.payment.crypto'' ''pay:platega_crypto'',
       kb_button (if balance \<ge> bot_apply_discount amount percent then ''btn.payment.balance''
                  else ''btn.payment.balance_locked'') ''pay:balance''],
      [kb_button ''btn.common.back'' ''pay_back'']]"

definition payment_link_kb :: "string \<Rightarrow> json" where
  "payment_link_kb url = kb_rows [[kb_url ''btn.payment.pay'' (JStr url)],
                                  [kb_button ''btn.payment.cancel'' ''pay_cancel'']]"

text \<open>The link stored with the button wins over the configured one.\<close>

definition howto_link :: "bot_env \<Rightarrow> string option" where
  "howto_link be =
     (if str_truthy (be_text_url be ''btn.subscription.howto'') then be_text_url be ''btn.subscription.howto''
      else if str_truthy (be_howto be) then be_howto be else None)"

definition key_issued_kb :: "bot_env \<Rightarrow> json" where
  "key_issued_kb be = kb_rows
     ((case howto_link be of None \<Rightarrow> [] | Some url \<Rightarrow> [[kb_url ''btn.subscription.howto'' (JStr url)]])
      @ [[kb_button ''btn.common.to_menu'' ''main_menu'']])"

section \<open>Handlers\<close>

text \<open>\<open>try: m except BackendUnavailableError\<close> alone: any other exception leaves the handler.\<close>

definition on_unavailable ::
  "bot_env \<Rightarrow> target \<Rightarrow> int option \<Rightarrow> string \<Rightarrow> 'a act \<Rightarrow> ('a \<Rightarrow> unit act) \<Rightarrow> unit act" where
  "on_unavailable be t uid event m f =
     await (attempt m) (\<lambda>r. case r of
         Inl x \<Rightarrow> if x = BackendUnavailable then report_backend_unavailable be t uid x event else throw x
       | Inr a \<Rightarrow> f a)"

definition cb_catalog :: "bot_env \<Rightarrow> callback \<Rightarrow> dict option \<Rightarrow> unit act" where
  "cb_catalog be c db_user =
     andthen (clear_state (cq_key c))
       (guarded be (ToCallback c) (user_id_of db_user) ''catalog_open_failed'' ''catalog_open_failed'' []
          (get_tariffs be)
          (\<lambda>ts. safe_edit_or_send_media be (ToCallback c) ''catalog_header'' [] (catalog_kb ts)))"

definition cb_catalog_message :: "bot_env \<Rightarrow> message \<Rightarrow> dict option \<Rightarrow> unit act" where
  "cb_catalog_message be m db_user =
     andthen (clear_state (ms_key m))
       (on_unavailable be (ToMessage m) (user_id_of db_user) ''catalog_open_failed_fallback'' (get_tariffs be)
          (\<lambda>ts. safe_edit_or_send_media be (ToMessage m) ''catalog_header'' [] (catalog_kb ts)))"

subsection \<open>The free trial\<close>

definition free_trial_call :: "bot_env \<Rightarrow> int \<Rightarrow> dict act" where
  "free_trial_call be u = await (call be False (free_trial_endpoint (be_env be) u)) (\<lambda>j. give (obj_of j))"

definition trial_refused :: "bot_env \<Rightarrow> callback \<Rightarrow> int option \<Rightarrow> bot_exn \<Rightarrow> unit act" where
  "trial_refused be c uid x =
     (let code = error_code_of x;
          (key, event) =
            (if code = Some ''free_trial_already_used'' then (''free_trial_already_used'', ''free_trial_already_used'')
             else if code = Some ''vpn_provider_unavailable''
             then (''vpn_provider_unavailable'', ''vpn_provider_unavailable'')
             else (''unexpected_error'', ''free_trial_failed''))
      in andthen (safe_edit_or_answer be (ToCallback c) (tx key []) (back_kb ''catalog''))
           (bot_log be level_info event uid (take 300 (be_detail be x))
              [(''error_code'', json_opt_str code), (''tg_id'', JInt (tu_id (cq_from c)))]))"

definition trial_issued :: "bot_env \<Rightarrow> callback \<Rightarrow> int option \<Rightarrow> dict \<Rightarrow> unit act" where
  "trial_issued be c uid sub =
     andthen (safe_edit_or_send_media be (ToCallback c) ''key_issued_free_trial''
                [JStr (str_or [] sub ''key_url''), JInt (int_default 5 sub ''days''),
                 JInt (int_default 2 sub ''devices''), dget sub ''id''] (key_issued_kb be))
       (bot_log be level_info ''free_trial_issued'' uid ''Free trial issued''
          [(''tg_id'', JInt (tu_id (cq_from c))), (''subscription_id'', dget sub ''id'')])"

definition activate_free_trial_flow :: "bot_env \<Rightarrow> callback \<Rightarrow> int option \<Rightarrow> unit act" where
  "activate_free_trial_flow be c uid =
     andthen (safe_edit_or_answer be (ToCallback c) (tx ''key_issuing'' []) no_kb)
       (await (attempt (free_trial_call be (tu_id (cq_from c)))) (\<lambda>r. case r of
           Inr res \<Rightarrow> trial_issued be c uid (obj_of (dget res ''subscription''))
         | Inl x \<Rightarrow>
             if is_client_error x then trial_refused be c uid x
             else if x = BackendUnavailable
             then report_backend_unavailable be (ToCallback c) uid x ''free_trial_backend_unavailable''
             else report_unexpected be (ToCallback c) uid x ''free_trial_unexpected'' []))"

definition cb_free_trial :: "bot_env \<Rightarrow> callback \<Rightarrow> dict option \<Rightarrow> unit act" where
  "cb_free_trial be c db_user = activate_free_trial_flow be c (user_id_of db_user)"

subsection \<open>Tariff and duration\<close>

definition show_durations :: "bot_env \<Rightarrow> callback \<Rightarrow> int \<Rightarrow> dict \<Rightarrow> unit act" where
  "show_durations be c tid t =
     safe_edit_or_send_media be (ToCallback c) ''tariff_durations_header''
       [dget t ''name'', JStr (str_or [] t ''description_html'')] (tariff_durations_kb tid (durations_of t))"

definition cb_tariff :: "bot_env \<Rightarrow> callback \<Rightarrow> dict option \<Rightarrow> unit act" where
  "cb_tariff be c db_user =
     (case callback_int c of
        None \<Rightarrow> ack be
      | Some tid \<Rightarrow>
          on_unavailable be (ToCallback c) (user_id_of db_user) ''tariff_open_failed'' (get_tariffs be)
            (\<lambda>ts. case find_by_id ts tid of
               None \<Rightarrow> alert be (tx ''tariff_not_found'' [])
             | Some t \<Rightarrow>
                 if truthy_or False t ''is_free_trial''
                 then activate_free_trial_flow be c (user_id_of db_user)
                 else andthen (update_data (cq_key c) [(''tariff_id'', JInt tid)]) (show_durations be c tid t)))"

definition cb_duration :: "bot_env \<Rightarrow> callback \<Rightarrow> unit act" where
  "cb_duration be c =
     (case callback_pair c of
        None \<Rightarrow> ack be
      | Some (tid, did) \<Rightarrow>
          andthen (update_data (cq_key c) [(''tariff_id'', JInt tid), (''duration_id'', JInt did)])
         (andthen (set_state (cq_key c) (Some PurchasePromoInput))
                  (safe_edit_or_send_media be (ToCallback c) ''promo_input_prompt'' [] promo_skip_kb)))"

definition cb_duration_back :: "bot_env \<Rightarrow> callback \<Rightarrow> dict option \<Rightarrow> unit act" where
  "cb_duration_back be c db_user =
     await (get_state (cq_key c)) (\<lambda>f.
       case as_int_opt (map_of (fs_data f) ''tariff_id'') of
         None \<Rightarrow> cb_catalog be c db_user
       | Some tid \<Rightarrow>
           andthen (set_state (cq_key c) None)
          (andthen (update_data (cq_key c) [(''tariff_id'', JInt tid)])
             (on_unavailable be (ToCallback c) (user_id_of db_user) ''duration_back_failed'' (get_tariffs be)
                (\<lambda>ts. case find_by_id ts tid of
                   None \<Rightarrow> cb_catalog be c db_user
                 | Some t \<Rightarrow> show_durations be c tid t))))"

subsection \<open>Promo codes\<close>

definition apply_promo_call :: "bot_env \<Rightarrow> int \<Rightarrow> string \<Rightarrow> dict act" where
  "apply_promo_call be u code =
     await (call be False (promo_endpoint (be_env be) u code)) (\<lambda>j. give (obj_of j))"

definition promo_code_ok :: "string \<Rightarrow> bool" where
  "promo_code_ok code \<longleftrightarrow> 1 \<le> length code \<and> length code \<le> 64"

definition promo_refusals :: "string set" where
  "promo_refusals = {''promo_not_found'', ''promo_unavailable'', ''promo_max_per_user_reached'',
                     ''promo_max_total_reached''}"

definition refused_promo :: "bot_exn \<Rightarrow> bool" where
  "refused_promo x \<longleftrightarrow>
     is_client_error x \<and> (case error_code_of x of None \<Rightarrow> False | Some c \<Rightarrow> c \<in> promo_refusals)"

definition refusal_key :: "bot_exn \<Rightarrow> string" where
  "refusal_key x = (if error_code_of x = Some ''promo_not_found'' then ''promo_not_found''
                    else ''promo_unavailable'')"

text \<open>The common part of the three promo prompts: \<open>client\<close>, \<open>down\<close>, \<open>other\<close> name the events.\<close>

definition with_promo ::
  "bot_env \<Rightarrow> message \<Rightarrow> int option \<Rightarrow> int \<Rightarrow> string \<Rightarrow> string \<times> string \<times> string
    \<Rightarrow> (bot_exn \<Rightarrow> unit act) \<Rightarrow> (dict \<Rightarrow> unit act) \<Rightarrow> unit act" where
  "with_promo be m uid u code events refused f =
     (case events of (client, down, other) \<Rightarrow>
        await (attempt (apply_promo_call be u code)) (\<lambda>r. case r of
            Inr res \<Rightarrow> f res
          | Inl x \<Rightarrow>
              if refused_promo x then refused x
              else if is_client_error x then report_unexpected be (ToMessage m) uid x client []
              else if x = BackendUnavailable then report_backend_unavailable be (ToMessage m) uid x down
              else report_unexpected be (ToMessage m) uid x other []))"

definition balance_promo_applied ::
  "bot_env \<Rightarrow> message \<Rightarrow> int option \<Rightarrow> int \<Rightarrow> string \<Rightarrow> dict \<Rightarrow> unit act" where
  "balance_promo_applied be m uid u msg res =
     andthen (safe_edit_or_send_media be (ToMessage m) ''promo_balance_applied''
                [JInt (int_or_zero res ''amount_kopecks'' div 100),
                 JInt (int_or_zero res ''balance_kopecks'' div 100)] (back_kb ''main_menu''))
    (andthen (clear_state (ms_key m))
             (bot_log be level_info ''promo_balance_applied'' uid msg
                [(''tg_id'', JInt u), (''amount_kopecks'', JInt (int_or_zero res ''amount_kopecks'')),
                 (''promo_id'', dget res ''promo_id'')]))"

definition unknown_promo_type :: "dict \<Rightarrow> bot_exn" where
  "unknown_promo_type res = runtime_error (''unknown promo type: '' @ str_or [] res ''type'')"

definition discounted_amount :: "dict \<Rightarrow> int \<Rightarrow> int \<Rightarrow> int" where
  "discounted_amount res base percent =
     (case as_int_opt (map_of res ''final_amount_kopecks'') of
        Some n \<Rightarrow> if 0 < n then n else bot_apply_discount base (Some percent)
      | None \<Rightarrow> bot_apply_discount base (Some percent))"

definition discount_shown ::
  "bot_env \<Rightarrow> message \<Rightarrow> int option \<Rightarrow> int \<Rightarrow> int \<Rightarrow> int \<Rightarrow> dict \<Rightarrow> int \<Rightarrow> int \<Rightarrow> unit act" where
  "discount_shown be m uid u tid did res base balance =
     (let percent = int_or_zero res ''percent''; final = discounted_amount res base percent in
      andthen (update_data (ms_key m)
                 [(''tariff_id'', JInt tid), (''duration_id'', JInt did), (''amount_kopecks'', JInt base),
                  (''promo_id'', dget res ''promo_id''), (''promo_percent'', JInt percent),
                  (''final_amount_kopecks'', JInt final)])
     (andthen (set_state (ms_key m) (Some PurchasePaymentMethod))
     (andthen (safe_edit_or_send_media be (ToMessage m) ''promo_discount_applied''
                 [JInt percent, JInt (final div 100)] (payment_methods_kb base balance (Some percent)))
              (bot_log be level_info ''promo_discount_applied'' uid ''Discount promo applied''
                 [(''tg_id'', JInt u), (''percent'', JInt percent), (''promo_id'', dget res ''promo_id''),
                  (''final_amount_kopecks'', JInt final)]))))"

text \<open>The discount branch of the purchase prompt: the price is read again from the catalog.\<close>

definition purchase_discount :: "bot_env \<Rightarrow> message \<Rightarrow> tg_user \<Rightarrow> dict option \<Rightarrow> dict \<Rightarrow> unit act" where
  "purchase_discount be m from db_user res =
     await (get_state (ms_key m)) (\<lambda>f.
       case (as_int_opt (map_of (fs_data f) ''tariff_id''), as_int_opt (map_of (fs_data f) ''duration_id'')) of
         (Some tid, Some did) \<Rightarrow>
           on_unavailable be (ToMessage m) (user_id_of db_user) ''promo_apply_post_fetch_failed''
             (await (get_tariffs be) (\<lambda>ts. await (get_user_balance be (tu_id from)) (\<lambda>b. give (ts, b))))
             (\<lambda>(ts, b). case Option.bind (find_by_id ts tid) (\<lambda>t. find_by_id (durations_of t) did) of
                None \<Rightarrow> cb_catalog_message be m db_user
              | Some dur \<Rightarrow> discount_shown be m (user_id_of db_user) (tu_id from) tid did res
                              (int_default 0 dur ''price_kopecks'') b)
       | _ \<Rightarrow> reply be m (tx ''unexpected_error'' []) promo_retry_kb)"

definition msg_promo_input :: "bot_env \<Rightarrow> message \<Rightarrow> dict option \<Rightarrow> unit act" where
  "msg_promo_input be m db_user =
     (case ms_from m of
        None \<Rightarrow> give ()
      | Some from \<Rightarrow>
          (let code = str_strip (opt_str (ms_text m)); uid = user_id_of db_user; u = tu_id from in
           if \<not> promo_code_ok code then reply be m (tx ''promo_not_found'' []) promo_retry_kb
           else with_promo be m uid u code
                  (''promo_apply_client_error'', ''promo_apply_backend_unavailable'', ''promo_apply_unexpected'')
                  (\<lambda>x. andthen (reply be m (tx (refusal_key x) []) promo_retry_kb)
                         (bot_log be level_info ''promo_apply_rejected'' uid (take 300 (be_detail be x))
                            [(''error_code'', json_opt_str (error_code_of x)), (''tg_id'', JInt u)]))
                  (\<lambda>res.
                     if str_or [] res ''type'' = ''balance''
                     then balance_promo_applied be m uid u ''Balance promo applied'' res
                     else if str_or [] res ''type'' = ''discount_percent''
                     then purchase_discount be m from db_user res
                     else report_unexpected be (ToMessage m) uid (unknown_promo_type res)
                            ''promo_apply_unknown_type'' [(''result'', JObj res)])))"

definition cb_promo_retry :: "bot_env \<Rightarrow> callback \<Rightarrow> unit act" where
  "cb_promo_retry be c = safe_edit_or_send_media be (ToCallback c) ''promo_input_prompt'' [] promo_skip_kb"

definition cb_promo_skip :: "bot_env \<Rightarrow> callback \<Rightarrow> dict option \<Rightarrow> unit act" where
  "cb_promo_skip be c db_user =
     await (get_state (cq_key c)) (\<lambda>f.
       case (as_int_opt (map_of (fs_data f) ''tariff_id''), as_int_opt (map_of (fs_data f) ''duration_id'')) of
         (Some tid, Some did) \<Rightarrow>
           guarded be (ToCallback c) (user_id_of db_user) ''promo_skip_failed'' ''promo_skip_unexpected'' []
             (await (get_tariffs be)
                (\<lambda>ts. await (get_user_balance be (tu_id (cq_from c))) (\<lambda>b. give (ts, b))))
             (\<lambda>(ts, b). case find_by_id ts tid of
                None \<Rightarrow> cb_catalog be c db_user
              | Some t \<Rightarrow> (case find_by_id (durations_of t) did of
                   None \<Rightarrow> cb_catalog be c db_user
                 | Some dur \<Rightarrow>
                     (let amount = int_default 0 dur ''price_kopecks'' in
                      andthen (update_data (cq_key c)
                                 [(''tariff_id'', JInt tid), (''duration_id'', JInt did),
                                  (''amount_kopecks'', JInt amount)])
                     (andthen (set_state (cq_key c) (Some PurchasePaymentMethod))
                              (safe_edit_or_send_media be (ToCallback c) ''pay_method_header''
                                 [JInt (amount div 100), JInt (b div 100), dget t ''name'']
                                 (payment_methods_kb amount b None))))))
       | _ \<Rightarrow> cb_catalog be c db_user)"

section \<open>Paying\<close>

definition purchase_balance_call ::
  "bot_env \<Rightarrow> int \<Rightarrow> int \<Rightarrow> int \<Rightarrow> int option \<Rightarrow> dict act" where
  "purchase_balance_call be u tid did promo =
     await (call be False (purchase_balance_endpoint (be_env be) u tid did promo)) (\<lambda>j. give (obj_of j))"

definition start_purchase_call ::
  "bot_env \<Rightarrow> int \<Rightarrow> int \<Rightarrow> int \<Rightarrow> string \<Rightarrow> int option \<Rightarrow> dict act" where
  "start_purchase_call be u tid did provider promo =
     await (call be False (purchase_start_endpoint (be_env be) u tid did provider promo)) (\<lambda>j. give (obj_of j))"

definition current_balance :: "bot_exn \<Rightarrow> int" where
  "current_balance x = (let n = int_or_zero (payload_of x) ''current_balance_kopecks'' in
     if n = 0 then int_or_zero (payload_of x) ''balance_kopecks'' else n)"

definition purchase_refused :: "bot_env \<Rightarrow> callback \<Rightarrow> int option \<Rightarrow> bot_exn \<Rightarrow> unit act" where
  "purchase_refused be c uid x =
     (let code = (case error_code_of x of None \<Rightarrow> [] | Some s \<Rightarrow> s);
          (key, args) =
            (if code = ''insufficient_balance'' then (''insufficient_balance'', [JInt (current_balance x div 100)])
             else if code = ''vpn_provider_unavailable_refunded'' then (''refund_after_provider_error'', [])
             else if code = ''vpn_provider_unavailable'' then (''vpn_provider_unavailable'', [])
             else (''unexpected_error'', []))
      in andthen (safe_edit_or_answer be (ToCallback c) (tx key args) (back_kb ''catalog''))
           (bot_log be level_warning ''purchase_balance_client_error'' uid (take 300 (be_detail be x))
              [(''error_code'', JStr code), (''tg_id'', JInt (tu_id (cq_from c)))]))"

definition purchase_done :: "bot_env \<Rightarrow> callback \<Rightarrow> int option \<Rightarrow> dict \<Rightarrow> unit act" where
  "purchase_done be c uid res =
     (let sub = obj_of (dget res ''subscription'') in
      andthen (safe_edit_or_send_media be (ToCallback c) ''key_issued''
                 [dget sub ''key_url'', dget res ''payment_id'', dget sub ''id'',
                  JInt (int_default 0 res ''balance_after_kopecks'' div 100)] (key_issued_kb be))
     (andthen (clear_state (cq_key c))
              (bot_log be level_info ''purchase_balance_success'' uid ''Subscription paid from balance''
                 [(''tg_id'', JInt (tu_id (cq_from c))), (''subscription_id'', dget sub ''id''),
                  (''payment_id'', dget res ''payment_id'')])))"

definition pay_with_balance ::
  "bot_env \<Rightarrow> callback \<Rightarrow> int option \<Rightarrow> int \<Rightarrow> int \<Rightarrow> int option \<Rightarrow> unit act" where
  "pay_with_balance be c uid tid did promo =
     andthen (safe_edit_or_answer be (ToCallback c) (tx ''key_issuing'' []) no_kb)
       (await (attempt (purchase_balance_call be (tu_id (cq_from c)) tid did promo)) (\<lambda>r. case r of
           Inr res \<Rightarrow> purchase_done be c uid res
         | Inl x \<Rightarrow>
             if is_client_error x then purchase_refused be c uid x
             else if x = BackendUnavailable
             then report_backend_unavailable be (ToCallback c) uid x ''purchase_balance_backend_unavailable''
             else report_unexpected be (ToCallback c) uid x ''purchase_balance_unexpected'' []))"

definition provider_refused ::
  "bot_env \<Rightarrow> callback \<Rightarrow> int option \<Rightarrow> string \<Rightarrow> string \<Rightarrow> dict \<Rightarrow> bot_exn \<Rightarrow> unit act" where
  "provider_refused be c uid back event ctx x =
     andthen (safe_edit_or_answer be (ToCallback c)
                (tx (if error_code_of x = Some ''payment_provider_unavailable''
                     then ''payment_provider_unavailable'' else ''unexpected_error'') []) (back_kb back))
       (bot_log be level_warning event uid (take 300 (be_detail be x))
          ((''error_code'', json_opt_str (error_code_of x)) # ctx))"

definition invoice_shown ::
  "bot_env \<Rightarrow> callback \<Rightarrow> int option \<Rightarrow> string \<Rightarrow> int \<Rightarrow> dict \<Rightarrow> unit act" where
  "invoice_shown be c uid provider amount res =
     safe_edit_or_send_media be (ToCallback c) ''payment_invoice''
       [JInt (amount div 100), dget res ''payment_id'', JStr provider]
       (payment_link_kb (str_or [] res ''payment_url''))"

definition pay_with_provider ::
  "bot_env \<Rightarrow> callback \<Rightarrow> int option \<Rightarrow> int \<Rightarrow> int \<Rightarrow> string \<Rightarrow> int option \<Rightarrow> unit act" where
  "pay_with_provider be c uid tid did provider promo =
     await (attempt (start_purchase_call be (tu_id (cq_from c)) tid did provider promo)) (\<lambda>r. case r of
         Inl x \<Rightarrow>
           if is_client_error x
           then provider_refused be c uid ''catalog'' ''purchase_start_client_error''
                  [(''provider'', JStr provider), (''tg_id'', JInt (tu_id (cq_from c)))] x
           else if x = BackendUnavailable
           then report_backend_unavailable be (ToCallback c) uid x ''purchase_start_backend_unavailable''
           else report_unexpected be (ToCallback c) uid x ''purchase_start_unexpected'' []
       | Inr res \<Rightarrow>
           if str_or [] res ''payment_url'' = []
           then report_unexpected be (ToCallback c) uid (runtime_error ''backend returned no payment_url'')
                  ''purchase_start_missing_url'' [(''provider'', JStr provider)]
           else andthen (invoice_shown be c uid provider (int_default 0 res ''amount_kopecks'') res)
               (andthen (update_data (cq_key c)
                           [(''payment_id'', dget res ''payment_id''), (''provider'', JStr provider)])
               (andthen (set_state (cq_key c) (Some PurchaseAwaitingPayment))
                        (bot_log be level_info ''purchase_invoice_sent'' uid ''Invoice URL delivered to user''
                           [(''tg_id'', JInt (tu_id (cq_from c))), (''provider'', JStr provider),
                            (''payment_id'', dget res ''payment_id'')]))))"

definition purchase_providers :: "string list" where
  "purchase_providers = [''platega_sbp'', ''platega_crypto'', ''cryptobot'', ''balance'']"

definition cb_pay :: "bot_env \<Rightarrow> callback \<Rightarrow> dict option \<Rightarrow> unit act" where
  "cb_pay be c db_user =
     (case Option.bind (cq_data c) after_colon of
        None \<Rightarrow> ack be
      | Some provider \<Rightarrow>
          if provider \<notin> set purchase_providers then ack be
          else await (get_state (cq_key c)) (\<lambda>f.
            case (as_int_opt (map_of (fs_data f) ''tariff_id''),
                  as_int_opt (map_of (fs_data f) ''duration_id'')) of
              (Some tid, Some did) \<Rightarrow>
                (let promo = as_int_opt (map_of (fs_data f) ''promo_id'') in
                 if provider = ''balance'' then pay_with_balance be c (user_id_of db_user) tid did promo
                 else pay_with_provider be c (user_id_of db_user) tid did provider promo)
            | _ \<Rightarrow> andthen (alert be (tx ''session_expired'' [])) (clear_state (cq_key c))))"

definition cb_pay_back :: "bot_env \<Rightarrow> callback \<Rightarrow> dict option \<Rightarrow> unit act" where
  "cb_pay_back be c db_user =
     andthen (set_state (cq_key c) None) (cb_duration_back be c db_user)"

definition cb_pay_cancel :: "bot_env \<Rightarrow> callback \<Rightarrow> dict option \<Rightarrow> unit act" where
  "cb_pay_cancel be c db_user = andthen (clear_state (cq_key c)) (cb_catalog be c db_user)"

end
