(* ===== verification/BotProfile.thy ===== *)
theory BotProfile
  imports BotCatalog
begin

text \<open>
  The profile in the bot and extending from it (\<open>handlers/profile.py\<close>), topping up
  (\<open>handlers/topup.py\<close>), the standalone promo prompt (\<open>handlers/promo.py\<close>), the referral and
  about screens, and their keyboards (\<open>keyboards/profile.py\<close>).  A date rendered by
  \<open>_format_date\<close> is the text \<open>date\<close> of its value.
\<close>

section \<open>Keyboards\<close>

definition date_text :: "json \<Rightarrow> json" where
  "date_text j = (if json_truthy j then tx ''date'' [j] else tx ''dash'' [])"

definition shown_sub :: "dict \<Rightarrow> bool" where
  "shown_sub s \<longleftrightarrow> map_of s ''status'' \<in> {Some (JStr ''active''), Some (JStr ''pending'')}"

definition sub_name :: "dict \<Rightarrow> json" where
  "sub_name s =
     (if truthy_or False s ''tariff_name'' then dget s ''tariff_name''
      else if truthy_or False s ''name'' then dget s ''name'' else tx ''subscription'' [])"

definition render_subs_summary :: "dict list \<Rightarrow> json" where
  "render_subs_summary subs =
     JArr (List.map (\<lambda>s. tx ''sub_line'' [sub_name s, date_text (dget s ''expires_at'')])
             (filter shown_sub subs))"

definition profile_kb :: "dict list \<Rightarrow> json" where
  "profile_kb subs = kb_rows
     (List.map (\<lambda>s. [plain_button (tx ''sub_button'' [sub_name s, date_text (dget s ''expires_at'')])
                       (''sub:'' @ py_str (int_default 0 s ''id''))]) (filter shown_sub subs)
      @ [[kb_button ''btn.profile.add_more'' ''catalog''], [kb_button ''btn.profile.topup'' ''topup''],
         [kb_button ''btn.profile.referral'' ''referral_program''],
         [kb_button ''btn.common.back'' ''main_menu'']])"

definition referral_kb :: "json \<Rightarrow> json" where
  "referral_kb share = kb_rows
     [[JObj [(''text'', tx ''btn.referral.share'' []), (''switch_inline_query'', share)]],
      [kb_button ''btn.common.back'' ''profile'']]"

definition subscription_detail_kb :: "bot_env \<Rightarrow> int \<Rightarrow> json" where
  "subscription_detail_kb be sid = kb_rows
     [[case howto_link be of
         Some url \<Rightarrow> kb_url ''btn.subscription.howto'' (JStr url)
       | None \<Rightarrow> kb_button ''btn.subscription.howto'' (''sub_howto:'' @ py_str sid)],
      [kb_button ''btn.subscription.extend'' (''extend:'' @ py_str sid)],
      [kb_button ''btn.common.back'' ''profile'']]"

definition ext_data :: "string \<Rightarrow> int \<Rightarrow> int \<Rightarrow> string" where
  "ext_data prefix sid did = prefix @ '':'' @ py_str sid @ '':'' @ py_str did"

definition extension_durations_kb :: "dict list \<Rightarrow> int \<Rightarrow> json" where
  "extension_durations_kb ds sid = kb_rows
     (List.map (\<lambda>d. [duration_button d (ext_data ''ext_duration'' sid (int_default 0 d ''id''))])
        (sort_key (\<lambda>d. int_default 0 d ''days'') ds)
      @ [[plain_button (tx ''back'' []) (''sub:'' @ py_str sid)]])"

definition extension_promo_skip_kb :: "int \<Rightarrow> int \<Rightarrow> json" where
  "extension_promo_skip_kb sid did = kb_rows
     [[plain_button (tx ''no_promo'' []) (ext_data ''ext_promo_skip'' sid did)],
      [plain_button (tx ''back'' []) (''extend:'' @ py_str sid)]]"

definition extension_payment_methods_kb :: "int \<Rightarrow> int \<Rightarrow> int \<Rightarrow> int \<Rightarrow> json" where
  "extension_payment_methods_kb sid did amount balance =
     (let base = ext_data ''ext_pay'' sid did in kb_rows
       [[plain_button (tx ''sbp'' []) (base @ '':platega_sbp''),
         plain_button (JStr ''CryptoBot'') (base @ '':cryptobot'')],
        [plain_button (tx ''crypto'' []) (base @ '':platega_crypto''),
         plain_button (tx (if balance \<ge> amount then ''balance'' else ''balance_locked'') [])
           (base @ '':balance'')],
        [plain_button (tx ''back'' []) (ext_data ''ext_promo_skip'' sid did)]])"

definition topup_methods_kb :: json where
  "topup_methods_kb = kb_rows
     [[kb_button ''btn.payment.sbp'' ''topup_pay:platega_sbp'',
       kb_button ''btn.payment.cryptobot'' ''topup_pay:cryptobot''],
      [kb_button ''btn.payment.crypto'' ''topup_pay:platega_crypto''],
      [kb_button ''btn.common.back'' ''profile'']]"

section \<open>The profile\<close>

definition referral_stats_call :: "bot_env \<Rightarrow> int \<Rightarrow> dict act" where
  "referral_stats_call be u = await (call be True (referral_endpoint (be_env be) u)) (\<lambda>j. give (obj_of j))"

definition subscription_detail_call :: "bot_env \<Rightarrow> int \<Rightarrow> int \<Rightarrow> dict act" where
  "subscription_detail_call be sid u =
     await (call be True (subscription_detail_endpoint sid u)) (\<lambda>j. give (obj_of j))"

definition invited_count :: "bot_env \<Rightarrow> int \<Rightarrow> int act" where
  "invited_count be u = await (attempt (referral_stats_call be u))
     (\<lambda>r. give (case r of Inl x \<Rightarrow> 0 | Inr d \<Rightarrow> int_or_zero d ''invited''))"

definition field_or :: "dict \<Rightarrow> string \<Rightarrow> string option \<Rightarrow> string" where
  "field_or d k other = (let s = str_or [] d k in if s = [] then opt_str other else s)"

definition profile_args :: "bot_env \<Rightarrow> tg_user \<Rightarrow> dict option \<Rightarrow> int \<Rightarrow> int \<Rightarrow> int \<Rightarrow> json list" where
  "profile_args be from db_user balance subs invited =
     (let d = (case db_user of None \<Rightarrow> [] | Some x \<Rightarrow> x); pf = tu_profile from;
          username = field_or d ''username'' (pf_username pf)
      in [JInt (balance div 100),
          JStr (or_dash be (str_strip (field_or d ''first_name'' (pf_first_name pf) @ '' ''
                                       @ field_or d ''last_name'' (pf_last_name pf)))),
          JStr (if username = [] then be_word be ''dash'' else ''@'' @ username),
          JInt (tu_id from), JInt subs, JInt invited])"

definition cb_profile :: "bot_env \<Rightarrow> callback \<Rightarrow> dict option \<Rightarrow> unit act" where
  "cb_profile be c db_user =
     (let u = tu_id (cq_from c) in
      andthen (clear_state (cq_key c))
       (guarded be (ToCallback c) (user_id_of db_user) ''profile_open_failed'' ''profile_open_unexpected'' []
          (await (get_user_balance be u) (\<lambda>b. await (get_user_subscriptions be u) (\<lambda>subs. give (b, subs))))
          (\<lambda>(b, subs). await (invited_count be u) (\<lambda>invited.
             let active = filter shown_sub subs;
                 args = profile_args be (cq_from c) db_user b (int (length active)) invited
             in if active = []
                then safe_edit_or_send_media be (ToCallback c) ''profile_no_subscriptions'' args (profile_kb active)
                else safe_edit_or_send_media be (ToCallback c) ''profile_header''
                       (args @ [render_subs_summary active]) (profile_kb active)))))"

text \<open>The subscription behind a button, with the errors of the lookup.\<close>

definition with_sub ::
  "bot_env \<Rightarrow> callback \<Rightarrow> dict option \<Rightarrow> string \<times> string \<times> string \<Rightarrow> (int \<Rightarrow> dict \<Rightarrow> unit act) \<Rightarrow> unit act" where
  "with_sub be c db_user events f =
     (case callback_int c of
        None \<Rightarrow> ack be
      | Some sid \<Rightarrow>
          (case events of (client, down, other) \<Rightarrow>
             await (attempt (subscription_detail_call be sid (tu_id (cq_from c)))) (\<lambda>r. case r of
                 Inr sub \<Rightarrow> f sid sub
               | Inl x \<Rightarrow>
                   if is_status {403, 404} x then alert be (tx ''subscription_not_found'' [])
                   else if is_client_error x
                   then report_unexpected be (ToCallback c) (user_id_of db_user) x client
                          [(''subscription_id'', JInt sid)]
                   else if x = BackendUnavailable
                   then report_backend_unavailable be (ToCallback c) (user_id_of db_user) x down
                   else report_unexpected be (ToCallback c) (user_id_of db_user) x other [])))"

definition cb_subscription :: "bot_env \<Rightarrow> callback \<Rightarrow> dict option \<Rightarrow> unit act" where
  "cb_subscription be c db_user =
     with_sub be c db_user
       (''subscription_detail_failed'', ''subscription_detail_backend_unavailable'', ''subscription_detail_unexpected'')
       (\<lambda>sid sub. safe_edit_or_send_media be (ToCallback c) ''subscription_detail''
          [dget sub ''tariff_name'', dget sub ''devices'', dget sub ''days'',
           date_text (dget sub ''started_at''), date_text (dget sub ''expires_at''),
           dget sub ''key_url'', dget sub ''status'', JInt sid] (subscription_detail_kb be sid))"

section \<open>Extending\<close>

definition fetch_extension_durations :: "bot_env \<Rightarrow> dict \<Rightarrow> dict list act" where
  "fetch_extension_durations be sub =
     (case as_int_opt (map_of sub ''tariff_id'') of
        None \<Rightarrow> give []
      | Some tid \<Rightarrow> await (get_tariffs be) (\<lambda>ts.
          give (case find_by_id ts tid of None \<Rightarrow> [] | Some t \<Rightarrow> durations_of t)))"

definition not_extendable :: "bot_env \<Rightarrow> callback \<Rightarrow> unit act" where
  "not_extendable be c =
     safe_edit_or_answer be (ToCallback c) (tx ''subscription_not_extendable'' []) (back_kb ''profile'')"

definition cb_extend :: "bot_env \<Rightarrow> callback \<Rightarrow> dict option \<Rightarrow> unit act" where
  "cb_extend be c db_user =
     with_sub be c db_user
       (''extend_open_client_error'', ''extend_open_backend_unavailable'', ''extend_open_unexpected'')
       (\<lambda>sid sub.
          if map_of sub ''status'' \<noteq> Some (JStr ''active'') then not_extendable be c
          else on_unavailable be (ToCallback c) (user_id_of db_user) ''extend_durations_backend_unavailable''
                 (fetch_extension_durations be sub)
                 (\<lambda>ds. if ds = [] then not_extendable be c
                       else andthen (clear_state (cq_key c))
                           (andthen (update_data (cq_key c) [(''subscription_id'', JInt sid)])
                             (safe_edit_or_answer be (ToCallback c) (tx ''extension_select_duration'' [])
                                (extension_durations_kb ds sid)))))"

definition cb_ext_duration :: "bot_env \<Rightarrow> callback \<Rightarrow> unit act" where
  "cb_ext_duration be c =
     (case callback_pair c of
        None \<Rightarrow> ack be
      | Some (sid, did) \<Rightarrow>
          andthen (update_data (cq_key c) [(''subscription_id'', JInt sid), (''duration_id'', JInt did)])
         (andthen (set_state (cq_key c) (Some ExtendPromoInput))
                  (safe_edit_or_answer be (ToCallback c) (tx ''promo_input_prompt'' [])
                     (extension_promo_skip_kb sid did))))"

definition ext_discount :: "bot_env \<Rightarrow> message \<Rightarrow> int option \<Rightarrow> int \<Rightarrow> int \<Rightarrow> int \<Rightarrow> dict \<Rightarrow> unit act" where
  "ext_discount be m uid u sid did res =
     (let percent = int_or_zero res ''percent'' in
      andthen (update_data (ms_key m) [(''promo_id'', dget res ''promo_id''), (''promo_percent'', JInt percent)])
     (andthen (set_state (ms_key m) (Some ExtendPaymentMethod))
        (on_unavailable be (ToMessage m) uid ''ext_promo_post_balance_failed'' (get_user_balance be u) (\<lambda>b.
           on_unavailable be (ToMessage m) uid ''ext_promo_post_durations_failed''
             (await (subscription_detail_call be sid u) (fetch_extension_durations be)) (\<lambda>ds.
               case find_by_id ds did of
                 None \<Rightarrow> reply be m (tx ''unexpected_error'' []) no_kb
               | Some dur \<Rightarrow>
                   (let final = bot_apply_discount (int_default 0 dur ''price_kopecks'') (Some percent) in
                    reply be m (tx ''promo_discount_applied'' [JInt percent, JInt (final div 100)])
                      (extension_payment_methods_kb sid did final b)))))))"

definition msg_ext_promo_input :: "bot_env \<Rightarrow> message \<Rightarrow> dict option \<Rightarrow> unit act" where
  "msg_ext_promo_input be m db_user =
     (case ms_from m of
        None \<Rightarrow> give ()
      | Some from \<Rightarrow>
          await (get_state (ms_key m)) (\<lambda>f.
            case (as_int_opt (map_of (fs_data f) ''subscription_id''),
                  as_int_opt (map_of (fs_data f) ''duration_id'')) of
              (Some sid, Some did) \<Rightarrow>
                (let code = str_strip (opt_str (ms_text m)); uid = user_id_of db_user; u = tu_id from in
                 if \<not> promo_code_ok code then reply be m (tx ''promo_not_found'' []) promo_retry_kb
                 else with_promo be m uid u code
                        (''ext_promo_apply_client_error'', ''ext_promo_apply_backend_unavailable'',
                         ''ext_promo_apply_unexpected'')
                        (\<lambda>x. reply be m (tx (refusal_key x) []) promo_retry_kb)
                        (\<lambda>res.
                           if str_or [] res ''type'' = ''balance''
                           then andthen (reply be m (tx ''promo_balance_applied''
                                            [JInt (int_or_zero res ''amount_kopecks'' div 100),
                                             JInt (int_or_zero res ''balance_kopecks'' div 100)]) (back_kb ''main_menu''))
                                  (clear_state (ms_key m))
                           else if str_or [] res ''type'' = ''discount_percent''
                           then ext_discount be m uid u sid did res
                           else report_unexpected be (ToMessage m) uid (unknown_promo_type res)
                                  ''ext_promo_apply_unknown_type'' []))
            | _ \<Rightarrow> andthen (clear_state (ms_key m)) (reply be m (tx ''unexpected_error'' []) no_kb)))"

definition cb_ext_promo_skip :: "bot_env \<Rightarrow> callback \<Rightarrow> dict option \<Rightarrow> unit act" where
  "cb_ext_promo_skip be c db_user =
     (case callback_pair c of
        None \<Rightarrow> ack be
      | Some (sid, did) \<Rightarrow>
          guarded be (ToCallback c) (user_id_of db_user) ''ext_promo_skip_backend_unavailable''
            ''ext_promo_skip_unexpected'' []
            (await (subscription_detail_call be sid (tu_id (cq_from c))) (\<lambda>sub.
             await (fetch_extension_durations be sub) (\<lambda>ds.
             await (get_user_balance be (tu_id (cq_from c))) (\<lambda>b. give (sub, ds, b)))))
            (\<lambda>(sub, ds, b). case find_by_id ds did of
               None \<Rightarrow> safe_edit_or_answer be (ToCallback c) (tx ''unexpected_error'' []) (back_kb ''profile'')
             | Some dur \<Rightarrow>
                 (let amount = int_default 0 dur ''price_kopecks'' in
                  andthen (update_data (cq_key c)
                             [(''subscription_id'', JInt sid), (''duration_id'', JInt did),
                              (''promo_id'', JNull), (''promo_percent'', JNull)])
                 (andthen (set_state (cq_key c) (Some ExtendPaymentMethod))
                    (safe_edit_or_answer be (ToCallback c)
                       (tx ''pay_method_header'' [JInt (amount div 100), JInt (b div 100), dget sub ''tariff_name''])
                       (extension_payment_methods_kb sid did amount b))))))"

text \<open>
  The client sends \<open>promo_id\<close>; the endpoint reads \<open>promo_code\<close>, which is therefore absent.
\<close>

definition start_extension_call ::
  "bot_env \<Rightarrow> int \<Rightarrow> int \<Rightarrow> string \<Rightarrow> int \<Rightarrow> int option \<Rightarrow> dict act" where
  "start_extension_call be sid did provider u promo_id =
     await (call be False (extend_endpoint (be_env be) sid u did provider None)) (\<lambda>j. give (obj_of j))"

definition extension_error_key :: "bot_exn \<Rightarrow> string" where
  "extension_error_key x =
     (case error_code_of x of
        Some c \<Rightarrow>
          if c \<in> {''subscription_not_extendable'', ''insufficient_balance'', ''payment_provider_unavailable'',
                  ''vpn_provider_unavailable''} then c
          else if c = ''vpn_provider_unavailable_refunded'' then ''extension_failed_refund''
          else ''unexpected_error''
      | None \<Rightarrow> ''unexpected_error'')"

definition extension_refused ::
  "bot_env \<Rightarrow> callback \<Rightarrow> int option \<Rightarrow> int \<Rightarrow> int \<Rightarrow> string \<Rightarrow> bot_exn \<Rightarrow> unit act" where
  "extension_refused be c uid sid did provider x =
     (let key = extension_error_key x in
      andthen (safe_edit_or_answer be (ToCallback c)
                 (tx key (if key = ''insufficient_balance'' then [JInt (current_balance x div 100)] else []))
                 (back_kb ''profile''))
     (andthen (bot_log be level_warning ''extension_start_client_error'' uid (take 300 (be_detail be x))
                 [(''error_code'', json_opt_str (error_code_of x)), (''subscription_id'', JInt sid),
                  (''duration_id'', JInt did), (''provider'', JStr provider)])
              (clear_state (cq_key c))))"

definition extension_started ::
  "bot_env \<Rightarrow> callback \<Rightarrow> int option \<Rightarrow> int \<Rightarrow> int \<Rightarrow> string \<Rightarrow> dict \<Rightarrow> unit act" where
  "extension_started be c uid sid did provider res =
     (let key_url = str_or [] res ''key_url'';
          new_expires = (if truthy_or False res ''new_expires_at'' then dget res ''new_expires_at''
                         else if truthy_or False res ''expires_at'' then dget res ''expires_at'' else JNull);
          url = str_or [] res ''payment_url''
      in if provider = ''balance'' \<and> (key_url \<noteq> [] \<or> new_expires \<noteq> JNull)
         then andthen (safe_edit_or_answer be (ToCallback c)
                         (tx ''subscription_extended'' [date_text new_expires]) (key_issued_kb be))
             (andthen (clear_state (cq_key c))
                (bot_log be level_info ''extension_balance_success'' uid ''Extension paid from balance''
                   [(''subscription_id'', JInt sid), (''duration_id'', JInt did),
                    (''payment_id'', dget res ''payment_id'')]))
         else if url = []
         then report_unexpected be (ToCallback c) uid
                (runtime_error ''backend returned no payment_url for extension'')
                ''extension_start_missing_url'' [(''provider'', JStr provider)]
         else andthen (safe_edit_or_answer be (ToCallback c)
                         (tx ''payment_invoice'' [JInt (int_default 0 res ''amount_kopecks'' div 100),
                                                  dget res ''payment_id'', JStr provider])
                         (payment_link_kb url))
             (andthen (update_data (cq_key c)
                         [(''payment_id'', dget res ''payment_id''), (''provider'', JStr provider)])
             (andthen (set_state (cq_key c) (Some ExtendAwaitingPayment))
                (bot_log be level_info ''extension_invoice_sent'' uid ''Extension invoice URL delivered to user''
                   [(''subscription_id'', JInt sid), (''duration_id'', JInt did),
                    (''provider'', JStr provider), (''payment_id'', dget res ''payment_id'')]))))"

definition callback_ext_pay :: "callback \<Rightarrow> (int \<times> int \<times> string) option" where
  "callback_ext_pay c = (case map_option (split_on (CHR '':'')) (cq_data c) of
     Some [p, a, b, provider] \<Rightarrow>
       (case (py_int a, py_int b) of
          (Some sid, Some did) \<Rightarrow> if provider \<in> set purchase_providers then Some (sid, did, provider) else None
        | _ \<Rightarrow> None)
   | _ \<Rightarrow> None)"

definition cb_ext_pay :: "bot_env \<Rightarrow> callback \<Rightarrow> dict option \<Rightarrow> unit act" where
  "cb_ext_pay be c db_user =
     (case callback_ext_pay c of
        None \<Rightarrow> ack be
      | Some (sid, did, provider) \<Rightarrow>
          await (get_state (cq_key c)) (\<lambda>f.
          await (attempt (start_extension_call be sid did provider (tu_id (cq_from c))
                            (as_int_opt (map_of (fs_data f) ''promo_id'')))) (\<lambda>r. case r of
              Inr res \<Rightarrow> extension_started be c (user_id_of db_user) sid did provider res
            | Inl x \<Rightarrow>
                if is_client_error x then extension_refused be c (user_id_of db_user) sid did provider x
                else if x = BackendUnavailable
                then report_backend_unavailable be (ToCallback c) (user_id_of db_user) x
                       ''extension_start_backend_unavailable''
                else report_unexpected be (ToCallback c) (user_id_of db_user) x
                       ''extension_start_unexpected'' [])))"

definition cb_sub_howto :: "bot_env \<Rightarrow> callback \<Rightarrow> unit act" where
  "cb_sub_howto be c =
     (if str_truthy (be_howto be) then ack be
      else safe_edit_or_answer be (ToCallback c) (tx ''howto_connect_fallback'' []) (back_kb ''profile''))"

section \<open>Topping up\<close>

definition min_rub :: int where "min_rub = 10"

definition cb_topup_start :: "bot_env \<Rightarrow> callback \<Rightarrow> unit act" where
  "cb_topup_start be c =
     andthen (clear_state (cq_key c))
    (andthen (set_state (cq_key c) (Some TopupAmountInput))
             (safe_edit_or_send_media be (ToCallback c) ''topup_amount_prompt'' [JInt min_rub] (back_kb ''profile'')))"

definition clean_amount :: "string \<Rightarrow> string" where
  "clean_amount s = List.map (\<lambda>x. if x = CHR '','' then CHR ''.'' else x)
                      (filter (\<lambda>x. x \<noteq> CHR '' '') (str_strip s))"

definition msg_topup_amount :: "bot_env \<Rightarrow> message \<Rightarrow> dict option \<Rightarrow> unit act" where
  "msg_topup_amount be m db_user =
     (case be_whole be (clean_amount (opt_str (ms_text m))) of
        NotANumber \<Rightarrow> reply be m (tx ''topup_invalid_amount'' [JInt min_rub]) (back_kb ''profile'')
      | TooLarge \<Rightarrow> throw (BotExn ''OverflowError'' ''cannot convert float infinity to integer'')
      | Whole rub \<Rightarrow>
          if rub < min_rub then reply be m (tx ''topup_min_amount'' [JInt min_rub]) (back_kb ''profile'')
          else andthen (update_data (ms_key m) [(''amount_kopecks'', JInt (rub * 100))])
              (andthen (set_state (ms_key m) (Some TopupPaymentMethod))
              (andthen (safe_edit_or_send_media be (ToMessage m) ''topup_method_prompt'' [JInt rub] topup_methods_kb)
                       (bot_log be level_info ''topup_amount_set'' (user_id_of db_user)
                          ''User selected top-up amount'' [(''amount_kopecks'', JInt (rub * 100))]))))"

definition create_topup_call :: "bot_env \<Rightarrow> int \<Rightarrow> int \<Rightarrow> string \<Rightarrow> dict act" where
  "create_topup_call be u amount provider =
     await (call be False (topup_endpoint (be_env be) u amount provider)) (\<lambda>j. give (obj_of j))"

definition topup_invoiced :: "bot_env \<Rightarrow> callback \<Rightarrow> int option \<Rightarrow> string \<Rightarrow> int \<Rightarrow> dict \<Rightarrow> unit act" where
  "topup_invoiced be c uid provider amount res =
     (if str_or [] res ''payment_url'' = []
      then report_unexpected be (ToCallback c) uid (runtime_error ''backend returned no payment_url'')
             ''topup_create_missing_url'' [(''provider'', JStr provider)]
      else andthen (invoice_shown be c uid provider amount res)
          (andthen (clear_state (cq_key c))
                   (bot_log be level_info ''topup_invoice_sent'' uid ''Top-up invoice URL delivered to user''
                      [(''tg_id'', JInt (tu_id (cq_from c))), (''provider'', JStr provider),
                       (''payment_id'', dget res ''payment_id''), (''amount_kopecks'', JInt amount)])))"

definition cb_topup_pay :: "bot_env \<Rightarrow> callback \<Rightarrow> dict option \<Rightarrow> unit act" where
  "cb_topup_pay be c db_user =
     (case Option.bind (cq_data c) after_colon of
        None \<Rightarrow> ack be
      | Some provider \<Rightarrow>
          if provider \<notin> set gateway_names then ack be
          else await (get_state (cq_key c)) (\<lambda>f.
            case as_int_opt (map_of (fs_data f) ''amount_kopecks'') of
              None \<Rightarrow> andthen (alert be (tx ''amount_not_chosen'' [])) (clear_state (cq_key c))
            | Some amount \<Rightarrow>
                await (attempt (create_topup_call be (tu_id (cq_from c)) amount provider)) (\<lambda>r. case r of
                    Inr res \<Rightarrow> topup_invoiced be c (user_id_of db_user) provider amount res
                  | Inl x \<Rightarrow>
                      if is_client_error x
                      then provider_refused be c (user_id_of db_user) ''profile'' ''topup_create_client_error''
                             [(''provider'', JStr provider), (''amount_kopecks'', JInt amount)] x
                      else if x = BackendUnavailable
                      then report_backend_unavailable be (ToCallback c) (user_id_of db_user) x
                             ''topup_create_backend_unavailable''
                      else report_unexpected be (ToCallback c) (user_id_of db_user) x
                             ''topup_create_unexpected'' [])))"

section \<open>Promo codes outside a purchase\<close>

definition cb_promo_open :: "bot_env \<Rightarrow> callback \<Rightarrow> unit act" where
  "cb_promo_open be c =
     andthen (clear_state (cq_key c))
    (andthen (set_state (cq_key c) (Some PromoInput))
             (safe_edit_or_send_media be (ToCallback c) ''promo_input_prompt'' [] (back_kb ''main_menu'')))"

definition msg_promo_apply :: "bot_env \<Rightarrow> message \<Rightarrow> dict option \<Rightarrow> unit act" where
  "msg_promo_apply be m db_user =
     (case ms_from m of
        None \<Rightarrow> give ()
      | Some from \<Rightarrow>
          (let code = str_strip (opt_str (ms_text m)); uid = user_id_of db_user; u = tu_id from in
           if \<not> promo_code_ok code then reply be m (tx ''promo_not_found'' []) (back_kb ''main_menu'')
           else with_promo be m uid u code
                  (''promo_standalone_client_error'', ''promo_standalone_backend_unavailable'',
                   ''promo_standalone_unexpected'')
                  (\<lambda>x. andthen (reply be m (tx (refusal_key x) []) (back_kb ''main_menu''))
                      (andthen (clear_state (ms_key m))
                         (bot_log be level_info ''promo_standalone_rejected'' uid (take 300 (be_detail be x))
                            [(''error_code'', json_opt_str (error_code_of x)), (''tg_id'', JInt u)])))
                  (\<lambda>res.
                     if str_or [] res ''type'' = ''balance''
                     then balance_promo_applied be m uid u ''Balance promo applied (standalone)'' res
                     else if str_or [] res ''type'' = ''discount_percent''
                     then andthen (safe_edit_or_send_media be (ToMessage m) ''promo_discount_requires_purchase'' []
                                     (back_kb ''main_menu''))
                         (andthen (clear_state (ms_key m))
                            (bot_log be level_info ''promo_discount_standalone_rejected'' uid
                               ''Discount promo entered outside a purchase''
                               [(''tg_id'', JInt u), (''code'', JStr (take 64 code))]))
                     else report_unexpected be (ToMessage m) uid (unknown_promo_type res)
                            ''promo_standalone_unknown_type'' [(''result'', JObj res)])))"

section \<open>Referrals and the about screen\<close>

definition cb_referral_program :: "bot_env \<Rightarrow> callback \<Rightarrow> dict option \<Rightarrow> unit act" where
  "cb_referral_program be c db_user =
     guarded be (ToCallback c) (user_id_of db_user) ''referral_stats_backend_unavailable''
       ''referral_stats_unexpected'' [] (referral_stats_call be (tu_id (cq_from c)))
       (\<lambda>stats.
          let link = str_or [] stats ''ref_link''; invited = int_or_zero stats ''invited'' in
          safe_edit_or_send_media be (ToCallback c) ''referral_program_screen''
            [JStr link, JInt invited, JInt (int_or_zero stats ''earned_kopecks'' div 100)]
            (referral_kb (if link = [] then tx ''share'' [] else tx ''share'' [JStr link])))"

definition about_button :: "bot_env \<Rightarrow> string \<Rightarrow> json" where
  "about_button be key =
     (if str_truthy (be_text_url be key) then kb_url key (JStr (the (be_text_url be key)))
      else kb_button key ''main_menu'')"

definition about_kb :: "bot_env \<Rightarrow> json" where
  "about_kb be = kb_rows
     (List.map (\<lambda>k. [about_button be k]) [''btn.about.privacy'', ''btn.about.terms'', ''btn.about.channel'']
      @ [[kb_button ''btn.common.back'' ''main_menu'']])"

definition cb_about :: "bot_env \<Rightarrow> callback \<Rightarrow> unit act" where
  "cb_about be c = safe_edit_or_send_media be (ToCallback c) ''about'' [] (about_kb be)"

end
