(* ===== verification/BotAdmin.thy ===== *)
theory BotAdmin
  imports BotSupport
begin

text \<open>
  The administrators' side of support (\<open>handlers/support_admin.py\<close>): replies, commands and
  buttons in the topics of the support group, and the ban-with-reason conversation.
\<close>

section \<open>Helpers\<close>

definition in_support_group :: "bot_env \<Rightarrow> int option \<Rightarrow> bool" where
  "in_support_group be chat \<longleftrightarrow> be_group be \<noteq> None \<and> chat = be_group be"

definition message_in_group :: "bot_env \<Rightarrow> message \<Rightarrow> bool" where
  "message_in_group be m = in_support_group be (Some (ms_chat m))"

definition callback_in_group :: "bot_env \<Rightarrow> callback \<Rightarrow> bool" where
  "callback_in_group be c = in_support_group be (map_option fst (cq_message c))"

definition positive :: "int option \<Rightarrow> int option" where
  "positive i = (case i of Some n \<Rightarrow> if 0 < n then Some n else None | None \<Rightarrow> None)"

definition resolve_ticket_user_tg_id :: "bot_env \<Rightarrow> dict \<Rightarrow> int option act" where
  "resolve_ticket_user_tg_id be ticket =
     (case positive (as_int_opt (map_of ticket ''user_tg_id'')) of
        Some n \<Rightarrow> give (Some n)
      | None \<Rightarrow> (case ticket_user ticket of
                   None \<Rightarrow> give None
                 | Some uid \<Rightarrow> await (get_user_by_id be uid) (\<lambda>u.
                     give (case u of None \<Rightarrow> None | Some d \<Rightarrow> positive (as_int_opt (map_of d ''tg_id''))))))"

definition main_menu_kb :: json where
  "main_menu_kb = kb_rows
     [[kb_button ''btn.main_menu.catalog'' ''catalog'', kb_button ''btn.main_menu.profile'' ''profile''],
      [kb_button ''btn.main_menu.support'' ''support'', kb_button ''btn.main_menu.promo'' ''promo''],
      [kb_button ''btn.main_menu.free_gift'' ''free_trial''],
      [kb_button ''btn.main_menu.idea'' ''idea''],
      [kb_button ''btn.main_menu.about'' ''about'']]"

text \<open>The user's conversation is reset, the reply keyboard dropped, the menu shown.\<close>

definition reset_user_after_admin_close :: "bot_env \<Rightarrow> int \<Rightarrow> unit act" where
  "reset_user_after_admin_close be u =
     andthen (clear_state (u, u))
    (andthen (suppress undeliverable (tg be (SendMessage u None (tx ''ellipsis'' []) remove_kb)))
             (suppress undeliverable (tg be (SendMessage u None (tx ''main_menu'' []) main_menu_kb))))"

definition close_ticket_flow :: "bot_env \<Rightarrow> dict \<Rightarrow> int option \<Rightarrow> unit act" where
  "close_ticket_flow be ticket actor =
     (let i = int_or_zero ticket ''id''; th = int_or_zero ticket ''topic_thread_id'' in
      await (close_ticket_call be i ByAdmin None) (\<lambda>closed.
        let code = str_or (or_dash be (str_or [] ticket ''code'')) closed ''code'' in
        await (resolve_ticket_user_tg_id be ticket) (\<lambda>u.
          andthen (case u of
                     None \<Rightarrow> give ()
                   | Some t \<Rightarrow> andthen (suppress undeliverable
                                         (send be t (tx ''support_ticket_closed_by_admin'' [JStr code])))
                                 (reset_user_after_admin_close be t))
         (andthen (notify_topic_admin_closed be th code)
                  (bot_log be level_info ''ticket_closed_by_admin'' (ticket_user ticket)
                     (''Admin closed ticket '' @ code)
                     [(''ticket_id'', JInt i), (''thread_id'', JInt th),
                      (''actor_tg_id'', json_opt_int actor)])))))"

definition ban_user_flow :: "bot_env \<Rightarrow> int \<Rightarrow> string \<Rightarrow> dict \<Rightarrow> unit act" where
  "ban_user_flow be target reason ticket =
     (let th = int_or_zero ticket ''topic_thread_id''; username = str_or [] ticket ''user_username'' in
      andthen (ban_user_by_tg be target reason)
     (andthen (notify_user_banned be target reason)
     (andthen (notify_topic_user_banned be th (or_dash be username) reason)
              (bot_log be level_info ''user_banned'' (ticket_user ticket) (''User banned: '' @ reason)
                 [(''ticket_id'', dget ticket ''id''), (''thread_id'', JInt th),
                  (''tg_id'', JInt target)]))))"

section \<open>Commands in a topic\<close>

text \<open>Every command: only in the support group, only in a topic.\<close>

definition in_topic :: "bot_env \<Rightarrow> message \<Rightarrow> (int \<Rightarrow> unit act) \<Rightarrow> unit act" where
  "in_topic be m f =
     (if \<not> message_in_group be m then give ()
      else case ms_thread m of None \<Rightarrow> give () | Some th \<Rightarrow> f th)"

definition is_open :: "dict \<Rightarrow> bool" where
  "is_open ticket \<longleftrightarrow> map_of ticket ''status'' = Some (JStr ''open'')"

definition actor_of :: "message \<Rightarrow> int option" where
  "actor_of m = map_option tu_id (ms_from m)"

definition cmd_close :: "bot_env \<Rightarrow> message \<Rightarrow> unit act" where
  "cmd_close be m = in_topic be m (\<lambda>th.
     await (get_ticket_by_thread be th) (\<lambda>t. case t of
         None \<Rightarrow> notify_topic_no_open_ticket be th
       | Some ticket \<Rightarrow> if is_open ticket then close_ticket_flow be ticket (actor_of m)
                        else notify_topic_no_open_ticket be th))"

definition no_target :: "bot_env \<Rightarrow> int \<Rightarrow> unit act" where
  "no_target be th = send_to_topic be th (tx ''tg_id_unknown'' [])"

definition with_ticket_user ::
  "bot_env \<Rightarrow> int \<Rightarrow> unit act \<Rightarrow> unit act \<Rightarrow> (dict \<Rightarrow> int \<Rightarrow> unit act) \<Rightarrow> unit act" where
  "with_ticket_user be th no_ticket unknown f =
     await (get_ticket_by_thread be th) (\<lambda>t. case t of
         None \<Rightarrow> no_ticket
       | Some ticket \<Rightarrow> await (resolve_ticket_user_tg_id be ticket) (\<lambda>u. case u of
             None \<Rightarrow> unknown | Some target \<Rightarrow> f ticket target))"

definition cmd_ban :: "bot_env \<Rightarrow> message \<Rightarrow> string \<Rightarrow> unit act" where
  "cmd_ban be m args = in_topic be m (\<lambda>th.
     if str_strip args = [] then send_to_topic be th (tx ''ban_usage'' [])
     else with_ticket_user be th (notify_topic_no_open_ticket be th) (no_target be th)
            (\<lambda>ticket target. ban_user_flow be target (str_strip args) ticket))"

definition cmd_unban :: "bot_env \<Rightarrow> message \<Rightarrow> unit act" where
  "cmd_unban be m = in_topic be m (\<lambda>th.
     with_ticket_user be th (notify_topic_no_open_ticket be th) (no_target be th)
       (\<lambda>ticket target.
          andthen (unban_user_by_tg be target)
         (andthen (notify_user_unbanned be target)
         (andthen (notify_topic_user_unbanned be th (or_dash be (str_or [] ticket ''user_username'')))
                  (bot_log be level_info ''user_unbanned'' (ticket_user ticket) ''User unbanned via /unban''
                     [(''ticket_id'', dget ticket ''id''), (''tg_id'', JInt target)])))))"

definition subs_summary :: "dict list \<Rightarrow> json" where
  "subs_summary subs =
     (let active = filter (\<lambda>s. map_of s ''status'' = Some (JStr ''active'')) subs in
      if active = [] then tx ''no_active_subs'' []
      else tx ''active_subs'' (List.map (\<lambda>s. JArr [dget s ''tariff_name'', dget s ''expires_at'']) active))"

text \<open>\<open>value = v; try: value = m except pred: pass\<close>.\<close>

definition recover :: "(bot_exn \<Rightarrow> bool) \<Rightarrow> 'a \<Rightarrow> 'a act \<Rightarrow> 'a act" where
  "recover pred v m = await (attempt m)
     (\<lambda>r. case r of Inl x \<Rightarrow> if pred x then give v else throw x | Inr a \<Rightarrow> give a)"

definition cmd_info :: "bot_env \<Rightarrow> message \<Rightarrow> unit act" where
  "cmd_info be m = in_topic be m (\<lambda>th.
     with_ticket_user be th (send_to_topic be th (tx ''no_ticket_in_topic'' [])) (no_target be th)
       (\<lambda>ticket target.
          await (recover backend_error 0 (get_user_balance be target)) (\<lambda>kop.
          await (recover backend_error (tx ''dash'' [])
                   (await (get_user_subscriptions be target) (\<lambda>subs. give (subs_summary subs)))) (\<lambda>subs.
            send_to_topic be th (tx ''ticket_info''
              [JStr (or_dash be (str_or [] ticket ''user_username'')), JInt target,
               JInt (kop div 100), subs])))))"

section \<open>The ban reason\<close>

definition cancel_tokens :: "bot_env \<Rightarrow> string set" where
  "cancel_tokens be = {''/cancel'', be_word be ''cancel'', ''cancel''}"

definition msg_admin_ban_reason :: "bot_env \<Rightarrow> message \<Rightarrow> unit act" where
  "msg_admin_ban_reason be m =
     (if \<not> message_in_group be m then give ()
      else let raw = str_strip (opt_str (ms_text m)) in
        if raw = [] \<or> str_lower raw \<in> cancel_tokens be
        then andthen (clear_state (ms_key m))
               (case ms_thread m of None \<Rightarrow> give () | Some th \<Rightarrow> send_to_topic be th (tx ''ban_cancelled'' []))
        else await (get_state (ms_key m)) (\<lambda>f.
          andthen (clear_state (ms_key m))
            (case (as_int_opt (map_of (fs_data f) ''user_tg_id''), as_int_opt (map_of (fs_data f) ''ticket_id'')) of
               (Some target, Some i) \<Rightarrow>
                 ban_user_flow be target raw
                   [(''id'', JInt i), (''topic_thread_id'', dget (fs_data f) ''thread_id''),
                    (''user_username'', JStr (str_or [] (fs_data f) ''user_username''))]
             | _ \<Rightarrow> send_to_topic be (case ms_thread m of None \<Rightarrow> 0 | Some th \<Rightarrow> th)
                      (tx ''ban_context_lost'' []))))"

section \<open>Replies to the user\<close>

datatype delivery =
    Delivered string "string option" "string option" "string option" int
  | Unsupported

definition deliver_reply :: "bot_env \<Rightarrow> message \<Rightarrow> int \<Rightarrow> int \<Rightarrow> delivery act" where
  "deliver_reply be m th target =
     (if str_truthy (ms_text m)
      then await (tg_result be (SendMessage target None
                    (tx ''support_admin_reply_prefix'' [JStr (opt_str (ms_text m))]) no_kb))
             (\<lambda>i. give (Delivered ''text'' (ms_text m) None None i))
      else if ms_photo m \<noteq> []
      then await (tg_result be (SendFile ''photo'' target None (last (ms_photo m))
                    (Some (tx ''support_admin_reply_prefix'' [JStr (opt_str (ms_caption m))])) no_kb))
             (\<lambda>i. give (Delivered ''photo'' (if str_truthy (ms_caption m) then ms_caption m else None)
                          (Some (last (ms_photo m))) None i))
      else case map_of (ms_media m) ''sticker'' of
        Some file \<Rightarrow> await (tg_result be (SendFile ''sticker'' target None file None no_kb))
                       (\<lambda>i. give (Delivered ''sticker'' None None (Some file) i))
      | None \<Rightarrow> andthen (send_to_topic be th (tx ''unsupported_type'' [])) (give Unsupported))"

definition reply_failed :: "bot_env \<Rightarrow> dict \<Rightarrow> int \<Rightarrow> int \<Rightarrow> bot_exn \<Rightarrow> unit act" where
  "reply_failed be ticket th target x =
     (if is_forbidden x
      then andthen (send_to_topic be th (tx ''user_blocked_bot'' []))
             (bot_log be level_warning ''ticket_reply_blocked_by_user'' (ticket_user ticket)
                ''User has blocked the bot''
                [(''ticket_id'', dget ticket ''id''), (''tg_id'', JInt target)])
      else if is_bad_request x
      then send_to_topic be th (tx ''reply_not_delivered'' [JStr (be_exc be x)])
      else throw x)"

definition mirror_reply :: "bot_env \<Rightarrow> message \<Rightarrow> int \<Rightarrow> dict \<Rightarrow> int \<Rightarrow> unit act" where
  "mirror_reply be m th ticket target =
     await (attempt (deliver_reply be m th target)) (\<lambda>r. case r of
         Inl x \<Rightarrow> reply_failed be ticket th target x
       | Inr Unsupported \<Rightarrow> give ()
       | Inr (Delivered mtype txt_value photo sticker i) \<Rightarrow>
           suppress backend_error
             (record_ticket_message be (int_or_zero ticket ''id'') from_admin mtype txt_value photo
                sticker (Some i)))"

definition msg_admin_in_topic :: "bot_env \<Rightarrow> message \<Rightarrow> unit act" where
  "msg_admin_in_topic be m =
     (if \<not> message_in_group be m then give ()
      else if starts_with ''/'' (opt_str (ms_text m)) then give ()
      else if (case ms_from m of None \<Rightarrow> False | Some u \<Rightarrow> tu_is_bot u) then give ()
      else case ms_thread m of
        None \<Rightarrow> give ()
      | Some th \<Rightarrow>
          await (get_ticket_by_thread be th) (\<lambda>t. case t of
              None \<Rightarrow> notify_topic_no_open_ticket be th
            | Some ticket \<Rightarrow>
                if \<not> is_open ticket then notify_topic_no_open_ticket be th
                else await (resolve_ticket_user_tg_id be ticket) (\<lambda>u. case u of
                    None \<Rightarrow> send_to_topic be th (tx ''tg_id_unknown_not_delivered'' [])
                  | Some target \<Rightarrow> mirror_reply be m th ticket target)))"

section \<open>Buttons\<close>

text \<open>Guards of a button: its chat, its data, the ticket id after the last colon.\<close>

definition on_ticket_button :: "bot_env \<Rightarrow> callback \<Rightarrow> (int \<Rightarrow> int option \<Rightarrow> unit act) \<Rightarrow> unit act" where
  "on_ticket_button be c f =
     (if \<not> callback_in_group be c then ack be
      else case (cq_data c, cq_message c) of
        (Some data, Some ct) \<Rightarrow>
          (case py_int (rsplit_last (CHR '':'') data) of None \<Rightarrow> ack be | Some i \<Rightarrow> f i (snd ct))
      | _ \<Rightarrow> ack be)"

definition ticket_in_thread :: "bot_env \<Rightarrow> int option \<Rightarrow> dict option act" where
  "ticket_in_thread be th = (case th of None \<Rightarrow> give None | Some t \<Rightarrow> get_ticket_by_thread be t)"

definition ban_prompt :: "bot_env \<Rightarrow> int option \<Rightarrow> int option act" where
  "ban_prompt be th =
     (case (be_group be, th) of
        (Some g, Some t) \<Rightarrow>
          await (attempt (tg_result be (SendMessage g (Some t) (tx ''support_topic_ban_reason_prompt'' [])
                            ban_reason_cancel_kb)))
            (\<lambda>r. case r of Inr i \<Rightarrow> give (Some i) | Inl x \<Rightarrow> if undeliverable x then give None else throw x)
      | _ \<Rightarrow> give None)"

definition cb_admin_ban :: "bot_env \<Rightarrow> callback \<Rightarrow> unit act" where
  "cb_admin_ban be c = on_ticket_button be c (\<lambda>i th.
     await (ticket_in_thread be th) (\<lambda>t. case t of
         None \<Rightarrow> alert be (tx ''ticket_not_found'' [])
       | Some ticket \<Rightarrow> await (resolve_ticket_user_tg_id be ticket) (\<lambda>u. case u of
             None \<Rightarrow> alert be (tx ''tg_id_unknown'' [])
           | Some target \<Rightarrow>
               await (ban_prompt be th) (\<lambda>sent.
                 andthen (set_state (cq_key c) (Some AwaitingBanReason))
                (andthen (update_data (cq_key c)
                            [(''ticket_id'', JInt i), (''user_tg_id'', JInt target),
                             (''user_id'', dget ticket ''user_id''),
                             (''user_username'', JStr (str_or [] ticket ''user_username'')),
                             (''thread_id'', json_opt_int th),
                             (''prompt_message_id'', json_opt_int sent)])
                         (ack be))))))"

definition cb_admin_ban_cancel :: "bot_env \<Rightarrow> callback \<Rightarrow> unit act" where
  "cb_admin_ban_cancel be c =
     (if \<not> callback_in_group be c then ack be
      else andthen (clear_state (cq_key c))
          (andthen (case cq_message c of None \<Rightarrow> give ()
                    | Some ct \<Rightarrow> suppress is_bad_request (tg be (EditText (fst ct) (tx ''cancelled'' []) no_kb)))
                   (ack be)))"

definition cb_admin_close :: "bot_env \<Rightarrow> callback \<Rightarrow> unit act" where
  "cb_admin_close be c = on_ticket_button be c (\<lambda>i th.
     await (ticket_in_thread be th) (\<lambda>t.
       let ticket = (case t of Some tk \<Rightarrow> tk
                     | None \<Rightarrow> [(''id'', JInt i), (''topic_thread_id'', json_opt_int th)]) in
       await (attempt (close_ticket_flow be ticket (Some (tu_id (cq_from c))))) (\<lambda>r. case r of
           Inl x \<Rightarrow> if backend_error x then alert be (tx ''close_failed'' [JStr (be_exc be x)]) else throw x
         | Inr ok \<Rightarrow>
             andthen (suppress is_bad_request
                        (tg be (EditMarkup (case cq_message c of None \<Rightarrow> 0 | Some ct \<Rightarrow> fst ct))))
                     (tg be (AckCallback (Some (tx ''ticket_closed'' [])) False)))))"

end
