(* ===== verification/BotDispatch.thy ===== *)
theory BotDispatch
  imports BotProfile BotAdmin
begin

text \<open>
  How an update reaches a handler: the middlewares (\<open>middlewares/user.py\<close>, \<open>ban.py\<close>,
  \<open>subscription_check.py\<close>), the routers in the order \<open>main.py\<close> registers them, the handlers of
  \<open>handlers/start.py\<close> and \<open>handlers/getfileid.py\<close>, and the handler of last resort.  Of aiogram:
  the first handler whose filters accept the update ends the routing, whatever it does.
\<close>

section \<open>Commands\<close>

text \<open>What aiogram's \<open>Command\<close> filter reads from a message is \<open>be_command\<close>: name and arguments.\<close>

definition is_command :: "bot_env \<Rightarrow> message \<Rightarrow> string \<Rightarrow> bool" where
  "is_command be m name = (case be_command be m of None \<Rightarrow> False | Some (c, args) \<Rightarrow> c = name)"

definition command_args :: "bot_env \<Rightarrow> message \<Rightarrow> string" where
  "command_args be m = (case be_command be m of None \<Rightarrow> [] | Some (c, args) \<Rightarrow> args)"

section \<open>The start screen\<close>

definition digits_only :: "string \<Rightarrow> bool" where
  "digits_only s \<longleftrightarrow> s \<noteq> [] \<and> list_all is_digit s"

definition show_main_menu :: "bot_env \<Rightarrow> target \<Rightarrow> unit act" where
  "show_main_menu be t = safe_edit_or_send_media be t ''main_menu'' [] main_menu_kb"

definition start_payload_of :: "string \<Rightarrow> string option" where
  "start_payload_of args =
     (if starts_with ''ref_'' args \<and> digits_only (drop 4 args) \<and> length (drop 4 args) \<le> 20
      then Some args else None)"

definition cmd_start :: "bot_env \<Rightarrow> message \<Rightarrow> string \<Rightarrow> dict option \<Rightarrow> unit act" where
  "cmd_start be m args db_user =
     (let payload = start_payload_of (str_strip args);
          from_id = json_opt_int (map_option tu_id (ms_from m))
      in andthen (case (payload, ms_from m) of
             (Some p, Some u) \<Rightarrow>
               await (attempt (upsert_user_call be u (Some p))) (\<lambda>r. case r of
                   Inl x \<Rightarrow> give ()
                 | Inr resp \<Rightarrow> bot_log be level_info ''ref_payload_received'' (user_id_of db_user)
                     ''Referral payload forwarded to backend''
                     [(''tg_id'', JInt (tu_id u)), (''start_payload'', JStr p)])
           | _ \<Rightarrow> give ())
        (andthen (bot_log be level_info ''user_start'' (user_id_of db_user) ''/start handled''
                    [(''tg_id'', from_id), (''start_payload'', json_opt_str payload)])
                 (show_main_menu be (ToMessage m))))"

definition subscribed_statuses :: "string set" where
  "subscribed_statuses = {''creator'', ''administrator'', ''member'', ''owner''}"

definition redis_op :: "bot_env \<Rightarrow> unit act" where
  "redis_op be s =
     ((if be_redis be (bt_redis_ops s) then Inr () else Inl (BotExn ''RedisError'' [])),
      s\<lparr>bt_redis_ops := Suc (bt_redis_ops s)\<rparr>)"

definition sub_check_ttl :: int where "sub_check_ttl = 300"

definition cache_subscribed :: "bot_env \<Rightarrow> int \<Rightarrow> int option \<Rightarrow> unit act" where
  "cache_subscribed be u exp =
     andthen (redis_op be) (\<lambda>s. (Inr (), s\<lparr>bt_subscribed := (bt_subscribed s)(u := exp)\<rparr>))"

definition remember_subscribed :: "bot_env \<Rightarrow> int \<Rightarrow> unit act" where
  "remember_subscribed be u = cache_subscribed be u (Some (e_now (be_env be) + seconds sub_check_ttl))"

definition cb_check_sub :: "bot_env \<Rightarrow> callback \<Rightarrow> dict option \<Rightarrow> unit act" where
  "cb_check_sub be c db_user =
     (let u = tu_id (cq_from c) in
      andthen (suppress any_exn (cache_subscribed be u None))
       (await (attempt (tg be (GetChatMember u))) (\<lambda>r. case r of
           Inl x \<Rightarrow> alert be (tx ''check_failed'' [])
         | Inr ok \<Rightarrow>
             if be_member be u \<in> subscribed_statuses
             then andthen (suppress any_exn (remember_subscribed be u))
                 (andthen (tg be (AckCallback (Some (tx ''access_granted'' [])) False))
                 (andthen (bot_log be level_info ''subscription_confirmed'' (user_id_of db_user)
                             ''User confirmed channel subscription'' [(''tg_id'', JInt u)])
                          (show_main_menu be (ToCallback c))))
             else alert be (tx ''subscription_missing'' []))))"

section \<open>File ids\<close>

definition in_general_topic :: "bot_env \<Rightarrow> message \<Rightarrow> bool" where
  "in_general_topic be m \<longleftrightarrow>
     be_group be = Some (ms_chat m) \<and> (ms_thread m = None \<or> ms_thread m = Some 1)"

definition extract_file :: "string list \<Rightarrow> (string \<times> string) list \<Rightarrow> (string \<times> string) option" where
  "extract_file photo media =
     (if photo \<noteq> [] then Some (last photo, ''photo'')
      else List.find (\<lambda>(f, k). True)
        (List.map_filter (\<lambda>k. map_option (\<lambda>f. (f, k)) (map_of media k))
           [''animation'', ''video'', ''document'', ''sticker'']))"

definition cmd_getfileid :: "bot_env \<Rightarrow> message \<Rightarrow> unit act" where
  "cmd_getfileid be m =
     (if \<not> in_general_topic be m then give ()
      else case (case ms_reply_to m of Some (photo, media) \<Rightarrow> extract_file photo media
                 | None \<Rightarrow> extract_file (ms_photo m) (ms_media m)) of
        None \<Rightarrow> reply be m (tx ''getfileid_usage'' []) no_kb
      | Some (file, kind) \<Rightarrow> reply be m (tx ''getfileid'' [JStr kind, JStr file]) no_kb)"

definition hint_on_bare_media :: "bot_env \<Rightarrow> message \<Rightarrow> unit act" where
  "hint_on_bare_media be m =
     (if \<not> in_general_topic be m then give ()
      else if mentions ''/getfileid'' (str_lower (opt_str (ms_caption m))) then give ()
      else case extract_file (ms_photo m) (ms_media m) of
        None \<Rightarrow> give ()
      | Some (file, kind) \<Rightarrow> reply be m (tx ''getfileid_hint'' [JStr kind, JStr file]) no_kb)"

section \<open>Routing\<close>

datatype msg_handler =
    HStart | HPromoInput | HExtPromoInput | HTopupAmount | HPromoApply
  | HGetFileId | HBareMedia
  | HClose | HBan | HUnban | HInfo | HBanReason | HAdminInTopic
  | HCloseButton | HInTicket | HUnsolicited

definition message_routes ::
  "bot_env \<Rightarrow> fsm_state option \<Rightarrow> message \<Rightarrow> (bool \<times> msg_handler) list" where
  "message_routes be st m =
     [(is_command be m ''start'', HStart),
      (st = Some PurchasePromoInput, HPromoInput),
      (st = Some ExtendPromoInput, HExtPromoInput),
      (st = Some TopupAmountInput, HTopupAmount),
      (st = Some PromoInput, HPromoApply),
      (is_command be m ''getfileid'', HGetFileId),
      (ms_photo m \<noteq> [] \<or> has_media m [''animation'', ''video''], HBareMedia),
      (is_command be m ''close'', HClose),
      (is_command be m ''ban'', HBan),
      (is_command be m ''unban'', HUnban),
      (is_command be m ''info'', HInfo),
      (st = Some AwaitingBanReason, HBanReason),
      (ms_chat_type m \<in> {''group'', ''supergroup''} \<and> int_truthy (ms_thread m), HAdminInTopic),
      (st = Some InTicket \<and> ms_text m = Some (be_word be ''close_ticket''), HCloseButton),
      (st = Some InTicket, HInTicket),
      (st = None \<and> ms_chat_type m = ''private'' \<and> opt_str (ms_text m) \<noteq> []
         \<and> \<not> starts_with ''/'' (opt_str (ms_text m)), HUnsolicited)]"

definition first_route :: "(bool \<times> 'h) list \<Rightarrow> 'h option" where
  "first_route rs = map_option snd (List.find fst rs)"

lemma first_route_simps [simp]:
  "first_route [] = None"
  "first_route ((b, h) # rs) = (if b then Some h else first_route rs)"
  by (simp_all add: first_route_def)

definition route_message :: "bot_env \<Rightarrow> fsm_state option \<Rightarrow> message \<Rightarrow> msg_handler option" where
  "route_message be st m = first_route (message_routes be st m)"

definition run_message :: "bot_env \<Rightarrow> message \<Rightarrow> dict option \<Rightarrow> msg_handler \<Rightarrow> unit act" where
  "run_message be m db_user h =
     (case h of
        HStart \<Rightarrow> cmd_start be m (command_args be m) db_user
      | HPromoInput \<Rightarrow> msg_promo_input be m db_user
      | HExtPromoInput \<Rightarrow> msg_ext_promo_input be m db_user
      | HTopupAmount \<Rightarrow> msg_topup_amount be m db_user
      | HPromoApply \<Rightarrow> msg_promo_apply be m db_user
      | HGetFileId \<Rightarrow> cmd_getfileid be m
      | HBareMedia \<Rightarrow> hint_on_bare_media be m
      | HClose \<Rightarrow> cmd_close be m
      | HBan \<Rightarrow> cmd_ban be m (command_args be m)
      | HUnban \<Rightarrow> cmd_unban be m
      | HInfo \<Rightarrow> cmd_info be m
      | HBanReason \<Rightarrow> msg_admin_ban_reason be m
      | HAdminInTopic \<Rightarrow> msg_admin_in_topic be m
      | HCloseButton \<Rightarrow> msg_close_button be m
      | HInTicket \<Rightarrow> msg_in_ticket be m db_user
      | HUnsolicited \<Rightarrow> msg_unsolicited_text be m)"

definition dispatch_message :: "bot_env \<Rightarrow> message \<Rightarrow> dict option \<Rightarrow> unit act" where
  "dispatch_message be m db_user =
     await (get_state (ms_key m)) (\<lambda>f.
       case route_message be (fs_state f) m of
         None \<Rightarrow> give () | Some h \<Rightarrow> run_message be m db_user h)"

text \<open>The callback routes with their actions, in order.\<close>

definition data_is :: "callback \<Rightarrow> string \<Rightarrow> bool" where
  "data_is c s \<longleftrightarrow> cq_data c = Some s"

definition data_starts :: "callback \<Rightarrow> string \<Rightarrow> bool" where
  "data_starts c s = (case cq_data c of None \<Rightarrow> False | Some x \<Rightarrow> starts_with s x)"

definition callback_routes ::
  "bot_env \<Rightarrow> fsm_state option \<Rightarrow> callback \<Rightarrow> dict option \<Rightarrow> (bool \<times> unit act) list" where
  "callback_routes be st c db_user =
     [(data_is c ''main_menu'', show_main_menu be (ToCallback c)),
      (data_is c ''check_sub'', cb_check_sub be c db_user),
      (data_is c ''catalog'', cb_catalog be c db_user),
      (data_starts c ''tariff:'', cb_tariff be c db_user),
      (data_starts c ''duration:'', cb_duration be c),
      (data_is c ''promo_retry'' \<and> st = Some PurchasePromoInput, cb_promo_retry be c),
      (data_is c ''duration_back'', cb_duration_back be c db_user),
      (data_is c ''promo_skip'' \<and> st = Some PurchasePromoInput, cb_promo_skip be c db_user),
      (data_is c ''free_trial'', cb_free_trial be c db_user),
      (data_starts c ''pay:'' \<and> st = Some PurchasePaymentMethod, cb_pay be c db_user),
      (data_is c ''pay_back'', cb_pay_back be c db_user),
      (data_is c ''pay_cancel'', cb_pay_cancel be c db_user),
      (data_is c ''profile'', cb_profile be c db_user),
      (data_starts c ''sub:'', cb_subscription be c db_user),
      (data_starts c ''extend:'', cb_extend be c db_user),
      (data_starts c ''ext_duration:'', cb_ext_duration be c),
      (data_starts c ''ext_promo_skip:'', cb_ext_promo_skip be c db_user),
      (data_starts c ''ext_pay:'' \<and> st = Some ExtendPaymentMethod, cb_ext_pay be c db_user),
      (data_starts c ''sub_howto:'', cb_sub_howto be c),
      (data_is c ''topup'', cb_topup_start be c),
      (data_starts c ''topup_pay:'' \<and> st = Some TopupPaymentMethod, cb_topup_pay be c db_user),
      (data_is c ''referral_program'', cb_referral_program be c db_user),
      (data_is c ''promo'', cb_promo_open be c),
      (data_is c ''about'', cb_about be c),
      (data_starts c ''tadm:ban:'', cb_admin_ban be c),
      (data_is c ''tadm:ban_cancel'', cb_admin_ban_cancel be c),
      (data_starts c ''tadm:close:'', cb_admin_close be c),
      (data_is c ''support'', cb_support be c db_user),
      (data_is c ''idea'', cb_idea be c db_user),
      (data_is c ''ticket:create:support'' \<or> data_is c ''ticket:create:idea'', cb_ticket_create be c db_user),
      (data_is c ''ticket:close:no'' \<and> st = Some AwaitingCloseConfirm, cb_ticket_close_no be c),
      (data_is c ''ticket:close:yes'' \<and> st = Some AwaitingCloseConfirm, cb_ticket_close_yes be c db_user)]"

definition dispatch_callback :: "bot_env \<Rightarrow> callback \<Rightarrow> dict option \<Rightarrow> unit act" where
  "dispatch_callback be c db_user =
     await (get_state (cq_key c)) (\<lambda>f.
       case first_route (callback_routes be (fs_state f) c db_user) of
         None \<Rightarrow> give () | Some act \<Rightarrow> act)"

section \<open>Middlewares\<close>

datatype update = OnMessage message | OnCallback callback

definition update_chat :: "update \<Rightarrow> int option" where
  "update_chat u = (case u of OnMessage m \<Rightarrow> Some (ms_chat m) | OnCallback c \<Rightarrow> map_option fst (cq_message c))"

definition update_from :: "update \<Rightarrow> tg_user option" where
  "update_from u = (case u of OnMessage m \<Rightarrow> ms_from m | OnCallback c \<Rightarrow> Some (cq_from c))"

definition update_target :: "update \<Rightarrow> target" where
  "update_target u = (case u of OnMessage m \<Rightarrow> ToMessage m | OnCallback c \<Rightarrow> ToCallback c)"

definition dispatch :: "bot_env \<Rightarrow> update \<Rightarrow> dict option \<Rightarrow> unit act" where
  "dispatch be u db_user =
     (case u of OnMessage m \<Rightarrow> dispatch_message be m db_user | OnCallback c \<Rightarrow> dispatch_callback be c db_user)"

text \<open>\<open>/start ref_<digits>\<close> and nothing else.\<close>

definition extract_start_payload :: "update \<Rightarrow> string option" where
  "extract_start_payload u =
     (case u of
        OnCallback c \<Rightarrow> None
      | OnMessage m \<Rightarrow>
          (let s = str_strip (opt_str (ms_text m)); rest = drop 6 s; p = dropWhile is_space rest in
           if starts_with ''/start'' s \<and> rest \<noteq> [] \<and> is_space (hd rest)
              \<and> starts_with ''ref_'' p \<and> digits_only (drop 4 p)
           then Some p else None))"

definition from_group :: "bot_env \<Rightarrow> update \<Rightarrow> bool" where
  "from_group be u \<longleftrightarrow> be_group be \<noteq> None \<and> update_chat u = be_group be"

fun is_telegram :: "bot_exn \<Rightarrow> bool" where
  "is_telegram (TgBadRequest m) = True" | "is_telegram (TgForbidden m) = True"
| "is_telegram (TgOther m) = True" | "is_telegram _ = False"

text \<open>\<open>SubscriptionCheckMiddleware\<close>: \<open>None\<close> when membership cannot be checked.\<close>

definition cached_subscribed :: "bot_env \<Rightarrow> int \<Rightarrow> bool act" where
  "cached_subscribed be u = andthen (redis_op be)
     (\<lambda>s. (Inr (case bt_subscribed s u of Some t \<Rightarrow> e_now (be_env be) < t | None \<Rightarrow> False), s))"

definition is_subscribed :: "bot_env \<Rightarrow> int \<Rightarrow> bool option act" where
  "is_subscribed be u =
     await (cached_subscribed be u) (\<lambda>cached.
       if cached then give (Some True)
       else await (attempt (tg be (GetChatMember u))) (\<lambda>r. case r of
           Inl x \<Rightarrow> if is_telegram x then give None else throw x
         | Inr ok \<Rightarrow>
             if be_member be u \<in> subscribed_statuses
             then andthen (remember_subscribed be u) (give (Some True))
             else give (Some False)))"

definition subscription_check_kb :: "bot_env \<Rightarrow> json" where
  "subscription_check_kb be = kb_rows
     [[kb_url ''btn.common.subscribe'' (JStr (be_channel_url be))],
      [kb_button ''btn.common.subscribed'' ''check_sub'']]"

definition prompt_subscription :: "bot_env \<Rightarrow> update \<Rightarrow> unit act" where
  "prompt_subscription be u =
     (let body = tx ''channel_subscription_required'' []; kb = subscription_check_kb be in
      case u of
        OnMessage m \<Rightarrow> reply be m body kb
      | OnCallback c \<Rightarrow>
          andthen (ack be)
            (case cq_message c of
               None \<Rightarrow> give ()
             | Some ct \<Rightarrow> await (attempt (tg be (EditText (fst ct) body kb))) (\<lambda>r. case r of
                   Inl x \<Rightarrow> if is_telegram x then tg be (SendMessage (fst ct) (snd ct) body kb) else throw x
                 | Inr ok \<Rightarrow> give ())))"

definition sub_check_mw :: "bot_env \<Rightarrow> update \<Rightarrow> unit act \<Rightarrow> unit act" where
  "sub_check_mw be u handler =
     (if from_group be u then handler
      else if (case u of OnCallback c \<Rightarrow> data_is c ''check_sub'' | OnMessage m \<Rightarrow> False) then handler
      else case update_from u of
        None \<Rightarrow> handler
      | Some from \<Rightarrow> await (is_subscribed be (tu_id from)) (\<lambda>r.
          if r = Some False then prompt_subscription be u else handler))"

definition ban_mw :: "bot_env \<Rightarrow> update \<Rightarrow> dict option \<Rightarrow> unit act \<Rightarrow> unit act" where
  "ban_mw be u db_user handler =
     (if from_group be u then handler
      else if (case db_user of None \<Rightarrow> False | Some d \<Rightarrow> truthy_or False d ''is_banned'') then give ()
      else handler)"

definition notify_unavailable :: "bot_env \<Rightarrow> update \<Rightarrow> unit act" where
  "notify_unavailable be u = suppress any_exn
     (case u of
        OnMessage m \<Rightarrow> reply be m (tx ''service_unavailable'' []) no_kb
      | OnCallback c \<Rightarrow>
          andthen (alert be (tx ''service_unavailable_short'' []))
            (case cq_message c of None \<Rightarrow> give ()
             | Some ct \<Rightarrow> tg be (SendMessage (fst ct) (snd ct) (tx ''service_unavailable'' []) no_kb)))"

definition user_mw :: "bot_env \<Rightarrow> update \<Rightarrow> (dict option \<Rightarrow> unit act) \<Rightarrow> unit act" where
  "user_mw be u handler =
     (case update_from u of
        None \<Rightarrow> handler None
      | Some from \<Rightarrow>
          await (attempt (upsert_user_call be from (extract_start_payload u))) (\<lambda>r. case r of
              Inr resp \<Rightarrow> handler (Some (case as_obj_opt (map_of resp ''user'') of Some d \<Rightarrow> d | None \<Rightarrow> resp))
            | Inl x \<Rightarrow>
                if x = BackendUnavailable
                then andthen (bot_log be level_warning ''backend_unavailable'' (Some (tu_id from))
                                ''Backend unavailable on user upsert'' [(''error'', JStr (be_exc be x))])
                       (notify_unavailable be u)
                else throw x))"

definition process_update :: "bot_env \<Rightarrow> update \<Rightarrow> unit act" where
  "process_update be u =
     user_mw be u (\<lambda>db_user. ban_mw be u db_user (sub_check_mw be u (dispatch be u db_user)))"

section \<open>The handler of last resort\<close>

definition on_error :: "bot_env \<Rightarrow> update \<Rightarrow> bot_exn \<Rightarrow> unit act" where
  "on_error be u x =
     andthen (bot_log be level_critical ''unhandled_exception'' (map_option tu_id (update_from u))
                (exn_type x @ '': '' @ be_exc be x) [(''update_id'', JInt (be_update_id be))])
       (suppress any_exn
         (case u of
            OnMessage m \<Rightarrow> reply be m (tx ''unexpected_error'' []) no_kb
          | OnCallback c \<Rightarrow> (case cq_message c of None \<Rightarrow> give ()
              | Some ct \<Rightarrow> andthen (ack be)
                  (tg be (SendMessage (fst ct) (snd ct) (tx ''unexpected_error'' []) no_kb)))))"

definition handle_update :: "bot_env \<Rightarrow> update \<Rightarrow> bot \<Rightarrow> bot" where
  "handle_update be u s =
     snd (await (attempt (process_update be u)) (\<lambda>r. case r of Inl x \<Rightarrow> on_error be u x | Inr ok \<Rightarrow> give ()) s)"

end
