(* ===== verification/BotRuns.thy ===== *)
theory BotRuns
  imports BotDispatch
begin

text \<open>
  What handling an update can do to the bot.  \<open>bot_relation\<close> is the calculus: a reflexive and
  transitive relation between bot states that Redis and the calls \<open>told\<close> to Telegram respect is
  respected by whatever is built from respectful actions; in \<open>bot_talker\<close> every call is told.  \<open>bot_backend\<close> adds the backend: with the endpoints
  and the conversations respected, so is the handling of every update.
\<close>

named_theorems respected

section \<open>The calculus\<close>

locale bot_relation =
  fixes P :: "bot \<Rightarrow> bot \<Rightarrow> bool" and told :: "bot_call \<Rightarrow> bool"
  assumes P_refl: "P s s"
    and P_trans: "P s t \<Longrightarrow> P t u \<Longrightarrow> P s u"
    and P_calls: "told c \<Longrightarrow> P s (s\<lparr>bt_calls := bt_calls s @ [(c, r)]\<rparr>)"
    and P_redis: "P s (s\<lparr>bt_redis_ops := n, bt_flood := fl, bt_subscribed := sb\<rparr>)"
begin

definition respectful :: "'a act \<Rightarrow> bool" where
  "respectful m \<longleftrightarrow> (\<forall>s. P s (snd (m s)))"

lemma respectsI: "(\<And>s. P s (snd (m s))) \<Longrightarrow> respectful m"
  by (simp add: respectful_def)

lemma respects_step: "respectful m \<Longrightarrow> m s = (r, s') \<Longrightarrow> P s s'"
  by (metis respectful_def snd_conv)

lemma respects_give [respected]: "respectful (give a)"
  and respects_throw [respected]: "respectful (throw x)"
  and respects_get [respected]: "respectful (get_state k)"
  by (simp_all add: respectful_def get_state_def P_refl)

lemma respects_await [respected]:
  assumes "respectful m" "\<And>a. respectful (f a)"
  shows "respectful (await m f)"
proof (rule respectsI)
  fix s
  obtain r s' where m: "m s = (r, s')" by (cases "m s")
  then have "P s s'" by (rule respects_step[OF assms(1)])
  moreover have "P s' (snd (f a s'))" for a using assms(2) by (simp add: respectful_def)
  ultimately show "P s (snd (await m f s))"
    by (cases r) (auto simp: await_def m intro: P_trans)
qed

lemma respects_andthen [respected]: "respectful m \<Longrightarrow> respectful n \<Longrightarrow> respectful (andthen m n)"
  unfolding andthen_def by (rule respects_await)

lemma respects_attempt [respected]: "respectful m \<Longrightarrow> respectful (attempt m)"
  by (simp add: respectful_def attempt_def case_prod_beta)

lemma respects_suppress [respected]: "respectful m \<Longrightarrow> respectful (suppress p m)"
proof (rule respectsI)
  fix s assume "respectful m"
  then have "P s (snd (m s))" by (simp add: respectful_def)
  then show "P s (snd (suppress p m s))"
    by (cases "m s"; cases "fst (m s)") (auto simp: suppress_def)
qed

lemma respects_cases [respected]:
  "(b \<Longrightarrow> respectful m) \<Longrightarrow> (\<not> b \<Longrightarrow> respectful n) \<Longrightarrow> respectful (if b then m else n)"
  "respectful m \<Longrightarrow> (\<And>a. respectful (f a)) \<Longrightarrow> respectful (case q of None \<Rightarrow> m | Some a \<Rightarrow> f a)"
  "(\<And>x. respectful (g x)) \<Longrightarrow> (\<And>a. respectful (f a)) \<Longrightarrow> respectful (case r of Inl x \<Rightarrow> g x | Inr a \<Rightarrow> f a)"
  "(\<And>a b. respectful (h a b)) \<Longrightarrow> respectful (case pr of (a, b) \<Rightarrow> h a b)"
  "(\<And>a. respectful (f a)) \<Longrightarrow> respectful (Let v f)"
  "(\<And>m. respectful (fm m)) \<Longrightarrow> (\<And>c. respectful (fc c)) \<Longrightarrow>
     respectful (case t of ToMessage m \<Rightarrow> fm m | ToCallback c \<Rightarrow> fc c)"
  "(\<And>m. respectful (fm m)) \<Longrightarrow> (\<And>c. respectful (fc c)) \<Longrightarrow>
     respectful (case u of OnMessage m \<Rightarrow> fm m | OnCallback c \<Rightarrow> fc c)"
  "(\<And>i. respectful (fw i)) \<Longrightarrow> respectful m \<Longrightarrow> respectful n \<Longrightarrow>
     respectful (case w of Whole i \<Rightarrow> fw i | NotANumber \<Rightarrow> m | TooLarge \<Rightarrow> n)"
  by (simp_all add: Let_def split: option.split sum.split prod.split target.split update.split whole.split)

lemma respects_tg_result [respected]: "told c \<Longrightarrow> respectful (tg_result be c)"
  by (rule respectsI) (simp add: tg_result_def Let_def P_calls)

lemma respects_tg [respected]: "told c \<Longrightarrow> respectful (tg be c)"
  unfolding tg_def by (intro respected)

end

text \<open>A relation that does not mind what the bot says.\<close>

locale bot_talker = bot_relation +
  assumes told_all [respected]: "told c"
begin

lemma respects_telegram [respected]:
  "respectful (send be chat body)" "respectful (reply be m body kb)" "respectful (ack be)"
  "respectful (alert be body)" "respectful (send_entry be chat key args kb)"
  "respectful (edit_or_answer be ct body kb)"
  unfolding send_def reply_def ack_def alert_def send_entry_def edit_or_answer_def
  by (intro respected)+

lemma respects_shown [respected]:
  "respectful (safe_edit_or_answer be t body kb)" "respectful (safe_edit_or_send_media be t key args kb)"
  "respectful (mount_kb be c kb)" "respectful (send_to_topic be th body)"
  unfolding safe_edit_or_answer_def safe_edit_or_send_media_def mount_kb_def send_to_topic_def
  by (intro respected)+

lemma respects_notices [respected]:
  "respectful (notify_topic_separator be th code)" "respectful (notify_topic_user_closed be th code)"
  "respectful (notify_topic_admin_closed be th code)" "respectful (notify_topic_user_banned be th nm reason)"
  "respectful (notify_topic_user_unbanned be th nm)" "respectful (notify_topic_no_open_ticket be th)"
  "respectful (notify_user_banned be u reason)" "respectful (notify_user_unbanned be u)"
  "respectful (no_target be th)"
  unfolding notify_topic_separator_def notify_topic_user_closed_def notify_topic_admin_closed_def
    notify_topic_user_banned_def notify_topic_user_unbanned_def notify_topic_no_open_ticket_def
    notify_user_banned_def notify_user_unbanned_def no_target_def
  by (intro respected)+

lemma respects_redis_op [respected]: "respectful (redis_op be)"
proof (rule respectsI)
  fix s show "P s (snd (redis_op be s))"
    using P_redis[where s = s and n = "Suc (bt_redis_ops s)" and fl = "bt_flood s" and sb = "bt_subscribed s"]
    by (simp add: redis_op_def)
qed

lemma respects_is_flooded [respected]: "respectful (is_flooded be u)"
proof (rule respectsI)
  fix s
  let ?t = "snd (is_flooded be u s)"
  have eq: "?t = s\<lparr>bt_redis_ops := bt_redis_ops ?t, bt_flood := bt_flood ?t, bt_subscribed := bt_subscribed s\<rparr>"
    by (cases "live_count (be_env be) (bt_flood s u)") (simp add: is_flooded_def Let_def)
  show "P s ?t" by (subst eq) (rule P_redis)
qed

lemma respects_cache [respected]: "respectful (cache_subscribed be u t)"
  unfolding cache_subscribed_def
proof (intro respected, rule respectsI)
  fix s show "P s (snd (Inr (), s\<lparr>bt_subscribed := (bt_subscribed s)(u := t)\<rparr>))"
    using P_redis[where s = s and n = "bt_redis_ops s" and fl = "bt_flood s" and sb = "(bt_subscribed s)(u := t)"] by simp
qed

lemma respects_cached [respected]: "respectful (cached_subscribed be u)"
  unfolding cached_subscribed_def
  by (intro respected, rule respectsI) (simp add: P_refl)

lemma respects_is_subscribed [respected]: "respectful (is_subscribed be u)"
  unfolding is_subscribed_def remember_subscribed_def by (intro respected)

lemma respects_prompt [respected]:
  "respectful (prompt_subscription be u)" "respectful (notify_unavailable be u)"
  "respectful (show_main_menu be t)"
  unfolding prompt_subscription_def notify_unavailable_def show_main_menu_def by (intro respected)+

lemma respects_getfileid [respected]: "respectful (cmd_getfileid be m)" "respectful (hint_on_bare_media be m)"
  unfolding cmd_getfileid_def hint_on_bare_media_def by (intro respected)+

end

section \<open>Conversations\<close>

text \<open>
  What a conversation knows in each state: the tariff and duration of a purchase, the subscription
  and duration of an extension, an amount that is not below the minimum, and whom to ban over
  which ticket.  \<open>neutral\<close> data and \<open>free\<close> states are no threat to it; \<open>enters\<close> is a transition
  that writes the state and its data together.
\<close>

definition knows_int :: "dict \<Rightarrow> string \<Rightarrow> bool" where
  "knows_int d k = (as_int_opt (map_of d k) \<noteq> None)"

definition fsm_ok :: "fsm \<Rightarrow> bool" where
  "fsm_ok f = (let d = fs_data f in case fs_state f of
      Some PurchasePromoInput \<Rightarrow> knows_int d ''tariff_id'' \<and> knows_int d ''duration_id''
    | Some PurchasePaymentMethod \<Rightarrow> knows_int d ''tariff_id'' \<and> knows_int d ''duration_id''
    | Some ExtendPromoInput \<Rightarrow> knows_int d ''subscription_id'' \<and> knows_int d ''duration_id''
    | Some TopupPaymentMethod \<Rightarrow>
        (case as_int_opt (map_of d ''amount_kopecks'') of None \<Rightarrow> False | Some n \<Rightarrow> min_rub * 100 \<le> n)
    | Some AwaitingBanReason \<Rightarrow> knows_int d ''user_tg_id'' \<and> knows_int d ''ticket_id''
    | _ \<Rightarrow> True)"

definition written :: "dict \<Rightarrow> dict \<Rightarrow> dict" where
  "written kvs d = fold (\<lambda>kv. jset (fst kv) (snd kv)) kvs d"

definition enters :: "fsm_state option \<Rightarrow> dict \<Rightarrow> bool" where
  "enters st kvs \<longleftrightarrow> (\<forall>d. fsm_ok \<lparr>fs_state = st, fs_data = written kvs d\<rparr>)"

definition free :: "fsm_state option \<Rightarrow> bool" where
  "free st \<longleftrightarrow> (\<forall>d. fsm_ok \<lparr>fs_state = st, fs_data = d\<rparr>)"

definition neutral :: "dict \<Rightarrow> bool" where
  "neutral kvs \<longleftrightarrow> (\<forall>f. fsm_ok f \<longrightarrow> fsm_ok (f\<lparr>fs_data := written kvs (fs_data f)\<rparr>))"

lemma map_of_written:
  "map_of (written kvs d) q = (case map_of (rev kvs) q of Some v \<Rightarrow> Some v | None \<Rightarrow> map_of d q)"
proof (induction kvs arbitrary: d)
  case (Cons kv kvs)
  then show ?case
    by (auto simp: written_def map_of_jset map_add_def split: option.split)
qed (simp add: written_def)

lemma free_states [simp, intro]:
  "free None" "free (Some InTicket)" "free (Some AwaitingCloseConfirm)" "free (Some PurchaseAwaitingPayment)"
  "free (Some TopupAmountInput)" "free (Some PromoInput)" "free (Some ExtendAwaitingPayment)"
  "free (Some ExtendPaymentMethod)"
  by (simp_all add: free_def fsm_ok_def)

lemma free_enters: "free st \<Longrightarrow> enters st kvs"
  by (simp add: free_def enters_def)

definition guarded_keys :: "string set" where
  "guarded_keys = {''tariff_id'', ''duration_id'', ''subscription_id'', ''user_tg_id'', ''ticket_id''}"

definition harmless :: "string \<times> json \<Rightarrow> bool" where
  "harmless kv \<longleftrightarrow> fst kv \<noteq> ''amount_kopecks''
     \<and> (fst kv \<in> guarded_keys \<longrightarrow> (\<exists>i. snd kv = JInt i))"

lemma harmless_new: "list_all harmless kvs \<Longrightarrow> map_of (rev kvs) q = Some v \<Longrightarrow> harmless (q, v)"
  by (auto simp: list_all_iff dest: map_of_SomeD)

lemma harmless_amount:
  assumes "list_all harmless kvs"
  shows "map_of (written kvs d) ''amount_kopecks'' = map_of d ''amount_kopecks''"
  using harmless_new[OF assms, of "''amount_kopecks''"]
  by (auto simp: map_of_written harmless_def split: option.split)

lemma harmless_knows:
  assumes "list_all harmless kvs" "knows_int d q" "q \<in> guarded_keys"
  shows "knows_int (written kvs d) q"
proof (cases "map_of (rev kvs) q")
  case None
  then show ?thesis using assms(2) by (simp add: knows_int_def map_of_written)
next
  case (Some v)
  with harmless_new[OF assms(1) Some] assms(3) obtain i where "v = JInt i"
    unfolding harmless_def fst_conv snd_conv by blast
  then show ?thesis using Some by (simp add: knows_int_def map_of_written as_int_opt_def)
qed

lemma neutral_harmless:
  assumes "list_all harmless kvs"
  shows "neutral kvs"
  unfolding neutral_def
proof (intro allI impI)
  fix f assume f: "fsm_ok f"
  have k: "knows_int (fs_data f) q \<Longrightarrow> knows_int (written kvs (fs_data f)) q" if "q \<in> guarded_keys" for q
    using harmless_knows[OF assms _ that] .
  note ks = k[of "''tariff_id''"] k[of "''duration_id''"] k[of "''subscription_id''"]
    k[of "''user_tg_id''"] k[of "''ticket_id''"]
  show "fsm_ok (f\<lparr>fs_data := written kvs (fs_data f)\<rparr>)"
  proof (cases "fs_state f")
    case None
    then show ?thesis by (simp add: fsm_ok_def)
  next
    case (Some st)
    then show ?thesis
      using f ks by (cases st) (simp_all add: fsm_ok_def Let_def guarded_keys_def harmless_amount[OF assms])
  qed
qed

section \<open>The backend and the conversations\<close>

lemma reads_only [simp]:
  "snd (active_ticket_endpoint u d) = d" "snd (by_thread_endpoint th d) = d"
  "snd (user_by_id_endpoint i d) = d" "snd (get_topic_endpoint i d) = d"
  "snd (balance_endpoint u d) = d" "snd (user_subscriptions_endpoint e u d) = d"
  "snd (subscription_detail_endpoint sid u d) = d" "snd (referral_endpoint e u d) = d"
  "snd (tariffs_endpoint c d) = d"
  by (simp_all add: active_ticket_endpoint_def by_thread_endpoint_def user_by_id_endpoint_def
      get_topic_endpoint_def balance_endpoint_def user_subscriptions_endpoint_def subscription_detail_endpoint_def
      referral_endpoint_def tariffs_endpoint_def with_user_def split: option.split prod.split)

locale bot_backend = bot_talker +
  fixes allowed :: "(db \<Rightarrow> (exn + json) \<times> db) \<Rightarrow> bool"
  assumes P_fsm: "(fsm_ok (bt_fsm s k) \<Longrightarrow> fsm_ok g) \<Longrightarrow> P s (s\<lparr>bt_fsm := (bt_fsm s)(k := g)\<rparr>)"
    and P_call: "allowed f \<Longrightarrow> P s (snd (call be idem f s))"
    and allowed_reads: "(\<And>d. snd (f d) = d) \<Longrightarrow> allowed f"
    and allowed_users: "allowed (upsert_user_endpoint e u pf pl)"
      "allowed (ban_endpoint e u reason)" "allowed (unban_endpoint e u)"
    and allowed_tickets: "allowed (open_ticket_endpoint e rnd u kind)"
      "allowed (close_ticket_endpoint e i who otg)"
      "allowed (ticket_message_endpoint e i dir ty txt ph st otg)"
      "allowed (attach_topic_endpoint e i th)" "allowed (save_topic_endpoint e i th nm)"
    and allowed_money: "allowed (purchase_balance_endpoint e u tid did pro)"
      "allowed (purchase_start_endpoint e u tid did provider pro)"
      "allowed (topup_endpoint e u amount provider)" "allowed (promo_endpoint e u code)"
      "allowed (free_trial_endpoint e u)" "allowed (extend_endpoint e sid u did provider pcode)"
    and allowed_log: "allowed (bot_log_endpoint e level event uid msg ctx)"
begin

lemma respects_call: "allowed f \<Longrightarrow> respectful (call be idem f)"
  by (rule respectsI) (rule P_call)

lemma respects_fsm [respected]:
  "respectful (clear_state k)"
  "free st \<Longrightarrow> respectful (set_state k st)"
  "neutral kvs \<Longrightarrow> respectful (update_data k kvs)"
  by (auto simp: respectful_def clear_state_def set_state_def update_data_def free_def neutral_def
      fsm_ok_def no_fsm_def written_def intro!: P_fsm)

lemma respects_enters:
  assumes "enters st kvs" "respectful m"
  shows "respectful (andthen (set_state k st) (andthen (update_data k kvs) m))"
    "respectful (andthen (update_data k kvs) (andthen (set_state k st) m))"
proof -
  have m: "P s (snd (m (s\<lparr>bt_fsm := (bt_fsm s)(k := \<lparr>fs_state = st, fs_data = written kvs (fs_data (bt_fsm s k))\<rparr>)\<rparr>)))"
    (is "P s (snd (m (?t s)))") for s
  proof (rule P_trans[OF P_fsm])
    show "fsm_ok \<lparr>fs_state = st, fs_data = written kvs (fs_data (bt_fsm s k))\<rparr>"
      using assms(1) by (simp add: enters_def)
    show "P (?t s) (snd (m (?t s)))" using assms(2) by (simp add: respectful_def)
  qed
  have eq: "(f\<lparr>fs_state := st\<rparr>)\<lparr>fs_data := x\<rparr> = \<lparr>fs_state = st, fs_data = x\<rparr>"
    "(f\<lparr>fs_data := x\<rparr>)\<lparr>fs_state := st\<rparr> = \<lparr>fs_state = st, fs_data = x\<rparr>" for f x
    by simp_all
  show "respectful (andthen (set_state k st) (andthen (update_data k kvs) m))"
    "respectful (andthen (update_data k kvs) (andthen (set_state k st) m))"
    using m by (simp_all add: respectful_def andthen_def await_def set_state_def update_data_def
        written_def eq)
qed

lemmas conversing = respects_enters free_states neutral_harmless
lemmas conversation_defs = harmless_def guarded_keys_def enters_def fsm_ok_def map_of_written knows_int_def
  as_int_opt_def min_rub_def

lemmas allowed_writes = allowed_users allowed_tickets allowed_money allowed_log

lemma respects_reads [respected]:
  "respectful (get_active_ticket be u)" "respectful (get_ticket_by_thread be th)"
  "respectful (get_user_by_id be i)" "respectful (get_support_topic be i)"
  "respectful (get_user_balance be u)" "respectful (get_user_subscriptions be u)"
  "respectful (get_tariffs be)" "respectful (referral_stats_call be u)"
  "respectful (subscription_detail_call be sid u)"
  unfolding get_active_ticket_def get_ticket_by_thread_def get_user_by_id_def get_support_topic_def
    get_user_balance_def get_user_subscriptions_def get_tariffs_def referral_stats_call_def
    subscription_detail_call_def absent_on_def
  by ((intro respected)?, rule respects_call, rule allowed_reads, simp)+

lemma respects_writes [respected]:
  "respectful (upsert_user_call be tu pl)" "respectful (open_ticket_call be u kind)"
  "respectful (close_ticket_call be i who otg)"
  "respectful (record_ticket_message be i dir ty txt ph st mid)"
  "respectful (save_support_topic_call be i th nm)" "respectful (attach_topic_to_ticket be i th)"
  "respectful (ban_user_by_tg be u reason)" "respectful (unban_user_by_tg be u)"
  "respectful (free_trial_call be u)" "respectful (apply_promo_call be u code)"
  "respectful (purchase_balance_call be u tid did pro)"
  "respectful (start_purchase_call be u tid did provider pro)"
  "respectful (create_topup_call be u amount provider)"
  "respectful (start_extension_call be sid did provider u pro)"
  unfolding upsert_user_call_def open_ticket_call_def close_ticket_call_def record_ticket_message_def
    save_support_topic_call_def attach_topic_to_ticket_def ban_user_by_tg_def unban_user_by_tg_def
    free_trial_call_def apply_promo_call_def purchase_balance_call_def start_purchase_call_def
    create_topup_call_def start_extension_call_def
  by ((intro respected), rule respects_call, rule allowed_writes)+

lemma respects_log [respected]: "respectful (bot_log be level event uid msg ctx)"
  unfolding bot_log_def by (intro respected respects_call allowed_writes)

lemma respects_reports [respected]:
  "respectful (report_backend_unavailable be t uid x event)"
  "respectful (report_unexpected be t uid x event ctx)"
  unfolding report_backend_unavailable_def report_unexpected_def by (intro respected)+

lemma respects_guarded [respected]:
  "respectful m \<Longrightarrow> (\<And>a. respectful (f a)) \<Longrightarrow> respectful (guarded be t uid ev1 ev2 ctx m f)"
  "respectful m \<Longrightarrow> (\<And>a. respectful (f a)) \<Longrightarrow> respectful (on_unavailable be t uid ev m f)"
  unfolding guarded_def on_unavailable_def by (intro respected; assumption)+

subsection \<open>Support\<close>

lemma respects_topic [respected]: "respectful (ensure_support_topic be u code)"
  unfolding ensure_support_topic_def create_topic_def by (intro respected)

lemma respects_forward [respected]: "respectful (forward_user_message_to_topic be ticket u m)"
  unfolding forward_user_message_to_topic_def forward_once_def forward_failed_def forward_forbidden_def
  by (intro respected)

lemma respects_support [respected]:
  "respectful (cb_support be c du)" "respectful (cb_idea be c du)"
  "respectful (cb_ticket_create be c du)" "respectful (msg_close_button be m)"
  "respectful (cb_ticket_close_no be c)" "respectful (cb_ticket_close_yes be c du)"
  "respectful (msg_in_ticket be m du)" "respectful (msg_unsolicited_text be m)"
  unfolding cb_support_def cb_idea_def enter_active_ticket_def cb_ticket_create_def open_refused_def
    ticket_opened_def provision_topic_def msg_close_button_def cb_ticket_close_no_def
    cb_ticket_close_yes_def user_closed_def topic_to_notify_def msg_in_ticket_def in_open_ticket_def
    forward_photo_def forward_text_def msg_unsolicited_text_def
  by (intro conversing respected; simp add: conversation_defs)+

lemma respects_resolve [respected]: "respectful (resolve_ticket_user_tg_id be ticket)"
  unfolding resolve_ticket_user_tg_id_def by (intro respected)

lemma respects_flows [respected]:
  "respectful (close_ticket_flow be ticket actor)" "respectful (ban_user_flow be target reason ticket)"
  unfolding close_ticket_flow_def reset_user_after_admin_close_def ban_user_flow_def by (intro respected)+

lemma respects_in_topic [respected]:
  "(\<And>th. respectful (f th)) \<Longrightarrow> respectful (in_topic be m f)"
  "respectful g \<Longrightarrow> respectful h \<Longrightarrow> (\<And>t u. respectful (k t u)) \<Longrightarrow> respectful (with_ticket_user be th g h k)"
  "(\<And>i th. respectful (l i th)) \<Longrightarrow> respectful (on_ticket_button be c l)"
  "respectful a \<Longrightarrow> respectful (recover p v a)"
  unfolding in_topic_def with_ticket_user_def on_ticket_button_def recover_def
  by (intro respected; assumption)+

lemma respects_delivery:
  "(\<And>a b c d e. respectful (f a b c d e)) \<Longrightarrow> respectful g \<Longrightarrow>
     respectful (case r of Inl x \<Rightarrow> h x | Inr Unsupported \<Rightarrow> g | Inr (Delivered a b c d e) \<Rightarrow> f a b c d e)"
  if "\<And>x. respectful (h x)"
  using that by (simp split: sum.split delivery.split)

lemma respects_admin [respected]:
  "respectful (cmd_close be m)" "respectful (cmd_ban be m args)" "respectful (cmd_unban be m)"
  "respectful (cmd_info be m)" "respectful (msg_admin_ban_reason be m)"
  "respectful (msg_admin_in_topic be m)" "respectful (cb_admin_ban be c)"
  "respectful (cb_admin_ban_cancel be c)" "respectful (cb_admin_close be c)"
  unfolding cmd_close_def cmd_ban_def cmd_unban_def cmd_info_def msg_admin_ban_reason_def
    msg_admin_in_topic_def mirror_reply_def deliver_reply_def reply_failed_def cb_admin_ban_def
    ban_prompt_def ticket_in_thread_def cb_admin_ban_cancel_def cb_admin_close_def
  by (intro conversing respected respects_delivery; simp add: conversation_defs)+

subsection \<open>The shop\<close>

lemma respects_catalog [respected]:
  "respectful (cb_catalog be c du)" "respectful (cb_catalog_message be m du)"
  "respectful (activate_free_trial_flow be c uid)" "respectful (show_durations be c tid t)"
  unfolding cb_catalog_def cb_catalog_message_def activate_free_trial_flow_def trial_refused_def
    trial_issued_def show_durations_def
  by (intro respected)+

lemma respects_duration_back [respected]: "respectful (cb_duration_back be c du)"
  unfolding cb_duration_back_def
  by (intro conversing respected; simp add: conversation_defs)

lemma respects_promo [respected]:
  "(\<And>x. respectful (g x)) \<Longrightarrow> (\<And>r. respectful (f r)) \<Longrightarrow> respectful (with_promo be m uid u code evs g f)"
  "respectful (balance_promo_applied be m uid u msg res)"
  "respectful (purchase_discount be m from du res)"
  unfolding with_promo_def balance_promo_applied_def purchase_discount_def discount_shown_def
  by (intro conversing respected; (assumption | simp add: conversation_defs))+

lemma respects_shop [respected]:
  "respectful (cb_free_trial be c du)" "respectful (cb_tariff be c du)" "respectful (cb_duration be c)"
  "respectful (msg_promo_input be m du)" "respectful (cb_promo_retry be c)"
  "respectful (cb_promo_skip be c du)"
  "respectful (cb_pay be c du)" "respectful (cb_pay_back be c du)" "respectful (cb_pay_cancel be c du)"
  unfolding cb_free_trial_def cb_tariff_def cb_duration_def msg_promo_input_def cb_promo_retry_def
    cb_promo_skip_def cb_pay_def cb_pay_back_def cb_pay_cancel_def pay_with_balance_def purchase_done_def
    purchase_refused_def pay_with_provider_def provider_refused_def invoice_shown_def
  by (intro conversing respected; simp add: conversation_defs)+

lemma respects_with_sub [respected]:
  "(\<And>sid sub. respectful (f sid sub)) \<Longrightarrow> respectful (with_sub be c du evs f)"
  "respectful (fetch_extension_durations be sub)" "respectful (not_extendable be c)"
  unfolding with_sub_def fetch_extension_durations_def not_extendable_def
  by (intro respected; assumption)+

lemma respects_profile [respected]:
  "respectful (cb_profile be c du)" "respectful (cb_subscription be c du)" "respectful (cb_extend be c du)"
  "respectful (cb_ext_duration be c)" "respectful (msg_ext_promo_input be m du)"
  "respectful (cb_ext_promo_skip be c du)" "respectful (cb_ext_pay be c du)"
  "respectful (cb_sub_howto be c)" "respectful (cb_topup_start be c)" "respectful (msg_topup_amount be m du)"
  "respectful (cb_topup_pay be c du)" "respectful (cb_promo_open be c)" "respectful (msg_promo_apply be m du)"
  "respectful (cb_referral_program be c du)" "respectful (cb_about be c)"
  unfolding cb_profile_def invited_count_def cb_subscription_def cb_extend_def cb_ext_duration_def
    msg_ext_promo_input_def ext_discount_def cb_ext_promo_skip_def cb_ext_pay_def extension_refused_def
    extension_started_def cb_sub_howto_def cb_topup_start_def msg_topup_amount_def cb_topup_pay_def
    topup_invoiced_def invoice_shown_def provider_refused_def cb_promo_open_def msg_promo_apply_def
    cb_referral_program_def cb_about_def
  by (intro conversing respected; simp add: conversation_defs)+

subsection \<open>Updates\<close>

lemma respects_start [respected]:
  "respectful (cmd_start be m args du)" "respectful (cb_check_sub be c du)"
  unfolding cmd_start_def cb_check_sub_def remember_subscribed_def by (intro respected)+

lemma respects_run_message [respected]: "respectful (run_message be m du h)"
  unfolding run_message_def by (cases h; simp only: msg_handler.case; intro respected)

lemma first_route_in: "first_route rs = Some h \<Longrightarrow> list_all (\<lambda>r. Q (snd r)) rs \<Longrightarrow> Q h"
  by (induction rs) (auto split: if_splits)

lemma respects_routes: "list_all (\<lambda>r. respectful (snd r)) (callback_routes be st c du)"
  unfolding callback_routes_def list.pred_inject snd_conv
  by (intro conjI TrueI list.pred_inject(1) respected)

lemma respects_dispatch [respected]: "respectful (dispatch be u du)"
proof -
  have "respectful (dispatch_callback be c du)" for c
    unfolding dispatch_callback_def
    using first_route_in[OF _ respects_routes]
    by (auto intro!: respects_await respects_get respects_give split: option.split)
  moreover have "respectful (dispatch_message be m du)" for m
    unfolding dispatch_message_def by (intro respected)
  ultimately show ?thesis unfolding dispatch_def by (simp split: update.split)
qed

lemma respects_process: "respectful (process_update be u)"
  unfolding process_update_def user_mw_def ban_mw_def sub_check_mw_def by (intro respected)

theorem respects_update: "P s (handle_update be u s)"
proof -
  have "respectful (await (attempt (process_update be u))
          (\<lambda>r. case r of Inl x \<Rightarrow> on_error be u x | Inr ok \<Rightarrow> give ()))"
    unfolding on_error_def by (intro respected respects_process)
  then show ?thesis by (simp add: respectful_def handle_update_def)
qed

end

end
