(* ===== verification/AdminCatalog.thy ===== *)
theory AdminCatalog
  imports AdminUsers Broadcasts
begin

text \<open>
  The catalogue in the administrators' panel: tariffs and their durations
  (\<open>api/admin/tariffs.py\<close>, \<open>schemas/admin_panel/tariff.py\<close>) and promo codes
  (\<open>api/admin/promos.py\<close>, \<open>schemas/admin_panel/promo.py\<close>).  Rows are never deleted: a
  tariff or a duration is switched off.  Each change writes one audit row; dropping the
  tariff list from Redis is not a change of the database.
\<close>

section \<open>Column ranges\<close>

text \<open>
  \<open>Integer\<close> and \<open>BigInteger\<close> columns.  The schemas bound most numbers on one side only;
  PostgreSQL's driver refuses a number that does not fit before the statement is sent,
  which is not an \<open>IntegrityError\<close>.
\<close>

definition fits_int :: "nat \<Rightarrow> int \<Rightarrow> bool" where
  "fits_int w n \<longleftrightarrow> - (2 ^ (w - 1)) \<le> n \<and> n < 2 ^ (w - 1)"

definition fits_opt :: "nat \<Rightarrow> int option \<Rightarrow> bool" where
  "fits_opt w n = (case n of None \<Rightarrow> True | Some k \<Rightarrow> fits_int w k)"

definition out_of_range :: "env \<Rightarrow> bool \<Rightarrow> bool" where
  "out_of_range e fit \<longleftrightarrow> e_dialect e = Postgresql \<and> \<not> fit"

definition range_error :: exn where
  "range_error = PyExn ''DBAPIError'' ''value out of range''"

section \<open>Tariffs\<close>

text \<open>\<open>selectinload(Tariff.durations)\<close>, ordered by the days.\<close>

type_synonym tariff_answer = "tariff_row \<times> duration_row list"

definition tariff_view :: "db \<Rightarrow> tariff_row \<Rightarrow> tariff_answer" where
  "tariff_view d t = (t, sort_key td_days (filter (\<lambda>td. td_tariff_id td = t_id t) (db_durations d)))"

definition list_tariffs_admin :: "db \<Rightarrow> tariff_answer list" where
  "list_tariffs_admin d = List.map (tariff_view d) (sort_key t_sort_order (sort_key t_id (db_tariffs d)))"

record tariff_create =
  tc_code :: string
  tc_name :: string
  tc_description_html :: "string option"
  tc_devices :: int
  tc_sort_order :: int
  tc_is_active :: bool
  tc_is_free_trial :: bool
  tc_free_trial_days :: "int option"
  tc_traffic_gb :: "int option"
  tc_lte_gb :: "int option"
  tc_unlimited :: bool

definition natural_opt :: "int option \<Rightarrow> bool" where
  "natural_opt n = (case n of None \<Rightarrow> True | Some k \<Rightarrow> 0 \<le> k)"

definition name_ok :: "nat \<Rightarrow> string \<Rightarrow> bool" where
  "name_ok hi s \<longleftrightarrow> 1 \<le> length s \<and> length s \<le> hi"

definition tariff_create_ok :: "tariff_create \<Rightarrow> bool" where
  "tariff_create_ok p \<longleftrightarrow> name_ok 32 (tc_code p) \<and> name_ok 64 (tc_name p)
     \<and> 1 \<le> tc_devices p \<and> tc_devices p \<le> 100 \<and> natural_opt (tc_traffic_gb p) \<and> natural_opt (tc_lte_gb p)"

definition tariff_fits :: "tariff_row \<Rightarrow> bool" where
  "tariff_fits t \<longleftrightarrow> fits_int 32 (t_sort_order t) \<and> fits_opt 32 (t_free_trial_days t)
     \<and> fits_opt 32 (t_traffic_gb t) \<and> fits_int 32 (t_lte_gb t)"

text \<open>The model's default of 35 GB stands in for an omitted LTE volume.\<close>

definition new_tariff :: "tariff_create \<Rightarrow> db \<Rightarrow> tariff_row" where
  "new_tariff p d =
     \<lparr>t_id = next_tariff d, t_code = tc_code p, t_name = tc_name p,
      t_description_html = tc_description_html p, t_devices = tc_devices p,
      t_sort_order = tc_sort_order p, t_is_active = tc_is_active p,
      t_is_free_trial = tc_is_free_trial p, t_free_trial_days = tc_free_trial_days p,
      t_lte_gb = (case tc_lte_gb p of None \<Rightarrow> 35 | Some g \<Rightarrow> g),
      t_traffic_gb = tc_traffic_gb p, t_unlimited = tc_unlimited p\<rparr>"

definition apostrophe :: string where
  "apostrophe = [CHR 0x27]"

definition create_tariff ::
  "env \<Rightarrow> admin_principal \<Rightarrow> tariff_create \<Rightarrow> db \<Rightarrow> (exn + tariff_answer) \<times> db" where
  "create_tariff e admin p d =
     (let t = new_tariff p d in
      if \<not> tariff_create_ok p then (Inl query_error, d)
      else if out_of_range e (tariff_fits t) then (Inl range_error, d)
      else if list_ex (\<lambda>r. t_code r = tc_code p) (db_tariffs d)
      then (Inl (mk_error ConflictError
              (Some (''Tariff with code '' @ apostrophe @ tc_code p @ apostrophe @ '' already exists''))
              (Some ''tariff_code_conflict'') []), d)
      else let d' = record_admin_action e admin ''tariff.create'' None None
                      [(''tariff_id'', JInt (t_id t)), (''code'', JStr (t_code t))] (ins_tariff t d)
           in (Inr (tariff_view d' t), d'))"

definition tariff_or_404 :: "int \<Rightarrow> db \<Rightarrow> exn + tariff_row" where
  "tariff_or_404 i d = or_404 ''Tariff not found'' ''tariff_not_found'' (get_tariff d i)"

record tariff_patch =
  tp_name :: "string option"
  tp_description_html :: "string option"
  tp_devices :: "int option"
  tp_sort_order :: "int option"
  tp_is_active :: "bool option"
  tp_is_free_trial :: "bool option"
  tp_free_trial_days :: "int option"
  tp_traffic_gb :: "int option"
  tp_lte_gb :: "int option"
  tp_unlimited :: "bool option"

definition tariff_patch_ok :: "tariff_patch \<Rightarrow> bool" where
  "tariff_patch_ok p \<longleftrightarrow> (case tp_name p of None \<Rightarrow> True | Some s \<Rightarrow> name_ok 64 s)
     \<and> (case tp_devices p of None \<Rightarrow> True | Some n \<Rightarrow> 1 \<le> n \<and> n \<le> 100)
     \<and> natural_opt (tp_traffic_gb p) \<and> natural_opt (tp_lte_gb p)"

definition tariff_patch_fits :: "tariff_patch \<Rightarrow> bool" where
  "tariff_patch_fits p \<longleftrightarrow> fits_opt 32 (tp_sort_order p) \<and> fits_opt 32 (tp_free_trial_days p)
     \<and> fits_opt 32 (tp_traffic_gb p) \<and> fits_opt 32 (tp_lte_gb p)"

text \<open>A field that is absent or \<open>null\<close> is left as it is, so no optional column can be cleared.\<close>

definition patch_tariff_row :: "tariff_patch \<Rightarrow> tariff_row \<Rightarrow> tariff_row" where
  "patch_tariff_row p =
     opt_set (tp_unlimited p) (\<lambda>v t. t\<lparr>t_unlimited := v\<rparr>)
     \<circ> opt_set (tp_lte_gb p) (\<lambda>v t. t\<lparr>t_lte_gb := v\<rparr>)
     \<circ> opt_set (tp_traffic_gb p) (\<lambda>v t. t\<lparr>t_traffic_gb := Some v\<rparr>)
     \<circ> opt_set (tp_free_trial_days p) (\<lambda>v t. t\<lparr>t_free_trial_days := Some v\<rparr>)
     \<circ> opt_set (tp_is_free_trial p) (\<lambda>v t. t\<lparr>t_is_free_trial := v\<rparr>)
     \<circ> opt_set (tp_is_active p) (\<lambda>v t. t\<lparr>t_is_active := v\<rparr>)
     \<circ> opt_set (tp_sort_order p) (\<lambda>v t. t\<lparr>t_sort_order := v\<rparr>)
     \<circ> opt_set (tp_devices p) (\<lambda>v t. t\<lparr>t_devices := v\<rparr>)
     \<circ> opt_set (tp_description_html p) (\<lambda>v t. t\<lparr>t_description_html := Some v\<rparr>)
     \<circ> opt_set (tp_name p) (\<lambda>v t. t\<lparr>t_name := v\<rparr>)"

definition changed :: "string \<Rightarrow> ('a \<Rightarrow> json) \<Rightarrow> 'a option \<Rightarrow> (string \<times> json) list" where
  "changed field f v = (case v of None \<Rightarrow> [] | Some x \<Rightarrow> [(field, f x)])"

definition tariff_changes :: "tariff_patch \<Rightarrow> (string \<times> json) list" where
  "tariff_changes p =
     changed ''name'' JStr (tp_name p) @ changed ''description_html'' JStr (tp_description_html p)
     @ changed ''devices'' JInt (tp_devices p) @ changed ''sort_order'' JInt (tp_sort_order p)
     @ changed ''is_active'' JBool (tp_is_active p) @ changed ''is_free_trial'' JBool (tp_is_free_trial p)
     @ changed ''free_trial_days'' JInt (tp_free_trial_days p)
     @ changed ''traffic_gb_per_month'' JInt (tp_traffic_gb p)
     @ changed ''lte_gb_per_month'' JInt (tp_lte_gb p)
     @ changed ''is_unlimited_traffic'' JBool (tp_unlimited p)"

definition patch_tariff ::
  "env \<Rightarrow> admin_principal \<Rightarrow> int \<Rightarrow> tariff_patch \<Rightarrow> db \<Rightarrow> (exn + tariff_answer) \<times> db" where
  "patch_tariff e admin i p d =
     (if \<not> tariff_patch_ok p then (Inl query_error, d)
      else case tariff_or_404 i d of
        Inl x \<Rightarrow> (Inl x, d)
      | Inr t \<Rightarrow>
          if out_of_range e (tariff_patch_fits p) then (Inl range_error, d)
          else let t' = patch_tariff_row p t;
                   d' = (if tariff_changes p = [] then d
                         else record_admin_action e admin ''tariff.update'' None None
                                [(''tariff_id'', JInt (t_id t)), (''changes'', JObj (tariff_changes p))]
                                (mod_tariff i (patch_tariff_row p) d))
               in (Inr (tariff_view d' t'), d'))"

definition delete_tariff ::
  "env \<Rightarrow> admin_principal \<Rightarrow> int \<Rightarrow> db \<Rightarrow> (exn + unit) \<times> db" where
  "delete_tariff e admin i d =
     (case tariff_or_404 i d of
        Inl x \<Rightarrow> (Inl x, d)
      | Inr t \<Rightarrow> (Inr (), if t_is_active t
          then record_admin_action e admin ''tariff.soft_delete'' None None
                 [(''tariff_id'', JInt (t_id t)), (''code'', JStr (t_code t))]
                 (mod_tariff i (\<lambda>t. t\<lparr>t_is_active := False\<rparr>) d)
          else d))"

section \<open>Durations\<close>

record duration_create =
  dc_days :: int
  dc_price :: int
  dc_is_hot :: bool
  dc_is_active :: bool

definition duration_create_ok :: "duration_create \<Rightarrow> bool" where
  "duration_create_ok p \<longleftrightarrow> 1 \<le> dc_days p \<and> dc_days p \<le> 3650 \<and> 0 \<le> dc_price p"

definition create_duration ::
  "env \<Rightarrow> admin_principal \<Rightarrow> int \<Rightarrow> duration_create \<Rightarrow> db \<Rightarrow> (exn + tariff_answer) \<times> db" where
  "create_duration e admin i p d =
     (if \<not> duration_create_ok p then (Inl query_error, d)
      else case tariff_or_404 i d of
        Inl x \<Rightarrow> (Inl x, d)
      | Inr t \<Rightarrow>
          if out_of_range e (fits_int 64 (dc_price p)) then (Inl range_error, d)
          else if list_ex (\<lambda>td. td_tariff_id td = i \<and> td_days td = dc_days p) (db_durations d)
          then (Inl (mk_error ConflictError
                  (Some (''Duration days='' @ py_str (dc_days p) @ '' already exists for this tariff''))
                  (Some ''tariff_duration_conflict'') []), d)
          else let d' = record_admin_action e admin ''tariff.duration.create'' None None
                     [(''tariff_id'', JInt i), (''duration_id'', JInt (next_duration d)),
                      (''days'', JInt (dc_days p)), (''price_kopecks'', JInt (dc_price p))]
                     (ins_duration \<lparr>td_id = next_duration d, td_tariff_id = i, td_days = dc_days p,
                        td_price = dc_price p, td_is_hot = dc_is_hot p, td_is_active = dc_is_active p\<rparr> d)
               in (Inr (tariff_view d' t), d'))"

definition duration_or_404 :: "int \<Rightarrow> int \<Rightarrow> db \<Rightarrow> exn + duration_row" where
  "duration_or_404 i k d = or_404 ''Tariff duration not found'' ''tariff_duration_not_found''
     (case get_duration d k of None \<Rightarrow> None | Some td \<Rightarrow> if td_tariff_id td \<noteq> i then None else Some td)"

record duration_patch =
  dp_price :: "int option"
  dp_is_hot :: "bool option"
  dp_is_active :: "bool option"

definition patch_duration_row :: "duration_patch \<Rightarrow> duration_row \<Rightarrow> duration_row" where
  "patch_duration_row p =
     opt_set (dp_is_active p) (\<lambda>v td. td\<lparr>td_is_active := v\<rparr>)
     \<circ> opt_set (dp_is_hot p) (\<lambda>v td. td\<lparr>td_is_hot := v\<rparr>)
     \<circ> opt_set (dp_price p) (\<lambda>v td. td\<lparr>td_price := v\<rparr>)"

definition duration_changes :: "duration_patch \<Rightarrow> (string \<times> json) list" where
  "duration_changes p =
     changed ''price_kopecks'' JInt (dp_price p) @ changed ''is_hot'' JBool (dp_is_hot p)
     @ changed ''is_active'' JBool (dp_is_active p)"

text \<open>The last line reads the tariff again and asserts that it is there.\<close>

definition patch_duration ::
  "env \<Rightarrow> admin_principal \<Rightarrow> int \<Rightarrow> int \<Rightarrow> duration_patch \<Rightarrow> db \<Rightarrow> (exn + tariff_answer) \<times> db" where
  "patch_duration e admin i k p d =
     (if \<not> natural_opt (dp_price p) then (Inl query_error, d)
      else case duration_or_404 i k d of
        Inl x \<Rightarrow> (Inl x, d)
      | Inr td \<Rightarrow>
          if out_of_range e (fits_opt 64 (dp_price p)) then (Inl range_error, d)
          else let d' = (if duration_changes p = [] then d
                         else record_admin_action e admin ''tariff.duration.update'' None None
                                [(''tariff_id'', JInt i), (''duration_id'', JInt k),
                                 (''changes'', JObj (duration_changes p))]
                                (mod_duration k (patch_duration_row p) d))
               in (case get_tariff d' i of
                     None \<Rightarrow> Inl (PyExn ''AssertionError'' '''') | Some t \<Rightarrow> Inr (tariff_view d' t), d'))"

definition delete_duration ::
  "env \<Rightarrow> admin_principal \<Rightarrow> int \<Rightarrow> int \<Rightarrow> db \<Rightarrow> (exn + unit) \<times> db" where
  "delete_duration e admin i k d =
     (case duration_or_404 i k d of
        Inl x \<Rightarrow> (Inl x, d)
      | Inr td \<Rightarrow> (Inr (), if td_is_active td
          then record_admin_action e admin ''tariff.duration.soft_delete'' None None
                 [(''tariff_id'', JInt i), (''duration_id'', JInt k)]
                 (mod_duration k (\<lambda>td. td\<lparr>td_is_active := False\<rparr>) d)
          else d))"

section \<open>Promo codes\<close>

definition promo_alphabet :: string where
  "promo_alphabet = ''ABCDEFGHJKMNPQRSTUVWXYZ23456789''"

definition generate_promo_code :: "nat list \<Rightarrow> string" where
  "generate_promo_code picks =
     List.map (\<lambda>i. promo_alphabet ! (i mod length promo_alphabet)) (take 8 picks)"

text \<open>
  A datetime as the schema receives it: with an offset, an instant; without one, the
  microseconds its wall clock shows.  \<open>utcoffset\<close> is what \<open>zoneinfo\<close> gives for the
  configured time zone at a wall-clock time.
\<close>

datatype entered = Aware int | Naive int

definition day_us :: int where "day_us = 86400000000"

definition coerce_validity_window ::
  "(int \<Rightarrow> int) \<Rightarrow> bool \<Rightarrow> entered option \<Rightarrow> int option" where
  "coerce_validity_window utcoffset end_of_day v =
     (case v of
        None \<Rightarrow> None
      | Some (Aware t) \<Rightarrow> Some t
      | Some (Naive w) \<Rightarrow>
          (let l = (if w mod day_us = 0 \<and> end_of_day then w + day_us - 1 else w)
           in Some (l - utcoffset l)))"

record promo_create =
  pn_code :: "string option"
  pn_type :: promo_type
  pn_value :: int
  pn_max_total :: "int option"
  pn_max_per_user :: int
  pn_valid_from :: "entered option"
  pn_valid_until :: "entered option"
  pn_is_active :: bool
  pn_description :: "string option"
  pn_user_id :: "int option"

definition positive_opt :: "int option \<Rightarrow> bool" where
  "positive_opt n = (case n of None \<Rightarrow> True | Some k \<Rightarrow> 1 \<le> k)"

definition promo_create_ok :: "promo_create \<Rightarrow> bool" where
  "promo_create_ok p \<longleftrightarrow> (case pn_code p of None \<Rightarrow> True | Some c \<Rightarrow> name_ok 64 c)
     \<and> (pn_type p = PromoBalance \<or> pn_type p = PromoDiscount) \<and> 1 \<le> pn_value p
     \<and> positive_opt (pn_max_total p) \<and> 1 \<le> pn_max_per_user p \<and> positive_opt (pn_user_id p)"

definition new_promo ::
  "env \<Rightarrow> (int \<Rightarrow> int) \<Rightarrow> nat list \<Rightarrow> admin_principal \<Rightarrow> promo_create \<Rightarrow> db \<Rightarrow> promo_row" where
  "new_promo e tz picks admin p d =
     \<lparr>pc_id = next_promo d,
      pc_code = str_upper (case pn_code p of None \<Rightarrow> generate_promo_code picks | Some c \<Rightarrow> c),
      pc_type = pn_type p, pc_value = pn_value p, pc_max_total = pn_max_total p,
      pc_max_per_user = pn_max_per_user p, pc_current = 0,
      pc_valid_from = coerce_validity_window tz False (pn_valid_from p),
      pc_valid_until = coerce_validity_window tz True (pn_valid_until p),
      pc_is_active = pn_is_active p, pc_created_at = e_now e, pc_created_by = Some (pr_label admin),
      pc_description = pn_description p, pc_user_id = pn_user_id p\<rparr>"

definition window_empty :: "promo_row \<Rightarrow> bool" where
  "window_empty r = (case (pc_valid_from r, pc_valid_until r) of
     (Some a, Some b) \<Rightarrow> b \<le> a | _ \<Rightarrow> False)"

definition promo_fits :: "promo_row \<Rightarrow> bool" where
  "promo_fits r \<longleftrightarrow> fits_int 32 (pc_value r) \<and> fits_opt 32 (pc_max_total r) \<and> fits_int 32 (pc_max_per_user r)"

definition create_promo ::
  "env \<Rightarrow> (int \<Rightarrow> int) \<Rightarrow> nat list \<Rightarrow> admin_principal \<Rightarrow> promo_create \<Rightarrow> db \<Rightarrow> (exn + promo_row) \<times> db" where
  "create_promo e tz picks admin p d =
     (let r = new_promo e tz picks admin p d in
      if \<not> promo_create_ok p then (Inl query_error, d)
      else if window_empty r
      then (Inl (mk_error ValidationError (Some ''valid_from must be earlier than valid_until'')
              (Some ''invalid_promo_window'') []), d)
      else if (case pn_user_id p of None \<Rightarrow> False | Some u \<Rightarrow> get_user d u = None)
      then (Inl (mk_error ValidationError (Some (''User #'' @ py_str (the (pn_user_id p)) @ '' not found''))
              (Some ''promo_user_not_found'') []), d)
      else if out_of_range e (promo_fits r) then (Inl range_error, d)
      else if list_ex (\<lambda>q. code_eq e (pc_code q) (pc_code r)) (db_promos d)
      then (Inl (mk_error ConflictError
              (Some (''Promo code '' @ apostrophe @ pc_code r @ apostrophe @ '' already exists''))
              (Some ''promo_code_conflict'') []), d)
      else (Inr r, record_admin_action e admin ''promo.create'' None None
              [(''promo_id'', JInt (pc_id r)), (''code'', JStr (pc_code r)),
               (''type'', JStr (promo_type_str (pc_type r)))] (ins_promo r d)))"

record promo_patch =
  pp_is_active :: "bool option"
  pp_max_total :: "int option"
  pp_max_per_user :: "int option"
  pp_valid_until :: "entered option"

definition promo_patch_ok :: "promo_patch \<Rightarrow> bool" where
  "promo_patch_ok p \<longleftrightarrow> natural_opt (pp_max_total p) \<and> positive_opt (pp_max_per_user p)"

definition promo_patch_fits :: "promo_patch \<Rightarrow> bool" where
  "promo_patch_fits p \<longleftrightarrow> fits_opt 32 (pp_max_total p) \<and> fits_opt 32 (pp_max_per_user p)"

definition unlimited_if_zero :: "int \<Rightarrow> int option" where
  "unlimited_if_zero n = (if n = 0 then None else Some n)"

definition patch_promo_row :: "(int \<Rightarrow> int) \<Rightarrow> promo_patch \<Rightarrow> promo_row \<Rightarrow> promo_row" where
  "patch_promo_row tz p =
     opt_set (coerce_validity_window tz True (pp_valid_until p)) (\<lambda>v r. r\<lparr>pc_valid_until := Some v\<rparr>)
     \<circ> opt_set (pp_max_per_user p) (\<lambda>v r. r\<lparr>pc_max_per_user := v\<rparr>)
     \<circ> opt_set (pp_max_total p) (\<lambda>v r. r\<lparr>pc_max_total := unlimited_if_zero v\<rparr>)
     \<circ> opt_set (pp_is_active p) (\<lambda>v r. r\<lparr>pc_is_active := v\<rparr>)"

definition promo_changes :: "(int \<Rightarrow> int) \<Rightarrow> promo_patch \<Rightarrow> (string \<times> json) list" where
  "promo_changes tz p =
     changed ''is_active'' JBool (pp_is_active p)
     @ changed ''max_total_activations'' (\<lambda>v. json_opt_int (unlimited_if_zero v)) (pp_max_total p)
     @ changed ''max_per_user'' JInt (pp_max_per_user p)
     @ changed ''valid_until'' (\<lambda>v. JStr (iso_format v)) (coerce_validity_window tz True (pp_valid_until p))"

definition promo_or_404 :: "int \<Rightarrow> db \<Rightarrow> exn + promo_row" where
  "promo_or_404 i d = or_404 ''Promo not found'' ''promo_not_found'' (get_promo d i)"

definition patch_promo ::
  "env \<Rightarrow> (int \<Rightarrow> int) \<Rightarrow> admin_principal \<Rightarrow> int \<Rightarrow> promo_patch \<Rightarrow> db \<Rightarrow> (exn + promo_row) \<times> db" where
  "patch_promo e tz admin i p d =
     (if \<not> promo_patch_ok p then (Inl query_error, d)
      else case promo_or_404 i d of
        Inl x \<Rightarrow> (Inl x, d)
      | Inr r \<Rightarrow>
          if out_of_range e (promo_patch_fits p) then (Inl range_error, d)
          else (Inr (patch_promo_row tz p r), if promo_changes tz p = [] then d
                else record_admin_action e admin ''promo.update'' None None
                       [(''promo_id'', JInt (pc_id r)), (''code'', JStr (pc_code r)),
                        (''changes'', JObj (promo_changes tz p))]
                       (mod_promo i (patch_promo_row tz p) d)))"

definition list_promos ::
  "bool option \<Rightarrow> string option \<Rightarrow> int \<Rightarrow> int \<Rightarrow> db \<Rightarrow> exn + promo_row page" where
  "list_promos active code page sz d =
     (if \<not> page_query_ok 200 page sz \<or> 64 < length (opt_str code) then Inl query_error
      else Inr (mk_page (nat page) (nat sz) (desc_by pc_created_at (filter
        (\<lambda>p. (case active of None \<Rightarrow> True | Some b \<Rightarrow> pc_is_active p = b)
           \<and> (str_truthy code \<longrightarrow> ilike (Some (pc_code p)) (contains_pattern (the code)))) (db_promos d)))))"

text \<open>The outer join keeps an activation whose user is gone.\<close>

definition list_activations ::
  "int \<Rightarrow> int \<Rightarrow> int \<Rightarrow> db \<Rightarrow> exn + (promo_act_row \<times> user_row option) list" where
  "list_activations i page sz d =
     (if \<not> page_query_ok 500 page sz then Inl query_error
      else map_sum id (\<lambda>p. List.map (\<lambda>a. (a, get_user d (pa_user_id a)))
             (page_rows (nat page) (nat sz) (desc_by pa_created_at
               (filter (\<lambda>a. pa_promo_id a = i) (db_promo_acts d))))) (promo_or_404 i d))"

section \<open>A created code in the users' hands\<close>

lemma le_div_day: "k \<le> t div day_us \<longleftrightarrow> k * day_us \<le> t"
proof
  assume "k \<le> t div day_us"
  then have "k * day_us \<le> t div day_us * day_us" by (simp add: day_us_def)
  also have "\<dots> \<le> t" using pos_mod_sign[of day_us t] div_mult_mod_eq[of t day_us] by (simp add: day_us_def)
  finally show "k * day_us \<le> t" .
next
  assume "k * day_us \<le> t"
  then have "k * day_us div day_us \<le> t div day_us" by (rule zdiv_mono1) (simp add: day_us_def)
  then show "k \<le> t div day_us" by (simp add: day_us_def)
qed

lemma get_promo_audit [simp]:
  "get_promo (record_admin_action e a act u s x d) i = get_promo d i"
  by (simp add: get_promo_def)

lemma create_promo_Inr:
  assumes "create_promo e tz picks admin p d = (Inr r, d')"
  shows "r = new_promo e tz picks admin p d" "promo_create_ok p"
    "\<forall>q\<in>set (db_promos d). \<not> code_eq e (pc_code q) (pc_code r)"
    "db_promos d' = db_promos d @ [r]" "db_promo_acts d' = db_promo_acts d" "db_users d' = db_users d"
    "get_promo d' (pc_id r) = Some r"
proof -
  from assms show r: "r = new_promo e tz picks admin p d"
    by (auto simp: create_promo_def Let_def split: if_splits)
  have id: "pc_id r = next_promo d" by (simp add: r new_promo_def)
  from assms show "promo_create_ok p" "\<forall>q\<in>set (db_promos d). \<not> code_eq e (pc_code q) (pc_code r)"
    "db_promos d' = db_promos d @ [r]" "db_promo_acts d' = db_promo_acts d" "db_users d' = db_users d"
    by (auto simp: create_promo_def Let_def list_ex_iff ins_promo_def split: if_splits)
  from assms id show "get_promo d' (pc_id r) = Some r"
    by (auto simp: create_promo_def Let_def split: if_splits)
qed

lemma fresh_promo_unused:
  assumes "promo_counts_ok d" "k = next_promo d"
  shows "user_activations d k uid = 0"
proof -
  have "k \<notin> pc_id ` set (db_promos d)" by (simp add: assms(2) next_promo_def fresh_id_notin)
  then have "pa_promo_id a \<noteq> k" if "a \<in> set (db_promo_acts d)" for a
    using assms(1) that unfolding promo_counts_ok_def by metis
  then have "filter (\<lambda>a. pa_promo_id a = k \<and> pa_user_id a = uid) (db_promo_acts d) = []"
    by (simp add: filter_empty_conv)
  then show ?thesis by (simp add: user_activations_def count_where_def)
qed

lemma created_code_matches:
  assumes "create_promo e tz picks admin p d = (Inr r, d')" "e_dialect e = Postgresql"
    "str_lower c = str_lower (pc_code r)"
  shows "promo_matches d' c = [r]"
proof -
  have "filter (\<lambda>q. str_lower (pc_code q) = str_lower c) (db_promos d) = []"
    using create_promo_Inr(3)[OF assms(1)] assms(2,3) by (auto simp: filter_empty_conv code_eq_def)
  then show ?thesis
    using create_promo_Inr(4)[OF assms(1)] assms(3) by (simp add: promo_matches_def)
qed

text \<open>C31: A code entered in the panel works exactly on the days entered, each a whole day in the
  shop's time zone, the last one included; only while it is switched on, and only for the user it
  is bound to, if any.\<close>

theorem promo_valid_whole_days:
  assumes "create_promo e tz picks admin p d = (Inr r, d')" and "e_dialect e = Postgresql"
    and "promo_counts_ok d" and "get_user d uid = Some u"
    and "pn_valid_from p = Some (Naive (first * day_us))" and "pn_valid_until p = Some (Naive (final * day_us))"
    and "tz (first * day_us) = off" and "tz (final * day_us + day_us - 1) = off"
    and "str_strip typed \<noteq> []" and "str_lower (str_strip typed) = str_lower (pc_code r)"
  shows "(\<exists>res. fst (validate_and_apply e2 typed uid d') = Inr res) \<longleftrightarrow>
    pn_is_active p \<and> first \<le> (e_now e2 + off) div day_us \<and> (e_now e2 + off) div day_us \<le> final
      \<and> (pn_user_id p = None \<or> pn_user_id p = Some uid)"
proof -
  note new = create_promo_Inr[OF assms(1)]
  have r: "pc_id r = next_promo d" "pc_is_active r = pn_is_active p" "pc_current r = 0"
    "pc_user_id r = pn_user_id p" "pc_max_total r = pn_max_total p" "pc_max_per_user r = pn_max_per_user p"
    "pc_type r = pn_type p" "pc_valid_from r = Some (first * day_us - off)"
    "pc_valid_until r = Some (final * day_us + day_us - 1 - off)"
    using assms(5-8) by (simp_all add: new(1) new_promo_def coerce_validity_window_def Let_def)
  have window: "ensure_window e2 r = None \<longleftrightarrow> pn_is_active p
      \<and> first \<le> (e_now e2 + off) div day_us \<and> (e_now e2 + off) div day_us \<le> final"
  proof -
    have "first * day_us - off \<le> e_now e2 \<longleftrightarrow> first \<le> (e_now e2 + off) div day_us"
      unfolding le_div_day by linarith
    moreover have "e_now e2 \<le> final * day_us + day_us - 1 - off \<longleftrightarrow> (e_now e2 + off) div day_us \<le> final"
      using le_div_day[of "final + 1" "e_now e2 + off"] by (simp add: algebra_simps) linarith
    ultimately show ?thesis by (auto simp: ensure_window_def r not_less)
  qed
  have "user_activations d' (pc_id r) uid = 0"
    using fresh_promo_unused[OF assms(3) r(1)] new(5) by (simp add: user_activations_def)
  then have checks: "promo_checks e2 r uid d' = None \<longleftrightarrow> ensure_window e2 r = None
      \<and> (pn_user_id p = None \<or> pn_user_id p = Some uid)"
    using new(2) by (auto simp: promo_checks_def total_exhausted_def r promo_create_ok_def positive_opt_def
        split: option.splits)
  have type: "pc_type r = PromoBalance \<or> pc_type r = PromoDiscount"
    using new(2) by (simp add: r promo_create_ok_def)
  have user: "get_user d' uid = Some u" using assms(4) new(6) by (simp add: get_user_def)
  have "(\<exists>res. fst (validate_and_apply e2 typed uid d') = Inr res) \<longleftrightarrow> promo_checks e2 r uid d' = None"
    using type user assms(9) new(7) created_code_matches[OF assms(1,2,10)]
    by (auto simp: validate_and_apply_def apply_balance_def apply_discount_def Let_def split: option.split)
  then show ?thesis unfolding checks window by (simp only: conj_assoc)
qed

definition fx_promo_form :: promo_create where
  "fx_promo_form = \<lparr>pn_code = Some ''may9'', pn_type = PromoDiscount, pn_value = 20, pn_max_total = None,
     pn_max_per_user = 1, pn_valid_from = Some (Naive 0), pn_valid_until = Some (Naive (9 * day_us)),
     pn_is_active = True, pn_description = None, pn_user_id = None\<rparr>"

theorem promo_valid_whole_days_witness:
  "\<exists>res. fst (validate_and_apply (fx_env (10 * day_us - 10800000001) 200 JNull) '' May9 '' 2
     (snd (create_promo (fx_env 5 200 JNull) (\<lambda>w. 10800000000) [] fx_admin fx_promo_form fx_db))) = Inr res"
proof -
  let ?e = "fx_env 5 200 JNull" and ?tz = "\<lambda>w. 10800000000 :: int"
  let ?r = "new_promo ?e ?tz [] fx_admin fx_promo_form fx_db"
  have code: "pc_code ?r = ''MAY9''" by (simp add: new_promo_def fx_promo_form_def str_upper_def upper_char_def)
  have ok: "fst (create_promo ?e ?tz [] fx_admin fx_promo_form fx_db) = Inr ?r"
    using code
    by (simp add: create_promo_def Let_def out_of_range_def code_eq_def fx_db_def fx_promo_def empty_db_def
        str_lower_def lower_char_def)
      (simp add: promo_create_ok_def window_empty_def promo_fits_def fits_int_def fits_opt_def new_promo_def
        fx_promo_form_def name_ok_def positive_opt_def coerce_validity_window_def day_us_def Let_def)
  have counts: "promo_counts_ok fx_db"
    by (simp add: promo_counts_ok_def fx_db_def empty_db_def fx_promo_def total_activations_def)
  have typed: "str_strip '' May9 '' = ''May9''" by code_simp
  have "e_now (fx_env (10 * day_us - 10800000001) 200 JNull) + 10800000000 = 10 * day_us - 1" by simp
  moreover have "(10 * day_us - 1) div day_us = 9" by (simp add: day_us_def)
  ultimately show ?thesis
    using promo_valid_whole_days[of ?e ?tz "[]" fx_admin fx_promo_form fx_db ?r
        "snd (create_promo ?e ?tz [] fx_admin fx_promo_form fx_db)" 2 "fx_user 2 102 50000" 0 9 10800000000
        "'' May9 ''" "fx_env (10 * day_us - 10800000001) 200 JNull"]
      ok counts code typed
    by (simp add: prod_eq_iff fx_promo_form_def str_lower_def lower_char_def)
qed

end
