(* ===== verification/Texts.thy ===== *)
theory Texts
  imports AdminCatalog BotApi
begin

text \<open>
  The texts of the bot on the side of the backend: \<open>text_service.py\<close> and \<open>text_repo.py\<close>,
  the endpoints the bot reads them from (\<open>api/bot/texts.py\<close>), and the panel that edits them
  (\<open>api/admin/texts.py\<close>, \<open>schemas/admin_panel/text.py\<close>).  A row is a message with an optional
  attachment, or the label of a button with an optional icon and link.  Telling Redis about a
  change is not a change of the database.
\<close>

section \<open>Reading\<close>

definition text_by_key :: "db \<Rightarrow> string \<Rightarrow> text_row option" where
  "text_by_key d key = List.find (\<lambda>r. tx_key r = key) (db_texts d)"

definition find_text :: "string \<Rightarrow> db \<Rightarrow> exn + text_row" where
  "find_text key d = or_404 (''Text '' @ apostrophe @ key @ apostrophe @ '' not found'') ''text_not_found''
     (text_by_key d key)"

definition all_texts :: "(string \<Rightarrow> int) \<Rightarrow> db \<Rightarrow> text_row list" where
  "all_texts collate d = sort_key (\<lambda>r. collate (tx_key r)) (db_texts d)"

definition text_json :: "text_row \<Rightarrow> json" where
  "text_json r =
     JObj [(''id'', JInt (tx_id r)), (''key'', JStr (tx_key r)), (''value_html'', JStr (tx_value_html r)),
           (''description'', json_opt_str (tx_description r)),
           (''media_file_id'', json_opt_str (tx_media_file_id r)),
           (''media_kind'', json_opt_str (tx_media_kind r)), (''kind'', JStr (tx_kind r)),
           (''icon_custom_emoji_id'', json_opt_str (tx_icon_custom_emoji_id r)),
           (''url'', json_opt_str (tx_url r)), (''updated_at'', JStr (iso_format (tx_updated_at r))),
           (''updated_by'', json_opt_str (tx_updated_by r))]"

definition list_texts_endpoint :: "(string \<Rightarrow> int) \<Rightarrow> db \<Rightarrow> (exn + json) \<times> db" where
  "list_texts_endpoint collate d = (Inr (JArr (List.map text_json (all_texts collate d))), d)"

definition get_text_endpoint :: "string \<Rightarrow> db \<Rightarrow> (exn + json) \<times> db" where
  "get_text_endpoint key d = (map_sum id text_json (find_text key d), d)"

text \<open>What the outbox takes as the template of a key.\<close>

definition templates :: "db \<Rightarrow> string \<Rightarrow> string option" where
  "templates d key = map_option tx_value_html (text_by_key d key)"

section \<open>Seeding\<close>

definition upsert_text ::
  "env \<Rightarrow> string \<Rightarrow> string \<Rightarrow> string option \<Rightarrow> string option \<Rightarrow> db \<Rightarrow> db" where
  "upsert_text e key html desc by_label d =
     (case text_by_key d key of
        None \<Rightarrow> ins_text \<lparr>tx_id = next_text d, tx_key = key, tx_value_html = html, tx_description = desc,
                  tx_media_file_id = None, tx_media_kind = None, tx_kind = ''message'',
                  tx_icon_custom_emoji_id = None, tx_url = None, tx_updated_at = e_now e,
                  tx_updated_by = by_label\<rparr> d
      | Some r \<Rightarrow> mod_text (e_now e) (tx_id r)
          (opt_set by_label (\<lambda>v r. r\<lparr>tx_updated_by := Some v\<rparr>)
           \<circ> opt_set desc (\<lambda>v r. r\<lparr>tx_description := Some v\<rparr>)
           \<circ> (\<lambda>r. r\<lparr>tx_value_html := html\<rparr>)) d)"

section \<open>The panel\<close>

definition list_texts_admin :: "(string \<Rightarrow> int) \<Rightarrow> int \<Rightarrow> int \<Rightarrow> db \<Rightarrow> exn + text_row page" where
  "list_texts_admin collate page sz d =
     (if \<not> page_query_ok 1000 page sz then Inl query_error
      else Inr \<lparr>pg_items = page_rows (nat page) (nat sz) (all_texts collate d),
                pg_total = length (db_texts d), pg_page = nat page, pg_size = nat sz\<rparr>)"

text \<open>A field is absent, \<open>null\<close> or a value; only \<open>value_html\<close> treats the first two alike.\<close>

record text_patch =
  xp_value_html :: "string option"
  xp_description :: "string option option"
  xp_media_file_id :: "string option option"
  xp_media_kind :: "string option option"
  xp_icon_custom_emoji_id :: "string option option"
  xp_url :: "string option option"

definition blank_to_none :: "string option \<Rightarrow> string option" where
  "blank_to_none v = (case v of None \<Rightarrow> None | Some s \<Rightarrow> if str_strip s = [] then None else Some (str_strip s))"

definition within :: "nat \<Rightarrow> string option option \<Rightarrow> bool" where
  "within n f = (case f of Some (Some s) \<Rightarrow> length s \<le> n | _ \<Rightarrow> True)"

definition link_ok :: "string option option \<Rightarrow> bool" where
  "link_ok f = (case map_option blank_to_none f of
     Some (Some s) \<Rightarrow> starts_with ''http://'' s \<or> starts_with ''https://'' s \<or> starts_with ''tg://'' s
   | _ \<Rightarrow> True)"

definition media_kinds :: "string list" where
  "media_kinds = [''photo'', ''video'', ''animation'']"

definition text_patch_ok :: "text_patch \<Rightarrow> bool" where
  "text_patch_ok p \<longleftrightarrow> within 8000 (Some (xp_value_html p)) \<and> within 256 (xp_media_file_id p)
     \<and> (case xp_media_kind p of Some (Some k) \<Rightarrow> k \<in> set media_kinds | _ \<Rightarrow> True)
     \<and> within 64 (xp_icon_custom_emoji_id p) \<and> within 512 (xp_url p) \<and> link_ok (xp_url p)"

definition validated :: "text_patch \<Rightarrow> text_patch" where
  "validated p = p\<lparr>xp_media_file_id := map_option blank_to_none (xp_media_file_id p),
     xp_icon_custom_emoji_id := map_option blank_to_none (xp_icon_custom_emoji_id p),
     xp_url := map_option blank_to_none (xp_url p)\<rparr>"

text \<open>\<open>re.search(r"<[A-Za-z/!?]", value)\<close>.\<close>

fun looks_like_html :: "string \<Rightarrow> bool" where
  "looks_like_html (a # b # s) =
     ((a = CHR ''<'' \<and> (is_alpha b \<or> b \<in> {CHR ''/'', CHR ''!'', CHR ''?''})) \<or> looks_like_html (b # s))"
| "looks_like_html s = False"

definition unprocessable :: "string \<Rightarrow> exn" where
  "unprocessable detail = mk_error ValidationError (Some detail) None []"

definition new_media :: "text_patch \<Rightarrow> text_row \<Rightarrow> string option \<times> string option" where
  "new_media p r = ((case xp_media_file_id p of None \<Rightarrow> tx_media_file_id r | Some v \<Rightarrow> v),
                    (case xp_media_kind p of None \<Rightarrow> tx_media_kind r | Some v \<Rightarrow> v))"

definition half_media :: "text_patch \<Rightarrow> text_row \<Rightarrow> bool" where
  "half_media p r \<longleftrightarrow> (xp_media_file_id p \<noteq> None \<or> xp_media_kind p \<noteq> None)
     \<and> (fst (new_media p r) = None) \<noteq> (snd (new_media p r) = None)"

definition patch_text_row :: "admin_principal \<Rightarrow> text_patch \<Rightarrow> text_row \<Rightarrow> text_row" where
  "patch_text_row admin p r =
     (opt_set (xp_url p) (\<lambda>v r. r\<lparr>tx_url := v\<rparr>)
      \<circ> opt_set (xp_icon_custom_emoji_id p) (\<lambda>v r. r\<lparr>tx_icon_custom_emoji_id := v\<rparr>)
      \<circ> opt_set (xp_description p) (\<lambda>v r. r\<lparr>tx_description := v\<rparr>)
      \<circ> opt_set (xp_value_html p) (\<lambda>v r. r\<lparr>tx_value_html := v\<rparr>))
     (r\<lparr>tx_media_file_id := fst (new_media p r), tx_media_kind := snd (new_media p r),
        tx_updated_by := Some (pr_label admin)\<rparr>)"

text \<open>\<open>AdminText.model_validate\<close>: the literals of the answer.\<close>

definition text_shown :: "text_row \<Rightarrow> bool" where
  "text_shown r \<longleftrightarrow> (case tx_media_kind r of None \<Rightarrow> True | Some k \<Rightarrow> k \<in> set media_kinds)
     \<and> tx_kind r \<in> {''message'', ''button''}"

definition response_error :: exn where
  "response_error = PyExn ''ValidationError'' ''AdminText''"

definition patch_text ::
  "env \<Rightarrow> admin_principal \<Rightarrow> string \<Rightarrow> text_patch \<Rightarrow> db \<Rightarrow> (exn + text_row) \<times> db" where
  "patch_text e admin key p0 d =
     (if \<not> text_patch_ok p0 then (Inl query_error, d)
      else case find_text key d of
        Inl x \<Rightarrow> (Inl x, d)
      | Inr row \<Rightarrow>
          (let p = validated p0 in
           if tx_kind row = ''button'' \<and> (case xp_value_html p of None \<Rightarrow> False | Some v \<Rightarrow> looks_like_html v)
           then (Inl (unprocessable ''Button label must be plain text''), d)
           else if half_media p row
           then (Inl (unprocessable ''media_file_id and media_kind must be set together (or both null to clear).''), d)
           else let r = touch_text (e_now e) (patch_text_row admin p) row;
                    d' = record_admin_action e admin ''text.update'' None None
                      [(''key'', JStr key), (''kind'', JStr (tx_kind r)),
                       (''media_file_id'', json_opt_str (tx_media_file_id r)),
                       (''media_kind'', json_opt_str (tx_media_kind r)),
                       (''icon_custom_emoji_id'', json_opt_str (tx_icon_custom_emoji_id r)),
                       (''url'', json_opt_str (tx_url r))]
                      (mod_text (e_now e) (tx_id row) (patch_text_row admin p) d)
                in (if text_shown r then Inr r else Inl response_error, d')))"

end
