(* ===== verification/Reseller.thy ===== *)
theory Reseller
  imports AdminSubscriptions
begin

text \<open>
  The reseller part of \<open>services/northline_client.py\<close> (profile, prices, packages, quote, branding,
  ping), its answers in \<open>schemas/northline.py\<close>, and the panel's pages over it,
  \<open>api/admin/northline.py\<close> with \<open>schemas/admin_panel/northline.py\<close>.  A pydantic model is the list
  of its fields.  The validation of a float field is the argument \<open>num\<close>, which gives the number as it
  is shown again; query parameters stand in the place of a body.
\<close>

section \<open>Models as lists of fields\<close>

datatype presence = Required | Nullable | Default json

datatype ftype = FStr | FInt | FFloat | FBool | FDict | FRows "(string \<times> ftype \<times> presence) list"

type_synonym fields = "(string \<times> ftype \<times> presence) list"

text \<open>Pydantic's lax reading of a bool.\<close>

definition as_bool :: "json \<Rightarrow> bool option" where
  "as_bool j = (case j of
       JBool b \<Rightarrow> Some b
     | JInt i \<Rightarrow> if i = 0 then Some False else if i = 1 then Some True else None
     | JStr s \<Rightarrow>
         if str_lower s \<in> {''0'', ''off'', ''f'', ''false'', ''n'', ''no''} then Some False
         else if str_lower s \<in> {''1'', ''on'', ''t'', ''true'', ''y'', ''yes''} then Some True else None
     | _ \<Rightarrow> None)"

definition present :: "presence \<Rightarrow> (json \<Rightarrow> json option) \<Rightarrow> json option \<Rightarrow> json option" where
  "present p chk mv = (case mv of
       None \<Rightarrow> (case p of Required \<Rightarrow> None | Nullable \<Rightarrow> Some JNull | Default v \<Rightarrow> Some v)
     | Some v \<Rightarrow> if p = Nullable \<and> v = JNull then Some JNull else chk v)"

fun all_some :: "'a option list \<Rightarrow> 'a list option" where
  "all_some [] = Some []"
| "all_some (None # xs) = None"
| "all_some (Some x # xs) = map_option (Cons x) (all_some xs)"

text \<open>\<open>check\<close> validates a value, \<open>check_fields\<close> an object: the fields in their order, others ignored.\<close>

fun check :: "(json \<Rightarrow> json option) \<Rightarrow> ftype \<Rightarrow> json \<Rightarrow> json option"
and check_fields :: "(json \<Rightarrow> json option) \<Rightarrow> fields \<Rightarrow> (string \<times> json) list \<Rightarrow> (string \<times> json) list option" where
  "check num FStr j = map_option JStr (as_str j)"
| "check num FInt j = map_option JInt (as_int j)"
| "check num FFloat j = num j"
| "check num FBool j = map_option JBool (as_bool j)"
| "check num FDict j = (case j of JObj kvs \<Rightarrow> Some j | _ \<Rightarrow> None)"
| "check num (FRows fs) j =
     (case j of
        JArr rows \<Rightarrow> map_option JArr (all_some (List.map
          (\<lambda>r. case r of JObj kvs \<Rightarrow> map_option JObj (check_fields num fs kvs) | _ \<Rightarrow> None) rows))
      | _ \<Rightarrow> None)"
| "check_fields num [] kvs = Some []"
| "check_fields num ((k, t, p) # fs) kvs =
     (case (present p (check num t) (map_of kvs k), check_fields num fs kvs) of
        (Some v, Some rest) \<Rightarrow> Some ((k, v) # rest)
      | _ \<Rightarrow> None)"

definition validate :: "(json \<Rightarrow> json option) \<Rightarrow> fields \<Rightarrow> json \<Rightarrow> exn + (string \<times> json) list" where
  "validate num fs j =
     (case j of
        JObj kvs \<Rightarrow> (case check_fields num fs kvs of Some obj \<Rightarrow> Inr obj | None \<Rightarrow> Inl pydantic_error)
      | _ \<Rightarrow> Inl pydantic_error)"

section \<open>The provider's answers\<close>

definition ok_field :: "string \<times> ftype \<times> presence" where
  "ok_field = (''ok'', FBool, Default (JBool True))"

definition reseller_profile :: fields where
  "reseller_profile =
     [ok_field, (''provider_key'', FStr, Required), (''label'', FStr, Nullable),
      (''balance_rub'', FFloat, Required), (''active'', FBool, Default (JBool True)),
      (''issued_total'', FInt, Default (JInt 0)), (''active_total'', FInt, Default (JInt 0)),
      (''spent_rub'', FFloat, Default (JInt 0))]"

definition price_quote_fields :: fields where
  "price_quote_fields =
     [(''days'', FInt, Required), (''devices'', FInt, Required), (''tariff_code'', FStr, Nullable),
      (''total_price_rub'', FFloat, Required), (''regular_price_rub'', FFloat, Nullable),
      (''savings_rub'', FFloat, Nullable), (''discount_pct'', FInt, Nullable),
      (''device_discount_pct'', FInt, Nullable), (''term_discount_pct'', FInt, Nullable),
      (''price_per_device_per_day'', FFloat, Nullable), (''traffic_quota_gb'', FInt, Nullable),
      (''unlimited_traffic'', FBool, Default (JBool False)), (''lte_gb'', FInt, Nullable),
      (''lte_addon_rub'', FFloat, Nullable), (''lte_rate_per_gb'', FFloat, Nullable)]"

definition price_matrix_row :: fields where
  "price_matrix_row =
     [(''days'', FInt, Required), (''devices'', FInt, Required), (''total_price_rub'', FFloat, Required),
      (''override_key'', FStr, Nullable)]"

definition reseller_prices :: fields where
  "reseller_prices =
     [ok_field, (''provider_key'', FStr, Required), (''price_matrix'', FRows price_matrix_row, Default (JArr []))]"

definition lte_package :: fields where
  "lte_package =
     [(''gb'', FInt, Required), (''price_rub'', FFloat, Required), (''label'', FStr, Nullable),
      (''rate'', FFloat, Nullable)]"

definition lte_packages :: fields where
  "lte_packages = [ok_field, (''packages'', FRows lte_package, Default (JArr []))]"

definition branding_response :: fields where
  "branding_response = [ok_field, (''branding'', FDict, Default (JObj []))]"

section \<open>The client's calls\<close>

definition get_json :: "env \<Rightarrow> (json \<Rightarrow> json option) \<Rightarrow> string \<Rightarrow> json \<Rightarrow> fields \<Rightarrow> exn + (string \<times> json) list" where
  "get_json e num path params fs =
     (case nl_request e ''GET'' path params of Inl x \<Rightarrow> Inl x | Inr data \<Rightarrow> validate num fs data)"

definition get_profile :: "env \<Rightarrow> (json \<Rightarrow> json option) \<Rightarrow> exn + (string \<times> json) list" where
  "get_profile e num = get_json e num ''/reseller/profile'' JNull reseller_profile"

definition price_quote ::
  "env \<Rightarrow> (json \<Rightarrow> json option) \<Rightarrow> int \<Rightarrow> int \<Rightarrow> bool \<Rightarrow> int \<Rightarrow> exn + (string \<times> json) list" where
  "price_quote e num days devices unlimited lte =
     get_json e num ''/reseller/price-quote''
       (JObj [(''days'', JInt days), (''devices'', JInt devices),
              (''unlimited'', JInt (if unlimited then 1 else 0)), (''lte_gb'', JInt lte)]) price_quote_fields"

definition get_prices :: "env \<Rightarrow> (json \<Rightarrow> json option) \<Rightarrow> exn + (string \<times> json) list" where
  "get_prices e num = get_json e num ''/reseller/prices'' JNull reseller_prices"

definition get_lte_packages :: "env \<Rightarrow> (json \<Rightarrow> json option) \<Rightarrow> exn + (string \<times> json) list" where
  "get_lte_packages e num = get_json e num ''/reseller/lte-packages'' JNull lte_packages"

definition get_branding :: "env \<Rightarrow> (json \<Rightarrow> json option) \<Rightarrow> exn + (string \<times> json) list" where
  "get_branding e num = get_json e num ''/reseller/branding'' JNull branding_response"

definition set_branding :: "env \<Rightarrow> (string \<times> string option) list \<Rightarrow> exn + json" where
  "set_branding e fs =
     (if branding_body fs = []
      then Inl (PyExn ''ValueError'' ''set_branding requires at least one field'')
      else nl_request e ''PATCH'' ''/reseller/branding'' (JObj (branding_body fs)))"

definition ping :: "env \<Rightarrow> exn + bool" where
  "ping e =
     (case nl_request e ''GET'' ''/ping'' JNull of
        Inl x \<Rightarrow> if is_northline_exn x then Inr False else Inl x
      | Inr (JObj kvs) \<Rightarrow> Inr (opt_json_truthy (map_of kvs ''ok''))
      | Inr data \<Rightarrow> Inl (PyExn ''AttributeError'' ''get''))"

definition deactivate_key :: "env \<Rightarrow> string \<Rightarrow> string \<Rightarrow> string option \<Rightarrow> exn + (string \<times> int option)" where
  "deactivate_key e sid reason idem = delete_key e sid idem"

section \<open>The pages of the panel\<close>

definition wrap_provider_error :: "exn \<Rightarrow> exn" where
  "wrap_provider_error x =
     (if is_northline_exn x then x
      else nl_unavailable ''Unexpected error talking to NorthLine'' [(''error'', JStr (exn_str x))])"

text \<open>The panel's models repeat the provider's without \<open>ok\<close>.\<close>

definition admin_profile :: fields where
  "admin_profile =
     [(''provider_key'', FStr, Required), (''label'', FStr, Nullable),
      (''balance_rub'', FFloat, Required), (''active'', FBool, Default (JBool True)),
      (''issued_total'', FInt, Default (JInt 0)), (''active_total'', FInt, Default (JInt 0)),
      (''spent_rub'', FFloat, Default (JInt 0))]"

definition admin_matrix_row :: fields where
  "admin_matrix_row =
     [(''days'', FInt, Required), (''devices'', FInt, Required), (''total_price_rub'', FFloat, Required),
      (''override_key'', FStr, Nullable)]"

definition admin_prices :: fields where
  "admin_prices =
     [(''provider_key'', FStr, Required), (''price_matrix'', FRows admin_matrix_row, Default (JArr []))]"

definition admin_lte_package :: fields where
  "admin_lte_package =
     [(''gb'', FInt, Required), (''price_rub'', FFloat, Required), (''label'', FStr, Nullable),
      (''rate'', FFloat, Nullable)]"

definition admin_lte_packages :: fields where
  "admin_lte_packages = [(''packages'', FRows admin_lte_package, Default (JArr []))]"

definition admin_quote :: fields where
  "admin_quote =
     [(''days'', FInt, Required), (''devices'', FInt, Required), (''tariff_code'', FStr, Nullable),
      (''total_price_rub'', FFloat, Required), (''regular_price_rub'', FFloat, Nullable),
      (''savings_rub'', FFloat, Nullable), (''discount_pct'', FInt, Nullable),
      (''device_discount_pct'', FInt, Nullable), (''term_discount_pct'', FInt, Nullable),
      (''price_per_device_per_day'', FFloat, Nullable), (''traffic_quota_gb'', FInt, Nullable),
      (''unlimited_traffic'', FBool, Default (JBool False)), (''lte_gb'', FInt, Nullable),
      (''lte_addon_rub'', FFloat, Nullable), (''lte_rate_per_gb'', FFloat, Nullable)]"

definition admin_branding :: fields where
  "admin_branding = [(''branding'', FDict, Default (JObj []))]"

text \<open>A page builds the panel's model from the attributes of the client's answer.\<close>

definition relay ::
  "(json \<Rightarrow> json option) \<Rightarrow> fields \<Rightarrow> exn + (string \<times> json) list \<Rightarrow> exn + json" where
  "relay num fs ans =
     (case ans of
        Inl x \<Rightarrow> Inl (wrap_provider_error x)
      | Inr obj \<Rightarrow>
          (case validate num fs (JObj (filter (\<lambda>kv. fst kv \<in> fst ` set fs) obj)) of
             Inl x \<Rightarrow> Inl x
           | Inr shown \<Rightarrow> Inr (JObj shown)))"

definition profile_page :: "env \<Rightarrow> (json \<Rightarrow> json option) \<Rightarrow> exn + json" where
  "profile_page e num = relay num admin_profile (get_profile e num)"

definition prices_page :: "env \<Rightarrow> (json \<Rightarrow> json option) \<Rightarrow> exn + json" where
  "prices_page e num = relay num admin_prices (get_prices e num)"

definition lte_page :: "env \<Rightarrow> (json \<Rightarrow> json option) \<Rightarrow> exn + json" where
  "lte_page e num = relay num admin_lte_packages (get_lte_packages e num)"

text \<open>The bounds of the query.\<close>

definition quote_ok :: "int \<Rightarrow> int \<Rightarrow> int \<Rightarrow> bool" where
  "quote_ok days devices lte \<longleftrightarrow>
     1 \<le> days \<and> days \<le> 3650 \<and> 1 \<le> devices \<and> devices \<le> 64 \<and> 0 \<le> lte \<and> lte \<le> 10000"

definition quote_page ::
  "env \<Rightarrow> (json \<Rightarrow> json option) \<Rightarrow> int \<Rightarrow> int \<Rightarrow> bool \<Rightarrow> int \<Rightarrow> exn + json" where
  "quote_page e num days devices unlimited lte =
     (if \<not> quote_ok days devices lte then Inl query_error
      else relay num admin_quote (price_quote e num days devices unlimited lte))"

definition branding_page :: "env \<Rightarrow> (json \<Rightarrow> json option) \<Rightarrow> exn + json" where
  "branding_page e num = relay num admin_branding (get_branding e num)"

definition branding_update_ok :: "branding \<Rightarrow> bool" where
  "branding_update_ok b \<longleftrightarrow> list_all
     (\<lambda>(v, n). case v of Some (Some s) \<Rightarrow> length s \<le> n | _ \<Rightarrow> True)
     [(bg_custom_domain b, 253::nat), (bg_service_name b, 128), (bg_service_description b, 512),
      (bg_support_url b, 512)]"

definition set_reseller_branding ::
  "env \<Rightarrow> (json \<Rightarrow> json option) \<Rightarrow> admin_principal \<Rightarrow> branding \<Rightarrow> db \<Rightarrow> (exn + json) \<times> db" where
  "set_reseller_branding e num admin b d =
     (let fs = branding_fields b in
      if \<not> branding_update_ok b then (Inl query_error, d)
      else if fs = [] then (Inl (northline_client_error ''empty_payload''
                         ''Branding update requires at least one field'' []), d)
      else case set_branding e fs of
        Inl x \<Rightarrow> (Inl (wrap_provider_error x), d)
      | Inr j \<Rightarrow>
          (case branding_page e num of
             Inl x \<Rightarrow> (Inl x, d)
           | Inr shown \<Rightarrow> (Inr shown, record_admin_action e admin ''northline.branding.update'' None None
               [(''fields'', JArr (List.map JStr (sorted_fields fs)))] d)))"

text \<open>\<open>scripts/apply_branding.py\<close>: the exit code.  \<open>configured\<close> is whether address and token are
  set; the Russian description is an argument.\<close>

definition product_branding :: "string \<Rightarrow> (string \<times> string option) list" where
  "product_branding description =
     [(''custom_domain'', Some ''sub.pix-app.xyz''), (''service_name'', Some ''PIX VPN''),
      (''service_description'', Some description), (''support_url'', Some ''https://t.me/pix_vpn_robot'')]"

definition apply_branding :: "env \<Rightarrow> (json \<Rightarrow> json option) \<Rightarrow> bool \<Rightarrow> string \<Rightarrow> int" where
  "apply_branding e num configured description =
     (if \<not> configured then 2
      else case set_branding e (product_branding description) of
        Inl x \<Rightarrow> 1
      | Inr j \<Rightarrow> (case get_branding e num of Inl x \<Rightarrow> 1 | Inr obj \<Rightarrow> 0))"

section \<open>Validating a validated answer\<close>

lemma as_readings_again [simp]: "as_str (JStr s) = Some s" "as_int (JInt i) = Some i" "as_bool (JBool b) = Some b"
  by (simp_all add: as_str_def as_int_def as_bool_def)

text \<open>Reading a shown number again gives the same number, and zero is a number.\<close>

definition stable :: "(json \<Rightarrow> json option) \<Rightarrow> bool" where
  "stable num \<longleftrightarrow> (\<forall>j v. num j = Some v \<longrightarrow> num v = Some v) \<and> num (JInt 0) = Some (JInt 0)"

text \<open>Models with distinct keys whose defaults are valid.\<close>

fun sound_type :: "(json \<Rightarrow> json option) \<Rightarrow> ftype \<Rightarrow> bool"
and sound_fields :: "(json \<Rightarrow> json option) \<Rightarrow> fields \<Rightarrow> bool" where
  "sound_type num (FRows fs) = sound_fields num fs"
| "sound_type num t = True"
| "sound_fields num [] = True"
| "sound_fields num ((k, t, p) # fs) \<longleftrightarrow> k \<notin> fst ` set fs \<and> sound_type num t
     \<and> (\<forall>v. p = Default v \<longrightarrow> check num t v = Some v) \<and> sound_fields num fs"

lemma all_some_Some: "all_some xs = Some ys \<longleftrightarrow> xs = List.map Some ys"
  by (induction xs arbitrary: ys rule: all_some.induct) auto

lemma check_fields_keys: "check_fields num fs kvs = Some obj \<Longrightarrow> List.map fst obj = List.map fst fs"
  by (induction fs arbitrary: obj) (auto split: option.splits)

lemma present_again:
  assumes "present p chk mv = Some v" "\<And>j w. chk j = Some w \<Longrightarrow> chk w = Some w"
    "\<And>w. p = Default w \<Longrightarrow> chk w = Some w"
  shows "present p chk (Some v) = Some v"
  using assms by (auto simp: present_def split: option.splits presence.splits if_splits)

lemma all_some_again:
  assumes "all_some (List.map g rows) = Some ys" "\<And>r y. r \<in> set rows \<Longrightarrow> g r = Some y \<Longrightarrow> g y = Some y"
  shows "all_some (List.map g ys) = Some ys"
  using assms
proof (induction rows arbitrary: ys)
  case (Cons r rows)
  then obtain a z where g: "g r = Some a" "all_some (List.map g rows) = Some z" "ys = a # z"
    by (cases "g r") auto
  have "all_some (List.map g z) = Some z" by (rule Cons.IH[OF g(2)]) (use Cons.prems(2) in auto)
  then show ?case using g Cons.prems(2)[of r a] by simp
qed simp

definition check_row :: "(json \<Rightarrow> json option) \<Rightarrow> fields \<Rightarrow> json \<Rightarrow> json option" where
  "check_row num fs r = (case r of JObj kvs \<Rightarrow> map_option JObj (check_fields num fs kvs) | _ \<Rightarrow> None)"

lemma check_rows: "check num (FRows fs) j =
    (case j of JArr rows \<Rightarrow> map_option JArr (all_some (List.map (check_row num fs) rows)) | _ \<Rightarrow> None)"
proof -
  have "check_row num fs = (\<lambda>r. case r of JObj kvs \<Rightarrow> map_option JObj (check_fields num fs kvs) | _ \<Rightarrow> None)"
    by (rule ext) (simp add: check_row_def)
  then show ?thesis by (cases j) simp_all
qed

lemma check_again:
  "stable num \<Longrightarrow> sound_type num t \<Longrightarrow> check num t j = Some v \<Longrightarrow> check num t v = Some v"
  "stable num \<Longrightarrow> sound_fields num fs \<Longrightarrow> check_fields num fs kvs = Some obj \<Longrightarrow>
      (\<And>k. k \<in> fst ` set fs \<Longrightarrow> map_of kvs' k = map_of obj k) \<Longrightarrow> check_fields num fs kvs' = Some obj"
proof (induction num t j and num fs kvs arbitrary: v and obj kvs' rule: check_check_fields.induct)
  case (6 num fs j)
  obtain rows ys where j: "j = JArr rows" "all_some (List.map (check_row num fs) rows) = Some ys" "v = JArr ys"
    using 6(4) unfolding check_rows by (cases j) auto
  have "check_row num fs y = Some y" if r: "r \<in> set rows" "check_row num fs r = Some y" for r y
  proof -
    obtain x7 obj where "r = JObj x7" "check_fields num fs x7 = Some obj" "y = JObj obj"
      using r(2) by (auto simp: check_row_def split: json.splits)
    then show ?thesis using 6(1)[OF j(1) r(1), of x7 obj obj] 6(2,3) by (simp add: check_row_def)
  qed
  from all_some_again[OF j(2) this] show ?case unfolding check_rows j(3) by simp
next
  case (8 num k t p fs kvs)
  obtain v rest where v: "present p (check num t) (map_of kvs k) = Some v" "check_fields num fs kvs = Some rest"
      "obj = (k, v) # rest"
    using 8(5) by (auto split: option.splits)
  have "present p (check num t) (Some v) = Some v"
  proof (rule present_again[OF v(1)])
    show "check num t w = Some w" if "check num t j = Some w" for j w
      by (rule 8(1)[OF 8(3) _ that]) (use 8(4) in simp)
    show "check num t w = Some w" if "p = Default w" for w using 8(4) that by simp
  qed
  moreover have "check_fields num fs kvs' = Some rest"
    by (rule 8(2)[OF 8(3) _ v(2)]) (use 8(4,6) v(3) in auto)
  ultimately show ?case using 8(6)[of k] v(3) by simp
next
  case (3 num j)
  then show ?case by (simp add: stable_def)
next
  case (5 num j)
  then show ?case by (cases j) auto
next
  case (1 num j)
  then show ?case by (auto simp: map_option_case split: option.splits)
next
  case (2 num j)
  then show ?case by (auto simp: map_option_case split: option.splits)
next
  case (4 num j)
  then show ?case by (auto simp: map_option_case split: option.splits)
qed simp

text \<open>The panel's model over the same fields shows the validated answer as it is.\<close>

lemma validate_again:
  assumes "stable num" "sound_fields num fs" "check_fields num fs kvs = Some obj"
  shows "k \<notin> fst ` set fs \<Longrightarrow> relay num fs (Inr ((k, v) # obj)) = Inr (JObj obj)"
    and "relay num fs (Inr obj) = Inr (JObj obj)"
proof -
  have keys: "fst ` set obj = fst ` set fs"
    using arg_cong[OF check_fields_keys[OF assms(3)], of set] by simp
  have "filter (\<lambda>kv. fst kv \<in> fst ` set fs) obj = obj"
    unfolding keys[symmetric] by (rule filter_True) auto
  moreover have "check_fields num fs obj = Some obj"
    by (rule check_again(2)[OF assms]) simp
  ultimately show "k \<notin> fst ` set fs \<Longrightarrow> relay num fs (Inr ((k, v) # obj)) = Inr (JObj obj)"
    and "relay num fs (Inr obj) = Inr (JObj obj)"
    by (simp_all add: relay_def validate_def)
qed

lemma relay_with_ok:
  assumes "stable num" "sound_fields num fs" "''ok'' \<notin> fst ` set fs"
    and "get_json e num path params (ok_field # fs) = Inr obj"
  shows "relay num fs (get_json e num path params (ok_field # fs)) = Inr (JObj (tl obj))"
proof -
  obtain v rest kvs where "obj = (''ok'', v) # rest" "check_fields num fs kvs = Some rest"
    using assms(4) by (auto simp: get_json_def validate_def ok_field_def split: sum.splits json.splits option.splits)
  then show ?thesis using validate_again(1)[OF assms(1,2), of kvs rest "''ok''" v] assms(3,4) by simp
qed

lemma wrap_is_northline [simp]: "is_northline_exn (wrap_provider_error x)"
  by (simp add: wrap_provider_error_def nl_unavailable_def is_northline_exn_def)

lemma relay_errors:
  assumes "relay num fs ans = Inl x" "\<And>obj. ans = Inr obj \<Longrightarrow> \<exists>shown. relay num fs ans = Inr shown"
  shows "is_northline_exn x"
  using assms by (cases ans) (auto simp: relay_def)

lemma sound_models:
  assumes "stable num"
  shows "sound_fields num admin_profile" "sound_fields num admin_prices" "sound_fields num admin_lte_packages"
    "sound_fields num admin_quote" "sound_fields num admin_branding"
  using assms
  by (auto simp: stable_def admin_profile_def admin_prices_def admin_matrix_row_def admin_lte_packages_def
      admin_lte_package_def admin_quote_def admin_branding_def as_bool_def)

lemma models_with_ok:
  "reseller_profile = ok_field # admin_profile" "reseller_prices = ok_field # admin_prices"
  "lte_packages = ok_field # admin_lte_packages" "branding_response = ok_field # admin_branding"
  "price_quote_fields = admin_quote"
  by (simp_all add: reseller_profile_def admin_profile_def reseller_prices_def admin_prices_def
      price_matrix_row_def admin_matrix_row_def lte_packages_def admin_lte_packages_def lte_package_def
      admin_lte_package_def branding_response_def admin_branding_def price_quote_fields_def admin_quote_def)

lemma no_ok_field:
  "''ok'' \<notin> fst ` set admin_profile" "''ok'' \<notin> fst ` set admin_prices"
  "''ok'' \<notin> fst ` set admin_lte_packages" "''ok'' \<notin> fst ` set admin_branding"
  by (simp_all add: admin_profile_def admin_prices_def admin_lte_packages_def admin_branding_def)

lemma relay_plain:
  assumes "stable num" "sound_fields num fs" "get_json e num path params fs = Inr obj"
  shows "relay num fs (get_json e num path params fs) = Inr (JObj obj)"
  using assms validate_again(2)[OF assms(1,2)]
  by (auto simp: get_json_def validate_def split: sum.splits json.splits option.splits)

lemmas page_defs = profile_page_def get_profile_def prices_page_def get_prices_def lte_page_def
  get_lte_packages_def branding_page_def get_branding_def quote_page_def price_quote_def models_with_ok

text \<open>The provider's pages of the panel show what the client read, field by field and only without
  the provider's field ok: validating an answer a second time never fails and changes nothing.  So
  whatever the provider answers, malformed as it may be, a page never ends in the 500 of an
  unexpected exception: its only errors are the two of the provider, answered as 502.\<close>

theorem provider_pages_relay:
  assumes "stable num" and "quote_ok days devices lte"
  shows "(\<forall>obj. get_profile e num = Inr obj \<longrightarrow> profile_page e num = Inr (JObj (tl obj)))
    \<and> (\<forall>obj. get_prices e num = Inr obj \<longrightarrow> prices_page e num = Inr (JObj (tl obj)))
    \<and> (\<forall>obj. get_lte_packages e num = Inr obj \<longrightarrow> lte_page e num = Inr (JObj (tl obj)))
    \<and> (\<forall>obj. get_branding e num = Inr obj \<longrightarrow> branding_page e num = Inr (JObj (tl obj)))
    \<and> (\<forall>obj. price_quote e num days devices u lte = Inr obj \<longrightarrow> quote_page e num days devices u lte = Inr (JObj obj))
    \<and> (\<forall>x. Inl x \<in> {profile_page e num, prices_page e num, lte_page e num, branding_page e num,
          quote_page e num days devices u lte} \<longrightarrow> is_northline_exn x)"
    (is "?p \<and> ?q \<and> ?r \<and> ?s \<and> ?t \<and> ?errors")
proof -
  note models = sound_models[OF assms(1)]
  note relayed = relay_with_ok[OF assms(1) models(1) no_ok_field(1)] relay_with_ok[OF assms(1) models(2) no_ok_field(2)]
    relay_with_ok[OF assms(1) models(3) no_ok_field(3)] relay_with_ok[OF assms(1) models(5) no_ok_field(4)]
    relay_plain[OF assms(1) models(4)]
  have "?p \<and> ?q \<and> ?r \<and> ?s \<and> ?t" using relayed assms(2) by (simp add: page_defs)
  moreover have ?errors
    using relayed assms(2) by (auto simp: page_defs dest!: relay_errors[OF sym])
  ultimately show ?thesis by blast
qed

text \<open>A provider that answers every call with a profile.\<close>

definition fx_profile_answer :: json where
  "fx_profile_answer = JObj [(''ok'', JBool True), (''provider_key'', JStr ''pk''), (''balance_rub'', JInt 100),
     (''issued_total'', JStr ''7'')]"

definition fx_num :: "json \<Rightarrow> json option" where
  "fx_num j = (case j of JInt i \<Rightarrow> Some (JInt i) | _ \<Rightarrow> None)"

theorem provider_pages_relay_witness:
  "profile_page (fx_env 20 200 fx_profile_answer) fx_num = Inr (JObj
     [(''provider_key'', JStr ''pk''), (''label'', JNull), (''balance_rub'', JInt 100), (''active'', JBool True),
      (''issued_total'', JInt 7), (''active_total'', JInt 0), (''spent_rub'', JInt 0)])"
proof -
  have "stable fx_num" by (auto simp: stable_def fx_num_def split: json.splits)
  moreover have "get_profile (fx_env 20 200 fx_profile_answer) fx_num = Inr
     [(''ok'', JBool True), (''provider_key'', JStr ''pk''), (''label'', JNull), (''balance_rub'', JInt 100),
      (''active'', JBool True), (''issued_total'', JInt 7), (''active_total'', JInt 0), (''spent_rub'', JInt 0)]"
    by (simp add: get_profile_def get_json_def fx_nl fx_profile_answer_def validate_def reseller_profile_def
        ok_field_def present_def fx_num_def) (simp add: as_int_def all_digits_def nat_of_str_def digit_val_def is_digit_def)
  ultimately show ?thesis
    using provider_pages_relay[of fx_num 30 3 0 "fx_env 20 200 fx_profile_answer"] by (simp add: quote_ok_def)
qed

text \<open>Nulls are never sent: a payload of nulls is refused as if the provider were down.\<close>

lemma null_branding_refused:
  assumes "branding_update_ok b" "branding_fields b \<noteq> []" "\<forall>kv\<in>set (branding_fields b). snd kv = None"
  shows "\<exists>x. set_reseller_branding e num admin b d = (Inl x, d) \<and> exn_class x = Some NorthLineUnavailableError"
proof -
  have "\<forall>kv\<in>set fs. snd kv = None \<Longrightarrow> branding_body fs = []" for fs
    by (induction fs) (auto simp: branding_body_def map_filter_simps)
  then have "branding_body (branding_fields b) = []" using assms(3) by blast
  then show ?thesis
    using assms by (simp add: set_reseller_branding_def set_branding_def wrap_provider_error_def is_northline_exn_def
        nl_unavailable_def Let_def)
qed

text \<open>When the answer to the second call is lost the provider has the new branding, while the panel
  reports an error and no audit row is written.\<close>

lemma branding_change_unaudited:
  assumes "set_branding e (branding_fields b) = Inr j" "branding_page e num = Inl x"
  shows "set_reseller_branding e num admin b d = (Inl x, d) \<or> fst (set_reseller_branding e num admin b d) = Inl query_error"
proof -
  have "branding_fields b \<noteq> []" using assms(1) by (auto simp: set_branding_def branding_body_def map_filter_simps)
  then show ?thesis using assms by (simp add: set_reseller_branding_def Let_def)
qed

end
