(* ===== verification/Seeds.thy ===== *)
theory Seeds
  imports Texts AdminAuth
begin

text \<open>
  \<open>backend/app/seeds.py\<close>, which the container runs at every start: the first administrator's key,
  the tariffs and the default texts.  Russian wordings are the argument \<open>words\<close>.
\<close>

section \<open>The first key\<close>

definition seed_admin_key :: "env \<Rightarrow> (string \<Rightarrow> string) \<Rightarrow> string \<Rightarrow> string \<Rightarrow> db \<Rightarrow> exn + db" where
  "seed_admin_key e hash secret label d =
     (if list_usable (e_now e) d \<noteq> [] \<or> length secret < 16 then Inr d
      else add_key e (hash secret) (if label = [] then ''main'' else label) d)"

section \<open>Tariffs\<close>

text \<open>An entry of \<open>TARIFFS_DATA\<close>; a key that may be missing is an option, durations are days, price, hot.\<close>

record seed_tariff =
  sv_code :: string
  sv_name :: string
  sv_description :: string
  sv_devices :: int
  sv_sort_order :: int
  sv_is_free :: bool
  sv_free_days :: "int option"
  sv_traffic :: "int option option"
  sv_lte :: "int option"
  sv_unlimited :: "bool option"
  sv_durations :: "(int \<times> int \<times> bool) list"

definition tariffs_data :: "(string \<Rightarrow> string) \<Rightarrow> seed_tariff list" where
  "tariffs_data words =
    [
     \<lparr>sv_code = ''free'', sv_name = ''FREE'', sv_description = words ''free'', sv_devices = 2, sv_sort_order = 0,
      sv_is_free = True, sv_free_days = Some 5, sv_traffic = Some None, sv_lte = Some 0, sv_unlimited = Some True,
      sv_durations = []\<rparr>,
     \<lparr>sv_code = ''basic'', sv_name = ''Basic'', sv_description = words ''basic'', sv_devices = 2, sv_sort_order = 10,
      sv_is_free = False, sv_free_days = None, sv_traffic = Some None, sv_lte = Some 10, sv_unlimited = Some True,
      sv_durations = [(30, 18900, False), (90, 45900, True), (180, 119000, False), (365, 159000, False)]\<rparr>,
     \<lparr>sv_code = ''plus'', sv_name = ''Plus'', sv_description = words ''plus'', sv_devices = 4, sv_sort_order = 20,
      sv_is_free = False, sv_free_days = None, sv_traffic = Some None, sv_lte = Some 15, sv_unlimited = Some True,
      sv_durations = [(30, 24900, False), (90, 64900, True), (180, 169000, False), (365, 199000, False)]\<rparr>,
     \<lparr>sv_code = ''max'', sv_name = ''Max'', sv_description = words ''max'', sv_devices = 10, sv_sort_order = 40,
      sv_is_free = False, sv_free_days = None, sv_traffic = Some None, sv_lte = Some 30, sv_unlimited = Some True,
      sv_durations = [(30, 59900, False), (90, 149000, True), (180, 449000, False), (365, 499000, False)]\<rparr>]"

definition tariff_by_code :: "db \<Rightarrow> string \<Rightarrow> tariff_row option" where
  "tariff_by_code d code = List.find (\<lambda>t. t_code t = code) (db_tariffs d)"

definition duration_of :: "db \<Rightarrow> int \<Rightarrow> int \<Rightarrow> duration_row option" where
  "duration_of d tid days = List.find (\<lambda>td. td_tariff_id td = tid \<and> td_days td = days) (db_durations d)"

definition seeded_tariff :: "seed_tariff \<Rightarrow> db \<Rightarrow> tariff_row" where
  "seeded_tariff sv d =
     \<lparr>t_id = next_tariff d, t_code = sv_code sv, t_name = sv_name sv,
      t_description_html = Some (sv_description sv), t_devices = sv_devices sv,
      t_sort_order = sv_sort_order sv, t_is_active = True, t_is_free_trial = sv_is_free sv,
      t_free_trial_days = sv_free_days sv,
      t_lte_gb = (case sv_lte sv of None \<Rightarrow> 35 | Some g \<Rightarrow> g),
      t_traffic_gb = (case sv_traffic sv of None \<Rightarrow> None | Some g \<Rightarrow> g),
      t_unlimited = (case sv_unlimited sv of None \<Rightarrow> False | Some u \<Rightarrow> u)\<rparr>"

text \<open>What a start writes over an existing row: the flag for unlimited traffic, and the free tariff.\<close>

definition fix_free :: "seed_tariff \<Rightarrow> tariff_row \<Rightarrow> tariff_row" where
  "fix_free sv =
     opt_set (sv_lte sv) (\<lambda>v t. t\<lparr>t_lte_gb := v\<rparr>)
     \<circ> opt_set (if sv_description sv = [] then None else Some (sv_description sv))
         (\<lambda>v t. t\<lparr>t_description_html := Some v\<rparr>)
     \<circ> opt_set (sv_traffic sv) (\<lambda>v t. t\<lparr>t_traffic_gb := v\<rparr>)
     \<circ> opt_set (if int_truthy (sv_free_days sv) then sv_free_days sv else None)
         (\<lambda>v t. t\<lparr>t_free_trial_days := Some v\<rparr>)
     \<circ> opt_set (if sv_devices sv = 0 then None else Some (sv_devices sv)) (\<lambda>v t. t\<lparr>t_devices := v\<rparr>)"

definition fix_tariff :: "seed_tariff \<Rightarrow> tariff_row \<Rightarrow> tariff_row" where
  "fix_tariff sv t =
     (if sv_is_free sv then fix_free sv else id)
       (opt_set (sv_unlimited sv) (\<lambda>v t. t\<lparr>t_unlimited := v\<rparr>) t)"

definition seed_duration :: "int \<Rightarrow> int \<times> int \<times> bool \<Rightarrow> db \<Rightarrow> db" where
  "seed_duration tid du d =
     (case du of (days, price, hot) \<Rightarrow>
        if duration_of d tid days = None
        then ins_duration \<lparr>td_id = next_duration d, td_tariff_id = tid, td_days = days, td_price = price,
               td_is_hot = hot, td_is_active = True\<rparr> d
        else d)"

definition seed_tariff_data :: "seed_tariff \<Rightarrow> db \<Rightarrow> db" where
  "seed_tariff_data sv d =
     (case tariff_by_code d (sv_code sv) of
        None \<Rightarrow> fold (seed_duration (next_tariff d)) (sv_durations sv) (ins_tariff (seeded_tariff sv d) d)
      | Some t \<Rightarrow> fold (seed_duration (t_id t)) (sv_durations sv) (mod_tariff (t_id t) (fix_tariff sv) d))"

definition seed_tariffs :: "seed_tariff list \<Rightarrow> db \<Rightarrow> db" where
  "seed_tariffs data d = fold seed_tariff_data data d"

section \<open>Texts\<close>

definition default_text_keys :: "string list" where
  "default_text_keys =
    [''main_menu'', ''section_in_development'', ''channel_subscription_required'', ''banned_user'',
     ''about'', ''ban_reason_template'', ''key_issuing'', ''key_issued'',
     ''key_issued_free_trial'', ''free_trial_reissued'', ''free_trial_already_used'',
     ''insufficient_balance'', ''vpn_provider_unavailable'', ''refund_after_provider_error'',
     ''unexpected_error'', ''service_unavailable'', ''profile_header'',
     ''profile_no_subscriptions'', ''subscription_detail'', ''catalog_header'',
     ''tariff_durations_header'', ''pay_method_header'', ''topup_amount_prompt'',
     ''topup_min_amount'', ''payment_invoice'', ''payment_pending'',
     ''payment_provider_unavailable'', ''topup_success'', ''promo_input_prompt'',
     ''promo_balance_applied'', ''promo_discount_applied'', ''promo_not_found'',
     ''promo_unavailable'', ''promo_already_used_by_user'', ''promo_discount_requires_purchase'',
     ''referral_bonus_credited'', ''referral_program_screen'', ''referrer_trial_bonus_promo'',
     ''trial_expiring_with_promo'', ''trial_expiring_no_promo'', ''btn.main_menu.free_gift'',
     ''subscription_extended'', ''subscription_not_extendable'', ''extension_failed_refund'',
     ''support_no_active_ticket'', ''support_active_ticket'', ''support_ticket_created'',
     ''support_ticket_closed_by_user'', ''support_ticket_closed_by_admin'',
     ''support_already_open'', ''support_no_text'', ''support_sticker_rejected'',
     ''support_unsupported_media'', ''support_flood_limit'', ''support_admin_reply_prefix'',
     ''support_user_banned_notice'', ''support_user_unbanned_notice'',
     ''subscription_deactivated_by_admin'', ''subscription_suspended_by_admin'',
     ''subscription_resumed_by_admin'', ''balance_admin_adjusted'', ''idea_no_active_ticket'',
     ''idea_ticket_created'', ''support_topic_separator'', ''support_topic_user_message'',
     ''support_topic_user_idea'', ''support_topic_user_closed'', ''support_topic_admin_closed'',
     ''support_topic_user_banned'', ''support_topic_user_unbanned'',
     ''support_topic_no_open_ticket'', ''support_topic_ban_reason_prompt'']"

definition default_texts :: "(string \<Rightarrow> string) \<Rightarrow> (string \<times> string \<times> string option) list" where
  "default_texts words = List.map (\<lambda>k. (k, words k, Some (words (k @ ''.description'')))) default_text_keys"

definition seed_text :: "env \<Rightarrow> string \<times> string \<times> string option \<Rightarrow> db \<Rightarrow> db" where
  "seed_text e entry d =
     (case entry of (key, html, desc) \<Rightarrow>
        if text_by_key d key = None
        then ins_text \<lparr>tx_id = next_text d, tx_key = key, tx_value_html = html, tx_description = desc,
               tx_media_file_id = None, tx_media_kind = None, tx_kind = ''message'',
               tx_icon_custom_emoji_id = None, tx_url = None, tx_updated_at = e_now e,
               tx_updated_by = None\<rparr> d
        else d)"

definition seed_texts :: "env \<Rightarrow> (string \<times> string \<times> string option) list \<Rightarrow> db \<Rightarrow> db" where
  "seed_texts e entries d = fold (seed_text e) entries d"

text \<open>One transaction; \<open>data\<close> and \<open>entries\<close> are the module's constants.\<close>

definition run_seeds ::
  "env \<Rightarrow> (string \<Rightarrow> string) \<Rightarrow> string \<Rightarrow> string \<Rightarrow> seed_tariff list
    \<Rightarrow> (string \<times> string \<times> string option) list \<Rightarrow> db \<Rightarrow> (exn + unit) \<times> db" where
  "run_seeds e hash secret label data entries d =
     (case seed_admin_key e hash secret label d of
        Inl x \<Rightarrow> (Inl x, d)
      | Inr d1 \<Rightarrow> (Inr (), seed_texts e entries (seed_tariffs data d1)))"

section \<open>Seeding again changes nothing\<close>

lemma fix_tariff_keeps [simp]:
  "t_id (fix_tariff sv t) = t_id t" "t_code (fix_tariff sv t) = t_code t"
  by (simp_all add: fix_tariff_def fix_free_def opt_set_def split: option.split)

lemma fix_tariff_twice [simp]: "fix_tariff sv (fix_tariff sv t) = fix_tariff sv t"
  by (simp add: fix_tariff_def fix_free_def opt_set_def split: option.split)

lemma fix_seeded [simp]: "fix_tariff sv (seeded_tariff sv d) = seeded_tariff sv d"
  by (auto simp: fix_tariff_def fix_free_def opt_set_def seeded_tariff_def int_truthy_def split: option.split)

lemma seed_duration_frame [simp]:
  "db_tariffs (seed_duration tid du d) = db_tariffs d" "db_texts (seed_duration tid du d) = db_texts d"
  "db_admin_keys (seed_duration tid du d) = db_admin_keys d"
  by (simp_all add: seed_duration_def split: prod.split)

lemma fold_frame: "(\<And>x d. g (f x d) = g d) \<Longrightarrow> g (fold f xs d) = g d"
  by (induction xs arbitrary: d) simp_all

lemma seed_durations_frame [simp]:
  "db_tariffs (fold (seed_duration tid) dus d) = db_tariffs d"
  "db_texts (fold (seed_duration tid) dus d) = db_texts d"
  "db_admin_keys (fold (seed_duration tid) dus d) = db_admin_keys d"
  by (rule fold_frame; simp)+

text \<open>Durations are only added, and looking one up stays successful.\<close>

definition more_durations :: "db \<Rightarrow> db \<Rightarrow> bool" where
  "more_durations d d' \<longleftrightarrow> (\<exists>new. db_durations d' = db_durations d @ new)"

lemma more_durations_refl [simp]: "more_durations d d"
  by (simp add: more_durations_def)

lemma more_durations_trans: "more_durations a b \<Longrightarrow> more_durations b c \<Longrightarrow> more_durations a c"
  by (auto simp: more_durations_def)

lemma more_durations_found: "more_durations d d' \<Longrightarrow> duration_of d tid days \<noteq> None \<Longrightarrow> duration_of d' tid days \<noteq> None"
  by (auto simp: more_durations_def duration_of_def find_None_iff)

lemma seed_duration_more: "more_durations d (seed_duration tid du d)"
  by (auto simp: more_durations_def seed_duration_def split: prod.split)

lemma seed_durations_more: "more_durations d (fold (seed_duration tid) dus d)"
  by (induction dus arbitrary: d) (auto intro: more_durations_trans seed_duration_more)

lemma find_append: "List.find P (xs @ ys) = (case List.find P xs of None \<Rightarrow> List.find P ys | Some x \<Rightarrow> Some x)"
  by (induction xs) simp_all

lemma seed_duration_found: "duration_of (seed_duration tid du d) tid (fst du) \<noteq> None"
  by (cases du; cases "duration_of d tid (fst du)") (simp_all add: seed_duration_def duration_of_def find_append)

lemma seed_durations_found:
  "du \<in> set dus \<Longrightarrow> duration_of (fold (seed_duration tid) dus d) tid (fst du) \<noteq> None"
proof (induction dus arbitrary: d)
  case (Cons x dus)
  then show ?case
    using more_durations_found[OF seed_durations_more[of "seed_duration tid x d" tid dus] seed_duration_found] by auto
qed simp

lemma seed_durations_idle:
  "\<forall>du\<in>set dus. duration_of d tid (fst du) \<noteq> None \<Longrightarrow> fold (seed_duration tid) dus d = d"
  by (induction dus) (auto simp: seed_duration_def split: prod.split)

text \<open>An entry that has nothing left to do.\<close>

definition settled_entry :: "db \<Rightarrow> seed_tariff \<Rightarrow> bool" where
  "settled_entry d sv \<longleftrightarrow> (\<exists>t. tariff_by_code d (sv_code sv) = Some t \<and> fix_tariff sv t = t
     \<and> (\<forall>du\<in>set (sv_durations sv). duration_of d (t_id t) (fst du) \<noteq> None))"

definition tariff_ids :: "db \<Rightarrow> bool" where
  "tariff_ids d \<longleftrightarrow> distinct (List.map t_id (db_tariffs d))"

lemma tariff_by_code_Some: "tariff_by_code d code = Some t \<Longrightarrow> t \<in> set (db_tariffs d) \<and> t_code t = code"
  by (auto simp: tariff_by_code_def find_Some_iff)

lemma row_upd_idle:
  assumes "distinct (List.map key rows)" "r \<in> set rows" "f r = r"
  shows "row_upd key (key r) f rows = rows"
proof -
  have "(if key x = key r then f x else x) = x" if "x \<in> set rows" for x
    using that assms by (auto simp: distinct_map inj_on_def)
  then show ?thesis by (simp add: row_upd_def map_idI)
qed

lemma settled_idle:
  assumes "settled_entry d sv" "tariff_ids d"
  shows "seed_tariff_data sv d = d"
proof -
  obtain t where t: "tariff_by_code d (sv_code sv) = Some t" "fix_tariff sv t = t"
      "\<forall>du\<in>set (sv_durations sv). duration_of d (t_id t) (fst du) \<noteq> None"
    using assms(1) by (auto simp: settled_entry_def)
  have "mod_tariff (t_id t) (fix_tariff sv) d = d"
    using row_upd_idle[of t_id "db_tariffs d" t "fix_tariff sv"] t(2) tariff_by_code_Some[OF t(1)] assms(2)
    by (simp add: mod_tariff_def tariff_ids_def)
  then show ?thesis using t by (simp add: seed_tariff_data_def seed_durations_idle)
qed

lemma find_updated:
  assumes "\<And>x. code (f x) = code x"
  shows "List.find (\<lambda>x. code x = c) (row_upd key k f rows)
    = map_option (\<lambda>x. if key x = k then f x else x) (List.find (\<lambda>x. code x = c) rows)"
  by (induction rows) (auto simp: row_upd_def assms)

lemma tariff_by_code_mod:
  "tariff_by_code (mod_tariff k (fix_tariff sv) d) c
     = map_option (\<lambda>t. if t_id t = k then fix_tariff sv t else t) (tariff_by_code d c)"
  by (simp add: tariff_by_code_def db_tariffs_mod_tariff find_updated)

lemma tariff_by_code_cong: "db_tariffs d = db_tariffs d' \<Longrightarrow> tariff_by_code d c = tariff_by_code d' c"
  by (simp add: tariff_by_code_def)

lemma duration_of_cong: "db_durations d = db_durations d' \<Longrightarrow> duration_of d i c = duration_of d' i c"
  by (simp add: duration_of_def)

text \<open>The row an entry works on.\<close>

lemma seed_tariff_data_cases:
  obtains d1 tid t where "seed_tariff_data sv d = fold (seed_duration tid) (sv_durations sv) d1"
    "tariff_by_code d1 (sv_code sv) = Some t" "t_id t = tid" "fix_tariff sv t = t"
    "db_durations d1 = db_durations d"
    "\<And>c. c \<noteq> sv_code sv \<Longrightarrow> tariff_ids d \<Longrightarrow> tariff_by_code d1 c = tariff_by_code d c"
    "tariff_ids d \<Longrightarrow> tariff_ids d1" "db_texts d1 = db_texts d" "db_admin_keys d1 = db_admin_keys d"
proof (cases "tariff_by_code d (sv_code sv)")
  case None
  let ?d1 = "ins_tariff (seeded_tariff sv d) d"
  have "tariff_by_code ?d1 (sv_code sv) = Some (seeded_tariff sv d)"
    using None by (simp add: tariff_by_code_def find_append) (simp add: seeded_tariff_def)
  moreover have "tariff_by_code ?d1 c = tariff_by_code d c" if "c \<noteq> sv_code sv" for c
    using that by (simp add: tariff_by_code_def find_append seeded_tariff_def split: option.split)
  moreover have "tariff_ids ?d1" if "tariff_ids d"
    using that fresh_id_notin[of t_id "db_tariffs d"] by (simp add: tariff_ids_def seeded_tariff_def next_tariff_def)
  ultimately show ?thesis
    using that[of "next_tariff d" ?d1 "seeded_tariff sv d"] None
    by (simp add: seed_tariff_data_def) (simp add: seeded_tariff_def)
next
  case (Some t)
  let ?d1 = "mod_tariff (t_id t) (fix_tariff sv) d"
  note t = tariff_by_code_Some[OF Some]
  have "tariff_by_code ?d1 c = tariff_by_code d c" if "c \<noteq> sv_code sv" "tariff_ids d" for c
  proof (cases "tariff_by_code d c")
    case (Some t')
    then have "t' \<in> set (db_tariffs d)" "t' \<noteq> t" using tariff_by_code_Some[OF Some] t that(1) by auto
    then have "t_id t' \<noteq> t_id t" using t that(2) by (auto simp: tariff_ids_def distinct_map inj_on_def)
    then show ?thesis using Some by (simp add: tariff_by_code_mod)
  qed (simp add: tariff_by_code_mod)
  moreover have "tariff_ids ?d1" if "tariff_ids d"
    using that by (simp add: tariff_ids_def db_tariffs_mod_tariff map_row_upd)
  ultimately show ?thesis
    using that[of "t_id t" ?d1 "fix_tariff sv t"] Some
    by (simp add: seed_tariff_data_def tariff_by_code_mod)
qed

lemma seed_settles: "settled_entry (seed_tariff_data sv d) sv"
proof (cases rule: seed_tariff_data_cases[of sv d])
  case (1 d1 tid t)
  then show ?thesis
    using seed_durations_found[of _ "sv_durations sv" tid d1]
      tariff_by_code_cong[of "seed_tariff_data sv d" d1 "sv_code sv"]
    by (auto simp: settled_entry_def)
qed

lemma seed_keeps_settled:
  assumes "settled_entry d sv'" "sv_code sv' \<noteq> sv_code sv" "tariff_ids d"
  shows "settled_entry (seed_tariff_data sv d) sv'"
proof (cases rule: seed_tariff_data_cases[of sv d])
  case (1 d1 tid t)
  have "tariff_by_code (seed_tariff_data sv d) (sv_code sv') = tariff_by_code d (sv_code sv')"
    using 1(1,6) assms(2,3) tariff_by_code_cong[of "seed_tariff_data sv d" d1] by simp
  moreover have "more_durations d (seed_tariff_data sv d)"
    using seed_durations_more[of d1 tid "sv_durations sv"] 1(1,5) by (simp add: more_durations_def)
  ultimately show ?thesis
    using assms(1) more_durations_found by (auto simp: settled_entry_def)
qed

lemma seed_keeps_ids: "tariff_ids d \<Longrightarrow> tariff_ids (seed_tariff_data sv d)"
  by (cases rule: seed_tariff_data_cases[of sv d]) (simp add: tariff_ids_def)

lemma seeds_settle:
  assumes "distinct (List.map sv_code data)" "tariff_ids d"
  shows "(\<forall>sv\<in>set data. settled_entry (seed_tariffs data d) sv) \<and> tariff_ids (seed_tariffs data d)
    \<and> (\<forall>sv'. settled_entry d sv' \<longrightarrow> sv_code sv' \<notin> sv_code ` set data \<longrightarrow> settled_entry (seed_tariffs data d) sv')"
  using assms
proof (induction data arbitrary: d)
  case (Cons sv data)
  let ?d1 = "seed_tariff_data sv d"
  have ids: "tariff_ids ?d1" by (rule seed_keeps_ids[OF Cons.prems(2)])
  note IH = Cons.IH[OF _ ids]
  have "settled_entry (seed_tariffs data ?d1) sv" using IH Cons.prems(1) seed_settles[of sv d] by auto
  then show ?case
    using IH Cons.prems seed_keeps_settled[of d _ sv] by (auto simp: seed_tariffs_def)
qed (simp add: seed_tariffs_def)

lemma settled_seeds_idle:
  "\<forall>sv\<in>set data. settled_entry d sv \<Longrightarrow> tariff_ids d \<Longrightarrow> seed_tariffs data d = d"
  by (induction data) (simp_all add: seed_tariffs_def settled_idle)

section \<open>Texts and the key\<close>

definition text_there :: "db \<Rightarrow> string \<Rightarrow> bool" where
  "text_there d key \<longleftrightarrow> text_by_key d key \<noteq> None"

lemma seed_text_keeps: "\<exists>new. db_texts (seed_text e entry d) = db_texts d @ new"
  by (simp add: seed_text_def split: prod.split)

lemma text_there_append: "db_texts d' = db_texts d @ new \<Longrightarrow> text_there d key \<Longrightarrow> text_there d' key"
  by (auto simp: text_there_def text_by_key_def find_append)

lemma seed_text_there: "text_there (seed_text e entry d) (fst entry)"
  by (cases entry; cases "text_by_key d (fst entry)")
    (simp_all add: text_there_def seed_text_def text_by_key_def find_append)

lemma seed_text_frame [simp]:
  "db_tariffs (seed_text e entry d) = db_tariffs d" "db_durations (seed_text e entry d) = db_durations d"
  "db_admin_keys (seed_text e entry d) = db_admin_keys d"
  by (simp_all add: seed_text_def split: prod.split)

lemma seed_texts_frame [simp]:
  "db_tariffs (seed_texts e entries d) = db_tariffs d" "db_durations (seed_texts e entries d) = db_durations d"
  "db_admin_keys (seed_texts e entries d) = db_admin_keys d"
  unfolding seed_texts_def by (rule fold_frame; simp)+

lemma seed_texts_keep: "\<exists>new. db_texts (seed_texts e entries d) = db_texts d @ new"
  unfolding seed_texts_def
proof (induction entries arbitrary: d)
  case (Cons entry entries)
  obtain a where "db_texts (seed_text e entry d) = db_texts d @ a" using seed_text_keeps by blast
  with Cons[of "seed_text e entry d"] show ?case by auto
qed simp

lemma seed_texts_there: "entry \<in> set entries \<Longrightarrow> text_there (seed_texts e entries d) (fst entry)"
proof (induction entries arbitrary: d)
  case (Cons x entries)
  obtain new where "db_texts (seed_texts e entries (seed_text e x d)) = db_texts (seed_text e x d) @ new"
    using seed_texts_keep by blast
  then have "text_there (seed_texts e entries (seed_text e x d)) (fst x)"
    using text_there_append seed_text_there by blast
  then show ?case using Cons by (auto simp: seed_texts_def)
qed simp

lemma seed_texts_idle: "\<forall>entry\<in>set entries. text_there d (fst entry) \<Longrightarrow> seed_texts e entries d = d"
  unfolding seed_texts_def
  by (induction entries) (auto simp: seed_text_def text_there_def split: prod.split)

lemma seed_tariffs_frame [simp]:
  "db_texts (seed_tariffs data d) = db_texts d" "db_admin_keys (seed_tariffs data d) = db_admin_keys d"
  unfolding seed_tariffs_def by (rule fold_frame; simp add: seed_tariff_data_def split: option.split)+

lemma seed_tariffs_more: "more_durations d (seed_tariffs data d)"
  unfolding seed_tariffs_def
proof (induction data arbitrary: d)
  case (Cons sv data)
  obtain d1 tid where "seed_tariff_data sv d = fold (seed_duration tid) (sv_durations sv) d1"
      "db_durations d1 = db_durations d"
    by (cases rule: seed_tariff_data_cases[of sv d]) blast
  then have "more_durations d (seed_tariff_data sv d)"
    using seed_durations_more[of d1 tid "sv_durations sv"] by (simp add: more_durations_def)
  then show ?case using Cons more_durations_trans by auto
qed simp

text \<open>What an administrator may have changed of a tariff and a start leaves alone.\<close>

definition tariff_face :: "tariff_row \<Rightarrow> int \<times> string \<times> string \<times> bool \<times> bool \<times> int" where
  "tariff_face t = (t_id t, t_code t, t_name t, t_is_active t, t_is_free_trial t, t_sort_order t)"

lemma fix_tariff_face [simp]: "tariff_face (fix_tariff sv t) = tariff_face t"
  by (simp add: tariff_face_def fix_tariff_def fix_free_def opt_set_def split: option.split)

lemma seed_tariff_faces:
  "\<exists>new. List.map tariff_face (db_tariffs (seed_tariff_data sv d)) = List.map tariff_face (db_tariffs d) @ new"
  by (simp add: seed_tariff_data_def db_tariffs_mod_tariff map_row_upd split: option.split)

lemma seed_tariffs_faces:
  "\<exists>new. List.map tariff_face (db_tariffs (seed_tariffs data d)) = List.map tariff_face (db_tariffs d) @ new"
  unfolding seed_tariffs_def
proof (induction data arbitrary: d)
  case (Cons sv data)
  obtain a where "List.map tariff_face (db_tariffs (seed_tariff_data sv d)) = List.map tariff_face (db_tariffs d) @ a"
    using seed_tariff_faces by blast
  with Cons[of "seed_tariff_data sv d"] show ?case by auto
qed simp

lemma seed_admin_key_frame:
  "seed_admin_key e hash secret label d = Inr d1 \<Longrightarrow>
     db_tariffs d1 = db_tariffs d \<and> db_durations d1 = db_durations d \<and> db_texts d1 = db_texts d"
  by (auto simp: seed_admin_key_def add_key_def split: if_splits)



end
