(* ===== verification/AdminService.thy ===== *)
theory AdminService
  imports AdminCatalog Texts Reseller Seeds Solvency BotApi
begin

text \<open>
  The whole backend: the steps of the service (\<open>System\<close>) together with every endpoint of
  the administrators' panel that writes to the database (\<open>api/admin/users.py\<close>,
  \<open>subscriptions.py\<close>, \<open>tariffs.py\<close>, \<open>promos.py\<close>, \<open>texts.py\<close>, \<open>broadcasts.py\<close>,
  \<open>northline.py\<close>), the bot's log (\<open>api/bot/logs.py\<close>) and the seeds of a start.  The invariants, the
  abstract bank and the solvency of the service hold for all of them together.
\<close>

section \<open>Changes an administrator may make\<close>

text \<open>
  A clean change is routine, keeps the books, only appends to the ledger and keeps the
  shop solvent.
\<close>

definition clean :: "db \<Rightarrow> db \<Rightarrow> bool" where
  "clean d d' \<longleftrightarrow> routine d d' \<and> (money_ok d \<longrightarrow> money_ok d') \<and> grows d d' \<and> (solvent d \<longrightarrow> solvent d')"

named_theorems cleans

lemma clean_refl [simp]: "clean d d"
  by (simp add: clean_def)

lemma clean_trans: "clean a b \<Longrightarrow> clean b c \<Longrightarrow> clean a c"
  unfolding clean_def using routine_trans grows_trans by blast

lemma clean_same:
  assumes "db_tickets d' = db_tickets d" "db_users d' = db_users d" "db_subs d' = db_subs d"
    "db_payments d' = db_payments d" "db_bts d' = db_bts d" "db_refs d' = db_refs d"
    "db_promos d' = db_promos d" "db_promo_acts d' = db_promo_acts d" "db_durations d' = db_durations d"
  shows "clean a d' = clean a d"
  using routine_cong[OF assms(1-4), of a] money_ok_cong[OF assms(2,5,6,7,8)]
    grows_cong[OF assms(5), of a] solvent_cong[OF assms(2,4,9,7)]
  by (simp add: clean_def)

lemma clean_writes [simp]:
  "clean a (record_admin_action e admin act u s x d) = clean a d"
  "clean a (enqueue_message e o1 o2 o3 o4 o5 d) = clean a d"
  "clean a (message_user e v k kw d) = clean a d"
  "clean a (notify_owner e sub k kw d) = clean a d"
  "clean a (ins_tariff t d) = clean a d"
  "clean a (mod_tariff i tf d) = clean a d"
  "clean a (mod_text n i xf d) = clean a d"
  "clean a (ins_text xr d) = clean a d"
  "clean a (ins_admin_key kr d) = clean a d"
  "clean a (ins_broadcast b d) = clean a d"
  "clean a (mod_broadcast i bf d) = clean a d"
  by (rule clean_same; simp add: message_user_def notify_owner_def split: option.split)+

lemma clean_mod_user [cleans]:
  assumes "clean a d" "\<And>u. u_id (f u) = u_id u" "\<And>u. u_tg_id (f u) = u_tg_id u"
    "\<And>u. u_balance (f u) = u_balance u"
  shows "clean a (mod_user n k f d)"
proof (rule clean_trans[OF assms(1)])
  show "clean d (mod_user n k f d)"
    using routine_mod_user[OF routine_refl assms(2,3)] money_mod_user[of f d n k] assms(2,4)
    by (auto simp: clean_def solvent_def db_users_mod_user row_upd_def if_distrib grows_same
        del: if_image_distrib cong: if_cong)
qed

lemma clean_mod_sub [cleans]:
  assumes "clean a d" "\<And>s. s_user_id (f s) = s_user_id s" "\<And>s. s_is_free_trial (f s) = s_is_free_trial s"
  shows "clean a (mod_sub n k f d)"
proof (rule clean_trans[OF assms(1)])
  show "clean d (mod_sub n k f d)"
    using routine_mod_sub[OF routine_refl assms(2,3)] money_ok_cong[of "mod_sub n k f d" d]
    by (simp add: clean_def grows_same)
qed

lemma clean_adjust [cleans]: "clean d (snd (add_admin_adjust e uid amount rs kid label d))"
  by (simp add: clean_def routine_adjust adjust_money grows_adjust solvent_adjust)

lemma clean_ins_duration [cleans]:
  assumes "clean a d" "0 \<le> td_price td"
  shows "clean a (ins_duration td d)"
proof (rule clean_trans[OF assms(1)])
  show "clean d (ins_duration td d)"
    using assms(2) money_ok_cong[of "ins_duration td d" d]
    by (simp add: clean_def routine_same grows_same solvent_def)
qed

lemma clean_mod_duration [cleans]:
  assumes "clean a d" "\<And>td. 0 \<le> td_price td \<Longrightarrow> 0 \<le> td_price (f td)"
  shows "clean a (mod_duration k f d)"
proof (rule clean_trans[OF assms(1)])
  show "clean d (mod_duration k f d)"
    using assms(2) money_ok_cong[of "mod_duration k f d" d]
    by (auto simp: clean_def routine_same grows_same solvent_def mod_duration_def in_row_upd)
qed

lemma clean_ins_promo [cleans]:
  assumes "clean a d" "pc_id p = next_promo d" "pc_current p = 0" "0 \<le> pc_value p"
  shows "clean a (ins_promo p d)"
proof (rule clean_trans[OF assms(1)])
  have "promo_counts_ok d \<Longrightarrow> promo_counts_ok (ins_promo p d)"
    by (rule promo_counts_new[OF _ _ _ assms(2,3)]) simp_all
  then show "clean d (ins_promo p d)"
    using assms(4) ledger_cong[of "ins_promo p d" d] bonus_ok_cong[of "ins_promo p d" d]
    by (auto simp: clean_def routine_same grows_same solvent_def money_ok_def)
qed

lemma clean_mod_promo [cleans]:
  assumes "clean a d" "\<And>p. pc_id (f p) = pc_id p" "\<And>p. pc_current (f p) = pc_current p"
    "\<And>p. pc_value (f p) = pc_value p" "\<And>p. pc_type (f p) = pc_type p"
  shows "clean a (mod_promo k f d)"
proof (rule clean_trans[OF assms(1)])
  let ?d = "mod_promo k f d"
  have ids: "List.map pc_id (db_promos ?d) = List.map pc_id (db_promos d)"
    by (simp add: db_promos_mod_promo map_row_upd assms(2))
  have "pc_id ` set (db_promos ?d) = pc_id ` set (db_promos d)"
    using arg_cong[OF ids, of set] by simp
  then have "promo_counts_ok d \<Longrightarrow> promo_counts_ok ?d"
    using ids by (auto simp: promo_counts_ok_def total_activations_def db_promos_mod_promo in_row_upd
        assms(2,3) split: if_splits)
  then show "clean d ?d"
    using ledger_cong[of ?d d] bonus_ok_cong[of ?d d]
    by (auto simp: clean_def routine_same grows_same solvent_def money_ok_def db_promos_mod_promo
        in_row_upd assms(4,5) split: if_splits)
qed

lemma clean_fold:
  assumes "\<And>x d. clean a d \<Longrightarrow> clean a (f x d)" "clean a d"
  shows "clean a (fold f xs d)"
  using assms(2) by (induction xs arbitrary: d) (simp_all add: assms(1))

section \<open>The endpoints\<close>

lemma clean_adjust_with: "clean d (snd (adjust_with e admin u delta lr r act ex d))"
  using clean_adjust[of d e "u_id u" delta lr "pr_kid admin" "Some (pr_label admin)"]
  by (auto simp: adjust_with_def split: prod.split sum.split)

lemma clean_users:
  "clean d (snd (admin_ban_user e admin i reason d))"
  "clean d (snd (admin_unban_user e admin i d))"
  "clean d (snd (adjust_balance e admin i amount reason d))"
  "clean d (snd (set_user_balance e admin i target reason d))"
  "clean d (snd (bulk_message_users e admin ids msg mode d))"
  "clean d (snd (bulk_ban_users e admin ids reason d))"
  by (auto simp: admin_ban_user_def admin_unban_user_def adjust_balance_def set_user_balance_def
      bulk_message_users_def bulk_ban_users_def Let_def clean_adjust_with
      intro!: clean_mod_user clean_fold split: sum.split)

lemma flip_row_keys [simp]:
  "s_user_id (flip_row e p r) = s_user_id r" "s_is_free_trial (flip_row e p r) = s_is_free_trial r"
  by (simp_all add: flip_row_def)

lemma clean_subscriptions:
  "clean d (snd (deactivate_subscription e admin i reason d))"
  "clean d (snd (stop_subscription e admin i reason d))"
  "clean d (snd (resume_subscription e admin i d))"
  "clean d (snd (remove_subscription_device e admin i device d))"
  "clean d (snd (set_subscription_branding e admin i b d))"
  "clean d (snd (reconcile_subscription e admin i d))"
  by (auto simp: deactivate_subscription_def stop_subscription_def resume_subscription_def
      remove_subscription_device_def set_subscription_branding_def reconcile_subscription_def Let_def
      intro!: clean_mod_sub split: sum.split option.split)

lemma patch_duration_price:
  "natural_opt (dp_price p) \<Longrightarrow> 0 \<le> td_price td \<Longrightarrow> 0 \<le> td_price (patch_duration_row p td)"
  by (auto simp: patch_duration_row_def opt_set_def natural_opt_def split: option.splits)

lemma clean_tariffs:
  "clean d (snd (create_tariff e admin tc d))"
  "clean d (snd (patch_tariff e admin i tp d))"
  "clean d (snd (delete_tariff e admin i d))"
  "clean d (snd (create_duration e admin i dc d))"
  "clean d (snd (patch_duration e admin i k dp d))"
  "clean d (snd (delete_duration e admin i k d))"
  by (auto simp: create_tariff_def patch_tariff_def delete_tariff_def create_duration_def
      patch_duration_def delete_duration_def duration_create_ok_def Let_def
      intro!: clean_ins_duration clean_mod_duration patch_duration_price split: sum.split)

lemma patch_promo_row_keeps [simp]:
  "pc_id (patch_promo_row tz p r) = pc_id r" "pc_current (patch_promo_row tz p r) = pc_current r"
  "pc_value (patch_promo_row tz p r) = pc_value r" "pc_type (patch_promo_row tz p r) = pc_type r"
  "pc_code (patch_promo_row tz p r) = pc_code r"
  by (simp_all add: patch_promo_row_def opt_set_def split: option.split)

lemma clean_promos:
  "clean d (snd (create_promo e tz picks admin pn d))"
  "clean d (snd (patch_promo e tz admin i pp d))"
  by (auto simp: create_promo_def patch_promo_def promo_create_ok_def new_promo_def Let_def
      intro!: clean_ins_promo clean_mod_promo split: sum.split)

lemma clean_texts: "clean d (snd (patch_text e admin key p d))"
  by (simp add: patch_text_def Let_def split: sum.split)

lemma clean_reseller: "clean d (snd (set_reseller_branding e num admin b d))"
  by (simp add: set_reseller_branding_def Let_def split: sum.split)

lemma clean_seed_duration: "0 \<le> fst (snd du) \<Longrightarrow> clean a d \<Longrightarrow> clean a (seed_duration tid du d)"
  by (cases du) (auto simp: seed_duration_def intro!: clean_ins_duration)

lemma clean_fold_on:
  assumes "\<And>x d. x \<in> set xs \<Longrightarrow> clean a d \<Longrightarrow> clean a (f x d)" "clean a d"
  shows "clean a (fold f xs d)"
  using assms by (induction xs arbitrary: d) simp_all

lemma clean_seed_tariff:
  assumes "\<forall>du\<in>set (sv_durations sv). 0 \<le> fst (snd du)" "clean a d"
  shows "clean a (seed_tariff_data sv d)"
  using assms
  by (auto simp: seed_tariff_data_def intro!: clean_fold_on[OF clean_seed_duration] split: option.split)

text \<open>Seeds whose prices are not negative.\<close>

definition fair_seeds :: "seed_tariff list \<Rightarrow> bool" where
  "fair_seeds data \<longleftrightarrow> (\<forall>sv\<in>set data. \<forall>du\<in>set (sv_durations sv). 0 \<le> fst (snd du))"

lemma clean_seeds:
  assumes "fair_seeds data"
  shows "clean d (snd (run_seeds e hash secret label data entries d))"
proof -
  have "clean d d1" if "seed_admin_key e hash secret label d = Inr d1" for d1
    using that by (auto simp: seed_admin_key_def add_key_def split: if_splits)
  moreover have "clean a (seed_text e entry d1) = clean a d1" for a entry d1
    by (cases entry) (simp add: seed_text_def)
  ultimately show ?thesis
    using assms
    by (auto simp: run_seeds_def seed_tariffs_def seed_texts_def fair_seeds_def
        intro!: clean_fold clean_fold_on clean_seed_tariff split: sum.split)
qed

lemma fair_tariffs_data: "fair_seeds (tariffs_data words)"
  by (simp add: fair_seeds_def tariffs_data_def)

lemma clean_broadcasts:
  "clean d (snd (create_broadcast e admin cr d))"
  "clean d (snd (patch_broadcast e admin i pt d))"
  "clean d (snd (send_broadcast e admin i d))"
  "clean d (snd (schedule_broadcast e admin i at d))"
  "clean d (snd (cancel_broadcast e admin i d))"
  "clean d (snd (upload_photo e admin i filename ctype bytes d))"
  by (auto simp: create_broadcast_def patch_broadcast_def send_broadcast_def schedule_broadcast_def
      cancel_broadcast_def upload_photo_def reread_def Let_def split: sum.split option.split)

lemma clean_bot_log: "clean d (snd (bot_log_endpoint e level event uid msg ctx d))"
proof -
  have "clean a (ins_log r d1) = clean a d1" "clean a (send_admin_alert e x1 x2 x3 x4 d1) = clean a d1"
    for a r d1 x1 x2 x3 x4
    by (rule clean_same; simp)+
  then show ?thesis by (simp add: bot_log_endpoint_def Let_def)
qed

section \<open>The backend as a transition system\<close>

inductive office :: "db \<Rightarrow> db \<Rightarrow> bool" where
  o_service: "step d d' \<Longrightarrow> office d d'"
| o_ban: "office d (snd (admin_ban_user e admin i reason d))"
| o_unban: "office d (snd (admin_unban_user e admin i d))"
| o_adjust: "office d (snd (adjust_balance e admin i amount reason d))"
| o_set_balance: "office d (snd (set_user_balance e admin i target reason d))"
| o_bulk_message: "office d (snd (bulk_message_users e admin ids msg mode d))"
| o_bulk_ban: "office d (snd (bulk_ban_users e admin ids reason d))"
| o_deactivate: "office d (snd (deactivate_subscription e admin i reason d))"
| o_stop: "office d (snd (stop_subscription e admin i reason d))"
| o_resume: "office d (snd (resume_subscription e admin i d))"
| o_device: "office d (snd (remove_subscription_device e admin i device d))"
| o_branding: "office d (snd (set_subscription_branding e admin i b d))"
| o_reconcile: "office d (snd (reconcile_subscription e admin i d))"
| o_create_tariff: "office d (snd (create_tariff e admin tc d))"
| o_patch_tariff: "office d (snd (patch_tariff e admin i tp d))"
| o_delete_tariff: "office d (snd (delete_tariff e admin i d))"
| o_create_duration: "office d (snd (create_duration e admin i dc d))"
| o_patch_duration: "office d (snd (patch_duration e admin i k dp d))"
| o_delete_duration: "office d (snd (delete_duration e admin i k d))"
| o_create_promo: "office d (snd (create_promo e tz picks admin pn d))"
| o_patch_promo: "office d (snd (patch_promo e tz admin i pp d))"
| o_patch_text: "office d (snd (patch_text e admin key xp d))"
| o_create_broadcast: "office d (snd (create_broadcast e admin cr d))"
| o_patch_broadcast: "office d (snd (patch_broadcast e admin i pt d))"
| o_send_broadcast: "office d (snd (send_broadcast e admin i d))"
| o_schedule_broadcast: "office d (snd (schedule_broadcast e admin i at d))"
| o_cancel_broadcast: "office d (snd (cancel_broadcast e admin i d))"
| o_upload_photo: "office d (snd (upload_photo e admin i filename ctype bytes d))"
| o_provider_branding: "office d (snd (set_reseller_branding e num admin b d))"
| o_seeds: "fair_seeds data \<Longrightarrow> office d (snd (run_seeds e hash secret label data entries d))"
| o_bot_log: "office d (snd (bot_log_endpoint e level event uid msg ctx d))"

lemma office_cases: "office d d' \<Longrightarrow> step d d' \<or> clean d d'"
  by (induction rule: office.induct)
    (simp_all add: clean_users clean_subscriptions clean_tariffs clean_promos clean_texts clean_broadcasts clean_reseller clean_seeds clean_bot_log)

lemma clean_service: "clean d d' \<Longrightarrow> service_ok d \<Longrightarrow> service_ok d'"
  by (rule routine_service) (simp_all add: clean_def)

lemma office_service: "office d d' \<Longrightarrow> service_ok d \<Longrightarrow> service_ok d'"
  using office_cases step_service clean_service by blast

lemma office_grows: "office d d' \<Longrightarrow> grows d d'"
  using office_cases step_grows by (auto simp: clean_def)

lemma office_user_ids: "office d d' \<Longrightarrow> user_ids d \<subseteq> user_ids d'"
  using office_cases[of d d'] step_user_ids[of d d'] routine_user_ids[of d d'] by (auto simp: clean_def)

lemma office_solvent: "office d d' \<Longrightarrow> solvent d \<Longrightarrow> solvent d'"
  using office_cases step_solvent by (auto simp: clean_def)

lemma office_paid_ext: "office d d' \<Longrightarrow> service_ok d \<Longrightarrow> paid_ext d x \<Longrightarrow> paid_ext d' x"
  using office_cases[of d d'] step_paid_ext[of d d' x] by (auto simp: clean_def routine_def service_ok_def)

lemma office_is_bank_run:
  assumes "office d d'" "service_ok d"
  shows "bank\<^sup>*\<^sup>* (bank_of d) (bank_of d')"
  using assms office_service[OF assms] office_grows office_user_ids
  by (intro ledger_growth_is_bank_run) (simp_all add: service_ok_def money_ok_def)

interpretation backend: simulation initial office service_ok bank bank_of
  by unfold_locales (blast intro: initial_service office_service office_is_bank_run)+

lemma priced_solvent: "priced d \<Longrightarrow> solvent d"
  by (auto simp: priced_def initial_def solvent_def)

interpretation priced_backend: transition_system priced office solvent
  by unfold_locales (blast intro: priced_solvent office_solvent)+

lemma office_run_grows: "office\<^sup>*\<^sup>* d d' \<Longrightarrow> grows d d'"
  by (induction rule: rtranclp_induct) (auto intro: grows_trans office_grows)

lemma office_run_settled:
  assumes "office\<^sup>*\<^sup>* d d'" "service_ok d" "settled d x"
  shows "settled d' x"
proof -
  have "paid_ext d x" using assms(2,3) settled_paid_ext by (simp add: service_ok_def)
  then have "service_ok d' \<and> paid_ext d' x"
    using backend.run_stable[where Q = "\<lambda>d. paid_ext d x", OF office_paid_ext assms(1,2)] by simp
  then show ?thesis
    using settled_paid_ext by (simp add: service_ok_def)
qed

end
