(* ===== verification/BotService.thy ===== *)
theory BotService
  imports BotRuns AdminService
begin

text \<open>
  The bot on top of the service: whatever updates arrive, whatever the network, Telegram and
  Redis answer, the database only moves by the operations of the backend, and every
  conversation keeps knowing what its state promises.  Both are interpretations of the locale
  \<open>bot_backend\<close>.
\<close>

section \<open>What the bot commits\<close>

definition permitted :: "(db \<Rightarrow> (exn + json) \<times> db) \<Rightarrow> bool" where
  "permitted f \<longleftrightarrow> (\<forall>d. office\<^sup>*\<^sup>* d (snd (f d)))"

lemma permitted_step: "(\<And>d. snd (f d) = d \<or> step d (snd (f d))) \<Longrightarrow> permitted f"
  by (metis permitted_def o_service r_into_rtranclp rtranclp.rtrancl_refl)

lemma snd_with_user:
  "snd (with_user u k d) = (case user_by_tg d u of None \<Rightarrow> d | Some r \<Rightarrow> snd (k r))"
  by (simp add: with_user_def split: option.split)

lemmas endpoint_defs = upsert_user_endpoint_def ban_endpoint_def unban_endpoint_def
  open_ticket_endpoint_def close_ticket_endpoint_def ticket_message_endpoint_def
  attach_topic_endpoint_def save_topic_endpoint_def purchase_balance_endpoint_def
  purchase_start_endpoint_def topup_endpoint_def promo_endpoint_def free_trial_endpoint_def
  extend_endpoint_def

lemma permitted_endpoints:
  "permitted (upsert_user_endpoint e u pf pl)" "permitted (ban_endpoint e u reason)"
  "permitted (unban_endpoint e u)" "permitted (open_ticket_endpoint e rnd u kind)"
  "permitted (close_ticket_endpoint e i who otg)"
  "permitted (ticket_message_endpoint e i dir ty msg ph st otg)"
  "permitted (attach_topic_endpoint e i th)" "permitted (save_topic_endpoint e i th nm)"
  "permitted (purchase_balance_endpoint e u tid did pro)"
  "permitted (purchase_start_endpoint e u tid did provider pro)"
  "permitted (topup_endpoint e u amount provider)" "permitted (promo_endpoint e u code)"
  "permitted (free_trial_endpoint e u)" "permitted (extend_endpoint e sid u did provider pcode)"
  by (rule permitted_step;
      auto simp: endpoint_defs snd_with_user split: option.split intro: step.intros)+

lemma permitted_runs: "permitted f \<Longrightarrow> office\<^sup>*\<^sup>* d (runs f k d)"
proof (induction k arbitrary: d)
  case (Suc k)
  then have "office\<^sup>*\<^sup>* d (snd (f d))" "office\<^sup>*\<^sup>* (snd (f d)) (runs f k (snd (f d)))"
    by (simp_all add: permitted_def)
  then show ?case by simp
qed simp

lemma call_state:
  obtains n k where "snd (call be idem f s) = s\<lparr>bt_requests := n, bt_db := runs f k (bt_db s)\<rparr>"
proof -
  obtain r n d where q: "request (be_env be) (be_net be) idem f (bt_requests s) (bt_db s) = (r, n, d)"
    by (cases "request (be_env be) (be_net be) idem f (bt_requests s) (bt_db s)")
  then obtain k where "d = runs f k (bt_db s)"
    unfolding request_def using attempts_runs by blast
  then show thesis using that q by (simp add: call_def)
qed

interpretation committing: bot_backend "\<lambda>s s'. office\<^sup>*\<^sup>* (bt_db s) (bt_db s')" "\<lambda>c. True" permitted
proof unfold_locales
  fix s and f :: "db \<Rightarrow> (exn + json) \<times> db" and be idem
  assume "permitted f"
  moreover obtain n k where "snd (call be idem f s) = s\<lparr>bt_requests := n, bt_db := runs f k (bt_db s)\<rparr>"
    by (rule call_state)
  ultimately show "office\<^sup>*\<^sup>* (bt_db s) (bt_db (snd (call be idem f s)))"
    using permitted_runs by simp
next
  fix f :: "db \<Rightarrow> (exn + json) \<times> db"
  assume "\<And>d. snd (f d) = d"
  then show "permitted f" by (simp add: permitted_def)
next
  show "permitted (bot_log_endpoint e level event uid msg ctx)" for e level event uid msg ctx
    by (auto simp: permitted_def intro: o_bot_log)
qed (simp_all add: permitted_endpoints)

interpretation conversing: bot_backend
  "\<lambda>s s'. (\<forall>k. fsm_ok (bt_fsm s k)) \<longrightarrow> (\<forall>k. fsm_ok (bt_fsm s' k))" "\<lambda>c. True" "\<lambda>f. True"
proof unfold_locales
  fix s and f :: "db \<Rightarrow> (exn + json) \<times> db" and be idem
  obtain n k where "snd (call be idem f s) = s\<lparr>bt_requests := n, bt_db := runs f k (bt_db s)\<rparr>"
    by (rule call_state)
  then show "(\<forall>k. fsm_ok (bt_fsm s k)) \<longrightarrow> (\<forall>k. fsm_ok (bt_fsm (snd (call be idem f s)) k))" by simp
qed auto

section \<open>Runs of the bot\<close>

definition run_updates :: "(bot_env \<times> update) list \<Rightarrow> bot \<Rightarrow> bot" where
  "run_updates us s = fold (\<lambda>(be, u). handle_update be u) us s"

lemma run_updates_simps [simp]:
  "run_updates [] s = s"
  "run_updates ((be, u) # us) s = run_updates us (handle_update be u s)"
  by (simp_all add: run_updates_def)

lemma run_commits: "office\<^sup>*\<^sup>* (bt_db s) (bt_db (run_updates us s))"
proof (induction us arbitrary: s)
  case (Cons x us)
  then show ?case
    using committing.respects_update by (cases x) (simp, meson rtranclp_trans)
qed simp

end
