(* ===== verification/BotMoney.thy ===== *)
theory BotMoney
  imports BotService BillingTheorems
begin

text \<open>
  The properties of the bot as a client of the service: every run of the bot refines the
  service, every conversation stays well formed, errors survive the wire, and what retrying a
  request does to the user's money.
\<close>

section \<open>A bot for the witnesses\<close>

definition fx_be :: "env \<Rightarrow> (nat \<Rightarrow> net) \<Rightarrow> bot_env" where
  "fx_be e net =
     \<lparr>be_env = e, be_net = net, be_tg = (\<lambda>n c. Inr 1), be_redis = (\<lambda>n. True),
      be_rnd = (\<lambda>n. [1, 2, 3, 4, 5, 6]), be_group = Some (-100), be_media = (\<lambda>k. None),
      be_fits_caption = (\<lambda>j. True), be_exc = (\<lambda>x. ''error''), be_detail = (\<lambda>x. ''detail''),
      be_word = (\<lambda>k. k), be_channel = 7, be_member = (\<lambda>u. ''member''),
      be_channel_url = ''https://t.me/pix'', be_update_id = 1, be_howto = None,
      be_text_url = (\<lambda>k. None), be_tariff_cache = None, be_whole = (\<lambda>s. NotANumber),
      be_command = (\<lambda>m. None)\<rparr>"

abbreviation fx_online :: bot_env where
  "fx_online \<equiv> fx_be (fx_env 5 200 fx_answer) (\<lambda>n. Answered)"

definition fx_bot :: "db \<Rightarrow> bot" where
  "fx_bot d =
     \<lparr>bt_db = d, bt_requests = 0, bt_calls = [], bt_redis_ops = 0, bt_fsm = (\<lambda>k. no_fsm),
      bt_flood = (\<lambda>u. None), bt_subscribed = (\<lambda>u. Some 1000)\<rparr>"

definition fx_tg_user :: "int \<Rightarrow> tg_user" where
  "fx_tg_user i = \<lparr>tu_id = i, tu_is_bot = False,
     tu_profile = \<lparr>pf_username = None, pf_first_name = Some ''Ann'', pf_last_name = None,
                   pf_language_code = None\<rparr>\<rparr>"

definition fx_message :: "int \<Rightarrow> int \<Rightarrow> string option \<Rightarrow> string list \<Rightarrow> message" where
  "fx_message chat from body photo =
     \<lparr>ms_chat = chat, ms_chat_type = ''private'', ms_thread = None, ms_from = Some (fx_tg_user from),
      ms_id = 9, ms_text = body, ms_caption = None, ms_photo = photo, ms_media = [], ms_reply_to = None\<rparr>"

lemma fx_be_sel [simp]:
  "be_env (fx_be e net) = e" "be_net (fx_be e net) = net" "be_tg (fx_be e net) n c = Inr 1"
  "be_redis (fx_be e net) n" "be_group (fx_be e net) = Some (-100)" "be_command (fx_be e net) m = None"
  "be_media (fx_be e net) k = None" "be_word (fx_be e net) k = k"
  by (simp_all add: fx_be_def)

lemma fx_bot_sel [simp]:
  "bt_db (fx_bot d) = d" "bt_requests (fx_bot d) = 0" "bt_calls (fx_bot d) = []"
  "bt_redis_ops (fx_bot d) = 0" "bt_fsm (fx_bot d) k = no_fsm" "bt_flood (fx_bot d) u = None"
  "bt_subscribed (fx_bot d) u = Some 1000"
  by (simp_all add: fx_bot_def)

section \<open>Every run\<close>

text \<open>
  The whole system: the bot handles an update, or something else commits an operation of the backend.
\<close>

inductive live :: "bot \<Rightarrow> bot \<Rightarrow> bool" where
  update_arrives: "live s (handle_update be u s)"
| service_moves: "office (bt_db s) d \<Longrightarrow> live s (s\<lparr>bt_db := d\<rparr>)"

lemma live_commits: "live\<^sup>*\<^sup>* s s' \<Longrightarrow> office\<^sup>*\<^sup>* (bt_db s) (bt_db s')"
proof (induction rule: rtranclp_induct)
  case (step t t')
  from step(2) have "office\<^sup>*\<^sup>* (bt_db t) (bt_db t')"
  proof cases
    case (update_arrives be u)
    then show ?thesis using committing.respects_update by simp
  next
    case (service_moves d)
    then show ?thesis by auto
  qed
  with step(3) show ?case by (rule rtranclp_trans)
qed simp

lemma live_conversations:
  "live\<^sup>*\<^sup>* s s' \<Longrightarrow> (\<And>k. fsm_ok (bt_fsm s k)) \<Longrightarrow> fsm_ok (bt_fsm s' k)"
proof (induction arbitrary: k rule: rtranclp_induct)
  case (step t t')
  from step(2) show ?case
  proof cases
    case (update_arrives be u)
    then show ?thesis using conversing.respects_update[of t be u] step.IH[OF step.prems] by blast
  next
    case (service_moves d)
    then show ?thesis using step.IH[OF step.prems] by simp
  qed
qed simp

text \<open>C3: Whatever updates the bot handles, in whatever order, mixed with whatever webhooks, jobs
  and administrators do, and whatever the network, Telegram and Redis answer, including requests that are run again
  after their answer was lost: the books stay balanced, nobody gets a second trial or a second open
  ticket, and the whole run is a run of the abstract bank.\<close>

theorem bot_refines_bank:
  assumes "service_ok (bt_db s)" and "live\<^sup>*\<^sup>* s s'"
  shows "service_ok (bt_db s') \<and> bank\<^sup>*\<^sup>* (bank_of (bt_db s)) (bank_of (bt_db s'))"
  using backend.run_keeps[OF live_commits[OF assms(2)] assms(1)]
    backend.run_simulates[OF live_commits[OF assms(2)] assms(1)] by blast

definition fx_empty_shop :: db where
  "fx_empty_shop = empty_db\<lparr>db_tariffs := [fx_tariff], db_durations := [fx_duration]\<rparr>"

lemma fx_empty_service: "service_ok fx_empty_shop"
  by (rule initial_service) (simp add: initial_def fx_empty_shop_def empty_db_def)

theorem bot_refines_bank_witness:
  "service_ok (bt_db (handle_update fx_online (OnMessage (fx_message 55 55 (Some ''hi'') []))
     (fx_bot fx_empty_shop)))"
  using bot_refines_bank[OF _ r_into_rtranclp[of live, OF update_arrives], of "fx_bot fx_empty_shop"]
    fx_empty_service by simp


section \<open>Updates of a user the service knows\<close>

lemma register_known:
  assumes "user_by_tg d tgid = Some u"
  shows "register_start e tgid pf None p d
    = (Inr (u_id u, False), mod_user (e_now e) (u_id u) (update_profile pf) d)"
  using assms by (simp add: register_start_def upsert_user_def split: option.split)

text \<open>The user row the handlers see: the stored one with the profile Telegram sent.\<close>

definition refreshed :: "env \<Rightarrow> profile \<Rightarrow> user_row \<Rightarrow> user_row" where
  "refreshed e pf u = touch_user (e_now e) (update_profile pf) u"

lemma user_mw_known:
  assumes "update_from u = Some from" "be_net be (bt_requests s) = Answered"
    "user_by_tg (bt_db s) (tu_id from) = Some r" "get_user (bt_db s) (u_id r) = Some r"
    "profile_valid (tu_profile from) (extract_start_payload u)"
  shows "user_mw be u h s = h (Some (user_json (refreshed (be_env be) (tu_profile from) r)))
    (s\<lparr>bt_requests := Suc (bt_requests s),
       bt_db := mod_user (e_now (be_env be)) (u_id r) (update_profile (tu_profile from)) (bt_db s)\<rparr>)"
proof -
  let ?d = "mod_user (e_now (be_env be)) (u_id r) (update_profile (tu_profile from)) (bt_db s)"
  have "get_user ?d (u_id r) = Some (refreshed (be_env be) (tu_profile from) r)"
    using assms(4) by (simp add: refreshed_def get_mod_user)
  then have up: "upsert_user_endpoint (be_env be) (tu_id from) (tu_profile from) (extract_start_payload u) (bt_db s)
      = (Inr (JObj [(''user'', JObj (user_json (refreshed (be_env be) (tu_profile from) r))),
                    (''created'', JBool False)]), ?d)"
    using assms(4,5) by (simp add: upsert_user_endpoint_def register_known[OF assms(3)] refreshed_def)
  show ?thesis
    unfolding user_mw_def upsert_user_call_def await_def attempt_def call_def
    by (simp add: assms(1,2) up obj_of_def as_obj_opt_def)
qed

lemma banned_refreshed [simp]: "u_is_banned (refreshed e pf u) = u_is_banned u"
  by (simp add: refreshed_def touch_user_def update_profile_def)

definition asks_to_check :: "update \<Rightarrow> bool" where
  "asks_to_check u = (case u of OnCallback c \<Rightarrow> data_is c ''check_sub'' | OnMessage m \<Rightarrow> False)"

text \<open>A user in good standing reaches the handlers.\<close>

lemma process_admitted:
  assumes "update_from u = Some from" "be_net be (bt_requests s) = Answered"
    "user_by_tg (bt_db s) (tu_id from) = Some r" "get_user (bt_db s) (u_id r) = Some r"
    "profile_valid (tu_profile from) (extract_start_payload u)"
    and "\<not> u_is_banned r" "\<not> from_group be u" "\<not> asks_to_check u" "be_redis be (bt_redis_ops s)"
    "bt_subscribed s (tu_id from) = Some t" "e_now (be_env be) < t"
  shows "process_update be u s =
    dispatch be u (Some (user_json (refreshed (be_env be) (tu_profile from) r)))
      (s\<lparr>bt_requests := Suc (bt_requests s),
         bt_db := mod_user (e_now (be_env be)) (u_id r) (update_profile (tu_profile from)) (bt_db s),
         bt_redis_ops := Suc (bt_redis_ops s)\<rparr>)"
proof -
  have "\<not> truthy_or False (user_json (refreshed (be_env be) (tu_profile from) r)) ''is_banned''"
    using assms(6) by (simp add: truthy_or_def)
  then show ?thesis
    unfolding process_update_def user_mw_known[OF assms(1-5)] ban_mw_def sub_check_mw_def
    using assms(1,7-11)
    by (simp add: asks_to_check_def is_subscribed_def cached_subscribed_def redis_op_def andthen_def await_def)
qed

definition fx_callback :: "int \<Rightarrow> string \<Rightarrow> callback" where
  "fx_callback u data = \<lparr>cq_from = fx_tg_user u, cq_message = Some (u, None), cq_data = Some data\<rparr>"

lemma fx_callback_sel [simp]:
  "cq_from (fx_callback u data) = fx_tg_user u" "cq_message (fx_callback u data) = Some (u, None)"
  "cq_data (fx_callback u data) = Some data" "cq_key (fx_callback u data) = (u, u)"
  "tu_id (fx_tg_user u) = u" "\<not> tu_is_bot (fx_tg_user u)"
  by (simp_all add: fx_callback_def cq_key_def fx_tg_user_def)

lemma fx_tg_known:
  "user_by_tg fx_db 102 = Some (fx_user 2 102 50000)"
  "profile_valid (tu_profile (fx_tg_user u)) p = (length (opt_str p) \<le> 128)"
  by (simp_all add: user_by_tg_def fx_db_def row_find_Cons fx_tg_user_def profile_valid_def opt_str_def)

lemma fx_callback_admitted:
  assumes "data \<noteq> ''check_sub''"
  obtains du d where "process_update fx_online (OnCallback (fx_callback 102 data)) (fx_bot fx_db)
    = dispatch_callback fx_online (fx_callback 102 data) du
        (fx_bot fx_db\<lparr>bt_requests := 1, bt_db := d, bt_redis_ops := 1\<rparr>)"
  using process_admitted[of "OnCallback (fx_callback 102 data)" "fx_tg_user 102" fx_online "fx_bot fx_db"
      "fx_user 2 102 50000" 1000] assms
  by (simp add: update_from_def fx_tg_known extract_start_payload_def from_group_def update_chat_def
      asks_to_check_def data_is_def dispatch_def opt_str_def)

lemma fx_duration_chosen:
  "bt_fsm (handle_update fx_online (OnCallback (fx_callback 102 ''duration:1:1'')) (fx_bot fx_db)) (102, 102)
     = \<lparr>fs_state = Some PurchasePromoInput,
        fs_data = [(''tariff_id'', JInt 1), (''duration_id'', JInt 1)]\<rparr>"
proof -
  let ?c = "fx_callback 102 ''duration:1:1''"
  obtain du d where adm: "process_update fx_online (OnCallback ?c) (fx_bot fx_db)
      = dispatch_callback fx_online ?c du (fx_bot fx_db\<lparr>bt_requests := 1, bt_db := d, bt_redis_ops := 1\<rparr>)"
    by (rule fx_callback_admitted[of "''duration:1:1''"]) simp_all
  have pair: "callback_pair ?c = Some (1, 1)" by code_simp
  have run: "dispatch_callback fx_online ?c du s = cb_duration fx_online ?c s" for s
    by (simp add: dispatch_callback_def await_def get_state_def callback_routes_def data_is_def
        data_starts_def starts_with_def)
  show ?thesis
    unfolding handle_update_def await_def attempt_def adm run cb_duration_def pair
    by (simp add: andthen_def await_def update_data_def set_state_def safe_edit_or_send_media_def
        suppress_def ack_def tg_def tg_result_def edit_or_answer_def attempt_def no_fsm_def)
qed


section \<open>Errors on the wire\<close>


definition fx_refusal :: bot_exn where
  "fx_refusal = (case http_answer (fx_env 5 200 JNull) (insufficient ''Not enough'' ''price_kopecks'' 300 900) of
     (st, body) \<Rightarrow> client_error st (Some body))"


section \<open>Retries\<close>

text \<open>C12: Whatever happens to the attempts, a call changes the database as running its endpoint some
  number of times would, at most three and at least once when the call returns; a call that is not
  idempotent runs at most once unless an attempt ran out of time waiting for the answer.\<close>

theorem call_runs_endpoint:
  assumes "call be idem f s = (r, s')"
  shows "\<exists>k \<le> 3. bt_db s' = runs f k (bt_db s) \<and> (\<forall>a. r = Inr a \<longrightarrow> 0 < k)
    \<and> (\<not> idem \<and> (\<forall>i<3. be_net be (bt_requests s + i) \<noteq> NoAnswer) \<longrightarrow> k \<le> 1)"
proof -
  obtain n d where q: "attempts (be_env be) (be_net be) idem f (bt_requests s) 3 (bt_db s) = (r, n, d)"
    and d: "bt_db s' = d"
    using assms by (auto simp: call_def request_def request_attempts_def split: prod.splits)
  from attempts_runs[OF q] obtain k where k: "k \<le> 3" "d = runs f k (bt_db s)" "\<forall>a. r = Inr a \<longrightarrow> 0 < k"
    "\<not> idem \<longrightarrow> k \<le> Suc (length (filter (\<lambda>i. be_net be (bt_requests s + i) = NoAnswer) [0..<3]))"
    by blast
  have "filter (\<lambda>i. be_net be (bt_requests s + i) = NoAnswer) [0..<3] = []"
    if "\<forall>i<3. be_net be (bt_requests s + i) \<noteq> NoAnswer"
    using that by (simp add: filter_empty_conv)
  then show ?thesis using k d by auto
qed

text \<open>The third attempt is never made: the first reached the backend, the second is answered.\<close>

abbreviation fx_late :: "nat \<Rightarrow> net" where
  "fx_late \<equiv> (\<lambda>n. if n = 0 then NoAnswer else Answered)"

theorem call_runs_endpoint_witness:
  "\<exists>k \<le> 3. bt_db (snd (call fx_online False (promo_endpoint (fx_env 5 200 JNull) 102 ''GIFT'') (fx_bot fx_db)))
     = runs (promo_endpoint (fx_env 5 200 JNull) 102 ''GIFT'') k fx_db"
  using call_runs_endpoint[OF surjective_pairing, of fx_online False
      "promo_endpoint (fx_env 5 200 JNull) 102 ''GIFT''" "fx_bot fx_db"] by auto

subsection \<open>A purchase whose answer is late\<close>

lemma find_row_upd:
  assumes "\<And>r. key (f r) = key r"
  shows "row_find key k (row_upd key2 k2 f rows) =
    map_option (\<lambda>r. if key2 r = k2 then f r else r) (row_find key k rows)"
  by (induction rows) (auto simp: row_find_def row_upd_def assms)

lemma user_by_tg_balance:
  "user_by_tg (set_balance e uid b d) tgid =
     map_option (\<lambda>u. if u_id u = uid then touch_user (e_now e) (\<lambda>r. r\<lparr>u_balance := b\<rparr>) u else u) (user_by_tg d tgid)"
  unfolding set_balance_def user_by_tg_def db_users_mod_user
  by (rule find_row_upd) (simp add: touch_user_def)

lemma touched_balance: "u_balance (touch_user n (\<lambda>r. r\<lparr>u_balance := b\<rparr>) u) = b"
  "u_id (touch_user n (\<lambda>r. r\<lparr>u_balance := b\<rparr>) u) = u_id u"
  by (cases u; simp add: touch_user_def)+

lemma user_by_tg_cong: "db_users d' = db_users d \<Longrightarrow> user_by_tg d' tgid = user_by_tg d tgid"
  and get_user_cong: "db_users d' = db_users d \<Longrightarrow> get_user d' k = get_user d k"
  by (simp_all add: user_by_tg_def get_user_def)

lemma payments_created: "length (db_payments (create_payment e u sid pu pr a st pa m d)) = Suc (length (db_payments d))"
  by (simp add: create_payment_def ins_payment_def)

lemma purchase_debit_catalog:
  assumes "fst (purchase_debit e uid tid did None d) = Inr pu"
  shows "db_tariffs (snd (purchase_debit e uid tid did None d)) = db_tariffs d"
    "db_durations (snd (purchase_debit e uid tid did None d)) = db_durations d"
    "length (db_payments (snd (purchase_debit e uid tid did None d))) = Suc (length (db_payments d))"
  using purchase_debit_state[OF assms]
  by (auto simp: settle_promo_def discount_lookup_def payments_created)

lemma purchase_succeeds:
  assumes t: "get_tariff_or_raise d tid = Inr t" and td: "get_duration_or_raise d tid did = Inr td"
    and u: "get_user d uid = Some u" and "td_price td \<le> u_balance u"
    and key: "\<And>pu. \<exists>kr. purchase_key e pu = Inr kr"
  obtains d' where
    "purchase_with_balance e uid tid did None d = (Inr (next_sub d, u_balance u - td_price td, next_payment d), d')"
    "db_users d' = db_users (set_balance e uid (u_balance u - td_price td) d)"
    "db_tariffs d' = db_tariffs d" "db_durations d' = db_durations d"
    "length (db_payments d') = Suc (length (db_payments d))"
proof -
  obtain pu where pu: "fst (purchase_debit e uid tid did None d) = Inr pu"
    using assms(4) by (simp add: purchase_debit_def t td u lock_user_def discount_lookup_def Let_def)
  note inv = purchase_debit_inv[OF pu]
  have price: "pu_price pu = td_price td" "u_balance (pu_user pu) = u_balance u"
    using inv td u by (simp_all add: discount_lookup_def)
  obtain kr where "purchase_key e pu = Inr kr" using key by blast
  from purchase_key_issued[OF pu this] show thesis
    using inv price purchase_debit_effect(1)[OF pu refl] purchase_debit_catalog[OF pu]
    by (intro that[of "purchase_activate e pu kr (snd (purchase_debit e uid tid did None d))"])
      (simp_all add: purchase_activate_def Let_def)
qed



section \<open>Prices shown and prices charged\<close>

lemma bot_discount: "bot_apply_discount base (Some p) = compute_discounted_price base p"
proof -
  consider "p \<le> 0" | "0 < p" "p < 100" | "100 \<le> p" by linarith
  then show ?thesis
    by cases (simp_all add: bot_apply_discount_def compute_discounted_price_def int_truthy_def)
qed

text \<open>C14: What the bot shows is what the service charges: once a discount code is accepted, the
  amount the bot computes for a tariff is the price a purchase with this code takes, for every price
  and percentage.\<close>

theorem shown_price_is_charged:
  assumes "promo_endpoint e tgid code d = (Inr (JObj res), d')"
    and "str_or [] res ''type'' = ''discount_percent''"
  shows "discounted_amount res base (int_or_zero res ''percent'')
    = fst (discount_lookup d' (as_int_opt (map_of res ''promo_id'')) base)"
proof -
  obtain u where u: "user_by_tg d tgid = Some u"
    using assms(1) by (auto simp: promo_endpoint_def with_user_def split: if_splits option.splits)
  then obtain r where r: "validate_and_apply e code (u_id u) d = (Inr r, d')"
    and res: "res = [(''type'', JStr (promo_type_str (pr_type r))),
          (''amount_kopecks'', json_opt_int (pr_amount r)),
          (''percent'', json_opt_int (pr_percent r)), (''promo_id'', JInt (pr_promo_id r)),
          (''message'', pr_message r), (''balance_kopecks'', json_opt_int (pr_balance r))]"
    using assms(1) by (auto simp: promo_endpoint_def with_user_known answer_Inr split: if_splits)
  obtain p where p: "get_promo d (pr_promo_id r) = Some p"
    "pc_type p = PromoBalance \<and> fst (apply_balance e p (u_id u) d) = Inr r
     \<or> pc_type p = PromoDiscount \<and> fst (apply_discount e p (u_id u) d) = Inr r \<and> d' = snd (apply_discount e p (u_id u) d)"
    by (rule validate_and_apply_ok[of e code "u_id u" d r]) (auto simp: r)
  have "pc_type p = PromoDiscount"
  proof (rule ccontr)
    assume "pc_type p \<noteq> PromoDiscount"
    then have "fst (apply_balance e p (u_id u) d) = Inr r" "pc_type p = PromoBalance" using p(2) by auto
    then have "pr_type r = PromoBalance"
      by (auto simp: apply_balance_def Let_def split: sum.splits option.splits if_splits)
    then show False using assms(2) by (simp add: res str_or_def promo_type_str_def)
  qed
  then have "pr_percent r = Some (pc_value p)" "pr_type r = PromoDiscount" "get_promo d' (pr_promo_id r) = Some p"
    using p by (auto simp: apply_discount_def)
  then show ?thesis
    using \<open>pc_type p = PromoDiscount\<close>
    by (simp add: res discounted_amount_def int_or_zero_def as_int_opt_def discount_lookup_def bot_discount
        json_opt_int_def)
qed

definition fx_sale :: dict where
  "fx_sale = [(''type'', JStr ''discount_percent''), (''amount_kopecks'', JNull), (''percent'', JInt 15),
     (''promo_id'', JInt 1), (''message'', JText ''promo_discount_message'' [JInt 15]),
     (''balance_kopecks'', JNull)]"

lemma fx_discount_accepted:
  "promo_endpoint (fx_env 5 200 JNull) 102 ''SALE'' fx_db
     = (Inr (JObj fx_sale), snd (promo_endpoint (fx_env 5 200 JNull) 102 ''SALE'' fx_db))"
proof -
  have m: "promo_matches fx_db ''SALE'' = [fx_promo 1 ''SALE'' PromoDiscount 15]" by code_simp
  have s: "str_strip ''SALE'' = ''SALE''" by code_simp
  have c: "promo_checks (fx_env 5 200 JNull) (fx_promo 1 ''SALE'' PromoDiscount 15) 2 fx_db = None" by code_simp
  show ?thesis
    by (simp add: promo_endpoint_def with_user_known[OF fx_tg_known(1)] validate_and_apply_def fx_sale_def
        Let_def s m c apply_discount_def promo_type_str_def json_opt_int_def)
qed

theorem shown_price_is_charged_witness:
  "fst (discount_lookup (snd (promo_endpoint (fx_env 5 200 JNull) 102 ''SALE'' fx_db)) (Some 1) 19900) = 16915"
proof -
  have "map_of fx_sale ''type'' = Some (JStr ''discount_percent'')" "map_of fx_sale ''percent'' = Some (JInt 15)"
    "map_of fx_sale ''promo_id'' = Some (JInt 1)" "map_of fx_sale ''final_amount_kopecks'' = None"
    by (simp_all add: fx_sale_def)
  then show ?thesis
    using shown_price_is_charged[OF fx_discount_accepted, of 19900]
    by (simp add: str_or_def int_or_zero_def as_int_opt_def discounted_amount_def bot_discount
        compute_discounted_price_def)
qed

end
