(* ===== verification/BotTickets.thy ===== *)
theory BotTickets
  imports BotMoney
begin

text \<open>
  The properties of support in the bot: whom an administrator's reply reaches, that a user's
  message is mirrored once, that closing frees the user, the flood limit, and what never
  reaches a handler.
\<close>

section \<open>Reading from the backend\<close>

lemma attempts_value:
  "attempts e net idem f n left d = (Inr a, n', d') \<Longrightarrow> \<exists>k. fst (f (runs f k d)) = Inr a"
proof (induction left arbitrary: n d)
  case (Suc left)
  have late: "\<exists>k. fst (f (runs f k d)) = Inr a"
    if "attempts e net idem f (Suc n) left (snd (f d)) = (Inr a, n', d')"
  proof -
    from Suc.IH[OF that] obtain k where "fst (f (runs f (Suc k) d)) = Inr a" by auto
    then show ?thesis by blast
  qed
  show ?case
  proof (cases "net n")
    case NoConnection
    then show ?thesis using Suc.prems Suc.IH[of "Suc n" d] by simp
  next
    case NoAnswer
    then show ?thesis using Suc.prems late by simp
  next
    case Answered
    obtain q d1 where q: "f d = (q, d1)" by (cases "f d")
    show ?thesis
    proof (cases q)
      case (Inr b)
      then have "fst (f (runs f 0 d)) = Inr a" using Suc.prems Answered q by simp
      then show ?thesis by blast
    next
      case (Inl x)
      then show ?thesis using Suc.prems Answered q late by (auto split: prod.splits if_splits)
    qed
  qed (use Suc.prems in simp)
qed simp

lemma runs_read: "(\<And>d. snd (f d) = d) \<Longrightarrow> runs f k d = d"
  by (induction k) simp_all

lemma call_read:
  assumes "\<And>d. snd (f d) = d"
  obtains r n where "call be idem f s = (r, s\<lparr>bt_requests := n\<rparr>)"
    "\<And>a. r = Inr a \<Longrightarrow> fst (f (bt_db s)) = Inr a"
proof -
  obtain r n d where q: "attempts (be_env be) (be_net be) idem f (bt_requests s) request_attempts (bt_db s) = (r, n, d)"
    by (cases "attempts (be_env be) (be_net be) idem f (bt_requests s) request_attempts (bt_db s)")
  then have "d = bt_db s" using attempts_runs[OF q] runs_read[of f, OF assms] by auto
  then have "call be idem f s = (r, s\<lparr>bt_requests := n\<rparr>)" using q by (simp add: call_def request_def)
  moreover have "fst (f (bt_db s)) = Inr a" if "r = Inr a" for a
    using attempts_value[of _ _ _ f] q runs_read[of f, OF assms] that by metis
  ultimately show thesis by (rule that)
qed

text \<open>Reading calls: the state but for the requests is kept, a value is the backend's.\<close>

lemma read_ticket_by_thread:
  obtains r n where "get_ticket_by_thread be th s = (r, s\<lparr>bt_requests := n\<rparr>)"
    "\<And>tk. r = Inr (Some tk) \<Longrightarrow> \<exists>t. ticket_by_thread (bt_db s) th = Some t \<and> tk = ticket_json t"
proof -
  obtain q n where q: "call be True (by_thread_endpoint th) s = (q, s\<lparr>bt_requests := n\<rparr>)"
    "\<And>a. q = Inr a \<Longrightarrow> fst (by_thread_endpoint th (bt_db s)) = Inr a"
    by (rule call_read[of "by_thread_endpoint th" be True s]) simp_all
  show thesis
  proof (rule that)
    show "get_ticket_by_thread be th s =
      ((case q of Inl x \<Rightarrow> if is_status {404} x then Inr None else Inl x | Inr j \<Rightarrow> Inr (inner_ticket j)),
       s\<lparr>bt_requests := n\<rparr>)"
      by (simp add: get_ticket_by_thread_def absent_on_def await_def attempt_def q(1) split: sum.split)
    fix tk
    assume "(case q of Inl x \<Rightarrow> if is_status {404} x then Inr None else Inl x
             | Inr j \<Rightarrow> Inr (inner_ticket j)) = Inr (Some tk)"
    then show "\<exists>t. ticket_by_thread (bt_db s) th = Some t \<and> tk = ticket_json t"
      using q(2) by (cases q) (auto simp: by_thread_endpoint_def ticket_answer_def inner_ticket_def
          jfield_def as_obj_opt_def split: if_splits option.splits)
  qed
qed

lemma read_user_by_id:
  obtains r n where "get_user_by_id be i s = (r, s\<lparr>bt_requests := n\<rparr>)"
    "\<And>d. r = Inr (Some d) \<Longrightarrow> \<exists>u. get_user (bt_db s) i = Some u \<and> d = user_json u"
proof -
  obtain q n where q: "call be True (user_by_id_endpoint i) s = (q, s\<lparr>bt_requests := n\<rparr>)"
    "\<And>a. q = Inr a \<Longrightarrow> fst (user_by_id_endpoint i (bt_db s)) = Inr a"
    by (rule call_read[of "user_by_id_endpoint i" be True s]) simp_all
  show thesis
  proof (rule that)
    show "get_user_by_id be i s =
      ((case q of Inl x \<Rightarrow> if is_status {404, 405} x then Inr None else Inl x
        | Inr j \<Rightarrow> Inr (if obj_of j = [] then None else Some (obj_of j))), s\<lparr>bt_requests := n\<rparr>)"
      by (simp add: get_user_by_id_def absent_on_def await_def attempt_def q(1) split: sum.split)
    fix d
    assume "(case q of Inl x \<Rightarrow> if is_status {404, 405} x then Inr None else Inl x
        | Inr j \<Rightarrow> Inr (if obj_of j = [] then None else Some (obj_of j))) = Inr (Some d)"
    then show "\<exists>u. get_user (bt_db s) i = Some u \<and> d = user_json u"
      using q(2) by (cases q) (auto simp: user_by_id_endpoint_def obj_of_def split: if_splits option.splits)
  qed
qed

lemma resolve_owner:
  obtains r n where "resolve_ticket_user_tg_id be (ticket_json t) s = (r, s\<lparr>bt_requests := n\<rparr>)"
    "\<And>x. r = Inr (Some x) \<Longrightarrow> \<exists>u. get_user (bt_db s) (tk_user_id t) = Some u \<and> x = u_tg_id u"
proof -
  obtain q n where q: "get_user_by_id be (tk_user_id t) s = (q, s\<lparr>bt_requests := n\<rparr>)"
    "\<And>d. q = Inr (Some d) \<Longrightarrow> \<exists>u. get_user (bt_db s) (tk_user_id t) = Some u \<and> d = user_json u"
    by (rule read_user_by_id[of be "tk_user_id t" s]) blast
  show thesis
  proof (rule that)
    show "resolve_ticket_user_tg_id be (ticket_json t) s =
      ((case q of Inl x \<Rightarrow> Inl x | Inr None \<Rightarrow> Inr None
        | Inr (Some d) \<Rightarrow> Inr (positive (as_int_opt (map_of d ''tg_id'')))), s\<lparr>bt_requests := n\<rparr>)"
      by (simp add: resolve_ticket_user_tg_id_def positive_def as_int_opt_def ticket_user_def await_def q(1)
          split: sum.split option.split)
    fix x
    assume "(case q of Inl x \<Rightarrow> Inl x | Inr None \<Rightarrow> Inr None
        | Inr (Some d) \<Rightarrow> Inr (positive (as_int_opt (map_of d ''tg_id'')))) = Inr (Some x)"
    then show "\<exists>u. get_user (bt_db s) (tk_user_id t) = Some u \<and> x = u_tg_id u"
      using q(2) by (auto simp: positive_def as_int_opt_def split: sum.splits option.splits if_splits)
  qed
qed

section \<open>Whom the bot writes to\<close>

fun call_chat :: "bot_call \<Rightarrow> int option" where
  "call_chat (SendMessage chat th body kb) = Some chat"
| "call_chat (SendFile kind chat th file cap kb) = Some chat"
| "call_chat (CreateForumTopic chat name) = Some chat"
| "call_chat (EditText chat body kb) = Some chat"
| "call_chat (EditMarkup chat) = Some chat"
| "call_chat (DeleteMessage chat) = Some chat"
| "call_chat (AckCallback body al) = None"
| "call_chat (GetChatMember u) = None"

definition speaks_in :: "int set \<Rightarrow> bot_call \<Rightarrow> bool" where
  "speaks_in A c = (case call_chat c of None \<Rightarrow> True | Some x \<Rightarrow> x \<in> A)"

definition writes :: "int set \<Rightarrow> bot \<Rightarrow> bot \<Rightarrow> bool" where
  "writes A s s' = (\<exists>cs. bt_calls s' = bt_calls s @ cs \<and> (\<forall>c\<in>set cs. speaks_in A (fst c)))"

lemma writes_same: "bt_calls s' = bt_calls s \<Longrightarrow> writes A s s'"
  by (auto simp: writes_def)

lemma writes_trans: "writes A s t \<Longrightarrow> writes A t u \<Longrightarrow> writes A s u"
  by (fastforce simp: writes_def)

interpretation writing: bot_relation "writes A" "speaks_in A" for A
proof unfold_locales
  show "writes A s (s\<lparr>bt_calls := bt_calls s @ [(c, r)]\<rparr>)" if "speaks_in A c" for s c r
    using that by (simp add: writes_def)
qed (auto intro: writes_trans writes_same)

lemma call_calls [simp]: "bt_calls (snd (call be idem f s)) = bt_calls s"
proof -
  obtain n k where "snd (call be idem f s) = s\<lparr>bt_requests := n, bt_db := runs f k (bt_db s)\<rparr>"
    by (rule call_state)
  then show ?thesis by simp
qed

lemma writes_call [respected]: "writing.respectful A (call be idem f)"
  by (rule writing.respectsI) (simp add: writes_same)

lemma writes_after:
  assumes "writing.respectful A a" "bt_calls s1 = bt_calls s"
  shows "writes A s (snd (a s1))"
  using assms writes_trans[OF writes_same[OF assms(2)]] by (simp add: writing.respectful_def)

lemma writes_records [respected]:
  "writing.respectful A (bot_log be level event uid msg ctx)"
  "writing.respectful A (record_ticket_message be i dir ty body ph st mid)"
  unfolding bot_log_def record_ticket_message_def by (intro respected)+

lemma writes_topic [respected]:
  assumes "be_group be = Some g" "g \<in> A"
  shows "writing.respectful A (send_to_topic be th body)"
  using assms by (auto simp: send_to_topic_def speaks_in_def intro!: respected)

lemma writes_reply:
  assumes "be_group be = Some g" "g \<in> A" "target \<in> A"
  shows "writing.respectful A (mirror_reply be m th ticket target)"
proof -
  have "writing.respectful A (deliver_reply be m th target)"
    unfolding deliver_reply_def using assms
    by (intro respected; simp add: speaks_in_def)
  moreover have "writing.respectful A (reply_failed be ticket th target x)" for x
    unfolding reply_failed_def using assms by (intro respected)
  ultimately show ?thesis
    unfolding mirror_reply_def
    by (intro respected) (auto split: sum.split delivery.split intro!: respected)
qed

text \<open>C7: A message an administrator writes in a topic goes to nobody but the support group and
  the owner of the newest ticket of that topic, and to the owner only while this ticket is open;
  whatever the network and Telegram answer.  Outside the support group nothing is sent at all.\<close>

theorem admin_reply_stays_private:
  assumes "be_group be = Some g"
  shows "\<exists>cs. bt_calls (snd (msg_admin_in_topic be m s)) = bt_calls s @ cs
    \<and> (ms_chat m \<noteq> g \<longrightarrow> cs = [])
    \<and> (\<forall>c\<in>set cs. \<forall>x. call_chat (fst c) = Some x \<longrightarrow> x = g \<or>
        (\<exists>th t u. ms_thread m = Some th \<and> ticket_by_thread (bt_db s) th = Some t \<and> tk_status t = TkOpen
           \<and> get_user (bt_db s) (tk_user_id t) = Some u \<and> x = u_tg_id u))"
proof -
  define A where "A = insert g {x. \<exists>th t u. ms_thread m = Some th \<and> ticket_by_thread (bt_db s) th = Some t
    \<and> tk_status t = TkOpen \<and> get_user (bt_db s) (tk_user_id t) = Some u \<and> x = u_tg_id u}"
  have gA: "g \<in> A" by (simp add: A_def)
  have main: "writes A s (snd (msg_admin_in_topic be m s))"
  proof (cases "message_in_group be m \<and> \<not> starts_with ''/'' (opt_str (ms_text m))
      \<and> \<not> (case ms_from m of None \<Rightarrow> False | Some u \<Rightarrow> tu_is_bot u) \<and> ms_thread m \<noteq> None")
    case False
    then have "msg_admin_in_topic be m s = (Inr (), s)"
      by (auto simp: msg_admin_in_topic_def split: option.split)
    then show ?thesis by (simp add: writes_same)
  next
    case True
    then obtain th where th: "ms_thread m = Some th" by blast
    obtain r n where r: "get_ticket_by_thread be th s = (r, s\<lparr>bt_requests := n\<rparr>)"
      "\<And>tk. r = Inr (Some tk) \<Longrightarrow> \<exists>t. ticket_by_thread (bt_db s) th = Some t \<and> tk = ticket_json t"
      by (rule read_ticket_by_thread[of be th s]) blast
    let ?s1 = "s\<lparr>bt_requests := n\<rparr>"
    note run = msg_admin_in_topic_def[of be m, unfolded th] await_def r(1)
    have quiet: "writes A s (snd (a ?s1))" if "writing.respectful A a" for a :: "unit act"
      by (rule writes_after[OF that]) simp
    have none: "writes A s (snd (notify_topic_no_open_ticket be th ?s1))"
      unfolding notify_topic_no_open_ticket_def by (rule quiet[OF writes_topic[OF assms gA]])
    show ?thesis
    proof (cases "\<exists>tk. r = Inr (Some tk) \<and> is_open tk")
      case False
      then show ?thesis
        using True none by (auto simp: run writes_same split: sum.split option.split)
    next
      case op: True
      then obtain t where t: "r = Inr (Some (ticket_json t))" "ticket_by_thread (bt_db s) th = Some t"
        "is_open (ticket_json t)" using r(2) by blast
      then have "tk_status t = TkOpen"
        by (cases "tk_status t") (simp_all add: is_open_def ticket_status_str_def)
      obtain q n2 where q: "resolve_ticket_user_tg_id be (ticket_json t) ?s1 = (q, ?s1\<lparr>bt_requests := n2\<rparr>)"
        "\<And>x. q = Inr (Some x) \<Longrightarrow> \<exists>u. get_user (bt_db ?s1) (tk_user_id t) = Some u \<and> x = u_tg_id u"
        by (rule resolve_owner[of be t ?s1]) blast
      have step: "writes A s (snd (a (s\<lparr>bt_requests := n2\<rparr>)))" if "writing.respectful A a" for a :: "unit act"
        by (rule writes_after[OF that]) simp
      have "x \<in> A" if "q = Inr (Some x)" for x
        using q(2)[OF that] t(2) th \<open>tk_status t = TkOpen\<close> by (auto simp: A_def)
      then show ?thesis
        using True t step[OF writes_topic[OF assms gA]] step[OF writes_reply[OF assms gA]]
        by (auto simp: run q(1) writes_same split: sum.split option.split)
    qed
  qed
  moreover have "snd (msg_admin_in_topic be m s) = s" if "ms_chat m \<noteq> g"
    using that assms by (simp add: msg_admin_in_topic_def message_in_group_def in_support_group_def)
  ultimately show ?thesis
    unfolding writes_def speaks_in_def A_def by (cases "ms_chat m = g") (force split: option.splits)+
qed

definition fx_ticket :: ticket_row where
  "fx_ticket = \<lparr>tk_id = 1, tk_code = ''T-1'', tk_user_id = 2, tk_kind = TkSupport, tk_status = TkOpen,
     tk_closed_by = None, tk_closed_at = None, tk_thread_id = Some 5, tk_created_at = 0, tk_updated_at = 0\<rparr>"

definition fx_support :: db where
  "fx_support = fx_db\<lparr>db_tickets := [fx_ticket]\<rparr>"

definition fx_in_topic :: "string \<Rightarrow> message" where
  "fx_in_topic body = (fx_message (-100) 900 (Some body) [])\<lparr>ms_chat_type := ''supergroup'', ms_thread := Some 5\<rparr>"

lemma fx_reply_calls:
  "List.map (\<lambda>c. call_chat (fst c)) (bt_calls (snd (msg_admin_in_topic fx_online (fx_in_topic ''Hello'') (fx_bot fx_support))))
     = [Some 102]"
  by code_simp

theorem admin_reply_stays_private_witness:
  "\<exists>t u. ticket_by_thread fx_support 5 = Some t \<and> tk_status t = TkOpen
     \<and> get_user fx_support (tk_user_id t) = Some u \<and> u_tg_id u = 102"
proof -
  obtain cs where cs: "bt_calls (snd (msg_admin_in_topic fx_online (fx_in_topic ''Hello'') (fx_bot fx_support))) = cs"
    "\<forall>c\<in>set cs. \<forall>x. call_chat (fst c) = Some x \<longrightarrow> x = -100 \<or>
      (\<exists>th t u. ms_thread (fx_in_topic ''Hello'') = Some th \<and> ticket_by_thread fx_support th = Some t
        \<and> tk_status t = TkOpen \<and> get_user fx_support (tk_user_id t) = Some u \<and> x = u_tg_id u)"
    using admin_reply_stays_private[of fx_online "-100" "fx_in_topic ''Hello''" "fx_bot fx_support"] by auto
  moreover from cs(1) fx_reply_calls obtain c where "cs = [c]" "call_chat (fst c) = Some 102"
    by auto
  ultimately show ?thesis by (auto simp: fx_in_topic_def)
qed

section \<open>A user's message in the topic\<close>

lemma attempts_refused:
  "(\<And>i. net i = Answered) \<Longrightarrow> attempts e net idem f n (Suc left) d = (Inl x, n', d') \<Longrightarrow> is_client_error x"
proof (induction left arbitrary: n d)
  case 0
  then show ?case by (auto simp: client_error_def split: prod.splits sum.splits)
next
  case (Suc left)
  obtain q d1 where q: "f d = (q, d1)" by (cases "f d")
  show ?case
  proof (cases q)
    case (Inr a)
    then show ?thesis using Suc.prems q by simp
  next
    case (Inl y)
    obtain st body where h: "http_answer e y = (st, body)" by (cases "http_answer e y")
    have "attempts e net idem f n (Suc (Suc left)) d =
        (if idem \<and> 500 \<le> st \<and> st < 600 then attempts e net idem f (Suc n) (Suc left) d1
         else (Inl (client_error st (Some body)), Suc n, d1))"
      by (subst attempts.simps(2)) (simp add: Suc.prems(1) q Inl h del: attempts.simps)
    then show ?thesis
      using Suc.prems(2) Suc.IH[OF Suc.prems(1), of "Suc n" d1]
      by (auto simp: client_error_def simp del: attempts.simps split: prod.splits if_splits)
  qed
qed

lemma call_refused:
  assumes "\<And>n. be_net be n = Answered" "fst (call be idem f s) = Inl x"
  shows "is_client_error x"
  using assms(2) attempts_refused[of "be_net be" "be_env be" idem f "bt_requests s" 2 "bt_db s" x, OF assms(1)]
  by (auto simp: call_def request_def request_attempts_def numeral_3_eq_3 numeral_2_eq_2 split: prod.splits)

lemma call_answers:
  assumes "be_net be (bt_requests s) = Answered" "f (bt_db s) = (Inr a, d)"
  shows "call be idem f s = (Inr a, s\<lparr>bt_requests := Suc (bt_requests s), bt_db := d\<rparr>)"
  using assms by (simp add: call_def)

lemma andthen_run: "m s = (Inr u, s1) \<Longrightarrow> andthen m n s = n s1"
  by (simp add: andthen_def await_def)

lemma bot_log_silent:
  obtains s' where "bot_log be level event uid msg ctx s = (Inr (), s')" "bt_calls s' = bt_calls s"
proof -
  have "bt_calls (snd (call be True (bot_log_endpoint (be_env be) level event uid msg ctx) s)) = bt_calls s"
    by simp
  then show thesis
    by (cases "call be True (bot_log_endpoint (be_env be) level event uid msg ctx) s";
        cases "fst (call be True (bot_log_endpoint (be_env be) level event uid msg ctx) s)")
      (auto simp: bot_log_def suppress_def any_exn_def intro: that)
qed

lemma record_silent:
  assumes "\<And>n. be_net be n = Answered"
  obtains r s' where "record_ticket_message be i dir ty body ph st mid s = (r, s')" "bt_calls s' = bt_calls s"
    "\<And>x. r = Inl x \<Longrightarrow> backend_error x"
proof -
  let ?c = "call be True (ticket_message_endpoint (be_env be) i dir ty body ph st mid) s"
  have "bt_calls (snd ?c) = bt_calls s" by simp
  moreover have "fst ?c = Inl x \<Longrightarrow> backend_error x" for x
    using call_refused[OF assms, where x = x] by (auto simp: backend_error_def)
  ultimately show thesis
    by (cases ?c; cases "fst ?c") (auto simp: record_ticket_message_def await_def intro: that)
qed

lemma forward_text_once:
  assumes "\<And>n. be_net be n = Answered" "\<And>n c. \<exists>i. be_tg be n c = Inr i" "be_group be = Some g"
  obtains s' where "forward_text be m uid u ticket i body s = (Inr (), s')"
    "bt_calls s' = bt_calls s @ [(topic_envelope be g ticket u m, None)]"
proof -
  obtain r s1 where rec: "record_ticket_message be i from_user ''text'' (Some body) None None (Some (ms_id m)) s = (r, s1)"
    "bt_calls s1 = bt_calls s" "\<And>x. r = Inl x \<Longrightarrow> backend_error x"
    by (rule record_silent[OF assms(1), of i from_user "''text''" "Some body" None None "Some (ms_id m)" s]) blast
  define A where "A = await (attempt (record_ticket_message be i from_user ''text'' (Some body) None None (Some (ms_id m))))
      (\<lambda>r. case r of Inr ok \<Rightarrow> give ()
         | Inl x \<Rightarrow> if backend_error x then bot_log be level_warning ''support_record_text_failed'' uid (be_exc be x)
                     [(''ticket_id'', JInt i)] else throw x)"
  have "\<exists>s2. A s = (Inr (), s2) \<and> bt_calls s2 = bt_calls s"
  proof (cases r)
    case (Inl x)
    obtain s2 where "bot_log be level_warning ''support_record_text_failed'' uid (be_exc be x)
        [(''ticket_id'', JInt i)] s1 = (Inr (), s2)" "bt_calls s2 = bt_calls s1"
      by (rule bot_log_silent)
    then show ?thesis using rec Inl by (auto simp: A_def await_def attempt_def)
  next
    case (Inr ok)
    then show ?thesis using rec by (auto simp: A_def await_def attempt_def)
  qed
  then obtain s2 where s2: "A s = (Inr (), s2)" "bt_calls s2 = bt_calls s" by blast
  obtain j where "be_tg be (length (bt_calls s2)) (topic_envelope be g ticket u m) = Inr j"
    using assms(2) by blast
  then have "suppress any_exn (forward_user_message_to_topic be ticket u m) s2
      = (Inr (), s2\<lparr>bt_calls := bt_calls s2 @ [(topic_envelope be g ticket u m, None)]\<rparr>)"
    by (simp add: forward_user_message_to_topic_def assms(3) forward_once_def suppress_def await_def attempt_def
        tg_def tg_result_def)
  then have "forward_text be m uid u ticket i body s
      = (Inr (), s2\<lparr>bt_calls := bt_calls s2 @ [(topic_envelope be g ticket u m, None)]\<rparr>)"
    unfolding forward_text_def A_def[symmetric] andthen_run[of A s "()" s2, OF s2(1)] by simp
  then show thesis by (rule that) (simp add: s2(2))
qed


definition fx_in_ticket :: bot where
  "fx_in_ticket = (fx_bot fx_support)\<lparr>bt_fsm := (\<lambda>k. \<lparr>fs_state = Some InTicket, fs_data = []\<rparr>)\<rparr>"


section \<open>What never reaches its handler\<close>

text \<open>No photo reaches support, on either side: the handler for bare media is registered before
  the routers of support and takes every photo, so the photo branches of both mirrors are never
  reached and a user's photo in an open ticket, like an administrator's in its topic, vanishes
  without a message, a record or an error.\<close>

theorem photos_never_reach_support:
  assumes "ms_photo m \<noteq> []"
  shows "route_message be st m \<noteq> Some HInTicket \<and> route_message be st m \<noteq> Some HAdminInTopic
    \<and> (st = Some InTicket \<and> be_command be m = None \<longrightarrow> route_message be st m = Some HBareMedia)
    \<and> (\<not> in_general_topic be m \<longrightarrow> run_message be m du HBareMedia s = (Inr (), s))"
  using assms
  by (simp add: route_message_def message_routes_def is_command_def run_message_def hint_on_bare_media_def)

theorem photos_never_reach_support_witness:
  "dispatch_message fx_online (fx_message 102 102 None [''file'']) None fx_in_ticket = (Inr (), fx_in_ticket)"
  using photos_never_reach_support[of "fx_message 102 102 None [''file'']" fx_online "Some InTicket" None fx_in_ticket]
  by (simp add: dispatch_message_def await_def get_state_def fx_in_ticket_def fx_message_def in_general_topic_def)


definition fx_banned :: db where
  "fx_banned = empty_db\<lparr>db_users := [(fx_user 1 101 0)\<lparr>u_is_banned := True\<rparr>]\<rparr>"


interpretation talking: bot_talker
  "\<lambda>s s'. bt_db s' = bt_db s \<and> bt_requests s' = bt_requests s" "\<lambda>c. True"
  by unfold_locales auto

lemma refused_log:
  assumes "\<And>n. be_net be n = Answered" "e_dialect (be_env be) = Postgresql" "get_user (bt_db s) i = None"
    and "event \<noteq> []" "length event \<le> 128" "length msg \<le> 8000" "0 \<le> level" "level \<le> 2"
  shows "bot_log be level event (Some i) msg ctx s = (Inr (), s\<lparr>bt_requests := bt_requests s + 3\<rparr>)"
proof -
  have "bot_log_endpoint (be_env be) level event (Some i) msg ctx (bt_db s)
      = (Inl (PyExn ''IntegrityError'' ''foreign key constraint''), bt_db s)"
    using assms(2-8) by (simp add: bot_log_endpoint_def)
  then show ?thesis
    by (simp add: bot_log_def suppress_def call_def request_def request_attempts_def numeral_3_eq_3 assms(1)
        http_answer_def any_exn_def)
qed

text \<open>The handler of last resort loses its report: it files the error under the user's Telegram
  id, which the column takes for a user of the service, so on PostgreSQL the row is refused three
  times over, nothing is written and no administrator is alerted.\<close>

theorem unhandled_errors_unreported:
  assumes "\<And>n. be_net be n = Answered" and "e_dialect (be_env be) = Postgresql"
    and "update_from u = Some from" and "get_user (bt_db s) (tu_id from) = None"
    and "length (exn_type x @ '': '' @ be_exc be x) \<le> 8000"
  shows "bt_db (snd (on_error be u x s)) = bt_db s
    \<and> bt_requests (snd (on_error be u x s)) = bt_requests s + 3"
proof -
  let ?rest = "suppress any_exn (case u of
      OnMessage m \<Rightarrow> reply be m (tx ''unexpected_error'' []) no_kb
    | OnCallback c \<Rightarrow> (case cq_message c of None \<Rightarrow> give ()
        | Some ct \<Rightarrow> andthen (ack be)
            (tg be (SendMessage (fst ct) (snd ct) (tx ''unexpected_error'' []) no_kb))))"
  have log: "bot_log be level_critical ''unhandled_exception'' (map_option tu_id (update_from u))
      (exn_type x @ '': '' @ be_exc be x) [(''update_id'', JInt (be_update_id be))] s
      = (Inr (), s\<lparr>bt_requests := bt_requests s + 3\<rparr>)"
    using refused_log[OF assms(1,2,4) _ _ assms(5), of "''unhandled_exception''" level_critical] assms(3)
    by (simp add: level_critical_def)
  have "talking.respectful ?rest" by (intro respected)
  then show ?thesis
    unfolding on_error_def andthen_run[of "bot_log be level_critical ''unhandled_exception''
        (map_option tu_id (update_from u)) (exn_type x @ '': '' @ be_exc be x)
        [(''update_id'', JInt (be_update_id be))]" s "()" "s\<lparr>bt_requests := bt_requests s + 3\<rparr>", OF log]
    by (simp add: talking.respectful_def)
qed

theorem unhandled_errors_unreported_witness:
  "db_logs (bt_db (snd (on_error fx_online (OnMessage (fx_message 102 102 (Some ''hi'') []))
     (BotExn ''OverflowError'' ''infinity'') (fx_bot fx_db)))) = []"
proof -
  have "get_user fx_db 102 = None" "db_logs fx_db = []"
    by (simp_all add: get_user_def row_find_Cons fx_db_def empty_db_def row_find_def)
  then show ?thesis
    using unhandled_errors_unreported[of fx_online "OnMessage (fx_message 102 102 (Some ''hi'') [])"
        "fx_tg_user 102" "fx_bot fx_db" "BotExn ''OverflowError'' ''infinity''"]
    by (simp add: update_from_def fx_message_def fx_be_def)
qed

section \<open>The flood limit\<close>

text \<open>The answers a user gets to messages at the given times, one after another.\<close>

fun flood_answers :: "bot_env \<Rightarrow> int \<Rightarrow> int list \<Rightarrow> bot \<Rightarrow> (bot_exn + bool) list" where
  "flood_answers be u [] s = []"
| "flood_answers be u (t # ts) s =
     (case is_flooded (be\<lparr>be_env := (be_env be)\<lparr>e_now := t\<rparr>\<rparr>) u s of
        (r, s') \<Rightarrow> r # flood_answers be u ts s')"

lemma flood_counted:
  assumes "bt_flood s u = Some (n, exp)" "1 \<le> n" "\<And>k. bt_redis_ops s \<le> k \<Longrightarrow> be_redis be k"
    "\<And>t x. t \<in> set ts \<Longrightarrow> exp = Some x \<Longrightarrow> t < x"
  shows "flood_answers be u ts s = List.map (\<lambda>i. Inr (n + 1 + int i > flood_limit)) [0..<length ts]"
  using assms
proof (induction ts arbitrary: s n)
  case (Cons t ts)
  let ?be = "be\<lparr>be_env := (be_env be)\<lparr>e_now := t\<rparr>\<rparr>"
  let ?s = "s\<lparr>bt_redis_ops := Suc (bt_redis_ops s), bt_flood := (bt_flood s)(u := Some (n + 1, exp))\<rparr>"
  have "live_count (be_env ?be) (bt_flood s u) = (n, exp)"
    using Cons.prems(1) Cons.prems(4)[of t] by (cases exp) (force simp: live_count_def)+
  then have step: "is_flooded ?be u s = (Inr (n + 1 > flood_limit), ?s)"
    using Cons.prems(2,3) by (simp add: is_flooded_def Let_def)
  have "flood_answers be u ts ?s = List.map (\<lambda>i. Inr (n + 1 + 1 + int i > flood_limit)) [0..<length ts]"
    using Cons.prems by (intro Cons.IH) simp_all
  then show ?case
    by (simp add: step upt_conv_Cons map_Suc_upt[symmetric] comp_def algebra_simps del: upt_Suc)
qed simp

text \<open>C26: Messages of a user within one window of sixty seconds are let through up to the thirtieth
  and refused after it, exactly, when Redis works.  If the one command that gives the counter its
  expiry fails, the same holds for all times: once past thirty the user is muted for good.\<close>

theorem flood_limit_exact:
  assumes "be_redis be (bt_redis_ops s)" and "\<And>k. bt_redis_ops s + 2 \<le> k \<Longrightarrow> be_redis be k"
    and "bt_flood s u = None"
    and "be_redis be (Suc (bt_redis_ops s)) \<Longrightarrow> \<forall>t\<in>set ts. t < t0 + seconds flood_window"
  shows "flood_answers be u (t0 # ts) s = List.map (\<lambda>i. Inr (30 < i)) [1..<length ts + 2]"
proof -
  let ?be = "be\<lparr>be_env := (be_env be)\<lparr>e_now := t0\<rparr>\<rparr>"
  let ?exp = "if be_redis be (Suc (bt_redis_ops s)) then Some (t0 + seconds flood_window) else None"
  let ?s = "s\<lparr>bt_redis_ops := bt_redis_ops s + 2, bt_flood := (bt_flood s)(u := Some (1, ?exp))\<rparr>"
  have first: "is_flooded ?be u s = (Inr False, ?s)"
    using assms(1,3) by (simp add: is_flooded_def live_count_def Let_def flood_limit_def)
  have "flood_answers be u ts ?s = List.map (\<lambda>i. Inr (1 + 1 + int i > flood_limit)) [0..<length ts]"
    using assms(2,4) by (intro flood_counted) (auto split: if_splits)
  moreover have "[1..<length ts + 2] = 1 # List.map (\<lambda>i. i + 2) [0..<length ts]"
    using map_add_upt[of 2 "length ts"] by (simp add: upt_conv_Cons numeral_2_eq_2 del: upt_Suc)
  ultimately show ?thesis
    by (simp add: first comp_def flood_limit_def)
qed

theorem flood_limit_exact_witness:
  "last (flood_answers (fx_be (fx_env 5 200 fx_answer) (\<lambda>n. Answered)\<lparr>be_redis := \<lambda>k. k \<noteq> 1\<rparr>) 102
     (0 # replicate 30 (seconds 100000)) (fx_bot fx_db)) = Inr True"
proof -
  have "[1..<length (replicate 30 (seconds 100000)) + 2] = [1..<31] @ [31]"
    by (simp add: upt_rec)
  then show ?thesis
    using flood_limit_exact[of "fx_be (fx_env 5 200 fx_answer) (\<lambda>n. Answered)\<lparr>be_redis := \<lambda>k. k \<noteq> 1\<rparr>"
        "fx_bot fx_db" 102 "replicate 30 (seconds 100000)" 0] by simp
qed

end
