(* ===== verification/AdminReports.thy ===== *)
theory AdminReports
  imports AdminUsers BillingTheorems
begin

text \<open>
  What the administrators' panel shows: the payments of all users
  (\<open>api/admin/payments.py\<close>), the dashboard (\<open>api/admin/stats.py\<close>) and the logs with their
  cursor and their event stream (\<open>api/admin/logs.py\<close>).  Dates are UTC dates, in the
  database session too.
\<close>

section \<open>Payments\<close>

record payment_query =
  pq_status :: "string option"
  pq_provider :: "string option"
  pq_purpose :: "string option"
  pq_user_id :: "int option"
  pq_created_from :: "string option"
  pq_created_to :: "string option"
  pq_text :: "string option"

definition payment_text_match :: "string \<Rightarrow> payment_row \<Rightarrow> user_row \<Rightarrow> bool" where
  "payment_text_match q p u \<longleftrightarrow> (let pat = contains_pattern q in
     ilike (p_external_id p) pat
     \<or> (case py_int q of None \<Rightarrow> False | Some n \<Rightarrow> p_id p = n \<or> u_tg_id u = n)
     \<or> ilike (u_username u) pat \<or> ilike (u_first_name u) pat)"

definition payment_matches :: "(string \<Rightarrow> int option) \<Rightarrow> payment_query \<Rightarrow> db \<Rightarrow> payment_row \<Rightarrow> bool" where
  "payment_matches fromiso q d p \<longleftrightarrow>
     (str_truthy (pq_status q) \<longrightarrow> payment_status_str (p_status p) = the (pq_status q))
   \<and> (str_truthy (pq_provider q) \<longrightarrow> p_provider p = the (pq_provider q))
   \<and> (str_truthy (pq_purpose q) \<longrightarrow> purpose_str (p_purpose p) = the (pq_purpose q))
   \<and> (case pq_user_id q of None \<Rightarrow> True | Some i \<Rightarrow> p_user_id p = i)
   \<and> (case parse_dt fromiso (pq_created_from q) of None \<Rightarrow> True | Some a \<Rightarrow> a \<le> p_created_at p)
   \<and> (case parse_dt fromiso (pq_created_to q) of None \<Rightarrow> True | Some b \<Rightarrow> p_created_at p \<le> b)
   \<and> (str_truthy (pq_text q) \<longrightarrow> (case get_user d (p_user_id p) of None \<Rightarrow> False
      | Some u \<Rightarrow> payment_text_match (the (pq_text q)) p u))"

definition list_payments ::
  "(string \<Rightarrow> int option) \<Rightarrow> payment_query \<Rightarrow> int \<Rightarrow> int \<Rightarrow> db \<Rightarrow> exn + (payment_row \<times> user_row) page" where
  "list_payments fromiso q page sz d =
     (if \<not> page_query_ok 500 page sz \<or> (case pq_user_id q of None \<Rightarrow> False | Some i \<Rightarrow> i < 1)
      then Inl query_error
      else let hits = filter (payment_matches fromiso q d) (db_payments d);
               shown = desc_by p_created_at (filter (\<lambda>p. get_user d (p_user_id p) \<noteq> None) hits)
           in Inr \<lparr>pg_items = List.map (\<lambda>p. (p, the (get_user d (p_user_id p))))
                      (page_rows (nat page) (nat sz) shown),
                   pg_total = length hits, pg_page = nat page, pg_size = nat sz\<rparr>)"

section \<open>The dashboard\<close>

definition us_per_day :: int where "us_per_day = 86400000000"

definition day_of :: "int \<Rightarrow> int" where "day_of t = t div us_per_day"

text \<open>The first day of the month of a day.\<close>

definition month_start_day :: "int \<Rightarrow> int" where
  "month_start_day day = (case civil_of_days day of (y, m, dd) \<Rightarrow> day - (dd - 1))"

definition paid_since :: "int \<Rightarrow> payment_row \<Rightarrow> bool" where
  "paid_since t p \<longleftrightarrow> p_status p = PayPaid \<and> (case p_paid_at p of None \<Rightarrow> False | Some x \<Rightarrow> t \<le> x)"

definition revenue_since :: "int \<Rightarrow> db \<Rightarrow> int" where
  "revenue_since t d = sum_where (paid_since t) p_amount (db_payments d)"

record kpis =
  kp_users_total :: int
  kp_users_delta_24h :: int
  kp_active_subscriptions :: int
  kp_revenue_month :: int
  kp_revenue_today :: int

definition compute_kpis :: "env \<Rightarrow> db \<Rightarrow> kpis" where
  "compute_kpis e d =
     \<lparr>kp_users_total = int (length (db_users d)),
      kp_users_delta_24h = count_where (\<lambda>u. e_now e - us_per_day \<le> u_created_at u) (db_users d),
      kp_active_subscriptions = count_where (\<lambda>s. s_status s = SubActive) (db_subs d),
      kp_revenue_month = revenue_since (month_start_day (day_of (e_now e)) * us_per_day) d,
      kp_revenue_today = revenue_since (day_of (e_now e) * us_per_day) d\<rparr>"

definition period_days :: "string \<Rightarrow> nat option" where
  "period_days p = map_of [(''30d'', 30), (''90d'', 90), (''365d'', 365)] p"

definition date_str :: "int \<Rightarrow> string" where
  "date_str day = (case civil_of_days day of (y, m, dd) \<Rightarrow> pad 4 y @ ''-'' @ pad 2 m @ ''-'' @ pad 2 dd)"

text \<open>The days of a period that ends today.\<close>

definition period :: "env \<Rightarrow> nat \<Rightarrow> int list" where
  "period e n = List.map (\<lambda>i. day_of (e_now e) - int n + 1 + int i) [0..<n]"

text \<open>\<open>GROUP BY date\<close> as an association from the day to the total; the rows go into a
  dictionary, so their order does not matter.\<close>

fun add_to :: "int \<Rightarrow> int \<Rightarrow> (int \<times> int) list \<Rightarrow> (int \<times> int) list" where
  "add_to k x [] = [(k, x)]"
| "add_to k x ((k', y) # r) =
     (if k = k' then (k, y + x) # r else (k', y) # add_to k x r)"

definition revenue_rows :: "int \<Rightarrow> db \<Rightarrow> (int \<times> int) list" where
  "revenue_rows t d = fold (\<lambda>p. add_to (day_of (the (p_paid_at p))) (p_amount p))
     (filter (paid_since t) (db_payments d)) []"

definition zero_or :: "int option \<Rightarrow> int" where
  "zero_or x = (case x of None \<Rightarrow> 0 | Some n \<Rightarrow> n)"

definition revenue_series :: "env \<Rightarrow> nat \<Rightarrow> db \<Rightarrow> (int \<times> int) list" where
  "revenue_series e n d =
     (let rows = revenue_rows ((day_of (e_now e) - int n + 1) * us_per_day) d
      in List.map (\<lambda>day. (day, zero_or (map_of rows day))) (period e n))"

definition revenue :: "env \<Rightarrow> string \<Rightarrow> db \<Rightarrow> exn + (string \<times> int) list" where
  "revenue e p d = (case period_days p of
     None \<Rightarrow> Inl query_error
   | Some n \<Rightarrow> Inr (List.map (\<lambda>(day, x). (date_str day, x)) (revenue_series e n d)))"

definition users_rows :: "int \<Rightarrow> db \<Rightarrow> (int \<times> int) list" where
  "users_rows t d = fold (\<lambda>u. add_to (day_of (u_created_at u)) 1)
     (filter (\<lambda>u. t \<le> u_created_at u) (db_users d)) []"

definition users_timeseries :: "env \<Rightarrow> string \<Rightarrow> db \<Rightarrow> exn + (string \<times> int) list" where
  "users_timeseries e p d = (case period_days p of
     None \<Rightarrow> Inl query_error
   | Some n \<Rightarrow> Inr (let rows = users_rows ((day_of (e_now e) - int n + 1) * us_per_day) d
        in List.map (\<lambda>day. (date_str day, zero_or (map_of rows day))) (period e n)))"

text \<open>\<open>ORDER BY paid_at DESC NULLS LAST, created_at DESC\<close>, then the limit.\<close>

definition recent_payments :: "int \<Rightarrow> db \<Rightarrow> exn + (payment_row \<times> user_row) list" where
  "recent_payments limit d =
     (if limit < 1 \<or> 100 < limit then Inl query_error
      else let paid = filter (\<lambda>p. p_status p = PayPaid \<and> get_user d (p_user_id p) \<noteq> None) (db_payments d);
               byc = desc_by p_created_at paid;
               rows = desc_by (\<lambda>p. the (p_paid_at p)) (filter (\<lambda>p. p_paid_at p \<noteq> None) byc)
                      @ filter (\<lambda>p. p_paid_at p = None) byc
           in Inr (List.map (\<lambda>p. (p, the (get_user d (p_user_id p)))) (take (nat limit) rows)))"

definition recent_users :: "int \<Rightarrow> db \<Rightarrow> exn + user_row list" where
  "recent_users limit d =
     (if limit < 1 \<or> 100 < limit then Inl query_error
      else Inr (take (nat limit) (desc_by u_created_at (db_users d))))"

section \<open>Logs\<close>

definition level_of :: "string \<Rightarrow> int option" where
  "level_of s = map_of [(''info'', 0), (''warn'', 1), (''warning'', 1), (''critical'', 2), (''error'', 2),
     (''0'', 0), (''1'', 1), (''2'', 2)] (str_strip (str_lower s))"

definition parse_levels :: "string list \<Rightarrow> int list" where
  "parse_levels ls = sort (remdups (List.map_filter level_of ls))"

record log_query =
  lq_level :: "string list"
  lq_module :: "string option"
  lq_event :: "string option"
  lq_user :: "string option"
  lq_text :: "string option"
  lq_from :: "int option"
  lq_to :: "int option"

definition log_user_match :: "string \<Rightarrow> user_row \<Rightarrow> bool" where
  "log_user_match q u \<longleftrightarrow> (if q \<noteq> [] \<and> list_all is_digit q
     then Some (u_tg_id u) = py_int q \<or> ilike (u_username u) (contains_pattern q)
     else ilike (u_username u) (contains_pattern q) \<or> ilike (u_first_name u) (contains_pattern q))"

definition log_matches :: "log_query \<Rightarrow> db \<Rightarrow> log_row \<Rightarrow> bool" where
  "log_matches q d l \<longleftrightarrow>
     (parse_levels (lq_level q) = [] \<or> lg_level l \<in> set (parse_levels (lq_level q)))
   \<and> (str_truthy (lq_module q) \<longrightarrow> lg_module l = the (lq_module q))
   \<and> (str_truthy (lq_event q) \<longrightarrow> lg_event l = the (lq_event q))
   \<and> (case lq_from q of None \<Rightarrow> True | Some a \<Rightarrow> a \<le> lg_created_at l)
   \<and> (case lq_to q of None \<Rightarrow> True | Some b \<Rightarrow> lg_created_at l \<le> b)
   \<and> (str_truthy (lq_text q) \<longrightarrow> ilike (Some (lg_message l)) (contains_pattern (the (lq_text q))))
   \<and> (str_truthy (lq_user q) \<longrightarrow> (case lg_user_id l of None \<Rightarrow> False
      | Some i \<Rightarrow> (case get_user d i of None \<Rightarrow> False | Some u \<Rightarrow> log_user_match (the (lq_user q)) u)))"

definition short :: "nat \<Rightarrow> string option \<Rightarrow> bool" where
  "short n s = (case s of None \<Rightarrow> True | Some x \<Rightarrow> length x \<le> n)"

definition log_query_ok :: "log_query \<Rightarrow> int option \<Rightarrow> int \<Rightarrow> bool" where
  "log_query_ok q before limit \<longleftrightarrow> short 64 (lq_module q) \<and> short 128 (lq_event q) \<and> short 64 (lq_user q)
     \<and> short 200 (lq_text q) \<and> (case before of None \<Rightarrow> True | Some b \<Rightarrow> 1 \<le> b) \<and> 1 \<le> limit \<and> limit \<le> 500"

text \<open>
  One page by the cursor: the newest rows older than \<open>before_id\<close>, one more than asked for to
  see whether there is a next page.
\<close>

definition cursor_page :: "('r \<Rightarrow> int) \<Rightarrow> int option \<Rightarrow> nat \<Rightarrow> 'r list \<Rightarrow> 'r list \<times> int option" where
  "cursor_page key before limit hits =
     (let rows = take (Suc limit) (desc_by key
                   (filter (\<lambda>r. case before of None \<Rightarrow> True | Some b \<Rightarrow> key r < b) hits))
      in if limit < length rows then (take limit rows, Some (key (last (take limit rows))))
         else (rows, None))"

definition list_events ::
  "log_query \<Rightarrow> int option \<Rightarrow> int \<Rightarrow> db \<Rightarrow> exn + (log_row list \<times> int option)" where
  "list_events q before limit d =
     (if \<not> log_query_ok q before limit then Inl query_error
      else Inr (cursor_page lg_id before (nat limit) (filter (log_matches q d) (db_logs d))))"

record tech_query =
  tq_trace_id :: "string option"
  tq_service :: "string option"
  tq_action :: "string option"
  tq_user_id :: "int option"
  tq_from :: "int option"
  tq_to :: "int option"

definition tech_matches :: "tech_query \<Rightarrow> tech_log_row \<Rightarrow> bool" where
  "tech_matches q l \<longleftrightarrow>
     (str_truthy (tq_trace_id q) \<longrightarrow> tl_trace_id l = the (tq_trace_id q))
   \<and> (str_truthy (tq_service q) \<longrightarrow> tl_service l = the (tq_service q))
   \<and> (str_truthy (tq_action q) \<longrightarrow> tl_action l = the (tq_action q))
   \<and> (case tq_user_id q of None \<Rightarrow> True | Some i \<Rightarrow> tl_user_id l = Some i)
   \<and> (case tq_from q of None \<Rightarrow> True | Some a \<Rightarrow> a \<le> tl_created_at l)
   \<and> (case tq_to q of None \<Rightarrow> True | Some b \<Rightarrow> tl_created_at l \<le> b)"

definition list_tech ::
  "tech_query \<Rightarrow> int option \<Rightarrow> int \<Rightarrow> db \<Rightarrow> exn + (tech_log_row list \<times> int option)" where
  "list_tech q before limit d =
     (if \<not> (short 36 (tq_trace_id q) \<and> short 32 (tq_service q) \<and> short 128 (tq_action q)
           \<and> (case before of None \<Rightarrow> True | Some b \<Rightarrow> 1 \<le> b) \<and> 1 \<le> limit \<and> limit \<le> 500)
      then Inl query_error
      else Inr (cursor_page tl_id before (nat limit) (filter (tech_matches q) (db_tech_logs d))))"

definition get_trace :: "string \<Rightarrow> db \<Rightarrow> exn + tech_log_row list" where
  "get_trace trace d =
     (case sort_key tl_created_at (sort_key tl_id (filter (\<lambda>l. tl_trace_id l = trace) (db_tech_logs d))) of
        [] \<Rightarrow> Inl (mk_error NotFoundError (Some (''Trace '' @ [CHR 0x27] @ trace @ [CHR 0x27] @ '' not found''))
                 (Some ''trace_not_found'') [])
      | rows \<Rightarrow> Inr rows)"

text \<open>The event stream: where it starts, and one poll of at most a hundred rows.\<close>

definition stream_start :: "db \<Rightarrow> int" where
  "stream_start d = (case desc_by lg_id (db_logs d) of [] \<Rightarrow> 0 | l # ls \<Rightarrow> lg_id l)"

definition stream_poll :: "db \<Rightarrow> int \<Rightarrow> log_row list \<times> int" where
  "stream_poll d after =
     (let rows = take 100 (sort_key lg_id (filter (\<lambda>l. after < lg_id l) (db_logs d)))
      in (rows, if rows = [] then after else lg_id (last rows)))"

section \<open>Reading the log page by page\<close>

lemma desc_by_filter: "desc_by key (filter P rows) = filter P (desc_by key rows)"
  by (simp add: desc_by_def filter_sort)

lemma desc_by_strict:
  assumes "distinct (List.map key rows)"
  shows "sorted_wrt (\<lambda>a b. key b < key a) (desc_by key rows)"
proof -
  have "inj_on key (set rows)" "distinct rows" using assms by (simp_all add: distinct_map)
  then have "distinct (List.map (\<lambda>r. - key r) (desc_by key rows))"
    by (simp add: desc_by_def distinct_map inj_on_def)
  moreover have "sorted (List.map (\<lambda>r. - key r) (desc_by key rows))" by (simp add: desc_by_def)
  ultimately have "sorted_wrt (<) (List.map (\<lambda>r. - key r) (desc_by key rows))"
    by (simp only: strict_sorted_iff)
  then show ?thesis by (simp add: sorted_wrt_map)
qed

lemma map_in_set: "x \<in> set xs \<Longrightarrow> f x \<in> set (List.map f xs)"
  by simp

lemma below_cursor:
  assumes "sorted_wrt (\<lambda>a b. key b < key a) h" "0 < k" "k \<le> length h"
  shows "filter (\<lambda>r. key r < (key (h ! (k - 1)) :: int)) h = drop k h"
proof -
  have "filter (\<lambda>r. key r < key (h ! (k - 1))) (take k h) = []"
  proof -
    have "\<not> key (h ! i) < key (h ! (k - 1))" if "i < k" for i
      using that assms sorted_wrt_nth_less[OF assms(1), of i "k - 1"] by (cases "i = k - 1") fastforce+
    then show ?thesis by (auto simp: filter_empty_conv in_set_conv_nth)
  qed
  moreover have "filter (\<lambda>r. key r < key (h ! (k - 1))) (drop k h) = drop k h"
    using assms sorted_wrt_nth_less[OF assms(1), of "k - 1"] by (auto simp: filter_id_conv in_set_conv_nth)
  ultimately show ?thesis
    by (metis append_take_drop_id append_Nil filter_append)
qed

definition cursor_at :: "('r \<Rightarrow> int) \<Rightarrow> 'r list \<Rightarrow> nat \<Rightarrow> int option" where
  "cursor_at key h k = (if k = 0 then None else Some (key (h ! (k - 1))))"

lemma cursor_page_at:
  assumes "desc_by key (filter (\<lambda>r. case cursor_at key h k of None \<Rightarrow> True | Some b \<Rightarrow> key r < b) hits) = drop k h"
    and "0 < n"
  shows "cursor_page key (cursor_at key h k) n hits =
    (take n (drop k h), if n < length (drop k h) then cursor_at key h (k + n) else None)"
proof -
  have "last (take n (drop k h)) = h ! (k + n - 1)" if "n < length h - k"
    using that assms(2) by (simp add: last_conv_nth min_def)
  then show ?thesis
    unfolding cursor_page_def assms(1) using assms(2)
    by (auto simp: Let_def cursor_at_def min_def)
qed

text \<open>Rows are only added, with greater ids.\<close>

definition logs_grow :: "db \<Rightarrow> db \<Rightarrow> bool" where
  "logs_grow d d' \<longleftrightarrow> (\<exists>new. db_logs d' = db_logs d @ new
     \<and> (\<forall>n\<in>set new. \<forall>l\<in>set (db_logs d). lg_id l < lg_id n))"

lemma logs_grow_trans: "logs_grow a b \<Longrightarrow> logs_grow b c \<Longrightarrow> logs_grow a c"
  unfolding logs_grow_def by (elim exE conjE) (auto intro!: exI[of _ "_ @ _"])

text \<open>A reader who follows the cursor; the n-th request meets the n-th database.\<close>

fun read_events :: "log_query \<Rightarrow> int \<Rightarrow> int option \<Rightarrow> db list \<Rightarrow> log_row list" where
  "read_events q limit before [] = []"
| "read_events q limit before (d # ds) = (case list_events q before limit d of
     Inl x \<Rightarrow> []
   | Inr (rows, nxt) \<Rightarrow> rows @ (case nxt of None \<Rightarrow> [] | Some b \<Rightarrow> read_events q limit (Some b) ds))"

lemma log_matches_db: "\<not> str_truthy (lq_user q) \<Longrightarrow> log_matches q d l = log_matches q d' l"
  by (simp add: log_matches_def)

lemma page_of_grown:
  assumes "logs_grow d0 d \<or> d = d0 \<and> k = 0" "\<not> str_truthy (lq_user q)"
    and "h = desc_by lg_id (filter (log_matches q d0) (db_logs d0))"
    and "distinct (List.map lg_id (db_logs d0))" "k \<le> length h" "k = 0 \<longrightarrow> d = d0"
  shows "desc_by lg_id (filter (\<lambda>r. case cursor_at lg_id h k of None \<Rightarrow> True | Some b \<Rightarrow> lg_id r < b)
    (filter (log_matches q d) (db_logs d))) = drop k h"
proof (cases "k = 0")
  case True
  then show ?thesis using assms(3,6) by (simp add: cursor_at_def)
next
  case False
  let ?b = "lg_id (h ! (k - 1))"
  obtain new where new: "db_logs d = db_logs d0 @ new"
      "\<And>n l. n \<in> set new \<Longrightarrow> l \<in> set (db_logs d0) \<Longrightarrow> lg_id l < lg_id n"
    using assms(1) False unfolding logs_grow_def by blast
  have "h ! (k - 1) \<in> set h" using False assms(5) by simp
  then have mem: "h ! (k - 1) \<in> set (db_logs d0)" by (simp add: assms(3))
  have "filter (\<lambda>r. lg_id r < ?b) (filter (log_matches q d) new) = []"
    using new(2)[OF _ mem] by (force simp: filter_empty_conv)
  then have "filter (\<lambda>r. lg_id r < ?b) (filter (log_matches q d) (db_logs d))
      = filter (\<lambda>r. lg_id r < ?b) (filter (log_matches q d0) (db_logs d0))"
    using log_matches_db[OF assms(2), of d _ d0] by (simp add: new(1) cong: filter_cong)
  then have "desc_by lg_id (filter (\<lambda>r. lg_id r < ?b) (filter (log_matches q d) (db_logs d)))
      = filter (\<lambda>r. lg_id r < ?b) h"
    by (simp only: desc_by_filter assms(3))
  moreover have "sorted_wrt (\<lambda>a b. lg_id b < lg_id a) h"
    unfolding assms(3)
    by (rule desc_by_strict) (use assms(4) in \<open>simp add: distinct_map inj_on_def\<close>)
  ultimately show ?thesis
    using below_cursor[of lg_id h k] False assms(5) by (simp add: cursor_at_def)
qed

lemma read_from:
  assumes "\<not> str_truthy (lq_user q)" "log_query_ok q None (int n)"
    and h: "h = desc_by lg_id (filter (log_matches q d0) (db_logs d0))"
    and "distinct (List.map lg_id (db_logs d0))" "\<And>l. l \<in> set (db_logs d0) \<Longrightarrow> 1 \<le> lg_id l"
    and "successively logs_grow (d # ds)" "d = d0 \<and> k = 0 \<or> logs_grow d0 d \<and> 0 < k"
    and "k \<le> length h" "length h - k \<le> length (d # ds) * n"
  shows "read_events q (int n) (cursor_at lg_id h k) (d # ds) = drop k h"
  using assms(6-9)
proof (induction ds arbitrary: d k)
  case (Cons d' ds)
  have pos: "0 < n" using assms(2) by (simp add: log_query_ok_def)
  have idx: "1 \<le> lg_id (h ! i)" if "i < length h" for i
    using that assms(5) nth_mem[OF that] by (simp add: h)
  have ok: "log_query_ok q (cursor_at lg_id h k) (int n)"
    using assms(2) idx[of "k - 1"] Cons.prems(3) by (auto simp: log_query_ok_def cursor_at_def)
  have page: "cursor_page lg_id (cursor_at lg_id h k) n (filter (log_matches q d) (db_logs d)) =
      (take n (drop k h), if n < length (drop k h) then cursor_at lg_id h (k + n) else None)"
    by (rule cursor_page_at[OF page_of_grown[OF _ assms(1) h assms(4) Cons.prems(3)] pos])
      (use Cons.prems(2) in auto)
  show ?case
  proof (cases "n < length (drop k h)")
    case True
    have grown: "logs_grow d0 d'"
      using Cons.prems(1,2) logs_grow_trans by auto
    have "read_events q (int n) (cursor_at lg_id h (k + n)) (d' # ds) = drop (k + n) h"
      using Cons.prems(1,4) True pos grown by (intro Cons.IH) (auto simp: algebra_simps)
    moreover have "cursor_at lg_id h (k + n) = Some (lg_id (h ! (k + n - 1)))"
      using pos by (simp add: cursor_at_def)
    ultimately have "read_events q (int n) (cursor_at lg_id h k) (d # d' # ds) = take n (drop k h) @ drop (k + n) h"
      using ok True by (simp add: list_events_def page del: read_events.simps(1))
    then show ?thesis by (metis append_take_drop_id drop_drop add.commute)
  next
    case False
    then show ?thesis using ok by (simp add: list_events_def page)
  qed
next
  case Nil
  have pos: "0 < n" using assms(2) by (simp add: log_query_ok_def)
  have ok: "log_query_ok q (cursor_at lg_id h k) (int n)"
    using assms(2,5) nth_mem[of "k - 1" h] Nil.prems(3) by (auto simp: log_query_ok_def cursor_at_def h)
  have page: "cursor_page lg_id (cursor_at lg_id h k) n (filter (log_matches q d) (db_logs d)) =
      (take n (drop k h), if n < length (drop k h) then cursor_at lg_id h (k + n) else None)"
    by (rule cursor_page_at[OF page_of_grown[OF _ assms(1) h assms(4) Nil.prems(3)] pos])
      (use Nil.prems(2) in auto)
  then show ?case using ok Nil.prems(4) by (simp add: list_events_def)
qed


section \<open>Revenue\<close>

lemma add_to_lookup: "zero_or (map_of (add_to k x r) j) = zero_or (map_of r j) + (if j = k then x else 0)"
  by (induction k x r rule: add_to.induct) (auto simp: zero_or_def split: option.split)

lemma grouped_total:
  "zero_or (map_of (fold (\<lambda>p. add_to (key p) (amt p)) rows acc) j)
     = zero_or (map_of acc j) + sum_where (\<lambda>p. key p = j) amt rows"
  by (induction rows arbitrary: acc) (simp_all add: add_to_lookup sum_where_def)

text \<open>A day is listed with what was paid on it.\<close>

definition paid_on :: "int \<Rightarrow> payment_row \<Rightarrow> bool" where
  "paid_on day p \<longleftrightarrow> p_status p = PayPaid \<and> map_option day_of (p_paid_at p) = Some day"

lemma day_of_le: "day * us_per_day \<le> t \<longleftrightarrow> day \<le> day_of t"
proof
  assume "day * us_per_day \<le> t"
  then have "day * us_per_day div us_per_day \<le> t div us_per_day" by (rule zdiv_mono1) (simp add: us_per_day_def)
  then show "day \<le> day_of t" by (simp add: day_of_def us_per_day_def)
next
  assume "day \<le> day_of t"
  then have "day * us_per_day \<le> t div us_per_day * us_per_day" by (simp add: day_of_def us_per_day_def)
  also have "\<dots> \<le> t"
    using pos_mod_sign[of us_per_day t] div_mult_mod_eq[of t us_per_day] by (simp add: us_per_day_def)
  finally show "day * us_per_day \<le> t" .
qed

lemma revenue_row:
  assumes "first \<le> day"
  shows "zero_or (map_of (revenue_rows (first * us_per_day) d) day) = sum_where (paid_on day) p_amount (db_payments d)"
proof -
  have "filter (\<lambda>p. day_of (the (p_paid_at p)) = day) (filter (paid_since (first * us_per_day)) (db_payments d))
      = filter (paid_on day) (db_payments d)"
    unfolding filter_filter
    by (rule filter_cong) (use assms in \<open>auto simp: paid_since_def paid_on_def day_of_le split: option.splits\<close>)
  then show ?thesis
    using grouped_total[of "\<lambda>p. day_of (the (p_paid_at p))" p_amount
        "filter (paid_since (first * us_per_day)) (db_payments d)" "[]" day]
    by (simp add: revenue_rows_def sum_where_def zero_or_def)
qed

lemma revenue_series_days:
  "revenue_series e n d = List.map (\<lambda>day. (day, sum_where (paid_on day) p_amount (db_payments d))) (period e n)"
  by (auto simp: revenue_series_def Let_def period_def intro!: revenue_row)

lemma sum_over_days:
  "sum_list (List.map (\<lambda>day. sum_where (P day) amt rows) days)
     = sum_list (List.map (\<lambda>r. sum_list (List.map (\<lambda>day. if P day r then amt r else 0) days)) rows)"
proof (induction rows)
  case (Cons r rows)
  have "sum_where (P day) amt (r # rows) = (if P day r then amt r else 0) + sum_where (P day) amt rows" for day
    by (simp add: sum_where_def)
  then show ?case using Cons.IH by (simp add: sum_list_addf)
qed (simp add: sum_list_0)

lemma one_day:
  "sum_list (List.map (\<lambda>day. if paid_on day p then x else 0) (period e n))
     = (if p_status p = PayPaid \<and> (case p_paid_at p of None \<Rightarrow> False
          | Some t \<Rightarrow> day_of (e_now e) - int n + 1 \<le> day_of t \<and> day_of t \<le> day_of (e_now e)) then x else 0)"
proof (cases "p_status p = PayPaid \<and> p_paid_at p \<noteq> None")
  case True
  then obtain t where t: "p_paid_at p = Some t" "p_status p = PayPaid" by auto
  have "sum_list (List.map (\<lambda>i. if day_of t = a + int i then x else 0) [0..<n])
      = (if a \<le> day_of t \<and> day_of t < a + int n then x else 0)" for a
    by (induction n) auto
  from this[of "day_of (e_now e) - int n + 1"] show ?thesis
    by (simp add: t paid_on_def period_def comp_def)
qed (auto simp: paid_on_def period_def comp_def sum_list_0 split: option.split)

text \<open>The revenue chart adds up: when no payment is dated in the future, its days together
  show what was paid since its first day, the last of them is the revenue of today on the
  dashboard, and no day is shown twice.\<close>

theorem revenue_chart_adds_up:
  assumes "0 < n" and "\<forall>p\<in>set (db_payments d). \<forall>t. p_paid_at p = Some t \<longrightarrow> t \<le> e_now e"
  shows "sum_list (List.map snd (revenue_series e n d))
      = revenue_since ((day_of (e_now e) - int n + 1) * us_per_day) d
    \<and> last (revenue_series e n d) = (day_of (e_now e), kp_revenue_today (compute_kpis e d))
    \<and> distinct (List.map fst (revenue_series e n d))"
proof -
  have past: "day_of t \<le> day_of (e_now e)" if "p \<in> set (db_payments d)" "p_paid_at p = Some t" for p t
    using assms(2) that unfolding day_of_def by (simp add: zdiv_mono1 us_per_day_def)
  have since: "revenue_since (k * us_per_day) d = sum_list (List.map (\<lambda>p. if p_status p = PayPaid
      \<and> (case p_paid_at p of None \<Rightarrow> False | Some t \<Rightarrow> k \<le> day_of t \<and> day_of t \<le> day_of (e_now e))
      then p_amount p else 0) (db_payments d))" for k
  proof -
    have "(if paid_since (k * us_per_day) p then p_amount p else 0) = (if p_status p = PayPaid
        \<and> (case p_paid_at p of None \<Rightarrow> False | Some t \<Rightarrow> k \<le> day_of t \<and> day_of t \<le> day_of (e_now e))
        then p_amount p else 0)" if "p \<in> set (db_payments d)" for p
      using past[OF that] by (auto simp: paid_since_def day_of_le split: option.split)
    then show ?thesis
      by (simp add: revenue_since_def sum_where_def sum_list_map_filter' cong: map_cong)
  qed
  have "sum_list (List.map snd (revenue_series e n d))
      = sum_list (List.map (\<lambda>day. sum_where (paid_on day) p_amount (db_payments d)) (period e n))"
    by (simp add: revenue_series_days comp_def)
  also have "\<dots> = revenue_since ((day_of (e_now e) - int n + 1) * us_per_day) d"
    unfolding sum_over_days one_day since ..
  finally have sum: "sum_list (List.map snd (revenue_series e n d))
      = revenue_since ((day_of (e_now e) - int n + 1) * us_per_day) d" .
  have "period e n \<noteq> []" "last (period e n) = day_of (e_now e)"
    using assms(1) by (simp_all add: period_def last_map of_nat_diff)
  moreover have "revenue_since (day_of (e_now e) * us_per_day) d
      = sum_where (paid_on (day_of (e_now e))) p_amount (db_payments d)"
  proof -
    have "paid_since (day_of (e_now e) * us_per_day) p = paid_on (day_of (e_now e)) p"
      if "p \<in> set (db_payments d)" for p
      using past[OF that] by (auto simp: paid_since_def paid_on_def day_of_le split: option.split intro: antisym)
    then show ?thesis by (simp add: revenue_since_def sum_where_def cong: filter_cong)
  qed
  ultimately have "last (revenue_series e n d) = (day_of (e_now e), kp_revenue_today (compute_kpis e d))"
    by (simp add: revenue_series_days last_map compute_kpis_def)
  moreover have "distinct (period e n)"
    by (simp add: period_def distinct_map inj_on_def)
  ultimately show ?thesis using sum by (simp add: revenue_series_days comp_def)
qed

lemma purchase_debit_payments:
  assumes "fst (purchase_debit e uid tid did i d) = Inr pu"
  shows "\<exists>p. db_payments (snd (purchase_debit e uid tid did i d)) = db_payments d @ [p]
    \<and> p_status p = PayPaid \<and> p_paid_at p = Some (e_now e) \<and> p_amount p = pu_price pu"
  using assms
  by (auto simp: purchase_debit_def lock_user_def Let_def create_payment_def ins_payment_def
      split: option.splits sum.splits prod.splits if_splits)


section \<open>Concrete inputs\<close>


theorem revenue_chart_adds_up_witness:
  "fst (last (revenue_series (fx_env 5 200 JNull) 30 fx_db)) = 0"
  using revenue_chart_adds_up[of 30 fx_db "fx_env 5 200 JNull"]
  by (simp add: fx_db_def empty_db_def fx_payment_def day_of_def us_per_day_def)


end
