(* ===== verification/BotTexts.thy ===== *)
theory BotTexts
  imports BotCore Texts "HOL-Library.AList"
begin

text \<open>
  The texts on the side of the bot (\<open>bot/app/utils/texts.py\<close>): what the panel's editor stores is
  repaired for Telegram, a cache with a lifetime stands between the handlers and the backend,
  and fallbacks stand in for what neither has.  The regular expressions are written out as
  scanners on UTF-8 bytes, of which only ASCII characters matter to them; each has one way to
  match at a place.
\<close>

section \<open>Regular expressions\<close>

text \<open>\<open>re.sub\<close> for a pattern that never matches the empty text: \<open>m\<close> gives the replacement and the rest.\<close>

function re_sub :: "(string \<Rightarrow> (string \<times> string) option) \<Rightarrow> string \<Rightarrow> string" where
  "re_sub m [] = []"
| "re_sub m (c # s) =
     (case m (c # s) of
        None \<Rightarrow> c # re_sub m s
      | Some (r, rest) \<Rightarrow> if length rest \<le> length s then r @ re_sub m rest else c # re_sub m s)"
  by pat_completeness auto
termination
  by (relation "measure (\<lambda>(m, s). length s)") auto

text \<open>The rest of a tag after its name: blanks and \<open>>\<close>, or \<open>(\s+[^>]*)?>\<close>.\<close>

definition close_end :: "string \<Rightarrow> string option" where
  "close_end s = (case dropWhile is_space s of
     [] \<Rightarrow> None | c # rest \<Rightarrow> if c = CHR ''>'' then Some rest else None)"

definition open_end :: "string \<Rightarrow> string option" where
  "open_end s = (case s of
     [] \<Rightarrow> None
   | c # r \<Rightarrow> if c = CHR ''>'' then Some r
             else if is_space c then (case dropWhile (\<lambda>c. c \<noteq> CHR ''>'') r of [] \<Rightarrow> None | g # rest \<Rightarrow> Some rest)
             else None)"

definition close_tag_at :: "string \<Rightarrow> string \<Rightarrow> string option" where
  "close_tag_at name s =
     (if prefix_ci (''</'' @ name) s then close_end (drop (length name + 2) s) else None)"

definition open_tag_at :: "string \<Rightarrow> string \<Rightarrow> string option" where
  "open_tag_at name s =
     (if prefix_ci (''<'' @ name) s then open_end (drop (length name + 1) s) else None)"

definition subst :: "string \<Rightarrow> (string \<Rightarrow> string option) \<Rightarrow> string \<Rightarrow> (string \<times> string) option" where
  "subst r m s = map_option (Pair r) (m s)"

section \<open>From the editor's HTML to Telegram's\<close>

definition newline :: string where "newline = [CHR 0x0A]"

text \<open>The bullet and the blank after it.\<close>

definition bullet :: string where
  "bullet = [CHR 0xE2, CHR 0x80, CHR 0xA2, CHR 0x20]"

subsection \<open>Escaped custom emoji\<close>

fun find_sub :: "string \<Rightarrow> string \<Rightarrow> (string \<times> string) option" where
  "find_sub p [] = None"
| "find_sub p (c # s) =
     (if starts_with p (c # s) then Some ([], drop (length p) (c # s))
      else map_option (\<lambda>(b, rest). (c # b, rest)) (find_sub p s))"

definition after_prefix :: "string \<Rightarrow> string \<Rightarrow> string option" where
  "after_prefix p s = (if starts_with p s then Some (drop (length p) s) else None)"

definition emoji_at :: "string \<Rightarrow> string \<Rightarrow> (string \<times> string) option" where
  "emoji_at q s =
     (case after_prefix ''&lt;tg-emoji'' s of
        None \<Rightarrow> None
      | Some s1 \<Rightarrow>
          if s1 = [] \<or> \<not> is_space (hd s1) then None
          else (case after_prefix (''emoji-id='' @ q) (dropWhile is_space s1) of
                  None \<Rightarrow> None
                | Some s2 \<Rightarrow>
                    if s2 = [] \<or> \<not> is_digit (hd s2) then None
                    else (case after_prefix (q @ ''&gt;'') (dropWhile is_digit s2) of
                            None \<Rightarrow> None
                          | Some s3 \<Rightarrow>
                              map_option (\<lambda>(inner, rest).
                                (''<tg-emoji emoji-id='' @ quote @ takeWhile is_digit s2 @ quote @ ''>''
                                   @ inner @ ''</tg-emoji>'', rest))
                                (find_sub ''&lt;/tg-emoji&gt;'' s3))))"

definition restore_emoji :: "string \<Rightarrow> string" where
  "restore_emoji s = re_sub (emoji_at quote) (re_sub (emoji_at ''&quot;'') s)"

subsection \<open>Line breaks, blocks and lists\<close>

definition br_at :: "string \<Rightarrow> string option" where
  "br_at s =
     (if prefix_ci ''<br'' s
      then (let r = dropWhile is_space (drop 3 s)
            in after_prefix ''>'' (if r \<noteq> [] \<and> hd r = CHR ''/'' then tl r else r))
      else None)"

definition block_pass :: "string \<Rightarrow> string \<Rightarrow> string \<Rightarrow> string \<Rightarrow> string" where
  "block_pass name on_close on_open s =
     re_sub (subst on_open (open_tag_at name)) (re_sub (subst on_close (close_tag_at name)) s)"

definition double_break_tags :: "string list" where
  "double_break_tags = [''p'', ''div'', ''h1'', ''h2'', ''h3'', ''h4'', ''h5'', ''h6'']"

definition list_at :: "string \<Rightarrow> string option" where
  "list_at s =
     (if s = [] \<or> hd s \<noteq> CHR ''<'' then None
      else let b = (if tl s \<noteq> [] \<and> hd (tl s) = CHR ''/'' then tl (tl s) else tl s)
           in if prefix_ci ''ul'' b \<or> prefix_ci ''ol'' b
              then (case dropWhile (\<lambda>c. c \<noteq> CHR ''>'') (drop 2 b) of [] \<Rightarrow> None | g # rest \<Rightarrow> Some rest)
              else None)"

definition blocks :: "string \<Rightarrow> string" where
  "blocks s = re_sub (subst [] list_at)
     (block_pass ''li'' newline bullet
       (fold (\<lambda>name. block_pass name (newline @ newline) []) double_break_tags (re_sub (subst newline br_at) s)))"

subsection \<open>Spoilers\<close>

definition word_char :: "char \<Rightarrow> bool" where
  "word_char c \<longleftrightarrow> is_alpha c \<or> is_digit c \<or> c = CHR ''_''"

definition is_quote :: "char \<Rightarrow> bool" where
  "is_quote c \<longleftrightarrow> c = CHR 0x22 \<or> c = CHR 0x27"

text \<open>\<open>class\s*=\s*\<close> and a quoted value with the word \<open>tg-spoiler\<close>.\<close>

definition spoiler_class :: "string \<Rightarrow> bool" where
  "spoiler_class s \<longleftrightarrow> prefix_ci ''class'' s
     \<and> (case dropWhile is_space (drop 5 s) of [] \<Rightarrow> False | eq # r \<Rightarrow> eq = CHR ''=''
     \<and> (case dropWhile is_space r of [] \<Rightarrow> False | q # v \<Rightarrow> is_quote q
     \<and> (case dropWhile (\<lambda>c. \<not> is_quote c \<and> c \<noteq> CHR ''>'') v of [] \<Rightarrow> False | q' # rest \<Rightarrow> q' = q
     \<and> ''tg-spoiler'' \<in> set (py_words [] (str_lower (takeWhile (\<lambda>c. \<not> is_quote c \<and> c \<noteq> CHR ''>'') v))))))"

text \<open>The first argument: whether the character before is no part of a word.\<close>

fun spoiler_from :: "bool \<Rightarrow> string \<Rightarrow> bool" where
  "spoiler_from b [] = False"
| "spoiler_from b (c # s) = (b \<and> spoiler_class (c # s) \<or> spoiler_from (\<not> word_char c) s)"

definition spoiler_open :: "string \<Rightarrow> bool" where
  "spoiler_open tag = spoiler_from False (drop 5 tag)"

lemma close_end_length: "close_end s = Some rest \<Longrightarrow> length rest < length s"
  using dropWhile_length[of is_space s] by (auto simp: close_end_def split: list.splits if_splits)

lemma open_end_length: "open_end s = Some rest \<Longrightarrow> length rest < length s"
  using dropWhile_length[of "\<lambda>c. c \<noteq> CHR ''>''" "tl s"]
  by (auto simp: open_end_def split: list.splits if_splits)

lemma tag_at_lengths:
  "close_tag_at name s = Some rest \<Longrightarrow> length rest < length s"
  "open_tag_at name s = Some rest \<Longrightarrow> length rest < length s"
  by (auto simp: close_tag_at_def open_tag_at_def dest: close_end_length open_end_length split: if_splits)

text \<open>The stack holds, newest first, whether an open \<open>span\<close> became a spoiler.\<close>

function spans :: "bool list \<Rightarrow> string \<Rightarrow> piece list" where
  "spans stack [] = List.map (\<lambda>b. PClose ''tg-spoiler'' ''</tg-spoiler>'') (filter id stack)"
| "spans stack (c # s) =
     (case open_tag_at ''span'' (c # s) of
        Some rest \<Rightarrow>
          (let b = spoiler_open (take (length (c # s) - length rest) (c # s))
           in (if b then [POpen ''tg-spoiler'' ''<tg-spoiler>''] else []) @ spans (b # stack) rest)
      | None \<Rightarrow>
          (case close_tag_at ''span'' (c # s) of
             Some rest \<Rightarrow>
               (if stack \<noteq> [] \<and> hd stack then [PClose ''tg-spoiler'' ''</tg-spoiler>''] else [])
               @ spans (tl stack) rest
           | None \<Rightarrow> PText [c] # spans stack s))"
  by pat_completeness auto
termination
  by (relation "measure (\<lambda>(stack, s). length s)") (auto dest: tag_at_lengths)

definition spoilers :: "string \<Rightarrow> string" where
  "spoilers s = List.concat (List.map piece_str (spans [] s))"

subsection \<open>Everything else\<close>

definition tg_allowed :: "string list" where
  "tg_allowed = [''b'', ''strong'', ''i'', ''em'', ''u'', ''ins'', ''s'', ''strike'', ''del'', ''a'', ''code'',
                 ''pre'', ''blockquote'', ''tg-spoiler'', ''tg-emoji'', ''span'']"

definition keep_allowed :: "string \<Rightarrow> string \<Rightarrow> string \<Rightarrow> string \<times> string" where
  "keep_allowed name s rest =
     (if str_lower name \<in> set tg_allowed then take (length s - length rest) s else [], rest)"

definition any_open_at :: "string \<Rightarrow> (string \<times> string) option" where
  "any_open_at s =
     (case after_prefix ''<'' s of None \<Rightarrow> None
      | Some b \<Rightarrow>
          if b = [] \<or> \<not> is_alpha (hd b) then None
          else map_option (keep_allowed (takeWhile name_char b) s) (open_end (dropWhile name_char b)))"

definition any_close_at :: "string \<Rightarrow> (string \<times> string) option" where
  "any_close_at s =
     (case after_prefix ''</'' s of None \<Rightarrow> None
      | Some b \<Rightarrow>
          if b = [] \<or> \<not> is_alpha (hd b) then None
          else map_option (keep_allowed (takeWhile name_char b) s) (close_end (dropWhile name_char b)))"

definition strip_unknown :: "string \<Rightarrow> string" where
  "strip_unknown s = re_sub any_close_at (re_sub any_open_at s)"

definition normalize_message_html :: "string \<Rightarrow> string" where
  "normalize_message_html html =
     str_strip (squeeze 0 (strip_unknown (spoilers (blocks (restore_emoji html)))))"

section \<open>The text service\<close>

text \<open>What the client makes of the listing; other keys and items of another shape are dropped.\<close>

record text_entry =
  te_value_html :: string
  te_media_file_id :: json
  te_media_kind :: json
  te_kind :: json
  te_icon_custom_emoji_id :: json
  te_url :: json

definition plain_entry :: "string \<Rightarrow> string \<Rightarrow> text_entry" where
  "plain_entry kind v = \<lparr>te_value_html = v, te_media_file_id = JNull, te_media_kind = JNull,
     te_kind = JStr kind, te_icon_custom_emoji_id = JNull, te_url = JNull\<rparr>"

definition text_item :: "json \<Rightarrow> (string \<times> text_entry) option" where
  "text_item j =
     (case j of
        JObj kvs \<Rightarrow>
          (case (map_of kvs ''key'', map_of kvs ''value_html'') of
             (Some (JStr key), Some (JStr v)) \<Rightarrow>
               Some (key, \<lparr>te_value_html = v,
                 te_media_file_id = get_or JNull ''media_file_id'' kvs,
                 te_media_kind = get_or JNull ''media_kind'' kvs,
                 te_kind = (if opt_json_truthy (map_of kvs ''kind'') then the (map_of kvs ''kind'')
                            else JStr ''message''),
                 te_icon_custom_emoji_id = get_or JNull ''icon_custom_emoji_id'' kvs,
                 te_url = get_or JNull ''url'' kvs\<rparr>)
           | _ \<Rightarrow> None)
      | _ \<Rightarrow> None)"

definition texts_of :: "json \<Rightarrow> (string \<times> text_entry) list" where
  "texts_of j = (case j of
     JArr items \<Rightarrow> fold (\<lambda>(k, v). AList.update k v) (List.map_filter text_item items) [] | _ \<Rightarrow> [])"

text \<open>\<open>BackendClient.get_all_texts\<close>; the endpoint is an argument.\<close>

definition get_all_texts :: "bot_env \<Rightarrow> (db \<Rightarrow> (exn + json) \<times> db) \<Rightarrow> (string \<times> text_entry) list act" where
  "get_all_texts be ep = await (call be True ep) (\<lambda>j. give (texts_of j))"

record text_service =
  ts_ttl :: int
  ts_cache :: "(string \<times> text_entry) list"
  ts_expires :: int

definition repaired :: "text_entry \<Rightarrow> text_entry" where
  "repaired en = (if te_kind en = JStr ''message''
     then en\<lparr>te_value_html := normalize_message_html (te_value_html en)\<rparr> else en)"

type_synonym 'a text_act = "text_service \<times> bot \<Rightarrow> (bot_exn + 'a) \<times> text_service \<times> bot"

definition refresh :: "(string \<times> text_entry) list act \<Rightarrow> int \<Rightarrow> unit text_act" where
  "refresh fetch now = (\<lambda>(ts, s).
     if now < ts_expires ts \<and> ts_cache ts \<noteq> [] then (Inr (), ts, s)
     else case fetch s of
       (Inl x, s') \<Rightarrow> (if x = BackendUnavailable then Inr () else Inl x, ts, s')
     | (Inr raw, s') \<Rightarrow>
         (Inr (), ts\<lparr>ts_cache := List.map (\<lambda>(k, en). (k, repaired en)) raw,
                     ts_expires := now + ts_ttl ts\<rparr>, s'))"

text \<open>The keys with a hard-coded wording; the wording itself is the argument \<open>words\<close>.\<close>

definition message_fallbacks :: "string list" where
  "message_fallbacks =
    [''service_unavailable'', ''unexpected_error'', ''channel_subscription_required'',
     ''banned_user'', ''section_in_development'', ''main_menu'', ''catalog_header'',
     ''tariff_durations_header'', ''promo_input_prompt'', ''pay_method_header'',
     ''payment_invoice'', ''key_issuing'', ''key_issued'', ''key_issued_free_trial'',
     ''free_trial_already_used'', ''vpn_provider_unavailable'', ''payment_provider_unavailable'',
     ''insufficient_balance'', ''refund_after_provider_error'', ''profile_header'',
     ''profile_no_subscriptions'', ''subscription_detail'', ''howto_connect_fallback'',
     ''topup_amount_prompt'', ''topup_invalid_amount'', ''topup_min_amount'',
     ''topup_method_prompt'', ''promo_balance_applied'', ''promo_discount_applied'',
     ''promo_not_found'', ''promo_unavailable'', ''promo_discount_requires_purchase'',
     ''referral_program_screen'', ''referral_bonus_credited'', ''extension_select_duration'',
     ''subscription_extended'', ''subscription_not_extendable'', ''extension_failed_refund'',
     ''support_no_active_ticket'', ''support_active_ticket'', ''support_ticket_created'',
     ''support_already_open'', ''support_ticket_closed_by_user'',
     ''support_ticket_closed_by_admin'', ''support_close_cancelled'', ''support_sticker_rejected'',
     ''support_unsupported_media'', ''support_flood_limit'', ''support_outside_ticket_nudge'',
     ''idea_no_active_ticket'', ''idea_active_ticket'', ''idea_ticket_created'',
     ''support_user_banned_notice'', ''support_user_unbanned_notice'', ''user_banned_notice'',
     ''user_unbanned_notice'', ''support_topic_user_message'', ''support_topic_user_idea'',
     ''support_topic_separator'', ''support_topic_user_closed'', ''support_topic_admin_closed'',
     ''support_topic_user_banned'', ''support_topic_user_unbanned'',
     ''support_topic_no_open_ticket'', ''admin_reply_prefix'']"

definition button_fallbacks :: "string list" where
  "button_fallbacks =
    [''btn.main_menu.catalog'', ''btn.main_menu.profile'', ''btn.main_menu.support'',
     ''btn.main_menu.promo'', ''btn.main_menu.idea'', ''btn.main_menu.about'', ''btn.common.back'',
     ''btn.common.to_menu'', ''btn.common.subscribe'', ''btn.common.subscribed'',
     ''btn.profile.add_more'', ''btn.profile.topup'', ''btn.profile.referral'',
     ''btn.referral.share'', ''btn.subscription.howto'', ''btn.subscription.extend'',
     ''btn.payment.sbp'', ''btn.payment.cryptobot'', ''btn.payment.crypto'',
     ''btn.payment.balance'', ''btn.payment.balance_locked'', ''btn.payment.pay'',
     ''btn.payment.cancel'', ''btn.ticket.create_support'', ''btn.ticket.create_idea'',
     ''btn.ticket.close_yes'', ''btn.ticket.close_no'', ''btn.promo.skip'', ''btn.promo.retry'',
     ''btn.promo.skip_alt'']"

definition resolve :: "(string \<Rightarrow> string) \<Rightarrow> text_service \<Rightarrow> string \<Rightarrow> text_entry option" where
  "resolve words ts key =
     (case map_of (ts_cache ts) key of
        Some en \<Rightarrow> Some en
      | None \<Rightarrow> if key \<in> set message_fallbacks then Some (plain_entry ''message'' (words key))
                else if key \<in> set button_fallbacks then Some (plain_entry ''button'' (words key))
                else None)"

text \<open>
  \<open>template.format(**kwargs)\<close>.  A field with an attribute, an index, a conversion or a format
  specification is left to \<open>special\<close>, which may raise anything.
\<close>

definition format_field :: "(string \<Rightarrow> bot_exn + string) \<Rightarrow> dict \<Rightarrow> string \<Rightarrow> bot_exn + string" where
  "format_field special kw f =
     (if list_ex (\<lambda>c. c \<in> {CHR ''.'', CHR ''['', CHR ''!'', CHR '':'', CHR ''{''}) f then special f
      else if f = [] \<or> list_all is_digit f then Inl (BotExn ''IndexError'' ''Replacement index out of range'')
      else (case map_of kw f of None \<Rightarrow> Inl (BotExn ''KeyError'' f) | Some v \<Rightarrow> Inr (json_str v)))"

definition prepend :: "string \<Rightarrow> bot_exn + string \<Rightarrow> bot_exn + string" where
  "prepend p r = map_sum id ((@) p) r"

function str_format :: "(string \<Rightarrow> bot_exn + string) \<Rightarrow> string \<Rightarrow> bot_exn + string" where
  "str_format field [] = Inr []"
| "str_format field (c # s) =
     (if c = CHR ''{'' \<or> c = CHR ''}'' then
        (if s \<noteq> [] \<and> hd s = c then prepend [c] (str_format field (tl s))
         else if c = CHR ''}'' then Inl (BotExn ''ValueError'' '''')
         else (case dropWhile (\<lambda>c. c \<noteq> CHR ''}'') s of
                 [] \<Rightarrow> Inl (BotExn ''ValueError'' '''')
               | g # rest \<Rightarrow>
                   (case field (takeWhile (\<lambda>c. c \<noteq> CHR ''}'') s) of
                      Inl x \<Rightarrow> Inl x
                    | Inr v \<Rightarrow> prepend v (str_format field rest))))
      else prepend [c] (str_format field s))"
  by pat_completeness auto
termination
proof (relation "measure (\<lambda>(field, s). length s)")
  fix field :: "string \<Rightarrow> bot_exn + string" and c s g rest v
  assume "dropWhile (\<lambda>c. c \<noteq> CHR ''}'') s = g # rest"
  then have "length (g # rest) \<le> length s" using dropWhile_length by metis
  then show "((field, rest), field, c # s) \<in> measure (\<lambda>(field, s). length s)" by simp
qed auto

definition caught :: "bot_exn \<Rightarrow> bool" where
  "caught x \<longleftrightarrow> (case x of BotExn n m \<Rightarrow> n \<in> {''KeyError'', ''IndexError'', ''ValueError''} | _ \<Rightarrow> False)"

definition text_format :: "(string \<Rightarrow> bot_exn + string) \<Rightarrow> dict \<Rightarrow> string \<Rightarrow> bot_exn + string" where
  "text_format special kw t =
     (if kw = [] then Inr t
      else case str_format (format_field special kw) t of
        Inr r \<Rightarrow> Inr r
      | Inl x \<Rightarrow> if caught x then Inr t else Inl x)"

definition lookup_text ::
  "(string \<times> text_entry) list act \<Rightarrow> (string \<Rightarrow> string) \<Rightarrow> int \<Rightarrow> string \<Rightarrow> text_entry option text_act" where
  "lookup_text fetch words now key = (\<lambda>(ts, s).
     case (if ts_expires ts \<le> now \<or> map_of (ts_cache ts) key = None
           then refresh fetch now (ts, s) else (Inr (), ts, s)) of
       (Inl x, st) \<Rightarrow> (Inl x, st)
     | (Inr u, st) \<Rightarrow> (Inr (resolve words (fst st) key), st))"

definition with_text ::
  "(string \<times> text_entry) list act \<Rightarrow> (string \<Rightarrow> string) \<Rightarrow> (string \<Rightarrow> bot_exn + string) \<Rightarrow> int \<Rightarrow> string \<Rightarrow> dict
    \<Rightarrow> 'a \<Rightarrow> (text_entry \<Rightarrow> string \<Rightarrow> 'a) \<Rightarrow> 'a text_act" where
  "with_text fetch words special now key kw missing f st =
     (case lookup_text fetch words now key st of
        (Inl x, st') \<Rightarrow> (Inl x, st')
      | (Inr None, st') \<Rightarrow> (Inr missing, st')
      | (Inr (Some en), st') \<Rightarrow> (map_sum id (f en) (text_format special kw (te_value_html en)), st'))"

definition missing_text :: "string \<Rightarrow> string" where
  "missing_text key = ''<i>[text:'' @ key @ '' not found]</i>''"

definition text_get ::
  "(string \<times> text_entry) list act \<Rightarrow> (string \<Rightarrow> string) \<Rightarrow> (string \<Rightarrow> bot_exn + string) \<Rightarrow> int \<Rightarrow> string \<Rightarrow> dict
    \<Rightarrow> string text_act" where
  "text_get fetch words special now key kw =
     with_text fetch words special now key kw (missing_text key) (\<lambda>en v. v)"

definition text_get_entry ::
  "(string \<times> text_entry) list act \<Rightarrow> (string \<Rightarrow> string) \<Rightarrow> (string \<Rightarrow> bot_exn + string) \<Rightarrow> int \<Rightarrow> string \<Rightarrow> dict
    \<Rightarrow> text_entry text_act" where
  "text_get_entry fetch words special now key kw =
     with_text fetch words special now key kw (plain_entry ''message'' (missing_text key))
       (\<lambda>en v. en\<lparr>te_value_html := v\<rparr>)"

definition text_get_button ::
  "(string \<times> text_entry) list act \<Rightarrow> (string \<Rightarrow> string) \<Rightarrow> (string \<Rightarrow> bot_exn + string) \<Rightarrow> int \<Rightarrow> string \<Rightarrow> dict
    \<Rightarrow> (string \<times> json) text_act" where
  "text_get_button fetch words special now key kw =
     with_text fetch words special now key kw (''???'', JNull) (\<lambda>en v. (v, te_icon_custom_emoji_id en))"

definition text_get_url_button ::
  "(string \<times> text_entry) list act \<Rightarrow> (string \<Rightarrow> string) \<Rightarrow> (string \<Rightarrow> bot_exn + string) \<Rightarrow> int \<Rightarrow> string \<Rightarrow> dict
    \<Rightarrow> (string \<times> json \<times> json) text_act" where
  "text_get_url_button fetch words special now key kw =
     with_text fetch words special now key kw (''???'', JNull, JNull)
       (\<lambda>en v. (v, te_icon_custom_emoji_id en, te_url en))"

definition invalidate :: "text_service \<Rightarrow> text_service" where
  "invalidate ts = ts\<lparr>ts_cache := [], ts_expires := 0\<rparr>"

end
