(* ===== verification/TextTheorems.thy ===== *)
theory TextTheorems
  imports BotTexts BotMoney
begin

text \<open>
  What the bot shows: messages repaired for Telegram keep their text and only tags Telegram
  knows, an edited text reaches the users once the cache has expired, and a backend that is
  out of reach is covered by the cache while one that answers with an error is not.
\<close>

section \<open>Tidy HTML\<close>

text \<open>
  Every bracket belongs to a complete tag whose name has the property \<open>P\<close>; the first argument
  of \<open>P\<close> tells closing tags from opening ones.
\<close>

definition tag_name :: "string \<Rightarrow> bool" where
  "tag_name n \<longleftrightarrow> n \<noteq> [] \<and> is_alpha (hd n) \<and> list_all name_char n"

definition attrs_ok :: "string \<Rightarrow> bool" where
  "attrs_ok a \<longleftrightarrow> (a = [] \<or> is_space (hd a)) \<and> CHR ''<'' \<notin> set a \<and> CHR ''>'' \<notin> set a"

inductive tidy_tag :: "(bool \<Rightarrow> string \<Rightarrow> bool) \<Rightarrow> string \<Rightarrow> bool" for P where
  open_tag: "tag_name n \<Longrightarrow> attrs_ok a \<Longrightarrow> P False (str_lower n) \<Longrightarrow> tidy_tag P (''<'' @ n @ a @ ''>'')"
| close_tag: "tag_name n \<Longrightarrow> list_all is_space b \<Longrightarrow> P True (str_lower n) \<Longrightarrow> tidy_tag P (''</'' @ n @ b @ ''>'')"

inductive tidy :: "(bool \<Rightarrow> string \<Rightarrow> bool) \<Rightarrow> string \<Rightarrow> bool" for P where
  tidy_end: "tidy P []"
| tidy_char: "c \<noteq> CHR ''<'' \<Longrightarrow> tidy P s \<Longrightarrow> tidy P (c # s)"
| tidy_tagged: "tidy_tag P t \<Longrightarrow> tidy P s \<Longrightarrow> tidy P (t @ s)"

text \<open>The text outside tags, without blanks.\<close>

fun visible :: "bool \<Rightarrow> string \<Rightarrow> string" where
  "visible inside [] = []"
| "visible inside (c # s) =
     (if inside then visible (c \<noteq> CHR ''>'') s
      else if c = CHR ''<'' then visible True s
      else if is_space c then visible False s else c # visible False s)"

subsection \<open>The shape of a tag\<close>

lemma space_chars [simp]: "\<not> is_space CHR ''<''" "\<not> is_space CHR ''>''" "\<not> is_space CHR ''/''"
  by (simp_all add: is_space_def)

lemma name_chars:
  "name_char c \<Longrightarrow> c \<noteq> CHR ''<'' \<and> c \<noteq> CHR ''>'' \<and> \<not> is_space c"
  by (auto simp: name_char_def is_alpha_def is_digit_def digit_val_def is_space_def Let_def split: if_splits)

definition tag_shape :: "string \<Rightarrow> bool" where
  "tag_shape t \<longleftrightarrow> (\<exists>b. t = ''<'' @ b @ ''>'' \<and> CHR ''<'' \<notin> set b \<and> CHR ''>'' \<notin> set b)"

lemma tidy_tag_shape: "tidy_tag P t \<Longrightarrow> tag_shape t"
proof (induction rule: tidy_tag.induct)
  case (open_tag n a)
  then show ?case
    using name_chars by (auto simp: tag_shape_def tag_name_def attrs_ok_def list_all_iff intro!: exI[of _ "n @ a"])
next
  case (close_tag n b)
  then show ?case
    using name_chars
    by (auto simp: tag_shape_def tag_name_def list_all_iff intro!: exI[of _ "''/'' @ n @ b"])
qed

lemma tidy_text: "CHR ''<'' \<notin> set x \<Longrightarrow> tidy P s \<Longrightarrow> tidy P (x @ s)"
  by (induction x) (auto intro: tidy_char)

lemma visible_text: "CHR ''<'' \<notin> set x \<Longrightarrow> visible False (x @ s) = filter (\<lambda>c. \<not> is_space c) x @ visible False s"
  by (induction x) auto

lemma visible_inside: "CHR ''>'' \<notin> set b \<Longrightarrow> visible True (b @ ''>'' @ s) = visible False s"
  by (induction b) auto

lemma visible_tag: "tag_shape t \<Longrightarrow> visible False (t @ s) = visible False s"
  using visible_inside by (auto simp: tag_shape_def)

text \<open>What a pattern may do at a tag: nothing, or replace the whole of it.\<close>

definition takes_tags :: "(string \<Rightarrow> bool) \<Rightarrow> (string \<Rightarrow> (string \<times> string) option) \<Rightarrow> bool" where
  "takes_tags ok m \<longleftrightarrow> (\<forall>c s. c \<noteq> CHR ''<'' \<longrightarrow> m (c # s) = None)
     \<and> (\<forall>t s. tag_shape t \<longrightarrow> m (t @ s) = None \<or> (\<exists>r. m (t @ s) = Some (r, s) \<and> ok r))"

lemma re_sub_text:
  assumes "\<And>c s. c \<noteq> CHR ''<'' \<Longrightarrow> m (c # s) = None" "CHR ''<'' \<notin> set x"
  shows "re_sub m (x @ s) = x @ re_sub m s"
  using assms(2) by (induction x) (auto simp: assms(1))

lemma re_sub_keeps:
  assumes "\<And>c s. c \<noteq> CHR ''<'' \<Longrightarrow> m (c # s) = None" "tag_shape t" "m (t @ s) = None"
  shows "re_sub m (t @ s) = t @ re_sub m s"
proof -
  obtain b where t: "t = ''<'' @ b @ ''>''" "CHR ''<'' \<notin> set (b @ ''>'')"
    using assms(2) by (auto simp: tag_shape_def)
  show ?thesis
    using re_sub_text[of m "b @ ''>''" s, OF assms(1) t(2)] assms(3) by (simp add: t(1))
qed

lemma re_sub_hits:
  assumes "m (t @ s) = Some (r, s)" "t \<noteq> []"
  shows "re_sub m (t @ s) = r @ re_sub m s"
  using assms by (cases t) auto

lemma takes_tags_text: "takes_tags ok m \<Longrightarrow> c \<noteq> CHR ''<'' \<Longrightarrow> m (c # s) = None"
  by (simp add: takes_tags_def)

lemma takes_tags_tag:
  assumes "takes_tags ok m" "tag_shape t" "m (t @ s) = Some x"
  shows "\<exists>r. m (t @ s) = Some (r, s) \<and> ok r"
  using assms(1)[unfolded takes_tags_def, THEN conjunct2, rule_format, OF assms(2), of s] assms(3) by simp

text \<open>One step of a pass over tidy HTML: a character or a tag.\<close>

lemma re_sub_at_tag:
  assumes "takes_tags ok m" "tag_shape t"
  shows "re_sub m (t @ s) = t @ re_sub m s \<or> (\<exists>r. ok r \<and> re_sub m (t @ s) = r @ re_sub m s)"
proof (cases "m (t @ s)")
  case None
  then show ?thesis using re_sub_keeps[of m t s] takes_tags_text[OF assms(1)] assms(2) by simp
next
  case (Some x)
  then obtain r where "m (t @ s) = Some (r, s)" "ok r" using takes_tags_tag[OF assms Some] by blast
  moreover have "t \<noteq> []" using assms(2) by (auto simp: tag_shape_def)
  ultimately show ?thesis using re_sub_hits[of m t s r] by blast
qed

definition blank_text :: "string \<Rightarrow> bool" where
  "blank_text r \<longleftrightarrow> CHR ''<'' \<notin> set r \<and> filter (\<lambda>c. \<not> is_space c) r = []"

lemma takes_tags_pass:
  assumes "takes_tags blank_text m" "tidy P s"
  shows "tidy P (re_sub m s) \<and> visible False (re_sub m s) = visible False s"
  using assms(2)
proof (induction rule: tidy.induct)
  case (tidy_char c s)
  have "re_sub m (c # s) = c # re_sub m s" using takes_tags_text[OF assms(1) tidy_char(1)] by simp
  then show ?case using tidy_char tidy.tidy_char[OF tidy_char(1)] by simp
next
  case (tidy_tagged t s)
  note shape = tidy_tag_shape[OF tidy_tagged(1)]
  from re_sub_at_tag[OF assms(1) shape, of s] show ?case
  proof (elim disjE exE conjE)
    assume "re_sub m (t @ s) = t @ re_sub m s"
    then show ?thesis
      using tidy_tagged.IH tidy.tidy_tagged[OF tidy_tagged(1)] by (simp add: visible_tag[OF shape])
  next
    fix r assume "blank_text r" "re_sub m (t @ s) = r @ re_sub m s"
    then show ?thesis
      using tidy_tagged.IH by (simp add: blank_text_def tidy_text visible_text visible_tag[OF shape])
  qed
qed (simp add: tidy.tidy_end)

text \<open>The replacement of a list item is no blank; only tidiness is left then.\<close>

lemma takes_tags_tidy:
  assumes "takes_tags (\<lambda>r. CHR ''<'' \<notin> set r) m" "tidy P s"
  shows "tidy P (re_sub m s)"
  using assms(2)
proof (induction rule: tidy.induct)
  case (tidy_char c s)
  have "re_sub m (c # s) = c # re_sub m s" using takes_tags_text[OF assms(1) tidy_char(1)] by simp
  then show ?case using tidy_char tidy.tidy_char[OF tidy_char(1)] by simp
next
  case (tidy_tagged t s)
  from re_sub_at_tag[OF assms(1) tidy_tag_shape[OF tidy_tagged(1)], of s] show ?case
    using tidy_tagged.IH tidy.tidy_tagged[OF tidy_tagged(1)] tidy_text by (elim disjE exE conjE) simp_all
qed (simp add: tidy.tidy_end)

subsection \<open>The patterns take whole tags\<close>

lemma prefix_ci_within:
  assumes "prefix_ci p (x @ CHR ''>'' # s)" "CHR ''>'' \<notin> set p"
  shows "length p \<le> length x"
proof (rule ccontr)
  assume "\<not> length p \<le> length x"
  then have "str_lower (take (length p) (x @ CHR ''>'' # s)) ! length x = CHR ''>''"
    by (simp add: str_lower_def take_Cons' nth_append) (simp add: lower_char_def)
  moreover have "length x < length p" using \<open>\<not> length p \<le> length x\<close> by simp
  ultimately have "p ! length x = CHR ''>''" using assms(1) by (simp add: prefix_ci_def)
  then show False using \<open>length x < length p\<close> assms(2) nth_mem by metis
qed

lemma dropWhile_to_gt:
  "CHR ''>'' \<notin> set x \<Longrightarrow> dropWhile (\<lambda>c. c \<noteq> CHR ''>'') (x @ CHR ''>'' # s) = CHR ''>'' # s"
  by (induction x) auto

lemma gt_drop [simp]: "CHR ''>'' \<notin> set x \<Longrightarrow> CHR ''>'' \<notin> set (drop n x)"
  by (auto dest: in_set_dropD)

lemma close_end_at:
  "CHR ''>'' \<notin> set x \<Longrightarrow> close_end (x @ CHR ''>'' # s) = (if list_all is_space x then Some s else None)"
  by (induction x) (auto simp: close_end_def)

lemma open_end_at:
  "CHR ''>'' \<notin> set x \<Longrightarrow>
     open_end (x @ CHR ''>'' # s) = (if x = [] \<or> is_space (hd x) then Some s else None)"
  by (cases x) (auto simp: open_end_def dropWhile_to_gt)

lemma named_tag_takes:
  assumes "CHR ''>'' \<notin> set name" "ok r"
  shows "takes_tags ok (subst r (close_tag_at name))" "takes_tags ok (subst r (open_tag_at name))"
proof -
  have out: "\<not> prefix_ci (CHR ''<'' # p) (c # s)" if "c \<noteq> CHR ''<''" for c s p
    using that by (auto simp: prefix_ci_def str_lower_def lower_char_def split: option.splits)
  have within: "length p \<le> length t" if "prefix_ci p (t @ CHR ''>'' # s)" "CHR ''>'' \<notin> set p" for p t s
    using that by (rule prefix_ci_within)
  show "takes_tags ok (subst r (close_tag_at name))"
    unfolding takes_tags_def
  proof (intro conjI allI impI)
    fix t s assume "tag_shape t"
    then obtain b where t: "t = (CHR ''<'' # b) @ [CHR ''>'']" "CHR ''>'' \<notin> set b"
      by (auto simp: tag_shape_def)
    then show "subst r (close_tag_at name) (t @ s) = None \<or>
        (\<exists>r'. subst r (close_tag_at name) (t @ s) = Some (r', s) \<and> ok r')"
      using within[of "''</'' @ name" "CHR ''<'' # b" s] assms
      by (auto simp: subst_def close_tag_at_def close_end_at)
  qed (use out in \<open>auto simp: subst_def close_tag_at_def\<close>)
  show "takes_tags ok (subst r (open_tag_at name))"
    unfolding takes_tags_def
  proof (intro conjI allI impI)
    fix t s assume "tag_shape t"
    then obtain b where t: "t = (CHR ''<'' # b) @ [CHR ''>'']" "CHR ''>'' \<notin> set b"
      by (auto simp: tag_shape_def)
    then show "subst r (open_tag_at name) (t @ s) = None \<or>
        (\<exists>r'. subst r (open_tag_at name) (t @ s) = Some (r', s) \<and> ok r')"
      using within[of "''<'' @ name" "CHR ''<'' # b" s] assms
      by (auto simp: subst_def open_tag_at_def open_end_at)
  qed (use out in \<open>auto simp: subst_def open_tag_at_def\<close>)
qed

lemma tag_shapeD:
  assumes "tag_shape t"
  obtains b where "t = CHR ''<'' # b @ [CHR ''>'']" "CHR ''>'' \<notin> set b" "CHR ''<'' \<notin> set b"
  using assms by (auto simp: tag_shape_def)

lemma prefix_ci_out: "c \<noteq> CHR ''<'' \<Longrightarrow> \<not> prefix_ci (CHR ''<'' # p) (c # s)"
  by (auto simp: prefix_ci_def str_lower_def lower_char_def split: option.splits)

lemma after_blanks:
  assumes "CHR ''>'' \<notin> set x"
  shows "dropWhile is_space (x @ CHR ''>'' # s) = dropWhile is_space x @ CHR ''>'' # s"
  using assms by (induction x) auto

lemma br_takes: "ok r \<Longrightarrow> takes_tags ok (subst r br_at)"
  unfolding takes_tags_def
proof (intro conjI allI impI)
  fix t s assume ok: "ok r" and "tag_shape t"
  then obtain b where t: "t = CHR ''<'' # b @ [CHR ''>'']" "CHR ''>'' \<notin> set b" by (blast elim: tag_shapeD)
  show "subst r br_at (t @ s) = None \<or> (\<exists>r'. subst r br_at (t @ s) = Some (r', s) \<and> ok r')"
  proof (cases "prefix_ci ''<br'' (t @ s)")
    case True
    then have len: "2 \<le> length b" using prefix_ci_within[of "''<br''" "CHR ''<'' # b" s] t by simp
    define x where "x = dropWhile is_space (drop 2 b)"
    have x: "CHR ''>'' \<notin> set x" using t(2) by (auto simp: x_def dest!: set_dropWhileD in_set_dropD)
    have "dropWhile is_space (drop 3 (t @ s)) = x @ CHR ''>'' # s"
      using len t after_blanks[of "drop 2 b" s] by (simp add: x_def)
    then have "br_at (t @ s) = after_prefix ''>''
        (if hd (x @ CHR ''>'' # s) = CHR ''/'' then tl (x @ CHR ''>'' # s) else x @ CHR ''>'' # s)"
      using True by (simp add: br_at_def Let_def)
    also have "\<dots> = (if x = [] \<or> x = ''/'' then Some s else None)"
      using x by (cases x; cases "tl x") (auto simp: after_prefix_def starts_with_def)
    finally show ?thesis using ok by (simp add: subst_def)
  qed (simp add: subst_def br_at_def)
qed (simp add: subst_def br_at_def prefix_ci_out)

lemma list_takes: "ok r \<Longrightarrow> takes_tags ok (subst r list_at)"
  unfolding takes_tags_def
proof (intro conjI allI impI)
  fix t s assume ok: "ok r" and "tag_shape t"
  then obtain b where t: "t = CHR ''<'' # b @ [CHR ''>'']" "CHR ''>'' \<notin> set b" by (blast elim: tag_shapeD)
  define x where "x = (if b \<noteq> [] \<and> hd b = CHR ''/'' then tl b else b)"
  have x: "CHR ''>'' \<notin> set x" using t(2) by (cases b) (auto simp: x_def)
  have body: "(if tl (t @ s) \<noteq> [] \<and> hd (tl (t @ s)) = CHR ''/'' then tl (tl (t @ s)) else tl (t @ s))
      = x @ CHR ''>'' # s"
    using t(1) by (cases b) (auto simp: x_def)
  have "dropWhile (\<lambda>c. c \<noteq> CHR ''>'') (drop 2 (x @ CHR ''>'' # s)) = CHR ''>'' # s"
    if "prefix_ci p (x @ CHR ''>'' # s)" "length p = 2" "CHR ''>'' \<notin> set p" for p
    using prefix_ci_within[OF that(1,3)] that(2) dropWhile_to_gt[of "drop 2 x" s] x by simp
  from this[of "''ul''"] this[of "''ol''"]
  have "list_at (t @ s) = None \<or> list_at (t @ s) = Some s"
    using t(1) body by (auto simp: list_at_def Let_def)
  then show "subst r list_at (t @ s) = None \<or> (\<exists>r'. subst r list_at (t @ s) = Some (r', s) \<and> ok r')"
    using ok by (auto simp: subst_def)
qed (simp add: subst_def list_at_def)

lemma blank_replacements [simp]:
  "blank_text newline" "blank_text (newline @ newline)" "blank_text []" "CHR ''<'' \<notin> set bullet"
  by (simp_all add: blank_text_def newline_def bullet_def is_space_def)

lemma block_tidy:
  assumes "tidy P s" "CHR ''>'' \<notin> set name" "blank_text cl" "blank_text op"
  shows "tidy P (block_pass name cl op s) \<and> visible False (block_pass name cl op s) = visible False s"
proof -
  let ?s = "re_sub (subst cl (close_tag_at name)) s"
  have 1: "tidy P ?s \<and> visible False ?s = visible False s"
    using named_tag_takes(1)[of name blank_text cl] assms by (intro takes_tags_pass) simp_all
  then have "tidy P (re_sub (subst op (open_tag_at name)) ?s)
      \<and> visible False (re_sub (subst op (open_tag_at name)) ?s) = visible False ?s"
    using named_tag_takes(2)[of name blank_text op] assms by (intro takes_tags_pass) simp_all
  then show ?thesis using 1 by (simp add: block_pass_def)
qed

lemma paragraphs_tidy:
  assumes "tidy P s" "\<forall>name\<in>set names. CHR ''>'' \<notin> set name"
  shows "tidy P (fold (\<lambda>name. block_pass name (newline @ newline) []) names s)
    \<and> visible False (fold (\<lambda>name. block_pass name (newline @ newline) []) names s) = visible False s"
  using assms
proof (induction names arbitrary: s)
  case (Cons name names)
  show ?case
    using Cons.IH[of "block_pass name (newline @ newline) [] s"]
      block_tidy[OF Cons.prems(1), of name "newline @ newline" "[]"] Cons.prems(2)
    by simp
qed simp

text \<open>The pass over list items may add a bullet, where there are any.\<close>

definition no_items :: "bool \<Rightarrow> string \<Rightarrow> bool" where
  "no_items cl n \<longleftrightarrow> n \<noteq> ''li''"

lemma lower_blank:
  assumes "is_space c \<or> c = CHR ''>''"
  shows "lower_char c = c"
proof (rule ccontr)
  assume "lower_char c \<noteq> c"
  then have "c \<in> set ''ABCDEFGHIJKLMNOPQRSTUVWXYZ''"
    unfolding lower_char_def by (metis (no_types, lifting) map_of_SomeD option.case_eq_if option.collapse set_zip_leftD)
  moreover have "list_all (\<lambda>c. \<not> is_space c \<and> c \<noteq> CHR ''>'') ''ABCDEFGHIJKLMNOPQRSTUVWXYZ''"
    by (simp add: is_space_def)
  ultimately show False using assms unfolding list_all_iff by blast
qed

text \<open>A pattern for the opening tag of one name takes no other tag.\<close>

lemma open_tag_only:
  assumes "tag_name n" "attrs_ok a" "list_all name_char w"
    and "open_tag_at w (CHR ''<'' # n @ a @ CHR ''>'' # s) \<noteq> None"
  shows "str_lower n = w"
proof -
  let ?k = "length w" and ?x = "n @ a @ CHR ''>'' # s"
  have w: "List.map lower_char (take ?k ?x) = w" and oe: "open_end (drop ?k ?x) \<noteq> None"
    using assms(4) by (auto simp: open_tag_at_def prefix_ci_def str_lower_def split: if_splits)
  have "\<not> length n < ?k"
  proof
    assume less: "length n < ?k"
    let ?c = "hd (a @ ''>'')"
    have "lower_char ?c = ?c" using assms(2) lower_blank by (cases a) (auto simp: attrs_ok_def)
    moreover have "List.map lower_char (take ?k ?x) ! length n = lower_char ?c"
      using less by (cases a) (simp_all add: nth_append)
    moreover have "name_char (w ! length n)" using assms(3) less by (simp add: list_all_length)
    ultimately have "name_char ?c" using w by simp
    then show False using assms(2) name_chars[of ?c] by (cases a) (auto simp: attrs_ok_def)
  qed
  moreover have "\<not> ?k < length n"
  proof
    assume less: "?k < length n"
    then have "name_char (n ! ?k)" "drop ?k ?x = n ! ?k # drop (Suc ?k) ?x"
      using assms(1) by (auto simp: tag_name_def list_all_length Cons_nth_drop_Suc[symmetric])
    then show False using oe name_chars by (auto simp: open_end_def)
  qed
  ultimately show ?thesis using w by (simp add: str_lower_def)
qed

lemma not_item:
  assumes "tidy no_items s"
  shows "re_sub (subst r (open_tag_at ''li'')) s = s"
  using assms
proof (induction rule: tidy.induct)
  case (tidy_char c s)
  then show ?case by (simp add: subst_def open_tag_at_def prefix_ci_out)
next
  case (tidy_tagged t s)
  have "open_tag_at ''li'' (t @ s) = None"
    using tidy_tagged(1)
  proof cases
    case (open_tag n a)
    then show ?thesis
      using open_tag_only[of n a "''li''" s]
      by (cases "open_tag_at ''li'' (t @ s)") (simp_all add: no_items_def name_char_def is_alpha_def)
  next
    case (close_tag n b)
    then show ?thesis by (simp add: open_tag_at_def prefix_ci_def str_lower_def lower_char_def)
  qed
  then have "subst r (open_tag_at ''li'') (t @ s) = None" by (simp add: subst_def)
  moreover have "subst r (open_tag_at ''li'') (c # x) = None" if "c \<noteq> CHR ''<''" for c x
    using that by (simp add: subst_def open_tag_at_def prefix_ci_out)
  ultimately show ?case
    using re_sub_keeps[of "subst r (open_tag_at ''li'')" t s] tidy_tag_shape[OF tidy_tagged(1)]
      tidy_tagged.IH by simp
qed simp

lemma items_tidy:
  assumes "tidy P s"
  shows "tidy P (block_pass ''li'' newline bullet s)
    \<and> (P = no_items \<longrightarrow> visible False (block_pass ''li'' newline bullet s) = visible False s)"
proof -
  let ?s = "re_sub (subst newline (close_tag_at ''li'')) s"
  have 1: "tidy P ?s \<and> visible False ?s = visible False s"
    using named_tag_takes(1)[of "''li''" blank_text newline] assms by (intro takes_tags_pass) simp_all
  moreover have "tidy P (re_sub (subst bullet (open_tag_at ''li'')) ?s)"
    by (rule takes_tags_tidy[OF named_tag_takes(2) conjunct1[OF 1]]) simp_all
  ultimately show ?thesis using not_item[of ?s bullet] by (auto simp: block_pass_def)
qed

lemma blocks_tidy:
  assumes "tidy P s"
  shows "tidy P (blocks s) \<and> (P = no_items \<longrightarrow> visible False (blocks s) = visible False s)"
proof -
  let ?s1 = "re_sub (subst newline br_at) s"
  let ?s2 = "fold (\<lambda>name. block_pass name (newline @ newline) []) double_break_tags ?s1"
  let ?s3 = "block_pass ''li'' newline bullet ?s2"
  have 1: "tidy P ?s1 \<and> visible False ?s1 = visible False s"
    by (rule takes_tags_pass[OF br_takes assms]) simp
  have 2: "tidy P ?s2 \<and> visible False ?s2 = visible False ?s1"
    using 1 by (intro paragraphs_tidy) (auto simp: double_break_tags_def)
  have 3: "tidy P ?s3 \<and> (P = no_items \<longrightarrow> visible False ?s3 = visible False ?s2)"
    using 2 by (intro items_tidy) simp
  then have "tidy P (re_sub (subst [] list_at) ?s3)
      \<and> visible False (re_sub (subst [] list_at) ?s3) = visible False ?s3"
    by (intro takes_tags_pass list_takes) simp_all
  then show ?thesis using 1 2 3 by (auto simp: blocks_def)
qed

subsection \<open>Spoilers\<close>

abbreviation joined :: "piece list \<Rightarrow> string" where
  "joined ps \<equiv> List.concat (List.map piece_str ps)"

lemma tag_rest:
  assumes "tag_shape t" "CHR ''>'' \<notin> set name"
  shows "open_tag_at name (t @ s) = Some x \<Longrightarrow> x = s" and "close_tag_at name (t @ s) = Some x \<Longrightarrow> x = s"
  using takes_tags_tag[OF named_tag_takes(2)[of name "\<lambda>x. True" "[]"] assms(1), of s "([], x)"]
    takes_tags_tag[OF named_tag_takes(1)[of name "\<lambda>x. True" "[]"] assms(1), of s "([], x)"] assms(2)
  by (simp_all add: subst_def)

lemma spans_text:
  assumes "CHR ''<'' \<notin> set x"
  shows "spans st (x @ s) = List.map (\<lambda>c. PText [c]) x @ spans st s"
  using assms
proof (induction x)
  case (Cons c x)
  then have "open_tag_at ''span'' (c # x @ s) = None" "close_tag_at ''span'' (c # x @ s) = None"
    using prefix_ci_out[of c] by (auto simp: open_tag_at_def close_tag_at_def)
  then show ?case using Cons by simp
qed simp

lemma joined_text [simp]: "List.concat (List.map (piece_str \<circ> (\<lambda>c. PText [c])) x) = x"
  by (induction x) simp_all

lemma spans_tag:
  assumes "tag_shape t"
  shows "(\<exists>st' w. joined (spans st (t @ s)) = w @ joined (spans st' s)
      \<and> w \<in> {[], ''<tg-spoiler>'', ''</tg-spoiler>''})
    \<or> joined (spans st (t @ s)) = t @ joined (spans st s)"
proof -
  obtain b where t: "t = CHR ''<'' # b @ [CHR ''>'']" "CHR ''<'' \<notin> set (b @ [CHR ''>''])"
    using assms by (auto elim: tag_shapeD)
  show ?thesis
  proof (cases "open_tag_at ''span'' (t @ s)")
    case (Some x)
    then have "x = s" using tag_rest(1)[OF assms, of "''span''" s x] by simp
    let ?b = "spoiler_open (take (length (t @ s) - length s) (t @ s))"
    have "joined (spans st (t @ s)) = (if ?b then ''<tg-spoiler>'' else []) @ joined (spans (?b # st) s)"
      using Some \<open>x = s\<close> t(1) by (simp add: Let_def)
    then show ?thesis by (intro disjI1 exI conjI) (assumption, simp)
  next
    case None
    show ?thesis
    proof (cases "close_tag_at ''span'' (t @ s)")
      case (Some x)
      then have "x = s" using tag_rest(2)[OF assms, of "''span''" s x] by simp
      then have "joined (spans st (t @ s)) =
          (if st \<noteq> [] \<and> hd st then ''</tg-spoiler>'' else []) @ joined (spans (tl st) s)"
        using Some None t(1) by simp
      then show ?thesis by (intro disjI1 exI conjI) (assumption, simp)
    next
      case none: None
      have "spans st (t @ s) = PText ''<'' # spans st ((b @ [CHR ''>'']) @ s)"
        using none None t(1) by simp
      then show ?thesis
        using spans_text[OF t(2), of st s] t(1) by (simp del: append_assoc)
    qed
  qed
qed

lemma spoiler_tags:
  assumes "P False ''tg-spoiler''" "P True ''tg-spoiler''"
  shows "tidy_tag P ''<tg-spoiler>''" "tidy_tag P ''</tg-spoiler>''"
proof -
  have "tag_name ''tg-spoiler''" "str_lower ''tg-spoiler'' = ''tg-spoiler''"
    by (simp_all add: tag_name_def name_char_def is_alpha_def str_lower_def lower_char_def)
  then show "tidy_tag P ''<tg-spoiler>''" "tidy_tag P ''</tg-spoiler>''"
    using open_tag[of "''tg-spoiler''" "[]" P] close_tag[of "''tg-spoiler''" "[]" P] assms
    by (simp_all add: attrs_ok_def)
qed

lemma spans_tidy:
  assumes "tidy P s" "P False ''tg-spoiler''" "P True ''tg-spoiler''"
  shows "tidy P (joined (spans st s)) \<and> visible False (joined (spans st s)) = visible False s"
  using assms(1)
proof (induction arbitrary: st rule: tidy.induct)
  case tidy_end
  have "tidy P (joined (List.map (\<lambda>b. PClose ''tg-spoiler'' ''</tg-spoiler>'') bs))
      \<and> visible False (joined (List.map (\<lambda>b. PClose ''tg-spoiler'' ''</tg-spoiler>'') bs)) = []" for bs :: "bool list"
    by (induction bs) (use tidy_tagged[OF spoiler_tags(2)[of P, OF assms(2,3)]] in \<open>auto intro: tidy.tidy_end\<close>)
  then show ?case by simp
next
  case (tidy_char c s)
  then show ?case
    using spans_text[of "[c]" st s] by (auto intro: tidy.tidy_char)
next
  case (tidy_tagged t s)
  have shape: "tag_shape t" by (rule tidy_tag_shape[OF tidy_tagged(1)])
  from spans_tag[OF shape, of st s] show ?case
  proof (elim disjE exE conjE)
    fix st' w assume "joined (spans st (t @ s)) = w @ joined (spans st' s)"
      and "w \<in> {[], ''<tg-spoiler>'', ''</tg-spoiler>''}"
    then show ?thesis
      using tidy_tagged.IH[of st'] tidy.tidy_tagged[OF spoiler_tags(1)[of P, OF assms(2,3)]]
        tidy.tidy_tagged[OF spoiler_tags(2)[of P, OF assms(2,3)]] visible_tag[OF shape]
      by auto
  next
    assume "joined (spans st (t @ s)) = t @ joined (spans st s)"
    then show ?thesis
      using tidy_tagged.IH[of st] tidy.tidy_tagged[OF tidy_tagged(1)] by (simp add: visible_tag[OF shape])
  qed
qed

lemma spans_balanced:
  "count_where (opens ''tg-spoiler'') (spans st s) + count_where id st
     = count_where (closes ''tg-spoiler'') (spans st s)"
proof (induction st s rule: spans.induct)
  case (1 st)
  then show ?case by (induction st) (simp_all add: count_where_Cons count_where_def)
next
  case (2 st c s)
  show ?case
  proof (cases "open_tag_at ''span'' (c # s)")
    case (Some rest)
    show ?thesis
      using 2(3)[OF Some refl] Some
      by (cases "spoiler_open (take (length (c # s) - length rest) (c # s))")
        (simp_all add: Let_def count_where_Cons)
  next
    case None
    show ?thesis
    proof (cases "close_tag_at ''span'' (c # s)")
      case (Some rest)
      show ?thesis using 2(2)[OF None Some] None Some by (cases st) (auto simp: count_where_Cons)
    next
      case none: None
      show ?thesis using 2(1)[OF None none] None none by (simp add: count_where_Cons)
    qed
  qed
qed

subsection \<open>Unknown tags\<close>

lemma name_scan:
  assumes "list_all name_char n" "\<not> name_char (hd (x @ ''>''))"
  shows "takeWhile name_char (n @ x @ CHR ''>'' # s) = n"
    and "dropWhile name_char (n @ x @ CHR ''>'' # s) = x @ CHR ''>'' # s"
proof -
  have "takeWhile name_char (x @ CHR ''>'' # s) = [] \<and> dropWhile name_char (x @ CHR ''>'' # s) = x @ CHR ''>'' # s"
    using assms(2) by (cases x) auto
  then show "takeWhile name_char (n @ x @ CHR ''>'' # s) = n"
    "dropWhile name_char (n @ x @ CHR ''>'' # s) = x @ CHR ''>'' # s"
    using assms(1) by (induction n) auto
qed

lemma after_name:
  "attrs_ok a \<Longrightarrow> \<not> name_char (hd (a @ ''>''))"
  "list_all is_space b \<Longrightarrow> \<not> name_char (hd (b @ ''>''))"
  using name_chars by (cases a; cases b; auto simp: attrs_ok_def)+

definition allowed_tag :: "string \<Rightarrow> bool" where
  "allowed_tag n \<longleftrightarrow> n \<in> set tg_allowed"

lemma keep_allowed_at:
  "keep_allowed n (t @ s) s = (if allowed_tag (str_lower n) then t else [], s)"
  by (simp add: keep_allowed_def allowed_tag_def)

lemma any_open_tags:
  assumes "tag_name n"
  shows "attrs_ok a \<Longrightarrow> any_open_at (CHR ''<'' # n @ a @ CHR ''>'' # s)
      = Some (if allowed_tag (str_lower n) then CHR ''<'' # n @ a @ [CHR ''>''] else [], s)"
    and "any_open_at (CHR ''<'' # CHR ''/'' # x) = None"
  using assms name_scan[of n a s] after_name(1)[of a] keep_allowed_at[of n "''<'' @ n @ a @ ''>''" s]
  by (auto simp: any_open_at_def after_prefix_def starts_with_def tag_name_def attrs_ok_def open_end_at is_alpha_def)

lemma any_close_tags:
  assumes "tag_name n"
  shows "any_close_at (CHR ''<'' # n @ x) = None"
    and "list_all is_space b \<Longrightarrow> any_close_at (CHR ''<'' # CHR ''/'' # n @ b @ CHR ''>'' # s)
      = Some (if allowed_tag (str_lower n) then CHR ''<'' # CHR ''/'' # n @ b @ [CHR ''>''] else [], s)"
proof -
  have "hd n \<noteq> CHR ''/''" using assms by (auto simp: tag_name_def is_alpha_def)
  then show "any_close_at (CHR ''<'' # n @ x) = None"
    using assms by (cases n) (auto simp: any_close_at_def after_prefix_def starts_with_def tag_name_def)
  assume b: "list_all is_space b"
  then have "CHR ''>'' \<notin> set b" by (auto simp: list_all_iff)
  then show "any_close_at (CHR ''<'' # CHR ''/'' # n @ b @ CHR ''>'' # s)
      = Some (if allowed_tag (str_lower n) then CHR ''<'' # CHR ''/'' # n @ b @ [CHR ''>''] else [], s)"
    using assms b name_scan[of n b s] after_name(2)[OF b] keep_allowed_at[of n "''</'' @ n @ b @ ''>''" s]
    by (auto simp: any_close_at_def after_prefix_def starts_with_def tag_name_def close_end_at)
qed

lemma strip_pass:
  assumes "tidy P s" and "\<And>c s. c \<noteq> CHR ''<'' \<Longrightarrow> m (c # s) = None"
    and "\<And>t s. tidy_tag P t \<Longrightarrow> m (t @ s) = None \<and> tidy_tag Q t
          \<or> m (t @ s) = Some (t, s) \<and> tidy_tag Q t \<or> m (t @ s) = Some ([], s)"
  shows "tidy Q (re_sub m s) \<and> visible False (re_sub m s) = visible False s"
  using assms(1)
proof (induction rule: tidy.induct)
  case (tidy_char c s)
  then show ?case using assms(2)[OF tidy_char(1), of s] tidy.tidy_char[OF tidy_char(1)] by simp
next
  case (tidy_tagged t s)
  have shape: "tag_shape t" by (rule tidy_tag_shape[OF tidy_tagged(1)])
  then have t: "t \<noteq> []" by (auto simp: tag_shape_def)
  have "m (t @ s) = None \<Longrightarrow> re_sub m (t @ s) = t @ re_sub m s"
    using re_sub_keeps[of m t s] assms(2) shape by blast
  then show ?case
    using assms(3)[OF tidy_tagged(1), of s] re_sub_hits[of m t s, OF _ t]
      tidy_tagged.IH tidy.tidy_tagged[of Q t "re_sub m s"]
    by (elim disjE conjE) (simp_all add: visible_tag[OF shape])
qed (simp add: tidy.tidy_end)

lemma strip_tidy:
  assumes "tidy P s"
  shows "tidy (\<lambda>cl. allowed_tag) (strip_unknown s) \<and> visible False (strip_unknown s) = visible False s"
proof -
  let ?Q = "\<lambda>cl n. cl \<or> allowed_tag n" and ?s = "re_sub any_open_at s"
  have 1: "tidy ?Q ?s \<and> visible False ?s = visible False s"
  proof (rule strip_pass[OF assms])
    fix t s assume "tidy_tag P t"
    then show "any_open_at (t @ s) = None \<and> tidy_tag ?Q t
        \<or> any_open_at (t @ s) = Some (t, s) \<and> tidy_tag ?Q t \<or> any_open_at (t @ s) = Some ([], s)"
    proof cases
      case (open_tag n a)
      then show ?thesis using any_open_tags(1)[of n a s] tidy_tag.open_tag[of n a ?Q] by auto
    next
      case (close_tag n b)
      then show ?thesis using any_open_tags(2)[of n] tidy_tag.close_tag[of n b ?Q] by auto
    qed
  qed (simp add: any_open_at_def after_prefix_def starts_with_def)
  have "tidy (\<lambda>cl. allowed_tag) (re_sub any_close_at ?s) \<and> visible False (re_sub any_close_at ?s) = visible False ?s"
  proof (rule strip_pass[OF conjunct1[OF 1]])
    fix t s assume "tidy_tag ?Q t"
    then show "any_close_at (t @ s) = None \<and> tidy_tag (\<lambda>cl. allowed_tag) t
        \<or> any_close_at (t @ s) = Some (t, s) \<and> tidy_tag (\<lambda>cl. allowed_tag) t \<or> any_close_at (t @ s) = Some ([], s)"
    proof cases
      case (open_tag n a)
      then show ?thesis
        using any_close_tags(1)[of n "a @ ''>'' @ s"] tidy_tag.open_tag[of n a "\<lambda>cl. allowed_tag"] by auto
    next
      case (close_tag n b)
      then show ?thesis
        using any_close_tags(2)[of n b s] tidy_tag.close_tag[of n b "\<lambda>cl. allowed_tag"] by auto
    qed
  qed (simp add: any_close_at_def after_prefix_def starts_with_def)
  then show ?thesis using 1 by (simp add: strip_unknown_def)
qed

subsection \<open>Newlines and ends\<close>

fun newlines :: "nat \<Rightarrow> string \<Rightarrow> nat" where
  "newlines n [] = n"
| "newlines n (c # s) = newlines (if c = CHR 0x0A then Suc n else 0) s"

lemma squeeze_capped: "2 \<le> n \<Longrightarrow> 2 \<le> k \<Longrightarrow> squeeze n s = squeeze k s"
  by (induction s) simp_all

lemma squeeze_append: "squeeze n (x @ s) = squeeze n x @ squeeze (newlines n x) s"
proof (induction x arbitrary: n)
  case (Cons c x)
  show ?case
  proof (cases "c = CHR 0x0A \<and> 2 \<le> n")
    case True
    have "squeeze n (x @ s) = squeeze (Suc n) (x @ s)" "squeeze n x = squeeze (Suc n) x"
      by (rule squeeze_capped; use True in simp)+
    then show ?thesis using True Cons.IH[of "Suc n"] by simp
  next
    case False
    then show ?thesis using Cons.IH by auto
  qed
qed simp

lemma squeeze_plain: "CHR 0x0A \<notin> set x \<Longrightarrow> squeeze n x = x"
  by (induction x arbitrary: n) auto

lemma squeeze_sub: "set (squeeze n x) \<subseteq> set x"
  by (induction x arbitrary: n) auto

lemma squeeze_hd: "squeeze 0 x = [] \<or> hd (squeeze 0 x) = hd x"
  by (cases x) auto

lemma squeeze_around:
  assumes "CHR 0x0A \<notin> set n" "n \<noteq> []"
  shows "squeeze k (n @ x @ [CHR ''>'']) = n @ squeeze 0 x @ [CHR ''>'']"
    and "newlines k (n @ x @ [CHR ''>'']) = 0"
proof -
  have "newlines k n = 0" using assms by (induction n arbitrary: k) (case_tac [2] n, auto)
  then show "squeeze k (n @ x @ [CHR ''>'']) = n @ squeeze 0 x @ [CHR ''>'']"
    using assms(1) by (simp add: squeeze_append squeeze_plain)
  have "newlines k (y @ [CHR ''>'']) = 0" for y
    by (induction y arbitrary: k) simp_all
  then show "newlines k (n @ x @ [CHR ''>'']) = 0" by (metis append_assoc)
qed

lemma squeeze_tag:
  assumes "tidy_tag P t"
  shows "tidy_tag P (squeeze k t) \<and> newlines k t = 0"
  using assms
proof cases
  case (open_tag n a)
  have n: "CHR 0x0A \<notin> set (''<'' @ n)"
    using open_tag(2) name_chars[of "CHR 0x0A"] by (auto simp: tag_name_def list_all_iff is_space_def)
  have "attrs_ok (squeeze 0 a)"
    using open_tag(3) squeeze_sub[of 0 a] squeeze_hd[of a] by (auto simp: attrs_ok_def)
  then have "tidy_tag P (''<'' @ n @ squeeze 0 a @ ''>'')"
    using open_tag by (intro tidy_tag.open_tag)
  then show ?thesis using squeeze_around[OF n, of k a] open_tag(1) by simp
next
  case (close_tag n b)
  have n: "CHR 0x0A \<notin> set (''</'' @ n)"
    using close_tag(2) name_chars[of "CHR 0x0A"] by (auto simp: tag_name_def list_all_iff is_space_def)
  have "list_all is_space (squeeze 0 b)"
    using close_tag(3) squeeze_sub[of 0 b] by (auto simp: list_all_iff)
  then have "tidy_tag P (''</'' @ n @ squeeze 0 b @ ''>'')"
    using close_tag by (intro tidy_tag.close_tag)
  then show ?thesis using squeeze_around[OF n, of k b] close_tag(1) by simp
qed

lemma squeeze_tidy:
  assumes "tidy P s"
  shows "tidy P (squeeze k s) \<and> visible False (squeeze k s) = visible False s"
  using assms
proof (induction arbitrary: k rule: tidy.induct)
  case (tidy_char c s)
  then show ?case by (auto simp: is_space_def intro: tidy.tidy_char)
next
  case (tidy_tagged t s)
  have t: "tidy_tag P (squeeze k t)" "newlines k t = 0" using squeeze_tag[OF tidy_tagged(1)] by auto
  show ?case
    using tidy_tagged.IH[of 0] tidy.tidy_tagged[OF t(1)] visible_tag[OF tidy_tag_shape[OF t(1)]]
      visible_tag[OF tidy_tag_shape[OF tidy_tagged(1)]]
    by (simp add: squeeze_append t(2))
qed (simp add: tidy.tidy_end)

definition rstrip :: "string \<Rightarrow> string" where
  "rstrip s = rev (dropWhile is_space (rev s))"

lemma rstrip_Cons: "rstrip (c # s) = (if rstrip s = [] \<and> is_space c then [] else c # rstrip s)"
  by (auto simp: rstrip_def dropWhile_append)

lemma rstrip_tagged: "tag_shape t \<Longrightarrow> rstrip (t @ s) = t @ rstrip s"
  by (auto simp: rstrip_def dropWhile_append tag_shape_def dropWhile_eq_Nil_conv)

lemma rstrip_tidy:
  assumes "tidy P s"
  shows "tidy P (rstrip s) \<and> visible False (rstrip s) = visible False s"
  using assms
proof (induction rule: tidy.induct)
  case (tidy_char c s)
  then show ?case by (auto simp: rstrip_Cons intro: tidy.intros)
next
  case (tidy_tagged t s)
  have shape: "tag_shape t" by (rule tidy_tag_shape[OF tidy_tagged(1)])
  show ?case
    using tidy_tagged.IH tidy.tidy_tagged[OF tidy_tagged(1)]
    by (simp add: rstrip_tagged[OF shape] visible_tag[OF shape])
qed (simp add: rstrip_def tidy.tidy_end)

lemma lstrip_tidy:
  assumes "tidy P s"
  shows "tidy P (dropWhile is_space s) \<and> visible False (dropWhile is_space s) = visible False s"
  using assms
proof (induction rule: tidy.induct)
  case (tidy_char c s)
  then show ?case by (auto intro: tidy.tidy_char)
next
  case (tidy_tagged t s)
  then have "dropWhile is_space (t @ s) = t @ s"
    using tidy_tag_shape[OF tidy_tagged(1)] by (auto simp: tag_shape_def)
  then show ?case using tidy_tagged tidy.tidy_tagged by metis
qed (simp add: tidy.tidy_end)

lemma str_strip_tidy:
  assumes "tidy P s"
  shows "tidy P (str_strip s) \<and> visible False (str_strip s) = visible False s"
  using rstrip_tidy[OF conjunct1[OF lstrip_tidy[OF assms]]] lstrip_tidy[OF assms]
  by (simp add: rstrip_def str_strip_def)

lemma normalize_tidy:
  assumes "tidy P (restore_emoji html)" "P False ''tg-spoiler''" "P True ''tg-spoiler''"
  shows "tidy (\<lambda>cl. allowed_tag) (normalize_message_html html)
    \<and> (P = no_items \<longrightarrow> visible False (normalize_message_html html) = visible False (restore_emoji html))"
proof -
  let ?b = "blocks (restore_emoji html)"
  have b: "tidy P ?b \<and> (P = no_items \<longrightarrow> visible False ?b = visible False (restore_emoji html))"
    by (rule blocks_tidy[OF assms(1)])
  have s: "tidy P (spoilers ?b) \<and> visible False (spoilers ?b) = visible False ?b"
    using spans_tidy[of P ?b "[]"] conjunct1[OF b] assms(2,3) by (simp add: spoilers_def)
  note u = strip_tidy[OF conjunct1[OF s]]
  note q = squeeze_tidy[OF conjunct1[OF u], of 0]
  note e = str_strip_tidy[OF conjunct1[OF q]]
  show ?thesis using b s u q e by (simp add: normalize_message_html_def)
qed


text \<open>Where the repair stops short: a tag put together from the pieces of another one, and a tag
  that closes itself, reach Telegram although it knows neither.\<close>

lemma message_html_gaps:
  "normalize_message_html ''<<x>p>'' = ''<p>''" "normalize_message_html ''<hr/>'' = ''<hr/>''"
  by code_simp+

section \<open>From the panel to the users\<close>

definition row_entry :: "text_row \<Rightarrow> text_entry" where
  "row_entry r = \<lparr>te_value_html = tx_value_html r, te_media_file_id = json_opt_str (tx_media_file_id r),
     te_media_kind = json_opt_str (tx_media_kind r),
     te_kind = JStr (if tx_kind r = [] then ''message'' else tx_kind r),
     te_icon_custom_emoji_id = json_opt_str (tx_icon_custom_emoji_id r), te_url = json_opt_str (tx_url r)\<rparr>"

lemma text_item_row: "text_item (text_json r) = Some (tx_key r, row_entry r)"
  by (simp add: text_item_def text_json_def row_entry_def get_or_def)

lemma map_of_updates:
  "map_of (fold (\<lambda>(k, v). AList.update k v) kvs m) k
     = (case map_of (rev kvs) k of None \<Rightarrow> map_of m k | Some v \<Rightarrow> Some v)"
  by (induction kvs arbitrary: m) (auto simp: update_conv' map_add_def split: option.split)

lemma map_of_distinct_row:
  assumes "distinct (List.map key rows)" "r \<in> set rows"
  shows "map_of (List.map (\<lambda>r. (key r, f r)) rows) (key r) = Some (f r)"
  using assms by (intro map_of_is_SomeI) (auto simp: comp_def)

lemma texts_of_listing:
  assumes "distinct (List.map tx_key (db_texts d))" "r \<in> set (db_texts d)"
  shows "map_of (texts_of (JArr (List.map text_json (all_texts collate d)))) (tx_key r) = Some (row_entry r)"
proof -
  let ?rows = "all_texts collate d"
  have "List.map_filter text_item (List.map text_json ?rows) = List.map (\<lambda>r. (tx_key r, row_entry r)) ?rows"
    by (simp add: map_filter_def text_item_row comp_def)
  moreover have "mset (List.map tx_key ?rows) = mset (List.map tx_key (db_texts d))"
    by (simp add: all_texts_def)
  then have "distinct (List.map tx_key (rev ?rows))"
    using assms(1) mset_eq_imp_distinct_iff by (metis distinct_rev rev_map)
  then have "map_of (List.map (\<lambda>r. (tx_key r, row_entry r)) (rev ?rows)) (tx_key r) = Some (row_entry r)"
    using assms(2) by (intro map_of_distinct_row) (simp_all add: all_texts_def)
  ultimately show ?thesis by (simp add: texts_of_def map_of_updates rev_map)
qed

text \<open>What a key shows after the cache has been filled from the backend.\<close>

lemma lookup_refreshed:
  assumes "be_net be (bt_requests s) = Answered" "ts_expires ts \<le> now" "ep (bt_db s) = (Inr j, bt_db s)"
    and "map_of (texts_of j) key = Some en"
  shows "\<exists>st. lookup_text (get_all_texts be ep) words now key (ts, s) = (Inr (Some (repaired en)), st)
    \<and> ts_expires (fst st) = now + ts_ttl ts"
proof -
  have "get_all_texts be ep s = (Inr (texts_of j), s\<lparr>bt_requests := Suc (bt_requests s)\<rparr>)"
    using assms(1,3) by (simp add: get_all_texts_def await_def call_def)
  moreover have "map_of (List.map (\<lambda>(k, en). (k, repaired en)) (texts_of j)) key = Some (repaired en)"
    using assms(4) by (simp add: map_of_map)
  ultimately show ?thesis
    using assms(2) by (simp add: lookup_text_def refresh_def resolve_def)
qed

lemma patch_text_row_keeps [simp]:
  "tx_id (patch_text_row admin p r) = tx_id r" "tx_key (patch_text_row admin p r) = tx_key r"
  "tx_kind (patch_text_row admin p r) = tx_kind r"
  "tx_value_html (patch_text_row admin p r) =
     (case xp_value_html p of None \<Rightarrow> tx_value_html r | Some v \<Rightarrow> v)"
  by (simp_all add: patch_text_row_def opt_set_def split: option.split)

lemma text_by_key_Some: "text_by_key d key = Some r \<Longrightarrow> r \<in> set (db_texts d) \<and> tx_key r = key"
  by (auto simp: text_by_key_def find_Some_iff)

lemma patched_keys:
  "List.map tx_key (db_texts (mod_text n i (patch_text_row admin p) d)) = List.map tx_key (db_texts d)"
  by (simp add: db_texts_mod_text row_upd_def)

lemma patch_text_Inr:
  assumes "patch_text e admin key p d = (Inr r, d')"
  shows "r \<in> set (db_texts d')" "tx_key r = key" "text_shown r"
    "List.map tx_key (db_texts d') = List.map tx_key (db_texts d)"
    "xp_value_html p = Some v \<Longrightarrow> tx_value_html r = v"
proof -
  obtain row where row: "find_text key d = Inr row"
    using assms by (auto simp: patch_text_def Let_def split: sum.splits if_splits)
  then have in_d: "row \<in> set (db_texts d)" "tx_key row = key"
    using text_by_key_Some[of d key row] by (auto simp: find_text_def or_404_def split: option.splits)
  have r: "r = touch_text (e_now e) (patch_text_row admin (validated p)) row" "text_shown r"
    "db_texts d' = db_texts (mod_text (e_now e) (tx_id row) (patch_text_row admin (validated p)) d)"
    using assms row by (auto simp: patch_text_def Let_def split: if_splits)
  show "r \<in> set (db_texts d')"
    unfolding r db_texts_mod_text row_upd_def using in_d(1) by force
  show "tx_key r = key" "text_shown r" "List.map tx_key (db_texts d') = List.map tx_key (db_texts d)"
    using r in_d(2) patched_keys by simp_all
  show "tx_value_html r = v" if "xp_value_html p = Some v"
    using r(1) that by (simp add: validated_def)
qed


section \<open>Outages and errors\<close>

text \<open>What is shown without asking the backend.\<close>

definition served :: "(string \<Rightarrow> string) \<Rightarrow> text_service \<Rightarrow> string \<Rightarrow> string" where
  "served words ts key = (case resolve words ts key of None \<Rightarrow> missing_text key | Some en \<Rightarrow> te_value_html en)"

lemma request_unreachable:
  assumes "\<forall>i<3. net (n + i) = NoConnection"
  shows "request e net idem f n d = (Inl BackendUnavailable, n + 3, d)"
  using assms[rule_format, of 0] assms[rule_format, of 1] assms[rule_format, of 2]
  by (simp add: request_def request_attempts_def numeral_3_eq_3 numeral_2_eq_2)

lemma request_server_error:
  assumes "\<forall>i<3. net (n + i) = Answered" "f d = (Inl (PyExn k m), d)" "k \<noteq> ''RequestValidationError''"
  shows "request e net True f n d =
    (Inl (client_error 500 (Some (error_payload e ''internal_error'' ''Internal server error'' []))), n + 3, d)"
  using assms(1)[rule_format, of 0] assms(1)[rule_format, of 1] assms(1)[rule_format, of 2] assms(2,3)
  by (simp add: request_def request_attempts_def numeral_3_eq_3 numeral_2_eq_2 http_answer_def)

text \<open>A backend out of reach is covered, one that answers with an error is not.  When no request
  gets through, every text is still shown, from the expired cache, the hard-coded wordings or as a
  placeholder; when the backend answers 500, asking for any text raises, whatever the cache holds.\<close>

theorem texts_survive_outage_only:
  assumes "ts_expires ts \<le> now" and "\<forall>i<3. be_net be (bt_requests s + i) = a"
    and "ep (bt_db s) = (Inl (PyExn k m), bt_db s)" and "k \<noteq> ''RequestValidationError''"
  shows "(a = NoConnection \<longrightarrow>
      fst (text_get (get_all_texts be ep) words special now key [] (ts, s)) = Inr (served words ts key))
    \<and> (a = Answered \<longrightarrow>
      (\<exists>details. fst (text_get (get_all_texts be ep) words special now key [] (ts, s))
         = Inl (BackendClient 500 (Some ''internal_error'') details)))"
proof (intro conjI impI)
  assume "a = NoConnection"
  then have "\<exists>s'. get_all_texts be ep s = (Inl BackendUnavailable, s')"
    using request_unreachable[of "be_net be" "bt_requests s" "be_env be" True ep "bt_db s"] assms(2)
    by (simp add: get_all_texts_def await_def call_def)
  then show "fst (text_get (get_all_texts be ep) words special now key [] (ts, s)) = Inr (served words ts key)"
    using assms(1)
    by (auto simp: text_get_def with_text_def lookup_text_def refresh_def served_def text_format_def
        split: option.split)
next
  assume "a = Answered"
  moreover have "\<exists>ds. client_error 500 (Some (error_payload (be_env be) ''internal_error'' ''Internal server error'' []))
      = BackendClient 500 (Some ''internal_error'') ds"
    using parse_error_envelope(1)[of "be_env be" "''internal_error''"]
    by (simp add: client_error_def split: prod.split) (metis fst_conv)
  ultimately obtain ds s' where "get_all_texts be ep s = (Inl (BackendClient 500 (Some ''internal_error'') ds), s')"
    using request_server_error[of "be_net be" "bt_requests s" ep "bt_db s" k m "be_env be"] assms(2-4)
    by (auto simp: get_all_texts_def await_def call_def)
  then show "\<exists>details. fst (text_get (get_all_texts be ep) words special now key [] (ts, s))
      = Inl (BackendClient 500 (Some ''internal_error'') details)"
    using assms(1) by (auto simp: text_get_def with_text_def lookup_text_def refresh_def)
qed

section \<open>Concrete inputs\<close>


definition fx_text :: text_row where
  "fx_text = \<lparr>tx_id = 1, tx_key = ''about'', tx_value_html = ''old'', tx_description = None,
     tx_media_file_id = None, tx_media_kind = None, tx_kind = ''message'',
     tx_icon_custom_emoji_id = None, tx_url = None, tx_updated_at = 0, tx_updated_by = None\<rparr>"

definition fx_texts_db :: db where "fx_texts_db = fx_db\<lparr>db_texts := [fx_text]\<rparr>"

definition fx_text_patch :: text_patch where
  "fx_text_patch = \<lparr>xp_value_html = Some ''<p>new</p>'', xp_description = None, xp_media_file_id = None,
     xp_media_kind = None, xp_icon_custom_emoji_id = None, xp_url = None\<rparr>"

definition fx_service_of_texts :: text_service where
  "fx_service_of_texts = \<lparr>ts_ttl = 60, ts_cache = [(''about'', plain_entry ''message'' ''old'')], ts_expires = 60\<rparr>"

lemma fx_patched:
  "\<exists>r. patch_text (fx_env 5 200 JNull) fx_admin ''about'' fx_text_patch fx_texts_db
      = (Inr r, snd (patch_text (fx_env 5 200 JNull) fx_admin ''about'' fx_text_patch fx_texts_db))
    \<and> tx_kind r = ''message''"
  by (simp add: patch_text_def text_patch_ok_def within_def link_ok_def fx_text_patch_def find_text_def
      text_by_key_def fx_texts_db_def fx_text_def or_404_def validated_def half_media_def Let_def text_shown_def
      patch_text_row_def opt_set_def new_media_def)


theorem texts_survive_outage_only_witness:
  "fst (text_get (get_all_texts (fx_be (fx_env 5 200 JNull) (\<lambda>n. NoConnection)) (\<lambda>d. (Inl (PyExn ''DBError'' ''''), d)))
      (\<lambda>k. k) (\<lambda>f. Inl BackendUnavailable) 60 ''about'' [] (fx_service_of_texts, fx_bot fx_db)) = Inr ''old''"
  using texts_survive_outage_only[of fx_service_of_texts 60 "fx_be (fx_env 5 200 JNull) (\<lambda>n. NoConnection)" "fx_bot fx_db"
      NoConnection "\<lambda>d. (Inl (PyExn ''DBError'' ''''), d)" "''DBError''" "''''"
      "\<lambda>k. k" "\<lambda>f. Inl BackendUnavailable" "''about''"]
  by (simp add: fx_service_of_texts_def fx_be_def served_def resolve_def plain_entry_def)

end
