(* ===== verification/Reissue.thy ===== *)
theory Reissue
  imports FreeTrial Scenarios
begin

text \<open>
  \<open>backend/scripts/reissue_free_trials.py\<close>: the operators' script that replaces the keys of
  running free trials.  The old key is deleted at the provider first, the old row is closed and a
  pending one is committed, then the new key is made; each subscription is on its own.  The script
  stops at once when the provider's address or token is not set; here they are.
\<close>

section \<open>The script\<close>

type_synonym reissue_target = "int \<times> int \<times> int \<times> string option"

definition on_free_tariff :: "db \<Rightarrow> sub_row \<Rightarrow> bool" where
  "on_free_tariff d s \<longleftrightarrow> map_option t_code (get_tariff d (s_tariff_id s)) = Some ''free''"

definition reissue_targets :: "db \<Rightarrow> reissue_target list" where
  "reissue_targets d =
     List.map (\<lambda>s. (s_id s, s_user_id s, s_tariff_id s, s_provider_id s))
       (filter (\<lambda>s. on_free_tariff d s \<and> s_status s = SubActive) (db_subs d))"

definition reissue_reason :: string where
  "reissue_reason = ''Auto-reissue after FREE tariff config change (1 device, 0 GB LTE).''"

text \<open>Step 1: \<open>Some\<close> is the exception that ends the reissue.\<close>

definition kill_old_key :: "env \<Rightarrow> int \<Rightarrow> string option \<Rightarrow> exn option" where
  "kill_old_key e i pid =
     (if \<not> str_truthy pid \<or> starts_with ''nlsub_test_'' (the pid) \<or> starts_with ''test_'' (the pid) then None
      else case delete_key e (the pid) (Some (''reissue-free-'' @ py_str i)) of
        Inr r \<Rightarrow> None
      | Inl x \<Rightarrow>
          if exn_class x = Some NorthLineClientError
             \<and> str_lower (exn_code x) \<in> {''invalid_provider_key'', ''not_found''}
          then None else Some x)"

definition reissue_days :: "tariff_row \<Rightarrow> int" where
  "reissue_days t = (if int_truthy (t_free_trial_days t) then the (t_free_trial_days t) else 3)"

definition reissue_devices :: "tariff_row \<Rightarrow> int" where
  "reissue_devices t = (if t_devices t \<noteq> 0 then t_devices t else 1)"

text \<open>Step 2, committed: the old row is closed and a pending one opened.\<close>

definition reissue_pending :: "env \<Rightarrow> int \<Rightarrow> user_row \<Rightarrow> tariff_row \<Rightarrow> db \<Rightarrow> db" where
  "reissue_pending e i u t d =
     create_sub e (u_id u) (t_id t) None (reissue_devices t) (reissue_days t) True
       (mod_sub (e_now e) i (\<lambda>s. s\<lparr>s_status := SubDeactivated, s_deactivated_at := Some (e_now e),
          s_deactivation_reason := Some reissue_reason\<rparr>) d)"

definition reissue_key :: "env \<Rightarrow> int \<Rightarrow> int \<Rightarrow> user_row \<Rightarrow> tariff_row \<Rightarrow> exn + key_response" where
  "reissue_key e i n u t =
     create_key e (reissue_days t) (reissue_devices t) (e_uuid e)
       [(''user_tg_id'', JInt (u_tg_id u)), (''internal_subscription_id'', JStr (py_str n)),
        (''free_trial'', JBool True), (''reissue_of'', JStr (py_str i))]
       (if t_unlimited t then Some True else None) (Some (t_lte_gb t))
       (build_branding (Some (t_code t)) True)"

definition reissue_activate :: "env \<Rightarrow> int \<Rightarrow> user_row \<Rightarrow> tariff_row \<Rightarrow> key_response \<Rightarrow> db \<Rightarrow> db" where
  "reissue_activate e n u t kr d =
     enqueue_message e (u_id u) (u_tg_id u) ''text''
       [(''text_key'', JStr ''free_trial_reissued''),
        (''format_kwargs'', JObj [(''key_url'', JStr (kr_key kr))]),
        (''parse_mode'', JStr ''HTML''), (''kind'', JStr ''free_trial_reissued''),
        (''subscription_id'', JInt n)] None
       (mod_sub (e_now e) n (\<lambda>s. s\<lparr>s_status := SubActive, s_provider_id := Some (kr_subscription_id kr),
          s_key_url := Some (kr_key kr), s_started_at := Some (e_now e),
          s_expires_at := Some (e_now e + days_of (reissue_days t))\<rparr>) d)"

definition no_row :: exn where
  "no_row = PyExn ''NoResultFound'' ''No row was found when one was required''"

definition reissue_one :: "env \<Rightarrow> reissue_target \<Rightarrow> db \<Rightarrow> (exn + unit) \<times> db" where
  "reissue_one e tg d =
     (case tg of (i, uid, tid, pid) \<Rightarrow>
        case kill_old_key e i pid of
          Some x \<Rightarrow> (Inl x, d)
        | None \<Rightarrow>
            (case (get_sub d i, get_tariff d tid, get_user d uid) of
               (Some s, Some t, Some u) \<Rightarrow>
                 (let n = next_sub d; d1 = reissue_pending e i u t d in
                  case reissue_key e i n u t of
                    Inr kr \<Rightarrow> (Inr (), reissue_activate e n u t kr d1)
                  | Inl x \<Rightarrow>
                      (Inl x, if is_northline_exn x
                              then mod_sub (e_now e) n (\<lambda>s. s\<lparr>s_status := SubFailed\<rparr>) d1 else d1))
             | _ \<Rightarrow> (Inl no_row, d)))"

text \<open>\<open>main\<close>: how many went well and how many failed; the exit code is 1 if any failed.\<close>

fun reissue_loop :: "env \<Rightarrow> reissue_target list \<Rightarrow> int \<Rightarrow> int \<Rightarrow> db \<Rightarrow> (int \<times> int) \<times> db" where
  "reissue_loop e [] ok bad d = ((ok, bad), d)"
| "reissue_loop e (tg # tgs) ok bad d =
     (case reissue_one e tg d of
        (Inr u, d') \<Rightarrow> reissue_loop e tgs (ok + 1) bad d'
      | (Inl x, d') \<Rightarrow> reissue_loop e tgs ok (bad + 1) d')"

definition reissue_main :: "env \<Rightarrow> db \<Rightarrow> int \<times> db" where
  "reissue_main e d =
     (case reissue_loop e (reissue_targets d) 0 0 d of ((ok, bad), d') \<Rightarrow> (if bad = 0 then 0 else 1, d'))"

section \<open>What a reissue does\<close>

lemma next_sub_mod [simp]:
  "(\<And>s. s_id (f s) = s_id s) \<Longrightarrow> next_sub (mod_sub now k f d) = next_sub d"
  by (simp add: next_sub_def fresh_id_def db_subs_mod_sub map_row_upd)

lemma reissue_pending_frame [simp]:
  "db_users (reissue_pending e i u t d) = db_users d"
  "db_tariffs (reissue_pending e i u t d) = db_tariffs d"
  "db_bts (reissue_pending e i u t d) = db_bts d"
  "db_outbox (reissue_pending e i u t d) = db_outbox d"
  by (simp_all add: reissue_pending_def create_sub_def)

lemma reissue_activate_frame [simp]:
  "db_users (reissue_activate e n u t kr d) = db_users d"
  "db_tariffs (reissue_activate e n u t kr d) = db_tariffs d"
  "db_bts (reissue_activate e n u t kr d) = db_bts d"
  by (simp_all add: reissue_activate_def)

text \<open>However a reissue ends, a row it does not open or close stays as it is.\<close>

lemma reissue_one_others:
  assumes "j \<noteq> i" "j \<noteq> next_sub d"
  shows "get_sub (snd (reissue_one e (i, uid, tid, pid) d)) j = get_sub d j"
  using assms
  by (auto simp: reissue_one_def reissue_pending_def reissue_activate_def create_sub_def Let_def
      split: option.split sum.split)


section \<open>A concrete run\<close>

definition fx_trial_db :: db where
  "fx_trial_db = fx_db\<lparr>db_subs := [(fx_sub 1 2 1000000)\<lparr>s_tariff_id := 2, s_provider_id := Some ''test_1''\<rparr>]\<rparr>"


end
