(* ===== verification/Idempotency.thy ===== *)
theory Idempotency
  imports Cron Fixtures
begin

text \<open>
  \<open>idempotency_service.py\<close> and \<open>idempotency_repo.py\<close>: an operation under a key runs once and its
  response is replayed.  The operation is an argument that may change the database and may
  raise; what another session reserves between the first look and the insert is one, too.
\<close>

section \<open>The service\<close>

definition get_idem :: "db \<Rightarrow> string \<Rightarrow> idem_row option" where
  "get_idem d key = List.find (\<lambda>r. ik_key r = key) (db_idem_keys d)"

definition put_idem :: "string \<Rightarrow> json \<Rightarrow> db \<Rightarrow> db" where
  "put_idem key j d = d\<lparr>db_idem_keys := List.map (\<lambda>r. if ik_key r = key then r\<lparr>ik_response := Some j\<rparr> else r)
                                        (db_idem_keys d)\<rparr>"

text \<open>\<open>String(64)\<close> columns.\<close>

definition too_long :: exn where
  "too_long = PyExn ''DBAPIError'' ''value too long for type character varying(64)''"

definition reserve_key :: "env \<Rightarrow> string \<Rightarrow> string \<Rightarrow> db \<Rightarrow> (exn + bool) \<times> db" where
  "reserve_key e key operation d =
     (if e_dialect e = Postgresql \<and> (64 < length key \<or> 64 < length operation) then (Inl too_long, d)
      else if get_idem d key \<noteq> None then (Inr False, d)
      else (Inr True, d\<lparr>db_idem_keys := db_idem_keys d @
             [\<lparr>ik_key = key, ik_operation = operation, ik_response = None, ik_created_at = e_now e\<rparr>]\<rparr>))"

definition store_response :: "string \<Rightarrow> json \<Rightarrow> db \<Rightarrow> db" where
  "store_response key j d = (if get_idem d key = None then d else put_idem key j d)"

definition generate :: "string \<Rightarrow> (db \<Rightarrow> (exn + json) \<times> db) \<Rightarrow> db \<Rightarrow> (exn + json) \<times> db" where
  "generate key gen d =
     (case gen d of
        (Inl x, d') \<Rightarrow> (Inl x, d')
      | (Inr j, d') \<Rightarrow> (Inr j, store_response key j d'))"

text \<open>\<open>race\<close> is what other sessions commit between the first look and the reservation.\<close>

definition get_or_set ::
  "env \<Rightarrow> (db \<Rightarrow> db) \<Rightarrow> string \<Rightarrow> string \<Rightarrow> (db \<Rightarrow> (exn + json) \<times> db) \<Rightarrow> db \<Rightarrow> (exn + json) \<times> db" where
  "get_or_set e race key operation gen d =
     (case get_idem d key of
        Some r \<Rightarrow>
          (case ik_response r of Some j \<Rightarrow> (Inr j, d) | None \<Rightarrow> generate key gen d)
      | None \<Rightarrow>
          (case reserve_key e key operation (race d) of
             (Inl x, d1) \<Rightarrow> (Inl x, d1)
           | (Inr True, d1) \<Rightarrow> generate key gen d1
           | (Inr False, d1) \<Rightarrow>
               (case Option.bind (get_idem d1 key) ik_response of
                  Some j \<Rightarrow> (Inr j, d1)
                | None \<Rightarrow> generate key gen d1)))"

section \<open>The response is replayed\<close>

lemma get_put_idem: "get_idem (put_idem key j d) key = map_option (ik_response_update (\<lambda>x. Some j)) (get_idem d key)"
proof -
  have "List.find (\<lambda>r. ik_key r = key) (List.map (\<lambda>r. if ik_key r = key then r\<lparr>ik_response := Some j\<rparr> else r) rows)
      = map_option (ik_response_update (\<lambda>x. Some j)) (List.find (\<lambda>r. ik_key r = key) rows)" for rows
    by (induction rows) auto
  then show ?thesis by (simp add: get_idem_def put_idem_def)
qed

definition answered :: "db \<Rightarrow> string \<Rightarrow> json \<Rightarrow> bool" where
  "answered d key j \<longleftrightarrow> Option.bind (get_idem d key) ik_response = Some j"

lemma answered_replays: "answered d key j \<Longrightarrow> get_or_set e race key operation gen d = (Inr j, d)"
  by (auto simp: answered_def get_or_set_def bind_eq_Some_conv)

lemma generate_answers:
  assumes "generate key gen d = (Inr j, d')" "get_idem (snd (gen d)) key \<noteq> None"
  shows "answered d' key j"
  using assms
  by (auto simp: generate_def answered_def store_response_def get_put_idem split: prod.splits sum.splits)

lemma reserve_reserves:
  "reserve_key e key operation d = (Inr b, d') \<Longrightarrow> get_idem d' key \<noteq> None"
  by (auto simp: reserve_key_def get_idem_def find_None_iff split: if_splits)

text \<open>An operation under an idempotency key runs to success at most once.  Once a call has
  returned a response, every later call with the key returns the same response and changes
  nothing, whatever operation it comes with and however much later, as long as the row is kept;
  whatever else the operation itself may do, it must only leave the reserved row in place.\<close>

theorem idempotent_response_replayed:
  assumes "get_or_set e race key operation gen d = (Inr j, d1)"
    and "\<And>x. get_idem x key \<noteq> None \<Longrightarrow> get_idem (snd (gen x)) key \<noteq> None"
    and "get_idem d2 key = get_idem d1 key"
  shows "get_or_set e2 race2 key operation2 gen2 d2 = (Inr j, d2)"
proof -
  have "answered d1 key j"
  proof (cases "get_idem d key")
    case None
    obtain b d' where r: "reserve_key e key operation (race d) = (Inr b, d')"
      using assms(1) None by (auto simp: get_or_set_def split: prod.splits sum.splits)
    note there = assms(2)[OF reserve_reserves[OF r]]
    show ?thesis
      using assms(1) None r generate_answers[of key gen d' j d1, OF _ there]
      by (cases b) (auto simp: get_or_set_def answered_def split: option.splits)
  next
    case (Some r)
    then show ?thesis
      using assms(1) generate_answers[of key gen d j d1, OF _ assms(2)]
      by (cases "ik_response r") (auto simp: get_or_set_def answered_def)
  qed
  then have "answered d2 key j" using assms(3) by (simp add: answered_def)
  then show ?thesis by (rule answered_replays)
qed

section \<open>Concrete inputs\<close>

text \<open>A lost race runs the operation twice: the loser finds the row without a response.\<close>

lemma lost_race_runs_again:
  "fst (get_or_set (fx_env 5 200 JNull) (\<lambda>d. snd (reserve_key (fx_env 5 200 JNull) ''k'' ''op'' d)) ''k'' ''op''
     (\<lambda>d. (Inr (JInt 1), d)) fx_db) = Inr (JInt 1)"
  by (simp add: get_or_set_def reserve_key_def generate_def get_idem_def fx_db_def empty_db_def)

theorem idempotent_response_replayed_witness:
  "get_or_set (fx_env 9 200 JNull) id ''k'' ''op'' (\<lambda>d. (Inr (JInt 2), empty_db))
     (snd (get_or_set (fx_env 5 200 JNull) id ''k'' ''op'' (\<lambda>d. (Inr (JInt 1), d)) fx_db))
   = (Inr (JInt 1), snd (get_or_set (fx_env 5 200 JNull) id ''k'' ''op'' (\<lambda>d. (Inr (JInt 1), d)) fx_db))"
proof -
  have "fst (get_or_set (fx_env 5 200 JNull) id ''k'' ''op'' (\<lambda>d. (Inr (JInt 1), d)) fx_db) = Inr (JInt 1)"
    by (simp add: get_or_set_def reserve_key_def generate_def get_idem_def fx_db_def empty_db_def)
  then obtain d1 where
    run: "get_or_set (fx_env 5 200 JNull) id ''k'' ''op'' (\<lambda>d. (Inr (JInt 1), d)) fx_db = (Inr (JInt 1), d1)"
    by (metis prod.collapse)
  show ?thesis
    using idempotent_response_replayed[OF run, of d1 "fx_env 9 200 JNull" id "''op''"] by (simp add: run)
qed

end
