(* ===== verification/Schedule.thy ===== *)
theory Schedule
  imports Cron Fixtures
begin

text \<open>
  \<open>worker/app/main.py\<close>: when ARQ starts which job.  A field that is left out matches every value,
  but the second is then 0.  Moments are whole seconds; \<open>zone\<close> is the offset of the worker's clock from UTC
  in seconds.  What the jobs do is in \<open>Cron\<close>; here the timetable and their time windows meet.
\<close>

section \<open>The timetable\<close>

record cron_job =
  cj_name :: string
  cj_hours :: "int list option"
  cj_minutes :: "int list option"
  cj_seconds :: "int list"

definition outbox_seconds :: "int list" where
  "outbox_seconds = List.map (\<lambda>i. 5 * int i) [0..<12]"

definition expire_minutes :: "int list" where
  "expire_minutes = List.map (\<lambda>i. 5 * int i) [0..<12]"

definition all_hours :: "int list" where
  "all_hours = List.map int [0..<24]"

definition reconcile_hours :: "int list" where
  "reconcile_hours = [1, 7, 13, 19]"

definition hourly :: "string \<Rightarrow> int \<Rightarrow> cron_job" where
  "hourly name m = \<lparr>cj_name = name, cj_hours = Some all_hours, cj_minutes = Some [m], cj_seconds = [0]\<rparr>"

definition cron_jobs :: "cron_job list" where
  "cron_jobs =
     [\<lparr>cj_name = ''outbox_dispatcher'', cj_hours = None, cj_minutes = None, cj_seconds = outbox_seconds\<rparr>,
      \<lparr>cj_name = ''expire_pending_payments'', cj_hours = None, cj_minutes = Some expire_minutes, cj_seconds = [0]\<rparr>,
      hourly ''cleanup_idempotency_keys'' 17,
      hourly ''notify_expiring_subscriptions'' 23,
      hourly ''mark_expired_subscriptions'' 43,
      hourly ''notify_expired_subscriptions'' 53,
      hourly ''notify_trial_expiring_subscriptions'' 37,
      \<lparr>cj_name = ''pick_scheduled_broadcasts'', cj_hours = None, cj_minutes = Some (List.map int [0..<60]),
        cj_seconds = [33]\<rparr>,
      \<lparr>cj_name = ''cleanup_logs'', cj_hours = Some [3], cj_minutes = Some [37], cj_seconds = [0]\<rparr>,
      \<lparr>cj_name = ''reconcile_subscriptions'', cj_hours = Some reconcile_hours, cj_minutes = Some [11], cj_seconds = [0]\<rparr>]"

definition matches :: "int list option \<Rightarrow> int \<Rightarrow> bool" where
  "matches vs i \<longleftrightarrow> (case vs of None \<Rightarrow> True | Some l \<Rightarrow> i \<in> set l)"

definition due :: "int \<Rightarrow> string \<Rightarrow> int \<Rightarrow> bool" where
  "due zone name t \<longleftrightarrow> (let l = t + zone in
     list_ex (\<lambda>j. cj_name j = name \<and> matches (cj_hours j) (l div 3600 mod 24)
       \<and> matches (cj_minutes j) (l div 60 mod 60) \<and> l mod 60 \<in> set (cj_seconds j)) cron_jobs)"

section \<open>Hourly jobs\<close>

lemma hour_range: "i mod 24 \<in> set all_hours" for i :: int
proof -
  have "i mod 24 = int (nat (i mod 24))" "nat (i mod 24) \<in> {0..<24}" by simp_all
  then show ?thesis unfolding all_hours_def set_map set_upt by blast
qed

lemma due_hourly:
  assumes "hourly name m \<in> set cron_jobs" "0 \<le> m" "m < 60" "(t + zone) mod 3600 = 60 * m"
  shows "due zone name t"
proof -
  let ?l = "t + zone"
  have "60 * (?l div 60 mod 60) + ?l mod 60 = 60 * m"
    using zmod_zmult2_eq[of 60 ?l 60] assms(4) by simp
  moreover have "0 \<le> ?l mod 60" "?l mod 60 < 60" by simp_all
  ultimately have q: "?l div 60 mod 60 = m" by linarith
  then have l: "?l div 60 mod 60 = m" "?l mod 60 = 0"
    using zmod_zmult2_eq[of 60 ?l 60] assms(4) by simp_all
  show ?thesis
    unfolding due_def Let_def list_ex_iff
    by (rule bexI[OF _ assms(1)]) (simp add: hourly_def matches_def l hour_range)
qed

lemma hourly_jobs:
  "hourly ''notify_expiring_subscriptions'' 23 \<in> set cron_jobs"
  "hourly ''mark_expired_subscriptions'' 43 \<in> set cron_jobs"
  "hourly ''notify_expired_subscriptions'' 53 \<in> set cron_jobs"
  "hourly ''notify_trial_expiring_subscriptions'' 37 \<in> set cron_jobs"
  by (simp_all add: cron_jobs_def)

text \<open>In every hour an hourly job is due once.\<close>

lemma next_due:
  assumes "hourly name m \<in> set cron_jobs" "0 \<le> m" "m < 60"
  obtains t where "due zone name t" "a \<le> t" "t < a + 3600" "(t + zone) mod 3600 = 60 * m"
proof
  let ?t = "a + (60 * m - zone - a) mod 3600"
  have "(?t + zone) mod 3600 = ((60 * m - zone - a) mod 3600 + (a + zone)) mod 3600"
    by (simp add: algebra_simps)
  also have "\<dots> = 60 * m" using assms(2,3) by (simp add: mod_add_left_eq)
  finally show m: "(?t + zone) mod 3600 = 60 * m" .
  show "due zone name ?t" by (rule due_hourly[OF assms m])
qed simp_all

section \<open>The timetable and the windows\<close>

text \<open>A job starts within a minute of its moment.\<close>

definition prompt :: "env \<Rightarrow> int \<Rightarrow> bool" where
  "prompt e t \<longleftrightarrow> 1000000 * t \<le> e_now e \<and> e_now e \<le> 1000000 * (t + 60)"

lemma whole_second:
  assumes "0 < (c::int)"
  shows "\<exists>y. c * y \<le> x \<and> x < c * y + c"
proof -
  have "c * (x div c) + x mod c = x" "0 \<le> x mod c" "x mod c < c" using assms by simp_all
  then show ?thesis by (intro exI[of _ "x div c"] conjI) linarith+
qed

text \<open>C39: Nobody's expiry slips through the timetable, whenever it falls and whatever the time zone:
  within an hour of it some run of mark_expired finds the subscription overdue, and the run of
  notify_expired ten minutes later finds the row in its window; before it, some run of each of the
  two reminders falls into the window of that reminder, about three days and, for trials, one
  day ahead.\<close>

theorem no_expiry_missed:
  "\<exists>t1 t2 t3 t4. due zone ''mark_expired_subscriptions'' t1 \<and> due zone ''notify_expired_subscriptions'' t2
    \<and> due zone ''notify_expiring_subscriptions'' t3 \<and> due zone ''notify_trial_expiring_subscriptions'' t4
    \<and> 1000000 * t1 \<le> x + hours 1 + 1000000 \<and> t2 = t1 + 600
    \<and> (\<forall>e s. prompt e t1 \<longrightarrow> s_status s = SubActive \<longrightarrow> s_expires_at s = Some x \<longrightarrow> sub_overdue e s)
    \<and> (\<forall>e s. prompt e t2 \<longrightarrow> s_status s = SubExpired \<longrightarrow> s_expires_at s = Some x \<longrightarrow> due_expired e s)
    \<and> (\<forall>e s. prompt e t3 \<longrightarrow> s_status s = SubActive \<longrightarrow> s_expires_at s = Some x \<longrightarrow> due_3d e s)
    \<and> (\<forall>e s. prompt e t4 \<longrightarrow> s_status s = SubActive \<longrightarrow> s_is_free_trial s \<longrightarrow> s_expires_at s = Some x
          \<longrightarrow> due_trial e s)"
proof -
  obtain y where x: "1000000 * y \<le> x" "x < 1000000 * y + 1000000"
    using whole_second[of 1000000 x] by auto
  obtain t1 where t1: "due zone ''mark_expired_subscriptions'' t1" "y + 1 \<le> t1" "t1 < y + 1 + 3600"
      "(t1 + zone) mod 3600 = 60 * 43"
    using next_due[OF hourly_jobs(2), of zone "y + 1"] by auto
  obtain t3 where t3: "due zone ''notify_expiring_subscriptions'' t3" "y - 262800 + 1 \<le> t3" "t3 < y - 262800 + 1 + 3600"
    using next_due[OF hourly_jobs(1), of zone "y - 262800 + 1"] by auto
  obtain t4 where t4: "due zone ''notify_trial_expiring_subscriptions'' t4" "y - 90000 + 1 \<le> t4" "t4 < y - 90000 + 1 + 3600"
    using next_due[OF hourly_jobs(4), of zone "y - 90000 + 1"] by auto
  have "((t1 + zone) mod 3600 + 600) mod 3600 = (t1 + zone + 600) mod 3600" by (rule mod_add_left_eq)
  then have "(t1 + 600 + zone) mod 3600 = ((t1 + zone) mod 3600 + 600) mod 3600" by (simp only: ac_simps)
  then have t2: "due zone ''notify_expired_subscriptions'' (t1 + 600)"
    using due_hourly[OF hourly_jobs(3)] t1(4) by simp
  note w = prompt_def hours_def days_of_def
  have "1000000 * t1 \<le> x + hours 1 + 1000000" using t1 x by (simp add: w)
  moreover have "sub_overdue e s" if "prompt e t1" "s_status s = SubActive" "s_expires_at s = Some x" for e s
    using that t1(2) x by (simp add: w sub_overdue_def)
  moreover have "due_expired e s"
    if "prompt e (t1 + 600)" "s_status s = SubExpired" "s_expires_at s = Some x" for e s
    using that t1(3) x by (simp add: w due_expired_def)
  moreover have "due_3d e s" if "prompt e t3" "s_status s = SubActive" "s_expires_at s = Some x" for e s
    using that t3(2,3) x by (simp add: w due_3d_def expires_between_def)
  moreover have "due_trial e s"
    if "prompt e t4" "s_status s = SubActive" "s_is_free_trial s" "s_expires_at s = Some x" for e s
    using that t4(2,3) x by (simp add: w due_trial_def expires_between_def)
  ultimately show ?thesis using t1(1) t2 t3(1) t4(1) by blast
qed

text \<open>A subscription that runs out ten seconds after the epoch, in Moscow.\<close>

theorem no_expiry_missed_witness:
  "\<exists>t. due 10800 ''mark_expired_subscriptions'' t
     \<and> sub_overdue (fx_env (1000000 * t) 200 JNull) (fx_sub 1 2 10000000)"
proof -
  obtain t where t: "due 10800 ''mark_expired_subscriptions'' t"
    "\<And>e s. prompt e t \<Longrightarrow> s_status s = SubActive \<Longrightarrow> s_expires_at s = Some 10000000 \<Longrightarrow> sub_overdue e s"
    using no_expiry_missed[of 10800 10000000] by blast
  moreover have "prompt (fx_env (1000000 * t) 200 JNull) t" by (simp add: prompt_def fx_env_def)
  ultimately show ?thesis by (auto simp: fx_sub_def)
qed

end
