(* ===== verification/AdminSession.thy ===== *)
theory AdminSession
  imports AdminAuth
begin

text \<open>
  \<open>api/admin/auth.py\<close> over the key service of \<open>AdminAuth\<close>, the tokens of \<open>core/security.py\<close> and the guard in front of
  the panel.  PyJWT is an argument: \<open>encode\<close> signs claims under the service's secret and \<open>decode now\<close> checks a
  token at a moment.  What the code relies on is its documented behaviour, \<open>jwt_ok\<close>.
\<close>

section \<open>Tokens\<close>

definition seconds_of :: "int \<Rightarrow> int" where
  "seconds_of t = t div 1000000"

text \<open>\<open>issue_admin_jwt\<close>: the claims and when they expire.\<close>

definition jwt_claims :: "env \<Rightarrow> int \<Rightarrow> string \<Rightarrow> int \<Rightarrow> (string \<times> json) list" where
  "jwt_claims e ttl label kid =
     [(''sub'', JStr label), (''kid'', JInt kid), (''iat'', JInt (seconds_of (e_now e))),
      (''exp'', JInt (seconds_of (e_now e + hours ttl)))]"

definition issue_admin_jwt ::
  "env \<Rightarrow> ((string \<times> json) list \<Rightarrow> string) \<Rightarrow> int \<Rightarrow> string \<Rightarrow> int \<Rightarrow> string \<times> int" where
  "issue_admin_jwt e encode ttl label kid = (encode (jwt_claims e ttl label kid), e_now e + hours ttl)"

text \<open>A token of the service is one word; it is accepted with its claims from the second of its issue up to the
  second it expires in, and refused as expired from then on.\<close>

definition jwt_ok ::
  "((string \<times> json) list \<Rightarrow> string) \<Rightarrow> (int \<Rightarrow> string \<Rightarrow> jwt_outcome) \<Rightarrow> (string \<times> json) list \<Rightarrow> bool" where
  "jwt_ok encode decode cs \<longleftrightarrow>
     encode cs \<noteq> [] \<and> str_strip (encode cs) = encode cs
   \<and> (\<forall>now i x. map_of cs ''iat'' = Some (JInt i) \<longrightarrow> map_of cs ''exp'' = Some (JInt x) \<longrightarrow> 1000000 * i \<le> now \<longrightarrow>
        decode now (encode cs) = (if now < 1000000 * x then JwtClaims cs else JwtExpired))"

section \<open>Endpoints\<close>

record session_config =
  sc_ttl_hours :: int
  sc_grace_hours :: int
  sc_encode :: "(string \<times> json) list \<Rightarrow> string"
  sc_decode :: "int \<Rightarrow> string \<Rightarrow> jwt_outcome"
  sc_hash :: "string \<Rightarrow> string"
  sc_verify :: "string \<Rightarrow> string \<Rightarrow> bool"

definition too_short_or_long :: exn where
  "too_short_or_long = PyExn ''RequestValidationError'' ''''"

text \<open>Token, expiry, label and key id.\<close>

definition login_endpoint ::
  "env \<Rightarrow> session_config \<Rightarrow> string \<Rightarrow> db \<Rightarrow> (exn + string \<times> int \<times> string \<times> int) \<times> db" where
  "login_endpoint e sc key d =
     (if length key < 8 \<or> 512 < length key then (Inl too_short_or_long, d)
      else case login e (sc_verify sc) key d of
        (Inl x, d') \<Rightarrow> (Inl x, d')
      | (Inr (kid, label), d') \<Rightarrow>
          (case issue_admin_jwt e (sc_encode sc) (sc_ttl_hours sc) label kid of
             (token, exp) \<Rightarrow> (Inr (token, exp, label, kid), d')))"

text \<open>\<open>AdminDep\<close> in front of a handler.\<close>

definition with_admin ::
  "env \<Rightarrow> session_config \<Rightarrow> string option \<Rightarrow> (admin_principal \<Rightarrow> db \<Rightarrow> (exn + 'a) \<times> db) \<Rightarrow> db \<Rightarrow> (exn + 'a) \<times> db" where
  "with_admin e sc auth f d =
     (case require_admin_jwt (sc_decode sc (e_now e)) auth of Inl x \<Rightarrow> (Inl x, d) | Inr p \<Rightarrow> f p d)"

record rotation =
  rn_plain :: string
  rn_new_id :: int
  rn_new_label :: string
  rn_previous_id :: int
  rn_previous_until :: int
  rn_token :: string
  rn_expires_at :: int

definition refresh_endpoint ::
  "env \<Rightarrow> session_config \<Rightarrow> string option \<Rightarrow> string \<Rightarrow> string option \<Rightarrow> db \<Rightarrow> (exn + rotation) \<times> db" where
  "refresh_endpoint e sc auth plain label =
     with_admin e sc auth (\<lambda>p d.
       if (case label of None \<Rightarrow> False | Some l \<Rightarrow> 64 < length l) then (Inl too_short_or_long, d)
       else case rotate_key e (sc_hash sc) plain (sc_grace_hours sc) (pr_kid p) label d of
         (Inl x, d') \<Rightarrow> (Inl x, d')
       | (Inr (new, until), d') \<Rightarrow>
           (case get_admin_key d (pr_kid p) of
              None \<Rightarrow> (Inl key_not_found, d')
            | Some prev \<Rightarrow>
                (let new_label = rotated_label e (ak_label prev) label in
                 case issue_admin_jwt e (sc_encode sc) (sc_ttl_hours sc) new_label new of
                   (token, exp) \<Rightarrow>
                     (Inr \<lparr>rn_plain = plain, rn_new_id = new, rn_new_label = new_label,
                          rn_previous_id = pr_kid p, rn_previous_until = until, rn_token = token,
                          rn_expires_at = exp\<rparr>, d'))))"

text \<open>The schema gives the missing number of hours a default of its own.\<close>

definition rotate_endpoint ::
  "env \<Rightarrow> session_config \<Rightarrow> string option \<Rightarrow> string \<Rightarrow> string \<Rightarrow> int option \<Rightarrow> db
    \<Rightarrow> (exn + string \<times> string \<times> int) \<times> db" where
  "rotate_endpoint e sc auth plain label grace =
     with_admin e sc auth (\<lambda>p d.
       let g = (case grace of None \<Rightarrow> 3 | Some g \<Rightarrow> g) in
       if label = [] \<or> 64 < length label \<or> g < 0 \<or> 168 < g then (Inl too_short_or_long, d)
       else case rotate_with_grace e (sc_hash sc) plain label g (pr_kid p) d of
         (Inl x, d') \<Rightarrow> (Inl x, d')
       | (Inr new, d') \<Rightarrow> (Inr (plain, label, new), d'))"

text \<open>Label, key id, issue and expiry in seconds.\<close>

definition me_endpoint ::
  "env \<Rightarrow> session_config \<Rightarrow> string option \<Rightarrow> db \<Rightarrow> (exn + string \<times> int \<times> int \<times> int) \<times> db" where
  "me_endpoint e sc auth = with_admin e sc auth (\<lambda>p d. (Inr (pr_label p, pr_kid p, pr_iat p, pr_exp p), d))"

definition keys_endpoint ::
  "env \<Rightarrow> session_config \<Rightarrow> string option \<Rightarrow> db \<Rightarrow> (exn + (admin_key_row \<times> bool) list) \<times> db" where
  "keys_endpoint e sc auth =
     with_admin e sc auth (\<lambda>p d.
       (Inr (List.map (\<lambda>k. (k, ak_id k = pr_kid p)) (sort_key (\<lambda>k. - ak_created_at k) (db_admin_keys d))), d))"

definition revoke_endpoint ::
  "env \<Rightarrow> session_config \<Rightarrow> string option \<Rightarrow> int \<Rightarrow> db \<Rightarrow> (exn + unit) \<times> db" where
  "revoke_endpoint e sc auth kid = with_admin e sc auth (\<lambda>p. revoke_key e (pr_kid p) kid)"

section \<open>How long a session lasts\<close>

definition bearer :: "string \<Rightarrow> string option" where
  "bearer token = Some (''Bearer '' @ token)"

definition token_expired :: exn where
  "token_expired = mk_error UnauthorizedError (Some ''Token expired'') (Some ''token_expired'') []"

lemma extract_bearer_token: "str_strip token = token \<Longrightarrow> extract_bearer (bearer token) = Some token"
  by (simp add: extract_bearer_def bearer_def str_truthy_def str_lower_def lower_char_def)

lemma multiple_below:
  assumes "0 < (c::int)"
  shows "c * (t div c) \<le> t"
proof -
  have "c * (t div c) + t mod c = t" "0 \<le> t mod c" using assms by simp_all
  then show ?thesis by linarith
qed

lemma issued_token:
  assumes "jwt_ok encode decode (jwt_claims e ttl label kid)" "e_now e \<le> now"
  shows "require_admin_jwt (decode now) (bearer (fst (issue_admin_jwt e encode ttl label kid)))
    = (if now < 1000000 * seconds_of (e_now e + hours ttl)
       then Inr \<lparr>pr_kid = kid, pr_label = label, pr_iat = seconds_of (e_now e), pr_exp = seconds_of (e_now e + hours ttl)\<rparr>
       else Inl token_expired)"
proof -
  let ?cs = "jwt_claims e ttl label kid" and ?t = "encode (jwt_claims e ttl label kid)"
  have "1000000 * seconds_of (e_now e) \<le> now"
    using assms(2) multiple_below[of 1000000 "e_now e"] unfolding seconds_of_def by auto
  then have d: "decode now ?t = (if now < 1000000 * seconds_of (e_now e + hours ttl) then JwtClaims ?cs else JwtExpired)"
    using assms(1) by (simp add: jwt_ok_def jwt_claims_def)
  have t: "?t \<noteq> []" "extract_bearer (bearer ?t) = Some ?t"
    using assms(1) extract_bearer_token by (auto simp: jwt_ok_def)
  obtain c t' where "?t = c # t'" using t(1) by (cases ?t) auto
  then show ?thesis
    using t d by (simp add: issue_admin_jwt_def require_admin_jwt_def token_expired_def jwt_claims_def as_py_int_def)
qed

lemma login_result:
  assumes "login_endpoint e sc key d = (Inr (token, exp, label, kid), d1)"
  shows "8 \<le> length key" "length key \<le> 512" "exp = e_now e + hours (sc_ttl_hours sc)"
    "token = fst (issue_admin_jwt e (sc_encode sc) (sc_ttl_hours sc) label kid)"
  using assms by (auto simp: login_endpoint_def issue_admin_jwt_def split: if_splits prod.splits sum.splits)

lemma revoked_unusable:
  assumes "fst (revoke_key e me kid d) = Inr ()" "e_now e \<le> now" "d' = snd (revoke_key e me kid d)"
    and "k \<in> set (db_admin_keys d')" "ak_id k = kid"
  shows "\<not> usable now k"
proof -
  have "db_admin_keys d' = row_upd ak_id kid (revoke_row (e_now e) (e_now e)) (db_admin_keys d)"
    using assms(1,3) by (simp add: revoke_key_def rollback_def db_admin_keys_mod_admin_key split: if_splits option.splits)
  then obtain k0 where "k = revoke_row (e_now e) (e_now e) k0"
    using assms(4,5) by (auto simp: row_upd_def split: if_splits)
  then show ?thesis using assms(2) by simp
qed

text \<open>C38: A session outlives its key.  A token lets its holder into the panel, under the label and the key it was
  issued for, exactly until the second it expires in, whatever the database says: when the key is revoked
  in between, the key itself is refused at once, but the token goes on working.\<close>

theorem session_outlives_key:
  assumes "login_endpoint e sc key d = (Inr (token, exp, label, kid), d1)"
    and "jwt_ok (sc_encode sc) (sc_decode sc) (jwt_claims e (sc_ttl_hours sc) label kid)"
    and "fst (revoke_key e2 me kid d2) = Inr ()" and "d3 = snd (revoke_key e2 me kid d2)"
    and "\<forall>k\<in>set (db_admin_keys d3). sc_verify sc key (ak_key_hash k) \<longrightarrow> ak_id k = kid"
    and "e_now e \<le> e_now e3" and "e_now e2 \<le> e_now e3"
  shows "fst (login_endpoint e3 sc key d3)
      = Inl (mk_error UnauthorizedError (Some ''Invalid admin key'') (Some ''invalid_admin_key'') [])
    \<and> me_endpoint e3 sc (bearer token) d3
      = ((if e_now e3 < 1000000 * seconds_of exp
          then Inr (label, kid, seconds_of (e_now e), seconds_of exp) else Inl token_expired), d3)"
proof
  note r = login_result[OF assms(1)]
  have "List.find (\<lambda>k. sc_verify sc key (ak_key_hash k)) (list_usable (e_now e3) d3) = None"
    using assms(5) revoked_unusable[OF assms(3,7,4)] by (auto simp: find_None_iff list_usable_def)
  moreover have "key \<noteq> []" using r(1) by auto
  ultimately show "fst (login_endpoint e3 sc key d3)
      = Inl (mk_error UnauthorizedError (Some ''Invalid admin key'') (Some ''invalid_admin_key'') [])"
    using r(1,2) by (simp add: login_endpoint_def login_def)
  show "me_endpoint e3 sc (bearer token) d3
      = ((if e_now e3 < 1000000 * seconds_of exp
          then Inr (label, kid, seconds_of (e_now e), seconds_of exp) else Inl token_expired), d3)"
    using issued_token[OF assms(2,6)] r(3,4) by (simp add: me_endpoint_def with_admin_def)
qed

text \<open>One key, of an hour's sessions, revoked by another administrator a moment after the login.\<close>

definition fx_keys_db :: db where
  "fx_keys_db = empty_db\<lparr>db_admin_keys := [\<lparr>ak_id = 1, ak_key_hash = ''secret-key'', ak_label = ''main'',
     ak_created_at = 0, ak_revoked_at = None, ak_valid_until = None\<rparr>]\<rparr>"

definition fx_session :: session_config where
  "fx_session = \<lparr>sc_ttl_hours = 1, sc_grace_hours = 3, sc_encode = (\<lambda>cs. ''token''),
     sc_decode = (\<lambda>now t. if now < 3600000000 then JwtClaims (jwt_claims (fx_env 5 200 JNull) 1 ''main'' 1) else JwtExpired),
     sc_hash = id, sc_verify = (=)\<rparr>"

theorem session_outlives_key_witness:
  "me_endpoint (fx_env 9 200 JNull) fx_session (bearer ''token'')
     (snd (revoke_key (fx_env 7 200 JNull) 2 1 fx_keys_db))
   = (Inr (''main'', 1, 0, 3600), snd (revoke_key (fx_env 7 200 JNull) 2 1 fx_keys_db))"
proof -
  have "\<exists>d1. login_endpoint (fx_env 5 200 JNull) fx_session ''secret-key'' fx_keys_db
      = (Inr (''token'', 3600000005, ''main'', 1), d1)"
    by (simp add: login_endpoint_def login_def list_usable_def usable_def fx_keys_db_def fx_session_def
        issue_admin_jwt_def hours_def)
  then obtain d1 where d1: "login_endpoint (fx_env 5 200 JNull) fx_session ''secret-key'' fx_keys_db
      = (Inr (''token'', 3600000005, ''main'', 1), d1)" by blast
  have "jwt_ok (sc_encode fx_session) (sc_decode fx_session)
      (jwt_claims (fx_env 5 200 JNull) (sc_ttl_hours fx_session) ''main'' 1)"
    by (simp add: jwt_ok_def fx_session_def jwt_claims_def seconds_of_def hours_def str_strip_def is_space_def)
  moreover have "fst (revoke_key (fx_env 7 200 JNull) 2 1 fx_keys_db) = Inr ()"
    by (simp add: revoke_key_def get_admin_key_def row_find_def fx_keys_db_def)
  moreover have "\<forall>k\<in>set (db_admin_keys (snd (revoke_key (fx_env 7 200 JNull) 2 1 fx_keys_db))). ak_id k = 1"
    by (simp add: revoke_key_def get_admin_key_def row_find_def fx_keys_db_def db_admin_keys_mod_admin_key row_upd_def)
  ultimately show ?thesis
    using session_outlives_key[OF d1 _ _ refl, of "fx_env 7 200 JNull" 2 fx_keys_db "fx_env 9 200 JNull"]
    by (simp add: seconds_of_def)
qed

end
