(* ===== verification/Migrations.thy ===== *)
theory Migrations
  imports AdminService
begin

text \<open>
  The migrations under \<open>backend/alembic/versions\<close> that change rows: 0008 to 0011 and 0013 to 0018.  The ones that only
  change tables and columns have no counterpart on \<open>db\<close>, whose records have the final columns; of the others the
  statements on rows are modelled, in one transaction each.  Russian wordings are the argument \<open>words\<close>.
\<close>

section \<open>Statements\<close>

text \<open>\<open>INSERT ... ON CONFLICT (key) DO NOTHING\<close>.\<close>

definition insert_text ::
  "env \<Rightarrow> string \<Rightarrow> string \<Rightarrow> string option \<Rightarrow> (string \<Rightarrow> string) \<Rightarrow> db \<Rightarrow> db" where
  "insert_text e kind key url words d =
     (if text_by_key d key = None
      then ins_text \<lparr>tx_id = next_text d, tx_key = key, tx_value_html = words key,
             tx_description = Some (words (key @ ''.description'')), tx_media_file_id = None,
             tx_media_kind = None, tx_kind = kind, tx_icon_custom_emoji_id = None, tx_url = url,
             tx_updated_at = e_now e, tx_updated_by = None\<rparr> d
      else d)"

definition delete_texts :: "(text_row \<Rightarrow> bool) \<Rightarrow> db \<Rightarrow> db" where
  "delete_texts P d = d\<lparr>db_texts := filter (\<lambda>r. \<not> P r) (db_texts d)\<rparr>"

definition update_texts :: "env \<Rightarrow> (text_row \<Rightarrow> bool) \<Rightarrow> (string \<Rightarrow> string) \<Rightarrow> db \<Rightarrow> db" where
  "update_texts e P f d = d\<lparr>db_texts := List.map
     (\<lambda>r. if P r then r\<lparr>tx_value_html := f (tx_value_html r), tx_updated_at := e_now e\<rparr> else r) (db_texts d)\<rparr>"

definition update_tariffs :: "(tariff_row \<Rightarrow> bool) \<Rightarrow> (tariff_row \<Rightarrow> tariff_row) \<Rightarrow> db \<Rightarrow> db" where
  "update_tariffs P f d = d\<lparr>db_tariffs := List.map (\<lambda>t. if P t then f t else t) (db_tariffs d)\<rparr>"

text \<open>\<open>REPLACE\<close> and \<open>LIKE '%...%'\<close>.\<close>

function sql_replace :: "string \<Rightarrow> string \<Rightarrow> string \<Rightarrow> string" where
  "sql_replace a b s =
     (if a = [] \<or> s = [] then s
      else if take (length a) s = a then b @ sql_replace a b (drop (length a) s)
      else hd s # sql_replace a b (tl s))"
  by pat_completeness auto
termination by (relation "measure (\<lambda>(a, b, s). length s)") auto

declare sql_replace.simps [simp del]

fun sql_like :: "string \<Rightarrow> string \<Rightarrow> bool" where
  "sql_like a [] \<longleftrightarrow> a = []"
| "sql_like a (c # s) \<longleftrightarrow> take (length a) (c # s) = a \<or> sql_like a s"

section \<open>Texts: 0008 to 0011 and 0015\<close>

definition button_keys :: "string list" where
  "button_keys =
     [''btn.main_menu.catalog'', ''btn.main_menu.profile'', ''btn.main_menu.support'', ''btn.main_menu.promo'',
      ''btn.main_menu.idea'', ''btn.main_menu.about'', ''btn.common.back'', ''btn.common.to_menu'',
      ''btn.common.subscribe'', ''btn.common.subscribed'', ''btn.profile.add_more'', ''btn.profile.topup'',
      ''btn.profile.referral'', ''btn.subscription.howto'', ''btn.subscription.extend'', ''btn.payment.sbp'',
      ''btn.payment.cryptobot'', ''btn.payment.crypto'', ''btn.payment.balance'', ''btn.payment.balance_locked'',
      ''btn.payment.pay'', ''btn.payment.cancel'', ''btn.ticket.create_support'', ''btn.ticket.create_idea'',
      ''btn.ticket.close_yes'', ''btn.ticket.close_no'', ''btn.promo.skip'', ''btn.promo.retry'',
      ''btn.promo.skip_alt'']"

definition upgrade_0008 :: "env \<Rightarrow> (string \<Rightarrow> string) \<Rightarrow> db \<Rightarrow> db" where
  "upgrade_0008 e words d = fold (\<lambda>k. insert_text e ''button'' k None words) button_keys d"

definition downgrade_0008 :: "db \<Rightarrow> db" where
  "downgrade_0008 d = delete_texts (\<lambda>r. tx_key r \<in> set button_keys \<and> tx_kind r = ''button'') d"

definition upgrade_0009 :: "env \<Rightarrow> (string \<Rightarrow> string) \<Rightarrow> db \<Rightarrow> db" where
  "upgrade_0009 e words d = insert_text e ''message'' ''key_issuing'' None words d"

definition downgrade_0009 :: "db \<Rightarrow> db" where
  "downgrade_0009 d = delete_texts (\<lambda>r. tx_key r = ''key_issuing'') d"

definition about_buttons :: "(string \<times> string) list" where
  "about_buttons = [(''btn.about.privacy'', ''https://pix-app.xyz/privacy''),
     (''btn.about.terms'', ''https://pix-app.xyz/terms''), (''btn.about.channel'', ''https://t.me/pix_vpn_app'')]"

definition upgrade_0010 :: "env \<Rightarrow> (string \<Rightarrow> string) \<Rightarrow> db \<Rightarrow> db" where
  "upgrade_0010 e words d =
     fold (\<lambda>(k, url). insert_text e ''button'' k (Some url) words) about_buttons
       (insert_text e ''message'' ''about'' None words d)"

definition downgrade_0010 :: "db \<Rightarrow> db" where
  "downgrade_0010 d = delete_texts (\<lambda>r. tx_key r \<in> set (''about'' # List.map fst about_buttons)) d"

definition upgrade_0011 :: "env \<Rightarrow> (string \<Rightarrow> string) \<Rightarrow> db \<Rightarrow> db" where
  "upgrade_0011 e words d = insert_text e ''button'' ''btn.referral.share'' None words d"

definition downgrade_0011 :: "db \<Rightarrow> db" where
  "downgrade_0011 d = delete_texts (\<lambda>r. tx_key r = ''btn.referral.share'') d"

definition upgrade_0015 :: "env \<Rightarrow> (string \<Rightarrow> string) \<Rightarrow> db \<Rightarrow> db" where
  "upgrade_0015 e words d = insert_text e ''message'' ''free_trial_reissued'' None words d"

definition downgrade_0015 :: "db \<Rightarrow> db" where
  "downgrade_0015 d = delete_texts (\<lambda>r. tx_key r = ''free_trial_reissued'') d"

section \<open>Repairs: 0013, 0014, 0018\<close>

definition legacy_promo :: "outbox_row \<Rightarrow> bool" where
  "legacy_promo r \<longleftrightarrow> ob_status r = ObPending \<and> map_of (ob_payload r) ''text_key'' = Some (JStr ''promo_balance_applied'')"

definition upgrade_0013 :: "db \<Rightarrow> db" where
  "upgrade_0013 d = d\<lparr>db_outbox := List.map
     (\<lambda>r. if legacy_promo r
          then r\<lparr>ob_status := ObFailed,
                 ob_last_error := Some ''purged: legacy promo_balance_applied (round-2 fix)''\<rparr>
          else r) (db_outbox d)\<rparr>"

definition total_field :: string where "total_field = ''{total}''"
definition amount_field :: string where "amount_field = ''{amount}''"

definition swap_field :: "env \<Rightarrow> string \<Rightarrow> string \<Rightarrow> db \<Rightarrow> db" where
  "swap_field e a b d = update_texts e (\<lambda>r. tx_key r = ''promo_discount_applied'' \<and> sql_like a (tx_value_html r))
     (sql_replace a b) d"

definition upgrade_0014 :: "env \<Rightarrow> db \<Rightarrow> db" where
  "upgrade_0014 e d =
     update_tariffs (\<lambda>t. t_code t = ''free'' \<and> t_lte_gb t \<noteq> 0) (\<lambda>t. t\<lparr>t_lte_gb := 0\<rparr>)
       (swap_field e total_field amount_field d)"

definition downgrade_0014 :: "env \<Rightarrow> db \<Rightarrow> db" where
  "downgrade_0014 e d =
     update_tariffs (\<lambda>t. t_code t = ''free'' \<and> t_lte_gb t = 0) (\<lambda>t. t\<lparr>t_lte_gb := 35\<rparr>)
       (swap_field e amount_field total_field d)"

definition upgrade_0018 :: "db \<Rightarrow> db" where
  "upgrade_0018 d = update_tariffs (\<lambda>t. t_code t \<in> {''free'', ''basic'', ''plus'', ''max''}) (\<lambda>t. t\<lparr>t_unlimited := True\<rparr>)
     (update_tariffs (\<lambda>t. True) (\<lambda>t. t\<lparr>t_unlimited := False\<rparr>) d)"

section \<open>The conversion pack: 0017\<close>

definition pack_keys :: "string list" where
  "pack_keys = [''key_issued_free_trial'', ''free_trial_reissued'', ''referral_bonus_credited'', ''referral_program_screen'']"

definition pack_text :: "env \<Rightarrow> (string \<Rightarrow> string) \<Rightarrow> string \<Rightarrow> db \<Rightarrow> db" where
  "pack_text e words key d =
     update_texts e (\<lambda>r. tx_key r = key \<and> tx_value_html r = words (key @ ''.old'')) (\<lambda>v. words (key @ ''.new'')) d"

definition pack_tariff :: "(string \<Rightarrow> string) \<Rightarrow> string \<Rightarrow> int \<Rightarrow> int \<Rightarrow> db \<Rightarrow> db" where
  "pack_tariff words code devices lte d =
     update_tariffs (\<lambda>t. t_code t = code)
       (\<lambda>t. t\<lparr>t_devices := devices, t_traffic_gb := None, t_lte_gb := lte, t_description_html := Some (words code)\<rparr>) d"

definition is_ultra :: "db \<Rightarrow> int \<Rightarrow> bool" where
  "is_ultra d tid \<longleftrightarrow> list_ex (\<lambda>t. t_id t = tid \<and> t_code t = ''ultra'') (db_tariffs d)"

definition hide_ultra :: "db \<Rightarrow> db" where
  "hide_ultra d =
     (let d1 = update_tariffs (\<lambda>t. t_code t = ''ultra'') (\<lambda>t. t\<lparr>t_is_active := False\<rparr>) d in
      d1\<lparr>db_durations := List.map (\<lambda>td. if is_ultra d1 (td_tariff_id td) then td\<lparr>td_is_active := False\<rparr> else td)
                           (db_durations d1)\<rparr>)"

definition drop_ultra :: "db \<Rightarrow> db" where
  "drop_ultra d =
     d\<lparr>db_durations := filter (\<lambda>td. \<not> is_ultra d (td_tariff_id td)) (db_durations d),
       db_tariffs := filter (\<lambda>t. t_code t \<noteq> ''ultra'') (db_tariffs d)\<rparr>"

definition regrant_trials :: "env \<Rightarrow> db \<Rightarrow> db" where
  "regrant_trials e d = d\<lparr>db_subs := List.map
     (\<lambda>s. if s_is_free_trial s \<and> s_created_at s < e_now e then s\<lparr>s_is_free_trial := False\<rparr> else s) (db_subs d)\<rparr>"

text \<open>
  The branch that hides the tariff sends two statements in one call; \<open>several\<close> is whether the driver takes that
  (asyncpg, which \<open>env.py\<close> configures, does not), and a refusal rolls the migration back.
\<close>

definition several_statements :: exn where
  "several_statements = PyExn ''ProgrammingError'' ''cannot insert multiple commands into a prepared statement''"

definition upgrade_0017 :: "env \<Rightarrow> bool \<Rightarrow> (string \<Rightarrow> string) \<Rightarrow> db \<Rightarrow> (exn + unit) \<times> db" where
  "upgrade_0017 e several words d =
     (let d1 = fold (pack_text e words) pack_keys d;
          d2 = pack_tariff words ''max'' 10 30 (pack_tariff words ''plus'' 4 15 (pack_tariff words ''basic'' 2 10 d1)) in
      if list_ex (\<lambda>s. is_ultra d2 (s_tariff_id s)) (db_subs d2)
      then if several then (Inr (), regrant_trials e (hide_ultra d2)) else (Inl several_statements, d)
      else (Inr (), regrant_trials e (drop_ultra d2)))"

section \<open>What the migrations keep\<close>

lemma clean_migrations [simp]:
  "clean a (insert_text e kind key url words d) = clean a d"
  "clean a (delete_texts P d) = clean a d"
  "clean a (update_texts e P f d) = clean a d"
  "clean a (update_tariffs Q g d) = clean a d"
  "clean a (upgrade_0013 d) = clean a d"
  by (rule clean_same; simp add: insert_text_def delete_texts_def update_texts_def update_tariffs_def upgrade_0013_def)+

text \<open>Every other upgrade is a clean change, like an administrator's.\<close>

lemma upgrades_clean:
  "clean d (upgrade_0008 e words d)" "clean d (upgrade_0009 e words d)" "clean d (upgrade_0010 e words d)"
  "clean d (upgrade_0011 e words d)" "clean d (upgrade_0013 d)" "clean d (upgrade_0014 e d)"
  "clean d (upgrade_0015 e words d)" "clean d (upgrade_0018 d)"
  by (auto simp: upgrade_0008_def upgrade_0009_def upgrade_0010_def upgrade_0011_def upgrade_0014_def swap_field_def
      upgrade_0015_def upgrade_0018_def intro!: clean_fold split: prod.split)

text \<open>The new wordings of 0014 no longer hold the field, so running it again changes nothing.\<close>

lemma sql_replace_prefix:
  assumes "CHR ''{'' \<notin> set w" "take (length w) (sql_replace (CHR ''{'' # a) (CHR ''{'' # b) s) = w"
  shows "take (length w) s = w"
  using assms
proof (induction w arbitrary: s)
  case (Cons c w)
  have "s \<noteq> []" "take (Suc (length a)) s \<noteq> CHR ''{'' # a"
    using Cons.prems by (auto simp: sql_replace.simps[of _ _ s] split: if_splits)
  then have "sql_replace (CHR ''{'' # a) (CHR ''{'' # b) s = hd s # sql_replace (CHR ''{'' # a) (CHR ''{'' # b) (tl s)"
    by (subst sql_replace.simps) simp
  then show ?case using Cons.prems \<open>s \<noteq> []\<close> Cons.IH[of "tl s"] by (cases s) auto
qed simp

lemma no_total_left: "\<not> sql_like total_field (sql_replace total_field amount_field s)"
proof (induction s rule: length_induct)
  case (1 s)
  let ?r = "sql_replace total_field amount_field"
  consider (nil) "s = []" | (hit) "s \<noteq> []" "take (length total_field) s = total_field"
    | (step) c s' where "s = c # s'" "take (length total_field) s \<noteq> total_field" by (cases s) auto
  then show ?case
  proof cases
    case nil
    then show ?thesis by (simp add: sql_replace.simps total_field_def)
  next
    case hit
    then have "?r s = amount_field @ ?r (drop (length total_field) s)"
      by (subst sql_replace.simps) (simp add: total_field_def)
    moreover have "sql_like total_field (amount_field @ x) = sql_like total_field x" for x
      by (simp add: total_field_def amount_field_def)
    moreover have "\<not> sql_like total_field (?r (drop (length total_field) s))"
      using 1 hit(1) by (simp add: total_field_def)
    ultimately show ?thesis by simp
  next
    case step
    have "total_field \<noteq> []" by (simp add: total_field_def)
    then have r: "?r s = c # ?r s'" using step by (subst sql_replace.simps) auto
    have "take (length total_field) (c # ?r s') \<noteq> total_field"
    proof
      assume "take (length total_field) (c # ?r s') = total_field"
      then have "c = CHR ''{''" "take (length ''total}'') (?r s') = ''total}''" by (simp_all add: total_field_def)
      then have "take (length total_field) s = total_field"
        using sql_replace_prefix[of "''total}''" "''total}''" "''amount}''" s'] step(1)
        by (simp add: total_field_def amount_field_def)
      then show False using step(2) by simp
    qed
    then show ?thesis using 1 step(1) r by simp
  qed
qed

lemma upgrade_0014_again: "upgrade_0014 e2 (upgrade_0014 e d) = upgrade_0014 e d"
proof -
  have "swap_field e2 total_field amount_field (update_tariffs P f (swap_field e total_field amount_field d))
      = update_tariffs P f (swap_field e total_field amount_field d)" for P f
    by (auto simp: swap_field_def update_texts_def update_tariffs_def no_total_left intro!: map_idI)
  then show ?thesis
    by (simp add: upgrade_0014_def update_tariffs_def)
qed

text \<open>An amount an administrator had set for the free tariff is lost, on the way up and on the way down.\<close>

lemma upgrade_0014_overrides:
  assumes "t \<in> set (db_tariffs d)" "t_code t = ''free''"
  shows "t\<lparr>t_lte_gb := 0\<rparr> \<in> set (db_tariffs (upgrade_0014 e d))"
    and "t\<lparr>t_lte_gb := 35\<rparr> \<in> set (db_tariffs (downgrade_0014 e2 (upgrade_0014 e d)))"
proof -
  have up: "db_tariffs (upgrade_0014 e d)
      = List.map (\<lambda>t. if t_code t = ''free'' then t\<lparr>t_lte_gb := 0\<rparr> else t) (db_tariffs d)"
    by (auto simp: upgrade_0014_def update_tariffs_def swap_field_def update_texts_def)
  then show zero: "t\<lparr>t_lte_gb := 0\<rparr> \<in> set (db_tariffs (upgrade_0014 e d))" using assms by force
  show "t\<lparr>t_lte_gb := 35\<rparr> \<in> set (db_tariffs (downgrade_0014 e2 (upgrade_0014 e d)))"
    using zero assms(2)
    by (auto simp: downgrade_0014_def update_tariffs_def swap_field_def update_texts_def intro!: rev_image_eqI)
qed

section \<open>The conversion pack\<close>

text \<open>Fewer trials and nothing else the invariants look at.\<close>

lemma service_fewer_trials:
  assumes "service_ok d" "db_users d' = db_users d" "db_bts d' = db_bts d" "db_refs d' = db_refs d"
    "db_promos d' = db_promos d" "db_promo_acts d' = db_promo_acts d" "db_tickets d' = db_tickets d"
    "db_payments d' = db_payments d" "\<And>uid. trial_count d' uid \<le> trial_count d uid"
  shows "service_ok d'"
  using assms(1,9) money_ok_cong[OF assms(2-6)] tickets_ok_cong[OF assms(7)] users_ok_cong[OF assms(2)]
    pays_cong[OF assms(8)] unfolding service_ok_def one_trial_count by (meson order_trans)

lemma count_where_map_le:
  "(\<And>x. P (f x) \<Longrightarrow> P x) \<Longrightarrow> count_where P (List.map f xs) \<le> count_where P xs"
  by (induction xs) (auto simp: count_where_Cons count_where_def)

lemma regrant_trial_count: "trial_count (regrant_trials e d) uid \<le> trial_count d uid"
  unfolding trial_count_def regrant_trials_def by (simp, rule count_where_map_le) (simp split: if_splits)

lemma regrant_no_trial:
  "(\<forall>s\<in>set (db_subs d). s_user_id s = uid \<longrightarrow> s_created_at s < e_now e) \<Longrightarrow> \<not> has_free_trial (regrant_trials e d) uid"
  by (auto simp: has_free_trial_def regrant_trials_def list_ex_iff split: if_splits)

definition packed :: "env \<Rightarrow> (string \<Rightarrow> string) \<Rightarrow> db \<Rightarrow> db" where
  "packed e words d = pack_tariff words ''max'' 10 30 (pack_tariff words ''plus'' 4 15
     (pack_tariff words ''basic'' 2 10 (fold (pack_text e words) pack_keys d)))"

lemma packed_frame [simp]:
  "db_users (packed e words d) = db_users d" "db_bts (packed e words d) = db_bts d"
  "db_refs (packed e words d) = db_refs d" "db_promos (packed e words d) = db_promos d"
  "db_promo_acts (packed e words d) = db_promo_acts d" "db_tickets (packed e words d) = db_tickets d"
  "db_payments (packed e words d) = db_payments d" "db_subs (packed e words d) = db_subs d"
  by (simp_all add: packed_def pack_tariff_def update_tariffs_def pack_text_def update_texts_def pack_keys_def)

lemma image_upd: "(\<And>x. key (f x) = key x) \<Longrightarrow> key ` (\<lambda>x. if P x then f x else x) ` A = key ` A"
  unfolding image_image by (rule image_cong) auto

lemma pack_tariff_ids: "t_id ` set (db_tariffs (pack_tariff words c m n d)) = t_id ` set (db_tariffs d)"
  by (simp add: pack_tariff_def update_tariffs_def image_upd del: if_image_distrib)

lemma packed_tariff_ids: "t_id ` set (db_tariffs (packed e words d)) = t_id ` set (db_tariffs d)"
  unfolding packed_def pack_tariff_ids by (simp add: pack_text_def update_texts_def pack_keys_def)

lemma pack_text_keeps:
  "row \<in> set (db_texts d) \<Longrightarrow> tx_value_html row \<noteq> words (tx_key row @ ''.old'') \<Longrightarrow>
     row \<in> set (db_texts (pack_text e words key d))"
  by (force simp: pack_text_def update_texts_def)

lemma packed_texts:
  assumes "row \<in> set (db_texts d)" "tx_value_html row \<noteq> words (tx_key row @ ''.old'')"
  shows "row \<in> set (db_texts (packed e words d))"
proof -
  have "row \<in> set (db_texts (fold (pack_text e words) keys d))" for keys
    using assms by (induction keys arbitrary: d) (simp_all add: pack_text_keeps)
  then show ?thesis by (simp add: packed_def pack_tariff_def update_tariffs_def)
qed

text \<open>Hiding or dropping the retired tariff.\<close>

lemma ultra_frame [simp]:
  "db_users (hide_ultra d) = db_users d" "db_users (drop_ultra d) = db_users d"
  "db_bts (hide_ultra d) = db_bts d" "db_bts (drop_ultra d) = db_bts d"
  "db_refs (hide_ultra d) = db_refs d" "db_refs (drop_ultra d) = db_refs d"
  "db_promos (hide_ultra d) = db_promos d" "db_promos (drop_ultra d) = db_promos d"
  "db_promo_acts (hide_ultra d) = db_promo_acts d" "db_promo_acts (drop_ultra d) = db_promo_acts d"
  "db_tickets (hide_ultra d) = db_tickets d" "db_tickets (drop_ultra d) = db_tickets d"
  "db_payments (hide_ultra d) = db_payments d" "db_payments (drop_ultra d) = db_payments d"
  "db_subs (hide_ultra d) = db_subs d" "db_subs (drop_ultra d) = db_subs d"
  "db_texts (hide_ultra d) = db_texts d" "db_texts (drop_ultra d) = db_texts d"
  by (simp_all add: hide_ultra_def drop_ultra_def update_tariffs_def Let_def)

lemma hidden_tariff_ids: "t_id ` set (db_tariffs (hide_ultra d)) = t_id ` set (db_tariffs d)"
  by (simp add: hide_ultra_def update_tariffs_def Let_def image_upd del: if_image_distrib)

lemma dropped_tariff_ids:
  "i \<in> t_id ` set (db_tariffs d) \<Longrightarrow> \<not> is_ultra d i \<Longrightarrow> i \<in> t_id ` set (db_tariffs (drop_ultra d))"
  by (auto simp: drop_ultra_def is_ultra_def list_ex_iff)

lemma regrant_frame [simp]:
  "db_users (regrant_trials e d) = db_users d" "db_bts (regrant_trials e d) = db_bts d"
  "db_refs (regrant_trials e d) = db_refs d" "db_promos (regrant_trials e d) = db_promos d"
  "db_promo_acts (regrant_trials e d) = db_promo_acts d" "db_tickets (regrant_trials e d) = db_tickets d"
  "db_payments (regrant_trials e d) = db_payments d" "db_texts (regrant_trials e d) = db_texts d"
  "db_tariffs (regrant_trials e d) = db_tariffs d"
  "s_tariff_id ` set (db_subs (regrant_trials e d)) = s_tariff_id ` set (db_subs d)"
  by (simp_all add: regrant_trials_def image_upd del: if_image_distrib)

lemma upgrade_0017_cases:
  assumes "upgrade_0017 e several words d = (r, d')"
  obtains (refused) "r = Inl several_statements" "d' = d"
  | (hidden) "r = Inr ()" "d' = regrant_trials e (hide_ultra (packed e words d))"
  | (dropped) "r = Inr ()" "d' = regrant_trials e (drop_ultra (packed e words d))"
      "\<forall>s\<in>set (db_subs d). \<not> is_ultra (packed e words d) (s_tariff_id s)"
  using assms by (auto simp: upgrade_0017_def Let_def packed_def[symmetric] list_ex_iff split: if_splits)

text \<open>The foreign key from subscriptions to tariffs.\<close>

definition tariffs_there :: "db \<Rightarrow> bool" where
  "tariffs_there d \<longleftrightarrow> (\<forall>s\<in>set (db_subs d). get_tariff d (s_tariff_id s) \<noteq> None)"

lemma tariffs_there_ids: "tariffs_there d \<longleftrightarrow> s_tariff_id ` set (db_subs d) \<subseteq> t_id ` set (db_tariffs d)"
  by (auto simp: tariffs_there_def get_tariff_def row_find_None)


section \<open>A concrete migration\<close>

text \<open>A shop with the retired tariff and a referral text an administrator has rewritten.\<close>

definition fx_old_text :: text_row where
  "fx_old_text = \<lparr>tx_id = 1, tx_key = ''referral_bonus_credited'', tx_value_html = ''ours'', tx_description = None,
     tx_media_file_id = None, tx_media_kind = None, tx_kind = ''message'', tx_icon_custom_emoji_id = None,
     tx_url = None, tx_updated_at = 0, tx_updated_by = None\<rparr>"

definition fx_old_shop :: db where
  "fx_old_shop = empty_db\<lparr>db_tariffs := [fx_tariff, fx_tariff\<lparr>t_id := 9, t_code := ''ultra''\<rparr>],
     db_texts := [fx_old_text]\<rparr>"


end
