(* ===== verification/Spec2Isabelle.thy ===== *)
theory Spec2Isabelle
  imports DeliveryTheorems Solvency TgHtml Dispatcher BroadcastTheorems AdminUsers BotTickets AdminReports
    TextTheorems Reissue Idempotency Schedule AdminSession Migrations
begin

text \<open>
  PIX VPN service: a Telegram bot sells VPN subscriptions.  The backend (FastAPI,
  \<open>src/backend/app\<close>) owns the PostgreSQL database and offers endpoints to the bot,
  to the payment gateways (Platega and CryptoBot, which call webhooks) and to an
  administrators' panel; it calls the VPN provider NorthLine to issue, extend and stop
  keys.  The worker (\<open>src/worker/app\<close>) delivers queued Telegram messages and runs
  scheduled jobs on the same database.  The bot (\<open>src/bot/app\<close>) is the user interface.

  Model.  The database is the record \<open>db\<close>: one list of records per table, in insertion
  order (\<open>Schema\<close>, from \<open>backend/app/db/models\<close>).  An operation is a function
  \<open>env \<Rightarrow> ... \<Rightarrow> db \<Rightarrow> (exn + 'a) \<times> db\<close>: \<open>Inl\<close> is a raised exception, and the database in
  the result is what was committed, so a rollback is the old database.  The environment
  \<open>env\<close> holds what a request sees from outside: the clock, the settings, the SQL
  dialect, and the answers of every HTTP service as a function of the call and the
  attempt number.  Times are microseconds as \<open>int\<close>, money is kopecks as \<open>int\<close>, as Python
  has them; JSON values are the datatype \<open>json\<close>, in which \<open>JText\<close> stands for a Russian
  text with its arguments.

  Theories, in the order they build on each other:
  \<^item> \<open>Prelude\<close>: JSON, Python's \<open>int()\<close> and \<open>str()\<close>, tables of rows with the locale
    \<open>row_table\<close> for reading after writing; \<open>Schema\<close>: the tables, their accessors and the
    frame rules; \<open>Errors\<close>: \<open>core/exceptions.py\<close>, the environment; \<open>Calendar\<close>: dates.
  \<^item> \<open>Logging\<close>: \<open>core/logging.py\<close> and \<open>admin_alert_service.py\<close>; \<open>Outbox\<close>:
    \<open>outbox_service.py\<close> with the locale \<open>claim_queue\<close>; \<open>Wallet\<close>: balance and ledger;
    \<open>NorthLine\<close>: \<open>northline_client.py\<close>; \<open>Invoices\<close>: \<open>platega_client.py\<close>,
    \<open>cryptobot_client.py\<close>; \<open>Repos\<close>: the repositories.
  \<^item> \<open>Promo\<close>, \<open>Referral\<close>, \<open>Balance\<close>, \<open>Extension\<close>, \<open>Payments\<close>, \<open>FreeTrial\<close>, \<open>Tickets\<close>,
    \<open>Reconcile\<close>, \<open>Users\<close>, \<open>AdminAuth\<close>: the services of the same names under
    \<open>backend/app/services\<close>; \<open>AdminSession\<close>: \<open>api/admin/auth.py\<close> and the tokens; \<open>Webhooks\<close>: \<open>api/webhook\<close>; \<open>Cron\<close>: the SQL jobs of
    \<open>worker/app/tasks\<close> with the locale \<open>reminder\<close>.
  \<^item> \<open>System\<close>: the inductive relation \<open>step\<close>, one committed operation of the service, and
    its invariant \<open>service_ok\<close> in the locale \<open>transition_system\<close>; \<open>Ledger\<close>: the service
    refines an abstract bank (locale \<open>simulation\<close>); \<open>Solvency\<close>: no negative balances.
  \<^item> \<open>TgHtml\<close>: \<open>core/tg_html.py\<close>, from the editor's HTML to Telegram's; \<open>Dispatcher\<close>: the
    worker's \<open>outbox_dispatcher.py\<close> with \<open>telegram_client.py\<close> and the backend's \<open>api/bot/outbox.py\<close>.
  \<^item> \<open>AdminCommon\<close>: \<open>audit_service.py\<close>, pages and orderings; \<open>AdminSubscriptions\<close>,
    \<open>AdminUsers\<close>: \<open>api/admin/subscriptions.py\<close>, \<open>api/admin/users.py\<close>; \<open>Broadcasts\<close>:
    \<open>api/admin/broadcasts.py\<close> and the worker's \<open>broadcasts.py\<close>; \<open>BroadcastRuns\<close>: the relation
    \<open>bc_step\<close>, in which administrators, the scheduler and any number of jobs interleave, with
    its invariant \<open>world_ok\<close>; \<open>BroadcastTheorems\<close>: what follows for every run.
  \<^item> \<open>AdminCatalog\<close>: \<open>api/admin/tariffs.py\<close>, \<open>promos.py\<close>; \<open>AdminReports\<close>: \<open>payments.py\<close>, \<open>stats.py\<close>,
    \<open>logs.py\<close>; \<open>Texts\<close>: the stored texts with the endpoints of the bot and the panel; \<open>Reseller\<close>:
    \<open>api/admin/northline.py\<close> over the rest of \<open>northline_client.py\<close>, with pydantic's models as lists
    of fields; \<open>Seeds\<close>: \<open>seeds.py\<close>, what a start writes; \<open>Idempotency\<close>: \<open>idempotency_service.py\<close>,
    which nothing calls; \<open>Schedule\<close>: the timetable of \<open>worker/app/main.py\<close>; \<open>Migrations\<close>: what the
    migrations under \<open>alembic/versions\<close> do to rows; \<open>Reissue\<close>: \<open>scripts/reissue_free_trials.py\<close>, run by hand and no step of the
    service, since it gives users a second trial row.
  \<^item> \<open>AdminService\<close>: the relation \<open>office\<close>, the steps of the service with every endpoint of the panel
    that writes, the bot's log and the seeds; the invariants, the bank and solvency carry over, so
    C1 to C5 are about all of them.
  \<^item> \<open>BotApi\<close>: the endpoints under \<open>api/bot\<close>, from a request to its JSON answer or error.
    \<open>BotClient\<close>: the error envelope and \<open>bot/app/api_client.py\<close>; \<open>BotCore\<close>: the bot's state
    (the record \<open>bot\<close>: database, conversations, flood counters, messages sent), the actions
    \<open>bot \<Rightarrow> (bot_exn + 'a) \<times> bot\<close> the handlers are written in, \<open>handlers/_common.py\<close> and the calls;
    \<open>BotSupport\<close>: \<open>support.py\<close>, \<open>support_topic_helper.py\<close>; \<open>BotAdmin\<close>: \<open>support_admin.py\<close>;
    \<open>BotCatalog\<close>: \<open>catalog.py\<close>, \<open>purchase.py\<close>, \<open>free_trial.py\<close>; \<open>BotProfile\<close>: \<open>profile.py\<close>,
    \<open>topup.py\<close>, \<open>promo.py\<close>, \<open>referral.py\<close>; \<open>BotDispatch\<close>: \<open>main.py\<close>, the routers in their order
    and \<open>middlewares\<close>.
  \<^item> \<open>BotRuns\<close>: what every action of the bot keeps, with the locales \<open>bot_relation\<close>, \<open>bot_talker\<close>
    and \<open>bot_backend\<close> (a relation on states the endpoints keep is kept by every update);
    \<open>BotService\<close>: each update is a run of \<open>office\<close>, hence of the bank; \<open>BotMoney\<close>: the relation
    \<open>live\<close>, in which updates of the bot and steps of \<open>office\<close> interleave, money and conversations;
    \<open>BotTickets\<close>: support, bans, the flood limit; \<open>BotTexts\<close>: \<open>bot/app/utils/texts.py\<close>, the cache of
    texts (a state next to the bot's) and the repair of stored HTML, whose regular expressions are
    scanners over UTF-8 bytes; \<open>TextTheorems\<close>: what the repair gives and how edits reach users.
  \<^item> \<open>Fixtures\<close> and \<open>Scenarios\<close>: a concrete database and what the operations do on it,
    for the witnesses.  \<open>BillingTheorems\<close>, \<open>ExtensionTheorems\<close>, \<open>AccountTheorems\<close>,
    \<open>DeliveryTheorems\<close>, \<open>BroadcastTheorems\<close>, \<open>BotMoney\<close>, \<open>BotTickets\<close>, \<open>TextTheorems\<close>, the theories
    of the panel, \<open>AdminSession\<close>, \<open>Seeds\<close>, \<open>Reissue\<close>, \<open>Schedule\<close>, \<open>Migrations\<close> and this one: the properties C1 to C40.

  Interleaving.  A step is a committed transaction, so the invariants hold for every
  order of requests, webhooks and jobs; operations that commit in between (a purchase
  around its provider call) are one step here, with both commits visible in its result.
  What a stale read does is stated separately (\<open>concurrent_topup_webhooks_credit_twice\<close>).
  For broadcasts the interleaving is explicit: in \<open>bc_step\<close> each commit and each message
  of a job is a step, and a job may die between any two of them.  The rows other transactions hold
  locked are an argument of \<open>fetch_pending\<close>.  For the bot an update is one step of \<open>live\<close>: its
  endpoint calls run one after another on the same database, each perhaps several times, as the
  answers of the network (\<open>be_net\<close>) decide; all runs of one retried call see one clock.

  Bounds.  The retry loops are structural recursions on the attempts left: three calls
  to the provider and the gateways, three requests of the bot to the backend, five ticket codes, five deliveries of a message.  No
  other fuel is used; every definition is total and executable.

  Not modelled.  Pure input and output (the HTTP server, Redis, logging to stdout), the
  primitives of Argon2, JWT and HMAC (arguments), the database's collation,
  \<open>datetime.fromisoformat\<close>, \<open>float\<close>, the offset of the shop's time zone and the disk (arguments),
  ARQ's queue and its rerun of a job after a shutdown, foreign keys beyond those an operation can
  meet, DDL and configuration, the tech log of each HTTP request, the panel's screens, the tech log of each provider call, the
  wording of texts (\<open>JText\<close> carries the key and the arguments; the Russian wordings of seeds and
  fallbacks are an argument).  Dates of the reports are UTC dates, in the database session too;
  the framing of server-sent events is left out.  Format fields with attributes, indices or
  specifications are an argument.  Aiogram is
  documented behaviour: the first route that matches handles an update, conversations are kept
  per chat and user, the \<open>Command\<close> filter is the argument \<open>be_command\<close>, and what Telegram answers to
  each call is the argument \<open>be_tg\<close>.
\<close>

section \<open>Properties of the whole service\<close>

lemmas one_step = r_into_rtranclp[of office, OF o_service]

text \<open>C1: In every database the service and its administrators can reach from an empty one, the books balance: every
  user's balance is the sum of that user's ledger movements, each movement records the
  balance after it, no two users share a Telegram id, nobody has had two free trials or has
  two open tickets, and every promo code counts exactly the activations on record.\<close>

theorem reachable_books_balance:
  assumes "initial d0" and "office\<^sup>*\<^sup>* d0 d"
  shows "(\<forall>u\<in>set (db_users d). u_balance u = ledger_sum d (u_id u)) \<and> bt_chain (db_bts d)
    \<and> distinct (List.map u_id (db_users d)) \<and> distinct (List.map u_tg_id (db_users d))
    \<and> (\<forall>uid. trial_count d uid \<le> 1) \<and> (\<forall>uid. open_count d uid \<le> 1)
    \<and> (\<forall>p\<in>set (db_promos d). pc_current p = total_activations d (pc_id p))"
  using backend.reachable[OF assms]
  by (auto simp: service_ok_def money_ok_def ledger_ok_def users_ok_def one_trial_count tickets_ok_def
      promo_counts_ok_def)

definition fx_shop :: db where
  "fx_shop = empty_db\<lparr>db_tariffs := [fx_tariff], db_durations := [fx_duration],
                      db_promos := [fx_promo 2 ''GIFT'' PromoBalance 500]\<rparr>"

definition fx_profile :: profile where
  "fx_profile = \<lparr>pf_username = None, pf_first_name = None, pf_last_name = None, pf_language_code = None\<rparr>"

lemma fx_shop_priced: "priced fx_shop"
  by (simp add: priced_def initial_def fx_shop_def empty_db_def)

theorem reachable_books_balance_witness:
  "open_count (snd (open_ticket (fx_env 5 200 JNull) (\<lambda>_. [1, 2, 3, 4, 5, 6]) 1 TkSupport fx_shop)) 1 \<le> 1"
proof -
  have "office\<^sup>*\<^sup>* fx_shop (snd (open_ticket (fx_env 5 200 JNull) (\<lambda>_. [1, 2, 3, 4, 5, 6]) 1 TkSupport fx_shop))"
    by (rule one_step[OF s_open])
  from reachable_books_balance[OF _ this] fx_shop_priced show ?thesis
    by (simp add: priced_def)
qed

text \<open>C5: In a shop without negative prices no reachable balance is ever negative: purchases,
  extensions and administrators' adjustments never overdraw an account.\<close>

theorem reachable_balances_nonnegative:
  assumes "priced d0" and "office\<^sup>*\<^sup>* d0 d" and "u \<in> set (db_users d)"
  shows "0 \<le> u_balance u"
  using priced_backend.reachable[OF assms(1,2)] assms(3) by (simp add: solvent_def)

theorem reachable_balances_nonnegative_witness:
  "\<exists>u. u \<in> set (db_users (snd (register_start (fx_env 5 200 JNull) 77 fx_profile None None fx_shop)))
     \<and> u_tg_id u = 77 \<and> 0 \<le> u_balance u"
proof -
  let ?d = "snd (register_start (fx_env 5 200 JNull) 77 fx_profile None None fx_shop)"
  have "db_users ?d = [new_user (fx_env 5 200 JNull) 77 fx_profile None fx_shop]"
    by (simp add: register_start_def upsert_user_def user_by_tg_def fx_shop_def empty_db_def
        parse_ref_payload_def str_truthy_def)
  then obtain u where u: "u \<in> set (db_users ?d)" "u_tg_id u = 77" by (simp add: new_user_def)
  from reachable_balances_nonnegative[OF fx_shop_priced one_step[OF s_register] u(1)] u
  show ?thesis by blast
qed

text \<open>C4: The service refines a bank: every run of the service, whatever it mixes of purchases,
  webhooks, refunds, bonuses, jobs and administrators' changes, is a run of the abstract machine that only opens
  empty accounts and makes recorded movements.  In particular the ledger is append-only and
  replaying it gives the balances.\<close>

theorem service_refines_bank:
  assumes "service_ok d" and "office\<^sup>*\<^sup>* d d'"
  shows "bank\<^sup>*\<^sup>* (bank_of d) (bank_of d') \<and> (\<exists>bs. db_bts d' = db_bts d @ bs)"
  using backend.run_simulates[OF assms(2,1)] office_run_grows[OF assms(2)] by (simp add: grows_def)

theorem service_refines_bank_witness:
  "bank\<^sup>*\<^sup>* (bank_of fx_shop) (bank_of (snd (mark_expired_subscriptions (fx_env 5 200 JNull) fx_shop)))"
  using service_refines_bank[OF _ one_step[OF s_expire_subs], of fx_shop "fx_env 5 200 JNull"]
    initial_service[of fx_shop] fx_shop_priced by (simp add: priced_def)

text \<open>C2: A payment is settled once: after a webhook answered that it was paid, and after any
  further run of the service, every other webhook about it, with any status, is answered as
  a duplicate and changes nothing but the technical log.\<close>

theorem webhook_settles_once:
  assumes "service_ok d" and "d1 = snd (process_webhook_payment e pr x st raw trace d)"
    and "fst (process_webhook_payment e pr x st raw trace d) = Inr (Processed i ''paid'')"
    and "office\<^sup>*\<^sup>* d1 d2"
  shows "fst (process_webhook_payment e2 pr2 x st2 raw2 trace2 d2) = Inr (Ignored ''already_terminal'')
    \<and> only_tech_log d2 (snd (process_webhook_payment e2 pr2 x st2 raw2 trace2 d2))"
proof -
  have "service_ok d1"
    unfolding assms(2) by (rule routine_service[OF routine_process_webhook webhook_money assms(1)])
  moreover have "settled d1 x" unfolding assms(2) by (rule webhook_paid_settles[OF assms(3)])
  ultimately have "settled d2 x" using office_run_settled[OF assms(4)] by blast
  then show ?thesis by (rule webhook_settled)
qed

text \<open>The history \<open>fx_db\<close> stands for: consistent books, unique keys.\<close>

lemma fx_service: "service_ok fx_db"
proof -
  have "ledger_ok fx_db"
    by (auto simp: ledger_ok_def bt_chain_def ledger_sum_def fx_db_def empty_db_def fx_bt_def
        sum_where_def append_eq_Cons_conv Cons_eq_append_conv)
  moreover have "bonus_ok fx_db"
    by (simp add: bonus_ok_def fx_db_def empty_db_def fx_bt_def fx_ref_def count_where_Cons
        is_bonus_of_def is_paid_ref_of_def)
  moreover have "promo_counts_ok fx_db"
    by (simp add: promo_counts_ok_def total_activations_def fx_db_def empty_db_def)
  moreover have "one_trial fx_db"
    by (simp add: one_trial_count trial_count_def fx_db_def empty_db_def count_where_Cons)
  ultimately show ?thesis
    by (simp add: service_ok_def money_ok_def) (simp add: tickets_ok_def open_count_def users_ok_def
        fx_db_def empty_db_def)
qed

lemma fx_paid:
  "fst (process_webhook_payment (fx_env 5 200 JNull) ''platega_sbp'' ''ext-1'' ''paid'' [] None fx_db)
     = Inr (Processed 1 ''paid'')"
  using process_paid[OF fx_external(1) _ _ paid_lower(1)]
    handle_paid_topup[OF external_row(1)[OF fx_pays fx_external(1)]] by simp

theorem webhook_settles_once_witness:
  "fst (process_webhook_payment (fx_env 9 200 JNull) ''cryptobot'' ''ext-1'' ''failed'' [] None
     (snd (process_webhook_payment (fx_env 5 200 JNull) ''platega_sbp'' ''ext-1'' ''paid'' [] None fx_db)))
   = Inr (Ignored ''already_terminal'')"
  using webhook_settles_once[OF fx_service refl fx_paid rtranclp.rtrancl_refl] by blast

text \<open>What the profile shows as referral earnings is, in every reachable database, the fixed
  bonus times the number of the user's referees whose first paid order has been rewarded,
  so no referee is ever rewarded twice.\<close>

theorem referral_earnings_exact:
  assumes "initial d0" and "office\<^sup>*\<^sup>* d0 d"
  shows "sum_earned d uid = 7000 * count_where (\<lambda>r. rf_referrer_id r = uid \<and> rf_bonus_paid r) (db_refs d)
    \<and> distinct (List.map rf_referee_id (db_refs d))"
  using backend.reachable[OF assms] sum_earned_count[of d uid]
  by (simp add: service_ok_def money_ok_def bonus_ok_def referral_bonus_def is_paid_ref_of_def[abs_def])

theorem referral_earnings_exact_witness:
  "sum_earned fx_shop 1 = 0"
  using referral_earnings_exact[OF _ rtranclp.rtrancl_refl, of fx_shop 1] fx_shop_priced
  by (simp add: priced_def fx_shop_def empty_db_def)

text \<open>A webhook call without the merchant's credentials or with a wrong signature is refused
  and changes nothing but the technical log, whatever its body says; with the credentials,
  an answer that names no known payment changes nothing else either.\<close>

theorem forged_webhooks_ignored:
  "(\<not> platega_verify shop key mid sec \<longrightarrow>
      fst (platega_webhook e shop key mid sec pv parsed d) = Inl (forbidden ''Invalid webhook credentials'')
      \<and> only_tech_log d (snd (platega_webhook e shop key mid sec pv parsed d)))
   \<and> (\<not> cryptobot_verify hmac token sig \<longrightarrow>
      fst (cryptobot_webhook e hmac token sig pv parsed d) = Inl (forbidden ''Invalid webhook signature'')
      \<and> only_tech_log d (snd (cryptobot_webhook e hmac token sig pv parsed d)))
   \<and> (payment_by_external d x = None \<longrightarrow>
      only_tech_log d (snd (process_webhook_payment e pr x st raw trace d)))"
  using platega_rejects cryptobot_rejects by (simp add: process_webhook_payment_def)

theorem forged_webhooks_ignored_witness:
  "fst (platega_webhook (fx_env 5 200 JNull) ''shop'' ''key'' None None '''' (Inr JNull) fx_db)
     = Inl (forbidden ''Invalid webhook credentials'')"
  using forged_webhooks_ignored[of "''shop''" "''key''" None None "fx_env 5 200 JNull" "''''" "Inr JNull" fx_db]
  by (simp add: platega_verify_def str_truthy_def)

end
